(* ===== verification/Prelude.thy ===== *)
theory Prelude
  imports Main "HOL-Library.AList" "HOL-Library.List_Lexorder" "HOL-Library.Product_Lexorder"
    "HOL-Library.Multiset"
begin

text \<open>
  The vocabulary shared by every component: Python strings as lists of code points, instants and
  clocks, dictionaries as association lists in insertion order, stable sorting by a key, and the
  effectful programs (state plus exception) in which the services are written.
\<close>

section \<open>Strings, instants, clocks\<close>

text \<open>
  A Python \<open>str\<close> is the list of its code points; its order is then the lexicographic order of
  \<open>List_Lexorder\<close>.  An aware \<open>datetime\<close> is its instant, in microseconds.  A program that reads
  \<open>datetime.now\<close> several times takes a clock: \<open>clk i\<close> is its \<open>i\<close>-th reading; no relation between
  the readings is assumed.
\<close>

type_synonym ustring = "nat list"
type_synonym time = int
type_synonym clock = "nat \<Rightarrow> time"

definition asc :: "string \<Rightarrow> ustring" where
  "asc s = map of_char s"

lemma asc_Nil [simp]: "asc [] = []"
  and asc_Cons [simp]: "asc (c # s) = of_char c # asc s"
  by (simp_all add: asc_def)

lemma asc_append [simp]: "asc (s @ t) = asc s @ asc t"
  by (simp add: asc_def)

lemma length_asc [simp]: "length (asc s) = length s"
  by (simp add: asc_def)

lemma set_asc_less: "c \<in> set (asc s) \<Longrightarrow> c < 256"
  by (auto simp: asc_def)

text \<open>\<open>s.startswith(p)\<close> and \<open>s.removeprefix(p)\<close>.\<close>

fun starts_with :: "'a list \<Rightarrow> 'a list \<Rightarrow> bool" where
  "starts_with [] s = True"
| "starts_with (p # ps) [] = False"
| "starts_with (p # ps) (c # s) = (p = c \<and> starts_with ps s)"

definition remove_prefix :: "'a list \<Rightarrow> 'a list \<Rightarrow> 'a list" where
  "remove_prefix p s = (if starts_with p s then drop (length p) s else s)"

lemma starts_with_append [simp]: "starts_with p (p @ s)"
  by (induction p) auto

lemma starts_with_iff: "starts_with p s \<longleftrightarrow> (\<exists>r. s = p @ r)"
  by (induction p s rule: starts_with.induct) auto

lemma remove_prefix_append [simp]: "remove_prefix p (p @ s) = s"
  by (simp add: remove_prefix_def)

section \<open>Dictionaries\<close>

text \<open>
  A \<open>dict\<close> is an association list with distinct keys, in insertion order: assigning an existing
  key keeps its place, a new key goes to the end, \<open>pop\<close> removes the entry.  \<open>AList.update\<close> and
  \<open>AList.delete\<close> do exactly that.
\<close>

type_synonym ('k, 'v) dict = "('k \<times> 'v) list"

definition wf_dict :: "('k, 'v) dict \<Rightarrow> bool" where
  "wf_dict m \<longleftrightarrow> distinct (map fst m)"

definition dict_get :: "('k, 'v) dict \<Rightarrow> 'k \<Rightarrow> 'v option" where
  "dict_get m k = map_of m k"

definition dict_put :: "'k \<Rightarrow> 'v \<Rightarrow> ('k, 'v) dict \<Rightarrow> ('k, 'v) dict" where
  "dict_put k v m = AList.update k v m"

definition dict_pop :: "'k \<Rightarrow> ('k, 'v) dict \<Rightarrow> ('k, 'v) dict" where
  "dict_pop k m = AList.delete k m"

definition dict_setdefault :: "'k \<Rightarrow> 'v \<Rightarrow> ('k, 'v) dict \<Rightarrow> ('k, 'v) dict" where
  "dict_setdefault k v m = (case map_of m k of None \<Rightarrow> m @ [(k, v)] | Some _ \<Rightarrow> m)"

definition dict_values :: "('k, 'v) dict \<Rightarrow> 'v list" where
  "dict_values m = map snd m"

lemma wf_dict_Nil [simp, intro]: "wf_dict []"
  by (simp add: wf_dict_def)

lemma wf_dict_put [simp, intro]: "wf_dict m \<Longrightarrow> wf_dict (dict_put k v m)"
  by (simp add: wf_dict_def dict_put_def distinct_update)

lemma wf_dict_pop [simp, intro]: "wf_dict m \<Longrightarrow> wf_dict (dict_pop k m)"
  by (simp add: wf_dict_def dict_pop_def distinct_delete)

lemma wf_dict_setdefault [simp, intro]: "wf_dict m \<Longrightarrow> wf_dict (dict_setdefault k v m)"
  by (auto simp: wf_dict_def dict_setdefault_def map_of_eq_None_iff split: option.splits)

lemma dict_get_Nil [simp]: "dict_get [] k = None"
  by (simp add: dict_get_def)

lemma dict_get_put: "dict_get (dict_put k v m) k' = (if k' = k then Some v else dict_get m k')"
  by (simp add: dict_get_def dict_put_def update_conv')

lemma dict_get_put_same [simp]: "dict_get (dict_put k v m) k = Some v"
  and dict_get_put_other [simp]: "k' \<noteq> k \<Longrightarrow> dict_get (dict_put k v m) k' = dict_get m k'"
  by (simp_all add: dict_get_put)

lemma dict_get_pop: "dict_get (dict_pop k m) k' = (if k' = k then None else dict_get m k')"
  by (simp add: dict_get_def dict_pop_def delete_conv')

lemma dict_get_setdefault:
  "dict_get (dict_setdefault k v m) k' =
     (if k' = k \<and> dict_get m k = None then Some v else dict_get m k')"
  by (auto simp: dict_get_def dict_setdefault_def map_add_def split: option.splits)

lemma dict_get_in: "dict_get m k = Some v \<Longrightarrow> (k, v) \<in> set m"
  by (simp add: dict_get_def map_of_SomeD)

lemma dict_get_iff: "wf_dict m \<Longrightarrow> dict_get m k = Some v \<longleftrightarrow> (k, v) \<in> set m"
  by (simp add: dict_get_def wf_dict_def)

lemma in_dict_values: "wf_dict m \<Longrightarrow> v \<in> set (dict_values m) \<longleftrightarrow> (\<exists>k. dict_get m k = Some v)"
  by (force simp: dict_values_def dict_get_iff)

lemma dict_put_idem: "dict_get m k = Some v \<Longrightarrow> dict_put k v m = m"
  by (induction m) (auto simp: dict_get_def dict_put_def split: if_splits)

lemma dict_put_twice [simp]: "dict_put k v (dict_put k w m) = dict_put k v m"
  by (induction m) (auto simp: dict_put_def)

lemma dict_put_split:
  assumes "wf_dict m" and "dict_get m k = Some w"
  obtains m1 m2 where "m = m1 @ (k, w) # m2" and "k \<notin> fst ` set m1" and "k \<notin> fst ` set m2"
    and "\<And>v. dict_put k v m = m1 @ (k, v) # m2"
proof -
  from assms obtain m1 m2 where m: "m = m1 @ (k, w) # m2"
    using dict_get_in split_list by metis
  with assms(1) have n: "k \<notin> fst ` set m1" "k \<notin> fst ` set m2"
    by (auto simp: wf_dict_def)
  from n(1) have "dict_put k v m = m1 @ (k, v) # m2" for v
    unfolding m dict_put_def by (induction m1) auto
  with that m n show ?thesis by blast
qed

lemma dict_put_map:
  "wf_dict m \<Longrightarrow> dict_get m k = Some w \<Longrightarrow> dict_put k v m = map (\<lambda>e. if fst e = k then (k, v) else e) m"
proof (induction m)
  case (Cons e m)
  obtain a b where e: "e = (a, b)" by (cases e)
  have id: "map (\<lambda>e. if fst e = k then (k, v) else e) m = m" if "k \<notin> fst ` set m"
    using that by (induction m) auto
  from Cons id show ?case
    by (cases "a = k") (auto simp: e wf_dict_def dict_get_def dict_put_def)
qed simp

lemma dict_put_new: "dict_get m k = None \<Longrightarrow> dict_put k v m = m @ [(k, v)]"
  by (induction m) (auto simp: dict_get_def dict_put_def split: if_splits)

lemma set_dict_put:
  "wf_dict m \<Longrightarrow> set (dict_put k v m) = {(k, v)} \<union> {e \<in> set m. fst e \<noteq> k}"
proof (induction m)
  case (Cons e m)
  then show ?case by (cases e) (force simp: wf_dict_def dict_put_def image_iff)
qed (simp add: dict_put_def)

lemma set_dict_pop: "set (dict_pop k m) = {e \<in> set m. fst e \<noteq> k}"
  by (auto simp: dict_pop_def AList.delete_eq)

lemma keys_dict_put: "fst ` set (dict_put k v m) = insert k (fst ` set m)"
  by (induction m) (auto simp: dict_put_def)

section \<open>Stable sorting\<close>

text \<open>
  Python's \<open>sorted(xs, key=f)\<close> is stable, as \<open>sort_key\<close> is; with \<open>reverse=True\<close> equal elements
  keep their order too, which is sorting the reversed list and reversing back.
\<close>

definition sort_key_desc :: "('a \<Rightarrow> 'k::linorder) \<Rightarrow> 'a list \<Rightarrow> 'a list" where
  "sort_key_desc f xs = rev (sort_key f (rev xs))"

lemma mset_sort_key_desc [simp]: "mset (sort_key_desc f xs) = mset xs"
  by (simp add: sort_key_desc_def)

lemma set_sort_key_desc [simp]: "set (sort_key_desc f xs) = set xs"
  by (simp add: sort_key_desc_def)

lemma sort_key_unique:
  assumes "mset xs = mset ys" and "inj_on f (set xs)" and "sorted (map f ys)"
  shows "sort_key f xs = ys"
  using assms by (metis properties_for_sort_key sort_key_inj_key_eq)

lemma sort_key_mset:
  assumes "mset xs = mset ys" and "inj_on f (set xs)"
  shows "sort_key f xs = sort_key f ys"
  using assms by (intro sort_key_unique) simp_all

lemma sorted_wrt_imp_nth:
  "sorted_wrt P xs \<Longrightarrow> i < j \<Longrightarrow> j < length xs \<Longrightarrow> P (xs ! i) (xs ! j)"
  by (simp add: sorted_wrt_iff_nth_less)

lemma distinct_map_filter: "distinct (map f xs) \<Longrightarrow> distinct (map f (filter P xs))"
  by (induction xs) auto

lemma distinct_map_sort_key [simp]: "distinct (map f (sort_key g xs)) = distinct (map f xs)"
  by (metis (no_types) mset_eq_imp_distinct_iff mset_map mset_sort)

text \<open>\<open>next(i for i, x in enumerate(xs) if P x)\<close>; \<open>None\<close> is the \<open>StopIteration\<close> or the default.\<close>

fun index_of :: "('a \<Rightarrow> bool) \<Rightarrow> 'a list \<Rightarrow> nat option" where
  "index_of P [] = None"
| "index_of P (x # xs) = (if P x then Some 0 else map_option Suc (index_of P xs))"

lemma index_of_Some_iff:
  "index_of P xs = Some i \<longleftrightarrow> i < length xs \<and> P (xs ! i) \<and> (\<forall>j<i. \<not> P (xs ! j))"
proof (induction xs arbitrary: i)
  case (Cons x xs)
  then show ?case
    by (cases i) (auto simp: less_Suc_eq_0_disj)
qed simp

lemma index_of_None_iff: "index_of P xs = None \<longleftrightarrow> (\<forall>x\<in>set xs. \<not> P x)"
  by (induction xs) auto

lemma index_of_exists: "x \<in> set xs \<Longrightarrow> P x \<Longrightarrow> \<exists>i. index_of P xs = Some i"
  using index_of_None_iff[of P xs] by (cases "index_of P xs") auto

lemma index_of_in_take:
  assumes "index_of P xs = Some i"
  shows "i < n \<longleftrightarrow> (\<exists>x\<in>set (take n xs). P x)"
proof
  assume "i < n"
  moreover have "i < length xs" "P (xs ! i)" using assms by (simp_all add: index_of_Some_iff)
  ultimately show "\<exists>x\<in>set (take n xs). P x"
    by (intro bexI[of _ "xs ! i"]) (auto simp: in_set_conv_nth intro!: exI[of _ i])
next
  assume "\<exists>x\<in>set (take n xs). P x"
  then obtain j where "j < n" "j < length xs" "P (xs ! j)"
    by (auto simp: in_set_conv_nth)
  with assms show "i < n" by (metis index_of_Some_iff le_less_trans not_le)
qed

text \<open>The last \<open>n\<close> elements, as the slice \<open>xs[-n:]\<close> gives for \<open>n > 0\<close>.\<close>

definition take_last :: "nat \<Rightarrow> 'a list \<Rightarrow> 'a list" where
  "take_last n xs = drop (length xs - n) xs"

text \<open>\<open>dict.fromkeys\<close> as it is used here: the first occurrences, in order.\<close>

fun dedup :: "'a list \<Rightarrow> 'a list" where
  "dedup [] = []"
| "dedup (x # xs) = x # filter (\<lambda>y. y \<noteq> x) (dedup xs)"

lemma set_dedup [simp]: "set (dedup xs) = set xs"
  by (induction xs) auto

lemma distinct_dedup [simp]: "distinct (dedup xs)"
  by (induction xs) auto

lemma dedup_distinct: "distinct xs \<Longrightarrow> dedup xs = xs"
  by (induction xs) (auto simp: filter_id_conv)

section \<open>Effectful programs\<close>

text \<open>
  A service method is a state transformer that ends in a value (\<open>Inr\<close>) or an exception (\<open>Inl\<close>);
  the state reached before an exception stays, as it does in the code.
\<close>

type_synonym ('w, 'e, 'a) act = "'w \<Rightarrow> ('e + 'a) \<times> 'w"

definition ret :: "'a \<Rightarrow> ('w, 'e, 'a) act" where
  "ret x w = (Inr x, w)"

definition throw :: "'e \<Rightarrow> ('w, 'e, 'a) act" where
  "throw e w = (Inl e, w)"

definition andThen :: "('w, 'e, 'a) act \<Rightarrow> ('a \<Rightarrow> ('w, 'e, 'b) act) \<Rightarrow> ('w, 'e, 'b) act" where
  "andThen m k w = (case m w of (Inl e, w') \<Rightarrow> (Inl e, w') | (Inr x, w') \<Rightarrow> k x w')"

definition reads :: "('w \<Rightarrow> 'a) \<Rightarrow> ('w, 'e, 'a) act" where
  "reads f w = (Inr (f w), w)"

definition modifies :: "('w \<Rightarrow> 'w) \<Rightarrow> ('w, 'e, unit) act" where
  "modifies f w = (Inr (), f w)"

definition runs :: "('w \<Rightarrow> 'a \<times> 'w) \<Rightarrow> ('w, 'e, 'a) act" where
  "runs f w = (case f w of (x, w') \<Rightarrow> (Inr x, w'))"

definition unless_throw :: "bool \<Rightarrow> 'e \<Rightarrow> ('w, 'e, unit) act" where
  "unless_throw ok e = (if ok then ret () else throw e)"

fun forEach :: "'a list \<Rightarrow> ('a \<Rightarrow> ('w, 'e, 'b) act) \<Rightarrow> ('w, 'e, 'b list) act" where
  "forEach [] f = ret []"
| "forEach (x # xs) f = andThen (f x) (\<lambda>y. andThen (forEach xs f) (\<lambda>ys. ret (y # ys)))"

lemma ret_apply [simp]: "ret x w = (Inr x, w)"
  by (simp add: ret_def)

lemma throw_apply [simp]: "throw e w = (Inl e, w)"
  by (simp add: throw_def)

lemma reads_apply [simp]: "reads f w = (Inr (f w), w)"
  by (simp add: reads_def)

lemma modifies_apply [simp]: "modifies f w = (Inr (), f w)"
  by (simp add: modifies_def)

lemma unless_throw_apply [simp]:
  "unless_throw ok e w = (if ok then (Inr (), w) else (Inl e, w))"
  by (simp add: unless_throw_def)

lemma andThen_Inr: "m w = (Inr x, w') \<Longrightarrow> andThen m k w = k x w'"
  by (simp add: andThen_def)

lemma andThen_Inl: "m w = (Inl e, w') \<Longrightarrow> andThen m k w = (Inl e, w')"
  by (simp add: andThen_def)

lemma andThen_ret [simp]: "andThen (ret x) k = k x"
  and andThen_throw [simp]: "andThen (throw e) k = throw e"
  by (simp_all add: andThen_def fun_eq_iff)

lemma andThen_assoc: "andThen (andThen m k) l = andThen m (\<lambda>x. andThen (k x) l)"
  by (auto simp: andThen_def fun_eq_iff split: prod.splits sum.splits)

lemma andThen_cases:
  assumes "andThen m k w = (r, w'')"
  obtains (Err) e where "m w = (Inl e, w'')" and "r = Inl e"
    | (Val) x w' where "m w = (Inr x, w')" and "k x w' = (r, w'')"
  using assms by (auto simp: andThen_def split: prod.splits sum.splits)

text \<open>
  \<open>keeps I m\<close>: the program \<open>m\<close> keeps the invariant \<open>I\<close> of the state, whether it returns or raises.
\<close>

definition keeps :: "('w \<Rightarrow> bool) \<Rightarrow> ('w, 'e, 'a) act \<Rightarrow> bool" where
  "keeps I m \<longleftrightarrow> (\<forall>w. I w \<longrightarrow> I (snd (m w)))"

named_theorems keeps_intros \<open>invariant preservation rules of effectful programs\<close>

lemma keepsD: "keeps I m \<Longrightarrow> I w \<Longrightarrow> I (snd (m w))"
  by (simp add: keeps_def)

lemma keeps_ret [keeps_intros]: "keeps I (ret x)"
  and keeps_throw [keeps_intros]: "keeps I (throw e)"
  and keeps_reads [keeps_intros]: "keeps I (reads f)"
  and keeps_unless_throw [keeps_intros]: "keeps I (unless_throw ok e)"
  by (simp_all add: keeps_def)

lemma keeps_andThen [keeps_intros]:
  "keeps I m \<Longrightarrow> (\<And>x. keeps I (k x)) \<Longrightarrow> keeps I (andThen m k)"
  unfolding keeps_def by (force simp: andThen_def split: prod.splits sum.splits)

lemma keeps_if [keeps_intros]: "(b \<Longrightarrow> keeps I m) \<Longrightarrow> (\<not> b \<Longrightarrow> keeps I n) \<Longrightarrow> keeps I (if b then m else n)"
  by simp

lemma keeps_case_option [keeps_intros]:
  "(x = None \<Longrightarrow> keeps I m) \<Longrightarrow> (\<And>y. x = Some y \<Longrightarrow> keeps I (k y)) \<Longrightarrow>
     keeps I (case x of None \<Rightarrow> m | Some y \<Rightarrow> k y)"
  by (cases x) simp_all

lemma keeps_case_prod [keeps_intros]:
  "(\<And>a b. x = (a, b) \<Longrightarrow> keeps I (k a b)) \<Longrightarrow> keeps I (case x of (a, b) \<Rightarrow> k a b)"
  by (cases x) simp_all

lemma keeps_forEach [keeps_intros]:
  "(\<And>x. x \<in> set xs \<Longrightarrow> keeps I (f x)) \<Longrightarrow> keeps I (forEach xs f)"
  by (induction xs) (auto intro!: keeps_intros)

text \<open>
  An answer that may be an exception; an exception handler; and \<open>asyncio.gather\<close>: all the programs
  run, in order as far as they do not suspend, and the first exception is raised when they are done.
\<close>

definition answers :: "('w \<Rightarrow> 'e + 'a) \<Rightarrow> ('w, 'e, 'a) act" where
  "answers f w = (f w, w)"

definition catching :: "('w, 'e, 'a) act \<Rightarrow> ('e \<Rightarrow> ('w, 'e, 'a) act) \<Rightarrow> ('w, 'e, 'a) act" where
  "catching m h w = (case m w of (Inl e, w') \<Rightarrow> h e w' | (Inr x, w') \<Rightarrow> (Inr x, w'))"

fun gather :: "'a list \<Rightarrow> ('a \<Rightarrow> ('w, 'e, 'b) act) \<Rightarrow> ('w, 'e, 'b list) act" where
  "gather [] f w = (Inr [], w)"
| "gather (x # xs) f w =
     (case f x w of (r, w1) \<Rightarrow>
        (case gather xs f w1 of (rs, w2) \<Rightarrow>
           (case r of Inl e \<Rightarrow> Inl e | Inr y \<Rightarrow> map_sum id ((#) y) rs, w2)))"

lemma answers_apply [simp]: "answers f w = (f w, w)"
  by (simp add: answers_def)

lemma keeps_answers [keeps_intros]: "keeps I (answers f)"
  by (simp add: keeps_def)

lemma keeps_catching [keeps_intros]:
  "keeps I m \<Longrightarrow> (\<And>e. keeps I (h e)) \<Longrightarrow> keeps I (catching m h)"
  unfolding keeps_def by (force simp: catching_def split: prod.splits sum.splits)

lemma keeps_gather [keeps_intros]:
  "(\<And>x. x \<in> set xs \<Longrightarrow> keeps I (f x)) \<Longrightarrow> keeps I (gather xs f)"
proof (induction xs)
  case (Cons x xs)
  then have 1: "keeps I (f x)" and 2: "keeps I (gather xs f)" by auto
  show ?case
    unfolding keeps_def
    using keepsD[OF 1] keepsD[OF 2] by (simp add: split_beta)
qed (simp add: keeps_def)

lemma gather_pure:
  assumes "\<And>x. x \<in> set xs \<Longrightarrow> f x w = (Inr (g x), w)"
  shows "gather xs f w = (Inr (map g xs), w)"
  using assms by (induction xs) simp_all

section \<open>Retry-safe operations\<close>

text \<open>
  The interface the ordered worker relies on: a command is delivered at least once, so an operation
  that carries its operation id may be attempted again, under another clock, and must then change
  nothing.
\<close>

definition retries :: "('c \<Rightarrow> ('w, 'e, 'a) act) \<Rightarrow> 'c list \<Rightarrow> 'w \<Rightarrow> 'w" where
  "retries attempt ts w = foldl (\<lambda>w t. snd (attempt t w)) w ts"

locale retry_safe =
  fixes attempt :: "'c \<Rightarrow> ('w, 'e, 'a) act"
  assumes again: "snd (attempt t' (snd (attempt t w))) = snd (attempt t w)"
begin

lemma retries_settle: "retries attempt (t # ts) w = snd (attempt t w)"
proof (induction ts rule: rev_induct)
  case (snoc t' ts)
  then show ?case using again[of t' t w] by (simp add: retries_def)
qed (simp add: retries_def)

lemma retries_same_end: "ts \<noteq> [] \<Longrightarrow> retries attempt (ts @ us) w = retries attempt ts w"
  by (cases ts) (simp_all add: retries_settle)

end

end
