(* ===== verification/Unicode_Text.thy ===== *)
theory Unicode_Text
  imports Prelude
begin

text \<open>
  The string methods of Python's standard library that the code calls, on lists of code points:
  \<open>strip\<close>, \<open>split\<close>, \<open>isspace\<close>, \<open>casefold\<close>, \<open>lower\<close>, and the decimal digits that \<open>\d\<close> of \<open>re\<close>
  matches and \<open>int\<close> reads.  The tables are those of Unicode 15 (Python 3.12), packed into
  ranges \<open>(first, last, step, offset)\<close>.
\<close>

section \<open>White space\<close>

definition space_chars :: "nat list" where
  "space_chars = [
    9, 10, 11, 12, 13, 28, 29, 30, 31, 32, 133, 160, 5760, 8192,
    8193, 8194, 8195, 8196, 8197, 8198, 8199, 8200, 8201, 8202, 8232, 8233, 8239, 8287,
    12288]"

definition is_space :: "nat \<Rightarrow> bool" where
  "is_space c \<longleftrightarrow> c \<in> set space_chars"

definition strip_by :: "(nat \<Rightarrow> bool) \<Rightarrow> ustring \<Rightarrow> ustring" where
  "strip_by p s = rev (dropWhile p (rev (dropWhile p s)))"

abbreviation strip :: "ustring \<Rightarrow> ustring" where
  "strip \<equiv> strip_by is_space"

definition rstrip_by :: "(nat \<Rightarrow> bool) \<Rightarrow> ustring \<Rightarrow> ustring" where
  "rstrip_by p s = rev (dropWhile p (rev s))"

text \<open>\<open>s.split()\<close>: the maximal runs of characters that are not white space.\<close>

fun split_acc :: "ustring \<Rightarrow> ustring \<Rightarrow> ustring list" where
  "split_acc w [] = (if w = [] then [] else [rev w])"
| "split_acc w (c # s) =
     (if is_space c then (if w = [] then split_acc [] s else rev w # split_acc [] s)
      else split_acc (c # w) s)"

definition split_words :: "ustring \<Rightarrow> ustring list" where
  "split_words s = split_acc [] s"

text \<open>\<open>sep.join(ws)\<close> for a one-character separator.\<close>

fun join_with :: "nat \<Rightarrow> ustring list \<Rightarrow> ustring" where
  "join_with c [] = []"
| "join_with c [w] = w"
| "join_with c (w # ws) = w @ c # join_with c ws"

lemma dropWhile_hd: "dropWhile p s = [] \<or> \<not> p (hd (dropWhile p s))"
  by (induction s) auto

lemma dropWhile_id: "s = [] \<or> \<not> p (hd s) \<Longrightarrow> dropWhile p s = s"
  by (cases s) auto

lemma hd_rev_dropWhile_rev:
  "s = [] \<or> \<not> p (hd s) \<Longrightarrow>
     rev (dropWhile p (rev s)) = [] \<or> hd (rev (dropWhile p (rev s))) = hd s"
  by (induction s rule: rev_induct) (auto simp: hd_append split: if_splits)

lemma strip_by_ends:
  "strip_by p s = [] \<or> \<not> p (hd (strip_by p s)) \<and> \<not> p (last (strip_by p s))"
proof -
  let ?t = "dropWhile p s"
  have "?t = [] \<or> \<not> p (hd ?t)" by (rule dropWhile_hd)
  with hd_rev_dropWhile_rev[of ?t p] have "strip_by p s = [] \<or> \<not> p (hd (strip_by p s))"
    unfolding strip_by_def by (metis dropWhile.simps(1) rev.simps(1))
  moreover have "strip_by p s = [] \<or> \<not> p (last (strip_by p s))"
    using dropWhile_hd[of p "rev ?t"] by (auto simp: strip_by_def last_rev)
  ultimately show ?thesis by blast
qed

lemma strip_by_id: "s = [] \<or> \<not> p (hd s) \<and> \<not> p (last s) \<Longrightarrow> strip_by p s = s"
  by (auto simp: strip_by_def dropWhile_id hd_rev)

lemma strip_by_idem [simp]: "strip_by p (strip_by p s) = strip_by p s"
  using strip_by_ends[of p s] by (rule strip_by_id)

lemma set_strip_by: "set (strip_by p s) \<subseteq> set s"
  unfolding strip_by_def by (metis set_dropWhileD set_rev subsetI)

lemma length_strip_by_le: "length (strip_by p s) \<le> length s"
  by (simp add: strip_by_def rstrip_by_def) (metis length_dropWhile_le length_rev le_trans)

lemma strip_by_no_sep: "(\<And>c. c \<in> set s \<Longrightarrow> \<not> p c) \<Longrightarrow> strip_by p s = s"
  by (rule strip_by_id) auto

definition is_word :: "ustring \<Rightarrow> bool" where
  "is_word w \<longleftrightarrow> w \<noteq> [] \<and> list_all (\<lambda>c. \<not> is_space c) w"

lemma strip_by_list_all: "list_all (\<lambda>c. \<not> p c) s \<Longrightarrow> strip_by p s = s"
  by (rule strip_by_no_sep) (auto simp: list_all_iff)

lemma split_acc_words:
  "list_all (\<lambda>c. \<not> is_space c) v \<Longrightarrow> list_all is_word (split_acc v s)"
  by (induction v s rule: split_acc.induct) (simp_all add: is_word_def)

lemma split_words_words: "list_all is_word (split_words s)"
  unfolding split_words_def by (rule split_acc_words) simp

lemma split_acc_word:
  "list_all (\<lambda>c. \<not> is_space c) w \<Longrightarrow> split_acc v (w @ s) = split_acc (rev w @ v) s"
  by (induction w arbitrary: v) simp_all

lemma is_space_32 [simp]: "is_space 32"
  by (simp add: is_space_def space_chars_def)

lemma split_words_join: "list_all is_word ws \<Longrightarrow> split_words (join_with 32 ws) = ws"
proof (induction "32 :: nat" ws rule: join_with.induct)
  case (2 w)
  then show ?case using split_acc_word[of w "[]" "[]"] by (simp add: split_words_def is_word_def)
next
  case (3 w v ws)
  then have w: "list_all (\<lambda>c. \<not> is_space c) w" "w \<noteq> []" and vs: "list_all is_word (v # ws)"
    by (simp_all add: is_word_def)
  have "split_acc [] (w @ 32 # join_with 32 (v # ws)) = w # split_acc [] (join_with 32 (v # ws))"
    using split_acc_word[OF w(1), of "[]" "32 # join_with 32 (v # ws)"] w(2) by simp
  then show ?case using "3.hyps"[OF vs] by (simp add: split_words_def)
qed (simp add: split_words_def)

section \<open>Decimal digits\<close>

text \<open>Every block of decimal digits is ten consecutive code points; these are the zeros.\<close>

definition decimal_zeros :: "nat list" where
  "decimal_zeros = [
    48, 1632, 1776, 1984, 2406, 2534, 2662, 2790, 2918, 3046, 3174, 3302, 3430, 3558,
    3664, 3792, 3872, 4160, 4240, 6112, 6160, 6470, 6608, 6784, 6800, 6992, 7088, 7232,
    7248, 42528, 43216, 43264, 43472, 43504, 43600, 44016, 65296, 66720, 68912, 69734, 69872, 69942,
    70096, 70384, 70736, 70864, 71248, 71360, 71472, 71904, 72016, 72784, 73040, 73120, 73552, 92768,
    92864, 93008, 120782, 120792, 120802, 120812, 120822, 123200, 123632, 124144, 125264, 130032]"

definition decimal_value :: "nat \<Rightarrow> nat option" where
  "decimal_value c = map_option (\<lambda>z. c - z) (List.find (\<lambda>z. z \<le> c \<and> c < z + 10) decimal_zeros)"

definition is_decimal :: "nat \<Rightarrow> bool" where
  "is_decimal c \<longleftrightarrow> decimal_value c \<noteq> None"

definition is_ascii_digit :: "nat \<Rightarrow> bool" where
  "is_ascii_digit c \<longleftrightarrow> 48 \<le> c \<and> c \<le> 57"

text \<open>\<open>int(ab)\<close> for two decimal characters.\<close>

definition two_digits :: "nat \<Rightarrow> nat \<Rightarrow> nat option" where
  "two_digits a b = (case (decimal_value a, decimal_value b) of
     (Some x, Some y) \<Rightarrow> Some (10 * x + y) | _ \<Rightarrow> None)"

text \<open>\<open>format(n, '02d')\<close> for \<open>n < 100\<close>.\<close>

definition show2 :: "nat \<Rightarrow> ustring" where
  "show2 n = [48 + n div 10 mod 10, 48 + n mod 10]"

lemma decimal_value_ascii [simp]: "d < 10 \<Longrightarrow> decimal_value (48 + d) = Some d"
  by (simp add: decimal_value_def decimal_zeros_def)

lemma decimal_value_less: "decimal_value c = Some d \<Longrightarrow> d < 10"
  by (auto simp: decimal_value_def find_Some_iff)

lemma two_digits_show2: "n < 100 \<Longrightarrow> two_digits (48 + n div 10 mod 10) (48 + n mod 10) = Some n"
proof -
  assume n: "n < 100"
  have "n div 10 mod 10 < 10" "n mod 10 < 10" by simp_all
  then show ?thesis using n by (simp add: two_digits_def)
qed

lemma two_digits_less: "two_digits a b = Some n \<Longrightarrow> n < 100"
  using decimal_value_less[of a] decimal_value_less[of b]
  by (auto simp: two_digits_def split: option.splits)

section \<open>Case folding\<close>

definition casefold_ranges :: "(nat \<times> nat \<times> nat \<times> int) list" where
  "casefold_ranges = [
    (65,90,1,32), (181,181,1,775), (192,214,1,32), (216,222,1,32), (256,302,2,1),
    (306,310,2,1), (313,327,2,1), (330,374,2,1), (376,376,1,- 121), (377,381,2,1),
    (383,383,1,- 268), (385,385,1,210), (386,388,2,1), (390,390,1,206), (391,391,1,1),
    (393,394,1,205), (395,395,1,1), (398,398,1,79), (399,399,1,202), (400,400,1,203),
    (401,401,1,1), (403,403,1,205), (404,404,1,207), (406,406,1,211), (407,407,1,209),
    (408,408,1,1), (412,412,1,211), (413,413,1,213), (415,415,1,214), (416,420,2,1),
    (422,422,1,218), (423,423,1,1), (425,425,1,218), (428,428,1,1), (430,430,1,218),
    (431,431,1,1), (433,434,1,217), (435,437,2,1), (439,439,1,219), (440,440,1,1),
    (444,444,1,1), (452,452,1,2), (453,453,1,1), (455,455,1,2), (456,456,1,1),
    (458,458,1,2), (459,475,2,1), (478,494,2,1), (497,497,1,2), (498,500,2,1),
    (502,502,1,- 97), (503,503,1,- 56), (504,542,2,1), (544,544,1,- 130), (546,562,2,1),
    (570,570,1,10795), (571,571,1,1), (573,573,1,- 163), (574,574,1,10792), (577,577,1,1),
    (579,579,1,- 195), (580,580,1,69), (581,581,1,71), (582,590,2,1), (837,837,1,116),
    (880,882,2,1), (886,886,1,1), (895,895,1,116), (902,902,1,38), (904,906,1,37),
    (908,908,1,64), (910,911,1,63), (913,929,1,32), (931,939,1,32), (962,962,1,1),
    (975,975,1,8), (976,976,1,- 30), (977,977,1,- 25), (981,981,1,- 15), (982,982,1,- 22),
    (984,1006,2,1), (1008,1008,1,- 54), (1009,1009,1,- 48), (1012,1012,1,- 60), (1013,1013,1,- 64),
    (1015,1015,1,1), (1017,1017,1,- 7), (1018,1018,1,1), (1021,1023,1,- 130), (1024,1039,1,80),
    (1040,1071,1,32), (1120,1152,2,1), (1162,1214,2,1), (1216,1216,1,15), (1217,1229,2,1),
    (1232,1326,2,1), (1329,1366,1,48), (4256,4293,1,7264), (4295,4295,1,7264), (4301,4301,1,7264),
    (5112,5117,1,- 8), (7296,7296,1,- 6222), (7297,7297,1,- 6221), (7298,7298,1,- 6212), (7299,7300,1,- 6210),
    (7301,7301,1,- 6211), (7302,7302,1,- 6204), (7303,7303,1,- 6180), (7304,7304,1,35267), (7312,7354,1,- 3008),
    (7357,7359,1,- 3008), (7680,7828,2,1), (7835,7835,1,- 58), (7840,7934,2,1), (7944,7951,1,- 8),
    (7960,7965,1,- 8), (7976,7983,1,- 8), (7992,7999,1,- 8), (8008,8013,1,- 8), (8025,8031,2,- 8),
    (8040,8047,1,- 8), (8120,8121,1,- 8), (8122,8123,1,- 74), (8126,8126,1,- 7173), (8136,8139,1,- 86),
    (8152,8153,1,- 8), (8154,8155,1,- 100), (8168,8169,1,- 8), (8170,8171,1,- 112), (8172,8172,1,- 7),
    (8184,8185,1,- 128), (8186,8187,1,- 126), (8486,8486,1,- 7517), (8490,8490,1,- 8383), (8491,8491,1,- 8262),
    (8498,8498,1,28), (8544,8559,1,16), (8579,8579,1,1), (9398,9423,1,26), (11264,11311,1,48),
    (11360,11360,1,1), (11362,11362,1,- 10743), (11363,11363,1,- 3814), (11364,11364,1,- 10727), (11367,11371,2,1),
    (11373,11373,1,- 10780), (11374,11374,1,- 10749), (11375,11375,1,- 10783), (11376,11376,1,- 10782), (11378,11378,1,1),
    (11381,11381,1,1), (11390,11391,1,- 10815), (11392,11490,2,1), (11499,11501,2,1), (11506,11506,1,1),
    (42560,42604,2,1), (42624,42650,2,1), (42786,42798,2,1), (42802,42862,2,1), (42873,42875,2,1),
    (42877,42877,1,- 35332), (42878,42886,2,1), (42891,42891,1,1), (42893,42893,1,- 42280), (42896,42898,2,1),
    (42902,42920,2,1), (42922,42922,1,- 42308), (42923,42923,1,- 42319), (42924,42924,1,- 42315), (42925,42925,1,- 42305),
    (42926,42926,1,- 42308), (42928,42928,1,- 42258), (42929,42929,1,- 42282), (42930,42930,1,- 42261), (42931,42931,1,928),
    (42932,42946,2,1), (42948,42948,1,- 48), (42949,42949,1,- 42307), (42950,42950,1,- 35384), (42951,42953,2,1),
    (42960,42960,1,1), (42966,42968,2,1), (42997,42997,1,1), (43888,43967,1,- 38864), (65313,65338,1,32),
    (66560,66599,1,40), (66736,66771,1,40), (66928,66938,1,39), (66940,66954,1,39), (66956,66962,1,39),
    (66964,66965,1,39), (68736,68786,1,64), (71840,71871,1,32), (93760,93791,1,32), (125184,125217,1,34)]"

definition casefold_special :: "(nat \<times> nat list) list" where
  "casefold_special = [
    (223,[115,115]), (304,[105,775]), (329,[700,110]), (496,[106,780]), (912,[953,776,769]),
    (944,[965,776,769]), (1415,[1381,1410]), (7830,[104,817]), (7831,[116,776]), (7832,[119,778]),
    (7833,[121,778]), (7834,[97,702]), (7838,[115,115]), (8016,[965,787]), (8018,[965,787,768]),
    (8020,[965,787,769]), (8022,[965,787,834]), (8064,[7936,953]), (8065,[7937,953]), (8066,[7938,953]),
    (8067,[7939,953]), (8068,[7940,953]), (8069,[7941,953]), (8070,[7942,953]), (8071,[7943,953]),
    (8072,[7936,953]), (8073,[7937,953]), (8074,[7938,953]), (8075,[7939,953]), (8076,[7940,953]),
    (8077,[7941,953]), (8078,[7942,953]), (8079,[7943,953]), (8080,[7968,953]), (8081,[7969,953]),
    (8082,[7970,953]), (8083,[7971,953]), (8084,[7972,953]), (8085,[7973,953]), (8086,[7974,953]),
    (8087,[7975,953]), (8088,[7968,953]), (8089,[7969,953]), (8090,[7970,953]), (8091,[7971,953]),
    (8092,[7972,953]), (8093,[7973,953]), (8094,[7974,953]), (8095,[7975,953]), (8096,[8032,953]),
    (8097,[8033,953]), (8098,[8034,953]), (8099,[8035,953]), (8100,[8036,953]), (8101,[8037,953]),
    (8102,[8038,953]), (8103,[8039,953]), (8104,[8032,953]), (8105,[8033,953]), (8106,[8034,953]),
    (8107,[8035,953]), (8108,[8036,953]), (8109,[8037,953]), (8110,[8038,953]), (8111,[8039,953]),
    (8114,[8048,953]), (8115,[945,953]), (8116,[940,953]), (8118,[945,834]), (8119,[945,834,953]),
    (8124,[945,953]), (8130,[8052,953]), (8131,[951,953]), (8132,[942,953]), (8134,[951,834]),
    (8135,[951,834,953]), (8140,[951,953]), (8146,[953,776,768]), (8147,[953,776,769]), (8150,[953,834]),
    (8151,[953,776,834]), (8162,[965,776,768]), (8163,[965,776,769]), (8164,[961,787]), (8166,[965,834]),
    (8167,[965,776,834]), (8178,[8060,953]), (8179,[969,953]), (8180,[974,953]), (8182,[969,834]),
    (8183,[969,834,953]), (8188,[969,953]), (64256,[102,102]), (64257,[102,105]), (64258,[102,108]),
    (64259,[102,102,105]), (64260,[102,102,108]), (64261,[115,116]), (64262,[115,116]), (64275,[1396,1398]),
    (64276,[1396,1381]), (64277,[1396,1387]), (64278,[1406,1398]), (64279,[1396,1389])]"

definition lower_ranges :: "(nat \<times> nat \<times> nat \<times> int) list" where
  "lower_ranges = [
    (65,90,1,32), (192,214,1,32), (216,222,1,32), (256,302,2,1), (306,310,2,1),
    (313,327,2,1), (330,374,2,1), (376,376,1,- 121), (377,381,2,1), (385,385,1,210),
    (386,388,2,1), (390,390,1,206), (391,391,1,1), (393,394,1,205), (395,395,1,1),
    (398,398,1,79), (399,399,1,202), (400,400,1,203), (401,401,1,1), (403,403,1,205),
    (404,404,1,207), (406,406,1,211), (407,407,1,209), (408,408,1,1), (412,412,1,211),
    (413,413,1,213), (415,415,1,214), (416,420,2,1), (422,422,1,218), (423,423,1,1),
    (425,425,1,218), (428,428,1,1), (430,430,1,218), (431,431,1,1), (433,434,1,217),
    (435,437,2,1), (439,439,1,219), (440,440,1,1), (444,444,1,1), (452,452,1,2),
    (453,453,1,1), (455,455,1,2), (456,456,1,1), (458,458,1,2), (459,475,2,1),
    (478,494,2,1), (497,497,1,2), (498,500,2,1), (502,502,1,- 97), (503,503,1,- 56),
    (504,542,2,1), (544,544,1,- 130), (546,562,2,1), (570,570,1,10795), (571,571,1,1),
    (573,573,1,- 163), (574,574,1,10792), (577,577,1,1), (579,579,1,- 195), (580,580,1,69),
    (581,581,1,71), (582,590,2,1), (880,882,2,1), (886,886,1,1), (895,895,1,116),
    (902,902,1,38), (904,906,1,37), (908,908,1,64), (910,911,1,63), (913,929,1,32),
    (931,939,1,32), (975,975,1,8), (984,1006,2,1), (1012,1012,1,- 60), (1015,1015,1,1),
    (1017,1017,1,- 7), (1018,1018,1,1), (1021,1023,1,- 130), (1024,1039,1,80), (1040,1071,1,32),
    (1120,1152,2,1), (1162,1214,2,1), (1216,1216,1,15), (1217,1229,2,1), (1232,1326,2,1),
    (1329,1366,1,48), (4256,4293,1,7264), (4295,4295,1,7264), (4301,4301,1,7264), (5024,5103,1,38864),
    (5104,5109,1,8), (7312,7354,1,- 3008), (7357,7359,1,- 3008), (7680,7828,2,1), (7838,7838,1,- 7615),
    (7840,7934,2,1), (7944,7951,1,- 8), (7960,7965,1,- 8), (7976,7983,1,- 8), (7992,7999,1,- 8),
    (8008,8013,1,- 8), (8025,8031,2,- 8), (8040,8047,1,- 8), (8072,8079,1,- 8), (8088,8095,1,- 8),
    (8104,8111,1,- 8), (8120,8121,1,- 8), (8122,8123,1,- 74), (8124,8124,1,- 9), (8136,8139,1,- 86),
    (8140,8140,1,- 9), (8152,8153,1,- 8), (8154,8155,1,- 100), (8168,8169,1,- 8), (8170,8171,1,- 112),
    (8172,8172,1,- 7), (8184,8185,1,- 128), (8186,8187,1,- 126), (8188,8188,1,- 9), (8486,8486,1,- 7517),
    (8490,8490,1,- 8383), (8491,8491,1,- 8262), (8498,8498,1,28), (8544,8559,1,16), (8579,8579,1,1),
    (9398,9423,1,26), (11264,11311,1,48), (11360,11360,1,1), (11362,11362,1,- 10743), (11363,11363,1,- 3814),
    (11364,11364,1,- 10727), (11367,11371,2,1), (11373,11373,1,- 10780), (11374,11374,1,- 10749), (11375,11375,1,- 10783),
    (11376,11376,1,- 10782), (11378,11378,1,1), (11381,11381,1,1), (11390,11391,1,- 10815), (11392,11490,2,1),
    (11499,11501,2,1), (11506,11506,1,1), (42560,42604,2,1), (42624,42650,2,1), (42786,42798,2,1),
    (42802,42862,2,1), (42873,42875,2,1), (42877,42877,1,- 35332), (42878,42886,2,1), (42891,42891,1,1),
    (42893,42893,1,- 42280), (42896,42898,2,1), (42902,42920,2,1), (42922,42922,1,- 42308), (42923,42923,1,- 42319),
    (42924,42924,1,- 42315), (42925,42925,1,- 42305), (42926,42926,1,- 42308), (42928,42928,1,- 42258), (42929,42929,1,- 42282),
    (42930,42930,1,- 42261), (42931,42931,1,928), (42932,42946,2,1), (42948,42948,1,- 48), (42949,42949,1,- 42307),
    (42950,42950,1,- 35384), (42951,42953,2,1), (42960,42960,1,1), (42966,42968,2,1), (42997,42997,1,1),
    (65313,65338,1,32), (66560,66599,1,40), (66736,66771,1,40), (66928,66938,1,39), (66940,66954,1,39),
    (66956,66962,1,39), (66964,66965,1,39), (68736,68786,1,64), (71840,71871,1,32), (93760,93791,1,32),
    (125184,125217,1,34)]"

definition lower_special :: "(nat \<times> nat list) list" where
  "lower_special = [
    (304,[105,775])]"

fun in_range :: "nat \<Rightarrow> nat \<times> nat \<times> nat \<times> int \<Rightarrow> bool" where
  "in_range c (lo, hi, st, d) \<longleftrightarrow> lo \<le> c \<and> c \<le> hi \<and> (c - lo) mod st = 0"

definition fold_char ::
  "(nat \<times> nat list) list \<Rightarrow> (nat \<times> nat \<times> nat \<times> int) list \<Rightarrow> nat \<Rightarrow> nat list" where
  "fold_char specials ranges c =
     (case map_of specials c of
        Some s \<Rightarrow> s
      | None \<Rightarrow>
          (case List.find (in_range c) ranges of
             Some (lo, hi, st, d) \<Rightarrow> [nat (int c + d)]
           | None \<Rightarrow> [c]))"

definition casefold_char :: "nat \<Rightarrow> nat list" where
  "casefold_char = fold_char casefold_special casefold_ranges"

definition lower_char :: "nat \<Rightarrow> nat list" where
  "lower_char = fold_char lower_special lower_ranges"

definition casefold :: "ustring \<Rightarrow> ustring" where
  "casefold s = concat (map casefold_char s)"

definition lower :: "ustring \<Rightarrow> ustring" where
  "lower s = concat (map lower_char s)"

text \<open>
  \<open>c.isupper()\<close>, for the letters it is asked about (those whose case folding is a letter of the
  transliteration table): lower-casing changes them.
\<close>

definition is_upper :: "nat \<Rightarrow> bool" where
  "is_upper c \<longleftrightarrow> lower_char c \<noteq> [c]"

text \<open>The ASCII character classes of the patterns.\<close>

definition ascii_upper :: "nat \<Rightarrow> bool" where
  "ascii_upper c \<longleftrightarrow> 65 \<le> c \<and> c \<le> 90"

definition ascii_lower :: "nat \<Rightarrow> bool" where
  "ascii_lower c \<longleftrightarrow> 97 \<le> c \<and> c \<le> 122"

definition ascii_alpha :: "nat \<Rightarrow> bool" where
  "ascii_alpha c \<longleftrightarrow> ascii_upper c \<or> ascii_lower c"

definition ascii_alnum :: "nat \<Rightarrow> bool" where
  "ascii_alnum c \<longleftrightarrow> ascii_alpha c \<or> is_ascii_digit c"

lemmas ascii_defs = ascii_alnum_def ascii_alpha_def ascii_upper_def ascii_lower_def
  is_ascii_digit_def

lemma find_out_of_range:
  assumes "list_all (\<lambda>x. c < fst x) xs"
  shows "List.find (in_range c) xs = None"
proof -
  have "c < fst x \<Longrightarrow> \<not> in_range c x" for x by (cases x) auto
  then show ?thesis using assms by (auto simp: find_None_iff list_all_iff)
qed

lemma casefold_char_ascii:
  assumes "c < 128"
  shows "casefold_char c = [if ascii_upper c then c + 32 else c]"
proof -
  have s: "map_of casefold_special c = None"
    using assms by (simp add: casefold_special_def)
  obtain rs where rs: "casefold_ranges = (65, 90, 1, 32) # rs"
    and out: "list_all (\<lambda>x. 128 \<le> fst x) rs"
    by (simp add: casefold_ranges_def)
  have n: "List.find (in_range c) rs = None"
    using assms out by (intro find_out_of_range) (auto simp: list_all_iff)
  show ?thesis
    by (simp add: casefold_char_def fold_char_def s rs n ascii_upper_def nat_add_distrib)
qed

lemma lower_char_ascii:
  assumes "c < 128"
  shows "lower_char c = [if ascii_upper c then c + 32 else c]"
proof -
  have s: "map_of lower_special c = None"
    using assms by (simp add: lower_special_def)
  obtain rs where rs: "lower_ranges = (65, 90, 1, 32) # rs"
    and out: "list_all (\<lambda>x. 128 \<le> fst x) rs"
    by (simp add: lower_ranges_def)
  have n: "List.find (in_range c) rs = None"
    using assms out by (intro find_out_of_range) (auto simp: list_all_iff)
  show ?thesis
    by (simp add: lower_char_def fold_char_def s rs n ascii_upper_def nat_add_distrib)
qed

lemma lower_ascii:
  "(\<And>c. c \<in> set s \<Longrightarrow> c < 128 \<and> \<not> ascii_upper c) \<Longrightarrow> lower s = s"
  by (induction s) (auto simp: lower_def lower_char_ascii)

lemma casefold_append [simp]: "casefold (s @ t) = casefold s @ casefold t"
  by (simp add: casefold_def)

lemma casefold_ascii:
  "(\<And>c. c \<in> set s \<Longrightarrow> c < 128 \<and> \<not> ascii_upper c) \<Longrightarrow> casefold s = s"
  by (induction s) (auto simp: casefold_def casefold_char_ascii)

lemma ascii_not_space: "ascii_alnum c \<Longrightarrow> \<not> is_space c"
  by (auto simp: ascii_defs is_space_def space_chars_def)

end
