(* ===== verification/Calendar.thy ===== *)
theory Calendar
  imports Unicode_Text
begin

text \<open>
  Calendar dates as Python's \<open>datetime.date\<close> has them (proleptic Gregorian, compared as the triple
  year, month, day), the date helpers of \<open>domain/models.py\<close> and the Moscow-time shortcuts of
  \<open>application/deadlines.py\<close>.  A wall-clock time in Moscow is a date with the microseconds since
  midnight: the code compares such values only with each other, which Python does on the wall clock.
  Dates past the year 9999 (where \<open>date\<close> overflows) are not cut off.
\<close>

section \<open>Dates\<close>

type_synonym date = "nat \<times> nat \<times> nat"
type_synonym local_time = "date \<times> nat"

definition is_leap :: "nat \<Rightarrow> bool" where
  "is_leap y \<longleftrightarrow> y mod 4 = 0 \<and> (y mod 100 \<noteq> 0 \<or> y mod 400 = 0)"

definition days_in_month :: "nat \<Rightarrow> nat \<Rightarrow> nat" where
  "days_in_month y m =
     (if m = 2 then (if is_leap y then 29 else 28) else if m \<in> {4, 6, 9, 11} then 30 else 31)"

fun valid_date :: "date \<Rightarrow> bool" where
  "valid_date (y, m, d) \<longleftrightarrow> 1 \<le> y \<and> y \<le> 9999 \<and> 1 \<le> m \<and> m \<le> 12 \<and> 1 \<le> d \<and> d \<le> days_in_month y m"

definition days_before_year :: "nat \<Rightarrow> int" where
  "days_before_year y =
     (let p = int y - 1 in p * 365 + p div 4 - p div 100 + p div 400)"

definition days_before_month :: "nat \<Rightarrow> nat \<Rightarrow> nat" where
  "days_before_month y m = sum_list (map (days_in_month y) [1..<m])"

fun toordinal :: "date \<Rightarrow> int" where
  "toordinal (y, m, d) = days_before_year y + int (days_before_month y m) + int d"

text \<open>\<open>date.weekday()\<close>: Monday is 0.\<close>

definition weekday :: "date \<Rightarrow> nat" where
  "weekday dt = nat ((toordinal dt + 6) mod 7)"

fun next_day :: "date \<Rightarrow> date" where
  "next_day (y, m, d) =
     (if d < days_in_month y m then (y, m, d + 1)
      else if m < 12 then (y, m + 1, 1) else (y + 1, 1, 1))"

fun prev_day :: "date \<Rightarrow> date" where
  "prev_day (y, m, d) =
     (if 1 < d then (y, m, d - 1)
      else if 1 < m then (y, m - 1, days_in_month y (m - 1)) else (y - 1, 12, 31))"

definition add_days :: "nat \<Rightarrow> date \<Rightarrow> date" where
  "add_days n = next_day ^^ n"

definition sub_days :: "nat \<Rightarrow> date \<Rightarrow> date" where
  "sub_days n = prev_day ^^ n"

lemma div_pred_diff:
  assumes "0 < n"
  shows "(k::int) div n - (k - 1) div n = (if k mod n = 0 then 1 else 0)"
proof -
  have k: "k = n * (k div n) + k mod n" "0 \<le> k mod n" "k mod n < n" using assms by simp_all
  show ?thesis
  proof (cases "k mod n = 0")
    case True
    have "(k - 1) div n = k div n - 1"
      by (rule int_div_pos_eq[where r = "n - 1"]) (use assms k True in \<open>auto simp: algebra_simps\<close>)
    with True show ?thesis by simp
  next
    case False
    have "(k - 1) div n = k div n"
      by (rule int_div_pos_eq[where r = "k mod n - 1"]) (use assms k False in auto)
    with False show ?thesis by simp
  qed
qed

lemma days_before_year_Suc:
  "1 \<le> y \<Longrightarrow> days_before_year (y + 1) = days_before_year y + (if is_leap y then 366 else 365)"
proof -
  assume "1 \<le> y"
  define k where "k = int y"
  have k: "1 \<le> k" using \<open>1 \<le> y\<close> by (simp add: k_def)
  have leap: "is_leap y \<longleftrightarrow> k mod 4 = 0 \<and> (k mod 100 \<noteq> 0 \<or> k mod 400 = 0)"
    unfolding is_leap_def k_def by presburger
  define a b c where "a \<longleftrightarrow> k mod 4 = 0" and "b \<longleftrightarrow> k mod 100 = 0" and "c \<longleftrightarrow> k mod 400 = 0"
  note abc = a_def[symmetric] b_def[symmetric] c_def[symmetric]
  have m: "(c \<longrightarrow> b) \<and> (b \<longrightarrow> a)"
    unfolding a_def b_def c_def mod_eq_0_iff_dvd
    using dvd_trans[of 100 400 k] dvd_trans[of 4 100 k] by simp_all
  have "days_before_year (y + 1) - days_before_year y =
      365 + (k div 4 - (k - 1) div 4) - (k div 100 - (k - 1) div 100) + (k div 400 - (k - 1) div 400)"
    by (simp add: days_before_year_def k_def Let_def)
  also have "\<dots> = 365 + (if a then 1 else 0) - (if b then 1 else 0) + (if c then 1 else 0)"
    by (simp only: div_pred_diff abc zero_less_numeral)
  also have "\<dots> = (if is_leap y then 366 else 365)"
    unfolding leap abc using m by (cases a; cases b; cases c) simp_all
  finally show ?thesis by simp
qed

lemma days_before_month_Suc:
  "1 \<le> m \<Longrightarrow> days_before_month y (m + 1) = days_before_month y m + days_in_month y m"
  by (simp add: days_before_month_def)

lemma days_before_december: "days_before_month y 12 = (if is_leap y then 335 else 334)"
  by (simp add: days_before_month_def days_in_month_def upt_rec)

lemma month_december: "1 \<le> m \<Longrightarrow> m \<le> 12 \<Longrightarrow> \<not> m < 12 \<Longrightarrow> m = (12::nat)"
  by simp

lemma days_in_month_pos [simp]: "Suc 0 \<le> days_in_month y m"
  by (simp add: days_in_month_def)

lemma toordinal_next_day:
  assumes "valid_date dt"
  shows "toordinal (next_day dt) = toordinal dt + 1"
proof -
  obtain y m d where dt: "dt = (y, m, d)" by (cases dt)
  consider "d < days_in_month y m" | "d = days_in_month y m" "m < 12"
    | "d = days_in_month y m" "m = 12"
    using assms by (force simp: dt)
  then show ?thesis
  proof cases
    case 1
    then show ?thesis by (simp add: dt)
  next
    case 2
    then show ?thesis using assms days_before_month_Suc[of m y] by (simp add: dt)
  next
    case 3
    moreover have "days_before_month (y + 1) 1 = 0" by (simp add: days_before_month_def)
    moreover have "days_in_month y 12 = 31" by (simp add: days_in_month_def)
    ultimately show ?thesis
      using assms days_before_year_Suc[of y] days_before_december[of y] by (simp add: dt)
  qed
qed

lemma toordinal_prev_day:
  assumes "valid_date dt" and "fst dt > 1"
  shows "toordinal (prev_day dt) = toordinal dt - 1"
proof -
  obtain y m d where dt: "dt = (y, m, d)" by (cases dt)
  consider "1 < d" | "d = 1" "1 < m" | "d = 1" "m = 1"
    using assms by (force simp: dt)
  then show ?thesis
  proof cases
    case 1
    then show ?thesis by (simp add: dt)
  next
    case 2
    then show ?thesis using days_before_month_Suc[of "m - 1" y] by (simp add: dt)
  next
    case 3
    moreover have "days_before_month y 1 = 0" by (simp add: days_before_month_def)
    ultimately show ?thesis
      using assms days_before_year_Suc[of "y - 1"] days_before_december[of "y - 1"] by (simp add: dt)
  qed
qed

lemma days_in_december [simp]: "days_in_month y 12 = 31"
  by (simp add: days_in_month_def)

lemma valid_next_day:
  assumes "valid_date dt" and "fst dt < 9999"
  shows "valid_date (next_day dt)"
  using assms by (cases dt rule: next_day.cases) simp

lemma valid_prev_day:
  assumes "valid_date dt" and "1 < fst dt"
  shows "valid_date (prev_day dt)"
proof -
  obtain y m d where dt: "dt = (y, m, d)" by (cases dt)
  have "d - 1 \<le> days_in_month y m" using assms(1) by (auto simp: dt intro: le_trans[OF diff_le_self])
  moreover have "1 < d \<Longrightarrow> 1 \<le> d - 1" "1 < m \<Longrightarrow> 1 \<le> m - 1" "1 \<le> y - 1" "m \<le> 12 \<Longrightarrow> m - 1 \<le> 12"
      "y \<le> 9999 \<Longrightarrow> y - 1 \<le> 9999"
    using assms(2) by (simp_all add: dt)
  ultimately show ?thesis using assms(1) by (simp add: dt)
qed

lemma year_next_day: "fst (next_day dt) \<le> fst dt + 1"
  by (cases dt rule: next_day.cases) auto

lemma year_prev_day: "fst dt - 1 \<le> fst (prev_day dt)"
  by (cases dt rule: next_day.cases) auto

lemma add_days_ordinal:
  assumes "valid_date dt" and "fst dt + n \<le> 9999"
  shows "valid_date (add_days n dt) \<and> toordinal (add_days n dt) = toordinal dt + int n
    \<and> fst (add_days n dt) \<le> fst dt + n"
  using assms
proof (induction n)
  case 0
  then show ?case by (simp add: add_days_def)
next
  case (Suc n)
  then have IH: "valid_date (add_days n dt)" "toordinal (add_days n dt) = toordinal dt + int n"
    "fst (add_days n dt) \<le> fst dt + n"
    by simp_all
  have s: "add_days (Suc n) dt = next_day (add_days n dt)" by (simp add: add_days_def)
  show ?case
    unfolding s using IH Suc.prems valid_next_day[OF IH(1)] toordinal_next_day[OF IH(1)]
      year_next_day[of "add_days n dt"]
    by simp
qed

lemma sub_days_ordinal:
  assumes "valid_date dt" and "n < fst dt"
  shows "valid_date (sub_days n dt) \<and> toordinal (sub_days n dt) = toordinal dt - int n
    \<and> fst dt - n \<le> fst (sub_days n dt)"
  using assms
proof (induction n)
  case 0
  then show ?case by (simp add: sub_days_def)
next
  case (Suc n)
  then have IH: "valid_date (sub_days n dt)" "toordinal (sub_days n dt) = toordinal dt - int n"
    "fst dt - n \<le> fst (sub_days n dt)"
    by simp_all
  have s: "sub_days (Suc n) dt = prev_day (sub_days n dt)" by (simp add: sub_days_def)
  show ?case
    unfolding s using IH Suc.prems valid_prev_day[OF IH(1)] toordinal_prev_day[OF IH(1)]
      year_prev_day[of "sub_days n dt"]
    by simp
qed

lemma weekday_ordinal: "int (weekday dt) = (toordinal dt + 6) mod 7"
  by (simp add: weekday_def)

lemma weekday_less: "weekday dt < 7"
  using weekday_ordinal[of dt] by (metis of_nat_less_iff of_nat_numeral pos_mod_bound zero_less_numeral)

lemma weekday_add_days:
  assumes "valid_date dt" and "fst dt + n \<le> 9999"
  shows "weekday (add_days n dt) = (weekday dt + n) mod 7"
proof -
  have "int (weekday (add_days n dt)) = int ((weekday dt + n) mod 7)"
    using add_days_ordinal[OF assms] by (simp add: weekday_ordinal zmod_int mod_simps algebra_simps)
  then show ?thesis by simp
qed

lemma add_days_numeral [simp]:
  "add_days 0 dt = dt" "add_days (Suc 0) dt = next_day dt"
  "add_days (numeral k) dt = add_days (pred_numeral k) (next_day dt)"
  by (simp_all add: add_days_def numeral_eq_Suc funpow_swap1)

lemma sub_days_numeral [simp]:
  "sub_days 0 dt = dt" "sub_days (Suc 0) dt = prev_day dt"
  "sub_days (numeral k) dt = sub_days (pred_numeral k) (prev_day dt)"
  by (simp_all add: sub_days_def numeral_eq_Suc funpow_swap1)

lemmas weekday_eval = weekday_def days_before_year_def days_before_month_def days_in_month_def
  is_leap_def upt_rec

section \<open>Game dates: format and parse\<close>

text \<open>\<open>strftime("%d.%m.%y")\<close>, and the strict parser of \<open>parse_game_date\<close> (46 is the full stop).\<close>

fun format_game_date :: "date \<Rightarrow> ustring" where
  "format_game_date (y, m, d) = show2 d @ [46] @ show2 m @ [46] @ show2 (y mod 100)"

datatype date_error = InvalidFormat | InvalidDay

fun parse_dmy :: "ustring \<Rightarrow> date_error + date" where
  "parse_dmy [d1, d2, p, m1, m2, q, y1, y2] =
     (if p = 46 \<and> q = 46 then
        (case (two_digits d1 d2, two_digits m1 m2, two_digits y1 y2) of
           (Some day, Some month, Some year) \<Rightarrow>
             if valid_date (2000 + year, month, day) then Inr (2000 + year, month, day)
             else Inl InvalidDay
         | _ \<Rightarrow> Inl InvalidFormat)
      else Inl InvalidFormat)"
| "parse_dmy _ = Inl InvalidFormat"

definition parse_game_date :: "ustring \<Rightarrow> date_error + date" where
  "parse_game_date value = parse_dmy (strip value)"

lemma digit_not_space: "n < 10 \<Longrightarrow> \<not> is_space (48 + n)"
  by (simp add: is_space_def space_chars_def)

lemma strip_format_game_date: "strip (format_game_date dt) = format_game_date dt"
proof -
  obtain y m d where dt: "dt = (y, m, d)" by (cases dt)
  show ?thesis
    by (rule strip_by_id) (simp add: dt show2_def digit_not_space)
qed

lemma parse_format_game_date:
  assumes "valid_date dt" and "2000 \<le> fst dt" and "fst dt \<le> 2099"
  shows "parse_game_date (format_game_date dt) = Inr dt"
proof -
  obtain y m d where dt: "dt = (y, m, d)" by (cases dt)
  have y: "2000 \<le> y" "y \<le> 2099" using assms by (simp_all add: dt)
  then have "y div 100 = 20" by (intro div_nat_eqI) simp_all
  then have "2000 + y mod 100 = y" using div_mult_mod_eq[of y 100] by simp
  moreover have "d < 100" "m < 100"
    using assms by (auto simp: dt days_in_month_def split: if_splits)
  ultimately have b: "d < 100" "m < 100" "y mod 100 < 100" "2000 + y mod 100 = y" by simp_all
  have v: "valid_date (2000 + y mod 100, m, d)" using assms(1) b(4) by (simp only: dt)
  show ?thesis
    unfolding parse_game_date_def strip_format_game_date
    using two_digits_show2[OF b(1)] two_digits_show2[OF b(2)] two_digits_show2[OF b(3)] v b(4)
    by (simp add: dt show2_def del: valid_date.simps)
qed

lemma parse_dmy_valid:
  assumes "parse_dmy s = Inr dt"
  shows "valid_date dt \<and> 2000 \<le> fst dt \<and> fst dt \<le> 2099"
proof -
  obtain d1 d2 p m1 m2 q y1 y2 where s: "s = [d1, d2, p, m1, m2, q, y1, y2]"
    using assms by (cases s rule: parse_dmy.cases) simp_all
  obtain day month year where t: "two_digits d1 d2 = Some day" "two_digits m1 m2 = Some month"
    "two_digits y1 y2 = Some year"
    using assms unfolding s
    by (cases "two_digits d1 d2"; cases "two_digits m1 m2"; cases "two_digits y1 y2")
      (simp_all del: valid_date.simps split: if_splits)
  have "valid_date (2000 + year, month, day) \<and> dt = (2000 + year, month, day)"
    using assms unfolding s by (simp add: t del: valid_date.simps split: if_splits)
  then show ?thesis using two_digits_less[OF t(3)] by (simp del: valid_date.simps)
qed

lemma parse_game_date_valid:
  "parse_game_date s = Inr dt \<Longrightarrow> valid_date dt \<and> 2000 \<le> fst dt \<and> fst dt \<le> 2099"
  unfolding parse_game_date_def by (rule parse_dmy_valid)

section \<open>Deadlines\<close>

text \<open>
  \<open>parse_confirmation_deadline\<close>: the strict pattern, then \<open>strptime\<close> with its own narrower
  character classes (the first digit of a day, month, hour or minute is an ASCII digit) and its
  pivot for two-digit years.
\<close>

definition hour_us :: "nat \<Rightarrow> nat" where
  "hour_us h = h * 3600000000"

definition minute_us :: "nat \<Rightarrow> nat" where
  "minute_us m = m * 60000000"

definition strptime_pair :: "nat \<Rightarrow> nat \<Rightarrow> nat \<Rightarrow> nat option" where
  "strptime_pair hi a b = (if is_ascii_digit a \<and> a \<le> 48 + hi then two_digits a b else None)"

definition strptime_day :: "nat \<Rightarrow> nat \<Rightarrow> nat option" where
  "strptime_day a b =
     (if a = 51 then (if b \<in> {48, 49} then two_digits a b else None)
      else if a \<in> {49, 50} then two_digits a b
      else if a = 48 \<and> b \<in> {49..57} then two_digits a b else None)"

definition strptime_month :: "nat \<Rightarrow> nat \<Rightarrow> nat option" where
  "strptime_month a b =
     (if a = 49 \<and> b \<in> {48..50} \<or> a = 48 \<and> b \<in> {49..57} then two_digits a b else None)"

definition strptime_hour :: "nat \<Rightarrow> nat \<Rightarrow> nat option" where
  "strptime_hour a b =
     (if a = 50 then (if b \<in> {48..51} then two_digits a b else None) else strptime_pair 1 a b)"

definition pivot_year :: "nat \<Rightarrow> nat" where
  "pivot_year y = (if y \<le> 68 then 2000 + y else 1900 + y)"

fun parse_dmy_hm :: "ustring \<Rightarrow> date_error + local_time" where
  "parse_dmy_hm [d1, d2, p, m1, m2, q, y1, y2, s, h1, h2, c, n1, n2] =
     (if p = 46 \<and> q = 46 \<and> s = 32 \<and> c = 58 then
        (case (strptime_day d1 d2, strptime_month m1 m2, two_digits y1 y2,
               strptime_hour h1 h2, strptime_pair 5 n1 n2) of
           (Some day, Some month, Some year, Some hour, Some minute) \<Rightarrow>
             if valid_date (pivot_year year, month, day)
             then Inr ((pivot_year year, month, day), hour_us hour + minute_us minute)
             else Inl InvalidDay
         | _ \<Rightarrow> Inl InvalidFormat)
      else Inl InvalidFormat)"
| "parse_dmy_hm _ = Inl InvalidFormat"

definition parse_confirmation_deadline :: "ustring \<Rightarrow> date_error + local_time" where
  "parse_confirmation_deadline value = parse_dmy_hm (strip value)"

definition parse_scheduled_action_time :: "ustring \<Rightarrow> date_error + local_time" where
  "parse_scheduled_action_time value =
     (case parse_confirmation_deadline value of
        Inl e \<Rightarrow> Inl e
      | Inr (dt, us) \<Rightarrow>
          if us div minute_us 1 mod 60 \<noteq> 0 then Inl InvalidFormat else Inr (dt, us))"

text \<open>\<open>format_confirmation_deadline\<close>, of a value already in Moscow time.\<close>

fun format_confirmation_deadline :: "local_time \<Rightarrow> ustring" where
  "format_confirmation_deadline (dt, us) =
     format_game_date dt @ [32] @ show2 (us div hour_us 1) @ [58] @ show2 (us div minute_us 1 mod 60)"

fun closest_thursday_19 :: "local_time \<Rightarrow> local_time" where
  "closest_thursday_19 (today, us) =
     (add_days (nat ((3 - int (weekday today)) mod 7)) today, hour_us 19)"

fun closest_friday_18 :: "local_time \<Rightarrow> local_time" where
  "closest_friday_18 (today, us) =
     (let candidate = (add_days (nat ((4 - int (weekday today)) mod 7)) today, hour_us 18)
      in if candidate \<le> (today, us) then (add_days 7 (fst candidate), hour_us 18) else candidate)"

fun next_saturday_game_date :: "local_time \<Rightarrow> date" where
  "next_saturday_game_date (today, us) = add_days (nat ((5 - int (weekday today)) mod 7) + 7) today"

definition next_night_03 :: "date \<Rightarrow> local_time" where
  "next_night_03 game_date = (add_days 1 game_date, hour_us 3)"

definition tuesday_before_game_18 :: "date \<Rightarrow> local_time" where
  "tuesday_before_game_18 game_date =
     (let days = nat ((int (weekday game_date) - 1) mod 7);
          days_since_tuesday = (if days = 0 then 7 else days)
      in (sub_days days_since_tuesday game_date, hour_us 18))"

section \<open>Where the shortcuts point\<close>

lemma next_day_greater: "valid_date dt \<Longrightarrow> dt < next_day dt"
  by (cases dt rule: next_day.cases) auto

lemma add_days_greater:
  assumes "valid_date dt" and "fst dt + n \<le> 9999"
  shows "dt \<le> add_days n dt \<and> (0 < n \<longrightarrow> dt < add_days n dt)"
  using assms
proof (induction n)
  case (Suc n)
  have s: "add_days (Suc n) dt = next_day (add_days n dt)" by (simp add: add_days_def)
  have "valid_date (add_days n dt)" using add_days_ordinal[of dt n] Suc.prems by simp
  then have "add_days n dt < next_day (add_days n dt)" by (rule next_day_greater)
  moreover have "dt \<le> add_days n dt" using Suc by simp
  ultimately have "dt < next_day (add_days n dt)" by (rule le_less_trans[rotated])
  then show ?case by (simp add: s)
qed (simp add: add_days_def)

lemma mod7_target:
  "w < 7 \<Longrightarrow> t < 7 \<Longrightarrow> (w + nat ((int t - int w) mod 7)) mod 7 = t \<and> nat ((int t - int w) mod 7) < 7"
proof -
  assume w: "w < 7" and t: "t < 7"
  have "int ((w + nat ((int t - int w) mod 7)) mod 7) = (int w + (int t - int w) mod 7) mod 7"
    by (simp add: zmod_int)
  also have "\<dots> = int t mod 7" by (simp add: mod_simps)
  also have "\<dots> = int t" using t by simp
  finally have "(w + nat ((int t - int w) mod 7)) mod 7 = t" by simp
  then show ?thesis by (simp add: nat_less_iff)
qed

lemma days_until_weekday:
  assumes "valid_date dt" and "fst dt \<le> 9980" and "t < 7"
  defines "n \<equiv> nat ((int t - int (weekday dt)) mod 7)"
  shows "weekday (add_days n dt) = t \<and> weekday (add_days (n + 7) dt) = t \<and> n < 7
    \<and> valid_date (add_days n dt) \<and> toordinal (add_days n dt) = toordinal dt + int n
    \<and> toordinal (add_days (n + 7) dt) = toordinal dt + int n + 7"
proof -
  note m = mod7_target[OF weekday_less[of dt] assms(3), folded n_def]
  have y: "fst dt + n \<le> 9999" "fst dt + (n + 7) \<le> 9999" using m assms(2) by simp_all
  have "(weekday dt + (n + 7)) mod 7 = (weekday dt + n) mod 7"
    unfolding add.assoc[symmetric] by (rule mod_add_self2)
  then show ?thesis
    using m weekday_add_days[OF assms(1) y(1)] weekday_add_days[OF assms(1) y(2)]
      add_days_ordinal[OF assms(1) y(1)] add_days_ordinal[OF assms(1) y(2)]
    by simp
qed

lemma add_days_add: "add_days m (add_days n dt) = add_days (m + n) dt"
  by (simp add: add_days_def funpow_add)

text \<open>
  The Friday shortcut is a Friday at 18:00, strictly in the future and at most a week ahead.
\<close>

theorem closest_friday_18_next:
  assumes "valid_date today" and "fst today \<le> 9980"
    and "closest_friday_18 (today, us) = (day, hour)"
  shows "weekday day = 4 \<and> hour = hour_us 18 \<and> (today, us) < (day, hour)
    \<and> toordinal today \<le> toordinal day \<and> toordinal day \<le> toordinal today + 7"
proof -
  define n where "n = nat ((4 - int (weekday today)) mod 7)"
  have f: "weekday (add_days n today) = 4" "weekday (add_days (n + 7) today) = 4" "n < 7"
    "toordinal (add_days n today) = toordinal today + int n"
    "toordinal (add_days (n + 7) today) = toordinal today + int n + 7"
    using days_until_weekday[OF assms(1,2), of 4] by (simp_all add: n_def)
  have y: "fst today + (n + 7) \<le> 9999" using f(3) assms(2) by simp
  have g: "0 < n \<Longrightarrow> today < add_days n today" "today < add_days (n + 7) today"
    using add_days_greater[OF assms(1), of n] add_days_greater[OF assms(1), of "n + 7"] y by simp_all
  have r: "(day, hour) = (if (add_days n today, hour_us 18) \<le> (today, us)
      then (add_days (n + 7) today, hour_us 18) else (add_days n today, hour_us 18))"
    unfolding assms(3)[symmetric] closest_friday_18.simps Let_def n_def[symmetric] fst_conv
      add_days_add add.commute[of 7 n] ..
  show ?thesis
  proof (cases "(add_days n today, hour_us 18) \<le> (today, us)")
    case True
    then have "add_days n today \<le> today"
      by (simp only: less_eq_prod_def[of "(_, _)"] fst_conv snd_conv) (blast intro: less_imp_le)
    then have n: "n = 0" using g(1) by (cases n) auto
    have dh: "day = add_days (n + 7) today" "hour = hour_us 18"
      using r[unfolded if_P[OF True]] by simp_all
    have "(today, us) < (day, hour)" using g(2) by (simp only: dh less_prod_def fst_conv) simp
    then show ?thesis unfolding dh f(2,5) using n by simp
  next
    case False
    have dh: "day = add_days n today" "hour = hour_us 18"
      using r[unfolded if_not_P[OF False]] by simp_all
    from False have "(today, us) < (day, hour)" unfolding dh by (rule not_le_imp_less)
    then show ?thesis unfolding dh f(1,4) using f(3) by simp
  qed
qed

theorem closest_friday_18_next_witness:
  "closest_friday_18 ((2024, 5, 17), hour_us 18) = ((2024, 5, 24), hour_us 18)
   \<and> weekday (2024, 5, 24) = 4"
proof -
  have w: "weekday (2024, 5, 17) = 4" by (simp add: weekday_eval)
  have e: "closest_friday_18 ((2024, 5, 17), hour_us 18) = ((2024, 5, 24), hour_us 18)"
    by (simp add: w Let_def days_in_month_def)
  have v: "valid_date (2024, 5, 17)" by (simp add: days_in_month_def)
  from closest_friday_18_next[OF v _ e] e show ?thesis by simp
qed

text \<open>
  The Tuesday shortcut is 18:00 on a Tuesday strictly before the game, at most a week before it.
\<close>

theorem tuesday_before_game:
  assumes "valid_date game" and "8 \<le> fst game" and "tuesday_before_game_18 game = (day, hour)"
  shows "weekday day = 1 \<and> hour = hour_us 18 \<and> valid_date day
    \<and> toordinal game - 7 \<le> toordinal day \<and> toordinal day < toordinal game"
proof -
  define k where "k = nat ((int (weekday game) - 1) mod 7)"
  define n where "n = (if k = 0 then 7 else k)"
  have n: "1 \<le> n" "n \<le> 7" "(int (weekday game) - int n) mod 7 = 1"
  proof -
    have k7: "k < 7" "int k = (int (weekday game) - 1) mod 7" by (simp_all add: k_def nat_less_iff)
    then show "1 \<le> n" "n \<le> 7" by (simp_all add: n_def)
    have "int n mod 7 = (int (weekday game) - 1) mod 7" using k7 by (auto simp: n_def)
    then have "(int (weekday game) - int n) mod 7 = (int (weekday game) - (int (weekday game) - 1)) mod 7"
      by (rule mod_diff_cong[OF refl])
    then show "(int (weekday game) - int n) mod 7 = 1" by simp
  qed
  have day: "day = sub_days n game" "hour = hour_us 18"
    using assms(3) unfolding tuesday_before_game_18_def Let_def k_def[symmetric] n_def[symmetric]
    by simp_all
  note s = sub_days_ordinal[OF assms(1), of n]
  have "int (weekday day) = (toordinal game - int n + 6) mod 7"
    using s n(2) assms(2) by (simp add: day weekday_ordinal)
  also have "\<dots> = (int (weekday game) - int n) mod 7" by (simp add: weekday_ordinal mod_simps algebra_simps)
  finally have "weekday day = 1" using n(3) by simp
  with s n assms(2) show ?thesis by (simp add: day)
qed

theorem tuesday_before_game_witness:
  "tuesday_before_game_18 (2024, 5, 14) = ((2024, 5, 7), hour_us 18) \<and> weekday (2024, 5, 7) = 1"
proof -
  have w: "weekday (2024, 5, 14) = 1" by (simp add: weekday_eval)
  have e: "tuesday_before_game_18 (2024, 5, 14) = ((2024, 5, 7), hour_us 18)"
    by (simp add: tuesday_before_game_18_def w Let_def)
  have v: "valid_date (2024, 5, 14)" by (simp add: days_in_month_def)
  from tuesday_before_game[OF v _ e] e show ?thesis by simp
qed

text \<open>A game date of this century survives formatting and parsing.\<close>

theorem game_date_roundtrip:
  assumes "valid_date dt" and "2000 \<le> fst dt" and "fst dt \<le> 2099"
  shows "parse_game_date (format_game_date dt) = Inr dt"
  using assms by (rule parse_format_game_date)

theorem game_date_roundtrip_witness: "parse_game_date (format_game_date (2024, 2, 29)) = Inr (2024, 2, 29)"
  by (rule game_date_roundtrip) (simp_all add: days_in_month_def is_leap_def)

end
