(* ===== verification/Links.thy ===== *)
theory Links
  imports Unicode_Text
begin

text \<open>
  The link and handle normalisers of \<open>domain/models.py\<close> and the chat-link recogniser of
  \<open>application/notification_helpers.py\<close>, over a model of \<open>urllib.parse.urlsplit\<close>.  Code points are
  written as numbers where they are punctuation: 35 \<open>#\<close>, 37 percent, 45 hyphen, 46 full stop,
  47 slash, 58 colon, 63 question mark, 64 at sign, 91 and 93 square brackets, 95 underscore.
  \<open>None\<close> is the \<open>ValueError\<close> that every one of these functions raises on a rejected value.
\<close>

section \<open>Splitting a URL\<close>

record split_url =
  url_scheme :: ustring
  url_netloc :: ustring
  url_path :: ustring
  url_query :: ustring
  url_fragment :: ustring

text \<open>\<open>s.partition(c)\<close> without its middle part, and \<open>s.rpartition(c)\<close> (the last part).\<close>

definition before_char :: "nat \<Rightarrow> ustring \<Rightarrow> ustring" where
  "before_char c s = takeWhile (\<lambda>x. x \<noteq> c) s"

definition after_char :: "nat \<Rightarrow> ustring \<Rightarrow> ustring" where
  "after_char c s = drop 1 (dropWhile (\<lambda>x. x \<noteq> c) s)"

definition after_last_char :: "nat \<Rightarrow> ustring \<Rightarrow> ustring" where
  "after_last_char c s = rev (takeWhile (\<lambda>x. x \<noteq> c) (rev s))"

definition is_scheme_char :: "nat \<Rightarrow> bool" where
  "is_scheme_char c \<longleftrightarrow> ascii_alnum c \<or> c \<in> {43, 45, 46}"

text \<open>The characters whose NFKC form holds one of \<open>/ ? # @ :\<close>, which \<open>_checknetloc\<close> refuses.\<close>

definition nfkc_unsafe :: "nat list" where
  "nfkc_unsafe = [8263, 8264, 8265, 8448, 8449, 8453, 8454, 10868, 65043, 65046, 65109, 65110,
    65119, 65131, 65283, 65295, 65306, 65311, 65312]"

text \<open>
  A network location with square brackets is rejected here: \<open>urlsplit\<close> accepts it only for a literal
  IP address, which is in none of the host lists below, so every caller rejects it either way.
\<close>

definition urlsplit :: "ustring \<Rightarrow> split_url option" where
  "urlsplit value =
     (let url = filter (\<lambda>c. c \<notin> {9, 10, 13}) (dropWhile (\<lambda>c. c \<le> 32) value);
          head = before_char 58 url;
          has_scheme = (58 \<in> set url \<and> head \<noteq> [] \<and> ascii_alpha (hd head) \<and> list_all is_scheme_char head);
          scheme = (if has_scheme then lower head else []);
          rest = (if has_scheme then after_char 58 url else url);
          has_netloc = starts_with [47, 47] rest;
          netloc = (if has_netloc then takeWhile (\<lambda>c. c \<notin> {47, 63, 35}) (drop 2 rest) else []);
          tail = (if has_netloc then dropWhile (\<lambda>c. c \<notin> {47, 63, 35}) (drop 2 rest) else rest)
      in if 91 \<in> set netloc \<or> 93 \<in> set netloc \<or> (\<exists>c \<in> set netloc. c \<in> set nfkc_unsafe) then None
         else Some \<lparr>url_scheme = scheme, url_netloc = netloc,
                    url_path = before_char 63 (before_char 35 tail),
                    url_query = after_char 63 (before_char 35 tail),
                    url_fragment = after_char 35 tail\<rparr>)"

definition url_hostinfo :: "split_url \<Rightarrow> ustring" where
  "url_hostinfo p = after_last_char 64 (url_netloc p)"

definition url_hostname :: "split_url \<Rightarrow> ustring option" where
  "url_hostname p =
     (let h = before_char 58 (url_hostinfo p)
      in if h = [] then None
         else Some (lower (before_char 37 h) @ dropWhile (\<lambda>c. c \<noteq> 37) h))"

text \<open>\<open>parsed.port\<close>: \<open>None\<close> is the \<open>ValueError\<close>, \<open>Some None\<close> a missing port.\<close>

definition url_port :: "split_url \<Rightarrow> nat option option" where
  "url_port p =
     (let digits = after_char 58 (url_hostinfo p)
      in if digits = [] then Some None
         else if list_all is_ascii_digit digits then
           (let n = foldl (\<lambda>a c. 10 * a + (c - 48)) 0 digits
            in if n \<le> 65535 then Some (Some n) else None)
         else None)"

definition url_has_credentials :: "split_url \<Rightarrow> bool" where
  "url_has_credentials p \<longleftrightarrow> 64 \<in> set (url_netloc p)"

fun contains_text :: "ustring \<Rightarrow> ustring \<Rightarrow> bool" where
  "contains_text w [] = (w = [])"
| "contains_text w (c # s) = (starts_with w (c # s) \<or> contains_text w s)"

definition with_https :: "ustring \<Rightarrow> ustring" where
  "with_https s = (if contains_text (asc ''://'') s then s else asc ''https://'' @ s)"

fun split_on :: "nat \<Rightarrow> ustring \<Rightarrow> ustring list" where
  "split_on c [] = [[]]"
| "split_on c (x # s) =
     (if x = c then [] # split_on c s
      else (case split_on c s of [] \<Rightarrow> [[x]] | w # ws \<Rightarrow> (x # w) # ws))"

section \<open>VK profile links\<close>

definition vk_hosts :: "ustring list" where
  "vk_hosts = map asc [''vk.com'', ''www.vk.com'', ''m.vk.com'', ''vk.ru'', ''www.vk.ru'', ''m.vk.ru'']"

definition is_vk_path_char :: "nat \<Rightarrow> bool" where
  "is_vk_path_char c \<longleftrightarrow> ascii_alnum c \<or> c \<in> {95, 46, 45}"

definition without_final_slash :: "ustring \<Rightarrow> ustring" where
  "without_final_slash s = (if s \<noteq> [] \<and> last s = 47 then butlast s else s)"

fun vk_path_name :: "ustring \<Rightarrow> ustring option" where
  "vk_path_name [] = None"
| "vk_path_name (c # rest) =
     (let name = without_final_slash rest
      in if c = 47 \<and> 1 \<le> length name \<and> length name \<le> 100 \<and> list_all is_vk_path_char name
         then Some name else None)"

definition normalize_vk_url :: "ustring \<Rightarrow> ustring option" where
  "normalize_vk_url value =
     (let candidate = strip value
      in if candidate = [] \<or> candidate = asc ''-'' then None
         else case urlsplit (with_https candidate) of
           None \<Rightarrow> None
         | Some p \<Rightarrow>
             (case url_hostname p of
                None \<Rightarrow> None
              | Some host \<Rightarrow>
                  if url_scheme p \<noteq> asc ''https'' \<or> host \<notin> set vk_hosts then None
                  else case vk_path_name (url_path p) of
                    None \<Rightarrow> None
                  | Some name \<Rightarrow>
                      if url_query p \<noteq> [] \<or> url_fragment p \<noteq> [] then None
                      else Some (asc ''https://vk.com/'' @ name)))"

section \<open>Telegram handles and profile links\<close>

definition is_handle_char :: "nat \<Rightarrow> bool" where
  "is_handle_char c \<longleftrightarrow> ascii_alnum c \<or> c = 95"

definition skip_word :: ustring where
  "skip_word = [1055, 1088, 1086, 1087, 1091, 1089, 1090, 1080, 1090, 1100]"

definition valid_handle_name :: "ustring \<Rightarrow> bool" where
  "valid_handle_name s \<longleftrightarrow> 5 \<le> length s \<and> length s \<le> 32 \<and> list_all is_handle_char s"

text \<open>The outer \<open>None\<close> is the \<open>ValueError\<close>; \<open>Some None\<close> is a value that stands for no handle.\<close>

definition normalize_telegram_handle :: "ustring option \<Rightarrow> ustring option option" where
  "normalize_telegram_handle value =
     (case value of
        None \<Rightarrow> Some None
      | Some s \<Rightarrow>
          if strip s \<in> {[], asc ''-'', skip_word} then Some None
          else
            let candidate = casefold (remove_prefix (asc ''@'') (strip s))
            in if valid_handle_name candidate then Some (Some (asc ''@'' @ candidate)) else None)"

definition telegram_profile_hosts :: "ustring list" where
  "telegram_profile_hosts = map asc [''t.me'', ''www.t.me'', ''telegram.me'', ''www.telegram.me'']"

definition is_positive_number :: "ustring \<Rightarrow> bool" where
  "is_positive_number s \<longleftrightarrow> s \<noteq> [] \<and> hd s \<noteq> 48 \<and> list_all is_ascii_digit s"

text \<open>The handle of a VK mention: \<open>[id1|@handle]\<close>.\<close>

definition vk_mention_handle :: "ustring \<Rightarrow> ustring option" where
  "vk_mention_handle s =
     (if starts_with (asc ''[id'') s \<and> last s = 93 then
        (let body = butlast (drop 3 s);
             number = before_char 124 body;
             handle = after_char 124 body
         in if 124 \<in> set body \<and> is_positive_number number \<and> starts_with (asc ''@'') handle
               \<and> valid_handle_name (drop 1 handle)
            then Some handle else None)
      else None)"

definition normalize_telegram_profile :: "ustring \<Rightarrow> ustring option" where
  "normalize_telegram_profile value =
     (let stripped = strip value;
          candidate = (case vk_mention_handle stripped of Some h \<Rightarrow> h | None \<Rightarrow> stripped)
      in if starts_with (asc ''@'') candidate then
           (case normalize_telegram_handle (Some candidate) of Some (Some h) \<Rightarrow> Some h | _ \<Rightarrow> None)
         else case urlsplit (with_https candidate) of
           None \<Rightarrow> None
         | Some p \<Rightarrow>
             (case (url_hostname p, url_port p) of
                (Some host, Some None) \<Rightarrow>
                  if url_scheme p \<noteq> asc ''https'' \<or> host \<notin> set telegram_profile_hosts
                     \<or> url_query p \<noteq> [] \<or> url_fragment p \<noteq> [] then None
                  else (case filter (\<lambda>w. w \<noteq> []) (split_on 47 (url_path p)) of
                    [part] \<Rightarrow>
                      (case normalize_telegram_handle (Some part) of Some (Some h) \<Rightarrow> Some h | _ \<Rightarrow> None)
                  | _ \<Rightarrow> None)
              | _ \<Rightarrow> None))"

section \<open>Links to posts\<close>

definition telegram_channel_name :: "ustring \<Rightarrow> bool" where
  "telegram_channel_name s \<longleftrightarrow>
     4 \<le> length s \<and> length s \<le> 32 \<and> ascii_alpha (hd s) \<and> list_all is_handle_char (tl s)"

fun telegram_post_parts :: "ustring list \<Rightarrow> bool" where
  "telegram_post_parts [channel, number] =
     (telegram_channel_name channel \<and> is_positive_number number)"
| "telegram_post_parts [c, chat, number] =
     (c = asc ''c'' \<and> is_positive_number chat \<and> is_positive_number number)"
| "telegram_post_parts _ = False"

fun telegram_post_path :: "ustring \<Rightarrow> bool" where
  "telegram_post_path [] = False"
| "telegram_post_path (c # rest) =
     (let parts = split_on 47 (without_final_slash rest)
      in c = 47 \<and> (telegram_post_parts parts \<or> parts \<noteq> [] \<and> hd parts = asc ''s'' \<and> telegram_post_parts (tl parts)))"

definition vk_post_path :: "ustring \<Rightarrow> bool" where
  "vk_post_path path =
     (starts_with (asc ''/wall'') path \<and>
       (let body = remove_prefix (asc ''-'') (without_final_slash (drop 5 path))
        in 95 \<in> set body \<and> is_positive_number (before_char 95 body)
           \<and> is_positive_number (after_char 95 body)))"

definition post_url :: "ustring list \<Rightarrow> (ustring \<Rightarrow> bool) \<Rightarrow> ustring \<Rightarrow> ustring option" where
  "post_url hosts path_pattern value =
     (case urlsplit (with_https (strip value)) of
        None \<Rightarrow> None
      | Some p \<Rightarrow>
          (case (url_hostname p, url_port p) of
             (Some host, Some None) \<Rightarrow>
               if url_scheme p \<noteq> asc ''https'' \<or> host \<notin> set hosts \<or> url_has_credentials p
                  \<or> url_query p \<noteq> [] \<or> url_fragment p \<noteq> [] \<or> \<not> path_pattern (url_path p) then None
               else Some (asc ''https://'' @ remove_prefix (asc ''www.'') host
                            @ rstrip_by (\<lambda>c. c = 47) (url_path p))
           | _ \<Rightarrow> None))"

definition normalize_telegram_post_url :: "ustring \<Rightarrow> ustring option" where
  "normalize_telegram_post_url value = post_url telegram_profile_hosts telegram_post_path value"

text \<open>\<open>s.replace(old, new)\<close> for a non-empty \<open>old\<close>.\<close>

function replace_text :: "ustring \<Rightarrow> ustring \<Rightarrow> ustring \<Rightarrow> ustring" where
  "replace_text old new [] = []"
| "replace_text old new (c # s) =
     (if old \<noteq> [] \<and> starts_with old (c # s) then new @ replace_text old new (drop (length old) (c # s))
      else c # replace_text old new s)"
  by pat_completeness auto
termination
  by (relation "measure (\<lambda>(old, new, s). length s)") (auto simp: neq_Nil_conv)

definition normalize_vk_post_url :: "ustring \<Rightarrow> ustring option" where
  "normalize_vk_post_url value =
     map_option
       (\<lambda>url. replace_text (asc ''https://m.vk.ru/'') (asc ''https://vk.com/'')
               (replace_text (asc ''https://m.vk.com/'') (asc ''https://vk.com/'')
                 (replace_text (asc ''https://vk.ru/'') (asc ''https://vk.com/'') url)))
       (post_url vk_hosts vk_post_path value)"

section \<open>Chat links\<close>

definition telegram_chat_hosts :: "ustring list" where
  "telegram_chat_hosts = map asc [''t.me'', ''www.t.me'', ''telegram.me'', ''www.telegram.me'',
     ''telegram.dog'', ''www.telegram.dog'']"

definition is_invite_char :: "nat \<Rightarrow> bool" where
  "is_invite_char c \<longleftrightarrow> ascii_alnum c \<or> c \<in> {95, 45}"

definition telegram_chat_path :: "ustring \<Rightarrow> bool" where
  "telegram_chat_path path =
     (case path of
        [] \<Rightarrow> False
      | c # rest \<Rightarrow>
          let body = without_final_slash rest
          in c = 47 \<and>
             (starts_with (asc ''+'') body \<and> drop 1 body \<noteq> [] \<and> list_all is_invite_char (drop 1 body)
              \<or> starts_with (asc ''joinchat/'') body \<and> drop 9 body \<noteq> [] \<and> list_all is_invite_char (drop 9 body)
              \<or> telegram_channel_name body))"

definition is_vk_join_char :: "nat \<Rightarrow> bool" where
  "is_vk_join_char c \<longleftrightarrow> ascii_alnum c \<or> c \<in> {95, 43, 61, 45}"

definition vk_chat_path :: "ustring \<Rightarrow> bool" where
  "vk_chat_path path =
     (starts_with (asc ''/join/'') path \<and>
       list_all (\<lambda>w. w \<noteq> [] \<and> list_all is_vk_join_char w) (split_on 47 (without_final_slash (drop 6 path))))"

definition is_plain_chat_link :: "ustring \<Rightarrow> bool" where
  "is_plain_chat_link value =
     (let candidate = strip value
      in if candidate = [] \<or> list_ex is_space candidate then False
         else case urlsplit candidate of
           None \<Rightarrow> False
         | Some p \<Rightarrow>
             (case url_port p of
                Some None \<Rightarrow>
                  let host = casefold (case url_hostname p of None \<Rightarrow> [] | Some h \<Rightarrow> h)
                  in if casefold (url_scheme p) \<notin> {asc ''http'', asc ''https''} \<or> url_has_credentials p then False
                     else if url_query p \<noteq> [] \<or> url_fragment p \<noteq> [] then False
                     else if host \<in> set telegram_chat_hosts then telegram_chat_path (url_path p)
                     else host \<in> {asc ''vk.me'', asc ''www.vk.me''} \<and> vk_chat_path (url_path p)
              | _ \<Rightarrow> False))"

section \<open>Normal forms\<close>

lemma casefold_char_no_upper: "x \<in> set (casefold_char c) \<Longrightarrow> \<not> ascii_upper x"
proof -
  assume x: "x \<in> set (casefold_char c)"
  have ranges: "list_all (\<lambda>(lo, hi, st, d). 90 < int lo + d) casefold_ranges"
    by (simp add: casefold_ranges_def)
  have specials: "list_all (\<lambda>(k, v). list_all (\<lambda>x. \<not> ascii_upper x) v) casefold_special"
    by (simp add: casefold_special_def ascii_upper_def)
  show ?thesis
  proof (cases "c < 128")
    case True
    with x show ?thesis by (auto simp: casefold_char_ascii ascii_upper_def split: if_splits)
  next
    case False
    show ?thesis
    proof (cases "map_of casefold_special c")
      case (Some v)
      with x have "x \<in> set v" by (simp add: casefold_char_def fold_char_def)
      with map_of_SomeD[OF Some] specials show ?thesis by (force simp: list_all_iff)
    next
      case None
      then show ?thesis
      proof (cases "List.find (in_range c) casefold_ranges")
        case (Some r)
        obtain lo hi st d where r: "r = (lo, hi, st, d)" by (cases r)
        with Some have "(lo, hi, st, d) \<in> set casefold_ranges" "in_range c (lo, hi, st, d)"
          unfolding find_Some_iff in_set_conv_nth by metis+
        then have "(lo, hi, st, d) \<in> set casefold_ranges" "lo \<le> c" by simp_all
        with ranges have "90 < int c + d" by (force simp: list_all_iff)
        with x None Some show ?thesis
          by (auto simp: casefold_char_def fold_char_def r ascii_upper_def)
      next
        assume "List.find (in_range c) casefold_ranges = None"
        with x None False show ?thesis
          by (auto simp: casefold_char_def fold_char_def ascii_upper_def)
      qed
    qed
  qed
qed

lemma casefold_no_upper: "x \<in> set (casefold s) \<Longrightarrow> \<not> ascii_upper x"
  by (auto simp: casefold_def casefold_char_no_upper)

lemma handle_char_ascii: "is_handle_char c \<Longrightarrow> c < 128 \<and> \<not> is_space c"
  by (auto simp: is_handle_char_def ascii_defs is_space_def space_chars_def)

lemma normalize_telegram_handle_shape:
  assumes "normalize_telegram_handle v = Some (Some h)"
  shows "\<exists>n. h = 64 # n \<and> valid_handle_name n \<and> casefold n = n"
proof -
  from assms obtain s where
    h: "h = 64 # casefold (remove_prefix (asc ''@'') (strip s))" and
    v: "valid_handle_name (casefold (remove_prefix (asc ''@'') (strip s)))"
    by (auto simp: normalize_telegram_handle_def Let_def split: option.splits if_splits)
  have "casefold n = n" if "valid_handle_name n" "\<forall>x \<in> set n. \<not> ascii_upper x" for n
    using that handle_char_ascii by (intro casefold_ascii) (auto simp: valid_handle_name_def list_all_iff)
  with h v casefold_no_upper show ?thesis by blast
qed

lemma normalize_telegram_handle_idem:
  assumes "normalize_telegram_handle v = Some (Some h)"
  shows "normalize_telegram_handle (Some h) = Some (Some h)"
proof -
  obtain n where h: "h = 64 # n" and n: "valid_handle_name n" "casefold n = n"
    using normalize_telegram_handle_shape[OF assms] by blast
  have "\<not> is_space c" if "c \<in> set n" for c
    using n(1) handle_char_ascii that by (auto simp: valid_handle_name_def list_all_iff)
  then have "strip h = h"
    unfolding h by (intro strip_by_no_sep) (auto simp: is_space_def space_chars_def)
  moreover have "h \<noteq> []" "h \<noteq> asc ''-''" "h \<noteq> skip_word" by (simp_all add: h skip_word_def)
  moreover have "remove_prefix (asc ''@'') h = n" by (simp add: h remove_prefix_def)
  ultimately show ?thesis
    using n by (simp add: normalize_telegram_handle_def h)
qed

lemma vk_path_char_plain:
  "is_vk_path_char c \<Longrightarrow> c < 128 \<and> 32 < c \<and> c \<notin> {35, 47, 58, 63, 64} \<and> \<not> is_space c"
  by (auto simp: is_vk_path_char_def ascii_defs is_space_def space_chars_def)

lemma vk_path_name_shape:
  "vk_path_name path = Some name \<Longrightarrow>
     1 \<le> length name \<and> length name \<le> 100 \<and> list_all is_vk_path_char name"
  by (cases path) (auto simp: Let_def split: if_splits)

lemma before_char_absent [simp]: "c \<notin> set s \<Longrightarrow> before_char c s = s"
  by (auto simp: before_char_def takeWhile_eq_all_conv)

lemma after_char_absent [simp]: "c \<notin> set s \<Longrightarrow> after_char c s = []"
  unfolding after_char_def by (induction s) auto

lemma urlsplit_vk_profile:
  assumes "list_all is_vk_path_char name"
  shows "urlsplit (asc ''https://vk.com/'' @ name) =
     Some \<lparr>url_scheme = asc ''https'', url_netloc = asc ''vk.com'', url_path = 47 # name,
           url_query = [], url_fragment = []\<rparr>"
proof -
  have c: "c \<noteq> 35" "c \<noteq> 63" "c \<noteq> 9" "c \<noteq> 10" "c \<noteq> 13" if "c \<in> set name" for c
    using vk_path_char_plain[of c] assms that by (auto simp: list_all_iff)
  have f: "filter (\<lambda>c. c \<notin> {9, 10, 13}) name = name"
    using c by (auto intro: filter_True)
  have t: "35 \<notin> set (47 # name)" "63 \<notin> set (47 # name)" using c by auto
  have l: "lower (asc ''https'') = asc ''https''"
    by (rule lower_ascii) (auto simp: ascii_upper_def)
  let ?url = "asc ''https://vk.com/'' @ name"
  have u: "filter (\<lambda>c. c \<notin> {9, 10, 13}) (dropWhile (\<lambda>c. c \<le> 32) ?url) = ?url"
    using f by simp
  have b: "before_char 58 ?url = asc ''https''" "after_char 58 ?url = asc ''//vk.com/'' @ name"
    by (simp_all add: before_char_def after_char_def)
  have h: "58 \<in> set ?url" "asc ''https'' \<noteq> []" "ascii_alpha (hd (asc ''https''))"
    "list_all is_scheme_char (asc ''https'')" "starts_with [47, 47] (asc ''//vk.com/'' @ name)"
    by (simp_all add: is_scheme_char_def ascii_defs)
  have n: "takeWhile (\<lambda>c. c \<notin> {47, 63, 35}) (drop 2 (asc ''//vk.com/'' @ name)) = asc ''vk.com''"
    "dropWhile (\<lambda>c. c \<notin> {47, 63, 35}) (drop 2 (asc ''//vk.com/'' @ name)) = 47 # name"
    by simp_all
  have s: "91 \<notin> set (asc ''vk.com'')" "93 \<notin> set (asc ''vk.com'')"
    "\<not> (\<exists>c \<in> set (asc ''vk.com''). c \<in> set nfkc_unsafe)"
    by (simp_all add: nfkc_unsafe_def)
  have p: "before_char 63 (before_char 35 (47 # name)) = 47 # name"
    "after_char 63 (before_char 35 (47 # name)) = []" "after_char 35 (47 # name) = []"
    using t by simp_all
  show ?thesis
    unfolding urlsplit_def Let_def u b using h s by (simp only: if_True if_False n l p simp_thms)
qed

lemma normalize_vk_url_shape:
  assumes "normalize_vk_url v = Some url"
  obtains name where "url = asc ''https://vk.com/'' @ name" and "1 \<le> length name"
    and "length name \<le> 100" and "list_all is_vk_path_char name"
proof -
  from assms have "\<exists>(p :: split_url) name. vk_path_name (url_path p) = Some name \<and> url = asc ''https://vk.com/'' @ name"
    by (auto simp: normalize_vk_url_def Let_def split: option.splits if_splits)
  then obtain p :: split_url and name where "vk_path_name (url_path p) = Some name"
    and "url = asc ''https://vk.com/'' @ name" by blast
  with that show ?thesis using vk_path_name_shape by blast
qed

lemma normalize_vk_url_canonical:
  assumes "1 \<le> length name" and "length name \<le> 100" and "list_all is_vk_path_char name"
  shows "normalize_vk_url (asc ''https://vk.com/'' @ name) = Some (asc ''https://vk.com/'' @ name)"
proof -
  let ?url = "asc ''https://vk.com/'' @ name"
  have "list_all (\<lambda>c. \<not> is_space c) (asc ''https://vk.com/'')"
    by (simp add: is_space_def space_chars_def)
  moreover have "list_all (\<lambda>c. \<not> is_space c) name"
    using assms(3) vk_path_char_plain by (auto simp: list_all_iff)
  ultimately have "strip ?url = ?url"
    by (intro strip_by_list_all) (simp only: list_all_append)
  moreover have "with_https ?url = ?url" by (simp add: with_https_def)
  moreover have "name \<noteq> []" using assms(1) by auto
  moreover from this have "is_vk_path_char (last name)" using assms(3) by (simp add: list_all_iff)
  then have "last name \<noteq> 47" using vk_path_char_plain[of "last name"] by simp
  moreover have "lower (asc ''vk.com'') = asc ''vk.com''"
    by (rule lower_ascii) (auto simp: ascii_upper_def)
  then have "url_hostname \<lparr>url_scheme = asc ''https'', url_netloc = asc ''vk.com'', url_path = 47 # name,
      url_query = [], url_fragment = []\<rparr> = Some (asc ''vk.com'')"
    by (simp add: url_hostname_def url_hostinfo_def before_char_def after_last_char_def)
  moreover have "vk_path_name (47 # name) = Some name"
    using assms \<open>last name \<noteq> 47\<close> by (simp add: without_final_slash_def)
  moreover have "asc ''vk.com'' \<in> set vk_hosts" by (simp add: vk_hosts_def)
  moreover have "?url \<noteq> []" "?url \<noteq> asc ''-''" by simp_all
  ultimately show ?thesis
    unfolding normalize_vk_url_def Let_def by (simp del: asc_Cons add: urlsplit_vk_profile[OF assms(3)])
qed

lemma normalize_vk_url_idem:
  assumes "normalize_vk_url v = Some url"
  shows "normalize_vk_url url = Some url"
  using normalize_vk_url_shape[OF assms] normalize_vk_url_canonical by metis

section \<open>Normal forms\<close>

text \<open>
  An accepted VK profile is stored as the vk.com address and a name of 1 to 100 plain characters,
  and the normaliser leaves that form alone.
\<close>

theorem vk_profile_canonical:
  assumes "normalize_vk_url v = Some url"
  shows "(\<exists>name. url = asc ''https://vk.com/'' @ name \<and> 1 \<le> length name \<and> length name \<le> 100
      \<and> list_all is_vk_path_char name) \<and> normalize_vk_url url = Some url"
  using normalize_vk_url_shape[OF assms] normalize_vk_url_idem[OF assms] by metis

theorem vk_profile_canonical_witness:
  "normalize_vk_url (asc ''https://vk.com/id7'') = Some (asc ''https://vk.com/id7'')"
proof -
  have "normalize_vk_url (asc ''https://vk.com/'' @ asc ''id7'') = Some (asc ''https://vk.com/'' @ asc ''id7'')"
    by (rule normalize_vk_url_canonical) (simp_all add: is_vk_path_char_def ascii_defs)
  from vk_profile_canonical[OF this] show ?thesis by simp
qed

text \<open>
  An accepted Telegram handle is an at sign with a lower-case name of 5 to 32 characters, whatever
  case, at sign or blanks the user typed, and the normaliser leaves that form alone.
\<close>

theorem telegram_handle_canonical:
  assumes "normalize_telegram_handle v = Some (Some h)"
  shows "(\<exists>n. h = 64 # n \<and> valid_handle_name n \<and> casefold n = n)
    \<and> normalize_telegram_handle (Some h) = Some (Some h)"
  using normalize_telegram_handle_shape[OF assms] normalize_telegram_handle_idem[OF assms] by blast

theorem telegram_handle_canonical_witness:
  "normalize_telegram_handle (Some (asc '' @Ivan_Petrov '')) = Some (Some (asc ''@ivan_petrov''))
   \<and> normalize_telegram_handle (Some (asc ''@ivan_petrov'')) = Some (Some (asc ''@ivan_petrov''))"
proof -
  have c: "casefold (asc ''Ivan_Petrov'') = asc ''ivan_petrov''"
    by (simp add: casefold_def casefold_char_ascii ascii_upper_def)
  have s: "strip (asc '' @Ivan_Petrov '') = asc ''@Ivan_Petrov''"
    by (simp add: strip_by_def is_space_def space_chars_def)
  have r: "remove_prefix (asc ''@'') (asc ''@Ivan_Petrov'') = asc ''Ivan_Petrov''"
    by (simp add: remove_prefix_def)
  have e: "normalize_telegram_handle (Some (asc '' @Ivan_Petrov '')) = Some (Some (asc ''@ivan_petrov''))"
    unfolding normalize_telegram_handle_def Let_def option.case s r c
    by (simp add: skip_word_def valid_handle_name_def is_handle_char_def ascii_defs)
  from e telegram_handle_canonical[OF e] show ?thesis by blast
qed

end
