(* ===== verification/Names.thy ===== *)
theory Names
  imports Unicode_Text
begin

text \<open>
  The validators of names, phones, e-mail addresses and nicknames in \<open>domain/models.py\<close>, and the
  pass data built from them.  \<open>None\<close> is the \<open>ValueError\<close> (pydantic's \<open>ValidationError\<close> is one).
  The regular expressions are written out as predicates on code points; \<open>fullmatch\<close> leaves no
  room for the trailing line break that \<open>$\<close> alone would let through.
\<close>

section \<open>Character classes\<close>

definition is_cyrillic :: "nat \<Rightarrow> bool" where
  "is_cyrillic c \<longleftrightarrow> 1040 \<le> c \<and> c \<le> 1103 \<or> c = 1025 \<or> c = 1105"

text \<open>White space for pydantic's own patterns and stripping (the Unicode \<open>White_Space\<close> property).\<close>

definition rust_space :: "nat \<Rightarrow> bool" where
  "rust_space c \<longleftrightarrow> is_space c \<and> c \<notin> {28, 29, 30, 31}"

section \<open>Names\<close>

text \<open>A first and a last letter, and letters, blanks or the given marks between: 1 to 100 characters.\<close>

definition name_shape :: "(nat \<Rightarrow> bool) \<Rightarrow> nat set \<Rightarrow> ustring \<Rightarrow> bool" where
  "name_shape letter marks s \<longleftrightarrow>
     1 \<le> length s \<and> length s \<le> 100 \<and> letter (hd s) \<and> letter (last s)
     \<and> list_all (\<lambda>c. letter c \<or> c \<in> marks) s"

definition validate_cyrillic_name :: "bool \<Rightarrow> ustring \<Rightarrow> ustring option" where
  "validate_cyrillic_name patronym value =
     (let clean = strip value
      in if patronym \<and> clean = asc ''-'' then Some clean
         else if name_shape is_cyrillic {32, 45} clean then Some clean else None)"

definition validate_latin_name :: "bool \<Rightarrow> ustring \<Rightarrow> ustring option" where
  "validate_latin_name patronym value =
     (let clean = strip value
      in if patronym \<and> clean = asc ''-'' then Some clean
         else if name_shape ascii_alpha {32, 39, 45} clean then Some clean else None)"

text \<open>\<open>[letters]+(?:[marks][letters]+)*\<close>: no two marks in a row, none first or last.\<close>

fun name_part :: "(nat \<Rightarrow> bool) \<Rightarrow> nat set \<Rightarrow> ustring \<Rightarrow> bool" where
  "name_part letter marks [] = False"
| "name_part letter marks [c] = letter c"
| "name_part letter marks (c # d # s) =
     (letter c \<and> (if d \<in> marks \<and> \<not> letter d then name_part letter marks s
                  else name_part letter marks (d # s)))"

datatype alphabet = Cyrillic | Latin

fun full_name_part :: "alphabet \<Rightarrow> ustring \<Rightarrow> bool" where
  "full_name_part Cyrillic s = name_part is_cyrillic {45} s"
| "full_name_part Latin s = name_part ascii_alpha {45, 39} s"

definition parse_full_name :: "alphabet \<Rightarrow> ustring \<Rightarrow> ustring list option" where
  "parse_full_name alpha value =
     (let parts = split_words value
      in if length parts \<notin> {2, 3} \<or> 300 < length (join_with 32 parts)
            \<or> list_ex (\<lambda>part. 100 < length part \<or> \<not> full_name_part alpha part) parts
         then None else Some parts)"

definition surname_and_name :: "ustring \<Rightarrow> ustring" where
  "surname_and_name value = join_with 32 (take 2 (split_words value))"

section \<open>Phones, e-mail addresses, nicknames\<close>

definition is_phone_char :: "nat \<Rightarrow> bool" where
  "is_phone_char c \<longleftrightarrow> is_ascii_digit c \<or> c \<in> {32, 40, 41, 45}"

definition phone_shape :: "ustring \<Rightarrow> bool" where
  "phone_shape s \<longleftrightarrow>
     (let body = remove_prefix (asc ''+'') s
      in 8 \<le> length body \<and> length body \<le> 24 \<and> is_ascii_digit (hd body) \<and> list_all is_phone_char body)"

definition normalize_mobile_phone :: "ustring \<Rightarrow> ustring option" where
  "normalize_mobile_phone value =
     (let clean = strip value; digits = length (filter is_ascii_digit clean)
      in if \<not> phone_shape clean \<or> \<not> (10 \<le> digits \<and> digits \<le> 15) then None else Some clean)"

text \<open>The pattern of \<open>PassEmail\<close>: one at sign, no white space, a full stop inside the domain.\<close>

definition email_shape :: "ustring \<Rightarrow> bool" where
  "email_shape s \<longleftrightarrow>
     (let local = takeWhile (\<lambda>c. c \<noteq> 64) s; domain = drop 1 (dropWhile (\<lambda>c. c \<noteq> 64) s)
      in length s \<le> 254 \<and> 64 \<in> set s \<and> \<not> list_ex rust_space s
         \<and> local \<noteq> [] \<and> hd local \<noteq> 61 \<and> 64 \<notin> set domain
         \<and> list_ex (\<lambda>i. domain ! i = 46) [1..<length domain - 1])"

definition validate_pass_email :: "ustring \<Rightarrow> ustring option" where
  "validate_pass_email value = (if email_shape (strip value) then Some (strip value) else None)"

definition nickname_shape :: "ustring \<Rightarrow> bool" where
  "nickname_shape s \<longleftrightarrow> 1 \<le> length s \<and> length s \<le> 100 \<and> 10 \<notin> set s \<and> 13 \<notin> set s"

definition normalize_nickname :: "ustring \<Rightarrow> ustring option" where
  "normalize_nickname value =
     (let clean = strip_by rust_space value in if nickname_shape clean then Some clean else None)"

section \<open>Pass data\<close>

record pass_details =
  surname_cyrillic :: ustring
  name_cyrillic :: ustring
  patronym_cyrillic :: ustring
  foreigner :: bool
  surname_latin :: "ustring option"
  name_latin :: "ustring option"
  patronym_latin :: "ustring option"
  mobile_phone :: ustring
  email :: ustring

definition pass_field_length :: "ustring \<Rightarrow> bool" where
  "pass_field_length s \<longleftrightarrow> 1 \<le> length s \<and> length s \<le> 100"

text \<open>A validator under \<open>| None\<close>: an absent value stays absent.\<close>

definition optionally :: "('a \<Rightarrow> 'b option) \<Rightarrow> 'a option \<Rightarrow> 'b option option" where
  "optionally f v = (case v of None \<Rightarrow> Some None | Some x \<Rightarrow> map_option Some (f x))"

definition names_match_citizenship :: "pass_details \<Rightarrow> bool" where
  "names_match_citizenship p \<longleftrightarrow>
     (let latin = [surname_latin p, name_latin p, patronym_latin p]
      in \<not> (\<not> foreigner p \<and> list_ex (\<lambda>v. v \<noteq> None) latin)
         \<and> \<not> (foreigner p \<and> list_ex (\<lambda>v. v = None) latin)
         \<and> \<not> (foreigner p \<and> (patronym_cyrillic p = asc ''-'') \<noteq> (patronym_latin p = Some (asc ''-''))))"

definition pass_lengths_ok :: "pass_details \<Rightarrow> bool" where
  "pass_lengths_ok p \<longleftrightarrow>
     list_all pass_field_length [surname_cyrillic p, name_cyrillic p, patronym_cyrillic p]
     \<and> list_all (\<lambda>v. case v of None \<Rightarrow> True | Some s \<Rightarrow> pass_field_length s)
         [surname_latin p, name_latin p, patronym_latin p]
     \<and> 8 \<le> length (mobile_phone p) \<and> length (mobile_phone p) \<le> 25"

definition validate_pass_details :: "pass_details \<Rightarrow> pass_details option" where
  "validate_pass_details p =
     (if \<not> pass_lengths_ok p \<or> \<not> email_shape (email p) then None
      else
        (case (validate_cyrillic_name False (surname_cyrillic p),
               validate_cyrillic_name False (name_cyrillic p),
               validate_cyrillic_name True (patronym_cyrillic p),
               optionally (validate_latin_name False) (surname_latin p),
               optionally (validate_latin_name False) (name_latin p),
               optionally (validate_latin_name True) (patronym_latin p),
               normalize_mobile_phone (mobile_phone p)) of
           (Some sc, Some nc, Some pc, Some sl, Some nl, Some pl, Some phone) \<Rightarrow>
             (let q = p\<lparr>surname_cyrillic := sc, name_cyrillic := nc, patronym_cyrillic := pc,
                        surname_latin := sl, name_latin := nl, patronym_latin := pl,
                        mobile_phone := phone\<rparr>
              in if names_match_citizenship q then Some q else None)
         | _ \<Rightarrow> None))"

section \<open>The validators accept their own results\<close>

lemma validate_cyrillic_name_fix:
  "validate_cyrillic_name b v = Some w \<Longrightarrow> validate_cyrillic_name b w = Some w"
  by (auto simp: validate_cyrillic_name_def Let_def split: if_splits)

lemma validate_latin_name_fix:
  "validate_latin_name b v = Some w \<Longrightarrow> validate_latin_name b w = Some w"
  by (auto simp: validate_latin_name_def Let_def split: if_splits)

lemma normalize_mobile_phone_fix:
  "normalize_mobile_phone v = Some w \<Longrightarrow> normalize_mobile_phone w = Some w"
  by (auto simp: normalize_mobile_phone_def Let_def split: if_splits)

lemma normalize_nickname_fix:
  "normalize_nickname v = Some w \<Longrightarrow> normalize_nickname w = Some w"
  by (auto simp: normalize_nickname_def Let_def split: if_splits)

lemma validate_name_length:
  "validate_cyrillic_name b v = Some w \<Longrightarrow> pass_field_length w"
  "validate_latin_name b v = Some w \<Longrightarrow> pass_field_length w"
  by (auto simp: validate_cyrillic_name_def validate_latin_name_def Let_def name_shape_def
      pass_field_length_def dest: arg_cong[of _ _ length] split: if_splits)

lemma normalize_mobile_phone_length:
  "normalize_mobile_phone v = Some w \<Longrightarrow> 8 \<le> length w \<and> length w \<le> 25"
  by (auto simp: normalize_mobile_phone_def phone_shape_def remove_prefix_def Let_def
      split: if_splits)

lemmas validator_fix = validate_cyrillic_name_fix validate_latin_name_fix normalize_mobile_phone_fix

lemma optionally_fix:
  "(\<And>v w. f v = Some w \<Longrightarrow> f w = Some w) \<Longrightarrow> optionally f v = Some w \<Longrightarrow> optionally f w = Some w"
  by (auto simp: optionally_def split: option.splits)

lemma optionally_length:
  "(\<And>v w. f v = Some w \<Longrightarrow> P w) \<Longrightarrow> optionally f v = Some w \<Longrightarrow> case w of None \<Rightarrow> True | Some s \<Rightarrow> P s"
  by (auto simp: optionally_def split: option.splits)

lemma validate_pass_details_cases:
  assumes "validate_pass_details p = Some q"
  obtains sc nc pc sl nl pl phone where
    "q = p\<lparr>surname_cyrillic := sc, name_cyrillic := nc, patronym_cyrillic := pc,
           surname_latin := sl, name_latin := nl, patronym_latin := pl, mobile_phone := phone\<rparr>"
    and "names_match_citizenship q" and "email_shape (email p)"
    and "validate_cyrillic_name False (surname_cyrillic p) = Some sc"
    and "validate_cyrillic_name False (name_cyrillic p) = Some nc"
    and "validate_cyrillic_name True (patronym_cyrillic p) = Some pc"
    and "optionally (validate_latin_name False) (surname_latin p) = Some sl"
    and "optionally (validate_latin_name False) (name_latin p) = Some nl"
    and "optionally (validate_latin_name True) (patronym_latin p) = Some pl"
    and "normalize_mobile_phone (mobile_phone p) = Some phone"
  using assms unfolding validate_pass_details_def Let_def
  by (auto split: if_splits option.splits prod.splits)

lemma validate_pass_details_fix:
  assumes "validate_pass_details p = Some q"
  shows "validate_pass_details q = Some q"
proof -
  from assms obtain sc nc pc sl nl pl phone where
    q: "q = p\<lparr>surname_cyrillic := sc, name_cyrillic := nc, patronym_cyrillic := pc,
           surname_latin := sl, name_latin := nl, patronym_latin := pl, mobile_phone := phone\<rparr>"
    and n: "names_match_citizenship q" and e: "email_shape (email p)"
    and v: "validate_cyrillic_name False (surname_cyrillic p) = Some sc"
      "validate_cyrillic_name False (name_cyrillic p) = Some nc"
      "validate_cyrillic_name True (patronym_cyrillic p) = Some pc"
    and l: "optionally (validate_latin_name False) (surname_latin p) = Some sl"
      "optionally (validate_latin_name False) (name_latin p) = Some nl"
      "optionally (validate_latin_name True) (patronym_latin p) = Some pl"
    and ph: "normalize_mobile_phone (mobile_phone p) = Some phone"
    by (rule validate_pass_details_cases)
  have lf: "optionally (validate_latin_name b) x = Some y \<Longrightarrow>
      optionally (validate_latin_name b) y = Some y" for b x y
    using validate_latin_name_fix by (rule optionally_fix)
  have len: "pass_lengths_ok q"
    using v[THEN validate_name_length(1)] normalize_mobile_phone_length[OF ph]
      optionally_length[OF validate_name_length(2) l(1)]
      optionally_length[OF validate_name_length(2) l(2)]
      optionally_length[OF validate_name_length(2) l(3)]
    by (simp add: pass_lengths_ok_def q)
  have fx:
    "validate_cyrillic_name False (surname_cyrillic q) = Some sc"
    "validate_cyrillic_name False (name_cyrillic q) = Some nc"
    "validate_cyrillic_name True (patronym_cyrillic q) = Some pc"
    "optionally (validate_latin_name False) (surname_latin q) = Some sl"
    "optionally (validate_latin_name False) (name_latin q) = Some nl"
    "optionally (validate_latin_name True) (patronym_latin q) = Some pl"
    "normalize_mobile_phone (mobile_phone q) = Some phone"
    using v[THEN validate_cyrillic_name_fix] l[THEN lf]
      normalize_mobile_phone_fix[OF ph]
    by (simp_all add: q)
  have eq: "q\<lparr>surname_cyrillic := sc, name_cyrillic := nc, patronym_cyrillic := pc,
      surname_latin := sl, name_latin := nl, patronym_latin := pl, mobile_phone := phone\<rparr> = q"
    by (simp add: q)
  show ?thesis
    unfolding validate_pass_details_def Let_def fx prod.case option.case eq
    using len n e by (simp add: q)
qed

lemma surname_and_name_idem: "surname_and_name (surname_and_name s) = surname_and_name s"
proof -
  have "list_all is_word (take 2 (split_words s))"
    using split_words_words[of s] by (auto simp: list_all_iff dest: in_set_takeD)
  then show ?thesis
    by (simp add: surname_and_name_def split_words_join)
qed

section \<open>Stored pass data\<close>

text \<open>
  Validated pass data obey the citizenship rule and the length bounds and pass validation again
  unchanged, so a stored user row can always be loaded.
\<close>

theorem pass_details_stable:
  assumes "validate_pass_details p = Some q"
  shows "validate_pass_details q = Some q \<and> names_match_citizenship q \<and> pass_lengths_ok q"
proof -
  have "names_match_citizenship q" by (rule validate_pass_details_cases[OF assms])
  moreover have "pass_lengths_ok q"
    using validate_pass_details_fix[OF assms]
    by (simp add: validate_pass_details_def split: if_splits)
  ultimately show ?thesis using validate_pass_details_fix[OF assms] by blast
qed

definition sample_pass :: pass_details where
  "sample_pass =
     \<lparr>surname_cyrillic = [32, 1048, 1074, 1072, 1085, 1086, 1074], name_cyrillic = [1048, 1074, 1072, 1085],
      patronym_cyrillic = asc ''-'', foreigner = False, surname_latin = None, name_latin = None,
      patronym_latin = None, mobile_phone = asc ''+79001234567 '', email = asc ''a@b.ru''\<rparr>"

theorem pass_details_stable_witness:
  "\<exists>q. validate_pass_details sample_pass = Some q \<and> names_match_citizenship q"
proof -
  let ?q = "sample_pass\<lparr>surname_cyrillic := [1048, 1074, 1072, 1085, 1086, 1074],
    mobile_phone := asc ''+79001234567''\<rparr>"
  have e: "email_shape (asc ''a@b.ru'')"
    by (simp add: email_shape_def rust_space_def is_space_def space_chars_def upt_rec)
  have v: "validate_pass_details sample_pass = Some ?q"
    by (simp add: validate_pass_details_def sample_pass_def e[simplified] pass_lengths_ok_def pass_field_length_def
        validate_cyrillic_name_def name_shape_def is_cyrillic_def strip_by_def is_space_def
        space_chars_def optionally_def normalize_mobile_phone_def phone_shape_def is_phone_char_def
        is_ascii_digit_def remove_prefix_def names_match_citizenship_def Let_def)
  from v pass_details_stable[OF v] show ?thesis by blast
qed

end
