(* ===== verification/Model.thy ===== *)
theory Model
  imports Calendar Links Names
begin

text \<open>
  The data of \<open>domain/models.py\<close>: enumerations, users, questions, events, registrations, payloads and
  ordered commands, each with the validation pydantic performs (\<open>None\<close> is a \<open>ValidationError\<close>, which
  is a \<open>ValueError\<close>).  A validated value is the normalised one, as a model instance is.
\<close>

section \<open>Exceptions\<close>

text \<open>
  The exceptions the modelled code raises.  A refusal (\<open>OperationNotAllowed\<close>, or a plain
  \<open>DomainError\<close>) names its message by a constructor; \<open>ExternalFailure\<close> is whatever a call outside the program (a table store, a messenger)
  raised.  \<open>OutOfFuel\<close> is not an exception of the code: it is where a loop that is given too little
  fuel ends, and the fuel that is given is proved to be enough.
\<close>

datatype refusal =
  OnlyLeadersAndAdmins | OnlyAdminsMayArchive | AlreadyArchived | GameNotActive | OnlyTimerMayOpen
| OnlyArchivedMayBeDeleted | ConfirmationNotOpenForGame | DeadlineNotSet | DateNotBeforeScheduledClose
| NoQuestion | OnlyTextsMayChange | LimitsSetPerAnswer | NotInReserve | NoLongerConfirmed
| NoWaitingToDemote | WrongParticipant | ProfileIncomplete | RegistrationClosed | RegistrationNotOpenYet
| AlreadyRegistered | AnswerRequired | AnswerUnexpected | ConfirmationNotOpenYet | ConfirmationClosed
| AlreadyCancelled | MustRegisterAgain | ConfirmedElsewhereThatDay | NoLongerConflicting
| ReplacedGameNotFound | DifferentDays | NoGameDate | FirstWishAtConfirmation | AnswerUnavailable
| RegistrationAlreadyClosed | GameDeleted | CloseNotScheduled | CloseChanged
| InsufficientRights | NoSuchGame | ArchivedNotForStatistics | ChatMembersWithoutNames "int list"
| MasterProfilesMissing | NamesNotCyrillic "ustring list" | NoActiveGamesThatDay

datatype exn =
  ValueError | KeyError | TypeError | AttributeError | PermissionError | RuntimeError | AssertionError | StopIteration
| EventNotFound | RegistrationNotFound | OperationNotAllowed refusal | DomainError refusal
| ExternalFailure | OutOfFuel

section \<open>Decimal and ISO renderings\<close>

fun show_nat :: "nat \<Rightarrow> ustring" where
  "show_nat n = (if n < 10 then [48 + n] else show_nat (n div 10) @ [48 + n mod 10])"

declare show_nat.simps [simp del]

definition show_int :: "int \<Rightarrow> ustring" where
  "show_int i = (if i < 0 then 45 # show_nat (nat (- i)) else show_nat (nat i))"

fun iso_date :: "date \<Rightarrow> ustring" where
  "iso_date (y, m, d) = show2 (y div 100) @ show2 (y mod 100) @ [45] @ show2 m @ [45] @ show2 d"

definition decimal_read :: "ustring \<Rightarrow> nat" where
  "decimal_read s = foldl (\<lambda>n c. 10 * n + (c - 48)) 0 s"

lemma decimal_read_show_nat [simp]: "decimal_read (show_nat n) = n"
proof (induction n rule: show_nat.induct)
  case (1 n)
  then show ?case
    by (subst show_nat.simps) (simp add: decimal_read_def)
qed

lemma show_nat_inj: "show_nat m = show_nat n \<Longrightarrow> m = n"
  by (metis decimal_read_show_nat)

lemma show_nat_digits: "c \<in> set (show_nat n) \<Longrightarrow> 48 \<le> c \<and> c \<le> 57"
proof (induction n rule: show_nat.induct)
  case (1 n)
  show ?case
  proof (cases "n < 10")
    case True
    with 1(2) show ?thesis by (subst (asm) show_nat.simps) simp
  next
    case False
    with 1(2) have "c \<in> set (show_nat (n div 10)) \<or> c = 48 + n mod 10"
      by (subst (asm) show_nat.simps) auto
    with 1(1)[OF False] show ?thesis by fastforce
  qed
qed

lemma show_int_digits: "c \<in> set (show_int i) \<Longrightarrow> c = 45 \<or> 48 \<le> c \<and> c \<le> 57"
  using show_nat_digits by (fastforce simp: show_int_def split: if_splits)

lemma show_int_inj: "show_int i = show_int j \<Longrightarrow> i = j"
proof -
  have hd: "hd (show_nat n) \<noteq> 45" "show_nat n \<noteq> []" for n
  proof -
    show ne: "show_nat n \<noteq> []" by (subst show_nat.simps) simp
    then show "hd (show_nat n) \<noteq> 45" using show_nat_digits[of "hd (show_nat n)" n] by auto
  qed
  assume eq: "show_int i = show_int j"
  show "i = j"
  proof (cases "i < 0"; cases "j < 0")
    assume "i < 0" "\<not> j < 0"
    with eq hd(1)[of "nat j"] show ?thesis by (auto simp: show_int_def dest: arg_cong[of _ _ hd])
  next
    assume "\<not> i < 0" "j < 0"
    with eq hd(1)[of "nat i"] show ?thesis by (auto simp: show_int_def)
  qed (use eq show_nat_inj[of "nat (- i)" "nat (- j)"] show_nat_inj[of "nat i" "nat j"] in
      \<open>simp_all add: show_int_def\<close>)
qed

section \<open>Enumerations\<close>

datatype platform = TELEGRAM | VK | SYSTEM

definition platform_value :: "platform \<Rightarrow> ustring" where
  "platform_value p = (case p of TELEGRAM \<Rightarrow> asc ''telegram'' | VK \<Rightarrow> asc ''vk'' | SYSTEM \<Rightarrow> asc ''system'')"

text \<open>A \<open>StrEnum\<close> compares as its string value: system, telegram, vk.\<close>

definition platform_rank :: "platform \<Rightarrow> nat" where
  "platform_rank p = (case p of SYSTEM \<Rightarrow> 0 | TELEGRAM \<Rightarrow> 1 | VK \<Rightarrow> 2)"

instantiation platform :: linorder
begin

definition less_eq_platform :: "platform \<Rightarrow> platform \<Rightarrow> bool" where
  "p \<le> q \<longleftrightarrow> platform_rank p \<le> platform_rank q"

definition less_platform :: "platform \<Rightarrow> platform \<Rightarrow> bool" where
  "p < q \<longleftrightarrow> platform_rank p < platform_rank q"

instance
  by standard (auto simp: less_eq_platform_def less_platform_def platform_rank_def split: platform.splits)

end

lemma platform_order_is_value_order: "p \<le> q \<longleftrightarrow> platform_value p \<le> platform_value q"
  by (cases p; cases q) (simp_all add: less_eq_platform_def platform_rank_def platform_value_def)

lemma platform_value_inj: "platform_value p = platform_value q \<Longrightarrow> p = q"
  by (cases p; cases q) (simp_all add: platform_value_def)

datatype privileged_role = GAMEMASTER | GAMEMASTER_VIEWER | PASS_MANAGER | ADMIN

fun role_level :: "privileged_role \<Rightarrow> nat" where
  "role_level GAMEMASTER = 1"
| "role_level GAMEMASTER_VIEWER = 2"
| "role_level PASS_MANAGER = 3"
| "role_level ADMIN = 4"

definition role_includes :: "privileged_role \<Rightarrow> privileged_role \<Rightarrow> bool" where
  "role_includes role required \<longleftrightarrow> role_level role \<ge> role_level required"

datatype event_status = CREATED | CONFIRMATION_OPEN | CLOSED

datatype attendance_status = WAITING | CONFIRMED | CANCELLED

datatype operation =
  STATISTICS | SYNC_PROFILE | REFRESH_DAILY_PASS_TABLE | REFRESH_EVENT_TABLES | ENLIST | UPDATE_PROFILE
| CONFIRM | UPDATE_CHARACTER_WISH | UPDATE_CO_PLAYER_WISH | UPDATE_ANSWER | UPDATE_QUESTION | CANCEL
| OPEN_REGISTRATION | OPEN_CONFIRMATION | SCHEDULED_OPEN_CONFIRMATION | SEND_CONFIRMATION_REMINDER
| SEND_CONFIRMED_NOTIFICATION | SEND_ALL_PLAYERS_NOTIFICATION | UPDATE_EVENT_DETAILS
| UPDATE_PLAYER_AMOUNT | REMOVE_PARTICIPANT | REMOVE_WAITING_PARTICIPANTS | PROMOTE_RESERVE_PARTICIPANT
| CLOSE_EVENT | ARCHIVE_EVENT | SCHEDULED_CLOSE_EVENT | SCHEDULED_CLOSE_STATISTICS
| SCHEDULED_CLOSE_FINALIZE | UNARCHIVE_EVENT | DELETE_EVENT

record button =
  bt_label :: ustring
  bt_value :: ustring

type_synonym bot_identity = "platform \<times> int"

definition valid_identity :: "bot_identity \<Rightarrow> bool" where
  "valid_identity i \<longleftrightarrow> 0 < snd i"

section \<open>Users\<close>

text \<open>
  The dialogue context is an arbitrary JSON object (a number that is not an integer is kept as its text).
  The fields common to both platforms form the
  record \<open>user_base\<close>; a user is a Telegram or a VK profile.
\<close>

datatype json =
  JNull | JBool bool | JInt int | JFloat ustring | JString ustring | JArray "json list" | JObject "(ustring \<times> json) list"

record user_base =
  us_full_name :: "ustring option"
  us_nickname :: "ustring option"
  us_crossplay :: "bool option"
  us_larp_experience :: "bool option"
  us_needs_pass :: "bool option"
  us_pass_details :: "pass_details option"
  us_dialog_state :: ustring
  us_dialog_context :: "(ustring \<times> json) list"
  us_last_update_id :: "ustring option"
  us_last_update_at :: "time option"
  us_last_delivery_operation_id :: "ustring option"
  us_last_bot_buttons :: "button list"
  us_is_gamemaster :: bool
  us_privileged_role :: "privileged_role option"
  us_gamemaster_grant_operation_id :: "ustring option"
  us_created_at :: time
  us_updated_at :: time

datatype (discs_sels) user =
  TelegramUser (base: user_base) (tg_id: int) (vk_url: "ustring option")
    (linked_vk: "int option") (telegram_handle: "ustring option")
| VkUser (base: user_base) (vk_id: int) (telegram_handle: "ustring option")

fun linked_vk_id :: "user \<Rightarrow> int option" where
  "linked_vk_id (TelegramUser _ _ _ l _) = l"
| "linked_vk_id (VkUser _ _ _) = None"

fun with_base :: "(user_base \<Rightarrow> user_base) \<Rightarrow> user \<Rightarrow> user" where
  "with_base f (TelegramUser b i v l h) = TelegramUser (f b) i v l h"
| "with_base f (VkUser b i h) = VkUser (f b) i h"

lemma base_with_base: "base (with_base f u) = f (base u)"
  by (cases u) simp_all

text \<open>The defaults of a user row.\<close>

definition new_user_base :: "time \<Rightarrow> user_base" where
  "new_user_base now =
     \<lparr>us_full_name = None, us_nickname = None, us_crossplay = None, us_larp_experience = None,
      us_needs_pass = None, us_pass_details = None, us_dialog_state = asc ''IDLE'',
      us_dialog_context = [], us_last_update_id = None, us_last_update_at = None,
      us_last_delivery_operation_id = None, us_last_bot_buttons = [], us_is_gamemaster = False,
      us_privileged_role = None, us_gamemaster_grant_operation_id = None,
      us_created_at = now, us_updated_at = now\<rparr>"

definition length_between :: "nat \<Rightarrow> nat \<Rightarrow> 'a list \<Rightarrow> bool" where
  "length_between lo hi s \<longleftrightarrow> lo \<le> length s \<and> length s \<le> hi"

definition user_base_validate :: "user_base \<Rightarrow> user_base option" where
  "user_base_validate b =
     (if case us_full_name b of None \<Rightarrow> False | Some s \<Rightarrow> \<not> length_between 2 300 s then None
      else
        (case (optionally normalize_nickname (us_nickname b),
               optionally validate_pass_details (us_pass_details b)) of
           (Some nick, Some details) \<Rightarrow>
             if us_needs_pass b = Some False \<and> details \<noteq> None then None
             else Some (b\<lparr>us_nickname := nick, us_pass_details := details\<rparr>)
         | _ \<Rightarrow> None))"

fun user_validate :: "user \<Rightarrow> user option" where
  "user_validate (TelegramUser b i v l h) =
     (if i \<le> 0 \<or> (case l of None \<Rightarrow> False | Some k \<Rightarrow> k \<le> 0) then None
      else
        (case (user_base_validate b, optionally normalize_vk_url v, normalize_telegram_handle h) of
           (Some b', Some v', Some h') \<Rightarrow> Some (TelegramUser b' i v' l h')
         | _ \<Rightarrow> None))"
| "user_validate (VkUser b i h) =
     (if i \<le> 0 then None
      else
        (case (user_base_validate b, normalize_telegram_handle h) of
           (Some b', Some h') \<Rightarrow> Some (VkUser b' i h')
         | _ \<Rightarrow> None))"

definition common_profile_complete :: "user_base \<Rightarrow> bool" where
  "common_profile_complete b \<longleftrightarrow>
     us_full_name b \<noteq> None \<and> us_crossplay b \<noteq> None \<and> us_needs_pass b \<noteq> None
     \<and> (us_needs_pass b = Some False \<or> us_pass_details b \<noteq> None)"

fun profile_complete :: "user \<Rightarrow> bool" where
  "profile_complete (TelegramUser b i v l h) = (common_profile_complete b \<and> v \<noteq> None)"
| "profile_complete (VkUser b i h) = common_profile_complete b"

definition effective_privileged_role :: "user_base \<Rightarrow> privileged_role option" where
  "effective_privileged_role b =
     (case us_privileged_role b of
        Some role \<Rightarrow> Some role
      | None \<Rightarrow> if us_is_gamemaster b then Some GAMEMASTER else None)"

definition has_privileged_role :: "privileged_role \<Rightarrow> user_base \<Rightarrow> bool" where
  "has_privileged_role required b =
     (case effective_privileged_role b of None \<Rightarrow> False | Some role \<Rightarrow> role_includes role required)"

text \<open>The narrow projection for pass preferences.\<close>

record user_pass_preference =
  pp_platform :: platform
  pp_user_id :: int
  pp_needs_pass :: "bool option"
  pp_telegram_handle :: "ustring option"
  pp_linked_vk_id :: "int option"
  pp_updated_at :: time

section \<open>Questions\<close>

record answer_option =
  op_option_id :: ustring
  op_name :: ustring
  op_player_amount :: nat

record registration_question =
  qu_text :: ustring
  qu_options :: "answer_option list"

definition MAX_PLAYER_AMOUNT :: nat where
  "MAX_PLAYER_AMOUNT = 10000"

definition DEFAULT_PLAYER_AMOUNT :: nat where
  "DEFAULT_PLAYER_AMOUNT = 30"

definition MAX_EVENT_PAGE_SIZE :: nat where
  "MAX_EVENT_PAGE_SIZE = 10"

definition is_slug_char :: "nat \<Rightarrow> bool" where
  "is_slug_char c \<longleftrightarrow> 97 \<le> c \<and> c \<le> 122 \<or> is_ascii_digit c \<or> c = 45"

definition valid_option_id :: "ustring \<Rightarrow> bool" where
  "valid_option_id s \<longleftrightarrow> length_between 1 16 s \<and> list_all is_slug_char s"

definition valid_player_amount :: "nat \<Rightarrow> bool" where
  "valid_player_amount n \<longleftrightarrow> 1 \<le> n \<and> n \<le> MAX_PLAYER_AMOUNT"

text \<open>The characters Excel refuses in a sheet name: a backslash and \<open>/ * ? : [ ]\<close>, and controls.\<close>

definition sheet_char_forbidden :: "nat \<Rightarrow> bool" where
  "sheet_char_forbidden c \<longleftrightarrow> c \<in> {92, 47, 42, 63, 58, 91, 93} \<or> c < 32"

definition valid_sheet_name :: "ustring \<Rightarrow> ustring option" where
  "valid_sheet_name value =
     (let v = strip value
      in if v = [] \<or> list_ex sheet_char_forbidden v \<or> hd v = 39 \<or> last v = 39 then None
         else if casefold v = asc ''history'' then None else Some v)"

definition option_validate :: "answer_option \<Rightarrow> answer_option option" where
  "option_validate opt =
     (if \<not> valid_option_id (op_option_id opt) \<or> \<not> length_between 1 31 (op_name opt)
         \<or> \<not> valid_player_amount (op_player_amount opt) then None
      else map_option (\<lambda>v. opt\<lparr>op_name := v\<rparr>) (valid_sheet_name (op_name opt)))"

definition those_of :: "('a \<Rightarrow> 'b option) \<Rightarrow> 'a list \<Rightarrow> 'b list option" where
  "those_of f xs = those (map f xs)"

definition question_capacity :: "registration_question \<Rightarrow> nat" where
  "question_capacity q = sum_list (map op_player_amount (qu_options q))"

definition question_validate :: "registration_question \<Rightarrow> registration_question option" where
  "question_validate q =
     (if \<not> length_between 1 500 (qu_text q) \<or> length (qu_options q) < 2 then None
      else
        (case those_of option_validate (qu_options q) of
           None \<Rightarrow> None
         | Some opts \<Rightarrow>
             (let v = \<lparr>qu_text = strip (qu_text q), qu_options = opts\<rparr>
              in if qu_text v = [] \<or> \<not> distinct (map op_option_id opts)
                    \<or> \<not> distinct (map (\<lambda>opt. casefold (op_name opt)) opts)
                    \<or> MAX_PLAYER_AMOUNT < question_capacity v
                 then None else Some v)))"

definition question_option :: "registration_question \<Rightarrow> ustring option \<Rightarrow> answer_option option" where
  "question_option q option_id = List.find (\<lambda>opt. Some (op_option_id opt) = option_id) (qu_options q)"

section \<open>Events\<close>

record event =
  ev_event_id :: ustring
  ev_name :: ustring
  ev_game_date :: "date option"
  ev_player_amount :: nat
  ev_registration_question :: "registration_question option"
  ev_disk_resource_path :: ustring
  ev_public_registration_url :: ustring
  ev_master_table_google_url :: "ustring option"
  ev_public_table_resource_path :: "ustring option"
  ev_public_table_public_url :: "ustring option"
  ev_public_table_google_url :: "ustring option"
  ev_status :: event_status
  ev_registration_open_at :: "time option"
  ev_registration_open_notified_recipients :: "ustring list"
  ev_registration_open_notification_completed_at :: "time option"
  ev_confirmation_open_at :: "time option"
  ev_scheduled_close_at :: "time option"
  ev_scheduled_close_operation_id :: "ustring option"
  ev_scheduled_close_notified_recipients :: "ustring list"
  ev_scheduled_close_completed_at :: "time option"
  ev_signup_token :: "ustring option"
  ev_telegram_post_url :: "ustring option"
  ev_vk_post_url :: "ustring option"
  ev_telegram_chat_id :: "int option"
  ev_telegram_chat_invite_link :: "ustring option"
  ev_confirmation_deadline :: "time option"
  ev_registrations_migrated_at :: "time option"
  ev_pass_table_resource_path :: "ustring option"
  ev_pass_table_public_url :: "ustring option"
  ev_pass_table_google_url :: "ustring option"
  ev_achievement_resource_path :: "ustring option"
  ev_achievement_public_url :: "ustring option"
  ev_confirmed_notifications :: "ustring list"
  ev_last_confirmed_notification_operation_id :: "ustring option"
  ev_last_reserve_promotion_operation_id :: "ustring option"
  ev_last_reserve_promotion_participant_key :: "ustring option"
  ev_last_reserve_promotion_delivered_operation_id :: "ustring option"
  ev_last_confirmed_link_promotion_operation_id :: "ustring option"
  ev_last_confirmed_link_promotion_participant_key :: "ustring option"
  ev_last_confirmed_link_promotion_delivered_operation_id :: "ustring option"
  ev_last_participant_removal_operation_id :: "ustring option"
  ev_participant_removal_keys :: "ustring list"
  ev_participant_removal_notified_keys :: "ustring list"
  ev_archived_at :: "time option"
  ev_created_at :: time
  ev_updated_at :: time

text \<open>The patterns of the string fields; \<open>.+\<close> does not match a line break.\<close>

definition ends_with :: "'a list \<Rightarrow> 'a list \<Rightarrow> bool" where
  "ends_with suffix s \<longleftrightarrow> starts_with (rev suffix) (rev s)"

definition disk_path :: "ustring \<Rightarrow> ustring \<Rightarrow> ustring \<Rightarrow> bool" where
  "disk_path directory suffix s \<longleftrightarrow>
     starts_with directory s \<and> ends_with suffix s
     \<and> length directory + 1 + length suffix \<le> length s
     \<and> 10 \<notin> set (take (length s - length suffix - length directory) (drop (length directory) s))"

definition event_table_path :: "ustring \<Rightarrow> bool" where
  "event_table_path = disk_path (asc ''disk:/larp-bot/events/'') (asc ''.xlsx'')"

definition pass_table_path :: "ustring \<Rightarrow> bool" where
  "pass_table_path = disk_path (asc ''disk:/larp-bot/passes/'') (asc ''.xlsx'')"

definition achievement_path :: "ustring \<Rightarrow> bool" where
  "achievement_path = disk_path (asc ''disk:/larp-bot/achievements/'') (asc ''.pptx'')"

definition valid_event_id :: "ustring \<Rightarrow> bool" where
  "valid_event_id s \<longleftrightarrow> length_between 8 80 s \<and> list_all is_slug_char s"

definition valid_event_name :: "ustring \<Rightarrow> bool" where
  "valid_event_name s \<longleftrightarrow> length_between 1 200 s"

definition is_token_char :: "nat \<Rightarrow> bool" where
  "is_token_char c \<longleftrightarrow> ascii_alpha c \<or> is_ascii_digit c \<or> c = 95 \<or> c = 45"

definition valid_signup_token :: "ustring \<Rightarrow> bool" where
  "valid_signup_token s \<longleftrightarrow> length_between 1 64 s \<and> list_all is_token_char s"

definition valid_invite_link :: "ustring \<Rightarrow> bool" where
  "valid_invite_link s \<longleftrightarrow> length_between 1 2048 s"

definition validate_telegram_post :: "ustring \<Rightarrow> ustring option" where
  "validate_telegram_post s = (if 2048 < length s then None else normalize_telegram_post_url s)"

definition validate_vk_post :: "ustring \<Rightarrow> ustring option" where
  "validate_vk_post s = (if 2048 < length s then None else normalize_vk_post_url s)"

definition validate_notification :: "ustring \<Rightarrow> ustring option" where
  "validate_notification s =
     (let v = strip_by rust_space s in if length_between 1 4000 v then Some v else None)"

definition when_set :: "('a \<Rightarrow> bool) \<Rightarrow> 'a option \<Rightarrow> bool" where
  "when_set P v = (case v of None \<Rightarrow> True | Some x \<Rightarrow> P x)"

definition table_fields_are_atomic :: "event \<Rightarrow> bool" where
  "table_fields_are_atomic e \<longleftrightarrow>
     (ev_public_table_resource_path e = None) = (ev_public_table_public_url e = None)
     \<and> (ev_pass_table_resource_path e = None) = (ev_pass_table_public_url e = None)
     \<and> (ev_achievement_resource_path e = None) = (ev_achievement_public_url e = None)
     \<and> \<not> (ev_telegram_chat_invite_link e \<noteq> None \<and> ev_telegram_chat_id e = None)"

definition event_fields_ok :: "event \<Rightarrow> bool" where
  "event_fields_ok e \<longleftrightarrow>
     valid_event_id (ev_event_id e) \<and> valid_event_name (ev_name e)
     \<and> valid_player_amount (ev_player_amount e)
     \<and> event_table_path (ev_disk_resource_path e)
     \<and> when_set event_table_path (ev_public_table_resource_path e)
     \<and> when_set pass_table_path (ev_pass_table_resource_path e)
     \<and> when_set achievement_path (ev_achievement_resource_path e)
     \<and> when_set valid_signup_token (ev_signup_token e)
     \<and> when_set valid_invite_link (ev_telegram_chat_invite_link e)"

definition event_validate :: "event \<Rightarrow> event option" where
  "event_validate e =
     (if \<not> event_fields_ok e then None
      else
        (case (optionally question_validate (ev_registration_question e),
               optionally validate_telegram_post (ev_telegram_post_url e),
               optionally validate_vk_post (ev_vk_post_url e),
               those_of validate_notification (ev_confirmed_notifications e)) of
           (Some question, Some telegram_post, Some vk_post, Some notifications) \<Rightarrow>
             if table_fields_are_atomic e
             then Some (e\<lparr>ev_registration_question := question, ev_telegram_post_url := telegram_post,
                          ev_vk_post_url := vk_post, ev_confirmed_notifications := notifications\<rparr>)
             else None
         | _ \<Rightarrow> None))"

definition master_table_resource_path :: "event \<Rightarrow> ustring" where
  "master_table_resource_path e = ev_disk_resource_path e"

definition registration_is_open :: "event \<Rightarrow> time \<Rightarrow> bool" where
  "registration_is_open e now =
     (case ev_registration_open_at e of None \<Rightarrow> True | Some opens \<Rightarrow> opens \<le> now)"

text \<open>The names a message shows a game by (\<open>event_name_with_date\<close>, \<open>event_reference\<close>).\<close>

definition event_name_with_date :: "ustring \<Rightarrow> date option \<Rightarrow> ustring" where
  "event_name_with_date n d =
     (case d of None \<Rightarrow> n | Some dt \<Rightarrow> n @ [32, 40] @ format_game_date dt @ [41])"

definition event_reference :: "ustring \<Rightarrow> date option \<Rightarrow> ustring" where
  "event_reference n d =
     [171] @ n @ [187] @ (case d of None \<Rightarrow> [] | Some dt \<Rightarrow> [32, 40] @ format_game_date dt @ [41])"

record scheduled_lifecycle_event =
  sl_event_id :: ustring
  sl_name :: ustring
  sl_game_date :: "date option"
  sl_status :: event_status
  sl_registration_open_at :: "time option"
  sl_registration_open_notified_recipients :: "ustring list"
  sl_registration_open_notification_completed_at :: "time option"
  sl_confirmation_open_at :: "time option"
  sl_confirmation_deadline :: "time option"
  sl_scheduled_close_at :: "time option"
  sl_scheduled_close_operation_id :: "ustring option"
  sl_scheduled_close_completed_at :: "time option"
  sl_archived_at :: "time option"

section \<open>Registrations\<close>

record registration =
  rg_event_id :: ustring
  rg_participant_key :: ustring
  rg_display_name :: ustring
  rg_nickname :: "ustring option"
  rg_vk_profile :: ustring
  rg_telegram_profile :: "ustring option"
  rg_wish_play :: ustring
  rg_answer_id :: "ustring option"
  rg_answer_queue_at :: "time option"
  rg_larp_experience :: "bool option"
  rg_crossplay :: "bool option"
  rg_character_wish :: ustring
  rg_attendance_status :: attendance_status
  rg_last_operation_id :: ustring
  rg_created_at :: time
  rg_updated_at :: time

definition registration_validate :: "registration \<Rightarrow> registration option" where
  "registration_validate r =
     (if \<not> length_between 43 64 (rg_participant_key r) then None
      else map_option (\<lambda>n. r\<lparr>rg_nickname := n\<rparr>) (optionally normalize_nickname (rg_nickname r)))"

definition is_active :: "registration \<Rightarrow> bool" where
  "is_active r \<longleftrightarrow> rg_attendance_status r \<noteq> CANCELLED"

section \<open>Sample rows\<close>

text \<open>Concrete rows for the examples at which the theorems of the development are applied.\<close>

definition sample_event :: event where
  "sample_event =
     \<lparr>ev_event_id = asc ''game-0001'', ev_name = asc ''Game'', ev_game_date = Some (2024, 5, 14),
      ev_player_amount = 1, ev_registration_question = None,
      ev_disk_resource_path = asc ''disk:/larp-bot/events/game-0001/m.xlsx'',
      ev_public_registration_url = asc ''u'', ev_master_table_google_url = None,
      ev_public_table_resource_path = None, ev_public_table_public_url = None,
      ev_public_table_google_url = None, ev_status = CREATED, ev_registration_open_at = None,
      ev_registration_open_notified_recipients = [],
      ev_registration_open_notification_completed_at = None, ev_confirmation_open_at = None,
      ev_scheduled_close_at = None, ev_scheduled_close_operation_id = None,
      ev_scheduled_close_notified_recipients = [], ev_scheduled_close_completed_at = None,
      ev_signup_token = None, ev_telegram_post_url = None, ev_vk_post_url = None,
      ev_telegram_chat_id = None, ev_telegram_chat_invite_link = None, ev_confirmation_deadline = None,
      ev_registrations_migrated_at = Some 0, ev_pass_table_resource_path = None,
      ev_pass_table_public_url = None, ev_pass_table_google_url = None,
      ev_achievement_resource_path = None, ev_achievement_public_url = None,
      ev_confirmed_notifications = [], ev_last_confirmed_notification_operation_id = None,
      ev_last_reserve_promotion_operation_id = None, ev_last_reserve_promotion_participant_key = None,
      ev_last_reserve_promotion_delivered_operation_id = None,
      ev_last_confirmed_link_promotion_operation_id = None,
      ev_last_confirmed_link_promotion_participant_key = None,
      ev_last_confirmed_link_promotion_delivered_operation_id = None,
      ev_last_participant_removal_operation_id = None, ev_participant_removal_keys = [],
      ev_participant_removal_notified_keys = [], ev_archived_at = None, ev_created_at = 0,
      ev_updated_at = 0\<rparr>"

definition sample_registration :: "ustring \<Rightarrow> time \<Rightarrow> attendance_status \<Rightarrow> registration" where
  "sample_registration key t status =
     \<lparr>rg_event_id = asc ''game-0001'', rg_participant_key = key, rg_display_name = asc ''Player'',
      rg_nickname = None, rg_vk_profile = [], rg_telegram_profile = None, rg_wish_play = asc ''any'',
      rg_answer_id = None, rg_answer_queue_at = None, rg_larp_experience = None, rg_crossplay = None,
      rg_character_wish = [], rg_attendance_status = status, rg_last_operation_id = [],
      rg_created_at = t, rg_updated_at = t\<rparr>"

end
