(* ===== verification/Queues.thy ===== *)
theory Queues
  imports Model
begin

text \<open>
  The queue rules of \<open>domain/registration_queues.py\<close> and the roster helpers of
  \<open>application/notification_helpers.py\<close>: who is in the main roster, who is in reserve, at which place.
\<close>

section \<open>Definitions\<close>

definition queue_key :: "registration \<Rightarrow> time \<times> ustring" where
  "queue_key row =
     (case rg_answer_queue_at row of Some t \<Rightarrow> t | None \<Rightarrow> rg_created_at row, rg_participant_key row)"

definition active_queue :: "registration list \<Rightarrow> ustring option \<Rightarrow> registration list" where
  "active_queue rows answer_id =
     sort_key queue_key
       (filter (\<lambda>row. is_active row \<and> (answer_id = None \<or> rg_answer_id row = answer_id)) rows)"

definition answer_capacity :: "event \<Rightarrow> ustring option \<Rightarrow> exn + nat" where
  "answer_capacity e answer_id =
     (case ev_registration_question e of
        None \<Rightarrow> Inr (ev_player_amount e)
      | Some q \<Rightarrow>
          (case question_option q answer_id of
             None \<Rightarrow> Inl ValueError
           | Some opt \<Rightarrow> Inr (op_player_amount opt)))"

definition main_roster :: "event \<Rightarrow> registration list \<Rightarrow> registration list" where
  "main_roster e rows =
     (case ev_registration_question e of
        None \<Rightarrow> take (ev_player_amount e) (active_queue rows None)
      | Some q \<Rightarrow>
          concat (map (\<lambda>opt. take (op_player_amount opt) (active_queue rows (Some (op_option_id opt))))
            (qu_options q)))"

definition reserve_roster :: "event \<Rightarrow> registration list \<Rightarrow> registration list" where
  "reserve_roster e rows =
     (let main_keys = map rg_participant_key (main_roster e rows)
      in filter (\<lambda>row. rg_participant_key row \<notin> set main_keys) (active_queue rows None))"

definition queue_of :: "event \<Rightarrow> registration list \<Rightarrow> registration \<Rightarrow> registration list" where
  "queue_of e rows r =
     active_queue rows (if ev_registration_question e = None then None else rg_answer_id r)"

definition queue_position :: "event \<Rightarrow> registration list \<Rightarrow> registration \<Rightarrow> exn + nat" where
  "queue_position e rows r =
     (case index_of (\<lambda>row. rg_participant_key row = rg_participant_key r) (queue_of e rows r) of
        None \<Rightarrow> Inl StopIteration
      | Some i \<Rightarrow> Inr (Suc i))"

text \<open>The plain queue by creation time, for callers that pass a number of players, not a game.\<close>

definition active_main_roster_amount :: "registration list \<Rightarrow> nat \<Rightarrow> registration list" where
  "active_main_roster_amount rows player_amount =
     take player_amount
       (sort_key (\<lambda>row. (rg_created_at row, rg_participant_key row)) (filter is_active rows))"

definition active_main_roster :: "registration list \<Rightarrow> event \<Rightarrow> registration list" where
  "active_main_roster rows e = main_roster e rows"

definition chat_link_recipient_keys :: "registration list \<Rightarrow> event \<Rightarrow> ustring set" where
  "chat_link_recipient_keys rows e =
     set (map rg_participant_key
       (filter (\<lambda>row. rg_attendance_status row = CONFIRMED) (active_main_roster rows e)))"

section \<open>Rows of one game\<close>

text \<open>The registrations of a game have distinct participant keys.\<close>

definition roster_ok :: "registration list \<Rightarrow> bool" where
  "roster_ok rows \<longleftrightarrow> distinct (map rg_participant_key rows)"

lemma roster_ok_eq:
  "roster_ok rows \<Longrightarrow> r \<in> set rows \<Longrightarrow> s \<in> set rows \<Longrightarrow>
     rg_participant_key r = rg_participant_key s \<Longrightarrow> r = s"
  unfolding roster_ok_def by (meson distinct_map inj_onD)

lemma set_active_queue:
  "r \<in> set (active_queue rows a) \<longleftrightarrow> r \<in> set rows \<and> is_active r \<and> (a = None \<or> rg_answer_id r = a)"
  by (auto simp: active_queue_def)

lemma sorted_active_queue: "sorted (map queue_key (active_queue rows a))"
  by (simp add: active_queue_def)

lemma roster_ok_active_queue: "roster_ok rows \<Longrightarrow> roster_ok (active_queue rows a)"
  by (simp add: roster_ok_def active_queue_def distinct_map_filter)

lemma active_queue_answer:
  "active_queue rows (Some a) = filter (\<lambda>r. rg_answer_id r = Some a) (active_queue rows None)"
  by (auto simp: active_queue_def filter_sort intro!: arg_cong[of _ _ "sort_key queue_key"] filter_cong)

text \<open>The queues of a game with their capacities: one, or one per answer.\<close>

definition slots :: "event \<Rightarrow> (ustring option \<times> nat) list" where
  "slots e =
     (case ev_registration_question e of
        None \<Rightarrow> [(None, ev_player_amount e)]
      | Some q \<Rightarrow> map (\<lambda>opt. (Some (op_option_id opt), op_player_amount opt)) (qu_options q))"

definition slots_ok :: "event \<Rightarrow> bool" where
  "slots_ok e \<longleftrightarrow> distinct (map fst (slots e))"

lemma main_roster_slots:
  "main_roster e rows = concat (map (\<lambda>(a, n). take n (active_queue rows a)) (slots e))"
  by (simp add: main_roster_def slots_def o_def split: option.splits)

lemma set_main_roster:
  "r \<in> set (main_roster e rows) \<longleftrightarrow> (\<exists>(a, n)\<in>set (slots e). r \<in> set (take n (active_queue rows a)))"
  by (auto simp: main_roster_slots)

lemma main_roster_active: "r \<in> set (main_roster e rows) \<Longrightarrow> r \<in> set (active_queue rows None)"
  by (auto simp: set_main_roster set_active_queue dest!: in_set_takeD)

lemma question_option_Some:
  "question_option q a = Some opt \<Longrightarrow> opt \<in> set (qu_options q) \<and> a = Some (op_option_id opt)"
  by (auto simp: question_option_def find_Some_iff in_set_conv_nth)

lemma question_option_iff:
  assumes "distinct (map op_option_id (qu_options q))"
  shows "question_option q a = Some opt \<longleftrightarrow> opt \<in> set (qu_options q) \<and> a = Some (op_option_id opt)"
proof
  assume r: "opt \<in> set (qu_options q) \<and> a = Some (op_option_id opt)"
  then obtain o' where o': "question_option q a = Some o'"
    by (cases "question_option q a") (auto simp: question_option_def find_None_iff)
  then have "o' \<in> set (qu_options q)" "op_option_id o' = op_option_id opt"
    using question_option_Some[OF o'] r by simp_all
  with r assms have "o' = opt" by (metis distinct_map inj_onD)
  with o' show "question_option q a = Some opt" by simp
qed (rule question_option_Some)

text \<open>The queue a registration stands in, and its capacity.\<close>

lemma slot_of:
  assumes "slots_ok e" and "answer_capacity e (rg_answer_id r) = Inr n"
  shows "(if ev_registration_question e = None then None else rg_answer_id r, n) \<in> set (slots e)"
proof (cases "ev_registration_question e")
  case None
  with assms show ?thesis by (simp add: slots_def answer_capacity_def)
next
  case (Some q)
  with assms(2) obtain opt where o: "question_option q (rg_answer_id r) = Some opt" "n = op_player_amount opt"
    by (auto simp: answer_capacity_def split: option.splits)
  from question_option_Some[OF o(1)] o(2) Some show ?thesis
    by (auto simp: slots_def image_iff intro!: bexI[of _ opt])
qed

lemma slot_unique: "slots_ok e \<Longrightarrow> (a, m) \<in> set (slots e) \<Longrightarrow> (a, n) \<in> set (slots e) \<Longrightarrow> m = n"
  by (metis eq_key_imp_eq_value slots_ok_def)

lemma slots_shape:
  "(a, n) \<in> set (slots e) \<Longrightarrow> (a = None) = (ev_registration_question e = None)"
  by (auto simp: slots_def split: option.splits)

text \<open>Membership in the main roster, seen from the registration's own queue.\<close>

lemma main_roster_iff_own_queue:
  assumes ok: "slots_ok e" and cap: "answer_capacity e (rg_answer_id r) = Inr n"
  shows "r \<in> set (main_roster e rows) \<longleftrightarrow> r \<in> set (take n (queue_of e rows r))"
proof
  assume "r \<in> set (main_roster e rows)"
  then obtain a m where am: "(a, m) \<in> set (slots e)" "r \<in> set (take m (active_queue rows a))"
    by (auto simp: set_main_roster)
  have own: "a = (if ev_registration_question e = None then None else rg_answer_id r)"
    using slots_shape[OF am(1)] am(2) by (auto simp: set_active_queue dest!: in_set_takeD)
  with slot_unique[OF ok am(1)[unfolded own] slot_of[OF ok cap]] am(2)
  show "r \<in> set (take n (queue_of e rows r))" by (simp add: queue_of_def)
next
  assume "r \<in> set (take n (queue_of e rows r))"
  with slot_of[OF ok cap] show "r \<in> set (main_roster e rows)"
    by (auto simp: set_main_roster queue_of_def simp del: if_split_asm intro!: bexI)
qed

section \<open>Main roster and reserve\<close>

lemma distinct_take_queue: "roster_ok rows \<Longrightarrow> distinct (take n (active_queue rows a))"
  using roster_ok_active_queue[of rows a] by (auto simp: roster_ok_def distinct_map intro: distinct_take)

lemma distinct_slot_takes:
  assumes ok: "roster_ok rows" and shape: "\<And>a n. (a, n) \<in> set sl \<Longrightarrow> a \<noteq> None"
    and keys: "distinct (map fst sl)"
  shows "distinct (concat (map (\<lambda>(a, n). take n (active_queue rows a)) sl))"
  using shape keys
proof (induction sl)
  case (Cons p sl)
  obtain a n where p: "p = (a, n)" by (cases p)
  have "set (take n (active_queue rows a)) \<inter> set (take m (active_queue rows b)) = {}"
    if "(b, m) \<in> set sl" for b m
  proof -
    have "a \<noteq> None" "b \<noteq> None" "a \<noteq> b" using Cons.prems that by (force simp: p)+
    then show ?thesis by (auto simp: set_active_queue dest!: in_set_takeD)
  qed
  then have "set (take n (active_queue rows a)) \<inter>
      set (concat (map (\<lambda>(a, n). take n (active_queue rows a)) sl)) = {}"
    by fastforce
  moreover have "distinct (concat (map (\<lambda>(a, n). take n (active_queue rows a)) sl))"
    using Cons.prems by (intro Cons.IH) auto
  ultimately show ?case using distinct_take_queue[OF ok] by (simp add: p)
qed simp

lemma distinct_main_roster:
  assumes "roster_ok rows" and "slots_ok e"
  shows "distinct (main_roster e rows)"
proof (cases "ev_registration_question e")
  case None
  with assms(1) show ?thesis by (simp add: main_roster_def distinct_take_queue)
next
  case (Some q)
  then have "(a, n) \<in> set (slots e) \<Longrightarrow> a \<noteq> None" for a n using slots_shape by fastforce
  with assms show ?thesis
    unfolding main_roster_slots by (intro distinct_slot_takes) (auto simp: slots_ok_def)
qed

lemma reserve_roster_alt:
  assumes "roster_ok rows"
  shows "reserve_roster e rows = filter (\<lambda>r. r \<notin> set (main_roster e rows)) (active_queue rows None)"
proof -
  have "rg_participant_key r \<in> rg_participant_key ` set (main_roster e rows) \<longleftrightarrow> r \<in> set (main_roster e rows)"
    if "r \<in> set (active_queue rows None)" for r
    using that roster_ok_eq[OF roster_ok_active_queue[OF assms], of r] main_roster_active[of _ e rows]
    by (auto simp: image_iff)
  then show ?thesis by (auto simp: reserve_roster_def intro!: filter_cong)
qed

lemma mset_main_reserve:
  assumes "roster_ok rows" and "slots_ok e"
  shows "mset (main_roster e rows @ reserve_roster e rows) = mset (filter is_active rows)"
proof -
  have d: "distinct (filter is_active rows)"
    using assms(1) by (auto simp: roster_ok_def distinct_map)
  have "distinct (active_queue rows None)"
    using roster_ok_active_queue[OF assms(1)] by (auto simp: roster_ok_def distinct_map)
  then have "distinct (main_roster e rows @ reserve_roster e rows)"
    using distinct_main_roster[OF assms] by (auto simp: reserve_roster_alt[OF assms(1)])
  moreover have "set (main_roster e rows @ reserve_roster e rows) = set (filter is_active rows)"
    using main_roster_active[of _ e rows]
    by (auto simp: reserve_roster_alt[OF assms(1)] set_active_queue)
  ultimately show ?thesis using d by (simp only: set_eq_iff_mset_eq_distinct)
qed

definition capacity :: "event \<Rightarrow> nat" where
  "capacity e = sum_list (map snd (slots e))"

lemma length_main_roster: "length (main_roster e rows) \<le> capacity e"
proof -
  have "length (concat (map (\<lambda>(a, n). take n (active_queue rows a)) sl)) \<le> sum_list (map snd sl)" for sl
    by (induction sl) auto
  then show ?thesis by (simp add: main_roster_slots capacity_def)
qed

lemma capacity_cases:
  "capacity e = (case ev_registration_question e of None \<Rightarrow> ev_player_amount e | Some q \<Rightarrow> question_capacity q)"
  by (simp add: capacity_def slots_def question_capacity_def o_def split: option.splits)

section \<open>Places in the queue\<close>

lemma queue_key_inj:
  assumes "roster_ok rows"
  shows "inj_on queue_key (set rows)"
  using roster_ok_eq[OF assms] by (intro inj_onI) (simp add: queue_key_def)

lemma active_queue_strict:
  assumes "roster_ok rows" and "i < j" and "j < length (active_queue rows a)"
  shows "queue_key (active_queue rows a ! i) < queue_key (active_queue rows a ! j)"
proof -
  let ?q = "active_queue rows a"
  have "queue_key (?q ! i) \<le> queue_key (?q ! j)"
    using assms sorted_nth_mono[OF sorted_active_queue, of i j] by simp
  moreover have "distinct (map rg_participant_key ?q)"
    using roster_ok_active_queue[OF assms(1)] by (simp add: roster_ok_def)
  then have "rg_participant_key (?q ! i) \<noteq> rg_participant_key (?q ! j)"
    using assms(2,3) by (simp add: distinct_conv_nth)
  ultimately show ?thesis by (auto simp: queue_key_def less_le)
qed

lemma queue_of_mem: "r \<in> set rows \<Longrightarrow> is_active r \<Longrightarrow> r \<in> set (queue_of e rows r)"
  by (simp add: queue_of_def set_active_queue)

lemma queue_position_exists:
  assumes "r \<in> set rows" and "is_active r"
  shows "\<exists>p. queue_position e rows r = Inr p"
  using index_of_exists[OF queue_of_mem[OF assms], of "\<lambda>x. rg_participant_key x = rg_participant_key r" e]
  by (auto simp: queue_position_def)

lemma queue_position_main:
  assumes ok: "roster_ok rows" "slots_ok e" and r: "r \<in> set rows" "is_active r"
    and cap: "answer_capacity e (rg_answer_id r) = Inr n"
    and p: "queue_position e rows r = Inr p"
  shows "p \<le> n \<longleftrightarrow> r \<in> set (main_roster e rows)"
proof -
  obtain i where i: "index_of (\<lambda>x. rg_participant_key x = rg_participant_key r) (queue_of e rows r) = Some i"
    "p = Suc i"
    using p by (auto simp: queue_position_def split: option.splits)
  have "p \<le> n \<longleftrightarrow> (\<exists>x\<in>set (take n (queue_of e rows r)). rg_participant_key x = rg_participant_key r)"
    using index_of_in_take[OF i(1)] by (simp add: i(2) Suc_le_eq)
  also have "\<dots> \<longleftrightarrow> r \<in> set (take n (queue_of e rows r))"
    using roster_ok_eq[OF ok(1) _ r(1)] by (metis in_set_takeD queue_of_def set_active_queue)
  also have "\<dots> \<longleftrightarrow> r \<in> set (main_roster e rows)"
    by (simp add: main_roster_iff_own_queue[OF ok(2) cap])
  finally show ?thesis .
qed

text \<open>Nobody waits in reserve while a place of their queue is free or given to somebody behind them.\<close>

lemma reserve_behind_main:
  assumes ok: "roster_ok rows" "slots_ok e" and r: "r \<in> set (reserve_roster e rows)"
    and cap: "answer_capacity e (rg_answer_id r) = Inr n"
  defines "ahead \<equiv> take n (queue_of e rows r)"
  shows "length ahead = n \<and> set ahead \<subseteq> set (main_roster e rows)
    \<and> (\<forall>m\<in>set ahead. queue_key m < queue_key r)"
proof -
  let ?q = "queue_of e rows r"
  have act: "r \<in> set rows" "is_active r" and nm: "r \<notin> set (main_roster e rows)"
    using r by (auto simp: reserve_roster_alt[OF ok(1)] set_active_queue)
  obtain i where i: "i < length ?q" "?q ! i = r"
    using queue_of_mem[OF act] by (meson in_set_conv_nth)
  have "\<not> i < n"
    using i nm main_roster_iff_own_queue[OF ok(2) cap, of rows] by (metis in_set_conv_nth length_take min_less_iff_conj nth_take)
  moreover have "set ahead \<subseteq> set (main_roster e rows)"
    unfolding ahead_def queue_of_def
    by (auto simp: set_main_roster simp del: if_split intro!: bexI[OF _ slot_of[OF ok(2) cap]])
  moreover have "\<forall>m\<in>set ahead. queue_key m < queue_key r"
  proof
    fix m assume "m \<in> set ahead"
    then obtain j where "j < n" "?q ! j = m" "j < length ?q" by (auto simp: ahead_def in_set_conv_nth)
    with active_queue_strict[OF ok(1), of j i "if ev_registration_question e = None then None else rg_answer_id r",
        folded queue_of_def] i \<open>\<not> i < n\<close>
    show "queue_key m < queue_key r" by simp
  qed
  ultimately show ?thesis using i(1) by (simp add: ahead_def)
qed

section \<open>What the rosters promise\<close>

text \<open>
  C4. The main roster and the reserve divide the active registrations of a game: everybody is in
  exactly one of them, once, and the main roster never exceeds the places of the game.
\<close>

theorem rosters_partition_active:
  assumes "roster_ok rows" and "slots_ok e"
  shows "mset (main_roster e rows @ reserve_roster e rows) = mset (filter is_active rows)
    \<and> length (main_roster e rows)
        \<le> (case ev_registration_question e of None \<Rightarrow> ev_player_amount e | Some q \<Rightarrow> question_capacity q)"
  using mset_main_reserve[OF assms] length_main_roster[of e rows] by (simp only: capacity_cases)

text \<open>
  C3. Fairness: while somebody waits in reserve, all places of their queue are taken, and taken by
  registrations that stand before theirs in the queue.
\<close>

theorem reserve_is_fair:
  assumes "roster_ok rows" and "slots_ok e" and "r \<in> set (reserve_roster e rows)"
    and "answer_capacity e (rg_answer_id r) = Inr n"
  shows "length (take n (queue_of e rows r)) = n
    \<and> set (take n (queue_of e rows r)) \<subseteq> set (main_roster e rows)
    \<and> (\<forall>m\<in>set (take n (queue_of e rows r)). queue_key m < queue_key r)"
  using reserve_behind_main[OF assms] .

text \<open>
  C10. The place a player is told decides the roster: an active registration has a place in its queue,
  and it is in the main roster exactly when the place is within the capacity of that queue.
\<close>

theorem position_decides_roster:
  assumes "roster_ok rows" and "slots_ok e" and "r \<in> set rows" and "is_active r"
    and "answer_capacity e (rg_answer_id r) = Inr n"
  shows "\<exists>p. queue_position e rows r = Inr p \<and> (p \<le> n \<longleftrightarrow> r \<in> set (main_roster e rows))"
  using queue_position_exists[OF assms(3,4), of e] queue_position_main[OF assms] by blast

definition sample_rows :: "registration list" where
  "sample_rows = [sample_registration [2] 20 CONFIRMED, sample_registration [5] 10 WAITING,
                  sample_registration [3] 5 CANCELLED]"

lemma sample_active_queue:
  "active_queue sample_rows None =
     [sample_registration [5] 10 WAITING, sample_registration [2] 20 CONFIRMED]"
  by (simp add: active_queue_def sample_rows_def sample_registration_def is_active_def queue_key_def)

lemma sample_roster_ok: "roster_ok sample_rows" and sample_slots_ok: "slots_ok sample_event"
  by (simp_all add: roster_ok_def sample_rows_def sample_registration_def slots_ok_def slots_def
      sample_event_def)

theorem rosters_partition_active_witness:
  "mset (main_roster sample_event sample_rows @ reserve_roster sample_event sample_rows) =
     mset (filter is_active sample_rows) \<and> length (main_roster sample_event sample_rows) = 1"
  using rosters_partition_active[OF sample_roster_ok sample_slots_ok]
  by (simp add: main_roster_def sample_active_queue sample_event_def)

theorem reserve_is_fair_witness:
  "queue_key (sample_registration [5] 10 WAITING) < queue_key (sample_registration [2] 20 CONFIRMED)
   \<and> sample_registration [5] 10 WAITING \<in> set (main_roster sample_event sample_rows)"
proof -
  have r: "sample_registration [2] 20 CONFIRMED \<in> set (reserve_roster sample_event sample_rows)"
    by (simp add: reserve_roster_def main_roster_def sample_active_queue sample_event_def
        sample_registration_def)
  have c: "answer_capacity sample_event (rg_answer_id (sample_registration [2] 20 CONFIRMED)) = Inr 1"
    by (simp add: answer_capacity_def sample_event_def)
  from reserve_is_fair[OF sample_roster_ok sample_slots_ok r c] show ?thesis
    by (simp add: queue_of_def sample_active_queue sample_event_def)
qed

theorem position_decides_roster_witness:
  "queue_position sample_event sample_rows (sample_registration [2] 20 CONFIRMED) = Inr 2
   \<and> sample_registration [2] 20 CONFIRMED \<notin> set (main_roster sample_event sample_rows)"
proof -
  let ?r = "sample_registration [2] 20 CONFIRMED"
  have p: "queue_position sample_event sample_rows ?r = Inr 2"
    by (simp add: queue_position_def queue_of_def sample_active_queue sample_event_def
        sample_registration_def)
  have m: "?r \<in> set sample_rows" "is_active ?r"
    by (simp_all add: sample_rows_def is_active_def sample_registration_def)
  have c: "answer_capacity sample_event (rg_answer_id ?r) = Inr 1"
    by (simp add: answer_capacity_def sample_event_def)
  from position_decides_roster[OF sample_roster_ok sample_slots_ok m c] p show ?thesis by simp
qed

end
