(* ===== verification/Events.thy ===== *)
theory Events
  imports Model
begin

text \<open>
  \<open>MemoryEventRepository\<close> (\<open>adapters/memory.py\<close>): the rows by event id and the leaders of each game.
  A method is an effectful program on the repository; \<open>now\<close> is its clock reading.  A stored row is
  changed in place, so a method is its guard and the changed row.  The leaders of a game are a set;
  it is kept as a list without repetition, of which only membership and the sorted list are observed.
\<close>

section \<open>State\<close>

record events =
  er_rows :: "(ustring, event) dict"
  er_leaders :: "(ustring, bot_identity list) dict"

definition get_event :: "ustring \<Rightarrow> events \<Rightarrow> event option" where
  "get_event event_id r = dict_get (er_rows r) event_id"

definition put_event :: "ustring \<Rightarrow> event \<Rightarrow> events \<Rightarrow> events" where
  "put_event event_id e r = r\<lparr>er_rows := dict_put event_id e (er_rows r)\<rparr>"

text \<open>Looking a row up, and changing it in place when it is there.\<close>

definition update_event ::
    "ustring \<Rightarrow> exn + 'a \<Rightarrow> (event \<Rightarrow> (exn + 'a) \<times> event) \<Rightarrow> (events, exn, 'a) act" where
  "update_event event_id missing f r =
     (case get_event event_id r of
        None \<Rightarrow> (missing, r)
      | Some e \<Rightarrow> (case f e of (x, e') \<Rightarrow> (x, put_event event_id e' r)))"

definition touch :: "time \<Rightarrow> event \<Rightarrow> event" where
  "touch now e = e\<lparr>ev_updated_at := now\<rparr>"

text \<open>Replacing a row by a validated copy (\<open>Event.model_validate(event.model_dump() | changes)\<close>).\<close>

definition revalidate :: "event \<Rightarrow> event \<Rightarrow> (exn + bool) \<times> event" where
  "revalidate old new =
     (case event_validate new of None \<Rightarrow> (Inl ValueError, old) | Some e \<Rightarrow> (Inr True, e))"

definition the_only :: "event list \<Rightarrow> exn + event option" where
  "the_only matches =
     (case matches of [] \<Rightarrow> Inr None | [e] \<Rightarrow> Inr (Some e) | _ \<Rightarrow> Inl RuntimeError)"

section \<open>Rows and leaders\<close>

definition get_by_signup_token :: "ustring \<Rightarrow> events \<Rightarrow> exn + event option" where
  "get_by_signup_token token r =
     the_only (filter (\<lambda>e. ev_signup_token e = Some token) (dict_values (er_rows r)))"

definition get_by_telegram_chat_id :: "int \<Rightarrow> events \<Rightarrow> exn + event option" where
  "get_by_telegram_chat_id chat_id r =
     the_only (filter (\<lambda>e. ev_telegram_chat_id e = Some chat_id) (dict_values (er_rows r)))"

definition create_event :: "event \<Rightarrow> bot_identity list \<Rightarrow> (events, exn, unit) act" where
  "create_event e leaders r =
     (if get_event (ev_event_id e) r \<noteq> None then (Inl ValueError, r)
      else (Inr (), (put_event (ev_event_id e) e r)
             \<lparr>er_leaders := dict_put (ev_event_id e) (dedup leaders) (er_leaders r)\<rparr>))"

definition leaders_of :: "ustring \<Rightarrow> events \<Rightarrow> bot_identity list" where
  "leaders_of event_id r = (case dict_get (er_leaders r) event_id of None \<Rightarrow> [] | Some ls \<Rightarrow> ls)"

definition add_leader :: "ustring \<Rightarrow> bot_identity \<Rightarrow> (events, exn, bool) act" where
  "add_leader event_id leader r =
     (if get_event event_id r = None then (Inr False, r)
      else if leader \<in> set (leaders_of event_id r)
      then (Inr False, r\<lparr>er_leaders := dict_setdefault event_id [] (er_leaders r)\<rparr>)
      else (Inr True, r\<lparr>er_leaders := dict_put event_id (leaders_of event_id r @ [leader]) (er_leaders r)\<rparr>))"

definition remove_leader :: "ustring \<Rightarrow> bot_identity \<Rightarrow> (events, exn, bool) act" where
  "remove_leader event_id leader r =
     (if leader \<notin> set (leaders_of event_id r) then (Inr False, r)
      else (Inr True, r\<lparr>er_leaders := dict_put event_id
              (filter (\<lambda>l. l \<noteq> leader) (leaders_of event_id r)) (er_leaders r)\<rparr>))"

definition list_leaders :: "ustring \<Rightarrow> events \<Rightarrow> bot_identity list" where
  "list_leaders event_id r = sort_key (\<lambda>l. l) (leaders_of event_id r)"

section \<open>Status and registration opening\<close>

definition set_status :: "ustring \<Rightarrow> event_status \<Rightarrow> time \<Rightarrow> (events, exn, bool) act" where
  "set_status event_id status now =
     update_event event_id (Inr False)
       (\<lambda>e. (Inr (ev_status e \<noteq> status), touch now (e\<lparr>ev_status := status\<rparr>)))"

definition set_registration_open_at :: "ustring \<Rightarrow> time option \<Rightarrow> time \<Rightarrow> (events, exn, bool) act" where
  "set_registration_open_at event_id opens_at now =
     update_event event_id (Inr False)
       (\<lambda>e. if ev_registration_open_at e = opens_at then (Inr False, e)
            else (Inr True, touch now (e\<lparr>ev_registration_open_at := opens_at,
                    ev_registration_open_notified_recipients := [],
                    ev_registration_open_notification_completed_at := None\<rparr>)))"

definition due :: "time option \<Rightarrow> time \<Rightarrow> bool" where
  "due at by_time = (case at of None \<Rightarrow> False | Some t \<Rightarrow> t \<le> by_time)"

definition registration_due :: "time \<Rightarrow> event \<Rightarrow> bool" where
  "registration_due t e \<longleftrightarrow>
     due (ev_registration_open_at e) t \<and> ev_registration_open_notification_completed_at e = None
     \<and> ev_archived_at e = None \<and> ev_status e \<noteq> CLOSED"

definition confirmation_due :: "time \<Rightarrow> event \<Rightarrow> bool" where
  "confirmation_due t e \<longleftrightarrow>
     due (ev_confirmation_open_at e) t \<and> ev_confirmation_deadline e \<noteq> None
     \<and> ev_archived_at e = None \<and> ev_status e = CREATED"

definition closing_due :: "time \<Rightarrow> event \<Rightarrow> bool" where
  "closing_due t e \<longleftrightarrow>
     due (ev_scheduled_close_at e) t \<and> ev_scheduled_close_completed_at e = None
     \<and> (ev_archived_at e = None \<or> ev_scheduled_close_operation_id e \<noteq> None)"

definition lifecycle_view :: "event \<Rightarrow> scheduled_lifecycle_event" where
  "lifecycle_view e =
     \<lparr>sl_event_id = ev_event_id e, sl_name = ev_name e, sl_game_date = ev_game_date e,
      sl_status = ev_status e, sl_registration_open_at = ev_registration_open_at e,
      sl_registration_open_notified_recipients = ev_registration_open_notified_recipients e,
      sl_registration_open_notification_completed_at = ev_registration_open_notification_completed_at e,
      sl_confirmation_open_at = ev_confirmation_open_at e,
      sl_confirmation_deadline = ev_confirmation_deadline e,
      sl_scheduled_close_at = ev_scheduled_close_at e,
      sl_scheduled_close_operation_id = ev_scheduled_close_operation_id e,
      sl_scheduled_close_completed_at = ev_scheduled_close_completed_at e,
      sl_archived_at = ev_archived_at e\<rparr>"

definition list_due_lifecycle_events :: "time \<Rightarrow> nat \<Rightarrow> events \<Rightarrow> scheduled_lifecycle_event list" where
  "list_due_lifecycle_events t limit r =
     map lifecycle_view (take limit (sort_key ev_event_id
       (filter (\<lambda>e. registration_due t e \<or> confirmation_due t e \<or> closing_due t e)
         (dict_values (er_rows r)))))"

text \<open>The due rows in the order of their time, then of their id.\<close>

definition due_first :: "(event \<Rightarrow> time option) \<Rightarrow> (event \<Rightarrow> bool) \<Rightarrow> nat \<Rightarrow> events \<Rightarrow> event list" where
  "due_first at P limit r =
     take limit (sort_key (\<lambda>e. (case at e of None \<Rightarrow> 0 | Some t \<Rightarrow> t, ev_event_id e))
       (filter P (dict_values (er_rows r))))"

definition list_due_registration_notifications :: "time \<Rightarrow> nat \<Rightarrow> events \<Rightarrow> event list" where
  "list_due_registration_notifications t = due_first ev_registration_open_at (registration_due t)"

definition list_due_confirmation_openings :: "time \<Rightarrow> nat \<Rightarrow> events \<Rightarrow> event list" where
  "list_due_confirmation_openings t = due_first ev_confirmation_open_at (confirmation_due t)"

definition list_due_scheduled_closings :: "time \<Rightarrow> nat \<Rightarrow> events \<Rightarrow> event list" where
  "list_due_scheduled_closings t = due_first ev_scheduled_close_at (closing_due t)"

definition mark_registration_open_notification_delivered ::
    "ustring \<Rightarrow> ustring \<Rightarrow> time \<Rightarrow> (events, exn, unit) act" where
  "mark_registration_open_notification_delivered event_id recipient now =
     update_event event_id (Inl KeyError)
       (\<lambda>e. (Inr (), if recipient \<in> set (ev_registration_open_notified_recipients e) then e
             else touch now (e\<lparr>ev_registration_open_notified_recipients :=
                    ev_registration_open_notified_recipients e @ [recipient]\<rparr>)))"

definition complete_registration_open_notification :: "ustring \<Rightarrow> time \<Rightarrow> (events, exn, unit) act" where
  "complete_registration_open_notification event_id completed_at =
     update_event event_id (Inl KeyError)
       (\<lambda>e. (Inr (), if ev_registration_open_notification_completed_at e \<noteq> None then e
             else touch completed_at
                    (e\<lparr>ev_registration_open_notification_completed_at := Some completed_at\<rparr>)))"

section \<open>Confirmation\<close>

definition set_confirmation_schedule ::
    "ustring \<Rightarrow> time option \<Rightarrow> time option \<Rightarrow> time \<Rightarrow> (events, exn, bool) act" where
  "set_confirmation_schedule event_id opens_at deadline now =
     (if (opens_at = None) \<noteq> (deadline = None) then throw ValueError
      else update_event event_id (Inr False)
        (\<lambda>e. if ev_confirmation_open_at e = opens_at \<and> ev_confirmation_deadline e = deadline
             then (Inr False, e)
             else (Inr True, touch now (e\<lparr>ev_confirmation_open_at := opens_at,
                     ev_confirmation_deadline := deadline\<rparr>))))"

definition open_scheduled_confirmation ::
    "ustring \<Rightarrow> time \<Rightarrow> time \<Rightarrow> time \<Rightarrow> (events, exn, bool) act" where
  "open_scheduled_confirmation event_id opens_at deadline now =
     update_event event_id (Inr False)
       (\<lambda>e. if ev_archived_at e \<noteq> None \<or> ev_status e \<noteq> CREATED
               \<or> ev_confirmation_open_at e \<noteq> Some opens_at \<or> ev_confirmation_deadline e \<noteq> Some deadline
            then (Inr False, e)
            else (Inr True, touch now (e\<lparr>ev_status := CONFIRMATION_OPEN, ev_confirmation_open_at := None\<rparr>)))"

definition open_confirmation :: "ustring \<Rightarrow> time \<Rightarrow> time \<Rightarrow> (events, exn, bool) act" where
  "open_confirmation event_id deadline now =
     update_event event_id (Inr False)
       (\<lambda>e. (Inr (ev_status e \<noteq> CONFIRMATION_OPEN \<or> ev_confirmation_deadline e \<noteq> Some deadline),
             touch now (e\<lparr>ev_status := CONFIRMATION_OPEN, ev_confirmation_open_at := None,
               ev_confirmation_deadline := Some deadline\<rparr>)))"

section \<open>Scheduled close\<close>

definition set_scheduled_close_at :: "ustring \<Rightarrow> time option \<Rightarrow> time \<Rightarrow> (events, exn, bool) act" where
  "set_scheduled_close_at event_id closes_at now =
     update_event event_id (Inr False)
       (\<lambda>e. if ev_scheduled_close_operation_id e \<noteq> None \<or> ev_scheduled_close_at e = closes_at
            then (Inr False, e)
            else (Inr True, touch now (e\<lparr>ev_scheduled_close_at := closes_at,
                    ev_scheduled_close_notified_recipients := [],
                    ev_scheduled_close_completed_at := None\<rparr>)))"

definition start_scheduled_close :: "ustring \<Rightarrow> ustring \<Rightarrow> time \<Rightarrow> (events, exn, bool) act" where
  "start_scheduled_close event_id operation_id started_at =
     update_event event_id (Inr False)
       (\<lambda>e. if ev_scheduled_close_operation_id e = Some operation_id then (Inr True, e)
            else if ev_archived_at e \<noteq> None \<or> ev_scheduled_close_operation_id e \<noteq> None
            then (Inr False, e)
            else (Inr True, touch started_at (e\<lparr>ev_status := CLOSED,
                    ev_scheduled_close_operation_id := Some operation_id\<rparr>)))"

definition complete_scheduled_close_actions ::
    "ustring \<Rightarrow> ustring \<Rightarrow> time \<Rightarrow> (events, exn, bool) act" where
  "complete_scheduled_close_actions event_id operation_id completed_at =
     update_event event_id (Inr False)
       (\<lambda>e. if ev_scheduled_close_operation_id e \<noteq> Some operation_id then (Inr False, e)
            else if ev_archived_at e \<noteq> None then (Inr True, e)
            else (Inr True, touch completed_at (e\<lparr>ev_status := CLOSED, ev_archived_at := Some completed_at\<rparr>)))"

definition mark_scheduled_close_notification_delivered ::
    "ustring \<Rightarrow> ustring \<Rightarrow> ustring \<Rightarrow> time \<Rightarrow> (events, exn, unit) act" where
  "mark_scheduled_close_notification_delivered event_id operation_id recipient now =
     update_event event_id (Inl KeyError)
       (\<lambda>e. (Inr (),
             if ev_scheduled_close_operation_id e = Some operation_id
                \<and> recipient \<notin> set (ev_scheduled_close_notified_recipients e)
             then touch now (e\<lparr>ev_scheduled_close_notified_recipients :=
                    ev_scheduled_close_notified_recipients e @ [recipient]\<rparr>)
             else e))"

definition complete_scheduled_close_notifications ::
    "ustring \<Rightarrow> ustring \<Rightarrow> time \<Rightarrow> (events, exn, unit) act" where
  "complete_scheduled_close_notifications event_id operation_id completed_at =
     update_event event_id (Inl KeyError)
       (\<lambda>e. (Inr (),
             if ev_scheduled_close_operation_id e = Some operation_id
                \<and> ev_scheduled_close_completed_at e = None
             then touch completed_at (e\<lparr>ev_scheduled_close_completed_at := Some completed_at\<rparr>)
             else e))"

section \<open>Details, limits, links\<close>

definition set_player_amount :: "ustring \<Rightarrow> nat \<Rightarrow> time \<Rightarrow> (events, exn, bool) act" where
  "set_player_amount event_id player_amount now =
     update_event event_id (Inr False)
       (\<lambda>e. if \<not> valid_player_amount player_amount then (Inl ValueError, e)
            else (Inr (ev_player_amount e \<noteq> player_amount),
                  touch now (e\<lparr>ev_player_amount := player_amount\<rparr>)))"

definition set_registration_question ::
    "ustring \<Rightarrow> registration_question \<Rightarrow> time \<Rightarrow> (events, exn, unit) act" where
  "set_registration_question event_id question now =
     update_event event_id (Inl KeyError)
       (\<lambda>e. (let e' = e\<lparr>ev_registration_question := Some question\<rparr>
             in if \<not> valid_player_amount (question_capacity question) then (Inl ValueError, e')
                else (Inr (), touch now (e'\<lparr>ev_player_amount := question_capacity question\<rparr>))))"

definition set_details :: "ustring \<Rightarrow> ustring \<Rightarrow> date \<Rightarrow> time \<Rightarrow> (events, exn, bool) act" where
  "set_details event_id name game_date now =
     update_event event_id (Inr False)
       (\<lambda>e. if ev_name e = name \<and> ev_game_date e = Some game_date then (Inr False, e)
            else if \<not> valid_event_name name then (Inl ValueError, e)
            else (Inr True, touch now (e\<lparr>ev_name := name, ev_game_date := Some game_date\<rparr>)))"

definition set_post_links :: "ustring \<Rightarrow> ustring \<Rightarrow> ustring \<Rightarrow> time \<Rightarrow> (events, exn, bool) act" where
  "set_post_links event_id telegram_post_url vk_post_url now =
     update_event event_id (Inr False)
       (\<lambda>e. (case validate_telegram_post telegram_post_url of
               None \<Rightarrow> (Inl ValueError, e)
             | Some tg \<Rightarrow>
                 (case validate_vk_post vk_post_url of
                    None \<Rightarrow> (Inl ValueError, e\<lparr>ev_telegram_post_url := Some tg\<rparr>)
                  | Some vk \<Rightarrow>
                      (Inr (ev_telegram_post_url e \<noteq> Some telegram_post_url \<or> ev_vk_post_url e \<noteq> Some vk_post_url),
                       touch now (e\<lparr>ev_telegram_post_url := Some tg, ev_vk_post_url := Some vk\<rparr>)))))"

definition bind_telegram_chat :: "ustring \<Rightarrow> int \<Rightarrow> time \<Rightarrow> (events, exn, bool) act" where
  "bind_telegram_chat event_id chat_id now r =
     update_event event_id (Inr False)
       (\<lambda>e. if ev_archived_at e \<noteq> None then (Inr False, e)
            else if ev_telegram_chat_id e \<noteq> None then (Inr (ev_telegram_chat_id e = Some chat_id), e)
            else if list_ex (\<lambda>other. ev_telegram_chat_id other = Some chat_id) (dict_values (er_rows r))
            then (Inr False, e)
            else (Inr True, touch now (e\<lparr>ev_telegram_chat_id := Some chat_id\<rparr>))) r"

text \<open>The repositories over DynamoDB also move a game to the new id of its chat.\<close>

definition migrate_telegram_chat :: "ustring \<Rightarrow> int \<Rightarrow> int \<Rightarrow> time \<Rightarrow> (events, exn, bool) act" where
  "migrate_telegram_chat event_id old_chat_id new_chat_id now r =
     update_event event_id (Inr False)
       (\<lambda>e. if ev_telegram_chat_id e \<noteq> Some old_chat_id \<and> ev_telegram_chat_id e \<noteq> Some new_chat_id
            then (Inr False, e)
            else if list_ex (\<lambda>other. ev_event_id other \<noteq> event_id \<and> ev_telegram_chat_id other = Some new_chat_id)
                      (dict_values (er_rows r))
            then (Inr False, e)
            else if ev_telegram_chat_id e \<noteq> Some new_chat_id
            then (Inr True, touch now (e\<lparr>ev_telegram_chat_id := Some new_chat_id\<rparr>))
            else (Inr True, e)) r"

definition set_telegram_chat_invite_link ::
    "ustring \<Rightarrow> int \<Rightarrow> ustring \<Rightarrow> time \<Rightarrow> (events, exn, bool) act" where
  "set_telegram_chat_invite_link event_id chat_id invite_link now =
     update_event event_id (Inr False)
       (\<lambda>e. if ev_telegram_chat_id e \<noteq> Some chat_id \<or> ev_telegram_chat_invite_link e \<noteq> None
            then (Inr False, e)
            else if \<not> valid_invite_link invite_link then (Inl ValueError, e)
            else (Inr True, touch now (e\<lparr>ev_telegram_chat_invite_link := Some invite_link\<rparr>)))"

definition mark_registrations_migrated :: "ustring \<Rightarrow> time \<Rightarrow> (events, exn, unit) act" where
  "mark_registrations_migrated event_id migrated_at =
     update_event event_id (Inl KeyError)
       (\<lambda>e. (Inr (), touch migrated_at (e\<lparr>ev_registrations_migrated_at := Some migrated_at\<rparr>)))"

section \<open>Tables, archive\<close>

definition set_public_table ::
    "ustring \<Rightarrow> ustring \<Rightarrow> ustring \<Rightarrow> ustring option \<Rightarrow> time \<Rightarrow> (events, exn, bool) act" where
  "set_public_table event_id resource_path public_url google_url now =
     update_event event_id (Inr False)
       (\<lambda>e. if ev_public_table_public_url e \<noteq> None then (Inr False, e)
            else revalidate e (touch now (e\<lparr>ev_public_table_resource_path := Some resource_path,
                   ev_public_table_public_url := Some public_url,
                   ev_public_table_google_url := google_url\<rparr>)))"

definition archive_event :: "ustring \<Rightarrow> time \<Rightarrow> (events, exn, bool) act" where
  "archive_event event_id archived_at =
     update_event event_id (Inr False)
       (\<lambda>e. if ev_archived_at e \<noteq> None then (Inr False, e)
            else revalidate e (touch archived_at
                   (e\<lparr>ev_status := CLOSED, ev_archived_at := Some archived_at\<rparr>)))"

definition unarchive_event :: "ustring \<Rightarrow> time \<Rightarrow> (events, exn, bool) act" where
  "unarchive_event event_id updated_at =
     update_event event_id (Inr False)
       (\<lambda>e. if ev_archived_at e = None then (Inr False, e)
            else revalidate e (touch updated_at (e\<lparr>ev_archived_at := None\<rparr>)))"

definition set_pass_table ::
    "ustring \<Rightarrow> ustring \<Rightarrow> ustring \<Rightarrow> ustring option \<Rightarrow> time \<Rightarrow> (events, exn, bool) act" where
  "set_pass_table event_id resource_path public_url google_url now =
     update_event event_id (Inr False)
       (\<lambda>e. if ev_pass_table_public_url e \<noteq> None then (Inr False, e)
            else revalidate e (touch now (e\<lparr>ev_pass_table_resource_path := Some resource_path,
                   ev_pass_table_public_url := Some public_url,
                   ev_pass_table_google_url := google_url\<rparr>)))"

text \<open>\<open>new or old\<close>: a missing or empty string keeps the old value.\<close>

definition or_else :: "ustring option \<Rightarrow> ustring option \<Rightarrow> ustring option" where
  "or_else new old = (if new = None \<or> new = Some [] then old else new)"

definition set_google_table_links ::
    "ustring \<Rightarrow> ustring option \<Rightarrow> ustring option \<Rightarrow> ustring option \<Rightarrow> time \<Rightarrow> (events, exn, bool) act" where
  "set_google_table_links event_id master_url public_url pass_url now =
     update_event event_id (Inr False)
       (\<lambda>e. revalidate e (touch now
              (e\<lparr>ev_master_table_google_url := or_else master_url (ev_master_table_google_url e),
                 ev_public_table_google_url := or_else public_url (ev_public_table_google_url e),
                 ev_pass_table_google_url := or_else pass_url (ev_pass_table_google_url e)\<rparr>)))"

definition set_yandex_table_links ::
    "ustring \<Rightarrow> ustring option \<Rightarrow> ustring option \<Rightarrow> ustring option \<Rightarrow> time \<Rightarrow> (events, exn, bool) act" where
  "set_yandex_table_links event_id master_url public_url pass_url now =
     update_event event_id (Inr False)
       (\<lambda>e. revalidate e (touch now
              (e\<lparr>ev_public_registration_url :=
                   (case or_else master_url None of None \<Rightarrow> ev_public_registration_url e | Some u \<Rightarrow> u),
                 ev_public_table_public_url := or_else public_url (ev_public_table_public_url e),
                 ev_pass_table_public_url := or_else pass_url (ev_pass_table_public_url e)\<rparr>)))"

definition set_achievement :: "ustring \<Rightarrow> ustring \<Rightarrow> ustring \<Rightarrow> time \<Rightarrow> (events, exn, bool) act" where
  "set_achievement event_id resource_path public_url now =
     update_event event_id (Inr False)
       (\<lambda>e. if ev_achievement_public_url e \<noteq> None then (Inr False, e)
            else revalidate e (touch now (e\<lparr>ev_achievement_resource_path := Some resource_path,
                   ev_achievement_public_url := Some public_url\<rparr>)))"

section \<open>Retry snapshots of notifications\<close>

text \<open>Appending to the stored list does not validate the text.\<close>

definition append_confirmed_notification ::
    "ustring \<Rightarrow> ustring \<Rightarrow> ustring \<Rightarrow> time \<Rightarrow> (events, exn, bool) act" where
  "append_confirmed_notification event_id note_text operation_id now =
     update_event event_id (Inr False)
       (\<lambda>e. if ev_last_confirmed_notification_operation_id e = Some operation_id then (Inr False, e)
            else (Inr True, touch now (e\<lparr>ev_confirmed_notifications := ev_confirmed_notifications e @ [note_text],
                    ev_last_confirmed_notification_operation_id := Some operation_id\<rparr>)))"

definition set_reserve_promotion ::
    "ustring \<Rightarrow> ustring \<Rightarrow> ustring option \<Rightarrow> time \<Rightarrow> (events, exn, unit) act" where
  "set_reserve_promotion event_id operation_id key now =
     update_event event_id (Inl KeyError)
       (\<lambda>e. (Inr (), touch now (e\<lparr>ev_last_reserve_promotion_operation_id := Some operation_id,
               ev_last_reserve_promotion_participant_key := key\<rparr>)))"

definition mark_reserve_promotion_delivered :: "ustring \<Rightarrow> ustring \<Rightarrow> time \<Rightarrow> (events, exn, unit) act" where
  "mark_reserve_promotion_delivered event_id operation_id now =
     update_event event_id (Inl KeyError)
       (\<lambda>e. (Inr (), touch now (e\<lparr>ev_last_reserve_promotion_delivered_operation_id := Some operation_id\<rparr>)))"

definition set_confirmed_link_promotion ::
    "ustring \<Rightarrow> ustring \<Rightarrow> ustring option \<Rightarrow> time \<Rightarrow> (events, exn, unit) act" where
  "set_confirmed_link_promotion event_id operation_id key now =
     update_event event_id (Inl KeyError)
       (\<lambda>e. (Inr (), touch now (e\<lparr>ev_last_confirmed_link_promotion_operation_id := Some operation_id,
               ev_last_confirmed_link_promotion_participant_key := key\<rparr>)))"

definition mark_confirmed_link_promotion_delivered ::
    "ustring \<Rightarrow> ustring \<Rightarrow> time \<Rightarrow> (events, exn, unit) act" where
  "mark_confirmed_link_promotion_delivered event_id operation_id now =
     update_event event_id (Inl KeyError)
       (\<lambda>e. (Inr (), touch now
               (e\<lparr>ev_last_confirmed_link_promotion_delivered_operation_id := Some operation_id\<rparr>)))"

definition set_participant_removal ::
    "ustring \<Rightarrow> ustring \<Rightarrow> ustring list \<Rightarrow> time \<Rightarrow> (events, exn, unit) act" where
  "set_participant_removal event_id operation_id keys now =
     update_event event_id (Inl KeyError)
       (\<lambda>e. (Inr (),
             if ev_last_participant_removal_operation_id e = Some operation_id then e
             else touch now (e\<lparr>ev_last_participant_removal_operation_id := Some operation_id,
                    ev_participant_removal_keys := keys, ev_participant_removal_notified_keys := []\<rparr>)))"

definition add_participant_removal_keys ::
    "ustring \<Rightarrow> ustring \<Rightarrow> ustring list \<Rightarrow> time \<Rightarrow> (events, exn, unit) act" where
  "add_participant_removal_keys event_id operation_id keys now =
     update_event event_id (Inl KeyError)
       (\<lambda>e. (Inr (),
             if ev_last_participant_removal_operation_id e \<noteq> Some operation_id then e
             else (let added = filter (\<lambda>key. key \<notin> set (ev_participant_removal_keys e)) (dedup keys)
                   in if added = [] then e
                      else touch now (e\<lparr>ev_participant_removal_keys := ev_participant_removal_keys e @ added\<rparr>))))"

definition mark_participant_removal_delivered ::
    "ustring \<Rightarrow> ustring \<Rightarrow> ustring \<Rightarrow> time \<Rightarrow> (events, exn, unit) act" where
  "mark_participant_removal_delivered event_id operation_id key now =
     update_event event_id (Inl KeyError)
       (\<lambda>e. (Inr (),
             if ev_last_participant_removal_operation_id e = Some operation_id
                \<and> key \<notin> set (ev_participant_removal_notified_keys e)
             then touch now (e\<lparr>ev_participant_removal_notified_keys :=
                    ev_participant_removal_notified_keys e @ [key]\<rparr>)
             else e))"

definition delete_event :: "ustring \<Rightarrow> (events, exn, bool) act" where
  "delete_event event_id r =
     (Inr (get_event event_id r \<noteq> None),
      r\<lparr>er_leaders := dict_pop event_id (er_leaders r), er_rows := dict_pop event_id (er_rows r)\<rparr>)"

section \<open>Pages\<close>

type_synonym cursor = "time \<times> ustring"

definition event_cursor :: "event \<Rightarrow> cursor" where
  "event_cursor e = (ev_created_at e, ev_event_id e)"

definition optional_filter :: "'a option \<Rightarrow> ('a \<Rightarrow> 'b \<Rightarrow> bool) \<Rightarrow> 'b list \<Rightarrow> 'b list" where
  "optional_filter v P xs = (case v of None \<Rightarrow> xs | Some a \<Rightarrow> filter (P a) xs)"

definition list_page ::
    "event_status list option \<Rightarrow> cursor option \<Rightarrow> cursor option \<Rightarrow> bool option \<Rightarrow> bool option
       \<Rightarrow> bool \<Rightarrow> nat \<Rightarrow> time \<Rightarrow> events \<Rightarrow> exn + event list" where
  "list_page statuses after before archived registration_opened newest_first limit now r =
     (if limit < 1 \<or> MAX_EVENT_PAGE_SIZE < limit then Inl ValueError
      else if after \<noteq> None \<and> before \<noteq> None then Inl ValueError
      else
        (let values0 = (if newest_first then sort_key_desc event_cursor (dict_values (er_rows r))
                        else sort_key event_cursor (dict_values (er_rows r)));
             values1 = optional_filter statuses (\<lambda>accepted e. ev_status e \<in> set accepted) values0;
             values2 = optional_filter archived (\<lambda>a e. (ev_archived_at e \<noteq> None) = a) values1;
             values3 = optional_filter registration_opened (\<lambda>o' e. registration_is_open e now = o') values2;
             values4 = optional_filter after
               (\<lambda>c e. if newest_first then event_cursor e < c else event_cursor e > c) values3;
             values5 = (case before of
               None \<Rightarrow> values4
             | Some c \<Rightarrow>
                 take_last limit
                   (filter (\<lambda>e. if newest_first then event_cursor e > c else event_cursor e < c) values4))
         in Inr (take limit values5)))"

section \<open>Invariant of the rows\<close>

text \<open>
  What every operation keeps of a row: tables are set together, a scheduled confirmation opening has
  its deadline, a scheduled close is completed or announced only once it has started, and nobody is
  listed twice among those already told.
\<close>

definition progress_ok :: "event \<Rightarrow> bool" where
  "progress_ok e \<longleftrightarrow>
     (ev_confirmation_open_at e \<noteq> None \<longrightarrow> ev_confirmation_deadline e \<noteq> None)
     \<and> (ev_scheduled_close_completed_at e \<noteq> None \<or> ev_scheduled_close_notified_recipients e \<noteq> [] \<longrightarrow>
          ev_scheduled_close_operation_id e \<noteq> None)
     \<and> distinct (ev_registration_open_notified_recipients e)
     \<and> distinct (ev_scheduled_close_notified_recipients e)
     \<and> distinct (ev_participant_removal_notified_keys e)"

definition row_ok :: "event \<Rightarrow> bool" where
  "row_ok e \<longleftrightarrow> table_fields_are_atomic e \<and> progress_ok e"

definition chats_unique :: "(ustring, event) dict \<Rightarrow> bool" where
  "chats_unique rows \<longleftrightarrow>
     (\<forall>k e k' e'. (k, e) \<in> set rows \<longrightarrow> (k', e') \<in> set rows \<longrightarrow>
        ev_telegram_chat_id e \<noteq> None \<longrightarrow> ev_telegram_chat_id e = ev_telegram_chat_id e' \<longrightarrow> k = k')"

definition events_ok :: "events \<Rightarrow> bool" where
  "events_ok r \<longleftrightarrow>
     wf_dict (er_rows r) \<and> (\<forall>(k, e)\<in>set (er_rows r). ev_event_id e = k \<and> row_ok e)
     \<and> chats_unique (er_rows r)"

lemma events_okD:
  assumes "events_ok r" and "get_event k r = Some e"
  shows "ev_event_id e = k" and "row_ok e" and "(k, e) \<in> set (er_rows r)"
  using assms dict_get_in[of "er_rows r" k e] by (auto simp: events_ok_def get_event_def)

lemma get_put_event [simp]:
  "get_event k (put_event k' e r) = (if k = k' then Some e else get_event k r)"
  by (simp add: get_event_def put_event_def dict_get_put)

lemma put_event_twice [simp]: "put_event k e' (put_event k e r) = put_event k e' r"
  by (simp add: put_event_def)

lemma get_event_leaders [simp]: "get_event k (r\<lparr>er_leaders := l\<rparr>) = get_event k r"
  by (simp add: get_event_def)

lemma events_ok_leaders [simp]: "events_ok (r\<lparr>er_leaders := l\<rparr>) = events_ok r"
  by (simp add: events_ok_def)

lemma put_event_ok:
  assumes ok: "events_ok r" and e: "row_ok e" "ev_event_id e = k"
    and fresh: "\<And>k' e'. (k', e') \<in> set (er_rows r) \<Longrightarrow> ev_telegram_chat_id e \<noteq> None \<Longrightarrow>
      ev_telegram_chat_id e = ev_telegram_chat_id e' \<Longrightarrow> k' = k"
  shows "events_ok (put_event k e r)"
proof -
  have w: "wf_dict (er_rows r)" and u: "chats_unique (er_rows r)" using ok by (simp_all add: events_ok_def)
  have "chats_unique (dict_put k e (er_rows r))"
    unfolding chats_unique_def set_dict_put[OF w]
  proof (intro allI impI)
    fix k1 e1 k2 e2
    assume "(k1, e1) \<in> {(k, e)} \<union> {x \<in> set (er_rows r). fst x \<noteq> k}"
      "(k2, e2) \<in> {(k, e)} \<union> {x \<in> set (er_rows r). fst x \<noteq> k}"
      "ev_telegram_chat_id e1 \<noteq> None" "ev_telegram_chat_id e1 = ev_telegram_chat_id e2"
    then consider "k1 = k2" | "(k1, e1) \<in> set (er_rows r)" "(k2, e2) \<in> set (er_rows r)"
        "ev_telegram_chat_id e1 \<noteq> None" "ev_telegram_chat_id e1 = ev_telegram_chat_id e2"
      | "(k1, e1) \<in> set (er_rows r)" "ev_telegram_chat_id e \<noteq> None"
        "ev_telegram_chat_id e = ev_telegram_chat_id e1" "k2 = k"
      | "(k2, e2) \<in> set (er_rows r)" "ev_telegram_chat_id e \<noteq> None"
        "ev_telegram_chat_id e = ev_telegram_chat_id e2" "k1 = k"
      by auto
    then show "k1 = k2"
    proof cases
      case 2
      then show ?thesis using u[unfolded chats_unique_def] by blast
    qed (use fresh in blast)+
  qed
  then show ?thesis
    using ok e by (auto simp: events_ok_def put_event_def set_dict_put)
qed

lemma same_chat_ok:
  assumes "events_ok r" and "get_event k r = Some e" and "row_ok e'" and "ev_event_id e' = k"
    and "ev_telegram_chat_id e' = ev_telegram_chat_id e"
  shows "events_ok (put_event k e' r)"
proof (rule put_event_ok[OF assms(1,3,4)])
  fix k' f assume "(k', f) \<in> set (er_rows r)" "ev_telegram_chat_id e' \<noteq> None"
    "ev_telegram_chat_id e' = ev_telegram_chat_id f"
  with events_okD(3)[OF assms(1,2)] assms(1,5) show "k' = k"
    by (fastforce simp: events_ok_def chats_unique_def)
qed

text \<open>The rule the operations are checked with: the row may change, its key and its chat may not.\<close>

definition row_keeps :: "(event \<Rightarrow> (exn + 'a) \<times> event) \<Rightarrow> bool" where
  "row_keeps f \<longleftrightarrow>
     (\<forall>e. row_ok e \<longrightarrow> row_ok (snd (f e)) \<and> ev_event_id (snd (f e)) = ev_event_id e
        \<and> ev_telegram_chat_id (snd (f e)) = ev_telegram_chat_id e)"

lemma update_event_ok: "row_keeps f \<Longrightarrow> keeps events_ok (update_event k m f)"
  unfolding keeps_def
proof (intro allI impI)
  fix r assume f: "row_keeps f" and ok: "events_ok r"
  show "events_ok (snd (update_event k m f r))"
  proof (cases "get_event k r")
    case (Some e)
    have "events_ok (put_event k (snd (f e)) r)"
      using f events_okD[OF ok Some] by (intro same_chat_ok[OF ok Some]) (auto simp: row_keeps_def)
    with Some show ?thesis by (simp add: update_event_def case_prod_beta)
  qed (simp add: update_event_def ok)
qed

lemma row_keeps_if:
  "(\<And>e. row_ok e \<Longrightarrow> c e \<Longrightarrow> row_ok (snd (f e)) \<and> ev_event_id (snd (f e)) = ev_event_id e
     \<and> ev_telegram_chat_id (snd (f e)) = ev_telegram_chat_id e) \<Longrightarrow>
   (\<And>e. row_ok e \<Longrightarrow> \<not> c e \<Longrightarrow> row_ok (snd (g e)) \<and> ev_event_id (snd (g e)) = ev_event_id e
     \<and> ev_telegram_chat_id (snd (g e)) = ev_telegram_chat_id e) \<Longrightarrow>
   row_keeps (\<lambda>e. if c e then f e else g e)"
  by (auto simp: row_keeps_def)

lemma event_validate_shape:
  assumes "event_validate e = Some e'"
  shows "table_fields_are_atomic e" and
    "\<exists>q t v n. e' = e\<lparr>ev_registration_question := q, ev_telegram_post_url := t, ev_vk_post_url := v,
       ev_confirmed_notifications := n\<rparr>"
  using assms by (auto simp: event_validate_def split: if_splits option.splits)

lemma revalidate_row:
  assumes "row_ok old" and "progress_ok new"
    and "ev_event_id new = ev_event_id old" and "ev_telegram_chat_id new = ev_telegram_chat_id old"
  shows "row_ok (snd (revalidate old new)) \<and> ev_event_id (snd (revalidate old new)) = ev_event_id old
    \<and> ev_telegram_chat_id (snd (revalidate old new)) = ev_telegram_chat_id old"
proof (cases "event_validate new")
  case (Some e)
  from event_validate_shape[OF Some] obtain q t v n where
    a: "table_fields_are_atomic new" and
    e: "e = new\<lparr>ev_registration_question := q, ev_telegram_post_url := t, ev_vk_post_url := v,
       ev_confirmed_notifications := n\<rparr>" by blast
  from a assms(2) have "row_ok e"
    by (simp add: e row_ok_def progress_ok_def table_fields_are_atomic_def)
  with assms(3,4) Some show ?thesis by (simp add: revalidate_def e)
qed (use assms in \<open>simp add: revalidate_def\<close>)

lemma row_keeps_revalidate:
  assumes "\<And>e. progress_ok e \<Longrightarrow> progress_ok (new e)" and "\<And>e. ev_event_id (new e) = ev_event_id e"
    and "\<And>e. ev_telegram_chat_id (new e) = ev_telegram_chat_id e"
  shows "row_keeps (\<lambda>e. if c e then (Inr False, e) else revalidate e (new e))"
    and "row_keeps (\<lambda>e. revalidate e (new e))"
  using assms revalidate_row by (auto simp: row_keeps_def row_ok_def)

lemmas row_defs = row_keeps_def row_ok_def progress_ok_def table_fields_are_atomic_def touch_def

lemma status_ops_ok [keeps_intros]:
  "keeps events_ok (set_status k st now)"
  "keeps events_ok (set_registration_open_at k at now)"
  "keeps events_ok (mark_registration_open_notification_delivered k rec now)"
  "keeps events_ok (complete_registration_open_notification k t)"
  unfolding set_status_def set_registration_open_at_def mark_registration_open_notification_delivered_def
    complete_registration_open_notification_def
  by (rule update_event_ok; simp add: row_defs)+

lemma confirmation_ops_ok [keeps_intros]:
  "keeps events_ok (set_confirmation_schedule k at dl now)"
  "keeps events_ok (open_scheduled_confirmation k t dl' now)"
  "keeps events_ok (open_confirmation k dl' now)"
  subgoal unfolding set_confirmation_schedule_def
    by (intro keeps_intros update_event_ok) (auto simp: row_defs)
  unfolding open_scheduled_confirmation_def open_confirmation_def
  by (rule update_event_ok; simp add: row_defs)+

lemma close_ops_ok [keeps_intros]:
  "keeps events_ok (set_scheduled_close_at k at now)"
  "keeps events_ok (start_scheduled_close k op t)"
  "keeps events_ok (complete_scheduled_close_actions k op t)"
  "keeps events_ok (mark_scheduled_close_notification_delivered k op rec now)"
  "keeps events_ok (complete_scheduled_close_notifications k op t)"
  unfolding set_scheduled_close_at_def start_scheduled_close_def complete_scheduled_close_actions_def
    mark_scheduled_close_notification_delivered_def complete_scheduled_close_notifications_def
  by (rule update_event_ok; auto simp: row_defs)+

lemma detail_ops_ok [keeps_intros]:
  "keeps events_ok (set_player_amount k n now)"
  "keeps events_ok (set_registration_question k q now)"
  "keeps events_ok (set_details k name d now)"
  "keeps events_ok (set_post_links k u v now)"
  "keeps events_ok (mark_registrations_migrated k t)"
  unfolding set_player_amount_def set_registration_question_def set_details_def set_post_links_def
    mark_registrations_migrated_def Let_def
  by (rule update_event_ok; simp add: row_defs split: option.splits)+

lemma snapshot_ops_ok [keeps_intros]:
  "keeps events_ok (append_confirmed_notification k x op now)"
  "keeps events_ok (set_reserve_promotion k op key now)"
  "keeps events_ok (mark_reserve_promotion_delivered k op now)"
  "keeps events_ok (set_confirmed_link_promotion k op key now)"
  "keeps events_ok (mark_confirmed_link_promotion_delivered k op now)"
  "keeps events_ok (set_participant_removal k op keys now)"
  "keeps events_ok (add_participant_removal_keys k op keys now)"
  "keeps events_ok (mark_participant_removal_delivered k op key' now)"
  unfolding append_confirmed_notification_def set_reserve_promotion_def mark_reserve_promotion_delivered_def
    set_confirmed_link_promotion_def mark_confirmed_link_promotion_delivered_def
    set_participant_removal_def add_participant_removal_keys_def mark_participant_removal_delivered_def
    Let_def
  by (rule update_event_ok; simp add: row_defs)+

lemma table_ops_ok [keeps_intros]:
  "keeps events_ok (set_public_table k path url g now)"
  "keeps events_ok (archive_event k t)"
  "keeps events_ok (unarchive_event k t)"
  "keeps events_ok (set_pass_table k path url g now)"
  "keeps events_ok (set_google_table_links k a b c now)"
  "keeps events_ok (set_yandex_table_links k a b c now)"
  "keeps events_ok (set_achievement k path url now)"
  unfolding set_public_table_def archive_event_def unarchive_event_def set_pass_table_def
    set_google_table_links_def set_yandex_table_links_def set_achievement_def
  by (rule update_event_ok, rule row_keeps_revalidate; simp add: progress_ok_def touch_def)+

lemma invite_link_ok [keeps_intros]: "keeps events_ok (set_telegram_chat_invite_link k c link now)"
  unfolding set_telegram_chat_invite_link_def
  by (rule update_event_ok) (auto simp: row_defs)

lemma new_chat_ok:
  assumes ok: "events_ok r" and e: "get_event k r = Some e"
    and unbound: "\<And>k' e'. (k', e') \<in> set (er_rows r) \<Longrightarrow> ev_telegram_chat_id e' = Some c \<Longrightarrow> k' = k"
  shows "events_ok (put_event k (touch now (e\<lparr>ev_telegram_chat_id := Some c\<rparr>)) r)"
proof (rule put_event_ok[OF ok])
  show "row_ok (touch now (e\<lparr>ev_telegram_chat_id := Some c\<rparr>))"
    using events_okD(2)[OF ok e] by (simp add: row_defs)
  show "ev_event_id (touch now (e\<lparr>ev_telegram_chat_id := Some c\<rparr>)) = k"
    using events_okD(1)[OF ok e] by (simp add: touch_def)
  fix k' e' assume "(k', e') \<in> set (er_rows r)"
    "ev_telegram_chat_id (touch now (e\<lparr>ev_telegram_chat_id := Some c\<rparr>)) = ev_telegram_chat_id e'"
  then show "k' = k" using unbound by (simp add: touch_def)
qed

lemma bind_chat_ok [keeps_intros]: "keeps events_ok (bind_telegram_chat k c now)"
  unfolding keeps_def
proof (intro allI impI)
  fix r assume ok: "events_ok r"
  show "events_ok (snd (bind_telegram_chat k c now r))"
  proof (cases "get_event k r")
    case (Some e)
    have "events_ok (put_event k e r)" using same_chat_ok[OF ok Some] events_okD(1,2)[OF ok Some] by simp
    moreover have "events_ok (put_event k (touch now (e\<lparr>ev_telegram_chat_id := Some c\<rparr>)) r)"
      if "\<not> list_ex (\<lambda>other. ev_telegram_chat_id other = Some c) (dict_values (er_rows r))"
      using that by (intro new_chat_ok[OF ok Some]) (force simp: dict_values_def list_ex_iff)
    ultimately show ?thesis using Some by (simp add: bind_telegram_chat_def update_event_def)
  qed (simp add: bind_telegram_chat_def update_event_def ok)
qed

lemma migrate_chat_ok [keeps_intros]: "keeps events_ok (migrate_telegram_chat k old c now)"
  unfolding keeps_def
proof (intro allI impI)
  fix r assume ok: "events_ok r"
  show "events_ok (snd (migrate_telegram_chat k old c now r))"
  proof (cases "get_event k r")
    case (Some e)
    have "events_ok (put_event k e r)" using same_chat_ok[OF ok Some] events_okD(1,2)[OF ok Some] by simp
    moreover have "events_ok (put_event k (touch now (e\<lparr>ev_telegram_chat_id := Some c\<rparr>)) r)"
      if free: "\<not> list_ex (\<lambda>other. ev_event_id other \<noteq> k \<and> ev_telegram_chat_id other = Some c) (dict_values (er_rows r))"
    proof (rule new_chat_ok[OF ok Some])
      fix k' e' assume row: "(k', e') \<in> set (er_rows r)" and "ev_telegram_chat_id e' = Some c"
      with free have "ev_event_id e' = k" by (force simp: dict_values_def list_ex_iff)
      with ok row show "k' = k" by (auto simp: events_ok_def)
    qed
    ultimately show ?thesis using Some by (simp add: migrate_telegram_chat_def update_event_def)
  qed (simp add: migrate_telegram_chat_def update_event_def ok)
qed

lemma create_event_ok:
  assumes "row_ok e" and "ev_telegram_chat_id e = None"
  shows "keeps events_ok (create_event e leaders)"
  using assms by (auto simp: keeps_def create_event_def intro!: put_event_ok)

lemma leader_ops_ok [keeps_intros]:
  "keeps events_ok (add_leader k l)"
  "keeps events_ok (remove_leader k l)"
  by (auto simp: keeps_def add_leader_def remove_leader_def)

lemma chats_unique_subset: "set rows' \<subseteq> set rows \<Longrightarrow> chats_unique rows \<Longrightarrow> chats_unique rows'"
  unfolding chats_unique_def by blast

lemma delete_event_ok [keeps_intros]: "keeps events_ok (delete_event k)"
  using chats_unique_subset[of "dict_pop k rows" rows for rows]
  by (auto simp: keeps_def delete_event_def events_ok_def set_dict_pop)

section \<open>The repository as a transition system\<close>

text \<open>
  One step is one call of one method.  Only new games are created: they carry no chat yet and satisfy
  the row invariant, as every \<open>Event\<close> built from the creation dialogue does.
\<close>

inductive event_step :: "events \<Rightarrow> events \<Rightarrow> bool" where
  create: "row_ok e \<Longrightarrow> ev_telegram_chat_id e = None \<Longrightarrow> event_step r (snd (create_event e leaders r))"
| add_leader: "event_step r (snd (add_leader k l r))"
| remove_leader: "event_step r (snd (remove_leader k l r))"
| status: "event_step r (snd (set_status k st now r))"
| open_at: "event_step r (snd (set_registration_open_at k at now r))"
| open_told: "event_step r (snd (mark_registration_open_notification_delivered k who now r))"
| open_done: "event_step r (snd (complete_registration_open_notification k t r))"
| schedule: "event_step r (snd (set_confirmation_schedule k at dl now r))"
| open_scheduled: "event_step r (snd (open_scheduled_confirmation k t u now r))"
| open_now: "event_step r (snd (open_confirmation k u now r))"
| close_at: "event_step r (snd (set_scheduled_close_at k at now r))"
| close_start: "event_step r (snd (start_scheduled_close k op t r))"
| close_actions: "event_step r (snd (complete_scheduled_close_actions k op t r))"
| close_told: "event_step r (snd (mark_scheduled_close_notification_delivered k op who now r))"
| close_done: "event_step r (snd (complete_scheduled_close_notifications k op t r))"
| amount: "event_step r (snd (set_player_amount k n now r))"
| question: "event_step r (snd (set_registration_question k q now r))"
| details: "event_step r (snd (set_details k name d now r))"
| posts: "event_step r (snd (set_post_links k v w now r))"
| bind: "event_step r (snd (bind_telegram_chat k c now r))"
| migrate: "event_step r (snd (migrate_telegram_chat k old c now r))"
| invite: "event_step r (snd (set_telegram_chat_invite_link k c v now r))"
| migrated: "event_step r (snd (mark_registrations_migrated k t r))"
| public_table: "event_step r (snd (set_public_table k v w g now r))"
| archive: "event_step r (snd (archive_event k t r))"
| unarchive: "event_step r (snd (unarchive_event k t r))"
| pass_table: "event_step r (snd (set_pass_table k v w g now r))"
| google: "event_step r (snd (set_google_table_links k a b g now r))"
| yandex: "event_step r (snd (set_yandex_table_links k a b g now r))"
| achievement: "event_step r (snd (set_achievement k v w now r))"
| confirmed_note: "event_step r (snd (append_confirmed_notification k v op now r))"
| reserve: "event_step r (snd (set_reserve_promotion k op a now r))"
| reserve_told: "event_step r (snd (mark_reserve_promotion_delivered k op now r))"
| confirmed_link: "event_step r (snd (set_confirmed_link_promotion k op a now r))"
| confirmed_told: "event_step r (snd (mark_confirmed_link_promotion_delivered k op now r))"
| removal: "event_step r (snd (set_participant_removal k op keys now r))"
| removal_more: "event_step r (snd (add_participant_removal_keys k op keys now r))"
| removal_told: "event_step r (snd (mark_participant_removal_delivered k op who now r))"
| delete: "event_step r (snd (delete_event k r))"

definition no_events :: events where
  "no_events = \<lparr>er_rows = [], er_leaders = []\<rparr>"

definition reachable_events :: "events \<Rightarrow> bool" where
  "reachable_events r \<longleftrightarrow> event_step\<^sup>*\<^sup>* no_events r"

lemmas event_ops_ok = status_ops_ok confirmation_ops_ok close_ops_ok detail_ops_ok snapshot_ops_ok
  table_ops_ok invite_link_ok bind_chat_ok migrate_chat_ok leader_ops_ok delete_event_ok

lemma event_step_ok: "event_step r r' \<Longrightarrow> events_ok r \<Longrightarrow> events_ok r'"
  by (induction rule: event_step.induct) (blast intro: keepsD event_ops_ok create_event_ok)+

lemma events_ok_reachable: "reachable_events r \<Longrightarrow> events_ok r"
  unfolding reachable_events_def
proof (induction rule: rtranclp_induct)
  case base
  show ?case by (simp add: no_events_def events_ok_def chats_unique_def)
qed (rule event_step_ok)

section \<open>Retries\<close>

lemma update_event_again:
  assumes "\<And>e. snd (f t' (snd (f t e))) = snd (f t e)"
  shows "snd (update_event k m (f t') (snd (update_event k m (f t) r))) = snd (update_event k m (f t) r)"
  using assms by (auto simp: update_event_def case_prod_beta split: option.splits)

lemmas retry_defs = touch_def split_beta

interpretation close_start: retry_safe "start_scheduled_close k operation_id" for k operation_id
  unfolding start_scheduled_close_def
  by unfold_locales (rule update_event_again[where f = "\<lambda>t e. _ t e"], simp add: retry_defs)

interpretation close_actions: retry_safe "complete_scheduled_close_actions k operation_id" for k operation_id
  unfolding complete_scheduled_close_actions_def
  by unfold_locales (rule update_event_again[where f = "\<lambda>t e. _ t e"], simp add: retry_defs)

interpretation close_told: retry_safe "mark_scheduled_close_notification_delivered k operation_id recipient"
  for k operation_id recipient
  unfolding mark_scheduled_close_notification_delivered_def
  by unfold_locales (rule update_event_again[where f = "\<lambda>t e. _ t e"], simp add: retry_defs)

interpretation close_done: retry_safe "complete_scheduled_close_notifications k operation_id" for k operation_id
  unfolding complete_scheduled_close_notifications_def
  by unfold_locales (rule update_event_again[where f = "\<lambda>t e. _ t e"], simp add: retry_defs)

interpretation opening_told: retry_safe "mark_registration_open_notification_delivered k recipient"
  for k recipient
  unfolding mark_registration_open_notification_delivered_def
  by unfold_locales (rule update_event_again[where f = "\<lambda>t e. _ t e"], simp add: retry_defs)

interpretation confirmed_note: retry_safe "append_confirmed_notification k message operation_id"
  for k message operation_id
  unfolding append_confirmed_notification_def
  by unfold_locales (rule update_event_again[where f = "\<lambda>t e. _ t e"], simp add: retry_defs)

interpretation removal: retry_safe "set_participant_removal k operation_id keys" for k operation_id keys
  unfolding set_participant_removal_def
  by unfold_locales (rule update_event_again[where f = "\<lambda>t e. _ t e"], simp add: retry_defs)

interpretation removal_told: retry_safe "mark_participant_removal_delivered k operation_id key"
  for k operation_id key
  unfolding mark_participant_removal_delivered_def
  by unfold_locales (rule update_event_again[where f = "\<lambda>t e. _ t e"], simp add: retry_defs)

section \<open>What the repository promises\<close>

lemma length_filter_unique:
  assumes "wf_dict m" and "\<And>k v k' v'. (k, v) \<in> set m \<Longrightarrow> (k', v') \<in> set m \<Longrightarrow> P v \<Longrightarrow> P v' \<Longrightarrow> k = k'"
  shows "length (filter P (dict_values m)) \<le> 1"
  using assms
proof (induction m)
  case (Cons e m)
  obtain k v where e: "e = (k, v)" by (cases e)
  have w: "wf_dict m" "k \<notin> fst ` set m" using Cons.prems(1) by (auto simp: wf_dict_def e)
  show ?case
  proof (cases "P v")
    case True
    have "filter P (dict_values m) = []"
      unfolding filter_empty_conv
    proof
      fix x assume "x \<in> set (dict_values m)"
      then obtain k' where "(k', x) \<in> set m" by (auto simp: dict_values_def)
      with w(2) Cons.prems(2)[of k v k' x] True show "\<not> P x" by (force simp: e)
    qed
    then show ?thesis by (simp add: e dict_values_def)
  next
    case False
    have "length (filter P (dict_values m)) \<le> 1"
      by (rule Cons.IH[OF w(1)]) (rule Cons.prems(2); simp)
    with False show ?thesis by (simp add: e dict_values_def)
  qed
qed (simp add: dict_values_def)

lemma the_only_error: "the_only es \<noteq> Inl OutOfFuel"
  by (simp add: the_only_def split: list.split)

lemma the_only_length: "length es \<le> 1 \<Longrightarrow> \<exists>x. the_only es = Inr x \<and> (\<forall>e. x = Some e \<longleftrightarrow> e \<in> set es)"
  by (cases es rule: list.exhaust[case_product list.exhaust]) (auto simp: the_only_def split: list.splits)

text \<open>
  C32. One chat, one game: in every reachable state the lookup by Telegram chat succeeds, and it finds a
  game exactly when that game is bound to the chat.
\<close>

theorem chat_identifies_game:
  assumes "reachable_events r"
  shows "\<exists>x. get_by_telegram_chat_id c r = Inr x \<and>
    (\<forall>e. x = Some e \<longleftrightarrow> get_event (ev_event_id e) r = Some e \<and> ev_telegram_chat_id e = Some c)"
proof -
  have ok: "events_ok r" using assms by (rule events_ok_reachable)
  then have w: "wf_dict (er_rows r)" and u: "chats_unique (er_rows r)"
    and id: "\<And>k e. (k, e) \<in> set (er_rows r) \<Longrightarrow> ev_event_id e = k" by (auto simp: events_ok_def)
  let ?es = "filter (\<lambda>e. ev_telegram_chat_id e = Some c) (dict_values (er_rows r))"
  have "length ?es \<le> 1"
  proof (rule length_filter_unique[OF w])
    fix k v k' v'
    assume "(k, v) \<in> set (er_rows r)" "(k', v') \<in> set (er_rows r)"
      "ev_telegram_chat_id v = Some c" "ev_telegram_chat_id v' = Some c"
    moreover from this have "ev_telegram_chat_id v \<noteq> None" "ev_telegram_chat_id v = ev_telegram_chat_id v'"
      by simp_all
    ultimately show "k = k'" using u[unfolded chats_unique_def] by blast
  qed
  from the_only_length[OF this] obtain x where
    x: "get_by_telegram_chat_id c r = Inr x" "\<forall>e. x = Some e \<longleftrightarrow> e \<in> set ?es"
    by (auto simp: get_by_telegram_chat_id_def)
  have "e \<in> set (dict_values (er_rows r)) \<longleftrightarrow> get_event (ev_event_id e) r = Some e" for e
    using id dict_get_in by (fastforce simp: in_dict_values[OF w] get_event_def)
  with x show ?thesis by auto
qed

text \<open>
  The lifecycle data of a stored game stay consistent under every operation: its tables are set
  together, a scheduled confirmation opening has a deadline, a scheduled close is announced or
  completed only after it has started, and no recipient is recorded twice.
\<close>

theorem stored_rows_consistent:
  assumes "reachable_events r" and "get_event k r = Some e"
  shows "ev_event_id e = k \<and> table_fields_are_atomic e \<and> progress_ok e"
  using events_okD[OF events_ok_reachable[OF assms(1)] assms(2)] by (simp add: row_ok_def)

definition close_frozen :: "event \<Rightarrow> event \<Rightarrow> bool" where
  "close_frozen e e' \<longleftrightarrow>
     (ev_scheduled_close_operation_id e \<noteq> None \<longrightarrow>
        ev_scheduled_close_operation_id e' = ev_scheduled_close_operation_id e
        \<and> ev_scheduled_close_at e' = ev_scheduled_close_at e
        \<and> set (ev_scheduled_close_notified_recipients e) \<subseteq> set (ev_scheduled_close_notified_recipients e'))"

lemma close_frozen_refl [simp]: "close_frozen e e"
  by (simp add: close_frozen_def)

definition keeps_close :: "(events, exn, 'a) act \<Rightarrow> bool" where
  "keeps_close m \<longleftrightarrow>
     (\<forall>r k e e'. get_event k r = Some e \<longrightarrow> get_event k (snd (m r)) = Some e' \<longrightarrow> close_frozen e e')"

lemma update_event_close: "(\<And>e. close_frozen e (snd (f e))) \<Longrightarrow> keeps_close (update_event k m f)"
  by (auto simp: keeps_close_def update_event_def case_prod_beta split: option.splits if_splits)

lemma revalidate_frozen:
  assumes "ev_scheduled_close_operation_id new = ev_scheduled_close_operation_id old"
    and "ev_scheduled_close_at new = ev_scheduled_close_at old"
    and "ev_scheduled_close_notified_recipients new = ev_scheduled_close_notified_recipients old"
  shows "close_frozen old (snd (revalidate old new))"
proof (cases "event_validate new")
  case (Some e)
  from event_validate_shape(2)[OF Some] obtain q t v n where
    e: "e = new\<lparr>ev_registration_question := q, ev_telegram_post_url := t, ev_vk_post_url := v,
       ev_confirmed_notifications := n\<rparr>" by blast
  from Some assms show ?thesis by (simp add: revalidate_def close_frozen_def e)
qed (simp add: revalidate_def)

lemma other_ops_close:
  "keeps_close (create_event x ls)"
  "keeps_close (add_leader k' l)"
  "keeps_close (remove_leader k' l)"
  "keeps_close (delete_event k')"
  by (auto simp: keeps_close_def create_event_def add_leader_def remove_leader_def delete_event_def
      get_event_def dict_get_pop put_event_def dict_get_put split: if_splits)

lemma keeps_close_if: "keeps_close m \<Longrightarrow> keeps_close n \<Longrightarrow> keeps_close (if c then m else n)"
  by simp

lemma schedule_close: "keeps_close (set_confirmation_schedule k a d now)"
  unfolding set_confirmation_schedule_def
  by (rule keeps_close_if) (simp add: keeps_close_def,
    rule update_event_close, simp add: close_frozen_def touch_def)

lemma bind_close: "keeps_close (bind_telegram_chat k c now)"
  by (auto simp: keeps_close_def bind_telegram_chat_def update_event_def close_frozen_def touch_def
      split: option.splits if_splits)

lemma migrate_close: "keeps_close (migrate_telegram_chat k old c now)"
  by (auto simp: keeps_close_def migrate_telegram_chat_def update_event_def close_frozen_def touch_def
      split: option.splits if_splits)

lemmas update_op_defs = set_status_def set_registration_open_at_def
  mark_registration_open_notification_delivered_def complete_registration_open_notification_def
  open_scheduled_confirmation_def open_confirmation_def set_scheduled_close_at_def
  start_scheduled_close_def complete_scheduled_close_actions_def
  mark_scheduled_close_notification_delivered_def complete_scheduled_close_notifications_def
  set_player_amount_def set_registration_question_def set_details_def set_post_links_def
  set_telegram_chat_invite_link_def mark_registrations_migrated_def
  append_confirmed_notification_def set_reserve_promotion_def mark_reserve_promotion_delivered_def
  set_confirmed_link_promotion_def mark_confirmed_link_promotion_delivered_def
  set_participant_removal_def add_participant_removal_keys_def mark_participant_removal_delivered_def

lemmas table_op_defs = set_public_table_def archive_event_def unarchive_event_def set_pass_table_def
  set_google_table_links_def set_yandex_table_links_def set_achievement_def

lemma update_ops_close:
  "keeps_close (set_status k st now)"
  "keeps_close (set_registration_open_at k at now)"
  "keeps_close (mark_registration_open_notification_delivered k who now)"
  "keeps_close (complete_registration_open_notification k t)"
  "keeps_close (open_scheduled_confirmation k t u now)"
  "keeps_close (open_confirmation k u now)"
  "keeps_close (set_scheduled_close_at k at now)"
  "keeps_close (start_scheduled_close k op t)"
  "keeps_close (complete_scheduled_close_actions k op t)"
  "keeps_close (mark_scheduled_close_notification_delivered k op who now)"
  "keeps_close (complete_scheduled_close_notifications k op t)"
  "keeps_close (set_player_amount k n now)"
  "keeps_close (set_registration_question k q now)"
  "keeps_close (set_details k name d now)"
  "keeps_close (set_post_links k v w now)"
  "keeps_close (set_telegram_chat_invite_link k c v now)"
  "keeps_close (mark_registrations_migrated k t)"
  "keeps_close (append_confirmed_notification k v op now)"
  "keeps_close (set_reserve_promotion k op key now)"
  "keeps_close (mark_reserve_promotion_delivered k op now)"
  "keeps_close (set_confirmed_link_promotion k op key now)"
  "keeps_close (mark_confirmed_link_promotion_delivered k op now)"
  "keeps_close (set_participant_removal k op keys now)"
  "keeps_close (add_participant_removal_keys k op keys now)"
  "keeps_close (mark_participant_removal_delivered k op who now)"
  unfolding update_op_defs Let_def
  by (rule update_event_close; simp add: close_frozen_def touch_def subset_insertI split: option.splits)+

lemma table_ops_close:
  "keeps_close (set_public_table k v w g now)"
  "keeps_close (archive_event k t)"
  "keeps_close (unarchive_event k t)"
  "keeps_close (set_pass_table k v w g now)"
  "keeps_close (set_google_table_links k x y g now)"
  "keeps_close (set_yandex_table_links k x y g now)"
  "keeps_close (set_achievement k v w now)"
  unfolding table_op_defs
  by (rule update_event_close; simp add: touch_def revalidate_frozen)+

lemmas ops_close = other_ops_close schedule_close bind_close migrate_close update_ops_close table_ops_close

lemma keeps_closeD:
  "keeps_close m \<Longrightarrow> get_event k r = Some e \<Longrightarrow> get_event k (snd (m r)) = Some e' \<Longrightarrow> close_frozen e e'"
  by (simp add: keeps_close_def)

lemma event_step_frozen:
  "event_step r r' \<Longrightarrow> get_event k r = Some e \<Longrightarrow> get_event k r' = Some e' \<Longrightarrow> close_frozen e e'"
  by (induction rule: event_step.induct)
    (rule keeps_closeD, rule ops_close, assumption, assumption)+

text \<open>
  C34. Once a scheduled close has started, no operation changes its operation id or its time or forgets
  a master who has been told: the close can only be carried through by the command that started it.
\<close>

theorem started_close_is_frozen:
  assumes "event_step r r'" and "get_event k r = Some e" and "get_event k r' = Some e'"
    and "ev_scheduled_close_operation_id e = Some operation_id"
  shows "ev_scheduled_close_operation_id e' = Some operation_id
    \<and> ev_scheduled_close_at e' = ev_scheduled_close_at e
    \<and> set (ev_scheduled_close_notified_recipients e) \<subseteq> set (ev_scheduled_close_notified_recipients e')"
  using event_step_frozen[OF assms(1-3)] assms(4) by (simp add: close_frozen_def)

text \<open>
  C35. The stages of a scheduled close are retry-safe: however often and whenever a stage is attempted
  again, the repository is as the first attempt left it.
\<close>

theorem scheduled_close_retries:
  "retries (start_scheduled_close k operation_id) (t # ts) r = snd (start_scheduled_close k operation_id t r)
   \<and> retries (complete_scheduled_close_actions k operation_id) (t # ts) r =
       snd (complete_scheduled_close_actions k operation_id t r)
   \<and> retries (mark_scheduled_close_notification_delivered k operation_id recipient) (t # ts) r =
       snd (mark_scheduled_close_notification_delivered k operation_id recipient t r)
   \<and> retries (complete_scheduled_close_notifications k operation_id) (t # ts) r =
       snd (complete_scheduled_close_notifications k operation_id t r)"
  by (intro conjI close_start.retries_settle close_actions.retries_settle close_told.retries_settle
      close_done.retries_settle)

text \<open>
  The retry snapshot of a command survives the retries: attempting the command again, with other
  keys computed from the changed rosters, keeps the keys of the first attempt.
\<close>

theorem removal_snapshot_survives:
  assumes "get_event k r = Some e" and "ev_last_participant_removal_operation_id e \<noteq> Some operation_id"
  shows "\<exists>e'. get_event k (snd (set_participant_removal k operation_id keys' t'
        (snd (set_participant_removal k operation_id keys t r)))) = Some e'
      \<and> ev_participant_removal_keys e' = keys \<and> ev_participant_removal_notified_keys e' = []"
  using assms by (simp add: set_participant_removal_def update_event_def touch_def)

section \<open>A concrete repository\<close>

definition sample_id :: ustring where
  "sample_id = asc ''game-0001''"

definition created_repo :: events where
  "created_repo = snd (create_event sample_event [] no_events)"

definition sample_repo :: events where
  "sample_repo = snd (start_scheduled_close sample_id [1] 6
     (snd (bind_telegram_chat sample_id 77 5 created_repo)))"

lemma created_repo_rows: "er_rows created_repo = [(sample_id, sample_event)]"
  by (simp add: created_repo_def create_event_def no_events_def put_event_def dict_put_def get_event_def
      sample_id_def sample_event_def)

definition bound_event :: event where
  "bound_event = touch 6 ((touch 5 (sample_event\<lparr>ev_telegram_chat_id := Some 77\<rparr>))
     \<lparr>ev_status := CLOSED, ev_scheduled_close_operation_id := Some [1]\<rparr>)"

lemma sample_repo_rows: "er_rows sample_repo = [(sample_id, bound_event)]"
  by (simp add: sample_repo_def bind_telegram_chat_def start_scheduled_close_def update_event_def
      get_event_def put_event_def created_repo_rows dict_get_def dict_put_def dict_values_def
      bound_event_def touch_def sample_event_def)

lemma sample_repo_get: "get_event sample_id sample_repo = Some bound_event"
  by (simp add: get_event_def sample_repo_rows dict_get_def)

lemma created_repo_get: "get_event sample_id created_repo = Some sample_event"
  by (simp add: get_event_def created_repo_rows dict_get_def)

lemma row_ok_sample: "row_ok sample_event"
  by (simp add: row_ok_def progress_ok_def table_fields_are_atomic_def sample_event_def)

lemma reachable_step: "reachable_events r \<Longrightarrow> event_step r r' \<Longrightarrow> reachable_events r'"
  unfolding reachable_events_def by (rule rtranclp.rtrancl_into_rtrancl)

lemma created_repo_reachable: "reachable_events created_repo"
  unfolding created_repo_def
  by (rule reachable_step[OF _ event_step.create[OF row_ok_sample]])
    (simp_all add: reachable_events_def sample_event_def)

lemma sample_repo_reachable: "reachable_events sample_repo"
  unfolding sample_repo_def
  by (rule reachable_step[OF reachable_step[OF created_repo_reachable event_step.bind] event_step.close_start])

theorem chat_identifies_game_witness:
  "\<exists>x. get_by_telegram_chat_id 77 sample_repo = Inr x \<and> x = Some bound_event"
proof -
  have e: "ev_event_id bound_event = sample_id" "ev_telegram_chat_id bound_event = Some 77"
    by (simp_all add: bound_event_def touch_def sample_event_def sample_id_def)
  from chat_identifies_game[OF sample_repo_reachable, of 77] e sample_repo_get show ?thesis by auto
qed

theorem stored_rows_consistent_witness: "ev_event_id bound_event = sample_id \<and> progress_ok bound_event"
  using stored_rows_consistent[OF sample_repo_reachable sample_repo_get] by blast

theorem started_close_is_frozen_witness:
  "ev_scheduled_close_operation_id (touch 9 (bound_event\<lparr>ev_status := CREATED\<rparr>)) = Some [1]"
proof -
  have g: "get_event sample_id (snd (set_status sample_id CREATED 9 sample_repo)) =
      Some (touch 9 (bound_event\<lparr>ev_status := CREATED\<rparr>))"
    by (simp add: set_status_def update_event_def sample_repo_get)
  have o: "ev_scheduled_close_operation_id bound_event = Some [1]"
    by (simp add: bound_event_def touch_def)
  from started_close_is_frozen[OF event_step.status sample_repo_get g o] show ?thesis by blast
qed

theorem removal_snapshot_survives_witness:
  "\<exists>e'. get_event sample_id (snd (set_participant_removal sample_id [7] [[4]] 9
        (snd (set_participant_removal sample_id [7] [[3]] 8 created_repo)))) = Some e'
      \<and> ev_participant_removal_keys e' = [[3]]"
proof -
  have n: "ev_last_participant_removal_operation_id sample_event \<noteq> Some [7]" by (simp add: sample_event_def)
  from removal_snapshot_survives[OF created_repo_get n, of "[[4]]" 9 "[[3]]" 8] show ?thesis by blast
qed

end
