(* ===== verification/Registrations.thy ===== *)
theory Registrations
  imports Queues Events
begin

text \<open>
  \<open>MemoryRegistrationRepository\<close> (\<open>adapters/memory.py\<close>): the registrations by game and participant
  key, and the set of delivered participation notices (a list without repetition here).  Methods that
  read the clock once take \<open>now\<close>; \<open>enlist\<close> and \<open>update_answer\<close> read it several times and take a clock.
\<close>

section \<open>State\<close>

type_synonym reg_key = "ustring \<times> ustring"

record regs =
  rr_rows :: "(reg_key, registration) dict"
  rr_deliveries :: "(ustring \<times> ustring \<times> ustring) list"

definition get_registration_row :: "ustring \<Rightarrow> ustring \<Rightarrow> regs \<Rightarrow> registration option" where
  "get_registration_row event_id key r = dict_get (rr_rows r) (event_id, key)"

definition put_row :: "reg_key \<Rightarrow> registration \<Rightarrow> regs \<Rightarrow> regs" where
  "put_row k row r = r\<lparr>rr_rows := dict_put k row (rr_rows r)\<rparr>"

definition pop_row :: "reg_key \<Rightarrow> regs \<Rightarrow> regs" where
  "pop_row k r = r\<lparr>rr_rows := dict_pop k (rr_rows r)\<rparr>"

definition update_row ::
    "reg_key \<Rightarrow> exn + bool \<Rightarrow> (registration \<Rightarrow> bool \<times> registration) \<Rightarrow> (regs, exn, bool) act" where
  "update_row k missing f r =
     (case dict_get (rr_rows r) k of
        None \<Rightarrow> (missing, r)
      | Some row \<Rightarrow> (case f row of (x, row') \<Rightarrow> (Inr x, put_row k row' r)))"

definition event_rows :: "ustring \<Rightarrow> regs \<Rightarrow> registration list" where
  "event_rows event_id r = map snd (filter (\<lambda>((stored, _), _). stored = event_id) (rr_rows r))"

section \<open>Reading\<close>

definition participation_notification_delivered :: "ustring \<Rightarrow> ustring \<Rightarrow> ustring \<Rightarrow> regs \<Rightarrow> bool" where
  "participation_notification_delivered event_id key request_id r \<longleftrightarrow>
     (event_id, key, request_id) \<in> set (rr_deliveries r)"

definition mark_participation_notification_delivered :: "ustring \<Rightarrow> ustring \<Rightarrow> ustring \<Rightarrow> regs \<Rightarrow> regs" where
  "mark_participation_notification_delivered event_id key request_id r =
     (if participation_notification_delivered event_id key request_id r then r
      else r\<lparr>rr_deliveries := rr_deliveries r @ [(event_id, key, request_id)]\<rparr>)"

definition find_by_telegram_profile :: "ustring \<Rightarrow> regs \<Rightarrow> registration list" where
  "find_by_telegram_profile profile r =
     sort_key (\<lambda>row. (rg_event_id row, rg_participant_key row))
       (filter (\<lambda>row. rg_telegram_profile row = Some profile) (dict_values (rr_rows r)))"

definition registration_cursor :: "registration \<Rightarrow> time \<times> ustring" where
  "registration_cursor row = (rg_created_at row, rg_participant_key row)"

definition list_for_event :: "ustring \<Rightarrow> regs \<Rightarrow> registration list" where
  "list_for_event event_id r = sort_key registration_cursor (event_rows event_id r)"

definition list_page_for_event ::
    "ustring \<Rightarrow> attendance_status list option \<Rightarrow> cursor option \<Rightarrow> cursor option \<Rightarrow> nat \<Rightarrow> regs
       \<Rightarrow> exn + registration list" where
  "list_page_for_event event_id statuses after before limit r =
     (if after \<noteq> None \<and> before \<noteq> None then Inl ValueError
      else
        (let values1 = sort_key registration_cursor
               (optional_filter statuses (\<lambda>accepted row. rg_attendance_status row \<in> set accepted)
                 (event_rows event_id r));
             values2 = optional_filter after (\<lambda>c row. registration_cursor row > c) values1;
             values3 = (case before of
               None \<Rightarrow> values2
             | Some c \<Rightarrow> take_last limit (filter (\<lambda>row. registration_cursor row < c) values2))
         in Inr (take limit values3)))"

section \<open>Enlisting\<close>

definition import_missing :: "registration list \<Rightarrow> regs \<Rightarrow> regs" where
  "import_missing rows r =
     r\<lparr>rr_rows := foldl (\<lambda>d row. dict_setdefault (rg_event_id row, rg_participant_key row) row d)
         (rr_rows r) rows\<rparr>"

fun latest_time :: "time list \<Rightarrow> time option" where
  "latest_time [] = None"
| "latest_time (t # ts) = Some (foldl max t ts)"

record profile_view =
  pv_display_name :: ustring
  pv_nickname :: "ustring option"
  pv_larp_experience :: "bool option"
  pv_crossplay :: "bool option"
  pv_vk_profile :: ustring
  pv_telegram_profile :: "ustring option"

definition new_registration ::
    "ustring \<Rightarrow> ustring \<Rightarrow> profile_view \<Rightarrow> ustring \<Rightarrow> time \<Rightarrow> time \<Rightarrow> registration" where
  "new_registration event_id key view wish_play queue_time now =
     \<lparr>rg_event_id = event_id, rg_participant_key = key, rg_display_name = pv_display_name view,
      rg_nickname = pv_nickname view, rg_vk_profile = pv_vk_profile view,
      rg_telegram_profile = pv_telegram_profile view, rg_wish_play = wish_play, rg_answer_id = None,
      rg_answer_queue_at = None, rg_larp_experience = pv_larp_experience view,
      rg_crossplay = pv_crossplay view, rg_character_wish = [], rg_attendance_status = WAITING,
      rg_last_operation_id = [], rg_created_at = queue_time, rg_updated_at = now\<rparr>"

text \<open>The moment a registration joins the queue: now, or just behind the last active one.\<close>

definition joining_time :: "ustring \<Rightarrow> regs \<Rightarrow> time \<Rightarrow> time" where
  "joining_time event_id r now =
     (case latest_time (map (fst \<circ> queue_key) (filter is_active (event_rows event_id r))) of
        None \<Rightarrow> now
      | Some latest \<Rightarrow> max now (latest + 1))"

definition enlisted ::
    "ustring option \<Rightarrow> time \<Rightarrow> ustring \<Rightarrow> time \<Rightarrow> registration \<Rightarrow> registration" where
  "enlisted answer_id queue_time operation_id now row =
     row\<lparr>rg_answer_id := answer_id,
         rg_answer_queue_at := (if answer_id \<noteq> None then Some queue_time else None),
         rg_last_operation_id := operation_id, rg_updated_at := now\<rparr>"

definition enlist ::
    "ustring \<Rightarrow> ustring \<Rightarrow> ustring \<Rightarrow> profile_view \<Rightarrow> ustring \<Rightarrow> ustring option \<Rightarrow> clock
       \<Rightarrow> (regs, exn, bool) act" where
  "enlist event_id operation_id key view wish_play answer_id clk r =
     (case get_registration_row event_id key r of
        None \<Rightarrow>
          (let queue_time = joining_time event_id r (clk 0)
           in case registration_validate (new_registration event_id key view wish_play queue_time (clk 1)) of
                None \<Rightarrow> (Inl ValueError, r)
              | Some row \<Rightarrow>
                  (Inr True, put_row (event_id, key) (enlisted answer_id queue_time operation_id (clk 2) row) r))
      | Some row \<Rightarrow>
          if rg_last_operation_id row = operation_id then (Inr False, r)
          else
            (let cancelled = rg_attendance_status row = CANCELLED;
                 queue_time = (if cancelled then joining_time event_id r (clk 0) else clk 0);
                 named = row\<lparr>rg_display_name := pv_display_name view\<rparr>
             in case optionally normalize_nickname (pv_nickname view) of
                  None \<Rightarrow> (Inl ValueError, put_row (event_id, key) named r)
                | Some nickname \<Rightarrow>
                    (let viewed = named\<lparr>rg_nickname := nickname, rg_wish_play := wish_play,
                           rg_larp_experience := pv_larp_experience view, rg_crossplay := pv_crossplay view,
                           rg_vk_profile := pv_vk_profile view,
                           rg_telegram_profile := pv_telegram_profile view\<rparr>;
                         waiting = (if cancelled
                           then viewed\<lparr>rg_attendance_status := WAITING, rg_created_at := queue_time\<rparr>
                           else viewed)
                     in (Inr True, put_row (event_id, key)
                           (enlisted answer_id queue_time operation_id (clk 1) waiting) r))))"

section \<open>Changing rows\<close>

text \<open>\<open>update_answer\<close>: all the rows of the actor move to the end of the queue of the new answer.\<close>

definition answer_rows :: "ustring \<Rightarrow> ustring list \<Rightarrow> regs \<Rightarrow> registration list" where
  "answer_rows event_id keys r =
     List.map_filter (\<lambda>key. get_registration_row event_id key r) keys"

fun put_answers ::
    "ustring \<Rightarrow> ustring \<Rightarrow> time \<Rightarrow> ustring \<Rightarrow> ustring list \<Rightarrow> nat \<Rightarrow> clock \<Rightarrow> regs \<Rightarrow> regs" where
  "put_answers event_id answer_id queue_time operation_id [] i clk r = r"
| "put_answers event_id answer_id queue_time operation_id (key # keys) i clk r =
     (case get_registration_row event_id key r of
        None \<Rightarrow> put_answers event_id answer_id queue_time operation_id keys i clk r
      | Some row \<Rightarrow>
          put_answers event_id answer_id queue_time operation_id keys (Suc i) clk
            (put_row (event_id, key) (enlisted (Some answer_id) queue_time operation_id (clk i) row) r))"

definition update_answer ::
    "ustring \<Rightarrow> ustring \<Rightarrow> ustring list \<Rightarrow> ustring \<Rightarrow> clock \<Rightarrow> regs \<Rightarrow> bool \<times> regs" where
  "update_answer event_id operation_id keys answer_id clk r =
     (let rows = answer_rows event_id keys r
      in if rows = [] \<or> list_all (\<lambda>row. rg_last_operation_id row = operation_id) rows then (False, r)
         else if list_all (\<lambda>row. rg_answer_id row = Some answer_id) rows then (False, r)
         else
           (let latest = (case latest_time (map (fst \<circ> queue_key)
                    (filter (\<lambda>row. rg_answer_id row = Some answer_id \<and> is_active row)
                      (event_rows event_id r))) of
                  None \<Rightarrow> clk 0
                | Some t \<Rightarrow> t);
                queue_time = max (clk 1) (latest + 1)
            in (True, put_answers event_id answer_id queue_time operation_id keys 2 clk r)))"

definition viewed_as :: "profile_view \<Rightarrow> registration \<Rightarrow> registration" where
  "viewed_as view row =
     row\<lparr>rg_display_name := pv_display_name view, rg_nickname := pv_nickname view,
         rg_larp_experience := pv_larp_experience view, rg_crossplay := pv_crossplay view,
         rg_vk_profile := pv_vk_profile view, rg_telegram_profile := pv_telegram_profile view\<rparr>"

definition update_profile_row ::
    "ustring \<Rightarrow> ustring \<Rightarrow> ustring \<Rightarrow> profile_view \<Rightarrow> time \<Rightarrow> (regs, exn, bool) act" where
  "update_profile_row event_id operation_id key view now r =
     (case get_registration_row event_id key r of
        None \<Rightarrow> (Inr False, r)
      | Some row \<Rightarrow>
          if rg_last_operation_id row = operation_id then (Inr False, r)
          else (case optionally normalize_nickname (pv_nickname view) of
                  None \<Rightarrow> (Inl ValueError,
                    put_row (event_id, key) (row\<lparr>rg_display_name := pv_display_name view\<rparr>) r)
                | Some nickname \<Rightarrow>
                    (Inr True, put_row (event_id, key)
                       ((viewed_as (view\<lparr>pv_nickname := nickname\<rparr>) row)
                          \<lparr>rg_last_operation_id := operation_id, rg_updated_at := now\<rparr>) r)))"

definition applied :: "ustring \<Rightarrow> time \<Rightarrow> registration \<Rightarrow> registration" where
  "applied operation_id now row = row\<lparr>rg_last_operation_id := operation_id, rg_updated_at := now\<rparr>"

definition confirmed :: "ustring \<Rightarrow> registration \<Rightarrow> registration" where
  "confirmed wish row = row\<lparr>rg_character_wish := wish, rg_attendance_status := CONFIRMED\<rparr>"

definition cancelled :: "registration \<Rightarrow> registration" where
  "cancelled row = row\<lparr>rg_attendance_status := CANCELLED\<rparr>"

text \<open>A change applied once per operation id; \<open>True\<close> when it was applied now.\<close>

definition once :: "ustring \<Rightarrow> (registration \<Rightarrow> registration) \<Rightarrow> time \<Rightarrow> registration \<Rightarrow> bool \<times> registration" where
  "once operation_id change now row =
     (if rg_last_operation_id row = operation_id then (False, row)
      else (True, applied operation_id now (change row)))"

definition confirm_row ::
    "ustring \<Rightarrow> ustring \<Rightarrow> ustring \<Rightarrow> ustring \<Rightarrow> ustring option \<Rightarrow> ustring option
       \<Rightarrow> time \<Rightarrow> (regs, exn, bool) act" where
  "confirm_row event_id operation_id key wish replaced_event_id replaced_key now r =
     (if (replaced_event_id = None) \<noteq> (replaced_key = None) then (Inl ValueError, r)
      else if replaced_event_id = Some event_id then (Inl ValueError, r)
      else
        (case get_registration_row event_id key r of
           None \<Rightarrow> (Inl KeyError, r)
         | Some row \<Rightarrow>
             (let r' = (case (replaced_event_id, replaced_key) of
                    (Some e, Some k) \<Rightarrow> pop_row (e, k) r
                  | _ \<Rightarrow> r);
                  (fresh, row') = once operation_id (confirmed wish) now row
              in (Inr fresh, put_row (event_id, key) row' r'))))"

text \<open>The same change for each of an actor's rows that exist and have not had it yet.\<close>

fun each_once ::
    "ustring \<Rightarrow> ustring \<Rightarrow> (registration \<Rightarrow> registration) \<Rightarrow> ustring list \<Rightarrow> nat \<Rightarrow> clock
       \<Rightarrow> regs \<Rightarrow> bool \<times> regs" where
  "each_once event_id operation_id change [] i clk r = (False, r)"
| "each_once event_id operation_id change (key # keys) i clk r =
     (case get_registration_row event_id key r of
        None \<Rightarrow> each_once event_id operation_id change keys (Suc i) clk r
      | Some row \<Rightarrow>
          (let (fresh, row') = once operation_id change (clk i) row;
               (more, r') = each_once event_id operation_id change keys (Suc i) clk
                 (put_row (event_id, key) row' r)
           in (fresh \<or> more, r')))"

definition confirm_linked ::
    "ustring \<Rightarrow> ustring \<Rightarrow> ustring list \<Rightarrow> ustring \<Rightarrow> ustring option \<Rightarrow> ustring list \<Rightarrow> time
       \<Rightarrow> (regs, exn, bool) act" where
  "confirm_linked event_id operation_id keys wish replaced_event_id replaced_keys now r =
     (if (replaced_event_id = None) \<noteq> (replaced_keys = []) then (Inl ValueError, r)
      else if replaced_event_id = Some event_id then (Inl ValueError, r)
      else
        (let (c1, r1) = (case replaced_event_id of
               None \<Rightarrow> (False, r)
             | Some e \<Rightarrow> each_once e operation_id cancelled replaced_keys 0 (\<lambda>_. now) r);
             (c2, r2) = each_once event_id operation_id (confirmed wish) keys 0 (\<lambda>_. now) r1
         in (Inr (c1 \<or> c2), r2)))"

definition update_character_wish ::
    "ustring \<Rightarrow> ustring \<Rightarrow> ustring \<Rightarrow> ustring \<Rightarrow> time \<Rightarrow> (regs, exn, bool) act" where
  "update_character_wish event_id operation_id key wish now =
     update_row (event_id, key) (Inl KeyError)
       (once operation_id (\<lambda>row. row\<lparr>rg_character_wish := wish\<rparr>) now)"

definition update_linked_character_wish ::
    "ustring \<Rightarrow> ustring \<Rightarrow> ustring list \<Rightarrow> ustring \<Rightarrow> clock \<Rightarrow> regs \<Rightarrow> bool \<times> regs" where
  "update_linked_character_wish event_id operation_id keys wish =
     each_once event_id operation_id (\<lambda>row. row\<lparr>rg_character_wish := wish\<rparr>) keys 0"

definition update_co_player_wish ::
    "ustring \<Rightarrow> ustring \<Rightarrow> ustring \<Rightarrow> ustring \<Rightarrow> time \<Rightarrow> (regs, exn, bool) act" where
  "update_co_player_wish event_id operation_id key wish now =
     update_row (event_id, key) (Inl KeyError)
       (once operation_id (\<lambda>row. row\<lparr>rg_wish_play := wish\<rparr>) now)"

definition update_linked_co_player_wish ::
    "ustring \<Rightarrow> ustring \<Rightarrow> ustring list \<Rightarrow> ustring \<Rightarrow> clock \<Rightarrow> regs \<Rightarrow> bool \<times> regs" where
  "update_linked_co_player_wish event_id operation_id keys wish =
     each_once event_id operation_id (\<lambda>row. row\<lparr>rg_wish_play := wish\<rparr>) keys 0"

definition cancel_row :: "ustring \<Rightarrow> ustring \<Rightarrow> ustring \<Rightarrow> time \<Rightarrow> (regs, exn, bool) act" where
  "cancel_row event_id operation_id key now =
     update_row (event_id, key) (Inl KeyError) (once operation_id cancelled now)"

definition cancel_linked :: "ustring \<Rightarrow> ustring \<Rightarrow> ustring list \<Rightarrow> clock \<Rightarrow> regs \<Rightarrow> bool \<times> regs" where
  "cancel_linked event_id operation_id keys = each_once event_id operation_id cancelled keys 0"

section \<open>Reordering, removing\<close>

definition shifted :: "time \<Rightarrow> registration \<Rightarrow> registration" where
  "shifted shift row =
     (if rg_attendance_status row \<noteq> WAITING then row
      else if rg_answer_id row \<noteq> None
      then row\<lparr>rg_answer_queue_at := Some (fst (queue_key row) + shift)\<rparr>
      else row\<lparr>rg_created_at := rg_created_at row + shift\<rparr>)"

definition sift_waiting_to_end :: "ustring \<Rightarrow> regs \<Rightarrow> regs" where
  "sift_waiting_to_end event_id r =
     (let times = map (fst \<circ> queue_key) (filter is_active (event_rows event_id r))
      in case times of
           [] \<Rightarrow> r
         | t # ts \<Rightarrow>
             (let shift = foldl max t ts - foldl min t ts + 1
              in r\<lparr>rr_rows := map (\<lambda>((stored, key), row).
                     ((stored, key), if stored = event_id then shifted shift row else row)) (rr_rows r)\<rparr>))"

definition moved_to :: "time \<Rightarrow> registration \<Rightarrow> registration" where
  "moved_to t row =
     (if rg_answer_id row \<noteq> None then row\<lparr>rg_answer_queue_at := Some t\<rparr> else row\<lparr>rg_created_at := t\<rparr>)"

definition swap_queue_positions ::
    "ustring \<Rightarrow> ustring \<Rightarrow> ustring \<Rightarrow> time \<Rightarrow> ustring \<Rightarrow> time \<Rightarrow> time \<Rightarrow> regs \<Rightarrow> bool \<times> regs" where
  "swap_queue_positions event_id operation_id promoted_key promoted_at demoted_key demoted_at now r =
     (case (get_registration_row event_id promoted_key r, get_registration_row event_id demoted_key r) of
        (Some promoted, Some demoted) \<Rightarrow>
          if rg_last_operation_id promoted = operation_id \<and> rg_last_operation_id demoted = operation_id
          then (False, r)
          else (let r1 = put_row (event_id, promoted_key)
                       (applied operation_id now (moved_to demoted_at promoted)) r;
                    demoted' = (case get_registration_row event_id demoted_key r1 of
                       None \<Rightarrow> demoted | Some row \<Rightarrow> row)
                in (True, put_row (event_id, demoted_key)
                      (applied operation_id now (moved_to promoted_at demoted')) r1))
      | _ \<Rightarrow> (False, r))"

definition remove_row :: "ustring \<Rightarrow> ustring \<Rightarrow> regs \<Rightarrow> bool \<times> regs" where
  "remove_row event_id key r = (get_registration_row event_id key r \<noteq> None, pop_row (event_id, key) r)"

definition remove_many :: "ustring \<Rightarrow> ustring list \<Rightarrow> regs \<Rightarrow> regs" where
  "remove_many event_id keys r = foldl (\<lambda>r key. pop_row (event_id, key) r) r keys"

definition delete_for_event :: "ustring \<Rightarrow> regs \<Rightarrow> regs" where
  "delete_for_event event_id r =
     r\<lparr>rr_rows := filter (\<lambda>((stored, _), _). stored \<noteq> event_id) (rr_rows r)\<rparr>"

section \<open>Well-formed rows\<close>

text \<open>
  Rows are keyed by game and participant; a row has a queue time of its own only with an answer.
\<close>

definition regs_ok :: "regs \<Rightarrow> bool" where
  "regs_ok r \<longleftrightarrow>
     wf_dict (rr_rows r)
     \<and> list_all (\<lambda>((event_id, key), row). rg_event_id row = event_id \<and> rg_participant_key row = key
         \<and> (rg_answer_queue_at row \<noteq> None \<longrightarrow> rg_answer_id row \<noteq> None)) (rr_rows r)"

lemma regs_ok_in:
  "regs_ok r \<Longrightarrow> ((ev, k), row) \<in> set (rr_rows r) \<Longrightarrow>
     rg_event_id row = ev \<and> rg_participant_key row = k
     \<and> (rg_answer_queue_at row \<noteq> None \<longrightarrow> rg_answer_id row \<noteq> None)"
  by (auto simp: regs_ok_def list_all_iff)

lemma regs_okD:
  "regs_ok r \<Longrightarrow> get_registration_row ev k r = Some row \<Longrightarrow>
     rg_event_id row = ev \<and> rg_participant_key row = k
     \<and> (rg_answer_queue_at row \<noteq> None \<longrightarrow> rg_answer_id row \<noteq> None)"
  using regs_ok_in dict_get_in by (fastforce simp: get_registration_row_def)

lemma regs_ok_put:
  "regs_ok r \<Longrightarrow> rg_event_id row = ev \<Longrightarrow> rg_participant_key row = k \<Longrightarrow>
   (rg_answer_queue_at row \<noteq> None \<longrightarrow> rg_answer_id row \<noteq> None) \<Longrightarrow> regs_ok (put_row (ev, k) row r)"
  by (auto simp: regs_ok_def list_all_iff put_row_def set_dict_put)

lemma regs_ok_pop: "regs_ok r \<Longrightarrow> regs_ok (pop_row k r)"
  by (auto simp: regs_ok_def list_all_iff pop_row_def set_dict_pop)

lemma get_put_row [simp]:
  "get_registration_row ev k (put_row (ev', k') row r) =
     (if ev = ev' \<and> k = k' then Some row else get_registration_row ev k r)"
  by (auto simp: get_registration_row_def put_row_def dict_get_put)

lemma put_row_twice [simp]: "put_row k row' (put_row k row r) = put_row k row' r"
  by (simp add: put_row_def)

lemma put_row_same: "get_registration_row ev k r = Some row \<Longrightarrow> put_row (ev, k) row r = r"
  by (simp add: get_registration_row_def put_row_def dict_put_idem)

lemma roster_ok_event_rows: "regs_ok r \<Longrightarrow> roster_ok (event_rows ev r)"
proof -
  assume ok: "regs_ok r"
  have "distinct (map fst m) \<Longrightarrow> (\<And>e k row. ((e, k), row) \<in> set m \<Longrightarrow> rg_participant_key row = k) \<Longrightarrow>
      distinct (map rg_participant_key (map snd (filter (\<lambda>((stored, _), _). stored = ev) m)))" for m
  proof (induction m)
    case (Cons x m)
    obtain e k row where x: "x = ((e, k), row)" by (cases x) auto
    from Cons.prems have d: "distinct (map fst m)" and n: "(e, k) \<notin> fst ` set m"
      and kk: "\<And>e k row. ((e, k), row) \<in> set m \<Longrightarrow> rg_participant_key row = k" "rg_participant_key row = k"
      by (auto simp: x)
    show ?case
      using Cons.IH[OF d kk(1)] n kk by (force simp: x)
  qed simp
  from this[of "rr_rows r"] ok regs_ok_in[OF ok] show ?thesis
    unfolding roster_ok_def event_rows_def regs_ok_def wf_dict_def by blast
qed

lemma in_event_rows:
  "regs_ok r \<Longrightarrow> row \<in> set (event_rows ev r) \<longleftrightarrow> get_registration_row ev (rg_participant_key row) r = Some row"
proof -
  assume ok: "regs_ok r"
  then have w: "wf_dict (rr_rows r)" by (simp add: regs_ok_def)
  have "row \<in> set (event_rows ev r) \<longleftrightarrow> (\<exists>k. ((ev, k), row) \<in> set (rr_rows r))"
    by (force simp: event_rows_def)
  also have "\<dots> \<longleftrightarrow> ((ev, rg_participant_key row), row) \<in> set (rr_rows r)" using regs_ok_in[OF ok] by blast
  finally show ?thesis by (simp add: get_registration_row_def dict_get_iff[OF w])
qed

lemma event_rows_put_new:
  "get_registration_row ev k r = None \<Longrightarrow> event_rows ev (put_row (ev, k) row r) = event_rows ev r @ [row]"
  by (simp add: event_rows_def put_row_def get_registration_row_def dict_put_new)

lemma event_rows_put:
  assumes "regs_ok r" and "get_registration_row ev k r = Some old"
  shows "event_rows ev (put_row (ev, k) row r) =
    map (\<lambda>x. if rg_participant_key x = k then row else x) (event_rows ev r)"
proof -
  have w: "wf_dict (rr_rows r)" using assms(1) by (simp add: regs_ok_def)
  have g: "dict_get (rr_rows r) (ev, k) = Some old" using assms(2) by (simp add: get_registration_row_def)
  have "(\<And>e k row. ((e, k), row) \<in> set m \<Longrightarrow> rg_participant_key row = k) \<Longrightarrow>
     map snd (filter (\<lambda>((stored, _), _). stored = ev) (map (\<lambda>x. if fst x = (ev, k) then ((ev, k), row) else x) m))
     = map (\<lambda>x. if rg_participant_key x = k then row else x)
         (map snd (filter (\<lambda>((stored, _), _). stored = ev) m))" for m
  proof (induction m)
    case (Cons x m)
    obtain e k' row' where x: "x = ((e, k'), row')" by (cases x) auto
    have "rg_participant_key row' = k'" using Cons.prems[of e k' row'] by (simp add: x)
    moreover have "rg_participant_key row = k" if "((e, k), row) \<in> set m" for e k row
      using Cons.prems[of e k row] that by simp
    ultimately show ?case using Cons.IH by (simp add: x)
  qed simp
  from this[of "rr_rows r"] regs_ok_in[OF assms(1)] show ?thesis
    by (simp add: event_rows_def put_row_def dict_put_map[OF w g])
qed

lemma event_rows_put_other: "ev \<noteq> ev' \<Longrightarrow> event_rows ev (put_row (ev', k) row r) = event_rows ev r"
proof -
  assume n: "ev \<noteq> ev'"
  have "filter (\<lambda>((stored, _), _). stored = ev) (AList.update (ev', k) row m) =
      filter (\<lambda>((stored, _), _). stored = ev) m" for m
    using n by (induction m) auto
  then show ?thesis by (simp add: event_rows_def put_row_def dict_put_def)
qed

section \<open>Queues after a change\<close>

lemma roster_ok_mset: "mset xs = mset ys \<Longrightarrow> roster_ok xs \<longleftrightarrow> roster_ok ys"
  unfolding roster_ok_def by (metis mset_eq_imp_distinct_iff mset_map)

lemma active_queue_eqI:
  assumes "roster_ok xs" and "mset ys = mset (filter is_active xs)" and "sorted (map queue_key ys)"
  shows "active_queue xs None = ys"
  unfolding active_queue_def
proof (rule sort_key_unique)
  show "inj_on queue_key (set (filter (\<lambda>row. is_active row \<and> (None = None \<or> rg_answer_id row = None)) xs))"
    using queue_key_inj[OF assms(1)] by (rule inj_on_subset) auto
qed (use assms in simp_all)

lemma active_queue_mset: "roster_ok xs \<Longrightarrow> mset xs = mset ys \<Longrightarrow> active_queue xs None = active_queue ys None"
proof (rule active_queue_eqI)
  assume "mset xs = mset ys"
  then show "mset (active_queue ys None) = mset (filter is_active xs)"
    by (simp add: active_queue_def mset_filter)
qed (simp_all add: sorted_active_queue)

text \<open>The queue of a game, as every service reads it.\<close>

definition game_queue :: "ustring \<Rightarrow> regs \<Rightarrow> registration list" where
  "game_queue ev r = active_queue (list_for_event ev r) None"

lemma game_queue_rows: "regs_ok r \<Longrightarrow> game_queue ev r = active_queue (event_rows ev r) None"
  unfolding game_queue_def list_for_event_def
  using roster_ok_event_rows[of r ev]
  by (intro active_queue_mset) (simp_all add: roster_ok_def)

lemma mset_game_queue: "regs_ok r \<Longrightarrow> mset (game_queue ev r) = mset (filter is_active (event_rows ev r))"
  by (simp add: game_queue_rows active_queue_def)

lemma sorted_game_queue: "sorted (map queue_key (game_queue ev r))"
  by (simp add: game_queue_def sorted_active_queue)

lemma set_game_queue:
  "regs_ok r \<Longrightarrow> row \<in> set (game_queue ev r) \<longleftrightarrow> row \<in> set (event_rows ev r) \<and> is_active row"
  by (simp add: game_queue_rows set_active_queue)

section \<open>Enlisting joins the end\<close>

lemma foldl_max_ge: "(t::time) \<le> foldl max t ts \<and> (\<forall>x\<in>set ts. x \<le> foldl max t ts)"
  by (induction ts arbitrary: t) (auto intro: max.coboundedI1 order_trans[OF max.cobounded1] order_trans[OF max.cobounded2])

lemma latest_time_ge: "latest_time ts = Some m \<Longrightarrow> x \<in> set ts \<Longrightarrow> x \<le> m"
  using foldl_max_ge by (cases ts) auto

lemma latest_time_None: "latest_time ts = None \<longleftrightarrow> ts = []"
  by (cases ts) simp_all

lemma joining_time_after:
  assumes "row \<in> set (event_rows ev r)" and "is_active row"
  shows "fst (queue_key row) < joining_time ev r now"
proof -
  let ?ts = "map (fst \<circ> queue_key) (filter is_active (event_rows ev r))"
  have m: "fst (queue_key row) \<in> set ?ts" using assms by auto
  then obtain l where l: "latest_time ?ts = Some l" by (cases "latest_time ?ts") (auto simp: latest_time_None filter_empty_conv)
  from latest_time_ge[OF l m] l show ?thesis by (simp add: joining_time_def)
qed

text \<open>The shape of a successful call: the stored row and the queue it joined.\<close>

lemma registration_validate_row:
  "registration_validate row = Some row' \<Longrightarrow> \<exists>n. row' = row\<lparr>rg_nickname := n\<rparr>"
  by (auto simp: registration_validate_def split: if_splits)

definition joins :: "ustring \<Rightarrow> ustring \<Rightarrow> regs \<Rightarrow> bool" where
  "joins ev key r \<longleftrightarrow>
     (case get_registration_row ev key r of None \<Rightarrow> True | Some row \<Rightarrow> rg_attendance_status row = CANCELLED)"

lemma enlist_row:
  assumes ok: "regs_ok r" and j: "joins ev key r"
    and e: "enlist ev op key view wish answer clk r = (Inr True, r')"
  obtains row where "r' = put_row (ev, key) row r" and "rg_event_id row = ev" and "rg_participant_key row = key"
    and "rg_attendance_status row = WAITING" and "rg_last_operation_id row = op" and "rg_answer_id row = answer"
    and "rg_answer_queue_at row \<noteq> None \<longrightarrow> answer \<noteq> None"
    and "fst (queue_key row) = joining_time ev r (clk 0)"
proof (cases "get_registration_row ev key r")
  case None
  let ?t = "joining_time ev r (clk 0)"
  obtain row0 where v: "registration_validate (new_registration ev key view wish ?t (clk 1)) = Some row0"
    and r': "r' = put_row (ev, key) (enlisted answer ?t op (clk 2) row0) r"
    using e None by (auto simp: enlist_def Let_def split: option.splits)
  from registration_validate_row[OF v] obtain n where
    "row0 = (new_registration ev key view wish ?t (clk 1))\<lparr>rg_nickname := n\<rparr>" by blast
  with that r' show ?thesis
    by (cases answer) (simp_all add: enlisted_def new_registration_def queue_key_def)
next
  case (Some row0)
  let ?t = "joining_time ev r (clk 0)"
  have c: "rg_attendance_status row0 = CANCELLED" using j Some by (simp add: joins_def)
  note d = regs_okD[OF ok Some]
  obtain n where r': "r' = put_row (ev, key) (enlisted answer ?t op (clk 1)
      (row0\<lparr>rg_display_name := pv_display_name view, rg_nickname := n, rg_wish_play := wish,
            rg_larp_experience := pv_larp_experience view, rg_crossplay := pv_crossplay view,
            rg_vk_profile := pv_vk_profile view, rg_telegram_profile := pv_telegram_profile view,
            rg_attendance_status := WAITING, rg_created_at := ?t\<rparr>)) r"
    using e Some c by (auto simp: enlist_def Let_def split: option.splits if_splits)
  with that d show ?thesis
    by (cases answer) (simp_all add: enlisted_def queue_key_def)
qed

lemma event_rows_join:
  assumes ok: "regs_ok r" and j: "joins ev key r" and k: "rg_participant_key row = key" and a: "is_active row"
  shows "mset (filter is_active (event_rows ev (put_row (ev, key) row r))) =
    add_mset row (mset (filter is_active (event_rows ev r)))"
proof (cases "get_registration_row ev key r")
  case None
  with a show ?thesis by (simp add: event_rows_put_new)
next
  case (Some old)
  let ?xs = "event_rows ev r"
  have c: "\<not> is_active old" using j Some by (simp add: joins_def is_active_def)
  note d = regs_okD[OF ok Some]
  have "old \<in> set ?xs" using Some d by (simp add: in_event_rows[OF ok])
  then obtain A B where xs: "?xs = A @ old # B" by (meson split_list)
  have "distinct (map rg_participant_key ?xs)" using roster_ok_event_rows[OF ok] by (simp add: roster_ok_def)
  then have "rg_participant_key old \<notin> rg_participant_key ` (set A \<union> set B)" by (auto simp: xs)
  then have "\<forall>x\<in>set A \<union> set B. rg_participant_key x \<noteq> key" using d by (metis image_eqI)
  then have "map (\<lambda>x. if rg_participant_key x = key then row else x) ?xs = A @ row # B"
    using d by (simp add: xs map_idI)
  then show ?thesis using a c by (simp add: event_rows_put[OF ok Some] xs)
qed

lemma enlist_queue:
  assumes ok: "regs_ok r" and j: "joins ev key r"
    and e: "enlist ev op key view wish answer clk r = (Inr True, r')"
  shows "\<exists>row. game_queue ev r' = game_queue ev r @ [row] \<and> rg_participant_key row = key
    \<and> rg_attendance_status row = WAITING \<and> rg_answer_id row = answer \<and> rg_last_operation_id row = op
    \<and> regs_ok r'"
proof -
  from enlist_row[OF assms] obtain row where r': "r' = put_row (ev, key) row r"
    and row: "rg_event_id row = ev" "rg_participant_key row = key" "rg_attendance_status row = WAITING"
      "rg_last_operation_id row = op" "rg_answer_id row = answer"
      "rg_answer_queue_at row \<noteq> None \<longrightarrow> answer \<noteq> None"
      "fst (queue_key row) = joining_time ev r (clk 0)" .
  have a: "is_active row" using row(3) by (simp add: is_active_def)
  have ok': "regs_ok r'" unfolding r' using row by (intro regs_ok_put[OF ok]) simp_all
  have "game_queue ev r' = game_queue ev r @ [row]"
    unfolding game_queue_rows[OF ok']
  proof (rule active_queue_eqI[OF roster_ok_event_rows[OF ok']])
    show "mset (game_queue ev r @ [row]) = mset (filter is_active (event_rows ev r'))"
      unfolding r' using event_rows_join[OF ok j row(2) a] by (simp add: mset_game_queue[OF ok])
    have "queue_key x \<le> queue_key row" if "x \<in> set (game_queue ev r)" for x
      using joining_time_after[of x ev r "clk 0"] that row(7)
      by (simp add: set_game_queue[OF ok] less_eq_prod_def)
    then show "sorted (map queue_key (game_queue ev r @ [row]))"
      by (auto simp: sorted_append sorted_game_queue)
  qed
  with row ok' show ?thesis by blast
qed

text \<open>
  C9. Enlisting joins the end: a new or returning player becomes the last of the game's queue, waiting,
  and everybody who already stood in it keeps their place.
\<close>

theorem enlist_joins_the_end:
  assumes "regs_ok r" and "joins ev key r"
    and "enlist ev op key view wish answer clk r = (Inr True, r')"
  shows "\<exists>row. game_queue ev r' = game_queue ev r @ [row] \<and> rg_participant_key row = key
    \<and> rg_attendance_status row = WAITING \<and> rg_answer_id row = answer"
  using enlist_queue[OF assms] by blast

lemma registration_validate_times:
  "registration_validate (new_registration ev key view wish t n) = None \<Longrightarrow>
     registration_validate (new_registration ev key view wish t' n') = None"
  by (auto simp: registration_validate_def new_registration_def split: if_splits)

interpretation enlisting: retry_safe "\<lambda>clk. enlist ev op key view wish answer clk"
  for ev op key view wish answer
proof
  fix t t' :: clock and w
  show "snd (enlist ev op key view wish answer t' (snd (enlist ev op key view wish answer t w))) =
      snd (enlist ev op key view wish answer t w)"
  proof (cases "get_registration_row ev key w")
    case None
    let ?v = "registration_validate (new_registration ev key view wish (joining_time ev w (t 0)) (t 1))"
    show ?thesis
    proof (cases ?v)
      case None
      then have "registration_validate (new_registration ev key view wish (joining_time ev w (t' 0)) (t' 1)) = None"
        by (rule registration_validate_times)
      with None \<open>get_registration_row ev key w = None\<close> show ?thesis by (simp add: enlist_def)
    next
      case (Some row)
      with None show ?thesis by (simp add: enlist_def enlisted_def Let_def)
    qed
  next
    case (Some row)
    show ?thesis
      by (cases "rg_last_operation_id row = op"; cases "optionally normalize_nickname (pv_nickname view)")
        (simp_all add: enlist_def Some enlisted_def Let_def)
  qed
qed

section \<open>Sifting\<close>

lemma foldl_min_le: "foldl min t ts \<le> (t::time) \<and> (\<forall>x\<in>set ts. foldl min t ts \<le> x)"
  by (induction ts arbitrary: t) (auto intro: min.coboundedI1 order_trans[OF _ min.cobounded1] order_trans[OF _ min.cobounded2])

lemma shifted_simps [simp]:
  "rg_participant_key (shifted s row) = rg_participant_key row"
  "rg_event_id (shifted s row) = rg_event_id row"
  "rg_attendance_status (shifted s row) = rg_attendance_status row"
  "rg_answer_id (shifted s row) = rg_answer_id row"
  "is_active (shifted s row) = is_active row"
  by (simp_all add: shifted_def is_active_def)

lemma snd_queue_key [simp]: "snd (queue_key row) = rg_participant_key row"
  by (simp add: queue_key_def)

lemma shift_le: "(fst a + s, snd a) \<le> (fst b + s, snd b) \<longleftrightarrow> a \<le> (b :: time \<times> ustring)"
  by (simp add: less_eq_prod_def)

lemma queue_key_shifted:
  assumes "rg_answer_queue_at row \<noteq> None \<longrightarrow> rg_answer_id row \<noteq> None"
  shows "queue_key (shifted s row) =
    (if rg_attendance_status row = WAITING then (fst (queue_key row) + s, rg_participant_key row) else queue_key row)"
  using assms by (cases "rg_answer_id row") (auto simp: shifted_def queue_key_def)

lemma event_rows_sift:
  "event_rows ev (r\<lparr>rr_rows := map (\<lambda>((stored, key), row).
      ((stored, key), if stored = ev then f row else row)) (rr_rows r)\<rparr>) = map f (event_rows ev r)"
proof -
  have "map snd (filter (\<lambda>((stored, _), _). stored = ev) (map (\<lambda>((stored, key), row).
      ((stored, key), if stored = ev then f row else row)) m)) =
    map f (map snd (filter (\<lambda>((stored, _), _). stored = ev) m))" for m
    by (induction m) auto
  then show ?thesis by (simp add: event_rows_def)
qed

lemma regs_ok_sift:
  assumes "regs_ok r"
  shows "regs_ok (sift_waiting_to_end ev r)"
proof (cases "map (fst \<circ> queue_key) (filter is_active (event_rows ev r))")
  case Nil
  then show ?thesis using assms by (simp add: sift_waiting_to_end_def)
next
  case (Cons t ts)
  define g where "g = shifted (foldl max t ts - foldl min t ts + 1)"
  have g: "rg_answer_queue_at row \<noteq> None \<longrightarrow> rg_answer_id row \<noteq> None \<Longrightarrow>
      rg_answer_queue_at (g row) \<noteq> None \<longrightarrow> rg_answer_id (g row) \<noteq> None" for row
    by (auto simp: g_def shifted_def)
  have e: "sift_waiting_to_end ev r = r\<lparr>rr_rows := map (\<lambda>((stored, key), row).
      ((stored, key), if stored = ev then g row else row)) (rr_rows r)\<rparr>"
    unfolding sift_waiting_to_end_def Let_def Cons list.case g_def by (rule refl)
  have "map fst (rr_rows (sift_waiting_to_end ev r)) = map fst (rr_rows r)"
    by (simp add: e o_def case_prod_unfold)
  then have "wf_dict (rr_rows (sift_waiting_to_end ev r))"
    using assms by (simp add: regs_ok_def wf_dict_def)
  moreover have "list_all (\<lambda>((event_id, key), row). rg_event_id row = event_id \<and> rg_participant_key row = key
      \<and> (rg_answer_queue_at row \<noteq> None \<longrightarrow> rg_answer_id row \<noteq> None)) (rr_rows (sift_waiting_to_end ev r))"
    unfolding list_all_iff
  proof
    fix x assume "x \<in> set (rr_rows (sift_waiting_to_end ev r))"
    then obtain ev' k row where x: "x = ((ev', k), if ev' = ev then g row else row)"
      and m: "((ev', k), row) \<in> set (rr_rows r)" by (auto simp: e)
    have gs: "rg_event_id (g row) = rg_event_id row" "rg_participant_key (g row) = rg_participant_key row"
      by (simp_all add: g_def)
    from regs_ok_in[OF assms m] g[of row] gs
    show "(\<lambda>((event_id, key), row). rg_event_id row = event_id \<and> rg_participant_key row = key
        \<and> (rg_answer_queue_at row \<noteq> None \<longrightarrow> rg_answer_id row \<noteq> None)) x"
      by (simp add: x)
  qed
  ultimately show ?thesis by (simp add: regs_ok_def)
qed

text \<open>Confirmed registrations first, the waiting ones behind them, each group in its old order.\<close>

definition sifted :: "registration list \<Rightarrow> registration list" where
  "sifted queue = filter (\<lambda>row. rg_attendance_status row = CONFIRMED) queue
     @ filter (\<lambda>row. rg_attendance_status row \<noteq> CONFIRMED) queue"

lemma sift_queue:
  assumes ok: "regs_ok r"
  shows "\<exists>f. game_queue ev (sift_waiting_to_end ev r) = map f (sifted (game_queue ev r))
    \<and> (\<forall>row. rg_participant_key (f row) = rg_participant_key row \<and> rg_answer_id (f row) = rg_answer_id row
         \<and> rg_attendance_status (f row) = rg_attendance_status row)"
proof (cases "map (fst \<circ> queue_key) (filter is_active (event_rows ev r))")
  case Nil
  then have "game_queue ev r = []" using mset_game_queue[OF ok, of ev] by simp
  then show ?thesis using Nil by (intro exI[of _ "\<lambda>x. x"]) (simp add: sift_waiting_to_end_def sifted_def)
next
  case (Cons t ts)
  define s where "s = foldl max t ts - foldl min t ts + 1"
  let ?g = "shifted s" and ?q = "game_queue ev r" and ?r' = "sift_waiting_to_end ev r"
  have e: "?r' = r\<lparr>rr_rows := map (\<lambda>((stored, key), row).
      ((stored, key), if stored = ev then ?g row else row)) (rr_rows r)\<rparr>"
    unfolding sift_waiting_to_end_def Let_def Cons list.case s_def by (rule refl)
  have rows: "event_rows ev ?r' = map ?g (event_rows ev r)" unfolding e by (rule event_rows_sift)
  have qk: "queue_key (?g x) = (if rg_attendance_status x = WAITING
      then (fst (queue_key x) + s, rg_participant_key x) else queue_key x)" if "x \<in> set ?q" for x
    using that regs_okD[OF ok] by (intro queue_key_shifted) (auto simp: set_game_queue[OF ok] in_event_rows[OF ok])
  have span: "fst (queue_key x) < fst (queue_key y) + s" if "x \<in> set ?q" "y \<in> set ?q" for x y
  proof -
    have "fst (queue_key z) \<in> set (t # ts)" if "z \<in> set ?q" for z
      using that by (auto simp: set_game_queue[OF ok] simp flip: Cons)
    with that have "fst (queue_key x) \<le> foldl max t ts" "foldl min t ts \<le> fst (queue_key y)"
      using foldl_max_ge[of t ts] foldl_min_le[of t ts] by auto
    then show ?thesis by (simp add: s_def)
  qed
  let ?A = "filter (\<lambda>row. rg_attendance_status row = CONFIRMED) ?q"
  let ?B = "filter (\<lambda>row. rg_attendance_status row \<noteq> CONFIRMED) ?q"
  have w: "rg_attendance_status x = WAITING" if "x \<in> set ?B" for x
    using that by (cases "rg_attendance_status x") (auto simp: set_game_queue[OF ok] is_active_def)
  have "game_queue ev ?r' = map ?g (?A @ ?B)"
    unfolding game_queue_rows[OF regs_ok_sift[OF ok]]
  proof (rule active_queue_eqI[OF roster_ok_event_rows[OF regs_ok_sift[OF ok]]])
    have "mset (?A @ ?B) = mset ?q" by simp
    then have "mset (?A @ ?B) = mset (filter is_active (event_rows ev r))"
      by (simp only: mset_game_queue[OF ok])
    then show "mset (map ?g (?A @ ?B)) = mset (filter is_active (event_rows ev ?r'))"
      unfolding rows filter_map o_def shifted_simps by (simp only: mset_map)
    have sq: "sorted_wrt (\<lambda>x y. queue_key x \<le> queue_key y) ?q"
      using sorted_game_queue[of ev r] by (simp add: sorted_wrt_map)
    have "sorted_wrt (\<lambda>x y. queue_key (?g x) \<le> queue_key (?g y)) ?A"
      by (rule sorted_wrt_mono_rel[OF _ sorted_wrt_filter[OF sq]]) (auto simp: qk)
    moreover have "sorted_wrt (\<lambda>x y. queue_key (?g x) \<le> queue_key (?g y)) ?B"
    proof (rule sorted_wrt_mono_rel[OF _ sorted_wrt_filter[OF sq]])
      fix x y assume xy: "x \<in> set ?B" "y \<in> set ?B" "queue_key x \<le> queue_key y"
      have "queue_key (?g x) = (fst (queue_key x) + s, snd (queue_key x))"
        "queue_key (?g y) = (fst (queue_key y) + s, snd (queue_key y))"
        using qk[of x] qk[of y] w[OF xy(1)] w[OF xy(2)] xy(1,2) by simp_all
      then show "queue_key (?g x) \<le> queue_key (?g y)" using xy(3) by (simp only: shift_le)
    qed
    moreover have "\<forall>x\<in>set ?A. \<forall>y\<in>set ?B. queue_key (?g x) \<le> queue_key (?g y)"
      using w qk span by (auto simp: less_eq_prod_def)
    ultimately show "sorted (map queue_key (map ?g (?A @ ?B)))"
      by (simp only: sorted_wrt_map map_append sorted_wrt_append set_map ball_simps)
  qed
  then show ?thesis by (intro exI[of _ ?g]) (simp add: sifted_def)
qed

text \<open>
  C16. Sifting moves every unconfirmed registration behind every confirmed one and keeps the order
  within both groups.
\<close>

theorem sift_sorts_by_confirmation:
  assumes "regs_ok r"
  shows "map rg_participant_key (game_queue ev (sift_waiting_to_end ev r)) =
    map rg_participant_key (filter (\<lambda>row. rg_attendance_status row = CONFIRMED) (game_queue ev r))
    @ map rg_participant_key (filter (\<lambda>row. rg_attendance_status row \<noteq> CONFIRMED) (game_queue ev r))"
  using sift_queue[OF assms, of ev] by (auto simp: sifted_def o_def)

section \<open>Swapping places\<close>

lemma applied_simps [simp]:
  "rg_participant_key (applied op now row) = rg_participant_key row"
  "rg_event_id (applied op now row) = rg_event_id row"
  "rg_attendance_status (applied op now row) = rg_attendance_status row"
  "rg_answer_id (applied op now row) = rg_answer_id row"
  "rg_answer_queue_at (applied op now row) = rg_answer_queue_at row"
  "rg_last_operation_id (applied op now row) = op"
  "is_active (applied op now row) = is_active row"
  "queue_key (applied op now row) = queue_key row"
  by (simp_all add: applied_def is_active_def queue_key_def split: option.split)

lemma moved_to_simps [simp]:
  "rg_participant_key (moved_to t row) = rg_participant_key row"
  "rg_event_id (moved_to t row) = rg_event_id row"
  "rg_attendance_status (moved_to t row) = rg_attendance_status row"
  "rg_answer_id (moved_to t row) = rg_answer_id row"
  "is_active (moved_to t row) = is_active row"
  by (simp_all add: moved_to_def is_active_def)

lemma queue_key_moved_to:
  "rg_answer_queue_at row \<noteq> None \<longrightarrow> rg_answer_id row \<noteq> None \<Longrightarrow>
     queue_key (moved_to t row) = (t, rg_participant_key row)"
  by (cases "rg_answer_id row") (auto simp: moved_to_def queue_key_def)

lemma moved_to_answer:
  "rg_answer_queue_at row \<noteq> None \<longrightarrow> rg_answer_id row \<noteq> None \<Longrightarrow>
     rg_answer_queue_at (moved_to t row) \<noteq> None \<longrightarrow> rg_answer_id (moved_to t row) \<noteq> None"
  by (cases "rg_answer_id row") (auto simp: moved_to_def)

lemma filter_map_same: "(\<And>x. x \<in> set xs \<Longrightarrow> P (h x) = P x) \<Longrightarrow> filter P (map h xs) = map h (filter P xs)"
  by (induction xs) auto

lemma sorted_by_distinct_time:
  assumes "sorted (map (fst \<circ> queue_key) xs)" and "distinct (map (fst \<circ> queue_key) xs)"
  shows "sorted (map queue_key xs)"
  using assms by (induction xs) (auto simp: less_eq_prod_def image_iff less_le)

lemma sorted_fst_queue: "sorted (map (fst \<circ> queue_key) (game_queue ev r))"
proof -
  have "sorted (map queue_key xs) \<Longrightarrow> sorted (map (fst \<circ> queue_key) xs)" for xs
    by (induction xs) (auto simp: less_eq_prod_def dest: less_imp_le)
  then show ?thesis using sorted_game_queue by blast
qed

lemma swap_queue:
  fixes now :: time
  assumes ok: "regs_ok r" and q: "game_queue ev r = A @ D # B @ P # C"
    and d: "distinct (map (fst \<circ> queue_key) (game_queue ev r))"
    and fresh: "rg_last_operation_id P \<noteq> op \<or> rg_last_operation_id D \<noteq> op"
  defines "s \<equiv> swap_queue_positions ev op (rg_participant_key P) (fst (queue_key P))
      (rg_participant_key D) (fst (queue_key D)) now r"
  shows "fst s \<and> regs_ok (snd s) \<and> (\<exists>P' D'. game_queue ev (snd s) = A @ P' # B @ D' # C
      \<and> rg_participant_key P' = rg_participant_key P \<and> rg_participant_key D' = rg_participant_key D)"
proof -
  let ?rows = "event_rows ev r" and ?q = "game_queue ev r"
  have mem: "P \<in> set ?q" "D \<in> set ?q" by (simp_all add: q)
  then have get: "get_registration_row ev (rg_participant_key P) r = Some P"
      "get_registration_row ev (rg_participant_key D) r = Some D"
    and act: "is_active P" "is_active D"
    by (simp_all add: set_game_queue[OF ok] in_event_rows[OF ok])
  have dk: "distinct (map rg_participant_key ?q)"
    using roster_ok_event_rows[OF ok, of ev] roster_ok_active_queue[of ?rows None]
    by (simp add: game_queue_rows[OF ok] roster_ok_def)
  then have ne: "rg_participant_key P \<noteq> rg_participant_key D" by (auto simp: q)
  define P' where "P' = applied op now (moved_to (fst (queue_key D)) P)"
  define D' where "D' = applied op now (moved_to (fst (queue_key P)) D)"
  note okP = regs_okD[OF ok get(1)] and okD = regs_okD[OF ok get(2)]
  let ?r1 = "put_row (ev, rg_participant_key P) P' r"
  let ?r2 = "put_row (ev, rg_participant_key D) D' ?r1"
  have s: "s = (True, ?r2)"
    using fresh ne by (auto simp: s_def swap_queue_positions_def get P'_def D'_def)
  have ok1: "regs_ok ?r1"
    using okP moved_to_answer[of P] by (intro regs_ok_put[OF ok]) (auto simp: P'_def)
  have get1: "get_registration_row ev (rg_participant_key D) ?r1 = Some D" using ne get by simp
  have ok2: "regs_ok ?r2"
    using okD moved_to_answer[of D] by (intro regs_ok_put[OF ok1]) (auto simp: D'_def)
  define h where "h x = (if rg_participant_key x = rg_participant_key P then P'
    else if rg_participant_key x = rg_participant_key D then D' else x)" for x
  have rows: "event_rows ev ?r2 = map h ?rows"
    unfolding event_rows_put[OF ok1 get1] event_rows_put[OF ok get(1)] map_map
    using ne by (intro map_cong refl) (auto simp: h_def P'_def)
  have act_h: "is_active (h x) = is_active x" if "x \<in> set ?rows" for x
  proof -
    have "x = P" if "rg_participant_key x = rg_participant_key P"
      using that \<open>x \<in> set ?rows\<close> get(1) by (metis in_event_rows[OF ok] option.inject)
    moreover have "x = D" if "rg_participant_key x = rg_participant_key D"
      using that \<open>x \<in> set ?rows\<close> get(2) by (metis in_event_rows[OF ok] option.inject)
    ultimately show ?thesis using act by (auto simp: h_def P'_def D'_def)
  qed
  have filt: "filter is_active (map h ?rows) = map h (filter is_active ?rows)"
    using act_h by (rule filter_map_same)
  have hq: "map h ?q = A @ D' # B @ P' # C"
  proof -
    let ?U = "set A \<union> set B \<union> set C"
    have "rg_participant_key P \<notin> rg_participant_key ` ?U" "rg_participant_key D \<notin> rg_participant_key ` ?U"
      using dk by (auto simp: q)
    then have "h x = x" if "x \<in> ?U" for x using that unfolding h_def by (metis image_eqI)
    then have "map h A = A" "map h B = B" "map h C = C" by (simp_all add: map_idI)
    then show ?thesis using ne by (simp add: q h_def)
  qed
  have tt: "fst (queue_key P') = fst (queue_key D)" "fst (queue_key D') = fst (queue_key P)"
    using okP okD by (simp_all add: P'_def D'_def queue_key_moved_to)
  have "game_queue ev ?r2 = A @ P' # B @ D' # C"
    unfolding game_queue_rows[OF ok2]
  proof (rule active_queue_eqI[OF roster_ok_event_rows[OF ok2]])
    have "mset (map h ?q) = mset (filter is_active (event_rows ev ?r2))"
      unfolding rows filt by (simp add: mset_game_queue[OF ok])
    then show "mset (A @ P' # B @ D' # C) = mset (filter is_active (event_rows ev ?r2))"
      unfolding hq by (simp add: add_mset_commute)
    have "map (fst \<circ> queue_key) (A @ P' # B @ D' # C) = map (fst \<circ> queue_key) ?q"
      by (simp add: q tt)
    then show "sorted (map queue_key (A @ P' # B @ D' # C))"
      using d sorted_fst_queue[of ev r] by (intro sorted_by_distinct_time) simp_all
  qed
  then show ?thesis using s ok2 by (auto simp: P'_def D'_def)
qed

text \<open>
  Promoting from the reserve exchanges two places and nothing else: the promoted registration
  stands where the demoted one stood and the reverse, when queue times are pairwise different.
\<close>

theorem swap_exchanges_places:
  assumes "regs_ok r" and "game_queue ev r = A @ D # B @ P # C"
    and "distinct (map (fst \<circ> queue_key) (game_queue ev r))"
    and "rg_last_operation_id P \<noteq> op \<or> rg_last_operation_id D \<noteq> op"
  shows "map rg_participant_key (game_queue ev (snd (swap_queue_positions ev op (rg_participant_key P)
      (fst (queue_key P)) (rg_participant_key D) (fst (queue_key D)) now r))) =
    map rg_participant_key (A @ P # B @ D # C)"
  using swap_queue[OF assms, of now] by auto

section \<open>Once per operation\<close>

lemma applied_again [simp]: "rg_last_operation_id (snd (once op change now row)) = op"
  by (simp add: once_def)

lemma once_again: "snd (once op change now' (snd (once op change now row))) = snd (once op change now row)"
  by (simp add: once_def)

lemma update_row_again:
  assumes "\<And>t t' row. snd (f t' (snd (f t row))) = snd (f t row)"
  shows "snd (update_row k m (f t') (snd (update_row k m (f t) r))) = snd (update_row k m (f t) r)"
  using assms by (cases k) (auto simp: update_row_def put_row_def dict_get_put case_prod_beta split: option.splits)

interpretation cancelling: retry_safe "cancel_row ev op key" for ev op key
  unfolding cancel_row_def by unfold_locales (rule update_row_again, rule once_again)

interpretation wishing: retry_safe "update_character_wish ev op key wish" for ev op key wish
  unfolding update_character_wish_def by unfold_locales (rule update_row_again, rule once_again)

interpretation co_playing: retry_safe "update_co_player_wish ev op key wish" for ev op key wish
  unfolding update_co_player_wish_def by unfold_locales (rule update_row_again, rule once_again)

lemma pop_put_commute: "k \<noteq> k' \<Longrightarrow> pop_row k (put_row k' row r) = put_row k' row (pop_row k r)"
proof -
  assume n: "k \<noteq> k'"
  have "AList.delete k (AList.update k' row m) = AList.update k' row (AList.delete k m)" for m
    using n by (induction m) auto
  then show ?thesis by (simp add: pop_row_def put_row_def dict_pop_def dict_put_def)
qed

lemma pop_row_twice [simp]: "pop_row k (pop_row k r) = pop_row k r"
  by (simp add: pop_row_def dict_pop_def delete_idem)

lemma get_pop_row:
  "get_registration_row ev k (pop_row (ev', k') r) =
     (if ev = ev' \<and> k = k' then None else get_registration_row ev k r)"
  by (auto simp: get_registration_row_def pop_row_def dict_get_pop)

interpretation confirming: retry_safe "confirm_row ev op key wish replaced replaced_key"
  for ev op key wish replaced replaced_key
proof
  fix t t' :: time and w
  show "snd (confirm_row ev op key wish replaced replaced_key t'
        (snd (confirm_row ev op key wish replaced replaced_key t w))) =
      snd (confirm_row ev op key wish replaced replaced_key t w)"
    by (cases replaced; cases replaced_key; cases "get_registration_row ev key w")
      (auto simp: confirm_row_def Let_def case_prod_beta get_pop_row pop_put_commute once_again)
qed

text \<open>
  C33. Every command of a player is retry-safe on the stored registrations: enlisting, confirming with
  or without replacing another game, changing wishes and cancelling leave after any number of attempts
  what the first attempt left.
\<close>

theorem registration_commands_retry:
  "retries (\<lambda>clk. enlist ev op key view wish answer clk) (c # cs) r = snd (enlist ev op key view wish answer c r)
   \<and> retries (confirm_row ev op key wish replaced replaced_key) (t # ts) r =
       snd (confirm_row ev op key wish replaced replaced_key t r)
   \<and> retries (cancel_row ev op key) (t # ts) r = snd (cancel_row ev op key t r)
   \<and> retries (update_character_wish ev op key wish) (t # ts) r =
       snd (update_character_wish ev op key wish t r)
   \<and> retries (update_co_player_wish ev op key wish) (t # ts) r =
       snd (update_co_player_wish ev op key wish t r)"
  by (intro conjI enlisting.retries_settle confirming.retries_settle cancelling.retries_settle
      wishing.retries_settle co_playing.retries_settle)

section \<open>The rows stay well-formed\<close>

lemma once_fields:
  assumes "rg_event_id (change row) = rg_event_id row" and "rg_participant_key (change row) = rg_participant_key row"
    and "rg_answer_queue_at (change row) = rg_answer_queue_at row" and "rg_answer_id (change row) = rg_answer_id row"
  shows "rg_event_id (snd (once op change now row)) = rg_event_id row
    \<and> rg_participant_key (snd (once op change now row)) = rg_participant_key row
    \<and> rg_answer_queue_at (snd (once op change now row)) = rg_answer_queue_at row
    \<and> rg_answer_id (snd (once op change now row)) = rg_answer_id row"
  using assms by (simp add: once_def)

definition keeps_place :: "(registration \<Rightarrow> registration) \<Rightarrow> bool" where
  "keeps_place change \<longleftrightarrow>
     (\<forall>row. rg_event_id (change row) = rg_event_id row \<and> rg_participant_key (change row) = rg_participant_key row
        \<and> rg_answer_queue_at (change row) = rg_answer_queue_at row \<and> rg_answer_id (change row) = rg_answer_id row)"

lemma keeps_place_changes [simp]:
  "keeps_place cancelled" "keeps_place (confirmed wish)"
  "keeps_place (\<lambda>row. row\<lparr>rg_character_wish := wish\<rparr>)" "keeps_place (\<lambda>row. row\<lparr>rg_wish_play := wish\<rparr>)"
  by (simp_all add: keeps_place_def cancelled_def confirmed_def)

lemma regs_ok_once:
  assumes "regs_ok r" and "keeps_place change" and "get_registration_row ev key r = Some row"
  shows "regs_ok (put_row (ev, key) (snd (once op change now row)) r)"
  using once_fields[of change row op now] assms(2) regs_okD[OF assms(1,3)]
  by (intro regs_ok_put[OF assms(1)]) (simp_all add: keeps_place_def)

lemma update_row_ok:
  assumes "keeps_place change"
  shows "keeps regs_ok (update_row (ev, key) m (once op change now))"
  using regs_ok_once[OF _ assms]
  by (auto simp: keeps_def update_row_def get_registration_row_def case_prod_beta split: option.splits)

lemma single_ops_ok [keeps_intros]:
  "keeps regs_ok (cancel_row ev op key now)"
  "keeps regs_ok (update_character_wish ev op key wish now)"
  "keeps regs_ok (update_co_player_wish ev op key wish now)"
  unfolding cancel_row_def update_character_wish_def update_co_player_wish_def
  by (rule update_row_ok, simp)+

lemma each_once_ok:
  "keeps_place change \<Longrightarrow> regs_ok r \<Longrightarrow> regs_ok (snd (each_once ev op change keys i clk r))"
proof (induction keys arbitrary: i r)
  case (Cons key keys)
  show ?case
  proof (cases "get_registration_row ev key r")
    case None
    then show ?thesis using Cons by simp
  next
    case (Some row)
    from Cons.IH[OF Cons.prems(1) regs_ok_once[OF Cons.prems(2,1) Some]] Some show ?thesis
      by (simp add: case_prod_beta Let_def)
  qed
qed simp

lemma linked_ops_ok:
  "regs_ok r \<Longrightarrow> regs_ok (snd (cancel_linked ev op keys clk r))"
  "regs_ok r \<Longrightarrow> regs_ok (snd (update_linked_character_wish ev op keys wish clk r))"
  "regs_ok r \<Longrightarrow> regs_ok (snd (update_linked_co_player_wish ev op keys wish clk r))"
  unfolding cancel_linked_def update_linked_character_wish_def update_linked_co_player_wish_def
  by (rule each_once_ok; simp)+

lemma confirm_ops_ok [keeps_intros]:
  "keeps regs_ok (confirm_row ev op key wish replaced replaced_key now)"
  "keeps regs_ok (confirm_linked ev op keys wish replaced replaced_keys now)"
proof -
  show "keeps regs_ok (confirm_row ev op key wish replaced replaced_key now)"
    unfolding keeps_def
  proof (intro allI impI)
    fix r assume ok: "regs_ok r"
    have "regs_ok (put_row (ev, key) (snd (once op (confirmed wish) now row)) r')"
      if "regs_ok r'" "get_registration_row ev key r = Some row" for r' row
      using once_fields[of "confirmed wish" row op now] regs_okD[OF ok that(2)]
      by (intro regs_ok_put[OF that(1)]) (simp_all add: confirmed_def)
    with ok show "regs_ok (snd (confirm_row ev op key wish replaced replaced_key now r))"
      by (auto simp: confirm_row_def Let_def case_prod_beta regs_ok_pop split: option.splits)
  qed
  show "keeps regs_ok (confirm_linked ev op keys wish replaced replaced_keys now)"
    by (auto simp: keeps_def confirm_linked_def case_prod_beta Let_def each_once_ok split: option.splits)
qed

lemma put_answers_ok: "regs_ok r \<Longrightarrow> regs_ok (put_answers ev answer t op keys i clk r)"
proof (induction keys arbitrary: i r)
  case (Cons key keys)
  show ?case
  proof (cases "get_registration_row ev key r")
    case (Some row)
    have "regs_ok (put_row (ev, key) (enlisted (Some answer) t op (clk i) row) r)"
      using regs_okD[OF Cons.prems Some] by (intro regs_ok_put[OF Cons.prems]) (simp_all add: enlisted_def)
    from Cons.IH[OF this] Some show ?thesis by simp
  qed (use Cons in simp)
qed simp

lemma update_answer_ok: "regs_ok r \<Longrightarrow> regs_ok (snd (update_answer ev op keys answer clk r))"
  by (simp add: update_answer_def Let_def put_answers_ok)

lemma update_profile_ok [keeps_intros]: "keeps regs_ok (update_profile_row ev op key view now)"
  unfolding keeps_def
proof (intro allI impI)
  fix r assume ok: "regs_ok r"
  show "regs_ok (snd (update_profile_row ev op key view now r))"
  proof (cases "get_registration_row ev key r")
    case (Some row)
    have "regs_ok (put_row (ev, key) (row\<lparr>rg_display_name := n\<rparr>) r)"
      "regs_ok (put_row (ev, key) ((viewed_as v row)\<lparr>rg_last_operation_id := op, rg_updated_at := now\<rparr>) r)" for n v
      using regs_okD[OF ok Some] by (intro regs_ok_put[OF ok]; simp add: viewed_as_def)+
    with ok Some show ?thesis by (simp add: update_profile_row_def split: option.splits)
  qed (simp add: update_profile_row_def ok)
qed

lemma enlist_ok [keeps_intros]: "keeps regs_ok (enlist ev op key view wish answer clk)"
  unfolding keeps_def
proof (intro allI impI)
  fix r assume ok: "regs_ok r"
  have put: "regs_ok (put_row (ev, key) (enlisted answer t op now row) r)"
    if "rg_event_id row = ev" "rg_participant_key row = key" for t now row
    using that by (intro regs_ok_put[OF ok]) (simp_all add: enlisted_def)
  show "regs_ok (snd (enlist ev op key view wish answer clk r))"
  proof (cases "get_registration_row ev key r")
    case None
    let ?new = "new_registration ev key view wish (joining_time ev r (clk 0)) (clk 1)"
    show ?thesis
    proof (cases "registration_validate ?new")
      case (Some row)
      from registration_validate_row[OF Some] have "rg_event_id row = ev" "rg_participant_key row = key"
        by (auto simp: new_registration_def)
      with None Some put show ?thesis by (simp add: enlist_def Let_def)
    qed (simp add: enlist_def None ok Let_def)
  next
    case (Some row)
    have "regs_ok (put_row (ev, key) (row\<lparr>rg_display_name := n\<rparr>) r)" for n
      using regs_okD[OF ok Some] by (intro regs_ok_put[OF ok]) simp_all
    with ok Some put regs_okD[OF ok Some] show ?thesis
      by (simp add: enlist_def Let_def split: option.splits)
  qed
qed

lemma import_missing_ok:
  assumes "regs_ok r"
    and "\<And>row. row \<in> set rows \<Longrightarrow> rg_answer_queue_at row \<noteq> None \<longrightarrow> rg_answer_id row \<noteq> None"
  shows "regs_ok (import_missing rows r)"
proof -
  have "regs_ok (r\<lparr>rr_rows := foldl (\<lambda>d row. dict_setdefault (rg_event_id row, rg_participant_key row) row d) m rows\<rparr>)"
    if "regs_ok (r\<lparr>rr_rows := m\<rparr>)" for m
    using that assms(2)
  proof (induction rows arbitrary: m)
    case (Cons row rows)
    have "regs_ok (r\<lparr>rr_rows := dict_setdefault (rg_event_id row, rg_participant_key row) row m\<rparr>)"
      using Cons.prems wf_dict_setdefault[of m] 
      by (auto simp: regs_ok_def dict_setdefault_def list_all_iff split: option.splits)
    from Cons.IH[OF this] Cons.prems(2) show ?case by simp
  qed simp
  from this[of "rr_rows r"] assms(1) show ?thesis by (simp add: import_missing_def)
qed

lemma swap_ok: "regs_ok r \<Longrightarrow> regs_ok (snd (swap_queue_positions ev op pk pt dk dt now r))"
proof -
  assume ok: "regs_ok r"
  have put: "regs_ok (put_row (ev, k) (applied op now (moved_to t row)) r')"
    if "regs_ok r'" "get_registration_row ev k r' = Some row" for k t row r'
    using regs_okD[OF that] moved_to_answer[of row t] by (intro regs_ok_put[OF that(1)]) simp_all
  show ?thesis
  proof (cases "get_registration_row ev pk r"; cases "get_registration_row ev dk r")
    fix p d assume g: "get_registration_row ev pk r = Some p" "get_registration_row ev dk r = Some d"
    let ?r1 = "put_row (ev, pk) (applied op now (moved_to dt p)) r"
    have ok1: "regs_ok ?r1" by (rule put[OF ok g(1)])
    obtain d' where "get_registration_row ev dk ?r1 = Some d'" using g by (cases "pk = dk") auto
    with put[OF ok1 this] ok g show ?thesis
      by (simp add: swap_queue_positions_def Let_def)
  qed (simp_all add: swap_queue_positions_def ok)
qed

lemma remove_ops_ok:
  "regs_ok r \<Longrightarrow> regs_ok (snd (remove_row ev key r))"
  "regs_ok r \<Longrightarrow> regs_ok (remove_many ev keys r)"
  "regs_ok r \<Longrightarrow> regs_ok (delete_for_event ev r)"
proof -
  show "regs_ok r \<Longrightarrow> regs_ok (snd (remove_row ev key r))" by (simp add: remove_row_def regs_ok_pop)
  show "regs_ok r \<Longrightarrow> regs_ok (remove_many ev keys r)"
    unfolding remove_many_def by (induction keys arbitrary: r) (simp_all add: regs_ok_pop)
  have "distinct (map fst m) \<Longrightarrow> distinct (map fst (filter P m))" for m :: "(reg_key, registration) dict" and P
    by (rule distinct_map_filter)
  then show "regs_ok r \<Longrightarrow> regs_ok (delete_for_event ev r)"
    by (auto simp: regs_ok_def delete_for_event_def wf_dict_def list_all_iff)
qed

text \<open>
  One step is one call of one method; the rows imported from a legacy workbook have no answers.
\<close>

inductive reg_step :: "regs \<Rightarrow> regs \<Rightarrow> bool" where
  mark: "reg_step r (mark_participation_notification_delivered ev key req r)"
| import: "(\<And>row. row \<in> set rows \<Longrightarrow> rg_answer_queue_at row = None) \<Longrightarrow> reg_step r (import_missing rows r)"
| enlist: "reg_step r (snd (enlist ev op key view wish answer clk r))"
| answer: "reg_step r (snd (update_answer ev op keys a clk r))"
| profile: "reg_step r (snd (update_profile_row ev op key view now r))"
| confirm: "reg_step r (snd (confirm_row ev op key wish replaced replaced_key now r))"
| confirm_linked: "reg_step r (snd (confirm_linked ev op keys wish replaced replaced_keys now r))"
| wish: "reg_step r (snd (update_character_wish ev op key wish now r))"
| wish_linked: "reg_step r (snd (update_linked_character_wish ev op keys wish clk r))"
| co: "reg_step r (snd (update_co_player_wish ev op key wish now r))"
| co_linked: "reg_step r (snd (update_linked_co_player_wish ev op keys wish clk r))"
| cancel: "reg_step r (snd (cancel_row ev op key now r))"
| cancel_linked: "reg_step r (snd (cancel_linked ev op keys clk r))"
| sift: "reg_step r (sift_waiting_to_end ev r)"
| swap: "reg_step r (snd (swap_queue_positions ev op pk pt dk dt now r))"
| remove: "reg_step r (snd (remove_row ev key r))"
| remove_many: "reg_step r (remove_many ev keys r)"
| delete: "reg_step r (delete_for_event ev r)"

definition no_regs :: regs where
  "no_regs = \<lparr>rr_rows = [], rr_deliveries = []\<rparr>"

definition reachable_regs :: "regs \<Rightarrow> bool" where
  "reachable_regs r \<longleftrightarrow> reg_step\<^sup>*\<^sup>* no_regs r"

lemma mark_ok: "regs_ok r \<Longrightarrow> regs_ok (mark_participation_notification_delivered ev key req r)"
  by (simp add: mark_participation_notification_delivered_def regs_ok_def)

lemma reg_step_ok: "reg_step r r' \<Longrightarrow> regs_ok r \<Longrightarrow> regs_ok r'"
proof (induction rule: reg_step.induct)
  case import
  then show ?case by (intro import_missing_ok) simp_all
qed (simp_all add: mark_ok update_answer_ok linked_ops_ok regs_ok_sift swap_ok remove_ops_ok
      keepsD[OF enlist_ok] keepsD[OF update_profile_ok] keepsD[OF confirm_ops_ok(1)]
      keepsD[OF confirm_ops_ok(2)] keepsD[OF single_ops_ok(1)] keepsD[OF single_ops_ok(2)]
      keepsD[OF single_ops_ok(3)])

lemma regs_ok_reachable: "reachable_regs r \<Longrightarrow> regs_ok r"
  unfolding reachable_regs_def
proof (induction rule: rtranclp_induct)
  case base
  show ?case by (simp add: no_regs_def regs_ok_def)
qed (rule reg_step_ok)

section \<open>Concrete rows\<close>

definition sample_key :: ustring where
  "sample_key = replicate 43 65"

definition sample_view :: profile_view where
  "sample_view = \<lparr>pv_display_name = asc ''Ann'', pv_nickname = None, pv_larp_experience = None,
     pv_crossplay = None, pv_vk_profile = [], pv_telegram_profile = None\<rparr>"

definition stored_regs :: "registration list \<Rightarrow> regs" where
  "stored_regs rows = \<lparr>rr_rows = map (\<lambda>row. ((rg_event_id row, rg_participant_key row), row)) rows,
     rr_deliveries = []\<rparr>"

definition sample_regs :: regs where
  "sample_regs = stored_regs sample_rows"

lemma sample_regs_ok: "regs_ok sample_regs"
  by (simp add: regs_ok_def sample_regs_def stored_regs_def sample_rows_def sample_registration_def wf_dict_def)

lemma sample_game_queue:
  "game_queue sample_id sample_regs =
     [sample_registration [5] 10 WAITING, sample_registration [2] 20 CONFIRMED]"
proof -
  have "event_rows sample_id sample_regs = sample_rows"
    by (simp add: event_rows_def sample_regs_def stored_regs_def sample_rows_def sample_registration_def
        sample_id_def)
  then show ?thesis by (simp add: game_queue_rows[OF sample_regs_ok] sample_active_queue)
qed

lemma sample_joins: "joins sample_id sample_key sample_regs"
  by (simp add: joins_def get_registration_row_def dict_get_def sample_regs_def stored_regs_def
      sample_rows_def sample_registration_def sample_key_def eval_nat_numeral)

theorem enlist_joins_the_end_witness:
  "\<exists>row. game_queue sample_id (snd (enlist sample_id [9] sample_key sample_view [65] None (\<lambda>_. 15) sample_regs)) =
     game_queue sample_id sample_regs @ [row] \<and> rg_attendance_status row = WAITING"
proof -
  have n: "get_registration_row sample_id sample_key sample_regs = None"
    by (simp add: get_registration_row_def dict_get_def sample_regs_def stored_regs_def
        sample_rows_def sample_registration_def sample_key_def eval_nat_numeral)
  obtain row where v: "registration_validate (new_registration sample_id sample_key sample_view [65]
      (joining_time sample_id sample_regs 15) 15) = Some row"
    by (simp add: registration_validate_def new_registration_def sample_view_def sample_key_def
        length_between_def optionally_def)
  then obtain r' where e: "enlist sample_id [9] sample_key sample_view [65] None (\<lambda>_. 15) sample_regs = (Inr True, r')"
    by (simp add: enlist_def n Let_def)
  from enlist_joins_the_end[OF sample_regs_ok sample_joins e] e show ?thesis by auto
qed

theorem sift_sorts_by_confirmation_witness:
  "map rg_participant_key (game_queue sample_id (sift_waiting_to_end sample_id sample_regs)) = [[2], [5]]"
  using sift_sorts_by_confirmation[OF sample_regs_ok, of sample_id]
  by (simp add: sample_game_queue) (simp add: sample_registration_def)

theorem swap_exchanges_places_witness:
  "map rg_participant_key (game_queue sample_id (snd (swap_queue_positions sample_id [9] [2] 20 [5] 10 30 sample_regs)))
    = [[2], [5]]"
proof -
  let ?D = "sample_registration [5] 10 WAITING" and ?P = "sample_registration [2] 20 CONFIRMED"
  have q: "game_queue sample_id sample_regs = [] @ ?D # [] @ ?P # []" by (simp add: sample_game_queue)
  have s: "rg_participant_key ?P = [2]" "rg_participant_key ?D = [5]" "fst (queue_key ?P) = 20"
    "fst (queue_key ?D) = 10" "rg_last_operation_id ?P \<noteq> [9] \<or> rg_last_operation_id ?D \<noteq> [9]"
    by (simp_all add: sample_registration_def queue_key_def)
  have d: "distinct (map (fst \<circ> queue_key) (game_queue sample_id sample_regs))"
    by (simp add: sample_game_queue sample_registration_def queue_key_def)
  from swap_exchanges_places[OF sample_regs_ok q d s(5), of 30] show ?thesis by (simp add: s)
qed

text \<open>
  In every state the repository can reach, a row is found under its own game and participant key,
  and it has a queue time of its own only together with an answer.
\<close>

theorem registrations_keyed:
  assumes "reachable_regs r" and "get_registration_row ev key r = Some row"
  shows "rg_event_id row = ev \<and> rg_participant_key row = key
    \<and> (rg_answer_id row = None \<longrightarrow> queue_key row = (rg_created_at row, key))"
  using regs_okD[OF regs_ok_reachable[OF assms(1)] assms(2)]
  by (auto simp: queue_key_def split: option.splits)

theorem registrations_keyed_witness:
  "queue_key (sample_registration sample_key 4 WAITING) = (4, sample_key)"
proof -
  let ?row = "sample_registration sample_key 4 WAITING"
  have "reg_step no_regs (import_missing [?row] no_regs)"
    by (rule reg_step.import) (simp add: sample_registration_def)
  then have "reachable_regs (import_missing [?row] no_regs)" by (simp add: reachable_regs_def)
  moreover have "get_registration_row sample_id sample_key (import_missing [?row] no_regs) = Some ?row"
    by (simp add: import_missing_def no_regs_def dict_setdefault_def get_registration_row_def dict_get_def
        sample_registration_def sample_id_def)
  ultimately show ?thesis
    using registrations_keyed[of "import_missing [?row] no_regs" sample_id sample_key ?row]
    by (simp add: queue_key_def) (simp add: sample_registration_def)
qed

end
