(* ===== verification/Users.thy ===== *)
theory Users
  imports Model
begin

text \<open>
  User profiles: \<open>MemoryUserRepository\<close> (\<open>adapters/memory.py\<close>), the identities of one person
  (\<open>application/identity.py\<close>) and the pass answers of a game (\<open>application/pass_preferences.py\<close>).
  A row is keyed by platform and id; \<open>now\<close> is the clock reading of a method that stamps a row.
\<close>

section \<open>The repository\<close>

type_synonym users = "(bot_identity, user) dict"

fun local_identity :: "user \<Rightarrow> bot_identity" where
  "local_identity (TelegramUser _ i _ _ _) = (TELEGRAM, i)"
| "local_identity (VkUser _ i _) = (VK, i)"

definition users_get :: "platform \<Rightarrow> int \<Rightarrow> users \<Rightarrow> user option" where
  "users_get p i r = dict_get r (p, i)"

text \<open>The Telegram profiles that point at a VK profile and carry a handle.\<close>

definition link_owners :: "users \<Rightarrow> int \<Rightarrow> ustring \<Rightarrow> user list" where
  "link_owners r vk handle =
     map snd (filter (\<lambda>((p, _), u). p = TELEGRAM \<and> is_TelegramUser u \<and> linked_vk_id u = Some vk
        \<and> telegram_handle u = Some handle) r)"

fun find_linked :: "users \<Rightarrow> user \<Rightarrow> user option" where
  "find_linked r (TelegramUser b i v l h) =
     (case (l, h) of
        (Some vk, Some handle) \<Rightarrow>
          (case link_owners r vk handle of
             [owner] \<Rightarrow>
               if tg_id owner \<noteq> i then None
               else (case dict_get r (VK, vk) of
                       None \<Rightarrow> None
                     | Some linked \<Rightarrow> if telegram_handle linked = Some handle then Some linked else None)
           | _ \<Rightarrow> None)
      | _ \<Rightarrow> None)"
| "find_linked r (VkUser b i h) =
     (case h of
        None \<Rightarrow> None
      | Some handle \<Rightarrow> (case link_owners r i handle of [owner] \<Rightarrow> Some owner | _ \<Rightarrow> None))"

definition find_telegram_by_handle :: "users \<Rightarrow> ustring \<Rightarrow> exn + user option" where
  "find_telegram_by_handle r handle =
     (case map snd (filter (\<lambda>((p, _), u). p = TELEGRAM \<and> telegram_handle u = Some handle) r) of
        [m] \<Rightarrow> if is_TelegramUser m then Inr (Some m) else Inl AssertionError
      | _ \<Rightarrow> Inr None)"

definition stamp :: "time \<Rightarrow> user \<Rightarrow> user" where
  "stamp now = with_base (\<lambda>b. b\<lparr>us_updated_at := now\<rparr>)"

fun with_handle :: "ustring option \<Rightarrow> user \<Rightarrow> user" where
  "with_handle h (TelegramUser b i v l _) = TelegramUser b i v l h"
| "with_handle h (VkUser b i _) = VkUser b i h"

fun with_link :: "int option \<Rightarrow> user \<Rightarrow> user" where
  "with_link l (TelegramUser b i v _ h) = TelegramUser b i v l h"
| "with_link l (VkUser b i h) = VkUser b i h"

text \<open>Assigning a field validates it; a rejected value raises before the row changes further.\<close>

definition update_telegram_handle :: "int \<Rightarrow> ustring \<Rightarrow> time \<Rightarrow> (users, exn, unit) act" where
  "update_telegram_handle user_id handle now r =
     (case dict_get r (TELEGRAM, user_id) of
        None \<Rightarrow> (Inr (), r)
      | Some u \<Rightarrow>
          if \<not> is_TelegramUser u then (Inr (), r)
          else (case normalize_telegram_handle (Some handle) of
                  None \<Rightarrow> (Inl ValueError, r)
                | Some h \<Rightarrow> (Inr (), dict_put (TELEGRAM, user_id) (stamp now (with_handle h u)) r)))"

definition update_telegram_link ::
    "int \<Rightarrow> ustring option \<Rightarrow> int option \<Rightarrow> time \<Rightarrow> (users, exn, unit) act" where
  "update_telegram_link user_id handle linked now r =
     (case dict_get r (TELEGRAM, user_id) of
        None \<Rightarrow> (Inr (), r)
      | Some u \<Rightarrow>
          if \<not> is_TelegramUser u then (Inr (), r)
          else (case normalize_telegram_handle handle of
                  None \<Rightarrow> (Inl ValueError, r)
                | Some h \<Rightarrow>
                    if when_set (\<lambda>k. 0 < k) linked
                    then (Inr (), dict_put (TELEGRAM, user_id) (stamp now (with_link linked (with_handle h u))) r)
                    else (Inl ValueError, dict_put (TELEGRAM, user_id) (with_handle h u) r)))"

definition save_user :: "user \<Rightarrow> users \<Rightarrow> users" where
  "save_user u r = dict_put (local_identity u) u r"

definition set_larp_experience :: "platform \<Rightarrow> int \<Rightarrow> bool \<Rightarrow> time \<Rightarrow> users \<Rightarrow> users" where
  "set_larp_experience p i experienced now r =
     (case dict_get r (p, i) of
        None \<Rightarrow> r
      | Some u \<Rightarrow>
          dict_put (p, i) (stamp now (with_base (\<lambda>b. b\<lparr>us_larp_experience := Some experienced\<rparr>) u)) r)"

definition grant_larp_experience :: "platform \<Rightarrow> int \<Rightarrow> time \<Rightarrow> users \<Rightarrow> users" where
  "grant_larp_experience p i now r = set_larp_experience p i True now r"

definition set_privileged_role ::
    "platform \<Rightarrow> int \<Rightarrow> privileged_role \<Rightarrow> ustring \<Rightarrow> (users, exn, unit) act" where
  "set_privileged_role p i role operation_id r =
     (case dict_get r (p, i) of
        None \<Rightarrow> (Inl KeyError, r)
      | Some u \<Rightarrow>
          if effective_privileged_role (base u) \<noteq> Some role
             \<or> us_gamemaster_grant_operation_id (base u) \<noteq> Some operation_id
          then (Inr (), dict_put (p, i)
                 (with_base (\<lambda>b. b\<lparr>us_privileged_role := Some role, us_is_gamemaster := True,
                    us_gamemaster_grant_operation_id := Some operation_id\<rparr>) u) r)
          else (Inr (), r))"

definition clear_privileged_role :: "platform \<Rightarrow> int \<Rightarrow> ustring \<Rightarrow> (users, exn, unit) act" where
  "clear_privileged_role p i operation_id r =
     (case dict_get r (p, i) of
        None \<Rightarrow> (Inl KeyError, r)
      | Some u \<Rightarrow>
          if effective_privileged_role (base u) \<noteq> None
          then (Inr (), dict_put (p, i)
                 (with_base (\<lambda>b. b\<lparr>us_privileged_role := None, us_is_gamemaster := False,
                    us_gamemaster_grant_operation_id := Some operation_id\<rparr>) u) r)
          else (Inr (), r))"

definition pass_preference :: "bot_identity \<times> user \<Rightarrow> user_pass_preference" where
  "pass_preference e =
     (case e of ((p, i), u) \<Rightarrow>
        \<lparr>pp_platform = p, pp_user_id = i, pp_needs_pass = us_needs_pass (base u),
         pp_telegram_handle = telegram_handle u, pp_linked_vk_id = linked_vk_id u,
         pp_updated_at = us_updated_at (base u)\<rparr>)"

definition list_pass_preferences :: "users \<Rightarrow> user_pass_preference list" where
  "list_pass_preferences r = map pass_preference r"

definition list_all_users :: "users \<Rightarrow> user list" where
  "list_all_users r = dict_values r"

definition claim_delivery :: "platform \<Rightarrow> int \<Rightarrow> ustring \<Rightarrow> button list \<Rightarrow> users \<Rightarrow> bool \<times> users" where
  "claim_delivery p i operation_id buttons r =
     (case dict_get r (p, i) of
        None \<Rightarrow> (True, r)
      | Some u \<Rightarrow>
          if us_last_delivery_operation_id (base u) = Some operation_id then (False, r)
          else (True, dict_put (p, i)
                 (with_base (\<lambda>b. b\<lparr>us_last_delivery_operation_id := Some operation_id,
                    us_last_bot_buttons := buttons\<rparr>) u) r))"

section \<open>Global identities\<close>

definition global_users :: "users \<Rightarrow> user \<Rightarrow> user list" where
  "global_users r u = (case find_linked r u of None \<Rightarrow> [u] | Some v \<Rightarrow> [u, v])"

definition global_identities :: "users \<Rightarrow> user \<Rightarrow> bot_identity list" where
  "global_identities r u = map local_identity (global_users r u)"

definition identities_for_local_user :: "users option \<Rightarrow> platform \<Rightarrow> int \<Rightarrow> bot_identity list" where
  "identities_for_local_user users p i =
     (case users of
        None \<Rightarrow> [(p, i)]
      | Some r \<Rightarrow> (case users_get p i r of None \<Rightarrow> [(p, i)] | Some u \<Rightarrow> global_identities r u))"

section \<open>Pass answers of a game\<close>

text \<open>
  \<open>pkey\<close> is \<open>participant_key\<close> with the secret applied: platform, user and game to an opaque key.
\<close>

type_synonym pkey = "platform \<Rightarrow> int \<Rightarrow> ustring \<Rightarrow> ustring"

definition put_all :: "('k \<times> 'v) list \<Rightarrow> ('k, 'v) dict \<Rightarrow> ('k, 'v) dict" where
  "put_all ps m = foldl (\<lambda>d (k, v). dict_put k v d) m ps"

definition add_owner ::
    "((int \<times> ustring), user_pass_preference list) dict \<Rightarrow> user_pass_preference
       \<Rightarrow> ((int \<times> ustring), user_pass_preference list) dict" where
  "add_owner owners profile =
     (case (pp_platform profile, pp_linked_vk_id profile, pp_telegram_handle profile) of
        (TELEGRAM, Some vk, Some handle) \<Rightarrow>
          if handle = [] then owners
          else dict_put (vk, handle)
                 ((case dict_get owners (vk, handle) of None \<Rightarrow> [] | Some ps \<Rightarrow> ps) @ [profile]) owners
      | _ \<Rightarrow> owners)"

definition preference_owners ::
    "user_pass_preference list \<Rightarrow> ((int \<times> ustring), user_pass_preference list) dict" where
  "preference_owners profiles = foldl add_owner [] profiles"

definition preference_key :: "user_pass_preference \<Rightarrow> time \<times> platform \<times> int" where
  "preference_key row = (pp_updated_at row, pp_platform row, pp_user_id row)"

definition latest_of :: "user_pass_preference \<Rightarrow> user_pass_preference \<Rightarrow> user_pass_preference" where
  "latest_of a b = (if preference_key a < preference_key b then b else a)"

definition linked_entries ::
    "(int, user_pass_preference) dict \<Rightarrow> (int \<times> ustring) \<times> user_pass_preference list
       \<Rightarrow> (bot_identity \<times> user_pass_preference) list" where
  "linked_entries vk_profiles owner =
     (case owner of ((vk_number, handle), candidates) \<Rightarrow>
        (case (candidates, dict_get vk_profiles vk_number) of
           ([telegram], Some vk) \<Rightarrow>
             if pp_telegram_handle vk \<noteq> Some handle then []
             else [((pp_platform telegram, pp_user_id telegram), latest_of telegram vk),
                   ((pp_platform vk, pp_user_id vk), latest_of telegram vk)]
         | _ \<Rightarrow> []))"

definition event_pass_preferences ::
    "pkey \<Rightarrow> user_pass_preference list \<Rightarrow> ustring \<Rightarrow> ustring set \<Rightarrow> (ustring, bool option) dict" where
  "event_pass_preferences pkey profiles event_id active_keys =
     (let vk_profiles = put_all (map (\<lambda>p. (pp_user_id p, p)) (filter (\<lambda>p. pp_platform p = VK) profiles)) [];
          linked = put_all (concat (map (linked_entries vk_profiles) (preference_owners profiles))) []
      in put_all
           (map (\<lambda>p. (pkey (pp_platform p) (pp_user_id p) event_id,
                      pp_needs_pass (case dict_get linked (pp_platform p, pp_user_id p) of
                                       Some current \<Rightarrow> current | None \<Rightarrow> p)))
             (filter (\<lambda>p. pkey (pp_platform p) (pp_user_id p) event_id \<in> active_keys) profiles)) [])"

section \<open>Well-formed rows\<close>

text \<open>Rows are keyed by their own identity; a handle is never the empty string.\<close>

definition users_ok :: "users \<Rightarrow> bool" where
  "users_ok r \<longleftrightarrow>
     wf_dict r \<and> list_all (\<lambda>(k, u). local_identity u = k \<and> telegram_handle u \<noteq> Some []) r"

lemma users_okD:
  assumes "users_ok r" and "dict_get r k = Some u"
  shows "local_identity u = k" and "telegram_handle u \<noteq> Some []" and "(k, u) \<in> set r"
  using assms dict_get_in[OF assms(2)] by (auto simp: users_ok_def list_all_iff)

lemma users_ok_put:
  "users_ok r \<Longrightarrow> local_identity u = k \<Longrightarrow> telegram_handle u \<noteq> Some [] \<Longrightarrow> users_ok (dict_put k u r)"
  by (auto simp: users_ok_def list_all_iff set_dict_put)

lemma local_identity_updates [simp]:
  "local_identity (with_base f u) = local_identity u"
  "local_identity (stamp now u) = local_identity u"
  "local_identity (with_handle h u) = local_identity u"
  "local_identity (with_link l u) = local_identity u"
  by (cases u; simp add: stamp_def)+

lemma telegram_handle_updates [simp]:
  "telegram_handle (with_base f u) = telegram_handle u"
  "telegram_handle (stamp now u) = telegram_handle u"
  "telegram_handle (with_handle h u) = h"
  "telegram_handle (with_link l u) = telegram_handle u"
  by (cases u; simp add: stamp_def)+

lemma normalize_telegram_handle_not_empty: "normalize_telegram_handle v \<noteq> Some (Some [])"
  using normalize_telegram_handle_shape[of v "[]"] by auto

lemma save_user_ok: "users_ok r \<Longrightarrow> telegram_handle u \<noteq> Some [] \<Longrightarrow> users_ok (save_user u r)"
  by (simp add: save_user_def users_ok_put)

lemma update_telegram_link_ok: "users_ok r \<Longrightarrow> users_ok (snd (update_telegram_link i h l now r))"
  using normalize_telegram_handle_not_empty[of h]
  by (auto simp: update_telegram_link_def users_okD intro!: users_ok_put split: option.splits)

lemma update_telegram_handle_ok: "users_ok r \<Longrightarrow> users_ok (snd (update_telegram_handle i h now r))"
  using normalize_telegram_handle_not_empty[of "Some h"]
  by (auto simp: update_telegram_handle_def users_okD intro!: users_ok_put split: option.splits)

lemma set_larp_experience_ok: "users_ok r \<Longrightarrow> users_ok (set_larp_experience p i x now r)"
  by (auto simp: set_larp_experience_def users_okD intro!: users_ok_put split: option.splits)

lemma role_updates_ok:
  "users_ok r \<Longrightarrow> users_ok (snd (set_privileged_role p i role op_id r))"
  "users_ok r \<Longrightarrow> users_ok (snd (clear_privileged_role p i op_id r))"
  "users_ok r \<Longrightarrow> users_ok (snd (claim_delivery p i op_id buttons r))"
  by (auto simp: set_privileged_role_def clear_privileged_role_def claim_delivery_def users_okD
      intro!: users_ok_put split: option.splits)

section \<open>Reciprocal links\<close>

lemma link_owners_mem:
  assumes "users_ok r"
  shows "u \<in> set (link_owners r vk handle) \<longleftrightarrow>
    dict_get r (local_identity u) = Some u \<and> is_TelegramUser u
    \<and> linked_vk_id u = Some vk \<and> telegram_handle u = Some handle"
proof -
  have w: "wf_dict r" and l: "((p, i), u) \<in> set r \<Longrightarrow> local_identity u = (p, i)" for p i u
    using assms by (auto simp: users_ok_def list_all_iff)
  show ?thesis
    using l dict_get_iff[OF w] by (cases u) (fastforce simp: link_owners_def image_iff)+
qed

lemma find_linked_sym:
  assumes ok: "users_ok r" and u: "dict_get r (local_identity u) = Some u" and f: "find_linked r u = Some v"
  shows "dict_get r (local_identity v) = Some v \<and> find_linked r v = Some u \<and> local_identity v \<noteq> local_identity u"
proof (cases u)
  case (TelegramUser b i v' l h)
  from f obtain vk handle owner where l: "l = Some vk" "h = Some handle"
    and o: "link_owners r vk handle = [owner]" "tg_id owner = i"
    and v: "dict_get r (VK, vk) = Some v" "telegram_handle v = Some handle"
    by (auto simp: TelegramUser split: option.splits list.splits if_splits)
  have "owner = u"
  proof -
    have "u \<in> set (link_owners r vk handle)"
      using u by (simp add: link_owners_mem[OF ok] TelegramUser l)
    then show ?thesis by (simp add: o)
  qed
  moreover have "local_identity v = (VK, vk)" using users_okD(1)[OF ok v(1)] .
  then obtain b' where "v = VkUser b' vk (Some handle)" using v(2) by (cases v) auto
  ultimately show ?thesis using o v by (simp add: TelegramUser)
next
  case (VkUser b i h)
  from f obtain handle where h: "h = Some handle" and o: "link_owners r i handle = [v]"
    by (auto simp: VkUser split: option.splits list.splits)
  have m: "dict_get r (local_identity v) = Some v" "is_TelegramUser v"
    "linked_vk_id v = Some i" "telegram_handle v = Some handle"
    using link_owners_mem[OF ok, of v i handle] by (simp_all add: o)
  then obtain b' j v'' where v: "v = TelegramUser b' j v'' (Some i) (Some handle)" by (cases v) auto
  show ?thesis using m(1) o u by (simp add: v VkUser h)
qed

text \<open>
  Linking is mutual: if a stored profile is linked to another, that one is stored and linked back,
  so both profiles of a person resolve to the same two identities.
\<close>

theorem linking_is_mutual:
  assumes "users_ok r" and "users_get p i r = Some u" and "find_linked r u = Some v"
  shows "find_linked r v = Some u
    \<and> set (identities_for_local_user (Some r) p i) =
       set (identities_for_local_user (Some r) (fst (local_identity v)) (snd (local_identity v)))"
proof -
  have k: "local_identity u = (p, i)" using users_okD(1)[OF assms(1)] assms(2) by (simp add: users_get_def)
  then have "dict_get r (local_identity u) = Some u" using assms(2) by (simp add: users_get_def)
  from find_linked_sym[OF assms(1) this assms(3)]
  have v: "dict_get r (local_identity v) = Some v" "find_linked r v = Some u" by simp_all
  with assms(2,3) show ?thesis
    by (auto simp: identities_for_local_user_def global_identities_def global_users_def users_get_def)
qed

definition sample_users :: users where
  "sample_users =
     [((TELEGRAM, 7), TelegramUser (new_user_base 5) 7 None (Some 9) (Some (asc ''@ivan''))),
      ((VK, 9), VkUser (new_user_base 3) 9 (Some (asc ''@ivan'')))]"

lemma sample_users_ok: "users_ok sample_users"
  by (simp add: users_ok_def sample_users_def wf_dict_def)

theorem linking_is_mutual_witness:
  "find_linked sample_users (VkUser (new_user_base 3) 9 (Some (asc ''@ivan''))) =
     Some (TelegramUser (new_user_base 5) 7 None (Some 9) (Some (asc ''@ivan'')))"
proof -
  have g: "users_get TELEGRAM 7 sample_users =
      Some (TelegramUser (new_user_base 5) 7 None (Some 9) (Some (asc ''@ivan'')))"
    by (simp add: users_get_def sample_users_def dict_get_def)
  have f: "find_linked sample_users (TelegramUser (new_user_base 5) 7 None (Some 9) (Some (asc ''@ivan''))) =
      Some (VkUser (new_user_base 3) 9 (Some (asc ''@ivan'')))"
    by (simp add: sample_users_def link_owners_def dict_get_def)
  from linking_is_mutual[OF sample_users_ok g f] show ?thesis by blast
qed

section \<open>The pass answers agree with the links\<close>

lemma dict_get_put_all:
  "dict_get (put_all ps m) k = (case map_of (rev ps) k of Some v \<Rightarrow> Some v | None \<Rightarrow> dict_get m k)"
proof (induction ps arbitrary: m)
  case (Cons e ps)
  then show ?case
    by (cases e) (auto simp: put_all_def dict_get_put map_add_def split: option.splits)
qed (simp add: put_all_def)

definition functional :: "('k \<times> 'v) list \<Rightarrow> bool" where
  "functional ps \<longleftrightarrow> (\<forall>k v w. (k, v) \<in> set ps \<longrightarrow> (k, w) \<in> set ps \<longrightarrow> v = w)"

lemma put_all_functional:
  assumes "functional ps"
  shows "dict_get (put_all ps []) k = Some v \<longleftrightarrow> (k, v) \<in> set ps"
proof
  assume "dict_get (put_all ps []) k = Some v"
  then show "(k, v) \<in> set ps"
    by (auto simp: dict_get_put_all split: option.splits dest: map_of_SomeD)
next
  assume a: "(k, v) \<in> set ps"
  then obtain w where w: "map_of (rev ps) k = Some w"
    by (cases "map_of (rev ps) k") (auto simp: map_of_eq_None_iff image_iff)
  then have "(k, w) \<in> set ps" using map_of_SomeD by fastforce
  with a assms have "w = v" by (auto simp: functional_def)
  with w show "dict_get (put_all ps []) k = Some v" by (simp add: dict_get_put_all)
qed

definition owns :: "int \<Rightarrow> ustring \<Rightarrow> user_pass_preference \<Rightarrow> bool" where
  "owns vk handle p \<longleftrightarrow>
     pp_platform p = TELEGRAM \<and> pp_linked_vk_id p = Some vk \<and> pp_telegram_handle p = Some handle"

lemma preference_owners_snoc:
  "preference_owners (ps @ [p]) = add_owner (preference_owners ps) p"
  by (simp add: preference_owners_def)

lemma preference_owners_get:
  "wf_dict (preference_owners ps) \<and>
   dict_get (preference_owners ps) (vk, handle) =
     (if handle = [] \<or> filter (owns vk handle) ps = [] then None else Some (filter (owns vk handle) ps))"
proof (induction ps arbitrary: vk handle rule: rev_induct)
  case Nil
  then show ?case by (simp add: preference_owners_def)
next
  case (snoc p ps)
  have w: "wf_dict (preference_owners ps)" using snoc by blast
  show ?case
  proof (cases "\<exists>v h. owns v h p \<and> h \<noteq> []")
    case True
    then obtain v h where p: "pp_platform p = TELEGRAM" "pp_linked_vk_id p = Some v"
      "pp_telegram_handle p = Some h" "h \<noteq> []"
      by (auto simp: owns_def)
    have o: "owns vk handle p \<longleftrightarrow> vk = v \<and> handle = h" using p by (auto simp: owns_def)
    show ?thesis using w snoc p by (auto simp: preference_owners_snoc add_owner_def dict_get_put o)
  next
    case False
    then have "preference_owners (ps @ [p]) = preference_owners ps"
      by (auto simp: preference_owners_snoc add_owner_def owns_def split: platform.splits option.splits)
    moreover have "handle = [] \<or> filter (owns vk handle) (ps @ [p]) = filter (owns vk handle) ps"
      using False by auto
    ultimately show ?thesis using snoc by auto
  qed
qed

definition pref :: "user \<Rightarrow> user_pass_preference" where
  "pref u = pass_preference (local_identity u, u)"

lemma pref_simps [simp]:
  "(pp_platform (pref u), pp_user_id (pref u)) = local_identity u"
  "pp_telegram_handle (pref u) = telegram_handle u"
  "pp_linked_vk_id (pref u) = linked_vk_id u"
  "pp_needs_pass (pref u) = us_needs_pass (base u)"
  by (cases u; simp add: pref_def pass_preference_def)+

lemma pref_platform: "pp_platform (pref u) = fst (local_identity u)" "pp_user_id (pref u) = snd (local_identity u)"
  using pref_simps(1)[of u] by (metis fst_conv snd_conv)+

lemma list_pass_preferences_pref:
  "users_ok r \<Longrightarrow> list_pass_preferences r = map pref (dict_values r)"
  by (auto simp: list_pass_preferences_def dict_values_def users_ok_def list_all_iff pref_def)

lemma link_owners_filter:
  "users_ok r \<Longrightarrow> filter (owns vk handle) (list_pass_preferences r) = map pref (link_owners r vk handle)"
proof (induction r)
  case (Cons e r)
  obtain p i u where e: "e = ((p, i), u)" by (cases e) auto
  have "users_ok r" using Cons.prems by (simp add: users_ok_def wf_dict_def)
  moreover have "local_identity u = (p, i)" using Cons.prems by (simp add: users_ok_def e)
  ultimately show ?case
    using Cons.IH
    by (cases u) (auto simp: list_pass_preferences_def link_owners_def e owns_def pref_def pass_preference_def)
qed (simp add: list_pass_preferences_def link_owners_def)

text \<open>A Telegram profile and the VK profile it is reciprocally linked with.\<close>

definition linked_pair :: "users \<Rightarrow> user \<Rightarrow> user \<Rightarrow> bool" where
  "linked_pair r t w \<longleftrightarrow>
     (\<exists>vk handle. link_owners r vk handle = [t] \<and> dict_get r (VK, vk) = Some w
        \<and> telegram_handle w = Some handle)"

lemma linked_pairD:
  assumes "users_ok r" and "linked_pair r t w"
  shows "dict_get r (local_identity t) = Some t" and "dict_get r (local_identity w) = Some w"
    and "find_linked r t = Some w" and "find_linked r w = Some t"
    and "fst (local_identity t) = TELEGRAM" and "fst (local_identity w) = VK"
proof -
  from assms(2) obtain vk handle where o: "link_owners r vk handle = [t]"
    and w: "dict_get r (VK, vk) = Some w" "telegram_handle w = Some handle"
    by (auto simp: linked_pair_def)
  have m: "dict_get r (local_identity t) = Some t" "is_TelegramUser t"
    "linked_vk_id t = Some vk" "telegram_handle t = Some handle"
    using link_owners_mem[OF assms(1), of t vk handle] by (simp_all add: o)
  then obtain b j v where t: "t = TelegramUser b j v (Some vk) (Some handle)" by (cases t) auto
  have i: "local_identity w = (VK, vk)" using users_okD(1)[OF assms(1) w(1)] .
  then obtain b' where w': "w = VkUser b' vk (Some handle)" using w(2) by (cases w) auto
  show "dict_get r (local_identity t) = Some t" "dict_get r (local_identity w) = Some w"
    "find_linked r t = Some w" "find_linked r w = Some t"
    "fst (local_identity t) = TELEGRAM" "fst (local_identity w) = VK"
    using m(1) w(1) o by (simp_all add: t w')
qed

lemma linked_pair_of_find:
  assumes "users_ok r" and "dict_get r (local_identity u) = Some u" and "find_linked r u = Some v"
  shows "linked_pair r u v \<or> linked_pair r v u"
proof (cases u)
  case (TelegramUser b i v' l h)
  from assms(3) obtain vk handle owner where l: "l = Some vk" "h = Some handle"
    and o: "link_owners r vk handle = [owner]"
    and v: "dict_get r (VK, vk) = Some v" "telegram_handle v = Some handle"
    by (auto simp: TelegramUser split: option.splits list.splits if_splits)
  have "u \<in> set (link_owners r vk handle)"
    using assms(2) by (simp add: link_owners_mem[OF assms(1)] TelegramUser l)
  then have "owner = u" by (simp add: o)
  with o v have "linked_pair r u v" by (auto simp: linked_pair_def)
  then show ?thesis ..
next
  case (VkUser b i h)
  from assms(3) obtain handle where h: "h = Some handle" and o: "link_owners r i handle = [v]"
    by (auto simp: VkUser split: option.splits list.splits)
  have "linked_pair r v u"
    using o assms(2) by (auto simp: linked_pair_def VkUser h intro!: exI[of _ i] exI[of _ handle])
  then show ?thesis ..
qed

text \<open>The profile whose answer counts: the later of the two, or the only one.\<close>

definition profile_key :: "user \<Rightarrow> time \<times> platform \<times> int" where
  "profile_key u = (us_updated_at (base u), local_identity u)"

definition current_profile :: "users \<Rightarrow> user \<Rightarrow> user" where
  "current_profile r u =
     (case find_linked r u of
        None \<Rightarrow> u
      | Some v \<Rightarrow> if profile_key u < profile_key v then v else u)"

lemma preference_key_pref: "preference_key (pref u) = profile_key u"
  by (cases u) (simp_all add: preference_key_def pref_def pass_preference_def profile_key_def)

lemma latest_of_pair:
  assumes "users_ok r" and "linked_pair r t w"
  shows "latest_of (pref t) (pref w) = pref (current_profile r t)"
    and "latest_of (pref t) (pref w) = pref (current_profile r w)"
proof -
  note d = linked_pairD[OF assms]
  have "profile_key t \<noteq> profile_key w" using d(5,6) by (metis Pair_inject platform.distinct(1) profile_key_def)
  then show "latest_of (pref t) (pref w) = pref (current_profile r t)"
    "latest_of (pref t) (pref w) = pref (current_profile r w)"
    using d(3,4) by (auto simp: latest_of_def current_profile_def preference_key_pref dest: less_asym)
qed

lemma dict_values_users:
  assumes "users_ok r"
  shows "u \<in> set (dict_values r) \<longleftrightarrow> dict_get r (local_identity u) = Some u"
proof -
  have "wf_dict r" using assms by (simp add: users_ok_def)
  then have "u \<in> set (dict_values r) \<longleftrightarrow> (\<exists>k. dict_get r k = Some u)" by (rule in_dict_values)
  then show ?thesis using users_okD(1)[OF assms] by metis
qed

lemma vk_profiles_get:
  assumes "users_ok r"
  shows "dict_get (put_all (map (\<lambda>p. (pp_user_id p, p))
      (filter (\<lambda>p. pp_platform p = VK) (list_pass_preferences r))) []) vk = Some p
    \<longleftrightarrow> (\<exists>w. dict_get r (VK, vk) = Some w \<and> p = pref w)"
proof -
  have m: "p \<in> set (list_pass_preferences r) \<longleftrightarrow> (\<exists>u. dict_get r (local_identity u) = Some u \<and> p = pref u)" for p
    by (auto simp: list_pass_preferences_pref[OF assms] dict_values_users[OF assms])
  let ?ps = "map (\<lambda>p. (pp_user_id p, p)) (filter (\<lambda>p. pp_platform p = VK) (list_pass_preferences r))"
  have e: "(vk, p) \<in> set ?ps \<longleftrightarrow> (\<exists>w. dict_get r (VK, vk) = Some w \<and> p = pref w)" for vk p
  proof
    assume "(vk, p) \<in> set ?ps"
    then obtain u where "dict_get r (local_identity u) = Some u" "p = pref u" "pp_platform p = VK"
      "pp_user_id p = vk" by (auto simp: m)
    moreover from this have "local_identity u = (VK, vk)" using pref_simps(1)[of u] by simp
    ultimately show "\<exists>w. dict_get r (VK, vk) = Some w \<and> p = pref w" by auto
  next
    assume "\<exists>w. dict_get r (VK, vk) = Some w \<and> p = pref w"
    then obtain w where h: "dict_get r (VK, vk) = Some w" "p = pref w" by blast
    moreover have "local_identity w = (VK, vk)" using users_okD(1)[OF assms h(1)] .
    ultimately show "(vk, p) \<in> set ?ps" by (auto simp: m pref_platform intro!: image_eqI[of _ _ p] exI[of _ w])
  qed
  have "functional ?ps" unfolding functional_def e by auto
  then show ?thesis by (simp add: put_all_functional e del: set_map)
qed

lemma linked_entries_mem:
  assumes ok: "users_ok r"
  defines "vks \<equiv> put_all (map (\<lambda>p. (pp_user_id p, p))
      (filter (\<lambda>p. pp_platform p = VK) (list_pass_preferences r))) []"
  shows "(k, q) \<in> set (concat (map (linked_entries vks) (preference_owners (list_pass_preferences r))))
    \<longleftrightarrow> (\<exists>t w. linked_pair r t w \<and> (k = local_identity t \<or> k = local_identity w)
          \<and> q = latest_of (pref t) (pref w))"
proof
  have wf: "wf_dict (preference_owners (list_pass_preferences r))" using preference_owners_get by blast
  {
    assume "(k, q) \<in> set (concat (map (linked_entries vks) (preference_owners (list_pass_preferences r))))"
    then obtain vk handle cs where o: "((vk, handle), cs) \<in> set (preference_owners (list_pass_preferences r))"
      and e: "(k, q) \<in> set (linked_entries vks ((vk, handle), cs))" by auto
    from o have cs: "cs = map pref (link_owners r vk handle)"
      using preference_owners_get[of "list_pass_preferences r" vk handle]
      by (simp add: dict_get_iff[OF wf, symmetric] link_owners_filter[OF ok] split: if_splits)
    from e obtain tp vp where t: "cs = [tp]" "dict_get vks vk = Some vp" "pp_telegram_handle vp = Some handle"
      and kq: "k = (pp_platform tp, pp_user_id tp) \<or> k = (pp_platform vp, pp_user_id vp)"
        "q = latest_of tp vp"
      by (cases "dict_get vks vk") (auto simp: linked_entries_def split: list.splits if_splits)
    from t cs obtain u where u: "link_owners r vk handle = [u]" "tp = pref u" by auto
    from t(2) obtain w where w: "dict_get r (VK, vk) = Some w" "vp = pref w"
      using vk_profiles_get[OF ok] by (auto simp: vks_def)
    have "linked_pair r u w" using u w t(3) by (auto simp: linked_pair_def)
    with kq u w show "\<exists>t w. linked_pair r t w \<and> (k = local_identity t \<or> k = local_identity w)
        \<and> q = latest_of (pref t) (pref w)" by auto
  next
    assume "\<exists>t w. linked_pair r t w \<and> (k = local_identity t \<or> k = local_identity w)
        \<and> q = latest_of (pref t) (pref w)"
    then obtain t w where p: "linked_pair r t w" "k = local_identity t \<or> k = local_identity w"
      "q = latest_of (pref t) (pref w)" by blast
    from p(1) obtain vk handle where o: "link_owners r vk handle = [t]"
      and w: "dict_get r (VK, vk) = Some w" "telegram_handle w = Some handle"
      by (auto simp: linked_pair_def)
    have "handle \<noteq> []" using users_okD(2)[OF ok w(1)] w(2) by auto
    then have "dict_get (preference_owners (list_pass_preferences r)) (vk, handle) = Some [pref t]"
      using preference_owners_get[of "list_pass_preferences r" vk handle]
      by (simp add: link_owners_filter[OF ok] o)
    then have "((vk, handle), [pref t]) \<in> set (preference_owners (list_pass_preferences r))"
      by (rule dict_get_in)
    moreover have "dict_get vks vk = Some (pref w)" using vk_profiles_get[OF ok] w(1) by (auto simp: vks_def)
    then have "(k, q) \<in> set (linked_entries vks ((vk, handle), [pref t]))"
      using p(2,3) w(2) by (auto simp: linked_entries_def)
    ultimately show "(k, q) \<in> set (concat (map (linked_entries vks) (preference_owners (list_pass_preferences r))))"
      by fastforce
  }
qed

lemma linked_current:
  assumes ok: "users_ok r" and u: "dict_get r k = Some u"
  defines "vks \<equiv> put_all (map (\<lambda>p. (pp_user_id p, p))
      (filter (\<lambda>p. pp_platform p = VK) (list_pass_preferences r))) []"
  defines "es \<equiv> concat (map (linked_entries vks) (preference_owners (list_pass_preferences r)))"
  shows "dict_get (put_all es []) k = (if find_linked r u = None then None else Some (pref (current_profile r u)))"
proof -
  note mem = linked_entries_mem[OF ok, folded vks_def, folded es_def]
  have k: "local_identity u = k" using users_okD(1)[OF ok u] .
  have val: "find_linked r v \<noteq> None \<and> q = pref (current_profile r v)"
    if "(i, q) \<in> set es" "dict_get r i = Some v" for i q v
  proof -
    from that(1) obtain t w where p: "linked_pair r t w" "i = local_identity t \<or> i = local_identity w"
      "q = latest_of (pref t) (pref w)" by (auto simp: mem)
    note d = linked_pairD[OF ok p(1)]
    from p(2) that(2) d(1,2) have "v = t \<or> v = w" by auto
    with d(3,4) latest_of_pair[OF ok p(1)] p(3) show ?thesis by auto
  qed
  have stored: "\<exists>v. dict_get r i = Some v" if "(i, q) \<in> set es" for i q
    using that linked_pairD(1,2)[OF ok] by (auto simp: mem)
  have f: "functional es" unfolding functional_def using val stored by metis
  show ?thesis
  proof (cases "find_linked r u")
    case None
    have "dict_get (put_all es []) k \<noteq> Some q" for q
      using val[of k q u] u None by (auto simp: put_all_functional[OF f])
    with None show ?thesis by (cases "dict_get (put_all es []) k") auto
  next
    case (Some v)
    with linked_pair_of_find[OF ok, of u v] u k have "linked_pair r u v \<or> linked_pair r v u" by simp
    then have "(k, pref (current_profile r u)) \<in> set es"
      using latest_of_pair[OF ok] k unfolding mem by metis
    with Some show ?thesis by (simp add: put_all_functional[OF f])
  qed
qed

text \<open>
  C39. The pass answers computed for a whole game agree with the profile links: the answer stored for
  an active participant is that of the most recently updated profile of the same person.
\<close>

theorem pass_answers_follow_links:
  assumes ok: "users_ok r"
    and inj: "\<And>p i p' i'. pkey p i event_id = pkey p' i' event_id \<Longrightarrow> p = p' \<and> i = i'"
    and u: "users_get p i r = Some u" and active: "pkey p i event_id \<in> active_keys"
  shows "dict_get (event_pass_preferences pkey (list_pass_preferences r) event_id active_keys) (pkey p i event_id)
    = Some (us_needs_pass (base (current_profile r u)))"
proof -
  let ?prefs = "list_pass_preferences r"
  define vks where "vks = put_all (map (\<lambda>p. (pp_user_id p, p)) (filter (\<lambda>p. pp_platform p = VK) ?prefs)) []"
  define linked where "linked = put_all (concat (map (linked_entries vks) (preference_owners ?prefs))) []"
  define answer where "answer p = (pkey (pp_platform p) (pp_user_id p) event_id,
    pp_needs_pass (case dict_get linked (pp_platform p, pp_user_id p) of Some c \<Rightarrow> c | None \<Rightarrow> p))" for p
  let ?es = "map answer (filter (\<lambda>p. pkey (pp_platform p) (pp_user_id p) event_id \<in> active_keys) ?prefs)"
  have g: "dict_get r (p, i) = Some u" using u by (simp add: users_get_def)
  have ans: "snd (answer (pref v)) = us_needs_pass (base (current_profile r v))"
    if "dict_get r (local_identity v) = Some v" for v
    using linked_current[OF ok that]
    by (simp add: answer_def linked_def vks_def current_profile_def split: option.splits)
  have key: "fst (answer (pref v)) = pkey (fst (local_identity v)) (snd (local_identity v)) event_id" for v
    by (simp add: answer_def pref_platform)
  have stored: "\<exists>v. q = pref v \<and> dict_get r (local_identity v) = Some v" if "q \<in> set ?prefs" for q
    using that by (auto simp: list_pass_preferences_pref[OF ok] dict_values_users[OF ok])
  have one: "v = v'" if "dict_get r (local_identity v) = Some v" "dict_get r (local_identity v') = Some v'"
    "fst (answer (pref v)) = fst (answer (pref v'))" for v v'
  proof -
    from inj[OF that(3)[unfolded key]] have "local_identity v = local_identity v'"
      by (intro prod_eqI) blast+
    with that(1,2) show "v = v'" by (metis option.inject)
  qed
  have f: "functional ?es"
    unfolding functional_def
  proof (intro allI impI)
    fix k v w assume "(k, v) \<in> set ?es" "(k, w) \<in> set ?es"
    then obtain a b where "a \<in> set ?prefs" "b \<in> set ?prefs" "(k, v) = answer a" "(k, w) = answer b" by auto
    with stored obtain a' b' where *: "(k, v) = answer (pref a')" "(k, w) = answer (pref b')"
      "dict_get r (local_identity a') = Some a'" "dict_get r (local_identity b') = Some b'" by metis
    then have "a' = b'" using one by (metis fst_conv)
    with * show "v = w" by (metis prod.inject)
  qed
  have i: "local_identity u = (p, i)" using users_okD(1)[OF ok g] .
  then have "pref u \<in> set ?prefs"
    using g by (auto simp: list_pass_preferences_pref[OF ok] dict_values_users[OF ok])
  with i have "(pkey p i event_id, us_needs_pass (base (current_profile r u))) \<in> set ?es"
    using active ans[of u] key[of u] g
    by (auto simp: pref_platform prod_eq_iff intro!: image_eqI[of _ _ "pref u"])
  then have "dict_get (put_all ?es []) (pkey p i event_id) = Some (us_needs_pass (base (current_profile r u)))"
    by (simp add: put_all_functional[OF f])
  then show ?thesis
    unfolding event_pass_preferences_def Let_def vks_def[symmetric] linked_def[symmetric]
      answer_def[symmetric] .
qed

definition sample_pkey :: pkey where
  "sample_pkey p i event_id = platform_value p @ [58] @ show_int i @ [58] @ event_id"

lemma sample_pkey_inj:
  assumes "sample_pkey p i event_id = sample_pkey p' i' event_id"
  shows "p = p' \<and> i = i'"
proof -
  have "p = p'"
    using assms by (cases p; cases p') (simp_all add: sample_pkey_def platform_value_def)
  with assms show ?thesis using show_int_inj by (auto simp: sample_pkey_def)
qed

theorem pass_answers_follow_links_witness:
  "dict_get (event_pass_preferences sample_pkey (list_pass_preferences sample_users) (asc ''game-0001'')
      {sample_pkey VK 9 (asc ''game-0001'')}) (sample_pkey VK 9 (asc ''game-0001'')) = Some None"
proof -
  have g: "users_get VK 9 sample_users = Some (VkUser (new_user_base 3) 9 (Some (asc ''@ivan'')))"
    by (simp add: users_get_def sample_users_def dict_get_def)
  have n: "us_needs_pass (base (current_profile sample_users (VkUser (new_user_base 3) 9 (Some (asc ''@ivan''))))) = None"
    by (simp add: current_profile_def sample_users_def link_owners_def new_user_base_def)
  show ?thesis
    using pass_answers_follow_links[where pkey = sample_pkey and event_id = "asc ''game-0001''"
        and active_keys = "{sample_pkey VK 9 (asc ''game-0001'')}", OF sample_users_ok sample_pkey_inj g] n
    by simp
qed

text \<open>
  A higher role includes the rights of every lower one: the check for a required role passes
  exactly when the level of the effective role is at least the required level.
\<close>

theorem roles_are_cumulative:
  "has_privileged_role required b = (\<exists>role. effective_privileged_role b = Some role \<and> role_level required \<le> role_level role)
   \<and> (has_privileged_role ADMIN b = (effective_privileged_role b = Some ADMIN))
   \<and> (has_privileged_role GAMEMASTER b = (effective_privileged_role b \<noteq> None))"
proof -
  have "role_level role \<ge> 4 \<longleftrightarrow> role = ADMIN" "role_level role \<ge> 1" for role
    by (cases role; simp)+
  then show ?thesis
    by (auto simp: has_privileged_role_def role_includes_def split: option.splits)
qed

end
