(* ===== verification/Commands.thy ===== *)
theory Commands
  imports Model
begin

text \<open>
  Ordered commands (\<open>domain/models.py\<close>): the payloads with their validators, the shape check of a
  command and the FIFO group it is queued in; the in-memory publisher of \<open>adapters/memory.py\<close>.
\<close>

section \<open>Payloads\<close>

record enlist_payload =
  en_answer_id :: "ustring option"
  en_display_name :: ustring
  en_nickname :: "ustring option"
  en_wish_play :: ustring
  en_larp_experience :: "bool option"
  en_crossplay :: "bool option"
  en_vk_profile :: ustring
  en_telegram_profile :: "ustring option"
  en_same_day_warning_shown :: bool

datatype statistics_action = StatisticsGame | StatisticsLink

datatype (discs_sels) payload =
  EnlistPayload enlist_payload
| AnswerPayload ustring
| QuestionPayload registration_question
| CoPlayerWishPayload ustring
| CharacterWishPayload ustring "ustring option"
| ConfirmationDeadlinePayload time
| NotificationPayload ustring
| EventDetailsPayload ustring date
| PlayerAmountPayload nat
| ProfileSyncPayload "ustring list"
| DailyPassRefreshPayload date
| StatisticsPayload statistics_action "ustring option"
| EmptyPayload

text \<open>A text field: the bounds hold of the raw value, then it is stripped and must not be empty.\<close>

definition validate_text :: "nat \<Rightarrow> ustring \<Rightarrow> ustring option" where
  "validate_text limit value =
     (if \<not> length_between 1 limit value \<or> strip value = [] then None else Some (strip value))"

definition normalize_names :: "ustring list \<Rightarrow> ustring list option" where
  "normalize_names values =
     (let normalized = dedup (filter (\<lambda>name. name \<noteq> []) (map strip values))
      in if \<not> length_between 1 2 values \<or> normalized = [] then None else Some normalized)"

fun payload_validate :: "payload \<Rightarrow> payload option" where
  "payload_validate (EnlistPayload p) =
     (if \<not> length_between 2 300 (en_display_name p) \<or> \<not> length_between 1 2000 (en_wish_play p) then None
      else map_option (\<lambda>n. EnlistPayload (p\<lparr>en_nickname := n\<rparr>))
             (optionally normalize_nickname (en_nickname p)))"
| "payload_validate (AnswerPayload a) = (if valid_option_id a then Some (AnswerPayload a) else None)"
| "payload_validate (QuestionPayload q) = map_option QuestionPayload (question_validate q)"
| "payload_validate (CoPlayerWishPayload w) = map_option CoPlayerWishPayload (validate_text 2000 w)"
| "payload_validate (CharacterWishPayload w r) =
     map_option (\<lambda>v. CharacterWishPayload v r) (validate_text 5000 w)"
| "payload_validate (ConfirmationDeadlinePayload t) = Some (ConfirmationDeadlinePayload t)"
| "payload_validate (NotificationPayload t) = map_option NotificationPayload (validate_text 4000 t)"
| "payload_validate (EventDetailsPayload n d) =
     map_option (\<lambda>v. EventDetailsPayload v d) (validate_text 200 n)"
| "payload_validate (PlayerAmountPayload n) =
     (if valid_player_amount n then Some (PlayerAmountPayload n) else None)"
| "payload_validate (ProfileSyncPayload names) = map_option ProfileSyncPayload (normalize_names names)"
| "payload_validate (DailyPassRefreshPayload d) = Some (DailyPassRefreshPayload d)"
| "payload_validate (StatisticsPayload action game) =
     (if action = StatisticsGame \<and> (game = None \<or> game = Some []) then None
      else Some (StatisticsPayload action game))"
| "payload_validate EmptyPayload = Some EmptyPayload"

lemma validate_text_fix: "validate_text n v = Some w \<Longrightarrow> validate_text n w = Some w"
proof -
  assume a: "validate_text n v = Some w"
  then have w: "w = strip v" "strip v \<noteq> []" "length v \<le> n"
    by (auto simp: validate_text_def length_between_def split: if_splits)
  have "length (strip v) \<le> length v" by (rule length_strip_by_le)
  with w have "length w \<le> n" "1 \<le> length w" by (auto simp: Suc_le_eq)
  with w show ?thesis by (simp add: validate_text_def length_between_def)
qed

section \<open>Commands\<close>

record reply_context =
  rc_chat_id :: "int option"
  rc_peer_id :: "int option"
  rc_text_success :: ustring
  rc_text_failure :: ustring
  rc_buttons :: "button list"

definition empty_reply :: reply_context where
  "empty_reply = \<lparr>rc_chat_id = None, rc_peer_id = None, rc_text_success = [], rc_text_failure = [],
                   rc_buttons = []\<rparr>"

record command =
  cm_operation_id :: ustring
  cm_event_id :: ustring
  cm_operation :: operation
  cm_platform :: platform
  cm_platform_user_id :: int
  cm_participant_key :: "ustring option"
  cm_identity_group :: "ustring option"
  cm_payload :: payload
  cm_reply_context :: reply_context
  cm_created_at :: time

definition identity_text :: "platform \<Rightarrow> int \<Rightarrow> ustring" where
  "identity_text p i = platform_value p @ [58] @ show_int i"

definition profile_group :: "platform \<Rightarrow> int \<Rightarrow> ustring" where
  "profile_group p i = asc ''profile:'' @ identity_text p i"

definition daily_passes_group :: "date \<Rightarrow> ustring" where
  "daily_passes_group d = asc ''daily-passes:'' @ iso_date d"

definition queue_group_id :: "command \<Rightarrow> ustring" where
  "queue_group_id c =
     (if cm_operation c = CONFIRM then
        asc ''confirmation:'' @
          (case cm_identity_group c of
             Some (x # xs) \<Rightarrow> x # xs
           | _ \<Rightarrow> identity_text (cm_platform c) (cm_platform_user_id c))
      else if cm_operation c = SCHEDULED_CLOSE_STATISTICS then asc ''statistics''
      else cm_event_id c)"

definition participant_ops :: "operation list" where
  "participant_ops =
     [ENLIST, UPDATE_PROFILE, CONFIRM, UPDATE_CHARACTER_WISH, UPDATE_CO_PLAYER_WISH, UPDATE_ANSWER,
      CANCEL, REMOVE_PARTICIPANT, PROMOTE_RESERVE_PARTICIPANT]"

definition empty_payload_operations :: "operation list" where
  "empty_payload_operations =
     [REFRESH_EVENT_TABLES, UPDATE_PROFILE, CANCEL, REMOVE_PARTICIPANT, PROMOTE_RESERVE_PARTICIPANT,
      OPEN_REGISTRATION, SEND_CONFIRMATION_REMINDER, CLOSE_EVENT, REMOVE_WAITING_PARTICIPANTS,
      ARCHIVE_EVENT, SCHEDULED_CLOSE_EVENT, SCHEDULED_CLOSE_STATISTICS, SCHEDULED_CLOSE_FINALIZE,
      UNARCHIVE_EVENT, DELETE_EVENT]"

text \<open>
  Which payload each operation demands, and the group of the operations that have a group of their own.
\<close>

definition payload_fits :: "operation \<Rightarrow> payload \<Rightarrow> bool" where
  "payload_fits operation p =
     ((operation = UPDATE_ANSWER \<longrightarrow> is_AnswerPayload p)
      \<and> (operation = UPDATE_QUESTION \<longrightarrow> is_QuestionPayload p)
      \<and> (operation = ENLIST \<longrightarrow> is_EnlistPayload p)
      \<and> (operation \<in> {CONFIRM, UPDATE_CHARACTER_WISH} \<longrightarrow> is_CharacterWishPayload p)
      \<and> (operation = UPDATE_CO_PLAYER_WISH \<longrightarrow> is_CoPlayerWishPayload p)
      \<and> (operation \<in> {OPEN_CONFIRMATION, SCHEDULED_OPEN_CONFIRMATION} \<longrightarrow>
           is_ConfirmationDeadlinePayload p)
      \<and> (operation \<in> {SEND_CONFIRMED_NOTIFICATION, SEND_ALL_PLAYERS_NOTIFICATION} \<longrightarrow>
           is_NotificationPayload p)
      \<and> (operation = UPDATE_PLAYER_AMOUNT \<longrightarrow> is_PlayerAmountPayload p)
      \<and> (operation = UPDATE_EVENT_DETAILS \<longrightarrow> is_EventDetailsPayload p)
      \<and> (operation \<in> set empty_payload_operations \<longrightarrow> p = EmptyPayload))"

definition validate_shape :: "command \<Rightarrow> bool" where
  "validate_shape c =
     ((cm_operation c = STATISTICS \<longrightarrow>
         is_StatisticsPayload (cm_payload c) \<and> cm_event_id c = asc ''statistics'')
      \<and> (cm_operation c = SYNC_PROFILE \<longrightarrow>
           is_ProfileSyncPayload (cm_payload c)
           \<and> cm_event_id c = profile_group (cm_platform c) (cm_platform_user_id c))
      \<and> (cm_operation c = REFRESH_DAILY_PASS_TABLE \<longrightarrow>
           (case cm_payload c of
              DailyPassRefreshPayload d \<Rightarrow> cm_event_id c = daily_passes_group d \<and> cm_platform c = SYSTEM
            | _ \<Rightarrow> False))
      \<and> (cm_operation c \<in> set participant_ops \<longrightarrow>
           cm_participant_key c \<noteq> None \<and> cm_participant_key c \<noteq> Some [])
      \<and> payload_fits (cm_operation c) (cm_payload c))"

text \<open>Constructing a command: the field bounds, the payload's own validation, then the shape.\<close>

definition command_validate :: "command \<Rightarrow> command option" where
  "command_validate c =
     (if \<not> length_between 32 36 (cm_operation_id c) \<or> cm_platform_user_id c < 0
         \<or> \<not> when_set (length_between 1 160) (cm_identity_group c) then None
      else
        (case payload_validate (cm_payload c) of
           None \<Rightarrow> None
         | Some p \<Rightarrow>
             if validate_shape (c\<lparr>cm_payload := p\<rparr>) then Some (c\<lparr>cm_payload := p\<rparr>) else None))"

section \<open>The publisher\<close>

text \<open>\<open>MemoryCommandPublisher\<close>: commands in order of arrival, one per operation id.\<close>

type_synonym publisher = "command list"

definition publish :: "command \<Rightarrow> publisher \<Rightarrow> publisher" where
  "publish c commands =
     (if list_all (\<lambda>existing. cm_operation_id existing \<noteq> cm_operation_id c) commands
      then commands @ [c] else commands)"

definition publisher_ok :: "publisher \<Rightarrow> bool" where
  "publisher_ok commands \<longleftrightarrow> distinct (map cm_operation_id commands)"

lemma publisher_ok_publish: "publisher_ok commands \<Longrightarrow> publisher_ok (publish c commands)"
  by (auto simp: publisher_ok_def publish_def list_all_iff)

lemma publish_again: "publish c (publish c commands) = publish c commands"
  by (auto simp: publish_def)

lemma publish_keeps_order: "\<exists>rest. publish c commands = commands @ rest"
  by (simp add: publish_def)

end
