(* ===== verification/Support.thy ===== *)
theory Support
  imports Model
begin

text \<open>
  \<open>application/service_support.py\<close>, \<open>table_links.py\<close> and \<open>navigation.py\<close>: the time period in a
  game's name and the conflict of two games, the entries of the retry snapshots, the paths and
  tokens a game gets when it is created, and the links and buttons of the messages.
\<close>

section \<open>Time periods in game names\<close>

text \<open>
  \<open>_GAME_TIME_PERIOD_RE\<close>: \<open>HH:MM-HH:MM\<close> that no decimal digit precedes or follows.  The first
  character of an hour below 20 is ASCII, its second any decimal digit; from 20 on both are ASCII.
\<close>

definition hour_at :: "nat \<Rightarrow> nat \<Rightarrow> nat option" where
  "hour_at a b =
     (if a = 48 \<or> a = 49 then two_digits a b
      else if a = 50 \<and> 48 \<le> b \<and> b \<le> 51 then two_digits a b else None)"

definition minute_at :: "nat \<Rightarrow> nat \<Rightarrow> nat option" where
  "minute_at a b = (if 48 \<le> a \<and> a \<le> 53 then two_digits a b else None)"

fun time_period_at :: "ustring \<Rightarrow> (nat \<times> nat) option" where
  "time_period_at (h1 # h2 # c1 # m1 # m2 # d # h3 # h4 # c2 # m3 # m4 # rest) =
     (if c1 \<noteq> 58 \<or> d \<noteq> 45 \<or> c2 \<noteq> 58 \<or> rest \<noteq> [] \<and> is_decimal (hd rest) then None
      else
        (case (hour_at h1 h2, minute_at m1 m2, hour_at h3 h4, minute_at m3 m4) of
           (Some a, Some b, Some x, Some y) \<Rightarrow> Some (a * 60 + b, x * 60 + y)
         | _ \<Rightarrow> None))"
| "time_period_at _ = None"

text \<open>\<open>re.search\<close>: the first position with a match; the flag says that a digit precedes.\<close>

fun time_period_search :: "bool \<Rightarrow> ustring \<Rightarrow> (nat \<times> nat) option" where
  "time_period_search after_digit [] = None"
| "time_period_search after_digit (c # s) =
     (case if after_digit then None else time_period_at (c # s) of
        Some period \<Rightarrow> Some period
      | None \<Rightarrow> time_period_search (is_decimal c) s)"

definition game_time_period :: "ustring \<Rightarrow> (nat \<times> nat) option" where
  "game_time_period event_name =
     (case time_period_search False event_name of
        None \<Rightarrow> None
      | Some (begins, ends) \<Rightarrow> if ends \<le> begins then None else Some (begins, ends))"

definition confirmation_times_conflict :: "event \<Rightarrow> event \<Rightarrow> bool" where
  "confirmation_times_conflict first second =
     (case (game_time_period (ev_name first), game_time_period (ev_name second)) of
        (Some (first_start, first_end), Some (second_start, second_end)) \<Rightarrow>
          max first_start second_start < min first_end second_end
      | _ \<Rightarrow> True)"

section \<open>Entries of the retry snapshots\<close>

definition SIFT_PROMOTED_PREFIX :: ustring where
  "SIFT_PROMOTED_PREFIX = asc ''promoted:''"

definition SIFT_DEMOTED_PREFIX :: ustring where
  "SIFT_DEMOTED_PREFIX = asc ''demoted:''"

definition sift_snapshot_entry :: "ustring \<Rightarrow> ustring \<Rightarrow> ustring" where
  "sift_snapshot_entry prefix participant_key = prefix @ participant_key"

definition parse_sift_snapshot_entry :: "ustring \<Rightarrow> (ustring \<times> ustring) option" where
  "parse_sift_snapshot_entry v =
     (if starts_with SIFT_PROMOTED_PREFIX v then
        Some (SIFT_PROMOTED_PREFIX, remove_prefix SIFT_PROMOTED_PREFIX v)
      else if starts_with SIFT_DEMOTED_PREFIX v then
        Some (SIFT_DEMOTED_PREFIX, remove_prefix SIFT_DEMOTED_PREFIX v)
      else None)"

definition CANCELLED_CONFIRMED_PREFIX :: ustring where
  "CANCELLED_CONFIRMED_PREFIX = asc ''cancelled-confirmed:''"

definition CANCELLED_WAITING_PREFIX :: ustring where
  "CANCELLED_WAITING_PREFIX = asc ''cancelled-waiting:''"

definition CANCELLATION_MASTER_PREFIX :: ustring where
  "CANCELLATION_MASTER_PREFIX = asc ''master:''"

definition cancellation_snapshot_entry :: "registration \<Rightarrow> ustring" where
  "cancellation_snapshot_entry r =
     (if rg_attendance_status r = CONFIRMED then CANCELLED_CONFIRMED_PREFIX
      else CANCELLED_WAITING_PREFIX) @ rg_participant_key r"

definition parse_cancellation_snapshot_entry :: "ustring \<Rightarrow> (bool \<times> ustring) option" where
  "parse_cancellation_snapshot_entry v =
     (if starts_with CANCELLED_CONFIRMED_PREFIX v then
        Some (True, remove_prefix CANCELLED_CONFIRMED_PREFIX v)
      else if starts_with CANCELLED_WAITING_PREFIX v then
        Some (False, remove_prefix CANCELLED_WAITING_PREFIX v)
      else None)"

section \<open>Slugs, table paths and signup tokens\<close>

text \<open>\<open>re.sub('[p]+', c, s)\<close>: every maximal run of characters with \<open>p\<close> becomes one \<open>c\<close>.\<close>

fun squeeze :: "(nat \<Rightarrow> bool) \<Rightarrow> nat \<Rightarrow> ustring \<Rightarrow> ustring" where
  "squeeze p r [] = []"
| "squeeze p r [c] = (if p c then [r] else [c])"
| "squeeze p r (c # d # s) =
     (if p c then (if p d then squeeze p r (d # s) else r # squeeze p r (d # s))
      else c # squeeze p r (d # s))"

definition nonempty_or :: "'a list \<Rightarrow> 'a list \<Rightarrow> 'a list" where
  "nonempty_or s t = (if s = [] then t else s)"

definition is_slug_letter :: "nat \<Rightarrow> bool" where
  "is_slug_letter c \<longleftrightarrow> ascii_lower c \<or> is_ascii_digit c"

definition event_slug :: "ustring \<Rightarrow> ustring" where
  "event_slug n =
     (let transliterated = map (\<lambda>c. if c = 1105 then 1077 else c) (casefold n);
          slug = strip_by (\<lambda>c. c = 45) (squeeze (\<lambda>c. \<not> is_slug_letter c) 45 transliterated)
      in take 40 (nonempty_or slug (asc ''game'')))"

definition path_char_forbidden :: "nat \<Rightarrow> bool" where
  "path_char_forbidden c \<longleftrightarrow> c \<in> {92, 47, 58, 42, 63, 34, 60, 62, 124} \<or> c < 32"

definition blank_or_stop :: "nat \<Rightarrow> bool" where
  "blank_or_stop c \<longleftrightarrow> c = 32 \<or> c = 46"

definition safe_table_name :: "ustring \<Rightarrow> ustring" where
  "safe_table_name n =
     (let replaced = squeeze is_space 32 (squeeze path_char_forbidden 45 (strip n))
      in nonempty_or (rstrip_by blank_or_stop (take 120 (strip_by blank_or_stop replaced))) (event_slug n))"

definition event_table_paths :: "ustring \<Rightarrow> ustring \<Rightarrow> ustring \<times> ustring" where
  "event_table_paths event_id n =
     (let directory = asc ''disk:/larp-bot/events/'' @ event_id
      in (directory @ asc ''/master_table_'' @ safe_table_name n @ asc ''.xlsx'',
          directory @ asc ''/public_table_'' @ safe_table_name n @ asc ''.xlsx''))"

definition daily_pass_table_path :: "date \<Rightarrow> ustring" where
  "daily_pass_table_path game_date =
     asc ''disk:/larp-bot/passes/daily-'' @ iso_date game_date @ asc ''.xlsx''"

definition cyrillic_transliteration :: "(nat \<times> ustring) list" where
  "cyrillic_transliteration = [
    (1072, asc ''a''), (1073, asc ''b''), (1074, asc ''v''), (1075, asc ''g''), (1076, asc
    ''d''), (1077, asc ''e''), (1105, asc ''yo''), (1078, asc ''zh''), (1079, asc ''z''),
    (1080, asc ''i''), (1081, asc ''y''), (1082, asc ''k''), (1083, asc ''l''), (1084, asc
    ''m''), (1085, asc ''n''), (1086, asc ''o''), (1087, asc ''p''), (1088, asc ''r''),
    (1089, asc ''s''), (1090, asc ''t''), (1091, asc ''u''), (1092, asc ''f''), (1093, asc
    ''kh''), (1094, asc ''ts''), (1095, asc ''ch''), (1096, asc ''sh''), (1097, asc
    ''shch''), (1098, []), (1099, asc ''y''), (1100, []), (1101, asc ''e''), (1102, asc
    ''yu''), (1103, asc ''ya'')]"

text \<open>\<open>s.capitalize()\<close> of a Latin replacement, and the characters one letter of a name becomes.\<close>

fun capitalized :: "ustring \<Rightarrow> ustring" where
  "capitalized [] = []"
| "capitalized (c # s) = (c - 32) # s"

definition token_characters :: "nat \<Rightarrow> ustring" where
  "token_characters c =
     (case (case casefold_char c of [x] \<Rightarrow> map_of cyrillic_transliteration x | _ \<Rightarrow> None) of
        Some replacement \<Rightarrow> if is_upper c then capitalized replacement else replacement
      | None \<Rightarrow> if ascii_alnum c then [c] else [95])"

fun token_date :: "date \<Rightarrow> ustring" where
  "token_date (y, m, d) = show2 d @ [95] @ show2 m @ [95] @ show_nat y"

text \<open>
  Without a given suffix three characters are drawn: \<open>drawn i\<close> is the answer of the \<open>i\<close>-th
  \<open>secrets.choice\<close>.
\<close>

definition game_signup_token ::
  "(nat \<Rightarrow> nat) \<Rightarrow> ustring \<Rightarrow> date \<Rightarrow> ustring option \<Rightarrow> exn + ustring" where
  "game_signup_token drawn n game_date random_suffix =
     (let transliterated = concat (map token_characters (strip n));
          underscore = (\<lambda>c. c = 95);
          name_part = nonempty_or (strip_by underscore (squeeze underscore 95 transliterated)) (asc ''game'');
          suffix = (case random_suffix of Some s \<Rightarrow> s | None \<Rightarrow> map drawn [0..<3])
      in if length suffix \<noteq> 3 \<or> list_ex (\<lambda>c. \<not> ascii_alnum c) suffix then Inl ValueError
         else
           (let tail = [95] @ token_date game_date @ [95] @ suffix
            in Inr (nonempty_or (rstrip_by underscore (take (64 - length tail) name_part)) (asc ''game'')
                      @ tail)))"

section \<open>Table links\<close>

record table_provider_links =
  tl_google :: "ustring option"
  tl_yandex :: "ustring option"

definition table_links_of :: "ustring option \<Rightarrow> ustring option \<Rightarrow> table_provider_links" where
  "table_links_of google_url stored_url =
     \<lparr>tl_google = google_url, tl_yandex = (if stored_url \<noteq> google_url then stored_url else None)\<rparr>"

definition yandex_label :: ustring where
  "yandex_label = [1071, 1085, 1076, 1077, 1082, 1089, 32, 1044, 1080, 1089, 1082, 58, 32]"

definition for_player :: "table_provider_links \<Rightarrow> exn + ustring" where
  "for_player links =
     (case tl_google links of
        Some google \<Rightarrow>
          Inr (join_with 10
            ((asc ''Google Drive: '' @ google)
             # (case tl_yandex links of None \<Rightarrow> [] | Some yandex \<Rightarrow> [yandex_label @ yandex])))
      | None \<Rightarrow> (case tl_yandex links of Some yandex \<Rightarrow> Inr yandex | None \<Rightarrow> Inl RuntimeError))"

definition for_admin :: "table_provider_links \<Rightarrow> exn + ustring" where
  "for_admin links = for_player links"

definition master_table_links :: "event \<Rightarrow> table_provider_links" where
  "master_table_links e = table_links_of (ev_master_table_google_url e) (Some (ev_public_registration_url e))"

definition public_table_links :: "event \<Rightarrow> table_provider_links" where
  "public_table_links e = table_links_of (ev_public_table_google_url e) (ev_public_table_public_url e)"

definition pass_table_links :: "event \<Rightarrow> table_provider_links" where
  "pass_table_links e = table_links_of (ev_pass_table_google_url e) (ev_pass_table_public_url e)"

text \<open>An absent or empty link is falsy.\<close>

definition truthy_link :: "ustring option \<Rightarrow> bool" where
  "truthy_link v = (case v of None \<Rightarrow> False | Some s \<Rightarrow> s \<noteq> [])"

definition google_event_tables_ready :: "event \<Rightarrow> bool" where
  "google_event_tables_ready e \<longleftrightarrow>
     list_all truthy_link
       [ev_master_table_google_url e, ev_public_table_google_url e, ev_pass_table_google_url e]"

section \<open>Buttons\<close>

definition MAIN_MENU :: ustring where
  "MAIN_MENU = [1043, 1083, 1072, 1074, 1085, 1086, 1077, 32, 1084, 1077, 1085, 1102]"

definition MAIN_MENU_LABEL :: ustring where
  "MAIN_MENU_LABEL =
     [1042, 32, 1075, 1083, 1072, 1074, 1085, 1086, 1077, 32, 1084, 1077, 1085, 1102]"

definition ADMIN_MENU :: ustring where
  "ADMIN_MENU =
     [1040, 1076, 1084, 1080, 1085, 1080, 1089, 1090, 1088, 1080, 1088, 1086, 1074, 1072,
     1085, 1080, 1077]"

definition CONFIRM_PARTICIPATION :: ustring where
  "CONFIRM_PARTICIPATION =
     [9989, 32, 1055, 1086, 1076, 1090, 1074, 1077, 1088, 1076, 1080, 1090, 1100, 32, 1091,
     1095, 1072, 1089, 1090, 1080, 1077]"

definition main_menu_button :: button where
  "main_menu_button = \<lparr>bt_label = MAIN_MENU_LABEL, bt_value = MAIN_MENU\<rparr>"

definition admin_menu_button :: button where
  "admin_menu_button = \<lparr>bt_label = ADMIN_MENU, bt_value = ADMIN_MENU\<rparr>"

definition confirmation_button :: "ustring \<Rightarrow> button" where
  "confirmation_button event_id =
     \<lparr>bt_label = CONFIRM_PARTICIPATION, bt_value = asc ''select:confirm:'' @ event_id\<rparr>"

end
