(* ===== verification/World.thy ===== *)
theory World
  imports Registrations Users Commands Support
begin

text \<open>
  The state the application services share and what they ask of the outside.  The repositories and
  the command queue are the state; a call of a port whose other side is outside the program (the
  table stores, the messengers, the list of administrators) is logged with its arguments, and what
  comes back, an answer or a failure, is a function of the calls so far which the theorems do not
  restrict.  \<open>asyncio.gather\<close> runs in the order of its arguments (the in-memory repositories never
  suspend).
\<close>

section \<open>Messages\<close>

text \<open>
  A text the program sends: by name with the values it shows, or composed (\<open>Composed\<close>, the text
  itself).
\<close>

datatype message =
  Composed ustring | Failure exn
| GameAlreadyGone | OpeningCancelledOrDone | OpeningRescheduled | ConfirmationSetBySchedule
| AlreadyUnarchived | Unarchived | DeletedWithTables | AlreadyArchivedNow | ConfirmationStatusSet
| ReminderSent | ConfirmedNotified | AllPlayersNotified | DetailsChanged ustring | QuestionUpdated
| PlayerAmountChanged nat | RegistrationStatusSet | ClosedStatusSet | ArchivedWithTablesKept
| Resorted nat nat | AlreadyPromoted | Exchanged ustring ustring | PlayerAbsent | ProfileUpdated
| PlayerRemoved | PlayerAlreadyRemoved | CharacterWishUpdated | AnswerAlreadyChosen ustring
| AnswerChanged ustring bool nat | CoPlayerWishUpdated | ParticipationCancelled
| RegistrationOpenedFor ustring | CloseAlreadyDone | ArchivedByHand | DeletedAfterStart
| ClosedAndStatisticsQueued | StatisticsAddedAndArchivingQueued | DeletedAfterClose
| ClosedForMasters ustring | ClosedAndMastersTold
| ProfileAbsentAlready | ProfileSynchronised | StatisticsLinks ustring ustring
| AlreadyInStatistics ustring | AddedToStatistics ustring nat | Silence
| ConfirmationOpenedFor ustring ustring | ConfirmationReminderFor ustring ustring
| PlaceFreed ustring ustring | PlacesAdded ustring ustring | RegistrationRemovedOf ustring
| MovedToMain ustring ustring | MovedToReserve ustring | TooLateToConfirm ustring
| Participated bool ustring ustring bool nat ustring | TablesOf ustring ustring ustring ustring
| BadVkLink ustring | BadTelegramLink ustring | BadTelegramPost ustring | BadVkPost ustring

text \<open>
  What the table stores hand back when a deferred upload is done: the game to create, the component of
  a game's tables, the day or the achievements, and who asked for it (platform, where to reply, profile).
\<close>

type_synonym requester = "(platform \<times> int \<times> int) option"

record event_draft =
  dr_event_id :: ustring
  dr_name :: ustring
  dr_game_date :: date
  dr_player_amount :: nat
  dr_question :: "registration_question option"
  dr_master_path :: ustring
  dr_public_path :: ustring
  dr_pass_path :: ustring
  dr_registration_open_at :: "time option"
  dr_confirmation_open_at :: "time option"
  dr_confirmation_deadline :: "time option"
  dr_scheduled_close_at :: "time option"
  dr_signup_token :: ustring

datatype callback =
  EventCreatedCallback event_draft "bot_identity list" "ustring option" bool requester
| EventTablesCallback ustring ustring ustring requester
| DailyPassesCallback date ustring requester
| AchievementCallback ustring ustring requester

section \<open>Calls to the outside\<close>

datatype call =
  ReadLegacyRegistrations event
| CreateEventBundle ustring ustring ustring "pass_details list" nat "registration_question option" callback
| CreatePublicWorkbook ustring "registration list" nat "registration_question option" callback
| CreatePassTable ustring "pass_details list" callback
| UpsertPassTable ustring "pass_details list" callback
| CreateAchievement ustring ustring bool callback
| DeleteEventWorkbook ustring
| ReplaceShowcase event "registration list" "(ustring, bool option) dict"
| PassTableExists ustring
| ReplacePassTable ustring "pass_details list"
| DeletePassTable ustring
| DeleteAchievement ustring
| IsAdmin platform int
| IsGamemaster platform int
| ListAdmins
| ListGamemasters
| SendMessage platform int ustring message "button list"
| HasAnyPlayer "ustring list"
| StatisticsLinkOf bool
| PrepareStatistics bool nat ustring "ustring list"
| CommitStatistics bool
| GetChatMember int int ustring
| KickMember int int ustring
| ChatSend int ustring message "button list"
| ChatEdit int int ustring message "button list"
| ChatDelete int int ustring
| AnswerCallback ustring ustring message
| EnsureInviteLink int ustring
| PromoteTitleOnly int int ustring
| SetMemberTag int int ustring ustring
| SetAdministratorTitle int int ustring ustring
| GetSecret ustring
| ResolveVkUser ustring
| ReceiveCommands nat nat
| ReleaseReceipt ustring
| DeleteReceipt ustring

text \<open>
  How a call can fail: the recipient can never be reached (\<open>UnreachableRecipient\<close>), the bot lacks a
  permission in the chat (\<open>TelegramBotPermissionError\<close>), the chat has moved to another id
  (\<open>TelegramChatMigrated\<close>), or anything else.
\<close>

datatype outcome = Answered | Unreachable | Forbidden | MovedTo int | Failed

text \<open>
  The environment: the clock readings of each use of the clock, the outcome of every call and what
  it answers, and the configuration the services are constructed with.  \<open>xe_key\<close> is
  \<open>participant_key\<close> with its secret, when there is one; \<open>xe_uuid4\<close> and \<open>xe_drawn\<close> draw fresh ids and
  characters, \<open>xe_uuid5\<close> is \<open>str(uuid5(NAMESPACE_URL, s))\<close>, \<open>xe_blake2s\<close> and \<open>xe_sha256\<close> are the
  hexadecimal digests of a text, \<open>xe_token\<close> draws \<open>token_urlsafe(8)\<close>, \<open>xe_moscow\<close> is the Moscow time of an
  instant by the time zone database and \<open>xe_instant\<close> the instant of a Moscow time.  \<open>xe_deferred\<close> is
  \<open>deferred_uploads\<close>; \<open>xe_announces\<close> tells whether the store runs the hook it is handed before an upload.
  A member of a chat is its status with the keys of its description whose value is \<open>True\<close>.
\<close>

record env =
  xe_clock :: "nat \<Rightarrow> clock"
  xe_outcome :: "call list \<Rightarrow> call \<Rightarrow> outcome"
  xe_legacy :: "call list \<Rightarrow> registration list"
  xe_workbook_url :: "call list \<Rightarrow> ustring option"
  xe_table_urls :: "call list \<Rightarrow> (ustring, ustring) dict option"
  xe_exists :: "call list \<Rightarrow> bool"
  xe_is_admin :: "call list \<Rightarrow> bool"
  xe_is_gamemaster :: "call list \<Rightarrow> bool"
  xe_listed :: "call list \<Rightarrow> bot_identity list"
  xe_yes :: "call list \<Rightarrow> bool"
  xe_link :: "call list \<Rightarrow> ustring"
  xe_member :: "call list \<Rightarrow> (ustring \<times> ustring list) option"
  xe_secret :: "call list \<Rightarrow> ustring"
  xe_vk_user :: "call list \<Rightarrow> int option"
  xe_received :: "call list \<Rightarrow> (ustring \<times> command) list"
  xe_has_chat :: bool
  xe_has_transport :: bool
  xe_resolves_vk :: bool
  xe_member_tags :: bool
  xe_chat_migrations :: bool
  xe_key :: "pkey option"
  xe_legacy_imports :: bool
  xe_mirrors_google :: bool
  xe_has_admins :: bool
  xe_uuid4 :: "nat \<Rightarrow> ustring"
  xe_uuid5 :: "ustring \<Rightarrow> ustring"
  xe_blake2s :: "ustring \<Rightarrow> ustring"
  xe_sha256 :: "ustring \<Rightarrow> ustring"
  xe_drawn :: "nat \<Rightarrow> nat \<Rightarrow> nat"
  xe_moscow :: "time \<Rightarrow> local_time"
  xe_instant :: "local_time \<Rightarrow> time"
  xe_token :: "nat \<Rightarrow> ustring"
  xe_deferred :: bool
  xe_announces :: "call list \<Rightarrow> bool"

record world =
  w_users :: "users option"
  w_events :: events
  w_regs :: regs
  w_queue :: publisher
  w_calls :: "call list"
  w_turns :: nat

type_synonym 'a service = "(world, exn, 'a) act"

definition external_outcome :: "env \<Rightarrow> call \<Rightarrow> outcome service" where
  "external_outcome X c w =
     (Inr (xe_outcome X (w_calls w) c), w\<lparr>w_calls := w_calls w @ [c]\<rparr>)"

definition external :: "env \<Rightarrow> call \<Rightarrow> (call list \<Rightarrow> 'a) \<Rightarrow> 'a service" where
  "external X c answer =
     andThen (external_outcome X c)
       (\<lambda>outcome. if outcome = Answered then reads (\<lambda>w. answer (w_calls w)) else throw ExternalFailure)"

text \<open>A repository method, with the clock of this use of it, run on its part of the state.\<close>

definition ticking :: "env \<Rightarrow> (clock \<Rightarrow> 'a service) \<Rightarrow> 'a service" where
  "ticking X m w = m (xe_clock X (w_turns w)) (w\<lparr>w_turns := Suc (w_turns w)\<rparr>)"

definition on_events :: "env \<Rightarrow> (time \<Rightarrow> (events, exn, 'a) act) \<Rightarrow> 'a service" where
  "on_events X m =
     ticking X (\<lambda>clk w. (case m (clk 0) (w_events w) of (r, ev) \<Rightarrow> (r, w\<lparr>w_events := ev\<rparr>)))"

definition on_regs :: "env \<Rightarrow> (clock \<Rightarrow> (regs, exn, 'a) act) \<Rightarrow> 'a service" where
  "on_regs X m =
     ticking X (\<lambda>clk w. (case m clk (w_regs w) of (r, rg) \<Rightarrow> (r, w\<lparr>w_regs := rg\<rparr>)))"

definition on_users :: "env \<Rightarrow> (time \<Rightarrow> (users, exn, 'a) act) \<Rightarrow> 'a service" where
  "on_users X m =
     ticking X (\<lambda>clk w. (case w_users w of
       None \<Rightarrow> (Inl AssertionError, w)
     | Some us \<Rightarrow> (case m (clk 0) us of (r, us') \<Rightarrow> (r, w\<lparr>w_users := Some us'\<rparr>))))"

definition reading :: "env \<Rightarrow> time service" where
  "reading X = ticking X (\<lambda>clk. ret (clk 0))"

definition fresh_id :: "env \<Rightarrow> ustring service" where
  "fresh_id X = ticking X (\<lambda>_. reads (\<lambda>w. xe_uuid4 X (w_turns w)))"

definition find_event :: "ustring \<Rightarrow> event option service" where
  "find_event event_id = reads (\<lambda>w. get_event event_id (w_events w))"

definition leaders_now :: "ustring \<Rightarrow> bot_identity list service" where
  "leaders_now event_id = reads (\<lambda>w. list_leaders event_id (w_events w))"

definition rows_now :: "ustring \<Rightarrow> registration list service" where
  "rows_now event_id = reads (\<lambda>w. list_for_event event_id (w_regs w))"

definition row_now :: "ustring \<Rightarrow> ustring \<Rightarrow> registration option service" where
  "row_now event_id key = reads (\<lambda>w. get_registration_row event_id key (w_regs w))"

definition identities_now :: "platform \<Rightarrow> int \<Rightarrow> bot_identity list service" where
  "identities_now p i = reads (\<lambda>w. identities_for_local_user (w_users w) p i)"

definition enqueues :: "command \<Rightarrow> unit service" where
  "enqueues c = modifies (\<lambda>w. w\<lparr>w_queue := publish c (w_queue w)\<rparr>)"

lemma external_apply:
  "external X c answer w =
     (if xe_outcome X (w_calls w) c = Answered then Inr (answer (w_calls w @ [c])) else Inl ExternalFailure,
      w\<lparr>w_calls := w_calls w @ [c]\<rparr>)"
  by (simp add: external_def external_outcome_def andThen_def)

lemma reading_apply: "reading X w = (Inr (xe_clock X (w_turns w) 0), w\<lparr>w_turns := Suc (w_turns w)\<rparr>)"
  by (simp add: reading_def ticking_def)

text \<open>Constructing a command validates it.\<close>

definition publishes :: "command \<Rightarrow> command service" where
  "publishes c =
     (case command_validate c of
        None \<Rightarrow> throw ValueError
      | Some command \<Rightarrow> andThen (enqueues command) (\<lambda>_. ret command))"

definition active_keys :: "registration list \<Rightarrow> ustring list" where
  "active_keys rows = map rg_participant_key (filter is_active rows)"

section \<open>What a service may leave unchanged\<close>

text \<open>
  The rules by which a service keeps a property of the state: a repository method needs it of its
  own part, a call only changes the log.
\<close>

definition about_store :: "(events \<Rightarrow> regs \<Rightarrow> publisher \<Rightarrow> bool) \<Rightarrow> world \<Rightarrow> bool" where
  "about_store P w \<longleftrightarrow> P (w_events w) (w_regs w) (w_queue w)"

lemma runs_apply: "runs f w = (Inr (fst (f w)), snd (f w))"
  by (simp add: runs_def split_beta)

lemma keeps_external_outcome [keeps_intros]: "keeps (about_store P) (external_outcome X c)"
  by (simp add: keeps_def external_outcome_def about_store_def)

lemma keeps_external [keeps_intros]: "keeps (about_store P) (external X c answer)"
  unfolding external_def by (intro keeps_intros)

lemma keeps_ticking [keeps_intros]:
  "(\<And>clk. keeps (about_store P) (m clk)) \<Longrightarrow> keeps (about_store P) (ticking X m)"
  unfolding keeps_def ticking_def by (simp add: about_store_def)

lemma keeps_reading [keeps_intros]: "keeps (about_store P) (reading X)"
  unfolding reading_def by (intro keeps_intros)

lemma keeps_fresh_id [keeps_intros]: "keeps (about_store P) (fresh_id X)"
  unfolding fresh_id_def by (intro keeps_intros)

lemma keeps_on_users [keeps_intros]: "keeps (about_store P) (on_users X m)"
  unfolding on_users_def
  by (intro keeps_ticking) (simp add: keeps_def about_store_def split: option.splits prod.splits)

lemma keeps_lookups [keeps_intros]:
  "keeps I (find_event event_id)" "keeps I (leaders_now event_id)" "keeps I (rows_now event_id)"
  "keeps I (row_now event_id key)" "keeps I (identities_now p i)"
  unfolding find_event_def leaders_now_def rows_now_def row_now_def identities_now_def
  by (intro keeps_intros)+

lemma keeps_let [keeps_intros]: "(\<And>x. x = v \<Longrightarrow> keeps I (m x)) \<Longrightarrow> keeps I (let x = v in m x)"
  by simp

lemma keeps_external_then:
  "(\<And>calls. keeps (about_store P) (k (answer calls))) \<Longrightarrow>
     keeps (about_store P) (andThen (external X c answer) k)"
  by (simp add: keeps_def external_def external_outcome_def andThen_def about_store_def)

lemma keeps_on_events:
  assumes "\<And>t ev rg q. P ev rg q \<Longrightarrow> P (snd (m t ev)) rg q"
  shows "keeps (about_store P) (on_events X m)"
  unfolding on_events_def
  by (intro keeps_ticking) (simp add: keeps_def about_store_def split_beta assms)

lemma keeps_on_regs:
  assumes "\<And>clk ev rg q. P ev rg q \<Longrightarrow> P ev (snd (m clk rg)) q"
  shows "keeps (about_store P) (on_regs X m)"
  unfolding on_regs_def
  by (intro keeps_ticking) (simp add: keeps_def about_store_def split_beta assms)

text \<open>
  The interface between the services and the repositories: a law of the stored data that every
  repository method and every publication keeps.  A service that only goes through them keeps it too,
  whatever it does in between and however the calls to the outside end.
\<close>

locale store_law =
  fixes P :: "events \<Rightarrow> regs \<Rightarrow> publisher \<Rightarrow> bool"
  assumes event_law: "event_step ev ev' \<Longrightarrow> P ev rg q \<Longrightarrow> P ev' rg q"
    and reg_law: "reg_step rg rg' \<Longrightarrow> P ev rg q \<Longrightarrow> P ev rg' q"
    and queue_law: "P ev rg q \<Longrightarrow> P ev rg (publish c q)"
begin

lemma keeps_events:
  "(\<And>t ev. event_step ev (snd (m t ev))) \<Longrightarrow> keeps (about_store P) (on_events X m)"
  by (rule keeps_on_events) (rule event_law)

lemma keeps_regs:
  "(\<And>clk rg. reg_step rg (snd (m clk rg))) \<Longrightarrow> keeps (about_store P) (on_regs X m)"
  by (rule keeps_on_regs) (rule reg_law)

lemma keeps_publishes: "keeps (about_store P) (publishes c)"
  unfolding publishes_def enqueues_def
  by (intro keeps_intros) (simp add: keeps_def about_store_def queue_law)

end

definition store_ok :: "events \<Rightarrow> regs \<Rightarrow> publisher \<Rightarrow> bool" where
  "store_ok ev rg q \<longleftrightarrow> events_ok ev \<and> regs_ok rg \<and> publisher_ok q"

interpretation sound_store: store_law store_ok
  by unfold_locales (auto simp: store_ok_def intro: event_step_ok reg_step_ok publisher_ok_publish)

section \<open>Services that come to an end\<close>

text \<open>
  A repository method is \<open>proper\<close> when it never runs out of fuel; a service \<open>settles\<close> when it returns or
  raises an exception of the code, the clock has not gone back, and its calls, none of which is to the
  queue of the worker, are in the log behind the earlier ones.
\<close>

definition proper :: "('w, exn, 'a) act \<Rightarrow> bool" where
  "proper m \<longleftrightarrow> (\<forall>w. fst (m w) \<noteq> Inl OutOfFuel)"

definition queue_call :: "call \<Rightarrow> bool" where
  "queue_call c \<longleftrightarrow>
     (case c of ReceiveCommands _ _ \<Rightarrow> True | ReleaseReceipt _ \<Rightarrow> True | DeleteReceipt _ \<Rightarrow> True | _ \<Rightarrow> False)"

definition logged :: "world \<Rightarrow> world \<Rightarrow> bool" where
  "logged w w' \<longleftrightarrow> w_turns w \<le> w_turns w'
     \<and> (\<exists>calls. w_calls w' = w_calls w @ calls \<and> list_all (\<lambda>c. \<not> queue_call c) calls)"

definition settles :: "'a service \<Rightarrow> bool" where
  "settles m \<longleftrightarrow> (\<forall>w. fst (m w) \<noteq> Inl OutOfFuel \<and> logged w (snd (m w)))"

named_theorems settles_intros \<open>rules for services that come to an end\<close>

lemma logged_refl [simp]: "w_calls w' = w_calls w \<Longrightarrow> w_turns w \<le> w_turns w' \<Longrightarrow> logged w w'"
  by (simp add: logged_def)

lemma logged_trans: "logged w w' \<Longrightarrow> logged w' w'' \<Longrightarrow> logged w w''"
  by (fastforce simp: logged_def)

lemma settlesD: "settles m \<Longrightarrow> m w = (r, w') \<Longrightarrow> r \<noteq> Inl OutOfFuel \<and> logged w w'"
  unfolding settles_def by (metis fst_conv snd_conv)

lemma settlesI: "(\<And>w r w'. m w = (r, w') \<Longrightarrow> r \<noteq> Inl OutOfFuel \<and> logged w w') \<Longrightarrow> settles m"
  unfolding settles_def by (metis prod.collapse)

lemma settles_logs: "settles m \<Longrightarrow> keeps (logged w) m"
  unfolding settles_def keeps_def using logged_trans by blast

lemma proper_basic [settles_intros]:
  "proper (ret x)" "proper (reads f)" "proper (modifies g)" "proper (runs h)"
  "e \<noteq> OutOfFuel \<Longrightarrow> proper (throw e)"
  by (simp_all add: proper_def runs_apply)

lemma proper_if [settles_intros]: "proper m \<Longrightarrow> proper n \<Longrightarrow> proper (if b then m else n)"
  by simp

lemma settles_basic [settles_intros]:
  "settles (ret x)" "settles (reads f)"
  "e \<noteq> OutOfFuel \<Longrightarrow> settles (throw e)" "e \<noteq> OutOfFuel \<Longrightarrow> settles (unless_throw ok e)"
  by (simp_all add: settles_def)

lemma settles_answers [settles_intros]: "(\<And>w. f w \<noteq> Inl OutOfFuel) \<Longrightarrow> settles (answers f)"
  by (simp add: settles_def)

lemma settles_andThen [settles_intros]:
  assumes "settles m" and "\<And>x. settles (k x)"
  shows "settles (andThen m k)"
proof (rule settlesI)
  fix w r w'
  assume a: "andThen m k w = (r, w')"
  obtain r1 w1 where m: "m w = (r1, w1)" by fastforce
  show "r \<noteq> Inl OutOfFuel \<and> logged w w'"
  proof (cases r1)
    case (Inl x)
    with a m settlesD[OF assms(1) m] show ?thesis by (auto simp: andThen_def)
  next
    case (Inr x)
    with a m have "k x w1 = (r, w')" by (simp add: andThen_def)
    from settlesD[OF assms(2) this] settlesD[OF assms(1) m] show ?thesis using logged_trans by blast
  qed
qed

lemma settles_catching [settles_intros]:
  assumes "\<And>e. e \<noteq> OutOfFuel \<Longrightarrow> settles (h e)" and "settles m"
  shows "settles (catching m h)"
proof (rule settlesI)
  fix w r w'
  assume a: "catching m h w = (r, w')"
  obtain r1 w1 where m: "m w = (r1, w1)" by fastforce
  note settled = settlesD[OF assms(2) m]
  show "r \<noteq> Inl OutOfFuel \<and> logged w w'"
  proof (cases r1)
    case (Inl x)
    with a m have "h x w1 = (r, w')" by (simp add: catching_def)
    from settlesD[OF assms(1) this] settled Inl show ?thesis using logged_trans by blast
  next
    case (Inr x)
    with a m settled show ?thesis by (auto simp: catching_def)
  qed
qed

lemma settles_if [settles_intros]:
  "(b \<Longrightarrow> settles m) \<Longrightarrow> (\<not> b \<Longrightarrow> settles n) \<Longrightarrow> settles (if b then m else n)"
  by simp

lemma settles_case_option [settles_intros]:
  "(x = None \<Longrightarrow> settles m) \<Longrightarrow> (\<And>y. x = Some y \<Longrightarrow> settles (k y)) \<Longrightarrow>
     settles (case x of None \<Rightarrow> m | Some y \<Rightarrow> k y)"
  by (cases x) simp_all

lemma settles_case_prod [settles_intros]:
  "(\<And>a b. x = (a, b) \<Longrightarrow> settles (k a b)) \<Longrightarrow> settles (case x of (a, b) \<Rightarrow> k a b)"
  by (cases x) simp_all

lemma settles_let [settles_intros]: "(\<And>x. x = v \<Longrightarrow> settles (m x)) \<Longrightarrow> settles (let x = v in m x)"
  by simp

lemma settles_forEach [settles_intros]: "(\<And>x. x \<in> set xs \<Longrightarrow> settles (f x)) \<Longrightarrow> settles (forEach xs f)"
  by (induction xs) (auto intro!: settles_intros)

lemma settles_gather [settles_intros]:
  assumes "\<And>x. x \<in> set xs \<Longrightarrow> settles (f x)"
  shows "settles (gather xs f)"
  using assms
proof (induction xs)
  case (Cons x xs)
  then have 1: "settles (f x)" and 2: "settles (gather xs f)" by auto
  show ?case
  proof (rule settlesI)
    fix w r w'
    assume a: "gather (x # xs) f w = (r, w')"
    obtain r1 w1 where x: "f x w = (r1, w1)" by fastforce
    obtain r2 w2 where xs: "gather xs f w1 = (r2, w2)" by fastforce
    from settlesD[OF 1 x] settlesD[OF 2 xs] a x xs show "r \<noteq> Inl OutOfFuel \<and> logged w w'"
      using logged_trans by (cases r1; cases r2) auto
  qed
qed (simp add: settles_def)

lemma settles_ticking [settles_intros]:
  assumes "\<And>clk. settles (m clk)"
  shows "settles (ticking X m)"
proof (rule settlesI)
  fix w r w'
  assume "ticking X m w = (r, w')"
  then have "m (xe_clock X (w_turns w)) (w\<lparr>w_turns := Suc (w_turns w)\<rparr>) = (r, w')"
    by (simp add: ticking_def)
  from settlesD[OF assms this] show "r \<noteq> Inl OutOfFuel \<and> logged w w'" by (simp add: logged_def)
qed

lemma settles_calls:
  "\<not> queue_call c \<Longrightarrow> settles (external_outcome X c)"
  "\<not> queue_call c \<Longrightarrow> settles (external X c answer)"
  by (simp_all add: settles_def external_def external_outcome_def andThen_def logged_def)

lemma settles_external [settles_intros]:
  "settles (external_outcome X (SendMessage z1 z2 z3 z4 z5))"
  "settles (external_outcome X (EnsureInviteLink y1 y2))"
  "settles (external_outcome X (SetMemberTag x1 x2 x3 x4))"
  "settles (external_outcome X (ResolveVkUser w1))"
  "settles (external X (SendMessage z1 z2 z3 z4 z5) answer19)"
  "settles (external X (ChatSend t1 t2 t3 t4) answer20)"
  "settles (external X (ChatEdit u1 u2 u3 u4 u5) answer21)"
  "settles (external X (ChatDelete v1 v2 v3) answer22)"
  "settles (external X (AnswerCallback s1' s2' s3') answer23)"
  "settles (external X (PromoteTitleOnly p1' p2' p3') answer24)"
  "settles (external X (SetAdministratorTitle q1' q2' q3' q4') answer25)"
  "settles (external X (GetSecret o1') answer26)"
  "settles (external X (ReadLegacyRegistrations a1) answer0)"
  "settles (external X (CreateEventBundle b1 b2 b3 b4 b5 b6 b7) answer1)"
  "settles (external X (CreatePublicWorkbook c1 c2 c3 c4 c5) answer2)"
  "settles (external X (CreatePassTable d1 d2 d3) answer3)"
  "settles (external X (UpsertPassTable e1 e2 e3) answer4)"
  "settles (external X (CreateAchievement f1 f2 f3 f4) answer5)"
  "settles (external X (DeleteEventWorkbook g1) answer6)"
  "settles (external X (ReplaceShowcase h1 h2 h3) answer7)"
  "settles (external X (PassTableExists i1) answer8)"
  "settles (external X (ReplacePassTable j1 j2) answer9)"
  "settles (external X (DeletePassTable k1) answer10)"
  "settles (external X (DeleteAchievement l1) answer11)"
  "settles (external X (IsAdmin m1 m2) answer12)"
  "settles (external X (IsGamemaster m1' m2') answer27)"
  "settles (external X (ResolveVkUser w1') answer28)"
  "settles (external X (HasAnyPlayer n1) answer13)"
  "settles (external X (StatisticsLinkOf o1) answer14)"
  "settles (external X (PrepareStatistics p1 p2 p3 p4) answer15)"
  "settles (external X (CommitStatistics q1) answer16)"
  "settles (external X (GetChatMember r1 r2 r3) answer17)"
  "settles (external X (KickMember s1 s2 s3) answer18)"
  by (rule settles_calls; simp add: queue_call_def)+

lemma settles_repositories [settles_intros]:
  "(\<And>t. proper (m t)) \<Longrightarrow> settles (on_events X m)"
  "(\<And>clk. proper (m' clk)) \<Longrightarrow> settles (on_regs X m')"
  "(\<And>t. proper (m'' t)) \<Longrightarrow> settles (on_users X m'')"
  unfolding on_events_def on_regs_def on_users_def
  by (intro settles_ticking; simp add: settles_def proper_def split_beta split: option.splits)+

lemma settles_enqueues [settles_intros]: "settles (enqueues c)"
  by (simp add: settles_def enqueues_def)

lemma settles_lookups [settles_intros]:
  "settles (find_event event_id)" "settles (leaders_now event_id)" "settles (rows_now event_id)"
  "settles (row_now event_id key)" "settles (identities_now p i)" "settles (fresh_id X)"
  "settles (reading X)" "settles (publishes c)"
  unfolding find_event_def leaders_now_def rows_now_def row_now_def identities_now_def fresh_id_def
    reading_def publishes_def
  by (intro settles_intros; simp)+

lemma proper_update_event:
  "m \<noteq> Inl OutOfFuel \<Longrightarrow> (\<And>e. fst (f e) \<noteq> Inl OutOfFuel) \<Longrightarrow> proper (update_event k m f)"
  by (simp add: proper_def update_event_def split_beta split: option.splits)

lemma revalidate_proper: "fst (revalidate e e') \<noteq> Inl OutOfFuel"
  by (simp add: revalidate_def split: option.splits)

lemma proper_event_methods [settles_intros]:
  "proper (mark_registrations_migrated k t)" "proper (set_public_table k v u g t)"
  "proper (set_google_table_links k a b g t)" "proper (archive_event k t)" "proper (unarchive_event k t)"
  "proper (set_status k st t)" "proper (open_confirmation k d1 t)"
  "proper (open_scheduled_confirmation k d1 d2 t)" "proper (append_confirmed_notification k v op t)"
  "proper (set_details k v gd t)" "proper (set_registration_question k qu t)"
  "proper (set_player_amount k n t)" "proper (set_participant_removal k op keys t)"
  "proper (add_participant_removal_keys k op keys t)" "proper (set_reserve_promotion k op a t)"
  "proper (set_confirmed_link_promotion k op a t)"
  unfolding mark_registrations_migrated_def set_public_table_def set_google_table_links_def
    archive_event_def unarchive_event_def set_status_def open_confirmation_def
    open_scheduled_confirmation_def append_confirmed_notification_def set_details_def
    set_registration_question_def set_player_amount_def set_participant_removal_def
    add_participant_removal_keys_def set_reserve_promotion_def set_confirmed_link_promotion_def
  by (rule proper_update_event; simp add: revalidate_proper Let_def)+

lemma proper_delete_event [settles_intros]: "proper (delete_event k)"
  by (simp add: proper_def delete_event_def)

lemma proper_reg_methods [settles_intros]:
  "proper (update_profile_row k op key view t)" "proper (enlist k op key view wish answer clk)"
  "proper (confirm_row k op key wish other other_key t)" "proper (confirm_linked k op keys wish other keys' t)"
  "proper (update_character_wish k op key wish t)" "proper (update_co_player_wish k op key wish t)"
  "proper (cancel_row k op key t)"
  by (simp_all add: proper_def update_profile_row_def enlist_def confirm_row_def confirm_linked_def
      update_character_wish_def update_co_player_wish_def cancel_row_def update_row_def split_beta Let_def
      split: option.splits)

section \<open>A small world\<close>

text \<open>One game with two players, no profiles, calls that always succeed and nobody who administers.\<close>

definition sample_env :: env where
  "sample_env =
     \<lparr>xe_clock = (\<lambda>turn i. 100), xe_outcome = (\<lambda>calls c. Answered), xe_legacy = (\<lambda>calls. []),
      xe_workbook_url = (\<lambda>calls. Some [117]), xe_table_urls = (\<lambda>calls. None), xe_exists = (\<lambda>calls. False),
      xe_is_admin = (\<lambda>calls. False), xe_is_gamemaster = (\<lambda>calls. False),
      xe_listed = (\<lambda>calls. []), xe_yes = (\<lambda>calls. False),
      xe_link = (\<lambda>calls. []), xe_member = (\<lambda>calls. None), xe_secret = (\<lambda>calls. []),
      xe_vk_user = (\<lambda>calls. None), xe_received = (\<lambda>calls. []), xe_has_chat = False,
      xe_has_transport = False, xe_resolves_vk = False, xe_member_tags = False, xe_chat_migrations = False,
      xe_key = Some sample_pkey,
      xe_legacy_imports = False, xe_mirrors_google = False, xe_has_admins = False,
      xe_uuid4 = (\<lambda>turn. [turn]), xe_uuid5 = (\<lambda>s. s),
      xe_blake2s = (\<lambda>s. s), xe_sha256 = (\<lambda>s. s), xe_drawn = (\<lambda>turn i. 65 + i),
      xe_moscow = (\<lambda>t. ((2024, 5, 10), 720)), xe_instant = (\<lambda>lt. 100), xe_token = (\<lambda>turn. [turn]),
      xe_deferred = False, xe_announces = (\<lambda>calls. False)\<rparr>"

definition sample_world :: world where
  "sample_world =
     \<lparr>w_users = None, w_events = created_repo, w_regs = sample_regs, w_queue = [], w_calls = [], w_turns = 0\<rparr>"

lemma sample_store_ok: "about_store store_ok sample_world"
  by (simp add: about_store_def store_ok_def sample_world_def sample_regs_ok events_ok_reachable
      created_repo_reachable publisher_ok_def)

end
