(* ===== verification/Pages.thy ===== *)
theory Pages
  imports World
begin

text \<open>
  The paging loops of \<open>application/registration_services.py\<close>.  The event repository gives at most ten
  rows a query, so the services walk through the games cursor by cursor; a loop gets one unit of fuel
  more than there are stored games.
\<close>

section \<open>Loops over the pages\<close>

definition page_now ::
    "env \<Rightarrow> event_status list option \<Rightarrow> cursor option \<Rightarrow> cursor option \<Rightarrow> bool option \<Rightarrow> nat
       \<Rightarrow> event list service" where
  "page_now X statuses after before archived limit =
     ticking X (\<lambda>clk. answers (\<lambda>w.
       list_page statuses after before archived None False limit (clk 0) (w_events w)))"

text \<open>
  The loop over the pages of unarchived games: \<open>step\<close> handles a page, the loop ends after a short
  page or when \<open>enough\<close> says so.
\<close>

fun page_loop ::
    "env \<Rightarrow> nat \<Rightarrow> (event list \<Rightarrow> 'acc \<Rightarrow> 'acc service) \<Rightarrow> ('acc \<Rightarrow> bool) \<Rightarrow> nat \<Rightarrow> cursor option
       \<Rightarrow> 'acc \<Rightarrow> 'acc service" where
  "page_loop X limit step enough 0 after acc = throw OutOfFuel"
| "page_loop X limit step enough (Suc fuel) after acc =
     andThen (page_now X None after None (Some False) limit) (\<lambda>page.
     andThen (step page acc) (\<lambda>acc'.
       if enough acc' \<or> length page < limit then ret acc'
       else page_loop X limit step enough fuel (Some (event_cursor (last page))) acc'))"

definition paging_fuel :: "world \<Rightarrow> nat" where
  "paging_fuel w = Suc (length (er_rows (w_events w)))"

definition all_pages ::
    "env \<Rightarrow> nat \<Rightarrow> (event list \<Rightarrow> 'acc \<Rightarrow> 'acc service) \<Rightarrow> ('acc \<Rightarrow> bool) \<Rightarrow> 'acc \<Rightarrow> 'acc service" where
  "all_pages X limit step enough acc w = page_loop X limit step enough (paging_fuel w) None acc w"

definition collect_page :: "event list \<Rightarrow> event list \<Rightarrow> event list service" where
  "collect_page page rows = ret (rows @ page)"

definition unarchived_events :: "env \<Rightarrow> event list service" where
  "unarchived_events X =
     all_pages X MAX_EVENT_PAGE_SIZE collect_page (\<lambda>_. False) []"

section \<open>Pages of the games that are kept\<close>

record event_page =
  pg_events :: "event list"
  pg_has_previous :: bool
  pg_has_next :: bool

fun scan ::
    "env \<Rightarrow> (event \<Rightarrow> bool service) \<Rightarrow> event_status list option \<Rightarrow> bool option \<Rightarrow> nat \<Rightarrow> nat \<Rightarrow> nat
       \<Rightarrow> cursor option \<Rightarrow> cursor option \<Rightarrow> event list \<Rightarrow> event list service" where
  "scan X keep statuses archived scan_limit match_limit 0 after before matches = throw OutOfFuel"
| "scan X keep statuses archived scan_limit match_limit (Suc fuel) after before matches =
     andThen (page_now X statuses after before archived scan_limit) (\<lambda>candidates.
       if candidates = [] then ret matches
       else
         andThen (gather candidates keep) (\<lambda>kept.
           let inspected = map fst (filter snd (zip candidates kept));
               found = (if before \<noteq> None then inspected @ matches else matches @ inspected)
           in if match_limit \<le> length found
              then ret (if before \<noteq> None then take_last match_limit found else take match_limit found)
              else if length candidates < scan_limit then ret found
              else if before \<noteq> None
              then scan X keep statuses archived scan_limit match_limit fuel after
                     (Some (event_cursor (hd candidates))) found
              else scan X keep statuses archived scan_limit match_limit fuel
                     (Some (event_cursor (last candidates))) before found))"

definition event_page ::
    "env \<Rightarrow> (event \<Rightarrow> bool service) \<Rightarrow> event_status list option \<Rightarrow> bool option \<Rightarrow> cursor option
       \<Rightarrow> cursor option \<Rightarrow> nat \<Rightarrow> nat \<Rightarrow> event_page service" where
  "event_page X keep statuses archived after before event_limit concurrency w =
     (let scans = (\<lambda>(after_cursor, before_cursor) match_limit w.
            scan X keep statuses archived (min event_limit 10) match_limit (paging_fuel w)
              after_cursor before_cursor [] w)
      in if event_limit < 1 \<or> concurrency < 1 then (Inl ValueError, w)
         else
           andThen (scans (after, before) event_limit) (\<lambda>matches.
             if matches = [] then ret \<lparr>pg_events = [], pg_has_previous = False, pg_has_next = False\<rparr>
             else
               andThen (gather [(None, Some (event_cursor (hd matches))),
                                (Some (event_cursor (last matches)), None)] (\<lambda>c. scans c 1)) (\<lambda>sides.
                 ret \<lparr>pg_events = matches, pg_has_previous = sides ! 0 \<noteq> [],
                      pg_has_next = sides ! 1 \<noteq> []\<rparr>)) w)"

section \<open>What the loops compute\<close>

definition beyond :: "cursor option \<Rightarrow> event \<Rightarrow> bool" where
  "beyond after e \<longleftrightarrow> (case after of None \<Rightarrow> True | Some c \<Rightarrow> c < event_cursor e)"

definition listed_games :: "event_status list option \<Rightarrow> bool option \<Rightarrow> events \<Rightarrow> event list" where
  "listed_games statuses archived r =
     optional_filter archived (\<lambda>a e. (ev_archived_at e \<noteq> None) = a)
       (optional_filter statuses (\<lambda>accepted e. ev_status e \<in> set accepted)
         (sort_key event_cursor (dict_values (er_rows r))))"

lemma page_forward:
  assumes "1 \<le> n" and "n \<le> MAX_EVENT_PAGE_SIZE"
  shows "list_page statuses after None archived None False n t r =
           Inr (take n (filter (beyond after) (listed_games statuses archived r)))"
  using assms by (cases after)
    (simp_all add: list_page_def listed_games_def optional_filter_def beyond_def[abs_def] Let_def)

lemma page_backward:
  assumes "1 \<le> n" and "n \<le> MAX_EVENT_PAGE_SIZE"
  shows "list_page statuses None (Some c) archived None False n t r =
           Inr (take_last n (filter (\<lambda>e. event_cursor e < c) (listed_games statuses archived r)))"
  using assms by (auto simp: list_page_def listed_games_def optional_filter_def take_last_def Let_def)

abbreviation ascending :: "event list \<Rightarrow> bool" where
  "ascending \<equiv> sorted_wrt (\<lambda>a b. event_cursor a < event_cursor b)"

lemma ascending_filter: "ascending L \<Longrightarrow> ascending (filter P L)"
  by (rule sorted_wrt_filter)

lemma listed_games_ascending:
  assumes "events_ok r"
  shows "ascending (listed_games statuses archived r)"
proof -
  let ?v = "dict_values (er_rows r)"
  from assms have "distinct (map ev_event_id ?v)"
    by (auto simp: events_ok_def wf_dict_def dict_values_def list_all_iff split_beta
        intro!: iffD2[OF arg_cong[of _ "map fst (er_rows r)" distinct]])
  then have "distinct (map event_cursor ?v)"
    by (auto simp: distinct_map inj_on_def event_cursor_def)
  then have "distinct (map event_cursor (sort_key event_cursor ?v))" by simp
  moreover have "sorted (map event_cursor (sort_key event_cursor ?v))" by simp
  ultimately have "sorted_wrt (<) (map event_cursor (sort_key event_cursor ?v))"
    using strict_sorted_iff by blast
  then have "ascending (sort_key event_cursor ?v)" by (simp add: sorted_wrt_map)
  then show ?thesis
    by (auto simp: listed_games_def optional_filter_def intro!: ascending_filter split: option.splits)
qed

lemma ascending_last: "ascending L \<Longrightarrow> e \<in> set L \<Longrightarrow> event_cursor e \<le> event_cursor (last L)"
  by (induction L rule: rev_induct) (auto simp: sorted_wrt_append)

lemma beyond_last_of_page:
  assumes "ascending L" and "n \<le> length (filter (beyond after) L)" and "0 < n"
  shows "filter (beyond (Some (event_cursor (last (take n (filter (beyond after) L)))))) L =
           drop n (filter (beyond after) L)"
proof -
  let ?R = "filter (beyond after) L"
  let ?c = "event_cursor (last (take n ?R))"
  have ne: "take n ?R \<noteq> []" using assms by auto
  then have "last (take n ?R) \<in> set ?R" by (meson in_set_takeD last_in_set)
  then have "filter (beyond (Some ?c)) L = filter (beyond (Some ?c)) ?R"
    by (auto simp: beyond_def filter_filter intro!: filter_cong split: option.splits)
  also have "\<dots> = filter (beyond (Some ?c)) (take n ?R) @ filter (beyond (Some ?c)) (drop n ?R)"
    by (metis append_take_drop_id filter_append)
  also have "filter (beyond (Some ?c)) (take n ?R) = []"
  proof -
    have "ascending (take n ?R)" using assms(1) by (simp add: ascending_filter sorted_wrt_take)
    then have "\<not> beyond (Some ?c) e" if "e \<in> set (take n ?R)" for e
      using ascending_last[OF _ that] by (simp add: beyond_def not_less)
    then show ?thesis by (simp add: filter_empty_conv)
  qed
  also have "filter (beyond (Some ?c)) (drop n ?R) = drop n ?R"
  proof -
    have "ascending (take n ?R @ drop n ?R)" using assms(1) by (simp add: ascending_filter)
    then have "\<forall>e\<in>set (drop n ?R). ?c < event_cursor e"
      unfolding sorted_wrt_append using last_in_set[OF ne] by blast
    then show ?thesis by (auto simp: filter_id_conv beyond_def)
  qed
  finally show ?thesis by simp
qed

lemma page_now_forward:
  assumes "1 \<le> n" and "n \<le> MAX_EVENT_PAGE_SIZE"
  shows "page_now X statuses after None archived n w =
           (Inr (take n (filter (beyond after) (listed_games statuses archived (w_events w)))),
            w\<lparr>w_turns := Suc (w_turns w)\<rparr>)"
  by (simp add: page_now_def ticking_def page_forward[OF assms])

lemma page_now_backward:
  assumes "1 \<le> n" and "n \<le> MAX_EVENT_PAGE_SIZE"
  shows "page_now X statuses None (Some c) archived n w =
           (Inr (take_last n (filter (\<lambda>e. event_cursor e < c) (listed_games statuses archived (w_events w)))),
            w\<lparr>w_turns := Suc (w_turns w)\<rparr>)"
  by (simp add: page_now_def ticking_def page_backward[OF assms])

lemma page_loop_step:
  assumes "page_now X None after None (Some False) n w = (Inr page, w1)"
    and "step page acc w1 = (Inr acc', w2)"
  shows "page_loop X n step enough (Suc fuel) after acc w =
           (if enough acc' \<or> length page < n then (Inr acc', w2)
            else page_loop X n step enough fuel (Some (event_cursor (last page))) acc' w2)"
  using assms by (simp add: andThen_def)

lemma page_loop_collects:
  assumes "events_ok (w_events w)" and "1 \<le> n" and "n \<le> MAX_EVENT_PAGE_SIZE"
    and "length (filter (beyond after) (listed_games None (Some False) (w_events w))) < fuel"
  shows "\<exists>k. page_loop X n collect_page (\<lambda>_. False) fuel after acc w =
           (Inr (acc @ filter (beyond after) (listed_games None (Some False) (w_events w))),
            w\<lparr>w_turns := k\<rparr>)"
  using assms
proof (induction fuel arbitrary: after acc w)
  case (Suc fuel)
  let ?G = "listed_games None (Some False) (w_events w)"
  let ?R = "filter (beyond after) ?G"
  let ?w = "w\<lparr>w_turns := Suc (w_turns w)\<rparr>"
  have page: "page_now X None after None (Some False) n w = (Inr (take n ?R), ?w)"
    using Suc.prems(2,3) by (rule page_now_forward)
  let ?c = "event_cursor (last (take n ?R))"
  have step: "collect_page (take n ?R) acc ?w = (Inr (acc @ take n ?R), ?w)"
    by (simp add: collect_page_def)
  have turn: "page_loop X n collect_page (\<lambda>_. False) (Suc fuel) after acc w =
      (if False \<or> length (take n ?R) < n then (Inr (acc @ take n ?R), ?w)
       else page_loop X n collect_page (\<lambda>_. False) fuel (Some ?c) (acc @ take n ?R) ?w)"
    by (rule page_loop_step) (rule page, rule step)
  show ?case
  proof (cases "length (take n ?R) < n")
    case True
    then have "take n ?R = ?R" by simp
    with True show ?thesis unfolding turn by (intro exI[of _ "Suc (w_turns w)"]) simp
  next
    case False
    then have n: "n \<le> length ?R" by simp
    have rest: "filter (beyond (Some ?c)) ?G = drop n ?R"
      using listed_games_ascending[OF Suc.prems(1)] n Suc.prems(2) by (intro beyond_last_of_page) auto
    have "length (filter (beyond (Some ?c)) (listed_games None (Some False) (w_events ?w))) < fuel"
      using Suc.prems(2,4) n by (simp add: rest)
    then have "\<exists>k. page_loop X n collect_page (\<lambda>_. False) fuel (Some ?c) (acc @ take n ?R) ?w =
         (Inr ((acc @ take n ?R) @ drop n ?R), w\<lparr>w_turns := k\<rparr>)"
      using Suc.IH[of ?w "Some ?c" "acc @ take n ?R"] Suc.prems(1-3) rest by simp
    with False show ?thesis unfolding turn by (simp only: append_assoc append_take_drop_id if_False HOL.simp_thms)
  qed
qed simp

lemma length_optional_filter: "length (optional_filter v P xs) \<le> length xs"
  by (simp add: optional_filter_def split: option.splits)

lemma listed_games_length: "length (listed_games statuses archived r) \<le> length (er_rows r)"
  unfolding listed_games_def
  using length_optional_filter[of archived "\<lambda>a e. (ev_archived_at e \<noteq> None) = a"
      "optional_filter statuses (\<lambda>accepted e. ev_status e \<in> set accepted)
         (sort_key event_cursor (dict_values (er_rows r)))"]
    length_optional_filter[of statuses "\<lambda>accepted e. ev_status e \<in> set accepted"
      "sort_key event_cursor (dict_values (er_rows r))"]
  by (simp add: dict_values_def)

lemma enough_fuel: "length (filter P (listed_games statuses archived (w_events w))) < paging_fuel w"
  unfolding paging_fuel_def
  using length_filter_le[of P "listed_games statuses archived (w_events w)"]
    listed_games_length[of statuses archived "w_events w"]
  by linarith

section \<open>Every loop ends\<close>

text \<open>
  The loops advance because a page ends at a later cursor; what happens between two pages must leave
  the list of games and which of them are archived alone.
\<close>

definition listing :: "events \<Rightarrow> (cursor \<times> bool) list" where
  "listing r = map (\<lambda>(k, e). (event_cursor e, ev_archived_at e = None)) (er_rows r)"

definition games_listed :: "(cursor \<times> bool) list \<Rightarrow> events \<Rightarrow> regs \<Rightarrow> publisher \<Rightarrow> bool" where
  "games_listed L ev rg q \<longleftrightarrow> listing ev = L"

definition left_over :: "(cursor \<times> bool) list \<Rightarrow> cursor option \<Rightarrow> nat" where
  "left_over L after =
     length (filter (\<lambda>x. snd x \<and> (case after of None \<Rightarrow> True | Some a \<Rightarrow> a < fst x)) L)"

lemma left_over_decreases:
  assumes "(c, True) \<in> set L" and "\<And>a. after = Some a \<Longrightarrow> a < c"
  shows "left_over L (Some c) < left_over L after"
proof -
  let ?P = "\<lambda>x. snd x \<and> (case after of None \<Rightarrow> True | Some a \<Rightarrow> a < fst x)"
  have "snd x \<and> c < fst x \<Longrightarrow> ?P x" for x
    using assms(2) less_trans by (cases after) auto
  then have "filter (\<lambda>x. snd x \<and> c < fst x) L = filter (\<lambda>x. snd x \<and> c < fst x) (filter ?P L)"
    unfolding filter_filter by (intro filter_cong) auto
  also have "length \<dots> < length (filter ?P L)"
    using assms by (intro length_filter_less[of "(c, True)"]) (cases after; simp)+
  finally show ?thesis by (simp add: left_over_def)
qed

lemma left_over_bound: "left_over (listing r) after \<le> length (er_rows r)"
  unfolding left_over_def
  by (rule le_trans[OF length_filter_le]) (simp add: listing_def)

lemma on_page_listed:
  assumes "e \<in> set (filter (beyond after) (listed_games None (Some False) r))"
  shows "(event_cursor e, True) \<in> set (listing r)" and "after = Some a \<Longrightarrow> a < event_cursor e"
  using assms
  by (force simp: listed_games_def optional_filter_def listing_def dict_values_def beyond_def)+

lemma page_now_bad_limit:
  "\<not> (1 \<le> n \<and> n \<le> MAX_EVENT_PAGE_SIZE) \<Longrightarrow> fst (page_now X st a b ar n w) = Inl ValueError"
  by (auto simp: page_now_def ticking_def list_page_def)

lemma page_loop_ends:
  assumes step: "\<And>page acc. settles (step page acc)"
    and quiet: "\<And>page acc. keeps (about_store (games_listed L)) (step page acc)"
  shows "about_store (games_listed L) w \<Longrightarrow> left_over L after < fuel \<Longrightarrow>
           fst (page_loop X n step enough fuel after acc w) \<noteq> Inl OutOfFuel"
proof (induction fuel arbitrary: after acc w)
  case (Suc fuel)
  let ?R = "filter (beyond after) (listed_games None (Some False) (w_events w))"
  let ?w = "w\<lparr>w_turns := Suc (w_turns w)\<rparr>"
  show ?case
  proof (cases "1 \<le> n \<and> n \<le> MAX_EVENT_PAGE_SIZE")
    case False
    then have "fst (page_now X None after None (Some False) n w) = Inl ValueError"
      by (rule page_now_bad_limit)
    then show ?thesis by (simp add: andThen_def split_beta)
  next
    case True
    then have n: "1 \<le> n" and page: "page_now X None after None (Some False) n w = (Inr (take n ?R), ?w)"
      by (simp_all only: page_now_forward)
    obtain r w2 where s: "step (take n ?R) acc ?w = (r, w2)" by fastforce
    have listed: "about_store (games_listed L) w2"
      using keepsD[OF quiet, of ?w "take n ?R" acc] Suc.prems(1) s by (simp add: about_store_def)
    show ?thesis
    proof (cases r)
      case (Inl e)
      then have "e \<noteq> OutOfFuel" using settlesD[OF step s] by simp
      then show ?thesis by (simp add: andThen_def page s Inl)
    next
      case (Inr acc')
      let ?c = "event_cursor (last (take n ?R))"
      have turn: "page_loop X n step enough (Suc fuel) after acc w =
          (if enough acc' \<or> length (take n ?R) < n then (Inr acc', w2)
           else page_loop X n step enough fuel (Some ?c) acc' w2)"
        by (rule page_loop_step) (rule page, simp only: s Inr)
      show ?thesis
      proof (cases "enough acc' \<or> length (take n ?R) < n")
        case True
        then show ?thesis unfolding turn by simp
      next
        case False
        then have "take n ?R \<noteq> []" using n by auto
        then have "last (take n ?R) \<in> set ?R" by (meson in_set_takeD last_in_set)
        note mem = on_page_listed[OF this]
        have "listing (w_events w) = L" using Suc.prems(1) by (simp add: about_store_def games_listed_def)
        then have "left_over L (Some ?c) < left_over L after"
          using mem by (intro left_over_decreases) auto
        then have "left_over L (Some ?c) < fuel" using Suc.prems(2) by simp
        from Suc.IH[OF listed this] False show ?thesis unfolding turn by simp
      qed
    qed
  qed
qed simp

lemma keeps_page_now [keeps_intros]:
  "keeps (about_store P) (page_now X st a b ar n)" "keeps (logged w) (page_now X st a b ar n)"
  by (auto simp: page_now_def ticking_def keeps_def about_store_def logged_def split: prod.splits)

lemma keeps_page_loop:
  assumes "\<And>page acc. keeps I (step page acc)"
    and "\<And>after. keeps I (page_now X None after None (Some False) n)"
  shows "keeps I (page_loop X n step enough fuel after acc)"
proof (induction fuel arbitrary: after acc)
  case (Suc fuel)
  then show ?case by (simp, intro keeps_intros assms)
qed (simp add: keeps_intros)

lemma keeps_all_pages [keeps_intros]:
  "(\<And>page acc. keeps (about_store P) (step page acc)) \<Longrightarrow> keeps (about_store P) (all_pages X n step enough acc)"
  using keeps_page_loop[OF _ keeps_page_now(1), of P step X n enough] by (auto simp: keeps_def all_pages_def)

lemma settles_all_pages:
  assumes "\<And>page acc. settles (step page acc)"
    and "\<And>L page acc. keeps (about_store (games_listed L)) (step page acc)"
  shows "settles (all_pages X n step enough acc)"
  unfolding settles_def all_pages_def
proof (intro allI conjI)
  fix w
  have "left_over (listing (w_events w)) None < paging_fuel w"
    unfolding paging_fuel_def using left_over_bound[of "w_events w" None] by simp
  with page_loop_ends[OF assms(1) assms(2)[of "listing (w_events w)"], of w None]
  show "fst (page_loop X n step enough (paging_fuel w) None acc w) \<noteq> Inl OutOfFuel"
    by (simp add: about_store_def games_listed_def)
  have "keeps (logged w) (page_loop X n step enough (paging_fuel w) None acc)"
    by (intro keeps_page_loop keeps_page_now settles_logs assms(1))
  then show "logged w (snd (page_loop X n step enough (paging_fuel w) None acc w))"
    by (simp add: keeps_def)
qed

lemma keeps_unarchived_events [keeps_intros]: "keeps (about_store P) (unarchived_events X)"
  unfolding unarchived_events_def collect_page_def by (intro keeps_intros)

lemma settles_unarchived_events [settles_intros]: "settles (unarchived_events X)"
  unfolding unarchived_events_def collect_page_def by (intro settles_all_pages settles_intros keeps_intros)

section \<open>Scanning for the games that are kept\<close>

definition below :: "cursor \<Rightarrow> event \<Rightarrow> bool" where
  "below c e \<longleftrightarrow> event_cursor e < c"

lemma kept_of_page: "map fst (filter snd (zip xs (map ok xs))) = filter ok xs"
  by (induction xs) auto

definition accepting :: "(event \<Rightarrow> bool) \<Rightarrow> event \<Rightarrow> bool service" where
  "accepting ok e = ret (ok e)"

lemma gather_ok: "gather xs (accepting ok) w = (Inr (map ok xs), w)"
  by (rule gather_pure) (simp add: accepting_def)

declare scan.simps(2) [simp del]

lemma below_first_of_page:
  assumes "ascending L" and "n \<le> length (filter (below c) L)" and "0 < n"
  shows "filter (below (event_cursor (hd (take_last n (filter (below c) L))))) L =
           take (length (filter (below c) L) - n) (filter (below c) L)"
proof -
  let ?R = "filter (below c) L"
  let ?P = "take_last n ?R"
  let ?Q = "take (length ?R - n) ?R"
  let ?c = "event_cursor (hd ?P)"
  have R: "?R = ?Q @ ?P" by (simp add: take_last_def)
  have ne: "?P \<noteq> []" using assms by (simp add: take_last_def)
  have asc: "ascending (?Q @ ?P)" using assms(1) by (metis R ascending_filter)
  have "hd ?P \<in> set ?R" by (metis R Un_iff hd_in_set ne set_append)
  then have "filter (below ?c) L = filter (below ?c) ?R"
    by (auto simp: below_def filter_filter intro!: filter_cong)
  also have "\<dots> = filter (below ?c) ?Q @ filter (below ?c) ?P" by (metis R filter_append)
  also have "filter (below ?c) ?Q = ?Q"
    using asc hd_in_set[OF ne] by (auto simp: filter_id_conv below_def sorted_wrt_append)
  also have "filter (below ?c) ?P = []"
  proof -
    have "ascending ?P" using asc by (simp add: sorted_wrt_append)
    then have "\<not> below ?c e" if "e \<in> set ?P" for e
      using that by (cases ?P) (auto simp: below_def)
    then show ?thesis by (simp add: filter_empty_conv)
  qed
  finally show ?thesis by simp
qed

lemma scan_forward:
  assumes "events_ok (w_events w)" and "1 \<le> n" and "n \<le> MAX_EVENT_PAGE_SIZE" and "length matches < m"
    and "length (filter (beyond after) (listed_games statuses archived (w_events w))) < fuel"
  shows "\<exists>k. scan X (accepting ok) statuses archived n m fuel after None matches w =
           (Inr (take m (matches @ filter ok
              (filter (beyond after) (listed_games statuses archived (w_events w))))), w\<lparr>w_turns := k\<rparr>)"
  using assms
proof (induction fuel arbitrary: after matches w)
  case (Suc fuel)
  let ?G = "listed_games statuses archived (w_events w)"
  let ?R = "filter (beyond after) ?G"
  let ?w = "w\<lparr>w_turns := Suc (w_turns w)\<rparr>"
  let ?c = "event_cursor (last (take n ?R))"
  let ?found = "matches @ filter ok (take n ?R)"
  have page: "page_now X statuses after None archived n w = (Inr (take n ?R), ?w)"
    using Suc.prems(2,3) by (rule page_now_forward)
  have turn: "scan X (accepting ok) statuses archived n m (Suc fuel) after None matches w =
      (if take n ?R = [] then (Inr matches, ?w)
       else if m \<le> length ?found then (Inr (take m ?found), ?w)
       else if length (take n ?R) < n then (Inr ?found, ?w)
       else scan X (accepting ok) statuses archived n m fuel (Some ?c) None ?found ?w)"
    by (simp add: scan.simps(2) andThen_def page gather_ok kept_of_page Let_def del: length_map)
  have R: "?R = take n ?R @ drop n ?R" by simp
  consider (none) "?R = []" | (full) "?R \<noteq> []" "m \<le> length ?found"
    | (short) "?R \<noteq> []" "\<not> m \<le> length ?found" "length ?R < n"
    | (more) "?R \<noteq> []" "\<not> m \<le> length ?found" "n \<le> length ?R"
    by linarith
  then show ?case
  proof cases
    case none
    with turn Suc.prems(4) show ?thesis by (intro exI[of _ "Suc (w_turns w)"]) simp
  next
    case full
    have "take m (matches @ filter ok ?R) = take m (?found @ filter ok (drop n ?R))"
      by (metis R append_assoc filter_append)
    also have "\<dots> = take m ?found" using full(2) by simp
    finally show ?thesis using turn full Suc.prems(2) by (intro exI[of _ "Suc (w_turns w)"]) simp
  next
    case short
    then have "take n ?R = ?R" by simp
    with turn short Suc.prems(2) show ?thesis by (intro exI[of _ "Suc (w_turns w)"]) simp
  next
    case more
    have rest: "filter (beyond (Some ?c)) ?G = drop n ?R"
      using listed_games_ascending[OF Suc.prems(1)] more Suc.prems(2) by (intro beyond_last_of_page) auto
    have "length (filter (beyond (Some ?c)) (listed_games statuses archived (w_events ?w))) < fuel"
      using Suc.prems(2,5) more by (simp add: rest)
    then have "\<exists>k. scan X (accepting ok) statuses archived n m fuel (Some ?c) None ?found ?w =
        (Inr (take m (?found @ filter ok (drop n ?R))), w\<lparr>w_turns := k\<rparr>)"
      using Suc.IH[of ?w ?found "Some ?c"] Suc.prems(1-3) more(2) rest by simp
    moreover have "?found @ filter ok (drop n ?R) = matches @ filter ok ?R"
      by (metis R append_assoc filter_append)
    moreover have "scan X (accepting ok) statuses archived n m (Suc fuel) after None matches w =
        scan X (accepting ok) statuses archived n m fuel (Some ?c) None ?found ?w"
      using turn more Suc.prems(2) by simp
    ultimately show ?thesis by (simp only:)
  qed
qed simp

lemma scan_backward:
  assumes "events_ok (w_events w)" and "1 \<le> n" and "n \<le> MAX_EVENT_PAGE_SIZE" and "length matches < m"
    and "length (filter (below c) (listed_games statuses archived (w_events w))) < fuel"
  shows "\<exists>k. scan X (accepting ok) statuses archived n m fuel None (Some c) matches w =
           (Inr (take_last m (filter ok
              (filter (below c) (listed_games statuses archived (w_events w))) @ matches)), w\<lparr>w_turns := k\<rparr>)"
  using assms
proof (induction fuel arbitrary: c matches w)
  case (Suc fuel)
  let ?G = "listed_games statuses archived (w_events w)"
  let ?R = "filter (below c) ?G"
  let ?P = "take_last n ?R"
  let ?Q = "take (length ?R - n) ?R"
  let ?w = "w\<lparr>w_turns := Suc (w_turns w)\<rparr>"
  let ?c = "event_cursor (hd ?P)"
  let ?found = "filter ok ?P @ matches"
  have page: "page_now X statuses None (Some c) archived n w = (Inr ?P, ?w)"
    using page_now_backward[OF Suc.prems(2,3)] by (simp add: below_def[abs_def])
  have turn: "scan X (accepting ok) statuses archived n m (Suc fuel) None (Some c) matches w =
      (if ?P = [] then (Inr matches, ?w)
       else if m \<le> length ?found then (Inr (take_last m ?found), ?w)
       else if length ?P < n then (Inr ?found, ?w)
       else scan X (accepting ok) statuses archived n m fuel None (Some ?c) ?found ?w)"
    by (simp add: scan.simps(2) andThen_def page gather_ok kept_of_page Let_def del: length_map)
  have R: "?R = ?Q @ ?P" by (simp add: take_last_def)
  have len: "length ?P = min n (length ?R)" by (simp add: take_last_def)
  have "length ?P = 0 \<longleftrightarrow> length ?R = 0" using len Suc.prems(2) by linarith
  then have ne: "?P = [] \<longleftrightarrow> ?R = []" by (simp only: length_0_conv)
  consider (none) "?R = []" | (full) "?R \<noteq> []" "m \<le> length ?found"
    | (short) "?R \<noteq> []" "\<not> m \<le> length ?found" "length ?R < n"
    | (more) "?R \<noteq> []" "\<not> m \<le> length ?found" "n \<le> length ?R"
    by linarith
  then show ?case
  proof cases
    case none
    then have "scan X (accepting ok) statuses archived n m (Suc fuel) None (Some c) matches w = (Inr matches, ?w)"
      unfolding turn ne by simp
    with none Suc.prems(4) show ?thesis by (intro exI[of _ "Suc (w_turns w)"]) (simp add: take_last_def)
  next
    case full
    have "take_last m (filter ok ?R @ matches) = take_last m (filter ok ?Q @ ?found)"
      by (metis R append_assoc filter_append)
    also have "\<dots> = take_last m ?found" using full(2) by (simp add: take_last_def)
    finally have "take_last m (filter ok ?R @ matches) = take_last m ?found" .
    moreover have "scan X (accepting ok) statuses archived n m (Suc fuel) None (Some c) matches w =
        (Inr (take_last m ?found), ?w)"
      using full unfolding turn ne by (simp only: if_False if_True)
    ultimately show ?thesis by (simp only:) (rule exI, rule refl)
  next
    case short
    then have P: "?P = ?R" by (simp add: take_last_def)
    have "scan X (accepting ok) statuses archived n m (Suc fuel) None (Some c) matches w = (Inr ?found, ?w)"
      using short unfolding turn ne len by simp
    moreover have "take_last m (filter ok ?R @ matches) = ?found"
      using short(2) unfolding P by (simp add: take_last_def)
    ultimately show ?thesis by (simp only:) (rule exI, rule refl)
  next
    case more
    have rest: "filter (below ?c) ?G = ?Q"
      using listed_games_ascending[OF Suc.prems(1)] more Suc.prems(2) by (intro below_first_of_page) auto
    have "length (filter (below ?c) (listed_games statuses archived (w_events ?w))) < fuel"
      using Suc.prems(2,5) more by (simp add: rest)
    then have "\<exists>k. scan X (accepting ok) statuses archived n m fuel None (Some ?c) ?found ?w =
        (Inr (take_last m (filter ok ?Q @ ?found)), w\<lparr>w_turns := k\<rparr>)"
      using Suc.IH[of ?w ?found ?c] Suc.prems(1-3) more(2) rest by simp
    moreover have "filter ok ?Q @ ?found = filter ok ?R @ matches"
      by (metis R append_assoc filter_append)
    moreover have "scan X (accepting ok) statuses archived n m (Suc fuel) None (Some c) matches w =
        scan X (accepting ok) statuses archived n m fuel None (Some ?c) ?found ?w"
      using more unfolding turn ne len by simp
    ultimately show ?thesis by (simp only:)
  qed
qed simp

section \<open>Pages against the sorted list\<close>

text \<open>
  C37. Walking through the pages of at most ten games returns, whatever the number of games, and
  collects exactly the unarchived games, each once, in the order of creation: the loop of
  the service ends and equals filtering and sorting the stored games at once.
\<close>

theorem unarchived_events_complete:
  assumes "events_ok (w_events w)"
  shows "\<exists>k. unarchived_events X w =
           (Inr (filter (\<lambda>e. ev_archived_at e = None)
                   (sort_key event_cursor (dict_values (er_rows (w_events w))))),
            w\<lparr>w_turns := k\<rparr>)"
proof -
  have "filter (beyond None) (listed_games None (Some False) (w_events w)) =
      filter (\<lambda>e. ev_archived_at e = None) (sort_key event_cursor (dict_values (er_rows (w_events w))))"
    by (simp add: listed_games_def optional_filter_def beyond_def[abs_def])
  moreover have "\<exists>k. page_loop X MAX_EVENT_PAGE_SIZE collect_page (\<lambda>_. False) (paging_fuel w) None [] w =
      (Inr ([] @ filter (beyond None) (listed_games None (Some False) (w_events w))), w\<lparr>w_turns := k\<rparr>)"
    using assms by (intro page_loop_collects enough_fuel) (simp_all add: MAX_EVENT_PAGE_SIZE_def)
  ultimately show ?thesis unfolding unarchived_events_def all_pages_def by simp
qed

text \<open>
  C36. A page of games, assembled from queries of at most ten rows, is the next slice of the accepted
  games in the order of creation; the page says that more follow exactly when more follow, and that
  some precede exactly when an accepted game lies before the first one shown.
\<close>

theorem event_page_is_slice:
  assumes ok: "events_ok (w_events w)" and "1 \<le> event_limit" and "1 \<le> concurrency"
    and G: "G = filter accepted (listed_games statuses archived (w_events w))"
    and R: "R = filter (beyond after) G"
  shows "\<exists>k. event_page X (accepting accepted) statuses archived after None event_limit concurrency w =
           (Inr \<lparr>pg_events = take event_limit R,
                 pg_has_previous = (R \<noteq> [] \<and> filter (below (event_cursor (hd R))) G \<noteq> []),
                 pg_has_next = (event_limit < length R)\<rparr>, w\<lparr>w_turns := k\<rparr>)"
proof -
  let ?L = "listed_games statuses archived (w_events w)"
  let ?n = "min event_limit 10"
  let ?page = "take event_limit R"
  have n: "1 \<le> ?n" "?n \<le> MAX_EVENT_PAGE_SIZE" using assms(2) by (simp_all add: MAX_EVENT_PAGE_SIZE_def)
  have RL: "R = filter accepted (filter (beyond after) ?L)" unfolding R G by (simp add: conj_commute)
  obtain k where first: "scan X (accepting accepted) statuses archived ?n event_limit (paging_fuel w)
      after None [] w = (Inr ?page, w\<lparr>w_turns := k\<rparr>)"
    using scan_forward[OF ok n, of "[]" event_limit after statuses archived "paging_fuel w" X accepted]
      assms(2) enough_fuel by (auto simp: RL)
  show ?thesis
  proof (cases "R = []")
    case True
    with first assms(2,3) show ?thesis
      by (intro exI[of _ k]) (simp add: event_page_def andThen_def)
  next
    case False
    let ?w1 = "w\<lparr>w_turns := k\<rparr>"
    let ?first = "event_cursor (hd ?page)" and ?last = "event_cursor (last ?page)"
    have "hd ?page = hd R" using False assms(2) by (cases R; cases event_limit) auto
    have ok1: "events_ok (w_events ?w1)" using ok by simp
    obtain k2 where backw: "scan X (accepting accepted) statuses archived ?n 1 (paging_fuel ?w1)
        None (Some ?first) [] ?w1 = (Inr (take_last 1 (filter accepted (filter (below ?first) ?L))),
          w\<lparr>w_turns := k2\<rparr>)"
      using scan_backward[OF ok1 n, of "[]" 1 ?first statuses archived "paging_fuel ?w1" X accepted]
        enough_fuel[of _ _ _ ?w1] by auto
    let ?w2 = "w\<lparr>w_turns := k2\<rparr>"
    have ok2: "events_ok (w_events ?w2)" using ok by simp
    obtain k3 where forth: "scan X (accepting accepted) statuses archived ?n 1 (paging_fuel ?w2)
        (Some ?last) None [] ?w2 = (Inr (take 1 (filter accepted (filter (beyond (Some ?last)) ?L))),
          w\<lparr>w_turns := k3\<rparr>)"
      using scan_forward[OF ok2 n, of "[]" 1 "Some ?last" statuses archived "paging_fuel ?w2" X accepted]
        enough_fuel[of _ _ _ ?w2] by auto
    have "filter (beyond (Some (event_cursor (last (take (min event_limit (length R)) R))))) G =
        drop (min event_limit (length R)) R"
      using listed_games_ascending[OF ok] False assms(2) unfolding R
      by (intro beyond_last_of_page) (auto simp: G ascending_filter R)
    then have next_iff: "filter accepted (filter (beyond (Some ?last)) ?L) = drop event_limit R"
      by (auto simp: G conj_commute min_def split: if_splits)
    have prev_iff: "filter accepted (filter (below ?first) ?L) = filter (below (event_cursor (hd R))) G"
      using \<open>hd ?page = hd R\<close> by (simp add: G conj_commute)
    have "event_page X (accepting accepted) statuses archived after None event_limit concurrency w =
        (Inr \<lparr>pg_events = ?page,
              pg_has_previous = take_last 1 (filter (below (event_cursor (hd R))) G) \<noteq> [],
              pg_has_next = take 1 (drop event_limit R) \<noteq> []\<rparr>, w\<lparr>w_turns := k3\<rparr>)"
      using False assms(2,3) first backw[unfolded prev_iff] forth[unfolded next_iff]
      by (simp add: event_page_def andThen_def)
    moreover have "take_last 1 xs \<noteq> [] \<longleftrightarrow> xs \<noteq> []" for xs :: "event list"
      by (cases xs rule: rev_cases) (simp_all add: take_last_def)
    moreover have "take 1 (drop event_limit R) \<noteq> [] \<longleftrightarrow> event_limit < length R" by auto
    ultimately show ?thesis using False by auto
  qed
qed

section \<open>On the small world\<close>

lemma sample_listed_games: "listed_games None None (w_events sample_world) = [sample_event]"
  by (simp add: listed_games_def optional_filter_def sample_world_def created_repo_rows dict_values_def)

theorem unarchived_events_complete_witness:
  "\<exists>k. unarchived_events sample_env sample_world = (Inr [sample_event], sample_world\<lparr>w_turns := k\<rparr>)"
proof -
  have "events_ok (w_events sample_world)"
    using sample_store_ok by (simp add: about_store_def store_ok_def)
  from unarchived_events_complete[OF this, of sample_env] show ?thesis
    by (simp add: sample_world_def created_repo_rows dict_values_def sample_event_def)
qed

theorem event_page_is_slice_witness:
  "\<exists>k. event_page sample_env (accepting (\<lambda>e. ev_status e = CREATED)) None None None None 5 3 sample_world =
     (Inr \<lparr>pg_events = [sample_event], pg_has_previous = False, pg_has_next = False\<rparr>, sample_world\<lparr>w_turns := k\<rparr>)"
proof -
  have ok: "events_ok (w_events sample_world)"
    using sample_store_ok by (simp add: about_store_def store_ok_def)
  have G: "[sample_event] = filter (\<lambda>e. ev_status e = CREATED) (listed_games None None (w_events sample_world))"
    by (simp add: sample_listed_games) (simp add: sample_event_def)
  have R: "[sample_event] = filter (beyond None) [sample_event]" by (simp add: beyond_def)
  from event_page_is_slice[OF ok _ _ G R, of 5 3 sample_env] show ?thesis by (simp add: below_def)
qed

end
