(* ===== verification/Catalog.thy ===== *)
theory Catalog
  imports Pages
begin

text \<open>
  \<open>RegistrationCatalog\<close> and the pass tables of \<open>application/registration_services.py\<close>: the stored
  registrations as the source of truth, the tables derived from them, and the one-time import of a
  legacy workbook.  The callback handed to the workbook uploader carries only the event id and the
  requester; it is not part of the logged call.
\<close>

section \<open>The catalog\<close>

definition delete_workbook :: "env \<Rightarrow> ustring \<Rightarrow> unit service" where
  "delete_workbook X path = external X (DeleteEventWorkbook path) (\<lambda>_. ())"

definition with_public_table :: "ustring \<Rightarrow> ustring \<Rightarrow> ustring option \<Rightarrow> event \<Rightarrow> event" where
  "with_public_table path url google_url e =
     e\<lparr>ev_public_table_resource_path := Some path, ev_public_table_public_url := Some url,
       ev_public_table_google_url := google_url\<rparr>"

definition ensure_public_table :: "env \<Rightarrow> event \<Rightarrow> registration list option \<Rightarrow> requester \<Rightarrow> event service" where
  "ensure_public_table X e registrations requester =
     (if ev_public_table_resource_path e \<noteq> None then ret e
      else
        andThen (case registrations of None \<Rightarrow> rows_now (ev_event_id e) | Some rows \<Rightarrow> ret rows) (\<lambda>rows.
        let disk_path = snd (event_table_paths (ev_event_id e) (ev_name e))
        in andThen (external X (CreatePublicWorkbook disk_path rows (ev_player_amount e)
                      (ev_registration_question e)
                      (EventTablesCallback (ev_event_id e) disk_path (asc ''public'') requester))
                    (xe_workbook_url X)) (\<lambda>public_url.
           case public_url of
             None \<Rightarrow> ret e
           | Some url \<Rightarrow>
               (let google_url = (if xe_mirrors_google X then Some url else None)
                in andThen
                     (catching
                       (on_events X (set_public_table (ev_event_id e) disk_path url google_url))
                       (\<lambda>error. andThen (delete_workbook X disk_path) (\<lambda>_. throw error))) (\<lambda>attached.
                   if attached
                   then (case event_validate (with_public_table disk_path url google_url e) of
                           None \<Rightarrow> throw ValueError
                         | Some validated \<Rightarrow> ret validated)
                   else
                     andThen (find_event (ev_event_id e)) (\<lambda>current.
                       case current of
                         Some c \<Rightarrow>
                           if ev_public_table_resource_path c \<noteq> None
                           then andThen
                                  (if ev_public_table_resource_path c \<noteq> Some disk_path
                                   then delete_workbook X disk_path else ret ()) (\<lambda>_. ret c)
                           else andThen (delete_workbook X disk_path) (\<lambda>_. throw EventNotFound)
                       | None \<Rightarrow> andThen (delete_workbook X disk_path) (\<lambda>_. throw EventNotFound)))))))"

definition pass_answers_now :: "env \<Rightarrow> event \<Rightarrow> registration list \<Rightarrow> (ustring, bool option) dict service" where
  "pass_answers_now X e rows =
     andThen (reads w_users) (\<lambda>users.
       case users of
         None \<Rightarrow> ret []
       | Some us \<Rightarrow>
           if active_keys rows = [] then ret []
           else
             (case xe_key X of
                None \<Rightarrow> throw AssertionError
              | Some key \<Rightarrow>
                  ret (event_pass_preferences key (list_pass_preferences us) (ev_event_id e)
                        (set (active_keys rows)))))"

definition refresh_with_rows :: "env \<Rightarrow> event \<Rightarrow> (event \<times> registration list) service" where
  "refresh_with_rows X e0 =
     andThen (rows_now (ev_event_id e0)) (\<lambda>rows.
     andThen (ensure_public_table X e0 (Some rows) None) (\<lambda>e.
     andThen (pass_answers_now X e rows) (\<lambda>answers.
     andThen (external X (ReplaceShowcase e rows answers) (xe_table_urls X)) (\<lambda>urls.
       case urls of
         None \<Rightarrow> ret (e, rows)
       | Some links \<Rightarrow>
           if \<not> list_ex (\<lambda>(key, _). starts_with (asc ''google:'') key) links then ret (e, rows)
           else
             andThen (on_events X (set_google_table_links (ev_event_id e)
                        (dict_get links (asc ''google:master'')) (dict_get links (asc ''google:public''))
                        None)) (\<lambda>_.
             andThen (find_event (ev_event_id e)) (\<lambda>stored.
               ret (case stored of None \<Rightarrow> e | Some e' \<Rightarrow> e', rows)))))))"

definition refresh :: "env \<Rightarrow> event \<Rightarrow> event service" where
  "refresh X e = andThen (refresh_with_rows X e) (\<lambda>(refreshed, _). ret refreshed)"

definition ensure_migrated :: "env \<Rightarrow> event \<Rightarrow> event service" where
  "ensure_migrated X e =
     (if ev_registrations_migrated_at e \<noteq> None then ret e
      else
        andThen
          (if xe_legacy_imports X
           then andThen (external X (ReadLegacyRegistrations e) (xe_legacy X)) (\<lambda>legacy.
                  on_regs X (\<lambda>_. modifies (import_missing legacy)))
           else ret ()) (\<lambda>_.
        andThen (refresh X e) (\<lambda>refreshed.
        andThen (reading X) (\<lambda>migrated_at.
        andThen (on_events X (\<lambda>_. mark_registrations_migrated (ev_event_id refreshed) migrated_at)) (\<lambda>_.
          ret (refreshed\<lparr>ev_registrations_migrated_at := Some migrated_at\<rparr>))))))"

definition catalog_get :: "env \<Rightarrow> event \<Rightarrow> ustring \<Rightarrow> registration option service" where
  "catalog_get X e key = andThen (ensure_migrated X e) (\<lambda>_. row_now (ev_event_id e) key)"

definition catalog_archive :: "env \<Rightarrow> event \<Rightarrow> unit service" where
  "catalog_archive X e =
     andThen (reading X) (\<lambda>archived_at.
     andThen (on_events X (\<lambda>_. archive_event (ev_event_id e) archived_at)) (\<lambda>_. ret ()))"

text \<open>An empty path is falsy, like an absent one.\<close>

definition path_or :: "ustring option \<Rightarrow> ustring \<Rightarrow> ustring" where
  "path_or path fallback = (case path of None \<Rightarrow> fallback | Some p \<Rightarrow> nonempty_or p fallback)"

definition catalog_delete :: "env \<Rightarrow> event \<Rightarrow> unit service" where
  "catalog_delete X e =
     (let paths = master_table_resource_path e
            # (case ev_public_table_resource_path e of None \<Rightarrow> [] | Some p \<Rightarrow> [p]);
          pass_table_path = path_or (ev_pass_table_resource_path e)
            (asc ''disk:/larp-bot/passes/'' @ ev_event_id e @ asc ''.xlsx'');
          achievement_path = path_or (ev_achievement_resource_path e)
            (asc ''disk:/larp-bot/achievements/'' @ ev_event_id e @ asc ''.pptx'')
      in andThen (gather (map DeleteEventWorkbook (dedup paths)
                           @ [DeletePassTable pass_table_path, DeleteAchievement achievement_path])
                   (\<lambda>c. external X c (\<lambda>_. ()))) (\<lambda>_.
         andThen (on_regs X (\<lambda>_. modifies (delete_for_event (ev_event_id e)))) (\<lambda>_.
         andThen (on_events X (\<lambda>_. delete_event (ev_event_id e))) (\<lambda>_. ret ()))))"

section \<open>Who needs a pass\<close>

definition pass_wanted :: "user \<Rightarrow> pass_details option" where
  "pass_wanted u = (if us_needs_pass (base u) = Some True then us_pass_details (base u) else None)"

definition user_key :: "pkey \<Rightarrow> ustring \<Rightarrow> user \<Rightarrow> ustring" where
  "user_key pkey event_id u = pkey (fst (local_identity u)) (snd (local_identity u)) event_id"

definition event_pass_rows ::
    "pkey \<Rightarrow> ustring \<Rightarrow> registration list \<Rightarrow> user list \<Rightarrow> bot_identity list \<Rightarrow> pass_details list" where
  "event_pass_rows pkey event_id rows user_rows leaders =
     List.map_filter (\<lambda>u.
       case pass_wanted u of
         None \<Rightarrow> None
       | Some details \<Rightarrow>
           if user_key pkey event_id u \<in> set (active_keys rows) \<or> local_identity u \<in> set leaders
           then Some details else None) user_rows"

definition event_pass_profiles ::
    "pkey \<Rightarrow> users \<Rightarrow> event \<Rightarrow> registration list option \<Rightarrow> pass_details list service" where
  "event_pass_profiles pkey us e registration_rows =
     andThen (case registration_rows of None \<Rightarrow> rows_now (ev_event_id e) | Some rows \<Rightarrow> ret rows) (\<lambda>rows.
     andThen (leaders_now (ev_event_id e)) (\<lambda>leaders.
       ret (event_pass_rows pkey (ev_event_id e) rows (list_all_users us) leaders)))"

text \<open>
  The pass table of a day: every person once, by the later of their linked profiles, when one of their
  identities plays or leads a game of the day.  A game of the day is its id, the active keys, its leaders.
\<close>

type_synonym day_game = "ustring \<times> ustring list \<times> bot_identity list"

definition belongs_to_day :: "pkey \<Rightarrow> day_game list \<Rightarrow> bot_identity list \<Rightarrow> bool" where
  "belongs_to_day pkey games identities \<longleftrightarrow>
     list_ex (\<lambda>(event_id, keys, leaders).
       list_ex (\<lambda>i. i \<in> set leaders \<or> pkey (fst i) (snd i) event_id \<in> set keys) identities) games"

fun daily_passes ::
    "pkey \<Rightarrow> users \<Rightarrow> day_game list \<Rightarrow> bot_identity list \<Rightarrow> user list \<Rightarrow> pass_details list" where
  "daily_passes pkey us games seen [] = []"
| "daily_passes pkey us games seen (u # others) =
     (let identities = global_identities us u
      in if list_ex (\<lambda>i. i \<in> set seen) identities then daily_passes pkey us games seen others
         else
           (let rest = daily_passes pkey us games (identities @ seen) others
            in if \<not> belongs_to_day pkey games identities then rest
               else (case pass_wanted (current_profile us u) of
                       None \<Rightarrow> rest
                     | Some details \<Rightarrow> details # rest)))"

definition daily_pass_profiles ::
    "env \<Rightarrow> pkey \<Rightarrow> users \<Rightarrow> date \<Rightarrow> (event list \<times> pass_details list) service" where
  "daily_pass_profiles X pkey us game_date =
     andThen (unarchived_events X) (\<lambda>games.
       let of_the_day = filter (\<lambda>e. ev_game_date e = Some game_date) games
       in if of_the_day = [] then ret ([], [])
          else
            andThen (gather of_the_day (ensure_migrated X)) (\<lambda>day_events.
            andThen (gather day_events (\<lambda>e. rows_now (ev_event_id e))) (\<lambda>registration_rows.
            andThen (gather day_events (\<lambda>e. leaders_now (ev_event_id e))) (\<lambda>leader_rows.
              let day_games = zip (map ev_event_id day_events)
                                (zip (map active_keys registration_rows) leader_rows)
              in ret (day_events, daily_passes pkey us day_games [] (list_all_users us))))))"

section \<open>Laws of the store\<close>

text \<open>
  Rows read from a legacy workbook have no place in the queue of an answer: the additional question
  came later than the workbooks.
\<close>

definition legacy_plain :: "env \<Rightarrow> bool" where
  "legacy_plain X \<longleftrightarrow> (\<forall>calls. \<forall>row\<in>set (xe_legacy X calls). rg_answer_queue_at row = None)"

text \<open>
  The catalog itself only imports, attaches tables and marks games as migrated: a law that just these
  keep is enough for it.
\<close>

locale catalog_law =
  fixes P :: "events \<Rightarrow> regs \<Rightarrow> publisher \<Rightarrow> bool"
  assumes public_table_law: "P ev rg q \<Longrightarrow> P (snd (set_public_table k v u g t ev)) rg q"
    and google_law: "P ev rg q \<Longrightarrow> P (snd (set_google_table_links k a b g t ev)) rg q"
    and migrated_law: "P ev rg q \<Longrightarrow> P (snd (mark_registrations_migrated k t ev)) rg q"
    and import_law: "(\<And>row. row \<in> set rows \<Longrightarrow> rg_answer_queue_at row = None) \<Longrightarrow> P ev rg q \<Longrightarrow>
      P ev (import_missing rows rg) q"
begin

lemma keeps_ensure_public_table: "keeps (about_store P) (ensure_public_table X e rows who)"
  unfolding ensure_public_table_def delete_workbook_def
  by (intro keeps_intros keeps_on_events public_table_law)

lemma keeps_pass_answers: "keeps (about_store P) (pass_answers_now X e rows)"
  unfolding pass_answers_now_def by (intro keeps_intros)

lemma keeps_refresh_with_rows: "keeps (about_store P) (refresh_with_rows X e)"
  unfolding refresh_with_rows_def
  by (intro keeps_intros keeps_ensure_public_table keeps_pass_answers keeps_on_events google_law)

lemma keeps_refresh: "keeps (about_store P) (refresh X e)"
  unfolding refresh_def by (intro keeps_intros keeps_refresh_with_rows)

lemma keeps_import:
  assumes "legacy_plain X"
  shows "keeps (about_store P) (andThen (external X c (xe_legacy X)) (\<lambda>legacy.
           on_regs X (\<lambda>_. modifies (import_missing legacy))))"
  using assms by (intro keeps_external_then keeps_on_regs) (simp add: legacy_plain_def import_law)

lemma keeps_ensure_migrated: "legacy_plain X \<Longrightarrow> keeps (about_store P) (ensure_migrated X e)"
  unfolding ensure_migrated_def
  by (intro keeps_if keeps_andThen keeps_import keeps_refresh keeps_on_events migrated_law keeps_ret
      keeps_reading)

lemma keeps_catalog_get: "legacy_plain X \<Longrightarrow> keeps (about_store P) (catalog_get X e key)"
  unfolding catalog_get_def by (intro keeps_intros keeps_ensure_migrated)

lemma keeps_daily_pass_profiles:
  "legacy_plain X \<Longrightarrow> keeps (about_store P) (daily_pass_profiles X pkey us d)"
  unfolding daily_pass_profiles_def by (intro keeps_intros keeps_ensure_migrated)

lemma keeps_event_pass_profiles: "keeps (about_store P) (event_pass_profiles pkey us e rows)"
  unfolding event_pass_profiles_def by (intro keeps_intros)

end

sublocale store_law \<subseteq> catalog_law
  by unfold_locales (auto intro: event_law event_step.intros reg_law reg_step.intros)

context store_law
begin

lemma keeps_catalog_archive: "keeps (about_store P) (catalog_archive X e)"
  unfolding catalog_archive_def by (intro keeps_intros keeps_events event_step.intros)

lemma keeps_catalog_delete: "keeps (about_store P) (catalog_delete X e)"
  unfolding catalog_delete_def
  by (intro keeps_intros keeps_events keeps_regs event_step.intros) (simp add: reg_step.delete)

end

text \<open>Attaching tables and marking games as migrated does not change which games are listed.\<close>

definition same_place :: "event \<Rightarrow> event \<Rightarrow> bool" where
  "same_place e e' \<longleftrightarrow> event_cursor e' = event_cursor e \<and> ev_archived_at e' = ev_archived_at e"

lemma event_validate_place: "event_validate e = Some e' \<Longrightarrow> same_place e e'"
  by (auto simp: event_validate_def same_place_def event_cursor_def split: if_splits option.splits)

lemma listing_update_event:
  assumes "\<And>e. same_place e (snd (f e))"
  shows "listing (snd (update_event k m f r)) = listing r"
proof (cases "get_event k r")
  case (Some e)
  have "map (\<lambda>(k, e). (event_cursor e, ev_archived_at e = None)) (dict_put k e' d) =
      map (\<lambda>(k, e). (event_cursor e, ev_archived_at e = None)) d"
    if "dict_get d k = Some e" and "same_place e e'" for d e'
    using that by (induction d) (auto simp: dict_get_def dict_put_def same_place_def split: if_splits)
  with Some assms[of e] show ?thesis
    by (simp add: update_event_def split_beta put_event_def listing_def get_event_def)
qed (simp add: update_event_def)

lemma same_place_refl: "same_place e e"
  by (simp add: same_place_def)

lemma revalidate_place:
  assumes "event_cursor e' = event_cursor e" and "ev_archived_at e' = ev_archived_at e"
  shows "same_place e (snd (revalidate e e'))"
  using event_validate_place[of e'] assms
  by (auto simp: revalidate_def same_place_def split: option.splits)

interpretation listed_games: catalog_law "games_listed L" for L
proof
  fix ev rg q k v u g a b t rows
  show "games_listed L (snd (set_public_table k v u g t ev)) rg q" if "games_listed L ev rg q"
    using that unfolding games_listed_def set_public_table_def
    by (subst listing_update_event) (auto intro!: revalidate_place same_place_refl simp: touch_def event_cursor_def)
  show "games_listed L (snd (set_google_table_links k a b g t ev)) rg q" if "games_listed L ev rg q"
    using that unfolding games_listed_def set_google_table_links_def
    by (subst listing_update_event) (auto intro!: revalidate_place same_place_refl simp: touch_def event_cursor_def)
  show "games_listed L (snd (mark_registrations_migrated k t ev)) rg q" if "games_listed L ev rg q"
    using that unfolding games_listed_def mark_registrations_migrated_def
    by (subst listing_update_event) (auto simp: same_place_def touch_def event_cursor_def)
  show "games_listed L ev (import_missing rows rg) q" if "games_listed L ev rg q"
    using that by (simp add: games_listed_def)
qed

section \<open>The catalog comes to an end\<close>

lemma settles_catalog [settles_intros]:
  "settles (ensure_public_table X e rows who)" "settles (pass_answers_now X e rows')"
  "settles (catalog_archive X e)" "settles (event_pass_profiles pkey us e rows)"
  unfolding ensure_public_table_def delete_workbook_def pass_answers_now_def catalog_archive_def
    event_pass_profiles_def
  by (intro settles_intros; simp)+

lemma settles_catalog_delete [settles_intros]: "settles (catalog_delete X e)"
  unfolding catalog_delete_def Let_def
  by (intro settles_intros settles_calls(2)) (auto simp: queue_call_def)

lemma settles_refresh [settles_intros]:
  "settles (refresh_with_rows X e)" "settles (refresh X e)"
  unfolding refresh_def refresh_with_rows_def by (intro settles_intros)+

lemma settles_migrated [settles_intros]:
  "settles (ensure_migrated X e)" "settles (catalog_get X e key)"
  unfolding catalog_get_def ensure_migrated_def by (intro settles_intros)+

lemma settles_daily [settles_intros]: "settles (daily_pass_profiles X pkey us d)"
  unfolding daily_pass_profiles_def by (intro settles_intros)

end
