(* ===== verification/Services.thy ===== *)
theory Services
  imports Catalog
begin

text \<open>
  The player-facing services of \<open>application/registration_services.py\<close>: which of a person's
  registrations counts, their registrations of a day, the menus and pages, and \<open>RegistrationService\<close>,
  which turns a request into an ordered command.  \<open>pkey\<close> is \<open>RegistrationService.key\<close>.
\<close>

section \<open>The registration that counts\<close>

definition status_rank :: "attendance_status \<Rightarrow> nat" where
  "status_rank s = (case s of CANCELLED \<Rightarrow> 0 | WAITING \<Rightarrow> 1 | CONFIRMED \<Rightarrow> 2)"

definition effective_registration :: "registration list \<Rightarrow> registration option" where
  "effective_registration available =
     (case available of
        [] \<Rightarrow> None
      | r # rs \<Rightarrow>
          (let highest = foldl max (status_rank (rg_attendance_status r))
                           (map (\<lambda>row. status_rank (rg_attendance_status row)) rs)
           in Some (hd (sort_key registration_cursor
                (filter (\<lambda>row. status_rank (rg_attendance_status row) = highest) available)))))"

definition present :: "'a option list \<Rightarrow> 'a list" where
  "present xs = List.map_filter (\<lambda>x. x) xs"

definition registrations_of :: "env \<Rightarrow> pkey \<Rightarrow> event \<Rightarrow> bot_identity list \<Rightarrow> registration list service" where
  "registrations_of X pkey e identities =
     andThen (gather identities (\<lambda>i. catalog_get X e (pkey (fst i) (snd i) (ev_event_id e)))) (\<lambda>found.
       ret (present found))"

section \<open>The registrations of a day\<close>

definition day_candidates :: "date \<Rightarrow> ustring option \<Rightarrow> event option \<Rightarrow> event list \<Rightarrow> event list" where
  "day_candidates game_date exclude_event_id conflicts_with page =
     filter (\<lambda>e. ev_game_date e = Some game_date \<and> exclude_event_id \<noteq> Some (ev_event_id e)
        \<and> (case conflicts_with of None \<Rightarrow> True | Some other \<Rightarrow> confirmation_times_conflict other e)) page"

definition accepted_rows ::
    "attendance_status list \<Rightarrow> (event \<times> registration list) list \<Rightarrow> (event \<times> registration) list" where
  "accepted_rows statuses groups =
     List.map_filter (\<lambda>(e, rows).
       case effective_registration rows of
         None \<Rightarrow> None
       | Some r \<Rightarrow> if rg_attendance_status r \<in> set statuses then Some (e, r) else None) groups"

definition player_registrations_on_date ::
    "env \<Rightarrow> pkey \<Rightarrow> platform \<Rightarrow> int \<Rightarrow> date \<Rightarrow> attendance_status list \<Rightarrow> ustring option
       \<Rightarrow> bot_identity list \<Rightarrow> event option \<Rightarrow> (event \<times> registration) list service" where
  "player_registrations_on_date X pkey p i game_date statuses exclude_event_id identities conflicts_with =
     (let local_identities = (if identities = [] then [(p, i)] else identities)
      in all_pages X MAX_EVENT_PAGE_SIZE (\<lambda>page matches.
           let dated_events = day_candidates game_date exclude_event_id conflicts_with page
           in andThen (gather dated_events (\<lambda>e. registrations_of X pkey e local_identities)) (\<lambda>groups.
                ret (matches @ accepted_rows statuses (zip dated_events groups))))
         (\<lambda>_. False) [])"

section \<open>Reading services\<close>

definition require_event :: "ustring \<Rightarrow> event service" where
  "require_event event_id =
     andThen (find_event event_id) (\<lambda>found. case found of None \<Rightarrow> throw EventNotFound | Some e \<Rightarrow> ret e)"

definition get_registration ::
    "env \<Rightarrow> pkey \<Rightarrow> ustring \<Rightarrow> platform \<Rightarrow> int \<Rightarrow> registration option service" where
  "get_registration X pkey event_id p i =
     andThen (require_event event_id) (\<lambda>e.
     andThen (identities_now p i) (\<lambda>identities.
     andThen (registrations_of X pkey e identities) (\<lambda>rows. ret (effective_registration rows))))"

definition remember_telegram_member :: "env \<Rightarrow> int \<Rightarrow> ustring option \<Rightarrow> unit service" where
  "remember_telegram_member X user_id handle =
     andThen (reads w_users) (\<lambda>users.
       case (users, handle) of
         (Some us, Some h) \<Rightarrow>
           (case users_get TELEGRAM user_id us of
              None \<Rightarrow>
                andThen (reading X) (\<lambda>now.
                  case user_validate (TelegramUser (new_user_base now) user_id None None (Some h)) of
                    None \<Rightarrow> throw ValueError
                  | Some u \<Rightarrow> on_users X (\<lambda>_. modifies (save_user u)))
            | Some u \<Rightarrow>
                if is_TelegramUser u \<and> telegram_handle u \<noteq> Some h
                then on_users X (update_telegram_handle user_id h) else ret ())
       | _ \<Rightarrow> ret ())"

definition get_registration_for_telegram_member ::
    "env \<Rightarrow> pkey \<Rightarrow> ustring \<Rightarrow> int \<Rightarrow> ustring option \<Rightarrow> registration option service" where
  "get_registration_for_telegram_member X pkey event_id user_id username =
     andThen (get_registration X pkey event_id TELEGRAM user_id) (\<lambda>direct.
       case normalize_telegram_handle username of
         None \<Rightarrow> throw ValueError
       | Some handle \<Rightarrow>
           (case direct of
              Some r \<Rightarrow> andThen (remember_telegram_member X user_id handle) (\<lambda>_. ret (Some r))
            | None \<Rightarrow>
                (case handle of
                   None \<Rightarrow> ret None
                 | Some h \<Rightarrow>
                     andThen (reads (\<lambda>w. find_by_telegram_profile h (w_regs w))) (\<lambda>rows.
                       case effective_registration (filter (\<lambda>r. rg_event_id r = event_id) rows) of
                         None \<Rightarrow> ret None
                       | Some r \<Rightarrow>
                           andThen (remember_telegram_member X user_id handle) (\<lambda>_. ret (Some r))))))"

definition registrations_on_date ::
    "env \<Rightarrow> pkey \<Rightarrow> platform \<Rightarrow> int \<Rightarrow> date \<Rightarrow> attendance_status list \<Rightarrow> ustring option \<Rightarrow> event option
       \<Rightarrow> (event \<times> registration) list service" where
  "registrations_on_date X pkey p i game_date statuses exclude_event_id conflicts_with =
     andThen (identities_now p i) (\<lambda>identities.
       player_registrations_on_date X pkey p i game_date statuses exclude_event_id identities conflicts_with)"

text \<open>The menu: whether the person plays anywhere and whether there is anything left to sign up for.\<close>

definition open_for_signup :: "time \<Rightarrow> event \<Rightarrow> bool" where
  "open_for_signup now e \<longleftrightarrow> ev_status e \<in> {CREATED, CONFIRMATION_OPEN} \<and> registration_is_open e now"

definition menu_row ::
    "time \<Rightarrow> bool \<times> bool \<Rightarrow> event \<times> registration option \<Rightarrow> bool \<times> bool" where
  "menu_row now acc row =
     (case (acc, row) of
        ((has_registrations, has_available), (e, registration)) \<Rightarrow>
          if \<exists>r\<in>set_option registration. is_active r then (True, has_available)
          else if open_for_signup now e then (has_registrations, True)
          else (has_registrations, has_available))"

definition game_menu_availability :: "env \<Rightarrow> pkey \<Rightarrow> platform \<Rightarrow> int \<Rightarrow> (bool \<times> bool) service" where
  "game_menu_availability X pkey p i =
     andThen (identities_now p i) (\<lambda>identities.
     andThen (reading X) (\<lambda>now.
       all_pages X MAX_EVENT_PAGE_SIZE (\<lambda>page acc.
         let candidates = filter (\<lambda>e. \<not> fst acc \<or> (\<not> snd acc \<and> open_for_signup now e)) page
         in andThen (gather candidates (\<lambda>e.
                andThen (gather identities (\<lambda>who. row_now (ev_event_id e) (pkey (fst who) (snd who) (ev_event_id e))))
                  (\<lambda>rows. ret (effective_registration (present rows))))) (\<lambda>registrations.
              ret (foldl (menu_row now) acc (zip candidates registrations))))
         (\<lambda>acc. fst acc \<and> snd acc) (False, False)))"

record game_participation =
  gp_registration :: "registration option"
  gp_is_leader :: bool

definition participation ::
    "env \<Rightarrow> pkey \<Rightarrow> event \<Rightarrow> platform \<Rightarrow> int \<Rightarrow> bot_identity list \<Rightarrow> game_participation option service" where
  "participation X pkey e p i given =
     andThen (if given \<noteq> [] then ret given else identities_now p i) (\<lambda>identities.
     andThen (registrations_of X pkey e identities) (\<lambda>rows.
     andThen (leaders_now (ev_event_id e)) (\<lambda>leaders.
       let registration = (case effective_registration rows of
             None \<Rightarrow> None
           | Some r \<Rightarrow> if rg_attendance_status r = CANCELLED then None else Some r);
           is_leader = list_ex (\<lambda>who. who \<in> set leaders) identities
       in ret (if registration = None \<and> \<not> is_leader then None
               else Some \<lparr>gp_registration = registration, gp_is_leader = is_leader\<rparr>))))"

definition participating_games_page ::
    "env \<Rightarrow> pkey \<Rightarrow> platform \<Rightarrow> int \<Rightarrow> cursor option \<Rightarrow> cursor option \<Rightarrow> nat \<Rightarrow> nat \<Rightarrow> event_page service" where
  "participating_games_page X pkey p i after before event_limit concurrency =
     andThen (identities_now p i) (\<lambda>identities.
       event_page X (\<lambda>e. andThen (participation X pkey e p i identities) (\<lambda>found. ret (found \<noteq> None)))
         None (Some False) after before event_limit concurrency)"

record game_overview =
  go_participation :: game_participation
  go_in_main_roster :: bool
  go_chat_links :: "ustring list"

definition game_overview :: "env \<Rightarrow> pkey \<Rightarrow> event \<Rightarrow> platform \<Rightarrow> int \<Rightarrow> game_overview option service" where
  "game_overview X pkey e p i =
     andThen (participation X pkey e p i []) (\<lambda>found.
       case found of
         None \<Rightarrow> ret None
       | Some part \<Rightarrow>
           andThen (case gp_registration part of
               None \<Rightarrow> ret (False, False)
             | Some r \<Rightarrow>
                 andThen (rows_now (ev_event_id e)) (\<lambda>rows.
                   ret (rg_participant_key r \<in> set (map rg_participant_key (active_main_roster rows e)),
                        rg_participant_key r \<in> chat_link_recipient_keys rows e))) (\<lambda>(in_main, receives_links).
             ret (Some \<lparr>go_participation = part, go_in_main_roster = in_main,
                       go_chat_links = (if gp_is_leader part \<or> receives_links
                         then dedup (filter is_plain_chat_link (ev_confirmed_notifications e)) else [])\<rparr>)))"

section \<open>Queueing commands\<close>

definition administrative_operations :: "operation list" where
  "administrative_operations =
     [REFRESH_EVENT_TABLES, OPEN_REGISTRATION, OPEN_CONFIRMATION, SEND_CONFIRMATION_REMINDER,
      SEND_CONFIRMED_NOTIFICATION, SEND_ALL_PLAYERS_NOTIFICATION, UPDATE_EVENT_DETAILS, UPDATE_QUESTION,
      UPDATE_PLAYER_AMOUNT, REMOVE_PARTICIPANT, REMOVE_WAITING_PARTICIPANTS, PROMOTE_RESERVE_PARTICIPANT,
      CLOSE_EVENT, ARCHIVE_EVENT, UNARCHIVE_EVENT, DELETE_EVENT]"

definition targeted_operations :: "operation list" where
  "targeted_operations = [REMOVE_PARTICIPANT, PROMOTE_RESERVE_PARTICIPANT]"

definition request_id_text :: "platform \<Rightarrow> int \<Rightarrow> ustring \<Rightarrow> ustring" where
  "request_id_text p i idempotency_key = asc ''larp-bot:'' @ identity_text p i @ [58] @ idempotency_key"

definition operation_id_for :: "env \<Rightarrow> platform \<Rightarrow> int \<Rightarrow> ustring option \<Rightarrow> ustring service" where
  "operation_id_for X p i idempotency_key =
     (if idempotency_key = None \<or> idempotency_key = Some [] then fresh_id X
      else ret (xe_uuid5 X (request_id_text p i (the idempotency_key))))"

definition identity_group_text :: "bot_identity list \<Rightarrow> ustring" where
  "identity_group_text identities =
     join_with 58 (map (\<lambda>(p, i). identity_text p i) (sort_key (\<lambda>i. i) identities))"

text \<open>Whose registration the command is about.\<close>

definition command_participant ::
    "env \<Rightarrow> pkey \<Rightarrow> operation \<Rightarrow> event \<Rightarrow> ustring \<Rightarrow> platform \<Rightarrow> int \<Rightarrow> ustring option \<Rightarrow> ustring option service" where
  "command_participant X pkey operation e event_id p i target =
     (if operation \<in> set targeted_operations then
        (case target of None \<Rightarrow> throw ValueError | Some key \<Rightarrow> ret (Some key))
      else if target \<noteq> None then throw ValueError
      else if operation \<notin> set administrative_operations then
        (if operation \<in> {ENLIST, UPDATE_PROFILE} then ret (Some (pkey p i event_id))
         else
           andThen (identities_now p i) (\<lambda>identities.
           andThen (registrations_of X pkey e identities) (\<lambda>rows.
             ret (Some (case effective_registration rows of
                          None \<Rightarrow> pkey p i event_id
                        | Some r \<Rightarrow> rg_participant_key r)))))
      else ret None)"

definition signup_allowed :: "env \<Rightarrow> operation \<Rightarrow> event \<Rightarrow> unit service" where
  "signup_allowed X operation e =
     (if operation \<noteq> ENLIST then ret ()
      else if ev_status e = CLOSED then throw (OperationNotAllowed RegistrationClosed)
      else andThen (reading X) (\<lambda>now.
             unless_throw (registration_is_open e now) (OperationNotAllowed RegistrationNotOpenYet)))"

definition enqueue ::
    "env \<Rightarrow> pkey \<Rightarrow> operation \<Rightarrow> ustring \<Rightarrow> platform \<Rightarrow> int \<Rightarrow> payload \<Rightarrow> reply_context \<Rightarrow> ustring option
       \<Rightarrow> ustring option \<Rightarrow> command service" where
  "enqueue X pkey operation event_id p i payload reply idempotency_key target =
     andThen (require_event event_id) (\<lambda>e.
     andThen (signup_allowed X operation e) (\<lambda>_.
     andThen (command_participant X pkey operation e event_id p i target) (\<lambda>participant.
     andThen (if operation = CONFIRM then andThen (identities_now p i) (\<lambda>ids. ret (Some (identity_group_text ids)))
              else ret None) (\<lambda>identity_group.
     andThen (operation_id_for X p i idempotency_key) (\<lambda>operation_id.
     andThen (reading X) (\<lambda>created_at.
       publishes
         \<lparr>cm_operation_id = operation_id, cm_event_id = event_id, cm_operation = operation,
          cm_platform = p, cm_platform_user_id = i, cm_participant_key = participant,
          cm_identity_group = identity_group, cm_payload = payload, cm_reply_context = reply,
          cm_created_at = created_at\<rparr>))))))"

definition enqueue_profile_sync ::
    "env \<Rightarrow> platform \<Rightarrow> int \<Rightarrow> ustring list \<Rightarrow> ustring \<Rightarrow> command service" where
  "enqueue_profile_sync X p i names idempotency_key =
     andThen (reading X) (\<lambda>created_at.
       publishes
         \<lparr>cm_operation_id = xe_uuid5 X (request_id_text p i idempotency_key),
          cm_event_id = profile_group p i, cm_operation = SYNC_PROFILE, cm_platform = p,
          cm_platform_user_id = i, cm_participant_key = None, cm_identity_group = None,
          cm_payload = ProfileSyncPayload names, cm_reply_context = empty_reply,
          cm_created_at = created_at\<rparr>)"

text \<open>A refreshed profile is projected to every unarchived game its owner plays or leads.\<close>

definition participating_identities ::
    "env \<Rightarrow> pkey \<Rightarrow> bot_identity list \<Rightarrow> event \<Rightarrow> (event \<times> bot_identity list) service" where
  "participating_identities X pkey identities e =
     andThen (ensure_migrated X e) (\<lambda>_.
     andThen (gather identities (\<lambda>who. row_now (ev_event_id e) (pkey (fst who) (snd who) (ev_event_id e)))) (\<lambda>rows.
     andThen (leaders_now (ev_event_id e)) (\<lambda>leaders.
       ret (e, map fst (filter (\<lambda>(who, row). row \<noteq> None \<or> who \<in> set leaders) (zip identities rows))))))"

definition enqueue_profile_updates ::
    "env \<Rightarrow> pkey \<Rightarrow> platform \<Rightarrow> int \<Rightarrow> ustring \<Rightarrow> nat \<Rightarrow> ustring list \<Rightarrow> nat service" where
  "enqueue_profile_updates X pkey p i idempotency_key page_size excluded_event_ids =
     andThen (identities_now p i) (\<lambda>identities.
       all_pages X page_size (\<lambda>page queued.
         andThen (gather (filter (\<lambda>e. ev_event_id e \<notin> set excluded_event_ids) page)
                    (participating_identities X pkey identities)) (\<lambda>participations.
         andThen (forEach (concat (map (\<lambda>(e, whos). map (\<lambda>who. (e, who)) whos) participations)) (\<lambda>(e, who).
                    enqueue X pkey UPDATE_PROFILE (ev_event_id e) (fst who) (snd who) EmptyPayload empty_reply
                      (Some (idempotency_key @ asc '':UPDATE_PROFILE:'' @ ev_event_id e)) None)) (\<lambda>commands.
           ret (queued + length commands))))
         (\<lambda>_. False) 0)"

fun profile_links :: "user \<Rightarrow> ustring \<times> ustring option" where
  "profile_links (TelegramUser b i v l h) =
     (case v of None \<Rightarrow> [] | Some url \<Rightarrow> url,
      map_option (\<lambda>handle. asc ''https://t.me/'' @ remove_prefix (asc ''@'') handle) h)"
| "profile_links (VkUser b i h) =
     (asc ''https://vk.com/id'' @ show_int i,
      map_option (\<lambda>handle. asc ''https://t.me/'' @ remove_prefix (asc ''@'') handle) h)"

definition profile_view_of :: "user \<Rightarrow> ustring \<Rightarrow> profile_view" where
  "profile_view_of u full_name =
     \<lparr>pv_display_name = surname_and_name full_name, pv_nickname = us_nickname (base u),
      pv_larp_experience = Some (us_larp_experience (base u) = Some True),
      pv_crossplay = Some (us_crossplay (base u) = Some True),
      pv_vk_profile = fst (profile_links u), pv_telegram_profile = snd (profile_links u)\<rparr>"

definition project_profile :: "env \<Rightarrow> pkey \<Rightarrow> event \<Rightarrow> ustring \<Rightarrow> user \<Rightarrow> nat service" where
  "project_profile X pkey e operation_id u =
     (case us_full_name (base u) of
        None \<Rightarrow> ret 0
      | Some full_name \<Rightarrow>
          if \<not> profile_complete u then ret 0
          else
            (let (p, i) = local_identity u;
                 key = pkey p i (ev_event_id e);
                 projection_id = xe_uuid5 X (asc ''larp-bot:'' @ operation_id @ asc '':profile-projection:''
                   @ identity_text p i @ [58] @ ev_event_id e)
             in andThen (row_now (ev_event_id e) key) (\<lambda>row.
                  if row = None then ret 0
                  else andThen (on_regs X (\<lambda>clk. update_profile_row (ev_event_id e) projection_id key
                                  (profile_view_of u full_name) (clk 0))) (\<lambda>_. ret 1))))"

definition project_profiles_for_event ::
    "env \<Rightarrow> pkey \<Rightarrow> ustring \<Rightarrow> user list \<Rightarrow> ustring \<Rightarrow> nat service" where
  "project_profiles_for_event X pkey event_id user_rows operation_id =
     andThen (require_event event_id) (\<lambda>e.
     andThen (ensure_migrated X e) (\<lambda>_.
     andThen (forEach user_rows (project_profile X pkey e operation_id)) (\<lambda>projected.
       ret (sum_list projected))))"

section \<open>What the services keep, and that they end\<close>

context catalog_law
begin

lemma keeps_registrations_of: "legacy_plain X \<Longrightarrow> keeps (about_store P) (registrations_of X pkey e ids)"
  unfolding registrations_of_def by (intro keeps_intros keeps_catalog_get)

lemma keeps_player_registrations:
  "legacy_plain X \<Longrightarrow> keeps (about_store P) (player_registrations_on_date X pkey p i d sts ex ids other)"
  unfolding player_registrations_on_date_def by (intro keeps_intros keeps_registrations_of)

end

context store_law
begin

lemma keeps_require_event: "keeps (about_store P) (require_event event_id)"
  unfolding require_event_def by (intro keeps_intros)

lemma keeps_enqueue:
  "legacy_plain X \<Longrightarrow>
     keeps (about_store P) (enqueue X pkey operation event_id p i payload reply idempotency_key target)"
  unfolding enqueue_def signup_allowed_def command_participant_def operation_id_for_def
  by (intro keeps_intros keeps_require_event keeps_registrations_of keeps_publishes)

lemma keeps_project_profiles:
  "legacy_plain X \<Longrightarrow>
     keeps (about_store P) (project_profiles_for_event X pkey event_id user_rows operation_id)"
  unfolding project_profiles_for_event_def project_profile_def
  by (intro keeps_intros keeps_require_event keeps_ensure_migrated keeps_regs reg_step.intros)

lemma keeps_profile_updates:
  "legacy_plain X \<Longrightarrow> keeps (about_store P) (enqueue_profile_updates X pkey p i key n excluded)"
  unfolding enqueue_profile_updates_def participating_identities_def
  by (intro keeps_intros keeps_ensure_migrated keeps_enqueue)

end

lemma legacy_plain_exists: "legacy_plain (X\<lparr>xe_legacy := \<lambda>_. []\<rparr>)"
  by (simp add: legacy_plain_def)

lemma settles_registrations_of [settles_intros]: "settles (registrations_of X pkey e ids)"
  unfolding registrations_of_def by (intro settles_intros)

lemma settles_player_registrations [settles_intros]:
  "legacy_plain X \<Longrightarrow> settles (player_registrations_on_date X pkey p i d sts ex ids other)"
  unfolding player_registrations_on_date_def
  by (intro settles_intros settles_all_pages keeps_intros listed_games.keeps_registrations_of)

lemma settles_game_menu: "settles (game_menu_availability X pkey p i)"
  unfolding game_menu_availability_def by (intro settles_intros settles_all_pages keeps_intros)

lemma settles_enqueue [settles_intros]:
  "settles (enqueue X pkey operation event_id p i payload reply idempotency_key target)"
  unfolding enqueue_def require_event_def signup_allowed_def command_participant_def operation_id_for_def
  by (intro settles_intros; simp)

lemma publishes_keeps_listing: "keeps (about_store (games_listed L)) (publishes c)"
  unfolding publishes_def enqueues_def
  by (intro keeps_intros) (simp add: keeps_def about_store_def games_listed_def)

lemma settles_profile_updates:
  assumes "legacy_plain X"
  shows "settles (enqueue_profile_updates X pkey p i key n excluded)"
proof -
  have quiet: "keeps (about_store (games_listed L))
      (enqueue X pkey operation event_id p' i' payload reply idempotency_key target)"
    for L operation event_id p' i' payload reply idempotency_key target
    unfolding enqueue_def require_event_def signup_allowed_def command_participant_def operation_id_for_def
    by (intro keeps_intros listed_games.keeps_registrations_of publishes_keeps_listing assms)
  show ?thesis
    unfolding enqueue_profile_updates_def participating_identities_def
    by (intro settles_intros settles_all_pages keeps_intros listed_games.keeps_ensure_migrated quiet assms)
qed

section \<open>One view of a person's registrations\<close>

lemma foldl_max_mset: "foldl max (f r) (map f rs) = Max (f ` set (r # rs))" for f :: "'a \<Rightarrow> nat"
proof (induction rs rule: rev_induct)
  case (snoc x xs)
  have "Max (insert (f x) (f ` set (r # xs))) = max (f x) (Max (f ` set (r # xs)))"
    by (rule Max_insert) simp_all
  with snoc show ?case by (simp add: max.commute insert_commute)
qed simp

definition top_rank :: "registration list \<Rightarrow> nat" where
  "top_rank rows = Max ((\<lambda>row. status_rank (rg_attendance_status row)) ` set rows)"

lemma effective_registration_eq:
  "rows \<noteq> [] \<Longrightarrow> effective_registration rows =
     Some (hd (sort_key registration_cursor
       (filter (\<lambda>row. status_rank (rg_attendance_status row) = top_rank rows) rows)))"
  by (cases rows)
    (simp_all only: effective_registration_def list.case Let_def top_rank_def
      foldl_max_mset[of "\<lambda>row. status_rank (rg_attendance_status row)", symmetric] simp_thms)

lemma top_rows_nonempty:
  assumes "rows \<noteq> []"
  shows "filter (\<lambda>row. status_rank (rg_attendance_status row) = top_rank rows) rows \<noteq> []"
proof -
  have "top_rank rows \<in> (\<lambda>row. status_rank (rg_attendance_status row)) ` set rows"
    unfolding top_rank_def using assms by (intro Max_in) simp_all
  then show ?thesis by (auto simp: filter_empty_conv)
qed

lemma hd_sort_key_least: "xs \<noteq> [] \<Longrightarrow> x \<in> set xs \<Longrightarrow> f (hd (sort_key f xs)) \<le> f x"
proof -
  assume xs: "xs \<noteq> []" "x \<in> set xs"
  then obtain y ys where ys: "sort_key f xs = y # ys" by (cases "sort_key f xs") (auto dest: arg_cong[of _ _ set])
  have "sorted (map f (y # ys))" using sorted_sort_key[of f xs] ys by simp
  moreover have "x \<in> set (y # ys)" using xs(2) ys by (metis set_sort)
  ultimately show ?thesis using ys by auto
qed

text \<open>
  C38. Of the registrations a person has for a game under their linked profiles, the one that counts has
  the strongest status (confirmed before waiting before cancelled) and is the earliest of those, so it
  is cancelled only when all of them are; and it does not matter from which of the linked profiles the
  registrations are listed.
\<close>

theorem effective_registration_counts:
  assumes "rows \<noteq> []" and "mset rows' = mset rows" and "distinct (map rg_participant_key rows)"
  shows "\<exists>r\<in>set rows. effective_registration rows = Some r \<and> effective_registration rows' = Some r
           \<and> (\<forall>row\<in>set rows. status_rank (rg_attendance_status row) \<le> status_rank (rg_attendance_status r)
                \<and> (rg_attendance_status row = rg_attendance_status r \<longrightarrow>
                     registration_cursor r \<le> registration_cursor row))
           \<and> (rg_attendance_status r = CANCELLED \<longrightarrow>
                (\<forall>row\<in>set rows. rg_attendance_status row = CANCELLED))"
proof -
  let ?top = "\<lambda>rows. filter (\<lambda>row. status_rank (rg_attendance_status row) = top_rank rows) rows"
  let ?r = "hd (sort_key registration_cursor (?top rows))"
  have set': "set rows' = set rows" using assms(2) by (metis set_mset_mset)
  have "inj_on registration_cursor (set (?top rows))"
    using assms(3) by (auto simp: inj_on_def registration_cursor_def distinct_map)
  then have same: "sort_key registration_cursor (?top rows) = sort_key registration_cursor (?top rows')"
    using assms(2) by (intro sort_key_mset) (simp_all add: mset_filter top_rank_def set')
  have ne: "?top rows \<noteq> []" using assms(1) by (rule top_rows_nonempty)
  then have in_top: "?r \<in> set (?top rows)"
    by (metis hd_in_set set_sort sort_key_simps(1) length_0_conv length_sort)
  have eff: "effective_registration rows = Some ?r" using assms(1) by (rule effective_registration_eq)
  have "rows' \<noteq> []" using assms(1) set' by auto
  then have eff': "effective_registration rows' = Some ?r"
    unfolding same by (rule effective_registration_eq)
  have rank: "status_rank (rg_attendance_status row) \<le> status_rank (rg_attendance_status ?r)"
    if "row \<in> set rows" for row
  proof -
    have "status_rank (rg_attendance_status row) \<le> top_rank rows"
      unfolding top_rank_def using that by (intro Max_ge) simp_all
    with in_top show ?thesis by simp
  qed
  have first: "registration_cursor ?r \<le> registration_cursor row"
    if "row \<in> set rows" "rg_attendance_status row = rg_attendance_status ?r" for row
    using that in_top ne by (intro hd_sort_key_least) simp_all
  have cancelled: "rg_attendance_status row = CANCELLED"
    if "row \<in> set rows" "rg_attendance_status ?r = CANCELLED" for row
    using rank[OF that(1)] that(2) by (cases "rg_attendance_status row") (simp_all add: status_rank_def)
  have mem: "?r \<in> set rows" using in_top by (simp only: set_filter mem_Collect_eq)
  show ?thesis
    by (intro bexI[of _ ?r] conjI ballI impI;
        (rule eff | rule eff' | rule mem | erule rank | erule (1) first | erule (1) cancelled))
qed

theorem effective_registration_counts_witness:
  "\<exists>r\<in>set [sample_registration [2] 20 WAITING, sample_registration [3] 5 CANCELLED].
     effective_registration [sample_registration [3] 5 CANCELLED, sample_registration [2] 20 WAITING] = Some r"
proof -
  let ?rows = "[sample_registration [2] 20 WAITING, sample_registration [3] 5 CANCELLED]"
  let ?other = "[sample_registration [3] 5 CANCELLED, sample_registration [2] 20 WAITING]"
  have "?rows \<noteq> []" and "mset ?other = mset ?rows" by simp_all
  moreover have "distinct (map rg_participant_key ?rows)" by (simp add: sample_registration_def)
  ultimately show ?thesis using effective_registration_counts[of ?rows ?other] by blast
qed

end
