(* ===== verification/Texts.thy ===== *)
theory Texts
  imports Services
begin

text \<open>
  The texts of \<open>application/notification_services.py\<close> that are put together from data: the messages to
  players and masters, the contacts of the masters, the answers to a signup and to a confirmation
  (which is shortened to what a messenger takes), and the moves of a sift that are still true.  The
  Russian phrases are lists of code points, each named after what it says.
\<close>

section \<open>Phrases\<close>

definition txt_from_masters :: ustring where
  "txt_from_masters =
     [1057, 1086, 1086, 1073, 1097, 1077, 1085, 1080, 1077, 32, 1086, 1090, 32, 1084, 1072,
     1089, 1090, 1077, 1088, 1086, 1074, 32, 1080, 1075, 1088, 1099, 32]"

definition txt_in_main_roster_of :: ustring where
  "txt_in_main_roster_of =
     [1042, 1099, 32, 1074, 32, 1086, 1089, 1085, 1086, 1074, 1085, 1086, 1084, 32, 1089, 1086,
     1089, 1090, 1072, 1074, 1077, 32, 1080, 1075, 1088, 1099, 32]"

definition txt_join_chat :: ustring where
  "txt_join_chat =
     [46, 32, 1042, 1089, 1090, 1091, 1087, 1080, 1090, 1077, 32, 1074, 32, 1095, 1072, 1090,
     58, 32]"

definition txt_cancellation :: ustring where
  "txt_cancellation =
     [1054, 1090, 1084, 1077, 1085, 1072, 32, 1091, 1095, 1072, 1089, 1090, 1080, 1103, 32,
     1074, 32, 1080, 1075, 1088, 1077, 32]"

definition txt_player :: ustring where
  "txt_player =
     [1048, 1075, 1088, 1086, 1082, 58, 32]"

definition txt_nickname :: ustring where
  "txt_nickname =
     [1053, 1080, 1082, 1085, 1077, 1081, 1084, 58, 32]"

definition txt_status :: ustring where
  "txt_status =
     [1057, 1090, 1072, 1090, 1091, 1089, 32, 1091, 1095, 1072, 1089, 1090, 1080, 1103, 58, 32]"

definition txt_confirmed :: ustring where
  "txt_confirmed =
     [1087, 1086, 1076, 1090, 1074, 1077, 1088, 1078, 1076, 1077, 1085, 1086]"

definition txt_unconfirmed :: ustring where
  "txt_unconfirmed =
     [1085, 1077, 32, 1087, 1086, 1076, 1090, 1074, 1077, 1088, 1078, 1076, 1077, 1085, 1086]"

definition txt_reason_same_day :: ustring where
  "txt_reason_same_day =
     [1055, 1088, 1080, 1095, 1080, 1085, 1072, 58, 32, 1080, 1075, 1088, 1086, 1082, 32, 1087,
     1086, 1076, 1090, 1074, 1077, 1088, 1076, 1080, 1083, 32, 1091, 1095, 1072, 1089, 1090,
     1080, 1077, 32, 1074, 32, 1076, 1088, 1091, 1075, 1086, 1081, 32, 1080, 1075, 1088, 1077,
     32, 1074, 32, 1090, 1086, 1090, 32, 1078, 1077, 32, 1076, 1077, 1085, 1100, 46]"

definition txt_no_show_warning :: ustring where
  "txt_no_show_warning =
     [1045, 1089, 1083, 1080, 32, 1074, 1099, 32, 1085, 1077, 32, 1087, 1088, 1080, 1076, 1077,
     1090, 1077, 32, 1085, 1072, 32, 1080, 1075, 1088, 1091, 44, 32, 1085, 1080, 1095, 1077,
     1075, 1086, 32, 1085, 1072, 1084, 32, 1085, 1077, 32, 1089, 1086, 1086, 1073, 1097, 1080,
     1074, 44, 32, 1082, 32, 1074, 1072, 1084, 32, 1084, 1086, 1075, 1091, 1090, 32, 1073,
     1099, 1090, 1100, 32, 1087, 1088, 1080, 1084, 1077, 1085, 1077, 1085, 1099, 32, 1089,
     1072, 1085, 1082, 1094, 1080, 1080, 32, 1056, 1086, 1083, 1077, 1074, 1086, 1075, 1086,
     32, 1050, 1083, 1091, 1073, 1072]"

definition txt_masters :: ustring where
  "txt_masters =
     [1052, 1072, 1089, 1090, 1077, 1088, 1072, 32, 1080, 1075, 1088, 1099, 58, 10]"

definition txt_dash :: ustring where
  "txt_dash =
     [32, 8212, 32]"

definition txt_if_not_coming :: ustring where
  "txt_if_not_coming =
     [1045, 1089, 1083, 1080, 32, 1074, 1099, 32, 1088, 1077, 1096, 1080, 1090, 1077, 32, 1085,
     1077, 32, 1091, 1095, 1072, 1089, 1090, 1074, 1086, 1074, 1072, 1090, 1100, 32, 1074, 32,
     1080, 1075, 1088, 1077, 44, 32, 1087, 1086, 1078, 1072, 1083, 1091, 1081, 1089, 1090,
     1072, 32, 1089, 1086, 1086, 1073, 1097, 1080, 1090, 1077, 32, 1086, 1073, 32, 1101, 1090,
     1086, 1084, 32, 1084, 1072, 1089, 1090, 1077, 1088, 1072, 1084]"

definition txt_link_soon :: ustring where
  "txt_link_soon =
     [1052, 1072, 1089, 1090, 1077, 1088, 1072, 32, 1089, 1082, 1086, 1088, 1086, 32, 1086,
     1090, 1087, 1088, 1072, 1074, 1103, 1090, 32, 1074, 1072, 1084, 32, 1089, 1089, 1099,
     1083, 1082, 1091, 32, 1085, 1072, 32, 1095, 1072, 1090, 32, 1080, 1075, 1088, 1099, 33,
     10, 10]"

definition txt_participation :: ustring where
  "txt_participation =
     [9989, 32, 1059, 1095, 1072, 1089, 1090, 1080, 1077, 32, 1074, 32, 1080, 1075, 1088, 1077,
     32]"

definition txt_is_confirmed :: ustring where
  "txt_is_confirmed =
     [32, 1087, 1086, 1076, 1090, 1074, 1077, 1088, 1078, 1076, 1077, 1085, 1086, 46, 10, 10]"

definition txt_wishes :: ustring where
  "txt_wishes =
     [1055, 1086, 1078, 1077, 1083, 1072, 1085, 1080, 1103, 32, 1087, 1086, 32, 1087, 1077,
     1088, 1089, 1086, 1085, 1072, 1078, 1091, 58, 10]"

definition txt_change_later :: ustring where
  "txt_change_later =
     [10, 10, 1055, 1086, 1079, 1078, 1077, 32, 1080, 1093, 32, 1084, 1086, 1078, 1085, 1086,
     32, 1080, 1079, 1084, 1077, 1085, 1080, 1090, 1100, 32, 1095, 1077, 1088, 1077, 1079, 32,
     171, 127917, 32, 1055, 1086, 1078, 1077, 1083, 1072, 1085, 1080, 1103, 32, 1087, 1086, 32,
     1080, 1075, 1088, 1077, 187, 46, 10, 10]"

definition txt_signed_up :: ustring where
  "txt_signed_up =
     [1042, 1099, 32, 1079, 1072, 1087, 1080, 1089, 1072, 1083, 1080, 1089, 1100, 32, 1085,
     1072, 32, 1080, 1075, 1088, 1091, 32]"

definition txt_now_in_main :: ustring where
  "txt_now_in_main =
     [33, 10, 10, 1057, 1077, 1081, 1095, 1072, 1089, 32, 1074, 1099, 32, 1074, 32, 1086, 1089,
     1085, 1086, 1074, 1085, 1086, 1084, 32, 1089, 1086, 1089, 1090, 1072, 1074, 1077, 46, 10,
     10, 1040, 1082, 1090, 1091, 1072, 1083, 1100, 1085, 1099, 1081, 32, 1089, 1087, 1080,
     1089, 1086, 1082, 32, 1079, 1072, 1087, 1080, 1089, 1072, 1074, 1096, 1080, 1093, 1089,
     1103, 32, 1080, 32, 1089, 1086, 1089, 1090, 1072, 1074, 32, 1084, 1086, 1078, 1085, 1086,
     32, 1087, 1086, 1089, 1084, 1086, 1090, 1088, 1077, 1090, 1100, 32, 1079, 1076, 1077,
     1089, 1100, 58, 32]"

definition txt_now_in_reserve :: ustring where
  "txt_now_in_reserve =
     [33, 10, 10, 1057, 1077, 1081, 1095, 1072, 1089, 32, 1074, 1099, 32, 1074, 32, 1079, 1072,
     1087, 1072, 1089, 1077, 46, 32, 1055, 1077, 1088, 1077, 1076, 32, 1074, 1072, 1084, 1080,
     58, 32]"

definition txt_will_tell :: ustring where
  "txt_will_tell =
     [46, 10, 10, 1045, 1089, 1083, 1080, 32, 1074, 1099, 32, 1087, 1077, 1088, 1077, 1081,
     1076, 1105, 1090, 1077, 32, 1074, 32, 1086, 1089, 1085, 1086, 1074, 1085, 1086, 1081, 32,
     1089, 1086, 1089, 1090, 1072, 1074, 44, 32, 1073, 1086, 1090, 32, 1089, 1086, 1086, 1073,
     1097, 1080, 1090, 32, 1086, 1073, 32, 1101, 1090, 1086, 1084, 32, 1086, 1090, 1076, 1077,
     1083, 1100, 1085, 1099, 1084, 32, 1089, 1086, 1086, 1073, 1097, 1077, 1085, 1080, 1077,
     1084, 46, 10, 10, 1040, 1082, 1090, 1091, 1072, 1083, 1100, 1085, 1099, 1081, 32, 1089,
     1087, 1080, 1089, 1086, 1082, 32, 1079, 1072, 1087, 1080, 1089, 1072, 1074, 1096, 1080,
     1093, 1089, 1103, 32, 1080, 32, 1089, 1086, 1089, 1090, 1072, 1074, 32, 1084, 1086, 1078,
     1085, 1086, 32, 1087, 1086, 1089, 1084, 1086, 1090, 1088, 1077, 1090, 1100, 32, 1079,
     1076, 1077, 1089, 1100, 58, 32]"

definition txt_confirm_when_sure :: ustring where
  "txt_confirm_when_sure =
     [1050, 1086, 1075, 1076, 1072, 32, 1073, 1091, 1076, 1077, 1090, 1077, 32, 1091, 1074,
     1077, 1088, 1077, 1085, 1099, 44, 32, 1095, 1090, 1086, 32, 1089, 1084, 1086, 1078, 1077,
     1090, 1077, 32, 1087, 1088, 1080, 1081, 1090, 1080, 32, 1085, 1072, 32, 1080, 1075, 1088,
     1091, 44, 32, 1087, 1086, 1076, 1090, 1074, 1077, 1088, 1076, 1080, 1090, 1077, 32, 1091,
     1095, 1072, 1089, 1090, 1080, 1077]"

definition txt_until :: ustring where
  "txt_until =
     [32, 1076, 1086, 32]"

definition txt_msk :: ustring where
  "txt_msk =
     [32, 40, 1084, 1089, 1082, 41]"

definition txt_confirmation_closed :: ustring where
  "txt_confirmation_closed =
     [1055, 1086, 1076, 1090, 1074, 1077, 1088, 1078, 1076, 1077, 1085, 1080, 1077, 32, 1091,
     1095, 1072, 1089, 1090, 1080, 1103, 32, 1087, 1086, 1082, 1072, 32, 1085, 1077, 32, 1086,
     1090, 1082, 1088, 1099, 1090, 1086, 46, 32, 1052, 1099, 32, 1086, 1073, 1103, 1079, 1072,
     1090, 1077, 1083, 1100, 1085, 1086, 32, 1087, 1088, 1080, 1096, 1083, 1105, 1084, 32,
     1074, 1072, 1084, 32, 1091, 1074, 1077, 1076, 1086, 1084, 1083, 1077, 1085, 1080, 1077,
     44, 32, 1082, 1086, 1075, 1076, 1072, 32, 1084, 1086, 1078, 1085, 1086, 32, 1073, 1091,
     1076, 1077, 1090, 32, 1087, 1086, 1076, 1090, 1074, 1077, 1088, 1076, 1080, 1090, 1100,
     1089, 1103, 46]"

definition txt_co_wishes_later :: ustring where
  "txt_co_wishes_later =
     [1055, 1086, 1078, 1077, 1083, 1072, 1085, 1080, 1103, 32, 1087, 1086, 32, 1089, 1086,
     1080, 1075, 1088, 1086, 1082, 1072, 1084, 32, 1074, 1089, 1077, 1075, 1076, 1072, 32,
     1084, 1086, 1078, 1085, 1086, 32, 1080, 1079, 1084, 1077, 1085, 1080, 1090, 1100, 32,
     1087, 1086, 1079, 1078, 1077, 32, 1095, 1077, 1088, 1077, 1079, 32, 171, 127917, 32, 1055,
     1086, 1078, 1077, 1083, 1072, 1085, 1080, 1103, 32, 1087, 1086, 32, 1080, 1075, 1088,
     1077, 187, 46]"

definition txt_your_answer :: ustring where
  "txt_your_answer =
     [1042, 1072, 1096, 32, 1086, 1090, 1074, 1077, 1090, 58, 32]"

definition txt_question :: ustring where
  "txt_question =
     [1044, 1086, 1087, 1086, 1083, 1085, 1080, 1090, 1077, 1083, 1100, 1085, 1099, 1081, 32,
     1074, 1086, 1087, 1088, 1086, 1089, 58, 32]"

definition txt_not_chosen :: ustring where
  "txt_not_chosen =
     [1085, 1077, 32, 1074, 1099, 1073, 1088, 1072, 1085]"

definition txt_same_day :: ustring where
  "txt_same_day =
     [1042, 1072, 1078, 1085, 1086, 58, 32, 1074, 1099, 32, 1091, 1078, 1077, 32, 1079, 1072,
     1087, 1080, 1089, 1072, 1085, 1099, 32, 1085, 1072, 32, 1076, 1088, 1091, 1075, 1091,
     1102, 32, 1080, 1075, 1088, 1091, 44, 32, 1082, 1086, 1090, 1086, 1088, 1072, 1103, 32,
     1087, 1088, 1086, 1074, 1086, 1076, 1080, 1090, 1089, 1103, 32]"

definition txt_same_day_rest :: ustring where
  "txt_same_day_rest =
     [46, 32, 1042, 1099, 32, 1089, 1084, 1086, 1078, 1077, 1090, 1077, 32, 1087, 1086, 1076,
     1090, 1074, 1077, 1088, 1076, 1080, 1090, 1100, 32, 1089, 1074, 1086, 1105, 32, 1091,
     1095, 1072, 1089, 1090, 1080, 1077, 32, 1090, 1086, 1083, 1100, 1082, 1086, 32, 1074, 32,
     1086, 1076, 1085, 1086, 1081, 32, 1080, 1075, 1088, 1077, 44, 32, 1082, 1086, 1075, 1076,
     1072, 32, 1088, 1077, 1096, 1080, 1090, 1077, 44, 32, 1074, 32, 1082, 1072, 1082, 1091,
     1102, 32, 1080, 1084, 1077, 1085, 1085, 1086, 32, 1093, 1086, 1090, 1080, 1090, 1077, 32,
     1080, 1075, 1088, 1072, 1090, 1100, 46]"

definition line_break :: ustring where
  "line_break = [10]"

definition paragraph_break :: ustring where
  "paragraph_break = [10, 10]"

section \<open>Messages to players and masters\<close>

definition reference_of :: "event \<Rightarrow> ustring" where
  "reference_of e = event_reference (ev_name e) (ev_game_date e)"

definition same_day_signup_warning :: "date \<Rightarrow> ustring" where
  "same_day_signup_warning game_date = txt_same_day @ format_game_date game_date @ txt_same_day_rest"

definition player_notification_text :: "ustring \<Rightarrow> ustring \<Rightarrow> date option \<Rightarrow> ustring" where
  "player_notification_text event_name sent game_date =
     txt_from_masters @ event_reference event_name game_date @ [58] @ paragraph_break @ strip sent"

definition confirmed_notification_text :: "ustring \<Rightarrow> ustring \<Rightarrow> date option \<Rightarrow> ustring" where
  "confirmed_notification_text event_name sent game_date =
     (if \<not> is_plain_chat_link (strip sent) then player_notification_text event_name (strip sent) game_date
      else txt_in_main_roster_of @ event_reference event_name game_date @ txt_join_chat @ strip sent)"

definition cancellation_master_text ::
    "event \<Rightarrow> ustring \<Rightarrow> ustring option \<Rightarrow> bool \<Rightarrow> bool \<Rightarrow> ustring" where
  "cancellation_master_text e player_name nickname was_confirmed same_day_replacement =
     join_with 10
       ([txt_cancellation @ reference_of e, [], txt_player @ player_name]
        @ (case nickname of None \<Rightarrow> [] | Some n \<Rightarrow> [txt_nickname @ n])
        @ [txt_status @ (if was_confirmed then txt_confirmed else txt_unconfirmed)]
        @ (if same_day_replacement then [[], txt_reason_same_day] else []))"

definition answer_text :: "event \<Rightarrow> registration \<Rightarrow> ustring" where
  "answer_text e r =
     (case ev_registration_question e of
        None \<Rightarrow> []
      | Some q \<Rightarrow>
          txt_question @ qu_text q @ line_break @ txt_your_answer
            @ (case question_option q (rg_answer_id r) of None \<Rightarrow> txt_not_chosen | Some opt \<Rightarrow> op_name opt))"

section \<open>The masters of a game\<close>

type_synonym master = "bot_identity \<times> user option"

definition master_name :: "master \<Rightarrow> ustring" where
  "master_name m =
     (case snd m of None \<Rightarrow> [] | Some u \<Rightarrow> (case us_full_name (base u) of None \<Rightarrow> [] | Some n \<Rightarrow> n))"

definition event_master_records :: "ustring \<Rightarrow> master list service" where
  "event_master_records event_id =
     andThen (leaders_now event_id) (\<lambda>identities.
       reads (\<lambda>w. sort_key (\<lambda>m. (casefold (master_name m), fst m))
         (map (\<lambda>i. (i, case w_users w of None \<Rightarrow> None | Some us \<Rightarrow> users_get (fst i) (snd i) us)) identities)))"

definition master_profile_url :: "master \<Rightarrow> ustring option" where
  "master_profile_url m =
     (if fst (fst m) = VK then Some (asc ''https://vk.com/id'' @ show_int (snd (fst m)))
      else
        (case snd m of
           Some (TelegramUser b i v l (Some handle)) \<Rightarrow>
             Some (asc ''https://t.me/'' @ remove_prefix (asc ''@'') handle)
         | _ \<Rightarrow> None))"

fun join_text :: "ustring \<Rightarrow> ustring list \<Rightarrow> ustring" where
  "join_text sep [] = []"
| "join_text sep [w] = w"
| "join_text sep (w # ws) = w @ sep @ join_text sep ws"

definition master_line :: "master \<Rightarrow> ustring list" where
  "master_line m =
     (let shown = (if master_name m = [] then [] else [surname_and_name (master_name m)])
                    @ (case master_profile_url m of None \<Rightarrow> [] | Some url \<Rightarrow> [url])
      in if shown = [] then [] else [join_text txt_dash shown])"

definition event_masters_text :: "master list \<Rightarrow> ustring" where
  "event_masters_text masters =
     (let rows = concat (map master_line masters)
      in if rows = [] then [] else txt_masters @ join_with 10 rows)"

definition master_contacts_section :: "master list \<Rightarrow> ustring" where
  "master_contacts_section masters =
     (let profiles = List.map_filter master_profile_url masters;
          contacts = (if profiles = [] then [46] else [58, 32] @ join_with 32 profiles @ [32, 46]);
          disclaimer = txt_if_not_coming @ contacts @ [32] @ txt_no_show_warning;
          masters_text = event_masters_text masters
      in if masters_text = [] then disclaimer else masters_text @ paragraph_break @ disclaimer)"

section \<open>The answer to a confirmation\<close>

definition MAX_MESSAGE_LENGTH :: nat where
  "MAX_MESSAGE_LENGTH = 4096"

text \<open>Code units of UTF-16.\<close>

definition units :: "nat \<Rightarrow> nat" where
  "units c = (if c < 65536 then 1 else 2)"

definition message_length :: "ustring \<Rightarrow> nat" where
  "message_length s = sum_list (map units s)"

text \<open>The characters of the wish that fit into the budget; the budget is an integer, as in the code.\<close>

fun within_budget :: "int \<Rightarrow> ustring \<Rightarrow> ustring" where
  "within_budget budget [] = []"
| "within_budget budget (c # s) =
     (if budget - int (units c) < 0 then [] else c # within_budget (budget - int (units c)) s)"

definition confirmation_text :: "event \<Rightarrow> bool \<Rightarrow> master list \<Rightarrow> ustring \<Rightarrow> ustring" where
  "confirmation_text e in_main_roster masters wish =
     txt_participation @ reference_of e @ txt_is_confirmed
       @ (if in_main_roster then txt_link_soon else []) @ txt_wishes @ wish @ txt_change_later
       @ master_contacts_section masters"

definition confirmation_success_text :: "event \<Rightarrow> ustring \<Rightarrow> bool \<Rightarrow> master list \<Rightarrow> ustring" where
  "confirmation_success_text e character_wish in_main_roster masters =
     (let compose = confirmation_text e in_main_roster masters;
          excess = int (message_length (compose character_wish)) - int MAX_MESSAGE_LENGTH
      in if excess \<le> 0 then compose character_wish
         else
           (let budget = int (message_length character_wish) - excess - 1
            in compose (rstrip_by is_space (within_budget budget character_wish) @ [8230])))"

section \<open>The answer to a signup\<close>

text \<open>\<open>moscow\<close> gives the Moscow time of an instant.\<close>

definition enlistment_success_text ::
    "(time \<Rightarrow> local_time) \<Rightarrow> event \<Rightarrow> nat \<Rightarrow> master list \<Rightarrow> bool \<Rightarrow> ustring option \<Rightarrow> exn + ustring" where
  "enlistment_success_text moscow e position masters same_day_warning answer_id =
     (case answer_capacity e answer_id of
        Inl error \<Rightarrow> Inl error
      | Inr places \<Rightarrow>
          if ev_public_table_public_url e = None then Inl RuntimeError
          else
            (case for_player (public_table_links e) of
               Inl error \<Rightarrow> Inl error
             | Inr table_links \<Rightarrow>
                 (let position_text = txt_signed_up @ reference_of e
                        @ (if position \<le> places then txt_now_in_main
                           else txt_now_in_reserve @ show_nat (position - places) @ txt_will_tell)
                        @ table_links;
                      confirmation = (if ev_status e = CONFIRMATION_OPEN
                        then txt_confirm_when_sure
                          @ (case ev_confirmation_deadline e of
                               None \<Rightarrow> []
                             | Some t \<Rightarrow> txt_until @ format_confirmation_deadline (moscow t) @ txt_msk)
                          @ [46]
                        else txt_confirmation_closed);
                      answer = (case ev_registration_question e of
                          None \<Rightarrow> []
                        | Some q \<Rightarrow>
                            (case question_option q answer_id of
                               None \<Rightarrow> []
                             | Some opt \<Rightarrow> paragraph_break @ txt_your_answer @ op_name opt));
                      warning = (case ev_game_date e of
                          Some d \<Rightarrow>
                            if same_day_warning then paragraph_break @ same_day_signup_warning d else []
                        | None \<Rightarrow> []);
                      masters_text = event_masters_text masters
                  in Inr (position_text @ paragraph_break @ confirmation @ paragraph_break
                       @ txt_co_wishes_later @ answer @ warning
                       @ (if masters_text = [] then [] else paragraph_break @ masters_text)))))"

section \<open>Moves of a sift that are still true\<close>

definition still_true :: "event \<Rightarrow> registration list \<Rightarrow> ustring \<Rightarrow> bool" where
  "still_true e rows entry =
     (case parse_sift_snapshot_entry entry of
        None \<Rightarrow> False
      | Some (transition, key) \<Rightarrow>
          (let status = map_of (rev (map (\<lambda>r. (rg_participant_key r, rg_attendance_status r)) rows)) key;
               in_main = key \<in> set (map rg_participant_key (active_main_roster rows e))
           in if transition = SIFT_PROMOTED_PREFIX then status = Some CONFIRMED \<and> in_main
              else status = Some WAITING \<and> \<not> in_main))"

definition current_sift_entries :: "ustring list \<Rightarrow> registration list \<Rightarrow> event \<Rightarrow> ustring list" where
  "current_sift_entries snapshot rows e = dedup (filter (still_true e rows) snapshot)"

end
