(* ===== verification/Openings.thy ===== *)
theory Openings
  imports Services
begin

text \<open>
  The timers: \<open>application/confirmation_openings.py\<close> puts due confirmation openings into the queues of
  their games, the dispatcher of \<open>application/game_closings.py\<close> does so for automatic closings, and
  \<open>application/registration_openings.py\<close> tells the operators about registrations that have opened.
  A due game is a row of the repository or the \<open>ScheduledLifecycleEvent\<close> of one common query; both are
  handled as the latter (\<open>lifecycle_view\<close>).
\<close>

section \<open>Instants in ISO format\<close>

definition day_us :: int where
  "day_us = 86400000000"

definition utc_date :: "time \<Rightarrow> date" where
  "utc_date t =
     (let days = t div day_us
      in if 0 \<le> days then add_days (nat days) (1970, 1, 1) else sub_days (nat (- days)) (1970, 1, 1))"

text \<open>\<open>t.astimezone(UTC).isoformat()\<close>: microseconds only when there are any.\<close>

definition utc_isoformat :: "time \<Rightarrow> ustring" where
  "utc_isoformat t =
     (let us = nat (t mod day_us);
          seconds = us div 1000000;
          micros = us mod 1000000
      in iso_date (utc_date t) @ asc ''T'' @ show2 (seconds div 3600) @ [58] @ show2 (seconds div 60 mod 60)
           @ [58] @ show2 (seconds mod 60)
           @ (if micros = 0 then []
              else [46] @ show2 (micros div 10000) @ show2 (micros div 100 mod 100) @ show2 (micros mod 100))
           @ asc ''+00:00'')"

definition confirmation_opening_id :: "env \<Rightarrow> ustring \<Rightarrow> time \<Rightarrow> ustring" where
  "confirmation_opening_id X event_id opens_at =
     xe_uuid5 X (asc ''larp-bot:scheduled-confirmation:'' @ event_id @ [58] @ utc_isoformat opens_at)"

definition scheduled_close_id :: "env \<Rightarrow> ustring \<Rightarrow> time \<Rightarrow> ustring" where
  "scheduled_close_id X event_id closes_at =
     xe_uuid5 X (asc ''larp-bot:scheduled-close:'' @ event_id @ [58] @ utc_isoformat closes_at)"

definition stage_operation_id :: "env \<Rightarrow> ustring \<Rightarrow> ustring \<Rightarrow> ustring" where
  "stage_operation_id X operation_id stage =
     xe_uuid5 X (asc ''larp-bot:'' @ operation_id @ [58] @ stage)"

section \<open>Due confirmation openings and closings\<close>

text \<open>A command of the timer itself, constructed and validated like any other.\<close>

definition system_command :: "ustring \<Rightarrow> ustring \<Rightarrow> operation \<Rightarrow> payload \<Rightarrow> time \<Rightarrow> command" where
  "system_command event_id operation_id operation payload now =
     \<lparr>cm_operation_id = operation_id, cm_event_id = event_id, cm_operation = operation,
      cm_platform = SYSTEM, cm_platform_user_id = 0, cm_participant_key = None, cm_identity_group = None,
      cm_payload = payload, cm_reply_context = empty_reply, cm_created_at = now\<rparr>"

definition sends_system_command :: "env \<Rightarrow> ustring \<Rightarrow> ustring \<Rightarrow> operation \<Rightarrow> payload \<Rightarrow> unit service" where
  "sends_system_command X event_id operation_id operation payload =
     andThen (reading X) (\<lambda>now.
     andThen (publishes (system_command event_id operation_id operation payload now)) (\<lambda>_. ret ()))"

definition opening_due :: "time \<Rightarrow> scheduled_lifecycle_event \<Rightarrow> bool" where
  "opening_due opened_by e \<longleftrightarrow>
     due (sl_confirmation_open_at e) opened_by \<and> sl_confirmation_deadline e \<noteq> None
     \<and> sl_archived_at e = None \<and> sl_status e = CREATED"

definition close_due :: "time \<Rightarrow> scheduled_lifecycle_event \<Rightarrow> bool" where
  "close_due closed_by e \<longleftrightarrow>
     due (sl_scheduled_close_at e) closed_by \<and> sl_scheduled_close_completed_at e = None
     \<and> (sl_archived_at e = None \<or> sl_scheduled_close_operation_id e \<noteq> None)"

definition opened_due :: "time \<Rightarrow> scheduled_lifecycle_event \<Rightarrow> bool" where
  "opened_due opened_by e \<longleftrightarrow>
     due (sl_registration_open_at e) opened_by \<and> sl_registration_open_notification_completed_at e = None
     \<and> sl_archived_at e = None \<and> sl_status e \<noteq> CLOSED"

text \<open>
  The due games: those the repository lists for this timer, or the matching ones of the common query
  (\<open>given\<close>).
\<close>

definition due_games ::
    "(time \<Rightarrow> nat \<Rightarrow> events \<Rightarrow> event list) \<Rightarrow> (time \<Rightarrow> scheduled_lifecycle_event \<Rightarrow> bool) \<Rightarrow> time \<Rightarrow> nat
       \<Rightarrow> scheduled_lifecycle_event list option \<Rightarrow> scheduled_lifecycle_event list service" where
  "due_games listed matching by_time limit given =
     (case given of
        None \<Rightarrow> reads (\<lambda>w. map lifecycle_view (listed by_time limit (w_events w)))
      | Some games \<Rightarrow> ret (take limit (filter (matching by_time) games)))"

definition now_or :: "env \<Rightarrow> time option \<Rightarrow> time service" where
  "now_or X now = (case now of None \<Rightarrow> reading X | Some t \<Rightarrow> ret t)"

definition dispatch_due_confirmations ::
    "env \<Rightarrow> time option \<Rightarrow> nat \<Rightarrow> scheduled_lifecycle_event list option \<Rightarrow> nat service" where
  "dispatch_due_confirmations X now limit given =
     andThen (now_or X now) (\<lambda>opened_by.
     andThen (due_games list_due_confirmation_openings opening_due opened_by limit given) (\<lambda>games.
     andThen (forEach games (\<lambda>e.
       case (sl_confirmation_open_at e, sl_confirmation_deadline e) of
         (Some opens_at, Some deadline) \<Rightarrow>
           sends_system_command X (sl_event_id e) (confirmation_opening_id X (sl_event_id e) opens_at)
             SCHEDULED_OPEN_CONFIRMATION (ConfirmationDeadlinePayload deadline)
       | _ \<Rightarrow> ret ())) (\<lambda>_. ret (length games))))"

definition dispatch_due_closings ::
    "env \<Rightarrow> time option \<Rightarrow> nat \<Rightarrow> scheduled_lifecycle_event list option \<Rightarrow> nat service" where
  "dispatch_due_closings X now limit given =
     andThen (now_or X now) (\<lambda>closed_by.
     andThen (due_games list_due_scheduled_closings close_due closed_by limit given) (\<lambda>games.
     andThen (forEach games (\<lambda>e.
       case sl_scheduled_close_at e of
         Some closes_at \<Rightarrow>
           sends_system_command X (sl_event_id e) (scheduled_close_id X (sl_event_id e) closes_at)
             SCHEDULED_CLOSE_EVENT EmptyPayload
       | None \<Rightarrow> ret ())) (\<lambda>_. ret (length games))))"

section \<open>Telling the operators that a registration has opened\<close>

definition recipient_key :: "bot_identity \<Rightarrow> ustring" where
  "recipient_key i = identity_text (fst i) (snd i)"

definition opening_request_id :: "ustring \<Rightarrow> bot_identity \<Rightarrow> ustring" where
  "opening_request_id event_id i =
     asc ''registration-open:'' @ event_id @ [58] @ identity_text (fst i) (snd i)"

text \<open>\<open>None\<close> when the message could not be sent, for whatever reason.\<close>

definition send_opening :: "env \<Rightarrow> scheduled_lifecycle_event \<Rightarrow> bot_identity \<Rightarrow> ustring option service" where
  "send_opening X e i =
     andThen (external_outcome X
       (SendMessage (fst i) (snd i) (opening_request_id (sl_event_id e) i)
         (RegistrationOpenedFor (event_reference (sl_name e) (sl_game_date e))) [main_menu_button])) (\<lambda>outcome.
       ret (if outcome = Answered then Some (recipient_key i) else None))"

definition operators :: "bot_identity list \<Rightarrow> bot_identity list \<Rightarrow> bot_identity list" where
  "operators admins moderators =
     map snd (sort_key fst (foldl (\<lambda>d i. dict_put (recipient_key i) i d) []
       (filter (\<lambda>i. fst i \<noteq> SYSTEM) (admins @ moderators))))"

definition tell_operators ::
    "env \<Rightarrow> bot_identity list \<Rightarrow> time \<Rightarrow> scheduled_lifecycle_event \<Rightarrow> (bool \<times> nat) service" where
  "tell_operators X identities opened_by e =
     (let notified = sl_registration_open_notified_recipients e;
          pending = filter (\<lambda>i. recipient_key i \<notin> set notified) identities
      in andThen (gather pending (send_opening X e)) (\<lambda>results.
         let reached = List.map_filter (\<lambda>r. r) results
         in andThen (forEach reached (\<lambda>recipient.
              on_events X (mark_registration_open_notification_delivered (sl_event_id e) recipient))) (\<lambda>_.
            if list_all (\<lambda>i. recipient_key i \<in> set (notified @ reached)) identities
            then andThen (on_events X (\<lambda>_. complete_registration_open_notification (sl_event_id e) opened_by))
                   (\<lambda>_. ret (True, length reached))
            else ret (False, length reached))))"

definition notify_due ::
    "env \<Rightarrow> time option \<Rightarrow> nat \<Rightarrow> scheduled_lifecycle_event list option \<Rightarrow> (nat \<times> nat) service" where
  "notify_due X now limit given =
     andThen (now_or X now) (\<lambda>opened_by.
     andThen (due_games list_due_registration_notifications opened_due opened_by limit given) (\<lambda>games.
       if games = [] then ret (0, 0)
       else
         andThen (gather [ListAdmins, ListGamemasters] (\<lambda>c. external X c (xe_listed X))) (\<lambda>listed.
         andThen (forEach games (tell_operators X (operators (listed ! 0) (listed ! 1)) opened_by)) (\<lambda>told.
           ret (length (filter fst told), sum_list (map snd told))))))"

end
