(* ===== verification/Mutations.thy ===== *)
theory Mutations
  imports Texts Openings
begin

text \<open>
  \<open>application/ordered_mutations.py\<close>: the worker-time validation and the effect of every ordered
  command on the stored games and registrations.  One definition per branch of
  \<open>OrderedMutationService.apply\<close>; \<open>apply_command\<close> at the end joins them as the code does.
\<close>

section \<open>Results\<close>

record mutation_result =
  mr_text :: message
  mr_notifications_enabled :: bool
  mr_buttons :: "button list option"
  mr_replaced_event_id :: "ustring option"

definition result :: "message \<Rightarrow> mutation_result" where
  "result txt = \<lparr>mr_text = txt, mr_notifications_enabled = True, mr_buttons = None,
                 mr_replaced_event_id = None\<rparr>"

definition silent :: "message \<Rightarrow> mutation_result" where
  "silent txt = (result txt)\<lparr>mr_notifications_enabled := False\<rparr>"

abbreviation refuse :: "refusal \<Rightarrow> 'a service" where
  "refuse r \<equiv> throw (OperationNotAllowed r)"

section \<open>Who may do it\<close>

definition actor_is_admin :: "env \<Rightarrow> bot_identity list \<Rightarrow> bool service" where
  "actor_is_admin X identities =
     (if \<not> xe_has_admins X then ret False
      else andThen (forEach identities (\<lambda>i. external X (IsAdmin (fst i) (snd i)) (xe_is_admin X))) (\<lambda>found.
             ret (list_ex (\<lambda>yes. yes) found)))"

definition require_event_leader :: "env \<Rightarrow> command \<Rightarrow> unit service" where
  "require_event_leader X c =
     andThen (identities_now (cm_platform c) (cm_platform_user_id c)) (\<lambda>identities.
     andThen (leaders_now (cm_event_id c)) (\<lambda>leaders.
       if list_ex (\<lambda>i. i \<in> set leaders) identities then ret ()
       else andThen (actor_is_admin X identities) (\<lambda>admin.
              unless_throw admin (OperationNotAllowed OnlyLeadersAndAdmins))))"

definition require_admin :: "env \<Rightarrow> command \<Rightarrow> unit service" where
  "require_admin X c =
     andThen (identities_now (cm_platform c) (cm_platform_user_id c)) (\<lambda>identities.
     andThen (actor_is_admin X identities) (\<lambda>admin.
       unless_throw admin (OperationNotAllowed OnlyAdminsMayArchive)))"

definition require_active_event_leader :: "env \<Rightarrow> command \<Rightarrow> event service" where
  "require_active_event_leader X c =
     andThen (require_event (cm_event_id c)) (\<lambda>e.
       if ev_archived_at e \<noteq> None then refuse AlreadyArchived
       else andThen (require_event_leader X c) (\<lambda>_. ret e))"

definition stored_rows :: "pkey \<Rightarrow> ustring \<Rightarrow> bot_identity list \<Rightarrow> registration list service" where
  "stored_rows pkey event_id identities =
     andThen (gather identities (\<lambda>i. row_now event_id (pkey (fst i) (snd i) event_id))) (\<lambda>found.
       ret (present found))"

definition actor_registrations ::
    "env \<Rightarrow> event \<Rightarrow> command \<Rightarrow> (bot_identity list \<times> registration list) service" where
  "actor_registrations X e c =
     (case xe_key X of
        None \<Rightarrow>
          andThen (row_now (ev_event_id e) (case cm_participant_key c of None \<Rightarrow> [] | Some k \<Rightarrow> k)) (\<lambda>row.
            ret ([(cm_platform c, cm_platform_user_id c)], present [row]))
      | Some pkey \<Rightarrow>
          andThen (identities_now (cm_platform c) (cm_platform_user_id c)) (\<lambda>identities.
          andThen (stored_rows pkey (ev_event_id e) identities) (\<lambda>rows. ret (identities, rows))))"

section \<open>Pass tables\<close>

definition refresh_daily_pass_table :: "env \<Rightarrow> date option \<Rightarrow> unit service" where
  "refresh_daily_pass_table X game_date =
     (case game_date of
        None \<Rightarrow> ret ()
      | Some d \<Rightarrow>
          (let disk_path = daily_pass_table_path d
           in andThen (external X (PassTableExists disk_path) (xe_exists X)) (\<lambda>exists.
                if \<not> exists then ret ()
                else
                  andThen (reads w_users) (\<lambda>users.
                    case (users, xe_key X) of
                      (Some us, Some pkey) \<Rightarrow>
                        andThen (daily_pass_profiles X pkey us d) (\<lambda>(_, profiles).
                          external X (ReplacePassTable disk_path profiles) (\<lambda>_. ()))
                    | _ \<Rightarrow> throw RuntimeError))))"

definition refresh_pass_table :: "env \<Rightarrow> event \<Rightarrow> registration list option \<Rightarrow> unit service" where
  "refresh_pass_table X e registration_rows =
     andThen
       (case ev_pass_table_resource_path e of
          None \<Rightarrow> ret ()
        | Some path \<Rightarrow>
            andThen (reads w_users) (\<lambda>users.
              case (users, xe_key X) of
                (Some us, Some pkey) \<Rightarrow>
                  andThen (event_pass_profiles pkey us e registration_rows) (\<lambda>profiles.
                    external X (ReplacePassTable path profiles) (\<lambda>_. ()))
              | _ \<Rightarrow> throw RuntimeError)) (\<lambda>_.
     refresh_daily_pass_table X (ev_game_date e))"

section \<open>Who moves up from the reserve\<close>

text \<open>
  The first of the reserve when a place of the main roster is given up: \<open>active\<close> is the queue and
  \<open>amount\<close> its places before the change.
\<close>

definition next_in_line :: "nat \<Rightarrow> registration option \<Rightarrow> registration list \<Rightarrow> registration option" where
  "next_in_line amount registration active =
     (case registration of
        None \<Rightarrow> None
      | Some r \<Rightarrow>
          if rg_attendance_status r = CANCELLED then None
          else
            (case index_of (\<lambda>row. rg_participant_key row = rg_participant_key r) active of
               None \<Rightarrow> None
             | Some i \<Rightarrow> if i < amount \<and> amount < length active then Some (active ! amount) else None))"

definition record_reserve_promotion ::
    "env \<Rightarrow> event \<Rightarrow> command \<Rightarrow> registration option \<Rightarrow> registration list \<Rightarrow> event service" where
  "record_reserve_promotion X e c registration active =
     (if ev_last_reserve_promotion_operation_id e = Some (cm_operation_id c) then ret e
      else
        (let promoted_key = map_option rg_participant_key (next_in_line (ev_player_amount e) registration active)
         in andThen (on_events X (set_reserve_promotion (ev_event_id e) (cm_operation_id c) promoted_key)) (\<lambda>_.
              ret (e\<lparr>ev_last_reserve_promotion_operation_id := Some (cm_operation_id c),
                     ev_last_reserve_promotion_participant_key := promoted_key\<rparr>))))"

definition record_confirmed_link_promotion ::
    "env \<Rightarrow> event \<Rightarrow> command \<Rightarrow> registration option \<Rightarrow> registration list \<Rightarrow> event service" where
  "record_confirmed_link_promotion X e c registration active =
     (if ev_last_confirmed_link_promotion_operation_id e = Some (cm_operation_id c) then ret e
      else
        (let promoted_key = (case next_in_line (ev_player_amount e) registration active of
               None \<Rightarrow> None
             | Some row \<Rightarrow> if rg_attendance_status row = CONFIRMED then Some (rg_participant_key row) else None)
         in andThen (on_events X (set_confirmed_link_promotion (ev_event_id e) (cm_operation_id c) promoted_key)) (\<lambda>_.
              ret (e\<lparr>ev_last_confirmed_link_promotion_operation_id := Some (cm_operation_id c),
                     ev_last_confirmed_link_promotion_participant_key := promoted_key\<rparr>))))"

text \<open>
  Both promotions are recorded before the change, once per operation; for a game with a question the
  queue and the places are those of the answer, on a copy of the row.
\<close>

definition promotions_pending :: "event \<Rightarrow> command \<Rightarrow> registration option \<Rightarrow> bool" where
  "promotions_pending e c registration \<longleftrightarrow>
     (case registration of
        None \<Rightarrow> False
      | Some r \<Rightarrow> rg_attendance_status r \<noteq> CANCELLED
          \<and> (ev_last_reserve_promotion_operation_id e \<noteq> Some (cm_operation_id c)
             \<or> ev_last_confirmed_link_promotion_operation_id e \<noteq> Some (cm_operation_id c)))"

definition record_both :: "env \<Rightarrow> event \<Rightarrow> command \<Rightarrow> registration option \<Rightarrow> registration list \<Rightarrow> event service" where
  "record_both X e c registration active =
     andThen (record_reserve_promotion X e c registration active) (\<lambda>e'.
       record_confirmed_link_promotion X e' c registration active)"

definition record_promotions :: "env \<Rightarrow> event \<Rightarrow> command \<Rightarrow> registration option \<Rightarrow> event service" where
  "record_promotions X e c registration =
     andThen
       (if promotions_pending e c registration
        then andThen (rows_now (ev_event_id e)) (\<lambda>rows. ret (active_queue rows None))
        else ret []) (\<lambda>active.
       case registration of
         Some r \<Rightarrow>
           if ev_registration_question e = None then record_both X e c registration active
           else
             (case answer_capacity e (rg_answer_id r) of
                Inl error \<Rightarrow> throw error
              | Inr places \<Rightarrow>
                  andThen (record_both X (e\<lparr>ev_player_amount := places\<rparr>) c registration
                             (active_queue active (rg_answer_id r))) (\<lambda>_. ret e))
       | None \<Rightarrow> record_both X e c registration active)"

section \<open>Openings, archive and deletion\<close>

definition apply_scheduled_opening :: "env \<Rightarrow> command \<Rightarrow> event \<Rightarrow> mutation_result service" where
  "apply_scheduled_opening X c e =
     (if cm_platform c \<noteq> SYSTEM then refuse OnlyTimerMayOpen
      else
        (case (ev_confirmation_open_at e, ev_confirmation_deadline e) of
           (Some opens_at, Some deadline) \<Rightarrow>
             if ev_archived_at e \<noteq> None \<or> ev_status e \<noteq> CREATED then ret (silent OpeningCancelledOrDone)
             else
               (case cm_payload c of
                  ConfirmationDeadlinePayload asked \<Rightarrow>
                    if cm_operation_id c \<noteq> confirmation_opening_id X (ev_event_id e) opens_at \<or> asked \<noteq> deadline
                    then ret (silent OpeningRescheduled)
                    else
                      andThen (on_events X (open_scheduled_confirmation (ev_event_id e) opens_at asked)) (\<lambda>opened.
                        ret (if opened then result ConfirmationSetBySchedule else silent OpeningRescheduled))
                | _ \<Rightarrow> throw AssertionError)
         | _ \<Rightarrow> ret (silent OpeningCancelledOrDone)))"

definition apply_unarchive :: "env \<Rightarrow> command \<Rightarrow> event \<Rightarrow> mutation_result service" where
  "apply_unarchive X c e =
     andThen (require_admin X c) (\<lambda>_.
       if ev_archived_at e = None
       then andThen (refresh_daily_pass_table X (ev_game_date e)) (\<lambda>_. ret (result AlreadyUnarchived))
       else
         andThen (reading X) (\<lambda>now.
         andThen (on_events X (\<lambda>_. unarchive_event (ev_event_id e) now)) (\<lambda>_.
         andThen (refresh_daily_pass_table X (ev_game_date e)) (\<lambda>_. ret (result Unarchived)))))"

definition apply_delete :: "env \<Rightarrow> command \<Rightarrow> event \<Rightarrow> mutation_result service" where
  "apply_delete X c e =
     andThen (require_admin X c) (\<lambda>_.
       if ev_archived_at e = None then refuse OnlyArchivedMayBeDeleted
       else andThen (catalog_delete X e) (\<lambda>_. ret (result DeletedWithTables)))"

definition apply_to_archived :: "env \<Rightarrow> command \<Rightarrow> event \<Rightarrow> mutation_result service" where
  "apply_to_archived X c e =
     (if cm_operation c = ARCHIVE_EVENT
      then andThen (refresh_daily_pass_table X (ev_game_date e)) (\<lambda>_. ret (result AlreadyArchivedNow))
      else if cm_operation c \<in> {ENLIST, CONFIRM, UPDATE_CHARACTER_WISH, UPDATE_CO_PLAYER_WISH, UPDATE_ANSWER, CANCEL}
      then refuse GameNotActive
      else refuse AlreadyArchived)"

definition apply_archive :: "env \<Rightarrow> event \<Rightarrow> mutation_result service" where
  "apply_archive X e =
     andThen (catalog_archive X e) (\<lambda>_.
     andThen (refresh_daily_pass_table X (ev_game_date e)) (\<lambda>_. ret (result ArchivedWithTablesKept)))"

section \<open>Status, notices and details\<close>

definition leader_operations :: "operation list" where
  "leader_operations =
     [OPEN_REGISTRATION, OPEN_CONFIRMATION, SEND_CONFIRMATION_REMINDER, SEND_CONFIRMED_NOTIFICATION,
      SEND_ALL_PLAYERS_NOTIFICATION, UPDATE_EVENT_DETAILS, UPDATE_QUESTION, UPDATE_PLAYER_AMOUNT,
      REMOVE_PARTICIPANT, REMOVE_WAITING_PARTICIPANTS, PROMOTE_RESERVE_PARTICIPANT, CLOSE_EVENT,
      ARCHIVE_EVENT]"

definition apply_status :: "env \<Rightarrow> event \<Rightarrow> event_status \<Rightarrow> message \<Rightarrow> mutation_result service" where
  "apply_status X e status txt =
     andThen (on_events X (set_status (ev_event_id e) status)) (\<lambda>changed.
       ret ((result txt)\<lparr>mr_notifications_enabled := changed\<rparr>))"

definition apply_open_confirmation :: "env \<Rightarrow> command \<Rightarrow> event \<Rightarrow> mutation_result service" where
  "apply_open_confirmation X c e =
     (case cm_payload c of
        ConfirmationDeadlinePayload deadline \<Rightarrow>
          andThen (on_events X (open_confirmation (ev_event_id e) deadline)) (\<lambda>_.
            ret ((result ConfirmationStatusSet)
              \<lparr>mr_notifications_enabled := ev_status e \<noteq> CONFIRMATION_OPEN\<rparr>))
      | _ \<Rightarrow> throw AssertionError)"

definition apply_reminder :: "event \<Rightarrow> mutation_result service" where
  "apply_reminder e =
     (if ev_status e \<noteq> CONFIRMATION_OPEN then refuse ConfirmationNotOpenForGame
      else if ev_confirmation_deadline e = None then refuse DeadlineNotSet
      else ret (result ReminderSent))"

definition apply_confirmed_notification :: "env \<Rightarrow> command \<Rightarrow> event \<Rightarrow> mutation_result service" where
  "apply_confirmed_notification X c e =
     (case cm_payload c of
        NotificationPayload sent \<Rightarrow>
          andThen (on_events X (append_confirmed_notification (ev_event_id e) sent (cm_operation_id c))) (\<lambda>_.
            ret (result ConfirmedNotified))
      | _ \<Rightarrow> throw AssertionError)"

definition apply_all_players_notification :: "command \<Rightarrow> mutation_result service" where
  "apply_all_players_notification c =
     (if is_NotificationPayload (cm_payload c) then ret (result AllPlayersNotified) else throw AssertionError)"

definition apply_details :: "env \<Rightarrow> command \<Rightarrow> event \<Rightarrow> mutation_result service" where
  "apply_details X c e =
     (case cm_payload c of
        EventDetailsPayload new_name new_date \<Rightarrow>
          if \<exists>t\<in>set_option (ev_scheduled_close_at e). fst (xe_moscow X t) \<le> new_date
          then refuse DateNotBeforeScheduledClose
          else
            andThen (on_events X (set_details (ev_event_id e) new_name new_date)) (\<lambda>_.
            andThen (refresh_daily_pass_table X (ev_game_date e)) (\<lambda>_.
            andThen (if ev_game_date e \<noteq> Some new_date then refresh_daily_pass_table X (Some new_date)
                     else ret ()) (\<lambda>_.
              ret (result (DetailsChanged (event_reference new_name (Some new_date)))))))
      | _ \<Rightarrow> throw AssertionError)"

definition option_limits :: "registration_question \<Rightarrow> (ustring \<times> nat) list" where
  "option_limits q = map (\<lambda>opt. (op_option_id opt, op_player_amount opt)) (qu_options q)"

definition apply_question :: "env \<Rightarrow> command \<Rightarrow> event \<Rightarrow> mutation_result service" where
  "apply_question X c e =
     (case cm_payload c of
        QuestionPayload question \<Rightarrow>
          (case ev_registration_question e of
             None \<Rightarrow> refuse NoQuestion
           | Some current \<Rightarrow>
               if option_limits current \<noteq> option_limits question then refuse OnlyTextsMayChange
               else
                 andThen (on_events X (set_registration_question (ev_event_id e) question)) (\<lambda>_.
                 andThen (refresh X (e\<lparr>ev_registration_question := Some question\<rparr>)) (\<lambda>_.
                   ret (result QuestionUpdated))))
      | _ \<Rightarrow> throw AssertionError)"

definition apply_player_amount :: "env \<Rightarrow> command \<Rightarrow> event \<Rightarrow> mutation_result service" where
  "apply_player_amount X c e0 =
     (if ev_registration_question e0 \<noteq> None then refuse LimitsSetPerAnswer
      else
        (case cm_payload c of
           PlayerAmountPayload amount \<Rightarrow>
             andThen (ensure_migrated X e0) (\<lambda>e.
             andThen
               (if ev_last_participant_removal_operation_id e = Some (cm_operation_id c) then ret ()
                else
                  andThen (rows_now (ev_event_id e)) (\<lambda>rows.
                    let promoted_keys = (if ev_player_amount e < amount
                          then map rg_participant_key
                                 (drop (ev_player_amount e) (take amount (active_queue rows None)))
                          else [])
                    in on_events X (set_participant_removal (ev_event_id e) (cm_operation_id c) promoted_keys))) (\<lambda>_.
             andThen (on_events X (set_player_amount (ev_event_id e) amount)) (\<lambda>_.
             andThen (refresh X (e\<lparr>ev_player_amount := amount\<rparr>)) (\<lambda>_.
               ret (result (PlayerAmountChanged amount))))))
         | _ \<Rightarrow> throw AssertionError))"

section \<open>Sorting and swapping the queue\<close>

definition sift_order :: "registration list \<Rightarrow> registration list" where
  "sift_order rows =
     sort_key (\<lambda>row. (rg_attendance_status row \<noteq> CONFIRMED, queue_key row)) rows"

definition keys_of :: "registration list \<Rightarrow> ustring list" where
  "keys_of rows = map rg_participant_key rows"

text \<open>The main roster the sift is about to produce, and the moves it makes.\<close>

definition main_after_sift :: "event \<Rightarrow> registration list \<Rightarrow> registration list" where
  "main_after_sift e reordered =
     (case ev_registration_question e of
        None \<Rightarrow> take (ev_player_amount e) reordered
      | Some q \<Rightarrow>
          concat (map (\<lambda>opt. take (op_player_amount opt)
            (filter (\<lambda>row. rg_answer_id row = Some (op_option_id opt)) reordered)) (qu_options q)))"

definition sift_moves :: "event \<Rightarrow> registration list \<Rightarrow> registration list \<Rightarrow> ustring list" where
  "sift_moves e rows reordered =
     (let before_main = keys_of (main_roster e rows);
          after_main = keys_of (main_after_sift e reordered)
      in map (sift_snapshot_entry SIFT_PROMOTED_PREFIX)
           (filter (\<lambda>k. k \<in> set after_main \<and> k \<notin> set before_main) (keys_of reordered))
         @ map (sift_snapshot_entry SIFT_DEMOTED_PREFIX)
             (filter (\<lambda>k. k \<in> set before_main \<and> k \<notin> set after_main) (keys_of rows)))"

text \<open>The moves are saved before they are made: added to those of an earlier attempt, or replacing another operation's.\<close>

definition save_moves :: "env \<Rightarrow> event \<Rightarrow> command \<Rightarrow> ustring list \<Rightarrow> unit service" where
  "save_moves X e c moves =
     (if ev_last_participant_removal_operation_id e = Some (cm_operation_id c)
      then on_events X (add_participant_removal_keys (ev_event_id e) (cm_operation_id c) moves)
      else on_events X (set_participant_removal (ev_event_id e) (cm_operation_id c) moves))"

definition apply_sift :: "env \<Rightarrow> command \<Rightarrow> event \<Rightarrow> mutation_result service" where
  "apply_sift X c e =
     andThen (rows_now (ev_event_id e)) (\<lambda>rows.
       let registrations = active_queue rows None;
           reordered = sift_order registrations
       in andThen
            (if keys_of registrations \<noteq> keys_of reordered
             then andThen (save_moves X e c (sift_moves e registrations reordered)) (\<lambda>_.
                    on_regs X (\<lambda>_. modifies (sift_waiting_to_end (ev_event_id e))))
             else if ev_last_participant_removal_operation_id e \<noteq> Some (cm_operation_id c)
             then on_events X (set_participant_removal (ev_event_id e) (cm_operation_id c) [])
             else ret ()) (\<lambda>_.
          andThen (refresh_with_rows X e) (\<lambda>(refreshed, registration_rows).
          andThen (find_event (ev_event_id refreshed)) (\<lambda>stored.
            let entries = current_sift_entries
                  (case stored of None \<Rightarrow> [] | Some s \<Rightarrow> ev_participant_removal_keys s)
                  registration_rows refreshed
            in ret (result (Resorted (length (filter (starts_with SIFT_PROMOTED_PREFIX) entries))
                                     (length (filter (starts_with SIFT_DEMOTED_PREFIX) entries))))))))"

text \<open>
  Exchanging a confirmed player of the reserve with the last unconfirmed one of the main roster.
\<close>

definition demoted_candidate :: "registration list \<Rightarrow> registration option" where
  "demoted_candidate main = List.find (\<lambda>row. rg_attendance_status row = WAITING) (rev main)"

definition exchange ::
    "env \<Rightarrow> command \<Rightarrow> event \<Rightarrow> ustring \<Rightarrow> nat \<Rightarrow> registration list \<Rightarrow> mutation_result service" where
  "exchange X c e key places registrations =
     (case index_of (\<lambda>row. rg_participant_key row = key) registrations of
        None \<Rightarrow> refuse NotInReserve
      | Some i \<Rightarrow>
          if i < places then refuse NotInReserve
          else
            (let promoted = registrations ! i
             in if rg_attendance_status promoted \<noteq> CONFIRMED then refuse NoLongerConfirmed
                else
                  (case demoted_candidate (take places registrations) of
                     None \<Rightarrow> refuse NoWaitingToDemote
                   | Some demoted \<Rightarrow>
                       andThen (save_moves X e c
                         [sift_snapshot_entry SIFT_PROMOTED_PREFIX key,
                          sift_snapshot_entry SIFT_DEMOTED_PREFIX (rg_participant_key demoted)]) (\<lambda>_.
                       andThen (on_regs X (\<lambda>clk. runs (swap_queue_positions (ev_event_id e) (cm_operation_id c)
                         (rg_participant_key promoted) (fst (queue_key promoted))
                         (rg_participant_key demoted) (fst (queue_key demoted)) (clk 0)))) (\<lambda>_.
                       andThen (refresh X e) (\<lambda>_.
                         ret (result (Exchanged (rg_display_name promoted) (rg_display_name demoted)))))))))"

definition apply_promotion :: "env \<Rightarrow> command \<Rightarrow> event \<Rightarrow> mutation_result service" where
  "apply_promotion X c e =
     (case cm_participant_key c of
        None \<Rightarrow> throw AssertionError
      | Some key \<Rightarrow>
          andThen (rows_now (ev_event_id e)) (\<lambda>rows.
            case List.find (\<lambda>row. rg_participant_key row = key) (active_queue rows None) of
              None \<Rightarrow> refuse NotInReserve
            | Some selected \<Rightarrow>
                (let registrations = (if ev_registration_question e \<noteq> None
                       then active_queue (active_queue rows None) (rg_answer_id selected)
                       else active_queue rows None)
                 in case answer_capacity e (rg_answer_id selected) of
                      Inl error \<Rightarrow> throw error
                    | Inr places \<Rightarrow>
                        if ev_last_participant_removal_operation_id e = Some (cm_operation_id c)
                           \<and> sift_snapshot_entry SIFT_PROMOTED_PREFIX key
                               \<in> set (current_sift_entries (ev_participant_removal_keys e) registrations e)
                        then andThen (refresh X e) (\<lambda>_. ret (result AlreadyPromoted))
                        else exchange X c e key places registrations)))"

section \<open>Profiles\<close>

definition update_profile_of ::
    "env \<Rightarrow> command \<Rightarrow> event \<Rightarrow> ustring \<Rightarrow> user \<Rightarrow> ustring \<Rightarrow> mutation_result service" where
  "update_profile_of X c e key u full_name =
     andThen (row_now (ev_event_id e) key) (\<lambda>registration.
     andThen (leaders_now (ev_event_id e)) (\<lambda>leaders.
       if registration = None \<and> (cm_platform c, cm_platform_user_id c) \<notin> set leaders
       then ret (silent PlayerAbsent)
       else
         andThen
           (if registration = None then ret (e, None)
            else
              andThen (on_regs X (\<lambda>clk. update_profile_row (ev_event_id e) (cm_operation_id c) key
                         (profile_view_of u full_name) (clk 0))) (\<lambda>_.
              andThen (refresh_with_rows X e) (\<lambda>(refreshed, rows). ret (refreshed, Some rows)))) (\<lambda>(refreshed, rows).
         andThen (refresh_pass_table X refreshed rows) (\<lambda>_. ret (silent ProfileUpdated)))))"

definition apply_profile :: "env \<Rightarrow> command \<Rightarrow> event \<Rightarrow> ustring \<Rightarrow> mutation_result service" where
  "apply_profile X c e key =
     andThen (reads w_users) (\<lambda>users.
       case (users, xe_key X) of
         (Some us, Some pkey) \<Rightarrow>
           if key \<noteq> pkey (cm_platform c) (cm_platform_user_id c) (ev_event_id e) then refuse WrongParticipant
           else
             (case users_get (cm_platform c) (cm_platform_user_id c) us of
                None \<Rightarrow> refuse ProfileIncomplete
              | Some u \<Rightarrow>
                  (case us_full_name (base u) of
                     None \<Rightarrow> refuse ProfileIncomplete
                   | Some full_name \<Rightarrow>
                       if \<not> profile_complete u then refuse ProfileIncomplete
                       else update_profile_of X c e key u full_name))
       | _ \<Rightarrow> throw RuntimeError)"

section \<open>Signing up\<close>

definition enlist_allowed :: "command \<Rightarrow> event \<Rightarrow> enlist_payload \<Rightarrow> registration list \<Rightarrow> unit service" where
  "enlist_allowed c e p registrations =
     andThen (unless_throw
       (case effective_registration registrations of
          None \<Rightarrow> True
        | Some r \<Rightarrow> rg_attendance_status r = CANCELLED \<or> rg_last_operation_id r = cm_operation_id c)
       (OperationNotAllowed AlreadyRegistered)) (\<lambda>_.
       case ev_registration_question e of
         Some q \<Rightarrow> unless_throw (question_option q (en_answer_id p) \<noteq> None) (OperationNotAllowed AnswerRequired)
       | None \<Rightarrow> unless_throw (en_answer_id p = None) (OperationNotAllowed AnswerUnexpected))"

text \<open>The view of the player: the payload's, or what is missing there from the stored profile.\<close>

definition payload_view :: "enlist_payload \<Rightarrow> profile_view" where
  "payload_view p =
     \<lparr>pv_display_name = surname_and_name (en_display_name p), pv_nickname = en_nickname p,
      pv_larp_experience = en_larp_experience p, pv_crossplay = en_crossplay p,
      pv_vk_profile = en_vk_profile p, pv_telegram_profile = en_telegram_profile p\<rparr>"

definition completed_view :: "user \<Rightarrow> profile_view \<Rightarrow> profile_view" where
  "completed_view u v =
     (let named = v\<lparr>pv_nickname := us_nickname (base u)\<rparr>
      in if pv_larp_experience v \<noteq> None \<and> pv_crossplay v \<noteq> None \<and> pv_vk_profile v \<noteq> [] then named
         else named\<lparr>pv_larp_experience := us_larp_experience (base u), pv_crossplay := us_crossplay (base u),
                    pv_vk_profile := fst (profile_links u),
                    pv_telegram_profile :=
                      (if \<not> is_TelegramUser u \<and> pv_telegram_profile v = None then snd (profile_links u)
                       else pv_telegram_profile v)\<rparr>)"

definition enlist_view :: "command \<Rightarrow> enlist_payload \<Rightarrow> profile_view service" where
  "enlist_view c p =
     andThen (reads w_users) (\<lambda>users.
       case users of
         None \<Rightarrow> ret (payload_view p)
       | Some us \<Rightarrow>
           (case users_get (cm_platform c) (cm_platform_user_id c) us of
              None \<Rightarrow> refuse ProfileIncomplete
            | Some u \<Rightarrow>
                if \<not> profile_complete u then refuse ProfileIncomplete
                else ret (completed_view u (payload_view p))))"

definition plays_that_day ::
    "env \<Rightarrow> command \<Rightarrow> event \<Rightarrow> bot_identity list \<Rightarrow> bool \<Rightarrow> bool service" where
  "plays_that_day X c e identities warning_shown =
     (case ev_game_date e of
        None \<Rightarrow> ret False
      | Some d \<Rightarrow>
          if warning_shown then ret False
          else
            (case xe_key X of
               None \<Rightarrow> throw RuntimeError
             | Some pkey \<Rightarrow>
                 andThen (player_registrations_on_date X pkey (cm_platform c) (cm_platform_user_id c) d
                            [WAITING, CONFIRMED] (Some (ev_event_id e)) identities (Some e)) (\<lambda>found.
                   ret (found \<noteq> []))))"

definition enlisted_answer ::
    "env \<Rightarrow> command \<Rightarrow> enlist_payload \<Rightarrow> ustring \<Rightarrow> bot_identity list \<Rightarrow> event \<Rightarrow> registration list
       \<Rightarrow> mutation_result service" where
  "enlisted_answer X c p key identities e rows =
     (case index_of (\<lambda>row. rg_participant_key row = key)
             (active_queue rows (if ev_registration_question e \<noteq> None then en_answer_id p else None)) of
        None \<Rightarrow> throw RuntimeError
      | Some i \<Rightarrow>
          andThen (plays_that_day X c e identities (en_same_day_warning_shown p)) (\<lambda>same_day_warning.
          andThen (event_master_records (ev_event_id e)) (\<lambda>masters.
            case enlistment_success_text (xe_moscow X) e (Suc i) masters same_day_warning (en_answer_id p) of
              Inl error \<Rightarrow> throw error
            | Inr txt \<Rightarrow>
                ret ((result (Composed txt))\<lparr>mr_buttons :=
                  (if ev_status e = CONFIRMATION_OPEN then Some [confirmation_button (ev_event_id e)] else None)\<rparr>))))"

definition apply_enlist :: "env \<Rightarrow> command \<Rightarrow> event \<Rightarrow> ustring \<Rightarrow> mutation_result service" where
  "apply_enlist X c e key =
     andThen (signup_allowed X ENLIST e) (\<lambda>_.
       case cm_payload c of
         EnlistPayload p \<Rightarrow>
           andThen (actor_registrations X e c) (\<lambda>(identities, existing).
           andThen (enlist_allowed c e p existing) (\<lambda>_.
           andThen (enlist_view c p) (\<lambda>view.
           andThen (on_regs X (enlist (ev_event_id e) (cm_operation_id c) key view (en_wish_play p)
                      (if ev_registration_question e \<noteq> None then en_answer_id p else None))) (\<lambda>_.
           andThen (refresh_with_rows X e) (\<lambda>(refreshed, rows).
           andThen (refresh_pass_table X refreshed (Some rows)) (\<lambda>_.
             enlisted_answer X c p key identities refreshed rows))))))
       | _ \<Rightarrow> throw AssertionError)"

section \<open>Confirming\<close>

text \<open>
  The game a confirmation replaces: its row, the registration that counts there, the key that is
  removed and the keys that are cancelled for linked profiles.
\<close>

record replacement =
  rp_event :: "event option"
  rp_registration :: "registration option"
  rp_key :: "ustring option"
  rp_keys :: "ustring list"

definition no_replacement :: replacement where
  "no_replacement = \<lparr>rp_event = None, rp_registration = None, rp_key = None, rp_keys = []\<rparr>"

definition replaced_game ::
    "env \<Rightarrow> pkey \<Rightarrow> command \<Rightarrow> event \<Rightarrow> bot_identity list \<Rightarrow> bool \<Rightarrow> ustring \<Rightarrow> replacement service" where
  "replaced_game X pkey c e identities already_applied replaced_id =
     andThen (find_event replaced_id) (\<lambda>found.
       case found of
         None \<Rightarrow> refuse ReplacedGameNotFound
       | Some other \<Rightarrow>
           if ev_event_id other = ev_event_id e then refuse ReplacedGameNotFound
           else if ev_game_date other \<noteq> ev_game_date e then refuse DifferentDays
           else
             andThen (registrations_of X pkey other identities) (\<lambda>rows.
               let registration = effective_registration rows;
                   gone = (case registration of
                       None \<Rightarrow> True | Some r \<Rightarrow> rg_attendance_status r \<noteq> CONFIRMED)
               in ret (if gone \<and> \<not> already_applied
                       then no_replacement\<lparr>rp_registration := registration\<rparr>
                       else \<lparr>rp_event = Some other, rp_registration = registration,
                             rp_key = (if length identities \<le> 1
                               then Some (pkey (cm_platform c) (cm_platform_user_id c) (ev_event_id other))
                               else map_option rg_participant_key registration),
                             rp_keys = keys_of rows\<rparr>)))"

definition find_replacement ::
    "env \<Rightarrow> command \<Rightarrow> event \<Rightarrow> bot_identity list \<Rightarrow> bool \<Rightarrow> ustring option \<Rightarrow> replacement service" where
  "find_replacement X c e identities already_applied replaced_event_id =
     (case ev_game_date e of
        None \<Rightarrow> if replaced_event_id \<noteq> None then refuse NoGameDate else ret no_replacement
      | Some d \<Rightarrow>
          (case xe_key X of
             None \<Rightarrow> throw RuntimeError
           | Some pkey \<Rightarrow>
               andThen (player_registrations_on_date X pkey (cm_platform c) (cm_platform_user_id c) d [CONFIRMED]
                          (Some (ev_event_id e)) identities (Some e)) (\<lambda>conflicts.
                 let conflict_ids = map (\<lambda>(other, _). ev_event_id other) conflicts
                 in if conflict_ids \<noteq> [] \<and> \<not> list_all (\<lambda>i. Some i = replaced_event_id) conflict_ids
                    then refuse ConfirmedElsewhereThatDay
                    else if conflict_ids = [] \<and> replaced_event_id \<noteq> None \<and> \<not> already_applied
                    then refuse NoLongerConflicting
                    else
                      (case replaced_event_id of
                         None \<Rightarrow> ret no_replacement
                       | Some replaced_id \<Rightarrow>
                           replaced_game X pkey c e identities already_applied replaced_id))))"

definition confirm_rows ::
    "env \<Rightarrow> command \<Rightarrow> event \<Rightarrow> ustring \<Rightarrow> bool \<Rightarrow> ustring list \<Rightarrow> ustring \<Rightarrow> event option \<Rightarrow> replacement \<Rightarrow> bool service" where
  "confirm_rows X c e key linked actor_keys wish replaced rp =
     on_regs X (\<lambda>clk.
       if linked
       then confirm_linked (ev_event_id e) (cm_operation_id c) actor_keys wish
              (map_option ev_event_id replaced) (rp_keys rp) (clk 0)
       else confirm_row (ev_event_id e) (cm_operation_id c) key wish
              (map_option ev_event_id replaced) (rp_key rp) (clk 0))"

definition refresh_all :: "env \<Rightarrow> event \<Rightarrow> (event \<times> registration list) service" where
  "refresh_all X e =
     andThen (refresh_with_rows X e) (\<lambda>(refreshed, rows).
     andThen (refresh_pass_table X refreshed (Some rows)) (\<lambda>_. ret (refreshed, rows)))"

definition confirm_with ::
    "env \<Rightarrow> command \<Rightarrow> event \<Rightarrow> ustring \<Rightarrow> bot_identity list \<Rightarrow> registration list \<Rightarrow> ustring \<Rightarrow> replacement
       \<Rightarrow> mutation_result service" where
  "confirm_with X c e key identities actor_rows wish rp =
     andThen
       (case rp_event rp of
          None \<Rightarrow> ret None
        | Some other \<Rightarrow> andThen (record_promotions X other c (rp_registration rp)) (\<lambda>other'. ret (Some other'))) (\<lambda>replaced.
     andThen (confirm_rows X c e key (1 < length identities) (keys_of actor_rows) wish replaced rp) (\<lambda>_.
     andThen
       (case replaced of
          None \<Rightarrow> ret None
        | Some other \<Rightarrow> andThen (refresh_all X other) (\<lambda>(other', _). ret (Some other'))) (\<lambda>refreshed_other.
     andThen (refresh_all X e) (\<lambda>(refreshed, rows).
     andThen (event_master_records (ev_event_id refreshed)) (\<lambda>masters.
       let main_keys = keys_of (active_main_roster rows refreshed)
       in ret ((result (Composed (confirmation_success_text refreshed wish
                  (list_ex (\<lambda>k. k \<in> set main_keys) (keys_of actor_rows)) masters)))
              \<lparr>mr_replaced_event_id := map_option ev_event_id refreshed_other\<rparr>))))))"

definition apply_confirm ::
    "env \<Rightarrow> command \<Rightarrow> event \<Rightarrow> ustring \<Rightarrow> bot_identity list \<Rightarrow> registration list \<Rightarrow> registration
       \<Rightarrow> mutation_result service" where
  "apply_confirm X c e key identities actor_rows registration =
     (if rg_attendance_status registration = CANCELLED then refuse MustRegisterAgain
      else
        (case cm_payload c of
           CharacterWishPayload wish replaced_event_id \<Rightarrow>
             andThen (find_replacement X c e identities
                 (rg_last_operation_id registration = cm_operation_id c
                  \<and> rg_attendance_status registration = CONFIRMED) replaced_event_id) (\<lambda>rp.
               confirm_with X c e key identities actor_rows wish rp)
         | _ \<Rightarrow> throw AssertionError))"

section \<open>Wishes, answers, cancelling\<close>

definition apply_character_wish ::
    "env \<Rightarrow> command \<Rightarrow> event \<Rightarrow> ustring \<Rightarrow> bool \<Rightarrow> ustring list \<Rightarrow> registration \<Rightarrow> mutation_result service" where
  "apply_character_wish X c e key linked actor_keys registration =
     (if rg_attendance_status registration = CANCELLED then refuse MustRegisterAgain
      else if rg_attendance_status registration = WAITING \<and> rg_character_wish registration = []
      then refuse FirstWishAtConfirmation
      else
        (case cm_payload c of
           CharacterWishPayload wish _ \<Rightarrow>
             andThen (on_regs X (\<lambda>clk.
               if linked
               then runs (update_linked_character_wish (ev_event_id e) (cm_operation_id c) actor_keys wish clk)
               else update_character_wish (ev_event_id e) (cm_operation_id c) key wish (clk 0))) (\<lambda>_.
             andThen (refresh X e) (\<lambda>_. ret (result CharacterWishUpdated)))
         | _ \<Rightarrow> throw AssertionError))"

definition apply_co_player_wish ::
    "env \<Rightarrow> command \<Rightarrow> event \<Rightarrow> ustring \<Rightarrow> bool \<Rightarrow> ustring list \<Rightarrow> registration \<Rightarrow> mutation_result service" where
  "apply_co_player_wish X c e key linked actor_keys registration =
     (if rg_attendance_status registration = CANCELLED then refuse MustRegisterAgain
      else
        (case cm_payload c of
           CoPlayerWishPayload wish \<Rightarrow>
             andThen (on_regs X (\<lambda>clk.
               if linked
               then runs (update_linked_co_player_wish (ev_event_id e) (cm_operation_id c) actor_keys wish clk)
               else update_co_player_wish (ev_event_id e) (cm_operation_id c) key wish (clk 0))) (\<lambda>_.
             andThen (refresh X e) (\<lambda>_. ret (result CoPlayerWishUpdated)))
         | _ \<Rightarrow> throw AssertionError))"

definition answered_place ::
    "event \<Rightarrow> registration list \<Rightarrow> registration \<Rightarrow> answer_option \<Rightarrow> mutation_result service" where
  "answered_place e rows registration opt =
     (case List.find (\<lambda>row. rg_participant_key row = rg_participant_key registration) rows of
        None \<Rightarrow> throw RuntimeError
      | Some current_row \<Rightarrow>
          (case queue_position e rows current_row of
             Inl _ \<Rightarrow> throw RuntimeError
           | Inr position \<Rightarrow>
               ret (result (AnswerChanged (op_name opt) (position \<le> op_player_amount opt) position))))"

definition apply_answer ::
    "env \<Rightarrow> command \<Rightarrow> event \<Rightarrow> ustring list \<Rightarrow> registration \<Rightarrow> mutation_result service" where
  "apply_answer X c e actor_keys registration =
     (case cm_payload c of
        AnswerPayload answer_id \<Rightarrow>
          (case (case ev_registration_question e of
                   None \<Rightarrow> None | Some q \<Rightarrow> question_option q (Some answer_id)) of
             None \<Rightarrow> refuse AnswerUnavailable
           | Some opt \<Rightarrow>
               if ev_status e = CLOSED then refuse RegistrationAlreadyClosed
               else if rg_attendance_status registration = CANCELLED then refuse MustRegisterAgain
               else if rg_answer_id registration = Some (op_option_id opt)
                       \<and> rg_last_operation_id registration \<noteq> cm_operation_id c
               then ret (silent (AnswerAlreadyChosen (op_name opt)))
               else
                 andThen (record_promotions X e c (Some registration)) (\<lambda>recorded.
                 andThen (on_regs X (\<lambda>clk. runs (update_answer (ev_event_id e) (cm_operation_id c) actor_keys
                            (op_option_id opt) clk))) (\<lambda>_.
                 andThen (refresh_with_rows X recorded) (\<lambda>(refreshed, rows).
                   answered_place refreshed rows registration opt))))
      | _ \<Rightarrow> throw AssertionError)"

definition apply_cancel ::
    "env \<Rightarrow> command \<Rightarrow> event \<Rightarrow> ustring \<Rightarrow> bool \<Rightarrow> ustring list \<Rightarrow> registration \<Rightarrow> mutation_result service" where
  "apply_cancel X c e key linked actor_keys registration =
     andThen
       (if ev_last_participant_removal_operation_id e = Some (cm_operation_id c) then ret ()
        else on_events X (set_participant_removal (ev_event_id e) (cm_operation_id c)
               (if rg_attendance_status registration = CANCELLED then []
                else [cancellation_snapshot_entry registration]))) (\<lambda>_.
     andThen (record_promotions X e c (Some registration)) (\<lambda>recorded.
     andThen (on_regs X (\<lambda>clk.
       if linked then runs (cancel_linked (ev_event_id e) (cm_operation_id c) actor_keys clk)
       else cancel_row (ev_event_id e) (cm_operation_id c) key (clk 0))) (\<lambda>_.
     andThen (refresh_all X recorded) (\<lambda>_. ret (result ParticipationCancelled)))))"

definition apply_removal :: "env \<Rightarrow> command \<Rightarrow> event \<Rightarrow> ustring \<Rightarrow> mutation_result service" where
  "apply_removal X c e key =
     andThen (row_now (ev_event_id e) key) (\<lambda>registration.
       if \<exists>r\<in>set_option registration. rg_attendance_status r = CANCELLED then refuse AlreadyCancelled
       else
         andThen
           (if ev_last_participant_removal_operation_id e = Some (cm_operation_id c) then ret ()
            else on_events X (set_participant_removal (ev_event_id e) (cm_operation_id c)
                   (if registration = None then [] else [key]))) (\<lambda>_.
         andThen (record_promotions X e c registration) (\<lambda>recorded.
         andThen
           (if registration = None then ret False
            else on_regs X (\<lambda>_. runs (remove_row (ev_event_id e) key))) (\<lambda>_.
         andThen (refresh_all X recorded) (\<lambda>_.
           ret (result (if registration = None then PlayerAlreadyRemoved else PlayerRemoved)))))))"

section \<open>The dispatch\<close>

definition confirmation_is_open :: "command \<Rightarrow> event \<Rightarrow> unit service" where
  "confirmation_is_open c e =
     (if cm_operation c = CONFIRM \<and> ev_status e = CREATED then refuse ConfirmationNotOpenYet
      else if cm_operation c = CONFIRM \<and> ev_status e = CLOSED then refuse ConfirmationClosed
      else ret ())"

definition apply_own ::
    "env \<Rightarrow> command \<Rightarrow> event \<Rightarrow> ustring \<Rightarrow> bot_identity list \<Rightarrow> registration list \<Rightarrow> mutation_result service" where
  "apply_own X c e key identities actor_rows =
     (case effective_registration actor_rows of
        None \<Rightarrow> throw RegistrationNotFound
      | Some registration \<Rightarrow>
          (let linked = (1 < length identities); actor_keys = keys_of actor_rows
           in if cm_operation c = CONFIRM then apply_confirm X c e key identities actor_rows registration
              else if cm_operation c = UPDATE_CHARACTER_WISH
              then apply_character_wish X c e key linked actor_keys registration
              else if cm_operation c = UPDATE_ANSWER then apply_answer X c e actor_keys registration
              else if cm_operation c = UPDATE_CO_PLAYER_WISH
              then apply_co_player_wish X c e key linked actor_keys registration
              else if cm_operation c = CANCEL then apply_cancel X c e key linked actor_keys registration
              else throw AssertionError))"

definition apply_participant :: "env \<Rightarrow> command \<Rightarrow> event \<Rightarrow> ustring \<Rightarrow> mutation_result service" where
  "apply_participant X c e key =
     (if cm_operation c = UPDATE_PROFILE then apply_profile X c e key
      else if cm_operation c = ENLIST then apply_enlist X c e key
      else
        andThen (confirmation_is_open c e) (\<lambda>_.
        andThen (actor_registrations X e c) (\<lambda>(identities, actor_rows).
          if cm_operation c = REMOVE_PARTICIPANT then apply_removal X c e key
          else
            (let identity_keys = (case xe_key X of
                   None \<Rightarrow> [key]
                 | Some pkey \<Rightarrow> map (\<lambda>i. pkey (fst i) (snd i) (ev_event_id e)) identities)
             in if key \<notin> set identity_keys then refuse WrongParticipant
                else apply_own X c e key identities actor_rows))))"

definition apply_to_players :: "env \<Rightarrow> command \<Rightarrow> event \<Rightarrow> mutation_result service" where
  "apply_to_players X c e0 =
     andThen (ensure_migrated X e0) (\<lambda>e.
       if cm_operation c = REMOVE_WAITING_PARTICIPANTS then apply_sift X c e
       else if cm_operation c = PROMOTE_RESERVE_PARTICIPANT then apply_promotion X c e
       else
         (case cm_participant_key c of
            None \<Rightarrow> throw AssertionError
          | Some key \<Rightarrow> apply_participant X c e key))"

definition apply_active :: "env \<Rightarrow> command \<Rightarrow> event \<Rightarrow> mutation_result service" where
  "apply_active X c e =
     andThen (if cm_operation c \<in> set leader_operations then require_event_leader X c else ret ()) (\<lambda>_.
       if cm_operation c = OPEN_CONFIRMATION then apply_open_confirmation X c e
       else if cm_operation c = SEND_CONFIRMATION_REMINDER then apply_reminder e
       else if cm_operation c = SEND_CONFIRMED_NOTIFICATION then apply_confirmed_notification X c e
       else if cm_operation c = SEND_ALL_PLAYERS_NOTIFICATION then apply_all_players_notification c
       else if cm_operation c = UPDATE_EVENT_DETAILS then apply_details X c e
       else if cm_operation c = UPDATE_QUESTION then apply_question X c e
       else if cm_operation c = UPDATE_PLAYER_AMOUNT then apply_player_amount X c e
       else if cm_operation c = OPEN_REGISTRATION then apply_status X e CREATED RegistrationStatusSet
       else if cm_operation c = CLOSE_EVENT then apply_status X e CLOSED ClosedStatusSet
       else if cm_operation c = ARCHIVE_EVENT then apply_archive X e
       else apply_to_players X c e)"

definition apply_command :: "env \<Rightarrow> command \<Rightarrow> mutation_result service" where
  "apply_command X c =
     andThen (find_event (cm_event_id c)) (\<lambda>found.
       case found of
         None \<Rightarrow>
           if cm_operation c \<in> {ARCHIVE_EVENT, DELETE_EVENT} then ret (result GameAlreadyGone)
           else throw EventNotFound
       | Some e \<Rightarrow>
           if cm_operation c = SCHEDULED_OPEN_CONFIRMATION then apply_scheduled_opening X c e
           else if cm_operation c = UNARCHIVE_EVENT then apply_unarchive X c e
           else if cm_operation c = DELETE_EVENT then apply_delete X c e
           else if ev_archived_at e \<noteq> None then apply_to_archived X c e
           else apply_active X c e)"

section \<open>What every command keeps, and that it ends\<close>

lemma reg_step_runs: "reg_step rg (snd (f rg)) \<Longrightarrow> reg_step rg (snd (runs f rg))"
  by (simp add: runs_apply)

lemma reg_step_modifies: "reg_step rg (f rg) \<Longrightarrow> reg_step rg (snd (modifies f rg))"
  by simp

lemma reg_step_if:
  "(b \<Longrightarrow> reg_step rg (snd (m rg))) \<Longrightarrow> (\<not> b \<Longrightarrow> reg_step rg (snd (n rg))) \<Longrightarrow>
     reg_step rg (snd ((if b then m else n) rg))"
  by simp

lemmas row_steps = reg_step_runs reg_step_modifies reg_step_if reg_step.intros

lemma keeps_case_sum [keeps_intros]:
  "(\<And>e. x = Inl e \<Longrightarrow> keeps I (m e)) \<Longrightarrow> (\<And>y. x = Inr y \<Longrightarrow> keeps I (k y)) \<Longrightarrow>
     keeps I (case x of Inl e \<Rightarrow> m e | Inr y \<Rightarrow> k y)"
  by (cases x) simp_all

lemma settles_case_sum [settles_intros]:
  "(\<And>e. x = Inl e \<Longrightarrow> settles (m e)) \<Longrightarrow> (\<And>y. x = Inr y \<Longrightarrow> settles (k y)) \<Longrightarrow>
     settles (case x of Inl e \<Rightarrow> m e | Inr y \<Rightarrow> k y)"
  by (cases x) simp_all

lemma keeps_case_payload [keeps_intros]:
  assumes "\<And>a. keeps I (f1 a)" and "\<And>a. keeps I (f2 a)" and "\<And>a. keeps I (f3 a)"
    and "\<And>a. keeps I (f4 a)" and "\<And>a b. keeps I (f5 a b)" and "\<And>a. keeps I (f6 a)"
    and "\<And>a. keeps I (f7 a)" and "\<And>a b. keeps I (f8 a b)" and "\<And>a. keeps I (f9 a)"
    and "\<And>a. keeps I (f10 a)" and "\<And>a. keeps I (f11 a)" and "\<And>a b. keeps I (f12 a
    b)" and "keeps I f13"
  shows "keeps I (case p of EnlistPayload a \<Rightarrow> f1 a | AnswerPayload a \<Rightarrow> f2
    a | QuestionPayload a \<Rightarrow> f3 a | CoPlayerWishPayload a \<Rightarrow> f4 a |
    CharacterWishPayload a b \<Rightarrow> f5 a b | ConfirmationDeadlinePayload a \<Rightarrow> f6
    a | NotificationPayload a \<Rightarrow> f7 a | EventDetailsPayload a b \<Rightarrow> f8 a b |
    PlayerAmountPayload a \<Rightarrow> f9 a | ProfileSyncPayload a \<Rightarrow> f10 a |
    DailyPassRefreshPayload a \<Rightarrow> f11 a | StatisticsPayload a b \<Rightarrow> f12 a b |
    EmptyPayload \<Rightarrow> f13)"
  using assms by (cases p) simp_all

lemma settles_case_payload [settles_intros]:
  assumes "\<And>a. settles (f1 a)" and "\<And>a. settles (f2 a)" and "\<And>a. settles (f3 a)"
    and "\<And>a. settles (f4 a)" and "\<And>a b. settles (f5 a b)" and "\<And>a. settles (f6 a)"
    and "\<And>a. settles (f7 a)" and "\<And>a b. settles (f8 a b)" and "\<And>a. settles (f9 a)"
    and "\<And>a. settles (f10 a)" and "\<And>a. settles (f11 a)" and "\<And>a b. settles (f12 a
    b)" and "settles f13"
  shows "settles (case p of EnlistPayload a \<Rightarrow> f1 a | AnswerPayload a \<Rightarrow> f2
    a | QuestionPayload a \<Rightarrow> f3 a | CoPlayerWishPayload a \<Rightarrow> f4 a |
    CharacterWishPayload a b \<Rightarrow> f5 a b | ConfirmationDeadlinePayload a \<Rightarrow> f6
    a | NotificationPayload a \<Rightarrow> f7 a | EventDetailsPayload a b \<Rightarrow> f8 a b |
    PlayerAmountPayload a \<Rightarrow> f9 a | ProfileSyncPayload a \<Rightarrow> f10 a |
    DailyPassRefreshPayload a \<Rightarrow> f11 a | StatisticsPayload a b \<Rightarrow> f12 a b |
    EmptyPayload \<Rightarrow> f13)"
  using assms by (cases p) simp_all

lemma keeps_access [keeps_intros]:
  "keeps (about_store P) (actor_is_admin X ids)" "keeps (about_store P) (require_event_leader X c)"
  "keeps (about_store P) (require_admin X c)" "keeps (about_store P) (actor_registrations X e c)"
  "keeps (about_store P) (event_master_records k)" "keeps (about_store P) (apply_reminder e)"
  "keeps (about_store P) (apply_all_players_notification c)" "keeps (about_store P) (signup_allowed X op e)"
  "keeps (about_store P) (enlist_allowed c e pl rows)" "keeps (about_store P) (enlist_view c pl)"
  "keeps (about_store P) (answered_place e rows r opt)" "keeps (about_store P) (confirmation_is_open c e)"
  unfolding actor_is_admin_def require_event_leader_def require_admin_def actor_registrations_def
    stored_rows_def event_master_records_def apply_reminder_def apply_all_players_notification_def
    signup_allowed_def enlist_allowed_def enlist_view_def answered_place_def confirmation_is_open_def
  by (intro keeps_intros)+

context store_law
begin

lemma keeps_daily_table: "legacy_plain X \<Longrightarrow> keeps (about_store P) (refresh_daily_pass_table X d)"
  unfolding refresh_daily_pass_table_def by (intro keeps_intros keeps_daily_pass_profiles)

lemma keeps_pass_table: "legacy_plain X \<Longrightarrow> keeps (about_store P) (refresh_pass_table X e rows)"
  unfolding refresh_pass_table_def by (intro keeps_intros keeps_daily_table keeps_event_pass_profiles)

lemma keeps_refresh_all: "legacy_plain X \<Longrightarrow> keeps (about_store P) (refresh_all X e)"
  unfolding refresh_all_def by (intro keeps_intros keeps_refresh_with_rows keeps_pass_table)

lemma keeps_record_promotions: "keeps (about_store P) (record_promotions X e c r)"
  unfolding record_promotions_def record_both_def record_reserve_promotion_def
    record_confirmed_link_promotion_def
  by (intro keeps_intros keeps_events event_step.intros)

lemma keeps_save_moves: "keeps (about_store P) (save_moves X e c moves)"
  unfolding save_moves_def by (intro keeps_intros keeps_events event_step.intros)

lemma keeps_archive_commands:
  assumes "legacy_plain X"
  shows "keeps (about_store P) (apply_unarchive X c e)" "keeps (about_store P) (apply_delete X c e)"
    "keeps (about_store P) (apply_to_archived X c e)" "keeps (about_store P) (apply_archive X e)"
  unfolding apply_unarchive_def apply_delete_def apply_to_archived_def apply_archive_def
  by (intro keeps_intros keeps_events event_step.intros keeps_daily_table keeps_catalog_delete
      keeps_catalog_archive assms)+

lemma keeps_scheduled_opening: "keeps (about_store P) (apply_scheduled_opening X c e)"
  unfolding apply_scheduled_opening_def
  by (intro keeps_intros keeps_events event_step.intros)

lemma keeps_event_commands:
  assumes "legacy_plain X"
  shows "keeps (about_store P) (apply_status X e st txt)" "keeps (about_store P) (apply_open_confirmation X c e)"
    "keeps (about_store P) (apply_confirmed_notification X c e)" "keeps (about_store P) (apply_details X c e)"
    "keeps (about_store P) (apply_question X c e)" "keeps (about_store P) (apply_player_amount X c e)"
  unfolding apply_status_def apply_open_confirmation_def apply_confirmed_notification_def apply_details_def
    apply_question_def apply_player_amount_def
  by (intro keeps_intros keeps_events event_step.intros keeps_daily_table keeps_refresh
      keeps_ensure_migrated assms)+

lemma keeps_queue_commands:
  assumes "legacy_plain X"
  shows "keeps (about_store P) (apply_sift X c e)" "keeps (about_store P) (apply_promotion X c e)"
  unfolding apply_sift_def apply_promotion_def exchange_def
  by (intro keeps_intros keeps_events event_step.intros keeps_save_moves keeps_refresh_with_rows
      keeps_refresh keeps_regs row_steps assms)+

lemma keeps_profile_command: "legacy_plain X \<Longrightarrow> keeps (about_store P) (apply_profile X c e key)"
  unfolding apply_profile_def update_profile_of_def
  by (intro keeps_intros keeps_regs row_steps keeps_refresh_with_rows keeps_pass_table)

lemma keeps_enlist_command: "legacy_plain X \<Longrightarrow> keeps (about_store P) (apply_enlist X c e key)"
  unfolding apply_enlist_def enlisted_answer_def plays_that_day_def
  by (intro keeps_intros keeps_regs row_steps keeps_refresh_with_rows keeps_pass_table
      keeps_player_registrations)

lemma keeps_confirm_command:
  assumes "legacy_plain X"
  shows "keeps (about_store P) (apply_confirm X c e key ids rows r)"
  unfolding apply_confirm_def find_replacement_def replaced_game_def confirm_with_def confirm_rows_def
  by (intro keeps_intros keeps_regs row_steps keeps_refresh_all keeps_record_promotions
      keeps_player_registrations keeps_registrations_of assms)

lemma keeps_own_commands:
  assumes "legacy_plain X"
  shows "keeps (about_store P) (apply_character_wish X c e key linked keys r)"
    "keeps (about_store P) (apply_co_player_wish X c e key linked keys r)"
    "keeps (about_store P) (apply_answer X c e keys r)"
    "keeps (about_store P) (apply_cancel X c e key linked keys r)"
    "keeps (about_store P) (apply_removal X c e key)"
  unfolding apply_character_wish_def apply_co_player_wish_def apply_answer_def apply_cancel_def
    apply_removal_def
  by (intro keeps_intros keeps_events keeps_regs event_step.intros row_steps keeps_refresh
      keeps_refresh_with_rows keeps_refresh_all keeps_record_promotions assms)+

lemma keeps_apply_command:
  assumes "legacy_plain X"
  shows "keeps (about_store P) (apply_command X c)"
  unfolding apply_command_def apply_active_def apply_to_players_def apply_participant_def apply_own_def
  by (intro keeps_intros keeps_scheduled_opening keeps_archive_commands keeps_event_commands
      keeps_queue_commands keeps_profile_command keeps_enlist_command keeps_confirm_command
      keeps_own_commands keeps_ensure_migrated assms)

end

lemma settles_access [settles_intros]:
  "settles (actor_is_admin X ids)" "settles (require_event_leader X c)"
  "settles (require_admin X c)" "settles (actor_registrations X e c)"
  "settles (event_master_records k)" "settles (apply_reminder e)"
  "settles (apply_all_players_notification c)" "settles (signup_allowed X op e)"
  "settles (enlist_allowed c e pl rows)" "settles (enlist_view c pl)"
  "settles (answered_place e rows r opt)" "settles (confirmation_is_open c e)"
  unfolding actor_is_admin_def require_event_leader_def require_admin_def actor_registrations_def
    stored_rows_def event_master_records_def apply_reminder_def apply_all_players_notification_def
    signup_allowed_def enlist_allowed_def enlist_view_def answered_place_def confirmation_is_open_def
  by (intro settles_intros; simp)+

lemma answer_capacity_error: "answer_capacity e a = Inl x \<Longrightarrow> x \<noteq> OutOfFuel"
  by (auto simp: answer_capacity_def split: option.splits)

lemma settles_tables [settles_intros]:
  "settles (refresh_daily_pass_table X d)" "settles (refresh_pass_table X e rows)"
  "settles (refresh_all X e)"
  unfolding refresh_all_def refresh_pass_table_def refresh_daily_pass_table_def
  by (intro settles_intros; simp)+

lemma settles_record_promotions [settles_intros]: "settles (record_promotions X e c r)"
  unfolding record_promotions_def record_both_def record_reserve_promotion_def
    record_confirmed_link_promotion_def
  by (intro settles_intros) (erule answer_capacity_error)

lemma settles_event_commands [settles_intros]:
  "settles (apply_scheduled_opening X c e)" "settles (apply_unarchive X c e)" "settles (apply_delete X c e)"
  "settles (apply_to_archived X c e)" "settles (apply_archive X e)" "settles (apply_status X e st txt)"
  "settles (apply_open_confirmation X c e)" "settles (apply_confirmed_notification X c e)"
  "settles (apply_details X c e)" "settles (apply_question X c e)" "settles (apply_player_amount X c e)"
  unfolding apply_scheduled_opening_def apply_unarchive_def apply_delete_def apply_to_archived_def
    apply_archive_def apply_status_def apply_open_confirmation_def apply_confirmed_notification_def
    apply_details_def apply_question_def apply_player_amount_def
  by (intro settles_intros; simp)+

lemma settles_queue_commands [settles_intros]:
  "settles (apply_sift X c e)" "settles (apply_promotion X c e)"
  unfolding apply_sift_def apply_promotion_def exchange_def save_moves_def
  by (intro settles_intros; (erule answer_capacity_error | simp))+

lemma settles_own_commands [settles_intros]:
  "settles (apply_profile X c e key)" "settles (apply_character_wish X c e key linked keys r)"
  "settles (apply_co_player_wish X c e key linked keys r)" "settles (apply_answer X c e keys r)"
  "settles (apply_cancel X c e key linked keys r)" "settles (apply_removal X c e key)"
  unfolding apply_profile_def update_profile_of_def apply_character_wish_def apply_co_player_wish_def
    apply_answer_def apply_cancel_def apply_removal_def
  by (intro settles_intros; simp)+

lemma for_player_error: "for_player links = Inl x \<Longrightarrow> x \<noteq> OutOfFuel"
  by (auto simp: for_player_def split: option.splits)

lemma enlistment_text_error: "enlistment_success_text moscow e n ms wish a = Inl x \<Longrightarrow> x \<noteq> OutOfFuel"
  unfolding enlistment_success_text_def Let_def
  using answer_capacity_error[of e a] for_player_error[of "public_table_links e"]
  by (cases "answer_capacity e a"; cases "for_player (public_table_links e)") (simp_all split: if_splits)

lemma settles_signup_commands:
  assumes "legacy_plain X"
  shows "settles (apply_enlist X c e key)" "settles (apply_confirm X c e key ids rows r)"
  unfolding apply_enlist_def enlisted_answer_def plays_that_day_def apply_confirm_def find_replacement_def
    replaced_game_def confirm_with_def confirm_rows_def
  by (intro settles_intros assms; (erule enlistment_text_error | simp))+

lemma settles_apply_command:
  assumes "legacy_plain X"
  shows "settles (apply_command X c)"
  unfolding apply_command_def apply_active_def apply_to_players_def apply_participant_def apply_own_def
  by (intro settles_intros settles_signup_commands assms; simp)

end
