(* ===== verification/Outcomes.thy ===== *)
theory Outcomes
  imports Mutations
begin

text \<open>
  What the ordered commands promise: they end, they keep the stored data consistent over any sequence
  of commands, they refuse what they must refuse without touching anything, and the players they
  announce as moved up or down are those whose roster changes.
\<close>

section \<open>Ending and keeping the store\<close>

text \<open>
  C13. Every command, applied to any state and whatever the clock, the table stores and the directory
  answer, comes to an end: it returns a result or raises one of the exceptions of the code, and no loop
  over the pages of games runs out of its fuel.
\<close>

theorem commands_end:
  assumes "legacy_plain X"
  shows "(\<exists>r. fst (apply_command X c w) = Inr r) \<or> (\<exists>x. fst (apply_command X c w) = Inl x \<and> x \<noteq> OutOfFuel)"
  using settles_apply_command[OF assms, of c] unfolding settles_def
  by (cases "fst (apply_command X c w)") (auto dest: spec[of _ w])

lemma sample_legacy_plain: "legacy_plain sample_env"
  by (simp add: legacy_plain_def sample_env_def)

definition sample_command :: "operation \<Rightarrow> payload \<Rightarrow> command" where
  "sample_command operation payload =
     \<lparr>cm_operation_id = [9], cm_event_id = sample_id, cm_operation = operation, cm_platform = VK,
      cm_platform_user_id = 7, cm_participant_key = Some [5], cm_identity_group = None,
      cm_payload = payload, cm_reply_context = empty_reply, cm_created_at = 50\<rparr>"

theorem commands_end_witness:
  "(\<exists>r. fst (apply_command sample_env (sample_command CLOSE_EVENT EmptyPayload) sample_world) = Inr r)
   \<or> (\<exists>x. fst (apply_command sample_env (sample_command CLOSE_EVENT EmptyPayload) sample_world) = Inl x \<and> x \<noteq> OutOfFuel)"
  by (rule commands_end[OF sample_legacy_plain])

definition after_commands :: "env \<Rightarrow> command list \<Rightarrow> world \<Rightarrow> world" where
  "after_commands X cs w = foldl (\<lambda>w c. snd (apply_command X c w)) w cs"

text \<open>
  C12. Any sequence of commands, successful, refused or failing halfway, keeps the stored data
  consistent: the games satisfy their row invariant, the registrations are keyed by their own game and
  participant, and the queue holds no operation twice.
\<close>

theorem commands_keep_store:
  assumes "legacy_plain X" and "about_store store_ok w"
  shows "about_store store_ok (after_commands X cs w)"
  unfolding after_commands_def
  using assms(2)
proof (induction cs arbitrary: w)
  case (Cons c cs)
  from keepsD[OF sound_store.keeps_apply_command[OF assms(1)] Cons.prems] Cons.IH show ?case by simp
qed simp

theorem commands_keep_store_witness:
  "about_store store_ok (after_commands sample_env
     [sample_command ENLIST EmptyPayload, sample_command CANCEL EmptyPayload] sample_world)"
  by (rule commands_keep_store[OF sample_legacy_plain sample_store_ok])

section \<open>Refusals\<close>

lemma apply_command_found:
  "get_event (cm_event_id c) (w_events w) = Some e \<Longrightarrow>
     apply_command X c w =
       (if cm_operation c = SCHEDULED_OPEN_CONFIRMATION then apply_scheduled_opening X c e
        else if cm_operation c = UNARCHIVE_EVENT then apply_unarchive X c e
        else if cm_operation c = DELETE_EVENT then apply_delete X c e
        else if ev_archived_at e \<noteq> None then apply_to_archived X c e
        else apply_active X c e) w"
  by (simp add: apply_command_def find_event_def andThen_def)

text \<open>
  C11. An archived game is frozen: a command for it other than archiving it again, unarchiving and deleting it
  changes nothing at all and asks nobody.  It is refused, a player's command with the answer that the game is no
  longer active; only the opening of the confirmation by the timer is answered, silently, as cancelled.
\<close>

theorem archived_game_is_frozen:
  assumes "get_event (cm_event_id c) (w_events w) = Some e" and "ev_archived_at e \<noteq> None"
    and "cm_operation c \<notin> {ARCHIVE_EVENT, UNARCHIVE_EVENT, DELETE_EVENT}"
  shows "apply_command X c w =
    (if cm_operation c = SCHEDULED_OPEN_CONFIRMATION
     then (if cm_platform c = SYSTEM then Inr (silent OpeningCancelledOrDone)
           else Inl (OperationNotAllowed OnlyTimerMayOpen))
     else Inl (OperationNotAllowed
       (if cm_operation c \<in> {ENLIST, CONFIRM, UPDATE_CHARACTER_WISH, UPDATE_CO_PLAYER_WISH, UPDATE_ANSWER, CANCEL}
        then GameNotActive else AlreadyArchived)), w)"
  using assms
  by (auto simp: apply_command_found apply_to_archived_def apply_scheduled_opening_def split: option.split)

definition archived_world :: world where
  "archived_world = sample_world\<lparr>w_events :=
     put_event sample_id (sample_event\<lparr>ev_status := CLOSED, ev_archived_at := Some 60\<rparr>) created_repo\<rparr>"

lemma archived_world_game:
  "get_event sample_id (w_events archived_world) = Some (sample_event\<lparr>ev_status := CLOSED, ev_archived_at := Some 60\<rparr>)"
  by (simp add: archived_world_def)

theorem archived_game_is_frozen_witness:
  "apply_command sample_env (sample_command CANCEL EmptyPayload) archived_world =
     (Inl (OperationNotAllowed GameNotActive), archived_world)"
proof -
  have "get_event (cm_event_id (sample_command CANCEL EmptyPayload)) (w_events archived_world) =
      Some (sample_event\<lparr>ev_status := CLOSED, ev_archived_at := Some 60\<rparr>)"
    by (simp add: sample_command_def archived_world_game)
  from archived_game_is_frozen[OF this, of sample_env] show ?thesis by (simp add: sample_command_def)
qed

text \<open>Asking whether these persons administer the bot leaves only its trace in the log of calls.\<close>

definition asks_about :: "bot_identity list \<Rightarrow> call list \<Rightarrow> bool" where
  "asks_about ids calls \<longleftrightarrow> set calls \<subseteq> (\<lambda>(p, i). IsAdmin p i) ` set ids"

text \<open>Whatever was called before, none of these persons is an administrator; somebody else may be.\<close>

definition no_admins :: "env \<Rightarrow> bot_identity list \<Rightarrow> bool" where
  "no_admins X ids \<longleftrightarrow> (\<forall>calls. \<forall>(p, i)\<in>set ids. \<not> xe_is_admin X (calls @ [IsAdmin p i]))"

lemma forEach_asks:
  assumes "no_admins X all" and "set ids \<subseteq> set all"
  shows "\<exists>asked. asks_about all asked
    \<and> (forEach ids (\<lambda>i. external X (IsAdmin (fst i) (snd i)) (xe_is_admin X)) v
         = (Inr (map (\<lambda>_. False) ids), v\<lparr>w_calls := w_calls v @ asked\<rparr>)
       \<or> forEach ids (\<lambda>i. external X (IsAdmin (fst i) (snd i)) (xe_is_admin X)) v
         = (Inl ExternalFailure, v\<lparr>w_calls := w_calls v @ asked\<rparr>))"
  using assms(2)
proof (induction ids arbitrary: v)
  case Nil
  show ?case by (intro exI[of _ "[]"]) (simp add: asks_about_def)
next
  case (Cons i ids)
  let ?c = "IsAdmin (fst i) (snd i)" and ?ask = "\<lambda>i. external X (IsAdmin (fst i) (snd i)) (xe_is_admin X)"
  have c: "asks_about all [?c]" and no: "\<not> xe_is_admin X (w_calls v @ [?c])"
    using Cons.prems assms(1) by (auto simp: asks_about_def no_admins_def split_beta)
  show ?case
  proof (cases "xe_outcome X (w_calls v) ?c = Answered")
    case True
    let ?v = "v\<lparr>w_calls := w_calls v @ [?c]\<rparr>"
    from Cons.IH[of ?v] Cons.prems obtain asked where a: "asks_about all asked"
      and rest: "forEach ids ?ask ?v = (Inr (map (\<lambda>_. False) ids), ?v\<lparr>w_calls := w_calls ?v @ asked\<rparr>)
        \<or> forEach ids ?ask ?v = (Inl ExternalFailure, ?v\<lparr>w_calls := w_calls ?v @ asked\<rparr>)" by auto
    from a c have "asks_about all (?c # asked)" by (auto simp: asks_about_def)
    moreover have "external X ?c (xe_is_admin X) v = (Inr False, ?v)"
      using True no by (simp add: external_apply)
    ultimately show ?thesis
      using rest by (intro exI[of _ "?c # asked"]) (auto simp: andThen_def)
  next
    case False
    then show ?thesis using c by (intro exI[of _ "[?c]"]) (simp add: andThen_def external_apply)
  qed
qed

lemma nobody_administers:
  assumes "no_admins X ids"
  shows "\<exists>asked. asks_about ids asked
    \<and> (actor_is_admin X ids w = (Inr False, w\<lparr>w_calls := w_calls w @ asked\<rparr>)
       \<or> actor_is_admin X ids w = (Inl ExternalFailure, w\<lparr>w_calls := w_calls w @ asked\<rparr>))"
proof (cases "xe_has_admins X")
  case True
  moreover have "\<not> list_ex (\<lambda>yes. yes) (map (\<lambda>_. False) ids)" by (simp add: list_ex_iff)
  ultimately show ?thesis
    using forEach_asks[OF assms subset_refl, of w] by (auto simp: actor_is_admin_def andThen_def)
next
  case False
  then show ?thesis by (intro exI[of _ "[]"]) (simp add: actor_is_admin_def asks_about_def)
qed

text \<open>A service that ends in a refusal, or because it cannot be told who administers the bot.\<close>

definition turned_away :: "bot_identity list \<Rightarrow> world \<Rightarrow> (exn + 'a) \<times> world \<Rightarrow> bool" where
  "turned_away ids w = (\<lambda>(r, w'). \<exists>asked. asks_about ids asked \<and> w' = w\<lparr>w_calls := w_calls w @ asked\<rparr>
     \<and> (r = Inl ExternalFailure \<or> (\<exists>why. r = Inl (OperationNotAllowed why))))"

lemma turned_awayI:
  "asks_about ids asked \<Longrightarrow> turned_away ids w (Inl ExternalFailure, w\<lparr>w_calls := w_calls w @ asked\<rparr>)"
  "asks_about ids asked \<Longrightarrow> turned_away ids w (Inl (OperationNotAllowed why), w\<lparr>w_calls := w_calls w @ asked\<rparr>)"
  unfolding turned_away_def by blast+

lemma turned_away_first: "turned_away ids w (m w) \<Longrightarrow> turned_away ids w (andThen m k w)"
proof -
  assume "turned_away ids w (m w)"
  then obtain asked x where a: "asks_about ids asked" "m w = (Inl x, w\<lparr>w_calls := w_calls w @ asked\<rparr>)"
    and x: "x = ExternalFailure \<or> (\<exists>why. x = OperationNotAllowed why)"
    unfolding turned_away_def by (cases "m w") auto
  from a(2) have "andThen m k w = (Inl x, w\<lparr>w_calls := w_calls w @ asked\<rparr>)" by (simp add: andThen_def)
  with x turned_awayI[OF a(1)] show ?thesis by auto
qed

lemma turned_away_refuse: "turned_away ids w (Inl (OperationNotAllowed why), w)"
  using turned_awayI(2)[of ids "[]" w] by (simp add: asks_about_def)

lemma turned_away_checks:
  assumes "no_admins X ids" and "ids = identities_for_local_user (w_users w) (cm_platform c) (cm_platform_user_id c)"
  shows "turned_away ids w (require_admin X c w)"
    and "set ids \<inter> set (list_leaders (cm_event_id c) (w_events w)) = {} \<Longrightarrow> turned_away ids w (require_event_leader X c w)"
proof -
  from nobody_administers[OF assms(1), of w] obtain asked where "asks_about ids asked"
    and "actor_is_admin X ids w = (Inr False, w\<lparr>w_calls := w_calls w @ asked\<rparr>)
      \<or> actor_is_admin X ids w = (Inl ExternalFailure, w\<lparr>w_calls := w_calls w @ asked\<rparr>)" by blast
  with assms(2) show "turned_away ids w (require_admin X c w)"
    and "set ids \<inter> set (list_leaders (cm_event_id c) (w_events w)) = {} \<Longrightarrow> turned_away ids w (require_event_leader X c w)"
    by (auto simp: require_admin_def require_event_leader_def identities_now_def leaders_now_def
        andThen_def list_ex_iff intro: turned_awayI)
qed

text \<open>
  C7. Only the leaders of a game and administrators manage it: a command to open, announce, change, close, archive,
  unarchive or delete a game or to remove or promote its players, sent by somebody who neither leads this game nor
  administers the bot under any of their linked profiles, is refused, or fails because the directory of
  administrators cannot be asked.  Everything stored and the queue stay as they are, and nothing is called but the
  directory, about this person.  Archiving a game once more is the exception: it is answered to anybody.
\<close>

theorem strangers_change_nothing:
  assumes "get_event (cm_event_id c) (w_events w) = Some e"
    and "cm_operation c \<in> {OPEN_REGISTRATION, OPEN_CONFIRMATION, SCHEDULED_OPEN_CONFIRMATION, SEND_CONFIRMATION_REMINDER,
      SEND_CONFIRMED_NOTIFICATION, SEND_ALL_PLAYERS_NOTIFICATION, UPDATE_EVENT_DETAILS, UPDATE_QUESTION,
      UPDATE_PLAYER_AMOUNT, REMOVE_PARTICIPANT, REMOVE_WAITING_PARTICIPANTS, PROMOTE_RESERVE_PARTICIPANT, CLOSE_EVENT,
      ARCHIVE_EVENT, UNARCHIVE_EVENT, DELETE_EVENT}"
    and "ev_archived_at e = None \<or> cm_operation c \<noteq> ARCHIVE_EVENT" and "cm_platform c \<noteq> SYSTEM"
    and "ids = identities_for_local_user (w_users w) (cm_platform c) (cm_platform_user_id c)"
    and "set ids \<inter> set (list_leaders (cm_event_id c) (w_events w)) = {}" and "no_admins X ids"
  shows "\<exists>asked x. apply_command X c w = (Inl x, w\<lparr>w_calls := w_calls w @ asked\<rparr>)
    \<and> set asked \<subseteq> (\<lambda>(p, i). IsAdmin p i) ` set ids \<and> (x = ExternalFailure \<or> (\<exists>why. x = OperationNotAllowed why))"
proof -
  note checks = turned_away_checks[OF assms(7,5)]
  have "turned_away ids w (apply_command X c w)"
  proof (cases "cm_operation c \<in> {SCHEDULED_OPEN_CONFIRMATION, UNARCHIVE_EVENT, DELETE_EVENT}")
    case True
    with assms(1,4) checks(1) show ?thesis
      by (auto simp: apply_command_found apply_scheduled_opening_def apply_unarchive_def apply_delete_def
          intro: turned_away_first turned_away_refuse)
  next
    case False
    with assms(2) have "cm_operation c \<in> set leader_operations" by (auto simp: leader_operations_def)
    with assms(1,3,6) False checks(2) show ?thesis
      by (auto simp: apply_command_found apply_to_archived_def apply_active_def
          intro: turned_away_first turned_away_refuse)
  qed
  then show ?thesis by (auto simp: turned_away_def asks_about_def)
qed

text \<open>Somebody else administers the bot.\<close>

definition administered_env :: env where
  "administered_env = sample_env\<lparr>xe_has_admins := True, xe_is_admin := \<lambda>calls. calls \<noteq> [] \<and> last calls = IsAdmin VK 1\<rparr>"

theorem strangers_change_nothing_witness:
  "\<exists>asked x. apply_command administered_env (sample_command CLOSE_EVENT EmptyPayload) sample_world =
       (Inl x, sample_world\<lparr>w_calls := w_calls sample_world @ asked\<rparr>)
     \<and> set asked \<subseteq> {IsAdmin VK 7} \<and> (x = ExternalFailure \<or> (\<exists>why. x = OperationNotAllowed why))"
proof -
  let ?c = "sample_command CLOSE_EVENT EmptyPayload"
  have event: "get_event (cm_event_id ?c) (w_events sample_world) = Some sample_event"
    by (simp add: sample_command_def sample_world_def created_repo_get)
  have ids: "[(VK, 7)] = identities_for_local_user (w_users sample_world) (cm_platform ?c) (cm_platform_user_id ?c)"
    by (simp add: sample_command_def sample_world_def identities_for_local_user_def)
  have "list_leaders sample_id created_repo = []"
    by (simp add: list_leaders_def leaders_of_def created_repo_def create_event_def no_events_def put_event_def
        get_event_def dict_put_def dict_get_def sample_id_def sample_event_def)
  then have apart: "set [(VK, 7)] \<inter> set (list_leaders (cm_event_id ?c) (w_events sample_world)) = {}"
    by (simp add: sample_command_def sample_world_def)
  have "no_admins administered_env [(VK, 7)]" by (simp add: no_admins_def administered_env_def)
  from strangers_change_nothing[OF event _ _ _ ids apart this] show ?thesis
    by (simp add: sample_command_def sample_event_def)
qed

text \<open>
  A scheduled opening of the confirmation runs only for the schedule it was made for: when the game
  has been archived or opened by hand, or its opening time or deadline changed since, nothing is
  changed, and nobody but the timer may send such a command.
\<close>

theorem stale_opening_is_ignored:
  assumes "get_event (cm_event_id c) (w_events w) = Some e" and "ev_event_id e = cm_event_id c"
    and "cm_operation c = SCHEDULED_OPEN_CONFIRMATION"
    and "cm_payload c = ConfirmationDeadlinePayload deadline"
    and "cm_platform c \<noteq> SYSTEM \<or> ev_archived_at e \<noteq> None \<or> ev_status e \<noteq> CREATED
           \<or> ev_confirmation_deadline e \<noteq> Some deadline
           \<or> (\<forall>t. ev_confirmation_open_at e = Some t \<longrightarrow> cm_operation_id c \<noteq> confirmation_opening_id X (cm_event_id c) t)"
  shows "snd (apply_command X c w) = w
    \<and> (if cm_platform c \<noteq> SYSTEM then fst (apply_command X c w) = Inl (OperationNotAllowed OnlyTimerMayOpen)
       else fst (apply_command X c w) \<in> {Inr (silent OpeningCancelledOrDone), Inr (silent OpeningRescheduled)})"
proof -
  have eq: "apply_command X c w = apply_scheduled_opening X c e w"
    using assms(1,3) by (simp add: apply_command_found)
  show ?thesis
    unfolding eq using assms(2,4,5) by (auto simp: apply_scheduled_opening_def split: option.splits)
qed

theorem stale_opening_is_ignored_witness:
  "snd (apply_command sample_env (sample_command SCHEDULED_OPEN_CONFIRMATION (ConfirmationDeadlinePayload 70))
     sample_world) = sample_world"
proof -
  let ?c = "sample_command SCHEDULED_OPEN_CONFIRMATION (ConfirmationDeadlinePayload 70)"
  have "get_event (cm_event_id ?c) (w_events sample_world) = Some sample_event"
    and "ev_event_id sample_event = cm_event_id ?c" and "cm_operation ?c = SCHEDULED_OPEN_CONFIRMATION"
    and "cm_payload ?c = ConfirmationDeadlinePayload 70" and "cm_platform ?c \<noteq> SYSTEM"
    by (simp_all add: sample_command_def sample_world_def created_repo_get) (simp add: sample_event_def sample_id_def)
  then show ?thesis using stale_opening_is_ignored[of ?c sample_world sample_event 70 sample_env] by blast
qed

end
