(* ===== verification/Moves.thy ===== *)
theory Moves
  imports Outcomes
begin

text \<open>
  Who moves between the rosters: the player recorded as moved up when a place is given up is the one
  who enters the main roster, and the moves a sort of the queue announces are the differences of the
  rosters before and after it.
\<close>

section \<open>A place given up\<close>

definition without :: "registration \<Rightarrow> registration list \<Rightarrow> registration list" where
  "without r rows = filter (\<lambda>row. row \<noteq> r) rows"

lemma without_absent: "r \<notin> set q \<Longrightarrow> without r q = q"
  by (auto simp: without_def filter_id_conv)

lemma take_without:
  assumes "distinct q" and "i < length q" and "q ! i = r"
  shows "set (take n (without r q)) - set (take n q) = (if i < n \<and> n < length q then {q ! n} else {})"
proof -
  let ?A = "take i q" and ?B = "drop (Suc i) q"
  have q: "q = ?A @ r # ?B" using assms(2,3) by (metis id_take_nth_drop)
  then have d: "r \<notin> set ?A" "r \<notin> set ?B" "distinct (?A @ r # ?B)"
    using assms(1) by (metis distinct_append distinct.simps(2) not_distinct_conv_prefix, metis distinct_append distinct.simps(2), metis)
  have w: "without r q = ?A @ ?B"
    using without_absent[OF d(1)] without_absent[OF d(2)] by (subst q) (simp add: without_def)
  show ?thesis
  proof (cases "i < n")
    case False
    then have "take n (without r q) = take n q" using w assms(2) by (simp add: min_def)
    then show ?thesis using False by simp
  next
    case True
    then obtain k where k: "n = i + Suc k" using less_iff_Suc_add by auto
    have tq: "take n q = ?A @ r # take k ?B"
      by (subst q) (use assms(2) k in \<open>simp add: min_def\<close>)
    have tw: "take n (without r q) = ?A @ take (Suc k) ?B"
      using w assms(2) k by (simp add: min_def)
    show ?thesis
    proof (cases "k < length ?B")
      case True
      then have e: "take (Suc k) ?B = take k ?B @ [?B ! k]" by (rule take_Suc_conv_app_nth)
      have "distinct (?A @ r # take k ?B @ [?B ! k])"
        using d(3) e by (metis (no_types, lifting) append_Cons append_assoc append_take_drop_id distinct_append)
      moreover have "?B ! k = q ! n" using True k by simp
      ultimately show ?thesis using True \<open>i < n\<close> k unfolding tq tw e by auto
    next
      case False
      then show ?thesis using \<open>i < n\<close> k unfolding tq tw by auto
    qed
  qed
qed

lemma active_queue_without:
  "active_queue (without r rows) a = without r (active_queue rows a)"
  unfolding active_queue_def without_def by (simp add: filter_sort conj_commute filter_filter)

lemma next_in_line_eq:
  assumes "roster_ok q" and "i < length q" and "q ! i = r" and "is_active r"
  shows "next_in_line places (Some r) q = (if i < places \<and> places < length q then Some (q ! places) else None)"
proof -
  have "index_of (\<lambda>row. rg_participant_key row = rg_participant_key r) q = Some i"
    unfolding index_of_Some_iff
  proof (intro conjI allI impI notI)
    fix j assume "j < i" "rg_participant_key (q ! j) = rg_participant_key r"
    with assms(1-3) show False
      unfolding roster_ok_def by (auto simp: distinct_conv_nth)
  qed (use assms(2,3) in simp_all)
  with assms(4) show ?thesis by (simp add: next_in_line_def is_active_def)
qed

text \<open>
  C5. When a player of a game gives up a place, by cancelling or being removed or by another game
  replacing this one, the player recorded as next in line is exactly the one who enters the main
  roster: nobody when the place was in the reserve or nobody waits, and for a game with a question only
  somebody with the same answer.
\<close>

theorem next_in_line_moves_up:
  assumes ok: "roster_ok rows" "slots_ok e" and r: "r \<in> set rows" "is_active r"
    and cap: "answer_capacity e (rg_answer_id r) = Inr places"
  shows "set (main_roster e (without r rows)) - set (main_roster e rows) =
           set_option (next_in_line places (Some r) (queue_of e rows r))"
proof -
  let ?q = "queue_of e rows r"
  define a0 where "a0 = (if ev_registration_question e = None then None else rg_answer_id r)"
  have q: "?q = active_queue rows a0" by (simp add: queue_of_def a0_def)
  have slot: "(a0, places) \<in> set (slots e)" unfolding a0_def by (rule slot_of[OF ok(2) cap])
  have okq: "roster_ok ?q" unfolding q by (rule roster_ok_active_queue[OF ok(1)])
  then have dq: "distinct ?q" by (auto simp: roster_ok_def distinct_map)
  obtain i where i: "i < length ?q" "?q ! i = r"
    using queue_of_mem[OF r] by (meson in_set_conv_nth)
  have elsewhere: "r \<notin> set (active_queue rows a)" if "(a, n) \<in> set (slots e)" "a \<noteq> a0" for a n
    using that slots_shape[OF that(1)] by (auto simp: set_active_queue a0_def split: if_splits)
  have own: "x \<in> set (main_roster e rows) \<longleftrightarrow> x \<in> set (take places ?q)" if "x \<in> set ?q" for x
  proof -
    have "a0 = None \<or> rg_answer_id x = rg_answer_id r"
      using that unfolding q by (auto simp: set_active_queue a0_def split: if_splits)
    then have "answer_capacity e (rg_answer_id x) = Inr places" "queue_of e rows x = ?q"
      using cap slots_shape[OF slot] by (auto simp: answer_capacity_def queue_of_def a0_def split: if_splits option.splits)
    with main_roster_iff_own_queue[OF ok(2), of x places rows] show ?thesis by simp
  qed
  have "set (main_roster e (without r rows)) - set (main_roster e rows) =
      set (take places (without r ?q)) - set (take places ?q)"
  proof (intro set_eqI iffI)
    fix x assume x: "x \<in> set (main_roster e (without r rows)) - set (main_roster e rows)"
    then obtain a n where an: "(a, n) \<in> set (slots e)" "x \<in> set (take n (without r (active_queue rows a)))"
      by (auto simp: set_main_roster active_queue_without)
    have "a = a0"
    proof (rule ccontr)
      assume "a \<noteq> a0"
      then have "x \<in> set (main_roster e rows)"
        using an(2) without_absent[OF elsewhere[OF an(1)]] an(1) by (auto simp: set_main_roster intro!: bexI[OF _ an(1)])
      with x show False by simp
    qed
    with an have in_q: "x \<in> set (take places (without r ?q))"
      using slot_unique[OF ok(2) an(1)[unfolded \<open>a = a0\<close>] slot] by (simp add: q)
    then have "x \<in> set ?q" by (auto simp: without_def dest!: in_set_takeD)
    with own x in_q show "x \<in> set (take places (without r ?q)) - set (take places ?q)" by simp
  next
    fix x assume x: "x \<in> set (take places (without r ?q)) - set (take places ?q)"
    then have "x \<in> set ?q" by (auto simp: without_def dest!: in_set_takeD)
    moreover have "x \<in> set (main_roster e (without r rows))"
      using x slot by (auto simp: set_main_roster active_queue_without q intro!: bexI[OF _ slot])
    ultimately show "x \<in> set (main_roster e (without r rows)) - set (main_roster e rows)" using own x by simp
  qed
  also have "\<dots> = set_option (next_in_line places (Some r) ?q)"
    unfolding take_without[OF dq i] next_in_line_eq[OF okq i r(2)] by simp
  finally show ?thesis .
qed

theorem next_in_line_moves_up_witness:
  "set (main_roster sample_event (without (sample_registration [5] 10 WAITING) sample_rows))
     - set (main_roster sample_event sample_rows) = {sample_registration [2] 20 CONFIRMED}"
proof -
  let ?r = "sample_registration [5] 10 WAITING"
  have r: "?r \<in> set sample_rows" "is_active ?r"
    by (simp_all add: sample_rows_def sample_registration_def is_active_def)
  have cap: "answer_capacity sample_event (rg_answer_id ?r) = Inr 1"
    by (simp add: answer_capacity_def sample_event_def)
  have q: "queue_of sample_event sample_rows ?r = [?r, sample_registration [2] 20 CONFIRMED]"
    by (simp add: queue_of_def sample_active_queue) (simp add: sample_event_def sample_active_queue)
  have n: "next_in_line 1 (Some ?r) [?r, sample_registration [2] 20 CONFIRMED] =
      Some (sample_registration [2] 20 CONFIRMED)"
    by (simp add: next_in_line_def sample_registration_def)
  from next_in_line_moves_up[OF sample_roster_ok sample_slots_ok r cap] show ?thesis by (simp only: q n option.set)
qed

section \<open>Sorting the queue\<close>

lemma sift_order_sifted:
  assumes "roster_ok q" and "sorted (map queue_key q)"
  shows "sift_order q = sifted q"
  unfolding sift_order_def
proof (rule sort_key_inj_key_eq)
  let ?k = "\<lambda>row. (rg_attendance_status row \<noteq> CONFIRMED, queue_key row)"
  show "mset q = mset (sifted q)" by (simp add: sifted_def)
  show "inj_on ?k (set q)"
    using assms(1) by (auto simp: inj_on_def roster_ok_def distinct_map queue_key_def)
  have s: "sorted_wrt (\<lambda>x y. queue_key x \<le> queue_key y) q"
    using assms(2) by (simp add: sorted_wrt_map)
  have "sorted_wrt (\<lambda>x y. ?k x \<le> ?k y) (filter P q)"
    if "\<And>x y. P x \<Longrightarrow> P y \<Longrightarrow> (rg_attendance_status x = CONFIRMED) = (rg_attendance_status y = CONFIRMED)" for P
    using that by (intro sorted_wrt_mono_rel[OF _ sorted_wrt_filter[OF s]]) (auto simp: less_eq_prod_def)
  from this[of "\<lambda>row. rg_attendance_status row = CONFIRMED"] this[of "\<lambda>row. rg_attendance_status row \<noteq> CONFIRMED"]
  show "sorted (map ?k (sifted q))"
    by (auto simp: sifted_def sorted_append sorted_wrt_map less_eq_prod_def)
qed

lemma active_queue_idem: "active_queue (active_queue rows None) None = active_queue rows None"
  unfolding active_queue_def by (simp add: filter_sort sort_key_id_if_sorted)

lemma main_roster_of_queue: "main_roster e (active_queue rows None) = main_roster e rows"
  by (simp add: main_roster_def active_queue_answer[of "active_queue rows None"] active_queue_answer[of rows]
      active_queue_idem split: option.splits)

lemma main_roster_mapped:
  assumes "active_queue rows' None = map f q" and "\<And>row. rg_answer_id (f row) = rg_answer_id row"
  shows "main_roster e rows' = map f (main_after_sift e q)"
  by (simp add: main_roster_def main_after_sift_def active_queue_answer assms filter_map o_def take_map
      map_concat split: option.splits)

text \<open>
  C15. Sorting the confirmed players to the front announces exactly the players whose roster changes:
  the saved moves name as promoted those who are in the main roster after the sort and were not before,
  and as demoted those who were and no longer are.
\<close>

theorem sift_moves_are_the_difference:
  assumes ok: "regs_ok rg" and rows: "rows = list_for_event event_id rg"
    and rows': "rows' = list_for_event event_id (sift_waiting_to_end event_id rg)"
    and q: "q = active_queue rows None"
  shows "set (sift_moves e q (sift_order q)) =
    sift_snapshot_entry SIFT_PROMOTED_PREFIX ` (set (keys_of (main_roster e rows')) - set (keys_of (main_roster e rows)))
    \<union> sift_snapshot_entry SIFT_DEMOTED_PREFIX ` (set (keys_of (main_roster e rows)) - set (keys_of (main_roster e rows')))"
proof -
  have gq: "q = game_queue event_id rg" by (simp add: q rows game_queue_def)
  obtain f where f: "active_queue rows' None = map f (sifted q)"
    "\<And>row. rg_participant_key (f row) = rg_participant_key row" "\<And>row. rg_answer_id (f row) = rg_answer_id row"
    using sift_queue[OF ok, of event_id] unfolding gq rows' game_queue_def by blast
  have okq: "roster_ok q"
    unfolding gq game_queue_rows[OF ok] by (rule roster_ok_active_queue[OF roster_ok_event_rows[OF ok]])
  have so: "sift_order q = sifted q"
    by (rule sift_order_sifted[OF okq]) (simp add: q sorted_active_queue)
  have after: "keys_of (main_after_sift e (sift_order q)) = keys_of (main_roster e rows')"
    unfolding so main_roster_mapped[OF f(1) f(3)] by (simp add: keys_of_def f(2))
  have before: "main_roster e q = main_roster e rows" unfolding q by (rule main_roster_of_queue)
  have "set (keys_of (main_roster e rows')) \<subseteq> set (keys_of (sift_order q))"
    unfolding so keys_of_def using main_roster_active[of _ e rows'] f(1,2) by force
  moreover have "set (keys_of (main_roster e rows)) \<subseteq> set (keys_of q)"
    unfolding keys_of_def q using main_roster_active[of _ e rows] by auto
  ultimately show ?thesis
    unfolding sift_moves_def Let_def after before by auto
qed

theorem sift_moves_are_the_difference_witness:
  "set (sift_moves sample_event (game_queue sample_id sample_regs) (sift_order (game_queue sample_id sample_regs))) =
     sift_snapshot_entry SIFT_PROMOTED_PREFIX `
       (set (keys_of (main_roster sample_event (list_for_event sample_id (sift_waiting_to_end sample_id sample_regs))))
        - set (keys_of (main_roster sample_event (list_for_event sample_id sample_regs))))
     \<union> sift_snapshot_entry SIFT_DEMOTED_PREFIX `
       (set (keys_of (main_roster sample_event (list_for_event sample_id sample_regs)))
        - set (keys_of (main_roster sample_event (list_for_event sample_id (sift_waiting_to_end sample_id sample_regs)))))"
  unfolding game_queue_def by (rule sift_moves_are_the_difference[OF sample_regs_ok refl refl refl])

end
