(* ===== verification/Administration.thy ===== *)
theory Administration
  imports Texts
begin

text \<open>
  \<open>application/administration_services.py\<close>: creating a game with its tables, the pages and counts of
  its rosters, finding the profile behind a registration, and the pass tables and achievements that are
  exported.  The service always has a user repository and a participant secret (\<open>pkey\<close>); the callback of
  a deferred upload is part of the logged call.
\<close>

section \<open>Uploads\<close>

text \<open>
  \<open>before_invoke\<close> is a hook for the store, which runs it just before it hands the files over, or not at all;
  the result says whether it ran.
\<close>

definition uploading :: "env \<Rightarrow> unit service option \<Rightarrow> call \<Rightarrow> (call list \<Rightarrow> 'a) \<Rightarrow> ('a \<times> bool) service" where
  "uploading X before_invoke c answer =
     andThen (reads (\<lambda>w. before_invoke \<noteq> None \<and> xe_announces X (w_calls w))) (\<lambda>announced.
     andThen (case before_invoke of Some hook \<Rightarrow> if announced then hook else ret () | None \<Rightarrow> ret ()) (\<lambda>_.
     andThen (external X c answer) (\<lambda>y. ret (y, announced))))"

section \<open>Creating a game\<close>

definition users_now :: "users service" where
  "users_now = andThen (reads w_users) (\<lambda>users. case users of None \<Rightarrow> throw AssertionError | Some us \<Rightarrow> ret us)"

definition draw_token :: "env \<Rightarrow> ustring \<Rightarrow> date \<Rightarrow> ustring service" where
  "draw_token X n d = ticking X (\<lambda>_. answers (\<lambda>w. game_signup_token (xe_drawn X (w_turns w)) n d None))"

fun unused_token :: "env \<Rightarrow> nat \<Rightarrow> ustring \<Rightarrow> date \<Rightarrow> ustring service" where
  "unused_token X 0 n d = throw RuntimeError"
| "unused_token X (Suc tries) n d =
     andThen (draw_token X n d) (\<lambda>candidate.
     andThen (answers (\<lambda>w. get_by_signup_token candidate (w_events w))) (\<lambda>found.
       if found = None then ret candidate else unused_token X tries n d))"

definition schedule_fits ::
    "time option \<Rightarrow> time option \<Rightarrow> time option \<Rightarrow> time option \<Rightarrow> bool" where
  "schedule_fits opens confirmation deadline closes \<longleftrightarrow>
     (confirmation = None) = (deadline = None)
     \<and> (case (opens, closes) of (Some a, Some b) \<Rightarrow> a < b | _ \<Rightarrow> True)
     \<and> (case (confirmation, deadline) of
          (Some a, Some b) \<Rightarrow>
            a < b \<and> (case opens of Some t \<Rightarrow> t < a | None \<Rightarrow> True)
            \<and> (case closes of Some t \<Rightarrow> b < t | None \<Rightarrow> True)
        | _ \<Rightarrow> True)"

definition leader_passes :: "bot_identity list \<Rightarrow> user list \<Rightarrow> pass_details list" where
  "leader_passes leaders user_rows =
     List.map_filter (\<lambda>u. if local_identity u \<in> set leaders then pass_wanted u else None) user_rows"

text \<open>A new game, with the defaults of the fields that are not given; three of them read the clock.\<close>

definition new_event :: "event_draft \<Rightarrow> ustring \<Rightarrow> ustring \<Rightarrow> ustring \<Rightarrow> (ustring, ustring) dict \<Rightarrow> clock \<Rightarrow> event" where
  "new_event dr master_url public_url pass_url urls clk =
     \<lparr>ev_event_id = dr_event_id dr, ev_name = dr_name dr, ev_game_date = Some (dr_game_date dr),
      ev_player_amount = dr_player_amount dr, ev_registration_question = dr_question dr,
      ev_disk_resource_path = dr_master_path dr, ev_public_registration_url = master_url,
      ev_master_table_google_url = dict_get urls (asc ''google:master''),
      ev_public_table_resource_path = Some (dr_public_path dr), ev_public_table_public_url = Some public_url,
      ev_public_table_google_url = dict_get urls (asc ''google:public''), ev_status = CREATED,
      ev_registration_open_at = dr_registration_open_at dr, ev_registration_open_notified_recipients = [],
      ev_registration_open_notification_completed_at = None,
      ev_confirmation_open_at = dr_confirmation_open_at dr, ev_scheduled_close_at = dr_scheduled_close_at dr,
      ev_scheduled_close_operation_id = None, ev_scheduled_close_notified_recipients = [],
      ev_scheduled_close_completed_at = None, ev_signup_token = Some (dr_signup_token dr),
      ev_telegram_post_url = None, ev_vk_post_url = None, ev_telegram_chat_id = None,
      ev_telegram_chat_invite_link = None, ev_confirmation_deadline = dr_confirmation_deadline dr,
      ev_registrations_migrated_at = Some (clk 0), ev_pass_table_resource_path = Some (dr_pass_path dr),
      ev_pass_table_public_url = Some pass_url,
      ev_pass_table_google_url = dict_get urls (asc ''google:pass''), ev_achievement_resource_path = None,
      ev_achievement_public_url = None, ev_confirmed_notifications = [],
      ev_last_confirmed_notification_operation_id = None, ev_last_reserve_promotion_operation_id = None,
      ev_last_reserve_promotion_participant_key = None,
      ev_last_reserve_promotion_delivered_operation_id = None,
      ev_last_confirmed_link_promotion_operation_id = None,
      ev_last_confirmed_link_promotion_participant_key = None,
      ev_last_confirmed_link_promotion_delivered_operation_id = None,
      ev_last_participant_removal_operation_id = None, ev_participant_removal_keys = [],
      ev_participant_removal_notified_keys = [], ev_archived_at = None, ev_created_at = clk 1,
      ev_updated_at = clk 2\<rparr>"

definition build_event :: "env \<Rightarrow> event_draft \<Rightarrow> (ustring, ustring) dict \<Rightarrow> event service" where
  "build_event X dr urls =
     (case (dict_get urls (asc ''master''), dict_get urls (asc ''public''), dict_get urls (asc ''pass'')) of
        (Some master_url, Some public_url, Some pass_url) \<Rightarrow>
          ticking X (\<lambda>clk. case event_validate (new_event dr master_url public_url pass_url urls clk) of
            None \<Rightarrow> throw ValueError | Some e \<Rightarrow> ret e)
      | _ \<Rightarrow> throw KeyError)"

definition store_event :: "env \<Rightarrow> event \<Rightarrow> bot_identity list \<Rightarrow> event service" where
  "store_event X e leaders =
     catching
       (andThen (on_events X (\<lambda>_. create_event e leaders)) (\<lambda>_. ret e))
       (\<lambda>x. if x \<noteq> ValueError then throw x
             else
               andThen (find_event (ev_event_id e)) (\<lambda>existing.
                 case existing of
                   None \<Rightarrow> throw ValueError
                 | Some old \<Rightarrow> if ev_signup_token old \<noteq> ev_signup_token e then throw ValueError else ret old))"

section \<open>Daily pass tables\<close>

definition refresh_day :: "env \<Rightarrow> pkey \<Rightarrow> date option \<Rightarrow> unit service" where
  "refresh_day X pkey game_date =
     (case game_date of
        None \<Rightarrow> ret ()
      | Some d \<Rightarrow>
          andThen (external X (PassTableExists (daily_pass_table_path d)) (xe_exists X)) (\<lambda>exists.
            if \<not> exists then ret ()
            else
              andThen users_now (\<lambda>us.
              andThen (daily_pass_profiles X pkey us d) (\<lambda>(_, profiles).
                external X (ReplacePassTable (daily_pass_table_path d) profiles) (\<lambda>_. ())))))"

definition game_capacity :: "registration_question option \<Rightarrow> nat \<Rightarrow> nat" where
  "game_capacity question player_amount =
     (case question of None \<Rightarrow> player_amount | Some q \<Rightarrow> sum_list (map op_player_amount (qu_options q)))"

definition create_game ::
    "env \<Rightarrow> ustring \<Rightarrow> date \<Rightarrow> nat \<Rightarrow> bot_identity list \<Rightarrow> time option \<Rightarrow> time option \<Rightarrow> time option
       \<Rightarrow> time option \<Rightarrow> registration_question option \<Rightarrow> requester \<Rightarrow> ustring option \<Rightarrow> bool
       \<Rightarrow> unit service option \<Rightarrow> (event_draft \<times> (ustring, ustring) dict option \<times> bool) service" where
  "create_game X n game_date player_amount leaders opens confirmation deadline closes question requester
       master_label masters_pending before_invoke =
     andThen (unless_throw (strip n \<noteq> [] \<and> valid_player_amount (game_capacity question player_amount)
                \<and> schedule_fits opens confirmation deadline closes) ValueError) (\<lambda>_.
     andThen (unused_token X 20 (strip n) game_date) (\<lambda>signup_token.
     andThen (fresh_id X) (\<lambda>event_id.
     andThen users_now (\<lambda>us.
       let paths = event_table_paths event_id (strip n);
           pass_path = asc ''disk:/larp-bot/passes/'' @ event_id @ asc ''.xlsx'';
           dr = \<lparr>dr_event_id = event_id, dr_name = strip n, dr_game_date = game_date,
                 dr_player_amount = game_capacity question player_amount, dr_question = question,
                 dr_master_path = fst paths, dr_public_path = snd paths, dr_pass_path = pass_path,
                 dr_registration_open_at = opens, dr_confirmation_open_at = confirmation,
                 dr_confirmation_deadline = deadline, dr_scheduled_close_at = closes,
                 dr_signup_token = signup_token\<rparr>
       in andThen (uploading X before_invoke
            (CreateEventBundle (fst paths) (snd paths) pass_path (leader_passes leaders (list_all_users us))
               (dr_player_amount dr) question
               (EventCreatedCallback dr leaders master_label masters_pending requester))
            (xe_table_urls X)) (\<lambda>urls. ret (dr, urls))))))"

definition administer_event ::
    "env \<Rightarrow> pkey \<Rightarrow> ustring \<Rightarrow> date \<Rightarrow> nat \<Rightarrow> bot_identity list \<Rightarrow> time option \<Rightarrow> time option
       \<Rightarrow> time option \<Rightarrow> time option \<Rightarrow> registration_question option \<Rightarrow> requester \<Rightarrow> ustring option
       \<Rightarrow> bool \<Rightarrow> unit service option \<Rightarrow> (event option \<times> bool) service" where
  "administer_event X pkey n game_date player_amount leaders opens confirmation deadline closes question
       requester master_label masters_pending before_invoke =
     andThen (create_game X n game_date player_amount leaders opens confirmation deadline closes question
                requester master_label masters_pending before_invoke) (\<lambda>(dr, urls, announced).
       case urls of
         None \<Rightarrow> ret (None, announced)
       | Some links \<Rightarrow>
           andThen (build_event X dr links) (\<lambda>built.
           andThen (store_event X built leaders) (\<lambda>e.
           andThen (refresh_day X pkey (Some game_date)) (\<lambda>_. ret (Some e, announced)))))"

section \<open>Tables of a game\<close>

definition ensure_event_tables :: "env \<Rightarrow> event \<Rightarrow> requester \<Rightarrow> event service" where
  "ensure_event_tables X e0 requester =
     andThen (ensure_migrated X e0) (\<lambda>e1.
     andThen (ensure_public_table X e1 None requester) (\<lambda>e.
       if ev_public_table_public_url e = None then ret e else refresh X e))"

record pass_table_export =
  px_public_url :: "ustring option"
  px_created :: bool
  px_row_count :: "nat option"

definition replace_event_passes :: "env \<Rightarrow> pkey \<Rightarrow> event \<Rightarrow> ustring \<Rightarrow> unit service" where
  "replace_event_passes X pkey e path =
     andThen (ensure_migrated X e) (\<lambda>_.
     andThen users_now (\<lambda>us.
     andThen (event_pass_profiles pkey us e None) (\<lambda>profiles.
     andThen (external X (ReplacePassTable path profiles) (xe_workbook_url X)) (\<lambda>google_url.
       if google_url = None then ret ()
       else andThen (on_events X (set_google_table_links (ev_event_id e) None None google_url)) (\<lambda>_. ret ())))))"

definition refresh_event_passes :: "env \<Rightarrow> pkey \<Rightarrow> ustring \<Rightarrow> unit service" where
  "refresh_event_passes X pkey event_id =
     andThen (require_event event_id) (\<lambda>e.
     andThen (case ev_pass_table_resource_path e of
                None \<Rightarrow> ret () | Some path \<Rightarrow> replace_event_passes X pkey e path) (\<lambda>_.
       refresh_day X pkey (ev_game_date e)))"

definition new_pass_table :: "env \<Rightarrow> pkey \<Rightarrow> event \<Rightarrow> requester \<Rightarrow> pass_table_export service" where
  "new_pass_table X pkey e requester =
     andThen (ensure_migrated X e) (\<lambda>_.
     andThen users_now (\<lambda>us.
     andThen (event_pass_profiles pkey us e None) (\<lambda>profiles.
     let disk_path = asc ''disk:/larp-bot/passes/'' @ ev_event_id e @ asc ''.xlsx''
     in andThen (external X (CreatePassTable disk_path profiles
                   (EventTablesCallback (ev_event_id e) disk_path (asc ''pass'') requester)) (xe_workbook_url X))
          (\<lambda>public_url.
          case public_url of
            None \<Rightarrow> ret \<lparr>px_public_url = None, px_created = True, px_row_count = Some (length profiles)\<rparr>
          | Some url \<Rightarrow>
              andThen
                (catching
                  (andThen (on_events X (set_pass_table (ev_event_id e) disk_path url
                             (if xe_mirrors_google X then Some url else None))) (\<lambda>stored.
                     unless_throw stored EventNotFound))
                  (\<lambda>error. andThen (external X (DeletePassTable disk_path) (\<lambda>_. ())) (\<lambda>_. throw error))) (\<lambda>_.
                ret \<lparr>px_public_url = Some url, px_created = True, px_row_count = Some (length profiles)\<rparr>)))))"

definition create_pass_table :: "env \<Rightarrow> pkey \<Rightarrow> ustring \<Rightarrow> requester \<Rightarrow> pass_table_export service" where
  "create_pass_table X pkey event_id requester =
     andThen (require_event event_id) (\<lambda>e.
       case ev_pass_table_public_url e of
         Some url \<Rightarrow>
           andThen (refresh_event_passes X pkey (ev_event_id e)) (\<lambda>_.
             ret \<lparr>px_public_url = Some url, px_created = False, px_row_count = None\<rparr>)
       | None \<Rightarrow> new_pass_table X pkey e requester)"

definition refresh_event_tables :: "env \<Rightarrow> pkey \<Rightarrow> ustring \<Rightarrow> requester \<Rightarrow> event service" where
  "refresh_event_tables X pkey event_id requester =
     andThen (require_event event_id) (\<lambda>e0.
     andThen (ensure_event_tables X e0 requester) (\<lambda>e.
     andThen (create_pass_table X pkey (ev_event_id e) requester) (\<lambda>_.
       require_event (ev_event_id e))))"

definition create_daily_pass_table ::
    "env \<Rightarrow> pkey \<Rightarrow> date \<Rightarrow> requester \<Rightarrow> unit service option \<Rightarrow> (pass_table_export \<times> bool) service" where
  "create_daily_pass_table X pkey game_date requester before_invoke =
     andThen users_now (\<lambda>us.
     andThen (daily_pass_profiles X pkey us game_date) (\<lambda>(day_events, profiles).
       if day_events = [] then throw (OperationNotAllowed NoActiveGamesThatDay)
       else
         (let disk_path = daily_pass_table_path game_date
          in andThen (external X (PassTableExists disk_path) (xe_exists X)) (\<lambda>existed.
             andThen (uploading X before_invoke (UpsertPassTable disk_path profiles
                        (DailyPassesCallback game_date disk_path requester)) (xe_workbook_url X)) (\<lambda>(public_url, announced).
               ret (\<lparr>px_public_url = public_url, px_created = \<not> existed,
                     px_row_count = Some (length profiles)\<rparr>, announced))))))"

text \<open>The days on which one of a person's identities plays or leads; each is refreshed once.\<close>

definition plays_or_leads ::
    "pkey \<Rightarrow> bot_identity list \<Rightarrow> event \<Rightarrow> bool service" where
  "plays_or_leads pkey identities e =
     andThen (rows_now (ev_event_id e)) (\<lambda>rows.
     andThen (leaders_now (ev_event_id e)) (\<lambda>leaders.
       ret (belongs_to_day pkey [(ev_event_id e, active_keys rows, leaders)] identities)))"

definition days_of_user :: "env \<Rightarrow> pkey \<Rightarrow> bot_identity list \<Rightarrow> date list service" where
  "days_of_user X pkey identities =
     andThen (unarchived_events X) (\<lambda>games.
     let dated = filter (\<lambda>e. ev_game_date e \<noteq> None) games
     in andThen (forEach dated (plays_or_leads pkey identities)) (\<lambda>concerned.
          ret (dedup (List.map_filter (\<lambda>(e, yes). if yes then ev_game_date e else None) (zip dated concerned)))))"

definition refresh_days_of_user :: "env \<Rightarrow> pkey \<Rightarrow> platform \<Rightarrow> int \<Rightarrow> unit service" where
  "refresh_days_of_user X pkey p i =
     andThen (identities_now p i) (\<lambda>identities.
     andThen (days_of_user X pkey identities) (\<lambda>days.
     andThen (gather days (\<lambda>d. refresh_day X pkey (Some d))) (\<lambda>_. ret ())))"

definition active_game_dates :: "env \<Rightarrow> date list service" where
  "active_game_dates X =
     andThen (unarchived_events X) (\<lambda>games.
       ret (sort_key (\<lambda>d. d) (dedup (List.map_filter ev_game_date games))))"

record achievement_export =
  ax_public_url :: "ustring option"
  ax_created :: bool

definition attach_achievement :: "env \<Rightarrow> event \<Rightarrow> ustring \<Rightarrow> ustring \<Rightarrow> achievement_export service" where
  "attach_achievement X e path url =
     catching
       (andThen (on_events X (set_achievement (ev_event_id e) path url)) (\<lambda>stored.
          if stored then ret \<lparr>ax_public_url = Some url, ax_created = True\<rparr>
          else
            andThen (find_event (ev_event_id e)) (\<lambda>current.
              case (case current of None \<Rightarrow> None | Some c \<Rightarrow> ev_achievement_public_url c) of
                Some stored_url \<Rightarrow> ret \<lparr>ax_public_url = Some stored_url, ax_created = False\<rparr>
              | None \<Rightarrow> throw EventNotFound)))
       (\<lambda>error. andThen (external X (DeleteAchievement path) (\<lambda>_. ())) (\<lambda>_. throw error))"

definition export_achievements ::
    "env \<Rightarrow> ustring \<Rightarrow> requester \<Rightarrow> unit service option \<Rightarrow> (achievement_export \<times> bool) service" where
  "export_achievements X event_id requester before_invoke =
     andThen (require_event event_id) (\<lambda>e.
     let replacing = ev_achievement_public_url e \<noteq> None;
         disk_path = path_or (ev_achievement_resource_path e)
           (asc ''disk:/larp-bot/achievements/'' @ ev_event_id e @ asc ''.pptx'')
     in andThen (uploading X before_invoke (CreateAchievement disk_path (ev_name e) replacing
                   (AchievementCallback (ev_event_id e) disk_path requester)) (xe_workbook_url X)) (\<lambda>(public_url, announced).
          case public_url of
            None \<Rightarrow> ret (\<lparr>ax_public_url = None, ax_created = \<not> replacing\<rparr>, announced)
          | Some url \<Rightarrow>
              if replacing then ret (\<lparr>ax_public_url = ev_achievement_public_url e, ax_created = False\<rparr>, announced)
              else andThen (attach_achievement X e disk_path url) (\<lambda>made. ret (made, announced))))"

section \<open>Rosters\<close>

text \<open>The game and its rows, after a legacy workbook has been imported.\<close>

definition roster_now :: "env \<Rightarrow> ustring \<Rightarrow> (event \<times> registration list) service" where
  "roster_now X event_id =
     andThen (require_event event_id) (\<lambda>e.
     andThen (ensure_migrated X e) (\<lambda>_.
     andThen (rows_now event_id) (\<lambda>rows. ret (e, rows))))"

record registration_page =
  rpg_rows :: "registration list"
  rpg_has_previous :: bool
  rpg_has_next :: bool

definition registration_page_now ::
    "ustring \<Rightarrow> attendance_status list \<Rightarrow> cursor option \<Rightarrow> cursor option \<Rightarrow> nat \<Rightarrow> registration list service" where
  "registration_page_now event_id statuses after before limit =
     answers (\<lambda>w. list_page_for_event event_id (Some statuses) after before limit (w_regs w))"

definition registration_page_of ::
    "env \<Rightarrow> ustring \<Rightarrow> attendance_status list \<Rightarrow> cursor option \<Rightarrow> cursor option \<Rightarrow> nat
       \<Rightarrow> registration_page service" where
  "registration_page_of X event_id statuses after before limit =
     andThen (require_event event_id) (\<lambda>e.
     andThen (ensure_migrated X e) (\<lambda>_.
     andThen (registration_page_now event_id statuses after before limit) (\<lambda>rows.
       if rows = [] then ret \<lparr>rpg_rows = [], rpg_has_previous = False, rpg_has_next = False\<rparr>
       else
         andThen (gather [(None, Some (registration_cursor (hd rows))),
                          (Some (registration_cursor (last rows)), None)]
                    (\<lambda>(a, b). registration_page_now event_id statuses a b 1)) (\<lambda>sides.
           ret \<lparr>rpg_rows = rows, rpg_has_previous = sides ! 0 \<noteq> [], rpg_has_next = sides ! 1 \<noteq> []\<rparr>))))"

definition active_registration_page where
  "active_registration_page X event_id after before limit =
     registration_page_of X event_id [WAITING, CONFIRMED] after before limit"

definition waiting_registration_page where
  "waiting_registration_page X event_id after before limit =
     registration_page_of X event_id [WAITING] after before limit"

definition confirmed_reserve :: "event \<Rightarrow> registration list \<Rightarrow> registration list" where
  "confirmed_reserve e rows =
     (let active = sort_key registration_cursor (filter is_active rows)
      in filter (\<lambda>row. rg_attendance_status row = CONFIRMED)
           (sort_key registration_cursor (reserve_roster e active)))"

text \<open>\<open>xs[-limit:]\<close>: with the limit 0 it is the whole list.\<close>

definition last_of :: "nat \<Rightarrow> 'a list \<Rightarrow> 'a list" where
  "last_of limit xs = (if limit = 0 then xs else take_last limit xs)"

definition reserve_slice ::
    "cursor option \<Rightarrow> cursor option \<Rightarrow> nat \<Rightarrow> registration list \<Rightarrow> registration_page" where
  "reserve_slice after before limit reserve =
     (let rows = (case (after, before) of
            (Some a, _) \<Rightarrow> take limit (filter (\<lambda>row. a < registration_cursor row) reserve)
          | (None, Some b) \<Rightarrow> last_of limit (filter (\<lambda>row. registration_cursor row < b) reserve)
          | (None, None) \<Rightarrow> take limit reserve)
      in if rows = [] then \<lparr>rpg_rows = [], rpg_has_previous = False, rpg_has_next = False\<rparr>
         else \<lparr>rpg_rows = rows,
               rpg_has_previous = list_ex (\<lambda>row. registration_cursor row < registration_cursor (hd rows)) reserve,
               rpg_has_next = list_ex (\<lambda>row. registration_cursor (last rows) < registration_cursor row) reserve\<rparr>)"

definition confirmed_reserve_registration_page ::
    "env \<Rightarrow> ustring \<Rightarrow> cursor option \<Rightarrow> cursor option \<Rightarrow> nat \<Rightarrow> registration_page service" where
  "confirmed_reserve_registration_page X event_id after before limit =
     andThen (unless_throw (after = None \<or> before = None) ValueError) (\<lambda>_.
     andThen (roster_now X event_id) (\<lambda>(e, rows). ret (reserve_slice after before limit (confirmed_reserve e rows))))"

definition promotable :: "event \<Rightarrow> registration list \<Rightarrow> ustring \<Rightarrow> bool" where
  "promotable e rows key \<longleftrightarrow>
     (let active = sort_key registration_cursor (filter is_active rows)
      in case List.find (\<lambda>row. rg_participant_key row = key) active of
           None \<Rightarrow> False
         | Some selected \<Rightarrow>
             list_ex (\<lambda>row. rg_attendance_status row = WAITING
                \<and> (ev_registration_question e = None \<or> rg_answer_id row = rg_answer_id selected))
               (main_roster e active)
             \<and> list_ex (\<lambda>row. rg_participant_key row = key \<and> rg_attendance_status row = CONFIRMED)
                 (reserve_roster e active))"

definition can_promote_confirmed_reserve :: "env \<Rightarrow> ustring \<Rightarrow> ustring \<Rightarrow> bool service" where
  "can_promote_confirmed_reserve X event_id key =
     andThen (roster_now X event_id) (\<lambda>(e, rows). ret (promotable e rows key))"

definition has_unconfirmed_main_slot :: "env \<Rightarrow> ustring \<Rightarrow> bool service" where
  "has_unconfirmed_main_slot X event_id =
     andThen (roster_now X event_id) (\<lambda>(e, rows).
       ret (list_ex (\<lambda>row. rg_attendance_status row = WAITING) (active_main_roster rows e)))"

definition count_status :: "attendance_status list \<Rightarrow> registration list \<Rightarrow> nat" where
  "count_status statuses rows = length (filter (\<lambda>row. rg_attendance_status row \<in> set statuses) rows)"

definition waiting_registration_count :: "env \<Rightarrow> ustring \<Rightarrow> nat service" where
  "waiting_registration_count X event_id =
     andThen (roster_now X event_id) (\<lambda>(e, rows). ret (count_status [WAITING] rows))"

definition confirmed_registration_count :: "env \<Rightarrow> ustring \<Rightarrow> bool \<Rightarrow> nat service" where
  "confirmed_registration_count X event_id main_roster_only =
     andThen (roster_now X event_id) (\<lambda>(e, rows).
       ret (count_status [CONFIRMED] (if main_roster_only then active_main_roster rows e else rows)))"

definition active_registration_count :: "env \<Rightarrow> ustring \<Rightarrow> nat service" where
  "active_registration_count X event_id =
     andThen (roster_now X event_id) (\<lambda>(e, rows). ret (count_status [WAITING, CONFIRMED] rows))"

definition in_main_roster :: "env \<Rightarrow> ustring \<Rightarrow> ustring \<Rightarrow> bool service" where
  "in_main_roster X event_id key =
     andThen (roster_now X event_id) (\<lambda>(e, rows).
       ret (list_ex (\<lambda>row. rg_participant_key row = key) (active_main_roster rows e)))"

section \<open>The profile behind a registration\<close>

definition registration_user :: "pkey \<Rightarrow> ustring \<Rightarrow> ustring \<Rightarrow> user option service" where
  "registration_user pkey event_id registration_key =
     andThen (require_event event_id) (\<lambda>_.
     andThen users_now (\<lambda>us.
       ret (List.find (\<lambda>u. user_key pkey event_id u = registration_key) (list_all_users us))))"

definition find_telegram_user_by_profile :: "pkey \<Rightarrow> ustring \<Rightarrow> user option service" where
  "find_telegram_user_by_profile pkey handle =
     andThen (reads (\<lambda>w. find_by_telegram_profile (asc ''https://t.me/'' @ remove_prefix (asc ''@'') handle) (w_regs w)))
       (\<lambda>rows.
       if rows = [] then ret None
       else
         andThen users_now (\<lambda>us.
           let matches = filter (\<lambda>u. is_TelegramUser u
                 \<and> list_ex (\<lambda>row. pkey TELEGRAM (tg_id u) (rg_event_id row) = rg_participant_key row) rows)
                 (list_all_users us)
           in ret (case dedup (map tg_id matches) of [i] \<Rightarrow> List.find (\<lambda>u. tg_id u = i) (rev matches) | _ \<Rightarrow> None)))"

definition registration_of_game :: "env \<Rightarrow> ustring \<Rightarrow> ustring \<Rightarrow> registration option service" where
  "registration_of_game X event_id key = andThen (require_event event_id) (\<lambda>e. catalog_get X e key)"

end
