(* ===== verification/Statistics.thy ===== *)
theory Statistics
  imports Administration
begin

text \<open>
  \<open>application/statistics.py\<close>: who played and who led a game goes to the two statistics workbooks, and
  those who played are marked as experienced.  The workbooks are outside: preparing an edit, replacing
  the file and looking names up are calls.  Tasks of a task group run one after the other.
\<close>

section \<open>The season\<close>

definition current_season_year :: "env \<Rightarrow> time \<Rightarrow> nat" where
  "current_season_year X now =
     (case fst (xe_moscow X now) of (y, m, d) \<Rightarrow> if 9 \<le> m then y else y - 1)"

section \<open>Experience\<close>

definition grant_experience_to :: "env \<Rightarrow> pkey \<Rightarrow> ustring \<Rightarrow> ustring \<Rightarrow> user \<Rightarrow> unit service" where
  "grant_experience_to X pkey event_id operation_id u =
     (let (p, i) = local_identity u
      in andThen (on_users X (\<lambda>now. modifies (grant_larp_experience p i now))) (\<lambda>_.
         andThen (enqueue_profile_updates X pkey p i (operation_id @ asc '':statistics-experience'')
                    MAX_EVENT_PAGE_SIZE [event_id]) (\<lambda>_. ret ())))"

definition grant_experience :: "env \<Rightarrow> pkey \<Rightarrow> ustring \<Rightarrow> ustring list \<Rightarrow> ustring \<Rightarrow> unit service" where
  "grant_experience X pkey event_id confirmed_keys operation_id =
     andThen users_now (\<lambda>us.
     let experienced = filter (\<lambda>u. user_key pkey event_id u \<in> set confirmed_keys) (list_all_users us)
     in andThen (forEach experienced (grant_experience_to X pkey event_id operation_id)) (\<lambda>_.
        andThen users_now (\<lambda>now_stored.
        andThen (project_profiles_for_event X pkey event_id
                   (present (map (\<lambda>u. users_get (fst (local_identity u)) (snd (local_identity u)) now_stored)
                      experienced))
                   (operation_id @ asc '':statistics-experience'')) (\<lambda>projected.
          if projected = 0 then ret ()
          else andThen (refresh_event_tables X pkey event_id None) (\<lambda>_. ret ())))))"

section \<open>Synchronising a profile\<close>

definition sync_profile :: "env \<Rightarrow> pkey \<Rightarrow> command \<Rightarrow> message service" where
  "sync_profile X pkey c =
     (case cm_payload c of
        ProfileSyncPayload names \<Rightarrow>
          andThen users_now (\<lambda>us.
            if users_get (cm_platform c) (cm_platform_user_id c) us = None then ret ProfileAbsentAlready
            else
              andThen (external X (HasAnyPlayer names) (xe_yes X)) (\<lambda>experienced.
              andThen (on_users X (\<lambda>now. modifies
                         (set_larp_experience (cm_platform c) (cm_platform_user_id c) experienced now))) (\<lambda>_.
              andThen (enqueue_profile_updates X pkey (cm_platform c) (cm_platform_user_id c)
                         (cm_operation_id c @ asc '':SYNC_PROFILE'') MAX_EVENT_PAGE_SIZE []) (\<lambda>_.
              andThen (refresh_days_of_user X pkey (cm_platform c) (cm_platform_user_id c)) (\<lambda>_.
                ret ProfileSynchronised)))))
      | _ \<Rightarrow> throw AssertionError)"

section \<open>Players who joined the chat by hand\<close>

definition plain_member :: "(ustring \<times> ustring list) option \<Rightarrow> bool" where
  "plain_member member =
     (case member of
        None \<Rightarrow> False
      | Some (status, flags) \<Rightarrow>
          status = asc ''member'' \<or> status = asc ''restricted'' \<and> asc ''is_member'' \<in> set flags)"

text \<open>The name of a member of the chat who is not a master, or the id when the profile has no name.\<close>

definition inspect_member ::
    "env \<Rightarrow> int \<Rightarrow> bot_identity list \<Rightarrow> ustring \<Rightarrow> user \<Rightarrow> (ustring option \<times> int option) service" where
  "inspect_member X chat_id leaders operation_id u =
     andThen (external X (GetChatMember chat_id (tg_id u)
                (operation_id @ asc '':statistics-chat-member:'' @ show_int (tg_id u))) (xe_member X)) (\<lambda>member.
       if \<not> plain_member member then ret (None, None)
       else
         andThen users_now (\<lambda>us.
           if list_ex (\<lambda>i. i \<in> set leaders) (global_identities us u) then ret (None, None)
           else
             (case us_full_name (base u) of
                None \<Rightarrow> ret (None, Some (tg_id u))
              | Some full_name \<Rightarrow> ret (Some (surname_and_name full_name), None))))"

definition manual_telegram_players ::
    "env \<Rightarrow> int \<Rightarrow> bot_identity list \<Rightarrow> user list \<Rightarrow> ustring \<Rightarrow> ustring list service" where
  "manual_telegram_players X chat_id leaders user_rows operation_id =
     (if \<not> xe_has_chat X then throw RuntimeError
      else
        andThen (forEach (sort_key tg_id (filter is_TelegramUser user_rows))
                   (inspect_member X chat_id leaders operation_id)) (\<lambda>results.
          let incomplete = present (map snd results)
          in if incomplete \<noteq> [] then throw (DomainError (ChatMembersWithoutNames (take 5 incomplete)))
             else ret (present (map fst results))))"

section \<open>Adding a game\<close>

text \<open>\<open>validate_names\<close>: at least two Cyrillic words; hyphens may stand anywhere in them.\<close>

definition statistics_name :: "ustring \<Rightarrow> bool" where
  "statistics_name n \<longleftrightarrow>
     list_all (\<lambda>c. is_cyrillic c \<or> c = 45 \<or> is_space c) (strip n) \<and> 2 \<le> length (split_words n)"

definition names_valid :: "ustring list \<Rightarrow> unit service" where
  "names_valid names =
     (let invalid = filter (\<lambda>n. \<not> statistics_name n) names
      in unless_throw (invalid = []) (DomainError (NamesNotCyrillic (take 5 invalid))))"

definition confirmed_names :: "registration list \<Rightarrow> ustring list" where
  "confirmed_names rows =
     map (\<lambda>r. surname_and_name (rg_display_name r)) (filter (\<lambda>r. rg_attendance_status r = CONFIRMED) rows)"

fun master_names :: "user list \<Rightarrow> bot_identity list \<Rightarrow> ustring list option" where
  "master_names user_rows [] = Some []"
| "master_names user_rows (leader # leaders) =
     (case List.find (\<lambda>u. local_identity u = leader) user_rows of
        None \<Rightarrow> None
      | Some u \<Rightarrow>
          (case us_full_name (base u) of
             None \<Rightarrow> None
           | Some full_name \<Rightarrow> map_option ((#) (surname_and_name full_name)) (master_names user_rows leaders)))"

definition record_game :: "env \<Rightarrow> event \<Rightarrow> nat \<Rightarrow> ustring list \<Rightarrow> ustring list \<Rightarrow> bool service" where
  "record_game X e season_year players masters =
     (let game = event_name_with_date (ev_name e) (ev_game_date e)
      in andThen (external X (PrepareStatistics False season_year game players) (\<lambda>_. ())) (\<lambda>_.
         andThen (external X (PrepareStatistics True season_year game masters) (\<lambda>_. ())) (\<lambda>_.
         andThen (external X (CommitStatistics False) (xe_yes X)) (\<lambda>player_changed.
         andThen (external X (CommitStatistics True) (xe_yes X)) (\<lambda>master_changed.
           ret (player_changed \<or> master_changed))))))"

definition chat_players ::
    "env \<Rightarrow> event \<Rightarrow> bot_identity list \<Rightarrow> user list \<Rightarrow> ustring \<Rightarrow> ustring list service" where
  "chat_players X e leaders user_rows operation_id =
     (case ev_telegram_chat_id e of
        None \<Rightarrow> ret []
      | Some chat_id \<Rightarrow> manual_telegram_players X chat_id leaders user_rows operation_id)"

definition add_game :: "env \<Rightarrow> pkey \<Rightarrow> ustring \<Rightarrow> ustring \<Rightarrow> message service" where
  "add_game X pkey event_id operation_id =
     andThen (find_event event_id) (\<lambda>found.
       case found of
         None \<Rightarrow> throw (DomainError NoSuchGame)
       | Some e \<Rightarrow>
           if ev_archived_at e \<noteq> None then throw (DomainError ArchivedNotForStatistics)
           else
             andThen (ensure_migrated X e) (\<lambda>_.
             andThen (rows_now (ev_event_id e)) (\<lambda>rows.
             andThen (leaders_now (ev_event_id e)) (\<lambda>leaders.
             andThen users_now (\<lambda>us.
             andThen (chat_players X e leaders (list_all_users us) operation_id) (\<lambda>joined.
               case master_names (list_all_users us) leaders of
                 None \<Rightarrow> throw (DomainError MasterProfilesMissing)
               | Some masters \<Rightarrow>
                   andThen (reading X) (\<lambda>now.
                   let season_year = current_season_year X now; players = confirmed_names rows @ joined
                   in andThen (names_valid players) (\<lambda>_.
                      andThen (names_valid masters) (\<lambda>_.
                      andThen (record_game X e season_year players masters) (\<lambda>changed.
                      andThen (grant_experience X pkey (ev_event_id e)
                                 (map rg_participant_key (filter (\<lambda>r. rg_attendance_status r = CONFIRMED) rows))
                                 operation_id) (\<lambda>_.
                        let reference = event_reference (ev_name e) (ev_game_date e)
                        in ret (if changed then AddedToStatistics reference season_year
                                else AlreadyInStatistics reference))))))))))))"

definition apply_statistics :: "env \<Rightarrow> pkey \<Rightarrow> command \<Rightarrow> message service" where
  "apply_statistics X pkey c =
     andThen (identities_now (cm_platform c) (cm_platform_user_id c)) (\<lambda>identities.
     andThen (gather identities (\<lambda>i. external X (IsAdmin (fst i) (snd i)) (xe_is_admin X))) (\<lambda>configured.
       if \<not> list_ex (\<lambda>yes. yes) configured then throw (DomainError InsufficientRights)
       else
         (case cm_payload c of
            StatisticsPayload StatisticsLink _ \<Rightarrow>
              andThen (external X (StatisticsLinkOf False) (xe_link X)) (\<lambda>player_link.
              andThen (external X (StatisticsLinkOf True) (xe_link X)) (\<lambda>master_link.
                ret (StatisticsLinks player_link master_link)))
          | StatisticsPayload StatisticsGame game_id \<Rightarrow>
              (case game_id of
                 None \<Rightarrow> throw AssertionError
               | Some event_id \<Rightarrow> add_game X pkey event_id (cm_operation_id c))
          | _ \<Rightarrow> throw AssertionError)))"

end
