(* ===== verification/Closings.thy ===== *)
theory Closings
  imports Statistics Openings
begin

text \<open>
  \<open>ScheduledGameClosingService\<close> of \<open>application/game_closings.py\<close>: a scheduled close runs in three
  commands of their own, start, statistics and finalize, each of which checks that the schedule is still
  the one it was made for.  \<open>administered\<close> says whether the service has the administration service for the
  pass table of the day.
\<close>

definition statistics_stage :: ustring where
  "statistics_stage = asc ''statistics''"

definition finalize_stage :: ustring where
  "finalize_stage = asc ''finalize''"

definition stage_of :: "env \<Rightarrow> ustring \<Rightarrow> operation \<Rightarrow> ustring option" where
  "stage_of X operation_id operation =
     (if operation = SCHEDULED_CLOSE_EVENT then Some operation_id
      else if operation = SCHEDULED_CLOSE_STATISTICS then Some (stage_operation_id X operation_id statistics_stage)
      else if operation = SCHEDULED_CLOSE_FINALIZE then Some (stage_operation_id X operation_id finalize_stage)
      else None)"

definition closing_event :: "env \<Rightarrow> command \<Rightarrow> (event \<times> ustring) service" where
  "closing_event X c =
     andThen (find_event (cm_event_id c)) (\<lambda>found.
       case found of
         None \<Rightarrow> throw (DomainError GameDeleted)
       | Some e \<Rightarrow>
           (case ev_scheduled_close_at e of
              None \<Rightarrow> throw (DomainError CloseNotScheduled)
            | Some closes_at \<Rightarrow>
                (let operation_id = scheduled_close_id X (ev_event_id e) closes_at
                 in if stage_of X operation_id (cm_operation c) \<noteq> Some (cm_operation_id c)
                    then throw (DomainError CloseChanged) else ret (e, operation_id))))"

definition schedule_next :: "env \<Rightarrow> ustring \<Rightarrow> ustring \<Rightarrow> operation \<Rightarrow> unit service" where
  "schedule_next X event_id operation_id operation =
     sends_system_command X event_id
       (stage_operation_id X operation_id
          (if operation = SCHEDULED_CLOSE_STATISTICS then statistics_stage else finalize_stage))
       operation EmptyPayload"

definition after_start :: "env \<Rightarrow> event \<Rightarrow> ustring \<Rightarrow> message service" where
  "after_start X e operation_id =
     andThen (schedule_next X (ev_event_id e) operation_id
                (if ev_archived_at e \<noteq> None then SCHEDULED_CLOSE_FINALIZE else SCHEDULED_CLOSE_STATISTICS)) (\<lambda>_.
       ret ClosedAndStatisticsQueued)"

definition start_close :: "env \<Rightarrow> command \<Rightarrow> message service" where
  "start_close X c =
     andThen (closing_event X c) (\<lambda>(e, operation_id).
       if ev_scheduled_close_completed_at e \<noteq> None then ret CloseAlreadyDone
       else
         (case ev_scheduled_close_operation_id e of
            None \<Rightarrow>
              if ev_archived_at e \<noteq> None then ret ArchivedByHand
              else
                andThen (reading X) (\<lambda>now.
                andThen (on_events X (\<lambda>_. start_scheduled_close (ev_event_id e) operation_id now)) (\<lambda>started.
                  if \<not> started then throw RuntimeError
                  else
                    andThen (find_event (ev_event_id e)) (\<lambda>refreshed.
                      case refreshed of
                        None \<Rightarrow> ret DeletedAfterStart
                      | Some e' \<Rightarrow> after_start X e' operation_id)))
          | Some stored \<Rightarrow> if stored \<noteq> operation_id then throw RuntimeError else after_start X e operation_id))"

definition close_statistics :: "env \<Rightarrow> pkey \<Rightarrow> command \<Rightarrow> message service" where
  "close_statistics X pkey c =
     andThen (closing_event X c) (\<lambda>(e, operation_id).
       if ev_scheduled_close_completed_at e \<noteq> None then ret CloseAlreadyDone
       else if ev_scheduled_close_operation_id e \<noteq> Some operation_id then throw RuntimeError
       else
         andThen (if ev_archived_at e \<noteq> None then ret ()
                  else andThen (add_game X pkey (ev_event_id e) (cm_operation_id c)) (\<lambda>_. ret ())) (\<lambda>_.
         andThen (schedule_next X (ev_event_id e) operation_id SCHEDULED_CLOSE_FINALIZE) (\<lambda>_.
           ret StatisticsAddedAndArchivingQueued)))"

text \<open>
  Telling one leader: a leader who has been told already and the system are passed over, one who can
  never be reached counts as told, any other failure ends the stage and is retried.
\<close>

definition tell_leader :: "env \<Rightarrow> event \<Rightarrow> ustring \<Rightarrow> bot_identity \<Rightarrow> unit service" where
  "tell_leader X e operation_id leader =
     (let recipient = recipient_key leader
      in andThen (external_outcome X
           (SendMessage (fst leader) (snd leader) (operation_id @ [58] @ recipient)
              (ClosedForMasters (reference_of e)) [main_menu_button])) (\<lambda>outcome.
           if outcome \<noteq> Answered \<and> outcome \<noteq> Unreachable then throw ExternalFailure
           else
             andThen (on_events X (mark_scheduled_close_notification_delivered (ev_event_id e) operation_id recipient))
               (\<lambda>_. ret ())))"

fun tell_leaders :: "env \<Rightarrow> event \<Rightarrow> ustring \<Rightarrow> ustring list \<Rightarrow> bot_identity list \<Rightarrow> unit service" where
  "tell_leaders X e operation_id notified [] = ret ()"
| "tell_leaders X e operation_id notified (leader # leaders) =
     (if recipient_key leader \<in> set notified \<or> fst leader = SYSTEM
      then tell_leaders X e operation_id notified leaders
      else
        andThen (tell_leader X e operation_id leader) (\<lambda>_.
          tell_leaders X e operation_id (recipient_key leader # notified) leaders))"

definition announce_close :: "env \<Rightarrow> pkey \<Rightarrow> bool \<Rightarrow> event \<Rightarrow> ustring \<Rightarrow> message service" where
  "announce_close X pkey administered e operation_id =
     andThen (if administered then refresh_day X pkey (ev_game_date e) else ret ()) (\<lambda>_.
     andThen (leaders_now (ev_event_id e)) (\<lambda>leaders.
     andThen (tell_leaders X e operation_id (ev_scheduled_close_notified_recipients e) leaders) (\<lambda>_.
     andThen (reading X) (\<lambda>now.
     andThen (on_events X (\<lambda>_. complete_scheduled_close_notifications (ev_event_id e) operation_id now)) (\<lambda>_.
       ret ClosedAndMastersTold)))))"

definition finalize_close :: "env \<Rightarrow> pkey \<Rightarrow> bool \<Rightarrow> command \<Rightarrow> message service" where
  "finalize_close X pkey administered c =
     andThen (closing_event X c) (\<lambda>(e, operation_id).
       if ev_scheduled_close_completed_at e \<noteq> None then ret CloseAlreadyDone
       else if ev_scheduled_close_operation_id e \<noteq> Some operation_id then throw RuntimeError
       else
         andThen (reading X) (\<lambda>now.
         andThen (on_events X (\<lambda>_. complete_scheduled_close_actions (ev_event_id e) operation_id now)) (\<lambda>stored.
           if \<not> stored then throw RuntimeError
           else
             andThen (find_event (ev_event_id e)) (\<lambda>refreshed.
               case refreshed of
                 None \<Rightarrow> ret DeletedAfterClose
               | Some e' \<Rightarrow> announce_close X pkey administered e' operation_id))))"

definition apply_close :: "env \<Rightarrow> pkey \<Rightarrow> bool \<Rightarrow> command \<Rightarrow> message service" where
  "apply_close X pkey administered c =
     (if cm_operation c = SCHEDULED_CLOSE_EVENT then start_close X c
      else if cm_operation c = SCHEDULED_CLOSE_STATISTICS then close_statistics X pkey c
      else if cm_operation c = SCHEDULED_CLOSE_FINALIZE then finalize_close X pkey administered c
      else throw ValueError)"

end
