(* ===== verification/Notices.thy ===== *)
theory Notices
  imports Administration
begin

text \<open>
  \<open>ConfirmationNotificationService\<close> of \<open>application/notification_services.py\<close>: what is sent to players
  and masters after a command has been applied, and the markers that stop a retry from sending it again.
  A recipient who can never be reached counts as told, every other failure ends the notification and is
  retried; the warnings it logs are not modelled.
\<close>

section \<open>Delivering\<close>

definition deliver :: "env \<Rightarrow> bot_identity \<Rightarrow> ustring \<Rightarrow> message \<Rightarrow> button list \<Rightarrow> bool service" where
  "deliver X i request_id txt buttons =
     andThen (external_outcome X (SendMessage (fst i) (snd i) request_id txt buttons)) (\<lambda>outcome.
       case outcome of Answered \<Rightarrow> ret True | Unreachable \<Rightarrow> ret False | _ \<Rightarrow> throw ExternalFailure)"

definition claims :: "env \<Rightarrow> bot_identity \<Rightarrow> ustring \<Rightarrow> button list \<Rightarrow> unit service" where
  "claims X i operation_id buttons =
     andThen (on_users X (\<lambda>_. runs (claim_delivery (fst i) (snd i) operation_id buttons))) (\<lambda>_. ret ())"

text \<open>Several messages to one recipient, up to the first refusal: whether all arrived, and the last request.\<close>

fun deliver_all ::
    "env \<Rightarrow> bot_identity \<Rightarrow> button list \<Rightarrow> (ustring \<times> message) list \<Rightarrow> (bool \<times> ustring option) service" where
  "deliver_all X i buttons [] = ret (True, None)"
| "deliver_all X i buttons ((request_id, txt) # rest) =
     andThen (deliver X i request_id txt buttons) (\<lambda>reached.
       if \<not> reached then ret (False, Some request_id)
       else
         andThen (deliver_all X i buttons rest) (\<lambda>(all_reached, last_id).
           ret (all_reached, Some (case last_id of None \<Rightarrow> request_id | Some k \<Rightarrow> k))))"

text \<open>
  The loop over the entries of a snapshot: an entry that has been told already is passed over, one that
  \<open>tell\<close> answers with \<open>None\<close> is left for later, the others are counted when they were reached.
\<close>

fun tell_pending ::
    "ustring list \<Rightarrow> ('a \<Rightarrow> ustring) \<Rightarrow> ('a \<Rightarrow> bool option service) \<Rightarrow> 'a list \<Rightarrow> nat service" where
  "tell_pending notified marker tell [] = ret 0"
| "tell_pending notified marker tell (entry # entries) =
     (if marker entry \<in> set notified then tell_pending notified marker tell entries
      else
        andThen (tell entry) (\<lambda>told.
          case told of
            None \<Rightarrow> tell_pending notified marker tell entries
          | Some reached \<Rightarrow>
              andThen (tell_pending (marker entry # notified) marker tell entries) (\<lambda>n.
                ret (if reached then Suc n else n))))"

definition last_delivery :: "user \<Rightarrow> ustring option" where
  "last_delivery u = us_last_delivery_operation_id (base u)"

definition from_sum :: "exn + 'a \<Rightarrow> 'a service" where
  "from_sum x = (case x of Inl e \<Rightarrow> throw e | Inr y \<Rightarrow> ret y)"

text \<open>Of several profiles with one key the last counts.\<close>

definition user_by_key :: "pkey \<Rightarrow> ustring \<Rightarrow> users \<Rightarrow> ustring \<Rightarrow> user option" where
  "user_by_key pkey event_id us key =
     List.find (\<lambda>u. user_key pkey event_id u = key) (rev (list_all_users us))"

definition count_reached :: "bool option list \<Rightarrow> nat" where
  "count_reached results = length (filter (\<lambda>r. r = Some True) results)"

section \<open>Notices to the players of a game\<close>

definition notification_operations :: "operation list" where
  "notification_operations =
     [OPEN_CONFIRMATION, SCHEDULED_OPEN_CONFIRMATION, SEND_CONFIRMATION_REMINDER,
      SEND_CONFIRMED_NOTIFICATION, SEND_ALL_PLAYERS_NOTIFICATION]"

definition recipients_of ::
    "env \<Rightarrow> pkey \<Rightarrow> event \<Rightarrow> attendance_status list \<Rightarrow> bool \<Rightarrow> user list service" where
  "recipients_of X pkey e statuses main_roster_only =
     andThen (ensure_migrated X e) (\<lambda>_.
     andThen (rows_now (ev_event_id e)) (\<lambda>rows.
     let main_keys = map rg_participant_key (active_main_roster rows e);
         keys = map rg_participant_key (filter (\<lambda>r. rg_attendance_status r \<in> set statuses
           \<and> (main_roster_only \<longrightarrow> rg_participant_key r \<in> set main_keys)) rows)
     in andThen users_now (\<lambda>us.
          ret (filter (\<lambda>u. user_key pkey (ev_event_id e) u \<in> set keys) (list_all_users us)))))"

record notice =
  nt_text :: message
  nt_statuses :: "attendance_status list"
  nt_main_only :: bool
  nt_buttons :: "button list"

definition notice_of :: "env \<Rightarrow> command \<Rightarrow> event \<Rightarrow> notice service" where
  "notice_of X c e =
     (if cm_operation c = SEND_CONFIRMED_NOTIFICATION then
        (case cm_payload c of
           NotificationPayload sent \<Rightarrow>
             ret \<lparr>nt_text = Composed (confirmed_notification_text (ev_name e) sent (ev_game_date e)),
                  nt_statuses = [CONFIRMED], nt_main_only = is_plain_chat_link sent,
                  nt_buttons = [main_menu_button]\<rparr>
         | _ \<Rightarrow> throw AssertionError)
      else if cm_operation c = SEND_ALL_PLAYERS_NOTIFICATION then
        (case cm_payload c of
           NotificationPayload sent \<Rightarrow>
             ret \<lparr>nt_text = Composed (player_notification_text (ev_name e) sent (ev_game_date e)),
                  nt_statuses = [WAITING, CONFIRMED], nt_main_only = False, nt_buttons = [main_menu_button]\<rparr>
         | _ \<Rightarrow> throw AssertionError)
      else
        (case ev_confirmation_deadline e of
           None \<Rightarrow> throw (OperationNotAllowed DeadlineNotSet)
         | Some t \<Rightarrow>
             (let deadline = format_confirmation_deadline (xe_moscow X t)
              in ret \<lparr>nt_text = (if cm_operation c \<in> {OPEN_CONFIRMATION, SCHEDULED_OPEN_CONFIRMATION}
                         then ConfirmationOpenedFor (reference_of e) deadline
                         else ConfirmationReminderFor (reference_of e) deadline),
                      nt_statuses = [WAITING], nt_main_only = False,
                      nt_buttons = [confirmation_button (ev_event_id e)]\<rparr>)))"

definition tell_recipient :: "env \<Rightarrow> command \<Rightarrow> notice \<Rightarrow> user \<Rightarrow> bool option service" where
  "tell_recipient X c nt u =
     (let i = local_identity u;
          request_id = cm_operation_id c @ asc '':confirmation-notification:'' @ identity_text (fst i) (snd i)
      in if last_delivery u = Some request_id then ret None
         else
           andThen (deliver X i request_id (nt_text nt) (nt_buttons nt)) (\<lambda>reached.
           andThen (claims X i request_id (nt_buttons nt)) (\<lambda>_. ret (Some reached))))"

definition notify :: "env \<Rightarrow> pkey \<Rightarrow> command \<Rightarrow> nat service" where
  "notify X pkey c =
     (if cm_operation c \<notin> set notification_operations then throw ValueError
      else
        andThen (require_event (cm_event_id c)) (\<lambda>e.
        andThen (notice_of X c e) (\<lambda>nt.
        andThen (recipients_of X pkey e (nt_statuses nt) (nt_main_only nt)) (\<lambda>recipients.
        andThen (forEach recipients (tell_recipient X c nt)) (\<lambda>results.
          ret (count_reached results))))))"

section \<open>The player who confirms\<close>

definition past_notices :: "event \<Rightarrow> command \<Rightarrow> registration list \<Rightarrow> (ustring \<times> message) list" where
  "past_notices e c rows =
     List.map_filter (\<lambda>(index, stored).
       if \<not> is_plain_chat_link stored
          \<or> (\<exists>k\<in>set_option (cm_participant_key c). k \<in> chat_link_recipient_keys rows e)
       then Some (cm_operation_id c @ asc '':past-confirmed-notification:'' @ show_nat index,
                  Composed (confirmed_notification_text (ev_name e) stored (ev_game_date e)))
       else None) (enumerate 0 (ev_confirmed_notifications e))"

definition notify_confirming_participant ::
    "env \<Rightarrow> command \<Rightarrow> message \<Rightarrow> button list \<Rightarrow> nat service" where
  "notify_confirming_participant X c confirmation_txt confirmation_buttons =
     (let i = (cm_platform c, cm_platform_user_id c)
      in if cm_operation c \<noteq> CONFIRM then throw ValueError
         else
           andThen users_now (\<lambda>us.
             if (\<exists>u\<in>set_option (users_get (fst i) (snd i) us). last_delivery u = Some (cm_operation_id c))
             then ret 0
             else
               andThen (require_event (cm_event_id c)) (\<lambda>e.
               andThen (deliver X i (cm_operation_id c @ asc '':confirmation-result'') confirmation_txt
                          confirmation_buttons) (\<lambda>reached.
                 if \<not> reached
                 then andThen (claims X i (cm_operation_id c) confirmation_buttons) (\<lambda>_. ret 0)
                 else
                   andThen (rows_now (ev_event_id e)) (\<lambda>rows.
                   let past = past_notices e c rows
                   in andThen (deliver_all X i [main_menu_button] past) (\<lambda>_.
                      andThen (claims X i (cm_operation_id c)
                                 (if past = [] then confirmation_buttons else [main_menu_button])) (\<lambda>_.
                        ret (length past))))))))"

section \<open>Who moves up from the reserve\<close>

definition promoting_operations :: "operation list" where
  "promoting_operations = [CANCEL, CONFIRM, REMOVE_PARTICIPANT, UPDATE_ANSWER]"

definition game_of :: "command \<Rightarrow> ustring option \<Rightarrow> ustring" where
  "game_of c event_id =
     (case event_id of None \<Rightarrow> cm_event_id c | Some k \<Rightarrow> nonempty_or k (cm_event_id c))"

definition promoted_user :: "pkey \<Rightarrow> event \<Rightarrow> ustring \<Rightarrow> user option service" where
  "promoted_user pkey e key =
     andThen users_now (\<lambda>us.
       ret (List.find (\<lambda>u. user_key pkey (ev_event_id e) u = key) (list_all_users us)))"

definition tell_promoted :: "env \<Rightarrow> command \<Rightarrow> event \<Rightarrow> user \<Rightarrow> nat service" where
  "tell_promoted X c e u =
     (let request_id = cm_operation_id c @ asc '':reserve-promotion''; i = local_identity u
      in if last_delivery u = Some request_id then ret 0
         else
           andThen (from_sum (for_player (public_table_links e))) (\<lambda>links.
           andThen (deliver X i request_id (PlaceFreed (reference_of e) links) [main_menu_button]) (\<lambda>reached.
           andThen (on_events X (mark_reserve_promotion_delivered (ev_event_id e) (cm_operation_id c))) (\<lambda>_.
           andThen (claims X i request_id [main_menu_button]) (\<lambda>_. ret (if reached then 1 else 0))))))"

definition notify_reserve_promotion :: "env \<Rightarrow> pkey \<Rightarrow> command \<Rightarrow> ustring option \<Rightarrow> nat service" where
  "notify_reserve_promotion X pkey c event_id =
     (if cm_operation c \<notin> set promoting_operations then throw ValueError
      else
        andThen (require_event (game_of c event_id)) (\<lambda>e.
          if ev_last_reserve_promotion_operation_id e \<noteq> Some (cm_operation_id c)
             \<or> ev_last_reserve_promotion_delivered_operation_id e = Some (cm_operation_id c) then ret 0
          else
            (case ev_last_reserve_promotion_participant_key e of
               None \<Rightarrow> ret 0
             | Some key \<Rightarrow>
                 andThen (promoted_user pkey e key) (\<lambda>found.
                   case found of None \<Rightarrow> ret 0 | Some u \<Rightarrow> tell_promoted X c e u))))"

definition chat_links :: "event \<Rightarrow> ustring list" where
  "chat_links e = filter is_plain_chat_link (ev_confirmed_notifications e)"

definition link_message :: "event \<Rightarrow> ustring \<Rightarrow> message" where
  "link_message e link = Composed (confirmed_notification_text (ev_name e) link (ev_game_date e))"

definition numbered :: "ustring \<Rightarrow> message list \<Rightarrow> (ustring \<times> message) list" where
  "numbered prefix messages = map (\<lambda>(index, txt). (prefix @ show_nat index, txt)) (enumerate 0 messages)"

definition tell_links :: "env \<Rightarrow> command \<Rightarrow> event \<Rightarrow> user \<Rightarrow> nat service" where
  "tell_links X c e u =
     (let i = local_identity u
      in andThen (deliver_all X i [main_menu_button]
           (numbered (cm_operation_id c @ asc '':confirmed-link-promotion:'') (map (link_message e) (chat_links e))))
           (\<lambda>(reached, last_id).
         andThen (on_events X (mark_confirmed_link_promotion_delivered (ev_event_id e) (cm_operation_id c))) (\<lambda>_.
         andThen (case last_id of None \<Rightarrow> ret () | Some k \<Rightarrow> claims X i k [main_menu_button]) (\<lambda>_.
           ret (if reached then length (chat_links e) else 0)))))"

definition notify_confirmed_link_promotion :: "env \<Rightarrow> pkey \<Rightarrow> command \<Rightarrow> ustring option \<Rightarrow> nat service" where
  "notify_confirmed_link_promotion X pkey c event_id =
     (if cm_operation c \<notin> set promoting_operations then throw ValueError
      else
        andThen (require_event (game_of c event_id)) (\<lambda>e.
          if ev_last_confirmed_link_promotion_operation_id e \<noteq> Some (cm_operation_id c)
             \<or> ev_last_confirmed_link_promotion_delivered_operation_id e = Some (cm_operation_id c) then ret 0
          else
            (case ev_last_confirmed_link_promotion_participant_key e of
               None \<Rightarrow> ret 0
             | Some key \<Rightarrow>
                 andThen (promoted_user pkey e key) (\<lambda>found.
                   case found of None \<Rightarrow> ret 0 | Some u \<Rightarrow> tell_links X c e u))))"

end
