(* ===== verification/Reports.thy ===== *)
theory Reports
  imports Notices Openings
begin

text \<open>
  The rest of \<open>ConfirmationNotificationService\<close>: what the masters of a game are told when a player
  signs up, confirms or cancels, the removal of a player from the chat of the game, and the notices to
  the players of a retry snapshot (removed, moved up or down).
\<close>

section \<open>Masters and a participation\<close>

definition txt_not_given :: ustring where
  "txt_not_given =
     [1085, 1077, 32, 1091, 1082, 1072, 1079, 1072, 1085]"

definition txt_manage_game :: ustring where
  "txt_manage_game =
     [1059, 1087, 1088, 1072, 1074, 1083, 1077, 1085, 1080, 1077, 32, 1080, 1075, 1088,
      1086, 1081]"

definition manage_button :: "ustring \<Rightarrow> button" where
  "manage_button event_id = \<lparr>bt_label = txt_manage_game, bt_value = asc ''ag:manage:'' @ event_id\<rparr>"

text \<open>The name a player is announced by: given name and surname, then the nickname.\<close>

definition announced_name :: "registration \<Rightarrow> ustring" where
  "announced_name r =
     (let parts = split_words (rg_display_name r);
          surname = (case parts of [] \<Rightarrow> txt_not_given | word # _ \<Rightarrow> word);
          player_name = (case tl parts of [] \<Rightarrow> surname | word # _ \<Rightarrow> word @ [32] @ surname)
      in case rg_nickname r of
           None \<Rightarrow> player_name
         | Some n \<Rightarrow> if n = [] then player_name else player_name @ [32, 40] @ n @ [41])"

text \<open>\<open>next\<close> over an exhausted generator inside a coroutine is a \<open>RuntimeError\<close>.\<close>

definition place_of :: "ustring \<Rightarrow> registration list \<Rightarrow> exn + nat" where
  "place_of key queue =
     (case List.find (\<lambda>(index, row). rg_participant_key row = key) (enumerate 1 queue) of
        None \<Rightarrow> Inl RuntimeError
      | Some (index, _) \<Rightarrow> Inr index)"

definition participation_text :: "command \<Rightarrow> event \<Rightarrow> registration \<Rightarrow> registration list \<Rightarrow> exn + message" where
  "participation_text c e r rows =
     (case place_of (rg_participant_key r)
             (active_queue rows (if ev_registration_question e = None then None else rg_answer_id r)) of
        Inl x \<Rightarrow> Inl x
      | Inr position \<Rightarrow>
          (case answer_capacity e (rg_answer_id r) of
             Inl x \<Rightarrow> Inl x
           | Inr places \<Rightarrow>
               Inr (Participated (cm_operation c = ENLIST) (announced_name r) (reference_of e)
                      (position \<le> places) position
                      (if ev_registration_question e = None then [] else answer_text e r))))"

definition participation_request :: "command \<Rightarrow> bot_identity list \<Rightarrow> ustring" where
  "participation_request c identities =
     cm_operation_id c @ asc '':master-participation:''
       @ Min (set (map (\<lambda>i. identity_text (fst i) (snd i)) identities))"

definition tell_master ::
    "env \<Rightarrow> ustring \<Rightarrow> ustring \<Rightarrow> ustring \<Rightarrow> message \<Rightarrow> bot_identity \<Rightarrow> bool service" where
  "tell_master X event_id key request_id txt i =
     andThen (reads (\<lambda>w. participation_notification_delivered event_id key request_id (w_regs w))) (\<lambda>told.
       if told then ret False
       else
         andThen (deliver X i request_id txt [manage_button event_id]) (\<lambda>reached.
         andThen (on_regs X (\<lambda>_. modifies (mark_participation_notification_delivered event_id key request_id)))
           (\<lambda>_.
         andThen (if reached then claims X i request_id [manage_button event_id] else ret ()) (\<lambda>_.
           ret reached))))"

text \<open>One message per person: a master is passed over when one of their identities has been seen.\<close>

fun tell_masters ::
    "(bot_identity list \<Rightarrow> bot_identity \<Rightarrow> bool service) \<Rightarrow> bot_identity list \<Rightarrow> bot_identity list \<Rightarrow> nat service" where
  "tell_masters tell seen [] = ret 0"
| "tell_masters tell seen (i # rest) =
     andThen (identities_now (fst i) (snd i)) (\<lambda>identities.
       if set identities \<inter> set seen \<noteq> {} then tell_masters tell seen rest
       else
         andThen (tell identities i) (\<lambda>reached.
         andThen (tell_masters tell (identities @ seen) rest) (\<lambda>n.
           ret (if reached then Suc n else n))))"

definition awaited_status :: "operation \<Rightarrow> attendance_status" where
  "awaited_status operation = (if operation = ENLIST then WAITING else CONFIRMED)"

definition tell_all_masters :: "env \<Rightarrow> command \<Rightarrow> event \<Rightarrow> ustring \<Rightarrow> message \<Rightarrow> nat service" where
  "tell_all_masters X c e key txt =
     andThen (identities_now (cm_platform c) (cm_platform_user_id c)) (\<lambda>actor_identities.
     andThen (event_master_records (ev_event_id e)) (\<lambda>records.
       tell_masters
         (\<lambda>identities. tell_master X (ev_event_id e) key (participation_request c identities) txt)
         actor_identities
         (sort_key (\<lambda>i. (fst i \<noteq> TELEGRAM, snd i)) (map fst records))))"

definition notify_masters_of_participation :: "env \<Rightarrow> command \<Rightarrow> nat service" where
  "notify_masters_of_participation X c =
     (if cm_operation c \<noteq> ENLIST \<and> cm_operation c \<noteq> CONFIRM then throw ValueError
      else
        andThen (require_event (cm_event_id c)) (\<lambda>e.
          case cm_participant_key c of
            None \<Rightarrow> throw ValueError
          | Some key \<Rightarrow>
              andThen (row_now (ev_event_id e) key) (\<lambda>found.
                case found of
                  None \<Rightarrow> ret 0
                | Some r \<Rightarrow>
                    if rg_last_operation_id r \<noteq> cm_operation_id c
                       \<or> rg_attendance_status r \<noteq> awaited_status (cm_operation c) then ret 0
                    else
                      andThen (rows_now (ev_event_id e)) (\<lambda>rows.
                      andThen (from_sum (participation_text c e r rows)) (\<lambda>txt.
                        tell_all_masters X c e key txt)))))"

section \<open>Masters and a cancellation\<close>

definition cancellation_masters :: "ustring \<Rightarrow> command \<Rightarrow> master list service" where
  "cancellation_masters event_id c =
     andThen (event_master_records event_id) (\<lambda>records.
       ret (filter (\<lambda>m. fst m \<noteq> (cm_platform c, cm_platform_user_id c)) records))"

definition command_player_name :: "command \<Rightarrow> (ustring \<times> ustring option) service" where
  "command_player_name c =
     andThen users_now (\<lambda>us.
       case users_get (cm_platform c) (cm_platform_user_id c) us of
         None \<Rightarrow> ret (txt_not_given, None)
       | Some u \<Rightarrow>
           ret (case us_full_name (base u) of None \<Rightarrow> txt_not_given | Some n \<Rightarrow> surname_and_name n,
                us_nickname (base u)))"

text \<open>The first entry of the retry snapshot that describes a cancellation.\<close>

definition cancellation_of :: "event \<Rightarrow> (bool \<times> ustring) option" where
  "cancellation_of e =
     (case List.map_filter parse_cancellation_snapshot_entry (ev_participant_removal_keys e) of
        [] \<Rightarrow> None
      | found # _ \<Rightarrow> Some found)"

definition tell_of_cancellation :: "env \<Rightarrow> command \<Rightarrow> event \<Rightarrow> message \<Rightarrow> bot_identity \<Rightarrow> bool option service" where
  "tell_of_cancellation X c e txt i =
     (let recipient = recipient_key i;
          request_id = cm_operation_id c @ asc '':cancellation-master:'' @ recipient
      in andThen (deliver X i request_id txt [main_menu_button]) (\<lambda>reached.
         andThen (on_events X (mark_participant_removal_delivered (ev_event_id e) (cm_operation_id c)
                                 (CANCELLATION_MASTER_PREFIX @ recipient))) (\<lambda>_.
         andThen (claims X i request_id [main_menu_button]) (\<lambda>_. ret (Some reached)))))"

definition cancelled_player :: "command \<Rightarrow> event \<Rightarrow> ustring \<Rightarrow> (ustring \<times> ustring option) service" where
  "cancelled_player c e key =
     andThen (row_now (ev_event_id e) key) (\<lambda>found.
       case found of
         None \<Rightarrow> command_player_name c
       | Some r \<Rightarrow> ret (rg_display_name r, rg_nickname r))"

definition notify_masters_of_cancellation :: "env \<Rightarrow> command \<Rightarrow> nat service" where
  "notify_masters_of_cancellation X c =
     (if cm_operation c \<noteq> CANCEL then throw ValueError
      else
        andThen (require_event (cm_event_id c)) (\<lambda>e.
          if ev_last_participant_removal_operation_id e \<noteq> Some (cm_operation_id c) then ret 0
          else
            (case cancellation_of e of
               None \<Rightarrow> ret 0
             | Some (was_confirmed, key) \<Rightarrow>
                 andThen (cancelled_player c e key) (\<lambda>(player_name, nickname).
                 andThen (cancellation_masters (ev_event_id e) c) (\<lambda>masters.
                   tell_pending (ev_participant_removal_notified_keys e)
                     (\<lambda>i. CANCELLATION_MASTER_PREFIX @ recipient_key i)
                     (tell_of_cancellation X c e
                        (Composed (cancellation_master_text e player_name nickname was_confirmed False)))
                     (map fst masters))))))"

section \<open>Leaving the chat\<close>

text \<open>The Telegram account of the cancelled player: their own, a linked one, or one found by handle.\<close>

definition linked_telegram_id :: "users \<Rightarrow> command \<Rightarrow> int option" where
  "linked_telegram_id us c =
     (case users_get (cm_platform c) (cm_platform_user_id c) us of
        None \<Rightarrow> None
      | Some u \<Rightarrow> map_option tg_id (List.find is_TelegramUser (global_users us u)))"

definition handle_telegram_id :: "users \<Rightarrow> registration option \<Rightarrow> exn + int option" where
  "handle_telegram_id us found =
     (case found of
        None \<Rightarrow> Inr None
      | Some r \<Rightarrow>
          (case rg_telegram_profile r of
             None \<Rightarrow> Inr None
           | Some profile \<Rightarrow>
               (case find_telegram_by_handle us profile of
                  Inl x \<Rightarrow> Inl x
                | Inr u \<Rightarrow> Inr (map_option tg_id u))))"

definition cancelled_telegram_id :: "pkey \<Rightarrow> command \<Rightarrow> event \<Rightarrow> ustring option \<Rightarrow> int option service" where
  "cancelled_telegram_id pkey c e cancelled_key =
     (if cm_platform c = TELEGRAM then ret (Some (cm_platform_user_id c))
      else
        andThen users_now (\<lambda>us.
          case linked_telegram_id us c of
            Some i \<Rightarrow> ret (Some i)
          | None \<Rightarrow>
              andThen (row_now (ev_event_id e)
                (case cancelled_key of
                   None \<Rightarrow> pkey (cm_platform c) (cm_platform_user_id c) (ev_event_id e)
                 | Some key \<Rightarrow>
                     nonempty_or key (pkey (cm_platform c) (cm_platform_user_id c) (ev_event_id e)))) (\<lambda>found.
                from_sum (handle_telegram_id us found))))"

definition kick :: "env \<Rightarrow> pkey \<Rightarrow> command \<Rightarrow> event \<Rightarrow> int \<Rightarrow> ustring option \<Rightarrow> bool service" where
  "kick X pkey c e chat_id cancelled_key =
     andThen (cancelled_telegram_id pkey c e cancelled_key) (\<lambda>found.
       case found of
         None \<Rightarrow> ret False
       | Some i \<Rightarrow>
           external X (KickMember chat_id i
             (cm_operation_id c @ asc '':kick:'' @ ev_event_id e @ [58] @ show_int i)) (xe_yes X))"

text \<open>The prior status is given for the game that a confirmation replaced; a cancellation reads its snapshot.\<close>

definition kick_cancelled_participant ::
    "env \<Rightarrow> pkey \<Rightarrow> command \<Rightarrow> ustring option \<Rightarrow> bool option \<Rightarrow> bool service" where
  "kick_cancelled_participant X pkey c event_id prior =
     (if cm_operation c \<noteq> CANCEL \<and> cm_operation c \<noteq> CONFIRM then throw ValueError
      else
        andThen (require_event (game_of c event_id)) (\<lambda>e.
          case ev_telegram_chat_id e of
            None \<Rightarrow> ret False
          | Some chat_id \<Rightarrow>
              if \<not> xe_has_chat X then ret False
              else
                (case prior of
                   Some was_confirmed \<Rightarrow> if was_confirmed then kick X pkey c e chat_id None else ret False
                 | None \<Rightarrow>
                     if cm_operation c \<noteq> CANCEL then throw ValueError
                     else if ev_last_participant_removal_operation_id e \<noteq> Some (cm_operation_id c)
                     then ret False
                     else
                       (case cancellation_of e of
                          Some (True, key) \<Rightarrow> kick X pkey c e chat_id (Some key)
                        | _ \<Rightarrow> ret False))))"

section \<open>Masters and a replaced participation\<close>

definition tell_of_replacement :: "env \<Rightarrow> command \<Rightarrow> message \<Rightarrow> master \<Rightarrow> bool service" where
  "tell_of_replacement X c txt m =
     (let i = fst m; request_id = cm_operation_id c @ asc '':cancellation-master:'' @ recipient_key i
      in if (\<exists>u\<in>set_option (snd m). last_delivery u = Some request_id) then ret False
         else
           andThen (deliver X i request_id txt [main_menu_button]) (\<lambda>reached.
           andThen (claims X i request_id [main_menu_button]) (\<lambda>_. ret reached)))"

definition notify_masters_of_replaced_participation :: "env \<Rightarrow> command \<Rightarrow> ustring \<Rightarrow> nat service" where
  "notify_masters_of_replaced_participation X c event_id =
     (if cm_operation c \<noteq> CONFIRM then throw ValueError
      else
        andThen (require_event event_id) (\<lambda>e.
        andThen (command_player_name c) (\<lambda>(player_name, nickname).
        andThen (cancellation_masters (ev_event_id e) c) (\<lambda>masters.
        andThen (forEach masters (tell_of_replacement X c
                   (Composed (cancellation_master_text e player_name nickname True True)))) (\<lambda>told.
          ret (length (filter (\<lambda>reached. reached) told)))))))"

end
