(* ===== verification/Snapshots.thy ===== *)
theory Snapshots
  imports Notices
begin

text \<open>
  The notices of \<open>ConfirmationNotificationService\<close> that go through a retry snapshot of a game: the
  players an enlarged capacity moved up, the players the masters removed, and those the sift of the
  unconfirmed moved.  An entry is marked in the game once it has been told, so a retry passes it over.
\<close>

definition recipient_text :: "user \<Rightarrow> ustring" where
  "recipient_text u = identity_text (fst (local_identity u)) (snd (local_identity u))"

text \<open>After the messages to one player: the entry is marked, the last request is claimed.\<close>

definition told_entry ::
    "env \<Rightarrow> command \<Rightarrow> event \<Rightarrow> ustring \<Rightarrow> bot_identity \<Rightarrow> bool \<times> ustring option \<Rightarrow> bool option service" where
  "told_entry X c e entry i told =
     andThen (on_events X (mark_participant_removal_delivered (ev_event_id e) (cm_operation_id c) entry)) (\<lambda>_.
     andThen (claims X i (case snd told of None \<Rightarrow> [] | Some k \<Rightarrow> k) [main_menu_button]) (\<lambda>_.
       ret (Some (fst told))))"

definition tell_player ::
    "env \<Rightarrow> command \<Rightarrow> event \<Rightarrow> ustring \<Rightarrow> bot_identity \<Rightarrow> (ustring \<times> message) list \<Rightarrow> bool option service" where
  "tell_player X c e entry i messages =
     andThen (deliver_all X i [main_menu_button] messages) (told_entry X c e entry i)"

text \<open>The game of a command whose snapshot is still the one the command made.\<close>

definition with_snapshot :: "command \<Rightarrow> (event \<Rightarrow> nat service) \<Rightarrow> nat service" where
  "with_snapshot c k =
     andThen (require_event (cm_event_id c)) (\<lambda>e.
       if ev_last_participant_removal_operation_id e \<noteq> Some (cm_operation_id c) then ret 0 else k e)"

section \<open>More places\<close>

definition added_place_messages :: "event \<Rightarrow> registration list \<Rightarrow> ustring \<Rightarrow> exn + message list" where
  "added_place_messages e rows key =
     (case for_player (public_table_links e) of
        Inl x \<Rightarrow> Inl x
      | Inr links \<Rightarrow>
          Inr (PlacesAdded (reference_of e) links #
               (if list_ex (\<lambda>r. rg_participant_key r = key \<and> rg_attendance_status r = CONFIRMED) rows
                then map (link_message e) (chat_links e) else [])))"

definition tell_added_place ::
    "env \<Rightarrow> pkey \<Rightarrow> command \<Rightarrow> event \<Rightarrow> registration list \<Rightarrow> users \<Rightarrow> ustring \<Rightarrow> bool option service" where
  "tell_added_place X pkey c e rows us key =
     (case user_by_key pkey (ev_event_id e) us key of
        None \<Rightarrow> ret None
      | Some u \<Rightarrow>
          andThen (from_sum (added_place_messages e rows key)) (\<lambda>messages.
            tell_player X c e key (local_identity u)
              (numbered (cm_operation_id c @ asc '':capacity-promotion:'' @ recipient_text u @ [58]) messages)))"

definition notify_capacity_promotions :: "env \<Rightarrow> pkey \<Rightarrow> command \<Rightarrow> nat service" where
  "notify_capacity_promotions X pkey c =
     (if cm_operation c \<noteq> UPDATE_PLAYER_AMOUNT then throw ValueError
      else
        with_snapshot c (\<lambda>e.
          andThen (rows_now (ev_event_id e)) (\<lambda>rows.
          andThen users_now (\<lambda>us.
            tell_pending (ev_participant_removal_notified_keys e) (\<lambda>key. key)
              (tell_added_place X pkey c e rows us) (ev_participant_removal_keys e)))))"

section \<open>Removed by the masters\<close>

definition tell_removed :: "env \<Rightarrow> pkey \<Rightarrow> command \<Rightarrow> event \<Rightarrow> users \<Rightarrow> ustring \<Rightarrow> bool option service" where
  "tell_removed X pkey c e us key =
     (case user_by_key pkey (ev_event_id e) us key of
        None \<Rightarrow> ret None
      | Some u \<Rightarrow>
          tell_player X c e key (local_identity u)
            [(cm_operation_id c @ asc '':participant-removal:'' @ recipient_text u,
              RegistrationRemovedOf (reference_of e))])"

definition notify_removed_participants :: "env \<Rightarrow> pkey \<Rightarrow> command \<Rightarrow> nat service" where
  "notify_removed_participants X pkey c =
     (if cm_operation c \<noteq> REMOVE_PARTICIPANT then throw ValueError
      else
        with_snapshot c (\<lambda>e.
          andThen users_now (\<lambda>us.
            tell_pending (ev_participant_removal_notified_keys e) (\<lambda>key. key)
              (tell_removed X pkey c e us) (ev_participant_removal_keys e))))"

section \<open>Moved by the sift\<close>

definition sift_operations :: "operation list" where
  "sift_operations = [REMOVE_WAITING_PARTICIPANTS, PROMOTE_RESERVE_PARTICIPANT]"

definition move_messages :: "command \<Rightarrow> event \<Rightarrow> bool \<Rightarrow> exn + message list" where
  "move_messages c e promoted =
     (if promoted then
        (case for_player (public_table_links e) of
           Inl x \<Rightarrow> Inl x
         | Inr links \<Rightarrow> Inr (MovedToMain (reference_of e) links # map (link_message e) (chat_links e)))
      else if cm_operation c = PROMOTE_RESERVE_PARTICIPANT then Inr [MovedToReserve (reference_of e)]
      else Inr [TooLateToConfirm (ev_name e)])"

definition move_prefix :: "command \<Rightarrow> bool \<Rightarrow> user \<Rightarrow> ustring" where
  "move_prefix c promoted u =
     cm_operation_id c @ asc '':confirmation-sift:''
       @ (if promoted then asc ''promotion'' else asc ''demotion'') @ [58] @ recipient_text u @ [58]"

definition tell_move ::
    "env \<Rightarrow> pkey \<Rightarrow> command \<Rightarrow> event \<Rightarrow> users \<Rightarrow> ustring list \<Rightarrow> ustring \<Rightarrow> bool option service" where
  "tell_move X pkey c e us current entry =
     (case parse_sift_snapshot_entry entry of
        None \<Rightarrow> ret None
      | Some (transition, key) \<Rightarrow>
          if entry \<notin> set current then ret None
          else
            (case user_by_key pkey (ev_event_id e) us key of
               None \<Rightarrow> ret None
             | Some u \<Rightarrow>
                 andThen (from_sum (move_messages c e (transition = SIFT_PROMOTED_PREFIX))) (\<lambda>messages.
                   tell_player X c e entry (local_identity u)
                     (numbered (move_prefix c (transition = SIFT_PROMOTED_PREFIX) u) messages))))"

definition notify_sifted_participants :: "env \<Rightarrow> pkey \<Rightarrow> command \<Rightarrow> nat service" where
  "notify_sifted_participants X pkey c =
     (if cm_operation c \<notin> set sift_operations then throw ValueError
      else
        with_snapshot c (\<lambda>e.
          andThen users_now (\<lambda>us.
          andThen (rows_now (ev_event_id e)) (\<lambda>rows.
            tell_pending (ev_participant_removal_notified_keys e) (\<lambda>entry. entry)
              (tell_move X pkey c e us (current_sift_entries (ev_participant_removal_keys e) rows e))
              (ev_participant_removal_keys e)))))"

end
