(* ===== verification/Worker.thy ===== *)
theory Worker
  imports Mutations Closings Reports Snapshots
begin

text \<open>
  \<open>OrderedWorker\<close> of \<open>application/worker.py\<close>: commands come in batches from the FIFO queue, each is
  applied and answered, its receipt is deleted; a command that fails keeps the later commands of its
  group for a retry.  The monotonic clock is a clock reading; the cancellation by \<open>asyncio.timeout\<close> is not
  modelled, the number of batches is bounded by fuel instead.
\<close>

text \<open>Which of the optional services the worker is constructed with.\<close>

record worker_config =
  wc_statistics :: bool
  wc_administration :: bool
  wc_closing :: bool
  wc_closing_administered :: bool
  wc_notifications :: bool
  wc_max_time :: time
  wc_key :: pkey

section \<open>Answering a command\<close>

definition deliver_once :: "env \<Rightarrow> command \<Rightarrow> message \<Rightarrow> button list \<Rightarrow> unit service" where
  "deliver_once X c txt buttons =
     (if cm_platform c = SYSTEM \<or> cm_platform_user_id c \<le> 0 then ret ()
      else
        andThen users_now (\<lambda>us.
          if (\<exists>u\<in>set_option (users_get (cm_platform c) (cm_platform_user_id c) us).
                last_delivery u = Some (cm_operation_id c)) then ret ()
          else
            andThen (deliver X (cm_platform c, cm_platform_user_id c) (cm_operation_id c) txt buttons) (\<lambda>reached.
              if reached
              then claims X (cm_platform c, cm_platform_user_id c) (cm_operation_id c) buttons else ret ())))"

text \<open>What applying a command yields: its text, whether anybody is told, the buttons, a replaced game.\<close>

record reply =
  rp_text :: message
  rp_told :: bool
  rp_buttons :: "button list"
  rp_replaced :: "ustring option"

definition command_buttons :: "command \<Rightarrow> button list" where
  "command_buttons c = rc_buttons (cm_reply_context c)"

definition silent_operations :: "operation list" where
  "silent_operations = [SYNC_PROFILE, UPDATE_PROFILE]"

definition initially_told :: "command \<Rightarrow> bool" where
  "initially_told c = (cm_operation c \<notin> set silent_operations)"

definition replying :: "command \<Rightarrow> message \<Rightarrow> bool \<Rightarrow> reply" where
  "replying c txt told =
     \<lparr>rp_text = txt, rp_told = told, rp_buttons = command_buttons c, rp_replaced = None\<rparr>"

definition reply_of_result :: "command \<Rightarrow> mutation_result \<Rightarrow> reply" where
  "reply_of_result c r =
     \<lparr>rp_text = mr_text r, rp_told = mr_notifications_enabled r,
      rp_buttons = (case mr_buttons r of None \<Rightarrow> command_buttons c | Some buttons \<Rightarrow> buttons),
      rp_replaced = mr_replaced_event_id r\<rparr>"

text \<open>\<open>event_table_links\<close> of \<open>application/conversation_support.py\<close>.\<close>

definition event_table_links :: "event \<Rightarrow> exn + message" where
  "event_table_links e =
     (if ev_public_table_public_url e = None \<or> ev_pass_table_public_url e = None then Inl RuntimeError
      else
        (case (for_admin (public_table_links e), for_admin (master_table_links e),
               for_admin (pass_table_links e)) of
           (Inr public_links, Inr master_links, Inr pass_links) \<Rightarrow>
             Inr (TablesOf (reference_of e) public_links master_links pass_links)
         | _ \<Rightarrow> Inl RuntimeError))"

text \<open>Whom a deferred upload answers: the chat, else the peer, else the user who asked.\<close>

definition truthy_id :: "int option \<Rightarrow> int \<Rightarrow> int" where
  "truthy_id found other = (case found of None \<Rightarrow> other | Some i \<Rightarrow> if i = 0 then other else i)"

definition requester_of :: "command \<Rightarrow> requester" where
  "requester_of c =
     Some (cm_platform c,
       truthy_id (rc_chat_id (cm_reply_context c))
         (truthy_id (rc_peer_id (cm_reply_context c)) (cm_platform_user_id c)),
       cm_platform_user_id c)"

definition tables_missing :: "event \<Rightarrow> bool" where
  "tables_missing e \<longleftrightarrow> ev_public_table_public_url e = None \<or> ev_pass_table_public_url e = None"

definition refreshed_tables :: "env \<Rightarrow> pkey \<Rightarrow> command \<Rightarrow> event \<Rightarrow> event service" where
  "refreshed_tables X pkey c e =
     (if xe_mirrors_google X \<and> \<not> google_event_tables_ready e
      then refresh_event_tables X pkey (ev_event_id e)
             (if cm_platform c = SYSTEM then None else requester_of c)
      else if tables_missing e then refresh_event_tables X pkey (ev_event_id e) None
      else ret e)"

definition perform_tables :: "env \<Rightarrow> pkey \<Rightarrow> command \<Rightarrow> reply service" where
  "perform_tables X pkey c =
     andThen (if cm_platform c = SYSTEM then require_event (cm_event_id c)
              else require_active_event_leader X c) (\<lambda>e0.
     andThen (refreshed_tables X pkey c e0) (\<lambda>e.
       if cm_platform c = SYSTEM \<or> tables_missing e then ret (replying c Silence False)
       else andThen (from_sum (event_table_links e)) (\<lambda>txt. ret (replying c txt (initially_told c)))))"

definition requires :: "bool \<Rightarrow> 'a service \<Rightarrow> 'a service" where
  "requires configured m = (if configured then m else throw RuntimeError)"

definition closing_operations :: "operation list" where
  "closing_operations = [SCHEDULED_CLOSE_EVENT, SCHEDULED_CLOSE_STATISTICS, SCHEDULED_CLOSE_FINALIZE]"

definition replies :: "command \<Rightarrow> bool \<Rightarrow> message service \<Rightarrow> reply service" where
  "replies c told m = andThen m (\<lambda>txt. ret (replying c txt told))"

definition perform_day :: "env \<Rightarrow> pkey \<Rightarrow> command \<Rightarrow> reply service" where
  "perform_day X pkey c =
     (case cm_payload c of
        DailyPassRefreshPayload d \<Rightarrow>
          andThen (create_daily_pass_table X pkey d None None) (\<lambda>_. ret (replying c Silence False))
      | _ \<Rightarrow> throw AssertionError)"

definition perform :: "env \<Rightarrow> worker_config \<Rightarrow> command \<Rightarrow> reply service" where
  "perform X W c =
     (if cm_operation c = SYNC_PROFILE then
        requires (wc_statistics W) (replies c (initially_told c) (sync_profile X (wc_key W) c))
      else if cm_operation c = REFRESH_DAILY_PASS_TABLE then
        requires (wc_administration W) (perform_day X (wc_key W) c)
      else if cm_operation c = REFRESH_EVENT_TABLES then
        requires (wc_administration W) (perform_tables X (wc_key W) c)
      else if cm_operation c = STATISTICS then
        requires (wc_statistics W) (replies c (initially_told c) (apply_statistics X (wc_key W) c))
      else if cm_operation c \<in> set closing_operations then
        requires (wc_closing W) (replies c False (apply_close X (wc_key W) (wc_closing_administered W) c))
      else andThen (apply_command X c) (\<lambda>r. ret (reply_of_result c r)))"

text \<open>The answer to a signup and to a confirmation is decided by the worker, never by the gateway.\<close>

definition success_text :: "command \<Rightarrow> reply \<Rightarrow> message" where
  "success_text c r =
     (if cm_operation c = ENLIST \<or> cm_operation c = CONFIRM \<or> rc_text_success (cm_reply_context c) = []
      then rp_text r else Composed (rc_text_success (cm_reply_context c)))"

definition failure_text :: "command \<Rightarrow> exn \<Rightarrow> message" where
  "failure_text c x =
     (if rc_text_failure (cm_reply_context c) = [] then Failure x
      else Composed (rc_text_failure (cm_reply_context c)))"

definition is_domain_error :: "exn \<Rightarrow> bool" where
  "is_domain_error x =
     (case x of
        EventNotFound \<Rightarrow> True | RegistrationNotFound \<Rightarrow> True | OperationNotAllowed _ \<Rightarrow> True
      | DomainError _ \<Rightarrow> True | _ \<Rightarrow> False)"

section \<open>Telling the others\<close>

definition finished :: "'a service \<Rightarrow> unit service" where
  "finished m = andThen m (\<lambda>_. ret ())"

definition tell_replaced :: "env \<Rightarrow> worker_config \<Rightarrow> command \<Rightarrow> ustring option \<Rightarrow> unit service" where
  "tell_replaced X W c replaced =
     (case replaced of
        None \<Rightarrow> ret ()
      | Some event_id \<Rightarrow>
          andThen (kick_cancelled_participant X (wc_key W) c (Some event_id) (Some True)) (\<lambda>_.
          andThen (notify_reserve_promotion X (wc_key W) c (Some event_id)) (\<lambda>_.
          andThen (notify_confirmed_link_promotion X (wc_key W) c (Some event_id)) (\<lambda>_.
            finished (notify_masters_of_replaced_participation X c event_id)))))"

definition tell_vacancy :: "env \<Rightarrow> worker_config \<Rightarrow> command \<Rightarrow> unit service" where
  "tell_vacancy X W c =
     andThen (notify_reserve_promotion X (wc_key W) c None) (\<lambda>_.
       finished (notify_confirmed_link_promotion X (wc_key W) c None))"

definition tell_roster_change :: "env \<Rightarrow> worker_config \<Rightarrow> command \<Rightarrow> unit service" where
  "tell_roster_change X W c =
     (if cm_operation c = REMOVE_PARTICIPANT then
        andThen (notify_removed_participants X (wc_key W) c) (\<lambda>_. tell_vacancy X W c)
      else if cm_operation c \<in> set sift_operations then finished (notify_sifted_participants X (wc_key W) c)
      else if cm_operation c = UPDATE_ANSWER then tell_vacancy X W c
      else
        andThen (tell_vacancy X W c) (\<lambda>_.
        andThen (kick_cancelled_participant X (wc_key W) c None None) (\<lambda>_.
          finished (notify_masters_of_cancellation X c))))"

definition roster_operations :: "operation list" where
  "roster_operations =
     [CANCEL, UPDATE_ANSWER, REMOVE_PARTICIPANT, REMOVE_WAITING_PARTICIPANTS, PROMOTE_RESERVE_PARTICIPANT]"

text \<open>The notices of an applied command, and whether its author has been answered by them.\<close>

definition tell :: "env \<Rightarrow> worker_config \<Rightarrow> command \<Rightarrow> reply \<Rightarrow> bool service" where
  "tell X W c r =
     (if \<not> rp_told r then ret False
      else if cm_operation c \<in> set notification_operations then
        requires (wc_notifications W) (andThen (notify X (wc_key W) c) (\<lambda>_. ret False))
      else if cm_operation c = CONFIRM \<and> wc_notifications W then
        andThen (notify_confirming_participant X c (success_text c r) (command_buttons c)) (\<lambda>_.
        andThen (tell_replaced X W c (rp_replaced r)) (\<lambda>_. ret True))
      else if cm_operation c \<in> set roster_operations then
        andThen (if wc_notifications W then tell_roster_change X W c else ret ()) (\<lambda>_. ret False)
      else if cm_operation c = UPDATE_PLAYER_AMOUNT \<and> wc_notifications W then
        andThen (notify_capacity_promotions X (wc_key W) c) (\<lambda>_. ret False)
      else ret False)"

definition tell_participation :: "env \<Rightarrow> worker_config \<Rightarrow> command \<Rightarrow> reply \<Rightarrow> bool" where
  "tell_participation X W c r \<longleftrightarrow>
     rp_told r \<and> (cm_operation c = ENLIST \<or> cm_operation c = CONFIRM) \<and> wc_notifications W"

text \<open>
  What is known when the inner block ends: the text, the buttons, whether notices are on, whether the
  author has been answered.  A \<open>DomainError\<close> only replaces the text.
\<close>

record standing =
  sd_text :: message
  sd_told :: bool
  sd_buttons :: "button list"
  sd_answered :: bool

definition on_domain_error :: "command \<Rightarrow> standing \<Rightarrow> standing service \<Rightarrow> standing service" where
  "on_domain_error c sd m =
     catching m (\<lambda>x. if is_domain_error x then ret (sd\<lparr>sd_text := failure_text c x\<rparr>) else throw x)"

definition told_masters :: "env \<Rightarrow> command \<Rightarrow> standing \<Rightarrow> standing service" where
  "told_masters X c sd = andThen (notify_masters_of_participation X c) (\<lambda>_. ret sd)"

definition after_tell :: "env \<Rightarrow> worker_config \<Rightarrow> command \<Rightarrow> reply \<Rightarrow> standing \<Rightarrow> bool \<Rightarrow> standing service" where
  "after_tell X W c r sd answered =
     (if \<not> tell_participation X W c r then ret (sd\<lparr>sd_answered := answered\<rparr>)
      else
        andThen (if answered then ret () else deliver_once X c (sd_text sd) (sd_buttons sd)) (\<lambda>_.
          on_domain_error c (sd\<lparr>sd_answered := True\<rparr>) (told_masters X c (sd\<lparr>sd_answered := True\<rparr>))))"

definition inner :: "env \<Rightarrow> worker_config \<Rightarrow> command \<Rightarrow> standing service" where
  "inner X W c =
     on_domain_error c
       \<lparr>sd_text = Silence, sd_told = initially_told c, sd_buttons = command_buttons c, sd_answered = False\<rparr>
       (andThen (perform X W c) (\<lambda>r.
          let sd = \<lparr>sd_text = success_text c r, sd_told = rp_told r, sd_buttons = rp_buttons r,
                    sd_answered = False\<rparr>
          in on_domain_error c sd (andThen (tell X W c r) (after_tell X W c r sd))))"

definition status_request :: "command \<Rightarrow> bool" where
  "status_request c \<longleftrightarrow> cm_operation c \<in> {OPEN_REGISTRATION, OPEN_CONFIRMATION, CLOSE_EVENT}"

definition handle :: "env \<Rightarrow> worker_config \<Rightarrow> command \<Rightarrow> unit service" where
  "handle X W c =
     andThen (inner X W c) (\<lambda>sd.
       if (sd_told sd \<or> status_request c) \<and> \<not> sd_answered sd
       then deliver_once X c (sd_text sd) (sd_buttons sd) else ret ())"

section \<open>Batches\<close>

record progress =
  pr_processed :: nat
  pr_failed :: "ustring list"
  pr_error :: "exn option"
  pr_pending :: "ustring list"

definition no_progress :: progress where
  "no_progress = \<lparr>pr_processed = 0, pr_failed = [], pr_error = None, pr_pending = []\<rparr>"

type_synonym envelope = "ustring \<times> command"

definition completed :: "ustring \<Rightarrow> progress \<Rightarrow> progress" where
  "completed receipt pr =
     pr\<lparr>pr_processed := Suc (pr_processed pr), pr_pending := removeAll receipt (pr_pending pr)\<rparr>"

definition failing :: "command \<Rightarrow> exn \<Rightarrow> progress \<Rightarrow> progress" where
  "failing c x pr =
     pr\<lparr>pr_failed := queue_group_id c # pr_failed pr,
        pr_error := Some (case pr_error pr of None \<Rightarrow> x | Some first \<Rightarrow> first)\<rparr>"

text \<open>\<open>except Exception\<close>: whatever the command raised; running out of fuel is no exception of the code.\<close>

definition process_one :: "env \<Rightarrow> worker_config \<Rightarrow> envelope \<Rightarrow> progress \<Rightarrow> progress service" where
  "process_one X W envelope pr =
     (let (receipt, c) = envelope
      in if queue_group_id c \<in> set (pr_failed pr) then ret pr
         else
           catching
             (andThen (handle X W c) (\<lambda>_.
              andThen (external X (DeleteReceipt receipt) (\<lambda>_. ())) (\<lambda>_. ret (completed receipt pr))))
             (\<lambda>x. if x = OutOfFuel then throw x else ret (failing c x pr)))"

fun process_all :: "env \<Rightarrow> worker_config \<Rightarrow> envelope list \<Rightarrow> progress \<Rightarrow> progress service" where
  "process_all X W [] pr = ret pr"
| "process_all X W (envelope # envelopes) pr =
     andThen (process_one X W envelope pr) (process_all X W envelopes)"

text \<open>Profile synchronisation goes last in its batch; the other commands keep their order.\<close>

definition batch_order :: "envelope list \<Rightarrow> envelope list" where
  "batch_order envelopes = sort_key (\<lambda>envelope. cm_operation (snd envelope) = SYNC_PROFILE) envelopes"

definition receive :: "env \<Rightarrow> progress \<Rightarrow> (exn + envelope list) service" where
  "receive X pr =
     catching
       (andThen (external X (ReceiveCommands 5 (if pr_processed pr = 0 then 3 else 1)) (xe_received X))
          (\<lambda>envelopes. ret (Inr envelopes)))
       (\<lambda>x. ret (Inl x))"

definition with_receipts :: "envelope list \<Rightarrow> progress \<Rightarrow> progress" where
  "with_receipts envelopes pr =
     pr\<lparr>pr_pending := pr_pending pr @ filter (\<lambda>k. k \<notin> set (pr_pending pr)) (dedup (map fst envelopes))\<rparr>"

definition outcome_of :: "progress \<Rightarrow> exn + nat" where
  "outcome_of pr = (case pr_error pr of Some x \<Rightarrow> Inl x | None \<Rightarrow> Inr (pr_processed pr))"

fun drain :: "env \<Rightarrow> worker_config \<Rightarrow> nat \<Rightarrow> time \<Rightarrow> progress \<Rightarrow> ((exn + nat) \<times> progress) service" where
  "drain X W 0 started pr = throw OutOfFuel"
| "drain X W (Suc n) started pr =
     andThen (reading X) (\<lambda>now.
       if \<not> (now - started < wc_max_time W) then ret (outcome_of pr, pr)
       else
         andThen (receive X pr) (\<lambda>received.
           case received of
             Inl x \<Rightarrow> ret (Inl x, pr)
           | Inr envelopes \<Rightarrow>
               if envelopes = [] then ret (outcome_of pr, pr)
               else
                 andThen (process_all X W (batch_order envelopes) (with_receipts envelopes pr))
                   (drain X W n started)))"

definition release :: "env \<Rightarrow> ustring \<Rightarrow> unit service" where
  "release X receipt = finished (external_outcome X (ReleaseReceipt receipt))"

definition run :: "env \<Rightarrow> worker_config \<Rightarrow> nat \<Rightarrow> nat service" where
  "run X W n =
     andThen (reading X) (\<lambda>started.
     andThen (drain X W n started no_progress) (\<lambda>(ended, pr).
     andThen (forEach (pr_pending pr) (release X)) (\<lambda>_. from_sum ended)))"

end
