(* ===== verification/Endings.thy ===== *)
theory Endings
  imports Worker
begin

text \<open>
  Every service the worker runs comes to an end and only adds to the log of calls, by the rules of
  \<open>settles_intros\<close>.
\<close>

section \<open>Administration and statistics\<close>

lemma proper_more_event_methods [settles_intros]:
  "proper (set_pass_table k a b g t)" "proper (start_scheduled_close k op t)"
  "proper (complete_scheduled_close_actions k op t)"
  "proper (mark_scheduled_close_notification_delivered k op r t)"
  "proper (complete_scheduled_close_notifications k op t)"
  "proper (mark_reserve_promotion_delivered k op t)" "proper (mark_confirmed_link_promotion_delivered k op t)"
  "proper (mark_participant_removal_delivered k op key t)"
  unfolding set_pass_table_def start_scheduled_close_def complete_scheduled_close_actions_def
    mark_scheduled_close_notification_delivered_def complete_scheduled_close_notifications_def
    mark_reserve_promotion_delivered_def mark_confirmed_link_promotion_delivered_def
    mark_participant_removal_delivered_def
  by (rule proper_update_event; simp add: revalidate_proper Let_def)+

lemma settles_users_now [settles_intros]: "settles users_now"
  unfolding users_now_def by (intro settles_intros; simp)

lemma settles_require_event [settles_intros]: "settles (require_event k)"
  unfolding require_event_def by (intro settles_intros; simp)

lemma settles_refresh_day [settles_intros]: "settles (refresh_day X pkey d)"
  unfolding refresh_day_def by (intro settles_intros)

lemma settles_table_services [settles_intros]:
  "settles (ensure_event_tables X e who)" "settles (create_pass_table X pkey k who)"
  "settles (refresh_event_tables X pkey k who)" "settles (create_daily_pass_table X pkey d who None)"
  unfolding refresh_event_tables_def ensure_event_tables_def create_pass_table_def new_pass_table_def
    refresh_event_passes_def replace_event_passes_def create_daily_pass_table_def uploading_def
  by (intro settles_intros; simp)+

lemma settles_days_of_user [settles_intros]:
  "settles (refresh_days_of_user X pkey p i)"
  unfolding refresh_days_of_user_def days_of_user_def plays_or_leads_def by (intro settles_intros)

lemma settles_projections [settles_intros]: "settles (project_profiles_for_event X pkey k us op)"
  unfolding project_profiles_for_event_def project_profile_def by (intro settles_intros; simp)

lemma settles_case_action [settles_intros]:
  "settles m \<Longrightarrow> settles n \<Longrightarrow> settles (case a of StatisticsGame \<Rightarrow> m | StatisticsLink \<Rightarrow> n)"
  by (cases a) simp_all

lemma settles_grant_experience:
  assumes "legacy_plain X"
  shows "settles (grant_experience X pkey k keys op)" "settles (sync_profile X pkey c)"
  unfolding grant_experience_def grant_experience_to_def sync_profile_def
  by (intro settles_intros settles_profile_updates assms; simp)+

lemma settles_add_game: "legacy_plain X \<Longrightarrow> settles (add_game X pkey k op)"
  unfolding add_game_def chat_players_def manual_telegram_players_def inspect_member_def names_valid_def
    record_game_def
  by (intro settles_intros settles_grant_experience; simp)

lemma settles_statistics: "legacy_plain X \<Longrightarrow> settles (apply_statistics X pkey c)"
  unfolding apply_statistics_def by (intro settles_intros settles_add_game; simp)

section \<open>Closings\<close>

lemma settles_schedule_next [settles_intros]: "settles (schedule_next X k op operation)"
  unfolding schedule_next_def sends_system_command_def by (intro settles_intros; simp)

lemma settles_tell_leaders [settles_intros]: "settles (tell_leaders X e op notified leaders)"
proof (induction leaders arbitrary: notified)
  case (Cons leader leaders)
  then show ?case
    unfolding tell_leaders.simps tell_leader_def Let_def by (intro settles_intros; simp)
qed (simp add: settles_intros)

lemma settles_apply_close:
  assumes "legacy_plain X"
  shows "settles (apply_close X pkey administered c)"
  unfolding apply_close_def start_close_def close_statistics_def finalize_close_def closing_event_def
    after_start_def announce_close_def
  by (intro settles_intros settles_add_game assms; simp)

section \<open>Notices\<close>

lemma settles_case_outcome:
  "settles a \<Longrightarrow> settles b \<Longrightarrow> settles d \<Longrightarrow>
     settles (case out of Answered \<Rightarrow> a | Unreachable \<Rightarrow> b | _ \<Rightarrow> d)"
  by (cases out) simp_all

lemma settles_deliveries [settles_intros]:
  "settles (deliver X i k txt buttons)" "settles (claims X i k buttons)" "settles (deliver_once X c txt buttons)"
  unfolding deliver_once_def deliver_def claims_def
  by (intro settles_intros settles_case_outcome; simp)+

lemma settles_deliver_all [settles_intros]: "settles (deliver_all X i buttons messages)"
  by (induction X i buttons messages rule: deliver_all.induct)
    (simp_all only: deliver_all.simps, (intro settles_intros; simp)+)

lemma settles_tell_pending [settles_intros]:
  assumes "\<And>entry. settles (say entry)"
  shows "settles (tell_pending notified marker say entries)"
proof (induction entries arbitrary: notified)
  case (Cons entry entries)
  show ?case unfolding tell_pending.simps by (intro settles_intros assms Cons.IH)
qed (simp only: tell_pending.simps settles_basic)

lemma settles_from_sum [settles_intros]: "x \<noteq> Inl OutOfFuel \<Longrightarrow> settles (from_sum x)"
  unfolding from_sum_def by (intro settles_intros) simp

lemma settles_notify [settles_intros]: "settles (notify X pkey c)"
  unfolding notify_def notice_of_def recipients_of_def tell_recipient_def
  by (intro settles_intros; simp)

lemma settles_player_notices [settles_intros]:
  "settles (notify_confirming_participant X c txt buttons)" "settles (notify_reserve_promotion X pkey c k)"
  "settles (notify_confirmed_link_promotion X pkey c k)"
  unfolding notify_confirming_participant_def notify_reserve_promotion_def notify_confirmed_link_promotion_def
    promoted_user_def tell_promoted_def tell_links_def
  by (intro settles_intros; auto dest: for_player_error)+

lemma settles_tell_masters [settles_intros]:
  assumes "\<And>ids i. settles (say ids i)"
  shows "settles (tell_masters say seen rest)"
proof (induction rest arbitrary: seen)
  case (Cons i rest)
  show ?case unfolding tell_masters.simps by (intro settles_intros assms Cons.IH)
qed (simp only: tell_masters.simps settles_basic)

lemma participation_text_error: "participation_text c e r rows \<noteq> Inl OutOfFuel"
  unfolding participation_text_def place_of_def
  by (auto split: option.splits sum.splits dest: answer_capacity_error)

lemma settles_master_notices [settles_intros]:
  "settles (notify_masters_of_participation X c)" "settles (notify_masters_of_cancellation X c)"
  "settles (notify_masters_of_replaced_participation X c k)"
  unfolding notify_masters_of_participation_def tell_all_masters_def tell_master_def
    notify_masters_of_cancellation_def cancelled_player_def cancellation_masters_def command_player_name_def
    tell_of_cancellation_def notify_masters_of_replaced_participation_def tell_of_replacement_def
  by (intro settles_intros participation_text_error; simp)+

lemma find_by_handle_error: "find_telegram_by_handle us h \<noteq> Inl OutOfFuel"
  by (auto simp: find_telegram_by_handle_def split: option.splits list.splits if_splits)

lemma handle_telegram_id_error: "handle_telegram_id us found \<noteq> Inl OutOfFuel"
  unfolding handle_telegram_id_def
  by (cases found) (auto split: option.splits sum.splits dest: find_by_handle_error[THEN notE])

lemma settles_case_bool [settles_intros]:
  "settles m \<Longrightarrow> settles n \<Longrightarrow> settles (case b of True \<Rightarrow> m | False \<Rightarrow> n)"
  by (cases b) simp_all

lemma settles_kick [settles_intros]: "settles (kick X pkey c e chat k)"
  unfolding kick_def cancelled_telegram_id_def
  by (intro settles_intros handle_telegram_id_error)

lemma settles_kick_cancelled [settles_intros]: "settles (kick_cancelled_participant X pkey c k prior)"
  unfolding kick_cancelled_participant_def by (intro settles_intros; simp)

lemma settles_snapshots [settles_intros]:
  "settles (notify_capacity_promotions X pkey c)" "settles (notify_removed_participants X pkey c)"
  "settles (notify_sifted_participants X pkey c)"
  unfolding notify_capacity_promotions_def notify_removed_participants_def notify_sifted_participants_def
    with_snapshot_def tell_added_place_def tell_removed_def tell_move_def tell_player_def told_entry_def
    added_place_messages_def move_messages_def
  by (intro settles_intros; auto split: sum.splits dest: for_player_error)+

section \<open>The worker\<close>

lemma settles_requires [settles_intros]: "settles m \<Longrightarrow> settles (requires b m)"
  by (simp add: requires_def settles_intros)

lemma settles_finished [settles_intros]: "settles m \<Longrightarrow> settles (finished m)"
  unfolding finished_def by (intro settles_intros)

lemma settles_perform:
  assumes "legacy_plain X"
  shows "settles (perform X W c)"
  unfolding perform_def perform_day_def perform_tables_def refreshed_tables_def replies_def
    require_active_event_leader_def
  by (intro settles_intros settles_grant_experience settles_statistics settles_apply_close
      settles_apply_command assms; auto simp: event_table_links_def split: sum.splits if_splits)

lemma settles_tell [settles_intros]: "settles (tell X W c r)"
  unfolding tell_def tell_roster_change_def tell_vacancy_def tell_replaced_def
  by (intro settles_intros)

lemma settles_on_domain_error [settles_intros]: "settles m \<Longrightarrow> settles (on_domain_error c sd m)"
  unfolding on_domain_error_def by (intro settles_intros)

lemma settles_handle:
  assumes "legacy_plain X"
  shows "settles (handle X W c)"
  unfolding handle_def inner_def after_tell_def told_masters_def
  by (intro settles_intros settles_perform assms)

end
