(* ===== verification/Batches.thy ===== *)
theory Batches
  imports Endings Outcomes
begin

text \<open>
  What the worker guarantees of its queue: the receipts it holds, read off the log of calls, the order
  within a group after a failure, the answer to a command that is refused, and that a run comes to an end.
\<close>

section \<open>The receipts in the log\<close>

text \<open>
  The receipts that have been received and not given back, over the log from its last call to its first:
  deleting one counts when the queue confirmed it, releasing one always (the code asks once and goes on).
\<close>

fun held :: "env \<Rightarrow> call list \<Rightarrow> ustring set" where
  "held X [] = {}"
| "held X (c # earlier) =
     (let H = held X earlier; confirmed = (xe_outcome X (rev earlier) c = Answered)
      in case c of
           ReceiveCommands _ _ \<Rightarrow> if confirmed then H \<union> fst ` set (xe_received X (rev earlier @ [c])) else H
         | DeleteReceipt k \<Rightarrow> if confirmed then H - {k} else H
         | ReleaseReceipt k \<Rightarrow> H - {k}
         | _ \<Rightarrow> H)"

definition receipts_held :: "env \<Rightarrow> world \<Rightarrow> ustring set" where
  "receipts_held X w = held X (rev (w_calls w))"

lemma held_other: "\<not> queue_call c \<Longrightarrow> held X (c # earlier) = held X earlier"
  by (cases c) (simp_all add: queue_call_def)

lemma held_others: "list_all (\<lambda>c. \<not> queue_call c) calls \<Longrightarrow> held X (rev calls @ earlier) = held X earlier"
  by (induction calls arbitrary: earlier) (simp_all add: held_other del: held.simps)

lemma logged_holds: "logged w w' \<Longrightarrow> receipts_held X w' = receipts_held X w"
  by (auto simp: logged_def receipts_held_def held_others)

lemma holds_after_call: "receipts_held X (w\<lparr>w_calls := w_calls w @ [c]\<rparr>) = held X (c # rev (w_calls w))"
  by (simp add: receipts_held_def)

section \<open>Batches keep track of what is pending\<close>

text \<open>What is held beyond \<open>H\<close> is pending, and no failure is a lack of fuel.\<close>

definition tracked :: "env \<Rightarrow> ustring set \<Rightarrow> progress \<Rightarrow> world \<Rightarrow> bool" where
  "tracked X H pr w \<longleftrightarrow> receipts_held X w \<subseteq> H \<union> set (pr_pending pr) \<and> pr_error pr \<noteq> Some OutOfFuel"

lemma process_one_tracked:
  assumes "legacy_plain X" and "process_one X W (receipt, c) pr w = (r, w')"
  shows "\<exists>pr'. r = Inr pr' \<and> w_turns w \<le> w_turns w' \<and> (tracked X H pr w \<longrightarrow> tracked X H pr' w')"
proof (cases "queue_group_id c \<in> set (pr_failed pr)")
  case True
  with assms(2) show ?thesis by (auto simp: process_one_def)
next
  case False
  obtain r1 w1 where h: "handle X W c w = (r1, w1)" by fastforce
  note settled = settlesD[OF settles_handle[OF assms(1)] h]
  then have turns: "w_turns w \<le> w_turns w1" and held: "receipts_held X w1 = receipts_held X w"
    by (simp_all add: logged_def logged_holds)
  show ?thesis
  proof (cases r1)
    case (Inl x)
    with settled have "x \<noteq> OutOfFuel" by simp
    with Inl h False assms(2) turns held show ?thesis
      by (auto simp: process_one_def catching_def andThen_def tracked_def failing_def split: option.splits)
  next
    case (Inr u)
    let ?w2 = "w1\<lparr>w_calls := w_calls w1 @ [DeleteReceipt receipt]\<rparr>"
    have "receipts_held X ?w2 = (if xe_outcome X (w_calls w1) (DeleteReceipt receipt) = Answered
        then receipts_held X w1 - {receipt} else receipts_held X w1)"
      unfolding holds_after_call by (simp add: receipts_held_def)
    with Inr h False assms(2) turns held show ?thesis
      by (auto simp: process_one_def catching_def andThen_def external_apply tracked_def failing_def
          completed_def split: if_splits option.splits)
  qed
qed

lemma process_all_tracked:
  assumes "legacy_plain X"
  shows "process_all X W es pr w = (r, w') \<Longrightarrow>
    \<exists>pr'. r = Inr pr' \<and> w_turns w \<le> w_turns w' \<and> (tracked X H pr w \<longrightarrow> tracked X H pr' w')"
proof (induction es arbitrary: pr w)
  case (Cons e es)
  obtain receipt c where e: "e = (receipt, c)" by fastforce
  obtain r1 w1 where s: "process_one X W e pr w = (r1, w1)" by fastforce
  from process_one_tracked[OF assms s[unfolded e], of H] obtain pr1 where
    1: "r1 = Inr pr1" "w_turns w \<le> w_turns w1" "tracked X H pr w \<longrightarrow> tracked X H pr1 w1" by auto
  with s Cons.prems have "process_all X W es pr1 w1 = (r, w')" by (simp add: andThen_def)
  from Cons.IH[OF this] 1 show ?case by (auto intro: le_trans)
qed auto

lemma receive_apply:
  "receive X pr w =
     (let c = ReceiveCommands 5 (if pr_processed pr = 0 then 3 else 1)
      in (Inr (if xe_outcome X (w_calls w) c = Answered then Inr (xe_received X (w_calls w @ [c]))
               else Inl ExternalFailure), w\<lparr>w_calls := w_calls w @ [c]\<rparr>))"
  by (simp add: receive_def catching_def andThen_def external_apply Let_def)

lemma error_with_receipts [simp]: "pr_error (with_receipts es pr) = pr_error pr"
  by (simp add: with_receipts_def)

lemma set_with_receipts: "set (pr_pending (with_receipts es pr)) = set (pr_pending pr) \<union> fst ` set es"
  by (auto simp: with_receipts_def)

lemma tracked_with_receipts:
  assumes "tracked X H pr w" and "receive X pr w = (Inr (Inr es), w')"
  shows "tracked X H (with_receipts es pr) w'"
  using assms
  by (auto simp: receive_apply tracked_def set_with_receipts Let_def holds_after_call receipts_held_def
      split: if_splits)

lemma tracked_receive_failed:
  assumes "tracked X H pr w" and "receive X pr w = (Inr (Inl x), w')"
  shows "tracked X H pr w'"
  using assms
  by (auto simp: receive_apply tracked_def Let_def holds_after_call receipts_held_def split: if_splits)


lemma receipts_held_turn [simp]: "receipts_held X (w\<lparr>w_turns := t\<rparr>) = receipts_held X w"
  by (simp add: receipts_held_def)

lemma tracked_turn [simp]: "tracked X H pr (w\<lparr>w_turns := t\<rparr>) = tracked X H pr w"
  by (simp add: tracked_def receipts_held_def)

text \<open>One round of the loop: it stops, or goes on from a later turn with everything held tracked.\<close>

lemma drain_round:
  assumes "legacy_plain X" and "tracked X H pr w" and "drain X W (Suc n) started pr w = (r, w')"
  shows "(\<exists>x pr'. r = Inr (x, pr') \<and> x \<noteq> Inl OutOfFuel \<and> tracked X H pr' w')
    \<or> (xe_clock X (w_turns w) 0 - started < wc_max_time W
        \<and> (\<exists>pr' w1. w_turns w < w_turns w1 \<and> tracked X H pr' w1 \<and> drain X W n started pr' w1 = (r, w')))"
proof (cases "xe_clock X (w_turns w) 0 - started < wc_max_time W")
  case False
  with assms(2,3) show ?thesis
    by (auto simp: andThen_def reading_apply outcome_of_def tracked_def split: option.splits)
next
  case True
  let ?w = "w\<lparr>w_turns := Suc (w_turns w)\<rparr>"
  obtain received w1 where rc: "receive X pr ?w = (Inr received, w1)"
    by (auto simp: receive_apply Let_def)
  have turns: "w_turns w1 = Suc (w_turns w)" using rc by (auto simp: receive_apply Let_def)
  have tr: "tracked X H pr ?w" using assms(2) by simp
  show ?thesis
  proof (cases received)
    case (Inl x)
    with rc have "x = ExternalFailure" by (auto simp: receive_apply Let_def split: if_splits)
    with tracked_receive_failed[OF tr] rc Inl assms(3) True show ?thesis
      by (auto simp: andThen_def reading_apply)
  next
    case (Inr es)
    note tr1 = tracked_with_receipts[OF tr, of es w1, folded Inr, OF rc]
    show ?thesis
    proof (cases "es = []")
      case True
      with tr1 rc Inr assms(3) \<open>xe_clock X (w_turns w) 0 - started < wc_max_time W\<close> show ?thesis
        by (auto simp: andThen_def reading_apply outcome_of_def tracked_def set_with_receipts
            split: option.splits)
    next
      case False
      obtain r2 w2 where p: "process_all X W (batch_order es) (with_receipts es pr) w1 = (r2, w2)"
        by fastforce
      from process_all_tracked[OF assms(1) p, of H] tr1 turns obtain pr2 where
        "r2 = Inr pr2" "w_turns w < w_turns w2" "tracked X H pr2 w2" by auto
      with p rc Inr False assms(3) True show ?thesis
        by (intro disjI2 conjI exI[of _ pr2] exI[of _ w2]) (simp_all add: andThen_def reading_apply)
    qed
  qed
qed


lemma drain_tracked:
  assumes "legacy_plain X"
  shows "tracked X H pr w \<Longrightarrow> drain X W n started pr w = (r, w') \<Longrightarrow>
    r = Inl OutOfFuel \<or> (\<exists>x pr'. r = Inr (x, pr') \<and> x \<noteq> Inl OutOfFuel \<and> tracked X H pr' w')"
proof (induction n arbitrary: pr w)
  case (Suc n)
  from drain_round[OF assms Suc.prems] Suc.IH show ?case by blast
qed auto

section \<open>A run gives back what it receives\<close>

lemma release_apply:
  "release X k w = (Inr (), w\<lparr>w_calls := w_calls w @ [ReleaseReceipt k]\<rparr>)"
  by (simp add: release_def finished_def external_outcome_def andThen_def)

lemma release_all:
  "\<exists>us. forEach ks (release X) w = (Inr us, w\<lparr>w_calls := w_calls w @ map ReleaseReceipt ks\<rparr>)"
proof (induction ks arbitrary: w)
  case (Cons k ks)
  from Cons[of "w\<lparr>w_calls := w_calls w @ [ReleaseReceipt k]\<rparr>"] show ?case
    by (auto simp: andThen_def release_apply)
qed simp

lemma held_released: "held X (rev (map ReleaseReceipt ks) @ earlier) = held X earlier - set ks"
  by (induction ks arbitrary: earlier) auto

lemma run_apply:
  assumes "drain X W n (xe_clock X (w_turns w) 0) no_progress (w\<lparr>w_turns := Suc (w_turns w)\<rparr>) = (Inr (x, pr), w1)"
  shows "run X W n w = (x, w1\<lparr>w_calls := w_calls w1 @ map ReleaseReceipt (pr_pending pr)\<rparr>)"
proof -
  obtain us where "forEach (pr_pending pr) (release X) w1 =
      (Inr us, w1\<lparr>w_calls := w_calls w1 @ map ReleaseReceipt (pr_pending pr)\<rparr>)"
    using release_all by blast
  with assms show ?thesis by (simp add: run_def reading_apply andThen_def from_sum_def split: sum.splits)
qed

lemma run_out_of_fuel:
  assumes "drain X W n (xe_clock X (w_turns w) 0) no_progress (w\<lparr>w_turns := Suc (w_turns w)\<rparr>) = (Inl e, w1)"
  shows "fst (run X W n w) = Inl e"
  using assms by (simp add: run_def reading_apply andThen_def)

lemma tracked_start:
  "tracked X (receipts_held X w) no_progress (w\<lparr>w_turns := t\<rparr>)"
  by (simp add: tracked_def no_progress_def)

section \<open>A run comes to an end\<close>

definition clock_advances :: "env \<Rightarrow> bool" where
  "clock_advances X \<longleftrightarrow> (\<forall>t. xe_clock X t 0 < xe_clock X (Suc t) 0)"

lemma clock_gain: "clock_advances X \<Longrightarrow> t < t' \<Longrightarrow> xe_clock X t 0 < xe_clock X t' 0"
  unfolding clock_advances_def by (rule lift_Suc_mono_less) auto

lemma drain_ends:
  assumes "legacy_plain X" and "clock_advances X"
  shows "tracked X H pr w \<Longrightarrow> 0 < n \<Longrightarrow> wc_max_time W - (xe_clock X (w_turns w) 0 - started) < int n \<Longrightarrow>
    fst (drain X W n started pr w) \<noteq> Inl OutOfFuel"
proof (induction n arbitrary: pr w)
  case (Suc n)
  obtain r w' where d: "drain X W (Suc n) started pr w = (r, w')" by fastforce
  from drain_round[OF assms(1) Suc.prems(1) d] show ?case
  proof (elim disjE conjE exE)
    fix pr' w1
    assume 1: "w_turns w < w_turns w1" "tracked X H pr' w1" "drain X W n started pr' w1 = (r, w')"
      and 2: "xe_clock X (w_turns w) 0 - started < wc_max_time W"
    from clock_gain[OF assms(2) 1(1)] Suc.prems(3)
    have "wc_max_time W - (xe_clock X (w_turns w1) 0 - started) < int n" by simp
    moreover from 2 Suc.prems(3) have "0 < n" by simp
    ultimately have "fst (drain X W n started pr' w1) \<noteq> Inl OutOfFuel" using Suc.IH 1(2) by blast
    with 1(3) d show ?thesis by simp
  qed (simp_all add: d del: drain.simps)
qed simp

text \<open>How a run with enough fuel ends: with the outcome of the loop, everything pending released.\<close>

lemma run_result:
  assumes "legacy_plain X" and "clock_advances X" and "0 < wc_max_time W" and "wc_max_time W \<le> int n"
  obtains x pr w1 where "x \<noteq> Inl OutOfFuel" and "tracked X (receipts_held X w) pr w1"
    and "run X W n w = (x, w1\<lparr>w_calls := w_calls w1 @ map ReleaseReceipt (pr_pending pr)\<rparr>)"
proof -
  let ?started = "xe_clock X (w_turns w) 0" and ?w = "w\<lparr>w_turns := Suc (w_turns w)\<rparr>"
  obtain r1 w1 where d: "drain X W n ?started no_progress ?w = (r1, w1)" by fastforce
  have "?started < xe_clock X (w_turns ?w) 0" using clock_gain[OF assms(2)] by simp
  then have "wc_max_time W - (xe_clock X (w_turns ?w) 0 - ?started) < int n" "0 < n" using assms(3,4) by simp_all
  from drain_ends[OF assms(1,2) tracked_start this(2,1)] d have "r1 \<noteq> Inl OutOfFuel" by simp
  with drain_tracked[OF assms(1) tracked_start d] obtain x pr where
    x: "r1 = Inr (x, pr)" "x \<noteq> Inl OutOfFuel" "tracked X (receipts_held X w) pr w1" by blast
  from that[OF x(2,3) run_apply[OF d[unfolded x(1)]]] show thesis .
qed

text \<open>
  When the clock moves on between two readings, a run of the worker comes to an end: as many batches as
  the allowed time has microseconds are enough, and every command in them is applied and answered in the end.
\<close>

theorem run_ends:
  assumes "legacy_plain X" and "clock_advances X" and "0 < wc_max_time W" and "wc_max_time W \<le> int n"
  shows "fst (run X W n w) \<noteq> Inl OutOfFuel"
  by (rule run_result[OF assms, of w]) simp

text \<open>
  C2. Whatever the outside does, a run of the worker gives back every receipt it is handed: the receipt is
  deleted and the queue has confirmed it, or it is released so that the command comes again.  No receipt
  is held in the end that was not held before the run, also when commands fail or the queue does.
\<close>

theorem run_gives_receipts_back:
  assumes "legacy_plain X" and "clock_advances X" and "0 < wc_max_time W" and "wc_max_time W \<le> int n"
  shows "receipts_held X (snd (run X W n w)) \<subseteq> receipts_held X w"
proof (rule run_result[OF assms, of w])
  fix x pr w1
  assume 1: "tracked X (receipts_held X w) pr w1"
    and 2: "run X W n w = (x, w1\<lparr>w_calls := w_calls w1 @ map ReleaseReceipt (pr_pending pr)\<rparr>)"
  from 2 have "receipts_held X (snd (run X W n w)) = receipts_held X w1 - set (pr_pending pr)"
    by (simp add: receipts_held_def held_released)
  with 1 show ?thesis by (auto simp: tracked_def)
qed

text \<open>A queue that hands out one command for an unknown game, and a clock that moves on.\<close>

definition lost_command :: command where
  "lost_command = (sample_command CANCEL EmptyPayload)\<lparr>cm_event_id := [2, 3]\<rparr>"

definition worker_env :: env where
  "worker_env = sample_env\<lparr>xe_clock := \<lambda>turn i. int turn,
     xe_received := \<lambda>calls. if length calls = 1 then [([4], lost_command)] else []\<rparr>"

definition worker_world :: world where
  "worker_world = sample_world\<lparr>w_users := Some sample_users\<rparr>"

definition sample_worker :: worker_config where
  "sample_worker = \<lparr>wc_statistics = True, wc_administration = True, wc_closing = True,
     wc_closing_administered = True, wc_notifications = True, wc_max_time = 40, wc_key = sample_pkey\<rparr>"

lemma worker_env_ok: "legacy_plain worker_env" "clock_advances worker_env"
  by (simp_all add: legacy_plain_def clock_advances_def worker_env_def sample_env_def)

lemma sample_worker_time: "0 < wc_max_time sample_worker" "wc_max_time sample_worker \<le> int 40"
  by (simp_all add: sample_worker_def)

theorem run_ends_witness: "fst (run worker_env sample_worker 40 worker_world) \<noteq> Inl OutOfFuel"
  by (rule run_ends[OF worker_env_ok sample_worker_time])

theorem run_gives_receipts_back_witness:
  "receipts_held worker_env (snd (run worker_env sample_worker 40 worker_world)) = {}"
  using run_gives_receipts_back[OF worker_env_ok sample_worker_time, of worker_world]
  by (simp add: receipts_held_def worker_world_def sample_world_def)

section \<open>Order within a group\<close>

lemma failed_grows:
  "process_one X W e pr w = (Inr pr', w') \<Longrightarrow> set (pr_failed pr) \<subseteq> set (pr_failed pr')"
  by (auto simp: process_one_def catching_def andThen_def failing_def completed_def external_apply
      split: if_splits prod.splits sum.splits)

text \<open>A command fails when handling it ends in an exception, or when the queue does not confirm that its receipt is deleted.\<close>

definition fails :: "env \<Rightarrow> worker_config \<Rightarrow> envelope \<Rightarrow> world \<Rightarrow> bool" where
  "fails X W envelope w \<longleftrightarrow>
     (case handle X W (snd envelope) w of
        (Inl _, _) \<Rightarrow> True
      | (Inr _, w') \<Rightarrow> xe_outcome X (w_calls w') (DeleteReceipt (fst envelope)) \<noteq> Answered)"

text \<open>The progress of a run at any later point: commands are processed and further batches received.\<close>

inductive goes_on :: "env \<Rightarrow> worker_config \<Rightarrow> progress \<Rightarrow> progress \<Rightarrow> bool" for X W where
  stays: "goes_on X W pr pr"
| processes: "goes_on X W pr pr1 \<Longrightarrow> process_one X W envelope pr1 w = (Inr pr2, w') \<Longrightarrow> goes_on X W pr pr2"
| receives: "goes_on X W pr pr1 \<Longrightarrow> goes_on X W pr (with_receipts envelopes pr1)"

lemma goes_on_keeps_failed: "goes_on X W pr pr' \<Longrightarrow> set (pr_failed pr) \<subseteq> set (pr_failed pr')"
proof (induction rule: goes_on.induct)
  case (processes pr pr1 envelope w pr2 w')
  from failed_grows[OF processes(2)] processes.IH show ?case by blast
qed (simp_all add: with_receipts_def)

lemma failed_group_is_left:
  "queue_group_id (snd envelope) \<in> set (pr_failed pr) \<Longrightarrow> process_one X W envelope pr w = (Inr pr, w)"
  by (simp add: process_one_def split_beta)

lemma process_all_skips:
  assumes "g \<in> set (pr_failed pr)"
  shows "process_all X W es pr w = process_all X W (filter (\<lambda>e. queue_group_id (snd e) \<noteq> g) es) pr w"
  using assms
proof (induction es arbitrary: pr w)
  case (Cons e es)
  show ?case
  proof (cases "queue_group_id (snd e) = g")
    case True
    with Cons show ?thesis by (simp add: andThen_def failed_group_is_left)
  next
    case False
    obtain r w1 where s: "process_one X W e pr w = (r, w1)" by fastforce
    with False failed_grows[of X W e pr w _ w1] Cons show ?thesis
      by (cases r) (auto simp: andThen_def)
  qed
qed simp

lemma process_one_fails:
  assumes "legacy_plain X" and "queue_group_id (snd envelope) \<notin> set (pr_failed pr)" and "fails X W envelope w"
  shows "\<exists>x w1. process_one X W envelope pr w = (Inr (failing (snd envelope) x pr), w1)"
proof -
  obtain r w1 where h: "handle X W (snd envelope) w = (r, w1)" by fastforce
  from settlesD[OF settles_handle[OF assms(1)] h] have "r \<noteq> Inl OutOfFuel" by simp
  with h assms(2,3) show ?thesis
    by (cases r) (auto simp: process_one_def fails_def split_beta catching_def andThen_def external_apply)
qed

text \<open>
  C1. A command that fails is kept, with its receipt pending and the failure recorded, and blocks the later
  commands of its group for the rest of the run: each of them, in this batch and in every later one, is left alone
  without a call and without a change, while the rest of the batch runs as if the commands of the group were not in
  it.  So the order within a group is kept.
\<close>

theorem failed_group_waits:
  assumes "legacy_plain X" and "queue_group_id c \<notin> set (pr_failed pr)" and "fails X W (receipt, c) w"
  shows "\<exists>pr1 w1. process_one X W (receipt, c) pr w = (Inr pr1, w1)
    \<and> pr_pending pr1 = pr_pending pr \<and> pr_processed pr1 = pr_processed pr \<and> pr_error pr1 \<noteq> None
    \<and> (\<forall>es. process_all X W ((receipt, c) # es) pr w
          = process_all X W (filter (\<lambda>e. queue_group_id (snd e) \<noteq> queue_group_id c) es) pr1 w1)
    \<and> (\<forall>pr2 e w2. goes_on X W pr1 pr2 \<longrightarrow> queue_group_id (snd e) = queue_group_id c
          \<longrightarrow> process_one X W e pr2 w2 = (Inr pr2, w2))"
proof -
  from process_one_fails[OF assms(1), of "(receipt, c)" pr W w] assms(2,3) obtain x w1 where
    one: "process_one X W (receipt, c) pr w = (Inr (failing c x pr), w1)" by auto
  let ?pr1 = "failing c x pr"
  have g: "queue_group_id c \<in> set (pr_failed ?pr1)" by (simp add: failing_def)
  then have "process_all X W ((receipt, c) # es) pr w
      = process_all X W (filter (\<lambda>e. queue_group_id (snd e) \<noteq> queue_group_id c) es) ?pr1 w1" for es
    using one process_all_skips[OF g, of X W es w1] by (simp add: andThen_def)
  moreover have "process_one X W e pr2 w2 = (Inr pr2, w2)"
    if "goes_on X W ?pr1 pr2" "queue_group_id (snd e) = queue_group_id c" for pr2 e w2
    using goes_on_keeps_failed[OF that(1)] g that(2) by (intro failed_group_is_left) auto
  moreover have "pr_pending ?pr1 = pr_pending pr \<and> pr_processed ?pr1 = pr_processed pr \<and> pr_error ?pr1 \<noteq> None"
    by (simp add: failing_def)
  ultimately show ?thesis using one by blast
qed

text \<open>A queue that does not confirm a deletion, and the same command handed out twice.\<close>

definition deaf_env :: env where
  "deaf_env = sample_env\<lparr>xe_outcome := \<lambda>calls c. case c of DeleteReceipt k \<Rightarrow> Failed | _ \<Rightarrow> Answered\<rparr>"

lemma deaf_env_fails: "legacy_plain deaf_env" "fails deaf_env W (receipt, c) w"
  by (auto simp: legacy_plain_def fails_def deaf_env_def sample_env_def split: sum.split prod.split)

theorem failed_group_waits_witness:
  "\<exists>pr1 w1. process_one deaf_env sample_worker ([4], lost_command) no_progress worker_world = (Inr pr1, w1)
    \<and> pr_error pr1 \<noteq> None
    \<and> process_one deaf_env sample_worker ([5], lost_command) (with_receipts [([5], lost_command)] pr1) w1
        = (Inr (with_receipts [([5], lost_command)] pr1), w1)"
proof -
  have "queue_group_id lost_command \<notin> set (pr_failed no_progress)" by (simp add: no_progress_def)
  from failed_group_waits[OF deaf_env_fails(1) this deaf_env_fails(2)] obtain pr1 w1 where
    one: "process_one deaf_env sample_worker ([4], lost_command) no_progress worker_world = (Inr pr1, w1)"
      "pr_error pr1 \<noteq> None"
    and left: "\<And>pr2 e w2. goes_on deaf_env sample_worker pr1 pr2 \<Longrightarrow> queue_group_id (snd e) = queue_group_id lost_command
      \<Longrightarrow> process_one deaf_env sample_worker e pr2 w2 = (Inr pr2, w2)" by blast
  have "goes_on deaf_env sample_worker pr1 (with_receipts [([5], lost_command)] pr1)"
    by (intro goes_on.receives goes_on.stays)
  from left[OF this, of "([5], lost_command)"] one show ?thesis by simp
qed

section \<open>A command that is refused\<close>

definition after_refusal :: "env \<Rightarrow> command \<Rightarrow> exn \<Rightarrow> unit service" where
  "after_refusal X c x =
     (if initially_told c \<or> status_request c
      then deliver_once X c (failure_text c x) (command_buttons c) else ret ())"

text \<open>
  C6. A command that the program refuses with a domain error does not block its group: its author is told
  the reason, unless it is a background command, and once that has been sent the receipt is deleted, so the
  batch goes on with the next command and no failure is recorded.
\<close>

theorem refused_command_is_acknowledged:
  assumes "queue_group_id c \<notin> set (pr_failed pr)" and "perform X W c w = (Inl x, w1)" and "is_domain_error x"
    and "after_refusal X c x w1 = (Inr (), w2)" and "xe_outcome X (w_calls w2) (DeleteReceipt receipt) = Answered"
  shows "process_one X W (receipt, c) pr w =
    (Inr (completed receipt pr), w2\<lparr>w_calls := w_calls w2 @ [DeleteReceipt receipt]\<rparr>)"
proof -
  have "handle X W c w = after_refusal X c x w1"
    using assms(2,3)
    by (simp add: handle_def inner_def on_domain_error_def after_refusal_def catching_def andThen_def)
  with assms show ?thesis by (simp add: process_one_def catching_def andThen_def external_apply)
qed


lemma no_lost_game: "get_event [2, 3] created_repo = None"
  by (simp add: get_event_def created_repo_rows dict_get_def sample_id_def)

lemma lost_command_refused: "perform worker_env sample_worker lost_command worker_world = (Inl EventNotFound, worker_world)"
  by (simp add: perform_def lost_command_def sample_command_def closing_operations_def apply_command_def
      find_event_def andThen_def worker_world_def sample_world_def no_lost_game)

lemma lost_command_answered:
  "after_refusal worker_env lost_command EventNotFound worker_world =
     (Inr (), worker_world\<lparr>w_calls := [SendMessage VK 7 [9] (Failure EventNotFound) []], w_turns := 1\<rparr>)"
  by (simp add: after_refusal_def initially_told_def silent_operations_def lost_command_def sample_command_def
      deliver_once_def users_now_def andThen_def worker_world_def sample_world_def users_get_def
      sample_users_def deliver_def external_outcome_def worker_env_def sample_env_def failure_text_def
      empty_reply_def command_buttons_def claims_def on_users_def ticking_def runs_apply claim_delivery_def
      dict_get_def)

theorem refused_command_is_acknowledged_witness:
  "fst (process_one worker_env sample_worker ([4], lost_command) no_progress worker_world) =
     Inr (completed [4] no_progress)"
proof -
  have 1: "queue_group_id lost_command \<notin> set (pr_failed no_progress)" by (simp add: no_progress_def)
  have 2: "is_domain_error EventNotFound" by (simp add: is_domain_error_def)
  show ?thesis
    using refused_command_is_acknowledged[OF 1 lost_command_refused 2 lost_command_answered, of "[4]"]
    by (simp add: worker_env_def sample_env_def)
qed

end
