(* ===== verification/Limits.thy ===== *)
theory Limits
  imports Texts
begin

text \<open>
  Bounds the outside puts on what the program makes: the length of a message, counted in code units of
  UTF-16, and the form of the token in a signup link.
\<close>

section \<open>The answer to a confirmation fits into a message\<close>

lemma message_length_append [simp]: "message_length (s @ t) = message_length s + message_length t"
  by (simp add: message_length_def)

lemma message_length_Nil [simp]: "message_length [] = 0"
  and message_length_Cons [simp]: "message_length (c # s) = units c + message_length s"
  by (simp_all add: message_length_def)

lemma rstrip_by_prefix: "\<exists>t. s = rstrip_by p s @ t"
  unfolding rstrip_by_def by (metis rev_append rev_rev_ident takeWhile_dropWhile_id)

lemma message_length_rstrip: "message_length (rstrip_by p s) \<le> message_length s"
  by (metis rstrip_by_prefix message_length_append le_add1)

lemma within_budget_length: "0 \<le> budget \<Longrightarrow> int (message_length (within_budget budget s)) \<le> budget"
  by (induction budget s rule: within_budget.induct) auto

lemma within_budget_prefix: "\<exists>t. s = within_budget budget s @ t"
  by (induction budget s rule: within_budget.induct) auto

lemma confirmation_text_length:
  "message_length (confirmation_text e main masters wish) =
     message_length (confirmation_text e main masters []) + message_length wish"
  by (simp add: confirmation_text_def)

text \<open>The wish as it is repeated: in full, or its beginning with an ellipsis.\<close>

definition repeats :: "ustring \<Rightarrow> ustring \<Rightarrow> bool" where
  "repeats wish shown \<longleftrightarrow> shown = wish \<or> (\<exists>cut rest. wish = cut @ rest \<and> shown = cut @ [8230])"

text \<open>
  C17. The answer to a confirmation, which repeats what the player wishes, never exceeds the 4096 units of a
  message when what surrounds the wish leaves room for one character: a wish that is too long is cut
  and marked, and the masters' contacts behind it always arrive in full.
\<close>

theorem confirmation_answer_fits:
  assumes "message_length (confirmation_text e main masters []) < MAX_MESSAGE_LENGTH"
  shows "message_length (confirmation_success_text e wish main masters) \<le> MAX_MESSAGE_LENGTH
    \<and> (\<exists>shown. repeats wish shown
         \<and> confirmation_success_text e wish main masters = confirmation_text e main masters shown)"
proof (cases "message_length (confirmation_text e main masters wish) \<le> MAX_MESSAGE_LENGTH")
  case True
  then show ?thesis by (auto simp: confirmation_success_text_def Let_def repeats_def)
next
  case False
  let ?rest = "message_length (confirmation_text e main masters [])"
  let ?budget = "int MAX_MESSAGE_LENGTH - int ?rest - 1"
  let ?kept = "rstrip_by is_space (within_budget ?budget wish)"
  have budget: "int (message_length wish) - (int (message_length (confirmation_text e main masters wish))
      - int MAX_MESSAGE_LENGTH) - 1 = ?budget"
    by (simp add: confirmation_text_length[of e main masters wish])
  have eq: "confirmation_success_text e wish main masters = confirmation_text e main masters (?kept @ [8230])"
    using False unfolding confirmation_success_text_def Let_def budget by simp
  have "0 \<le> ?budget" using assms by simp
  from within_budget_length[OF this] message_length_rstrip[of is_space]
  have "int (message_length ?kept) \<le> ?budget" by (meson of_nat_mono order_trans)
  then have "message_length (confirmation_text e main masters (?kept @ [8230])) \<le> MAX_MESSAGE_LENGTH"
    by (simp add: confirmation_text_length[of e main masters "?kept @ [8230]"] units_def)
  moreover have "repeats wish (?kept @ [8230])"
    unfolding repeats_def by (metis within_budget_prefix rstrip_by_prefix append.assoc)
  ultimately show ?thesis using eq by auto
qed

section \<open>Signup tokens\<close>

definition token_text :: "ustring \<Rightarrow> bool" where
  "token_text s \<longleftrightarrow> list_all is_token_char s"

lemma token_text_append [simp]: "token_text (s @ t) \<longleftrightarrow> token_text s \<and> token_text t"
  by (simp add: token_text_def)

lemma token_text_simps [simp]: "token_text []" "token_text (c # s) \<longleftrightarrow> is_token_char c \<and> token_text s"
  by (simp_all add: token_text_def)

lemma token_text_subset: "set s \<subseteq> set t \<Longrightarrow> token_text t \<Longrightarrow> token_text s"
  by (auto simp: token_text_def list_all_iff)

lemma token_text_take: "token_text s \<Longrightarrow> token_text (take n s)"
  by (rule token_text_subset[OF set_take_subset])

lemma transliteration_tokens:
  "(c, r) \<in> set cyrillic_transliteration \<Longrightarrow> token_text r \<and> token_text (capitalized r)"
  by (auto simp: cyrillic_transliteration_def is_token_char_def ascii_alpha_def ascii_lower_def ascii_upper_def
      is_ascii_digit_def)


lemma token_characters_ok: "token_text (token_characters c)"
proof -
  have "token_text r \<and> token_text (capitalized r)" if "map_of cyrillic_transliteration x = Some r" for x r
    using transliteration_tokens[OF map_of_SomeD[OF that]] .
  then show ?thesis
    by (auto simp: token_characters_def is_token_char_def ascii_alnum_def split: list.splits option.splits)
qed

lemma token_text_concat: "(\<And>x. x \<in> set xs \<Longrightarrow> token_text (f x)) \<Longrightarrow> token_text (concat (map f xs))"
  by (induction xs) auto

lemma token_text_squeeze: "is_token_char r \<Longrightarrow> token_text s \<Longrightarrow> token_text (squeeze p r s)"
  by (induction p r s rule: squeeze.induct) auto

lemma token_text_rstrip: "token_text s \<Longrightarrow> token_text (rstrip_by p s)"
  by (metis rstrip_by_prefix token_text_append)

lemma token_text_numbers: "token_text (show2 n)" "token_text (show_nat n)"
  using show_nat_digits[of _ n]
  by (auto simp: show2_def is_token_char_def is_ascii_digit_def token_text_def list_all_iff)

lemma length_show_nat: "n < 10 ^ k \<Longrightarrow> 0 < k \<Longrightarrow> length (show_nat n) \<le> k"
proof (induction n arbitrary: k rule: show_nat.induct)
  case (1 n)
  show ?case
  proof (cases "n < 10")
    case True
    then show ?thesis using 1(3) by (subst show_nat.simps) simp
  next
    case False
    with 1(2) have "1 < k" by (cases k) (auto split: nat.splits, case_tac nat, auto)
    with 1(2) have "n div 10 < 10 ^ (k - 1)" "0 < k - 1"
      by (cases k, simp_all add: less_mult_imp_div_less mult.commute)
    from 1(1)[OF False this] False \<open>1 < k\<close> show ?thesis by (subst show_nat.simps) simp
  qed
qed

lemma token_date_ok:
  assumes "valid_date d"
  shows "token_text (token_date d)" and "length (token_date d) \<le> 10"
proof -
  obtain y m n where d: "d = (y, m, n)" by (cases d)
  from assms d have "y < 10 ^ 4" by simp
  from length_show_nat[OF this] show "length (token_date d) \<le> 10" by (simp add: d show2_def)
  show "token_text (token_date d)" by (simp add: d token_text_numbers is_token_char_def)
qed


lemma token_name_ok:
  assumes "token_text s" and "length s \<le> k" and "4 \<le> k"
  shows "token_text (nonempty_or (rstrip_by p s) (asc ''game''))"
    and "length (nonempty_or (rstrip_by p s) (asc ''game'')) \<le> k"
proof -
  have "length (rstrip_by p s) \<le> length s" by (metis rstrip_by_prefix length_append le_add1)
  with assms(2,3) show "length (nonempty_or (rstrip_by p s) (asc ''game'')) \<le> k" by (simp add: nonempty_or_def)
  show "token_text (nonempty_or (rstrip_by p s) (asc ''game''))"
    using token_text_rstrip[OF assms(1)]
    by (simp add: nonempty_or_def is_token_char_def ascii_alpha_def ascii_lower_def)
qed

text \<open>
  C18. Whatever the name of the game, the token that is drawn for its signup link is one the model of a game
  accepts: 1 to 64 Latin letters, digits, hyphens or underscores, as both messengers demand of a link.
\<close>

theorem signup_token_is_valid:
  assumes "valid_date d" and "ascii_alnum (drawn 0)" and "ascii_alnum (drawn 1)" and "ascii_alnum (drawn 2)"
  shows "\<exists>t. game_signup_token drawn n d None = Inr t \<and> valid_signup_token t"
proof -
  let ?us = "\<lambda>c. c = (95 :: nat)" and ?suffix = "[drawn 0, drawn 1, drawn 2]"
  let ?name = "nonempty_or (strip_by ?us (squeeze ?us 95 (concat (map token_characters (strip n))))) (asc ''game'')"
  let ?tail = "[95] @ token_date d @ [95] @ ?suffix"
  let ?t = "nonempty_or (rstrip_by ?us (take (64 - length ?tail) ?name)) (asc ''game'')"
  have suffix: "map drawn [0..<3] = ?suffix" by (simp add: upt_rec numeral_3_eq_3 numeral_2_eq_2)
  have us: "is_token_char 95" by (simp add: is_token_char_def)
  have tail: "token_text ?tail" "length ?tail \<le> 15"
    using assms token_date_ok[OF assms(1)] us by (auto simp: is_token_char_def ascii_alnum_def)
  have "token_text (squeeze ?us 95 (concat (map token_characters (strip n))))"
    by (intro token_text_squeeze token_text_concat us token_characters_ok)
  from token_text_subset[OF set_strip_by this] have "token_text ?name"
    by (simp add: nonempty_or_def is_token_char_def ascii_alpha_def ascii_lower_def)
  then have "token_text (take (64 - length ?tail) ?name)" by (rule token_text_take)
  moreover have room: "4 \<le> 64 - length ?tail" using tail(2) by linarith
  ultimately have name: "token_text ?t" "length ?t \<le> 64 - length ?tail"
    by (intro token_name_ok; simp only: length_take min.cobounded2; simp)+
  have t: "token_text (?t @ ?tail)" using name(1) tail(1) by (simp only: token_text_append)
  have l: "length (?t @ ?tail) \<le> 64" using name(2) room unfolding length_append by linarith
  have "game_signup_token drawn n d None = Inr (?t @ ?tail)"
    using assms(2-4) by (simp add: game_signup_token_def Let_def suffix)
  moreover have "1 \<le> length (?t @ ?tail)" by simp
  ultimately show ?thesis using t l unfolding valid_signup_token_def length_between_def token_text_def by blast
qed

theorem signup_token_is_valid_witness:
  "\<exists>t. game_signup_token (\<lambda>i. 65 + i) (asc ''Ball'') (2024, 5, 14) None = Inr t \<and> valid_signup_token t"
  by (rule signup_token_is_valid) (simp_all add: days_in_month_def ascii_defs)

text \<open>A game with nobody to contact and a wish of ten thousand letters.\<close>

lemma sample_answer_has_room: "message_length (confirmation_text sample_event True [] []) < MAX_MESSAGE_LENGTH"
  by (simp add: confirmation_text_def MAX_MESSAGE_LENGTH_def reference_of_def sample_event_def
      event_reference_def event_name_with_date_def format_game_date.simps show2_def message_length_def units_def
      master_contacts_section_def event_masters_text_def List.map_filter_def txt_participation_def
      txt_is_confirmed_def txt_link_soon_def txt_wishes_def txt_change_later_def txt_if_not_coming_def
      txt_no_show_warning_def)

theorem confirmation_answer_fits_witness:
  "message_length (confirmation_success_text sample_event (replicate 10000 65) True []) \<le> MAX_MESSAGE_LENGTH"
  using confirmation_answer_fits[OF sample_answer_has_room, of "replicate 10000 65"] by blast

end
