(* ===== verification/Cursors.thy ===== *)
theory Cursors
  imports Events
begin

text \<open>
  The cursors that the buttons of a page carry (\<open>_event_cursor\<close> and \<open>_page\<close> of
  \<open>application/conversation_players.py\<close>): the time of creation of a game, in microseconds, and its id.  The
  time goes through a float both ways, so the floats of Python are written out: correctly rounded to 53
  bits, ties to even.
\<close>

section \<open>Floats\<close>

definition half_even :: "nat \<Rightarrow> nat \<Rightarrow> nat" where
  "half_even p q =
     (let d = p div q; r = p mod q
      in if 2 * r < q \<or> 2 * r = q \<and> even d then d else Suc d)"

text \<open>\<open>(m, e)\<close> is the float \<open>m * 2 ^ e\<close>; the exponents of the range used here are far from the limits.\<close>

type_synonym double = "nat \<times> int"

fun bits :: "nat \<Rightarrow> nat" where
  "bits n = (if n = 0 then 0 else Suc (bits (n div 2)))"

declare bits.simps [simp del]

text \<open>\<open>p / q\<close>, which lies between the powers \<open>k - 1\<close> and \<open>k + 1\<close> of two, as 53 bits.\<close>

definition double_of :: "nat \<Rightarrow> nat \<Rightarrow> double" where
  "double_of p q =
     (let k = int (bits p) - int (bits q);
          e = (if q * 2 ^ nat k \<le> p * 2 ^ nat (- k) then 52 - k else 53 - k)
      in (half_even (p * 2 ^ nat e) (q * 2 ^ nat (- e)), - e))"

definition double_times :: "double \<Rightarrow> nat \<Rightarrow> double" where
  "double_times x n = (case x of (m, e) \<Rightarrow> double_of (m * n * 2 ^ nat e) (2 ^ nat (- e)))"

definition double_trunc :: "double \<Rightarrow> nat" where
  "double_trunc x = (case x of (m, e) \<Rightarrow> m * 2 ^ nat e div 2 ^ nat (- e))"

definition double_fraction :: "double \<Rightarrow> double" where
  "double_fraction x = (case x of (m, e) \<Rightarrow> (m * 2 ^ nat e mod 2 ^ nat (- e), e))"

definition double_round :: "double \<Rightarrow> nat" where
  "double_round x = (case x of (m, e) \<Rightarrow> half_even (m * 2 ^ nat e) (2 ^ nat (- e)))"

section \<open>From a time to a button\<close>

text \<open>\<open>int(created_at.timestamp() * 1_000_000)\<close>; a float and its negation round alike.\<close>

definition micros_of :: "time \<Rightarrow> int" where
  "micros_of t =
     (let n = int (double_trunc (double_times (double_of (nat \<bar>t\<bar>) (10 ^ 6)) (10 ^ 6)))
      in if t < 0 then - n else n)"

text \<open>
  \<open>datetime.fromtimestamp(n / 1_000_000, UTC)\<close>: the fraction of a second is rounded to microseconds.  Beyond
  the year 9999 it raises; which exception depends on how far.
\<close>

definition last_second :: nat where
  "last_second = 253402300799"

definition time_of_micros :: "nat \<Rightarrow> exn + time" where
  "time_of_micros n =
     (let x = double_of n (10 ^ 6);
          micros = double_trunc x * 10 ^ 6 + double_round (double_times (double_fraction x) (10 ^ 6))
      in if last_second < micros div 10 ^ 6 then Inl ValueError else Inr (int micros))"

section \<open>From a button to a time\<close>

text \<open>The characters that \<open>str.isdigit\<close> accepts and \<open>int\<close> does not: superscripts, circled digits and the like.\<close>

definition odd_digits :: "(nat \<times> nat) list" where
  "odd_digits =
     [(178, 179), (185, 185), (4969, 4977), (6618, 6618), (8304, 8304), (8308, 8313), (8320, 8329),
      (9312, 9320), (9332, 9340), (9352, 9360), (9450, 9450), (9461, 9469), (9471, 9471), (10102, 10110),
      (10112, 10120), (10122, 10130), (68160, 68163), (69216, 69224), (69714, 69722), (127232, 127242)]"

definition is_digit :: "nat \<Rightarrow> bool" where
  "is_digit c \<longleftrightarrow> is_decimal c \<or> list_ex (\<lambda>(a, b). a \<le> c \<and> c \<le> b) odd_digits"

definition all_digits :: "ustring \<Rightarrow> bool" where
  "all_digits s \<longleftrightarrow> s \<noteq> [] \<and> list_all is_digit s"

definition digits_value :: "ustring \<Rightarrow> nat" where
  "digits_value s = foldl (\<lambda>n c. 10 * n + (case decimal_value c of Some d \<Rightarrow> d | None \<Rightarrow> 0)) 0 s"

definition int_of_digits :: "ustring \<Rightarrow> exn + nat" where
  "int_of_digits s = (if list_all is_decimal s then Inr (digits_value s) else Inl ValueError)"

definition cursor_time :: "ustring \<Rightarrow> exn + time" where
  "cursor_time micros =
     (case int_of_digits micros of Inl x \<Rightarrow> Inl x | Inr n \<Rightarrow> time_of_micros n)"

text \<open>\<open>s.split(":", n)\<close>: at most \<open>n\<close> colons separate, the last part keeps the rest.\<close>

fun split_colons :: "nat \<Rightarrow> ustring \<Rightarrow> ustring list" where
  "split_colons n [] = [[]]"
| "split_colons n (c # s) =
     (if n = 0 then [c # s]
      else if c = 58 then [] # split_colons (n - 1) s
      else (case split_colons n s of [] \<Rightarrow> [[c]] | w # ws \<Rightarrow> (c # w) # ws))"

section \<open>The cursor of a game comes back\<close>

lemma half_even_near:
  assumes "0 < q" and "2 * \<bar>int p - int (n * q)\<bar> < int q"
  shows "half_even p q = n"
proof (cases "n * q \<le> p")
  case True
  then obtain r where r: "p = n * q + r"
    using le_Suc_ex by blast
  with assms have "2 * r < q"
    by simp
  moreover from this have "p div q = n" "p mod q = r"
    using r by simp_all
  ultimately show ?thesis
    by (simp add: half_even_def)
next
  case False
  then obtain r where r: "n * q = p + r" "0 < r"
    by (metis less_imp_add_positive not_le)
  with assms have small: "2 * r < q"
    by simp
  with r obtain k where n: "n = Suc k"
    by (cases n) auto
  with r small have p: "p = k * q + (q - r)"
    by simp
  then have "p div q = k" "p mod q = q - r"
    using r(2) assms(1) by (simp_all add: div_eq_0_iff)
  with small r(2) n show ?thesis
    by (auto simp: half_even_def Let_def)
qed

lemma half_even_mult [simp]: "0 < q \<Longrightarrow> half_even (p * q) q = p"
  by (simp add: half_even_def)

lemma two_power_22: "22 \<le> e \<Longrightarrow> (2 :: 'a :: comm_semiring_1) ^ e = 2 ^ (e - 22) * 2 ^ 22"
  by (metis le_add_diff_inverse2 power_add)

lemma half_even_error:
  assumes "0 < q"
  shows "2 * \<bar>int p - int (half_even p q * q)\<bar> \<le> int q"
proof -
  have p: "p = p div q * q + p mod q" and r: "p mod q < q"
    using assms by simp_all
  define d r where "d = p div q" and "r = p mod q"
  have eq: "int p = int d * int q + int r" and lt: "r < q"
    using p r unfolding d_def r_def by (metis of_nat_add of_nat_mult, simp)
  show ?thesis
    unfolding half_even_def Let_def d_def[symmetric] r_def[symmetric]
    using lt by (auto simp: eq algebra_simps)
qed

lemma bits_between: "2 ^ n \<le> p \<Longrightarrow> p < 2 ^ Suc n \<Longrightarrow> bits p = Suc n"
proof (induction n arbitrary: p)
  case 0
  then have "p = 1"
    by simp
  then show ?case
    by (simp add: bits.simps)
next
  case (Suc n)
  from Suc.prems have "2 ^ n \<le> p div 2" "p div 2 < 2 ^ Suc n" "p \<noteq> 0"
    by auto
  with Suc.IH show ?case
    by (subst bits.simps) simp
qed

text \<open>The seconds of a time between 2005 and 2038, as a float with 22 bits after the point.\<close>

definition near_now :: "nat \<Rightarrow> bool" where
  "near_now t \<longleftrightarrow> 2 ^ 50 < t \<and> t < 2 ^ 31 * 10 ^ 6"

lemma seconds_of:
  assumes "near_now t"
  obtains m where "double_of t (10 ^ 6) = (m, - 22)" and "2 * \<bar>int (m * 10 ^ 6) - int (t * 2 ^ 22)\<bar> \<le> 10 ^ 6"
proof -
  have "bits t = Suc 50"
    using assms unfolding near_now_def by (intro bits_between) simp_all
  moreover have "bits (10 ^ 6) = Suc 19"
    by (intro bits_between) simp_all
  ultimately have "double_of t (10 ^ 6) = (half_even (t * 2 ^ 22) (10 ^ 6), - 22)"
    using assms by (simp add: double_of_def near_now_def)
  moreover have "2 * \<bar>int (half_even (t * 2 ^ 22) (10 ^ 6) * 10 ^ 6) - int (t * 2 ^ 22)\<bar> \<le> 10 ^ 6"
    using half_even_error[of "10 ^ 6" "t * 2 ^ 22"] by (simp add: abs_minus_commute)
  ultimately show ?thesis
    using that by blast
qed

lemma micros_of_near:
  assumes "near_now t"
  shows "micros_of (int t) = int t"
proof -
  obtain m where m: "double_of t (10 ^ 6) = (m, - 22)" "2 * \<bar>int (m * 10 ^ 6) - int (t * 2 ^ 22)\<bar> \<le> 10 ^ 6"
    using seconds_of[OF assms] .
  have near: "2 ^ 72 \<le> m * 10 ^ 6" "m * 10 ^ 6 < 2 ^ 73"
    using m(2) assms by (simp_all add: near_now_def) linarith+
  have "bits (m * 10 ^ 6) = Suc 72"
    using near by (intro bits_between) simp_all
  moreover have "bits (2 ^ 22) = Suc 22"
    by (intro bits_between) simp_all
  ultimately have "double_times (m, - 22) (10 ^ 6) = (half_even (m * 10 ^ 6 * 4) (2 ^ 22), - 2)"
    using near(1) by (simp add: double_times_def double_of_def)
  moreover have "half_even (m * 10 ^ 6 * 4) (2 ^ 22) = 4 * t"
    using m(2) by (intro half_even_near) simp_all
  ultimately show ?thesis
    by (simp add: micros_of_def m(1)[simplified] double_trunc_def)
qed

text \<open>A number below \<open>2 ^ 42\<close> over \<open>2 ^ 22\<close> is a float: nothing is rounded.\<close>

lemma bits_le: "p < 2 ^ n \<Longrightarrow> bits p \<le> n"
proof (induction n arbitrary: p)
  case 0
  then show ?case
    by (simp add: bits.simps)
next
  case (Suc n)
  then have "p div 2 < 2 ^ n"
    by simp
  with Suc.IH show ?case
    by (subst bits.simps) simp
qed

lemma double_exact:
  assumes "p < 2 ^ 42"
  obtains e where "22 \<le> e" and "double_of p (2 ^ 22) = (p * 2 ^ (e - 22), - int e)"
proof -
  have b: "bits (2 ^ 22) = 23"
    using bits_between[of 22 "2 ^ 22"] by simp
  define k where "k = int (bits p) - 23"
  define e where "e = (if 2 ^ 22 * 2 ^ nat k \<le> p * 2 ^ nat (- k) then 52 - k else 53 - k)"
  have "k \<le> 19"
    using bits_le[OF assms] by (simp add: k_def)
  then have e: "22 \<le> e"
    by (simp add: e_def)
  have "double_of p (2 ^ 22) = (half_even (p * 2 ^ nat e) (2 ^ 22 * 2 ^ nat (- e)), - e)"
    by (simp only: double_of_def b k_def e_def Let_def of_nat_numeral)
  moreover have "half_even (p * 2 ^ nat e) (2 ^ 22 * 2 ^ nat (- e)) = p * 2 ^ (nat e - 22)"
  proof -
    have eq: "p * 2 ^ nat e = p * 2 ^ (nat e - 22) * 2 ^ 22"
      using e two_power_22[of "nat e", where 'a = nat] by (simp only: mult.assoc)
    have one: "2 ^ nat (- e) = (1 :: nat)"
      using e by simp
    show ?thesis
      unfolding eq one mult_1_right by (rule half_even_mult) simp
  qed
  ultimately show ?thesis
    using e by (intro that[of "nat e"]) simp_all
qed

lemma time_of_near:
  assumes "near_now t"
  shows "time_of_micros t = Inr (int t)"
proof -
  obtain m where m: "double_of t (10 ^ 6) = (m, - 22)" "2 * \<bar>int (m * 10 ^ 6) - int (t * 2 ^ 22)\<bar> \<le> 10 ^ 6"
    using seconds_of[OF assms] .
  define f s where "f = m mod 2 ^ 22" and "s = m div 2 ^ 22"
  have split: "m = s * 2 ^ 22 + f" and f: "f < 2 ^ 22"
    by (simp_all add: f_def s_def)
  have "s * 10 ^ 6 \<le> t"
    using m(2) by (simp add: split)
  then obtain u where u: "t = s * 10 ^ 6 + u"
    using le_Suc_ex by blast
  have near: "2 * \<bar>int (f * 10 ^ 6) - int (u * 2 ^ 22)\<bar> \<le> 10 ^ 6"
    using m(2) by (simp add: split u algebra_simps)
  have "f * 10 ^ 6 < 2 ^ 42"
    using f by simp
  then obtain e where e: "22 \<le> e" "double_of (f * 10 ^ 6) (2 ^ 22) = (f * 10 ^ 6 * 2 ^ (e - 22), - int e)"
    by (rule double_exact)
  have "half_even (f * 10 ^ 6 * 2 ^ (e - 22)) (2 ^ e) = u"
  proof (rule half_even_near)
    have two: "(2 :: int) ^ e = 2 ^ 22 * 2 ^ (e - 22)"
      using two_power_22[OF e(1), where 'a = int] by simp
    have "2 * \<bar>int (f * 10 ^ 6 * 2 ^ (e - 22)) - int (u * 2 ^ e)\<bar>
        = 2 * \<bar>int (f * 10 ^ 6) - int (u * 2 ^ 22)\<bar> * 2 ^ (e - 22)"
    proof -
      have "int (f * 10 ^ 6 * 2 ^ (e - 22)) - int (u * 2 ^ e) = (int (f * 10 ^ 6) - int (u * 2 ^ 22)) * 2 ^ (e - 22)"
        by (simp add: two algebra_simps)
      then show ?thesis
        by (simp only: abs_mult abs_power2 power_abs abs_numeral mult.assoc)
    qed
    also have "\<dots> \<le> 10 ^ 6 * 2 ^ (e - 22)"
      using near by (intro mult_right_mono) simp_all
    also have "\<dots> < int (2 ^ e)"
      by (simp add: two)
    finally show "2 * \<bar>int (f * 10 ^ 6 * 2 ^ (e - 22)) - int (u * 2 ^ e)\<bar> < int (2 ^ e)" .
  qed simp
  then have round: "double_round (f * 10 ^ 6 * 2 ^ (e - 22), - int e) = u"
    by (simp add: double_round_def)
  have parts: "double_trunc (m, - 22) = s" "double_fraction (m, - 22) = (f, - 22)"
    by (simp_all add: double_trunc_def double_fraction_def f_def s_def)
  have times: "double_times (f, - 22) (10 ^ 6) = (f * 10 ^ 6 * 2 ^ (e - 22), - int e)"
    using e(2) by (simp add: double_times_def)
  have "time_of_micros t = (if last_second < t div 10 ^ 6 then Inl ValueError else Inr (int t))"
    unfolding time_of_micros_def m(1) Let_def parts times round u[symmetric] ..
  moreover have "t div 10 ^ 6 \<le> last_second"
    using assms div_le_mono[of t "2 ^ 31 * 10 ^ 6" "10 ^ 6"] by (simp add: near_now_def last_second_def)
  ultimately show ?thesis
    by simp
qed

lemma digits_of_show_nat: "digits_value (show_nat n) = n" "list_all is_decimal (show_nat n)" "show_nat n \<noteq> []"
proof (induction n rule: show_nat.induct)
  case (1 n)
  have digit: "decimal_value (48 + d) = Some d" if "d < 10" for d
    using that decimal_value_ascii[of "48 + d"] by (simp add: is_ascii_digit_def)
  {
    case 1
    show ?case
      using "1.IH"(1) digit[of n] digit[of "n mod 10"] by (subst show_nat.simps) (simp add: digits_value_def)
  next
    case 2
    show ?case
      using "1.IH"(2) digit[of n] digit[of "n mod 10"]
      by (subst show_nat.simps) (simp add: is_decimal_def[of "48 + d" for d])
  next
    case 3
    show ?case
      by (subst show_nat.simps) simp
  }
qed

text \<open>
  C26. The time in the cursor of a page is exact for a game created between September 2005 and 19 January
  2038: the button shows the microsecond of its creation and reading the button gives that time back,
  although both ways go through a float.
\<close>

theorem cursor_time_returns:
  assumes "2 ^ 50 < t" and "t < 2 ^ 31 * 10 ^ 6"
  shows "micros_of (int t) = int t \<and> all_digits (show_int (micros_of (int t)))
    \<and> cursor_time (show_int (micros_of (int t))) = Inr (int t)"
proof -
  have near: "near_now t"
    using assms by (simp add: near_now_def)
  have "all_digits (show_nat t)"
    using digits_of_show_nat(2,3)[of t] by (auto simp: all_digits_def list_all_iff is_digit_def)
  moreover have "cursor_time (show_nat t) = Inr (int t)"
    by (simp add: cursor_time_def int_of_digits_def digits_of_show_nat time_of_near[OF near])
  ultimately show ?thesis
    by (simp add: micros_of_near[OF near] show_int_def)
qed

lemma cursor_time_returns_witness:
  "cursor_time (show_int (micros_of (int 1700000000123457))) = Inr (int 1700000000123457)"
proof -
  have "(2 :: nat) ^ 50 < 1700000000123457" "1700000000123457 < (2 :: nat) ^ 31 * 10 ^ 6"
    by simp_all
  from cursor_time_returns[OF this] show ?thesis
    by blast
qed

end
