(* ===== verification/Uploads.thy ===== *)
theory Uploads
  imports Endings
begin

text \<open>
  \<open>application/upload_completion.py\<close>: what happens when the table stores report that a deferred upload is
  done.  The decoded message is a \<open>completion\<close>: the callback that went out with the upload, the links each
  store gives for the files by their role, and whether the upload succeeded.  The answer to the person who
  asked is remembered in their profile, so a message that is delivered twice is answered once.
\<close>

section \<open>The completion message\<close>

record completion =
  co_schema_version :: int
  co_job_id :: ustring
  co_success :: bool
  co_callback :: callback
  co_google_urls :: "(ustring, ustring) dict"
  co_public_urls :: "(ustring, ustring) dict"

fun requester_in :: "callback \<Rightarrow> requester" where
  "requester_in (EventCreatedCallback dr leaders master_label masters_pending who) = who"
| "requester_in (EventTablesCallback event_id component path who) = who"
| "requester_in (DailyPassesCallback game_date path who) = who"
| "requester_in (AchievementCallback event_id path who) = who"

definition public_urls_ok :: "(ustring, ustring) dict \<Rightarrow> bool" where
  "public_urls_ok urls \<longleftrightarrow> list_all (\<lambda>(role, url). starts_with (asc ''https://'') url) urls"

text \<open>The roles the stores may and must give links for: with Google links, all of them are there.\<close>

definition roles :: "(ustring, ustring) dict \<Rightarrow> ustring set" where
  "roles urls = set (map fst urls)"

definition results_fit :: "ustring list \<Rightarrow> (ustring, ustring) dict \<Rightarrow> (ustring, ustring) dict \<Rightarrow> bool" where
  "results_fit expected yandex google \<longleftrightarrow>
     google = [] \<and> roles yandex = set expected \<or> roles google = set expected \<and> roles yandex \<subseteq> set expected"

text \<open>\<open>yandex_urls.get(role) or google_urls[role]\<close>.\<close>

definition stored_url :: "(ustring, ustring) dict \<Rightarrow> (ustring, ustring) dict \<Rightarrow> ustring \<Rightarrow> ustring option" where
  "stored_url yandex google role = or_else (dict_get yandex role) (dict_get google role)"

section \<open>Answering\<close>

definition store_yandex_links ::
    "env \<Rightarrow> ustring \<Rightarrow> ustring option \<Rightarrow> ustring option \<Rightarrow> ustring option \<Rightarrow> unit service" where
  "store_yandex_links X event_id master_url public_url pass_url =
     andThen (on_events X (set_yandex_table_links event_id master_url public_url pass_url)) (\<lambda>_. ret ())"

definition queue_day_refresh :: "env \<Rightarrow> date \<Rightarrow> ustring \<Rightarrow> unit service" where
  "queue_day_refresh X game_date job_id =
     sends_system_command X (daily_passes_group game_date)
       (xe_uuid5 X (daily_passes_group game_date @ [58] @ job_id)) REFRESH_DAILY_PASS_TABLE
       (DailyPassRefreshPayload game_date)"

definition told_already :: "users \<Rightarrow> platform \<Rightarrow> int \<Rightarrow> ustring \<Rightarrow> bool" where
  "told_already us p i operation_id \<longleftrightarrow>
     (\<exists>u\<in>set_option (users_get p i us). last_delivery u = Some operation_id)"

definition answer_requester ::
    "env \<Rightarrow> requester \<Rightarrow> ustring \<Rightarrow> ustring \<Rightarrow> button list \<Rightarrow> unit service" where
  "answer_requester X who operation_id txt buttons =
     (case who of
        None \<Rightarrow> ret ()
      | Some (p, i, profile_id) \<Rightarrow>
          andThen users_now (\<lambda>us.
            if told_already us p profile_id operation_id then ret ()
            else
              andThen (external X (SendMessage p i operation_id (Composed txt) buttons) (\<lambda>_. ())) (\<lambda>_.
                claims X (p, profile_id) operation_id buttons)))"

definition txt_master_of :: ustring where
  "txt_master_of =
     [1042, 1099, 32, 1076, 1086, 1073, 1072, 1074, 1083, 1077, 1085, 1099, 32, 1084, 1072, 1089,
      1090, 1077, 1088, 1086, 1084, 32, 1080, 1075, 1088, 1099, 32]"

definition txt_manage_this_game :: ustring where
  "txt_manage_this_game =
     [1059, 1087, 1088, 1072, 1074, 1083, 1077, 1085, 1080, 1077, 32, 1080, 1075, 1088, 1086,
      1081]"

definition tell_new_leader :: "env \<Rightarrow> event \<Rightarrow> ustring \<Rightarrow> bot_identity \<Rightarrow> unit service" where
  "tell_new_leader X e job_id leader =
     (let buttons = [\<lparr>bt_label = txt_manage_this_game, bt_value = asc ''ag:manage:'' @ ev_event_id e\<rparr>];
          operation_id = job_id @ asc '':leader:'' @ platform_value (fst leader) @ [58] @ show_int (snd leader)
      in andThen users_now (\<lambda>us.
           if told_already us (fst leader) (snd leader) operation_id then ret ()
           else
             andThen (external X (SendMessage (fst leader) (snd leader) operation_id
                        (Composed (txt_master_of @ reference_of e @ [46])) buttons) (\<lambda>_. ())) (\<lambda>_.
               claims X leader operation_id buttons)))"

definition notify_leaders :: "env \<Rightarrow> event \<Rightarrow> bot_identity list \<Rightarrow> requester \<Rightarrow> ustring \<Rightarrow> unit service" where
  "notify_leaders X e leaders who job_id =
     andThen (forEach (filter (\<lambda>leader. map_option (\<lambda>(p, i, profile_id). (p, profile_id)) who \<noteq> Some leader) leaders)
                (tell_new_leader X e job_id)) (\<lambda>_. ret ())"

section \<open>A game has been created\<close>

definition MASTER_TABLE_DISCLAIMER :: ustring where
  "MASTER_TABLE_DISCLAIMER =
     [9888, 65039, 32, 1058, 1086, 1083, 1100, 1082, 1086, 32, 1076, 1083, 1103, 32, 1084, 1072,
      1089, 1090, 1077, 1088, 1086, 1074, 32, 1101, 1090, 1086, 1081, 32, 1080, 1075, 1088, 1099,
      46, 32, 1053, 1077, 32, 1087, 1077, 1088, 1077, 1089, 1099, 1083, 1072, 1081, 1090, 1077,
      32, 1101, 1090, 1091, 32, 1089, 1089, 1099, 1083, 1082, 1091, 32, 1080, 1075, 1088, 1086,
      1082, 1072, 1084, 33]"

definition STATUS_REGISTRATION :: ustring where
  "STATUS_REGISTRATION = [1056, 1077, 1075, 1080, 1089, 1090, 1088, 1072, 1094, 1080, 1103]"

definition txt_public_table :: ustring where
  "txt_public_table =
     [1055, 1091, 1073, 1083, 1080, 1095, 1085, 1072, 1103, 32, 1090, 1072, 1073, 1083, 1080,
      1094, 1072, 32, 40, 1073, 1077, 1079, 32, 1082, 1086, 1085, 1090, 1072, 1082, 1090, 1086,
      1074, 32, 84, 101, 108, 101, 103, 114, 97, 109, 32, 1080, 32, 86, 75, 41, 58, 10]"

definition txt_master_table :: ustring where
  "txt_master_table =
     [1040, 1076, 1084, 1080, 1085, 1080, 1089, 1090, 1088, 1072, 1090, 1080, 1074, 1085, 1072,
      1103, 32, 1090, 1072, 1073, 1083, 1080, 1094, 1072, 58, 10]"

definition txt_pass_table :: ustring where
  "txt_pass_table =
     [1058, 1072, 1073, 1083, 1080, 1094, 1072, 32, 1087, 1088, 1086, 1087, 1091, 1089, 1082,
      1086, 1074, 58, 10]"

definition BACK :: ustring where
  "BACK = [11013, 65039, 32, 1053, 1072, 1079, 1072, 1076]"

definition table_links_text :: "event \<Rightarrow> exn + ustring" where
  "table_links_text e =
     (if ev_public_table_public_url e = None \<or> ev_pass_table_public_url e = None then Inl RuntimeError
      else
        (case (for_admin (public_table_links e), for_admin (master_table_links e),
               for_admin (pass_table_links e)) of
           (Inr public_links, Inr master_links, Inr pass_links) \<Rightarrow>
             Inr (txt_public_table @ public_links @ paragraph_break
               @ txt_master_table @ MASTER_TABLE_DISCLAIMER @ line_break @ master_links @ paragraph_break
               @ txt_pass_table @ pass_links)
         | _ \<Rightarrow> Inl RuntimeError))"

definition game_management_button :: "ustring \<Rightarrow> button" where
  "game_management_button event_id = \<lparr>bt_label = BACK, bt_value = asc ''ag:manage:'' @ event_id\<rparr>"

definition txt_no_masters_yet :: ustring where
  "txt_no_masters_yet =
     [1052, 1072, 1089, 1090, 1077, 1088, 1072, 58, 32, 1087, 1086, 1082, 1072, 32, 1085, 1077,
      32, 1085, 1072, 1079, 1085, 1072, 1095, 1077, 1085, 1099, 10, 10]"

definition txt_master :: ustring where
  "txt_master = [1052, 1072, 1089, 1090, 1077, 1088, 58, 32]"

definition txt_status_is :: ustring where
  "txt_status_is = [1057, 1090, 1072, 1090, 1091, 1089, 58, 32]"

definition txt_players_may_sign_up :: ustring where
  "txt_players_may_sign_up =
     [46, 32, 1048, 1075, 1088, 1086, 1082, 1080, 32, 1091, 1078, 1077, 32, 1084, 1086, 1075,
      1091, 1090, 32, 1079, 1072, 1087, 1080, 1089, 1099, 1074, 1072, 1090, 1100, 1089, 1103, 44,
      32, 1085, 1086, 32, 1087, 1086, 1082, 1072, 32, 1085, 1077, 32, 1084, 1086, 1075, 1091,
      1090, 32, 1087, 1086, 1076, 1090, 1074, 1077, 1088, 1078, 1076, 1072, 1090, 1100, 32, 1091,
      1095, 1072, 1089, 1090, 1080, 1077, 46]"

definition txt_opening_planned :: ustring where
  "txt_opening_planned =
     [1054, 1090, 1082, 1088, 1099, 1090, 1080, 1077, 32, 1088, 1077, 1075, 1080, 1089, 1090,
      1088, 1072, 1094, 1080, 1080, 32, 1079, 1072, 1087, 1083, 1072, 1085, 1080, 1088, 1086,
      1074, 1072, 1085, 1086, 32, 1085, 1072, 32]"

definition txt_moscow_time :: ustring where
  "txt_moscow_time = [32, 40, 1052, 1057, 1050, 41, 46, 32]"

definition txt_hidden_until :: ustring where
  "txt_hidden_until =
     [1044, 1086, 32, 1101, 1090, 1086, 1075, 1086, 32, 1074, 1088, 1077, 1084, 1077, 1085, 1080,
      32, 1080, 1075, 1088, 1072, 32, 1085, 1077, 32, 1073, 1091, 1076, 1077, 1090, 32, 1074,
      1080, 1076, 1085, 1072, 32, 1080, 1075, 1088, 1086, 1082, 1072, 1084, 46]"

definition txt_confirmation_planned :: ustring where
  "txt_confirmation_planned =
     [10, 10, 1054, 1090, 1082, 1088, 1099, 1090, 1080, 1077, 32, 1087, 1086, 1076, 1090, 1074,
      1077, 1088, 1078, 1076, 1077, 1085, 1080, 1103, 32, 1091, 1095, 1072, 1089, 1090, 1080,
      1103, 32, 1079, 1072, 1087, 1083, 1072, 1085, 1080, 1088, 1086, 1074, 1072, 1085, 1086, 32,
      1085, 1072, 32]"

definition txt_deadline :: ustring where
  "txt_deadline = [1044, 1077, 1076, 1083, 1072, 1081, 1085, 58, 32]"

definition txt_moscow_end :: ustring where
  "txt_moscow_end = [32, 40, 1052, 1057, 1050, 41, 46]"

definition txt_close_planned :: ustring where
  "txt_close_planned =
     [10, 10, 1040, 1074, 1090, 1086, 1084, 1072, 1090, 1080, 1095, 1077, 1089, 1082, 1086, 1077,
      32, 1079, 1072, 1082, 1088, 1099, 1090, 1080, 1077, 32, 1079, 1072, 1087, 1083, 1072, 1085,
      1080, 1088, 1086, 1074, 1072, 1085, 1086, 32, 1085, 1072, 32]"

definition txt_game_created :: ustring where
  "txt_game_created =
     [9989, 32, 1048, 1075, 1088, 1072, 32, 1089, 1086, 1079, 1076, 1072, 1085, 1072, 46, 10, 10,
      1053, 1072, 1079, 1074, 1072, 1085, 1080, 1077, 58, 10]"

definition txt_game_date :: ustring where
  "txt_game_date = [1044, 1072, 1090, 1072, 32, 1080, 1075, 1088, 1099, 58, 32]"

definition txt_player_count :: ustring where
  "txt_player_count =
     [1050, 1086, 1083, 1080, 1095, 1077, 1089, 1090, 1074, 1086, 32, 1080, 1075, 1088, 1086,
      1082, 1086, 1074, 58, 32]"

definition txt_telegram_signup :: ustring where
  "txt_telegram_signup =
     [84, 101, 108, 101, 103, 114, 97, 109, 32, 8212, 32, 1085, 1072, 1095, 1072, 1090, 1100, 32,
      1079, 1072, 1087, 1080, 1089, 1100, 58, 10, 104, 116, 116, 112, 115, 58, 47, 47, 116, 46,
      109, 101, 47]"

definition txt_start :: ustring where
  "txt_start = asc ''?start=''"

definition txt_vk_chat :: ustring where
  "txt_vk_chat =
     [86, 75, 32, 8212, 32, 1086, 1090, 1082, 1088, 1099, 1090, 1100, 32, 1095, 1072, 1090, 32,
      1089, 32, 1073, 1086, 1090, 1086, 1084, 58, 10, 104, 116, 116, 112, 115, 58, 47, 47, 118,
      107, 46, 109, 101, 47, 99, 108, 117, 98]"

definition shown_time :: "env \<Rightarrow> time \<Rightarrow> ustring" where
  "shown_time X t = format_confirmation_deadline (xe_moscow X t)"

definition master_line_of :: "ustring option \<Rightarrow> bool \<Rightarrow> ustring" where
  "master_line_of master_label masters_pending =
     (case master_label of
        Some label \<Rightarrow>
          if label \<noteq> [] then txt_master @ label @ paragraph_break
          else if masters_pending then txt_no_masters_yet else []
      | None \<Rightarrow> if masters_pending then txt_no_masters_yet else [])"

definition registration_line :: "env \<Rightarrow> event \<Rightarrow> ustring" where
  "registration_line X e =
     (case ev_registration_open_at e of
        None \<Rightarrow> txt_status_is @ STATUS_REGISTRATION @ txt_players_may_sign_up
      | Some t \<Rightarrow> txt_opening_planned @ shown_time X t @ txt_moscow_time @ txt_hidden_until)"

definition confirmation_line :: "env \<Rightarrow> event \<Rightarrow> ustring" where
  "confirmation_line X e =
     (case (ev_confirmation_open_at e, ev_confirmation_deadline e) of
        (Some opens, Some deadline) \<Rightarrow>
          txt_confirmation_planned @ shown_time X opens @ txt_moscow_time
            @ txt_deadline @ shown_time X deadline @ txt_moscow_end
      | _ \<Rightarrow> [])"

definition close_line :: "env \<Rightarrow> event \<Rightarrow> ustring" where
  "close_line X e =
     (case ev_scheduled_close_at e of
        None \<Rightarrow> [] | Some t \<Rightarrow> txt_close_planned @ shown_time X t @ txt_moscow_end)"

definition game_created_text ::
    "env \<Rightarrow> event \<Rightarrow> date \<Rightarrow> ustring \<Rightarrow> ustring \<Rightarrow> ustring \<Rightarrow> ustring option \<Rightarrow> bool \<Rightarrow> ustring \<Rightarrow> ustring" where
  "game_created_text X e game_date signup_token telegram_username vk_group_id master_label masters_pending
       table_links =
     txt_game_created @ ev_name e @ paragraph_break
       @ txt_game_date @ format_game_date game_date @ paragraph_break
       @ txt_player_count @ show_nat (ev_player_amount e) @ paragraph_break
       @ master_line_of master_label masters_pending @ registration_line X e @ confirmation_line X e
       @ close_line X e @ paragraph_break
       @ txt_telegram_signup @ telegram_username @ txt_start @ signup_token @ paragraph_break
       @ txt_vk_chat @ vk_group_id @ paragraph_break @ table_links"

definition valid_bot_username :: "ustring \<Rightarrow> bool" where
  "valid_bot_username s \<longleftrightarrow> length_between 5 32 s \<and> list_all (\<lambda>c. ascii_alnum c \<or> c = 95) s"

text \<open>\<open>isdecimal\<close>, and \<open>int\<close> of it is positive.\<close>

definition valid_group_id :: "ustring \<Rightarrow> bool" where
  "valid_group_id s \<longleftrightarrow> s \<noteq> [] \<and> list_all is_decimal s \<and> list_ex (\<lambda>c. decimal_value c \<noteq> Some 0) s"

definition completed_event ::
    "env \<Rightarrow> event_draft \<Rightarrow> (ustring, ustring) dict \<Rightarrow> (ustring, ustring) dict \<Rightarrow> event service" where
  "completed_event X dr yandex google =
     (case (stored_url yandex google (asc ''master''), stored_url yandex google (asc ''public''),
            stored_url yandex google (asc ''pass'')) of
        (Some master_url, Some public_url, Some pass_url) \<Rightarrow>
          ticking X (\<lambda>clk.
            case event_validate (new_event dr master_url public_url pass_url
                   (map (\<lambda>(role, url). (asc ''google:'' @ role, url)) google) clk) of
              None \<Rightarrow> throw ValueError | Some e \<Rightarrow> ret e)
      | _ \<Rightarrow> throw KeyError)"

definition create_or_link ::
    "env \<Rightarrow> event \<Rightarrow> bot_identity list \<Rightarrow> (ustring, ustring) dict \<Rightarrow> (bool \<times> event) service" where
  "create_or_link X e leaders yandex =
     andThen (find_event (ev_event_id e)) (\<lambda>existing.
       case existing of
         None \<Rightarrow> andThen (on_events X (\<lambda>_. create_event e leaders)) (\<lambda>_. ret (True, e))
       | Some old \<Rightarrow>
           andThen (store_yandex_links X (ev_event_id e) (dict_get yandex (asc ''master''))
                      (dict_get yandex (asc ''public'')) (dict_get yandex (asc ''pass''))) (\<lambda>_.
           andThen (find_event (ev_event_id e)) (\<lambda>found.
             ret (False, case found of None \<Rightarrow> old | Some refreshed \<Rightarrow> refreshed))))"

definition announce_game ::
    "env \<Rightarrow> event \<Rightarrow> ustring option \<Rightarrow> bool \<Rightarrow> requester \<Rightarrow> ustring \<Rightarrow> unit service" where
  "announce_game X e master_label masters_pending who job_id =
     andThen (external X (GetSecret (asc ''TG_BOT_USERNAME'')) (xe_secret X)) (\<lambda>telegram_username.
     andThen (external X (GetSecret (asc ''VK_GROUP_ID'')) (xe_secret X)) (\<lambda>vk_group_id.
       if \<not> valid_bot_username telegram_username \<or> \<not> valid_group_id vk_group_id then throw RuntimeError
       else
         (case (ev_signup_token e, ev_game_date e) of
            (Some signup_token, Some game_date) \<Rightarrow>
              andThen (from_sum (table_links_text e)) (\<lambda>table_links.
                answer_requester X who (job_id @ asc '':complete'')
                  (game_created_text X e game_date signup_token telegram_username vk_group_id
                     master_label masters_pending table_links)
                  [game_management_button (ev_event_id e)])
          | _ \<Rightarrow> throw RuntimeError)))"

definition event_created ::
    "env \<Rightarrow> event_draft \<Rightarrow> bot_identity list \<Rightarrow> ustring option \<Rightarrow> bool \<Rightarrow> requester
       \<Rightarrow> (ustring, ustring) dict \<Rightarrow> (ustring, ustring) dict \<Rightarrow> ustring \<Rightarrow> bool \<Rightarrow> unit service" where
  "event_created X dr leaders master_label masters_pending who yandex google job_id succeeded =
     (if \<not> results_fit [asc ''master'', asc ''public'', asc ''pass''] yandex google then throw ValueError
      else
        andThen (completed_event X dr yandex google) (\<lambda>created.
        andThen (unless_throw (list_all valid_identity leaders) ValueError) (\<lambda>_.
        andThen (create_or_link X created leaders yandex) (\<lambda>(created_now, e).
          if \<not> succeeded \<or> created_now \<and> google \<noteq> [] then ret ()
          else
            andThen (if created_now then notify_leaders X e leaders who job_id else ret ()) (\<lambda>_.
            andThen (announce_game X e master_label masters_pending who job_id) (\<lambda>_.
              case ev_game_date e of
                Some game_date \<Rightarrow> if created_now then queue_day_refresh X game_date job_id else ret ()
              | None \<Rightarrow> ret ()))))))"

section \<open>Tables, achievements and the passes of a day\<close>

definition txt_tables_of :: ustring where
  "txt_tables_of = [1058, 1072, 1073, 1083, 1080, 1094, 1099, 32, 1080, 1075, 1088, 1099, 32]"

definition txt_achievements_of :: ustring where
  "txt_achievements_of = [1040, 1095, 1080, 1074, 1082, 1080, 32, 1080, 1075, 1088, 1099, 32]"

definition txt_passes_of_day :: ustring where
  "txt_passes_of_day =
     [1058, 1072, 1073, 1083, 1080, 1094, 1072, 32, 1087, 1088, 1086, 1087, 1091, 1089, 1082,
      1086, 1074, 32, 1085, 1072, 32]"

definition txt_upload_failed :: ustring where
  "txt_upload_failed =
     [1053, 1077, 32, 1091, 1076, 1072, 1083, 1086, 1089, 1100, 32, 1079, 1072, 1075, 1088, 1091,
      1079, 1080, 1090, 1100, 32, 1092, 1072, 1081, 1083, 46, 32, 1055, 1086, 1087, 1088, 1086,
      1073, 1091, 1081, 1090, 1077, 32, 1087, 1086, 1074, 1090, 1086, 1088, 1080, 1090, 1100, 32,
      1076, 1077, 1081, 1089, 1090, 1074, 1080, 1077, 32, 1087, 1086, 1079, 1078, 1077, 46]"

definition shown_link :: "ustring option \<Rightarrow> ustring" where
  "shown_link url = (case url of None \<Rightarrow> asc ''None'' | Some u \<Rightarrow> u)"

definition tables_version :: "env \<Rightarrow> event \<Rightarrow> ustring" where
  "tables_version X e =
     take 16 (xe_sha256 X
       (shown_link (ev_public_table_google_url e) @ [0] @ shown_link (ev_public_table_public_url e) @ [0]
        @ shown_link (ev_pass_table_google_url e) @ [0] @ shown_link (ev_pass_table_public_url e)))"

definition store_tables ::
    "env \<Rightarrow> ustring \<Rightarrow> ustring \<Rightarrow> ustring \<Rightarrow> ustring \<Rightarrow> ustring option \<Rightarrow> ustring option \<Rightarrow> unit service" where
  "store_tables X event_id component path url google_url yandex_url =
     (if component = asc ''public'' then
        andThen (on_events X (set_public_table event_id path url google_url)) (\<lambda>_.
          store_yandex_links X event_id None yandex_url None)
      else if component = asc ''pass'' then
        andThen (on_events X (set_pass_table event_id path url google_url)) (\<lambda>_.
          store_yandex_links X event_id None None yandex_url)
      else throw ValueError)"

definition event_tables ::
    "env \<Rightarrow> ustring \<Rightarrow> ustring \<Rightarrow> ustring \<Rightarrow> requester \<Rightarrow> (ustring, ustring) dict \<Rightarrow> (ustring, ustring) dict
       \<Rightarrow> bool \<Rightarrow> unit service" where
  "event_tables X event_id component path who yandex google succeeded =
     (let role = (if component = asc ''public'' then asc ''public'' else asc ''pass'')
      in if \<not> results_fit [role] yandex google then throw ValueError
         else
           (case stored_url yandex google role of
              None \<Rightarrow> throw KeyError
            | Some url \<Rightarrow>
                andThen (store_tables X event_id component path url (dict_get google role) (dict_get yandex role)) (\<lambda>_.
                andThen (find_event event_id) (\<lambda>found.
                  case found of
                    None \<Rightarrow> ret ()
                  | Some e \<Rightarrow>
                      if \<not> succeeded \<or> ev_public_table_public_url e = None \<or> ev_pass_table_public_url e = None
                      then ret ()
                      else
                        andThen (from_sum (table_links_text e)) (\<lambda>table_links.
                          answer_requester X who (asc ''tables:'' @ event_id @ [58] @ tables_version X e)
                            (txt_tables_of @ reference_of e @ paragraph_break @ table_links)
                            [game_management_button event_id])))))"

definition achievement_done ::
    "env \<Rightarrow> ustring \<Rightarrow> ustring \<Rightarrow> requester \<Rightarrow> (ustring, ustring) dict \<Rightarrow> ustring \<Rightarrow> unit service" where
  "achievement_done X event_id path who urls job_id =
     (if roles urls \<noteq> {asc ''achievement''} then throw ValueError
      else
        (case dict_get urls (asc ''achievement'') of
           None \<Rightarrow> throw KeyError
         | Some url \<Rightarrow>
             andThen (on_events X (set_achievement event_id path url)) (\<lambda>_.
             andThen (find_event event_id) (\<lambda>found.
               case found of
                 None \<Rightarrow> ret ()
               | Some e \<Rightarrow>
                   (case ev_achievement_public_url e of
                      None \<Rightarrow> ret ()
                    | Some public_url \<Rightarrow>
                        answer_requester X who
                          (asc ''achievement:'' @ event_id @ [58] @ take 16 (xe_sha256 X public_url) @ [58] @ job_id)
                          (txt_achievements_of @ reference_of e @ paragraph_break @ public_url)
                          [game_management_button event_id])))))"

text \<open>
  An export somebody asked for is followed by one refresh of the table by the worker; that refresh has no
  requester and ends here.
\<close>

definition daily_passes_done ::
    "env \<Rightarrow> date \<Rightarrow> ustring \<Rightarrow> requester \<Rightarrow> (ustring, ustring) dict \<Rightarrow> (ustring, ustring) dict \<Rightarrow> ustring
       \<Rightarrow> bool \<Rightarrow> unit service" where
  "daily_passes_done X game_date path who yandex google job_id succeeded =
     (if \<not> results_fit [asc ''pass''] yandex google \<or> path \<noteq> daily_pass_table_path game_date then throw ValueError
      else if \<not> succeeded then ret ()
      else
        andThen (from_sum (for_admin (table_links_of (dict_get google (asc ''pass''))
                                        (dict_get yandex (asc ''pass''))))) (\<lambda>links.
        andThen (answer_requester X who (daily_passes_group game_date @ [58] @ job_id)
                   (txt_passes_of_day @ format_game_date game_date @ paragraph_break @ links)
                   [admin_menu_button]) (\<lambda>_.
          if who \<noteq> None then queue_day_refresh X game_date job_id else ret ())))"

section \<open>Handling a completion\<close>

definition upload_failed :: "env \<Rightarrow> completion \<Rightarrow> unit service" where
  "upload_failed X co =
     answer_requester X (requester_in (co_callback co)) (co_job_id co @ asc '':failed'') txt_upload_failed []"

definition handle_completion :: "env \<Rightarrow> completion \<Rightarrow> unit service" where
  "handle_completion X co =
     (if co_schema_version co \<noteq> 1 \<or> co_job_id co = [] \<or> \<not> public_urls_ok (co_google_urls co) then throw ValueError
      else if \<not> co_success co \<and> co_google_urls co = [] then upload_failed X co
      else if \<not> public_urls_ok (co_public_urls co) then throw ValueError
      else
        (let yandex = co_public_urls co; google = co_google_urls co; job_id = co_job_id co;
             succeeded = co_success co
         in case co_callback co of
              EventCreatedCallback dr leaders master_label masters_pending who \<Rightarrow>
                event_created X dr leaders master_label masters_pending who yandex google job_id succeeded
            | EventTablesCallback event_id component path who \<Rightarrow>
                event_tables X event_id component path who yandex google succeeded
            | AchievementCallback event_id path who \<Rightarrow>
                if \<not> succeeded then upload_failed X co else achievement_done X event_id path who yandex job_id
            | DailyPassesCallback game_date path who \<Rightarrow>
                daily_passes_done X game_date path who yandex google job_id succeeded))"

section \<open>What a completion keeps\<close>

declare base_with_base [simp]

lemma requester_answered:
  assumes "answer_requester X (Some (p, i, k)) operation_id txt buttons w = (Inr (), w')"
    and "w_users w = Some us" and "users_get p k us \<noteq> None"
  shows "\<exists>us'. w_users w' = Some us' \<and> told_already us' p k operation_id" and "w_events w' = w_events w"
  using assms
  by (auto simp: answer_requester_def users_now_def andThen_def external_apply claims_def on_users_def
      ticking_def runs_apply told_already_def users_get_def claim_delivery_def last_delivery_def dict_get_put
      split: if_splits option.splits)

lemma answer_when_told:
  "w_users w = Some us \<Longrightarrow> told_already us p k operation_id \<Longrightarrow>
     answer_requester X (Some (p, i, k)) operation_id txt buttons w = (Inr (), w)"
  by (simp add: answer_requester_def users_now_def andThen_def)

lemma keeps_answer_requester: "keeps (about_store P) (answer_requester X who operation_id txt buttons)"
  unfolding answer_requester_def users_now_def claims_def by (intro keeps_intros)

text \<open>The game a completion describes has a new row, bound to no chat, with nobody told of anything.\<close>

definition fresh_game :: "event_draft \<Rightarrow> event \<Rightarrow> bool" where
  "fresh_game dr e \<longleftrightarrow>
     ev_event_id e = dr_event_id dr \<and> ev_telegram_chat_id e = None \<and> table_fields_are_atomic e
     \<and> ev_confirmation_open_at e = dr_confirmation_open_at dr
     \<and> ev_confirmation_deadline e = dr_confirmation_deadline dr
     \<and> ev_scheduled_close_completed_at e = None \<and> ev_scheduled_close_notified_recipients e = []
     \<and> ev_registration_open_notified_recipients e = [] \<and> ev_participant_removal_notified_keys e = []"

lemma new_event_fresh:
  assumes "event_validate (new_event dr a b d urls clk) = Some e"
  shows "fresh_game dr e"
proof -
  from event_validate_shape[OF assms] obtain q t v n where
    1: "table_fields_are_atomic (new_event dr a b d urls clk)" and
    2: "e = (new_event dr a b d urls clk)\<lparr>ev_registration_question := q, ev_telegram_post_url := t,
          ev_vk_post_url := v, ev_confirmed_notifications := n\<rparr>" by blast
  from 1 show ?thesis by (simp add: 2 fresh_game_def new_event_def table_fields_are_atomic_def)
qed

lemma completed_event_cases:
  obtains (Failed) x t where "completed_event X dr yandex google w = (Inl x, w\<lparr>w_turns := t\<rparr>)"
  | (Made) e t where "completed_event X dr yandex google w = (Inr e, w\<lparr>w_turns := t\<rparr>)" and "fresh_game dr e"
proof (cases "\<exists>a b d. (stored_url yandex google (asc ''master''), stored_url yandex google (asc ''public''),
    stored_url yandex google (asc ''pass'')) = (Some a, Some b, Some d)")
  case True
  then obtain a b d where abd: "stored_url yandex google (asc ''master'') = Some a"
    "stored_url yandex google (asc ''public'') = Some b" "stored_url yandex google (asc ''pass'') = Some d"
    by blast
  let ?new = "new_event dr a b d (map (\<lambda>(role, url). (asc ''google:'' @ role, url)) google) (xe_clock X (w_turns w))"
  show thesis
  proof (cases "event_validate ?new")
    case None
    with abd Failed show thesis by (simp add: completed_event_def ticking_def)
  next
    case (Some e)
    with abd Made[of e "Suc (w_turns w)"] new_event_fresh[OF Some] show thesis
      by (simp add: completed_event_def ticking_def)
  qed
next
  case False
  then have "completed_event X dr yandex google w = (Inl KeyError, w\<lparr>w_turns := w_turns w\<rparr>)"
    by (auto simp: completed_event_def split: option.splits)
  then show thesis by (rule Failed)
qed

lemma keeps_announce: "keeps (about_store P) (announce_game X e master_label masters_pending who job_id)"
  unfolding announce_game_def from_sum_def
  by (intro keeps_intros keeps_answer_requester)

text \<open>A game that is there is linked, not created.\<close>

lemma create_or_link_known:
  assumes "get_event (ev_event_id e) (w_events w) \<noteq> None"
  shows "\<exists>r w'. create_or_link X e leaders yandex w = (r, w') \<and> w_queue w' = w_queue w
           \<and> (\<forall>found. r \<noteq> Inr (True, found))"
  using assms
  by (auto simp: create_or_link_def find_event_def store_yandex_links_def on_events_def ticking_def andThen_def
      split: option.splits prod.splits sum.splits)

text \<open>
  C30. The refresh of the daily passes is queued only in the run that stores the game.  When that run
  fails after storing it, for one because its author cannot be reached, the message is delivered again, the
  game is there, and whatever happens then no command is queued any more.
\<close>

theorem repeated_creation_queues_nothing:
  assumes "get_event (dr_event_id dr) (w_events w) \<noteq> None"
  shows "w_queue (snd (event_created X dr leaders master_label masters_pending who yandex google job_id succeeded w))
           = w_queue w"
proof (cases "results_fit [asc ''master'', asc ''public'', asc ''pass''] yandex google")
  case fit: True
  show ?thesis
  proof (cases rule: completed_event_cases[of X dr yandex google w])
    case (Made e t)
    let ?w = "w\<lparr>w_turns := t\<rparr>"
    from Made(2) assms have "get_event (ev_event_id e) (w_events ?w) \<noteq> None" by (simp add: fresh_game_def)
    from create_or_link_known[OF this, of X leaders yandex] obtain r w' where
      link: "create_or_link X e leaders yandex ?w = (r, w')" "w_queue w' = w_queue w" "\<forall>found. r \<noteq> Inr (True, found)"
      by auto
    let ?quiet = "about_store (\<lambda>ev rg q. q = w_queue w)"
    have quiet: "w_queue w2 = w_queue w"
      if "announce_game X found master_label masters_pending who job_id w' = (r2, w2)" for found r2 w2
      using keepsD[OF keeps_announce, of "\<lambda>ev rg q. q = w_queue w" w'] link(2) that
      by (simp add: about_store_def) (metis snd_conv)
    from fit Made(1) link quiet show ?thesis
      by (auto simp: event_created_def andThen_def unless_throw_def split: sum.splits prod.splits option.splits)
  qed (simp add: fit event_created_def andThen_def)
qed (simp add: event_created_def)

definition sample_draft :: event_draft where
  "sample_draft =
     \<lparr>dr_event_id = sample_id, dr_name = asc ''Game'', dr_game_date = (2024, 5, 14), dr_player_amount = 1,
      dr_question = None, dr_master_path = asc ''disk:/larp-bot/events/game-0001/m.xlsx'',
      dr_public_path = asc ''disk:/larp-bot/events/game-0001/p.xlsx'',
      dr_pass_path = asc ''disk:/larp-bot/passes/game-0001.xlsx'', dr_registration_open_at = None,
      dr_confirmation_open_at = None, dr_confirmation_deadline = None, dr_scheduled_close_at = None,
      dr_signup_token = asc ''token''\<rparr>"

theorem repeated_creation_queues_nothing_witness:
  "w_queue (snd (event_created sample_env sample_draft [(VK, 9)] None False (Some (VK, 9, 9))
      [(asc ''master'', asc ''https://a''), (asc ''public'', asc ''https://b''), (asc ''pass'', asc ''https://c'')]
      [] [7] True sample_world)) = []"
proof -
  have "get_event (dr_event_id sample_draft) (w_events sample_world) \<noteq> None"
    by (simp add: sample_draft_def sample_world_def created_repo_get)
  from repeated_creation_queues_nothing[OF this] show ?thesis by (simp add: sample_world_def)
qed

section \<open>Delivered twice\<close>

lemma set_achievement_stores:
  assumes "set_achievement k path url t r = (Inr b, r')" and "get_event k r' = Some e"
  shows "ev_achievement_public_url e \<noteq> None"
  using assms
  by (auto simp: set_achievement_def update_event_def revalidate_def touch_def
      dest!: event_validate_shape(2) split: option.splits if_splits prod.splits)

lemma set_achievement_again:
  "get_event k r = Some e \<Longrightarrow> ev_achievement_public_url e \<noteq> None \<Longrightarrow>
     set_achievement k path url t r = (Inr False, put_event k e r)"
  "get_event k r = None \<Longrightarrow> set_achievement k path url t r = (Inr False, r)"
  by (simp_all add: set_achievement_def update_event_def)

text \<open>What a second run leaves: the profiles, the queue, the log and every game.\<close>

definition settled :: "world \<Rightarrow> world \<Rightarrow> bool" where
  "settled w w' \<longleftrightarrow> w_users w' = w_users w \<and> w_queue w' = w_queue w \<and> w_calls w' = w_calls w
     \<and> w_regs w' = w_regs w \<and> (\<forall>k. get_event k (w_events w') = get_event k (w_events w))"

lemma achievement_done_again:
  assumes first: "achievement_done X event_id path (Some (p, i, k)) urls job_id w = (Inr (), w1)"
    and profile: "w_users w = Some us" "users_get p k us \<noteq> None"
  shows "\<exists>w2. achievement_done X event_id path (Some (p, i, k)) urls job_id w1 = (Inr (), w2) \<and> settled w1 w2"
proof -
  from first obtain url where fits: "roles urls = {asc ''achievement''}" "dict_get urls (asc ''achievement'') = Some url"
    by (auto simp: achievement_done_def split: if_splits option.splits)
  obtain b ev t where set: "set_achievement event_id path url (xe_clock X (w_turns w) 0) (w_events w) = (Inr b, ev)"
    and t: "t = Suc (w_turns w)"
    using first fits
    by (cases "set_achievement event_id path url (xe_clock X (w_turns w) 0) (w_events w)")
      (auto simp: achievement_done_def on_events_def ticking_def andThen_def split: sum.splits)
  let ?w = "w\<lparr>w_turns := t, w_events := ev\<rparr>"
  show ?thesis
  proof (cases "get_event event_id ev")
    case None
    with first fits set t show ?thesis
      by (auto simp: achievement_done_def on_events_def ticking_def andThen_def find_event_def
          set_achievement_again(2) settled_def)
  next
    case (Some e)
    from set_achievement_stores[OF set Some] obtain v where v: "ev_achievement_public_url e = Some v" by auto
    let ?id = "asc ''achievement:'' @ event_id @ [58] @ take 16 (xe_sha256 X v) @ [58] @ job_id"
    let ?text = "txt_achievements_of @ reference_of e @ paragraph_break @ v"
    from first fits set t Some v have
      answer: "answer_requester X (Some (p, i, k)) ?id ?text [game_management_button event_id] ?w = (Inr (), w1)"
      by (simp add: achievement_done_def on_events_def ticking_def andThen_def find_event_def)
    from requester_answered[OF this] profile obtain us' where
      told: "w_users w1 = Some us'" "told_already us' p k ?id" "w_events w1 = ev" by auto
    let ?w1 = "w1\<lparr>w_turns := Suc (w_turns w1), w_events := put_event event_id e ev\<rparr>"
    have "answer_requester X (Some (p, i, k)) ?id ?text [game_management_button event_id] ?w1 = (Inr (), ?w1)"
      using told by (intro answer_when_told) simp_all
    with fits told Some v have "achievement_done X event_id path (Some (p, i, k)) urls job_id w1 = (Inr (), ?w1)"
      by (simp add: achievement_done_def on_events_def ticking_def andThen_def find_event_def
          set_achievement_again(1))
    moreover have "settled w1 ?w1" using told Some by (simp add: settled_def)
    ultimately show ?thesis by blast
  qed
qed

lemma upload_failed_again:
  assumes "upload_failed X co w = (Inr (), w1)" and "requester_in (co_callback co) = Some (p, i, k)"
    and "w_users w = Some us" "users_get p k us \<noteq> None"
  shows "upload_failed X co w1 = (Inr (), w1)"
  using assms requester_answered(1) answer_when_told unfolding upload_failed_def by metis

text \<open>
  C31. A completed export of achievements that is delivered again is answered once: after a run that came to
  its end, for somebody with a profile, a second run of the same message ends well, calls nobody and changes
  no profile, no game and no queue.
\<close>

theorem achievement_answered_once:
  assumes "handle_completion X co w = (Inr (), w1)"
    and "co_callback co = AchievementCallback event_id path (Some (p, i, k))"
    and "w_users w = Some us" and "users_get p k us \<noteq> None"
  shows "\<exists>w2. handle_completion X co w1 = (Inr (), w2) \<and> settled w1 w2"
proof -
  have same: "settled w1 w1" by (simp add: settled_def)
  have failed: "upload_failed X co w = (Inr (), w1) \<Longrightarrow> upload_failed X co w1 = (Inr (), w1)"
    using upload_failed_again[OF _ _ assms(3,4)] assms(2) by simp
  from assms(1,2) same failed achievement_done_again[OF _ assms(3,4)] show ?thesis
    by (auto simp: handle_completion_def Let_def split: if_splits)
qed

definition sample_path :: ustring where
  "sample_path = asc ''disk:/larp-bot/achievements/a.pptx''"

definition achievement_completion :: completion where
  "achievement_completion =
     \<lparr>co_schema_version = 1, co_job_id = [7], co_success = True,
      co_callback = AchievementCallback sample_id sample_path (Some (VK, 9, 9)),
      co_google_urls = [], co_public_urls = [(asc ''achievement'', asc ''https://a'')]\<rparr>"

definition told_world :: world where
  "told_world = sample_world\<lparr>w_users := Some sample_users\<rparr>"

lemma achievement_path_valid: "achievement_path sample_path"
  by (simp add: sample_path_def achievement_path_def disk_path_def ends_with_def)

lemma sample_event_valid:
  "event_validate (sample_event\<lparr>ev_achievement_resource_path := Some path, ev_achievement_public_url := Some url,
      ev_updated_at := t\<rparr>) =
     (if achievement_path path then Some (sample_event\<lparr>ev_achievement_resource_path := Some path,
        ev_achievement_public_url := Some url, ev_updated_at := t\<rparr>) else None)"
  by (simp add: event_validate_def event_fields_ok_def sample_event_def valid_event_id_def length_between_def
      is_slug_char_def valid_event_name_def valid_player_amount_def event_table_path_def disk_path_def
      ends_with_def when_set_def optionally_def those_of_def table_fields_are_atomic_def MAX_PLAYER_AMOUNT_def
      ascii_lower_def is_ascii_digit_def)

lemma no_achievement_yet: "ev_achievement_public_url sample_event = None"
  by (simp add: sample_event_def)

lemma sample_outcome: "xe_outcome sample_env calls c = Answered"
  by (simp add: sample_env_def)

lemma achievement_completes: "fst (handle_completion sample_env achievement_completion told_world) = Inr ()"
  by (simp add: handle_completion_def achievement_completion_def public_urls_ok_def Let_def achievement_done_def
      roles_def dict_get_def told_world_def sample_world_def on_events_def ticking_def andThen_def
      set_achievement_def update_event_def created_repo_get revalidate_def touch_def sample_event_valid
      achievement_path_valid no_achievement_yet find_event_def answer_requester_def users_now_def sample_users_def told_already_def
      users_get_def last_delivery_def new_user_base_def external_apply sample_outcome claims_def on_users_def
      runs_apply)

theorem achievement_answered_once_witness:
  "\<exists>w1 w2. handle_completion sample_env achievement_completion told_world = (Inr (), w1)
     \<and> handle_completion sample_env achievement_completion w1 = (Inr (), w2) \<and> w_calls w2 = w_calls w1"
proof -
  obtain w1 where first: "handle_completion sample_env achievement_completion told_world = (Inr (), w1)"
    using achievement_completes by (metis prod.collapse)
  have 1: "co_callback achievement_completion = AchievementCallback sample_id
      sample_path (Some (VK, 9, 9))"
    unfolding achievement_completion_def by simp
  have 2: "w_users told_world = Some sample_users" by (simp add: told_world_def)
  have 3: "users_get VK 9 sample_users \<noteq> None" by (simp add: users_get_def sample_users_def dict_get_def)
  from achievement_answered_once[OF first 1 2 3] first show ?thesis by (auto simp: settled_def)
qed

section \<open>The stored data, and coming to an end\<close>

text \<open>What \<open>create_game\<close> sends out is a draft whose confirmation opens only with a deadline.\<close>

definition draft_ok :: "event_draft \<Rightarrow> bool" where
  "draft_ok dr \<longleftrightarrow> dr_confirmation_open_at dr \<noteq> None \<longrightarrow> dr_confirmation_deadline dr \<noteq> None"

definition callback_ok :: "callback \<Rightarrow> bool" where
  "callback_ok c = (case c of EventCreatedCallback dr leaders master_label masters_pending who \<Rightarrow> draft_ok dr | _ \<Rightarrow> True)"

lemma fresh_game_row: "fresh_game dr e \<Longrightarrow> draft_ok dr \<Longrightarrow> row_ok e \<and> ev_telegram_chat_id e = None"
  by (auto simp: fresh_game_def draft_ok_def row_ok_def progress_ok_def)

lemma keeps_andThen_made:
  "keeps I m \<Longrightarrow> (\<And>w x w'. m w = (Inr x, w') \<Longrightarrow> keeps I (k x)) \<Longrightarrow> keeps I (andThen m k)"
  unfolding keeps_def by (force simp: andThen_def split: prod.splits sum.splits)

lemma keeps_from_sum: "keeps I (from_sum x)"
  unfolding from_sum_def by (cases x) (simp_all add: keeps_intros)

lemma keeps_completed_event: "keeps (about_store P) (completed_event X dr yandex google)"
  unfolding keeps_def
proof (intro allI impI)
  fix w assume "about_store P w"
  then show "about_store P (snd (completed_event X dr yandex google w))"
    by (cases rule: completed_event_cases[of X dr yandex google w]) (simp_all add: about_store_def)
qed

context store_law
begin

lemma keeps_sends_system: "keeps (about_store P) (sends_system_command X event_id operation_id operation payload)"
  unfolding sends_system_command_def by (intro keeps_intros keeps_publishes)

lemma keeps_store_yandex: "keeps (about_store P) (store_yandex_links X k a b c)"
  unfolding store_yandex_links_def by (intro keeps_intros keeps_events event_step.intros)

lemma keeps_create_or_link:
  "row_ok e \<Longrightarrow> ev_telegram_chat_id e = None \<Longrightarrow> keeps (about_store P) (create_or_link X e leaders yandex)"
  unfolding create_or_link_def
  by (intro keeps_intros keeps_events keeps_store_yandex event_step.create)

lemma keeps_event_created:
  assumes "draft_ok dr"
  shows "keeps (about_store P)
    (event_created X dr leaders master_label masters_pending who yandex google job_id succeeded)"
proof -
  have rest: "keeps (about_store P)
      (andThen (unless_throw valid ValueError) (\<lambda>_.
       andThen (create_or_link X e leaders yandex) (\<lambda>(created_now, e).
          if \<not> succeeded \<or> created_now \<and> google \<noteq> [] then ret ()
          else
            andThen (if created_now then notify_leaders X e leaders who job_id else ret ()) (\<lambda>_.
            andThen (announce_game X e master_label masters_pending who job_id) (\<lambda>_.
              case ev_game_date e of
                Some game_date \<Rightarrow> if created_now then queue_day_refresh X game_date job_id else ret ()
              | None \<Rightarrow> ret ())))))"
    if "completed_event X dr yandex google w = (Inr e, w')" for e w w' valid
  proof -
    have "fresh_game dr e"
      using that by (cases rule: completed_event_cases[of X dr yandex google w]) simp_all
    from fresh_game_row[OF this assms] show ?thesis
      unfolding notify_leaders_def tell_new_leader_def users_now_def claims_def queue_day_refresh_def
      by (intro keeps_intros keeps_create_or_link keeps_announce keeps_sends_system) simp_all
  qed
  show ?thesis
    unfolding event_created_def
    by (intro keeps_if keeps_throw keeps_andThen_made[OF keeps_completed_event] rest)
qed

lemma keeps_handle_completion:
  assumes "callback_ok (co_callback co)"
  shows "keeps (about_store P) (handle_completion X co)"
  using assms
  unfolding handle_completion_def upload_failed_def Let_def
  by (intro keeps_intros keeps_answer_requester; cases "co_callback co")
    (auto simp: callback_ok_def event_tables_def store_tables_def achievement_done_def daily_passes_done_def
      queue_day_refresh_def Let_def
      intro!: keeps_intros keeps_answer_requester keeps_event_created keeps_from_sum keeps_store_yandex
        keeps_sends_system keeps_events event_step.intros)

end

lemma settles_answer_requester [settles_intros]: "settles (answer_requester X who operation_id txt buttons)"
  unfolding answer_requester_def by (intro settles_intros)

lemma proper_upload_methods [settles_intros]:
  "proper (set_yandex_table_links k a b c t)" "proper (set_achievement k v w t)"
  unfolding set_yandex_table_links_def set_achievement_def
  by (rule proper_update_event; simp add: revalidate_proper)+

lemma proper_create_event [settles_intros]: "proper (create_event e leaders)"
  by (simp add: proper_def create_event_def)

lemma table_links_text_error: "table_links_text e \<noteq> Inl OutOfFuel"
  by (simp add: table_links_text_def split: sum.splits)

lemma for_admin_error: "for_admin links \<noteq> Inl OutOfFuel"
  by (auto simp: for_admin_def dest: for_player_error)

lemma settles_handle_completion: "settles (handle_completion X co)"
  unfolding handle_completion_def upload_failed_def Let_def
  by (intro settles_intros; cases "co_callback co")
    (auto simp: event_tables_def store_tables_def achievement_done_def daily_passes_done_def event_created_def
      completed_event_def create_or_link_def announce_game_def notify_leaders_def tell_new_leader_def
      store_yandex_links_def queue_day_refresh_def sends_system_command_def Let_def table_links_text_error for_admin_error
      intro!: settles_intros)

end
