(* ===== verification/Chats.thy ===== *)
theory Chats
  imports Uploads
begin

text \<open>
  \<open>application/chat_management.py\<close>: the Telegram chats of games.  An administrator of a chat who leads a
  game or administers the program ties the chat to a game; the chat's invite link is then sent to the
  confirmed players.  A player who joins a tied chat is given a title or a tag with their name, and a
  chat that moves to another id takes its game along.
\<close>

section \<open>Titles\<close>

definition txt_player_title :: ustring where
  "txt_player_title = [1048, 1075, 1088, 1086, 1082]"

definition telegram_administrator_title :: "ustring \<Rightarrow> nat \<Rightarrow> ustring" where
  "telegram_administrator_title display_name limit =
     (case split_words display_name of
        [] \<Rightarrow> take limit txt_player_title
      | [only] \<Rightarrow> take limit only
      | surname # given_name # _ \<Rightarrow>
          (let full = given_name @ [32] @ surname;
               abbreviated = given_name @ [32] @ take 1 surname @ [46]
           in if length full \<le> limit then full
              else if length abbreviated \<le> limit then abbreviated
              else if 5 \<le> limit
              then rstrip_by (\<lambda>c. c = 45) (take (limit - 4) given_name) @ [8230, 32] @ take 1 surname @ [46]
              else take limit given_name))"

section \<open>Updates of a chat\<close>

record group_update =
  gu_update_id :: ustring
  gu_action :: ustring
  gu_chat_id :: int
  gu_actor_user_id :: "int option"
  gu_message_id :: "int option"
  gu_callback_query_id :: "ustring option"
  gu_callback_data :: "ustring option"
  gu_member_user_id :: "int option"
  gu_member_is_bot :: bool
  gu_member_username :: "ustring option"
  gu_migrate_to_chat_id :: "int option"

definition or_empty :: "ustring option \<Rightarrow> ustring" where
  "or_empty v = (case v of None \<Rightarrow> [] | Some s \<Rightarrow> s)"

definition chat_request :: "group_update \<Rightarrow> ustring \<Rightarrow> ustring" where
  "chat_request u purpose = asc ''telegram-chat:'' @ gu_update_id u @ [58] @ purpose"

text \<open>
  \<open>int(s)\<close>: blanks around, a sign, decimal digits of any script, single underscores between them.
\<close>

definition read_digits :: "ustring \<Rightarrow> nat option" where
  "read_digits s =
     (let groups = split_on 95 s
      in if list_all (\<lambda>g. g \<noteq> [] \<and> list_all is_decimal g) groups
         then Some (foldl (\<lambda>n c. 10 * n + (case decimal_value c of Some d \<Rightarrow> d | None \<Rightarrow> 0)) 0 (concat groups))
         else None)"

fun read_signed :: "ustring \<Rightarrow> int option" where
  "read_signed [] = None"
| "read_signed (c # s) =
     (if c = 45 then map_option (\<lambda>n. - int n) (read_digits s)
      else if c = 43 then map_option int (read_digits s)
      else map_option int (read_digits (c # s)))"

definition read_int :: "ustring \<Rightarrow> int option" where
  "read_int s = read_signed (strip s)"

section \<open>The picker of games\<close>

definition CHAT_PAGE_SIZE :: nat where
  "CHAT_PAGE_SIZE = 5"

definition PAGE_BACK :: ustring where
  "PAGE_BACK =
     [1055, 1088, 1077, 1076, 1099, 1076, 1091, 1097, 1072, 1103, 32, 1089, 1090, 1088, 1072,
      1085, 1080, 1094, 1072]"

definition PAGE_FORWARD :: ustring where
  "PAGE_FORWARD = [1042, 1087, 1077, 1088, 1105, 1076]"

definition TIE_TEXT :: ustring where
  "TIE_TEXT =
     [1042, 1099, 1073, 1077, 1088, 1080, 1090, 1077, 32, 1080, 1075, 1088, 1091, 44, 32, 1082,
      32, 1082, 1086, 1090, 1086, 1088, 1086, 1081, 32, 1085, 1091, 1078, 1085, 1086, 32, 1087,
      1088, 1080, 1074, 1103, 1079, 1072, 1090, 1100, 32, 1101, 1090, 1086, 1090, 32, 1095, 1072,
      1090, 58, 10, 10, 9888, 65039, 32, 1057, 1088, 1072, 1079, 1091, 32, 1087, 1086, 1089, 1083,
      1077, 32, 1091, 1089, 1087, 1077, 1096, 1085, 1086, 1081, 32, 1087, 1088, 1080, 1074, 1103,
      1079, 1082, 1080, 32, 1073, 1086, 1090, 32, 1072, 1074, 1090, 1086, 1084, 1072, 1090, 1080,
      1095, 1077, 1089, 1082, 1080, 32, 1079, 1072, 1087, 1091, 1089, 1090, 1080, 1090, 32, 1088,
      1072, 1089, 1089, 1099, 1083, 1082, 1091, 32, 1087, 1088, 1080, 1075, 1083, 1072, 1096,
      1077, 1085, 1080, 1081, 32, 1087, 1086, 1076, 1090, 1074, 1077, 1088, 1078, 1076, 1105,
      1085, 1085, 1099, 1084, 32, 1080, 1075, 1088, 1086, 1082, 1072, 1084, 32, 1086, 1089, 1085,
      1086, 1074, 1085, 1086, 1075, 1086, 32, 1089, 1086, 1089, 1090, 1072, 1074, 1072, 46, 32,
      1059, 1073, 1077, 1076, 1080, 1090, 1077, 1089, 1100, 44, 32, 1095, 1090, 1086, 32, 1095,
      1072, 1090, 32, 1075, 1086, 1090, 1086, 1074, 32, 1082, 32, 1080, 1093, 32, 1074, 1089,
      1090, 1091, 1087, 1083, 1077, 1085, 1080, 1102, 46]"

definition TIE_PRIVILEGE_DENIED_TEXT :: ustring where
  "TIE_PRIVILEGE_DENIED_TEXT =
     [1053, 1077, 1076, 1086, 1089, 1090, 1072, 1090, 1086, 1095, 1085, 1086, 32, 1087, 1088,
      1080, 1074, 1080, 1083, 1077, 1075, 1080, 1081, 32, 1076, 1083, 1103, 32, 1074, 1099, 1079,
      1086, 1074, 1072, 32, 1101, 1090, 1086, 1081, 32, 1082, 1086, 1084, 1072, 1085, 1076, 1099]"

definition BOT_ADMIN_REQUIRED_TEXT :: ustring where
  "BOT_ADMIN_REQUIRED_TEXT =
     [1053, 1072, 1079, 1085, 1072, 1095, 1100, 1090, 1077, 32, 1073, 1086, 1090, 1072, 32, 1072,
      1076, 1084, 1080, 1085, 1080, 1089, 1090, 1088, 1072, 1090, 1086, 1088, 1086, 1084, 32,
      1095, 1072, 1090, 1072, 32, 1089, 32, 1087, 1088, 1072, 1074, 1086, 1084, 32, 1087, 1088,
      1080, 1075, 1083, 1072, 1096, 1072, 1090, 1100, 32, 1087, 1086, 1083, 1100, 1079, 1086,
      1074, 1072, 1090, 1077, 1083, 1077, 1081, 32, 1080, 32, 1087, 1086, 1074, 1090, 1086, 1088,
      1080, 1090, 1077, 32, 47, 116, 105, 101, 46]"

definition txt_no_games_to_tie :: ustring where
  "txt_no_games_to_tie =
     [1053, 1077, 1090, 32, 1085, 1077, 1072, 1088, 1093, 1080, 1074, 1080, 1088, 1086, 1074,
      1072, 1085, 1085, 1099, 1093, 32, 1080, 1075, 1088, 44, 32, 1082, 32, 1082, 1086, 1090,
      1086, 1088, 1099, 1084, 32, 1084, 1086, 1078, 1085, 1086, 32, 1087, 1088, 1080, 1074, 1103,
      1079, 1072, 1090, 1100, 32, 1095, 1072, 1090, 46]"

definition txt_no_rights :: ustring where
  "txt_no_rights =
     [1053, 1077, 1076, 1086, 1089, 1090, 1072, 1090, 1086, 1095, 1085, 1086, 32, 1087, 1088,
      1072, 1074, 46]"

definition txt_game_unavailable :: ustring where
  "txt_game_unavailable =
     [1048, 1075, 1088, 1072, 32, 1073, 1086, 1083, 1100, 1096, 1077, 32, 1085, 1077, 1076, 1086,
      1089, 1090, 1091, 1087, 1085, 1072, 46]"

definition txt_tied_already :: ustring where
  "txt_tied_already =
     [1069, 1090, 1086, 1090, 32, 1095, 1072, 1090, 32, 1080, 1083, 1080, 32, 1080, 1075, 1088,
      1072, 32, 1091, 1078, 1077, 32, 1087, 1088, 1080, 1074, 1103, 1079, 1072, 1085, 1099, 46]"

definition txt_chat_tied_to :: ustring where
  "txt_chat_tied_to =
     [1063, 1072, 1090, 32, 1073, 1099, 1083, 32, 1087, 1088, 1080, 1074, 1103, 1079, 1072, 1085,
      32, 1082, 32, 1080, 1075, 1088, 1077, 32]"

definition txt_link_queued :: ustring where
  "txt_link_queued =
     [1057, 1089, 1099, 1083, 1082, 1072, 32, 1089, 1086, 1093, 1088, 1072, 1085, 1077, 1085,
      1072, 32, 1080, 32, 1087, 1086, 1089, 1090, 1072, 1074, 1083, 1077, 1085, 1072, 32, 1074,
      32, 1086, 1095, 1077, 1088, 1077, 1076, 1100, 32, 1085, 1072, 32, 1086, 1090, 1087, 1088,
      1072, 1074, 1082, 1091, 32, 1087, 1086, 1076, 1090, 1074, 1077, 1088, 1078, 1076, 1105,
      1085, 1085, 1099, 1084, 32, 1080, 1075, 1088, 1086, 1082, 1072, 1084, 32, 1086, 1089, 1085,
      1086, 1074, 1085, 1086, 1075, 1086, 32, 1089, 1086, 1089, 1090, 1072, 1074, 1072, 46]"

definition txt_chat_was_tied_to :: ustring where
  "txt_chat_was_tied_to =
     [1069, 1090, 1086, 1090, 32, 1095, 1072, 1090, 32, 1091, 1078, 1077, 32, 1087, 1088, 1080,
      1074, 1103, 1079, 1072, 1085, 32, 1082, 32, 1080, 1075, 1088, 1077, 32]"

definition txt_link_not_resent :: ustring where
  "txt_link_not_resent =
     [46, 32, 1057, 1089, 1099, 1083, 1082, 1072, 32, 1087, 1086, 1074, 1090, 1086, 1088, 1085,
      1086, 32, 1085, 1077, 32, 1086, 1090, 1087, 1088, 1072, 1074, 1083, 1077, 1085, 1072, 46]"

definition tie_button :: "env \<Rightarrow> event \<Rightarrow> button" where
  "tie_button X e =
     \<lparr>bt_label = event_name_with_date (ev_name e) (ev_game_date e),
      bt_value = asc ''tie:e:'' @ xe_blake2s X (ev_event_id e)\<rparr>"

definition page_buttons :: "env \<Rightarrow> event list \<Rightarrow> nat \<Rightarrow> button list" where
  "page_buttons X events page_number =
     (let offset = page_number * CHAT_PAGE_SIZE
      in map (tie_button X) (take CHAT_PAGE_SIZE (drop offset events))
         @ (if 0 < page_number
            then [\<lparr>bt_label = PAGE_BACK, bt_value = asc ''tie:p:'' @ show_nat (page_number - 1)\<rparr>] else [])
         @ (if offset + CHAT_PAGE_SIZE < length events
            then [\<lparr>bt_label = PAGE_FORWARD, bt_value = asc ''tie:p:'' @ show_nat (page_number + 1)\<rparr>] else []))"

definition clamped_page :: "event list \<Rightarrow> int \<Rightarrow> int" where
  "clamped_page events page_number =
     min (max page_number 0) (int ((length events - 1) div CHAT_PAGE_SIZE))"

definition show_picker :: "env \<Rightarrow> group_update \<Rightarrow> int \<Rightarrow> bool \<Rightarrow> event list option \<Rightarrow> unit service" where
  "show_picker X u page_number edit given =
     andThen (case given of None \<Rightarrow> unarchived_events X | Some events \<Rightarrow> ret events) (\<lambda>events.
       let number = (if events = [] then page_number else clamped_page events page_number);
           txt = Composed (if events = [] then txt_no_games_to_tie else TIE_TEXT);
           buttons = (if events = [] then [] else page_buttons X events (nat number));
           request_id = chat_request u (asc ''picker:'' @ show_int number)
       in case gu_message_id u of
            Some message_id \<Rightarrow>
              if edit then external X (ChatEdit (gu_chat_id u) message_id request_id txt buttons) (\<lambda>_. ())
              else external X (ChatSend (gu_chat_id u) request_id txt buttons) (\<lambda>_. ())
          | None \<Rightarrow> external X (ChatSend (gu_chat_id u) request_id txt buttons) (\<lambda>_. ()))"

section \<open>Who may tie a chat\<close>

definition EXPLICIT_ADMIN_RIGHTS :: "ustring list" where
  "EXPLICIT_ADMIN_RIGHTS =
     [asc ''can_change_info'', asc ''can_delete_messages'', asc ''can_manage_video_chats'',
      asc ''can_restrict_members'', asc ''can_promote_members'', asc ''can_invite_users'',
      asc ''can_post_stories'', asc ''can_edit_stories'', asc ''can_delete_stories'',
      asc ''can_post_messages'', asc ''can_edit_messages'', asc ''can_pin_messages'',
      asc ''can_manage_topics'', asc ''can_manage_direct_messages'', asc ''can_manage_tags'',
      asc ''can_send_welcome_messages'']"

definition member_has_explicit_admin_right :: "(ustring \<times> ustring list) option \<Rightarrow> bool" where
  "member_has_explicit_admin_right member =
     (case member of
        None \<Rightarrow> False
      | Some (status, flags) \<Rightarrow>
          status = asc ''creator''
          \<or> status = asc ''administrator'' \<and> list_ex (\<lambda>right. right \<in> set flags) EXPLICIT_ADMIN_RIGHTS)"

definition actor_has_chat_admin_right :: "env \<Rightarrow> group_update \<Rightarrow> bool service" where
  "actor_has_chat_admin_right X u =
     (case gu_actor_user_id u of
        None \<Rightarrow> ret False
      | Some actor \<Rightarrow>
          andThen (external X (GetChatMember (gu_chat_id u) actor (chat_request u (asc ''actor''))) (xe_member X))
            (\<lambda>member. ret (member_has_explicit_admin_right member)))"

definition actor_identities :: "group_update \<Rightarrow> bot_identity list service" where
  "actor_identities u =
     (case gu_actor_user_id u of None \<Rightarrow> ret [] | Some actor \<Rightarrow> identities_now TELEGRAM actor)"

definition any_is_admin :: "env \<Rightarrow> bot_identity list \<Rightarrow> bool service" where
  "any_is_admin X identities =
     andThen (gather identities (\<lambda>i. external X (IsAdmin (fst i) (snd i)) (xe_is_admin X))) (\<lambda>found.
       ret (list_ex (\<lambda>yes. yes) found))"

definition leads_any :: "bot_identity list \<Rightarrow> bot_identity list \<Rightarrow> bool" where
  "leads_any identities leaders \<longleftrightarrow> list_ex (\<lambda>i. i \<in> set leaders) identities"

definition tieable_events :: "env \<Rightarrow> group_update \<Rightarrow> (bool \<times> event list) service" where
  "tieable_events X u =
     andThen (actor_identities u) (\<lambda>identities.
       if identities = [] then ret (False, [])
       else
         andThen (unarchived_events X) (\<lambda>events.
         andThen (any_is_admin X identities) (\<lambda>admin.
           if admin then ret (True, events)
           else
             andThen (gather events (\<lambda>e. leaders_now (ev_event_id e))) (\<lambda>leader_lists.
               let tieable = map fst (filter (\<lambda>(e, leaders). leads_any identities leaders) (zip events leader_lists))
               in ret (tieable \<noteq> [], tieable)))))"

definition actor_can_tie_event :: "env \<Rightarrow> group_update \<Rightarrow> event \<Rightarrow> bool service" where
  "actor_can_tie_event X u e =
     andThen (actor_identities u) (\<lambda>identities.
       if identities = [] then ret False
       else
         andThen (any_is_admin X identities) (\<lambda>admin.
           if admin then ret True
           else andThen (leaders_now (ev_event_id e)) (\<lambda>leaders. ret (leads_any identities leaders))))"

definition event_for_token :: "env \<Rightarrow> ustring \<Rightarrow> event option service" where
  "event_for_token X token =
     andThen (unarchived_events X) (\<lambda>events.
       case filter (\<lambda>e. xe_blake2s X (ev_event_id e) = token) events of
         [] \<Rightarrow> ret None
       | [e] \<Rightarrow> ret (Some e)
       | _ \<Rightarrow> throw RuntimeError)"

section \<open>Tying\<close>

definition answer_callback :: "env \<Rightarrow> group_update \<Rightarrow> ustring \<Rightarrow> ustring \<Rightarrow> unit service" where
  "answer_callback X u purpose txt =
     external X (AnswerCallback (or_empty (gu_callback_query_id u)) (chat_request u purpose) (Composed txt)) (\<lambda>_. ())"

definition send_confirmed_link :: "env \<Rightarrow> pkey \<Rightarrow> group_update \<Rightarrow> ustring \<Rightarrow> ustring \<Rightarrow> unit service" where
  "send_confirmed_link X pkey u event_id invite_link =
     (case gu_actor_user_id u of
        None \<Rightarrow> throw RuntimeError
      | Some actor \<Rightarrow>
          andThen (enqueue X pkey SEND_CONFIRMED_NOTIFICATION event_id TELEGRAM actor
                     (NotificationPayload invite_link) empty_reply
                     (Some (chat_request u (asc ''send-confirmed-link''))) None) (\<lambda>_. ret ()))"

definition confirm_tie :: "env \<Rightarrow> group_update \<Rightarrow> event \<Rightarrow> bool \<Rightarrow> unit service" where
  "confirm_tie X u e link_created =
     andThen (answer_callback X u (asc ''answered'') []) (\<lambda>_.
     andThen (case gu_message_id u of
                None \<Rightarrow> ret ()
              | Some message_id \<Rightarrow>
                  external X (ChatDelete (gu_chat_id u) message_id (chat_request u (asc ''delete-picker''))) (\<lambda>_. ())) (\<lambda>_.
       external X (ChatSend (gu_chat_id u) (chat_request u (asc ''confirmation''))
         (Composed (if link_created then txt_chat_tied_to @ ev_name e @ [46] @ paragraph_break @ txt_link_queued
                    else txt_chat_was_tied_to @ ev_name e @ txt_link_not_resent)) []) (\<lambda>_. ())))"

definition store_invite_link :: "env \<Rightarrow> group_update \<Rightarrow> ustring \<Rightarrow> ustring \<Rightarrow> unit service" where
  "store_invite_link X u event_id invite_link =
     andThen (on_events X (set_telegram_chat_invite_link event_id (gu_chat_id u) invite_link)) (\<lambda>_.
     andThen (find_event event_id) (\<lambda>bound.
       unless_throw (\<exists>e\<in>set_option bound. ev_telegram_chat_invite_link e = Some invite_link) RuntimeError))"

definition tie :: "env \<Rightarrow> pkey \<Rightarrow> group_update \<Rightarrow> event \<Rightarrow> unit service" where
  "tie X pkey u e =
     andThen (on_events X (bind_telegram_chat (ev_event_id e) (gu_chat_id u))) (\<lambda>bound_now.
       if \<not> bound_now then answer_callback X u (asc ''conflict'') txt_tied_already
       else
         andThen (find_event (ev_event_id e)) (\<lambda>found.
           case found of
             None \<Rightarrow> throw RuntimeError
           | Some bound \<Rightarrow>
               if ev_telegram_chat_id bound \<noteq> Some (gu_chat_id u) then throw RuntimeError
               else
                 (case ev_telegram_chat_invite_link bound of
                    Some invite_link \<Rightarrow> confirm_tie X u e False
                  | None \<Rightarrow>
                      andThen (external_outcome X (EnsureInviteLink (gu_chat_id u) (chat_request u (asc ''invite''))))
                        (\<lambda>outcome.
                           case outcome of
                             Answered \<Rightarrow>
                               andThen (reads (\<lambda>w. xe_link X (w_calls w))) (\<lambda>invite_link.
                               andThen (store_invite_link X u (ev_event_id e) invite_link) (\<lambda>_.
                               andThen (send_confirmed_link X pkey u (ev_event_id e) invite_link) (\<lambda>_.
                                 confirm_tie X u e True)))
                           | Forbidden \<Rightarrow> answer_callback X u (asc ''bot-admin-required'') BOT_ADMIN_REQUIRED_TEXT
                           | _ \<Rightarrow> throw ExternalFailure))))"

text \<open>The two answers a callback is refused with; \<open>allowed\<close> is asked before the rights in the chat.\<close>

definition guarded :: "env \<Rightarrow> group_update \<Rightarrow> bool \<Rightarrow> unit service \<Rightarrow> unit service" where
  "guarded X u allowed m =
     (if \<not> allowed then answer_callback X u (asc ''privilege-denied'') TIE_PRIVILEGE_DENIED_TEXT
      else
        andThen (actor_has_chat_admin_right X u) (\<lambda>right.
          if \<not> right then answer_callback X u (asc ''denied'') txt_no_rights else m))"

definition turn_page :: "env \<Rightarrow> group_update \<Rightarrow> ustring \<Rightarrow> unit service" where
  "turn_page X u number =
     andThen (tieable_events X u) (\<lambda>(privileged, events).
       guarded X u privileged
         (andThen (answer_callback X u (asc ''page-answered'') []) (\<lambda>_.
            show_picker X u (case read_int number of None \<Rightarrow> 0 | Some n \<Rightarrow> n) True (Some events))))"

definition pick_event :: "env \<Rightarrow> pkey \<Rightarrow> group_update \<Rightarrow> ustring \<Rightarrow> unit service" where
  "pick_event X pkey u token =
     andThen (event_for_token X token) (\<lambda>found.
       case found of
         None \<Rightarrow>
           andThen (tieable_events X u) (\<lambda>(privileged, events).
             guarded X u privileged
               (andThen (answer_callback X u (asc ''missing'') txt_game_unavailable) (\<lambda>_.
                  show_picker X u 0 True (Some events))))
       | Some e \<Rightarrow>
           andThen (actor_can_tie_event X u e) (\<lambda>allowed. guarded X u allowed (tie X pkey u e)))"

definition handle_callback :: "env \<Rightarrow> pkey \<Rightarrow> group_update \<Rightarrow> unit service" where
  "handle_callback X pkey u =
     (let v = or_empty (gu_callback_data u)
      in if starts_with (asc ''tie:p:'') v then turn_page X u (remove_prefix (asc ''tie:p:'') v)
         else if starts_with (asc ''tie:e:'') v then pick_event X pkey u (remove_prefix (asc ''tie:e:'') v)
         else ret ())"

section \<open>Moving and joining\<close>

definition migrate_chat :: "env \<Rightarrow> int \<Rightarrow> int \<Rightarrow> unit service" where
  "migrate_chat X old_chat_id new_chat_id =
     (if \<not> xe_chat_migrations X then ret ()
      else
        andThen (answers (\<lambda>w. get_by_telegram_chat_id old_chat_id (w_events w))) (\<lambda>found.
          case found of
            None \<Rightarrow> ret ()
          | Some e \<Rightarrow>
              andThen (on_events X (migrate_telegram_chat (ev_event_id e) old_chat_id new_chat_id)) (\<lambda>moved.
                if moved then ret () else throw RuntimeError)))"

text \<open>
  Tagging a member.  When the chat has moved, the tag is set in the new chat and the game follows, also
  when the bot may not set it there; a missing permission is logged and ends the handling.
\<close>

definition tag_member :: "env \<Rightarrow> group_update \<Rightarrow> int \<Rightarrow> ustring \<Rightarrow> unit service" where
  "tag_member X u member_id title =
     andThen (external_outcome X (SetMemberTag (gu_chat_id u) member_id title (chat_request u (asc ''tag'')))) (\<lambda>outcome.
       case outcome of
         Answered \<Rightarrow> ret ()
       | Forbidden \<Rightarrow> ret ()
       | MovedTo chat_id \<Rightarrow>
           if \<not> xe_chat_migrations X then throw ExternalFailure
           else
             andThen (external_outcome X
                (SetMemberTag chat_id member_id title (chat_request u (asc ''migrated-tag'')))) (\<lambda>outcome.
                if outcome = Answered \<or> outcome = Forbidden then migrate_chat X (gu_chat_id u) chat_id
                else throw ExternalFailure)
       | _ \<Rightarrow> throw ExternalFailure)"

definition give_title :: "env \<Rightarrow> group_update \<Rightarrow> int \<Rightarrow> ustring \<Rightarrow> unit service" where
  "give_title X u member_id title =
     andThen (external X (PromoteTitleOnly (gu_chat_id u) member_id (chat_request u (asc ''promote''))) (\<lambda>_. ())) (\<lambda>_.
       external X (SetAdministratorTitle (gu_chat_id u) member_id title (chat_request u (asc ''title''))) (\<lambda>_. ()))"

definition handle_join :: "env \<Rightarrow> pkey \<Rightarrow> group_update \<Rightarrow> unit service" where
  "handle_join X pkey u =
     (case gu_member_user_id u of
        None \<Rightarrow> ret ()
      | Some member_id \<Rightarrow>
          if gu_member_is_bot u then ret ()
          else
            andThen (answers (\<lambda>w. get_by_telegram_chat_id (gu_chat_id u) (w_events w))) (\<lambda>found.
              case found of
                None \<Rightarrow> ret ()
              | Some e \<Rightarrow>
                  if ev_archived_at e \<noteq> None then ret ()
                  else
                    andThen (get_registration_for_telegram_member X pkey (ev_event_id e) member_id
                               (gu_member_username u)) (\<lambda>registered.
                      case registered of
                        None \<Rightarrow> ret ()
                      | Some r \<Rightarrow>
                          if rg_attendance_status r = CANCELLED then ret ()
                          else
                            (let title = telegram_administrator_title (rg_display_name r) 16
                             in if xe_member_tags X then tag_member X u member_id title
                                else give_title X u member_id title))))"

section \<open>Handling an update\<close>

definition tell_chat :: "env \<Rightarrow> group_update \<Rightarrow> ustring \<Rightarrow> ustring \<Rightarrow> unit service" where
  "tell_chat X u purpose txt =
     external X (ChatSend (gu_chat_id u) (chat_request u purpose) (Composed txt) []) (\<lambda>_. ())"

definition tie_command :: "env \<Rightarrow> group_update \<Rightarrow> unit service" where
  "tie_command X u =
     andThen (tieable_events X u) (\<lambda>(privileged, events).
       if \<not> privileged then tell_chat X u (asc ''privilege-denied'') TIE_PRIVILEGE_DENIED_TEXT
       else
         andThen (actor_has_chat_admin_right X u) (\<lambda>right.
           if right then show_picker X u 0 False (Some events)
           else tell_chat X u (asc ''denied'') txt_no_rights))"

definition handle_group_update :: "env \<Rightarrow> pkey \<Rightarrow> group_update \<Rightarrow> unit service" where
  "handle_group_update X pkey u =
     (case (if gu_action u = asc ''chat_migrated'' then gu_migrate_to_chat_id u else None) of
        Some new_chat_id \<Rightarrow> migrate_chat X (gu_chat_id u) new_chat_id
      | None \<Rightarrow>
          if gu_action u = asc ''bot_admin_granted'' then show_picker X u 0 False None
          else if gu_action u = asc ''tie_command'' then tie_command X u
          else if gu_action u = asc ''tie_callback'' then handle_callback X pkey u
          else if gu_action u = asc ''member_joined'' then handle_join X pkey u
          else ret ())"

section \<open>Titles fit\<close>

lemma length_rstrip_by: "length (rstrip_by q s) \<le> length s"
  by (simp add: rstrip_by_def le_trans[OF length_dropWhile_le])

text \<open>
  The title a player gets in the chat is within the limit of the messenger, whatever their name is.
\<close>

theorem title_fits: "length (telegram_administrator_title display_name limit) \<le> limit"
proof -
  consider "split_words display_name = []" | a where "split_words display_name = [a]"
    | a b c where "split_words display_name = a # b # c"
    by (metis remdups_adj.cases)
  then show ?thesis
  proof cases
    case (3 a b c)
    have "length (rstrip_by (\<lambda>c. c = 45) (take (limit - 4) b)) \<le> limit - 4"
      using length_rstrip_by[of "\<lambda>c. c = 45" "take (limit - 4) b"] by simp
    with 3 show ?thesis
      by (auto simp: telegram_administrator_title_def Let_def min_def split: if_splits)
  qed (simp_all add: telegram_administrator_title_def)
qed

section \<open>Who ties a chat\<close>

text \<open>A service that keeps \<open>I\<close> and whose result satisfies \<open>Q\<close>.\<close>

definition yields :: "(world \<Rightarrow> bool) \<Rightarrow> ('a \<Rightarrow> bool) \<Rightarrow> 'a service \<Rightarrow> bool" where
  "yields I Q m \<longleftrightarrow> (\<forall>w. I w \<longrightarrow> I (snd (m w)) \<and> (\<forall>x. fst (m w) = Inr x \<longrightarrow> Q x))"

lemma keeps_after: "yields I Q m \<Longrightarrow> (\<And>x. Q x \<Longrightarrow> keeps I (k x)) \<Longrightarrow> keeps I (andThen m k)"
  unfolding yields_def keeps_def by (force simp: andThen_def split: prod.splits sum.splits)

lemma yields_andThen: "yields I R m \<Longrightarrow> (\<And>x. R x \<Longrightarrow> yields I Q (k x)) \<Longrightarrow> yields I Q (andThen m k)"
  unfolding yields_def by (force simp: andThen_def split: prod.splits sum.splits)

lemma yields_ret: "Q x \<Longrightarrow> yields I Q (ret x)"
  by (simp add: yields_def)

lemma yields_keeps: "keeps I m \<Longrightarrow> yields I (\<lambda>_. True) m"
  by (simp add: yields_def keeps_def)

definition untouched :: "world \<Rightarrow> world \<Rightarrow> bool" where
  "untouched w0 w \<longleftrightarrow> w_events w = w_events w0 \<and> w_users w = w_users w0"

lemma untouched_external [keeps_intros]: "keeps (untouched w0) (external X c answer)"
  by (simp add: keeps_def untouched_def external_apply)

lemma untouched_unarchived [keeps_intros]: "keeps (untouched w0) (unarchived_events X)"
proof -
  have "keeps (untouched w0) (page_now X st a b ar n)" for st a b ar n
    by (auto simp: page_now_def ticking_def keeps_def untouched_def)
  then have "keeps (untouched w0) (page_loop X MAX_EVENT_PAGE_SIZE collect_page (\<lambda>_. False) fuel None [])" for fuel
    by (intro keeps_page_loop) (simp_all add: collect_page_def keeps_intros)
  then show ?thesis by (simp add: keeps_def unarchived_events_def all_pages_def)
qed

lemma yields_right:
  assumes "\<And>calls. \<not> member_has_explicit_admin_right (xe_member X calls)"
  shows "yields (untouched w0) (\<lambda>right. \<not> right) (actor_has_chat_admin_right X u)"
  using assms
  by (auto simp: yields_def actor_has_chat_admin_right_def andThen_def external_apply untouched_def split: option.split)

lemma yields_gather_no:
  assumes "\<And>x. yields I (\<lambda>yes. \<not> yes) (f x)"
  shows "yields I (\<lambda>found. \<not> list_ex (\<lambda>yes. yes) found) (gather xs f)"
proof (induction xs)
  case (Cons x xs)
  show ?case
    unfolding yields_def
  proof (intro allI impI)
    fix w assume I: "I w"
    obtain r w1 where x: "f x w = (r, w1)" by fastforce
    obtain rs w2 where xs: "gather xs f w1 = (rs, w2)" by fastforce
    from I x assms[of x] have 1: "I w1" "\<And>v. r = Inr v \<Longrightarrow> \<not> v"
      unfolding yields_def by (metis fst_conv snd_conv)+
    from 1(1) xs Cons.IH have 2: "I w2" "\<And>vs. rs = Inr vs \<Longrightarrow> \<not> list_ex (\<lambda>yes. yes) vs"
      by (auto simp: yields_def)
    show "I (snd (gather (x # xs) f w)) \<and>
        (\<forall>found. fst (gather (x # xs) f w) = Inr found \<longrightarrow> \<not> list_ex (\<lambda>yes. yes) found)"
      using x xs 1 2 by (cases r; cases rs) auto
  qed
qed (simp add: yields_def)

lemma yields_no_admin:
  assumes "\<And>calls. \<not> xe_is_admin X calls"
  shows "yields (untouched w0) (\<lambda>admin. \<not> admin) (any_is_admin X identities)"
  unfolding any_is_admin_def
  by (intro yields_andThen[OF yields_gather_no] yields_ret)
    (simp_all add: yields_def external_apply untouched_def assms)

text \<open>
  Somebody who may not tie a chat: without a right of an administrator in it, or neither an
  administrator of the program nor a leader of any game.
\<close>

definition leads_nothing :: "world \<Rightarrow> group_update \<Rightarrow> bool" where
  "leads_nothing w u \<longleftrightarrow>
     (\<forall>actor\<in>set_option (gu_actor_user_id u). \<forall>k.
        \<not> leads_any (identities_for_local_user (w_users w) TELEGRAM actor) (list_leaders k (w_events w)))"

definition not_entitled :: "env \<Rightarrow> world \<Rightarrow> group_update \<Rightarrow> bool" where
  "not_entitled X w u \<longleftrightarrow>
     (\<forall>calls. \<not> member_has_explicit_admin_right (xe_member X calls))
     \<or> (\<forall>calls. \<not> xe_is_admin X calls) \<and> leads_nothing w u"

lemma yields_identities:
  "yields (untouched w0)
     (\<lambda>ids. \<forall>actor. gu_actor_user_id u = Some actor \<longrightarrow> ids = identities_for_local_user (w_users w0) TELEGRAM actor)
     (actor_identities u)"
  by (auto simp: yields_def actor_identities_def identities_now_def untouched_def split: option.split)

lemma yields_stranger:
  assumes "\<And>calls. \<not> xe_is_admin X calls" and "leads_nothing w0 u"
  shows "yields (untouched w0) (\<lambda>allowed. \<not> allowed) (actor_can_tie_event X u e)"
proof (cases "gu_actor_user_id u")
  case None
  then show ?thesis by (simp add: actor_can_tie_event_def actor_identities_def andThen_def yields_def)
next
  case (Some actor)
  have "yields (untouched w0) (\<lambda>allowed. \<not> allowed)
      (andThen (leaders_now k) (\<lambda>leaders. ret (leads_any ids leaders)))"
    if "ids = identities_for_local_user (w_users w0) TELEGRAM actor" for ids k
    using assms(2) Some that
    by (auto simp: yields_def leaders_now_def andThen_def untouched_def leads_nothing_def)
  then show ?thesis
    unfolding actor_can_tie_event_def
    by (intro yields_andThen[OF yields_identities]) (auto simp: Some intro!: yields_ret yields_andThen[OF yields_no_admin[OF assms(1)]])
qed

lemma untouched_guarded:
  assumes "(\<forall>calls. \<not> member_has_explicit_admin_right (xe_member X calls)) \<or> \<not> allowed \<or> keeps (untouched w0) m"
  shows "keeps (untouched w0) (guarded X u allowed m)"
proof -
  have right: "keeps (untouched w0) (actor_has_chat_admin_right X u)"
    unfolding actor_has_chat_admin_right_def by (intro keeps_intros)
  have "keeps (untouched w0) (guarded X u allowed m)"
    if "\<And>calls. \<not> member_has_explicit_admin_right (xe_member X calls)"
    unfolding guarded_def answer_callback_def
    by (intro keeps_if keeps_after[OF yields_right[OF that]] keeps_intros) simp_all
  moreover have "keeps (untouched w0) (guarded X u allowed m)" if "\<not> allowed \<or> keeps (untouched w0) m"
    using that unfolding guarded_def answer_callback_def by (intro keeps_intros right) auto
  ultimately show ?thesis using assms by blast
qed

lemma untouched_quiet [keeps_intros]:
  "keeps (untouched w0) (actor_identities u)" "keeps (untouched w0) (any_is_admin X ids)"
  "keeps (untouched w0) (tieable_events X u)" "keeps (untouched w0) (show_picker X u n edit given)"
  "keeps (untouched w0) (event_for_token X token)" "keeps (untouched w0) (actor_can_tie_event X u e)"
  "keeps (untouched w0) (actor_has_chat_admin_right X u)" "keeps (untouched w0) (tell_chat X u purpose txt)"
  "keeps (untouched w0) (answer_callback X u purpose txt)"
  unfolding tieable_events_def actor_identities_def any_is_admin_def show_picker_def event_for_token_def
    actor_can_tie_event_def actor_has_chat_admin_right_def tell_chat_def answer_callback_def Let_def
  by (intro keeps_intros; (simp add: keeps_intros split: list.split)?)+

text \<open>
  A chat is tied to a game only by somebody who is an administrator of it with an explicit right and, by
  one of their linked profiles, an administrator of the program or a leader of the game.  For anybody
  else commands and buttons of the chat change no game and no profile, whatever the button says.
\<close>

theorem strangers_tie_nothing:
  assumes "not_entitled X w u"
    and "gu_action u \<notin> {asc ''chat_migrated'', asc ''member_joined''}"
  shows "w_events (snd (handle_group_update X pkey u w)) = w_events w
    \<and> w_users (snd (handle_group_update X pkey u w)) = w_users w"
proof -
  have tied: "keeps (untouched w) (andThen (actor_can_tie_event X u e) (\<lambda>allowed. guarded X u allowed (tie X pkey u e)))" for e
    using assms(1) unfolding not_entitled_def
  proof (elim disjE conjE)
    assume "\<forall>calls. \<not> member_has_explicit_admin_right (xe_member X calls)"
    then show ?thesis by (intro keeps_intros untouched_guarded) simp
  next
    assume "\<forall>calls. \<not> xe_is_admin X calls" "leads_nothing w u"
    then show ?thesis by (intro keeps_after[OF yields_stranger] untouched_guarded) auto
  qed
  have "keeps (untouched w) (handle_group_update X pkey u)"
    using assms(2)
    unfolding handle_group_update_def tie_command_def handle_callback_def turn_page_def pick_event_def Let_def
    by (auto intro!: keeps_intros untouched_guarded tied simp del: asc_def)
  then show ?thesis by (auto dest: keepsD[where w = w] simp: untouched_def)
qed

definition stranger_update :: group_update where
  "stranger_update =
     \<lparr>gu_update_id = [49], gu_action = asc ''tie_callback'', gu_chat_id = -100, gu_actor_user_id = Some 7,
      gu_message_id = Some 5, gu_callback_query_id = Some [50],
      gu_callback_data = Some (asc ''tie:e:'' @ sample_id), gu_member_user_id = None,
      gu_member_is_bot = False, gu_member_username = None, gu_migrate_to_chat_id = None\<rparr>"

theorem strangers_tie_nothing_witness:
  "w_events (snd (handle_group_update sample_env sample_pkey stranger_update sample_world)) = created_repo"
proof -
  have 1: "not_entitled sample_env sample_world stranger_update"
    by (simp add: not_entitled_def sample_env_def member_has_explicit_admin_right_def)
  have 2: "gu_action stranger_update \<notin> {asc ''chat_migrated'', asc ''member_joined''}"
    by (simp add: stranger_update_def)
  from strangers_tie_nothing[OF 1 2] show ?thesis by (simp add: sample_world_def)
qed

section \<open>The stored data, and coming to an end\<close>

lemma keeps_case_outcome [keeps_intros]:
  "keeps I a \<Longrightarrow> keeps I b \<Longrightarrow> keeps I c \<Longrightarrow> (\<And>i. keeps I (d i)) \<Longrightarrow> keeps I e \<Longrightarrow>
     keeps I (case out of Answered \<Rightarrow> a | Unreachable \<Rightarrow> b | Forbidden \<Rightarrow> c | MovedTo i \<Rightarrow> d i | Failed \<Rightarrow> e)"
  by (cases out) simp_all

lemma settles_case_outcomes:
  "settles a \<Longrightarrow> settles b \<Longrightarrow> settles c \<Longrightarrow> (\<And>i. settles (d i)) \<Longrightarrow> settles e \<Longrightarrow>
     settles (case out of Answered \<Rightarrow> a | Unreachable \<Rightarrow> b | Forbidden \<Rightarrow> c | MovedTo i \<Rightarrow> d i | Failed \<Rightarrow> e)"
  by (cases out) simp_all

lemma keeps_registration_list:
  "keeps I (case rows of [] \<Rightarrow> ret None | r # rs \<Rightarrow> (case rs of [] \<Rightarrow> ret (Some r) | _ # _ \<Rightarrow> throw x))"
  by (simp add: keeps_intros split: list.split)

lemma keeps_picking [keeps_intros]:
  "keeps (about_store P) (actor_identities u)" "keeps (about_store P) (any_is_admin X ids)"
  "keeps (about_store P) (tieable_events X u)" "keeps (about_store P) (show_picker X u n edit given)"
  "keeps (about_store P) (event_for_token X token)" "keeps (about_store P) (actor_can_tie_event X u e)"
  "keeps (about_store P) (actor_has_chat_admin_right X u)" "keeps (about_store P) (tell_chat X u purpose txt)"
  "keeps (about_store P) (answer_callback X u purpose txt)"
  unfolding tieable_events_def actor_identities_def any_is_admin_def show_picker_def event_for_token_def
    actor_can_tie_event_def actor_has_chat_admin_right_def tell_chat_def answer_callback_def Let_def
  by (intro keeps_intros keeps_registration_list)+

context store_law
begin

lemma keeps_get_member:
  "legacy_plain X \<Longrightarrow> keeps (about_store P) (get_registration_for_telegram_member X pkey k i name)"
  unfolding get_registration_for_telegram_member_def get_registration_def remember_telegram_member_def
  by (intro keeps_intros keeps_require_event keeps_registrations_of)

lemma keeps_tie: "legacy_plain X \<Longrightarrow> keeps (about_store P) (tie X pkey u e)"
  unfolding tie_def store_invite_link_def send_confirmed_link_def confirm_tie_def
  by (intro keeps_intros keeps_enqueue keeps_events event_step.intros)

lemma keeps_migrate_chat: "keeps (about_store P) (migrate_chat X old_chat_id new_chat_id)"
  unfolding migrate_chat_def by (intro keeps_intros keeps_events event_step.intros)

lemma keeps_handle_group_update:
  "legacy_plain X \<Longrightarrow> keeps (about_store P) (handle_group_update X pkey u)"
  unfolding handle_group_update_def tie_command_def handle_callback_def turn_page_def pick_event_def
    guarded_def handle_join_def tag_member_def give_title_def Let_def
  by (intro keeps_intros keeps_tie keeps_migrate_chat keeps_get_member)

end

lemma settles_picking [settles_intros]:
  "settles (actor_identities u)" "settles (any_is_admin X ids)" "settles (tieable_events X u)"
  "settles (show_picker X u n edit given)" "settles (event_for_token X token)"
  "settles (actor_can_tie_event X u e)" "settles (actor_has_chat_admin_right X u)"
  "settles (tell_chat X u purpose txt)" "settles (answer_callback X u purpose txt)"
  unfolding tieable_events_def actor_identities_def any_is_admin_def show_picker_def event_for_token_def
    actor_can_tie_event_def actor_has_chat_admin_right_def tell_chat_def answer_callback_def Let_def
  by (intro settles_intros; (simp add: settles_basic split: list.split)?)+

lemma proper_chat_methods [settles_intros]:
  "proper (bind_telegram_chat k c t)" "proper (migrate_telegram_chat k old c t)"
  "proper (set_telegram_chat_invite_link k c v t)"
  unfolding bind_telegram_chat_def migrate_telegram_chat_def set_telegram_chat_invite_link_def
  by (simp_all add: proper_def update_event_def split: option.split prod.split)

lemma chat_lookup_error: "get_by_telegram_chat_id c r \<noteq> Inl OutOfFuel"
  unfolding get_by_telegram_chat_id_def by (rule the_only_error)

lemma proper_update_handle [settles_intros]: "proper (update_telegram_handle i h t)"
  by (simp add: proper_def update_telegram_handle_def split: option.split)

lemma settles_get_member [settles_intros]: "settles (get_registration_for_telegram_member X pkey k i name)"
  unfolding get_registration_for_telegram_member_def get_registration_def remember_telegram_member_def
  by (intro settles_intros; simp)

lemma settles_handle_group_update: "settles (handle_group_update X pkey u)"
  unfolding handle_group_update_def tie_command_def handle_callback_def turn_page_def pick_event_def
    guarded_def handle_join_def tag_member_def give_title_def Let_def tie_def store_invite_link_def
    send_confirmed_link_def confirm_tie_def migrate_chat_def
  by (intro settles_intros settles_case_outcomes; simp add: chat_lookup_error)

end
