(* ===== verification/Messengers.thy ===== *)
theory Messengers
  imports Chats
begin

text \<open>
  The pure parts of the messenger adapters: \<open>adapters/telegram/adapter.py\<close> and \<open>callbacks.py\<close> read the
  updates of Telegram, \<open>adapters/vk/adapter.py\<close> those of VK, and both shape the buttons that are sent.  A
  decoded JSON object is the list of its members; \<open>.get\<close> of a missing key and of a null are the same
  \<open>JNull\<close>.  \<open>json.loads\<close> and the string part of \<open>json.dumps\<close> are written out, because a VK button is a
  JSON text that comes back when it is pressed.
\<close>

section \<open>JSON\<close>

type_synonym json_object = "(ustring \<times> json) list"

definition json_get :: "json_object \<Rightarrow> ustring \<Rightarrow> json" where
  "json_get obj key = (case dict_get obj key of None \<Rightarrow> JNull | Some v \<Rightarrow> v)"

definition json_get_or :: "json_object \<Rightarrow> ustring \<Rightarrow> json \<Rightarrow> json" where
  "json_get_or obj key missing = (case dict_get obj key of None \<Rightarrow> missing | Some v \<Rightarrow> v)"

text \<open>A method of \<open>dict\<close> called on anything else raises \<open>AttributeError\<close>; so does its absence.\<close>

definition member_of :: "json \<Rightarrow> exn + json_object" where
  "member_of v = (case v of JObject obj \<Rightarrow> Inr obj | _ \<Rightarrow> Inl AttributeError)"

fun then_sum :: "exn + 'a \<Rightarrow> ('a \<Rightarrow> exn + 'b) \<Rightarrow> exn + 'b" where
  "then_sum (Inl x) k = Inl x"
| "then_sum (Inr v) k = k v"

lemma then_sum_Inr: "then_sum r k = Inr y \<Longrightarrow> \<exists>v. r = Inr v \<and> k v = Inr y"
  by (cases r) auto

definition if_object :: "json \<Rightarrow> (json_object \<Rightarrow> 'a) \<Rightarrow> 'a \<Rightarrow> 'a" where
  "if_object v k other = (case v of JObject obj \<Rightarrow> k obj | _ \<Rightarrow> other)"

text \<open>\<open>v in {...}\<close> hashes \<open>v\<close> first.\<close>

definition in_strings :: "json \<Rightarrow> ustring list \<Rightarrow> exn + bool" where
  "in_strings v names =
     (case v of
        JArray _ \<Rightarrow> Inl TypeError | JObject _ \<Rightarrow> Inl TypeError
      | JString s \<Rightarrow> Inr (s \<in> set names) | _ \<Rightarrow> Inr False)"

definition is_text :: "json \<Rightarrow> ustring \<Rightarrow> bool" where
  "is_text v s \<longleftrightarrow> v = JString s"

text \<open>The escapes of a string: \<open>json.dumps(s, ensure_ascii=False)\<close> without the quotes.\<close>

definition hex_digit :: "nat \<Rightarrow> nat" where
  "hex_digit d = (if d < 10 then 48 + d else 87 + d)"

definition escaped :: "nat \<Rightarrow> ustring" where
  "escaped c =
     (if c = 34 \<or> c = 92 then [92, c]
      else if c = 10 then [92, 110]
      else if c = 13 then [92, 114]
      else if c = 9 then [92, 116]
      else if c = 12 then [92, 102]
      else if c = 8 then [92, 98]
      else if c < 32 then [92, 117, 48, 48, hex_digit (c div 16), hex_digit (c mod 16)]
      else [c])"

definition dumps_string :: "ustring \<Rightarrow> ustring" where
  "dumps_string s = [34] @ concat (map escaped s) @ [34]"

definition hex_value :: "nat \<Rightarrow> nat option" where
  "hex_value c =
     (if 48 \<le> c \<and> c \<le> 57 then Some (c - 48)
      else if 97 \<le> c \<and> c \<le> 102 then Some (c - 87)
      else if 65 \<le> c \<and> c \<le> 70 then Some (c - 55) else None)"

definition hex4 :: "nat \<Rightarrow> nat \<Rightarrow> nat \<Rightarrow> nat \<Rightarrow> nat option" where
  "hex4 a b c d =
     (case (hex_value a, hex_value b, hex_value c, hex_value d) of
        (Some x, Some y, Some z, Some w) \<Rightarrow> Some (((x * 16 + y) * 16 + z) * 16 + w)
      | _ \<Rightarrow> None)"

definition unescaped :: "nat \<Rightarrow> nat option" where
  "unescaped c =
     (if c = 34 \<or> c = 92 \<or> c = 47 then Some c
      else if c = 98 then Some 8 else if c = 102 then Some 12
      else if c = 110 then Some 10 else if c = 114 then Some 13
      else if c = 116 then Some 9 else None)"

definition with_char :: "nat \<Rightarrow> (ustring \<times> ustring) option \<Rightarrow> (ustring \<times> ustring) option" where
  "with_char c scanned = map_option (\<lambda>(s, rest). (c # s, rest)) scanned"

text \<open>The hexadecimal escapes of the two halves of a surrogate pair are one character.\<close>

definition low_surrogate :: "nat \<Rightarrow> ustring \<Rightarrow> nat option" where
  "low_surrogate high s =
     (case s of
        b # u # p # q # r # t # _ \<Rightarrow>
          if 55296 \<le> high \<and> high \<le> 56319 \<and> b = 92 \<and> u = 117 then
            (case hex4 p q r t of
               Some low \<Rightarrow>
                 if 56320 \<le> low \<and> low \<le> 57343 then Some (65536 + (high - 55296) * 1024 + (low - 56320)) else None
             | None \<Rightarrow> None)
          else None
      | _ \<Rightarrow> None)"

function scan_string :: "ustring \<Rightarrow> (ustring \<times> ustring) option" where
  "scan_string [] = None"
| "scan_string (c # s) =
     (if c = 34 then Some ([], s)
      else if c \<noteq> 92 then (if c < 32 then None else with_char c (scan_string s))
      else
        (case s of
           [] \<Rightarrow> None
         | e # s' \<Rightarrow>
             if e \<noteq> 117 then
               (case unescaped e of None \<Rightarrow> None | Some x \<Rightarrow> with_char x (scan_string s'))
             else
               (case s' of
                  p # q # r # t # s'' \<Rightarrow>
                    (case hex4 p q r t of
                       None \<Rightarrow> None
                     | Some x \<Rightarrow>
                         (case low_surrogate x s'' of
                            Some y \<Rightarrow> with_char y (scan_string (drop 6 s''))
                          | None \<Rightarrow> with_char x (scan_string s'')))
                | _ \<Rightarrow> None)))"
  by pat_completeness auto

termination by (relation "measure length") auto

definition is_json_space :: "nat \<Rightarrow> bool" where
  "is_json_space c \<longleftrightarrow> c \<in> {32, 9, 10, 13}"

definition skip_space :: "ustring \<Rightarrow> ustring" where
  "skip_space = dropWhile is_json_space"

definition ascii_digits :: "ustring \<Rightarrow> ustring" where
  "ascii_digits s = takeWhile is_ascii_digit s"

text \<open>The literals, and numbers: an integer, or the text of a number with a fraction or an exponent.\<close>

definition number_tail :: "ustring \<Rightarrow> ustring" where
  "number_tail s =
     (let fraction = (case s of c # t \<Rightarrow> if c = 46 \<and> ascii_digits t \<noteq> [] then 46 # ascii_digits t else [] | [] \<Rightarrow> []);
          rest = drop (length fraction) s;
          exponent = (case rest of
             c # t \<Rightarrow>
               if c = 101 \<or> c = 69 then
                 (let sign = (case t of g # _ \<Rightarrow> if g = 43 \<or> g = 45 then [g] else [] | [] \<Rightarrow> []);
                      digits = ascii_digits (drop (length sign) t)
                  in if digits = [] then [] else c # sign @ digits)
               else []
           | [] \<Rightarrow> [])
      in fraction @ exponent)"

definition scan_number :: "ustring \<Rightarrow> (json \<times> ustring) option" where
  "scan_number s =
     (let sign = (if starts_with [45] s then [45] else []);
          body = drop (length sign) s;
          digits = (case ascii_digits body of [] \<Rightarrow> [] | d # ds \<Rightarrow> if d = 48 then [d] else d # ds);
          rest = drop (length digits) body;
          tail = number_tail rest
      in if digits = [] then None
         else if tail = [] then
           Some (JInt (if sign = [] then int (decimal_read digits) else - int (decimal_read digits)), rest)
         else Some (JFloat (sign @ digits @ tail), drop (length tail) rest))"

definition json_literals :: "(ustring \<times> json) list" where
  "json_literals =
     [(asc ''null'', JNull), (asc ''true'', JBool True), (asc ''false'', JBool False),
      (asc ''NaN'', JFloat (asc ''NaN'')), (asc ''Infinity'', JFloat (asc ''Infinity'')),
      (asc ''-Infinity'', JFloat (asc ''-Infinity''))]"

definition scan_literal :: "ustring \<Rightarrow> (json \<times> ustring) option" where
  "scan_literal s =
     (case List.find (\<lambda>literal. starts_with (fst literal) s) json_literals of
        Some (name, v) \<Rightarrow> Some (v, drop (length name) s)
      | None \<Rightarrow> scan_number s)"

text \<open>
  Values.  Every call but the ones for an element consumes a character, so twice the length of the text
  is enough fuel.
\<close>

fun json_value :: "nat \<Rightarrow> ustring \<Rightarrow> (json \<times> ustring) option"
  and json_elements :: "nat \<Rightarrow> ustring \<Rightarrow> (json list \<times> ustring) option"
  and json_members :: "nat \<Rightarrow> json_object \<Rightarrow> ustring \<Rightarrow> (json_object \<times> ustring) option" where
  "json_value 0 s = None"
| "json_value (Suc n) s =
     (case s of
        [] \<Rightarrow> None
      | c # t \<Rightarrow>
          if c = 34 then map_option (\<lambda>(v, rest). (JString v, rest)) (scan_string t)
          else if c = 123 then
            (case skip_space t of
               [] \<Rightarrow> None
             | d # u \<Rightarrow>
                 if d = 125 then Some (JObject [], u)
                 else map_option (\<lambda>(ms, rest). (JObject ms, rest)) (json_members n [] (d # u)))
          else if c = 91 then
            (case skip_space t of
               [] \<Rightarrow> None
             | d # u \<Rightarrow>
                 if d = 93 then Some (JArray [], u)
                 else map_option (\<lambda>(vs, rest). (JArray vs, rest)) (json_elements n (d # u)))
          else scan_literal s)"
| "json_elements 0 s = None"
| "json_elements (Suc n) s =
     (case json_value n s of
        None \<Rightarrow> None
      | Some (v, rest) \<Rightarrow>
          (case skip_space rest of
             [] \<Rightarrow> None
           | d # u \<Rightarrow>
               if d = 93 then Some ([v], u)
               else if d = 44 then map_option (\<lambda>(vs, rest'). (v # vs, rest')) (json_elements n (skip_space u))
               else None))"
| "json_members 0 ms s = None"
| "json_members (Suc n) ms s =
     (case s of
        [] \<Rightarrow> None
      | q # t \<Rightarrow>
          if q \<noteq> 34 then None
          else
            (case scan_string t of
               None \<Rightarrow> None
             | Some (key, rest) \<Rightarrow>
                 (case skip_space rest of
                    [] \<Rightarrow> None
                  | colon # t' \<Rightarrow>
                      if colon \<noteq> 58 then None
                      else
                        (case json_value n (skip_space t') of
                           None \<Rightarrow> None
                         | Some (v, rest') \<Rightarrow>
                             (case skip_space rest' of
                                [] \<Rightarrow> None
                              | d # u \<Rightarrow>
                                  if d = 125 then Some (dict_put key v ms, u)
                                  else if d = 44 then json_members n (dict_put key v ms) (skip_space u)
                                  else None)))))"

definition json_loads :: "ustring \<Rightarrow> json option" where
  "json_loads s =
     (case json_value (2 * length s) (skip_space s) of
        None \<Rightarrow> None
      | Some (v, rest) \<Rightarrow> if skip_space rest = [] then Some v else None)"

text \<open>The fuel is enough: every part that is read is shorter, so more fuel reads the same.\<close>

lemma scan_string_shorter: "scan_string s = Some (x, r) \<Longrightarrow> length r < length s"
proof (induction s arbitrary: x rule: scan_string.induct)
  case (2 c s)
  then show ?case
    by (auto simp: with_char_def split: if_splits list.splits option.splits) (fastforce | force)+
qed simp

lemma scan_number_shorter: "scan_number s = Some (v, r) \<Longrightarrow> length r < length s"
  by (cases s) (auto simp: scan_number_def Let_def ascii_digits_def split: if_splits list.splits)

lemma scan_literal_shorter:
  assumes "scan_literal s = Some (v, r)"
  shows "length r < length s"
proof (cases "List.find (\<lambda>literal. starts_with (fst literal) s) json_literals")
  case None
  with assms show ?thesis
    by (simp add: scan_literal_def scan_number_shorter)
next
  case (Some found)
  then have found: "found \<in> set json_literals" "starts_with (fst found) s"
    by (auto simp: find_Some_iff)
  moreover have "fst found \<noteq> []"
    using found(1) by (auto simp: json_literals_def)
  ultimately have "s \<noteq> []" "0 < length (fst found)"
    by (auto simp: starts_with_iff)
  with assms Some show ?thesis
    by (auto simp: scan_literal_def split: prod.splits)
qed

lemma skip_space_shorter: "length (skip_space s) \<le> length s"
  by (simp add: skip_space_def length_dropWhile_le)

lemma skip_space_Cons: "skip_space s = d # u \<Longrightarrow> length u < length s"
  using skip_space_shorter[of s] by simp

lemma json_shorter:
  "json_value n s = Some (v, r) \<Longrightarrow> length r < length s"
  "json_elements n s = Some (vs, r) \<Longrightarrow> length r < length s"
  "json_members n ms s = Some (ms', r) \<Longrightarrow> length r < length s"
proof (induction n s and n s and n ms s arbitrary: v r and vs r and ms' r
    rule: json_value_json_elements_json_members.induct)
  case (2 n s)
  obtain c t where s: "s = c # t"
    using 2(3) by (cases s) simp_all
  show ?case
  proof (cases "c \<noteq> 34 \<and> (c = 123 \<or> c = 91)")
    case True
    then obtain d u where u: "skip_space t = d # u"
      using 2(3) by (cases "skip_space t") (auto simp: s)
    then have short: "length (d # u) \<le> length t"
      using skip_space_shorter[of t] by simp
    show ?thesis
      using 2(3) 2(1)[OF s _ _ u] 2(2)[OF s _ _ _ u] True u short
      by (auto simp: s split: if_splits)
  next
    case False
    then show ?thesis
      using 2(3) by (auto simp: s split: if_splits dest: scan_string_shorter scan_literal_shorter)
  qed
next
  case (4 n s)
  note parsed = 4(3)[unfolded json_elements.simps]
  obtain v rest where v: "json_value n s = Some (v, rest)"
    using parsed by (cases "json_value n s") auto
  obtain d u where d: "skip_space rest = d # u"
    using parsed by (cases "skip_space rest") (auto simp: v)
  have "length u < length s"
    using 4(1)[OF v] skip_space_Cons[OF d] by simp
  moreover have "d = 93 \<and> r = u \<or> d \<noteq> 93 \<and> d = 44 \<and> (\<exists>vs'. json_elements n (skip_space u) = Some (vs', r))"
    using parsed by (auto simp: v d split: if_splits)
  moreover have "length r < length u" if "d = 44" "json_elements n (skip_space u) = Some (vs', r)" for vs'
    using 4(2)[OF v refl d _ that(1) that(2)] that(1) skip_space_shorter[of u] by simp
  ultimately show ?case
    by auto
next
  case (6 n ms s)
  note parsed = 6(3)[unfolded json_members.simps]
  obtain t where s: "s = 34 # t"
    using parsed by (cases s) (simp_all split: if_splits)
  obtain key rest where key: "scan_string t = Some (key, rest)"
    using parsed by (cases "scan_string t") (auto simp: s)
  obtain t' where colon: "skip_space rest = 58 # t'"
    using parsed by (cases "skip_space rest") (auto simp: s key split: if_splits)
  obtain v rest' where v: "json_value n (skip_space t') = Some (v, rest')"
    using parsed by (cases "json_value n (skip_space t')") (auto simp: s key colon)
  obtain d u where d: "skip_space rest' = d # u"
    using parsed by (cases "skip_space rest'") (auto simp: s key colon v)
  have ends: "d = 125 \<and> r = u \<or> d = 44 \<and> d \<noteq> 125 \<and> json_members n (dict_put key v ms) (skip_space u) = Some (ms', r)"
    using parsed by (simp add: s key colon v d split: if_splits)
  note read = s key colon v d
  have "length u < length t"
    using read 6(1)[OF read(1) _ read(2) refl read(3) _ ] scan_string_shorter[OF read(2)] skip_space_Cons[OF read(3)]
      skip_space_shorter[of t'] skip_space_Cons[OF read(5)] by simp
  moreover have "length r < length u" if "d = 44" "json_members n (dict_put key v ms) (skip_space u) = Some (ms', r)"
    using 6(2)[OF read(1) _ read(2) refl read(3) _ read(4) refl read(5) _ that(1) that(2)] that skip_space_shorter[of u]
    by simp
  ultimately show ?case
    using ends read(1) by auto
qed simp_all

lemma json_fuel:
  "2 * length s \<le> n \<Longrightarrow> n \<le> m \<Longrightarrow> json_value m s = json_value n s"
  "2 * length s < n \<Longrightarrow> n \<le> m \<Longrightarrow> json_elements m s = json_elements n s"
  "2 * length s \<le> n \<Longrightarrow> n \<le> m \<Longrightarrow> json_members m ms s = json_members n ms s"
proof (induction n arbitrary: m s ms)
  case 0
  {
    case 1
    then show ?case by (cases m) simp_all
  next
    case 2
    then show ?case by simp
  next
    case 3
    then show ?case by (cases m) simp_all
  }
next
  case (Suc n)
  {
    case 1
    obtain k where k: "m = Suc k" "n \<le> k"
      using 1 by (cases m) simp_all
    show ?case
    proof (cases s)
      case (Cons c t)
      have "2 * length (d # u) < n" if "skip_space t = d # u" for d u
        using skip_space_shorter[of t] that 1(1) Cons by simp
      then show ?thesis
        using Suc.IH(2,3)[OF _ k(2)] by (auto simp: k(1) Cons split: list.split)
    qed (simp add: k(1))
  next
    case 2
    obtain k where k: "m = Suc k" "n \<le> k"
      using 2 by (cases m) simp_all
    have same: "json_value k s = json_value n s"
      using 2(1) Suc.IH(1)[OF _ k(2)] by simp
    have "json_elements k (skip_space u) = json_elements n (skip_space u)"
      if "json_value n s = Some (v, rest)" "skip_space rest = d # u" for v rest d u
      using json_shorter(1)[OF that(1)] skip_space_Cons[OF that(2)] skip_space_shorter[of u] 2(1)
      by (intro Suc.IH(2)[OF _ k(2)]) simp
    then show ?case
      by (auto simp: k(1) same split: list.split option.split)
  next
    case 3
    obtain k where k: "m = Suc k" "n \<le> k"
      using 3 by (cases m) simp_all
    have inner: "json_value k (skip_space t') = json_value n (skip_space t')"
      if "scan_string t = Some (key, rest)" "skip_space rest = colon # t'" "s = q # t" for t q key rest colon t'
      using scan_string_shorter[OF that(1)] skip_space_Cons[OF that(2)] skip_space_shorter[of t'] that(3) 3(1)
      by (intro Suc.IH(1)[OF _ k(2)]) simp
    have members: "json_members k ms' (skip_space u) = json_members n ms' (skip_space u)"
      if "scan_string t = Some (key, rest)" "skip_space rest = colon # t'" "s = q # t"
        "json_value n (skip_space t') = Some (v, rest')" "skip_space rest' = d # u"
      for t q key rest colon t' v rest' d u ms'
      using scan_string_shorter[OF that(1)] skip_space_Cons[OF that(2)] skip_space_shorter[of t'] that(3) 3(1)
        json_shorter(1)[OF that(4)] skip_space_Cons[OF that(5)] skip_space_shorter[of u]
      by (intro Suc.IH(3)[OF _ k(2)]) simp
    show ?case
      by (auto simp: k(1) inner members split: list.split option.split)
  }
qed

lemma json_loads_fuel:
  "2 * length s \<le> n \<Longrightarrow>
    json_loads s = (case json_value n (skip_space s) of
      None \<Rightarrow> None | Some (v, rest) \<Rightarrow> if skip_space rest = [] then Some v else None)"
  using json_fuel(1)[of "skip_space s" "2 * length s" n] skip_space_shorter[of s] by (simp add: json_loads_def)

section \<open>Telegram: callbacks\<close>

definition encode_callback :: "ustring \<Rightarrow> ustring" where
  "encode_callback v =
     (if starts_with (asc ''ag:schedule-'') v then asc ''ag:sc-'' @ remove_prefix (asc ''ag:schedule-'') v else v)"

definition decode_callback :: "ustring \<Rightarrow> ustring" where
  "decode_callback v =
     (if starts_with (asc ''ag:sc-'') v then asc ''ag:schedule-'' @ remove_prefix (asc ''ag:sc-'') v else v)"

section \<open>Telegram: updates of a group\<close>

text \<open>\<open>InvalidTelegramUpdate\<close> is a \<open>ValueError\<close>.\<close>

definition group_chat_id :: "json \<Rightarrow> exn + int option" where
  "group_chat_id v =
     (case v of
        JObject chat \<Rightarrow>
          then_sum (in_strings (json_get chat (asc ''type'')) [asc ''group'', asc ''supergroup'']) (\<lambda>is_group.
            Inr (case json_get chat (asc ''id'') of JInt i \<Rightarrow> if is_group then Some i else None | _ \<Rightarrow> None))
      | _ \<Rightarrow> Inr None)"

definition member_can_send :: "json \<Rightarrow> bool" where
  "member_can_send v =
     (case v of
        JObject member \<Rightarrow>
          is_text (json_get member (asc ''status'')) (asc ''creator'')
          \<or> is_text (json_get member (asc ''status'')) (asc ''administrator'')
            \<and> json_get member (asc ''can_manage_chat'') = JBool True
      | _ \<Rightarrow> False)"

definition plain_update :: "ustring \<Rightarrow> ustring \<Rightarrow> int \<Rightarrow> group_update" where
  "plain_update update_id action chat_id =
     \<lparr>gu_update_id = update_id, gu_action = action, gu_chat_id = chat_id, gu_actor_user_id = None,
      gu_message_id = None, gu_callback_query_id = None, gu_callback_data = None,
      gu_member_user_id = None, gu_member_is_bot = False, gu_member_username = None,
      gu_migrate_to_chat_id = None\<rparr>"

definition ignored :: "ustring \<Rightarrow> int \<Rightarrow> group_update" where
  "ignored update_id chat_id = plain_update update_id (asc ''ignored'') chat_id"

definition parse_bot_membership :: "ustring \<Rightarrow> json_object \<Rightarrow> exn + group_update option" where
  "parse_bot_membership update_id membership =
     then_sum (group_chat_id (json_get membership (asc ''chat''))) (\<lambda>chat.
       Inr (Some (case chat of
         None \<Rightarrow> ignored update_id 0
       | Some chat_id \<Rightarrow>
           if member_can_send (json_get membership (asc ''new_chat_member''))
              \<and> \<not> member_can_send (json_get membership (asc ''old_chat_member''))
           then plain_update update_id (asc ''bot_admin_granted'') chat_id
           else ignored update_id chat_id)))"

definition was_present :: "json_object \<Rightarrow> exn + bool" where
  "was_present old_member =
     (let status = json_get old_member (asc ''status'')
      in then_sum (in_strings status [asc ''left'', asc ''kicked'']) (\<lambda>away.
           Inr (\<not> away \<and> \<not> (is_text status (asc ''restricted'')
                              \<and> json_get old_member (asc ''is_member'') = JBool False))))"

definition is_present :: "json_object \<Rightarrow> bool" where
  "is_present new_member =
     (let status = json_get new_member (asc ''status'')
      in is_text status (asc ''member'')
         \<or> is_text status (asc ''restricted'') \<and> json_get new_member (asc ''is_member'') = JBool True)"

definition joined_member :: "ustring \<Rightarrow> int \<Rightarrow> json \<Rightarrow> group_update" where
  "joined_member update_id chat_id v =
     (case v of
        JObject member \<Rightarrow>
          (case json_get member (asc ''id'') of
             JInt i \<Rightarrow>
               (plain_update update_id (asc ''member_joined'') chat_id)
                 \<lparr>gu_member_user_id := Some i,
                  gu_member_is_bot := json_get member (asc ''is_bot'') = JBool True,
                  gu_member_username :=
                    (case json_get member (asc ''username'') of JString s \<Rightarrow> Some s | _ \<Rightarrow> None)\<rparr>
           | _ \<Rightarrow> ignored update_id chat_id)
      | _ \<Rightarrow> ignored update_id chat_id)"

definition parse_chat_member :: "ustring \<Rightarrow> json_object \<Rightarrow> exn + group_update option" where
  "parse_chat_member update_id membership =
     then_sum (group_chat_id (json_get membership (asc ''chat''))) (\<lambda>chat.
       case chat of
         None \<Rightarrow> Inr (Some (ignored update_id 0))
       | Some chat_id \<Rightarrow>
           (case (json_get membership (asc ''old_chat_member''), json_get membership (asc ''new_chat_member'')) of
              (JObject old_member, JObject new_member) \<Rightarrow>
                then_sum (was_present old_member) (\<lambda>before.
                  Inr (Some (if \<not> before \<and> is_present new_member
                             then joined_member update_id chat_id (json_get new_member (asc ''user''))
                             else ignored update_id chat_id)))
            | _ \<Rightarrow> Inl ValueError))"

definition sender_id :: "json \<Rightarrow> json" where
  "sender_id v = (case v of JObject sender \<Rightarrow> json_get sender (asc ''id'') | _ \<Rightarrow> JNull)"

definition parse_group_callback :: "ustring \<Rightarrow> json_object \<Rightarrow> exn + group_update option" where
  "parse_group_callback update_id callback =
     (case json_get callback (asc ''message'') of
        JObject message \<Rightarrow>
          then_sum (group_chat_id (json_get message (asc ''chat''))) (\<lambda>chat.
            case chat of
              None \<Rightarrow> Inr None
            | Some chat_id \<Rightarrow>
                (case (sender_id (json_get callback (asc ''from'')), json_get callback (asc ''data''),
                       json_get message (asc ''message_id''), json_get callback (asc ''id'')) of
                   (JInt user_id, JString data, JInt message_id, JString query_id) \<Rightarrow>
                     Inr (Some ((plain_update update_id
                         (if starts_with (asc ''tie:'') data then asc ''tie_callback'' else asc ''ignored'') chat_id)
                       \<lparr>gu_actor_user_id := Some user_id, gu_message_id := Some message_id,
                        gu_callback_query_id := Some query_id, gu_callback_data := Some data\<rparr>))
                 | _ \<Rightarrow> Inl ValueError))
      | _ \<Rightarrow> Inr None)"

definition parse_migration :: "ustring \<Rightarrow> json \<Rightarrow> json \<Rightarrow> exn + group_update option" where
  "parse_migration update_id old_chat new_chat =
     (case (old_chat, new_chat) of
        (JInt old_chat_id, JInt new_chat_id) \<Rightarrow>
          if 0 \<le> old_chat_id \<or> 0 \<le> new_chat_id \<or> old_chat_id = new_chat_id then Inl ValueError
          else Inr (Some ((plain_update update_id (asc ''chat_migrated'') old_chat_id)
                 \<lparr>gu_migrate_to_chat_id := Some new_chat_id\<rparr>))
      | _ \<Rightarrow> Inl ValueError)"

text \<open>\<open>/tie(?:@[A-Za-z0-9_]{5,32})?\<close>.\<close>

definition is_tie_command :: "ustring \<Rightarrow> bool" where
  "is_tie_command s \<longleftrightarrow>
     s = asc ''/tie'' \<or> starts_with (asc ''/tie@'') s \<and> valid_bot_username (remove_prefix (asc ''/tie@'') s)"

definition parse_group_message :: "ustring \<Rightarrow> json_object \<Rightarrow> exn + group_update option" where
  "parse_group_message update_id message =
     then_sum (group_chat_id (json_get message (asc ''chat''))) (\<lambda>chat.
       case chat of
         None \<Rightarrow> Inr None
       | Some chat_id \<Rightarrow>
           (let migrate_to = json_get message (asc ''migrate_to_chat_id'');
                migrate_from = json_get message (asc ''migrate_from_chat_id'')
            in if migrate_to \<noteq> JNull \<or> migrate_from \<noteq> JNull then
                 parse_migration update_id (if migrate_from \<noteq> JNull then migrate_from else JInt chat_id)
                   (if migrate_to \<noteq> JNull then migrate_to else JInt chat_id)
               else
                 (case (json_get message (asc ''text''), sender_id (json_get message (asc ''from''))) of
                    (JString txt, JInt user_id) \<Rightarrow>
                      if is_tie_command (strip txt) then
                        Inr (Some ((plain_update update_id (asc ''tie_command'') chat_id)
                          \<lparr>gu_actor_user_id := Some user_id,
                           gu_message_id :=
                             (case json_get message (asc ''message_id'') of JInt i \<Rightarrow> Some i | _ \<Rightarrow> None)\<rparr>))
                      else Inr (Some (ignored update_id chat_id))
                  | _ \<Rightarrow> Inr (Some (ignored update_id chat_id)))))"

definition parse_telegram_group_update :: "json_object \<Rightarrow> exn + group_update option" where
  "parse_telegram_group_update update =
     (case json_get update (asc ''update_id'') of
        JInt i \<Rightarrow>
          (let update_id = show_int i
           in if_object (json_get update (asc ''my_chat_member'')) (parse_bot_membership update_id)
               (if_object (json_get update (asc ''chat_member'')) (parse_chat_member update_id)
                 (if_object (json_get update (asc ''callback_query'')) (parse_group_callback update_id)
                   (if_object (json_get update (asc ''message'')) (parse_group_message update_id) (Inr None)))))
      | _ \<Rightarrow> Inl ValueError)"

section \<open>Messages of a person\<close>

record inbound_message =
  im_identity :: bot_identity
  im_update_id :: ustring
  im_text :: ustring
  im_callback :: "ustring option"
  im_unsupported :: bool
  im_chat_id :: "int option"
  im_peer_id :: "int option"
  im_telegram_username :: "ustring option"

text \<open>Constructing a message validates the id of its author and the user name.\<close>

definition inbound :: "inbound_message \<Rightarrow> json \<Rightarrow> exn + inbound_message" where
  "inbound im username =
     (if snd (im_identity im) \<le> 0 then Inl ValueError
      else
        (case username of
           JNull \<Rightarrow> Inr (im\<lparr>im_telegram_username := None\<rparr>)
         | JString s \<Rightarrow>
             if valid_bot_username s then Inr (im\<lparr>im_telegram_username := Some s\<rparr>) else Inl ValueError
         | _ \<Rightarrow> Inl ValueError))"

definition plain_message :: "platform \<Rightarrow> int \<Rightarrow> ustring \<Rightarrow> inbound_message" where
  "plain_message p user_id update_id =
     \<lparr>im_identity = (p, user_id), im_update_id = update_id, im_text = [], im_callback = None,
      im_unsupported = False, im_chat_id = None, im_peer_id = None, im_telegram_username = None\<rparr>"

definition parse_private_callback :: "ustring \<Rightarrow> json \<Rightarrow> exn + inbound_message" where
  "parse_private_callback update_id v =
     then_sum (member_of v) (\<lambda>callback.
     then_sum (member_of (json_get_or callback (asc ''message'') (JObject []))) (\<lambda>message.
     then_sum (member_of (json_get_or message (asc ''chat'') (JObject []))) (\<lambda>chat.
     then_sum (member_of (json_get_or callback (asc ''from'') (JObject []))) (\<lambda>sender.
       case (json_get sender (asc ''id''), json_get callback (asc ''data''),
             json_get_or chat (asc ''id'') (json_get sender (asc ''id''))) of
         (JInt user_id, JString data, JInt chat_id) \<Rightarrow>
           inbound ((plain_message TELEGRAM user_id update_id)
               \<lparr>im_callback := Some (decode_callback data), im_chat_id := Some chat_id\<rparr>)
             (json_get sender (asc ''username''))
       | _ \<Rightarrow> Inl ValueError))))"

definition parse_private_message :: "ustring \<Rightarrow> json_object \<Rightarrow> exn + inbound_message" where
  "parse_private_message update_id message =
     then_sum (member_of (json_get_or message (asc ''from'') (JObject []))) (\<lambda>sender.
     then_sum (member_of (json_get_or message (asc ''chat'') (JObject []))) (\<lambda>chat.
       case (json_get sender (asc ''id''), json_get chat (asc ''id''), json_get message (asc ''text'')) of
         (JInt user_id, JInt chat_id, JString txt) \<Rightarrow>
           inbound ((plain_message TELEGRAM user_id update_id)\<lparr>im_text := txt, im_chat_id := Some chat_id\<rparr>)
             (json_get sender (asc ''username''))
       | (JInt user_id, JInt chat_id, JNull) \<Rightarrow>
           inbound ((plain_message TELEGRAM user_id update_id)\<lparr>im_unsupported := True, im_chat_id := Some chat_id\<rparr>)
             (json_get sender (asc ''username''))
       | _ \<Rightarrow> Inl ValueError))"

definition parse_telegram_update :: "json_object \<Rightarrow> exn + inbound_message" where
  "parse_telegram_update update =
     (case json_get update (asc ''update_id'') of
        JInt i \<Rightarrow>
          (case dict_get update (asc ''callback_query'') of
             Some callback \<Rightarrow> parse_private_callback (show_int i) callback
           | None \<Rightarrow>
               (case json_get update (asc ''message'') of
                  JObject message \<Rightarrow> parse_private_message (show_int i) message
                | _ \<Rightarrow> Inl ValueError))
      | _ \<Rightarrow> Inl ValueError)"

section \<open>VK\<close>

definition VK_MAX_KEYBOARD_ROWS :: nat where
  "VK_MAX_KEYBOARD_ROWS = 10"

definition VK_MAX_BUTTONS_PER_ROW :: nat where
  "VK_MAX_BUTTONS_PER_ROW = 4"

definition VK_MAX_KEYBOARD_BUTTONS :: nat where
  "VK_MAX_KEYBOARD_BUTTONS = VK_MAX_KEYBOARD_ROWS * VK_MAX_BUTTONS_PER_ROW"

definition VK_MAX_BUTTON_LABEL_LENGTH :: nat where
  "VK_MAX_BUTTON_LABEL_LENGTH = 40"

definition VK_BUTTON_LABEL_SUFFIX_LENGTH :: nat where
  "VK_BUTTON_LABEL_SUFFIX_LENGTH = 12"

definition vk_button_label :: "ustring \<Rightarrow> ustring" where
  "vk_button_label label =
     (if length label \<le> VK_MAX_BUTTON_LABEL_LENGTH then label
      else take (VK_MAX_BUTTON_LABEL_LENGTH - VK_BUTTON_LABEL_SUFFIX_LENGTH - 1) label @ [8230]
             @ take_last VK_BUTTON_LABEL_SUFFIX_LENGTH label)"

text \<open>
  The keyboard before it is serialised: rows of labels with their payloads, the JSON text of an object
  with the value of the button.
\<close>

definition button_payload :: "button \<Rightarrow> ustring" where
  "button_payload b = [123] @ dumps_string (asc ''value'') @ [58, 32] @ dumps_string (bt_value b) @ [125]"

function rows_of :: "nat \<Rightarrow> 'a list \<Rightarrow> 'a list list" where
  "rows_of n xs = (if n = 0 \<or> xs = [] then [] else take n xs # rows_of n (drop n xs))"
  by pat_completeness auto

termination by (relation "measure (\<lambda>(n, xs). length xs)") auto

declare rows_of.simps [simp del]

definition vk_keyboard :: "button list \<Rightarrow> (ustring \<times> ustring) list list option" where
  "vk_keyboard buttons =
     (if buttons = [] \<or> VK_MAX_KEYBOARD_BUTTONS < length buttons then None
      else Some (map (map (\<lambda>b. (vk_button_label (bt_label b), button_payload b)))
             (rows_of ((length buttons + VK_MAX_KEYBOARD_ROWS - 1) div VK_MAX_KEYBOARD_ROWS) buttons)))"

definition truthy_json :: "json \<Rightarrow> bool" where
  "truthy_json v =
     (case v of
        JNull \<Rightarrow> False | JBool b \<Rightarrow> b | JInt i \<Rightarrow> i \<noteq> 0 | JFloat s \<Rightarrow> list_ex (\<lambda>c. c \<notin> {45, 46, 48}) (takeWhile (\<lambda>c. c \<noteq> 69 \<and> c \<noteq> 101) s)
      | JString s \<Rightarrow> s \<noteq> [] | JArray vs \<Rightarrow> vs \<noteq> [] | JObject ms \<Rightarrow> ms \<noteq> [])"

definition pressed_value :: "json \<Rightarrow> ustring option" where
  "pressed_value payload =
     (case payload of
        JString raw \<Rightarrow>
          (case json_loads raw of
             Some (JObject decoded) \<Rightarrow>
               (case json_get decoded (asc ''value'') of JString v \<Rightarrow> Some v | _ \<Rightarrow> None)
           | _ \<Rightarrow> None)
      | _ \<Rightarrow> None)"

definition vk_message_of :: "json \<Rightarrow> json" where
  "vk_message_of v = (case v of JObject obj \<Rightarrow> json_get_or obj (asc ''message'') v | _ \<Rightarrow> JObject [])"

definition parse_vk_event :: "json_object \<Rightarrow> exn + inbound_message" where
  "parse_vk_event event =
     (case json_get event (asc ''event_id'') of
        JString event_id \<Rightarrow>
          if event_id = [] then Inl ValueError
          else
            then_sum (member_of (vk_message_of (json_get_or event (asc ''object'') (JObject [])))) (\<lambda>message.
              case (json_get message (asc ''from_id''),
                    json_get_or message (asc ''peer_id'') (json_get message (asc ''from_id'')),
                    json_get_or message (asc ''text'') (JString [])) of
                (JInt from_id, JInt peer_id, JString txt) \<Rightarrow>
                  (let callback = pressed_value (json_get message (asc ''payload''))
                   in inbound ((plain_message VK from_id event_id)
                        \<lparr>im_text := txt, im_callback := callback, im_peer_id := Some peer_id,
                         im_unsupported :=
                           truthy_json (json_get message (asc ''attachments''))
                           \<or> json_get message (asc ''geo'') \<noteq> JNull
                           \<or> truthy_json (json_get message (asc ''fwd_messages''))
                           \<or> json_get message (asc ''action'') \<noteq> JNull
                           \<or> callback = None \<and> strip txt = []\<rparr>) JNull)
              | _ \<Rightarrow> Inl ValueError)
      | _ \<Rightarrow> Inl ValueError)"

section \<open>Buttons come back as they were sent\<close>

lemma hex_value_digit [simp]: "d < 16 \<Longrightarrow> hex_value (hex_digit d) = Some d"
  by (auto simp: hex_value_def hex_digit_def)

lemma no_low_surrogate [simp]: "x < 55296 \<Longrightarrow> low_surrogate x s = None"
  by (auto simp: low_surrogate_def split: list.splits option.splits)

lemma hex4_control: "c < 32 \<Longrightarrow> hex4 48 48 (hex_digit (c div 16)) (hex_digit (c mod 16)) = Some c"
proof -
  assume c: "c < 32"
  then have "c div 16 < 16"
    by simp
  moreover have "hex_value 48 = Some 0"
    by (simp add: hex_value_def)
  ultimately show ?thesis
    by (simp add: hex4_def)
qed

lemma scan_escaped: "scan_string (escaped c @ s) = with_char c (scan_string s)"
proof -
  consider "c = 34 \<or> c = 92 \<or> c = 10 \<or> c = 13 \<or> c = 9 \<or> c = 12 \<or> c = 8"
    | "c < 32" "c \<notin> {34, 92, 10, 13, 9, 12, 8}" | "32 \<le> c" "c \<noteq> 34" "c \<noteq> 92"
    by fastforce
  then show ?thesis
  proof cases
    case 1
    then show ?thesis
      by (elim disjE) (simp_all add: escaped_def unescaped_def)
  next
    case 2
    then show ?thesis
      by (simp add: escaped_def hex4_control)
  next
    case 3
    then show ?thesis
      by (simp add: escaped_def)
  qed
qed

lemma scan_dumped: "scan_string (concat (map escaped s) @ 34 # r) = Some (s, r)"
proof (induction s)
  case Nil
  show ?case
    by simp
next
  case (Cons c s)
  have "scan_string (concat (map escaped (c # s)) @ 34 # r) = with_char c (scan_string (concat (map escaped s) @ 34 # r))"
    by (simp only: list.map concat.simps append_assoc scan_escaped)
  then show ?case
    by (simp add: Cons.IH with_char_def)
qed

definition value_key :: ustring where
  "value_key = asc ''value''"

lemma payload_text: "button_payload b = 123 # 34 # concat (map escaped value_key) @ 34 # 58 # 32 # 34 # concat (map escaped (bt_value b)) @ 34 # [125]"
  by (simp only: button_payload_def dumps_string_def value_key_def append.simps append_assoc)

lemma loads_payload: "json_loads (button_payload b) = Some (JObject [(value_key, JString (bt_value b))])"
proof -
  define n where "n = 2 * length (button_payload b) - 3"
  then have n: "2 * length (button_payload b) = Suc (Suc (Suc n))"
    by (simp add: payload_text)
  have members: "json_members (Suc (Suc n)) []
      (34 # concat (map escaped value_key) @ 34 # 58 # 32 # 34 # concat (map escaped (bt_value b)) @ 34 # [125])
    = Some ([(value_key, JString (bt_value b))], [])"
    by (simp add: scan_dumped skip_space_def is_json_space_def dict_put_def)
  show ?thesis
    unfolding json_loads_def n
    using members by (simp add: payload_text skip_space_def is_json_space_def)
qed

lemma pressed_payload: "pressed_value (JString (button_payload b)) = Some (bt_value b)"
  by (simp add: pressed_value_def loads_payload json_get_def dict_get_def value_key_def)

lemma concat_rows_of: "0 < n \<Longrightarrow> concat (rows_of n xs) = xs"
  by (induction n xs rule: rows_of.induct) (subst rows_of.simps, simp)

lemma rows_of_bounds: "row \<in> set (rows_of n xs) \<Longrightarrow> 0 < length row \<and> length row \<le> n"
proof (induction n xs rule: rows_of.induct)
  case (1 n xs)
  show ?case
  proof (cases "n = 0 \<or> xs = []")
    case True
    with 1(2) show ?thesis
      by (subst (asm) rows_of.simps) simp
  next
    case False
    with 1(2) have "row = take n xs \<or> row \<in> set (rows_of n (drop n xs))"
      by (subst (asm) rows_of.simps) simp
    with False 1(1) show ?thesis
      by auto
  qed
qed

lemma length_rows_of: "length xs \<le> k * n \<Longrightarrow> length (rows_of n xs) \<le> k"
proof (induction k arbitrary: xs)
  case 0
  then show ?case
    by (subst rows_of.simps) auto
next
  case (Suc k)
  have "length (rows_of n (drop n xs)) \<le> k" if "n \<noteq> 0"
    using Suc by simp
  then show ?case
    by (subst rows_of.simps) auto
qed

lemma length_vk_button_label: "length (vk_button_label label) \<le> VK_MAX_BUTTON_LABEL_LENGTH"
  by (simp add: vk_button_label_def VK_MAX_BUTTON_LABEL_LENGTH_def VK_BUTTON_LABEL_SUFFIX_LENGTH_def take_last_def)

lemma vk_row_width:
  assumes "0 < m" and "m \<le> VK_MAX_KEYBOARD_BUTTONS"
  shows "0 < (m + VK_MAX_KEYBOARD_ROWS - 1) div VK_MAX_KEYBOARD_ROWS"
    and "(m + VK_MAX_KEYBOARD_ROWS - 1) div VK_MAX_KEYBOARD_ROWS \<le> VK_MAX_BUTTONS_PER_ROW"
    and "m \<le> VK_MAX_KEYBOARD_ROWS * ((m + VK_MAX_KEYBOARD_ROWS - 1) div VK_MAX_KEYBOARD_ROWS)"
  using assms unfolding VK_MAX_KEYBOARD_BUTTONS_def VK_MAX_KEYBOARD_ROWS_def VK_MAX_BUTTONS_PER_ROW_def
  by linarith+

lemma concat_keyboard:
  assumes "vk_keyboard buttons = Some rows"
  shows "concat rows = map (\<lambda>b. (vk_button_label (bt_label b), button_payload b)) buttons"
proof -
  let ?n = "(length buttons + VK_MAX_KEYBOARD_ROWS - 1) div VK_MAX_KEYBOARD_ROWS"
  from assms have some: "0 < length buttons" "length buttons \<le> VK_MAX_KEYBOARD_BUTTONS"
    and rows: "rows = map (map (\<lambda>b. (vk_button_label (bt_label b), button_payload b))) (rows_of ?n buttons)"
    by (auto simp: vk_keyboard_def split: if_splits)
  show ?thesis
    by (simp only: rows map_concat[symmetric] concat_rows_of[OF vk_row_width(1)[OF some]])
qed

text \<open>
  C29. A VK keyboard is within the limits of the platform: at most ten rows, at most four buttons in a row,
  no empty row, no label over forty characters.
\<close>

theorem vk_keyboard_fits:
  assumes "vk_keyboard buttons = Some rows"
  shows "0 < length rows \<and> length rows \<le> VK_MAX_KEYBOARD_ROWS
    \<and> (\<forall>row \<in> set rows. 0 < length row \<and> length row \<le> VK_MAX_BUTTONS_PER_ROW
          \<and> (\<forall>b \<in> set row. length (fst b) \<le> VK_MAX_BUTTON_LABEL_LENGTH))"
proof -
  let ?n = "(length buttons + VK_MAX_KEYBOARD_ROWS - 1) div VK_MAX_KEYBOARD_ROWS"
  from assms have some: "buttons \<noteq> []" "length buttons \<le> VK_MAX_KEYBOARD_BUTTONS"
    and rows: "rows = map (map (\<lambda>b. (vk_button_label (bt_label b), button_payload b))) (rows_of ?n buttons)"
    by (auto simp: vk_keyboard_def split: if_splits)
  note width = vk_row_width[of "length buttons", OF _ some(2)]
  have "rows \<noteq> []"
    using concat_keyboard[OF assms] some by auto
  moreover have "length rows \<le> VK_MAX_KEYBOARD_ROWS"
    using some width(3) unfolding rows length_map by (intro length_rows_of) simp
  moreover have "length row \<le> VK_MAX_BUTTONS_PER_ROW \<and> 0 < length row" if "row \<in> set rows" for row
    using that some width(2) rows_of_bounds unfolding rows by fastforce
  moreover have "length (fst b) \<le> VK_MAX_BUTTON_LABEL_LENGTH" if "row \<in> set rows" "b \<in> set row" for row b
    using that length_vk_button_label unfolding rows by auto
  ultimately show ?thesis
    by simp
qed

text \<open>
  C28. Pressing a button of a VK keyboard sends back its value: the payloads of the keyboard, read the way
  the adapter reads the payload of a message, are the values of the buttons in their order, whatever
  characters the values hold.
\<close>

theorem vk_buttons_come_back:
  assumes "vk_keyboard buttons = Some rows"
  shows "map (\<lambda>b. pressed_value (JString (snd b))) (concat rows) = map (\<lambda>b. Some (bt_value b)) buttons"
  by (simp only: concat_keyboard[OF assms] map_map comp_def snd_conv pressed_payload)

definition sample_buttons :: "button list" where
  "sample_buttons =
     map (\<lambda>i. \<lparr>bt_label = replicate 50 i, bt_value = [34, 10, 31, i, 92]\<rparr>) [97, 98, 99, 100, 101, 102, 103, 104, 105, 106, 107]"

lemma vk_keyboard_fits_witness:
  "\<exists>rows. vk_keyboard sample_buttons = Some rows \<and> 0 < length rows \<and> length rows \<le> VK_MAX_KEYBOARD_ROWS"
proof -
  have "vk_keyboard sample_buttons \<noteq> None"
    by (simp add: sample_buttons_def vk_keyboard_def VK_MAX_KEYBOARD_BUTTONS_def VK_MAX_KEYBOARD_ROWS_def
      VK_MAX_BUTTONS_PER_ROW_def)
  then obtain rows where "vk_keyboard sample_buttons = Some rows"
    by blast
  with vk_keyboard_fits[OF this] show ?thesis
    by blast
qed

lemma vk_buttons_come_back_witness:
  "\<exists>rows. vk_keyboard sample_buttons = Some rows
     \<and> map (\<lambda>b. pressed_value (JString (snd b))) (concat rows) = map (\<lambda>b. Some (bt_value b)) sample_buttons"
proof -
  have "vk_keyboard sample_buttons \<noteq> None"
    by (simp add: sample_buttons_def vk_keyboard_def VK_MAX_KEYBOARD_BUTTONS_def VK_MAX_KEYBOARD_ROWS_def
      VK_MAX_BUTTONS_PER_ROW_def)
  then obtain rows where "vk_keyboard sample_buttons = Some rows"
    by blast
  with vk_buttons_come_back[OF this] show ?thesis
    by blast
qed

section \<open>What the updates of Telegram carry\<close>

lemma decode_encode: "\<not> starts_with (asc ''ag:sc-'') v \<Longrightarrow> decode_callback (encode_callback v) = v"
  by (auto simp: decode_callback_def encode_callback_def starts_with_iff remove_prefix_def)

text \<open>
  Pressing an inline button in a private chat is a message that carries the value of the button: the
  short form the value has on the way is undone, for every value that does not begin with the short prefix
  itself.
\<close>

theorem telegram_buttons_come_back:
  assumes "parse_telegram_update update = Inr im"
    and "dict_get update (asc ''callback_query'') = Some (JObject callback)"
    and "json_get callback (asc ''data'') = JString (encode_callback v)"
    and "\<not> starts_with (asc ''ag:sc-'') v"
  shows "im_callback im = Some v \<and> fst (im_identity im) = TELEGRAM \<and> 0 < snd (im_identity im)
    \<and> (\<exists>i. json_get update (asc ''update_id'') = JInt i \<and> im_update_id im = show_int i)"
  using assms(1,2,3) decode_encode[OF assms(4)]
  by (auto simp: parse_telegram_update_def parse_private_callback_def member_of_def inbound_def plain_message_def
      split: json.splits if_splits dest!: then_sum_Inr)

definition sample_press :: json_object where
  "sample_press =
     (let sender = JObject [(asc ''id'', JInt 7)]
      in [(asc ''update_id'', JInt 12),
          (asc ''callback_query'',
            JObject [(asc ''from'', sender), (asc ''data'', JString (encode_callback (asc ''ag:schedule-close:x'')))])])"

lemma telegram_buttons_come_back_witness:
  "\<exists>im. parse_telegram_update sample_press = Inr im \<and> im_callback im = Some (asc ''ag:schedule-close:x'')"
proof -
  have "\<exists>im. parse_telegram_update sample_press = Inr im"
    by (simp add: sample_press_def parse_telegram_update_def parse_private_callback_def json_get_def json_get_or_def
      dict_get_def member_of_def inbound_def plain_message_def Let_def)
  then obtain im where im: "parse_telegram_update sample_press = Inr im" ..
  have "im_callback im = Some (asc ''ag:schedule-close:x'')"
    using telegram_buttons_come_back[OF im, of _ "asc ''ag:schedule-close:x''"]
    by (simp add: sample_press_def json_get_def dict_get_def Let_def)
  with im show ?thesis
    by blast
qed

text \<open>Only a message about a migration makes an update that moves a chat.\<close>

definition moves_nothing :: "exn + group_update option \<Rightarrow> bool" where
  "moves_nothing r \<longleftrightarrow> (\<forall>u. r = Inr (Some u) \<longrightarrow> gu_action u \<noteq> asc ''chat_migrated'')"

lemma moves_nothing_then_sum: "(\<And>v. moves_nothing (k v)) \<Longrightarrow> moves_nothing (then_sum r k)"
  by (cases r) (auto simp: moves_nothing_def)

lemma moves_nothing_simps [simp]:
  "moves_nothing (Inl x)" "moves_nothing (Inr None)"
  "moves_nothing (Inr (Some u)) \<longleftrightarrow> gu_action u \<noteq> asc ''chat_migrated''"
  by (simp_all add: moves_nothing_def)

lemma gu_action_plain [simp]:
  "gu_action (plain_update i a c) = a" "gu_action (ignored i c) = asc ''ignored''"
  by (simp_all add: ignored_def plain_update_def)

lemma gu_action_joined: "gu_action (joined_member i c v) \<noteq> asc ''chat_migrated''"
  by (simp add: joined_member_def split: json.split)

lemma moves_nothing_bot_membership: "moves_nothing (parse_bot_membership i m)"
  unfolding parse_bot_membership_def by (intro moves_nothing_then_sum) (simp split: option.split)

lemma moves_nothing_chat_member: "moves_nothing (parse_chat_member i m)"
  unfolding parse_chat_member_def
  by (intro moves_nothing_then_sum)
    (auto split: option.split json.split intro!: moves_nothing_then_sum simp: gu_action_joined[simplified])

lemma moves_nothing_group_callback: "moves_nothing (parse_group_callback i m)"
  unfolding parse_group_callback_def
  by (simp split: json.split) (intro allI impI moves_nothing_then_sum, simp split: option.split json.split)

definition migration_ok :: "exn + group_update option \<Rightarrow> bool" where
  "migration_ok r \<longleftrightarrow>
     (\<forall>u. r = Inr (Some u) \<longrightarrow> gu_action u = asc ''chat_migrated'' \<longrightarrow>
        (\<exists>n. gu_migrate_to_chat_id u = Some n \<and> n < 0 \<and> gu_chat_id u < 0 \<and> n \<noteq> gu_chat_id u))"

lemma migration_ok_nothing: "moves_nothing r \<Longrightarrow> migration_ok r"
  by (simp add: moves_nothing_def migration_ok_def)

lemma migration_ok_then_sum: "(\<And>v. migration_ok (k v)) \<Longrightarrow> migration_ok (then_sum r k)"
  by (cases r) (auto simp: migration_ok_def)

lemma migration_ok_parsed: "migration_ok (parse_migration i old_chat new_chat)"
  by (auto simp: migration_ok_def parse_migration_def plain_update_def split: json.splits if_splits)

lemma migration_ok_message: "migration_ok (parse_group_message i m)"
  unfolding parse_group_message_def Let_def
  by (intro migration_ok_then_sum)
    (auto simp: migration_ok_parsed split: option.split json.split intro!: migration_ok_nothing)

lemma migration_ok_if_object:
  "(\<And>obj. migration_ok (k obj)) \<Longrightarrow> migration_ok other \<Longrightarrow> migration_ok (if_object v k other)"
  by (simp add: if_object_def split: json.split)

lemma migration_ok_update: "migration_ok (parse_telegram_group_update update)"
proof (cases "json_get update (asc ''update_id'')")
  case (JInt i)
  show ?thesis
    unfolding parse_telegram_group_update_def JInt json.case Let_def
    by (intro migration_ok_if_object migration_ok_message moves_nothing_bot_membership[THEN migration_ok_nothing]
        moves_nothing_chat_member[THEN migration_ok_nothing] moves_nothing_group_callback[THEN migration_ok_nothing])
      (simp add: migration_ok_nothing)
qed (simp_all add: parse_telegram_group_update_def migration_ok_nothing)

text \<open>
  A parsed update that moves a chat names two different groups: what the handler of migrations gets is
  the id of a group before and another one after.
\<close>

theorem migrations_name_two_groups:
  assumes "parse_telegram_group_update update = Inr (Some u)"
    and "gu_action u = asc ''chat_migrated''"
  shows "\<exists>n. gu_migrate_to_chat_id u = Some n \<and> n < 0 \<and> gu_chat_id u < 0 \<and> n \<noteq> gu_chat_id u"
  using migration_ok_update[of update] assms unfolding migration_ok_def by blast

definition sample_migration :: json_object where
  "sample_migration =
     [(asc ''update_id'', JInt 12),
      (asc ''message'',
        JObject [(asc ''chat'', JObject [(asc ''id'', JInt (-5)), (asc ''type'', JString (asc ''group''))]),
          (asc ''migrate_to_chat_id'', JInt (-1005))])]"

lemma migrations_name_two_groups_witness:
  "\<exists>u n. parse_telegram_group_update sample_migration = Inr (Some u) \<and> gu_migrate_to_chat_id u = Some n \<and> n < 0"
proof -
  have "\<exists>u. parse_telegram_group_update sample_migration = Inr (Some u) \<and> gu_action u = asc ''chat_migrated''"
    by (simp add: sample_migration_def parse_telegram_group_update_def parse_group_message_def if_object_def
      json_get_def dict_get_def Let_def group_chat_id_def in_strings_def parse_migration_def plain_update_def)
  then obtain u where u: "parse_telegram_group_update sample_migration = Inr (Some u)" "gu_action u = asc ''chat_migrated''"
    by blast
  from migrations_name_two_groups[OF this] u(1) show ?thesis
    by blast
qed

end
