(* ===== verification/Replies.thy ===== *)
theory Replies
  imports Cursors Messengers
begin

text \<open>
  What the dialogues are made of: responses, steps that may change the profile of the person, the buttons
  and texts of \<open>application/conversation_support.py\<close> that players see, and the roles of
  \<open>application/conversation_admin_access.py\<close>.
\<close>

section \<open>Responses and steps\<close>

record bot_response =
  br_text :: message
  br_buttons :: "button list"
  br_deferred :: bool
  br_command_enqueued :: bool
  br_silent :: bool

definition response :: "ustring \<Rightarrow> button list \<Rightarrow> bot_response" where
  "response txt buttons =
     \<lparr>br_text = Composed txt, br_buttons = buttons, br_deferred = False, br_command_enqueued = False,
      br_silent = False\<rparr>"

text \<open>A command is queued, the worker will answer.\<close>

definition queued_response :: "ustring \<Rightarrow> bot_response" where
  "queued_response txt = (response txt [])\<lparr>br_deferred := True, br_command_enqueued := True\<rparr>"

text \<open>Only composed texts are put behind another text.\<close>

definition prefixed :: "ustring \<Rightarrow> bot_response \<Rightarrow> bot_response" where
  "prefixed p r = r\<lparr>br_text := (case br_text r of Composed s \<Rightarrow> Composed (p @ s) | m \<Rightarrow> m)\<rparr>"

text \<open>
  A step of a dialogue runs services and changes the profile, which is passed along.  The context of the
  dialogue is a JSON object; reading a key that is not there raises \<open>KeyError\<close>.  Assigning a field of the
  questionnaire validates the profile.
\<close>

type_synonym 'a dialog = "user \<Rightarrow> ('a \<times> user) service"

definition give :: "'a \<Rightarrow> 'a dialog" where
  "give x u = ret (x, u)"

definition thenDo :: "'a dialog \<Rightarrow> ('a \<Rightarrow> 'b dialog) \<Rightarrow> 'b dialog" where
  "thenDo m k u = andThen (m u) (\<lambda>(x, u'). k x u')"

definition ask :: "'a service \<Rightarrow> 'a dialog" where
  "ask s u = andThen s (\<lambda>x. ret (x, u))"

definition with_user :: "(user \<Rightarrow> 'a dialog) \<Rightarrow> 'a dialog" where
  "with_user f u = f u u"

definition fail :: "exn \<Rightarrow> 'a dialog" where
  "fail x u = throw x"

definition assign :: "(user \<Rightarrow> user) \<Rightarrow> unit dialog" where
  "assign f u = (case user_validate (f u) of None \<Rightarrow> throw ValueError | Some v \<Rightarrow> ret ((), v))"

definition assign_base :: "(user_base \<Rightarrow> user_base) \<Rightarrow> unit dialog" where
  "assign_base f = assign (with_base f)"

definition set_dialog :: "(user_base \<Rightarrow> user_base) \<Rightarrow> unit dialog" where
  "set_dialog f u = ret ((), with_base f u)"

definition into :: "ustring \<Rightarrow> unit dialog" where
  "into state = set_dialog (\<lambda>b. b\<lparr>us_dialog_state := state\<rparr>)"

definition new_context :: "json_object \<Rightarrow> unit dialog" where
  "new_context ctx = set_dialog (\<lambda>b. b\<lparr>us_dialog_context := ctx\<rparr>)"

definition remember :: "ustring \<Rightarrow> json \<Rightarrow> unit dialog" where
  "remember key v = set_dialog (\<lambda>b. b\<lparr>us_dialog_context := dict_put key v (us_dialog_context b)\<rparr>)"

definition recall :: "(json_object \<Rightarrow> 'a dialog) \<Rightarrow> 'a dialog" where
  "recall k = with_user (\<lambda>u. k (us_dialog_context (base u)))"

definition state_of :: "user \<Rightarrow> ustring" where
  "state_of u = us_dialog_state (base u)"

definition needed :: "json_object \<Rightarrow> ustring \<Rightarrow> (json \<Rightarrow> 'a dialog) \<Rightarrow> 'a dialog" where
  "needed ctx key k = (case dict_get ctx key of None \<Rightarrow> fail KeyError | Some v \<Rightarrow> k v)"

definition says :: "ustring \<Rightarrow> button list \<Rightarrow> bot_response dialog" where
  "says txt buttons = give (response txt buttons)"

definition clear_dialog :: "unit dialog" where
  "clear_dialog = set_dialog (\<lambda>b. b\<lparr>us_dialog_state := asc ''IDLE'', us_dialog_context := []\<rparr>)"

definition says_cleared :: "ustring \<Rightarrow> bot_response dialog" where
  "says_cleared txt = thenDo clear_dialog (\<lambda>_. says txt [])"

text \<open>\<open>str(v)\<close> of a value of the context; a list or an object is never read as a text.\<close>

definition json_text :: "json \<Rightarrow> ustring" where
  "json_text v =
     (case v of
        JString s \<Rightarrow> s | JNull \<Rightarrow> asc ''None'' | JBool b \<Rightarrow> (if b then asc ''True'' else asc ''False'')
      | JInt i \<Rightarrow> show_int i | JFloat s \<Rightarrow> s | _ \<Rightarrow> [])"

definition optional_text :: "ustring option \<Rightarrow> json" where
  "optional_text v = (case v of None \<Rightarrow> JNull | Some s \<Rightarrow> JString s)"

section \<open>Buttons\<close>

definition PROFILE :: ustring where
  "PROFILE = [128221, 32, 1055, 1088, 1086, 1092, 1080, 1083, 1100]"

definition EDIT_PROFILE :: ustring where
  "EDIT_PROFILE =
     [1056, 1077, 1076, 1072, 1082, 1090, 1080, 1088, 1086, 1074, 1072, 1090, 1100, 32, 1087,
      1088, 1086, 1092, 1080, 1083, 1100]"

definition REFILL_PROFILE :: ustring where
  "REFILL_PROFILE =
     [1047, 1072, 1087, 1086, 1083, 1085, 1080, 1090, 1100, 32, 1087, 1088, 1086, 1092, 1080,
      1083, 1100, 32, 1079, 1072, 1085, 1086, 1074, 1086]"

definition PROFILE_EDITED :: ustring where
  "PROFILE_EDITED =
     [1055, 1088, 1086, 1092, 1080, 1083, 1100, 32, 1091, 1089, 1087, 1077, 1096, 1085, 1086, 32,
      1080, 1079, 1084, 1077, 1085, 1105, 1085, 33]"

definition REMOVE_NICKNAME :: ustring where
  "REMOVE_NICKNAME =
     [1059, 1073, 1088, 1072, 1090, 1100, 32, 1085, 1080, 1082, 1085, 1077, 1081, 1084]"

definition ENLIST_LABEL :: ustring where
  "ENLIST_LABEL =
     [127918, 32, 1047, 1072, 1087, 1080, 1089, 1072, 1090, 1100, 1089, 1103, 32, 1085, 1072, 32,
      1080, 1075, 1088, 1091]"

definition CONFIRM_LABEL :: ustring where
  "CONFIRM_LABEL =
     [9989, 32, 1055, 1086, 1076, 1090, 1074, 1077, 1088, 1076, 1080, 1090, 1100, 32, 1091, 1095,
      1072, 1089, 1090, 1080, 1077]"

definition CHARACTER_LABEL :: ustring where
  "CHARACTER_LABEL =
     [127917, 32, 1055, 1086, 1078, 1077, 1083, 1072, 1085, 1080, 1103, 32, 1087, 1086, 32, 1087,
      1077, 1088, 1089, 1086, 1085, 1072, 1078, 1091]"

definition GAME_WISHES :: ustring where
  "GAME_WISHES =
     [127917, 32, 1055, 1086, 1078, 1077, 1083, 1072, 1085, 1080, 1103, 32, 1087, 1086, 32, 1080,
      1075, 1088, 1077]"

definition CHARACTER_WISHES :: ustring where
  "CHARACTER_WISHES =
     [1055, 1086, 1078, 1077, 1083, 1072, 1085, 1080, 1103, 32, 1087, 1086, 32, 1087, 1077, 1088,
      1089, 1086, 1085, 1072, 1078, 1091]"

definition CO_PLAYER_WISHES :: ustring where
  "CO_PLAYER_WISHES =
     [1055, 1086, 1078, 1077, 1083, 1072, 1085, 1080, 1103, 32, 1087, 1086, 32, 1089, 1086, 1080,
      1075, 1088, 1086, 1082, 1072, 1084]"

definition CO_PLAYER_WISH_SKIP :: ustring where
  "CO_PLAYER_WISH_SKIP = asc ''wishes:co-player:skip''"

definition CANCEL_LABEL :: ustring where
  "CANCEL_LABEL =
     [10060, 32, 1054, 1090, 1084, 1077, 1085, 1080, 1090, 1100, 32, 1091, 1095, 1072, 1089,
      1090, 1080, 1077]"

definition MY_GAMES :: ustring where
  "MY_GAMES = [1052, 1086, 1080, 32, 1080, 1075, 1088, 1099]"

definition ADMIN_LABEL :: ustring where
  "ADMIN_LABEL =
     [128736, 32, 1040, 1076, 1084, 1080, 1085, 1080, 1089, 1090, 1088, 1080, 1088, 1086, 1074,
      1072, 1085, 1080, 1077]"

definition CANCEL_DIALOG :: ustring where
  "CANCEL_DIALOG = [1054, 1090, 1084, 1077, 1085, 1072]"

definition NO_WISHES :: ustring where
  "NO_WISHES = [1041, 1077, 1079, 32, 1087, 1086, 1078, 1077, 1083, 1072, 1085, 1080, 1081]"

definition KEEP :: ustring where
  "KEEP =
     [1054, 1089, 1090, 1072, 1074, 1080, 1090, 1100, 32, 1073, 1077, 1079, 32, 1080, 1079, 1084,
      1077, 1085, 1077, 1085, 1080, 1081]"

definition SKIP :: ustring where
  "SKIP = [1055, 1088, 1086, 1087, 1091, 1089, 1090, 1080, 1090, 1100]"

definition ENLIST_SKIP :: ustring where
  "ENLIST_SKIP =
     [1055, 1088, 1086, 1087, 1091, 1089, 1090, 1080, 1090, 1100, 32, 1080, 32, 1079, 1072, 1087,
      1080, 1089, 1072, 1090, 1100, 1089, 1103]"

definition NO_CO_PLAYER_WISH :: ustring where
  "NO_CO_PLAYER_WISH = [1041, 1077, 1079, 32, 1087, 1086, 1078, 1077, 1083, 1072, 1085, 1080, 1081]"

definition YES :: ustring where
  "YES = [1044, 1072]"

definition NO :: ustring where
  "NO = [1053, 1077, 1090]"

definition UNSUPPORTED_CONTENT_RESPONSE :: ustring where
  "UNSUPPORTED_CONTENT_RESPONSE =
     [1055, 1086, 1082, 1072, 32, 1103, 32, 1087, 1086, 1085, 1080, 1084, 1072, 1102, 32, 1090,
      1086, 1083, 1100, 1082, 1086, 32, 1090, 1077, 1082, 1089, 1090, 32, 1080, 32, 1082, 1085,
      1086, 1087, 1082, 1080, 46, 32, 1054, 1090, 1087, 1088, 1072, 1074, 1100, 1090, 1077, 32,
      1086, 1090, 1074, 1077, 1090, 32, 1090, 1077, 1082, 1089, 1090, 1086, 1074, 1099, 1084, 32,
      1089, 1086, 1086, 1073, 1097, 1077, 1085, 1080, 1077, 1084, 46]"

definition INACTIVE_GAME_RESPONSE :: ustring where
  "INACTIVE_GAME_RESPONSE =
     [1048, 1075, 1088, 1072, 32, 1073, 1086, 1083, 1100, 1096, 1077, 32, 1085, 1077, 32, 1072,
      1082, 1090, 1080, 1074, 1085, 1072, 59, 32, 1079, 1072, 1087, 1080, 1089, 1100, 32, 1080,
      32, 1080, 1079, 1084, 1077, 1085, 1077, 1085, 1080, 1077, 32, 1076, 1072, 1085, 1085, 1099,
      1093, 32, 1085, 1077, 1076, 1086, 1089, 1090, 1091, 1087, 1085, 1099, 46]"

definition INVALID_INPUT_RESPONSE :: ustring where
  "INVALID_INPUT_RESPONSE =
     [1053, 1077, 32, 1091, 1076, 1072, 1083, 1086, 1089, 1100, 32, 1086, 1073, 1088, 1072, 1073,
      1086, 1090, 1072, 1090, 1100, 32, 1074, 1074, 1086, 1076, 46, 32, 1055, 1088, 1086, 1074,
      1077, 1088, 1100, 1090, 1077, 32, 1086, 1090, 1074, 1077, 1090, 32, 1080, 32, 1087, 1086,
      1087, 1088, 1086, 1073, 1091, 1081, 1090, 1077, 32, 1077, 1097, 1105, 32, 1088, 1072, 1079,
      46]"

definition WELCOME_TEXT :: ustring where
  "WELCOME_TEXT =
     [1055, 1088, 1080, 1074, 1077, 1090, 33, 32, 1069, 1090, 1086, 1090, 32, 1073, 1086, 1090,
      32, 1087, 1086, 1084, 1086, 1078, 1077, 1090, 32, 1079, 1072, 1088, 1077, 1075, 1080, 1089,
      1090, 1088, 1080, 1088, 1086, 1074, 1072, 1090, 1100, 1089, 1103, 32, 1085, 1072, 32, 1082,
      1072, 1073, 1080, 1085, 1077, 1090, 1085, 1099, 1077, 32, 1088, 1086, 1083, 1077, 1074,
      1099, 1077, 32, 1080, 1075, 1088, 1099, 46, 10, 10, 1057, 1085, 1072, 1095, 1072, 1083,
      1072, 32, 1079, 1072, 1087, 1086, 1083, 1085, 1080, 1090, 1077, 32, 1087, 1088, 1086, 1092,
      1080, 1083, 1100, 32, 1080, 32, 1079, 1072, 1087, 1080, 1096, 1080, 1090, 1077, 1089, 1100,
      32, 1085, 1072, 32, 1080, 1075, 1088, 1091, 44, 32, 1076, 1072, 1078, 1077, 32, 1077, 1089,
      1083, 1080, 32, 1087, 1086, 1082, 1072, 32, 1085, 1077, 32, 1091, 1074, 1077, 1088, 1077,
      1085, 1099, 44, 32, 1095, 1090, 1086, 32, 1089, 1084, 1086, 1078, 1077, 1090, 1077, 32,
      1087, 1088, 1080, 1081, 1090, 1080, 46, 32, 1059, 32, 1074, 1072, 1089, 32, 1077, 1097,
      1105, 32, 1073, 1091, 1076, 1077, 1090, 32, 1074, 1088, 1077, 1084, 1103, 32, 1087, 1086,
      1076, 1090, 1074, 1077, 1088, 1076, 1080, 1090, 1100, 32, 1080, 1083, 1080, 32, 1086, 1090,
      1084, 1077, 1085, 1080, 1090, 1100, 32, 1091, 1095, 1072, 1089, 1090, 1080, 1077, 32, 8212,
      32, 1084, 1099, 32, 1089, 1086, 1086, 1073, 1097, 1080, 1084, 44, 32, 1082, 1086, 1075,
      1076, 1072, 32, 1086, 1090, 1082, 1088, 1086, 1077, 1090, 1089, 1103, 32, 1087, 1086, 1076,
      1090, 1074, 1077, 1088, 1078, 1076, 1077, 1085, 1080, 1077, 46]"

definition VENUE_ADDRESS :: ustring where
  "VENUE_ADDRESS =
     [1057, 1090, 1072, 1088, 1072, 1103, 32, 1041, 1072, 1089, 1084, 1072, 1085, 1085, 1072,
      1103, 32, 1091, 1083, 1080, 1094, 1072, 44, 32, 1076, 44, 32, 50, 49, 47, 52]"

definition CYRILLIC_FULL_NAME_PROMPT :: ustring where
  "CYRILLIC_FULL_NAME_PROMPT =
     [1042, 1074, 1077, 1076, 1080, 1090, 1077, 32, 1060, 1048, 1054, 32, 1082, 1080, 1088, 1080,
      1083, 1083, 1080, 1094, 1077, 1081, 32, 40, 1092, 1072, 1084, 1080, 1083, 1080, 1102, 32,
      1080, 1084, 1103, 44, 32, 1077, 1089, 1083, 1080, 32, 1086, 1090, 1095, 1077, 1089, 1090,
      1074, 1072, 32, 1085, 1077, 1090, 1091, 41, 58]"

definition LATIN_FULL_NAME_PROMPT :: ustring where
  "LATIN_FULL_NAME_PROMPT =
     [1042, 1074, 1077, 1076, 1080, 1090, 1077, 32, 1060, 1048, 1054, 32, 1083, 1072, 1090, 1080,
      1085, 1080, 1094, 1077, 1081, 32, 40, 1092, 1072, 1084, 1080, 1083, 1080, 1102, 32, 1080,
      1084, 1103, 44, 32, 1077, 1089, 1083, 1080, 32, 1086, 1090, 1095, 1077, 1089, 1090, 1074,
      1072, 32, 1085, 1077, 1090, 1091, 41, 58]"

definition CYRILLIC_FULL_NAME_RETRY_PROMPT :: ustring where
  "CYRILLIC_FULL_NAME_RETRY_PROMPT =
     [1042, 1074, 1077, 1076, 1080, 1090, 1077, 32, 1060, 1048, 1054, 32, 1082, 1080, 1088, 1080,
      1083, 1083, 1080, 1094, 1077, 1081, 44, 32, 1083, 1080, 1073, 1086, 32, 1092, 1072, 1084,
      1080, 1083, 1080, 1102, 32, 1080, 1084, 1103, 44, 32, 1077, 1089, 1083, 1080, 32, 1086,
      1090, 1095, 1077, 1089, 1090, 1074, 1072, 32, 1085, 1077, 1090, 1091]"

definition LATIN_FULL_NAME_RETRY_PROMPT :: ustring where
  "LATIN_FULL_NAME_RETRY_PROMPT =
     [1042, 1074, 1077, 1076, 1080, 1090, 1077, 32, 1060, 1048, 1054, 32, 1083, 1072, 1090, 1080,
      1085, 1080, 1094, 1077, 1081, 44, 32, 1083, 1080, 1073, 1086, 32, 1092, 1072, 1084, 1080,
      1083, 1080, 1102, 32, 1080, 1084, 1103, 44, 32, 1077, 1089, 1083, 1080, 32, 1086, 1090,
      1095, 1077, 1089, 1090, 1074, 1072, 32, 1085, 1077, 1090, 1091]"

definition PHONE_PROMPT :: ustring where
  "PHONE_PROMPT =
     [1042, 1074, 1077, 1076, 1080, 1090, 1077, 32, 1074, 1072, 1096, 32, 1085, 1086, 1084, 1077,
      1088, 32, 1090, 1077, 1083, 1077, 1092, 1086, 1085, 1072, 46, 32, 1054, 1085, 32, 1085,
      1077, 1086, 1073, 1093, 1086, 1076, 1080, 1084, 32, 1076, 1083, 1103, 32, 1086, 1092, 1086,
      1088, 1084, 1083, 1077, 1085, 1080, 1103, 32, 1087, 1088, 1086, 1087, 1091, 1089, 1082,
      1072, 46]"

definition EMAIL_PROMPT :: ustring where
  "EMAIL_PROMPT =
     [1042, 1074, 1077, 1076, 1080, 1090, 1077, 32, 1074, 1072, 1096, 32, 101, 109, 97, 105, 108,
      46, 32, 1054, 1085, 32, 1085, 1077, 1086, 1073, 1093, 1086, 1076, 1080, 1084, 32, 1076,
      1083, 1103, 32, 1086, 1092, 1086, 1088, 1084, 1083, 1077, 1085, 1080, 1103, 32, 1087, 1088,
      1086, 1087, 1091, 1089, 1082, 1072, 46]"

definition NICKNAME_PROMPT :: ustring where
  "NICKNAME_PROMPT =
     [1042, 1072, 1096, 32, 1085, 1080, 1082, 1085, 1077, 1081, 1084, 32, 45, 32, 1090, 1086, 44,
      32, 1082, 1072, 1082, 32, 1074, 1099, 32, 1073, 1091, 1076, 1077, 1090, 1077, 32, 1086,
      1090, 1086, 1073, 1088, 1072, 1078, 1072, 1090, 1100, 1089, 1103, 32, 1074, 32, 1087, 1091,
      1073, 1083, 1080, 1095, 1085, 1099, 1093, 32, 1090, 1072, 1073, 1083, 1080, 1094, 1072,
      1093, 32, 1079, 1072, 1087, 1080, 1089, 1080, 32, 1085, 1072, 32, 1080, 1075, 1088, 1099,
      46, 32, 1042, 1072, 1078, 1085, 1086, 32, 45, 32, 1086, 1088, 1075, 1072, 1085, 1080, 1079,
      1072, 1090, 1086, 1088, 1086, 1084, 32, 1073, 1091, 1076, 1077, 1090, 32, 1074, 1080, 1076,
      1085, 1086, 32, 1074, 1074, 1077, 1076, 1077, 1085, 1085, 1086, 1077, 32, 1074, 1072, 1084,
      1080, 32, 1087, 1072, 1089, 1087, 1086, 1088, 1090, 1085, 1086, 1077, 32, 1080, 1084, 1103,
      33, 10, 10, 1055, 1086, 1078, 1072, 1083, 1091, 1081, 1089, 1090, 1072, 44, 32, 1080, 1089,
      1087, 1086, 1083, 1100, 1079, 1091, 1081, 1090, 1077, 32, 1091, 1079, 1085, 1072, 1074,
      1072, 1077, 1084, 1099, 1081, 32, 1085, 1080, 1082, 1085, 1077, 1081, 1084, 46, 32, 1045,
      1089, 1083, 1080, 32, 1093, 1086, 1090, 1080, 1090, 1077, 44, 32, 1084, 1086, 1078, 1077,
      1090, 1077, 32, 1076, 1086, 1073, 1072, 1074, 1080, 1090, 1100, 32, 1074, 32, 1085, 1080,
      1082, 1085, 1077, 1081, 1084, 32, 1074, 1072, 1096, 1077, 32, 1080, 1084, 1103, 44, 32,
      1085, 1072, 1087, 1088, 1080, 1084, 1077, 1088, 32, 34, 1050, 1072, 1085, 1077, 1082, 1080,
      32, 1050, 1077, 1085, 47, 69, 121, 101, 112, 97, 116, 99, 104, 34, 46]"

definition PROFILE_FORMAT :: ustring where
  "PROFILE_FORMAT = asc ''combined-full-name-v2-statistics-experience''"

definition txt_field_name :: ustring where
  "txt_field_name = [1060, 1048, 1054]"

definition txt_field_nickname :: ustring where
  "txt_field_nickname = [1053, 1080, 1082, 1085, 1077, 1081, 1084]"

definition txt_field_crossplay :: ustring where
  "txt_field_crossplay = [1050, 1088, 1086, 1089, 1089, 1087, 1086, 1083]"

definition txt_field_pass :: ustring where
  "txt_field_pass = [1055, 1088, 1086, 1087, 1091, 1089, 1082]"

definition txt_field_phone :: ustring where
  "txt_field_phone =
     [1053, 1086, 1084, 1077, 1088, 32, 1090, 1077, 1083, 1077, 1092, 1086, 1085, 1072]"

definition txt_field_email :: ustring where
  "txt_field_email = asc ''Email''"

definition txt_field_citizenship :: ustring where
  "txt_field_citizenship = [1043, 1088, 1072, 1078, 1076, 1072, 1085, 1089, 1090, 1074, 1086]"

definition txt_field_latin_name :: ustring where
  "txt_field_latin_name =
     [1060, 1048, 1054, 32, 1083, 1072, 1090, 1080, 1085, 1080, 1094, 1077, 1081]"

definition txt_awaits :: ustring where
  "txt_awaits =
     [1054, 1078, 1080, 1076, 1072, 1077, 1090, 32, 1087, 1086, 1076, 1090, 1074, 1077, 1088,
      1078, 1076, 1077, 1085, 1080, 1103]"

definition MAX_CO_PLAYER_WISH_LENGTH :: nat where
  "MAX_CO_PLAYER_WISH_LENGTH = 2000"

definition MAX_CHARACTER_WISH_LENGTH :: nat where
  "MAX_CHARACTER_WISH_LENGTH = 3000"

definition PAGE_SIZE :: nat where
  "PAGE_SIZE = 5"

definition button :: "ustring \<Rightarrow> ustring \<Rightarrow> button" where
  "button label v = \<lparr>bt_label = label, bt_value = v\<rparr>"

definition same_button :: "ustring \<Rightarrow> button" where
  "same_button label = button label label"

definition dialog_exit_button :: "ustring \<Rightarrow> button" where
  "dialog_exit_button label = button label CANCEL_DIALOG"

definition is_editing :: "user \<Rightarrow> bool" where
  "is_editing u \<longleftrightarrow>
     json_get (us_dialog_context (base u)) (asc ''profile_flow'') \<in> {JString (asc ''field''), JString (asc ''reset'')}"

definition profile_dialog_exit_button :: "user \<Rightarrow> button" where
  "profile_dialog_exit_button u = dialog_exit_button (if is_editing u then CANCEL_DIALOG else MAIN_MENU_LABEL)"

definition profile_yes_no_buttons :: "user \<Rightarrow> button list" where
  "profile_yes_no_buttons u = [same_button YES, same_button NO, profile_dialog_exit_button u]"

definition nickname_buttons :: "user \<Rightarrow> button list" where
  "nickname_buttons u =
     (if us_nickname (base u) \<noteq> None then [button REMOVE_NICKNAME (asc ''profile:nickname:clear'')] else [])
     @ [profile_dialog_exit_button u]"

definition main_buttons :: "bool \<Rightarrow> bool \<Rightarrow> bool \<Rightarrow> button list" where
  "main_buttons has_admin_access has_registrations has_available_games =
     map same_button
       ([PROFILE] @ (if has_available_games then [ENLIST_LABEL] else []) @ [CONFIRM_LABEL]
        @ (if has_registrations then [GAME_WISHES, CANCEL_LABEL, MY_GAMES] else [])
        @ (if has_admin_access then [ADMIN_LABEL] else []))"

definition pagination_buttons :: "ustring option \<Rightarrow> ustring option \<Rightarrow> ustring \<Rightarrow> button list" where
  "pagination_buttons previous following cancel =
     (case previous of None \<Rightarrow> [] | Some v \<Rightarrow> [button PAGE_BACK v])
     @ (case following of None \<Rightarrow> [] | Some v \<Rightarrow> [button PAGE_FORWARD v])
     @ [button (if cancel = CANCEL_DIALOG then MAIN_MENU_LABEL else CANCEL_DIALOG) cancel]"

definition event_buttons :: "event list \<Rightarrow> ustring \<Rightarrow> button list" where
  "event_buttons events flow =
     map (\<lambda>e. button (event_name_with_date (ev_name e) (ev_game_date e))
            (asc ''select:'' @ flow @ [58] @ ev_event_id e)) events"

section \<open>Commands that start a dialogue\<close>

definition txt_begin_vk :: ustring where
  "txt_begin_vk = [1053, 1072, 1095, 1072, 1090, 1100]"

text \<open>\<open>/start(?:@name)?(?:[ =](\S+))?\<close>; the name ends where no more of its characters follow.\<close>

definition start_tail :: "ustring \<Rightarrow> ustring option option" where
  "start_tail s =
     (case s of
        [] \<Rightarrow> Some None
      | c # t \<Rightarrow>
          if (c = 32 \<or> c = 61) \<and> t \<noteq> [] \<and> list_all (\<lambda>x. \<not> is_space x) t then Some (Some t) else None)"

definition start_match :: "ustring \<Rightarrow> ustring option option" where
  "start_match s =
     (if starts_with (asc ''/start@'') s then
        (let rest = remove_prefix (asc ''/start@'') s; n = takeWhile is_handle_char rest
         in if 5 \<le> length n \<and> length n \<le> 32 then start_tail (drop (length n) rest) else None)
      else if starts_with (asc ''/start'') s then start_tail (remove_prefix (asc ''/start'') s)
      else None)"

definition is_token_char :: "nat \<Rightarrow> bool" where
  "is_token_char c \<longleftrightarrow> ascii_alnum c \<or> c = 95 \<or> c = 45"

definition start_command :: "ustring \<Rightarrow> platform \<Rightarrow> bool \<times> ustring option" where
  "start_command v p =
     (if p = VK then (v = txt_begin_vk \<or> v = asc ''/start'', None)
      else
        (case start_match v of
           None \<Rightarrow> (False, None)
         | Some None \<Rightarrow> (True, None)
         | Some (Some parameter) \<Rightarrow>
             (True, if length parameter \<le> 64 \<and> list_all is_token_char parameter then Some parameter else None)))"

section \<open>Texts\<close>

definition txt_pick_enlist :: ustring where
  "txt_pick_enlist =
     [127918, 32, 1042, 1099, 1073, 1077, 1088, 1080, 1090, 1077, 32, 1080, 1075, 1088, 1091, 44,
      32, 1085, 1072, 32, 1082, 1086, 1090, 1086, 1088, 1091, 1102, 32, 1093, 1086, 1090, 1080,
      1090, 1077, 32, 1079, 1072, 1087, 1080, 1089, 1072, 1090, 1100, 1089, 1103, 58]"

definition txt_pick_confirm :: ustring where
  "txt_pick_confirm =
     [9989, 32, 1042, 1099, 1073, 1077, 1088, 1080, 1090, 1077, 32, 1080, 1075, 1088, 1091, 44,
      32, 1091, 1095, 1072, 1089, 1090, 1080, 1077, 32, 1074, 32, 1082, 1086, 1090, 1086, 1088,
      1086, 1081, 32, 1093, 1086, 1090, 1080, 1090, 1077, 32, 1087, 1086, 1076, 1090, 1074, 1077,
      1088, 1076, 1080, 1090, 1100, 58]"

definition txt_pick_wishes :: ustring where
  "txt_pick_wishes =
     [127917, 32, 1042, 1099, 1073, 1077, 1088, 1080, 1090, 1077, 32, 1080, 1075, 1088, 1091, 44,
      32, 1076, 1083, 1103, 32, 1082, 1086, 1090, 1086, 1088, 1086, 1081, 32, 1093, 1086, 1090,
      1080, 1090, 1077, 32, 1080, 1079, 1084, 1077, 1085, 1080, 1090, 1100, 32, 1087, 1086, 1078,
      1077, 1083, 1072, 1085, 1080, 1103, 58]"

definition txt_pick_cancel :: ustring where
  "txt_pick_cancel =
     [10060, 32, 1042, 1099, 1073, 1077, 1088, 1080, 1090, 1077, 32, 1080, 1075, 1088, 1091, 44,
      32, 1091, 1095, 1072, 1089, 1090, 1080, 1077, 32, 1074, 32, 1082, 1086, 1090, 1086, 1088,
      1086, 1081, 32, 1093, 1086, 1090, 1080, 1090, 1077, 32, 1086, 1090, 1084, 1077, 1085, 1080,
      1090, 1100, 58]"

definition txt_pick_mine :: ustring where
  "txt_pick_mine =
     [1042, 1099, 1073, 1077, 1088, 1080, 1090, 1077, 32, 1080, 1075, 1088, 1091, 44, 32, 1095,
      1090, 1086, 1073, 1099, 32, 1087, 1086, 1089, 1084, 1086, 1090, 1088, 1077, 1090, 1100, 32,
      1080, 1085, 1092, 1086, 1088, 1084, 1072, 1094, 1080, 1102, 32, 1086, 32, 1085, 1077, 1081,
      58]"

definition txt_none_enlist :: ustring where
  "txt_none_enlist =
     [1057, 1077, 1081, 1095, 1072, 1089, 32, 1085, 1077, 1090, 32, 1080, 1075, 1088, 44, 32,
      1076, 1086, 1089, 1090, 1091, 1087, 1085, 1099, 1093, 32, 1076, 1083, 1103, 32, 1079, 1072,
      1087, 1080, 1089, 1080, 46]"

definition txt_none_confirm :: ustring where
  "txt_none_confirm =
     [1057, 1077, 1081, 1095, 1072, 1089, 32, 1085, 1077, 1090, 32, 1080, 1075, 1088, 44, 32,
      1076, 1086, 1089, 1090, 1091, 1087, 1085, 1099, 1093, 32, 1076, 1083, 1103, 32, 1087, 1086,
      1076, 1090, 1074, 1077, 1088, 1078, 1076, 1077, 1085, 1080, 1103, 32, 1091, 1095, 1072,
      1089, 1090, 1080, 1103, 46]"

definition txt_none_character :: ustring where
  "txt_none_character =
     [1057, 1077, 1081, 1095, 1072, 1089, 32, 1085, 1077, 1090, 32, 1080, 1075, 1088, 44, 32,
      1076, 1086, 1089, 1090, 1091, 1087, 1085, 1099, 1093, 32, 1076, 1083, 1103, 32, 1080, 1079,
      1084, 1077, 1085, 1077, 1085, 1080, 1103, 32, 1087, 1086, 1078, 1077, 1083, 1072, 1085,
      1080, 1081, 46]"

definition txt_none_wishes :: ustring where
  "txt_none_wishes =
     [1053, 1077, 1090, 32, 1080, 1075, 1088, 44, 32, 1085, 1072, 32, 1082, 1086, 1090, 1086,
      1088, 1099, 1077, 32, 1074, 1099, 32, 1079, 1072, 1087, 1080, 1089, 1072, 1085, 1099, 46]"

definition txt_none_cancel :: ustring where
  "txt_none_cancel =
     [1057, 1077, 1081, 1095, 1072, 1089, 32, 1085, 1077, 1090, 32, 1080, 1075, 1088, 44, 32,
      1076, 1086, 1089, 1090, 1091, 1087, 1085, 1099, 1093, 32, 1076, 1083, 1103, 32, 1086, 1090,
      1084, 1077, 1085, 1099, 32, 1091, 1095, 1072, 1089, 1090, 1080, 1103, 46]"

definition txt_none_mine :: ustring where
  "txt_none_mine =
     [1057, 1077, 1081, 1095, 1072, 1089, 32, 1085, 1077, 1090, 32, 1080, 1075, 1088, 44, 32,
      1076, 1086, 1089, 1090, 1091, 1087, 1085, 1099, 1093, 32, 1076, 1083, 1103, 32, 1087, 1088,
      1086, 1089, 1084, 1086, 1090, 1088, 1072, 46]"

text \<open>The tables of texts by flow; a flow that is not in them raises \<open>KeyError\<close>.\<close>

definition picker_texts :: "(ustring, ustring) dict" where
  "picker_texts =
     [(asc ''enlist'', txt_pick_enlist), (asc ''confirm'', txt_pick_confirm), (asc ''character'', txt_pick_wishes),
      (asc ''wishes'', txt_pick_wishes), (asc ''cancel'', txt_pick_cancel), (asc ''mine'', txt_pick_mine)]"

definition no_games_texts :: "(ustring, ustring) dict" where
  "no_games_texts =
     [(asc ''enlist'', txt_none_enlist), (asc ''confirm'', txt_none_confirm), (asc ''character'', txt_none_character),
      (asc ''wishes'', txt_none_wishes), (asc ''cancel'', txt_none_cancel), (asc ''mine'', txt_none_mine)]"

definition text_of_flow :: "(ustring, ustring) dict \<Rightarrow> ustring \<Rightarrow> (ustring \<Rightarrow> 'a dialog) \<Rightarrow> 'a dialog" where
  "text_of_flow texts flow k = (case dict_get texts flow of None \<Rightarrow> fail KeyError | Some txt \<Rightarrow> k txt)"

definition bool_text :: "bool option \<Rightarrow> ustring" where
  "bool_text v = (if v = Some True then YES else NO)"

definition pass_name :: "ustring option list \<Rightarrow> ustring" where
  "pass_name parts = join_with 32 (filter (\<lambda>s. s \<noteq> asc ''-'') (present parts))"

definition txt_status_confirmed :: ustring where
  "txt_status_confirmed = [1055, 1086, 1076, 1090, 1074, 1077, 1088, 1078, 1076, 1077, 1085, 1086]"

definition txt_status_cancelled :: ustring where
  "txt_status_cancelled = [1054, 1090, 1084, 1077, 1085, 1077, 1085, 1086]"

definition attendance_status_text :: "attendance_status \<Rightarrow> ustring" where
  "attendance_status_text s =
     (case s of WAITING \<Rightarrow> txt_awaits | CONFIRMED \<Rightarrow> txt_status_confirmed | CANCELLED \<Rightarrow> txt_status_cancelled)"

definition text_or :: "ustring option \<Rightarrow> ustring \<Rightarrow> ustring" where
  "text_or v other = (case v of None \<Rightarrow> other | Some s \<Rightarrow> if s = [] then other else s)"

text \<open>What a game is called by the menus: its date is missing for a game without one.\<close>

definition txt_no_date :: ustring where
  "txt_no_date = [1085, 1077, 32, 1091, 1082, 1072, 1079, 1072, 1085, 1072]"

definition txt_signup_menu :: ustring where
  "txt_signup_menu =
     [1069, 1090, 1086, 32, 1084, 1077, 1085, 1102, 32, 1079, 1072, 1087, 1080, 1089, 1080, 32,
      1085, 1072, 32, 1080, 1075, 1088, 1091, 32, 171]"

definition txt_game_line :: ustring where
  "txt_game_line = [1048, 1075, 1088, 1072, 58, 32, 171]"

definition txt_date_line :: ustring where
  "txt_date_line = [1044, 1072, 1090, 1072, 58, 32]"

definition txt_post_line :: ustring where
  "txt_post_line = [1055, 1086, 1089, 1090, 32, 1086, 1073, 32, 1080, 1075, 1088, 1077, 58, 32]"

definition txt_no_post :: ustring where
  "txt_no_post =
     [1089, 1089, 1099, 1083, 1082, 1072, 32, 1087, 1086, 1082, 1072, 32, 1085, 1077, 32, 1076,
      1086, 1073, 1072, 1074, 1083, 1077, 1085, 1072]"

definition txt_master_status :: ustring where
  "txt_master_status = [1052, 1072, 1089, 1090, 1077, 1088]"

definition txt_main_roster_status :: ustring where
  "txt_main_roster_status =
     [1086, 1089, 1085, 1086, 1074, 1085, 1086, 1081, 32, 1089, 1086, 1089, 1090, 1072, 1074]"

definition txt_reserve_status :: ustring where
  "txt_reserve_status = [1079, 1072, 1087, 1072, 1089]"

definition txt_your_status :: ustring where
  "txt_your_status = [1042, 1072, 1096, 32, 1089, 1090, 1072, 1090, 1091, 1089, 58, 32]"

definition txt_chat_link_line :: ustring where
  "txt_chat_link_line = [1063, 1072, 1090, 32, 1080, 1075, 1088, 1099, 58, 32]"

definition txt_table_line :: ustring where
  "txt_table_line =
     [1058, 1072, 1073, 1083, 1080, 1094, 1072, 32, 1091, 1095, 1072, 1089, 1090, 1085, 1080,
      1082, 1086, 1074, 58, 32]"

definition txt_co_player_question :: ustring where
  "txt_co_player_question =
     [1045, 1089, 1090, 1100, 32, 1083, 1080, 32, 1080, 1075, 1088, 1086, 1082, 1080, 44, 32,
      1089, 32, 1082, 1086, 1090, 1086, 1088, 1099, 1084, 1080, 32, 1074, 1099, 32, 1093, 1086,
      1090, 1077, 1083, 1080, 32, 1073, 1099, 32, 1080, 1075, 1088, 1072, 1090, 1100, 32, 1074,
      32, 1086, 1076, 1085, 1086, 1081, 32, 1089, 1077, 1089, 1089, 1080, 1080, 63, 32, 1059,
      1082, 1072, 1078, 1080, 1090, 1077, 32, 1082, 1072, 1078, 1076, 1086, 1075, 1086, 32, 1082,
      1072, 1082, 32, 171, 1060, 1072, 1084, 1080, 1083, 1080, 1103, 32, 1048, 1084, 1103, 187,
      44, 32, 1095, 1077, 1088, 1077, 1079, 32, 1079, 1072, 1087, 1103, 1090, 1091, 1102, 46, 32,
      1052, 1072, 1089, 1090, 1077, 1088, 1072, 32, 1087, 1086, 1089, 1090, 1072, 1088, 1072,
      1102, 1090, 1089, 1103, 32, 1091, 1095, 1077, 1089, 1090, 1100, 32, 1087, 1086, 1078, 1077,
      1083, 1072, 1085, 1080, 1077, 44, 32, 1085, 1086, 32, 1085, 1077, 32, 1084, 1086, 1075,
      1091, 1090, 32, 1077, 1075, 1086, 32, 1075, 1072, 1088, 1072, 1085, 1090, 1080, 1088, 1086,
      1074, 1072, 1090, 1100, 46, 10, 10]"

definition txt_if_no_wishes :: ustring where
  "txt_if_no_wishes =
     [1045, 1089, 1083, 1080, 32, 1087, 1086, 1078, 1077, 1083, 1072, 1085, 1080, 1081, 32, 1085,
      1077, 1090, 44, 32, 1085, 1072, 1078, 1084, 1080, 1090, 1077, 32, 171]"

definition txt_already_confirmed :: ustring where
  "txt_already_confirmed =
     [1042, 1099, 32, 1091, 1078, 1077, 32, 1087, 1086, 1076, 1090, 1074, 1077, 1088, 1076, 1080,
      1083, 1080, 32, 1089, 1074, 1086, 1105, 32, 1091, 1095, 1072, 1089, 1090, 1080, 1077, 32,
      1074, 32, 1080, 1075, 1088, 1077, 32, 171]"

definition txt_held_on :: ustring where
  "txt_held_on =
     [187, 44, 32, 1082, 1086, 1090, 1086, 1088, 1072, 1103, 32, 1087, 1088, 1086, 1074, 1086,
      1076, 1080, 1090, 1089, 1103, 32]"

definition txt_to_confirm :: ustring where
  "txt_to_confirm =
     [46, 32, 1063, 1090, 1086, 1073, 1099, 32, 1087, 1086, 1076, 1090, 1074, 1077, 1088, 1076,
      1080, 1090, 1100, 32, 1089, 1074, 1086, 1105, 32, 1091, 1095, 1072, 1089, 1090, 1080, 1077,
      32, 1074, 32, 171]"

definition txt_must_cancel :: ustring where
  "txt_must_cancel =
     [1074, 1072, 1084, 32, 1087, 1088, 1080, 1076, 1105, 1090, 1089, 1103, 32, 1086, 1090, 1084,
      1077, 1085, 1080, 1090, 1100, 32, 1089, 1074, 1086, 1105, 32, 1091, 1095, 1072, 1089, 1090,
      1080, 1077, 32, 1074, 32, 171]"

definition txt_sure_replace :: ustring where
  "txt_sure_replace =
     [1042, 1099, 32, 1091, 1074, 1077, 1088, 1077, 1085, 1099, 44, 32, 1095, 1090, 1086, 32,
      1093, 1086, 1090, 1080, 1090, 1077, 32, 1101, 1090, 1086, 32, 1089, 1076, 1077, 1083, 1072,
      1090, 1100, 63]"

definition txt_replace_yes :: ustring where
  "txt_replace_yes =
     [1044, 1072, 44, 32, 1103, 32, 1093, 1086, 1095, 1091, 32, 1091, 1095, 1072, 1089, 1090,
      1074, 1086, 1074, 1072, 1090, 1100, 32, 1074, 32, 1101, 1090, 1086, 1081, 32, 1080, 1075,
      1088, 1077, 44, 32, 1072, 32, 1085, 1077, 32, 1074, 32, 1076, 1088, 1091, 1075, 1086, 1081]"

definition txt_replace_no :: ustring where
  "txt_replace_no =
     [1053, 1077, 1090, 44, 32, 1085, 1077, 32, 1093, 1086, 1095, 1091, 32, 1085, 1080, 1095,
      1077, 1075, 1086, 32, 1084, 1077, 1085, 1103, 1090, 1100]"

fun joined :: "ustring \<Rightarrow> ustring list \<Rightarrow> ustring" where
  "joined sep [] = []"
| "joined sep [s] = s"
| "joined sep (s # t # rest) = s @ sep @ joined sep (t # rest)"

definition date_text :: "date option \<Rightarrow> ustring" where
  "date_text d = (case d of None \<Rightarrow> txt_no_date | Some dt \<Rightarrow> format_game_date dt)"

definition signup_game_text :: "event \<Rightarrow> platform \<Rightarrow> ustring" where
  "signup_game_text e p =
     (let d = date_text (ev_game_date e);
          post = (if p = TELEGRAM then ev_telegram_post_url e else ev_vk_post_url e)
      in txt_signup_menu @ ev_name e @ [187, 32, 40] @ d @ [41, 46, 10, 10]
         @ txt_game_line @ ev_name e @ [187, 10] @ txt_date_line @ d @ [10]
         @ txt_post_line @ text_or post txt_no_post)"

definition my_status :: "game_overview \<Rightarrow> ustring list" where
  "my_status overview =
     (if gp_is_leader (go_participation overview) then [txt_master_status] else [])
     @ (case gp_registration (go_participation overview) of
          None \<Rightarrow> []
        | Some r \<Rightarrow>
            [attendance_status_text (rg_attendance_status r) @ [44, 32]
              @ (if go_in_main_roster overview then txt_main_roster_status else txt_reserve_status)])"

definition my_game_links :: "event \<Rightarrow> game_overview \<Rightarrow> exn + ustring list" where
  "my_game_links e overview =
     (let chats = map (\<lambda>link. txt_chat_link_line @ link) (go_chat_links overview)
      in if ev_public_table_public_url e = None then Inr chats
         else then_sum (for_player (public_table_links e)) (\<lambda>table. Inr (chats @ [txt_table_line @ table])))"

definition my_game_text :: "event \<Rightarrow> game_overview \<Rightarrow> master list \<Rightarrow> exn + ustring" where
  "my_game_text e overview masters =
     (let status = joined [59, 32] (my_status overview);
          txt = txt_game_line @ ev_name e @ [187, 10] @ txt_date_line @ date_text (ev_game_date e) @ [10]
                @ txt_your_status @ status;
          answered = (case gp_registration (go_participation overview) of
              None \<Rightarrow> txt
            | Some r \<Rightarrow>
                if ev_registration_question e = None then txt else txt @ [10, 10] @ answer_text e r);
          contacts = event_masters_text masters;
          told = (if contacts = [] then answered else answered @ [10, 10] @ contacts)
      in then_sum (my_game_links e overview) (\<lambda>links.
           Inr (if links = [] then told else told @ [10, 10] @ join_with 10 links)))"

definition co_player_wish_prompt :: "ustring \<Rightarrow> ustring \<Rightarrow> date option \<Rightarrow> bot_response" where
  "co_player_wish_prompt skip_value skip_label same_day_warning_date =
     response
       ((case same_day_warning_date of None \<Rightarrow> [] | Some d \<Rightarrow> same_day_signup_warning d @ [10, 10])
        @ txt_co_player_question @ txt_if_no_wishes @ skip_label @ [187, 46])
       [button skip_label skip_value, dialog_exit_button MAIN_MENU_LABEL]"

definition confirmation_replacement_prompt :: "event \<Rightarrow> event \<Rightarrow> bot_response dialog" where
  "confirmation_replacement_prompt e replaced =
     (case ev_game_date e of
        None \<Rightarrow> fail ValueError
      | Some d \<Rightarrow>
          says (txt_already_confirmed @ ev_name replaced @ txt_held_on @ format_game_date d
                @ txt_to_confirm @ ev_name e @ [187, 32] @ txt_must_cancel @ ev_name replaced @ [187, 46, 32]
                @ txt_sure_replace)
            [button txt_replace_yes (asc ''confirm:replace:yes''), dialog_exit_button txt_replace_no])"

section \<open>Roles\<close>

definition txt_role_player :: ustring where
  "txt_role_player = [1048, 1075, 1088, 1086, 1082]"

definition txt_role_gamemaster :: ustring where
  "txt_role_gamemaster = [1052, 1086, 1076, 1077, 1088, 1072, 1090, 1086, 1088]"

definition txt_role_viewer :: ustring where
  "txt_role_viewer =
     [1052, 1086, 1076, 1077, 1088, 1072, 1090, 1086, 1088, 45, 1085, 1072, 1073, 1083, 1102,
      1076, 1072, 1090, 1077, 1083, 1100]"

definition txt_role_pass_manager :: ustring where
  "txt_role_pass_manager =
     [1052, 1077, 1085, 1077, 1076, 1078, 1077, 1088, 32, 1087, 1088, 1086, 1087, 1091, 1089,
      1082, 1086, 1074]"

definition txt_role_admin :: ustring where
  "txt_role_admin = [1040, 1076, 1084, 1080, 1085, 1080, 1089, 1090, 1088, 1072, 1090, 1086, 1088]"

definition asked_of_all :: "env \<Rightarrow> bot_identity list \<Rightarrow> (platform \<Rightarrow> int \<Rightarrow> call) \<Rightarrow> (call list \<Rightarrow> bool) \<Rightarrow> bool list service" where
  "asked_of_all X identities c answer = gather identities (\<lambda>i. external X (c (fst i) (snd i)) answer)"

definition is_admin :: "env \<Rightarrow> user \<Rightarrow> bool service" where
  "is_admin X u =
     andThen users_now (\<lambda>us.
     andThen (asked_of_all X (global_identities us u) IsAdmin (xe_is_admin X)) (\<lambda>configured.
       ret (list_ex (\<lambda>b. b) configured)))"

definition higher_role :: "privileged_role option \<Rightarrow> privileged_role \<Rightarrow> privileged_role option" where
  "higher_role best role =
     (case best of
        None \<Rightarrow> Some role
      | Some b \<Rightarrow> if role_level b < role_level role then Some role else Some b)"

definition privileged_role_of :: "env \<Rightarrow> user \<Rightarrow> privileged_role option service" where
  "privileged_role_of X u =
     andThen users_now (\<lambda>us.
       let profiles = global_users us u; identities = map local_identity profiles
       in andThen (asked_of_all X identities IsAdmin (xe_is_admin X)) (\<lambda>admins.
          andThen (asked_of_all X identities IsGamemaster (xe_is_gamemaster X)) (\<lambda>moderators.
            ret (if list_ex (\<lambda>b. b) admins then Some ADMIN
                 else foldl higher_role None
                   (present (map (\<lambda>p. effective_privileged_role (base p)) profiles)
                    @ map (\<lambda>_. GAMEMASTER) (filter (\<lambda>b. b) moderators))))))"

definition role_label :: "privileged_role \<Rightarrow> ustring" where
  "role_label role =
     (case role of
        GAMEMASTER \<Rightarrow> txt_role_gamemaster | GAMEMASTER_VIEWER \<Rightarrow> txt_role_viewer
      | PASS_MANAGER \<Rightarrow> txt_role_pass_manager | ADMIN \<Rightarrow> txt_role_admin)"

definition user_role_label :: "env \<Rightarrow> user \<Rightarrow> ustring service" where
  "user_role_label X u =
     andThen (privileged_role_of X u) (\<lambda>role.
       ret (case role of None \<Rightarrow> txt_role_player | Some r \<Rightarrow> role_label r))"

definition includes_role :: "privileged_role \<Rightarrow> env \<Rightarrow> user \<Rightarrow> bool service" where
  "includes_role required X u =
     andThen (privileged_role_of X u) (\<lambda>role.
       ret (case role of None \<Rightarrow> False | Some r \<Rightarrow> role_includes r required))"

definition has_admin_access :: "env \<Rightarrow> user \<Rightarrow> bool service" where
  "has_admin_access = includes_role GAMEMASTER"

definition can_view_unassigned_games :: "env \<Rightarrow> user \<Rightarrow> bool service" where
  "can_view_unassigned_games = includes_role GAMEMASTER_VIEWER"

definition is_event_leader :: "user \<Rightarrow> ustring \<Rightarrow> bool service" where
  "is_event_leader u event_id =
     andThen users_now (\<lambda>us.
     andThen (leaders_now event_id) (\<lambda>leaders.
       ret (list_ex (\<lambda>i. i \<in> set leaders) (global_identities us u))))"

definition can_view_event_details :: "env \<Rightarrow> user \<Rightarrow> ustring \<Rightarrow> bool service" where
  "can_view_event_details X u event_id =
     andThen (is_admin X u) (\<lambda>admin.
     andThen (is_event_leader u event_id) (\<lambda>leader.
     andThen (can_view_unassigned_games X u) (\<lambda>viewer. ret (admin \<or> leader \<or> viewer))))"

text \<open>A person who may not change the game gets the refusal, and the dialogue ends.\<close>

definition txt_only_masters :: ustring where
  "txt_only_masters =
     [1058, 1086, 1083, 1100, 1082, 1086, 32, 1084, 1072, 1089, 1090, 1077, 1088, 1072, 32, 1101,
      1090, 1086, 1081, 32, 1080, 1075, 1088, 1099, 32, 1084, 1086, 1075, 1091, 1090, 32, 1080,
      1079, 1084, 1077, 1085, 1103, 1090, 1100, 32, 1077, 1105, 32, 1076, 1072, 1085, 1085, 1099,
      1077, 46]"

definition txt_insufficient :: ustring where
  "txt_insufficient =
     [1053, 1077, 1076, 1086, 1089, 1090, 1072, 1090, 1086, 1095, 1085, 1086, 32, 1087, 1088,
      1072, 1074, 46]"

definition event_leader_required :: "env \<Rightarrow> ustring \<Rightarrow> bot_response option dialog" where
  "event_leader_required X event_id =
     with_user (\<lambda>u. thenDo (ask (is_admin X u)) (\<lambda>admin.
       if admin then give None
       else
         thenDo (ask (is_event_leader u event_id)) (\<lambda>leader.
           if leader then give None
           else thenDo clear_dialog (\<lambda>_. give (Some (response txt_only_masters []))))))"

end
