(* ===== verification/Signups.thy ===== *)
theory Signups
  imports Replies
begin

text \<open>
  The dialogues of players (\<open>application/conversation_players.py\<close>) and their part of the optional question
  (\<open>application/conversation_questions.py\<close>): lists of games, signing up, confirming, wishes, cancelling.
  The dialogues of administrators that they hand over to are the parameter \<open>A\<close>.
\<close>

section \<open>Handing over to administration\<close>

record admin_dialogs =
  ad_select :: "inbound_message \<Rightarrow> event \<Rightarrow> ustring \<Rightarrow> bot_response dialog"
  ad_games :: "cursor option \<Rightarrow> cursor option \<Rightarrow> bool \<Rightarrow> bot_response dialog"
  ad_menu :: "bot_response dialog"
  ad_moderators :: "bot_response dialog"
  ad_game_action :: "inbound_message \<Rightarrow> ustring \<Rightarrow> bot_response dialog"
  ad_step :: "inbound_message \<Rightarrow> ustring \<Rightarrow> bot_response dialog"
  ad_statistics :: "inbound_message \<Rightarrow> ustring \<Rightarrow> bot_response dialog"
  ad_callback :: "inbound_message \<Rightarrow> ustring \<Rightarrow> bot_response option dialog"
  ad_idle :: "inbound_message \<Rightarrow> ustring \<Rightarrow> bot_response option dialog"

section \<open>Lists of games\<close>

definition txt_no_games :: ustring where
  "txt_no_games =
     [1055, 1086, 1076, 1093, 1086, 1076, 1103, 1097, 1080, 1093, 32, 1080, 1075, 1088, 32, 1089,
      1077, 1081, 1095, 1072, 1089, 32, 1085, 1077, 1090, 46]"

definition txt_choose_game :: ustring where
  "txt_choose_game =
     [127918, 32, 1042, 1099, 1073, 1077, 1088, 1080, 1090, 1077, 32, 1080, 1075, 1088, 1091, 58]"

definition txt_bad_page :: ustring where
  "txt_bad_page =
     [1053, 1077, 1082, 1086, 1088, 1088, 1077, 1082, 1090, 1085, 1072, 1103, 32, 1089, 1090,
      1088, 1072, 1085, 1080, 1094, 1072, 46]"

definition txt_fill_profile :: ustring where
  "txt_fill_profile =
     [1057, 1085, 1072, 1095, 1072, 1083, 1072, 32, 1079, 1072, 1087, 1086, 1083, 1085, 1080,
      1090, 1077, 32, 1087, 1088, 1086, 1092, 1080, 1083, 1100, 46]"

definition txt_fill_profile_wholly :: ustring where
  "txt_fill_profile_wholly =
     [1057, 1085, 1072, 1095, 1072, 1083, 1072, 32, 1087, 1086, 1083, 1085, 1086, 1089, 1090,
      1100, 1102, 32, 1079, 1072, 1087, 1086, 1083, 1085, 1080, 1090, 1077, 32, 1087, 1088, 1086,
      1092, 1080, 1083, 1100, 46]"

definition txt_cancelled_first :: ustring where
  "txt_cancelled_first =
     [32, 1045, 1089, 1083, 1080, 32, 1074, 1099, 32, 1086, 1090, 1084, 1077, 1085, 1080, 1083,
      1080, 32, 1091, 1095, 1072, 1089, 1090, 1080, 1077, 44, 32, 1089, 1085, 1072, 1095, 1072,
      1083, 1072, 32, 1079, 1072, 1087, 1080, 1096, 1080, 1090, 1077, 1089, 1100, 32, 1085, 1072,
      32, 1080, 1075, 1088, 1091, 32, 1089, 1085, 1086, 1074, 1072, 46]"

definition opened_page :: "env \<Rightarrow> event_status list option \<Rightarrow> cursor option \<Rightarrow> event list service" where
  "opened_page X statuses after =
     ticking X (\<lambda>clk. answers (\<lambda>w.
       list_page statuses after None (Some False) (Some True) False MAX_EVENT_PAGE_SIZE (clk 0) (w_events w)))"

fun all_opened :: "env \<Rightarrow> event_status list option \<Rightarrow> nat \<Rightarrow> cursor option \<Rightarrow> event list \<Rightarrow> event list service" where
  "all_opened X statuses 0 after found = throw OutOfFuel"
| "all_opened X statuses (Suc fuel) after found =
     andThen (opened_page X statuses after) (\<lambda>page.
       if length page < MAX_EVENT_PAGE_SIZE then ret (found @ page)
       else all_opened X statuses fuel (Some (event_cursor (last page))) (found @ page))"

definition opened_events :: "env \<Rightarrow> event_status list option \<Rightarrow> event list service" where
  "opened_events X statuses w = all_opened X statuses (paging_fuel w) None [] w"

text \<open>The cursor of a page in the value of a button; the flow is one letter.\<close>

definition flow_codes :: "(ustring, nat) dict" where
  "flow_codes =
     [(asc ''enlist'', 101), (asc ''confirm'', 99), (asc ''character'', 119), (asc ''wishes'', 103),
      (asc ''cancel'', 120), (asc ''mine'', 109), (asc ''admin-status'', 115), (asc ''admin-archive'', 97),
      (asc ''admin-delete'', 100), (asc ''admin-reminder'', 114), (asc ''admin-notification'', 110),
      (asc ''admin-pass-create'', 112), (asc ''admin-leader-add'', 108)]"

definition page_value :: "nat \<Rightarrow> nat \<Rightarrow> nat \<Rightarrow> event \<Rightarrow> ustring" where
  "page_value kind direction code e =
     asc ''page:'' @ [kind, 58, direction, 58, code, 58] @ show_int (micros_of (ev_created_at e)) @ [58] @ ev_event_id e"

definition page_cursor :: "nat \<Rightarrow> nat \<Rightarrow> ustring \<Rightarrow> event \<Rightarrow> (ustring \<Rightarrow> 'a dialog) \<Rightarrow> 'a dialog" where
  "page_cursor kind direction flow e k =
     (case dict_get flow_codes flow of None \<Rightarrow> fail KeyError | Some code \<Rightarrow> k (page_value kind direction code e))"

definition optional_cursor ::
    "bool \<Rightarrow> nat \<Rightarrow> nat \<Rightarrow> ustring \<Rightarrow> event \<Rightarrow> (ustring option \<Rightarrow> 'a dialog) \<Rightarrow> 'a dialog" where
  "optional_cursor wanted kind direction flow e k =
     (if wanted then page_cursor kind direction flow e (\<lambda>v. k (Some v)) else k None)"

definition is_admin_flow :: "ustring \<Rightarrow> bool" where
  "is_admin_flow flow \<longleftrightarrow> starts_with (asc ''admin-'') flow"

definition show_page_of_events ::
    "env \<Rightarrow> ustring \<Rightarrow> event_status list option \<Rightarrow> ustring \<Rightarrow> event list \<Rightarrow> bot_response dialog" where
  "show_page_of_events X flow statuses cancel events =
     thenDo (ask (page_now X statuses None (Some (event_cursor (hd events))) (Some False) 1)) (\<lambda>earlier.
     thenDo (ask (page_now X statuses (Some (event_cursor (last events))) None (Some False) 1)) (\<lambda>later.
       optional_cursor (earlier \<noteq> []) 101 112 flow (hd events) (\<lambda>previous.
       optional_cursor (later \<noteq> []) 101 110 flow (last events) (\<lambda>following.
         says txt_choose_game (event_buttons events flow @ pagination_buttons previous following cancel)))))"

definition show_events ::
    "env \<Rightarrow> ustring \<Rightarrow> event_status list option \<Rightarrow> cursor option \<Rightarrow> cursor option \<Rightarrow> ustring \<Rightarrow> bot_response dialog" where
  "show_events X flow statuses after before empty_text =
     (let cancel = (if is_admin_flow flow then ADMIN_MENU else CANCEL_DIALOG)
      in thenDo (ask (if flow = asc ''enlist'' then opened_events X statuses
                      else page_now X statuses after before (Some False) PAGE_SIZE)) (\<lambda>events.
           if events = [] then says empty_text (pagination_buttons None None cancel)
           else if flow = asc ''enlist'' then
             text_of_flow picker_texts flow (\<lambda>txt.
               says txt (event_buttons events flow @ pagination_buttons None None cancel))
           else show_page_of_events X flow statuses cancel events))"

definition registration_open_statuses :: "event_status list" where
  "registration_open_statuses = [CREATED, CONFIRMATION_OPEN]"

definition show_open_events :: "env \<Rightarrow> ustring \<Rightarrow> bot_response dialog" where
  "show_open_events X flow =
     text_of_flow no_games_texts flow (\<lambda>empty_text.
       show_events X flow (Some registration_open_statuses) None None empty_text)"

section \<open>Games of a player\<close>

text \<open>
  \<open>RegistrationService.registered_games_page\<close>.  The code keeps the registration of every accepted game aside
  while it scans; here it is read again from the store, which holds the same row.
\<close>

definition registration_accepted :: "attendance_status list option \<Rightarrow> registration option \<Rightarrow> bool" where
  "registration_accepted statuses r =
     (case r of
        None \<Rightarrow> False
      | Some row \<Rightarrow> (case statuses of None \<Rightarrow> True | Some ss \<Rightarrow> rg_attendance_status row \<in> set ss))"

record registered_games =
  rgp_rows :: "(event \<times> registration) list"
  rgp_has_previous :: bool
  rgp_has_next :: bool

definition with_registration ::
    "pkey \<Rightarrow> bot_identity list \<Rightarrow> event \<Rightarrow> (event \<times> registration) list service" where
  "with_registration pkey identities e =
     andThen (gather identities (\<lambda>i. row_now (ev_event_id e) (pkey (fst i) (snd i) (ev_event_id e)))) (\<lambda>rows.
       ret (case effective_registration (present rows) of None \<Rightarrow> [] | Some r \<Rightarrow> [(e, r)]))"

definition registered_games_page ::
    "env \<Rightarrow> pkey \<Rightarrow> bot_identity \<Rightarrow> event_status list option \<Rightarrow> bool option \<Rightarrow> attendance_status list option
       \<Rightarrow> cursor option \<Rightarrow> cursor option \<Rightarrow> nat \<Rightarrow> registered_games service" where
  "registered_games_page X pkey who statuses archived registration_statuses after before event_limit =
     andThen (identities_now (fst who) (snd who)) (\<lambda>identities.
     andThen (event_page X
         (\<lambda>e. andThen (registrations_of X pkey e identities) (\<lambda>rows.
            ret (registration_accepted registration_statuses (effective_registration rows))))
         statuses archived after before event_limit 3) (\<lambda>page.
     andThen (gather (pg_events page) (with_registration pkey identities)) (\<lambda>rows.
       ret \<lparr>rgp_rows = concat rows, rgp_has_previous = pg_has_previous page,
            rgp_has_next = pg_has_next page\<rparr>)))"

definition txt_wishes_of :: ustring where
  "txt_wishes_of =
     [1055, 1086, 1078, 1077, 1083, 1072, 1085, 1080, 1103, 32, 1087, 1086, 32, 1080, 1075, 1088,
      1077, 32]"

definition txt_change_answer :: ustring where
  "txt_change_answer =
     [1048, 1079, 1084, 1077, 1085, 1080, 1090, 1100, 32, 1086, 1090, 1074, 1077, 1090, 32, 1085,
      1072, 32, 1076, 1086, 1087, 1086, 1083, 1085, 1080, 1090, 1077, 1083, 1100, 1085, 1099,
      1081, 32, 1074, 1086, 1087, 1088, 1086, 1089]"

definition txt_no_longer_playing :: ustring where
  "txt_no_longer_playing =
     [1042, 1099, 32, 1073, 1086, 1083, 1100, 1096, 1077, 32, 1085, 1077, 32, 1091, 1095, 1072,
      1089, 1090, 1074, 1091, 1077, 1090, 1077, 32, 1074, 32, 1101, 1090, 1086, 1081, 32, 1080,
      1075, 1088, 1077, 46]"

definition answer_button :: "event \<Rightarrow> button" where
  "answer_button e = button txt_change_answer (asc ''select:answer:'' @ ev_event_id e)"

definition game_wishes_menu :: "event \<Rightarrow> bot_response" where
  "game_wishes_menu e =
     response (txt_wishes_of @ event_reference (ev_name e) (ev_game_date e))
       ([button CHARACTER_WISHES (asc ''wishes:character:'' @ ev_event_id e),
         button CO_PLAYER_WISHES (asc ''wishes:co-player:'' @ ev_event_id e)]
        @ (if ev_registration_question e \<noteq> None then [answer_button e] else []))"

definition my_game_page :: "env \<Rightarrow> pkey \<Rightarrow> event \<Rightarrow> bool \<Rightarrow> bot_response dialog" where
  "my_game_page X pkey given from_list =
     (if ev_archived_at given \<noteq> None then says INACTIVE_GAME_RESPONSE []
      else
        thenDo (ask (if xe_mirrors_google X \<and> ev_public_table_public_url given \<noteq> None
                        \<and> ev_public_table_google_url given = None
                     then ensure_event_tables X given None else ret given)) (\<lambda>e.
        with_user (\<lambda>u. let who = local_identity u in
        thenDo (ask (game_overview X pkey e (fst who) (snd who))) (\<lambda>found.
        thenDo (ask (event_master_records (ev_event_id e))) (\<lambda>masters.
          case found of
            None \<Rightarrow> says txt_no_longer_playing []
          | Some overview \<Rightarrow>
              thenDo (ask (from_sum (my_game_text e overview masters))) (\<lambda>txt.
                says txt
                  ((if from_list then [button BACK MY_GAMES] else [])
                   @ (if ev_registration_question e \<noteq> None
                         \<and> gp_registration (go_participation overview) \<noteq> None \<and> ev_status e \<noteq> CLOSED
                      then [answer_button e] else [])
                   @ [main_menu_button])))))))"

definition show_my_games :: "env \<Rightarrow> pkey \<Rightarrow> cursor option \<Rightarrow> cursor option \<Rightarrow> bot_response dialog" where
  "show_my_games X pkey after before =
     with_user (\<lambda>u. let who = local_identity u in
     thenDo (ask (participating_games_page X pkey (fst who) (snd who) after before PAGE_SIZE 3)) (\<lambda>page.
       if pg_events page = [] then text_of_flow no_games_texts (asc ''mine'') (\<lambda>txt. says txt [])
       else if length (pg_events page) = 1 \<and> \<not> pg_has_previous page \<and> \<not> pg_has_next page
       then my_game_page X pkey (hd (pg_events page)) False
       else
         optional_cursor (pg_has_previous page) 117 112 (asc ''mine'') (hd (pg_events page)) (\<lambda>previous.
         optional_cursor (pg_has_next page) 117 110 (asc ''mine'') (last (pg_events page)) (\<lambda>following.
           text_of_flow picker_texts (asc ''mine'') (\<lambda>txt.
             says txt (event_buttons (pg_events page) (asc ''mine'')
               @ pagination_buttons previous following CANCEL_DIALOG))))))"

text \<open>What a flow lists: the statuses of its games, whether they are archived, the statuses of registrations.\<close>

definition flow_filter ::
    "ustring \<Rightarrow> event_status list option \<times> bool option \<times> attendance_status list option" where
  "flow_filter flow =
     (if flow = asc ''confirm'' then (Some [CONFIRMATION_OPEN], Some False, Some [WAITING])
      else if flow \<in> {asc ''cancel'', asc ''wishes''} then (None, Some False, Some [WAITING, CONFIRMED])
      else (None, None, None))"

definition actionable :: "ustring \<Rightarrow> (event \<times> registration) list \<Rightarrow> (event \<times> registration) list" where
  "actionable flow rows =
     (if flow = asc ''character''
      then filter (\<lambda>(e, r). ev_archived_at e = None \<and> rg_attendance_status r \<noteq> CANCELLED) rows
      else rows)"

definition nothing_registered ::
    "env \<Rightarrow> pkey \<Rightarrow> bot_identity \<Rightarrow> ustring \<Rightarrow> button list \<Rightarrow> bot_response dialog" where
  "nothing_registered X pkey who flow buttons =
     text_of_flow no_games_texts flow (\<lambda>empty_text.
       if flow = asc ''confirm'' then
         thenDo (ask (registered_games_page X pkey who (Some [CONFIRMATION_OPEN]) (Some False) (Some [CANCELLED])
                        None None 1)) (\<lambda>cancelled.
           says (empty_text @ (if rgp_rows cancelled \<noteq> [] then txt_cancelled_first else [])) buttons)
       else says empty_text buttons)"

definition show_registered ::
    "env \<Rightarrow> pkey \<Rightarrow> ustring \<Rightarrow> cursor option \<Rightarrow> cursor option \<Rightarrow> bot_response dialog" where
  "show_registered X pkey flow after before =
     with_user (\<lambda>u.
       if \<not> profile_complete u then says txt_fill_profile [same_button PROFILE]
       else
         (case flow_filter flow of
            (statuses, archived, registration_statuses) \<Rightarrow>
              thenDo (ask (registered_games_page X pkey (local_identity u) statuses archived registration_statuses
                             after before PAGE_SIZE)) (\<lambda>page.
                let rows = rgp_rows page; shown = actionable flow rows;
                    alone = (\<not> rgp_has_previous page \<and> \<not> rgp_has_next page)
                in if flow = asc ''wishes'' \<and> length rows = 1 \<and> alone then give (game_wishes_menu (fst (hd rows)))
                   else
                     optional_cursor (rgp_has_previous page \<and> rows \<noteq> []) 117 112 flow (fst (hd rows)) (\<lambda>previous.
                     optional_cursor (rgp_has_next page \<and> rows \<noteq> []) 117 110 flow (fst (last rows)) (\<lambda>following.
                       let buttons = event_buttons (map fst shown) flow
                             @ pagination_buttons previous following CANCEL_DIALOG
                       in if rows = [] \<and> alone then nothing_registered X pkey (local_identity u) flow buttons
                          else if flow \<in> {asc ''cancel'', asc ''character'', asc ''wishes''} \<and> shown = []
                          then text_of_flow no_games_texts flow (\<lambda>txt. says txt buttons)
                          else text_of_flow picker_texts flow (\<lambda>txt. says txt buttons))))))"

section \<open>The buttons of a page\<close>

text \<open>The games that a page of a flow shows; the second list holds the flows of an earlier version.\<close>

definition event_flow_statuses :: "(ustring, event_status list option) dict" where
  "event_flow_statuses =
     [(asc ''enlist'', Some registration_open_statuses), (asc ''admin-status'', None),
      (asc ''admin-archive'', None), (asc ''admin-delete'', None),
      (asc ''admin-reminder'', Some [CONFIRMATION_OPEN]), (asc ''admin-notification'', None),
      (asc ''admin-pass-create'', None), (asc ''admin-leader-add'', None)]"

definition flow_of_code :: "ustring \<Rightarrow> ustring option" where
  "flow_of_code code =
     (case code of [c] \<Rightarrow> map_option fst (List.find (\<lambda>entry. snd entry = c) flow_codes) | _ \<Rightarrow> None)"

definition parsed_cursor :: "ustring \<Rightarrow> ustring \<Rightarrow> (cursor \<Rightarrow> 'a dialog) \<Rightarrow> 'a dialog" where
  "parsed_cursor micros event_id k =
     (case cursor_time micros of Inl x \<Rightarrow> fail x | Inr t \<Rightarrow> k (t, event_id))"

text \<open>Two directions: the games before the cursor, or after it.\<close>

definition directed ::
    "ustring \<Rightarrow> cursor \<Rightarrow> (cursor option \<Rightarrow> cursor option \<Rightarrow> 'a dialog) \<Rightarrow> 'a dialog" where
  "directed direction c show = (if direction = [112] then show None (Some c) else show (Some c) None)"

definition admin_page :: "env \<Rightarrow> admin_dialogs \<Rightarrow> ustring \<Rightarrow> bot_response dialog" where
  "admin_page X A v =
     (case split_colons 4 v of
        [_, kind, direction, micros, event_id] \<Rightarrow>
          if direction \<notin> {[110], [112]} \<or> \<not> all_digits micros then says txt_bad_page []
          else with_user (\<lambda>u.
            thenDo (ask (has_admin_access X u)) (\<lambda>access.
              if \<not> access then says txt_insufficient []
              else
                thenDo (ask (if kind = [114] then is_admin X u else ret True)) (\<lambda>admin.
                  if \<not> admin then says txt_insufficient []
                  else parsed_cursor micros event_id (\<lambda>c.
                    directed direction c (\<lambda>after before. ad_games A after before (kind = [114]))))))
      | _ \<Rightarrow> says txt_bad_page [])"

definition flow_page ::
    "env \<Rightarrow> pkey \<Rightarrow> ustring \<Rightarrow> ustring \<Rightarrow> ustring \<Rightarrow> ustring \<Rightarrow> ustring \<Rightarrow> bot_response dialog" where
  "flow_page X pkey kind direction code micros event_id =
     (case flow_of_code code of
        None \<Rightarrow> says txt_bad_page []
      | Some flow \<Rightarrow>
          if direction \<notin> {[110], [112]} \<or> \<not> all_digits micros then says txt_bad_page []
          else with_user (\<lambda>u.
            thenDo (ask (if is_admin_flow flow then has_admin_access X u else ret True)) (\<lambda>allowed.
              if \<not> allowed then says txt_insufficient []
              else parsed_cursor micros event_id (\<lambda>c.
                if kind = [117] \<and> flow = asc ''mine'' then directed direction c (show_my_games X pkey)
                else if kind = [117] then directed direction c (show_registered X pkey flow)
                else
                  (case dict_get event_flow_statuses flow of
                     None \<Rightarrow> says txt_bad_page []
                   | Some statuses \<Rightarrow>
                       directed direction c (\<lambda>after before.
                         show_events X flow statuses after before txt_no_games))))))"

definition old_page :: "env \<Rightarrow> pkey \<Rightarrow> admin_dialogs \<Rightarrow> ustring \<Rightarrow> bot_response dialog" where
  "old_page X pkey A v =
     (case split_colons 3 v of
        [_, flow, micros, event_id] \<Rightarrow>
          if \<not> all_digits micros then says txt_bad_page []
          else with_user (\<lambda>u.
            thenDo (ask (if is_admin_flow flow then has_admin_access X u else ret True)) (\<lambda>allowed.
              if \<not> allowed then says txt_insufficient []
              else parsed_cursor micros event_id (\<lambda>c.
                case dict_get event_flow_statuses flow of
                  Some statuses \<Rightarrow> show_events X flow statuses (Some c) None txt_no_games
                | None \<Rightarrow>
                    if flow \<in> {asc ''admin-list'', asc ''admin-pass-list''} then ad_games A None None False
                    else show_registered X pkey flow (Some c) None)))
      | _ \<Rightarrow> says txt_bad_page [])"

definition turn_to_page :: "env \<Rightarrow> pkey \<Rightarrow> admin_dialogs \<Rightarrow> ustring \<Rightarrow> bot_response dialog" where
  "turn_to_page X pkey A v =
     (if starts_with (asc ''page:a:'') v \<or> starts_with (asc ''page:r:'') v then admin_page X A v
      else
        (case split_colons 5 v of
           [_, kind, direction, code, micros, event_id] \<Rightarrow>
             if kind \<in> {[101], [117]} then flow_page X pkey kind direction code micros event_id
             else old_page X pkey A v
         | _ \<Rightarrow> old_page X pkey A v))"

section \<open>The optional question\<close>

definition txt_answer_warning :: ustring where
  "txt_answer_warning =
     [10, 10, 1055, 1088, 1080, 32, 1089, 1084, 1077, 1085, 1077, 32, 1086, 1090, 1074, 1077,
      1090, 1072, 32, 1074, 1099, 32, 1087, 1077, 1088, 1077, 1081, 1076, 1105, 1090, 1077, 32,
      1074, 32, 1082, 1086, 1085, 1077, 1094, 32, 1086, 1095, 1077, 1088, 1077, 1076, 1080, 32,
      1085, 1086, 1074, 1086, 1075, 1086, 32, 1086, 1090, 1074, 1077, 1090, 1072, 32, 1080, 32,
      1084, 1086, 1078, 1077, 1090, 1077, 32, 1087, 1086, 1087, 1072, 1089, 1090, 1100, 32, 1074,
      32, 1079, 1072, 1087, 1072, 1089, 46]"

definition txt_answer_unavailable :: ustring where
  "txt_answer_unavailable =
     [1048, 1079, 1084, 1077, 1085, 1077, 1085, 1080, 1077, 32, 1086, 1090, 1074, 1077, 1090,
      1072, 32, 1076, 1083, 1103, 32, 1101, 1090, 1086, 1081, 32, 1080, 1075, 1088, 1099, 32,
      1085, 1077, 1076, 1086, 1089, 1090, 1091, 1087, 1085, 1086, 46]"

definition txt_question_unavailable :: ustring where
  "txt_question_unavailable =
     [1044, 1086, 1087, 1086, 1083, 1085, 1080, 1090, 1077, 1083, 1100, 1085, 1099, 1081, 32,
      1074, 1086, 1087, 1088, 1086, 1089, 32, 1085, 1077, 1076, 1086, 1089, 1090, 1091, 1087,
      1077, 1085, 46]"

definition txt_change_accepted :: ustring where
  "txt_change_accepted =
     [9203, 32, 1048, 1079, 1084, 1077, 1085, 1077, 1085, 1080, 1077, 32, 1087, 1088, 1080, 1085,
      1103, 1090, 1086, 32, 1074, 32, 1086, 1073, 1088, 1072, 1073, 1086, 1090, 1082, 1091, 46]"

definition answer_prompt :: "event \<Rightarrow> ustring \<Rightarrow> bool \<Rightarrow> bot_response dialog" where
  "answer_prompt e current changing =
     (case ev_registration_question e of
        None \<Rightarrow> fail AssertionError
      | Some q \<Rightarrow>
          says ((if current = [] then qu_text q else current) @ (if changing then txt_answer_warning else []))
            (map (\<lambda>option. button (op_name option)
                    (asc ''rq:pick:'' @ ev_event_id e @ [58] @ op_option_id option)) (qu_options q)
             @ [same_button CANCEL_DIALOG]))"

definition registration_of :: "env \<Rightarrow> pkey \<Rightarrow> inbound_message \<Rightarrow> ustring \<Rightarrow> registration option dialog" where
  "registration_of X pkey im event_id =
     ask (get_registration X pkey event_id (fst (im_identity im)) (snd (im_identity im)))"

definition is_cancelled :: "registration option \<Rightarrow> bool" where
  "is_cancelled r \<longleftrightarrow> (case r of None \<Rightarrow> True | Some row \<Rightarrow> rg_attendance_status row = CANCELLED)"

definition start_answer_change :: "env \<Rightarrow> pkey \<Rightarrow> inbound_message \<Rightarrow> event \<Rightarrow> bot_response dialog" where
  "start_answer_change X pkey im e =
     thenDo (registration_of X pkey im (ev_event_id e)) (\<lambda>found.
       case found of
         None \<Rightarrow> says txt_answer_unavailable []
       | Some r \<Rightarrow>
           if ev_archived_at e \<noteq> None \<or> ev_status e = CLOSED \<or> ev_registration_question e = None
              \<or> rg_attendance_status r = CANCELLED
           then says txt_answer_unavailable []
           else
             thenDo (into (asc ''ANSWER_EDIT'')) (\<lambda>_.
             thenDo (new_context [(asc ''event_id'', JString (ev_event_id e))]) (\<lambda>_.
               answer_prompt e (answer_text e r) True)))"

section \<open>Queueing a command\<close>

definition reply_to :: "inbound_message \<Rightarrow> ustring \<Rightarrow> reply_context" where
  "reply_to im success =
     \<lparr>rc_chat_id = im_chat_id im, rc_peer_id = im_peer_id im, rc_text_success = success, rc_text_failure = [],
      rc_buttons = [main_menu_button]\<rparr>"

definition queue_command ::
    "env \<Rightarrow> pkey \<Rightarrow> inbound_message \<Rightarrow> operation \<Rightarrow> ustring \<Rightarrow> ustring \<Rightarrow> payload \<Rightarrow> ustring \<Rightarrow> unit dialog" where
  "queue_command X pkey im operation name event_id payload success =
     (case payload_validate payload of
        None \<Rightarrow> fail ValueError
      | Some valid \<Rightarrow>
          ask (andThen (enqueue X pkey operation event_id (fst (im_identity im)) (snd (im_identity im)) valid
                 (reply_to im success) (Some (im_update_id im @ [58] @ name)) None) (\<lambda>_. ret ())))"

section \<open>Signing up\<close>

definition txt_game_not_found :: ustring where
  "txt_game_not_found =
     [1048, 1075, 1088, 1072, 32, 1085, 1077, 32, 1085, 1072, 1081, 1076, 1077, 1085, 1072, 46]"

definition txt_already_signed :: ustring where
  "txt_already_signed =
     [1042, 1099, 32, 1091, 1078, 1077, 32, 1079, 1072, 1087, 1080, 1089, 1072, 1085, 1099, 32,
      1085, 1072, 32, 1080, 1075, 1088, 1091, 32]"

definition txt_signup_accepted :: ustring where
  "txt_signup_accepted =
     [9203, 32, 1047, 1072, 1087, 1080, 1089, 1100, 32, 1087, 1088, 1080, 1085, 1103, 1090, 1072,
      32, 1074, 32, 1086, 1073, 1088, 1072, 1073, 1086, 1090, 1082, 1091, 46]"

definition txt_enter_text :: ustring where
  "txt_enter_text =
     [1042, 1074, 1077, 1076, 1080, 1090, 1077, 32, 1086, 1090, 1074, 1077, 1090, 32, 1090, 1077,
      1082, 1089, 1090, 1086, 1084, 46]"

definition txt_use_keyboard :: ustring where
  "txt_use_keyboard =
     [1048, 1089, 1087, 1086, 1083, 1100, 1079, 1091, 1081, 1090, 1077, 32, 1090, 1077, 1082,
      1091, 1097, 1091, 1102, 32, 1082, 1083, 1072, 1074, 1080, 1072, 1090, 1091, 1088, 1091, 58,
      32, 1085, 1072, 1078, 1084, 1080, 1090, 1077, 32, 171]"

definition txt_or_wish :: ustring where
  "txt_or_wish =
     [187, 32, 1080, 1083, 1080, 32, 1086, 1090, 1087, 1088, 1072, 1074, 1100, 1090, 1077, 32,
      1089, 1086, 1086, 1073, 1097, 1077, 1085, 1080, 1077, 1084, 44, 32, 1089, 32, 1082, 1077,
      1084, 32, 1074, 1099, 32, 1093, 1086, 1090, 1080, 1090, 1077, 32, 1080, 1075, 1088, 1072,
      1090, 1100, 46]"

definition txt_press_confirm :: ustring where
  "txt_press_confirm =
     [1053, 1072, 1078, 1084, 1080, 1090, 1077, 32, 171, 1055, 1086, 1076, 1090, 1074, 1077,
      1088, 1076, 1080, 1090, 1100, 187, 32, 1080, 1083, 1080, 32, 171, 1042, 32, 1075, 1083,
      1072, 1074, 1085, 1086, 1077, 32, 1084, 1077, 1085, 1102, 187, 46]"

definition own_links :: "inbound_message \<Rightarrow> user \<Rightarrow> exn + ustring \<times> ustring option" where
  "own_links im u =
     (case u of
        TelegramUser b i v l h \<Rightarrow>
          (case normalize_telegram_handle (im_telegram_username im) of
             None \<Rightarrow> Inl ValueError
           | Some own \<Rightarrow> Inr ((case v of None \<Rightarrow> [] | Some url \<Rightarrow> url), own))
      | VkUser b i h \<Rightarrow> Inr (asc ''https://vk.com/id'' @ show_int i, h))"

definition enlist_payload_of :: "inbound_message \<Rightarrow> json_object \<Rightarrow> user \<Rightarrow> exn + payload" where
  "enlist_payload_of im ctx u =
     then_sum (own_links im u) (\<lambda>(vk_profile, own).
       case dict_get ctx (asc ''wish_play'') of
         None \<Rightarrow> Inl KeyError
       | Some wish \<Rightarrow>
           Inr (EnlistPayload
             \<lparr>en_answer_id = (if truthy_json (json_get ctx (asc ''answer_id''))
                then Some (json_text (json_get ctx (asc ''answer_id''))) else None),
              en_display_name = surname_and_name (case us_full_name (base u) of None \<Rightarrow> [] | Some n \<Rightarrow> n),
              en_nickname = us_nickname (base u), en_wish_play = json_text wish,
              en_larp_experience = us_larp_experience (base u), en_crossplay = us_crossplay (base u),
              en_vk_profile = vk_profile,
              en_telegram_profile = map_option (\<lambda>h. asc ''https://t.me/'' @ remove_prefix [64] h) own,
              en_same_day_warning_shown = truthy_json (json_get ctx (asc ''same_day_warning_shown''))\<rparr>))"

definition lacks_answer :: "event \<Rightarrow> json_object \<Rightarrow> bool" where
  "lacks_answer e ctx \<longleftrightarrow>
     (case ev_registration_question e of
        None \<Rightarrow> False
      | Some q \<Rightarrow> question_option q (Some (json_text (json_get_or ctx (asc ''answer_id'') (JString [])))) = None)"

definition enqueue_enlist :: "env \<Rightarrow> pkey \<Rightarrow> inbound_message \<Rightarrow> bot_response dialog" where
  "enqueue_enlist X pkey im =
     recall (\<lambda>ctx. needed ctx (asc ''event_id'') (\<lambda>event_id.
       thenDo (ask (find_event (json_text event_id))) (\<lambda>found.
         case found of
           None \<Rightarrow> says_cleared txt_game_not_found
         | Some e \<Rightarrow>
             if ev_archived_at e \<noteq> None then says_cleared INACTIVE_GAME_RESPONSE
             else if lacks_answer e ctx then
               thenDo (into (asc ''ENLIST_ANSWER'')) (\<lambda>_. answer_prompt e [] False)
             else
               thenDo (registration_of X pkey im (ev_event_id e)) (\<lambda>r.
                 if \<not> is_cancelled r then
                   says_cleared (txt_already_signed @ event_reference (ev_name e) (ev_game_date e) @ [46])
                 else
                   thenDo clear_dialog (\<lambda>_.
                   with_user (\<lambda>u. thenDo (ask (from_sum (enlist_payload_of im ctx u))) (\<lambda>payload.
                   thenDo (queue_command X pkey im ENLIST (asc ''ENLIST'') (json_text event_id) payload []) (\<lambda>_.
                     give (queued_response txt_signup_accepted)))))))))"

text \<open>An answer is picked by a button of the game it belongs to.\<close>

definition picked_option :: "event \<Rightarrow> registration_question \<Rightarrow> inbound_message \<Rightarrow> ustring \<Rightarrow> answer_option option" where
  "picked_option e q im v =
     (let prefix = asc ''rq:pick:'' @ ev_event_id e @ [58]
      in if starts_with prefix v \<and> im_callback im \<noteq> None \<and> im_callback im \<noteq> Some []
         then question_option q (Some (remove_prefix prefix v)) else None)"

definition answer_step :: "env \<Rightarrow> pkey \<Rightarrow> inbound_message \<Rightarrow> ustring \<Rightarrow> bot_response dialog" where
  "answer_step X pkey im v =
     recall (\<lambda>ctx. needed ctx (asc ''event_id'') (\<lambda>event_id.
       thenDo (ask (find_event (json_text event_id))) (\<lambda>found.
         case found of
           None \<Rightarrow> says_cleared txt_question_unavailable
         | Some e \<Rightarrow>
             (case ev_registration_question e of
                None \<Rightarrow> says_cleared txt_question_unavailable
              | Some q \<Rightarrow>
                  with_user (\<lambda>u. case picked_option e q im v of
                    None \<Rightarrow> answer_prompt e [] (state_of u = asc ''ANSWER_EDIT'')
                  | Some option \<Rightarrow>
                      if state_of u = asc ''ENLIST_ANSWER'' then
                        thenDo (remember (asc ''answer_id'') (JString (op_option_id option))) (\<lambda>_.
                          enqueue_enlist X pkey im)
                      else
                        thenDo (queue_command X pkey im UPDATE_ANSWER (asc ''UPDATE_ANSWER'') (ev_event_id e)
                                  (AnswerPayload (op_option_id option)) []) (\<lambda>_.
                        thenDo clear_dialog (\<lambda>_. give (queued_response txt_change_accepted))))))))"

definition enlist_buttons :: "button list" where
  "enlist_buttons = [button ENLIST_SKIP (asc ''enlist:wish-play:skip''), dialog_exit_button MAIN_MENU_LABEL]"

definition wish_play_step :: "env \<Rightarrow> pkey \<Rightarrow> inbound_message \<Rightarrow> ustring \<Rightarrow> bot_response dialog" where
  "wish_play_step X pkey im v =
     (let skip = (v = asc ''enlist:wish-play:skip'')
      in if im_callback im \<noteq> None \<and> \<not> skip then
           says (txt_use_keyboard @ ENLIST_SKIP @ txt_or_wish) enlist_buttons
         else if \<not> skip \<and> MAX_CO_PLAYER_WISH_LENGTH < length v then says INVALID_INPUT_RESPONSE enlist_buttons
         else
           thenDo (remember (asc ''wish_play'') (JString (if skip then NO_CO_PLAYER_WISH else v))) (\<lambda>_.
             enqueue_enlist X pkey im))"

definition enlist_step :: "env \<Rightarrow> pkey \<Rightarrow> inbound_message \<Rightarrow> ustring \<Rightarrow> bot_response dialog" where
  "enlist_step X pkey im v =
     with_user (\<lambda>u.
       if \<not> profile_complete u then
         thenDo clear_dialog (\<lambda>_. says txt_fill_profile_wholly [same_button PROFILE])
       else if v = [] then says txt_enter_text []
       else if state_of u = asc ''ENLIST_ANSWER'' then answer_step X pkey im v
       else if state_of u = asc ''ENLIST_WISH_PLAY'' then wish_play_step X pkey im v
       else if state_of u = asc ''ENLIST_CONFIRM'' then
         (if v \<noteq> asc ''enlist:confirm'' then says txt_press_confirm [] else enqueue_enlist X pkey im)
       else fail AssertionError)"

section \<open>Wishes\<close>

definition txt_nothing_saved :: ustring where
  "txt_nothing_saved =
     [1057, 1086, 1093, 1088, 1072, 1085, 1105, 1085, 1085, 1099, 1093, 32, 1087, 1086, 1078,
      1077, 1083, 1072, 1085, 1080, 1081, 32, 1087, 1086, 1082, 1072, 32, 1085, 1077, 1090, 46,
      32, 1042, 1074, 1077, 1076, 1080, 1090, 1077, 32, 1090, 1077, 1082, 1089, 1090, 32, 1080,
      1083, 1080, 32, 1074, 1099, 1073, 1077, 1088, 1080, 1090, 1077, 32, 171, 1041, 1077, 1079,
      32, 1087, 1086, 1078, 1077, 1083, 1072, 1085, 1080, 1081, 187, 46]"

definition txt_text_or_none :: ustring where
  "txt_text_or_none =
     [1042, 1074, 1077, 1076, 1080, 1090, 1077, 32, 1090, 1077, 1082, 1089, 1090, 32, 1080, 1083,
      1080, 32, 1074, 1099, 1073, 1077, 1088, 1080, 1090, 1077, 32, 171, 1041, 1077, 1079, 32,
      1087, 1086, 1078, 1077, 1083, 1072, 1085, 1080, 1081, 187, 46]"

definition txt_not_now :: ustring where
  "txt_not_now =
     [1053, 1077, 32, 1087, 1086, 1076, 1090, 1074, 1077, 1088, 1078, 1076, 1072, 1090, 1100, 32,
      1089, 1077, 1081, 1095, 1072, 1089]"

definition txt_wishes_for :: ustring where
  "txt_wishes_for =
     [127917, 32, 1055, 1086, 1078, 1077, 1083, 1072, 1085, 1080, 1103, 32, 1076, 1083, 1103, 32,
      1080, 1075, 1088, 1099, 32]"

definition txt_co_wishes_for :: ustring where
  "txt_co_wishes_for =
     [127917, 32, 1055, 1086, 1078, 1077, 1083, 1072, 1085, 1080, 1103, 32, 1087, 1086, 32, 1089,
      1086, 1080, 1075, 1088, 1086, 1082, 1072, 1084, 32, 1076, 1083, 1103, 32, 1080, 1075, 1088,
      1099, 32]"

definition txt_updated :: ustring where
  "txt_updated = [32, 1086, 1073, 1085, 1086, 1074, 1083, 1077, 1085, 1099, 46]"

definition txt_text_or_skip :: ustring where
  "txt_text_or_skip =
     [1042, 1074, 1077, 1076, 1080, 1090, 1077, 32, 1090, 1077, 1082, 1089, 1090, 32, 1080, 1083,
      1080, 32, 1074, 1099, 1073, 1077, 1088, 1080, 1090, 1077, 32, 171, 1055, 1088, 1086, 1087,
      1091, 1089, 1090, 1080, 1090, 1100, 187, 46]"

definition txt_sign_up_first :: ustring where
  "txt_sign_up_first =
     [1057, 1085, 1072, 1095, 1072, 1083, 1072, 32, 1079, 1072, 1087, 1080, 1096, 1080, 1090,
      1077, 1089, 1100, 32, 1085, 1072, 32, 1101, 1090, 1091, 32, 1080, 1075, 1088, 1091, 46]"

definition txt_sign_up_again :: ustring where
  "txt_sign_up_again =
     [1057, 1085, 1072, 1095, 1072, 1083, 1072, 32, 1089, 1085, 1086, 1074, 1072, 32, 1079, 1072,
      1087, 1080, 1096, 1080, 1090, 1077, 1089, 1100, 32, 1085, 1072, 32, 1101, 1090, 1091, 32,
      1080, 1075, 1088, 1091, 46]"

text \<open>The wish that an answer means, or what is said about the answer.\<close>

definition given_wish :: "json_object \<Rightarrow> ustring \<Rightarrow> ustring + ustring" where
  "given_wish ctx v =
     (if v = KEEP then
        (let existing = json_text (json_get_or ctx (asc ''existing_character_wish'') (JString []))
         in if existing = [] then Inl txt_nothing_saved else Inr existing)
      else if v = NO_WISHES then Inr NO_WISHES
      else if strip v = [] then Inl txt_text_or_none else Inr (strip v))"

definition too_long_buttons :: "operation \<Rightarrow> json_object \<Rightarrow> button list" where
  "too_long_buttons operation ctx =
     (if operation = CONFIRM \<and> truthy_json (json_get ctx (asc ''existing_character_wish'')) then
        [same_button KEEP, same_button NO_WISHES, dialog_exit_button txt_not_now]
      else
        [same_button NO_WISHES, dialog_exit_button (if operation = CONFIRM then txt_not_now else MAIN_MENU_LABEL)])"

definition operation_name :: "operation \<Rightarrow> ustring" where
  "operation_name operation = (if operation = CONFIRM then asc ''CONFIRM'' else asc ''UPDATE_CHARACTER_WISH'')"

definition character_payload :: "operation \<Rightarrow> json_object \<Rightarrow> ustring \<Rightarrow> payload" where
  "character_payload operation ctx wish =
     CharacterWishPayload wish
       (if operation = CONFIRM \<and> json_get ctx (asc ''replaced_event_id'') \<noteq> JNull
        then Some (json_text (json_get ctx (asc ''replaced_event_id''))) else None)"

definition character_command :: "env \<Rightarrow> pkey \<Rightarrow> inbound_message \<Rightarrow> ustring \<Rightarrow> operation \<Rightarrow> bot_response dialog" where
  "character_command X pkey im v operation =
     recall (\<lambda>ctx. case given_wish ctx v of
       Inl txt \<Rightarrow> says txt []
     | Inr wish \<Rightarrow>
         if MAX_CHARACTER_WISH_LENGTH < length wish then says INVALID_INPUT_RESPONSE (too_long_buttons operation ctx)
         else
           thenDo clear_dialog (\<lambda>_. needed ctx (asc ''event_id'') (\<lambda>event_id.
           thenDo (ask (find_event (json_text event_id))) (\<lambda>found.
             case found of
               None \<Rightarrow> says txt_game_not_found []
             | Some e \<Rightarrow>
                 if ev_archived_at e \<noteq> None then says INACTIVE_GAME_RESPONSE []
                 else
                   thenDo (queue_command X pkey im operation (operation_name operation) (json_text event_id)
                       (character_payload operation ctx wish)
                       (if operation = CONFIRM then []
                        else txt_wishes_for @ event_reference (ev_name e) (ev_game_date e) @ txt_updated)) (\<lambda>_.
                     give (queued_response txt_change_accepted))))))"

definition co_player_buttons :: "button list" where
  "co_player_buttons = br_buttons (co_player_wish_prompt CO_PLAYER_WISH_SKIP SKIP None)"

definition co_player_wish_command :: "env \<Rightarrow> pkey \<Rightarrow> inbound_message \<Rightarrow> ustring \<Rightarrow> bot_response dialog" where
  "co_player_wish_command X pkey im v =
     (let skip = (im_callback im \<noteq> None \<and> v = CO_PLAYER_WISH_SKIP);
          wish = (if skip then NO_CO_PLAYER_WISH else strip v)
      in if wish = [] then says txt_text_or_skip co_player_buttons
         else if MAX_CO_PLAYER_WISH_LENGTH < length wish then says INVALID_INPUT_RESPONSE co_player_buttons
         else
           recall (\<lambda>ctx. thenDo clear_dialog (\<lambda>_. needed ctx (asc ''event_id'') (\<lambda>event_id.
           thenDo (ask (find_event (json_text event_id))) (\<lambda>found.
             case found of
               None \<Rightarrow> says txt_game_not_found []
             | Some e \<Rightarrow>
                 if ev_archived_at e \<noteq> None then says INACTIVE_GAME_RESPONSE []
                 else
                   thenDo (registration_of X pkey im (ev_event_id e)) (\<lambda>r.
                     if r = None then says txt_sign_up_first []
                     else if is_cancelled r then says txt_sign_up_again []
                     else
                       thenDo (queue_command X pkey im UPDATE_CO_PLAYER_WISH (asc ''UPDATE_CO_PLAYER_WISH'')
                           (ev_event_id e) (CoPlayerWishPayload wish)
                           (txt_co_wishes_for @ event_reference (ev_name e) (ev_game_date e) @ txt_updated)) (\<lambda>_.
                         give (queued_response txt_change_accepted))))))))"

section \<open>Confirming and cancelling\<close>

definition txt_not_given_yet :: ustring where
  "txt_not_given_yet =
     [1077, 1097, 1105, 32, 1085, 1077, 32, 1091, 1082, 1072, 1079, 1072, 1085, 1099]"

definition txt_game :: ustring where
  "txt_game = [1048, 1075, 1088, 1072, 58, 32]"

definition txt_now_status :: ustring where
  "txt_now_status = [1057, 1090, 1072, 1090, 1091, 1089, 58, 32]"

definition txt_current_wishes :: ustring where
  "txt_current_wishes =
     [1058, 1077, 1082, 1091, 1097, 1080, 1077, 32, 1087, 1086, 1078, 1077, 1083, 1072, 1085,
      1080, 1103, 58, 32]"

definition txt_send_wishes :: ustring where
  "txt_send_wishes =
     [1054, 1090, 1087, 1088, 1072, 1074, 1100, 1090, 1077, 32, 1087, 1086, 1078, 1077, 1083,
      1072, 1085, 1080, 1103, 32, 1087, 1086, 32, 1087, 1077, 1088, 1089, 1086, 1085, 1072, 1078,
      1091, 32, 1076, 1083, 1103, 32, 1101, 1090, 1086, 1081, 32, 1080, 1075, 1088, 1099, 46, 10,
      10, 1055, 1086, 1089, 1083, 1077, 32, 1086, 1090, 1087, 1088, 1072, 1074, 1082, 1080, 32,
      1086, 1090, 1074, 1077, 1090, 1072, 32, 1074, 1072, 1096, 1077, 32, 1091, 1095, 1072, 1089,
      1090, 1080, 1077, 32, 1073, 1091, 1076, 1077, 1090, 32, 1087, 1086, 1076, 1090, 1074, 1077,
      1088, 1078, 1076, 1077, 1085, 1086, 46]"

definition txt_press_cancel :: ustring where
  "txt_press_cancel =
     [1053, 1072, 1078, 1084, 1080, 1090, 1077, 32, 171, 1044, 1072, 44, 32, 1086, 1090, 1084,
      1077, 1085, 1080, 1090, 1100, 187, 32, 1080, 1083, 1080, 32, 171, 1053, 1077, 1090, 44, 32,
      1086, 1089, 1090, 1072, 1074, 1080, 1090, 1100, 32, 1091, 1095, 1072, 1089, 1090, 1080,
      1077, 187, 46]"

definition txt_participation_in :: ustring where
  "txt_participation_in =
     [10060, 32, 1059, 1095, 1072, 1089, 1090, 1080, 1077, 32, 1074, 32, 1080, 1075, 1088, 1077,
      32]"

definition txt_is_cancelled :: ustring where
  "txt_is_cancelled = [32, 1086, 1090, 1084, 1077, 1085, 1077, 1085, 1086, 46]"

definition txt_cancel_accepted :: ustring where
  "txt_cancel_accepted =
     [9203, 32, 1054, 1090, 1084, 1077, 1085, 1072, 32, 1087, 1088, 1080, 1085, 1103, 1090, 1072,
      32, 1074, 32, 1086, 1073, 1088, 1072, 1073, 1086, 1090, 1082, 1091, 46]"

definition txt_game_gone :: ustring where
  "txt_game_gone =
     [1054, 1076, 1085, 1072, 32, 1080, 1079, 32, 1080, 1075, 1088, 32, 1073, 1086, 1083, 1100,
      1096, 1077, 32, 1085, 1077, 32, 1085, 1072, 1081, 1076, 1077, 1085, 1072, 46]"

definition txt_confirmation_over :: ustring where
  "txt_confirmation_over =
     [1055, 1086, 1076, 1090, 1074, 1077, 1088, 1078, 1076, 1077, 1085, 1080, 1077, 32, 1091,
      1095, 1072, 1089, 1090, 1080, 1103, 32, 1074, 32, 1101, 1090, 1086, 1081, 32, 1080, 1075,
      1088, 1077, 32, 1091, 1078, 1077, 32, 1079, 1072, 1082, 1088, 1099, 1090, 1086, 46]"

definition begin_confirmation_wish :: "event \<Rightarrow> registration \<Rightarrow> ustring option \<Rightarrow> bot_response dialog" where
  "begin_confirmation_wish e r replaced_event_id =
     thenDo (new_context
         ([(asc ''event_id'', JString (ev_event_id e)), (asc ''event_name'', JString (ev_name e)),
           (asc ''existing_character_wish'', JString (rg_character_wish r))]
          @ (case replaced_event_id of None \<Rightarrow> [] | Some k \<Rightarrow> [(asc ''replaced_event_id'', JString k)]))) (\<lambda>_.
     thenDo (into (asc ''CONFIRM_WISH'')) (\<lambda>_.
       says (txt_game @ event_reference (ev_name e) (ev_game_date e) @ [10]
             @ txt_now_status @ attendance_status_text (rg_attendance_status r) @ [10, 10]
             @ txt_current_wishes @ text_or (Some (rg_character_wish r)) txt_not_given_yet @ [10, 10] @ txt_send_wishes)
         ((if rg_character_wish r \<noteq> [] then [same_button KEEP] else [])
          @ [same_button NO_WISHES, dialog_exit_button txt_not_now])))"

definition confirm_replacement_step :: "env \<Rightarrow> pkey \<Rightarrow> inbound_message \<Rightarrow> ustring \<Rightarrow> bot_response dialog" where
  "confirm_replacement_step X pkey im v =
     recall (\<lambda>ctx. needed ctx (asc ''event_id'') (\<lambda>event_id. needed ctx (asc ''replaced_event_id'') (\<lambda>replaced_id.
     thenDo (ask (find_event (json_text event_id))) (\<lambda>found.
     thenDo (ask (find_event (json_text replaced_id))) (\<lambda>replaced.
       case (found, replaced) of
         (Some e, Some other) \<Rightarrow>
           if v \<noteq> asc ''confirm:replace:yes'' then confirmation_replacement_prompt e other
           else if ev_archived_at e \<noteq> None then says_cleared INACTIVE_GAME_RESPONSE
           else if ev_status e \<noteq> CONFIRMATION_OPEN then says_cleared txt_confirmation_over
           else
             thenDo (registration_of X pkey im (ev_event_id e)) (\<lambda>r.
               case r of
                 None \<Rightarrow> says_cleared txt_sign_up_again
               | Some row \<Rightarrow>
                   if rg_attendance_status row = CANCELLED then says_cleared txt_sign_up_again
                   else begin_confirmation_wish e row (Some (ev_event_id other)))
       | _ \<Rightarrow> says_cleared txt_game_gone)))))"

definition cancel_step :: "env \<Rightarrow> pkey \<Rightarrow> inbound_message \<Rightarrow> ustring \<Rightarrow> bot_response dialog" where
  "cancel_step X pkey im v =
     (if v \<noteq> asc ''cancel:yes'' then says txt_press_cancel []
      else
        recall (\<lambda>ctx. thenDo clear_dialog (\<lambda>_. needed ctx (asc ''event_id'') (\<lambda>event_id.
        thenDo (ask (find_event (json_text event_id))) (\<lambda>found.
          case found of
            None \<Rightarrow> says txt_game_not_found []
          | Some e \<Rightarrow>
              if ev_archived_at e \<noteq> None then says INACTIVE_GAME_RESPONSE []
              else
                thenDo (queue_command X pkey im CANCEL (asc ''CANCEL'') (json_text event_id) EmptyPayload
                    (txt_participation_in @ event_reference (ev_name e) (ev_game_date e) @ txt_is_cancelled)) (\<lambda>_.
                  give (queued_response txt_cancel_accepted)))))))"

section \<open>Picking a game\<close>

definition txt_bad_choice :: ustring where
  "txt_bad_choice =
     [1053, 1077, 1082, 1086, 1088, 1088, 1077, 1082, 1090, 1085, 1099, 1081, 32, 1074, 1099,
      1073, 1086, 1088, 46]"

definition txt_bad_action :: ustring where
  "txt_bad_action =
     [1053, 1077, 1082, 1086, 1088, 1088, 1077, 1082, 1090, 1085, 1086, 1077, 32, 1076, 1077,
      1081, 1089, 1090, 1074, 1080, 1077, 46]"

definition txt_opens_at :: ustring where
  "txt_opens_at =
     [1056, 1077, 1075, 1080, 1089, 1090, 1088, 1072, 1094, 1080, 1103, 32, 1085, 1072, 32, 1101,
      1090, 1091, 32, 1080, 1075, 1088, 1091, 32, 1086, 1090, 1082, 1088, 1086, 1077, 1090, 1089,
      1103, 32]"

definition txt_signup_closed :: ustring where
  "txt_signup_closed =
     [1056, 1077, 1075, 1080, 1089, 1090, 1088, 1072, 1094, 1080, 1103, 32, 1085, 1072, 32, 1101,
      1090, 1091, 32, 1080, 1075, 1088, 1091, 32, 1091, 1078, 1077, 32, 1079, 1072, 1082, 1088,
      1099, 1090, 1072, 46]"

definition txt_you_are_signed :: ustring where
  "txt_you_are_signed =
     [1042, 1099, 32, 1079, 1072, 1087, 1080, 1089, 1072, 1085, 1099, 32, 1085, 1072, 32, 1080,
      1075, 1088, 1091, 32]"

definition txt_confirmation_later :: ustring where
  "txt_confirmation_later =
     [1085, 1086, 32, 1087, 1086, 1076, 1090, 1074, 1077, 1088, 1078, 1076, 1077, 1085, 1080,
      1077, 32, 1091, 1095, 1072, 1089, 1090, 1080, 1103, 32, 1077, 1097, 1105, 32, 1085, 1077,
      32, 1086, 1090, 1082, 1088, 1099, 1090, 1086, 46, 32, 1054, 1088, 1075, 1072, 1085, 1080,
      1079, 1072, 1090, 1086, 1088, 1099, 32, 1086, 1090, 1082, 1088, 1086, 1102, 1090, 32, 1077,
      1075, 1086, 32, 1087, 1086, 1079, 1078, 1077, 46]"

definition txt_registration_and :: ustring where
  "txt_registration_and =
     [1056, 1077, 1075, 1080, 1089, 1090, 1088, 1072, 1094, 1080, 1103, 32, 1080, 32, 1087, 1086,
      1076, 1090, 1074, 1077, 1088, 1078, 1076, 1077, 1085, 1080, 1077, 32, 1091, 1095, 1072,
      1089, 1090, 1080, 1103, 32, 1074, 32, 1080, 1075, 1088, 1077, 32]"

definition txt_are_closed :: ustring where
  "txt_are_closed = [32, 1079, 1072, 1082, 1088, 1099, 1090, 1099, 46]"

definition txt_no_wishes_yet :: ustring where
  "txt_no_wishes_yet =
     [1055, 1086, 1078, 1077, 1083, 1072, 1085, 1080, 1103, 32, 1077, 1097, 1105, 32, 1085, 1077,
      32, 1074, 1074, 1086, 1076, 1080, 1083, 1080, 1089, 1100, 46, 32, 1042, 1087, 1077, 1088,
      1074, 1099, 1077, 32, 1091, 1082, 1072, 1078, 1080, 1090, 1077, 32, 1080, 1093, 32, 1095,
      1077, 1088, 1077, 1079, 32, 171, 9989, 32, 1055, 1086, 1076, 1090, 1074, 1077, 1088, 1076,
      1080, 1090, 1100, 32, 1091, 1095, 1072, 1089, 1090, 1080, 1077, 187, 46]"

definition txt_current_wishes_are :: ustring where
  "txt_current_wishes_are =
     [1058, 1077, 1082, 1091, 1097, 1080, 1077, 32, 1087, 1086, 1078, 1077, 1083, 1072, 1085,
      1080, 1103, 58, 10]"

definition txt_send_new :: ustring where
  "txt_send_new =
     [1054, 1090, 1087, 1088, 1072, 1074, 1100, 1090, 1077, 32, 1085, 1086, 1074, 1099, 1081, 32,
      1074, 1072, 1088, 1080, 1072, 1085, 1090, 46]"

definition txt_sure_cancel :: ustring where
  "txt_sure_cancel =
     [1042, 1099, 32, 1091, 1074, 1077, 1088, 1077, 1085, 1099, 44, 32, 1095, 1090, 1086, 32,
      1093, 1086, 1090, 1080, 1090, 1077, 32, 1086, 1090, 1084, 1077, 1085, 1080, 1090, 1100, 32,
      1091, 1095, 1072, 1089, 1090, 1080, 1077, 32, 1074, 32, 1080, 1075, 1088, 1077, 32]"

definition txt_after_cancel :: ustring where
  "txt_after_cancel =
     [63, 32, 1045, 1089, 1083, 1080, 32, 1074, 1099, 32, 1086, 1090, 1084, 1077, 1085, 1080,
      1090, 1077, 32, 1091, 1095, 1072, 1089, 1090, 1080, 1077, 44, 32, 1090, 1086, 32, 1089,
      1084, 1086, 1078, 1077, 1090, 1077, 32, 1079, 1072, 1087, 1080, 1089, 1072, 1090, 1100,
      1089, 1103, 32, 1089, 1085, 1086, 1074, 1072, 44, 32, 1085, 1086, 32, 1087, 1086, 1087,
      1072, 1076, 1105, 1090, 1077, 32, 1074, 32, 1082, 1086, 1085, 1077, 1094, 32, 1086, 1095,
      1077, 1088, 1077, 1076, 1080, 32, 1085, 1072, 32, 1086, 1089, 1085, 1086, 1074, 1085, 1086,
      1081, 32, 1089, 1086, 1089, 1090, 1072, 1074, 46]"

definition txt_cancel_yes :: ustring where
  "txt_cancel_yes = [1044, 1072, 44, 32, 1086, 1090, 1084, 1077, 1085, 1080, 1090, 1100]"

definition txt_cancel_no :: ustring where
  "txt_cancel_no =
     [1053, 1077, 1090, 44, 32, 1086, 1089, 1090, 1072, 1074, 1080, 1090, 1100, 32, 1091, 1095,
      1072, 1089, 1090, 1080, 1077]"

definition txt_moscow :: ustring where
  "txt_moscow = [32, 40, 1052, 1057, 1050, 41, 46]"

definition on_that_day ::
    "env \<Rightarrow> pkey \<Rightarrow> inbound_message \<Rightarrow> event \<Rightarrow> attendance_status list \<Rightarrow> (event \<times> registration) list dialog" where
  "on_that_day X pkey im e statuses =
     ask (case ev_game_date e of
            None \<Rightarrow> ret []
          | Some d \<Rightarrow>
              registrations_on_date X pkey (fst (im_identity im)) (snd (im_identity im)) d statuses
                (Some (ev_event_id e)) (Some e))"

definition begin_signup :: "env \<Rightarrow> pkey \<Rightarrow> inbound_message \<Rightarrow> event \<Rightarrow> bot_response dialog" where
  "begin_signup X pkey im e =
     thenDo (on_that_day X pkey im e [WAITING, CONFIRMED]) (\<lambda>same_day.
     thenDo (new_context
         [(asc ''event_id'', JString (ev_event_id e)), (asc ''event_name'', JString (ev_name e)),
          (asc ''same_day_warning_shown'', JBool (same_day \<noteq> []))]) (\<lambda>_.
     thenDo (into (asc ''ENLIST_WISH_PLAY'')) (\<lambda>_.
       give (prefixed (signup_game_text e (fst (im_identity im)) @ [10, 10])
         (co_player_wish_prompt (asc ''enlist:wish-play:skip'') ENLIST_SKIP
            (if same_day \<noteq> [] then ev_game_date e else None))))))"

definition select_enlist :: "env \<Rightarrow> pkey \<Rightarrow> inbound_message \<Rightarrow> event \<Rightarrow> bot_response dialog" where
  "select_enlist X pkey im e =
     with_user (\<lambda>u.
       if \<not> profile_complete u then says txt_fill_profile_wholly [same_button PROFILE]
       else if ev_archived_at e \<noteq> None then says INACTIVE_GAME_RESPONSE []
       else
         thenDo (ask (reading X)) (\<lambda>now.
           if \<not> registration_is_open e now then
             (case ev_registration_open_at e of
                None \<Rightarrow> fail AssertionError
              | Some t \<Rightarrow> says (txt_opens_at @ format_confirmation_deadline (xe_moscow X t) @ txt_moscow) [])
           else if ev_status e = CLOSED then says txt_signup_closed []
           else
             thenDo (registration_of X pkey im (ev_event_id e)) (\<lambda>r.
               if \<not> is_cancelled r then
                 says (txt_already_signed @ event_reference (ev_name e) (ev_game_date e) @ [46]) []
               else begin_signup X pkey im e)))"

definition select_confirm :: "env \<Rightarrow> pkey \<Rightarrow> inbound_message \<Rightarrow> event \<Rightarrow> registration \<Rightarrow> bot_response dialog" where
  "select_confirm X pkey im e r =
     (if ev_status e = CREATED then
        says (txt_you_are_signed @ event_reference (ev_name e) (ev_game_date e) @ [44, 32] @ txt_confirmation_later) []
      else if ev_status e \<noteq> CONFIRMATION_OPEN then
        says (txt_registration_and @ event_reference (ev_name e) (ev_game_date e) @ txt_are_closed) []
      else
        thenDo (on_that_day X pkey im e [CONFIRMED]) (\<lambda>confirmed.
          case confirmed of
            [] \<Rightarrow> begin_confirmation_wish e r None
          | (other, _) # _ \<Rightarrow>
              thenDo (into (asc ''CONFIRM_REPLACE'')) (\<lambda>_.
              thenDo (new_context
                  [(asc ''event_id'', JString (ev_event_id e)),
                   (asc ''replaced_event_id'', JString (ev_event_id other))]) (\<lambda>_.
                confirmation_replacement_prompt e other))))"

definition select_character :: "event \<Rightarrow> registration \<Rightarrow> bot_response dialog" where
  "select_character e r =
     (if rg_attendance_status r = CANCELLED then says_cleared txt_sign_up_again
      else if rg_attendance_status r = WAITING \<and> rg_character_wish r = [] then says_cleared txt_no_wishes_yet
      else
        thenDo (into (asc ''CHARACTER_EDIT'')) (\<lambda>_.
          says (txt_game @ event_reference (ev_name e) (ev_game_date e) @ [10]
                @ txt_now_status @ attendance_status_text (rg_attendance_status r) @ [10, 10]
                @ txt_current_wishes_are @ rg_character_wish r @ [10, 10] @ txt_send_new)
            [same_button NO_WISHES, dialog_exit_button MAIN_MENU_LABEL]))"

definition select_cancel :: "event \<Rightarrow> bot_response dialog" where
  "select_cancel e =
     thenDo (into (asc ''CANCEL_CONFIRM'')) (\<lambda>_.
       says (txt_sure_cancel @ event_reference (ev_name e) (ev_game_date e) @ txt_after_cancel)
         [button txt_cancel_yes (asc ''cancel:yes''), dialog_exit_button txt_cancel_no])"

text \<open>The flows about a registration the player has.\<close>

definition select_registered ::
    "env \<Rightarrow> pkey \<Rightarrow> inbound_message \<Rightarrow> event \<Rightarrow> ustring \<Rightarrow> registration \<Rightarrow> bot_response dialog" where
  "select_registered X pkey im e flow r =
     (if ev_archived_at e \<noteq> None then says INACTIVE_GAME_RESPONSE []
      else if rg_attendance_status r = CANCELLED \<and> flow \<in> {asc ''confirm'', asc ''character'', asc ''wishes''}
      then says txt_sign_up_again []
      else if flow = asc ''confirm'' then select_confirm X pkey im e r
      else if flow = asc ''wishes'' then give (game_wishes_menu e)
      else
        thenDo (new_context
            [(asc ''event_id'', JString (ev_event_id e)), (asc ''event_name'', JString (ev_name e)),
             (asc ''existing_character_wish'', JString (rg_character_wish r))]) (\<lambda>_.
          if flow = asc ''character'' then select_character e r
          else if flow = asc ''cancel'' then select_cancel e
          else says txt_bad_action []))"

definition admin_flows :: "ustring list" where
  "admin_flows =
     [asc ''admin-status'', asc ''admin-archive'', asc ''admin-delete'', asc ''admin-reminder'',
      asc ''admin-notification'', asc ''admin-pass-create'', asc ''admin-leader-add'']"

definition select_event :: "env \<Rightarrow> pkey \<Rightarrow> admin_dialogs \<Rightarrow> inbound_message \<Rightarrow> ustring \<Rightarrow> bot_response dialog" where
  "select_event X pkey A im v =
     (case split_colons 2 v of
        [_, flow, event_id] \<Rightarrow>
          thenDo (ask (find_event event_id)) (\<lambda>found.
            case found of
              None \<Rightarrow> says txt_game_not_found []
            | Some e \<Rightarrow>
                if flow = asc ''answer'' then start_answer_change X pkey im e
                else if flow = asc ''enlist'' then select_enlist X pkey im e
                else if flow \<in> set admin_flows then ad_select A im e flow
                else if flow = asc ''mine'' then my_game_page X pkey e True
                else
                  thenDo (registration_of X pkey im event_id) (\<lambda>r.
                    case r of
                      None \<Rightarrow> says txt_sign_up_first []
                    | Some row \<Rightarrow> select_registered X pkey im e flow row))
      | _ \<Rightarrow> says txt_bad_choice [])"

definition wishes_action :: "env \<Rightarrow> pkey \<Rightarrow> admin_dialogs \<Rightarrow> inbound_message \<Rightarrow> ustring \<Rightarrow> bot_response dialog" where
  "wishes_action X pkey A im v =
     (case split_colons 2 v of
        [_, action, event_id] \<Rightarrow>
          if action = asc ''character'' then select_event X pkey A im (asc ''select:character:'' @ event_id)
          else if action \<noteq> asc ''co-player'' then says txt_bad_choice []
          else
            thenDo (ask (find_event event_id)) (\<lambda>found.
              case found of
                None \<Rightarrow> says txt_game_not_found []
              | Some e \<Rightarrow>
                  thenDo (registration_of X pkey im event_id) (\<lambda>r.
                    if r = None then says txt_sign_up_first []
                    else if ev_archived_at e \<noteq> None then says INACTIVE_GAME_RESPONSE []
                    else if is_cancelled r then says txt_sign_up_again []
                    else
                      thenDo (new_context
                          [(asc ''event_id'', JString event_id), (asc ''event_name'', JString (ev_name e))]) (\<lambda>_.
                      thenDo (into (asc ''CO_PLAYER_EDIT'')) (\<lambda>_.
                        give (co_player_wish_prompt CO_PLAYER_WISH_SKIP SKIP None)))))
      | _ \<Rightarrow> says txt_bad_choice [])"

end
