(* ===== verification/Profiles.thy ===== *)
theory Profiles
  imports Signups
begin

text \<open>
  The questionnaire of a player (\<open>application/conversation_profiles.py\<close>): showing the profile, filling it in
  from the start, and changing one field of it.  A step reads the answer, checks it, keeps it in the context
  of the dialogue or in the profile, and asks the next question.
\<close>

section \<open>Showing the profile\<close>

definition txt_not_given :: ustring where
  "txt_not_given = [1085, 1077, 32, 1091, 1082, 1072, 1079, 1072, 1085, 1086]"

definition txt_not_given_m :: ustring where
  "txt_not_given_m = [1085, 1077, 32, 1091, 1082, 1072, 1079, 1072, 1085]"

definition txt_full_name_line :: ustring where
  "txt_full_name_line = [1060, 1048, 1054, 58, 32]"

definition txt_nickname_line :: ustring where
  "txt_nickname_line = [1053, 1080, 1082, 1085, 1077, 1081, 1084, 58, 32]"

definition txt_status_line :: ustring where
  "txt_status_line = [1057, 1090, 1072, 1090, 1091, 1089, 58, 32]"

definition txt_crossplay_line :: ustring where
  "txt_crossplay_line = [1050, 1088, 1086, 1089, 1089, 1087, 1086, 1083, 58, 32]"

definition txt_needs_pass_line :: ustring where
  "txt_needs_pass_line =
     [1053, 1091, 1078, 1077, 1085, 32, 1087, 1088, 1086, 1087, 1091, 1089, 1082, 58, 32]"

definition txt_phone_line :: ustring where
  "txt_phone_line =
     [1053, 1086, 1084, 1077, 1088, 32, 1090, 1077, 1083, 1077, 1092, 1086, 1085, 1072, 58, 32]"

definition txt_email_line :: ustring where
  "txt_email_line = asc ''Email: ''"

definition txt_citizenship_line :: ustring where
  "txt_citizenship_line =
     [1056, 1086, 1089, 1089, 1080, 1081, 1089, 1082, 1086, 1077, 32, 1075, 1088, 1072, 1078,
      1076, 1072, 1085, 1089, 1090, 1074, 1086, 58, 32]"

definition txt_latin_line :: ustring where
  "txt_latin_line =
     [1060, 1048, 1054, 32, 1083, 1072, 1090, 1080, 1085, 1080, 1094, 1077, 1081, 58, 32]"

definition txt_profile_vk :: ustring where
  "txt_profile_vk =
     [1055, 1088, 1086, 1092, 1080, 1083, 1100, 32, 1042, 1050, 1086, 1085, 1090, 1072, 1082,
      1090, 1077]"

definition txt_profile_telegram :: ustring where
  "txt_profile_telegram =
     [1055, 1088, 1086, 1092, 1080, 1083, 1100, 32, 84, 101, 108, 101, 103, 114, 97, 109]"

definition txt_profile :: ustring where
  "txt_profile = [1055, 1088, 1086, 1092, 1080, 1083, 1100]"

definition txt_what_change :: ustring where
  "txt_what_change =
     [1063, 1090, 1086, 32, 1074, 1099, 32, 1093, 1086, 1090, 1080, 1090, 1077, 32, 1080, 1079,
      1084, 1077, 1085, 1080, 1090, 1100, 63]"

definition profile_lines :: "user_base \<Rightarrow> ustring \<Rightarrow> ustring list \<Rightarrow> ustring list" where
  "profile_lines b role contacts =
     (let name = (case us_pass_details b of
            None \<Rightarrow> text_or (us_full_name b) txt_not_given
          | Some d \<Rightarrow> pass_name [Some (surname_cyrillic d), Some (name_cyrillic d), Some (patronym_cyrillic d)])
      in [txt_full_name_line @ name, txt_nickname_line @ text_or (us_nickname b) txt_not_given_m,
          txt_status_line @ role]
         @ contacts
         @ [txt_crossplay_line @ bool_text (us_crossplay b), txt_needs_pass_line @ bool_text (us_needs_pass b)]
         @ (case us_pass_details b of
              None \<Rightarrow> []
            | Some d \<Rightarrow>
                [txt_phone_line @ mobile_phone d, txt_email_line @ email d,
                 txt_citizenship_line @ bool_text (Some (\<not> foreigner d))]
                @ (if foreigner d
                   then [txt_latin_line @ pass_name [surname_latin d, name_latin d, patronym_latin d]] else [])))"

fun contact_of :: "user \<Rightarrow> ustring \<times> ustring option" where
  "contact_of (TelegramUser b i v l h) = (txt_profile_vk, v)"
| "contact_of (VkUser b i h) = (txt_profile_telegram, h)"

definition profile_response :: "env \<Rightarrow> ustring option \<Rightarrow> bot_response dialog" where
  "profile_response X prefix =
     with_user (\<lambda>u. thenDo (ask (user_role_label X u)) (\<lambda>role.
       case contact_of u of
         (label, contact) \<Rightarrow>
           let txt = join_with 10 ([txt_profile, []]
                 @ profile_lines (base u) role [label @ [58, 32] @ text_or contact txt_not_given_m])
           in says ((case prefix of None \<Rightarrow> [] | Some p \<Rightarrow> p @ [10, 10]) @ txt)
                [main_menu_button, button EDIT_PROFILE (asc ''profile:menu'')]))"

definition profile_edit_menu :: "bot_response dialog" where
  "profile_edit_menu =
     with_user (\<lambda>u. says txt_what_change
       ([button REFILL_PROFILE (asc ''profile:reset''),
         button txt_field_name (asc ''profile:field:name''),
         button txt_field_nickname (asc ''profile:field:nickname''),
         button (fst (contact_of u)) (asc ''profile:field:contact''),
         button txt_field_crossplay (asc ''profile:field:crossplay''),
         button txt_field_pass (asc ''profile:field:pass'')]
        @ (case (us_needs_pass (base u), us_pass_details (base u)) of
             (Some True, Some d) \<Rightarrow>
               [button txt_field_phone (asc ''profile:field:phone''),
                button txt_field_email (asc ''profile:field:email''),
                button txt_field_citizenship (asc ''profile:field:citizenship'')]
               @ (if foreigner d then [button txt_field_latin_name (asc ''profile:field:latin-name'')] else [])
           | _ \<Rightarrow> [])
        @ [button BACK PROFILE]))"

section \<open>Questions\<close>

definition txt_fill_first :: ustring where
  "txt_fill_first =
     [1055, 1077, 1088, 1077, 1076, 32, 1079, 1072, 1087, 1080, 1089, 1100, 1102, 32, 1085, 1072,
      32, 1080, 1075, 1088, 1091, 32, 1085, 1077, 1086, 1073, 1093, 1086, 1076, 1080, 1084, 1086,
      32, 1086, 1073, 1103, 1079, 1072, 1090, 1077, 1083, 1100, 1085, 1086, 32, 1079, 1072, 1087,
      1086, 1083, 1085, 1080, 1090, 1100, 32, 1087, 1088, 1086, 1092, 1080, 1083, 1100, 46, 10,
      10]"

definition txt_ask_crossplay :: ustring where
  "txt_ask_crossplay =
     [1043, 1086, 1090, 1086, 1074, 1099, 32, 1083, 1080, 32, 1074, 1099, 32, 1080, 1075, 1088,
      1072, 1090, 1100, 32, 1079, 1072, 32, 1087, 1077, 1088, 1089, 1086, 1085, 1072, 1078, 1072,
      32, 1087, 1088, 1086, 1090, 1080, 1074, 1086, 1087, 1086, 1083, 1086, 1078, 1085, 1086,
      1075, 1086, 32, 1087, 1086, 1083, 1072, 63]"

definition txt_ask_pass :: ustring where
  "txt_ask_pass =
     [1053, 1091, 1078, 1077, 1085, 32, 1083, 1080, 32, 1074, 1072, 1084, 32, 1087, 1088, 1086,
      1087, 1091, 1089, 1082, 32, 1076, 1083, 1103, 32, 1074, 1093, 1086, 1076, 1072, 32, 1085,
      1072, 32, 1084, 1077, 1089, 1090, 1086, 32, 1087, 1088, 1086, 1074, 1077, 1076, 1077, 1085,
      1080, 1103, 32, 1080, 1075, 1088, 1099, 32, 40]"

definition txt_ask_citizenship :: ustring where
  "txt_ask_citizenship =
     [1045, 1089, 1090, 1100, 32, 1083, 1080, 32, 1091, 32, 1074, 1072, 1089, 32, 1088, 1086,
      1089, 1089, 1080, 1081, 1089, 1082, 1086, 1077, 32, 1075, 1088, 1072, 1078, 1076, 1072,
      1085, 1089, 1090, 1074, 1086, 63]"

definition txt_ask_vk :: ustring where
  "txt_ask_vk =
     [1042, 1074, 1077, 1076, 1080, 1090, 1077, 32, 1086, 1073, 1103, 1079, 1072, 1090, 1077,
      1083, 1100, 1085, 1091, 1102, 32, 1089, 1089, 1099, 1083, 1082, 1091, 32, 1085, 1072, 32,
      1074, 1072, 1096, 1091, 32, 1089, 1090, 1088, 1072, 1085, 1080, 1094, 1091, 32, 86, 75, 58]"

definition txt_ask_telegram :: ustring where
  "txt_ask_telegram =
     [1059, 1082, 1072, 1078, 1080, 1090, 1077, 32, 1080, 1084, 1103, 32, 1087, 1086, 1083, 1100,
      1079, 1086, 1074, 1072, 1090, 1077, 1083, 1103, 32, 84, 101, 108, 101, 103, 114, 97, 109,
      32, 1074, 32, 1092, 1086, 1088, 1084, 1072, 1090, 1077, 32, 64, 117, 115, 101, 114, 110, 97,
      109, 101, 32, 1080, 1083, 1080, 32, 1089, 1089, 1099, 1083, 1082, 1091, 32, 104, 116, 116,
      112, 115, 58, 47, 47, 116, 46, 109, 101, 47, 117, 115, 101, 114, 110, 97, 109, 101, 46, 32,
      1045, 1089, 1083, 1080, 32, 84, 101, 108, 101, 103, 114, 97, 109, 32, 1085, 1077, 1090, 44,
      32, 1085, 1072, 1078, 1084, 1080, 1090, 1077, 32, 171, 1055, 1088, 1086, 1087, 1091, 1089,
      1090, 1080, 1090, 1100, 187, 46]"

definition txt_yes_or_no :: ustring where
  "txt_yes_or_no =
     [1042, 1099, 1073, 1077, 1088, 1080, 1090, 1077, 32, 171, 1044, 1072, 187, 32, 1080, 1083,
      1080, 32, 171, 1053, 1077, 1090, 187, 46]"

definition txt_bad_telegram :: ustring where
  "txt_bad_telegram =
     [1053, 1077, 32, 1091, 1076, 1072, 1083, 1086, 1089, 1100, 32, 1088, 1072, 1079, 1086, 1073,
      1088, 1072, 1090, 1100, 32, 1087, 1088, 1086, 1092, 1080, 1083, 1100, 32, 84, 101, 108, 101,
      103, 114, 97, 109, 46, 32, 1055, 1086, 1087, 1088, 1086, 1073, 1091, 1081, 1090, 1077, 32,
      1077, 1097, 1105, 32, 1088, 1072, 1079]"

definition txt_bad_phone :: ustring where
  "txt_bad_phone =
     [1053, 1077, 1082, 1086, 1088, 1088, 1077, 1082, 1090, 1085, 1099, 1081, 32, 1085, 1086,
      1084, 1077, 1088, 46, 32]"

definition txt_bad_email :: ustring where
  "txt_bad_email =
     [1053, 1077, 1082, 1086, 1088, 1088, 1077, 1082, 1090, 1085, 1099, 1081, 32, 101, 109, 97,
      105, 108, 46, 32]"

definition txt_bad_nickname :: ustring where
  "txt_bad_nickname =
     [1053, 1080, 1082, 1085, 1077, 1081, 1084, 32, 1076, 1086, 1083, 1078, 1077, 1085, 32, 1073,
      1099, 1090, 1100, 32, 1086, 1076, 1085, 1086, 1081, 32, 1089, 1090, 1088, 1086, 1082, 1086,
      1081, 32, 1076, 1083, 1080, 1085, 1086, 1081, 32, 1076, 1086, 32, 49, 48, 48, 32, 1089,
      1080, 1084, 1074, 1086, 1083, 1086, 1074, 46, 10, 10]"

definition txt_profile_filled :: ustring where
  "txt_profile_filled =
     [9989, 32, 1055, 1088, 1086, 1092, 1080, 1083, 1100, 32, 1091, 1089, 1087, 1077, 1096, 1085,
      1086, 32, 1079, 1072, 1087, 1086, 1083, 1085, 1077, 1085, 46]"

definition txt_format_updated :: ustring where
  "txt_format_updated =
     [1060, 1086, 1088, 1084, 1072, 1090, 32, 1087, 1088, 1086, 1092, 1080, 1083, 1103, 32, 1086,
      1073, 1085, 1086, 1074, 1080, 1083, 1089, 1103, 46, 32]"

text \<open>A question: the dialogue moves to its state.\<close>

definition asks :: "ustring \<Rightarrow> ustring \<Rightarrow> (user \<Rightarrow> button list) \<Rightarrow> bot_response dialog" where
  "asks state txt buttons = thenDo (into state) (\<lambda>_. with_user (\<lambda>u. says txt (buttons u)))"

definition says_to :: "ustring \<Rightarrow> (user \<Rightarrow> button list) \<Rightarrow> bot_response dialog" where
  "says_to txt buttons = with_user (\<lambda>u. says txt (buttons u))"

definition exit_only :: "user \<Rightarrow> button list" where
  "exit_only u = [profile_dialog_exit_button u]"

definition skip_or_exit :: "user \<Rightarrow> button list" where
  "skip_or_exit u = [same_button SKIP, profile_dialog_exit_button u]"

definition ask_cyrillic_name :: "ustring \<Rightarrow> bot_response dialog" where
  "ask_cyrillic_name txt = asks (asc ''PROFILE_FULL_NAME_CYRILLIC'') txt exit_only"

definition ask_nickname :: "bot_response dialog" where
  "ask_nickname = asks (asc ''PROFILE_NICKNAME'') NICKNAME_PROMPT nickname_buttons"

definition ask_crossplay :: "bot_response dialog" where
  "ask_crossplay = asks (asc ''PROFILE_CROSSPLAY'') txt_ask_crossplay profile_yes_no_buttons"

definition ask_needs_pass :: "bot_response dialog" where
  "ask_needs_pass =
     asks (asc ''PROFILE_NEEDS_PASS'') (txt_ask_pass @ VENUE_ADDRESS @ [41, 63]) profile_yes_no_buttons"

definition ask_citizenship :: "bot_response dialog" where
  "ask_citizenship = asks (asc ''PROFILE_PASS_FOREIGNER'') txt_ask_citizenship profile_yes_no_buttons"

definition ask_latin_name :: "bot_response dialog" where
  "ask_latin_name = asks (asc ''PROFILE_PASS_FULL_NAME_LATIN'') LATIN_FULL_NAME_PROMPT exit_only"

definition ask_phone :: "bot_response dialog" where
  "ask_phone = asks (asc ''PROFILE_PASS_PHONE'') PHONE_PROMPT exit_only"

definition ask_email :: "bot_response dialog" where
  "ask_email = asks (asc ''PROFILE_PASS_EMAIL_ADDRESS'') EMAIL_PROMPT exit_only"

definition profile_contact_prompt :: "bot_response dialog" where
  "profile_contact_prompt =
     with_user (\<lambda>u. if is_TelegramUser u then asks (asc ''PROFILE_CONTACT'') txt_ask_vk exit_only
                else asks (asc ''PROFILE_CONTACT'') txt_ask_telegram skip_or_exit)"

definition begin_profile :: "bool \<Rightarrow> ustring option \<Rightarrow> bot_response dialog" where
  "begin_profile editing_existing signup_event_id =
     thenDo (into (asc ''PROFILE_FULL_NAME_CYRILLIC'')) (\<lambda>_.
     thenDo (new_context
         ([(asc ''profile_format'', JString PROFILE_FORMAT),
           (asc ''profile_flow'', JString (if editing_existing then asc ''reset'' else asc ''initial''))]
          @ (case signup_event_id of None \<Rightarrow> [] | Some k \<Rightarrow> [(asc ''signup_event_id'', JString k)]))) (\<lambda>_.
       says_to ((if editing_existing then [] else txt_fill_first) @ CYRILLIC_FULL_NAME_PROMPT) exit_only))"

section \<open>Pass data in the context\<close>

definition details_entries :: "pass_details \<Rightarrow> json_object" where
  "details_entries d =
     [(asc ''surname_cyrillic'', JString (surname_cyrillic d)), (asc ''name_cyrillic'', JString (name_cyrillic d)),
      (asc ''patronym_cyrillic'', JString (patronym_cyrillic d)), (asc ''foreigner'', JBool (foreigner d)),
      (asc ''surname_latin'', optional_text (surname_latin d)), (asc ''name_latin'', optional_text (name_latin d)),
      (asc ''patronym_latin'', optional_text (patronym_latin d)), (asc ''mobile_phone'', JString (mobile_phone d)),
      (asc ''email'', JString (email d))]"

definition name_entries :: "ustring \<Rightarrow> ustring \<Rightarrow> json_object" where
  "name_entries surname name =
     [(asc ''surname_cyrillic'', JString surname), (asc ''name_cyrillic'', JString name),
      (asc ''patronym_cyrillic'', JString (asc ''-''))]"

definition key_text :: "json_object \<Rightarrow> ustring \<Rightarrow> exn + ustring" where
  "key_text ctx key = (case dict_get ctx key of None \<Rightarrow> Inl KeyError | Some v \<Rightarrow> Inr (json_text v))"

definition latin_text :: "json_object \<Rightarrow> bool \<Rightarrow> ustring \<Rightarrow> exn + ustring option" where
  "latin_text ctx is_foreigner key =
     (if is_foreigner then then_sum (key_text ctx key) (\<lambda>s. Inr (Some s)) else Inr None)"

definition checked_details :: "pass_details \<Rightarrow> exn + pass_details" where
  "checked_details d = (case validate_pass_details d of None \<Rightarrow> Inl ValueError | Some v \<Rightarrow> Inr v)"

definition pass_details_from_context :: "json_object \<Rightarrow> exn + pass_details" where
  "pass_details_from_context ctx =
     (case dict_get ctx (asc ''foreigner'') of
        None \<Rightarrow> Inl KeyError
      | Some f \<Rightarrow>
          (let is_foreigner = truthy_json f
           in then_sum (key_text ctx (asc ''surname_cyrillic'')) (\<lambda>surname.
              then_sum (key_text ctx (asc ''name_cyrillic'')) (\<lambda>name.
              then_sum (key_text ctx (asc ''patronym_cyrillic'')) (\<lambda>patronym.
              then_sum (latin_text ctx is_foreigner (asc ''surname_latin'')) (\<lambda>surname_l.
              then_sum (latin_text ctx is_foreigner (asc ''name_latin'')) (\<lambda>name_l.
              then_sum (latin_text ctx is_foreigner (asc ''patronym_latin'')) (\<lambda>patronym_l.
              then_sum (key_text ctx (asc ''mobile_phone'')) (\<lambda>phone.
              then_sum (key_text ctx (asc ''email'')) (\<lambda>mail.
                checked_details
                  \<lparr>surname_cyrillic = surname, name_cyrillic = name, patronym_cyrillic = patronym,
                   foreigner = is_foreigner, surname_latin = surname_l, name_latin = name_l,
                   patronym_latin = patronym_l, mobile_phone = phone, email = mail\<rparr>))))))))))"

definition set_details :: "pass_details \<Rightarrow> unit dialog" where
  "set_details d =
     (case checked_details d of
        Inl x \<Rightarrow> fail x | Inr v \<Rightarrow> assign_base (\<lambda>b. b\<lparr>us_pass_details := Some v\<rparr>))"

text \<open>The pass data of a profile that is known to have them.\<close>

definition with_details :: "(pass_details \<Rightarrow> 'a dialog) \<Rightarrow> 'a dialog" where
  "with_details k =
     with_user (\<lambda>u. case us_pass_details (base u) of None \<Rightarrow> fail AssertionError | Some d \<Rightarrow> k d)"

definition name_parts :: "ustring list \<Rightarrow> ustring \<times> ustring \<times> ustring" where
  "name_parts parts = (parts ! 0, parts ! 1, if length parts = 3 then parts ! 2 else asc ''-'')"

section \<open>Keeping the profile\<close>

text \<open>\<open>https://vk\.com/id([1-9][0-9]*)\<close>: the id is in the address.\<close>

definition numeric_vk_id :: "ustring \<Rightarrow> int option" where
  "numeric_vk_id url =
     (if starts_with (asc ''https://vk.com/id'') url then
        (case remove_prefix (asc ''https://vk.com/id'') url of
           [] \<Rightarrow> None
         | d # ds \<Rightarrow>
             if is_ascii_digit d \<and> d \<noteq> 48 \<and> list_all is_ascii_digit ds then Some (int (decimal_read (d # ds))) else None)
      else None)"

text \<open>A failure of the resolver leaves the profile without a link.\<close>

definition resolved_vk_id :: "env \<Rightarrow> ustring \<Rightarrow> int option service" where
  "resolved_vk_id X url =
     (case numeric_vk_id url of
        Some i \<Rightarrow> ret (Some i)
      | None \<Rightarrow>
          if \<not> xe_resolves_vk X then ret None
          else
            andThen (external_outcome X (ResolveVkUser url)) (\<lambda>outcome.
              if outcome = Answered then reads (\<lambda>w. xe_vk_user X (w_calls w)) else ret None))"

definition refresh_telegram_link :: "env \<Rightarrow> bool \<Rightarrow> unit dialog" where
  "refresh_telegram_link X force_vk_resolution =
     with_user (\<lambda>u. case u of
         VkUser b i h \<Rightarrow> give ()
       | TelegramUser b i v l h \<Rightarrow>
           thenDo (ask (if force_vk_resolution \<or> l = None
                        then (case v of None \<Rightarrow> ret None | Some url \<Rightarrow> resolved_vk_id X url) else ret l)) (\<lambda>linked.
           thenDo (assign (with_link linked)) (\<lambda>_.
             ask (on_users X (update_telegram_link i h linked)))))"

definition store_user :: "env \<Rightarrow> unit dialog" where
  "store_user X = with_user (\<lambda>u. ask (on_users X (\<lambda>_. modifies (save_user u))))"

text \<open>The names under which the statistics may know the player: sorted, each once.\<close>

definition synced_names :: "ustring option list \<Rightarrow> ustring list" where
  "synced_names names = sort_key (\<lambda>s. s) (dedup (present names))"

definition sync_profile_names :: "env \<Rightarrow> inbound_message \<Rightarrow> ustring list \<Rightarrow> unit dialog" where
  "sync_profile_names X im names =
     ask (andThen (enqueue_profile_sync X (fst (im_identity im)) (snd (im_identity im)) names
            (im_update_id im @ asc '':SYNC_PROFILE'')) (\<lambda>_. ret ()))"

definition complete_profile_edit :: "env \<Rightarrow> inbound_message \<Rightarrow> ustring option \<Rightarrow> bot_response dialog" where
  "complete_profile_edit X im previous_name =
     with_user (\<lambda>u.
       let names = synced_names [previous_name, us_full_name (base u)]
       in thenDo (if is_TelegramUser u then refresh_telegram_link X False else give ()) (\<lambda>_.
          thenDo (store_user X) (\<lambda>_.
          thenDo (sync_profile_names X im names) (\<lambda>_.
          thenDo clear_dialog (\<lambda>_. profile_response X (Some PROFILE_EDITED))))))"

section \<open>Answers of the questionnaire\<close>

definition remember_cyrillic :: "ustring \<Rightarrow> ustring list \<Rightarrow> unit dialog" where
  "remember_cyrillic v parts =
     (case name_parts parts of
        (surname, name, patronym) \<Rightarrow>
          thenDo (remember (asc ''surname_cyrillic'') (JString surname)) (\<lambda>_.
          thenDo (remember (asc ''name_cyrillic'') (JString name)) (\<lambda>_.
          thenDo (remember (asc ''patronym_cyrillic'') (JString patronym)) (\<lambda>_.
            remember (asc ''full_name'') (JString (surname_and_name v))))))"

definition remember_latin :: "ustring list \<Rightarrow> unit dialog" where
  "remember_latin parts =
     (case name_parts parts of
        (surname, name, patronym) \<Rightarrow>
          thenDo (remember (asc ''surname_latin'') (JString surname)) (\<lambda>_.
          thenDo (remember (asc ''name_latin'') (JString name)) (\<lambda>_.
            remember (asc ''patronym_latin'') (JString patronym))))"

definition cyrillic_answer :: "ustring \<Rightarrow> bot_response dialog" where
  "cyrillic_answer v =
     (case parse_full_name Cyrillic v of
        None \<Rightarrow> says_to CYRILLIC_FULL_NAME_RETRY_PROMPT exit_only
      | Some parts \<Rightarrow> thenDo (remember_cyrillic v parts) (\<lambda>_. ask_needs_pass))"

text \<open>An answer to a question of yes or no.\<close>

definition yes_or_no :: "ustring \<Rightarrow> (bool \<Rightarrow> bot_response dialog) \<Rightarrow> bot_response dialog" where
  "yes_or_no v k = (if v \<noteq> YES \<and> v \<noteq> NO then says_to txt_yes_or_no profile_yes_no_buttons else k (v = YES))"

definition needs_pass_answer :: "ustring \<Rightarrow> bot_response dialog" where
  "needs_pass_answer v =
     yes_or_no v (\<lambda>yes. thenDo (remember (asc ''needs_pass'') (JBool yes)) (\<lambda>_.
       if yes then ask_citizenship else profile_contact_prompt))"

text \<open>\<open>_normalize_vk_telegram_contact\<close>: a profile link, or a user name; \<open>None\<close> when it is neither or empty.\<close>

definition normalize_vk_telegram_contact :: "ustring \<Rightarrow> ustring option" where
  "normalize_vk_telegram_contact v =
     (case normalize_telegram_profile v of
        Some h \<Rightarrow> Some h
      | None \<Rightarrow> (case normalize_telegram_handle (Some v) of None \<Rightarrow> None | Some found \<Rightarrow> found))"

text \<open>The contact an answer gives, or the response to an answer that gives none.\<close>

definition contact_answer :: "ustring \<Rightarrow> (ustring option \<Rightarrow> bot_response dialog) \<Rightarrow> bot_response dialog" where
  "contact_answer v k =
     with_user (\<lambda>u.
       if is_TelegramUser u then
         (case normalize_vk_url v of
            None \<Rightarrow> give \<lparr>br_text = BadVkLink v, br_buttons = exit_only u, br_deferred = False,
                          br_command_enqueued = False, br_silent = False\<rparr>
          | Some url \<Rightarrow> k (Some url))
       else if v = SKIP then k None
       else
         (case normalize_vk_telegram_contact v of
            None \<Rightarrow> says txt_bad_telegram (skip_or_exit u)
          | Some h \<Rightarrow> k (Some h)))"

definition citizenship_answer :: "ustring \<Rightarrow> bot_response dialog" where
  "citizenship_answer v =
     yes_or_no v (\<lambda>yes. thenDo (remember (asc ''foreigner'') (JBool (\<not> yes))) (\<lambda>_.
       if yes then ask_phone else ask_latin_name))"

text \<open>The Latin name has a patronym exactly when the Cyrillic name has one.\<close>

definition same_patronyms :: "json \<Rightarrow> ustring list \<Rightarrow> bool" where
  "same_patronyms patronym_cyrillic_value parts \<longleftrightarrow>
     (patronym_cyrillic_value = JString (asc ''-'')) = (snd (snd (name_parts parts)) = asc ''-'')"

definition latin_answer :: "ustring \<Rightarrow> (ustring list \<Rightarrow> bot_response dialog) \<Rightarrow> bot_response dialog" where
  "latin_answer v k =
     (case parse_full_name Latin v of
        None \<Rightarrow> says_to LATIN_FULL_NAME_RETRY_PROMPT exit_only
      | Some parts \<Rightarrow>
          recall (\<lambda>ctx. needed ctx (asc ''patronym_cyrillic'') (\<lambda>patronym.
            if same_patronyms patronym parts then k parts
            else says_to LATIN_FULL_NAME_RETRY_PROMPT exit_only)))"

definition phone_answer :: "ustring \<Rightarrow> (ustring \<Rightarrow> bot_response dialog) \<Rightarrow> bot_response dialog" where
  "phone_answer v k =
     (case normalize_mobile_phone v of
        None \<Rightarrow> says_to (txt_bad_phone @ PHONE_PROMPT) exit_only
      | Some phone \<Rightarrow> thenDo (remember (asc ''mobile_phone'') (JString phone)) (\<lambda>_. k phone))"

definition email_answer :: "ustring \<Rightarrow> (ustring \<Rightarrow> bot_response dialog) \<Rightarrow> bot_response dialog" where
  "email_answer v k =
     (case validate_pass_email v of
        None \<Rightarrow> says_to (txt_bad_email @ EMAIL_PROMPT) exit_only
      | Some mail \<Rightarrow> thenDo (remember (asc ''email'') (JString mail)) (\<lambda>_. k mail))"

section \<open>The end of the questionnaire\<close>

definition store_answers :: "json_object \<Rightarrow> unit dialog" where
  "store_answers ctx =
     (if truthy_json (json_get ctx (asc ''needs_pass'')) then
        thenDo (assign_base (\<lambda>b. b\<lparr>us_needs_pass := Some True\<rparr>)) (\<lambda>_.
          case pass_details_from_context ctx of Inl x \<Rightarrow> fail x | Inr d \<Rightarrow> set_details d)
      else
        thenDo (assign_base (\<lambda>b. b\<lparr>us_pass_details := None\<rparr>)) (\<lambda>_.
          assign_base (\<lambda>b. b\<lparr>us_needs_pass := Some False\<rparr>)))"

fun with_vk_url :: "ustring option \<Rightarrow> user \<Rightarrow> user" where
  "with_vk_url v (TelegramUser b i _ l h) = TelegramUser b i v l h"
| "with_vk_url v (VkUser b i h) = VkUser b i h"

definition store_contact :: "env \<Rightarrow> json_object \<Rightarrow> unit dialog" where
  "store_contact X ctx =
     with_user (\<lambda>u.
       if is_TelegramUser u then
         needed ctx (asc ''contact'') (\<lambda>contact.
           thenDo (assign (with_vk_url (Some (json_text contact)))) (\<lambda>_. refresh_telegram_link X True))
       else
         assign (with_handle (case json_get ctx (asc ''contact'') of JNull \<Rightarrow> None | v \<Rightarrow> Some (json_text v))))"

definition finish_profile :: "env \<Rightarrow> pkey \<Rightarrow> admin_dialogs \<Rightarrow> inbound_message \<Rightarrow> bot_response dialog" where
  "finish_profile X pkey A im =
     recall (\<lambda>ctx. needed ctx (asc ''full_name'') (\<lambda>full_name_value.
     with_user (\<lambda>u.
       let full_name = json_text full_name_value;
           names = synced_names [Some full_name, us_full_name (base u)]
       in thenDo (assign_base (\<lambda>b. b\<lparr>us_full_name := Some full_name\<rparr>)) (\<lambda>_.
          needed ctx (asc ''crossplay'') (\<lambda>crossplay.
          thenDo (assign_base (\<lambda>b. b\<lparr>us_crossplay := Some (truthy_json crossplay)\<rparr>)) (\<lambda>_.
          needed ctx (asc ''needs_pass'') (\<lambda>_.
          thenDo (store_answers ctx) (\<lambda>_.
          thenDo (store_contact X ctx) (\<lambda>_.
          thenDo (store_user X) (\<lambda>_.
          thenDo (sync_profile_names X im names) (\<lambda>_.
          thenDo clear_dialog (\<lambda>_.
            if json_get ctx (asc ''profile_flow'') = JString (asc ''reset'')
            then profile_response X (Some PROFILE_EDITED)
            else
              (case json_get ctx (asc ''signup_event_id'') of
                 JString event_id \<Rightarrow>
                   thenDo (select_event X pkey A im (asc ''select:enlist:'' @ event_id)) (\<lambda>r.
                     give (prefixed (txt_profile_filled @ [10, 10]) r))
               | _ \<Rightarrow> says txt_profile_filled [main_menu_button])))))))))))))"

section \<open>Changing one field\<close>

definition begin_profile_field :: "ustring \<Rightarrow> bot_response dialog" where
  "begin_profile_field field =
     with_user (\<lambda>u.
       let details = us_pass_details (base u);
           start = [(asc ''profile_format'', JString PROFILE_FORMAT), (asc ''profile_flow'', JString (asc ''field'')),
                    (asc ''profile_field'', JString field)];
           known = (case details of
               Some d \<Rightarrow> Inr (details_entries d)
             | None \<Rightarrow>
                 (case us_full_name (base u) of
                    None \<Rightarrow> Inr []
                  | Some n \<Rightarrow>
                      (case split_words n of
                         surname # name # _ \<Rightarrow> Inr (name_entries surname name) | _ \<Rightarrow> Inl ValueError)))
       in case known of
            Inl x \<Rightarrow> fail x
          | Inr entries \<Rightarrow>
              thenDo (new_context (start @ entries)) (\<lambda>_.
                if field = asc ''name'' then ask_cyrillic_name CYRILLIC_FULL_NAME_PROMPT
                else if field = asc ''nickname'' then ask_nickname
                else if field = asc ''contact'' then profile_contact_prompt
                else if field = asc ''crossplay'' then ask_crossplay
                else if field = asc ''pass'' then ask_needs_pass
                else
                  (case details of
                     None \<Rightarrow> profile_edit_menu
                   | Some d \<Rightarrow>
                       if field = asc ''phone'' then ask_phone
                       else if field = asc ''email'' then ask_email
                       else if field = asc ''citizenship'' then ask_citizenship
                       else if field = asc ''latin-name'' \<and> foreigner d then ask_latin_name
                       else profile_edit_menu)))"

definition change_nickname :: "env \<Rightarrow> inbound_message \<Rightarrow> ustring \<Rightarrow> bot_response dialog" where
  "change_nickname X im v =
     (if v = asc ''profile:nickname:clear'' then
        thenDo (assign_base (\<lambda>b. b\<lparr>us_nickname := None\<rparr>)) (\<lambda>_. complete_profile_edit X im None)
      else
        (case normalize_nickname v of
           None \<Rightarrow> says_to (txt_bad_nickname @ NICKNAME_PROMPT) nickname_buttons
         | Some n \<Rightarrow>
             thenDo (assign_base (\<lambda>b. b\<lparr>us_nickname := Some n\<rparr>)) (\<lambda>_. complete_profile_edit X im None)))"

definition change_name :: "env \<Rightarrow> inbound_message \<Rightarrow> ustring \<Rightarrow> bot_response dialog" where
  "change_name X im v =
     (case parse_full_name Cyrillic v of
        None \<Rightarrow> says_to CYRILLIC_FULL_NAME_RETRY_PROMPT exit_only
      | Some parts \<Rightarrow>
          (case name_parts parts of
             (surname, name, patronym) \<Rightarrow>
               thenDo (remember_cyrillic v parts) (\<lambda>_.
               with_user (\<lambda>u.
                 let finish = thenDo (assign_base (\<lambda>b. b\<lparr>us_full_name := Some (surname_and_name v)\<rparr>)) (\<lambda>_.
                       complete_profile_edit X im (us_full_name (base u)))
                 in case us_pass_details (base u) of
                      None \<Rightarrow> finish
                    | Some d \<Rightarrow>
                        if foreigner d \<and> (patronym_cyrillic d = asc ''-'') \<noteq> (patronym = asc ''-'') then ask_latin_name
                        else
                          thenDo (set_details (d\<lparr>surname_cyrillic := surname, name_cyrillic := name,
                            patronym_cyrillic := patronym\<rparr>)) (\<lambda>_. finish)))))"

definition change_contact :: "env \<Rightarrow> inbound_message \<Rightarrow> ustring \<Rightarrow> bot_response dialog" where
  "change_contact X im v =
     contact_answer v (\<lambda>contact. with_user (\<lambda>u.
       thenDo (if is_TelegramUser u
               then thenDo (assign (with_vk_url contact)) (\<lambda>_. refresh_telegram_link X True)
               else assign (with_handle contact)) (\<lambda>_.
         complete_profile_edit X im None)))"

definition change_crossplay :: "env \<Rightarrow> inbound_message \<Rightarrow> ustring \<Rightarrow> bot_response dialog" where
  "change_crossplay X im v =
     yes_or_no v (\<lambda>yes. thenDo (assign_base (\<lambda>b. b\<lparr>us_crossplay := Some yes\<rparr>)) (\<lambda>_.
       complete_profile_edit X im None))"

definition change_needs_pass :: "env \<Rightarrow> inbound_message \<Rightarrow> ustring \<Rightarrow> bot_response dialog" where
  "change_needs_pass X im v =
     yes_or_no v (\<lambda>yes. with_user (\<lambda>u.
       if \<not> yes then
         thenDo (assign_base (\<lambda>b. b\<lparr>us_pass_details := None\<rparr>)) (\<lambda>_.
         thenDo (assign_base (\<lambda>b. b\<lparr>us_needs_pass := Some False\<rparr>)) (\<lambda>_. complete_profile_edit X im None))
       else if us_needs_pass (base u) = Some True \<and> us_pass_details (base u) \<noteq> None
       then complete_profile_edit X im None
       else ask_citizenship))"

definition change_citizenship :: "env \<Rightarrow> inbound_message \<Rightarrow> bool \<Rightarrow> ustring \<Rightarrow> bot_response dialog" where
  "change_citizenship X im for_pass v =
     yes_or_no v (\<lambda>yes. thenDo (remember (asc ''foreigner'') (JBool (\<not> yes))) (\<lambda>_.
       if for_pass then (if yes then ask_phone else ask_latin_name)
       else
         with_details (\<lambda>d.
           if \<not> yes \<and> \<not> foreigner d then ask_latin_name
           else
             thenDo (set_details (d\<lparr>foreigner := \<not> yes,
                 surname_latin := (if yes then None else surname_latin d),
                 name_latin := (if yes then None else name_latin d),
                 patronym_latin := (if yes then None else patronym_latin d)\<rparr>)) (\<lambda>_.
               complete_profile_edit X im None))))"

definition change_latin_name :: "env \<Rightarrow> inbound_message \<Rightarrow> ustring \<Rightarrow> ustring \<Rightarrow> bot_response dialog" where
  "change_latin_name X im field v =
     latin_answer v (\<lambda>parts. case name_parts parts of
       (surname, name, patronym) \<Rightarrow>
         thenDo (remember_latin parts) (\<lambda>_.
         thenDo (remember (asc ''foreigner'') (JBool True)) (\<lambda>_.
           if field = asc ''pass'' then ask_phone
           else
             with_details (\<lambda>d. recall (\<lambda>ctx.
               needed ctx (asc ''surname_cyrillic'') (\<lambda>s. needed ctx (asc ''name_cyrillic'') (\<lambda>n.
               needed ctx (asc ''patronym_cyrillic'') (\<lambda>p.
               with_user (\<lambda>u.
               thenDo (set_details (d\<lparr>surname_cyrillic := json_text s, name_cyrillic := json_text n,
                   patronym_cyrillic := json_text p, foreigner := True, surname_latin := Some surname,
                   name_latin := Some name, patronym_latin := Some patronym\<rparr>)) (\<lambda>_.
                 if field = asc ''name'' then
                   needed ctx (asc ''full_name'') (\<lambda>full_name.
                   thenDo (assign_base (\<lambda>b. b\<lparr>us_full_name := Some (json_text full_name)\<rparr>)) (\<lambda>_.
                     complete_profile_edit X im (us_full_name (base u))))
                 else complete_profile_edit X im None))))))))))"

definition change_phone :: "env \<Rightarrow> inbound_message \<Rightarrow> bool \<Rightarrow> ustring \<Rightarrow> bot_response dialog" where
  "change_phone X im for_pass v =
     phone_answer v (\<lambda>phone.
       if for_pass then ask_email
       else with_details (\<lambda>d. thenDo (set_details (d\<lparr>mobile_phone := phone\<rparr>)) (\<lambda>_. complete_profile_edit X im None)))"

definition change_email :: "env \<Rightarrow> inbound_message \<Rightarrow> bool \<Rightarrow> ustring \<Rightarrow> bot_response dialog" where
  "change_email X im for_pass v =
     email_answer v (\<lambda>mail.
       thenDo (if for_pass then
           thenDo (assign_base (\<lambda>b. b\<lparr>us_needs_pass := Some True\<rparr>)) (\<lambda>_.
             recall (\<lambda>ctx. case pass_details_from_context ctx of Inl x \<Rightarrow> fail x | Inr d \<Rightarrow> set_details d))
         else with_details (\<lambda>d. set_details (d\<lparr>email := mail\<rparr>))) (\<lambda>_.
       complete_profile_edit X im None))"

definition profile_field_step :: "env \<Rightarrow> inbound_message \<Rightarrow> ustring \<Rightarrow> bot_response dialog" where
  "profile_field_step X im v =
     recall (\<lambda>ctx. needed ctx (asc ''profile_field'') (\<lambda>field_value. with_user (\<lambda>u.
       let field = json_text field_value; for_pass = (field = asc ''pass''); state = state_of u
       in if state = asc ''PROFILE_NICKNAME'' then change_nickname X im v
          else if state = asc ''PROFILE_FULL_NAME_CYRILLIC'' then change_name X im v
          else if state = asc ''PROFILE_CONTACT'' then change_contact X im v
          else if state = asc ''PROFILE_CROSSPLAY'' then change_crossplay X im v
          else if state = asc ''PROFILE_NEEDS_PASS'' then change_needs_pass X im v
          else if state = asc ''PROFILE_PASS_FOREIGNER'' then change_citizenship X im for_pass v
          else if state = asc ''PROFILE_PASS_FULL_NAME_LATIN'' then change_latin_name X im field v
          else if state = asc ''PROFILE_PASS_PHONE'' then change_phone X im for_pass v
          else if state = asc ''PROFILE_PASS_EMAIL_ADDRESS'' then change_email X im for_pass v
          else fail AssertionError)))"

section \<open>A step of the questionnaire\<close>

definition initial_step :: "env \<Rightarrow> pkey \<Rightarrow> admin_dialogs \<Rightarrow> inbound_message \<Rightarrow> ustring \<Rightarrow> bot_response dialog" where
  "initial_step X pkey A im v =
     with_user (\<lambda>u. let state = state_of u in
       if state = asc ''PROFILE_FULL_NAME_CYRILLIC'' then cyrillic_answer v
       else if state = asc ''PROFILE_NEEDS_PASS'' then needs_pass_answer v
       else if state = asc ''PROFILE_CONTACT'' then
         contact_answer v (\<lambda>contact.
           thenDo (remember (asc ''contact'') (optional_text contact)) (\<lambda>_. ask_crossplay))
       else if state = asc ''PROFILE_CROSSPLAY'' then
         yes_or_no v (\<lambda>yes. thenDo (remember (asc ''crossplay'') (JBool yes)) (\<lambda>_. finish_profile X pkey A im))
       else if state = asc ''PROFILE_PASS_FOREIGNER'' then citizenship_answer v
       else if state = asc ''PROFILE_PASS_FULL_NAME_LATIN'' then
         latin_answer v (\<lambda>parts. thenDo (remember_latin parts) (\<lambda>_. ask_phone))
       else if state = asc ''PROFILE_PASS_PHONE'' then phone_answer v (\<lambda>_. ask_email)
       else if state = asc ''PROFILE_PASS_EMAIL_ADDRESS'' then email_answer v (\<lambda>_. profile_contact_prompt)
       else fail AssertionError)"

definition profile_step :: "env \<Rightarrow> pkey \<Rightarrow> admin_dialogs \<Rightarrow> inbound_message \<Rightarrow> ustring \<Rightarrow> bot_response dialog" where
  "profile_step X pkey A im v =
     recall (\<lambda>ctx.
       if json_get ctx (asc ''profile_format'') \<noteq> JString PROFILE_FORMAT then
         thenDo (begin_profile False None) (\<lambda>r. give (prefixed txt_format_updated r))
       else if json_get ctx (asc ''profile_flow'') = JString (asc ''field'') then profile_field_step X im v
       else initial_step X pkey A im v)"

end
