(* ===== verification/Labels.thy ===== *)
theory Labels
  imports Replies
begin

text \<open>
  The labels and button values of administration (\<open>application/conversation_support.py\<close>), and the dialogue
  states whose answer is a free text.
\<close>

definition CHANGE_STATUS :: ustring where
  "CHANGE_STATUS =
     [128260, 32, 1048, 1079, 1084, 1077, 1085, 1080, 1090, 1100, 32, 1089, 1090, 1072, 1090,
      1091, 1089]"

definition CHANGE_PLAYER_AMOUNT :: ustring where
  "CHANGE_PLAYER_AMOUNT =
     [128101, 32, 1048, 1079, 1084, 1077, 1085, 1080, 1090, 1100, 32, 1082, 1086, 1083, 1080,
      1095, 1077, 1089, 1090, 1074, 1086, 32, 1080, 1075, 1088, 1086, 1082, 1086, 1074]"

definition ADD_POST_LINKS :: ustring where
  "ADD_POST_LINKS =
     [1044, 1086, 1073, 1072, 1074, 1080, 1090, 1100, 32, 1089, 1089, 1099, 1083, 1082, 1080, 32,
      1085, 1072, 32, 1087, 1086, 1089, 1090, 1099]"

definition EDIT_GAME :: ustring where
  "EDIT_GAME = [1048, 1079, 1084, 1077, 1085, 1080, 1090, 1100, 32, 1080, 1075, 1088, 1091]"

definition SEND_CONFIRMATION_REMINDER_LABEL :: ustring where
  "SEND_CONFIRMATION_REMINDER_LABEL =
     [128276, 32, 1053, 1072, 1087, 1086, 1084, 1085, 1080, 1090, 1100, 32, 1086, 32, 1087, 1086,
      1076, 1090, 1074, 1077, 1088, 1078, 1076, 1077, 1085, 1080, 1080]"

definition MANAGE_NOTIFICATIONS :: ustring where
  "MANAGE_NOTIFICATIONS = [1059, 1074, 1077, 1076, 1086, 1084, 1083, 1077, 1085, 1080, 1103]"

definition MANAGE_SCHEDULED_EVENTS :: ustring where
  "MANAGE_SCHEDULED_EVENTS =
     [1047, 1072, 1087, 1083, 1072, 1085, 1080, 1088, 1086, 1074, 1072, 1085, 1085, 1099, 1077,
      32, 1089, 1086, 1073, 1099, 1090, 1080, 1103]"

definition SCHEDULED_TIME_INVALID :: ustring where
  "SCHEDULED_TIME_INVALID =
     [1053, 1077, 1082, 1086, 1088, 1088, 1077, 1082, 1090, 1085, 1072, 1103, 32, 1076, 1072,
      1090, 1072, 32, 1080, 32, 1074, 1088, 1077, 1084, 1103, 46, 32, 1052, 1080, 1085, 1091,
      1090, 1099, 32, 1076, 1086, 1083, 1078, 1085, 1099, 32, 1073, 1099, 1090, 1100, 32, 48, 48,
      46, 32, 1055, 1086, 1087, 1088, 1086, 1073, 1091, 1081, 1090, 1077, 32, 1077, 1097, 1105,
      32, 1088, 1072, 1079, 46]"

definition SEND_CONFIRMED_LINK :: ustring where
  "SEND_CONFIRMED_LINK =
     [1054, 1090, 1087, 1088, 1072, 1074, 1080, 1090, 1100, 32, 1087, 1086, 1076, 1090, 1074,
      1077, 1088, 1078, 1076, 1077, 1085, 1085, 1099, 1084, 32, 1089, 1089, 1099, 1083, 1082,
      1091, 32, 1085, 1072, 32, 1095, 1072, 1090]"

definition SEND_CONFIRMED_NOTIFICATION_LABEL :: ustring where
  "SEND_CONFIRMED_NOTIFICATION_LABEL =
     [1054, 1090, 1087, 1088, 1072, 1074, 1080, 1090, 1100, 32, 1087, 1086, 1076, 1090, 1074,
      1077, 1088, 1078, 1076, 1077, 1085, 1085, 1099, 1084, 32, 1089, 1086, 1086, 1073, 1097,
      1077, 1085, 1080, 1077]"

definition SEND_ALL_PLAYERS_NOTIFICATION_LABEL :: ustring where
  "SEND_ALL_PLAYERS_NOTIFICATION_LABEL =
     [1059, 1074, 1077, 1076, 1086, 1084, 1080, 1090, 1100, 32, 1074, 1089, 1077, 1093, 32, 1080,
      1075, 1088, 1086, 1082, 1086, 1074]"

definition LEGACY_SEND_CONFIRMED_NOTIFICATION :: ustring where
  "LEGACY_SEND_CONFIRMED_NOTIFICATION =
     [128227, 32, 1059, 1074, 1077, 1076, 1086, 1084, 1080, 1090, 1100, 32, 1087, 1086, 1076,
      1090, 1074, 1077, 1088, 1076, 1080, 1074, 1096, 1080, 1093]"

definition LIST_WAITING_PLAYERS :: ustring where
  "LIST_WAITING_PLAYERS =
     [128101, 32, 1053, 1077, 32, 1087, 1086, 1076, 1090, 1074, 1077, 1088, 1076, 1080, 1074,
      1096, 1080, 1077, 32, 1091, 1095, 1072, 1089, 1090, 1080, 1077]"

definition REMOVE_PLAYER :: ustring where
  "REMOVE_PLAYER =
     [128465, 32, 1059, 1076, 1072, 1083, 1080, 1090, 1100, 32, 1080, 1075, 1088, 1086, 1082,
      1072]"

definition MANAGE_PLAYERS :: ustring where
  "MANAGE_PLAYERS =
     [1059, 1087, 1088, 1072, 1074, 1083, 1077, 1085, 1080, 1077, 32, 1080, 1075, 1088, 1086,
      1082, 1072, 1084, 1080]"

definition LIST_PLAYER_PROFILES :: ustring where
  "LIST_PLAYER_PROFILES =
     [128203, 32, 1057, 1087, 1080, 1089, 1086, 1082, 32, 1087, 1088, 1086, 1092, 1080, 1083,
      1077, 1081, 32, 1080, 1075, 1088, 1086, 1082, 1086, 1074]"

definition PROMOTE_RESERVE_PLAYER :: ustring where
  "PROMOTE_RESERVE_PLAYER =
     [1055, 1086, 1076, 1074, 1080, 1085, 1091, 1090, 1100, 32, 1080, 1075, 1088, 1086, 1082,
      1072, 32, 1074, 32, 1086, 1089, 1085, 1086, 1074, 1085, 1091, 1102, 32, 1089, 1077, 1089,
      1089, 1080, 1102]"

definition REMOVE_WAITING_PLAYERS :: ustring where
  "REMOVE_WAITING_PLAYERS =
     [1059, 1073, 1088, 1072, 1090, 1100, 32, 1085, 1077, 32, 1087, 1086, 1076, 1090, 1074, 1077,
      1088, 1076, 1080, 1074, 1096, 1080, 1093, 1089, 1103, 32, 1074, 32, 1079, 1072, 1087, 1072,
      1089]"

definition LEGACY_REMOVE_WAITING_PLAYERS :: ustring where
  "LEGACY_REMOVE_WAITING_PLAYERS =
     [1059, 1076, 1072, 1083, 1080, 1090, 1100, 32, 1085, 1077, 32, 1087, 1086, 1076, 1090, 1074,
      1077, 1088, 1076, 1080, 1074, 1096, 1080, 1093, 1089, 1103]"

definition CREATE_PASS_TABLE :: ustring where
  "CREATE_PASS_TABLE =
     [127915, 32, 1057, 1086, 1079, 1076, 1072, 1090, 1100, 32, 1090, 1072, 1073, 1083, 1080,
      1094, 1091, 32, 1087, 1088, 1086, 1087, 1091, 1089, 1082, 1086, 1074]"

definition LIST_PASS_TABLES :: ustring where
  "LIST_PASS_TABLES =
     [128279, 32, 1057, 1089, 1099, 1083, 1082, 1080, 32, 1085, 1072, 32, 1090, 1072, 1073, 1083,
      1080, 1094, 1099, 32, 1087, 1088, 1086, 1087, 1091, 1089, 1082, 1086, 1074]"

definition GET_DAILY_PASSES :: ustring where
  "GET_DAILY_PASSES =
     [1055, 1086, 1083, 1091, 1095, 1080, 1090, 1100, 32, 1074, 1089, 1077, 32, 1087, 1088, 1086,
      1087, 1091, 1089, 1082, 1072, 32, 1079, 1072, 32, 1076, 1077, 1085, 1100]"

definition DAILY_PASSES_ACTION :: ustring where
  "DAILY_PASSES_ACTION = asc ''admin:passes:daily''"

definition DAILY_PASSES_DATE_PREFIX :: ustring where
  "DAILY_PASSES_DATE_PREFIX = asc ''admin:passes:day:''"

definition DAILY_PASSES_PAGE_PREFIX :: ustring where
  "DAILY_PASSES_PAGE_PREFIX = asc ''admin:passes:page:''"

definition MANAGE_GAMES :: ustring where
  "MANAGE_GAMES =
     [1059, 1087, 1088, 1072, 1074, 1083, 1077, 1085, 1080, 1077, 32, 1080, 1075, 1088, 1072,
      1084, 1080]"

definition ARCHIVED_GAMES :: ustring where
  "ARCHIVED_GAMES = [1040, 1088, 1093, 1080, 1074, 32, 1080, 1075, 1088]"

definition MANAGE_MODERATORS :: ustring where
  "MANAGE_MODERATORS =
     [1059, 1087, 1088, 1072, 1074, 1083, 1077, 1085, 1080, 1077, 32, 1088, 1086, 1083, 1103,
      1084, 1080]"

definition LEGACY_MANAGE_MODERATORS :: ustring where
  "LEGACY_MANAGE_MODERATORS =
     [1059, 1087, 1088, 1072, 1074, 1083, 1077, 1085, 1080, 1077, 32, 1084, 1086, 1076, 1077,
      1088, 1072, 1090, 1086, 1088, 1072, 1084, 1080]"

definition MANAGE_STATISTICS :: ustring where
  "MANAGE_STATISTICS =
     [1059, 1087, 1088, 1072, 1074, 1083, 1077, 1085, 1080, 1077, 32, 1089, 1090, 1072, 1090,
      1080, 1089, 1090, 1080, 1082, 1086, 1081]"

definition STATS_LINKS :: ustring where
  "STATS_LINKS =
     [1057, 1089, 1099, 1083, 1082, 1080, 32, 1085, 1072, 32, 1090, 1072, 1073, 1083, 1080, 1094,
      1099, 32, 1089, 1090, 1072, 1090, 1080, 1089, 1090, 1080, 1082, 1080]"

definition STATS_ADD_GAME :: ustring where
  "STATS_ADD_GAME =
     [1044, 1086, 1073, 1072, 1074, 1080, 1090, 1100, 32, 1080, 1075, 1088, 1091, 32, 1074, 32,
      1089, 1090, 1072, 1090, 1080, 1089, 1090, 1080, 1082, 1091]"

definition STATS_CONFIRM_ADD_GAME :: ustring where
  "STATS_CONFIRM_ADD_GAME =
     [1044, 1072, 44, 32, 1076, 1086, 1073, 1072, 1074, 1080, 1090, 1100, 32, 1074, 32, 1089,
      1090, 1072, 1090, 1080, 1089, 1090, 1080, 1082, 1091]"

definition EVENT_TABLES :: ustring where
  "EVENT_TABLES =
     [1058, 1072, 1073, 1083, 1080, 1094, 1099, 32, 1091, 1095, 1072, 1089, 1090, 1085, 1080,
      1082, 1086, 1074, 32, 1080, 32, 1087, 1088, 1086, 1087, 1091, 1089, 1082, 1086, 1074]"

definition EXPORT_ACHIEVEMENTS :: ustring where
  "EXPORT_ACHIEVEMENTS =
     [1042, 1099, 1075, 1088, 1091, 1079, 1080, 1090, 1100, 32, 1072, 1095, 1080, 1074, 1082,
      1080]"

definition GAME_FILES :: ustring where
  "GAME_FILES = [1060, 1072, 1081, 1083, 1099, 32, 1080, 1075, 1088, 1099]"

definition CHANGE_GAME_DETAILS :: ustring where
  "CHANGE_GAME_DETAILS =
     [1048, 1079, 1084, 1077, 1085, 1080, 1090, 1100, 32, 1085, 1072, 1079, 1074, 1072, 1085,
      1080, 1077, 32, 1080, 32, 1076, 1072, 1090, 1091]"

definition GRANT_GAMEMASTER :: ustring where
  "GRANT_GAMEMASTER =
     [10133, 32, 1053, 1072, 1079, 1085, 1072, 1095, 1080, 1090, 1100, 32, 1084, 1086, 1076,
      1077, 1088, 1072, 1090, 1086, 1088, 1072]"

definition GRANT_GAMEMASTER_VIEWER :: ustring where
  "GRANT_GAMEMASTER_VIEWER =
     [10133, 32, 1052, 1086, 1076, 1077, 1088, 1072, 1090, 1086, 1088, 45, 1085, 1072, 1073,
      1083, 1102, 1076, 1072, 1090, 1077, 1083, 1100]"

definition GRANT_PASS_MANAGER :: ustring where
  "GRANT_PASS_MANAGER =
     [10133, 32, 1052, 1077, 1085, 1077, 1076, 1078, 1077, 1088, 32, 1087, 1088, 1086, 1087,
      1091, 1089, 1082, 1086, 1074]"

definition REVOKE_GAMEMASTER :: ustring where
  "REVOKE_GAMEMASTER = [10134, 32, 1057, 1085, 1103, 1090, 1100, 32, 1088, 1086, 1083, 1100]"

definition LIST_GAMEMASTERS :: ustring where
  "LIST_GAMEMASTERS =
     [128203, 32, 1057, 1087, 1080, 1089, 1086, 1082, 32, 1088, 1086, 1083, 1077, 1081]"

definition MANAGE_MASTERS :: ustring where
  "MANAGE_MASTERS = [1052, 1072, 1089, 1090, 1077, 1088, 1072]"

definition ADD_EVENT_LEADER :: ustring where
  "ADD_EVENT_LEADER =
     [10133, 32, 1044, 1086, 1073, 1072, 1074, 1080, 1090, 1100, 32, 1084, 1072, 1089, 1090,
      1077, 1088, 1072]"

definition ADD_SELF_EVENT_LEADER :: ustring where
  "ADD_SELF_EVENT_LEADER =
     [10133, 32, 1044, 1086, 1073, 1072, 1074, 1080, 1090, 1100, 32, 1089, 1077, 1073, 1103, 32,
      1084, 1072, 1089, 1090, 1077, 1088, 1086, 1084]"

definition REMOVE_EVENT_LEADER :: ustring where
  "REMOVE_EVENT_LEADER =
     [10134, 32, 1059, 1076, 1072, 1083, 1080, 1090, 1100, 32, 1084, 1072, 1089, 1090, 1077,
      1088, 1072]"

definition LIST_EVENT_LEADERS :: ustring where
  "LIST_EVENT_LEADERS =
     [128203, 32, 1057, 1087, 1080, 1089, 1086, 1082, 32, 1084, 1072, 1089, 1090, 1077, 1088,
      1086, 1074]"

definition CREATION_MASTER_QUESTION :: ustring where
  "CREATION_MASTER_QUESTION =
     [1061, 1086, 1090, 1080, 1090, 1077, 32, 1085, 1072, 1079, 1085, 1072, 1095, 1080, 1090,
      1100, 32, 1087, 1077, 1088, 1074, 1086, 1075, 1086, 32, 1084, 1072, 1089, 1090, 1077, 1088,
      1072, 32, 1080, 1075, 1088, 1099, 32, 1089, 1077, 1081, 1095, 1072, 1089, 32, 1080, 1083,
      1080, 32, 1087, 1086, 1079, 1078, 1077, 63]"

definition CREATE_AS_MASTER :: ustring where
  "CREATE_AS_MASTER =
     [1053, 1072, 1079, 1085, 1072, 1095, 1080, 1090, 1100, 32, 1089, 1077, 1073, 1103]"

definition CREATE_WITH_OTHER_MASTER :: ustring where
  "CREATE_WITH_OTHER_MASTER =
     [1042, 1099, 1073, 1088, 1072, 1090, 1100, 32, 1076, 1088, 1091, 1075, 1086, 1075, 1086, 32,
      1084, 1072, 1089, 1090, 1077, 1088, 1072]"

definition CREATE_WITHOUT_MASTER :: ustring where
  "CREATE_WITHOUT_MASTER =
     [1053, 1072, 1079, 1085, 1072, 1095, 1080, 1090, 1100, 32, 1087, 1086, 1079, 1078, 1077]"

definition SCHEDULE_REGISTRATION_QUESTION :: ustring where
  "SCHEDULE_REGISTRATION_QUESTION =
     [1061, 1086, 1090, 1080, 1090, 1077, 32, 1083, 1080, 32, 1074, 1099, 32, 1079, 1072, 1087,
      1083, 1072, 1085, 1080, 1088, 1086, 1074, 1072, 1090, 1100, 32, 1086, 1090, 1083, 1086,
      1078, 1077, 1085, 1085, 1086, 1077, 32, 1086, 1090, 1082, 1088, 1099, 1090, 1080, 1077, 32,
      1080, 1075, 1088, 1099, 63]"

definition SCHEDULE_CONFIRMATION_QUESTION :: ustring where
  "SCHEDULE_CONFIRMATION_QUESTION =
     [1061, 1086, 1090, 1080, 1090, 1077, 32, 1083, 1080, 32, 1074, 1099, 32, 1079, 1072, 1087,
      1083, 1072, 1085, 1080, 1088, 1086, 1074, 1072, 1090, 1100, 32, 1086, 1090, 1082, 1088,
      1099, 1090, 1080, 1077, 32, 1087, 1086, 1076, 1090, 1074, 1077, 1088, 1078, 1076, 1077,
      1085, 1080, 1103, 32, 1091, 1095, 1072, 1089, 1090, 1080, 1103, 63]"

definition SCHEDULE_CLOSE_QUESTION :: ustring where
  "SCHEDULE_CLOSE_QUESTION =
     [1061, 1086, 1090, 1080, 1090, 1077, 32, 1083, 1080, 32, 1074, 1099, 32, 1079, 1072, 1087,
      1083, 1072, 1085, 1080, 1088, 1086, 1074, 1072, 1090, 1100, 32, 1079, 1072, 1082, 1088,
      1099, 1090, 1080, 1077, 32, 1080, 1075, 1088, 1099, 63, 32, 1048, 1075, 1088, 1072, 32,
      1073, 1091, 1076, 1077, 1090, 32, 1079, 1072, 1082, 1088, 1099, 1090, 1072, 32, 1076, 1083,
      1103, 32, 1088, 1077, 1075, 1080, 1089, 1090, 1088, 1072, 1094, 1080, 1080, 44, 32, 1076,
      1086, 1073, 1072, 1074, 1083, 1077, 1085, 1072, 32, 1074, 32, 1089, 1090, 1072, 1090, 1080,
      1089, 1090, 1080, 1082, 1091, 32, 1087, 1086, 1089, 1077, 1097, 1077, 1085, 1080, 1081, 32,
      1080, 32, 1072, 1088, 1093, 1080, 1074, 1080, 1088, 1086, 1074, 1072, 1085, 1072, 32, 1089,
      1072, 1084, 1072, 46, 32, 1052, 1086, 1078, 1077, 1090, 1077, 32, 1079, 1072, 1087, 1083,
      1072, 1085, 1080, 1088, 1086, 1074, 1072, 1090, 1100, 32, 1085, 1072, 32, 1085, 1086, 1095,
      1100, 32, 1087, 1086, 1089, 1083, 1077, 32, 1080, 1075, 1088, 1099, 44, 32, 1083, 1080,
      1073, 1086, 32, 1074, 1099, 1073, 1088, 1072, 1090, 1100, 32, 1091, 1076, 1086, 1073, 1085,
      1086, 1077, 32, 1074, 1072, 1084, 32, 1074, 1088, 1077, 1084, 1103]"

definition DECLINE_SCHEDULED_CLOSE :: ustring where
  "DECLINE_SCHEDULED_CLOSE =
     [1053, 1077, 32, 1093, 1086, 1095, 1091, 32, 1087, 1083, 1072, 1085, 1080, 1088, 1086, 1074,
      1072, 1090, 1100, 32, 1079, 1072, 1082, 1088, 1099, 1090, 1080, 1077]"

definition ARCHIVE_GAME :: ustring where
  "ARCHIVE_GAME =
     [128230, 32, 1040, 1088, 1093, 1080, 1074, 1080, 1088, 1086, 1074, 1072, 1090, 1100, 32,
      1080, 1075, 1088, 1091]"

definition UNARCHIVE_GAME :: ustring where
  "UNARCHIVE_GAME =
     [128228, 32, 1056, 1072, 1079, 1072, 1088, 1093, 1080, 1074, 1080, 1088, 1086, 1074, 1072,
      1090, 1100, 32, 1080, 1075, 1088, 1091]"

definition DELETE_GAME :: ustring where
  "DELETE_GAME = [128465, 32, 1059, 1076, 1072, 1083, 1080, 1090, 1100, 32, 1080, 1075, 1088, 1091]"

definition STATUS_CONFIRMATION :: ustring where
  "STATUS_CONFIRMATION =
     [1055, 1086, 1076, 1090, 1074, 1077, 1088, 1078, 1076, 1077, 1085, 1080, 1077]"

definition STATUS_CLOSED :: ustring where
  "STATUS_CLOSED =
     [1047, 1072, 1082, 1088, 1099, 1090, 1080, 1077, 32, 1088, 1077, 1075, 1080, 1089, 1090,
      1088, 1072, 1094, 1080, 1080]"

definition GAMEMASTER_NOTIFICATION :: ustring where
  "GAMEMASTER_NOTIFICATION =
     [1042, 1099, 32, 1085, 1072, 1079, 1085, 1072, 1095, 1077, 1085, 1099, 32, 1084, 1086, 1076,
      1077, 1088, 1072, 1090, 1086, 1088, 1086, 1084, 33, 32, 127881]"

definition GAMEMASTER_REVOKED_NOTIFICATION :: ustring where
  "GAMEMASTER_REVOKED_NOTIFICATION =
     [1042, 1099, 32, 1073, 1086, 1083, 1100, 1096, 1077, 32, 1085, 1077, 32, 1103, 1074, 1083,
      1103, 1077, 1090, 1077, 1089, 1100, 32, 1084, 1086, 1076, 1077, 1088, 1072, 1090, 1086,
      1088, 1086, 1084, 46]"

definition CREATE_GAME :: ustring where
  "CREATE_GAME = [10133, 32, 1057, 1086, 1079, 1076, 1072, 1090, 1100, 32, 1080, 1075, 1088, 1091]"

definition LIST_GAMES :: ustring where
  "LIST_GAMES = [128203, 32, 1057, 1087, 1080, 1089, 1086, 1082, 32, 1080, 1075, 1088]"

definition OLD_OPEN_CONFIRMATION :: ustring where
  "OLD_OPEN_CONFIRMATION =
     [128275, 32, 1054, 1090, 1082, 1088, 1099, 1090, 1100, 32, 1087, 1086, 1076, 1090, 1074,
      1077, 1088, 1078, 1076, 1077, 1085, 1080, 1103]"

definition OLD_CLOSE_CONFIRMATION :: ustring where
  "OLD_CLOSE_CONFIRMATION =
     [128274, 32, 1047, 1072, 1082, 1088, 1099, 1090, 1100, 32, 1087, 1086, 1076, 1090, 1074,
      1077, 1088, 1078, 1076, 1077, 1085, 1080, 1103]"

definition OLD_CLOSE_REGISTRATION :: ustring where
  "OLD_CLOSE_REGISTRATION =
     [128274, 32, 1047, 1072, 1082, 1088, 1099, 1090, 1100, 32, 1088, 1077, 1075, 1080, 1089,
      1090, 1088, 1072, 1094, 1080, 1102]"

definition LEGACY_STATUS_ACTIONS :: "ustring list" where
  "LEGACY_STATUS_ACTIONS =
     [OLD_OPEN_CONFIRMATION, OLD_CLOSE_CONFIRMATION, OLD_CLOSE_REGISTRATION]"

definition ADMIN_ACTIONS :: "ustring list" where
  "ADMIN_ACTIONS =
     [MANAGE_STATISTICS, STATS_LINKS, STATS_ADD_GAME, CREATE_GAME, MANAGE_GAMES, ARCHIVED_GAMES,
     EVENT_TABLES, GAME_FILES, EDIT_GAME, CHANGE_GAME_DETAILS, CHANGE_STATUS, CHANGE_PLAYER_AMOUNT,
     MANAGE_NOTIFICATIONS, MANAGE_SCHEDULED_EVENTS, SEND_CONFIRMATION_REMINDER_LABEL,
     SEND_CONFIRMED_LINK, SEND_CONFIRMED_NOTIFICATION_LABEL, SEND_ALL_PLAYERS_NOTIFICATION_LABEL,
     LEGACY_SEND_CONFIRMED_NOTIFICATION, LIST_WAITING_PLAYERS, REMOVE_PLAYER, MANAGE_PLAYERS,
     LIST_PLAYER_PROFILES, PROMOTE_RESERVE_PLAYER, REMOVE_WAITING_PLAYERS,
     LEGACY_REMOVE_WAITING_PLAYERS, CREATE_PASS_TABLE, LIST_PASS_TABLES, DAILY_PASSES_ACTION,
     MANAGE_MODERATORS, LEGACY_MANAGE_MODERATORS, GRANT_GAMEMASTER, GRANT_GAMEMASTER_VIEWER,
     GRANT_PASS_MANAGER, REVOKE_GAMEMASTER, LIST_GAMEMASTERS, MANAGE_MASTERS, ADD_EVENT_LEADER,
     REMOVE_EVENT_LEADER, LIST_EVENT_LEADERS, ARCHIVE_GAME, UNARCHIVE_GAME, DELETE_GAME, LIST_GAMES]"

definition FREE_TEXT_DIALOG_STATES :: "ustring list" where
  "FREE_TEXT_DIALOG_STATES =
     [asc ''PROFILE_FULL_NAME_CYRILLIC'', asc ''PROFILE_NICKNAME'', asc ''PROFILE_CONTACT'',
     asc ''PROFILE_PASS_FULL_NAME_LATIN'', asc ''PROFILE_PASS_PHONE'',
     asc ''PROFILE_PASS_EMAIL_ADDRESS'', asc ''ENLIST_WISH_PLAY'', asc ''ENLIST_ANSWER'',
     asc ''ANSWER_EDIT'', asc ''ADMIN_QUESTION_CREATE_TEXT'', asc ''ADMIN_QUESTION_CREATE_NAME'',
     asc ''ADMIN_QUESTION_CREATE_CAPACITY'', asc ''ADMIN_QUESTION_EDIT_VALUE'', asc ''CONFIRM_WISH'',
     asc ''CHARACTER_EDIT'', asc ''CO_PLAYER_EDIT'', asc ''ADMIN_CREATE_NAME'',
     asc ''ADMIN_CREATE_DATE'', asc ''ADMIN_CREATE_CLOSE_TIME'', asc ''ADMIN_CREATE_PLAYER_AMOUNT'',
     asc ''ADMIN_CREATE_MASTER_CHOICE'', asc ''ADMIN_CREATE_MASTER_PICK'',
     asc ''ADMIN_CREATE_MASTER_PLATFORM'', asc ''ADMIN_CREATE_MASTER_PROFILE'',
     asc ''ADMIN_CREATE_MASTER_PROMOTE_CONFIRM'', asc ''ADMIN_CREATE_SCHEDULE_CHOICE'',
     asc ''ADMIN_CREATE_SCHEDULE_TIME'', asc ''ADMIN_CREATE_CONFIRMATION_SCHEDULE_CHOICE'',
     asc ''ADMIN_CREATE_CONFIRMATION_SCHEDULE_TIME'', asc ''ADMIN_CREATE_CONFIRMATION_DEADLINE'',
     asc ''ADMIN_SCHEDULE_REGISTRATION_TIME'', asc ''ADMIN_SCHEDULE_CONFIRMATION_TIME'',
     asc ''ADMIN_SCHEDULE_CONFIRMATION_DEADLINE'', asc ''ADMIN_SCHEDULE_CLOSE_TIME'',
     asc ''ADMIN_UPDATE_PLAYER_AMOUNT'', asc ''ADMIN_UPDATE_GAME_NAME'', asc ''ADMIN_UPDATE_GAME_DATE'',
     asc ''ADMIN_POST_LINK_TELEGRAM'', asc ''ADMIN_POST_LINK_VK'', asc ''ADMIN_CONFIRMATION_DEADLINE'',
     asc ''ADMIN_NOTIFICATION_LINK_TEXT'', asc ''ADMIN_NOTIFICATION_MESSAGE_TEXT'',
     asc ''ADMIN_NOTIFICATION_CONFIRM'', asc ''ADMIN_NOTIFICATION_TEXT'',
     asc ''ADMIN_GAMEMASTER_PROFILE'', asc ''ADMIN_EVENT_LEADER_PROFILE'', asc ''ADMIN_MODERATOR_LIST'',
     asc ''ADMIN_MODERATOR_REMOVE'', asc ''ADMIN_MODERATOR_REMOVE_CONFIRM'',
     asc ''ADMIN_EVENT_LEADER_ADD_PICK'', asc ''ADMIN_EVENT_LEADER_PROMOTE_CONFIRM'',
     asc ''ADMIN_EVENT_LEADER_REMOVE'', asc ''ADMIN_EVENT_LEADER_REMOVE_CONFIRM'',
     asc ''ADMIN_EVENT_LEADER_LIST'', asc ''ADMIN_ARCHIVE_NAME'', asc ''ADMIN_DELETE_NAME'',
     asc ''ADMIN_REMOVE_PICK'', asc ''ADMIN_REMOVE_CONFIRM'', asc ''ADMIN_REMOVE_WAITING_CONFIRM'',
     asc ''ADMIN_WAITING_PICK'', asc ''ADMIN_PROFILES_PICK'', asc ''ADMIN_RESERVE_PROMOTION_PICK'',
     asc ''ADMIN_RESERVE_PROMOTION_CONFIRM'']"

end
