(* ===== verification/Moments.thy ===== *)
theory Moments
  imports Profiles Labels
begin

text \<open>
  Instants as the dialogues of administrators keep them in their JSON context: \<open>isoformat\<close> and
  \<open>fromisoformat\<close> of \<open>date\<close> and \<open>datetime\<close>, the Moscow wall clock and its instants.
\<close>

section \<open>ISO dates\<close>

text \<open>
  \<open>date.fromisoformat\<close>: \<open>YYYY-MM-DD\<close>, \<open>YYYYMMDD\<close> and the forms with an ISO week; the length is that of the
  UTF-8 encoding, and what follows the day of a week is not looked at.
\<close>

definition utf8_size :: "nat \<Rightarrow> nat" where
  "utf8_size c = (if c < 128 then 1 else if c < 2048 then 2 else if c < 65536 then 3 else 4)"

definition digits_at :: "nat \<Rightarrow> ustring \<Rightarrow> (nat \<times> ustring) option" where
  "digits_at n s =
     (if n \<le> length s \<and> list_all is_ascii_digit (take n s) then Some (decimal_read (take n s), drop n s) else None)"

definition date_of_ordinal :: "int \<Rightarrow> date" where
  "date_of_ordinal n =
     (if 719163 \<le> n then add_days (nat (n - 719163)) (1970, 1, 1) else sub_days (nat (719163 - n)) (1970, 1, 1))"

definition week1_monday :: "nat \<Rightarrow> int" where
  "week1_monday y =
     (let first = toordinal (y, 1, 1); first_weekday = (first + 6) mod 7
      in first - first_weekday + (if first_weekday > 3 then 7 else 0))"

definition date_of_week :: "nat \<Rightarrow> nat \<Rightarrow> nat \<Rightarrow> date option" where
  "date_of_week y week day =
     (let first_weekday = weekday (y, 1, 1); long_year = (first_weekday = 3 \<or> first_weekday = 2 \<and> is_leap y)
      in if y < 1 \<or> week < 1 \<or> 53 < week \<or> week = 53 \<and> \<not> long_year \<or> day < 1 \<or> 7 < day then None
         else (let d = date_of_ordinal (week1_monday y + (int week - 1) * 7 + int day - 1)
               in if valid_date d then Some d else None))"

definition parse_week :: "nat \<Rightarrow> bool \<Rightarrow> ustring \<Rightarrow> date option" where
  "parse_week y separated s =
     (case digits_at 2 s of
        None \<Rightarrow> None
      | Some (week, r) \<Rightarrow>
          if r = [] then date_of_week y week 1
          else if separated \<and> hd r \<noteq> 45 then None
          else
            (case digits_at 1 (if separated then tl r else r) of
               None \<Rightarrow> None | Some (day, _) \<Rightarrow> date_of_week y week day))"

definition parse_month :: "nat \<Rightarrow> bool \<Rightarrow> ustring \<Rightarrow> date option" where
  "parse_month y separated s =
     (case digits_at 2 s of
        None \<Rightarrow> None
      | Some (m, r) \<Rightarrow>
          if separated \<and> take 1 r \<noteq> [45] then None
          else
            (case digits_at 2 (if separated then tl r else r) of
               None \<Rightarrow> None
             | Some (d, rest) \<Rightarrow> if rest = [] \<and> valid_date (y, m, d) then Some (y, m, d) else None))"

definition date_of_iso :: "ustring \<Rightarrow> date option" where
  "date_of_iso s =
     (if sum_list (map utf8_size s) \<notin> {7, 8, 10} then None
      else
        (case digits_at 4 s of
           None \<Rightarrow> None
         | Some (y, r) \<Rightarrow>
             (let separated = (take 1 r = [45]); rest = (if separated then tl r else r)
              in if take 1 rest = [87] then parse_week y separated (tl rest) else parse_month y separated rest)))"

section \<open>ISO moments\<close>

text \<open>
  A moment is written as the wall clock with its offset from UTC in seconds.  Reading accepts what
  \<open>isoformat\<close> writes of a moment with an offset; nothing else is ever put into a context.
\<close>

definition as_utc :: "local_time \<Rightarrow> time" where
  "as_utc lt = (toordinal (fst lt) - 719163) * 86400000000 + int (snd lt)"

definition utc_clock :: "time \<Rightarrow> local_time" where
  "utc_clock t = (date_of_ordinal (719163 + t div 86400000000), nat (t mod 86400000000))"

definition show_fraction :: "nat \<Rightarrow> ustring" where
  "show_fraction us =
     (if us = 0 then [] else 46 # show2 (us div 10000) @ show2 (us div 100 mod 100) @ show2 (us mod 100))"

definition show_clock :: "nat \<Rightarrow> ustring" where
  "show_clock us =
     show2 (us div 3600000000) @ [58] @ show2 (us div 60000000 mod 60) @ [58] @ show2 (us div 1000000 mod 60)
     @ show_fraction (us mod 1000000)"

definition show_offset :: "int \<Rightarrow> ustring" where
  "show_offset seconds =
     (let n = nat (abs seconds)
      in (if seconds < 0 then 45 else 43) # show2 (n div 3600) @ [58] @ show2 (n div 60 mod 60)
         @ (if n mod 60 = 0 then [] else [58] @ show2 (n mod 60)))"

definition show_moment :: "local_time \<Rightarrow> int \<Rightarrow> ustring" where
  "show_moment lt offset = iso_date (fst lt) @ [84] @ show_clock (snd lt) @ show_offset offset"

definition iso_utc :: "time \<Rightarrow> ustring" where
  "iso_utc t = show_moment (utc_clock t) 0"

definition iso_moscow :: "env \<Rightarrow> local_time \<Rightarrow> ustring" where
  "iso_moscow X lt = show_moment lt ((as_utc lt - xe_instant X lt) div 1000000)"

fun pair_at :: "ustring \<Rightarrow> (nat \<times> ustring) option" where
  "pair_at (a # b # s) =
     (if is_ascii_digit a \<and> is_ascii_digit b then Some (10 * (a - 48) + (b - 48), s) else None)"
| "pair_at _ = None"

fun colon_pair_at :: "ustring \<Rightarrow> (nat \<times> ustring) option" where
  "colon_pair_at (c # s) = (if c = 58 then pair_at s else None)"
| "colon_pair_at [] = None"

definition hms_at :: "ustring \<Rightarrow> (nat \<times> ustring) option" where
  "hms_at s =
     (case pair_at s of
        None \<Rightarrow> None
      | Some (h, r) \<Rightarrow>
          (case colon_pair_at r of
             None \<Rightarrow> None
           | Some (m, r') \<Rightarrow>
               (case colon_pair_at r' of
                  None \<Rightarrow> None
                | Some (sec, rest) \<Rightarrow>
                    if h < 24 \<and> m < 60 \<and> sec < 60 then Some (h * 3600 + m * 60 + sec, rest) else None)))"

definition fraction_at :: "ustring \<Rightarrow> (nat \<times> ustring) option" where
  "fraction_at s = (if take 1 s = [46] then digits_at 6 (tl s) else Some (0, s))"

definition offset_at :: "ustring \<Rightarrow> int option" where
  "offset_at s =
     (case s of
        [] \<Rightarrow> None
      | c # r \<Rightarrow>
          (case pair_at r of
             None \<Rightarrow> None
           | Some (h, r') \<Rightarrow>
               (case colon_pair_at r' of
                  None \<Rightarrow> None
                | Some (m, rest) \<Rightarrow>
                    (case (if rest = [] then Some (0, []) else colon_pair_at rest) of
                       None \<Rightarrow> None
                     | Some (sec, left) \<Rightarrow>
                         if left \<noteq> [] \<or> c \<notin> {43, 45} \<or> 24 \<le> h \<or> 60 \<le> m \<or> 60 \<le> sec then None
                         else Some ((if c = 45 then -1 else 1) * int (h * 3600 + m * 60 + sec))))))"

definition from_iso :: "ustring \<Rightarrow> exn + time" where
  "from_iso s =
     (case (date_of_iso (take 10 s), drop 10 s) of
        (Some d, c # r) \<Rightarrow>
          (case hms_at r of
             Some (sec, r') \<Rightarrow>
               (case fraction_at r' of
                  Some (us, rest) \<Rightarrow>
                    (case offset_at rest of
                       Some offset \<Rightarrow>
                         if c = 84 then Inr (as_utc (d, sec * 1000000 + us) - offset * 1000000) else Inl ValueError
                     | None \<Rightarrow> Inl ValueError)
                | None \<Rightarrow> Inl ValueError)
           | None \<Rightarrow> Inl ValueError)
      | _ \<Rightarrow> Inl ValueError)"

section \<open>Reading back what was written\<close>

lemma mod10_digit: "(n::nat) mod 10 \<le> 9"
  by (rule less_Suc_eq_le[THEN iffD1]) simp

lemma show2_digits: "list_all is_ascii_digit (show2 n)" "length (show2 n) = 2"
  by (simp_all add: show2_def is_ascii_digit_def mod10_digit)

lemma pair_at_show2: "n < 100 \<Longrightarrow> pair_at (show2 n @ s) = Some (n, s)"
  using mod10_digit[of "n div 10"] mod10_digit[of n] by (simp add: show2_def is_ascii_digit_def)

lemma colon_pair_at_show2: "n < 100 \<Longrightarrow> colon_pair_at (58 # show2 n @ s) = Some (n, s)"
  by (simp add: pair_at_show2)

lemma digits_at_append:
  "list_all is_ascii_digit a \<Longrightarrow> length a = n \<Longrightarrow> digits_at n (a @ s) = Some (decimal_read a, s)"
  by (simp add: digits_at_def)

lemma decimal_read_show2: "n < 100 \<Longrightarrow> decimal_read (show2 n) = n"
  by (simp add: decimal_read_def show2_def)

lemma decimal_read_two: "decimal_read (a @ show2 n) = 100 * decimal_read a + n mod 100"
proof -
  have "n mod 100 div 10 = n div 10 mod 10"
    using mod_mult2_eq[of n 10 10] by simp
  moreover have "n mod 100 mod 10 = n mod 10" by (simp add: mod_mod_cancel)
  ultimately have "10 * (n div 10 mod 10) + n mod 10 = n mod 100"
    using div_mult_mod_eq[of "n mod 100" 10] by simp
  then show ?thesis by (simp add: decimal_read_def show2_def)
qed

lemma month_days: "valid_date (y, m, d) \<Longrightarrow> m < 100 \<and> d < 100 \<and> y < 10000"
  by (auto simp: days_in_month_def split: if_splits)

lemma date_of_iso_date:
  assumes "valid_date d"
  shows "date_of_iso (iso_date d) = Some d"
proof -
  obtain y m k where d: "d = (y, m, k)" by (cases d)
  have b: "m < 100" "k < 100" "y < 10000" using month_days assms unfolding d by blast+
  have year: "digits_at 4 (show2 (y div 100) @ show2 (y mod 100) @ s) = Some (y, s)" for s
    using digits_at_append[of "show2 (y div 100) @ show2 (y mod 100)" 4 s] b(3)
    by (simp add: show2_digits decimal_read_two decimal_read_show2)
  have pair: "digits_at 2 (show2 n @ s) = Some (n, s)" if "n < 100" for n s
    using digits_at_append[of "show2 n" 2 s] that by (simp add: show2_digits decimal_read_show2)
  have size: "sum_list (map utf8_size (iso_date d)) = 10"
    using mod10_digit by (simp add: d show2_def utf8_size_def order.strict_trans1[OF mod10_digit])
  have not_week: "take 1 (show2 m @ s) \<noteq> [87]" for s by (simp add: show2_def)
  have "parse_month y True (show2 m @ 45 # show2 k) = Some d"
    using pair[OF b(1), of "45 # show2 k"] pair[OF b(2), of "[]"] assms
    by (simp add: parse_month_def d del: valid_date.simps)
  then show ?thesis
    unfolding date_of_iso_def size using not_week by (simp add: d year)
qed

lemma clock_parts: "(n::nat) div 3600 * 3600 + n div 60 mod 60 * 60 + n mod 60 = n"
proof -
  have "n div 3600 = n div 60 div 60" by (simp add: div_mult2_eq[symmetric])
  moreover have "(a * 60 + b) * 60 + c = a * 3600 + b * 60 + c" for a b c :: nat by simp
  ultimately have "n div 3600 * 3600 + n div 60 mod 60 * 60 + n mod 60 = (n div 60 div 60 * 60 + n div 60 mod 60) * 60 + n mod 60"
    by metis
  then show ?thesis by (simp only: div_mult_mod_eq)
qed

lemma hundred_parts: "100 * (100 * ((n::nat) div 10000) + n div 100 mod 100) + n mod 100 = n"
proof -
  have "n div 10000 = n div 100 div 100" by (simp add: div_mult2_eq[symmetric])
  then have "100 * (100 * (n div 10000) + n div 100 mod 100) + n mod 100 = (n div 100 div 100 * 100 + n div 100 mod 100) * 100 + n mod 100"
    by simp
  then show ?thesis by (simp only: div_mult_mod_eq)
qed

lemma hms_at_show:
  assumes "us < 86400000000"
  shows "hms_at (show_clock us @ s) = Some (us div 1000000, show_fraction (us mod 1000000) @ s)"
proof -
  define sec where "sec = us div 1000000"
  have b: "sec < 86400" using assms unfolding sec_def by simp
  have d: "us div 3600000000 = sec div 3600" "us div 60000000 mod 60 = sec div 60 mod 60"
    "us div 1000000 mod 60 = sec mod 60"
    unfolding sec_def by (simp_all add: div_mult2_eq[symmetric])
  have "sec div 3600 < 24" using b by simp
  then have parts: "sec div 3600 < 100" "sec div 60 mod 60 < 100" "sec mod 60 < 100"
    "sec div 3600 < 24" by simp_all
  from clock_parts[of sec] show ?thesis
    unfolding hms_at_def show_clock_def d
    using parts by (simp add: pair_at_show2 sec_def del: colon_pair_at.simps add: colon_pair_at_show2)
qed

lemma fraction_at_show:
  assumes "us < 1000000" and "s = [] \<or> hd s \<noteq> 46"
  shows "fraction_at (show_fraction us @ s) = Some (us, s)"
proof (cases "us = 0")
  case True
  then show ?thesis using assms(2) by (cases s) (simp_all add: fraction_at_def show_fraction_def)
next
  case False
  let ?a = "show2 (us div 10000) @ show2 (us div 100 mod 100) @ show2 (us mod 100)"
  have "us div 10000 < 100" using assms(1) by simp
  then have "decimal_read ?a = 100 * (100 * (us div 10000) + us div 100 mod 100) + us mod 100"
    using decimal_read_two[of "show2 (us div 10000) @ show2 (us div 100 mod 100)" "us mod 100"]
      decimal_read_two[of "show2 (us div 10000)" "us div 100 mod 100"]
    by (simp add: decimal_read_show2)
  also have "\<dots> = us" by (rule hundred_parts)
  finally show ?thesis
    using False digits_at_append[of ?a 6 s] by (simp add: fraction_at_def show_fraction_def show2_digits)
qed

lemma offset_at_show:
  assumes "abs n < 86400"
  shows "offset_at (show_offset n) = Some n"
proof -
  define k where "k = nat (abs n)"
  have k: "k < 86400" "n = (if n < 0 then - int k else int k)" using assms by (simp_all add: k_def)
  have "k div 3600 < 24" using k(1) by simp
  then have parts: "k div 3600 < 100" "k div 60 mod 60 < 100" "k mod 60 < 100" "k div 3600 < 24" by simp_all
  have tail: "(if (if k mod 60 = 0 then [] else [58] @ show2 (k mod 60)) = [] then Some (0, [])
      else colon_pair_at (if k mod 60 = 0 then [] else [58] @ show2 (k mod 60))) = Some (k mod 60, [])"
    using colon_pair_at_show2[of "k mod 60" "[]"] by simp
  have clock: "pair_at (show2 (k div 3600) @ s) = Some (k div 3600, s)"
    "colon_pair_at (58 # show2 (k div 60 mod 60) @ s) = Some (k div 60 mod 60, s)" for s
    using parts by (simp_all add: pair_at_show2)
  have "offset_at ((if n < 0 then 45 else 43) # show2 (k div 3600) @ [58] @ show2 (k div 60 mod 60)
      @ (if k mod 60 = 0 then [] else [58] @ show2 (k mod 60))) =
      Some ((if n < 0 then -1 else 1) * int (k div 3600 * 3600 + k div 60 mod 60 * 60 + k mod 60))"
    unfolding offset_at_def list.case append.simps clock option.case prod.case tail
    using parts pair_at_show2[of "k mod 60" "[]"] mod_less_divisor[of 60 "k div 60"] mod_less_divisor[of 60 k] by (simp add: not_le)
  also have "\<dots> = Some n" unfolding clock_parts using k(2) by (cases "n < 0") simp_all
  finally show ?thesis by (simp add: show_offset_def k_def[symmetric] Let_def)
qed

lemma from_iso_moment:
  assumes "valid_date d" and "us < 86400000000" and "abs offset < 86400"
  shows "from_iso (show_moment (d, us) offset) = Inr (as_utc (d, us) - offset * 1000000)"
proof -
  have len: "length (iso_date d) = 10" by (cases d) (simp add: show2_def)
  have hd: "show_offset offset = [] \<or> hd (show_offset offset) \<noteq> 46" by (simp add: show_offset_def Let_def)
  have split: "take 10 (show_moment (d, us) offset) = iso_date d"
    "drop 10 (show_moment (d, us) offset) = 84 # show_clock us @ show_offset offset"
    by (simp_all add: show_moment_def len)
  have "us mod 1000000 < 1000000" by simp
  from fraction_at_show[OF this hd] show ?thesis
    unfolding from_iso_def split date_of_iso_date[OF assms(1)]
    by (simp add: hms_at_show[OF assms(2)] offset_at_show[OF assms(3)])
qed

text \<open>Every day from 1970 to the end of the year 9999 is reached.\<close>

lemma valid_next_day_until:
  assumes "valid_date dt" and "toordinal dt < 3652059"
  shows "valid_date (next_day dt)"
proof -
  obtain y m d where dt: "dt = (y, m, d)" by (cases dt)
  show ?thesis
  proof (cases "y < 9999")
    case True
    with assms(1) show ?thesis by (simp add: dt valid_next_day)
  next
    case False
    with assms(1) have y: "y = 9999" by (simp add: dt)
    have "\<not> (m = 12 \<and> d = 31)"
      using assms(2) by (auto simp: dt y days_before_year_def days_before_december is_leap_def)
    moreover have "1 \<le> d" "1 \<le> m" "m \<le> 12" "d \<le> days_in_month y m" using assms(1) by (simp_all add: dt)
    moreover have "m = 12" if "\<not> m < 12" using that \<open>m \<le> 12\<close> by simp
    ultimately show ?thesis by (auto simp: dt y not_less)
  qed
qed

lemma day_after_1970:
  assumes "719163 + int n \<le> 3652059"
  shows "valid_date (add_days n (1970, 1, 1)) \<and> toordinal (add_days n (1970, 1, 1)) = 719163 + int n"
  using assms
proof (induction n)
  case 0
  then show ?case by (simp add: days_before_year_def days_before_month_def days_in_month_def)
next
  case (Suc n)
  then have IH: "valid_date (add_days n (1970, 1, 1))" "toordinal (add_days n (1970, 1, 1)) = 719163 + int n"
    by simp_all
  have s: "add_days (Suc n) dt = next_day (add_days n dt)" for dt by (simp add: add_days_def)
  show ?case
    unfolding s using IH Suc.prems valid_next_day_until[OF IH(1)] toordinal_next_day[OF IH(1)] by simp
qed

text \<open>The limit is the first microsecond of the year 10000.\<close>

definition last_moment :: time where
  "last_moment = 253402300800000000"

lemma utc_clock_bounds:
  assumes "0 \<le> t" and "t < last_moment"
  shows "valid_date (fst (utc_clock t))" and "snd (utc_clock t) < 86400000000" and "as_utc (utc_clock t) = t"
proof -
  have n: "0 \<le> t div 86400000000" "t div 86400000000 < 2932897"
    using assms by (simp_all add: last_moment_def pos_imp_zdiv_nonneg_iff div_less_iff_less_mult)
  define k where "k = nat (t div 86400000000)"
  have k: "int k = t div 86400000000" using n(1) by (simp add: k_def)
  have clock: "utc_clock t = (add_days k (1970, 1, 1), nat (t mod 86400000000))"
    using n(1) by (simp add: utc_clock_def date_of_ordinal_def k_def)
  have day: "valid_date (add_days k (1970, 1, 1))" "toordinal (add_days k (1970, 1, 1)) = 719163 + int k"
    using day_after_1970[of k] n(2) k by simp_all
  show "valid_date (fst (utc_clock t))" using day(1) by (simp add: clock)
  show "snd (utc_clock t) < 86400000000" by (simp add: clock nat_less_iff)
  show "as_utc (utc_clock t) = t" using day(2) k by (simp add: as_utc_def clock)
qed

lemma from_iso_utc:
  assumes "0 \<le> t" and "t < last_moment"
  shows "from_iso (iso_utc t) = Inr t"
  using from_iso_moment[OF utc_clock_bounds(1,2)[OF assms], of 0] utc_clock_bounds(3)[OF assms]
  by (simp add: iso_utc_def)

text \<open>
  A moment of Moscow time that a dialogue keeps in its context with isoformat is read back by
  fromisoformat as the same instant, with its fraction of a second.  The offset of Moscow from UTC is a whole
  number of seconds, less than a day.
\<close>

theorem moments_come_back:
  assumes "valid_date (fst lt)" and "snd lt < 86400000000"
    and "abs (as_utc lt - xe_instant X lt) < 86400000000" and "1000000 dvd as_utc lt - xe_instant X lt"
  shows "from_iso (iso_moscow X lt) = Inr (xe_instant X lt)"
proof -
  obtain d us where lt: "lt = (d, us)" by (cases lt)
  define offset where "offset = (as_utc lt - xe_instant X lt) div 1000000"
  have o: "offset * 1000000 = as_utc lt - xe_instant X lt" using assms(4) by (simp add: offset_def)
  with assms(3) have "abs offset < 86400" by linarith
  from from_iso_moment[OF assms(1)[unfolded lt fst_conv] assms(2)[unfolded lt snd_conv] this] o
  show ?thesis by (simp add: iso_moscow_def offset_def lt)
qed

theorem moments_come_back_witness:
  "from_iso (iso_moscow (sample_env\<lparr>xe_instant := \<lambda>lt. as_utc lt - 10800000000\<rparr>) ((2026, 5, 8), 64800000001))
     = Inr (as_utc ((2026, 5, 8), 64800000001) - 10800000000)"
  using moments_come_back[of "((2026, 5, 8), 64800000001)" "sample_env\<lparr>xe_instant := \<lambda>lt. as_utc lt - 10800000000\<rparr>"]
  by (simp add: days_in_month_def)

end
