(* ===== verification/Prompts.thy ===== *)
theory Prompts
  imports Moments
begin

text \<open>
  What the dialogues of administrators say: the buttons that lead back and the prompts of
  \<open>application/conversation_support.py\<close>, and the commands these dialogues queue.
\<close>

section \<open>Buttons\<close>

definition NEAREST_THURSDAY :: ustring where
  "NEAREST_THURSDAY =
     [1041, 1083, 1080, 1078, 1072, 1081, 1096, 1080, 1081, 32, 1095, 1077, 1090, 1074, 1077,
      1088, 1075, 32, 49, 57, 58, 48, 48]"

definition NEAREST_FRIDAY :: ustring where
  "NEAREST_FRIDAY =
     [1041, 1083, 1080, 1078, 1072, 1081, 1096, 1072, 1103, 32, 1087, 1103, 1090, 1085, 1080,
      1094, 1072, 32, 49, 56, 58, 48, 48]"

definition NEXT_SATURDAY :: ustring where
  "NEXT_SATURDAY =
     [1057, 1083, 1077, 1076, 1091, 1102, 1097, 1072, 1103, 32, 1089, 1091, 1073, 1073, 1086,
      1090, 1072]"

definition NEXT_NIGHT_03 :: ustring where
  "NEXT_NIGHT_03 =
     [48, 51, 58, 48, 48, 32, 1085, 1086, 1095, 1080, 32, 1087, 1086, 1089, 1083, 1077, 32, 1080,
      1075, 1088, 1099]"

definition TUESDAY_BEFORE_GAME_18 :: ustring where
  "TUESDAY_BEFORE_GAME_18 =
     [1042, 1090, 1086, 1088, 1085, 1080, 1082, 32, 1087, 1077, 1088, 1077, 1076, 32, 1080, 1075,
      1088, 1086, 1081, 32, 49, 56, 58, 48, 48]"

definition back_to :: "ustring \<Rightarrow> button" where
  "back_to target = button BACK target"

definition edit_game_button :: "ustring \<Rightarrow> button" where
  "edit_game_button event_id = back_to (asc ''ag:edit:'' @ event_id)"

definition game_files_button :: "ustring \<Rightarrow> button" where
  "game_files_button event_id = back_to (asc ''ag:files:'' @ event_id)"

definition player_management_button :: "ustring \<Rightarrow> button" where
  "player_management_button event_id = back_to (asc ''ag:players:'' @ event_id)"

definition notification_management_button :: "ustring \<Rightarrow> button" where
  "notification_management_button event_id = back_to (asc ''ag:notifications:'' @ event_id)"

definition schedule_button :: "ustring \<Rightarrow> button" where
  "schedule_button event_id = back_to (asc ''ag:schedule:'' @ event_id)"

text \<open>A remark before the prompt, on lines of its own.\<close>

definition remark :: "ustring \<Rightarrow> ustring" where
  "remark invalid = (if invalid = [] then [] else invalid @ [10, 10])"

section \<open>Statuses and roles\<close>

definition event_status_label :: "event_status \<Rightarrow> ustring" where
  "event_status_label s =
     (case s of CREATED \<Rightarrow> STATUS_REGISTRATION | CONFIRMATION_OPEN \<Rightarrow> STATUS_CONFIRMATION | CLOSED \<Rightarrow> STATUS_CLOSED)"

definition event_status_value :: "event_status \<Rightarrow> ustring" where
  "event_status_value s =
     (case s of CREATED \<Rightarrow> asc ''CREATED'' | CONFIRMATION_OPEN \<Rightarrow> asc ''CONFIRMATION_OPEN''
      | CLOSED \<Rightarrow> asc ''CLOSED'')"

definition event_status_of :: "ustring \<Rightarrow> event_status option" where
  "event_status_of s = List.find (\<lambda>status. event_status_value status = s) [CREATED, CONFIRMATION_OPEN, CLOSED]"

definition role_value :: "privileged_role \<Rightarrow> ustring" where
  "role_value r =
     (case r of GAMEMASTER \<Rightarrow> asc ''gamemaster'' | GAMEMASTER_VIEWER \<Rightarrow> asc ''gamemaster_viewer''
      | PASS_MANAGER \<Rightarrow> asc ''pass_manager'' | ADMIN \<Rightarrow> asc ''admin'')"

definition role_of_value :: "ustring \<Rightarrow> privileged_role option" where
  "role_of_value s =
     List.find (\<lambda>role. role_value role = s) [GAMEMASTER, GAMEMASTER_VIEWER, PASS_MANAGER, ADMIN]"

definition ASSIGNABLE_PRIVILEGED_ROLES :: "privileged_role list" where
  "ASSIGNABLE_PRIVILEGED_ROLES = [GAMEMASTER, GAMEMASTER_VIEWER, PASS_MANAGER]"

definition platform_of_value :: "ustring \<Rightarrow> platform option" where
  "platform_of_value s = List.find (\<lambda>p. platform_value p = s) [TELEGRAM, VK, SYSTEM]"

definition ADMIN_STATUS_CHOICES :: "(ustring, ustring \<times> operation) dict" where
  "ADMIN_STATUS_CHOICES =
     [(asc ''admin:status:registration'', (STATUS_REGISTRATION, OPEN_REGISTRATION)),
      (asc ''admin:status:confirmation'', (STATUS_CONFIRMATION, OPEN_CONFIRMATION)),
      (asc ''admin:status:closed'', (STATUS_CLOSED, CLOSE_EVENT))]"

section \<open>Prompts\<close>

definition txt_game_is :: ustring where
  "txt_game_is = [1048, 1075, 1088, 1072, 58, 32]"

definition txt_current_status :: ustring where
  "txt_current_status =
     [1058, 1077, 1082, 1091, 1097, 1080, 1081, 32, 1057, 1090, 1072, 1090, 1091, 1089, 58, 32]"

definition txt_choose_status :: ustring where
  "txt_choose_status =
     [1042, 1099, 1073, 1077, 1088, 1080, 1090, 1077, 32, 1085, 1086, 1074, 1099, 1081, 32, 1057,
      1090, 1072, 1090, 1091, 1089, 58, 10, 10]"

definition txt_status_created :: ustring where
  "txt_status_created =
     [32, 8212, 32, 1080, 1075, 1088, 1086, 1082, 1080, 32, 1084, 1086, 1075, 1091, 1090, 32,
      1079, 1072, 1087, 1080, 1089, 1099, 1074, 1072, 1090, 1100, 1089, 1103, 44, 32, 1085, 1086,
      32, 1077, 1097, 1105, 32, 1085, 1077, 32, 1084, 1086, 1075, 1091, 1090, 32, 1087, 1086,
      1076, 1090, 1074, 1077, 1088, 1078, 1076, 1072, 1090, 1100, 32, 1091, 1095, 1072, 1089,
      1090, 1080, 1077, 46, 10, 10]"

definition txt_status_open :: ustring where
  "txt_status_open =
     [32, 8212, 32, 1080, 1075, 1088, 1086, 1082, 1080, 32, 1084, 1086, 1075, 1091, 1090, 32,
      1079, 1072, 1087, 1080, 1089, 1099, 1074, 1072, 1090, 1100, 1089, 1103, 32, 1080, 32, 1087,
      1086, 1076, 1090, 1074, 1077, 1088, 1078, 1076, 1072, 1090, 1100, 32, 1091, 1095, 1072,
      1089, 1090, 1080, 1077, 46, 10, 10]"

definition txt_status_over :: ustring where
  "txt_status_over =
     [32, 8212, 32, 1080, 1075, 1088, 1086, 1082, 1080, 32, 1085, 1077, 32, 1084, 1086, 1075,
      1091, 1090, 32, 1085, 1080, 32, 1079, 1072, 1087, 1080, 1089, 1099, 1074, 1072, 1090, 1100,
      1089, 1103, 44, 32, 1085, 1080, 32, 1087, 1086, 1076, 1090, 1074, 1077, 1088, 1078, 1076,
      1072, 1090, 1100, 32, 1091, 1095, 1072, 1089, 1090, 1080, 1077, 46, 32]"

definition txt_status_reopen :: ustring where
  "txt_status_reopen =
     [1047, 1072, 1082, 1088, 1099, 1090, 1091, 1102, 32, 1088, 1077, 1075, 1080, 1089, 1090,
      1088, 1072, 1094, 1080, 1102, 32, 1084, 1086, 1078, 1085, 1086, 32, 1086, 1090, 1082, 1088,
      1099, 1090, 1100, 32, 1089, 1085, 1086, 1074, 1072, 44, 32, 1085, 1086, 32, 1079, 1072,
      1082, 1088, 1099, 1074, 1072, 1081, 1090, 1077, 32, 1077, 1105, 32, 1090, 1086, 1083, 1100,
      1082, 1086, 32, 1087, 1086, 1089, 1083, 1077, 32, 1090, 1086, 1075, 1086, 44, 32]"

definition txt_status_gathered :: ustring where
  "txt_status_gathered =
     [1082, 1072, 1082, 32, 1080, 1075, 1088, 1086, 1074, 1072, 1103, 32, 1089, 1077, 1089, 1089,
      1080, 1103, 32, 1091, 1078, 1077, 32, 1089, 1086, 1073, 1088, 1072, 1085, 1072, 46]"

definition txt_bad_moment :: ustring where
  "txt_bad_moment =
     [1053, 1077, 1082, 1086, 1088, 1088, 1077, 1082, 1090, 1085, 1072, 1103, 32, 1076, 1072,
      1090, 1072, 32, 1080, 32, 1074, 1088, 1077, 1084, 1103, 46, 32, 1055, 1086, 1087, 1088,
      1086, 1073, 1091, 1081, 1090, 1077, 32, 1077, 1097, 1105, 32, 1088, 1072, 1079, 46, 10, 10]"

definition txt_enter_deadline :: ustring where
  "txt_enter_deadline =
     [1042, 1074, 1077, 1076, 1080, 1090, 1077, 32, 1076, 1077, 1076, 1083, 1072, 1081, 1085, 32,
      1087, 1086, 1076, 1090, 1074, 1077, 1088, 1078, 1076, 1077, 1085, 1080, 1103, 32, 1089,
      1090, 1088, 1086, 1075, 1086, 32, 1074, 32, 1092, 1086, 1088, 1084, 1072, 1090, 1077, 32,
      68, 68, 46, 77, 77, 46, 89, 89, 32, 72, 72, 58, 77, 77, 32, 1080, 1083, 1080, 32, 1085,
      1072, 1078, 1084, 1080, 1090, 1077, 32, 171]"

definition txt_bad_date :: ustring where
  "txt_bad_date =
     [1053, 1077, 1082, 1086, 1088, 1088, 1077, 1082, 1090, 1085, 1072, 1103, 32, 1076, 1072,
      1090, 1072, 46, 32, 1055, 1086, 1087, 1088, 1086, 1073, 1091, 1081, 1090, 1077, 32, 1077,
      1097, 1105, 32, 1088, 1072, 1079, 46, 10, 10]"

definition txt_enter_game_date :: ustring where
  "txt_enter_game_date =
     [1042, 1074, 1077, 1076, 1080, 1090, 1077, 32, 1076, 1072, 1090, 1091, 32, 1080, 1075, 1088,
      1099, 32, 1089, 1090, 1088, 1086, 1075, 1086, 32, 1074, 32, 1092, 1086, 1088, 1084, 1072,
      1090, 1077, 32, 68, 68, 46, 77, 77, 46, 89, 89, 32, 1080, 1083, 1080, 32, 1085, 1072, 1078,
      1084, 1080, 1090, 1077, 32, 171]"

definition txt_current_game_date :: ustring where
  "txt_current_game_date =
     [1058, 1077, 1082, 1091, 1097, 1072, 1103, 32, 1076, 1072, 1090, 1072, 32, 1080, 1075, 1088,
      1099, 58, 32]"

definition txt_enter_new_date :: ustring where
  "txt_enter_new_date =
     [1042, 1074, 1077, 1076, 1080, 1090, 1077, 32, 1085, 1086, 1074, 1091, 1102, 32, 1076, 1072,
      1090, 1091, 32, 1089, 1090, 1088, 1086, 1075, 1086, 32, 1074, 32, 1092, 1086, 1088, 1084,
      1072, 1090, 1077, 32, 68, 68, 46, 77, 77, 46, 89, 89, 32, 1080, 1083, 1080, 32, 1085, 1072,
      1078, 1084, 1080, 1090, 1077, 32, 171]"

definition txt_opens_before_close :: ustring where
  "txt_opens_before_close =
     [1056, 1077, 1075, 1080, 1089, 1090, 1088, 1072, 1094, 1080, 1103, 32, 1076, 1086, 1083,
      1078, 1085, 1072, 32, 1086, 1090, 1082, 1088, 1099, 1074, 1072, 1090, 1100, 1089, 1103, 32,
      1089, 1090, 1088, 1086, 1075, 1086, 32, 1076, 1086, 32, 1079, 1072, 1082, 1088, 1099, 1090,
      1080, 1103, 32, 1080, 1075, 1088, 1099, 46, 10, 10]"

definition txt_opens_later :: ustring where
  "txt_opens_later =
     [1042, 1088, 1077, 1084, 1103, 32, 1086, 1090, 1082, 1088, 1099, 1090, 1080, 1103, 32, 1076,
      1086, 1083, 1078, 1085, 1086, 32, 1073, 1099, 1090, 1100, 32, 1089, 1090, 1088, 1086, 1075,
      1086, 32, 1087, 1086, 1079, 1078, 1077, 32, 1090, 1077, 1082, 1091, 1097, 1077, 1075, 1086,
      32, 1084, 1086, 1089, 1082, 1086, 1074, 1089, 1082, 1086, 1075, 1086, 32, 1074, 1088, 1077,
      1084, 1077, 1085, 1080, 46, 10, 10]"

definition txt_enter_opening :: ustring where
  "txt_enter_opening =
     [1042, 1074, 1077, 1076, 1080, 1090, 1077, 32, 1074, 1088, 1077, 1084, 1103, 32, 1087, 1091,
      1073, 1083, 1080, 1082, 1072, 1094, 1080, 1080, 32, 1089, 1090, 1088, 1086, 1075, 1086, 32,
      1074, 32, 1092, 1086, 1088, 1084, 1072, 1090, 1077, 32, 68, 68, 46, 77, 77, 46, 89, 89, 32,
      72, 72, 58, 77, 77, 32]"

definition txt_or_press :: ustring where
  "txt_or_press = [1080, 1083, 1080, 32, 1085, 1072, 1078, 1084, 1080, 1090, 1077, 32, 171]"

definition txt_zero_minutes :: ustring where
  "txt_zero_minutes =
     [187, 46, 32, 1052, 1080, 1085, 1091, 1090, 1099, 32, 1076, 1086, 1083, 1078, 1085, 1099,
      32, 1073, 1099, 1090, 1100, 32, 48, 48, 46, 32, 1042, 1088, 1077, 1084, 1103, 32, 1091,
      1082, 1072, 1079, 1099, 1074, 1072, 1077, 1090, 1089, 1103, 32, 1087, 1086, 32, 1052, 1086,
      1089, 1082, 1074, 1077, 46]"

definition txt_close_after_opening :: ustring where
  "txt_close_after_opening =
     [1047, 1072, 1082, 1088, 1099, 1090, 1080, 1077, 32, 1076, 1086, 1083, 1078, 1085, 1086, 32,
      1073, 1099, 1090, 1100, 32, 1087, 1086, 1079, 1078, 1077, 32, 1086, 1090, 1082, 1088, 1099,
      1090, 1080, 1103, 32, 1088, 1077, 1075, 1080, 1089, 1090, 1088, 1072, 1094, 1080, 1080, 46,
      10, 10]"

definition txt_close_after_deadline :: ustring where
  "txt_close_after_deadline =
     [1047, 1072, 1082, 1088, 1099, 1090, 1080, 1077, 32, 1076, 1086, 1083, 1078, 1085, 1086, 32,
      1073, 1099, 1090, 1100, 32, 1087, 1086, 1079, 1078, 1077, 32, 1076, 1077, 1076, 1083, 1072,
      1081, 1085, 1072, 32, 1087, 1086, 1076, 1090, 1074, 1077, 1088, 1078, 1076, 1077, 1085,
      1080, 1103, 46, 10, 10]"

definition txt_close_after_game :: ustring where
  "txt_close_after_game =
     [1047, 1072, 1082, 1088, 1099, 1090, 1080, 1077, 32, 1076, 1086, 1083, 1078, 1085, 1086, 32,
      1073, 1099, 1090, 1100, 32, 1079, 1072, 1087, 1083, 1072, 1085, 1080, 1088, 1086, 1074,
      1072, 1085, 1086, 32, 1089, 1090, 1088, 1086, 1075, 1086, 32, 1087, 1086, 1089, 1083, 1077,
      32, 1076, 1072, 1090, 1099, 32, 1080, 1075, 1088, 1099, 46, 10, 10]"

definition txt_close_in_future :: ustring where
  "txt_close_in_future =
     [1047, 1072, 1082, 1088, 1099, 1090, 1080, 1077, 32, 1076, 1086, 1083, 1078, 1085, 1086, 32,
      1073, 1099, 1090, 1100, 32, 1079, 1072, 1087, 1083, 1072, 1085, 1080, 1088, 1086, 1074,
      1072, 1085, 1086, 32, 1085, 1072, 32, 1073, 1091, 1076, 1091, 1097, 1077, 1077, 32, 1074,
      1088, 1077, 1084, 1103, 46, 10, 10]"

definition txt_enter_close :: ustring where
  "txt_enter_close =
     [1042, 1074, 1077, 1076, 1080, 1090, 1077, 32, 1074, 1088, 1077, 1084, 1103, 32, 1089, 1090,
      1088, 1086, 1075, 1086, 32, 1074, 32, 1092, 1086, 1088, 1084, 1072, 1090, 1077, 32, 68, 68,
      46, 77, 77, 46, 89, 89, 32, 72, 72, 58, 77, 77, 46, 32, 1052, 1080, 1085, 1091, 1090, 1099,
      32, 1076, 1086, 1083, 1078, 1085, 1099, 32, 1073, 1099, 1090, 1100, 32, 48, 48, 46, 32]"

definition txt_in_moscow :: ustring where
  "txt_in_moscow =
     [1042, 1088, 1077, 1084, 1103, 32, 1091, 1082, 1072, 1079, 1099, 1074, 1072, 1077, 1090,
      1089, 1103, 32, 1087, 1086, 32, 1052, 1086, 1089, 1082, 1074, 1077, 46]"

definition txt_or_press_tuesday :: ustring where
  "txt_or_press_tuesday =
     [32, 1080, 1083, 1080, 32, 1085, 1072, 1078, 1084, 1080, 1090, 1077, 32, 171]"

definition txt_enter_confirmation :: ustring where
  "txt_enter_confirmation =
     [1042, 1074, 1077, 1076, 1080, 1090, 1077, 32, 1074, 1088, 1077, 1084, 1103, 32, 1086, 1090,
      1082, 1088, 1099, 1090, 1080, 1103, 32, 1087, 1086, 1076, 1090, 1074, 1077, 1088, 1078,
      1076, 1077, 1085, 1080, 1103, 32, 1089, 1090, 1088, 1086, 1075, 1086, 32, 1074, 32, 1092,
      1086, 1088, 1084, 1072, 1090, 1077, 32, 68, 68, 46, 77, 77, 46, 89, 89, 32, 72, 72, 58, 77,
      77]"

definition txt_minutes_zero :: ustring where
  "txt_minutes_zero =
     [1052, 1080, 1085, 1091, 1090, 1099, 32, 1076, 1086, 1083, 1078, 1085, 1099, 32, 1073, 1099,
      1090, 1100, 32, 48, 48, 46, 32, 1042, 1088, 1077, 1084, 1103, 32, 1091, 1082, 1072, 1079,
      1099, 1074, 1072, 1077, 1090, 1089, 1103, 32, 1087, 1086, 32, 1052, 1086, 1089, 1082, 1074,
      1077, 46]"

definition txt_enter_scheduled_deadline :: ustring where
  "txt_enter_scheduled_deadline =
     [1042, 1074, 1077, 1076, 1080, 1090, 1077, 32, 1076, 1077, 1076, 1083, 1072, 1081, 1085, 32,
      1087, 1086, 1076, 1090, 1074, 1077, 1088, 1078, 1076, 1077, 1085, 1080, 1103, 32, 1089,
      1090, 1088, 1086, 1075, 1086, 32, 1074, 32, 1092, 1086, 1088, 1084, 1072, 1090, 1077, 32,
      68, 68, 46, 77, 77, 46, 89, 89, 32, 72, 72, 58, 77, 77, 46, 32]"

definition txt_deadline_later :: ustring where
  "txt_deadline_later =
     [1054, 1085, 32, 1076, 1086, 1083, 1078, 1077, 1085, 32, 1073, 1099, 1090, 1100, 32, 1087,
      1086, 1079, 1078, 1077, 32, 1086, 1090, 1082, 1088, 1099, 1090, 1080, 1103, 32, 1087, 1086,
      1076, 1090, 1074, 1077, 1088, 1078, 1076, 1077, 1085, 1080, 1103, 46, 32, 1042, 1088, 1077,
      1084, 1103, 32, 1091, 1082, 1072, 1079, 1099, 1074, 1072, 1077, 1090, 1089, 1103, 32, 1087,
      1086, 32, 1052, 1086, 1089, 1082, 1074, 1077, 46]"

definition txt_to_all_players :: ustring where
  "txt_to_all_players =
     [1069, 1090, 1072, 32, 1082, 1085, 1086, 1087, 1082, 1072, 32, 1085, 1091, 1078, 1085, 1072,
      32, 1076, 1083, 1103, 32, 1088, 1072, 1089, 1089, 1099, 1083, 1082, 1080, 32, 1089, 1086,
      1086, 1073, 1097, 1077, 1085, 1080, 1103, 32, 1074, 1089, 1077, 1084, 32, 1079, 1072, 1087,
      1080, 1089, 1072, 1074, 1096, 1080, 1084, 1089, 1103, 32, 1085, 1072, 32, 1080, 1075, 1088,
      1091, 32, 1080, 1075, 1088, 1086, 1082, 1072, 1084, 58, 32]"

definition txt_waiting_and_confirmed :: ustring where
  "txt_waiting_and_confirmed =
     [1086, 1078, 1080, 1076, 1072, 1102, 1097, 1080, 1084, 32, 1087, 1086, 1076, 1090, 1074,
      1077, 1088, 1078, 1076, 1077, 1085, 1080, 1103, 32, 1080, 32, 1087, 1086, 1076, 1090, 1074,
      1077, 1088, 1076, 1080, 1074, 1096, 1080, 1084, 32, 1091, 1095, 1072, 1089, 1090, 1080,
      1077, 46, 10, 10]"

definition txt_send_to_all :: ustring where
  "txt_send_to_all =
     [1054, 1090, 1087, 1088, 1072, 1074, 1100, 1090, 1077, 32, 1090, 1077, 1082, 1089, 1090, 32,
      1089, 1086, 1086, 1073, 1097, 1077, 1085, 1080, 1103, 32, 1076, 1083, 1103, 32, 1074, 1089,
      1077, 1093, 32, 1080, 1075, 1088, 1086, 1082, 1086, 1074, 32, 1080, 1075, 1088, 1099, 32]"

definition txt_send_invite :: ustring where
  "txt_send_invite =
     [1054, 1090, 1087, 1088, 1072, 1074, 1100, 1090, 1077, 32, 1089, 1089, 1099, 1083, 1082,
      1091, 45, 1087, 1088, 1080, 1075, 1083, 1072, 1096, 1077, 1085, 1080, 1077, 32, 1074, 32,
      1095, 1072, 1090, 32, 1080, 1075, 1088, 1099, 32]"

definition txt_only_link :: ustring where
  "txt_only_link =
     [1057, 1086, 1086, 1073, 1097, 1077, 1085, 1080, 1077, 32, 1076, 1086, 1083, 1078, 1085,
      1086, 32, 1089, 1086, 1089, 1090, 1086, 1103, 1090, 1100, 32, 1090, 1086, 1083, 1100, 1082,
      1086, 32, 1080, 1079, 32, 1082, 1086, 1088, 1088, 1077, 1082, 1090, 1085, 1086, 1081, 32,
      1089, 1089, 1099, 1083, 1082, 1080, 32, 1085, 1072, 32, 1095, 1072, 1090, 32, 84, 101, 108,
      101, 103, 114, 97, 109, 32, 1080, 1083, 1080, 32, 86, 75, 46]"

definition txt_to_confirmed :: ustring where
  "txt_to_confirmed =
     [1069, 1090, 1072, 32, 1082, 1085, 1086, 1087, 1082, 1072, 32, 1085, 1091, 1078, 1085, 1072,
      32, 1076, 1083, 1103, 32, 1088, 1072, 1089, 1089, 1099, 1083, 1082, 1080, 32, 1086, 1088,
      1075, 1080, 1085, 1092, 1086, 1088, 1084, 1072, 1094, 1080, 1080, 32, 1074, 1089, 1077,
      1084, 32, 1087, 1086, 1076, 1090, 1074, 1077, 1088, 1076, 1080, 1074, 1096, 1080, 1084,
      1089, 1103, 32, 1085, 1072, 32, 1080, 1075, 1088, 1091, 32, 1080, 1075, 1088, 1086, 1082,
      1072, 1084, 44, 32]"

definition txt_reserve_too :: ustring where
  "txt_reserve_too =
     [1074, 1082, 1083, 1102, 1095, 1072, 1103, 32, 1087, 1086, 1076, 1090, 1074, 1077, 1088,
      1076, 1080, 1074, 1096, 1080, 1093, 1089, 1103, 32, 1074, 32, 1079, 1072, 1087, 1072, 1089,
      46, 10, 10]"

definition txt_send_to_confirmed :: ustring where
  "txt_send_to_confirmed =
     [1054, 1090, 1087, 1088, 1072, 1074, 1100, 1090, 1077, 32, 1090, 1077, 1082, 1089, 1090, 32,
      1089, 1086, 1086, 1073, 1097, 1077, 1085, 1080, 1103, 32, 1076, 1083, 1103, 32, 1087, 1086,
      1076, 1090, 1074, 1077, 1088, 1076, 1080, 1074, 1096, 1080, 1093, 1089, 1103, 32, 1085,
      1072, 32, 1080, 1075, 1088, 1091, 32]"

definition txt_recipients :: ustring where
  "txt_recipients = [1055, 1086, 1083, 1091, 1095, 1072, 1090, 1077, 1083, 1077, 1081, 58, 32]"

definition txt_final_message :: ustring where
  "txt_final_message =
     [10, 10, 1048, 1090, 1086, 1075, 1086, 1074, 1086, 1077, 32, 1089, 1086, 1086, 1073, 1097,
      1077, 1085, 1080, 1077, 58, 10, 10]"

definition txt_send_label :: ustring where
  "txt_send_label = [9989, 32, 1054, 1090, 1087, 1088, 1072, 1074, 1080, 1090, 1100, 32, 40]"

definition admin_status_response :: "ustring \<Rightarrow> event_status \<Rightarrow> ustring \<Rightarrow> date option \<Rightarrow> bot_response" where
  "admin_status_response event_name current_status event_id game_date =
     response
       (txt_game_is @ event_reference event_name game_date @ [10] @ txt_current_status
        @ event_status_label current_status @ [10, 10] @ txt_choose_status
        @ STATUS_REGISTRATION @ txt_status_created @ STATUS_CONFIRMATION @ txt_status_open
        @ STATUS_CLOSED @ txt_status_over @ txt_status_reopen @ txt_status_gathered)
       (map (\<lambda>(v, label, _). button label v) ADMIN_STATUS_CHOICES @ [edit_game_button event_id])"

definition confirmation_deadline_response :: "ustring \<Rightarrow> bool \<Rightarrow> bot_response" where
  "confirmation_deadline_response event_id invalid =
     response ((if invalid then txt_bad_moment else []) @ txt_enter_deadline @ NEAREST_THURSDAY @ [187, 46])
       [button NEAREST_THURSDAY (asc ''admin:deadline:nearest-thursday''), edit_game_button event_id]"

definition game_date_response :: "bool \<Rightarrow> bot_response" where
  "game_date_response invalid =
     response ((if invalid then txt_bad_date else []) @ txt_enter_game_date @ NEXT_SATURDAY @ [187, 46])
       [button NEXT_SATURDAY (asc ''admin:date:next-saturday'')]"

definition game_details_date_response :: "ustring \<Rightarrow> date option \<Rightarrow> bool \<Rightarrow> bot_response" where
  "game_details_date_response event_id current_date invalid =
     response
       ((if invalid then txt_bad_date else []) @ txt_current_game_date @ date_text current_date @ [46, 10, 10]
        @ txt_enter_new_date @ NEXT_SATURDAY @ [187, 46])
       [button NEXT_SATURDAY (asc ''admin:details:next-saturday''), edit_game_button event_id]"

text \<open>What is wrong with a time that was entered.\<close>

datatype slip = NoSlip | Malformed | InPast | AfterClose | NotAfterGame | BeforeDeadline | BeforeOpening

definition registration_schedule_response :: "slip \<Rightarrow> bot_response" where
  "registration_schedule_response wrong =
     response
       ((case wrong of AfterClose \<Rightarrow> txt_opens_before_close | InPast \<Rightarrow> txt_opens_later
           | Malformed \<Rightarrow> SCHEDULED_TIME_INVALID @ [10, 10] | _ \<Rightarrow> [])
        @ txt_enter_opening @ txt_or_press @ NEAREST_FRIDAY @ txt_zero_minutes)
       [button NEAREST_FRIDAY (asc ''create:schedule:nearest-friday''), same_button CANCEL_DIALOG]"

definition scheduled_close_response :: "slip \<Rightarrow> ustring \<Rightarrow> ustring \<Rightarrow> button list \<Rightarrow> bot_response" where
  "scheduled_close_response wrong next_night_value cancel_value back_button =
     response
       ((case wrong of BeforeOpening \<Rightarrow> txt_close_after_opening | BeforeDeadline \<Rightarrow> txt_close_after_deadline
           | NotAfterGame \<Rightarrow> txt_close_after_game | InPast \<Rightarrow> txt_close_in_future
           | Malformed \<Rightarrow> SCHEDULED_TIME_INVALID @ [10, 10] | _ \<Rightarrow> [])
        @ SCHEDULE_CLOSE_QUESTION @ [10, 10] @ txt_enter_close @ txt_in_moscow)
       ([button NEXT_NIGHT_03 next_night_value, button DECLINE_SCHEDULED_CLOSE cancel_value] @ back_button)"

definition creation_close_response :: "slip \<Rightarrow> bot_response" where
  "creation_close_response wrong =
     scheduled_close_response wrong (asc ''create:close:next-night'') (asc ''create:close:cancel'') []"

definition managed_close_response :: "ustring \<Rightarrow> slip \<Rightarrow> bot_response" where
  "managed_close_response event_id wrong =
     scheduled_close_response wrong (asc ''ag:schedule-close-next-night:'' @ event_id)
       (asc ''ag:schedule-clear-close:'' @ event_id) [schedule_button event_id]"

definition scheduled_confirmation_time_response :: "button \<Rightarrow> ustring option \<Rightarrow> ustring \<Rightarrow> bot_response" where
  "scheduled_confirmation_time_response back_button tuesday_value invalid =
     response
       (remark invalid @ txt_enter_confirmation
        @ (if tuesday_value = None then [] else txt_or_press_tuesday @ TUESDAY_BEFORE_GAME_18 @ [187])
        @ [46, 32] @ txt_minutes_zero)
       ((case tuesday_value of None \<Rightarrow> [] | Some v \<Rightarrow> [button TUESDAY_BEFORE_GAME_18 v]) @ [back_button])"

definition scheduled_confirmation_deadline_response :: "button \<Rightarrow> ustring \<Rightarrow> bot_response" where
  "scheduled_confirmation_deadline_response back_button invalid =
     response (remark invalid @ txt_enter_scheduled_deadline @ txt_deadline_later) [back_button]"

definition confirmed_notification_prompt ::
    "ustring \<Rightarrow> ustring \<Rightarrow> bool \<Rightarrow> bool \<Rightarrow> date option \<Rightarrow> ustring \<Rightarrow> bot_response" where
  "confirmed_notification_prompt event_name event_id link all_players game_date invalid =
     (let reference = event_reference event_name game_date
      in response
           (remark invalid
            @ (if all_players then
                 txt_to_all_players @ txt_waiting_and_confirmed @ txt_send_to_all @ reference @ [46]
               else if link then txt_send_invite @ reference @ [46, 10, 10] @ txt_only_link
               else txt_to_confirmed @ txt_reserve_too @ txt_send_to_confirmed @ reference @ [46]))
           [notification_management_button event_id])"

definition confirmed_notification_preview ::
    "ustring \<Rightarrow> ustring \<Rightarrow> ustring \<Rightarrow> int \<Rightarrow> date option \<Rightarrow> bool \<Rightarrow> bot_response" where
  "confirmed_notification_preview event_name event_id txt recipient_count game_date all_players =
     response
       (txt_recipients @ show_int recipient_count @ txt_final_message
        @ (if all_players then player_notification_text event_name txt game_date
           else confirmed_notification_text event_name txt game_date))
       [button (txt_send_label @ show_int recipient_count @ [41]) (asc ''admin:notification:confirm''),
        notification_management_button event_id]"

section \<open>Values of the context\<close>

text \<open>\<open>str(context[key])\<close>, and \<open>int\<close> and \<open>date.fromisoformat\<close> of a value; no float is ever kept there.\<close>

definition needed_text :: "json_object \<Rightarrow> ustring \<Rightarrow> (ustring \<Rightarrow> 'a dialog) \<Rightarrow> 'a dialog" where
  "needed_text ctx key k = needed ctx key (\<lambda>v. k (json_text v))"

definition from_context :: "ustring \<Rightarrow> (ustring \<Rightarrow> 'a dialog) \<Rightarrow> 'a dialog" where
  "from_context key k = recall (\<lambda>ctx. needed_text ctx key k)"

definition json_number :: "json \<Rightarrow> exn + int" where
  "json_number v =
     (case v of
        JInt i \<Rightarrow> Inr i
      | JBool b \<Rightarrow> Inr (if b then 1 else 0)
      | JString s \<Rightarrow> (case read_int s of None \<Rightarrow> Inl ValueError | Some i \<Rightarrow> Inr i)
      | _ \<Rightarrow> Inl TypeError)"

definition either :: "exn + 'b \<Rightarrow> ('b \<Rightarrow> 'a dialog) \<Rightarrow> 'a dialog" where
  "either x k = (case x of Inl e \<Rightarrow> fail e | Inr y \<Rightarrow> k y)"

definition valued :: "'b option \<Rightarrow> ('b \<Rightarrow> 'a dialog) \<Rightarrow> 'a dialog" where
  "valued x k = (case x of None \<Rightarrow> fail ValueError | Some y \<Rightarrow> k y)"

definition date_in :: "json_object \<Rightarrow> ustring \<Rightarrow> (date option \<Rightarrow> 'a dialog) \<Rightarrow> 'a dialog" where
  "date_in ctx key k =
     (if json_get ctx key = JNull then k None
      else valued (date_of_iso (json_text (json_get ctx key))) (\<lambda>d. k (Some d)))"

definition moment_in :: "json_object \<Rightarrow> ustring \<Rightarrow> (time option \<Rightarrow> 'a dialog) \<Rightarrow> 'a dialog" where
  "moment_in ctx key k =
     (if json_get ctx key = JNull then k None
      else either (from_iso (json_text (json_get ctx key))) (\<lambda>t. k (Some t)))"

definition needed_date :: "json_object \<Rightarrow> ustring \<Rightarrow> (date \<Rightarrow> 'a dialog) \<Rightarrow> 'a dialog" where
  "needed_date ctx key k = needed_text ctx key (\<lambda>s. valued (date_of_iso s) k)"

definition context_event_reference :: "json_object \<Rightarrow> (ustring \<Rightarrow> 'a dialog) \<Rightarrow> 'a dialog" where
  "context_event_reference ctx k =
     date_in ctx (asc ''game_date'') (\<lambda>d.
       needed_text ctx (asc ''event_name'') (\<lambda>n. k (event_reference n d)))"

definition event_entries :: "event \<Rightarrow> json_object" where
  "event_entries e =
     [(asc ''event_id'', JString (ev_event_id e)), (asc ''event_name'', JString (ev_name e)),
      (asc ''game_date'', optional_text (map_option iso_date (ev_game_date e)))]"

definition drop_entry :: "ustring \<Rightarrow> unit dialog" where
  "drop_entry key = set_dialog (\<lambda>b. b\<lparr>us_dialog_context := dict_pop key (us_dialog_context b)\<rparr>)"

section \<open>Replies and commands\<close>

text \<open>The command of a dialogue of administrators: the worker answers with the given text and buttons.\<close>

definition reply_with :: "int option \<Rightarrow> int option \<Rightarrow> ustring \<Rightarrow> button list \<Rightarrow> reply_context" where
  "reply_with chat_id peer_id success buttons =
     \<lparr>rc_chat_id = chat_id, rc_peer_id = peer_id, rc_text_success = success, rc_text_failure = [],
      rc_buttons = buttons\<rparr>"

definition order_with ::
    "env \<Rightarrow> pkey \<Rightarrow> inbound_message \<Rightarrow> operation \<Rightarrow> ustring \<Rightarrow> ustring \<Rightarrow> payload \<Rightarrow> reply_context
       \<Rightarrow> ustring option \<Rightarrow> unit dialog" where
  "order_with X pkey im operation name event_id payload reply target =
     (case payload_validate payload of
        None \<Rightarrow> fail ValueError
      | Some valid \<Rightarrow>
          ask (andThen (enqueue X pkey operation event_id (fst (im_identity im)) (snd (im_identity im)) valid
                 reply (Some (im_update_id im @ [58] @ name)) target) (\<lambda>_. ret ())))"

definition order ::
    "env \<Rightarrow> pkey \<Rightarrow> inbound_message \<Rightarrow> operation \<Rightarrow> ustring \<Rightarrow> ustring \<Rightarrow> payload \<Rightarrow> ustring \<Rightarrow> button list
       \<Rightarrow> ustring option \<Rightarrow> unit dialog" where
  "order X pkey im operation name event_id payload success buttons target =
     order_with X pkey im operation name event_id payload (reply_with None None success buttons) target"

definition queued_with :: "ustring \<Rightarrow> button list \<Rightarrow> bot_response" where
  "queued_with txt buttons =
     (response txt buttons)\<lparr>br_deferred := True, br_command_enqueued := True\<rparr>"

definition accepted :: "ustring \<Rightarrow> button list \<Rightarrow> bot_response dialog" where
  "accepted txt buttons = give (queued_with txt buttons)"

definition says_cleared_with :: "ustring \<Rightarrow> button list \<Rightarrow> bot_response dialog" where
  "says_cleared_with txt buttons = thenDo clear_dialog (\<lambda>_. says txt buttons)"

end
