(* ===== verification/Access.thy ===== *)
theory Access
  imports Prompts
begin

text \<open>
  Who administers (\<open>application/conversation_admin_access.py\<close>): the menus of administration, the pass table
  of a day, the lists of privileged users and of the masters of a game, and telling a user of a change.
\<close>

section \<open>Menus\<close>

definition txt_manage_roles :: ustring where
  "txt_manage_roles =
     [1059, 1087, 1088, 1072, 1074, 1083, 1077, 1085, 1080, 1077, 32, 1088, 1086, 1083, 1103,
      1084, 1080]"

definition txt_no_active_games_that_day :: ustring where
  "txt_no_active_games_that_day =
     [1053, 1072, 32, 1074, 1099, 1073, 1088, 1072, 1085, 1085, 1091, 1102, 32, 1076, 1072, 1090,
      1091, 32, 1073, 1086, 1083, 1100, 1096, 1077, 32, 1085, 1077, 1090, 32, 1072, 1082, 1090,
      1080, 1074, 1085, 1099, 1093, 32, 1085, 1077, 1072, 1088, 1093, 1080, 1074, 1080, 1088,
      1086, 1074, 1072, 1085, 1085, 1099, 1093, 32, 1080, 1075, 1088, 46]"

definition txt_pass_table_pending :: ustring where
  "txt_pass_table_pending =
     [9203, 32, 1058, 1072, 1073, 1083, 1080, 1094, 1072, 32, 1087, 1088, 1086, 1087, 1091, 1089,
      1082, 1086, 1074, 32, 1089, 1086, 1079, 1076, 1072, 1105, 1090, 1089, 1103, 46, 32, 1041,
      1086, 1090, 32, 1087, 1088, 1080, 1096, 1083, 1105, 1090, 32, 1089, 1089, 1099, 1083, 1082,
      1091, 44, 32, 1082, 1086, 1075, 1076, 1072, 32, 1079, 1072, 1075, 1088, 1091, 1079, 1082,
      1072, 32, 1079, 1072, 1074, 1077, 1088, 1096, 1080, 1090, 1089, 1103, 46]"

definition txt_pass_table_for :: ustring where
  "txt_pass_table_for =
     [1058, 1072, 1073, 1083, 1080, 1094, 1072, 32, 1087, 1088, 1086, 1087, 1091, 1089, 1082,
      1086, 1074, 32, 1085, 1072, 32]"

definition txt_unique_users :: ustring where
  "txt_unique_users =
     [1059, 1085, 1080, 1082, 1072, 1083, 1100, 1085, 1099, 1093, 32, 1087, 1086, 1083, 1100,
      1079, 1086, 1074, 1072, 1090, 1077, 1083, 1077, 1081, 58, 32]"

definition txt_no_dated_games :: ustring where
  "txt_no_dated_games =
     [1057, 1077, 1081, 1095, 1072, 1089, 32, 1085, 1077, 1090, 32, 1072, 1082, 1090, 1080, 1074,
      1085, 1099, 1093, 32, 1085, 1077, 1072, 1088, 1093, 1080, 1074, 1080, 1088, 1086, 1074,
      1072, 1085, 1085, 1099, 1093, 32, 1080, 1075, 1088, 32, 1089, 32, 1091, 1082, 1072, 1079,
      1072, 1085, 1085, 1086, 1081, 32, 1076, 1072, 1090, 1086, 1081, 46]"

definition txt_choose_day :: ustring where
  "txt_choose_day =
     [1042, 1099, 1073, 1077, 1088, 1080, 1090, 1077, 32, 1076, 1077, 1085, 1100, 44, 32, 1079,
      1072, 32, 1082, 1086, 1090, 1086, 1088, 1099, 1081, 32, 1085, 1091, 1078, 1085, 1086, 32,
      1087, 1086, 1083, 1091, 1095, 1080, 1090, 1100, 32, 1074, 1089, 1077, 32, 1087, 1088, 1086,
      1087, 1091, 1089, 1082, 1072, 58]"

definition txt_name_missing :: ustring where
  "txt_name_missing = [1085, 1077, 32, 1091, 1082, 1072, 1079, 1072, 1085, 1086]"

definition txt_contact_missing :: ustring where
  "txt_contact_missing = [1085, 1077, 32, 1091, 1082, 1072, 1079, 1072, 1085]"

definition txt_name_line :: ustring where
  "txt_name_line = [1048, 1084, 1103, 58, 32]"

definition txt_telegram_id_line :: ustring where
  "txt_telegram_id_line = asc ''Telegram ID: ''"

definition txt_pick_demoted :: ustring where
  "txt_pick_demoted =
     [1042, 1099, 1073, 1077, 1088, 1080, 1090, 1077, 32, 1087, 1086, 1083, 1100, 1079, 1086,
      1074, 1072, 1090, 1077, 1083, 1103, 44, 32, 1089, 32, 1082, 1086, 1090, 1086, 1088, 1086,
      1075, 1086, 32, 1085, 1091, 1078, 1085, 1086, 32, 1089, 1085, 1103, 1090, 1100, 32, 1085,
      1072, 1079, 1085, 1072, 1095, 1077, 1085, 1085, 1091, 1102, 32, 1088, 1086, 1083, 1100, 58]"

definition txt_none_demoted :: ustring where
  "txt_none_demoted =
     [1053, 1077, 1090, 32, 1085, 1072, 1079, 1085, 1072, 1095, 1077, 1085, 1085, 1099, 1093, 32,
      1074, 32, 1073, 1086, 1090, 1077, 32, 1088, 1086, 1083, 1077, 1081, 44, 32, 1082, 1086,
      1090, 1086, 1088, 1099, 1077, 32, 1084, 1086, 1078, 1085, 1086, 32, 1089, 1085, 1103, 1090,
      1100, 46]"

definition txt_privileged_users :: ustring where
  "txt_privileged_users =
     [1055, 1088, 1080, 1074, 1080, 1083, 1077, 1075, 1080, 1088, 1086, 1074, 1072, 1085, 1085,
      1099, 1077, 32, 1087, 1086, 1083, 1100, 1079, 1086, 1074, 1072, 1090, 1077, 1083, 1080, 58]"

definition txt_no_privileged_users :: ustring where
  "txt_no_privileged_users =
     [1055, 1088, 1080, 1074, 1080, 1083, 1077, 1075, 1080, 1088, 1086, 1074, 1072, 1085, 1085,
      1099, 1093, 32, 1087, 1086, 1083, 1100, 1079, 1086, 1074, 1072, 1090, 1077, 1083, 1077,
      1081, 32, 1087, 1086, 1082, 1072, 32, 1085, 1077, 1090, 46]"

definition txt_masters_of_game :: ustring where
  "txt_masters_of_game = [1052, 1072, 1089, 1090, 1077, 1088, 1072, 32, 1080, 1075, 1088, 1099, 32]"

definition txt_enter_profile_label :: ustring where
  "txt_enter_profile_label =
     [128279, 32, 1042, 1074, 1077, 1089, 1090, 1080, 32, 1087, 1088, 1086, 1092, 1080, 1083,
      1100, 32, 84, 101, 108, 101, 103, 114, 97, 109, 32, 1080, 1083, 1080, 32, 86, 75]"

definition txt_pick_new_master :: ustring where
  "txt_pick_new_master =
     [1042, 1099, 1073, 1077, 1088, 1080, 1090, 1077, 32, 1087, 1088, 1080, 1074, 1080, 1083,
      1077, 1075, 1080, 1088, 1086, 1074, 1072, 1085, 1085, 1086, 1075, 1086, 32, 1087, 1086,
      1083, 1100, 1079, 1086, 1074, 1072, 1090, 1077, 1083, 1103, 44, 32, 1082, 1086, 1090, 1086,
      1088, 1086, 1075, 1086, 32, 1085, 1091, 1078, 1085, 1086, 32, 1076, 1086, 1073, 1072, 1074,
      1080, 1090, 1100, 32, 1084, 1072, 1089, 1090, 1077, 1088, 1086, 1084, 32, 1080, 1075, 1088,
      1099, 32]"

definition txt_no_candidates :: ustring where
  "txt_no_candidates =
     [1053, 1077, 1090, 32, 1087, 1088, 1080, 1074, 1080, 1083, 1077, 1075, 1080, 1088, 1086,
      1074, 1072, 1085, 1085, 1099, 1093, 32, 1087, 1086, 1083, 1100, 1079, 1086, 1074, 1072,
      1090, 1077, 1083, 1077, 1081, 44, 32, 1082, 1086, 1090, 1086, 1088, 1099, 1093, 32, 1084,
      1086, 1078, 1085, 1086, 32, 1074, 1099, 1073, 1088, 1072, 1090, 1100, 46, 32]"

definition txt_enter_directly :: ustring where
  "txt_enter_directly =
     [1052, 1086, 1078, 1085, 1086, 32, 1074, 1074, 1077, 1089, 1090, 1080, 32, 84, 101, 108,
      101, 103, 114, 97, 109, 45, 32, 1080, 1083, 1080, 32, 86, 75, 45, 1087, 1088, 1086, 1092,
      1080, 1083, 1100, 32, 1085, 1072, 1087, 1088, 1103, 1084, 1091, 1102, 46]"

definition admin_menu :: "env \<Rightarrow> bot_response dialog" where
  "admin_menu X =
     with_user (\<lambda>u. thenDo (ask (privileged_role_of X u)) (\<lambda>role.
       case role of
         None \<Rightarrow> says txt_insufficient []
       | Some r \<Rightarrow>
           if \<not> role_includes r GAMEMASTER then says txt_insufficient []
           else
             thenDo (ask (is_admin X u)) (\<lambda>admin.
               says ADMIN_LABEL
                 ([same_button CREATE_GAME, same_button MANAGE_GAMES]
                  @ (if r \<in> {PASS_MANAGER, ADMIN} then [button GET_DAILY_PASSES DAILY_PASSES_ACTION] else [])
                  @ (if admin then [same_button MANAGE_MODERATORS, same_button MANAGE_STATISTICS] else [])
                  @ [same_button BACK]))))"

definition can_manage_daily_passes :: "env \<Rightarrow> user \<Rightarrow> bool service" where
  "can_manage_daily_passes X u =
     andThen (privileged_role_of X u) (\<lambda>role. ret (role \<in> {Some PASS_MANAGER, Some ADMIN}))"

definition moderator_management_menu :: "env \<Rightarrow> bot_response dialog" where
  "moderator_management_menu X =
     with_user (\<lambda>u. thenDo (ask (is_admin X u)) (\<lambda>admin.
       if \<not> admin then says txt_insufficient []
       else
         thenDo clear_dialog (\<lambda>_.
           says txt_manage_roles
             [same_button GRANT_GAMEMASTER, same_button GRANT_GAMEMASTER_VIEWER, same_button GRANT_PASS_MANAGER,
              same_button REVOKE_GAMEMASTER, same_button LIST_GAMEMASTERS, back_to ADMIN_MENU])))"

section \<open>Telling a user\<close>

text \<open>What the user was last sent, kept on the profile in memory.\<close>

definition delivered :: "ustring \<Rightarrow> button list \<Rightarrow> unit dialog" where
  "delivered request_id buttons =
     set_dialog (\<lambda>b. b\<lparr>us_last_delivery_operation_id := Some request_id, us_last_bot_buttons := buttons\<rparr>)"

definition transported ::
    "env \<Rightarrow> platform \<Rightarrow> int \<Rightarrow> bot_identity \<Rightarrow> ustring \<Rightarrow> ustring \<Rightarrow> button list \<Rightarrow> unit service" where
  "transported X p recipient i request_id txt buttons =
     andThen (unless_throw (xe_has_transport X) RuntimeError) (\<lambda>_.
     andThen (external X (SendMessage p recipient request_id (Composed txt) buttons) (\<lambda>_. ())) (\<lambda>_.
       claims X i request_id buttons))"

definition notify_status_change :: "env \<Rightarrow> user \<Rightarrow> ustring \<Rightarrow> ustring \<Rightarrow> button list \<Rightarrow> unit dialog" where
  "notify_status_change X target request_id txt buttons =
     (let i = local_identity target
      in thenDo (ask (transported X (fst i) (snd i) i request_id txt buttons)) (\<lambda>_.
         with_user (\<lambda>actor.
           if local_identity actor = i then delivered request_id buttons else give ())))"

text \<open>
  A deferred upload is announced to the person before the files are handed over, once per update; the
  announcement is what the person was last sent.
\<close>

definition reply_user :: "inbound_message \<Rightarrow> int \<Rightarrow> int" where
  "reply_user im own =
     (case im_chat_id im of
        Some c \<Rightarrow> if c \<noteq> 0 then c else (case im_peer_id im of Some p \<Rightarrow> if p \<noteq> 0 then p else own | None \<Rightarrow> own)
      | None \<Rightarrow> (case im_peer_id im of Some p \<Rightarrow> if p \<noteq> 0 then p else own | None \<Rightarrow> own))"

definition requested_by :: "inbound_message \<Rightarrow> user \<Rightarrow> requester" where
  "requested_by im u =
     (let i = local_identity u in Some (fst i, reply_user im (snd i), snd i))"

definition upload_request :: "inbound_message \<Rightarrow> user \<Rightarrow> ustring \<Rightarrow> ustring" where
  "upload_request im u operation =
     (let i = local_identity u
      in asc ''upload-pending:'' @ operation @ [58] @ platform_value (fst i) @ [58] @ show_int (snd i) @ [58]
         @ im_update_id im)"

definition upload_pending_callback ::
    "env \<Rightarrow> user \<Rightarrow> inbound_message \<Rightarrow> ustring \<Rightarrow> button list \<Rightarrow> ustring \<Rightarrow> unit service option" where
  "upload_pending_callback X u im txt buttons operation =
     (if \<not> xe_deferred X then None
      else
        (let i = local_identity u; request_id = upload_request im u operation
         in Some (if us_last_delivery_operation_id (base u) = Some request_id then ret ()
                  else transported X (fst i) (reply_user im (snd i)) i request_id txt buttons)))"

definition with_announcement ::
    "env \<Rightarrow> inbound_message \<Rightarrow> ustring \<Rightarrow> button list \<Rightarrow> ustring
       \<Rightarrow> (unit service option \<Rightarrow> ('a \<times> bool) service) \<Rightarrow> 'a dialog" where
  "with_announcement X im txt buttons operation upload =
     with_user (\<lambda>u.
       thenDo (ask (upload (upload_pending_callback X u im txt buttons operation))) (\<lambda>(x, announced).
         if announced \<and> us_last_delivery_operation_id (base u) \<noteq> Some (upload_request im u operation)
         then thenDo (delivered (upload_request im u operation) buttons) (\<lambda>_. give x)
         else give x))"

text \<open>The answer to an upload that is still to be done: the announcement has been sent, or says it.\<close>

definition pending_response :: "env \<Rightarrow> user \<Rightarrow> ustring \<Rightarrow> button list \<Rightarrow> bot_response" where
  "pending_response X u txt buttons =
     (if xe_deferred X
      then (response [] buttons)\<lparr>br_deferred := (fst (local_identity u) = TELEGRAM), br_silent := True\<rparr>
      else (response txt buttons)\<lparr>br_deferred := True\<rparr>)"

section \<open>The passes of a day\<close>

definition daily_export ::
    "env \<Rightarrow> pkey \<Rightarrow> date \<Rightarrow> requester \<Rightarrow> unit service option \<Rightarrow> (pass_table_export option \<times> bool) service" where
  "daily_export X pkey game_date requester before_invoke =
     catching
       (andThen (create_daily_pass_table X pkey game_date requester before_invoke) (\<lambda>(export, announced).
          ret (Some export, announced)))
       (\<lambda>x. case x of OperationNotAllowed r \<Rightarrow> ret (None, False) | _ \<Rightarrow> throw x)"

definition daily_pass_table :: "env \<Rightarrow> pkey \<Rightarrow> inbound_message \<Rightarrow> date \<Rightarrow> bot_response dialog" where
  "daily_pass_table X pkey im game_date =
     with_user (\<lambda>u. thenDo (ask (can_manage_daily_passes X u)) (\<lambda>allowed.
       if \<not> allowed then says txt_insufficient []
       else
         thenDo (with_announcement X im txt_pass_table_pending [admin_menu_button]
                   (asc ''daily-passes:'' @ iso_date game_date)
                   (daily_export X pkey game_date (requested_by im u))) (\<lambda>found.
           case found of
             None \<Rightarrow> says txt_no_active_games_that_day [admin_menu_button]
           | Some export \<Rightarrow>
               (case px_public_url export of
                  None \<Rightarrow> give (pending_response X u txt_pass_table_pending [admin_menu_button])
                | Some url \<Rightarrow>
                    says (txt_pass_table_for @ format_game_date game_date @ [10] @ txt_unique_users
                          @ (case px_row_count export of None \<Rightarrow> asc ''None'' | Some n \<Rightarrow> show_nat n)
                          @ [46, 10, 10] @ url)
                      [admin_menu_button]))))"

definition daily_passes_start :: "env \<Rightarrow> pkey \<Rightarrow> inbound_message \<Rightarrow> int \<Rightarrow> bot_response dialog" where
  "daily_passes_start X pkey im wanted =
     with_user (\<lambda>u. thenDo (ask (can_manage_daily_passes X u)) (\<lambda>allowed.
       if \<not> allowed then says txt_insufficient []
       else
         thenDo (ask (active_game_dates X)) (\<lambda>game_dates.
           if game_dates = [] then says txt_no_dated_games [admin_menu_button]
           else if length game_dates = 1 then daily_pass_table X pkey im (hd game_dates)
           else
             (let page_count = (length game_dates + PAGE_SIZE - 1) div PAGE_SIZE;
                  page = nat (min (max wanted 0) (int page_count - 1))
              in says txt_choose_day
                   (map (\<lambda>d. button (format_game_date d) (DAILY_PASSES_DATE_PREFIX @ iso_date d))
                      (take PAGE_SIZE (drop (page * PAGE_SIZE) game_dates))
                    @ (if 0 < page then [button PAGE_BACK (DAILY_PASSES_PAGE_PREFIX @ show_nat (page - 1))] else [])
                    @ (if page + 1 < page_count
                       then [button PAGE_FORWARD (DAILY_PASSES_PAGE_PREFIX @ show_nat (page + 1))] else [])
                    @ [admin_menu_button])))))"

section \<open>People\<close>

definition platform_code :: "platform \<Rightarrow> ustring" where
  "platform_code p = (if p = TELEGRAM then [116] else [118])"

definition platform_from_code :: "ustring \<Rightarrow> platform option" where
  "platform_from_code v = (if v = [116] then Some TELEGRAM else if v = [118] then Some VK else None)"

definition known_name :: "user option \<Rightarrow> ustring \<Rightarrow> ustring" where
  "known_name profile other = (case profile of None \<Rightarrow> other | Some u \<Rightarrow> text_or (us_full_name (base u)) other)"

definition person_label :: "bot_identity \<Rightarrow> user option \<Rightarrow> ustring" where
  "person_label i profile =
     known_name profile (asc ''ID '' @ show_int (snd i)) @ [32, 183, 32]
     @ (if fst i = TELEGRAM then asc ''TG'' else asc ''VK'')"

definition handle_url :: "ustring option \<Rightarrow> ustring" where
  "handle_url h =
     (case h of None \<Rightarrow> txt_contact_missing | Some name \<Rightarrow> asc ''https://t.me/'' @ remove_prefix [64] name)"

definition contact_lines :: "bot_identity \<Rightarrow> user option \<Rightarrow> ustring list" where
  "contact_lines i profile =
     (case profile of
        Some (TelegramUser b k v l h) \<Rightarrow>
          [asc ''Telegram: '' @ handle_url h, asc ''VK: '' @ text_or v txt_contact_missing]
      | Some (VkUser b k h) \<Rightarrow>
          [asc ''Telegram: '' @ handle_url h, asc ''VK: https://vk.com/id'' @ show_int k]
      | None \<Rightarrow>
          if fst i = VK
          then [asc ''Telegram: '' @ txt_contact_missing, asc ''VK: https://vk.com/id'' @ show_int (snd i)]
          else [txt_telegram_id_line @ show_int (snd i), asc ''VK: '' @ txt_contact_missing])"

definition profile_text :: "ustring \<Rightarrow> bot_identity \<Rightarrow> user option \<Rightarrow> ustring" where
  "profile_text title i profile =
     join_with 10 ([title, [], txt_name_line @ known_name profile txt_name_missing] @ contact_lines i profile)"

definition people_order :: "user \<Rightarrow> ustring \<times> platform \<times> int" where
  "people_order u =
     (casefold (case us_full_name (base u) of None \<Rightarrow> [] | Some n \<Rightarrow> n), local_identity u)"

definition privileged_or_listed :: "bot_identity list \<Rightarrow> bot_identity list \<Rightarrow> user \<Rightarrow> bool" where
  "privileged_or_listed moderators admins u \<longleftrightarrow>
     effective_privileged_role (base u) \<noteq> None \<or> local_identity u \<in> set moderators \<or> local_identity u \<in> set admins"

text \<open>A role that was assigned in the bot, of somebody who is not an administrator by configuration.\<close>

definition has_removable_role :: "bot_identity list \<Rightarrow> bot_identity list \<Rightarrow> user \<Rightarrow> bool" where
  "has_removable_role moderators admins u \<longleftrightarrow>
     (us_privileged_role (base u) \<noteq> None \<or> us_is_gamemaster (base u) \<and> local_identity u \<notin> set moderators)
     \<and> local_identity u \<notin> set admins"

definition moderator_users :: "env \<Rightarrow> bool \<Rightarrow> user list service" where
  "moderator_users X removable =
     andThen users_now (\<lambda>us.
     andThen (external X ListGamemasters (xe_listed X)) (\<lambda>moderators.
     andThen (external X ListAdmins (xe_listed X)) (\<lambda>admins.
       ret (sort_key people_order
         (filter (if removable then has_removable_role moderators admins else privileged_or_listed moderators admins)
            (list_all_users us))))))"

definition master_candidates :: "env \<Rightarrow> user list service" where
  "master_candidates X =
     andThen (moderator_users X False) (\<lambda>moderators.
     andThen (external X ListAdmins (xe_listed X)) (\<lambda>admins.
     andThen users_now (\<lambda>us.
       ret (sort_key people_order (dict_values
         (put_all (List.map_filter (\<lambda>i. map_option (\<lambda>u. (i, u)) (users_get (fst i) (snd i) us)) admins)
            (put_all (map (\<lambda>u. (local_identity u, u)) moderators) [])))))))"

section \<open>Lists in pages\<close>

text \<open>An offset past the end falls back to the last page.\<close>

definition clamped_offset :: "nat \<Rightarrow> int \<Rightarrow> int" where
  "clamped_offset n offset =
     (if int n \<le> offset \<and> offset \<noteq> 0 then max 0 (((int n - 1) div int PAGE_SIZE) * int PAGE_SIZE) else offset)"

definition page_at :: "int \<Rightarrow> 'a list \<Rightarrow> 'a list" where
  "page_at offset xs = take PAGE_SIZE (drop (nat offset) xs)"

definition offset_buttons :: "ustring \<Rightarrow> int \<Rightarrow> nat \<Rightarrow> ustring \<Rightarrow> button list" where
  "offset_buttons prefix offset n cancel =
     pagination_buttons
       (if offset \<noteq> 0 then Some (prefix @ show_int (max 0 (offset - int PAGE_SIZE))) else None)
       (if offset + int PAGE_SIZE < int n then Some (prefix @ show_int (offset + int PAGE_SIZE)) else None)
       cancel"

definition person_value :: "ustring \<Rightarrow> bot_identity \<Rightarrow> ustring" where
  "person_value prefix i = prefix @ platform_code (fst i) @ [58] @ show_int (snd i)"

definition show_moderators :: "env \<Rightarrow> bool \<Rightarrow> int \<Rightarrow> bot_response dialog" where
  "show_moderators X removing given =
     with_user (\<lambda>u. thenDo (ask (is_admin X u)) (\<lambda>admin.
       if \<not> admin then says txt_insufficient []
       else if given < 0 then says txt_bad_page []
       else
         thenDo (ask (moderator_users X removing)) (\<lambda>profiles.
           let offset = clamped_offset (length profiles) given; page = page_at offset profiles
           in thenDo (ask (gather page (privileged_role_of X))) (\<lambda>roles.
              thenDo (into (if removing then asc ''ADMIN_MODERATOR_REMOVE'' else asc ''ADMIN_MODERATOR_LIST'')) (\<lambda>_.
              thenDo (new_context [(asc ''moderator_offset'', JInt offset)]) (\<lambda>_.
                says
                  (if page = [] then (if removing then txt_none_demoted else txt_no_privileged_users)
                   else if removing then txt_pick_demoted else txt_privileged_users)
                  (List.map_filter (\<lambda>(profile, role). map_option (\<lambda>r.
                       button (person_label (local_identity profile) (Some profile) @ [32, 183, 32] @ role_label r)
                         (person_value (if removing then asc ''mod:remove-pick:'' else asc ''mod:view:'')
                            (local_identity profile))) role) (zip page roles)
                   @ offset_buttons (if removing then asc ''mod:remove-page:'' else asc ''mod:list-page:'')
                       offset (length profiles) MANAGE_MODERATORS)))))))"

definition event_masters_menu :: "env \<Rightarrow> event \<Rightarrow> bot_response dialog" where
  "event_masters_menu X e =
     (let k = ev_event_id e
      in thenDo (event_leader_required X k) (\<lambda>denied.
         with_user (\<lambda>u.
         thenDo (if denied = None then give True else ask (can_view_event_details X u k)) (\<lambda>may_view.
           if \<not> may_view then says txt_insufficient []
           else
             thenDo clear_dialog (\<lambda>_. with_user (\<lambda>u.
             thenDo (ask (andThen (if denied = None then is_admin X u else ret False) (\<lambda>admin.
                       if admin then andThen (is_event_leader u k) (\<lambda>leader. ret (\<not> leader)) else ret False))) (\<lambda>may_join.
               says (txt_masters_of_game @ reference_of e)
                 ((if may_join then [button ADD_SELF_EVENT_LEADER (asc ''master:self-add:'' @ k)] else [])
                  @ (if denied = None
                     then [button ADD_EVENT_LEADER (asc ''master:add:'' @ k),
                           button REMOVE_EVENT_LEADER (asc ''master:remove:'' @ k)] else [])
                  @ [button LIST_EVENT_LEADERS (asc ''master:list:'' @ k), game_management_button k]))))))))"

definition show_event_master_candidates :: "env \<Rightarrow> event \<Rightarrow> int \<Rightarrow> ustring \<Rightarrow> bot_response dialog" where
  "show_event_master_candidates X e given told =
     (if given < 0 then says txt_bad_page []
      else
        thenDo (ask (master_candidates X)) (\<lambda>eligible.
        thenDo (ask (leaders_now (ev_event_id e))) (\<lambda>current.
          let candidates = filter (\<lambda>u. local_identity u \<notin> set current) eligible;
              offset = clamped_offset (length candidates) given; page = page_at offset candidates
          in thenDo (into (asc ''ADMIN_EVENT_LEADER_ADD_PICK'')) (\<lambda>_.
             thenDo (new_context [(asc ''event_id'', JString (ev_event_id e)),
                       (asc ''event_name'', JString (ev_name e)), (asc ''master_offset'', JInt offset)]) (\<lambda>_.
               says
                 (told @ (if page = [] then txt_no_candidates @ txt_enter_directly
                          else txt_pick_new_master @ reference_of e @ [58]))
                 (map (\<lambda>u. button (person_label (local_identity u) (Some u))
                         (person_value (asc ''master:add-pick:'') (local_identity u))) page
                  @ [button txt_enter_profile_label (asc ''master:add-direct'')]
                  @ offset_buttons (asc ''master:add-page:'') offset (length candidates)
                      (asc ''ag:masters:'' @ ev_event_id e)))))))"

end
