(* ===== verification/Rosters.thy ===== *)
theory Rosters
  imports Access
begin

text \<open>
  The lists of administration (\<open>application/conversation_admin_rosters.py\<close>): players to remove, to look at or to
  move up, the games under administration, and what is added to the statistics.
\<close>

section \<open>Offering players\<close>

definition txt_in_game :: ustring where
  "txt_in_game = [1042, 32, 1080, 1075, 1088, 1077, 32]"

definition txt_none_enlisted :: ustring where
  "txt_none_enlisted =
     [32, 1085, 1077, 1090, 32, 1079, 1072, 1087, 1080, 1089, 1072, 1074, 1096, 1080, 1093, 1089,
      1103, 32]"

definition txt_or_confirmed_players :: ustring where
  "txt_or_confirmed_players =
     [1080, 1083, 1080, 32, 1087, 1086, 1076, 1090, 1074, 1077, 1088, 1076, 1080, 1074, 1096,
      1080, 1093, 32, 1091, 1095, 1072, 1089, 1090, 1080, 1077, 32, 1080, 1075, 1088, 1086, 1082,
      1086, 1074, 46]"

definition txt_removal_from :: ustring where
  "txt_removal_from =
     [1059, 1076, 1072, 1083, 1077, 1085, 1080, 1077, 32, 1080, 1075, 1088, 1086, 1082, 1072, 32,
      1080, 1079, 32, 1080, 1075, 1088, 1099, 32]"

definition txt_pick_removed :: ustring where
  "txt_pick_removed =
     [1042, 1099, 1073, 1077, 1088, 1080, 1090, 1077, 32, 1080, 1075, 1088, 1086, 1082, 1072, 46,
      32, 1055, 1086, 1082, 1072, 1079, 1072, 1085, 1099, 32, 1079, 1072, 1087, 1080, 1089, 1072,
      1074, 1096, 1080, 1077, 1089, 1103, 32, 1080, 32, 1087, 1086, 1076, 1090, 1074, 1077, 1088,
      1076, 1080, 1074, 1096, 1080, 1077, 32, 1091, 1095, 1072, 1089, 1090, 1080, 1077, 59, 32]"

definition txt_names_on_buttons :: ustring where
  "txt_names_on_buttons =
     [1085, 1072, 32, 1082, 1085, 1086, 1087, 1082, 1072, 1093, 32, 1091, 1082, 1072, 1079, 1072,
      1085, 1099, 32, 1080, 1084, 1077, 1085, 1072, 32, 1080, 1079, 32, 1080, 1093, 32, 1087,
      1088, 1086, 1092, 1080, 1083, 1077, 1081, 46]"

definition txt_none_waiting_1 :: ustring where
  "txt_none_waiting_1 =
     [32, 1085, 1077, 1090, 32, 1079, 1072, 1087, 1080, 1089, 1072, 1074, 1096, 1080, 1093, 1089,
      1103, 44, 32]"

definition txt_none_waiting_2 :: ustring where
  "txt_none_waiting_2 =
     [1082, 1086, 1090, 1086, 1088, 1099, 1077, 32, 1077, 1097, 1105, 32, 1085, 1077, 32, 1087,
      1086, 1076, 1090, 1074, 1077, 1088, 1076, 1080, 1083, 1080, 32, 1091, 1095, 1072, 1089,
      1090, 1080, 1077, 46]"

definition txt_waiting_in :: ustring where
  "txt_waiting_in =
     [1053, 1077, 32, 1087, 1086, 1076, 1090, 1074, 1077, 1088, 1076, 1080, 1074, 1096, 1080,
      1077, 32, 1091, 1095, 1072, 1089, 1090, 1080, 1077, 32, 1074, 32, 1080, 1075, 1088, 1077,
      32]"

definition txt_pick_for_profiles :: ustring where
  "txt_pick_for_profiles =
     [1042, 1099, 1073, 1077, 1088, 1080, 1090, 1077, 32, 1080, 1075, 1088, 1086, 1082, 1072, 44,
      32, 1095, 1090, 1086, 1073, 1099, 32, 1091, 1074, 1080, 1076, 1077, 1090, 1100, 32, 1077,
      1075, 1086, 32, 1087, 1088, 1086, 1092, 1080, 1083, 1080, 46]"

definition txt_through_bot :: ustring where
  "txt_through_bot =
     [1069, 1090, 1086, 1090, 32, 1087, 1086, 1083, 1100, 1079, 1086, 1074, 1072, 1090, 1077,
      1083, 1100, 32, 1079, 1072, 1088, 1077, 1075, 1080, 1089, 1090, 1088, 1080, 1088, 1086,
      1074, 1072, 1083, 1089, 1103, 32, 1095, 1077, 1088, 1077, 1079, 32, 1073, 1086, 1090, 1072,
      32]"

definition txt_his_vk :: ustring where
  "txt_his_vk =
     [46, 32, 1042, 1086, 1090, 32, 1077, 1075, 1086, 32, 1087, 1088, 1086, 1092, 1080, 1083,
      1100, 32, 1074, 1082, 58, 32]"

definition txt_his_telegram :: ustring where
  "txt_his_telegram =
     [10, 1042, 1086, 1090, 32, 1077, 1075, 1086, 32, 1087, 1088, 1086, 1092, 1080, 1083, 1100,
      32, 84, 101, 108, 101, 103, 114, 97, 109, 58, 32]"

definition txt_vk_bot :: ustring where
  "txt_vk_bot = [1042, 1050]"

definition txt_stale_page :: ustring where
  "txt_stale_page =
     [1069, 1090, 1072, 32, 1089, 1090, 1088, 1072, 1085, 1080, 1094, 1072, 32, 1091, 1089, 1090,
      1072, 1088, 1077, 1083, 1072, 46]"

definition txt_pick_by_button :: ustring where
  "txt_pick_by_button =
     [1042, 1099, 1073, 1077, 1088, 1080, 1090, 1077, 32, 1080, 1075, 1088, 1086, 1082, 1072, 32,
      1082, 1085, 1086, 1087, 1082, 1086, 1081, 32, 1080, 1079, 32, 1089, 1087, 1080, 1089, 1082,
      1072, 46]"

definition txt_stale_list :: ustring where
  "txt_stale_list =
     [1069, 1090, 1086, 1090, 32, 1089, 1087, 1080, 1089, 1086, 1082, 32, 1091, 1089, 1090, 1072,
      1088, 1077, 1083, 46]"

definition txt_no_longer_waiting :: ustring where
  "txt_no_longer_waiting =
     [1069, 1090, 1086, 1090, 32, 1080, 1075, 1088, 1086, 1082, 32, 1091, 1078, 1077, 32, 1085,
      1077, 32, 1085, 1072, 1093, 1086, 1076, 1080, 1090, 1089, 1103, 32, 1074, 32, 1089, 1087,
      1080, 1089, 1082, 1077, 32, 1085, 1077, 32, 1087, 1086, 1076, 1090, 1074, 1077, 1088, 1076,
      1080, 1074, 1096, 1080, 1093, 32, 1091, 1095, 1072, 1089, 1090, 1080, 1077, 46]"

definition txt_profile_not_found :: ustring where
  "txt_profile_not_found =
     [1053, 1077, 32, 1091, 1076, 1072, 1083, 1086, 1089, 1100, 32, 1085, 1072, 1081, 1090, 1080,
      32, 1087, 1088, 1086, 1092, 1080, 1083, 1100, 32, 1101, 1090, 1086, 1075, 1086, 32, 1087,
      1086, 1083, 1100, 1079, 1086, 1074, 1072, 1090, 1077, 1083, 1103, 46]"

definition txt_to_list :: ustring where
  "txt_to_list = [11013, 65039, 32, 1050, 32, 1089, 1087, 1080, 1089, 1082, 1091]"

definition txt_profiles_of :: ustring where
  "txt_profiles_of =
     [1055, 1088, 1086, 1092, 1080, 1083, 1080, 32, 1080, 1075, 1088, 1086, 1082, 1086, 1074, 32,
      1080, 1075, 1088, 1099, 32]"

definition txt_pick_profile :: ustring where
  "txt_pick_profile =
     [1042, 1099, 1073, 1077, 1088, 1080, 1090, 1077, 32, 1080, 1075, 1088, 1086, 1082, 1072, 44,
      32, 1095, 1090, 1086, 1073, 1099, 32, 1087, 1086, 1089, 1084, 1086, 1090, 1088, 1077, 1090,
      1100, 32, 1077, 1075, 1086, 32, 1087, 1088, 1086, 1092, 1080, 1083, 1100, 46, 32, 1055,
      1086, 1082, 1072, 1079, 1072, 1085, 1099, 32, 1074, 1089, 1077, 32, 1079, 1072, 1087, 1080,
      1089, 1072, 1074, 1096, 1080, 1077, 1089, 1103, 32]"

definition txt_main_and_reserve :: ustring where
  "txt_main_and_reserve =
     [1080, 32, 1087, 1086, 1076, 1090, 1074, 1077, 1088, 1076, 1080, 1074, 1096, 1080, 1077, 32,
      1091, 1095, 1072, 1089, 1090, 1080, 1077, 44, 32, 1074, 32, 1086, 1089, 1085, 1086, 1074,
      1085, 1086, 1084, 32, 1089, 1086, 1089, 1090, 1072, 1074, 1077, 32, 1080, 32, 1074, 32,
      1079, 1072, 1087, 1072, 1089, 1077, 46]"

definition txt_telegram_profile_line :: ustring where
  "txt_telegram_profile_line =
     [1055, 1088, 1086, 1092, 1080, 1083, 1100, 32, 84, 101, 108, 101, 103, 114, 97, 109, 58, 32]"

definition txt_vk_profile_line :: ustring where
  "txt_vk_profile_line =
     [1055, 1088, 1086, 1092, 1080, 1083, 1100, 32, 1042, 1050, 1086, 1085, 1090, 1072, 1082,
      1090, 1077, 58, 32]"

definition txt_registration_line :: ustring where
  "txt_registration_line = [1047, 1072, 1087, 1080, 1089, 1100, 58, 32]"

definition txt_registered_through :: ustring where
  "txt_registered_through =
     [1047, 1072, 1088, 1077, 1075, 1080, 1089, 1090, 1088, 1080, 1088, 1086, 1074, 1072, 1085,
      32, 1095, 1077, 1088, 1077, 1079, 32, 1073, 1086, 1090, 1072, 58, 32]"

definition txt_no_longer_enlisted :: ustring where
  "txt_no_longer_enlisted =
     [1069, 1090, 1086, 1090, 32, 1080, 1075, 1088, 1086, 1082, 32, 1073, 1086, 1083, 1100, 1096,
      1077, 32, 1085, 1077, 32, 1079, 1072, 1087, 1080, 1089, 1072, 1085, 32, 1085, 1072, 32,
      1080, 1075, 1088, 1091, 46]"

definition txt_main_roster_of :: ustring where
  "txt_main_roster_of =
     [1042, 32, 1086, 1089, 1085, 1086, 1074, 1085, 1086, 1084, 32, 1089, 1086, 1089, 1090, 1072,
      1074, 1077, 32, 1080, 1075, 1088, 1099, 32]"

definition txt_no_free_place :: ustring where
  "txt_no_free_place =
     [32, 1085, 1077, 1090, 32, 1089, 1074, 1086, 1073, 1086, 1076, 1085, 1099, 1093, 32, 1084,
      1077, 1089, 1090, 58, 32]"

definition txt_no_unconfirmed :: ustring where
  "txt_no_unconfirmed =
     [1090, 1072, 1084, 32, 1085, 1077, 1090, 32, 1085, 1077, 1087, 1086, 1076, 1090, 1074, 1077,
      1088, 1078, 1076, 1105, 1085, 1085, 1099, 1093, 32, 1079, 1072, 1103, 1074, 1086, 1082, 44,
      32, 1082, 1086, 1090, 1086, 1088, 1099, 1077, 32, 1084, 1086, 1078, 1085, 1086, 32, 1087,
      1077, 1088, 1077, 1084, 1077, 1089, 1090, 1080, 1090, 1100, 32, 1074, 32, 1079, 1072, 1087,
      1072, 1089, 46, 32]"

definition txt_nobody_moves :: ustring where
  "txt_nobody_moves =
     [1057, 1077, 1081, 1095, 1072, 1089, 32, 1085, 1080, 1082, 1086, 1075, 1086, 32, 1085, 1077,
      1083, 1100, 1079, 1103, 32, 1087, 1086, 1076, 1074, 1080, 1085, 1091, 1090, 1100, 32, 1080,
      1079, 32, 1079, 1072, 1087, 1072, 1089, 1072, 32, 1074, 32, 1086, 1089, 1085, 1086, 1074,
      1085, 1091, 1102, 32, 1089, 1077, 1089, 1089, 1080, 1102, 46]"

definition txt_reserve_of :: ustring where
  "txt_reserve_of = [1042, 32, 1079, 1072, 1087, 1072, 1089, 1077, 32, 1080, 1075, 1088, 1099, 32]"

definition txt_none_confirmed :: ustring where
  "txt_none_confirmed =
     [32, 1085, 1077, 1090, 32, 1087, 1086, 1076, 1090, 1074, 1077, 1088, 1076, 1080, 1074, 1096,
      1080, 1093, 32, 1091, 1095, 1072, 1089, 1090, 1080, 1077, 32, 1080, 1075, 1088, 1086, 1082,
      1086, 1074, 46]"

definition txt_move_up :: ustring where
  "txt_move_up =
     [1055, 1086, 1076, 1074, 1080, 1085, 1091, 1090, 1100, 32, 1080, 1075, 1088, 1086, 1082,
      1072, 32, 1074, 32, 1086, 1089, 1085, 1086, 1074, 1085, 1091, 1102, 32, 1089, 1077, 1089,
      1089, 1080, 1102, 32, 1080, 1075, 1088, 1099, 32]"

definition txt_pick_confirmed :: ustring where
  "txt_pick_confirmed =
     [1042, 1099, 1073, 1077, 1088, 1080, 1090, 1077, 32, 1087, 1086, 1076, 1090, 1074, 1077,
      1088, 1076, 1080, 1074, 1096, 1077, 1075, 1086, 32, 1091, 1095, 1072, 1089, 1090, 1080,
      1077, 32, 1080, 1075, 1088, 1086, 1082, 1072, 32, 1080, 1079, 32, 1079, 1072, 1087, 1072,
      1089, 1072, 46]"

definition txt_move_question :: ustring where
  "txt_move_question =
     [10, 10, 1055, 1077, 1088, 1077, 1084, 1077, 1089, 1090, 1080, 1090, 1100, 32, 1101, 1090,
      1086, 1075, 1086, 32, 1080, 1075, 1088, 1086, 1082, 1072, 32, 1074, 32, 1086, 1089, 1085,
      1086, 1074, 1085, 1091, 1102, 32, 1089, 1077, 1089, 1089, 1080, 1102, 63, 32]"

definition txt_last_unconfirmed :: ustring where
  "txt_last_unconfirmed =
     [1055, 1086, 1089, 1083, 1077, 1076, 1085, 1080, 1081, 32, 1085, 1077, 1087, 1086, 1076,
      1090, 1074, 1077, 1088, 1078, 1076, 1105, 1085, 1085, 1099, 1081, 32, 1080, 1075, 1088,
      1086, 1082, 32, 1074, 32, 1086, 1089, 1085, 1086, 1074, 1085, 1086, 1084, 32, 1089, 1086,
      1089, 1090, 1072, 1074, 1077, 32, 1073, 1091, 1076, 1077, 1090, 32, 1087, 1077, 1088, 1077,
      1084, 1077, 1097, 1105, 1085, 32, 1074, 32, 1079, 1072, 1087, 1072, 1089, 46]"

definition txt_not_in_reserve :: ustring where
  "txt_not_in_reserve =
     [1069, 1090, 1086, 1090, 32, 1080, 1075, 1088, 1086, 1082, 32, 1091, 1078, 1077, 32, 1085,
      1077, 32, 1103, 1074, 1083, 1103, 1077, 1090, 1089, 1103, 32, 1087, 1086, 1076, 1090, 1074,
      1077, 1088, 1076, 1080, 1074, 1096, 1080, 1084, 32, 1091, 1095, 1072, 1089, 1090, 1085,
      1080, 1082, 1086, 1084, 32, 1074, 32, 1079, 1072, 1087, 1072, 1089, 1077, 46]"

definition txt_move_unconfirmed :: ustring where
  "txt_move_unconfirmed =
     [1055, 1077, 1088, 1077, 1084, 1077, 1097, 1077, 1085, 1080, 1077, 32, 1085, 1077, 32, 1087,
      1086, 1076, 1090, 1074, 1077, 1088, 1078, 1076, 1077, 1085, 1086, 46]"

definition txt_roster_changed :: ustring where
  "txt_roster_changed =
     [1057, 1086, 1089, 1090, 1072, 1074, 32, 1080, 1075, 1088, 1086, 1082, 1086, 1074, 32, 1080,
      1079, 1084, 1077, 1085, 1080, 1083, 1089, 1103, 46, 32, 1042, 1099, 1073, 1077, 1088, 1080,
      1090, 1077, 32, 1080, 1075, 1088, 1086, 1082, 1072, 32, 1079, 1072, 1085, 1086, 1074, 1086,
      46]"

definition txt_player_done :: ustring where
  "txt_player_done = [9989, 32, 1048, 1075, 1088, 1086, 1082, 32, 171]"

definition txt_moved_into_main :: ustring where
  "txt_moved_into_main =
     [187, 32, 1087, 1077, 1088, 1077, 1084, 1077, 1097, 1105, 1085, 32, 1074, 32, 1086, 1089,
      1085, 1086, 1074, 1085, 1091, 1102, 32, 1089, 1077, 1089, 1089, 1080, 1102, 32]"

definition txt_of_game :: ustring where
  "txt_of_game = [1080, 1075, 1088, 1099, 32]"

definition txt_move_accepted :: ustring where
  "txt_move_accepted =
     [9203, 32, 1055, 1077, 1088, 1077, 1084, 1077, 1097, 1077, 1085, 1080, 1077, 32, 1087, 1088,
      1080, 1085, 1103, 1090, 1086, 32, 1074, 32, 1086, 1073, 1088, 1072, 1073, 1086, 1090, 1082,
      1091, 46]"

definition txt_irreversible :: ustring where
  "txt_irreversible =
     [9888, 65039, 32, 1069, 1090, 1086, 32, 1076, 1077, 1081, 1089, 1090, 1074, 1080, 1077, 32,
      1085, 1077, 1083, 1100, 1079, 1103, 32, 1086, 1090, 1084, 1077, 1085, 1080, 1090, 1100, 46,
      10, 10]"

definition txt_right_person :: ustring where
  "txt_right_person =
     [1042, 1099, 32, 1091, 1074, 1077, 1088, 1077, 1085, 1099, 44, 32, 1095, 1090, 1086, 32,
      1074, 1099, 1073, 1088, 1072, 1083, 1080, 32, 1085, 1091, 1078, 1085, 1086, 1075, 1086, 32,
      1095, 1077, 1083, 1086, 1074, 1077, 1082, 1072, 63, 10, 10]"

definition txt_profile_name_line :: ustring where
  "txt_profile_name_line =
     [1048, 1084, 1103, 32, 1080, 1079, 32, 1087, 1088, 1086, 1092, 1080, 1083, 1103, 58, 32]"

definition txt_attendance_line :: ustring where
  "txt_attendance_line = [1057, 1090, 1072, 1090, 1091, 1089, 58, 32]"

definition txt_yes_remove :: ustring where
  "txt_yes_remove = [1044, 1072, 44, 32, 1091, 1076, 1072, 1083, 1080, 1090, 1100]"

definition txt_no_to_list :: ustring where
  "txt_no_to_list =
     [1053, 1077, 1090, 44, 32, 1074, 1077, 1088, 1085, 1091, 1090, 1100, 1089, 1103, 32, 1082,
      32, 1089, 1087, 1080, 1089, 1082, 1091]"

definition txt_not_removable :: ustring where
  "txt_not_removable =
     [1047, 1072, 1087, 1080, 1089, 1100, 32, 1101, 1090, 1086, 1075, 1086, 32, 1080, 1075, 1088,
      1086, 1082, 1072, 32, 1091, 1078, 1077, 32, 1085, 1077, 1076, 1086, 1089, 1090, 1091, 1087,
      1085, 1072, 32, 1076, 1083, 1103, 32, 1091, 1076, 1072, 1083, 1077, 1085, 1080, 1103, 46]"

definition txt_removal_unconfirmed :: ustring where
  "txt_removal_unconfirmed =
     [1059, 1076, 1072, 1083, 1077, 1085, 1080, 1077, 32, 1085, 1077, 32, 1087, 1086, 1076, 1090,
      1074, 1077, 1088, 1078, 1076, 1077, 1085, 1086, 46]"

definition txt_player_removed :: ustring where
  "txt_player_removed = [128465, 32, 1048, 1075, 1088, 1086, 1082, 32, 171]"

definition txt_removed_from :: ustring where
  "txt_removed_from =
     [187, 32, 1091, 1076, 1072, 1083, 1105, 1085, 32, 1080, 1079, 32, 1080, 1075, 1088, 1099,
      32]"

definition txt_removal_accepted :: ustring where
  "txt_removal_accepted =
     [9203, 32, 1059, 1076, 1072, 1083, 1077, 1085, 1080, 1077, 32, 1087, 1088, 1080, 1085, 1103,
      1090, 1086, 32, 1074, 32, 1086, 1073, 1088, 1072, 1073, 1086, 1090, 1082, 1091, 46]"

definition txt_none_unconfirmed :: ustring where
  "txt_none_unconfirmed =
     [32, 1085, 1077, 1090, 32, 1080, 1075, 1088, 1086, 1082, 1086, 1074, 44, 32, 1085, 1077, 32,
      1087, 1086, 1076, 1090, 1074, 1077, 1088, 1076, 1080, 1074, 1096, 1080, 1093, 32, 1091,
      1095, 1072, 1089, 1090, 1080, 1077, 46]"

definition txt_sift_confirmed :: ustring where
  "txt_sift_confirmed =
     [1055, 1077, 1088, 1077, 1084, 1077, 1089, 1090, 1080, 1090, 1100, 32, 1087, 1086, 1076,
      1090, 1074, 1077, 1088, 1078, 1076, 1105, 1085, 1085, 1099, 1093, 32, 1080, 1075, 1088,
      1086, 1082, 1086, 1074, 32, 1074, 1074, 1077, 1088, 1093, 32, 1089, 1087, 1080, 1089, 1082,
      1072, 44, 32, 1072, 32, 1085, 1077, 32, 1087, 1086, 1076, 1090, 1074, 1077, 1088, 1076,
      1080, 1074, 1096, 1080, 1093, 32, 1091, 1095, 1072, 1089, 1090, 1080, 1077, 32]"

definition txt_sift_in_game :: ustring where
  "txt_sift_in_game = [1074, 32, 1080, 1075, 1088, 1077, 32]"

definition txt_sift_down :: ustring where
  "txt_sift_down = [32, 8212, 32, 1074, 1085, 1080, 1079, 63, 10, 10]"

definition txt_unconfirmed_count :: ustring where
  "txt_unconfirmed_count =
     [1053, 1077, 32, 1087, 1086, 1076, 1090, 1074, 1077, 1088, 1076, 1080, 1083, 1080, 32, 1091,
      1095, 1072, 1089, 1090, 1080, 1077, 58, 32]"

definition txt_crossing :: ustring where
  "txt_crossing =
     [46, 32, 1048, 1075, 1088, 1086, 1082, 1080, 44, 32, 1082, 1086, 1090, 1086, 1088, 1099,
      1077, 32, 1087, 1077, 1088, 1077, 1089, 1077, 1082, 1091, 1090, 32, 1075, 1088, 1072, 1085,
      1080, 1094, 1091, 32, 1086, 1089, 1085, 1086, 1074, 1085, 1086, 1075, 1086, 32, 1089, 1086,
      1089, 1090, 1072, 1074, 1072, 44, 32]"

definition txt_get_notices :: ustring where
  "txt_get_notices =
     [1087, 1086, 1083, 1091, 1095, 1072, 1090, 32, 1091, 1074, 1077, 1076, 1086, 1084, 1083,
      1077, 1085, 1080, 1103, 46]"

definition txt_yes_sift :: ustring where
  "txt_yes_sift =
     [1044, 1072, 44, 32, 1087, 1077, 1088, 1077, 1089, 1086, 1088, 1090, 1080, 1088, 1086, 1074,
      1072, 1090, 1100]"

definition txt_sift_unconfirmed :: ustring where
  "txt_sift_unconfirmed =
     [1055, 1077, 1088, 1077, 1089, 1086, 1088, 1090, 1080, 1088, 1086, 1074, 1082, 1072, 32,
      1085, 1077, 32, 1087, 1086, 1076, 1090, 1074, 1077, 1088, 1078, 1076, 1077, 1085, 1072, 46]"

definition txt_count_changed :: ustring where
  "txt_count_changed =
     [1057, 1087, 1080, 1089, 1086, 1082, 32, 1085, 1077, 32, 1087, 1086, 1076, 1090, 1074, 1077,
      1088, 1076, 1080, 1074, 1096, 1080, 1093, 32, 1091, 1095, 1072, 1089, 1090, 1080, 1077, 32,
      1080, 1079, 1084, 1077, 1085, 1080, 1083, 1089, 1103, 46, 32, 1055, 1088, 1086, 1074, 1077,
      1088, 1100, 1090, 1077, 32, 1085, 1086, 1074, 1086, 1077, 32, 1082, 1086, 1083, 1080, 1095,
      1077, 1089, 1090, 1074, 1086, 46]"

definition txt_sift_accepted :: ustring where
  "txt_sift_accepted =
     [9203, 32, 1055, 1077, 1088, 1077, 1089, 1086, 1088, 1090, 1080, 1088, 1086, 1074, 1082,
      1072, 32, 1079, 1072, 1103, 1074, 1086, 1082, 32, 1087, 1088, 1080, 1085, 1103, 1090, 1072,
      32, 1074, 32, 1086, 1073, 1088, 1072, 1073, 1086, 1090, 1082, 1091, 46]"

definition token8 :: "env \<Rightarrow> ustring service" where
  "token8 X = ticking X (\<lambda>_. reads (\<lambda>w. xe_token X (w_turns w)))"

definition split_all :: "ustring \<Rightarrow> ustring list" where
  "split_all v = split_colons (length v) v"

definition to_player_list :: "event \<Rightarrow> button list" where
  "to_player_list e = pagination_buttons None None (asc ''ag:players:'' @ ev_event_id e)"

text \<open>A place in the registrations of a game, as the context keeps it.\<close>

definition cursor_entry :: "registration \<Rightarrow> json" where
  "cursor_entry r = JArray [JString (iso_utc (rg_created_at r)), JString (rg_participant_key r)]"

definition given_cursor :: "cursor option \<Rightarrow> json" where
  "given_cursor c = (case c of None \<Rightarrow> JNull | Some (t, key) \<Rightarrow> JArray [JString (iso_utc t), JString key])"

definition stored_cursor :: "json \<Rightarrow> exn + cursor" where
  "stored_cursor raw =
     (case raw of
        JArray [t, key] \<Rightarrow> then_sum (from_iso (json_text t)) (\<lambda>moment. Inr (moment, json_text key))
      | _ \<Rightarrow> Inl ValueError)"

definition stored_registration_cursor :: "ustring \<Rightarrow> (cursor \<Rightarrow> 'a dialog) \<Rightarrow> 'a dialog" where
  "stored_registration_cursor key k = recall (\<lambda>ctx. needed ctx key (\<lambda>raw. either (stored_cursor raw) k))"

definition optional_registration_cursor :: "ustring \<Rightarrow> (cursor option \<Rightarrow> 'a dialog) \<Rightarrow> 'a dialog" where
  "optional_registration_cursor key k =
     recall (\<lambda>ctx.
       if json_get ctx key = JNull then k None
       else stored_registration_cursor key (\<lambda>c. k (Some c)))"

text \<open>
  Each player of the page gets a button with a random token, which the context maps to the participant; the
  page gets a token too.
\<close>

definition offer_players ::
    "env \<Rightarrow> event \<Rightarrow> ustring \<Rightarrow> (registration \<Rightarrow> ustring) \<Rightarrow> json_object \<Rightarrow> ustring \<Rightarrow> registration_page
       \<Rightarrow> bot_response dialog" where
  "offer_players X e flow label extra txt page =
     (let rows = rpg_rows page; value_of = (\<lambda>part. asc ''admin:'' @ flow @ part); key = (\<lambda>part. flow @ part)
      in thenDo (ask (gather rows (\<lambda>r. token8 X))) (\<lambda>tokens.
         thenDo (ask (token8 X)) (\<lambda>page_token.
         thenDo (set_dialog (\<lambda>b. b\<lparr>us_dialog_context :=
           put_all ([(key (asc ''_choices''),
                JObject (put_all (map (\<lambda>(t, r). (t, JString (rg_participant_key r))) (zip tokens rows)) [])),
              (key (asc ''_page_token''), JString page_token),
              (key (asc ''_first''), cursor_entry (hd rows)),
              (key (asc ''_last''), cursor_entry (last rows))] @ extra) (us_dialog_context b)\<rparr>)) (\<lambda>_.
           says txt
             (map (\<lambda>(t, r). button (label r) (value_of (asc '':pick:'' @ t))) (zip tokens rows)
              @ pagination_buttons
                  (if rpg_has_previous page then Some (value_of (asc '':page:p:'' @ page_token)) else None)
                  (if rpg_has_next page then Some (value_of (asc '':page:n:'' @ page_token)) else None)
                  (asc ''ag:players:'' @ ev_event_id e))))))"

definition name_and_status :: "registration \<Rightarrow> ustring" where
  "name_and_status r =
     rg_display_name r @ [32, 8212, 32] @ attendance_status_text (rg_attendance_status r)"

definition nobody_enlisted :: "event \<Rightarrow> ustring" where
  "nobody_enlisted e = txt_in_game @ reference_of e @ txt_none_enlisted @ txt_or_confirmed_players"

definition enters_list :: "ustring \<Rightarrow> event \<Rightarrow> unit dialog" where
  "enters_list state e = thenDo (into state) (\<lambda>_. new_context (event_entries e))"

definition show_removable_players ::
    "env \<Rightarrow> event \<Rightarrow> cursor option \<Rightarrow> cursor option \<Rightarrow> ustring \<Rightarrow> bot_response dialog" where
  "show_removable_players X e after before invalid =
     thenDo (ask (active_registration_page X (ev_event_id e) after before PAGE_SIZE)) (\<lambda>page.
     thenDo (enters_list (asc ''ADMIN_REMOVE_PICK'') e) (\<lambda>_.
       if rpg_rows page = [] then says (nobody_enlisted e) (to_player_list e)
       else
         offer_players X e (asc ''remove'') name_and_status []
           (remark invalid @ txt_removal_from @ reference_of e @ [10, 10] @ txt_pick_removed @ txt_names_on_buttons)
           page))"

definition show_waiting_players ::
    "env \<Rightarrow> event \<Rightarrow> cursor option \<Rightarrow> cursor option \<Rightarrow> ustring \<Rightarrow> bot_response dialog" where
  "show_waiting_players X e after before invalid =
     thenDo (ask (waiting_registration_page X (ev_event_id e) after before PAGE_SIZE)) (\<lambda>page.
     thenDo (enters_list (asc ''ADMIN_WAITING_PICK'') e) (\<lambda>_.
       if rpg_rows page = []
       then says (txt_in_game @ reference_of e @ txt_none_waiting_1 @ txt_none_waiting_2) (to_player_list e)
       else
         offer_players X e (asc ''waiting'') rg_display_name []
           (remark invalid @ txt_waiting_in @ reference_of e @ [10, 10] @ txt_pick_for_profiles) page))"

text \<open>A remembered page that has emptied out is left for the first one.\<close>

definition profiles_page ::
    "env \<Rightarrow> event \<Rightarrow> cursor option \<Rightarrow> cursor option \<Rightarrow> ustring \<Rightarrow> registration_page \<Rightarrow> bot_response dialog" where
  "profiles_page X e after before invalid page =
     thenDo (enters_list (asc ''ADMIN_PROFILES_PICK'') e) (\<lambda>_.
       if rpg_rows page = [] then says (nobody_enlisted e) (to_player_list e)
       else
         offer_players X e (asc ''profiles'') name_and_status
           [(asc ''profiles_after'', given_cursor after), (asc ''profiles_before'', given_cursor before)]
           (remark invalid @ txt_profiles_of @ reference_of e @ [10, 10] @ txt_pick_profile @ txt_main_and_reserve)
           page)"

definition show_player_profiles ::
    "env \<Rightarrow> event \<Rightarrow> cursor option \<Rightarrow> cursor option \<Rightarrow> ustring \<Rightarrow> bot_response dialog" where
  "show_player_profiles X e after before invalid =
     thenDo (ask (active_registration_page X (ev_event_id e) after before PAGE_SIZE)) (\<lambda>page.
       if rpg_rows page = [] \<and> (after \<noteq> None \<or> before \<noteq> None) then
         thenDo (ask (active_registration_page X (ev_event_id e) None None PAGE_SIZE)) (profiles_page X e None None invalid)
       else profiles_page X e after before invalid page)"

definition current_player_profiles :: "env \<Rightarrow> event \<Rightarrow> ustring \<Rightarrow> bot_response dialog" where
  "current_player_profiles X e invalid =
     optional_registration_cursor (asc ''profiles_after'') (\<lambda>after.
     optional_registration_cursor (asc ''profiles_before'') (\<lambda>before.
       show_player_profiles X e after before invalid))"

definition reserve_page ::
    "env \<Rightarrow> event \<Rightarrow> cursor option \<Rightarrow> cursor option \<Rightarrow> ustring \<Rightarrow> registration_page \<Rightarrow> bot_response dialog" where
  "reserve_page X e after before invalid page =
     thenDo (enters_list (asc ''ADMIN_RESERVE_PROMOTION_PICK'') e) (\<lambda>_.
       if rpg_rows page = []
       then says (txt_reserve_of @ reference_of e @ txt_none_confirmed) [player_management_button (ev_event_id e)]
       else
         offer_players X e (asc ''promote'') rg_display_name
           [(asc ''promote_after'', given_cursor after), (asc ''promote_before'', given_cursor before)]
           (remark invalid @ txt_move_up @ reference_of e @ [10, 10] @ txt_pick_confirmed) page)"

text \<open>The players of the reserve; \<open>emptied\<close> is what follows when a remembered page has emptied out.\<close>

definition reserve_list ::
    "env \<Rightarrow> event \<Rightarrow> cursor option \<Rightarrow> cursor option \<Rightarrow> ustring \<Rightarrow> bot_response dialog \<Rightarrow> bot_response dialog" where
  "reserve_list X e after before invalid emptied =
     thenDo (ask (has_unconfirmed_main_slot X (ev_event_id e))) (\<lambda>slot.
       if \<not> slot then
         says_cleared_with
           (txt_main_roster_of @ reference_of e @ txt_no_free_place @ txt_no_unconfirmed @ txt_nobody_moves)
           [player_management_button (ev_event_id e)]
       else
         thenDo (ask (confirmed_reserve_registration_page X (ev_event_id e) after before PAGE_SIZE)) (\<lambda>page.
           if rpg_rows page = [] \<and> (after \<noteq> None \<or> before \<noteq> None) then emptied
           else reserve_page X e after before invalid page))"

definition show_confirmed_reserve_players ::
    "env \<Rightarrow> event \<Rightarrow> cursor option \<Rightarrow> cursor option \<Rightarrow> ustring \<Rightarrow> bot_response dialog" where
  "show_confirmed_reserve_players X e after before invalid =
     reserve_list X e after before invalid (reserve_list X e None None invalid (fail AssertionError))"

definition current_confirmed_reserve_players :: "env \<Rightarrow> event \<Rightarrow> ustring \<Rightarrow> bot_response dialog" where
  "current_confirmed_reserve_players X e invalid =
     optional_registration_cursor (asc ''promote_after'') (\<lambda>after.
     optional_registration_cursor (asc ''promote_before'') (\<lambda>before.
       show_confirmed_reserve_players X e after before invalid))"

section \<open>The profile of a player\<close>

definition own_handle_url :: "user \<Rightarrow> ustring option" where
  "own_handle_url u = map_option (\<lambda>h. asc ''https://t.me/'' @ remove_prefix [64] h) (telegram_handle u)"

definition bot_name :: "user \<Rightarrow> ustring" where
  "bot_name u = (if is_TelegramUser u then asc ''Telegram'' else txt_vk_bot)"

definition waiting_player_profile_text :: "registration \<Rightarrow> user \<Rightarrow> ustring" where
  "waiting_player_profile_text r u =
     (let own_page = (case u of TelegramUser b i v l h \<Rightarrow> text_or v txt_contact_missing
                      | VkUser b i h \<Rightarrow> asc ''https://vk.com/id'' @ show_int i);
          telegram = (case rg_telegram_profile r of Some url \<Rightarrow> Some url | None \<Rightarrow> own_handle_url u)
      in txt_through_bot @ bot_name u @ txt_his_vk @ text_or (Some (rg_vk_profile r)) own_page
         @ (case telegram of None \<Rightarrow> [] | Some url \<Rightarrow> txt_his_telegram @ url))"

definition player_profile_text :: "event \<Rightarrow> registration \<Rightarrow> user \<Rightarrow> ustring \<Rightarrow> bool \<Rightarrow> ustring" where
  "player_profile_text e r u role in_main =
     (let telegram = (case own_handle_url u of Some url \<Rightarrow> Some url | None \<Rightarrow> rg_telegram_profile r);
          vk = (case u of TelegramUser b i v l h \<Rightarrow> text_or v (rg_vk_profile r)
                | VkUser b i h \<Rightarrow> asc ''https://vk.com/id'' @ show_int i);
          contacts = [txt_telegram_profile_line @ text_or telegram txt_contact_missing,
                      txt_vk_profile_line @ text_or (Some vk) txt_contact_missing]
      in join_with 10
           ([txt_profile, []] @ profile_lines (base u) role contacts
            @ [[], txt_game_is @ reference_of e,
               txt_registration_line @ attendance_status_text (rg_attendance_status r) @ [44, 32]
                 @ (if in_main then txt_main_roster_status else txt_reserve_status),
               txt_registered_through @ bot_name u]))"

section \<open>Picking a player\<close>

definition game_gone :: "bot_response dialog" where
  "game_gone = says_cleared_with txt_game_not_found [back_to MANAGE_GAMES]"

text \<open>The game the dialogue is about; when it is gone, so is the dialogue.\<close>

definition with_game :: "(event \<Rightarrow> bot_response dialog) \<Rightarrow> bot_response dialog" where
  "with_game k =
     from_context (asc ''event_id'') (\<lambda>event_id.
     thenDo (ask (find_event event_id)) (\<lambda>found. case found of None \<Rightarrow> game_gone | Some e \<Rightarrow> k e))"

definition chosen :: "ustring \<Rightarrow> ustring \<Rightarrow> json_object \<Rightarrow> ustring option" where
  "chosen key token ctx =
     (case json_get ctx key of
        JObject choices \<Rightarrow> (case dict_get choices token of Some (JString k) \<Rightarrow> Some k | _ \<Rightarrow> None)
      | _ \<Rightarrow> None)"

text \<open>What was sent: a page (direction and token), a pick (token), or something else.\<close>

datatype pick = TurnPage ustring ustring | PickOne ustring | NoPick

definition read_pick :: "ustring \<Rightarrow> ustring \<Rightarrow> pick" where
  "read_pick flow v =
     (case split_all v of
        [a, b, c, direction, token] \<Rightarrow>
          if [a, b, c] = [asc ''admin'', flow, asc ''page''] then TurnPage direction token else NoPick
      | [a, b, c, token] \<Rightarrow> if [a, b, c] = [asc ''admin'', flow, asc ''pick''] then PickOne token else NoPick
      | _ \<Rightarrow> NoPick)"

definition waiting_profile :: "pkey \<Rightarrow> event \<Rightarrow> registration \<Rightarrow> bot_response dialog" where
  "waiting_profile pkey e r =
     thenDo (ask (registration_user pkey (ev_event_id e) (rg_participant_key r))) (\<lambda>participant.
       says (case participant of None \<Rightarrow> txt_profile_not_found | Some u \<Rightarrow> waiting_player_profile_text r u)
         [button txt_to_list (asc ''ag:waiting:'' @ ev_event_id e), player_management_button (ev_event_id e)])"

definition admin_waiting_pick :: "env \<Rightarrow> pkey \<Rightarrow> ustring \<Rightarrow> bot_response dialog" where
  "admin_waiting_pick X pkey v =
     with_game (\<lambda>e. recall (\<lambda>ctx.
       if v = asc ''ag:waiting:'' @ ev_event_id e then show_waiting_players X e None None []
       else
         (case read_pick (asc ''waiting'') v of
            TurnPage direction token \<Rightarrow>
              if json_get ctx (asc ''waiting_page_token'') \<noteq> JString token \<or> direction \<notin> {[110], [112]}
              then show_waiting_players X e None None txt_stale_page
              else if direction = [112] then
                stored_registration_cursor (asc ''waiting_first'') (\<lambda>c. show_waiting_players X e None (Some c) [])
              else
                stored_registration_cursor (asc ''waiting_last'') (\<lambda>c. show_waiting_players X e (Some c) None [])
          | NoPick \<Rightarrow> show_waiting_players X e None None txt_pick_by_button
          | PickOne token \<Rightarrow>
              (case chosen (asc ''waiting_choices'') token ctx of
                 None \<Rightarrow> show_waiting_players X e None None txt_stale_list
               | Some key \<Rightarrow>
                   thenDo (ask (registration_of_game X (ev_event_id e) key)) (\<lambda>found.
                     case found of
                       None \<Rightarrow> show_waiting_players X e None None txt_no_longer_waiting
                     | Some r \<Rightarrow>
                         if rg_attendance_status r \<noteq> WAITING
                         then show_waiting_players X e None None txt_no_longer_waiting
                         else waiting_profile pkey e r)))))"

definition viewed_profile ::
    "env \<Rightarrow> pkey \<Rightarrow> event \<Rightarrow> registration \<Rightarrow> ustring \<Rightarrow> json \<Rightarrow> bot_response dialog" where
  "viewed_profile X pkey e r key page_token =
     (let buttons = [button txt_to_list (asc ''admin:profiles:page:c:'' @ json_text page_token),
                     player_management_button (ev_event_id e)]
      in thenDo (ask (registration_user pkey (ev_event_id e) key)) (\<lambda>participant.
         thenDo (ask (in_main_roster X (ev_event_id e) key)) (\<lambda>in_main.
           case participant of
             None \<Rightarrow> says txt_profile_not_found buttons
           | Some u \<Rightarrow>
               thenDo (ask (user_role_label X u)) (\<lambda>role. says (player_profile_text e r u role in_main) buttons))))"

definition admin_profiles_pick :: "env \<Rightarrow> pkey \<Rightarrow> ustring \<Rightarrow> bot_response dialog" where
  "admin_profiles_pick X pkey v =
     with_game (\<lambda>e. recall (\<lambda>ctx.
       let page_token = json_get ctx (asc ''profiles_page_token'')
       in case read_pick (asc ''profiles'') v of
            TurnPage direction token \<Rightarrow>
              if page_token \<noteq> JString token \<or> direction \<notin> {[110], [112], [99]}
              then show_player_profiles X e None None txt_stale_page
              else if direction = [112] then
                stored_registration_cursor (asc ''profiles_first'') (\<lambda>c. show_player_profiles X e None (Some c) [])
              else if direction = [110] then
                stored_registration_cursor (asc ''profiles_last'') (\<lambda>c. show_player_profiles X e (Some c) None [])
              else current_player_profiles X e []
          | NoPick \<Rightarrow> current_player_profiles X e txt_pick_by_button
          | PickOne token \<Rightarrow>
              (case chosen (asc ''profiles_choices'') token ctx of
                 None \<Rightarrow> current_player_profiles X e txt_stale_list
               | Some key \<Rightarrow>
                   thenDo (ask (registration_of_game X (ev_event_id e) key)) (\<lambda>found.
                     if is_cancelled found then current_player_profiles X e txt_no_longer_enlisted
                     else viewed_profile X pkey e (the found) key page_token))))"

section \<open>Moving up from the reserve\<close>

definition reserve_promotion_confirmation ::
    "env \<Rightarrow> pkey \<Rightarrow> event \<Rightarrow> registration \<Rightarrow> ustring \<Rightarrow> bot_response dialog" where
  "reserve_promotion_confirmation X pkey e r invalid =
     thenDo (ask (registration_user pkey (ev_event_id e) (rg_participant_key r))) (\<lambda>participant.
       case participant of
         None \<Rightarrow> current_confirmed_reserve_players X e txt_profile_not_found
       | Some u \<Rightarrow>
           thenDo (ask (user_role_label X u)) (\<lambda>role.
           from_context (asc ''promote_selected_token'') (\<lambda>token.
           from_context (asc ''promote_page_token'') (\<lambda>page_token.
             says (remark invalid @ player_profile_text e r u role False @ txt_move_question @ txt_last_unconfirmed)
               [button YES (asc ''admin:promote:confirm:'' @ token),
                button NO (asc ''admin:promote:page:c:'' @ page_token)]))))"

definition select_for_promotion ::
    "env \<Rightarrow> pkey \<Rightarrow> event \<Rightarrow> registration \<Rightarrow> ustring \<Rightarrow> ustring \<Rightarrow> bot_response dialog" where
  "select_for_promotion X pkey e r key token =
     thenDo (into (asc ''ADMIN_RESERVE_PROMOTION_CONFIRM'')) (\<lambda>_.
     thenDo (remember (asc ''promote_selected_key'') (JString key)) (\<lambda>_.
     thenDo (remember (asc ''promote_selected_token'') (JString token)) (\<lambda>_.
     thenDo (remember (asc ''promote_selected_name'') (JString (rg_display_name r))) (\<lambda>_.
       reserve_promotion_confirmation X pkey e r []))))"

definition promotable_row :: "env \<Rightarrow> event \<Rightarrow> ustring \<Rightarrow> registration option service" where
  "promotable_row X e key =
     andThen (registration_of_game X (ev_event_id e) key) (\<lambda>found.
       case found of
         None \<Rightarrow> ret None
       | Some r \<Rightarrow>
           andThen (can_promote_confirmed_reserve X (ev_event_id e) key) (\<lambda>may. ret (if may then Some r else None)))"

definition admin_reserve_promotion_pick :: "env \<Rightarrow> pkey \<Rightarrow> ustring \<Rightarrow> bot_response dialog" where
  "admin_reserve_promotion_pick X pkey v =
     with_game (\<lambda>e. recall (\<lambda>ctx.
       case read_pick (asc ''promote'') v of
         TurnPage direction token \<Rightarrow>
           if json_get ctx (asc ''promote_page_token'') \<noteq> JString token \<or> direction \<notin> {[110], [112], [99]}
           then show_confirmed_reserve_players X e None None txt_stale_page
           else if direction = [112] then
             stored_registration_cursor (asc ''promote_first'') (\<lambda>c.
               show_confirmed_reserve_players X e None (Some c) [])
           else if direction = [110] then
             stored_registration_cursor (asc ''promote_last'') (\<lambda>c.
               show_confirmed_reserve_players X e (Some c) None [])
           else current_confirmed_reserve_players X e []
       | NoPick \<Rightarrow> current_confirmed_reserve_players X e txt_pick_by_button
       | PickOne token \<Rightarrow>
           (case chosen (asc ''promote_choices'') token ctx of
              None \<Rightarrow> current_confirmed_reserve_players X e txt_stale_list
            | Some key \<Rightarrow>
                thenDo (ask (promotable_row X e key)) (\<lambda>found.
                  case found of
                    None \<Rightarrow> current_confirmed_reserve_players X e txt_not_in_reserve
                  | Some r \<Rightarrow> select_for_promotion X pkey e r key token))))"

definition promote_selected ::
    "env \<Rightarrow> pkey \<Rightarrow> inbound_message \<Rightarrow> event \<Rightarrow> ustring \<Rightarrow> json_object \<Rightarrow> bot_response dialog" where
  "promote_selected X pkey im e key ctx =
     thenDo clear_dialog (\<lambda>_.
     needed_text ctx (asc ''promote_selected_name'') (\<lambda>chosen_name.
     context_event_reference ctx (\<lambda>reference.
     thenDo (order X pkey im PROMOTE_RESERVE_PARTICIPANT (asc ''PROMOTE_RESERVE_PARTICIPANT'') (ev_event_id e)
               EmptyPayload (txt_player_done @ chosen_name @ txt_moved_into_main @ txt_of_game @ reference @ [46])
               [player_management_button (ev_event_id e)] (Some key)) (\<lambda>_.
       accepted txt_move_accepted [player_management_button (ev_event_id e)]))))"

definition admin_reserve_promotion_confirm ::
    "env \<Rightarrow> pkey \<Rightarrow> inbound_message \<Rightarrow> ustring \<Rightarrow> bot_response dialog" where
  "admin_reserve_promotion_confirm X pkey im v =
     with_game (\<lambda>e. recall (\<lambda>ctx.
       needed_text ctx (asc ''promote_selected_token'') (\<lambda>token.
       needed_text ctx (asc ''promote_page_token'') (\<lambda>page_token.
         if v = asc ''admin:promote:page:c:'' @ page_token then current_confirmed_reserve_players X e []
         else
           needed_text ctx (asc ''promote_selected_key'') (\<lambda>key.
             if v \<noteq> asc ''admin:promote:confirm:'' @ token then
               thenDo (ask (registration_of_game X (ev_event_id e) key)) (\<lambda>found.
                 case found of
                   None \<Rightarrow> current_confirmed_reserve_players X e txt_stale_list
                 | Some r \<Rightarrow> reserve_promotion_confirmation X pkey e r txt_move_unconfirmed)
             else
               thenDo (ask (promotable_row X e key)) (\<lambda>found.
                 case found of
                   None \<Rightarrow> current_confirmed_reserve_players X e txt_roster_changed
                 | Some r \<Rightarrow> promote_selected X pkey im e key ctx))))))"

section \<open>Removing a player\<close>

definition remove_confirmation_response :: "ustring \<Rightarrow> bot_response dialog" where
  "remove_confirmation_response invalid =
     from_context (asc ''event_id'') (\<lambda>event_id.
     from_context (asc ''remove_selected_token'') (\<lambda>token.
     from_context (asc ''remove_selected_name'') (\<lambda>chosen_name.
     from_context (asc ''remove_selected_status'') (\<lambda>status.
       says (remark invalid @ txt_irreversible @ txt_right_person @ txt_profile_name_line @ chosen_name @ [10]
             @ txt_attendance_line @ status)
         [button txt_yes_remove (asc ''admin:remove:confirm:'' @ token),
          button txt_no_to_list (asc ''ag:remove:'' @ event_id)]))))"

definition select_for_removal :: "registration \<Rightarrow> ustring \<Rightarrow> ustring \<Rightarrow> bot_response dialog" where
  "select_for_removal r key token =
     thenDo (into (asc ''ADMIN_REMOVE_CONFIRM'')) (\<lambda>_.
     thenDo (remember (asc ''remove_selected_key'') (JString key)) (\<lambda>_.
     thenDo (remember (asc ''remove_selected_token'') (JString token)) (\<lambda>_.
     thenDo (remember (asc ''remove_selected_name'') (JString (rg_display_name r))) (\<lambda>_.
     thenDo (remember (asc ''remove_selected_status'')
               (JString (attendance_status_text (rg_attendance_status r)))) (\<lambda>_.
       remove_confirmation_response [])))))"

definition admin_remove_pick :: "env \<Rightarrow> ustring \<Rightarrow> bot_response dialog" where
  "admin_remove_pick X v =
     with_game (\<lambda>e. recall (\<lambda>ctx.
       case read_pick (asc ''remove'') v of
         TurnPage direction token \<Rightarrow>
           if json_get ctx (asc ''remove_page_token'') \<noteq> JString token \<or> direction \<notin> {[110], [112]}
           then show_removable_players X e None None txt_stale_page
           else if direction = [112] then
             stored_registration_cursor (asc ''remove_first'') (\<lambda>c. show_removable_players X e None (Some c) [])
           else
             stored_registration_cursor (asc ''remove_last'') (\<lambda>c. show_removable_players X e (Some c) None [])
       | NoPick \<Rightarrow> show_removable_players X e None None txt_pick_by_button
       | PickOne token \<Rightarrow>
           (case chosen (asc ''remove_choices'') token ctx of
              None \<Rightarrow> show_removable_players X e None None txt_stale_list
            | Some key \<Rightarrow>
                thenDo (ask (registration_of_game X (ev_event_id e) key)) (\<lambda>found.
                  if is_cancelled found then show_removable_players X e None None txt_not_removable
                  else select_for_removal (the found) key token))))"

definition remove_selected ::
    "env \<Rightarrow> pkey \<Rightarrow> inbound_message \<Rightarrow> ustring \<Rightarrow> ustring \<Rightarrow> registration \<Rightarrow> json_object \<Rightarrow> bot_response dialog" where
  "remove_selected X pkey im event_id key r ctx =
     thenDo clear_dialog (\<lambda>_.
     context_event_reference ctx (\<lambda>reference.
     thenDo (order X pkey im REMOVE_PARTICIPANT (asc ''REMOVE_PARTICIPANT'') event_id EmptyPayload
               (txt_player_removed @ rg_display_name r @ txt_removed_from @ reference @ [46])
               [player_management_button event_id] (Some key)) (\<lambda>_.
       accepted txt_removal_accepted [player_management_button event_id])))"

definition admin_remove_confirm :: "env \<Rightarrow> pkey \<Rightarrow> inbound_message \<Rightarrow> ustring \<Rightarrow> bot_response dialog" where
  "admin_remove_confirm X pkey im v =
     recall (\<lambda>ctx.
       needed_text ctx (asc ''remove_selected_token'') (\<lambda>token.
       needed_text ctx (asc ''event_id'') (\<lambda>event_id.
         if v = asc ''ag:remove:'' @ event_id then with_game (\<lambda>e. show_removable_players X e None None [])
         else if v \<noteq> asc ''admin:remove:confirm:'' @ token
         then remove_confirmation_response txt_removal_unconfirmed
         else
           needed_text ctx (asc ''remove_selected_key'') (\<lambda>key.
           thenDo (ask (registration_of_game X event_id key)) (\<lambda>found.
             if is_cancelled found then with_game (\<lambda>e. show_removable_players X e None None txt_not_removable)
             else remove_selected X pkey im event_id key (the found) ctx)))))"

section \<open>Sorting the confirmed before the others\<close>

definition remove_waiting_confirmation :: "env \<Rightarrow> event \<Rightarrow> ustring \<Rightarrow> bot_response dialog" where
  "remove_waiting_confirmation X e invalid =
     thenDo (ask (waiting_registration_count X (ev_event_id e))) (\<lambda>count.
       if count = 0 then
         says_cleared_with (txt_in_game @ reference_of e @ txt_none_unconfirmed)
           [player_management_button (ev_event_id e)]
       else
         thenDo (ask (token8 X)) (\<lambda>token.
         thenDo (into (asc ''ADMIN_REMOVE_WAITING_CONFIRM'')) (\<lambda>_.
         thenDo (new_context (event_entries e @
                   [(asc ''remove_waiting_count'', JInt (int count)), (asc ''remove_waiting_token'', JString token)])) (\<lambda>_.
           says (remark invalid @ txt_sift_confirmed @ txt_sift_in_game @ reference_of e @ txt_sift_down
                 @ txt_unconfirmed_count @ show_nat count @ txt_crossing @ txt_get_notices)
             [button txt_yes_sift (asc ''admin:remove-waiting:confirm:'' @ token),
              button NO (asc ''ag:players:'' @ ev_event_id e)]))))"

definition admin_remove_waiting_confirm :: "env \<Rightarrow> pkey \<Rightarrow> inbound_message \<Rightarrow> ustring \<Rightarrow> bot_response dialog" where
  "admin_remove_waiting_confirm X pkey im v =
     with_game (\<lambda>e. recall (\<lambda>ctx.
       needed_text ctx (asc ''remove_waiting_token'') (\<lambda>token.
         if v \<noteq> asc ''admin:remove-waiting:confirm:'' @ token
         then remove_waiting_confirmation X e txt_sift_unconfirmed
         else
           thenDo (ask (waiting_registration_count X (ev_event_id e))) (\<lambda>current_count.
           needed ctx (asc ''remove_waiting_count'') (\<lambda>raw. either (json_number raw) (\<lambda>expected_count.
             if int current_count \<noteq> expected_count then remove_waiting_confirmation X e txt_count_changed
             else
               thenDo clear_dialog (\<lambda>_.
               thenDo (order X pkey im REMOVE_WAITING_PARTICIPANTS (asc ''REMOVE_WAITING_PARTICIPANTS'')
                         (ev_event_id e) EmptyPayload [] [player_management_button (ev_event_id e)] None) (\<lambda>_.
                 accepted txt_sift_accepted [player_management_button (ev_event_id e)]))))))))"

section \<open>Lists of games\<close>

definition txt_no_games_for_statistics :: ustring where
  "txt_no_games_for_statistics =
     [1053, 1077, 1090, 32, 1085, 1077, 1072, 1088, 1093, 1080, 1074, 1080, 1088, 1086, 1074,
      1072, 1085, 1085, 1099, 1093, 32, 1080, 1075, 1088, 32, 1076, 1083, 1103, 32, 1076, 1086,
      1073, 1072, 1074, 1083, 1077, 1085, 1080, 1103, 32, 1074, 32, 1089, 1090, 1072, 1090, 1080,
      1089, 1090, 1080, 1082, 1091, 46]"

definition txt_pick_for_statistics :: ustring where
  "txt_pick_for_statistics =
     [1042, 1099, 1073, 1077, 1088, 1080, 1090, 1077, 32, 1085, 1077, 1072, 1088, 1093, 1080,
      1074, 1080, 1088, 1086, 1074, 1072, 1085, 1085, 1091, 1102, 32, 1080, 1075, 1088, 1091, 32,
      1076, 1083, 1103, 32, 1076, 1086, 1073, 1072, 1074, 1083, 1077, 1085, 1080, 1103, 32, 1074,
      32, 1089, 1090, 1072, 1090, 1080, 1089, 1090, 1080, 1082, 1091, 58]"

definition txt_archive_empty :: ustring where
  "txt_archive_empty =
     [1040, 1088, 1093, 1080, 1074, 32, 1080, 1075, 1088, 32, 1087, 1091, 1089, 1090, 46]"

definition txt_no_managed_games :: ustring where
  "txt_no_managed_games =
     [1048, 1075, 1088, 32, 1076, 1083, 1103, 32, 1091, 1087, 1088, 1072, 1074, 1083, 1077, 1085,
      1080, 1103, 32, 1085, 1077, 1090, 46]"

definition txt_pick_game :: ustring where
  "txt_pick_game = [1042, 1099, 1073, 1077, 1088, 1080, 1090, 1077, 32, 1080, 1075, 1088, 1091, 58]"

definition txt_gone_or_archived :: ustring where
  "txt_gone_or_archived =
     [1048, 1075, 1088, 1072, 32, 1085, 1077, 32, 1085, 1072, 1081, 1076, 1077, 1085, 1072, 32,
      1080, 1083, 1080, 32, 1091, 1078, 1077, 32, 1072, 1088, 1093, 1080, 1074, 1080, 1088, 1086,
      1074, 1072, 1085, 1072, 46]"

definition txt_add_game :: ustring where
  "txt_add_game = [1044, 1086, 1073, 1072, 1074, 1080, 1090, 1100, 32, 1080, 1075, 1088, 1091, 32]"

definition txt_to_statistics :: ustring where
  "txt_to_statistics =
     [32, 1074, 32, 1089, 1090, 1072, 1090, 1080, 1089, 1090, 1080, 1082, 1091, 63, 10, 10]"

definition txt_both_tables :: ustring where
  "txt_both_tables =
     [1041, 1091, 1076, 1091, 1090, 32, 1080, 1079, 1084, 1077, 1085, 1077, 1085, 1099, 32, 1086,
      1073, 1077, 32, 1087, 1086, 1089, 1090, 1086, 1103, 1085, 1085, 1099, 1077, 32, 1090, 1072,
      1073, 1083, 1080, 1094, 1099, 32, 1089, 1090, 1072, 1090, 1080, 1089, 1090, 1080, 1082,
      1080, 44, 32, 1072, 32, 1091, 1095, 1072, 1089, 1090, 1080, 1077, 32]"

definition txt_will_count :: ustring where
  "txt_will_count =
     [1073, 1091, 1076, 1077, 1090, 32, 1079, 1072, 1089, 1095, 1080, 1090, 1072, 1085, 1086, 32,
      1087, 1086, 1076, 1090, 1074, 1077, 1088, 1078, 1076, 1105, 1085, 1085, 1099, 1084, 32,
      1080, 1075, 1088, 1086, 1082, 1072, 1084, 32, 1080, 32, 1084, 1072, 1089, 1090, 1077, 1088,
      1072, 1084, 46, 32]"

definition txt_no_undo :: ustring where
  "txt_no_undo =
     [1054, 1090, 1084, 1077, 1085, 1080, 1090, 1100, 32, 1101, 1090, 1086, 32, 1076, 1077, 1081,
      1089, 1090, 1074, 1080, 1077, 32, 1095, 1077, 1088, 1077, 1079, 32, 1073, 1086, 1090, 1072,
      32, 1085, 1077, 1083, 1100, 1079, 1103, 46]"

definition txt_confirmation_stale :: ustring where
  "txt_confirmation_stale =
     [1069, 1090, 1086, 32, 1087, 1086, 1076, 1090, 1074, 1077, 1088, 1078, 1076, 1077, 1085,
      1080, 1077, 32, 1091, 1089, 1090, 1072, 1088, 1077, 1083, 1086, 46, 32, 1054, 1090, 1082,
      1088, 1086, 1081, 1090, 1077, 32, 1080, 1075, 1088, 1091, 32, 1080, 32, 1087, 1086, 1074,
      1090, 1086, 1088, 1080, 1090, 1077, 32, 1076, 1077, 1081, 1089, 1090, 1074, 1080, 1077, 46]"

definition txt_statistics_accepted :: ustring where
  "txt_statistics_accepted =
     [9203, 32, 1044, 1077, 1081, 1089, 1090, 1074, 1080, 1077, 32, 1089, 1086, 32, 1089, 1090,
      1072, 1090, 1080, 1089, 1090, 1080, 1082, 1086, 1081, 32, 1087, 1088, 1080, 1085, 1103,
      1090, 1086, 32, 1074, 32, 1086, 1073, 1088, 1072, 1073, 1086, 1090, 1082, 1091, 46]"

definition newest_page :: "env \<Rightarrow> bool \<Rightarrow> cursor option \<Rightarrow> cursor option \<Rightarrow> nat \<Rightarrow> event list service" where
  "newest_page X archived after before limit =
     ticking X (\<lambda>clk. answers (\<lambda>w.
       list_page None after before (Some archived) None True limit (clk 0) (w_events w)))"

definition cursor_value :: "ustring \<Rightarrow> nat \<Rightarrow> event \<Rightarrow> ustring" where
  "cursor_value prefix direction e =
     prefix @ [58, direction, 58] @ show_int (micros_of (ev_created_at e)) @ [58] @ ev_event_id e"

definition statistics_cursor :: "nat \<Rightarrow> event \<Rightarrow> ustring" where
  "statistics_cursor direction e = cursor_value (asc ''stats:p'') direction e"

definition admin_game_cursor :: "bool \<Rightarrow> nat \<Rightarrow> event \<Rightarrow> ustring" where
  "admin_game_cursor archived direction e =
     cursor_value (if archived then asc ''page:r'' else asc ''page:a'') direction e"

text \<open>The games of a page with the ways on and back.\<close>

definition neighbours :: "env \<Rightarrow> bool \<Rightarrow> event list \<Rightarrow> (nat \<Rightarrow> event \<Rightarrow> ustring) \<Rightarrow> (ustring option \<times> ustring option) service" where
  "neighbours X archived events cursor_of =
     andThen (newest_page X archived None (Some (event_cursor (hd events))) 1) (\<lambda>earlier.
     andThen (newest_page X archived (Some (event_cursor (last events))) None 1) (\<lambda>later.
       ret (if earlier \<noteq> [] then Some (cursor_of 112 (hd events)) else None,
            if later \<noteq> [] then Some (cursor_of 110 (last events)) else None)))"

definition game_buttons :: "ustring \<Rightarrow> event list \<Rightarrow> button list" where
  "game_buttons prefix events =
     map (\<lambda>e. button (event_name_with_date (ev_name e) (ev_game_date e)) (prefix @ ev_event_id e)) events"

definition show_admin_games :: "env \<Rightarrow> cursor option \<Rightarrow> cursor option \<Rightarrow> bool \<Rightarrow> bot_response dialog" where
  "show_admin_games X after before archived =
     with_user (\<lambda>u. thenDo (ask (is_admin X u)) (\<lambda>admin.
       if archived \<and> \<not> admin then says txt_insufficient []
       else
         (let cancel = (if archived then MANAGE_GAMES else ADMIN_MENU);
              to_archive = (if \<not> archived \<and> admin then [same_button ARCHIVED_GAMES] else [])
          in thenDo (ask (newest_page X archived after before PAGE_SIZE)) (\<lambda>events.
               if events = [] then
                 says (if archived then txt_archive_empty else txt_no_managed_games)
                   (to_archive @ pagination_buttons None None cancel)
               else
                 thenDo (ask (neighbours X archived events (admin_game_cursor archived))) (\<lambda>(previous, following).
                   says ((if archived then ARCHIVED_GAMES else MANAGE_GAMES) @ [10, 10] @ txt_pick_game)
                     (game_buttons (asc ''ag:manage:'') events @ to_archive
                      @ pagination_buttons previous following cancel))))))"

section \<open>Statistics\<close>

definition statistics_menu :: "env \<Rightarrow> bot_response dialog" where
  "statistics_menu X =
     with_user (\<lambda>u. thenDo (ask (is_admin X u)) (\<lambda>admin.
       if \<not> admin then says txt_insufficient []
       else says MANAGE_STATISTICS [same_button STATS_LINKS, same_button STATS_ADD_GAME, admin_menu_button]))"

definition show_statistics_games :: "env \<Rightarrow> cursor option \<Rightarrow> cursor option \<Rightarrow> bot_response dialog" where
  "show_statistics_games X after before =
     with_user (\<lambda>u. thenDo (ask (is_admin X u)) (\<lambda>admin.
       if \<not> admin then says txt_insufficient []
       else
         thenDo (ask (newest_page X False after before PAGE_SIZE)) (\<lambda>events.
           if events = [] then
             says txt_no_games_for_statistics (pagination_buttons None None MANAGE_STATISTICS)
           else
             thenDo (ask (neighbours X False events statistics_cursor)) (\<lambda>(previous, following).
               says txt_pick_for_statistics
                 (game_buttons (asc ''stats:game:'') events
                  @ pagination_buttons previous following MANAGE_STATISTICS)))))"

definition statistics_command ::
    "env \<Rightarrow> inbound_message \<Rightarrow> user \<Rightarrow> statistics_action \<Rightarrow> ustring option \<Rightarrow> button \<Rightarrow> time \<Rightarrow> command" where
  "statistics_command X im u action game back_button now =
     (let p = fst (im_identity im); i = snd (local_identity u)
      in \<lparr>cm_operation_id = xe_uuid5 X (asc ''stats:'' @ platform_value p @ [58] @ show_int i @ [58] @ im_update_id im),
          cm_event_id = asc ''statistics'', cm_operation = STATISTICS, cm_platform = p, cm_platform_user_id = i,
          cm_participant_key = None, cm_identity_group = None, cm_payload = StatisticsPayload action game,
          cm_reply_context = reply_with None None [] [back_button], cm_created_at = now\<rparr>)"

definition enqueue_statistics ::
    "env \<Rightarrow> inbound_message \<Rightarrow> statistics_action \<Rightarrow> ustring option \<Rightarrow> button \<Rightarrow> bot_response dialog" where
  "enqueue_statistics X im action game back_button =
     with_user (\<lambda>u. thenDo (ask (is_admin X u)) (\<lambda>admin.
       if \<not> admin then says txt_insufficient []
       else
         thenDo (ask (andThen (reading X) (\<lambda>now.
                   publishes (statistics_command X im u action game back_button now)))) (\<lambda>_.
         thenDo clear_dialog (\<lambda>_. accepted txt_statistics_accepted [back_button]))))"

definition statistics_of_game ::
    "env \<Rightarrow> inbound_message \<Rightarrow> ustring \<Rightarrow> ustring \<Rightarrow> event \<Rightarrow> bot_response dialog" where
  "statistics_of_game X im v action e =
     (let managed = action \<in> {asc ''game-manage'', asc ''confirm-manage''};
          back_button = (if managed then game_management_button (ev_event_id e) else back_to MANAGE_STATISTICS)
      in if action \<in> {asc ''game'', asc ''game-manage''} then
           says (txt_add_game @ reference_of e @ txt_to_statistics @ txt_both_tables @ txt_will_count @ txt_no_undo)
             [button STATS_CONFIRM_ADD_GAME
                (asc ''stats:'' @ (if managed then asc ''confirm-manage'' else asc ''confirm'') @ [58] @ ev_event_id e),
              back_button]
         else
           with_user (\<lambda>u.
             if v \<notin> set (map bt_value (us_last_bot_buttons (base u))) then says txt_confirmation_stale [back_button]
             else enqueue_statistics X im StatisticsGame (Some (ev_event_id e)) back_button))"

definition admin_statistics_action :: "env \<Rightarrow> inbound_message \<Rightarrow> ustring \<Rightarrow> bot_response dialog" where
  "admin_statistics_action X im v =
     with_user (\<lambda>u. thenDo (ask (is_admin X u)) (\<lambda>admin.
       if \<not> admin then says txt_insufficient []
       else
         (let parts = split_colons 4 v
          in if length parts = 5 \<and> parts ! 0 = asc ''stats'' \<and> parts ! 1 \<in> {asc ''p'', asc ''page''} then
               (if parts ! 2 \<notin> {[110], [112]} \<or> \<not> all_digits (parts ! 3) then says txt_bad_page []
                else
                  parsed_cursor (parts ! 3) (parts ! 4) (\<lambda>c. directed (parts ! 2) c (show_statistics_games X)))
             else if length parts \<noteq> 3 \<or> parts ! 0 \<noteq> asc ''stats''
                     \<or> parts ! 1 \<notin> {asc ''game'', asc ''game-manage'', asc ''confirm'', asc ''confirm-manage''}
             then says txt_bad_action []
             else
               thenDo (ask (find_event (parts ! 2))) (\<lambda>found.
                 case found of
                   None \<Rightarrow> says txt_gone_or_archived [back_to MANAGE_STATISTICS]
                 | Some e \<Rightarrow>
                     if ev_archived_at e \<noteq> None then says txt_gone_or_archived [back_to MANAGE_STATISTICS]
                     else statistics_of_game X im v (parts ! 1) e))))"

end
