(* ===== verification/Roles.thy ===== *)
theory Roles
  imports Rosters
begin

text \<open>
  Giving roles (\<open>application/conversation_admin_roles.py\<close>): a privileged role to a user, and a user to a game as
  its master, which may first make the user a moderator.
\<close>

section \<open>Attempts\<close>

text \<open>
  The callback of administration catches \<open>KeyError\<close>, \<open>TypeError\<close> and \<open>ValueError\<close>, and what was changed in the
  profile before stays changed.  An attempt is a dialogue whose result is such an exception, or a value: a
  dialogue that raises one of them before it changes the profile is \<open>trying\<close> it.
\<close>

type_synonym 'a attempt = "(exn + 'a) dialog"

definition is_input_error :: "exn \<Rightarrow> bool" where
  "is_input_error x \<longleftrightarrow> x = KeyError \<or> x = TypeError \<or> x = ValueError"

definition trying :: "'a dialog \<Rightarrow> 'a attempt" where
  "trying d u =
     catching (andThen (d u) (\<lambda>(x, u'). ret (Inr x, u')))
       (\<lambda>x. if is_input_error x then ret (Inl x, u) else throw x)"

definition and_try :: "'a attempt \<Rightarrow> ('a \<Rightarrow> 'b attempt) \<Rightarrow> 'b attempt" where
  "and_try m k = thenDo m (\<lambda>r. case r of Inl x \<Rightarrow> give (Inl x) | Inr y \<Rightarrow> k y)"

definition raised :: "'a attempt \<Rightarrow> 'a dialog" where
  "raised m = thenDo m (\<lambda>r. either r give)"

section \<open>Finding a user\<close>

definition txt_bad_role :: ustring where
  "txt_bad_role =
     [1053, 1077, 1082, 1086, 1088, 1088, 1077, 1082, 1090, 1085, 1072, 1103, 32, 1088, 1086,
      1083, 1100, 46]"

definition txt_user_of :: ustring where
  "txt_user_of = [1055, 1086, 1083, 1100, 1079, 1086, 1074, 1072, 1090, 1077, 1083, 1100, 32]"

definition txt_not_found_write_first :: ustring where
  "txt_not_found_write_first =
     [32, 1085, 1077, 32, 1085, 1072, 1081, 1076, 1077, 1085, 46, 32, 1059, 1073, 1077, 1076,
      1080, 1090, 1077, 1089, 1100, 44, 32, 1095, 1090, 1086, 32, 1086, 1085, 32, 1091, 1078,
      1077, 32, 1085, 1072, 1087, 1080, 1089, 1072, 1083, 32, 1101, 1090, 1086, 1084, 1091, 32,
      1073, 1086, 1090, 1091, 32]"

definition txt_and_filled_profile :: ustring where
  "txt_and_filled_profile =
     [1080, 32, 1087, 1086, 1083, 1085, 1086, 1089, 1090, 1100, 1102, 32, 1079, 1072, 1087, 1086,
      1083, 1085, 1080, 1083, 32, 1087, 1088, 1086, 1092, 1080, 1083, 1100, 44, 32, 1079, 1072,
      1090, 1077, 1084, 32, 1087, 1086, 1087, 1088, 1086, 1073, 1091, 1081, 1090, 1077, 32, 1077,
      1097, 1105, 32, 1088, 1072, 1079, 46]"

definition txt_profile_incomplete :: ustring where
  "txt_profile_incomplete =
     [1055, 1088, 1086, 1092, 1080, 1083, 1100, 32, 1101, 1090, 1086, 1075, 1086, 32, 1087, 1086,
      1083, 1100, 1079, 1086, 1074, 1072, 1090, 1077, 1083, 1103, 32, 1079, 1072, 1087, 1086,
      1083, 1085, 1077, 1085, 32, 1085, 1077, 32, 1087, 1086, 1083, 1085, 1086, 1089, 1090, 1100,
      1102, 46, 32, 1055, 1086, 1087, 1088, 1086, 1089, 1080, 1090, 1077, 32, 1077, 1075, 1086,
      32, 1079, 1072, 1074, 1077, 1088, 1096, 1080, 1090, 1100, 32, 1087, 1088, 1086, 1092, 1080,
      1083, 1100, 32, 1080, 32, 1087, 1086, 1074, 1090, 1086, 1088, 1080, 1090, 1077, 46]"

definition txt_admin_keeps_role :: ustring where
  "txt_admin_keeps_role =
     [1040, 1076, 1084, 1080, 1085, 1080, 1089, 1090, 1088, 1072, 1090, 1086, 1088, 1091, 32,
      1085, 1077, 1083, 1100, 1079, 1103, 32, 1085, 1072, 1079, 1085, 1072, 1095, 1080, 1090,
      1100, 32, 1076, 1088, 1091, 1075, 1091, 1102, 32, 1088, 1086, 1083, 1100, 46]"

definition txt_already_has_role :: ustring where
  "txt_already_has_role =
     [1059, 32, 1101, 1090, 1086, 1075, 1086, 32, 1087, 1086, 1083, 1100, 1079, 1086, 1074, 1072,
      1090, 1077, 1083, 1103, 32, 1091, 1078, 1077, 32, 1088, 1086, 1083, 1100, 32, 171]"

definition txt_role_given :: ustring where
  "txt_role_given =
     [1042, 1072, 1084, 32, 1085, 1072, 1079, 1085, 1072, 1095, 1077, 1085, 1072, 32, 1088, 1086,
      1083, 1100, 32, 171]"

definition txt_made_moderator :: ustring where
  "txt_made_moderator =
     [9989, 32, 1055, 1086, 1083, 1100, 1079, 1086, 1074, 1072, 1090, 1077, 1083, 1100, 32, 1085,
      1072, 1079, 1085, 1072, 1095, 1077, 1085, 32, 1084, 1086, 1076, 1077, 1088, 1072, 1090,
      1086, 1088, 1086, 1084, 32, 1074, 32]"

definition txt_user_given_role :: ustring where
  "txt_user_given_role =
     [9989, 32, 1055, 1086, 1083, 1100, 1079, 1086, 1074, 1072, 1090, 1077, 1083, 1102, 32, 1085,
      1072, 1079, 1085, 1072, 1095, 1077, 1085, 1072, 32, 1088, 1086, 1083, 1100, 32, 171]"

definition txt_choose_master_bot :: ustring where
  "txt_choose_master_bot =
     [1042, 1099, 1073, 1077, 1088, 1080, 1090, 1077, 32, 1073, 1086, 1090, 44, 32, 1082, 1086,
      1090, 1086, 1088, 1099, 1084, 32, 1087, 1086, 1083, 1100, 1079, 1091, 1077, 1090, 1089,
      1103, 32, 1073, 1091, 1076, 1091, 1097, 1080, 1081, 32, 1084, 1072, 1089, 1090, 1077, 1088,
      58]"

definition txt_you_are_master :: ustring where
  "txt_you_are_master =
     [1042, 1099, 32, 1076, 1086, 1073, 1072, 1074, 1083, 1077, 1085, 1099, 32, 1084, 1072, 1089,
      1090, 1077, 1088, 1086, 1084, 32, 1080, 1075, 1088, 1099, 32]"

definition txt_added_as_master :: ustring where
  "txt_added_as_master =
     [32, 1076, 1086, 1073, 1072, 1074, 1083, 1077, 1085, 32, 1084, 1072, 1089, 1090, 1077, 1088,
      1086, 1084, 32, 1080, 1075, 1088, 1099, 32]"

definition txt_already_master :: ustring where
  "txt_already_master =
     [1069, 1090, 1086, 1090, 32, 1087, 1086, 1083, 1100, 1079, 1086, 1074, 1072, 1090, 1077,
      1083, 1100, 32, 1091, 1078, 1077, 32, 1103, 1074, 1083, 1103, 1077, 1090, 1089, 1103, 32,
      1084, 1072, 1089, 1090, 1077, 1088, 1086, 1084, 32, 1080, 1075, 1088, 1099, 32]"

definition txt_not_moderator_yet :: ustring where
  "txt_not_moderator_yet =
     [187, 32, 1087, 1086, 1082, 1072, 32, 1085, 1077, 32, 1103, 1074, 1083, 1103, 1077, 1090,
      1089, 1103, 32, 1084, 1086, 1076, 1077, 1088, 1072, 1090, 1086, 1088, 1086, 1084, 46, 32,
      1053, 1072, 1079, 1085, 1072, 1095, 1080, 1090, 1100, 32, 1101, 1090, 1086, 1075, 1086, 32,
      1087, 1086, 1083, 1100, 1079, 1086, 1074, 1072, 1090, 1077, 1083, 1103, 32]"

definition txt_moderator_and_master :: ustring where
  "txt_moderator_and_master =
     [1084, 1086, 1076, 1077, 1088, 1072, 1090, 1086, 1088, 1086, 1084, 32, 1080, 32, 1076, 1086,
      1073, 1072, 1074, 1080, 1090, 1100, 32, 1084, 1072, 1089, 1090, 1077, 1088, 1086, 1084, 32,
      1080, 1075, 1088, 1099, 32]"

definition txt_yes_grant :: ustring where
  "txt_yes_grant = [1044, 1072, 44, 32, 1085, 1072, 1079, 1085, 1072, 1095, 1080, 1090, 1100]"

definition txt_no_other :: ustring where
  "txt_no_other =
     [1053, 1077, 1090, 44, 32, 1074, 1099, 1073, 1088, 1072, 1090, 1100, 32, 1076, 1088, 1091,
      1075, 1086, 1075, 1086]"

definition platform_label :: "platform \<Rightarrow> ustring" where
  "platform_label p = (if p = TELEGRAM then asc ''Telegram'' else asc ''VK'')"

definition stored_user :: "platform \<Rightarrow> int \<Rightarrow> user option service" where
  "stored_user p i = andThen users_now (\<lambda>us. ret (users_get p i us))"

text \<open>A handle that is not known yet is looked for in the registrations, and then kept.\<close>

definition find_telegram_target :: "env \<Rightarrow> pkey \<Rightarrow> ustring \<Rightarrow> user option service" where
  "find_telegram_target X pkey v =
     (case normalize_telegram_profile v of
        None \<Rightarrow> throw ValueError
      | Some h \<Rightarrow>
          andThen users_now (\<lambda>us.
          andThen (from_sum (find_telegram_by_handle us h)) (\<lambda>known.
            if known \<noteq> None then ret known
            else
              andThen (find_telegram_user_by_profile pkey h) (\<lambda>found.
                case found of
                  None \<Rightarrow> ret None
                | Some t \<Rightarrow>
                    andThen (on_users X (update_telegram_handle (tg_id t) h)) (\<lambda>_.
                      case user_validate (with_handle (Some h) t) of
                        None \<Rightarrow> throw ValueError | Some t' \<Rightarrow> ret (Some t'))))))"

definition find_master_profile :: "env \<Rightarrow> pkey \<Rightarrow> platform \<Rightarrow> ustring \<Rightarrow> user option service" where
  "find_master_profile X pkey p v =
     (if p = TELEGRAM then find_telegram_target X pkey v
      else
        (case normalize_vk_url v of
           None \<Rightarrow> throw ValueError
         | Some url \<Rightarrow>
             andThen (unless_throw (xe_resolves_vk X) RuntimeError) (\<lambda>_.
             andThen (external X (ResolveVkUser url) (xe_vk_user X)) (\<lambda>found.
               case found of None \<Rightarrow> ret None | Some i \<Rightarrow> stored_user VK i))))"

text \<open>What is sent when the profile was not found: the error of the link, that nobody has it, or that it is incomplete.\<close>

definition bad_profile_link :: "platform \<Rightarrow> ustring \<Rightarrow> message" where
  "bad_profile_link p v = (if p = TELEGRAM then BadTelegramLink v else BadVkLink v)"

definition says_message :: "message \<Rightarrow> button list \<Rightarrow> bot_response dialog" where
  "says_message m buttons = give ((response [] buttons)\<lparr>br_text := m\<rparr>)"

definition with_profile ::
    "env \<Rightarrow> pkey \<Rightarrow> platform \<Rightarrow> ustring \<Rightarrow> button \<Rightarrow> (user \<Rightarrow> bot_response dialog) \<Rightarrow> bot_response dialog" where
  "with_profile X pkey p v back_button k =
     thenDo (ask (catching (andThen (find_master_profile X pkey p v) (\<lambda>t. ret (Some t)))
                    (\<lambda>x. if x = ValueError then ret None else throw x))) (\<lambda>found.
       case found of
         None \<Rightarrow> says_message (bad_profile_link p v) [back_button]
       | Some None \<Rightarrow>
           says (txt_user_of @ platform_label p @ txt_not_found_write_first @ txt_and_filled_profile) [back_button]
       | Some (Some t) \<Rightarrow> if profile_complete t then k t else says txt_profile_incomplete [back_button])"

section \<open>Giving a privileged role\<close>

definition holds_role :: "privileged_role \<Rightarrow> user \<Rightarrow> bool" where
  "holds_role role u \<longleftrightarrow> effective_privileged_role (base u) = Some role"

definition granted_by :: "ustring \<Rightarrow> user \<Rightarrow> bool" where
  "granted_by request_id u \<longleftrightarrow> us_gamemaster_grant_operation_id (base u) = Some request_id"

definition told_of :: "ustring \<Rightarrow> user \<Rightarrow> bool" where
  "told_of request_id u \<longleftrightarrow> us_last_delivery_operation_id (base u) = Some request_id"

definition person_request :: "ustring \<Rightarrow> platform \<Rightarrow> int \<Rightarrow> inbound_message \<Rightarrow> ustring" where
  "person_request prefix p i im = prefix @ platform_value p @ [58] @ show_int i @ [58] @ im_update_id im"

definition grant_request :: "privileged_role \<Rightarrow> platform \<Rightarrow> int \<Rightarrow> inbound_message \<Rightarrow> ustring" where
  "grant_request role p i im =
     person_request (if role = GAMEMASTER then asc ''gamemaster-grant:''
                     else asc ''privileged-role-grant:'' @ role_value role @ [58]) p i im"

text \<open>The profiles of the person that are written: the one named and those without the role, each once.\<close>

definition profiles_to_grant :: "privileged_role \<Rightarrow> bool \<Rightarrow> user \<Rightarrow> user list \<Rightarrow> bot_identity list" where
  "profiles_to_grant role same target profiles =
     dedup (map local_identity
       (filter (\<lambda>u. \<not> (same \<and> holds_role role u)) (target # filter (\<lambda>u. \<not> holds_role role u) profiles)))"

definition grant_to ::
    "env \<Rightarrow> privileged_role \<Rightarrow> ustring \<Rightarrow> platform \<Rightarrow> int \<Rightarrow> bot_identity list \<Rightarrow> user service" where
  "grant_to X role request_id p i identities =
     andThen (gather identities (\<lambda>who. on_users X (\<lambda>_. set_privileged_role (fst who) (snd who) role request_id))) (\<lambda>_.
     andThen (stored_user p i) (\<lambda>refreshed.
       case refreshed of
         None \<Rightarrow> throw RuntimeError
       | Some u \<Rightarrow> if holds_role role u then ret u else throw RuntimeError))"

definition already_has :: "privileged_role \<Rightarrow> bot_response dialog" where
  "already_has role = says_cleared (txt_already_has_role @ role_label role @ [187, 46])"

text \<open>The profile in memory follows what was written for its own person.\<close>

definition takes_role :: "privileged_role \<Rightarrow> ustring \<Rightarrow> unit dialog" where
  "takes_role role request_id =
     assign_base (\<lambda>b. b\<lparr>us_privileged_role := Some role, us_is_gamemaster := True,
       us_gamemaster_grant_operation_id := Some request_id, us_last_delivery_operation_id := Some request_id\<rparr>)"

definition told_of_role ::
    "env \<Rightarrow> inbound_message \<Rightarrow> privileged_role \<Rightarrow> ustring \<Rightarrow> platform \<Rightarrow> user \<Rightarrow> bot_response dialog" where
  "told_of_role X im role request_id p target =
     thenDo (if told_of request_id target then give ()
             else notify_status_change X target request_id
               (if role = GAMEMASTER then GAMEMASTER_NOTIFICATION
                else txt_role_given @ role_label role @ [187, 33, 32, 127881]) [admin_menu_button]) (\<lambda>_.
     thenDo (if im_identity im = (p, snd (local_identity target)) then takes_role role request_id else give ()) (\<lambda>_.
       says_cleared
         (if role = GAMEMASTER then txt_made_moderator @ platform_label p @ [46]
          else txt_user_given_role @ role_label role @ [187, 32, 1074, 32] @ platform_label p @ [46])))"

definition grant_role ::
    "env \<Rightarrow> inbound_message \<Rightarrow> privileged_role \<Rightarrow> platform \<Rightarrow> user \<Rightarrow> bot_response dialog" where
  "grant_role X im role p target =
     (let i = snd (local_identity target); request_id = grant_request role p i im;
          same = (holds_role role target \<and> granted_by request_id target)
      in thenDo (ask users_now) (\<lambda>us.
         thenDo (ask (privileged_role_of X target)) (\<lambda>current_role.
           if current_role = Some ADMIN then says_cleared txt_admin_keeps_role
           else if current_role = Some role \<and> \<not> same then already_has role
           else
             (let profiles = global_users us target
              in thenDo (ask (if \<not> same \<or> list_ex (\<lambda>u. \<not> holds_role role u) profiles
                              then grant_to X role request_id p i (profiles_to_grant role same target profiles)
                              else ret target)) (\<lambda>now.
                   if granted_by request_id now then told_of_role X im role request_id p now
                   else already_has role)))))"

definition grant_gamemaster :: "env \<Rightarrow> pkey \<Rightarrow> inbound_message \<Rightarrow> ustring \<Rightarrow> bot_response dialog" where
  "grant_gamemaster X pkey im v =
     with_user (\<lambda>u. thenDo (ask (is_admin X u)) (\<lambda>admin.
       if \<not> admin then says_cleared txt_insufficient
       else
         recall (\<lambda>ctx.
         needed_text ctx (asc ''gamemaster_platform'') (\<lambda>chosen_platform.
         valued (platform_of_value chosen_platform) (\<lambda>p.
         valued (role_of_value (json_text (json_get_or ctx (asc ''privileged_role'')
                   (JString (role_value GAMEMASTER))))) (\<lambda>role.
           if role \<notin> set ASSIGNABLE_PRIVILEGED_ROLES then says_cleared txt_bad_role
           else with_profile X pkey p v (back_to MANAGE_MODERATORS) (grant_role X im role p)))))))"

section \<open>Making a master a moderator\<close>

definition master_promotion_question ::
    "user \<Rightarrow> ustring \<Rightarrow> ustring \<Rightarrow> ustring \<Rightarrow> ustring \<Rightarrow> bot_response dialog" where
  "master_promotion_question target state reference confirm_value decline_value =
     (let i = local_identity target
      in thenDo (into state) (\<lambda>_.
         thenDo (remember (asc ''promotion_target_platform'') (JString (platform_value (fst i)))) (\<lambda>_.
         thenDo (remember (asc ''promotion_target_user_id'') (JInt (snd i))) (\<lambda>_.
           says ([171] @ known_name (Some target) (asc ''ID '' @ show_int (snd i)) @ txt_not_moderator_yet
                 @ txt_moderator_and_master @ reference @ [63])
             [button txt_yes_grant confirm_value, button txt_no_other decline_value]))))"

definition promotion_done :: "env \<Rightarrow> ustring \<Rightarrow> user \<Rightarrow> user dialog" where
  "promotion_done X request_id target =
     thenDo (remember (asc ''completed_master_promotion'') (JString request_id)) (\<lambda>_.
     thenDo (store_user X) (\<lambda>_. give target))"

text \<open>The target as it is stored once it has a role; a role that is not there was not persisted.\<close>

definition granted_target :: "env \<Rightarrow> ustring \<Rightarrow> user \<Rightarrow> user service" where
  "granted_target X request_id target =
     (let i = local_identity target
      in andThen (if effective_privileged_role (base target) = None
                  then on_users X (\<lambda>_. set_privileged_role (fst i) (snd i) GAMEMASTER request_id) else ret ()) (\<lambda>_.
         andThen (stored_user (fst i) (snd i)) (\<lambda>refreshed.
           case refreshed of
             None \<Rightarrow> throw RuntimeError
           | Some u \<Rightarrow>
               if effective_privileged_role (base u) = None then throw RuntimeError
               else if granted_by request_id u then ret u
               else andThen (has_admin_access X u) (\<lambda>access. if access then ret u else throw RuntimeError))))"

definition promote_now :: "env \<Rightarrow> ustring \<Rightarrow> user \<Rightarrow> user dialog" where
  "promote_now X request_id target =
     thenDo (ask (granted_target X request_id target)) (\<lambda>u.
     thenDo (if granted_by request_id u \<and> \<not> told_of request_id u
             then notify_status_change X u request_id GAMEMASTER_NOTIFICATION [admin_menu_button] else give ()) (\<lambda>_.
       promotion_done X request_id u))"

definition promote_master_target :: "env \<Rightarrow> inbound_message \<Rightarrow> user \<Rightarrow> user dialog" where
  "promote_master_target X im target =
     (let i = local_identity target; request_id = grant_request GAMEMASTER (fst i) (snd i) im
      in recall (\<lambda>ctx.
         if json_get ctx (asc ''completed_master_promotion'') = JString request_id then
           thenDo (ask (stored_user (fst i) (snd i))) (\<lambda>refreshed.
             give (case refreshed of None \<Rightarrow> target | Some u \<Rightarrow> u))
         else
           thenDo (ask (if holds_role GAMEMASTER target \<and> granted_by request_id target then ret False
                        else has_admin_access X target)) (\<lambda>access.
             if access then promotion_done X request_id target else promote_now X request_id target)))"

section \<open>Adding a master to a game\<close>

definition event_leader_platform_prompt :: "ustring \<Rightarrow> bot_response dialog" where
  "event_leader_platform_prompt event_id =
     says txt_choose_master_bot
       [button (asc ''Telegram'') (asc ''admin:event-leader:telegram''),
        button (asc ''VK'') (asc ''admin:event-leader:vk''), back_to (asc ''ag:masters:'' @ event_id)]"

definition masters_button :: "ustring \<Rightarrow> button" where
  "masters_button event_id = back_to (asc ''ag:masters:'' @ event_id)"

text \<open>The pass table follows, the new master is told, and so is who added them.\<close>

definition master_added ::
    "env \<Rightarrow> pkey \<Rightarrow> event \<Rightarrow> user \<Rightarrow> ustring \<Rightarrow> privileged_role \<Rightarrow> bot_response dialog" where
  "master_added X pkey e target request_id role =
     thenDo (ask (refresh_event_passes X pkey (ev_event_id e))) (\<lambda>_.
     thenDo (notify_status_change X target request_id (txt_you_are_master @ reference_of e @ [46])
               [button txt_manage_this_game (asc ''ag:manage:'' @ ev_event_id e)]) (\<lambda>_.
       says_cleared_with ([9989, 32] @ role_label role @ txt_added_as_master @ reference_of e @ [46])
         [masters_button (ev_event_id e)]))"

definition leader_added :: "env \<Rightarrow> ustring \<Rightarrow> bot_identity \<Rightarrow> unit service" where
  "leader_added X event_id i =
     andThen (on_events X (\<lambda>_. add_leader event_id i)) (\<lambda>_.
     andThen (leaders_now event_id) (\<lambda>leaders. unless_throw (i \<in> set leaders) RuntimeError))"

definition add_master ::
    "env \<Rightarrow> pkey \<Rightarrow> event \<Rightarrow> user \<Rightarrow> ustring \<Rightarrow> privileged_role \<Rightarrow> bot_response attempt" where
  "add_master X pkey e target request_id role =
     and_try (trying (ask (andThen users_now (\<lambda>us. andThen (leaders_now (ev_event_id e)) (\<lambda>leaders.
                ret (list_ex (\<lambda>i. i \<in> set leaders) (global_identities us target))))))) (\<lambda>leads.
       if leads then
         recall (\<lambda>ctx.
           if json_get ctx (asc ''pending_leader_grant'') = JString request_id \<and> \<not> told_of request_id target
           then trying (master_added X pkey e target request_id role)
           else
             trying (says_cleared_with (txt_already_master @ reference_of e @ [46]) [masters_button (ev_event_id e)]))
       else
         and_try (trying (remember (asc ''pending_leader_grant'') (JString request_id))) (\<lambda>_.
           trying
             (thenDo (store_user X) (\<lambda>_.
              thenDo (ask (leader_added X (ev_event_id e) (local_identity target))) (\<lambda>_.
                master_added X pkey e target request_id role)))))"

definition assign_event_leader ::
    "env \<Rightarrow> pkey \<Rightarrow> inbound_message \<Rightarrow> event \<Rightarrow> user \<Rightarrow> bot_response attempt" where
  "assign_event_leader X pkey im e target =
     (let i = local_identity target;
          request_id = person_request (asc ''leader-grant:'' @ ev_event_id e @ [58]) (fst i) (snd i) im
      in and_try (trying (ask (andThen (privileged_role_of X target) (\<lambda>role.
                andThen (has_admin_access X target) (\<lambda>access. ret (role, access)))))) (\<lambda>(role, access).
           if \<not> access then
             trying (master_promotion_question target (asc ''ADMIN_EVENT_LEADER_PROMOTE_CONFIRM'') (reference_of e)
               (asc ''master:promote:yes'') (asc ''master:promote:no''))
           else
             (case role of
                None \<Rightarrow> trying (fail AssertionError)
              | Some r \<Rightarrow> add_master X pkey e target request_id r)))"

definition add_event_leader :: "env \<Rightarrow> pkey \<Rightarrow> inbound_message \<Rightarrow> ustring \<Rightarrow> bot_response dialog" where
  "add_event_leader X pkey im v =
     from_context (asc ''gamemaster_platform'') (\<lambda>chosen_platform.
     valued (platform_of_value chosen_platform) (\<lambda>p.
     from_context (asc ''event_id'') (\<lambda>event_id.
       with_profile X pkey p v (masters_button event_id) (\<lambda>target.
         thenDo (ask (find_event event_id)) (\<lambda>found.
           case found of
             None \<Rightarrow> says_cleared txt_game_not_found
           | Some e \<Rightarrow> raised (assign_event_leader X pkey im e target))))))"

end
