(* ===== verification/Creation.thy ===== *)
theory Creation
  imports Roles
begin

text \<open>
  Creating a game (\<open>application/conversation_admin_creation.py\<close>): who becomes its first master, when registration
  and confirmation open, and what is answered once it is there; and the masters of a game as a list.
\<close>

section \<open>Questions of the creation\<close>

definition txt_no_confirmation_plan :: ustring where
  "txt_no_confirmation_plan =
     [1053, 1077, 32, 1093, 1086, 1095, 1091, 32, 1087, 1083, 1072, 1085, 1080, 1088, 1086, 1074,
      1072, 1090, 1100, 32, 1086, 1090, 1082, 1088, 1099, 1090, 1080, 1077, 32, 1087, 1086, 1076,
      1090, 1074, 1077, 1088, 1078, 1076, 1077, 1085, 1080, 1103]"

definition txt_pick_first_master :: ustring where
  "txt_pick_first_master =
     [1042, 1099, 1073, 1077, 1088, 1080, 1090, 1077, 32, 1087, 1088, 1080, 1074, 1080, 1083,
      1077, 1075, 1080, 1088, 1086, 1074, 1072, 1085, 1085, 1086, 1075, 1086, 32, 1087, 1086,
      1083, 1100, 1079, 1086, 1074, 1072, 1090, 1077, 1083, 1103, 44, 32, 1082, 1086, 1090, 1086,
      1088, 1099, 1081, 32, 1089, 1090, 1072, 1085, 1077, 1090, 32, 1087, 1077, 1088, 1074, 1099,
      1084, 32, 1084, 1072, 1089, 1090, 1077, 1088, 1086, 1084, 32, 1080, 1075, 1088, 1099, 32]"

definition txt_no_other_candidates :: ustring where
  "txt_no_other_candidates =
     [1053, 1077, 1090, 32, 1076, 1088, 1091, 1075, 1080, 1093, 32, 1087, 1088, 1080, 1074, 1080,
      1083, 1077, 1075, 1080, 1088, 1086, 1074, 1072, 1085, 1085, 1099, 1093, 32, 1087, 1086,
      1083, 1100, 1079, 1086, 1074, 1072, 1090, 1077, 1083, 1077, 1081, 44, 32, 1082, 1086, 1090,
      1086, 1088, 1099, 1093, 32, 1084, 1086, 1078, 1085, 1086, 32, 1074, 1099, 1073, 1088, 1072,
      1090, 1100, 32, 1084, 1072, 1089, 1090, 1077, 1088, 1086, 1084, 46, 32]"

definition txt_send_telegram_master :: ustring where
  "txt_send_telegram_master =
     [1054, 1090, 1087, 1088, 1072, 1074, 1100, 1090, 1077, 32, 1089, 1089, 1099, 1083, 1082,
      1091, 32, 1085, 1072, 32, 1087, 1088, 1086, 1092, 1080, 1083, 1100, 32, 84, 101, 108, 101,
      103, 114, 97, 109, 32, 1080, 1083, 1080, 32, 64, 117, 115, 101, 114, 110, 97, 109, 101, 32,
      1073, 1091, 1076, 1091, 1097, 1077, 1075, 1086, 32, 1084, 1072, 1089, 1090, 1077, 1088,
      1072, 58]"

definition txt_send_vk_master :: ustring where
  "txt_send_vk_master =
     [1054, 1090, 1087, 1088, 1072, 1074, 1100, 1090, 1077, 32, 1089, 1089, 1099, 1083, 1082,
      1091, 32, 1085, 1072, 32, 1087, 1088, 1086, 1092, 1080, 1083, 1100, 32, 86, 75, 32, 1073,
      1091, 1076, 1091, 1097, 1077, 1075, 1086, 32, 1084, 1072, 1089, 1090, 1077, 1088, 1072, 58]"

definition txt_master_declined :: ustring where
  "txt_master_declined =
     [1044, 1086, 1073, 1072, 1074, 1083, 1077, 1085, 1080, 1077, 32, 1084, 1072, 1089, 1090,
      1077, 1088, 1072, 32, 1086, 1090, 1084, 1077, 1085, 1077, 1085, 1086, 46, 32, 1042, 1099,
      1073, 1077, 1088, 1080, 1090, 1077, 32, 1076, 1088, 1091, 1075, 1086, 1075, 1086, 32, 1087,
      1086, 1083, 1100, 1079, 1086, 1074, 1072, 1090, 1077, 1083, 1103, 46, 10, 10]"

definition txt_master_gone :: ustring where
  "txt_master_gone =
     [1055, 1086, 1083, 1100, 1079, 1086, 1074, 1072, 1090, 1077, 1083, 1100, 32, 1073, 1086,
      1083, 1100, 1096, 1077, 32, 1085, 1077, 32, 1085, 1072, 1081, 1076, 1077, 1085, 46, 32,
      1042, 1099, 1073, 1077, 1088, 1080, 1090, 1077, 32, 1076, 1088, 1091, 1075, 1086, 1075,
      1086, 46, 10, 10]"

definition txt_only_privileged_masters :: ustring where
  "txt_only_privileged_masters =
     [1052, 1072, 1089, 1090, 1077, 1088, 1086, 1084, 32, 1084, 1086, 1078, 1085, 1086, 32, 1074,
      1099, 1073, 1088, 1072, 1090, 1100, 32, 1090, 1086, 1083, 1100, 1082, 1086, 32, 1087, 1088,
      1080, 1074, 1080, 1083, 1077, 1075, 1080, 1088, 1086, 1074, 1072, 1085, 1085, 1086, 1075,
      1086, 32, 1087, 1086, 1083, 1100, 1079, 1086, 1074, 1072, 1090, 1077, 1083, 1103, 46, 10,
      10]"

definition txt_confirmation_in_past :: ustring where
  "txt_confirmation_in_past =
     [1054, 1090, 1082, 1088, 1099, 1090, 1080, 1077, 32, 1087, 1086, 1076, 1090, 1074, 1077,
      1088, 1078, 1076, 1077, 1085, 1080, 1103, 32, 1076, 1086, 1083, 1078, 1085, 1086, 32, 1073,
      1099, 1090, 1100, 32, 1079, 1072, 1087, 1083, 1072, 1085, 1080, 1088, 1086, 1074, 1072,
      1085, 1086, 32, 1085, 1072, 32, 1073, 1091, 1076, 1091, 1097, 1077, 1077, 32, 1074, 1088,
      1077, 1084, 1103, 46]"

definition txt_confirmation_after_registration :: ustring where
  "txt_confirmation_after_registration =
     [1055, 1086, 1076, 1090, 1074, 1077, 1088, 1078, 1076, 1077, 1085, 1080, 1077, 32, 1076,
      1086, 1083, 1078, 1085, 1086, 32, 1086, 1090, 1082, 1088, 1099, 1074, 1072, 1090, 1100,
      1089, 1103, 32, 1089, 1090, 1088, 1086, 1075, 1086, 32, 1087, 1086, 1089, 1083, 1077, 32,
      1088, 1077, 1075, 1080, 1089, 1090, 1088, 1072, 1094, 1080, 1080, 46]"

definition txt_confirmation_before_close :: ustring where
  "txt_confirmation_before_close =
     [1055, 1086, 1076, 1090, 1074, 1077, 1088, 1078, 1076, 1077, 1085, 1080, 1077, 32, 1076,
      1086, 1083, 1078, 1085, 1086, 32, 1086, 1090, 1082, 1088, 1099, 1074, 1072, 1090, 1100,
      1089, 1103, 32, 1089, 1090, 1088, 1086, 1075, 1086, 32, 1076, 1086, 32, 1079, 1072, 1082,
      1088, 1099, 1090, 1080, 1103, 32, 1080, 1075, 1088, 1099, 46]"

definition txt_bad_deadline :: ustring where
  "txt_bad_deadline =
     [1053, 1077, 1082, 1086, 1088, 1088, 1077, 1082, 1090, 1085, 1072, 1103, 32, 1076, 1072,
      1090, 1072, 32, 1080, 32, 1074, 1088, 1077, 1084, 1103, 46, 32, 1055, 1086, 1087, 1088,
      1086, 1073, 1091, 1081, 1090, 1077, 32, 1077, 1097, 1105, 32, 1088, 1072, 1079, 46]"

definition txt_deadline_after_opening :: ustring where
  "txt_deadline_after_opening =
     [1044, 1077, 1076, 1083, 1072, 1081, 1085, 32, 1076, 1086, 1083, 1078, 1077, 1085, 32, 1073,
      1099, 1090, 1100, 32, 1089, 1090, 1088, 1086, 1075, 1086, 32, 1087, 1086, 1079, 1078, 1077,
      32, 1086, 1090, 1082, 1088, 1099, 1090, 1080, 1103, 32, 1087, 1086, 1076, 1090, 1074, 1077,
      1088, 1078, 1076, 1077, 1085, 1080, 1103, 46]"

definition txt_deadline_before_close :: ustring where
  "txt_deadline_before_close =
     [1044, 1077, 1076, 1083, 1072, 1081, 1085, 32, 1087, 1086, 1076, 1090, 1074, 1077, 1088,
      1078, 1076, 1077, 1085, 1080, 1103, 32, 1076, 1086, 1083, 1078, 1077, 1085, 32, 1073, 1099,
      1090, 1100, 32, 1089, 1090, 1088, 1086, 1075, 1086, 32, 1088, 1072, 1085, 1100, 1096, 1077,
      32, 1079, 1072, 1082, 1088, 1099, 1090, 1080, 1103, 32, 1080, 1075, 1088, 1099, 46]"

definition txt_master_lost_role :: ustring where
  "txt_master_lost_role =
     [1042, 1099, 1073, 1088, 1072, 1085, 1085, 1099, 1081, 32, 1084, 1072, 1089, 1090, 1077,
      1088, 32, 1073, 1086, 1083, 1100, 1096, 1077, 32, 1085, 1077, 32, 1103, 1074, 1083, 1103,
      1077, 1090, 1089, 1103, 32, 1087, 1088, 1080, 1074, 1080, 1083, 1077, 1075, 1080, 1088,
      1086, 1074, 1072, 1085, 1085, 1099, 1084, 32, 1087, 1086, 1083, 1100, 1079, 1086, 1074,
      1072, 1090, 1077, 1083, 1077, 1084, 46]"

definition txt_game_files_pending :: ustring where
  "txt_game_files_pending =
     [9203, 32, 1060, 1072, 1081, 1083, 1099, 32, 1080, 1075, 1088, 1099, 32, 1089, 1086, 1079,
      1076, 1072, 1102, 1090, 1089, 1103, 46, 32, 1041, 1086, 1090, 32, 1087, 1088, 1080, 1096,
      1083, 1105, 1090, 32, 1089, 1089, 1099, 1083, 1082, 1080, 44, 32, 1082, 1086, 1075, 1076,
      1072, 32, 1079, 1072, 1075, 1088, 1091, 1079, 1082, 1072, 32, 1079, 1072, 1074, 1077, 1088,
      1096, 1080, 1090, 1089, 1103, 46]"

definition txt_pick_master_to_remove :: ustring where
  "txt_pick_master_to_remove =
     [1042, 1099, 1073, 1077, 1088, 1080, 1090, 1077, 32, 1084, 1072, 1089, 1090, 1077, 1088,
      1072, 44, 32, 1082, 1086, 1090, 1086, 1088, 1086, 1075, 1086, 32, 1085, 1091, 1078, 1085,
      1086, 32, 1091, 1076, 1072, 1083, 1080, 1090, 1100, 32, 1080, 1079, 32, 1080, 1075, 1088,
      1099, 32]"

definition txt_no_removable_masters :: ustring where
  "txt_no_removable_masters =
     [1042, 32, 1101, 1090, 1086, 1081, 32, 1080, 1075, 1088, 1077, 32, 1085, 1077, 1090, 32,
      1085, 1072, 1079, 1085, 1072, 1095, 1077, 1085, 1085, 1099, 1093, 32, 1084, 1072, 1089,
      1090, 1077, 1088, 1086, 1074, 44, 32, 1082, 1086, 1090, 1086, 1088, 1099, 1093, 32, 1084,
      1086, 1078, 1085, 1086, 32, 1091, 1076, 1072, 1083, 1080, 1090, 1100, 46]"

definition txt_no_masters :: ustring where
  "txt_no_masters =
     [1059, 32, 1101, 1090, 1086, 1081, 32, 1080, 1075, 1088, 1099, 32, 1087, 1086, 1082, 1072,
      32, 1085, 1077, 1090, 32, 1084, 1072, 1089, 1090, 1077, 1088, 1086, 1074, 46]"

definition creation_master_question :: "bot_response dialog" where
  "creation_master_question =
     thenDo (into (asc ''ADMIN_CREATE_MASTER_CHOICE'')) (\<lambda>_.
       says CREATION_MASTER_QUESTION
         [button CREATE_AS_MASTER (asc ''create:master-self''),
          button CREATE_WITH_OTHER_MASTER (asc ''create:master-pick''),
          button CREATE_WITHOUT_MASTER (asc ''create:master-later'')])"

definition schedule_question :: "bot_response dialog" where
  "schedule_question =
     thenDo (into (asc ''ADMIN_CREATE_SCHEDULE_CHOICE'')) (\<lambda>_.
       says SCHEDULE_REGISTRATION_QUESTION
         [button YES (asc ''create:schedule:yes''), button NO (asc ''create:schedule:no'')])"

definition remember_master :: "bot_identity \<Rightarrow> unit dialog" where
  "remember_master i =
     thenDo (remember (asc ''master_platform'') (JString (platform_value (fst i)))) (\<lambda>_.
       remember (asc ''master_user_id'') (JInt (snd i)))"

definition creation_schedule_question :: "user option \<Rightarrow> bool \<Rightarrow> bot_response dialog" where
  "creation_schedule_question master assign_master_later =
     thenDo
       (case master of
          Some m \<Rightarrow>
            thenDo (remember_master (local_identity m)) (\<lambda>_. drop_entry (asc ''assign_master_later''))
        | None \<Rightarrow>
            if assign_master_later then
              thenDo (drop_entry (asc ''master_platform'')) (\<lambda>_.
              thenDo (drop_entry (asc ''master_user_id'')) (\<lambda>_.
                remember (asc ''assign_master_later'') (JBool True)))
            else give ())
       (\<lambda>_. schedule_question)"

definition creation_confirmation_schedule_question :: "bot_response dialog" where
  "creation_confirmation_schedule_question =
     thenDo (into (asc ''ADMIN_CREATE_CONFIRMATION_SCHEDULE_CHOICE'')) (\<lambda>_.
       says SCHEDULE_CONFIRMATION_QUESTION
         [button YES (asc ''create:confirmation:yes''),
          button txt_no_confirmation_plan (asc ''create:confirmation:no'')])"

section \<open>The first master\<close>

definition created_game_reference :: "(ustring \<Rightarrow> 'a dialog) \<Rightarrow> 'a dialog" where
  "created_game_reference k =
     recall (\<lambda>ctx.
       needed_text ctx (asc ''event_name'') (\<lambda>n.
       needed_date ctx (asc ''game_date'') (\<lambda>d. k (event_reference n (Some d)))))"

definition show_creation_master_candidates :: "env \<Rightarrow> int \<Rightarrow> ustring \<Rightarrow> bot_response dialog" where
  "show_creation_master_candidates X given told =
     with_user (\<lambda>u.
     thenDo (ask (master_candidates X)) (\<lambda>eligible.
       let candidates = filter (\<lambda>c. local_identity c \<noteq> local_identity u) eligible;
           offset = clamped_offset (length candidates) given; page = page_at offset candidates
       in thenDo (into (asc ''ADMIN_CREATE_MASTER_PICK'')) (\<lambda>_.
          thenDo (remember (asc ''master_offset'') (JInt offset)) (\<lambda>_.
          created_game_reference (\<lambda>reference.
            says
              (told @ (if page \<noteq> [] then txt_pick_first_master @ reference @ [58]
                       else txt_no_other_candidates @ txt_enter_directly))
              (map (\<lambda>c. button (person_label (local_identity c) (Some c))
                      (person_value (asc ''create:master:'') (local_identity c))) page
               @ [button txt_enter_profile_label (asc ''create:master-direct'')]
               @ offset_buttons (asc ''create:master-page:'') offset (length candidates)
                   (asc ''create:master-choice'')))))))"

definition to_master_pick :: button where
  "to_master_pick = back_to (asc ''create:master-pick'')"

definition creation_master_platform_prompt :: "bot_response dialog" where
  "creation_master_platform_prompt =
     says txt_choose_master_bot
       [button (asc ''Telegram'') (asc ''create:master-platform:telegram''),
        button (asc ''VK'') (asc ''create:master-platform:vk''), to_master_pick]"

definition promotion_of_creation :: "user \<Rightarrow> bot_response dialog" where
  "promotion_of_creation target =
     created_game_reference (\<lambda>reference.
       master_promotion_question target (asc ''ADMIN_CREATE_MASTER_PROMOTE_CONFIRM'') reference
         (asc ''create:master-promote:yes'') (asc ''create:master-promote:no''))"

text \<open>Somebody without a role is first made a moderator.\<close>

definition choose_creation_master :: "env \<Rightarrow> user \<Rightarrow> bot_response dialog" where
  "choose_creation_master X target =
     thenDo (ask (has_admin_access X target)) (\<lambda>access.
       if access then creation_schedule_question (Some target) False else promotion_of_creation target)"

definition select_creation_master_profile :: "env \<Rightarrow> pkey \<Rightarrow> ustring \<Rightarrow> bot_response dialog" where
  "select_creation_master_profile X pkey v =
     from_context (asc ''master_profile_platform'') (\<lambda>chosen_platform.
     valued (platform_of_value chosen_platform) (\<lambda>p.
       with_profile X pkey p v to_master_pick (choose_creation_master X)))"

definition stored_offset :: "json_object \<Rightarrow> (int \<Rightarrow> 'a dialog) \<Rightarrow> 'a dialog" where
  "stored_offset ctx k = either (json_number (json_get_or ctx (asc ''master_offset'') (JInt 0))) k"

text \<open>The user the question was about.\<close>

definition promotion_target :: "(user option \<Rightarrow> 'a dialog) \<Rightarrow> 'a dialog" where
  "promotion_target k =
     from_context (asc ''promotion_target_platform'') (\<lambda>s.
     valued (platform_of_value s) (\<lambda>p.
     recall (\<lambda>ctx. needed ctx (asc ''promotion_target_user_id'') (\<lambda>raw.
     either (json_number raw) (\<lambda>i. thenDo (ask (stored_user p i)) k)))))"

definition creation_master_promotion_step :: "env \<Rightarrow> inbound_message \<Rightarrow> ustring \<Rightarrow> bot_response dialog" where
  "creation_master_promotion_step X im v =
     (if v = asc ''create:master-promote:no'' then
        recall (\<lambda>ctx. stored_offset ctx (\<lambda>offset. show_creation_master_candidates X offset txt_master_declined))
      else
        promotion_target (\<lambda>found.
          case found of
            None \<Rightarrow> show_creation_master_candidates X 0 txt_master_gone
          | Some target \<Rightarrow>
              created_game_reference (\<lambda>_.
                if v \<noteq> asc ''create:master-promote:yes'' then promotion_of_creation target
                else
                  thenDo (promote_master_target X im target) (\<lambda>now.
                    creation_schedule_question (Some now) False))))"

definition chosen_master_platform :: "ustring \<Rightarrow> bot_response dialog" where
  "chosen_master_platform v =
     (case dict_get [(asc ''create:master-platform:telegram'', TELEGRAM),
                     (asc ''create:master-platform:vk'', VK)] v of
        None \<Rightarrow> creation_master_platform_prompt
      | Some p \<Rightarrow>
          thenDo (into (asc ''ADMIN_CREATE_MASTER_PROFILE'')) (\<lambda>_.
          thenDo (remember (asc ''master_profile_platform'') (JString (platform_value p))) (\<lambda>_.
            says (if p = TELEGRAM then txt_send_telegram_master else txt_send_vk_master) [to_master_pick])))"

text \<open>\<open>isdecimal\<close>, with the number.\<close>

definition decimal_of :: "ustring \<Rightarrow> nat option" where
  "decimal_of s = (if s \<noteq> [] \<and> list_all is_decimal s then Some (digits_value s) else None)"

definition pick_creation_master :: "env \<Rightarrow> ustring \<Rightarrow> int \<Rightarrow> bot_response dialog" where
  "pick_creation_master X v offset =
     (case (starts_with (asc ''create:master-page:'') v, map decimal_of (drop 2 (split_all v))) of
        (True, [Some n]) \<Rightarrow> show_creation_master_candidates X (int n) []
      | _ \<Rightarrow>
          if v = asc ''create:master-direct'' then
            thenDo (into (asc ''ADMIN_CREATE_MASTER_PLATFORM'')) (\<lambda>_. creation_master_platform_prompt)
          else
            (case (starts_with (asc ''create:master:'') v, split_all v) of
               (True, [_, _, code, n]) \<Rightarrow>
                 (case (platform_from_code code, decimal_of n) of
                    (Some p, Some i) \<Rightarrow>
                      thenDo (ask (stored_user p (int i))) (\<lambda>found.
                        case found of
                          None \<Rightarrow> show_creation_master_candidates X offset txt_only_privileged_masters
                        | Some target \<Rightarrow> choose_creation_master X target)
                  | _ \<Rightarrow> show_creation_master_candidates X offset [])
             | _ \<Rightarrow> show_creation_master_candidates X offset []))"

definition creation_master_step :: "env \<Rightarrow> pkey \<Rightarrow> inbound_message \<Rightarrow> ustring \<Rightarrow> bot_response dialog" where
  "creation_master_step X pkey im v =
     with_user (\<lambda>u. thenDo (ask (is_admin X u)) (\<lambda>admin.
       if \<not> admin then says_cleared txt_insufficient
       else if v = asc ''create:master-self'' then creation_schedule_question (Some u) False
       else if v = asc ''create:master-pick'' then show_creation_master_candidates X 0 []
       else if v = asc ''create:master-later'' then creation_schedule_question None True
       else if state_of u = asc ''ADMIN_CREATE_MASTER_PLATFORM'' then chosen_master_platform v
       else if state_of u = asc ''ADMIN_CREATE_MASTER_PROFILE'' then select_creation_master_profile X pkey v
       else if state_of u = asc ''ADMIN_CREATE_MASTER_PROMOTE_CONFIRM'' then creation_master_promotion_step X im v
       else if state_of u \<noteq> asc ''ADMIN_CREATE_MASTER_PICK'' \<or> v = asc ''create:master-choice''
       then creation_master_question
       else recall (\<lambda>ctx. stored_offset ctx (pick_creation_master X v))))"

section \<open>The game is there\<close>

definition game_created_response ::
    "env \<Rightarrow> event \<Rightarrow> date \<Rightarrow> ustring option \<Rightarrow> bool \<Rightarrow> bot_response service" where
  "game_created_response X e game_date master_label masters_pending =
     (case ev_signup_token e of
        None \<Rightarrow> throw RuntimeError
      | Some signup_token \<Rightarrow>
          andThen (external X (GetSecret (asc ''TG_BOT_USERNAME'')) (xe_secret X)) (\<lambda>telegram_username.
          andThen (external X (GetSecret (asc ''VK_GROUP_ID'')) (xe_secret X)) (\<lambda>vk_group_id.
          andThen (unless_throw (valid_bot_username telegram_username \<and> valid_group_id vk_group_id) RuntimeError) (\<lambda>_.
          andThen (from_sum (table_links_text e)) (\<lambda>table_links.
            ret (response
              (game_created_text X e game_date signup_token telegram_username vk_group_id
                 (if masters_pending then None else master_label) masters_pending table_links)
              [game_management_button (ev_event_id e)]))))))"

text \<open>Constructing a \<open>BotIdentity\<close> validates it.\<close>

definition identity_with :: "platform \<Rightarrow> int \<Rightarrow> (bot_identity \<Rightarrow> 'a dialog) \<Rightarrow> 'a dialog" where
  "identity_with p i k = (if valid_identity (p, i) then k (p, i) else fail ValueError)"

definition finish_game_creation :: "env \<Rightarrow> bot_response dialog" where
  "finish_game_creation X =
     recall (\<lambda>ctx.
     needed_text ctx (asc ''created_event_id'') (\<lambda>event_id.
     thenDo (ask (find_event event_id)) (\<lambda>found.
       case found of
         None \<Rightarrow> says_cleared txt_game_not_found
       | Some e \<Rightarrow>
           needed_text ctx (asc ''master_platform'') (\<lambda>s. valued (platform_of_value s) (\<lambda>p.
           needed ctx (asc ''master_user_id'') (\<lambda>raw. either (json_number raw) (\<lambda>i.
           identity_with p i (\<lambda>who.
           thenDo (ask (stored_user p i)) (\<lambda>master.
           needed_text ctx (asc ''master_grant_request'') (\<lambda>request_id.
           thenDo (case master of
                     None \<Rightarrow> give ()
                   | Some m \<Rightarrow>
                       if told_of request_id m then give ()
                       else notify_status_change X m request_id (txt_you_are_master @ reference_of e @ [46])
                         [button txt_manage_this_game (asc ''ag:manage:'' @ ev_event_id e)]) (\<lambda>_.
           needed_date ctx (asc ''game_date'') (\<lambda>game_date.
           thenDo clear_dialog (\<lambda>_.
             ask (game_created_response X e game_date (Some (person_label who master)) False))))))))))))))"

text \<open>The master chosen for the game; \<open>None\<close> when one is to be assigned later.\<close>

definition creation_master :: "env \<Rightarrow> json_object \<Rightarrow> user option dialog" where
  "creation_master X ctx =
     (if json_get ctx (asc ''assign_master_later'') = JBool True then give None
      else
        needed_text ctx (asc ''master_platform'') (\<lambda>s. valued (platform_of_value s) (\<lambda>p.
        needed ctx (asc ''master_user_id'') (\<lambda>raw. either (json_number raw) (\<lambda>i.
        thenDo (ask (stored_user p i)) (\<lambda>master.
          case master of
            None \<Rightarrow> fail ValueError
          | Some m \<Rightarrow>
              thenDo (ask (has_admin_access X m)) (\<lambda>access. if access then give (Some m) else fail ValueError)))))))"

definition option_json :: "answer_option \<Rightarrow> json" where
  "option_json opt =
     JObject [(asc ''option_id'', JString (op_option_id opt)), (asc ''name'', JString (op_name opt)),
              (asc ''player_amount'', JInt (int (op_player_amount opt)))]"

definition question_json :: "registration_question \<Rightarrow> json" where
  "question_json q =
     JObject [(asc ''text'', JString (qu_text q)), (asc ''options'', JArray (map option_json (qu_options q)))]"

text \<open>\<open>model_validate\<close> of what \<open>model_dump\<close> writes; anything else raises \<open>ValidationError\<close>, a \<open>ValueError\<close>.\<close>

definition option_of_json :: "json \<Rightarrow> answer_option option" where
  "option_of_json v =
     (case v of
        JObject obj \<Rightarrow>
          (case (dict_get obj (asc ''option_id''), dict_get obj (asc ''name''), dict_get obj (asc ''player_amount'')) of
             (Some (JString i), Some (JString n), Some (JInt k)) \<Rightarrow>
               if length obj = 3 \<and> 0 \<le> k
               then option_validate \<lparr>op_option_id = i, op_name = n, op_player_amount = nat k\<rparr> else None
           | _ \<Rightarrow> None)
      | _ \<Rightarrow> None)"

definition question_of_json :: "json \<Rightarrow> registration_question option" where
  "question_of_json v =
     (case v of
        JObject obj \<Rightarrow>
          (case (dict_get obj (asc ''text''), dict_get obj (asc ''options'')) of
             (Some (JString txt), Some (JArray opts)) \<Rightarrow>
               if length obj \<noteq> 2 then None
               else (case those (map option_of_json opts) of
                       None \<Rightarrow> None | Some qs \<Rightarrow> question_validate \<lparr>qu_text = txt, qu_options = qs\<rparr>)
           | _ \<Rightarrow> None)
      | _ \<Rightarrow> None)"

definition question_in :: "json_object \<Rightarrow> (registration_question option \<Rightarrow> 'a dialog) \<Rightarrow> 'a dialog" where
  "question_in ctx k =
     (if json_get ctx (asc ''registration_question'') = JNull then k None
      else valued (question_of_json (json_get ctx (asc ''registration_question''))) (\<lambda>q. k (Some q)))"

text \<open>The files are handed over, or are there already; the context names the game and its master.\<close>

definition game_upload ::
    "env \<Rightarrow> pkey \<Rightarrow> inbound_message \<Rightarrow> json_object \<Rightarrow> date \<Rightarrow> bot_identity option \<Rightarrow> ustring option
       \<Rightarrow> event option dialog" where
  "game_upload X pkey im ctx game_date master master_label =
     needed_text ctx (asc ''event_name'') (\<lambda>n.
     needed ctx (asc ''player_amount'') (\<lambda>raw. either (json_number raw) (\<lambda>player_amount.
     moment_in ctx (asc ''registration_open_at'') (\<lambda>opens.
     moment_in ctx (asc ''confirmation_open_at'') (\<lambda>confirmation.
     moment_in ctx (asc ''confirmation_deadline'') (\<lambda>deadline.
     moment_in ctx (asc ''scheduled_close_at'') (\<lambda>closes.
     question_in ctx (\<lambda>question.
     with_user (\<lambda>u.
       with_announcement X im txt_game_files_pending [back_to MANAGE_GAMES] (asc ''event'')
         (administer_event X pkey n game_date (nat player_amount) (case master of None \<Rightarrow> [] | Some i \<Rightarrow> [i])
            opens confirmation deadline closes question (requested_by im u) master_label (master = None)))))))))))"

definition remember_created :: "inbound_message \<Rightarrow> event \<Rightarrow> bot_identity \<Rightarrow> unit dialog" where
  "remember_created im e i =
     thenDo (remember (asc ''created_event_id'') (JString (ev_event_id e))) (\<lambda>_.
     thenDo (remember_master i) (\<lambda>_.
       remember (asc ''master_grant_request'')
         (JString (person_request (asc ''leader-grant:'' @ ev_event_id e @ [58]) (fst i) (snd i) im))))"

definition after_creation ::
    "env \<Rightarrow> inbound_message \<Rightarrow> date \<Rightarrow> bot_identity option \<Rightarrow> event option \<Rightarrow> bot_response dialog" where
  "after_creation X im game_date master created =
     with_user (\<lambda>u.
       case created of
         None \<Rightarrow>
           thenDo clear_dialog (\<lambda>_.
             give ((response [] [back_to MANAGE_GAMES])
                   \<lparr>br_deferred := (fst (local_identity u) = TELEGRAM), br_silent := True\<rparr>))
       | Some e \<Rightarrow>
           (case master of
              None \<Rightarrow> thenDo clear_dialog (\<lambda>_. ask (game_created_response X e game_date None True))
            | Some i \<Rightarrow>
                if i = local_identity u
                then thenDo clear_dialog (\<lambda>_. ask (game_created_response X e game_date None False))
                else
                  thenDo (remember_created im e i) (\<lambda>_.
                  thenDo (store_user X) (\<lambda>_. finish_game_creation X))))"

definition create_game_dialog :: "env \<Rightarrow> pkey \<Rightarrow> inbound_message \<Rightarrow> bot_response dialog" where
  "create_game_dialog X pkey im =
     recall (\<lambda>ctx. needed_date ctx (asc ''game_date'') (\<lambda>game_date. with_user (\<lambda>u.
       thenDo (trying (creation_master X ctx)) (\<lambda>found.
         case found of
           Inl x \<Rightarrow> if x = ValueError then says_cleared txt_master_lost_role else fail x
         | Inr master \<Rightarrow>
             (let i = map_option local_identity master;
                  master_label = (if i = None \<or> i = Some (local_identity u) then None
                                  else Some (person_label (the i) master))
              in thenDo (game_upload X pkey im ctx game_date i master_label) (after_creation X im game_date i))))))"

section \<open>The schedule of the new game\<close>

definition scheduled_time :: "ustring \<Rightarrow> local_time option" where
  "scheduled_time v = (case parse_scheduled_action_time v of Inl x \<Rightarrow> None | Inr lt \<Rightarrow> Some lt)"

definition deadline_time :: "ustring \<Rightarrow> local_time option" where
  "deadline_time v = (case parse_confirmation_deadline v of Inl x \<Rightarrow> None | Inr lt \<Rightarrow> Some lt)"

definition in_past :: "env \<Rightarrow> local_time \<Rightarrow> bool service" where
  "in_past X lt = andThen (reading X) (\<lambda>now. ret (lt \<le> xe_moscow X now))"

definition not_before :: "env \<Rightarrow> local_time \<Rightarrow> time option \<Rightarrow> bool" where
  "not_before X lt limit \<longleftrightarrow> (case limit of None \<Rightarrow> False | Some t \<Rightarrow> t \<le> xe_instant X lt)"

definition not_after :: "env \<Rightarrow> local_time \<Rightarrow> time option \<Rightarrow> bool" where
  "not_after X lt limit \<longleftrightarrow> (case limit of None \<Rightarrow> False | Some t \<Rightarrow> xe_instant X lt \<le> t)"

definition registration_opens_at :: "env \<Rightarrow> local_time \<Rightarrow> bot_response dialog" where
  "registration_opens_at X lt =
     recall (\<lambda>ctx. moment_in ctx (asc ''scheduled_close_at'') (\<lambda>closes.
       if not_before X lt closes then give (registration_schedule_response AfterClose)
       else
         thenDo (remember (asc ''registration_open_at'') (JString (iso_moscow X lt))) (\<lambda>_.
           creation_confirmation_schedule_question)))"

definition registration_time_step :: "env \<Rightarrow> ustring \<Rightarrow> bot_response dialog" where
  "registration_time_step X v =
     (if v = asc ''create:schedule:nearest-friday'' then
        thenDo (ask (reading X)) (\<lambda>now. registration_opens_at X (closest_friday_18 (xe_moscow X now)))
      else
        (case scheduled_time v of
           None \<Rightarrow> give (registration_schedule_response Malformed)
         | Some lt \<Rightarrow>
             thenDo (ask (in_past X lt)) (\<lambda>past.
               if past then give (registration_schedule_response InPast) else registration_opens_at X lt)))"

definition creation_schedule_step :: "env \<Rightarrow> ustring \<Rightarrow> bot_response dialog" where
  "creation_schedule_step X v =
     with_user (\<lambda>u.
       if dict_get (us_dialog_context (base u)) (asc ''created_event_id'') \<noteq> None then finish_game_creation X
       else
         thenDo (ask (has_admin_access X u)) (\<lambda>access.
           if \<not> access then says_cleared txt_insufficient
           else if state_of u = asc ''ADMIN_CREATE_SCHEDULE_CHOICE'' then
             (if v = asc ''create:schedule:yes'' then
                thenDo (into (asc ''ADMIN_CREATE_SCHEDULE_TIME'')) (\<lambda>_.
                  give (registration_schedule_response NoSlip))
              else if v = asc ''create:schedule:no'' then
                thenDo (drop_entry (asc ''registration_open_at'')) (\<lambda>_. creation_confirmation_schedule_question)
              else creation_schedule_question None False)
           else registration_time_step X v))"

definition no_confirmation_button :: button where
  "no_confirmation_button = button txt_no_confirmation_plan (asc ''create:confirmation:no'')"

definition creation_confirmation_prompt :: "ustring \<Rightarrow> bot_response" where
  "creation_confirmation_prompt invalid =
     scheduled_confirmation_time_response no_confirmation_button (Some (asc ''create:confirmation:tuesday'')) invalid"

definition creation_deadline_prompt :: "ustring \<Rightarrow> bot_response" where
  "creation_deadline_prompt invalid = scheduled_confirmation_deadline_response no_confirmation_button invalid"

text \<open>What is wrong with a time for the opening of confirmation; nothing, when the text is empty.\<close>

definition confirmation_time_fault :: "env \<Rightarrow> local_time \<Rightarrow> bool \<Rightarrow> time option \<Rightarrow> time option \<Rightarrow> ustring" where
  "confirmation_time_fault X lt past opens closes =
     (if past then txt_confirmation_in_past
      else if not_after X lt opens then txt_confirmation_after_registration
      else if not_before X lt closes then txt_confirmation_before_close
      else [])"

definition creation_confirmation_at :: "env \<Rightarrow> local_time \<Rightarrow> bot_response dialog" where
  "creation_confirmation_at X lt =
     recall (\<lambda>ctx.
     thenDo (ask (in_past X lt)) (\<lambda>past.
     moment_in ctx (asc ''registration_open_at'') (\<lambda>opens.
     moment_in ctx (asc ''scheduled_close_at'') (\<lambda>closes.
       let fault = confirmation_time_fault X lt past opens closes
       in if fault \<noteq> [] then give (creation_confirmation_prompt fault)
          else
            thenDo (remember (asc ''confirmation_open_at'') (JString (iso_moscow X lt))) (\<lambda>_.
            thenDo (into (asc ''ADMIN_CREATE_CONFIRMATION_DEADLINE'')) (\<lambda>_.
              give (creation_deadline_prompt [])))))))"

definition creation_confirmation_time :: "env \<Rightarrow> ustring \<Rightarrow> bot_response dialog" where
  "creation_confirmation_time X v =
     (if v = asc ''create:confirmation:tuesday'' then
        recall (\<lambda>ctx. needed_date ctx (asc ''game_date'') (\<lambda>d.
          creation_confirmation_at X (tuesday_before_game_18 d)))
      else
        (case scheduled_time v of
           None \<Rightarrow> give (creation_confirmation_prompt SCHEDULED_TIME_INVALID)
         | Some lt \<Rightarrow> creation_confirmation_at X lt))"

definition creation_deadline :: "env \<Rightarrow> pkey \<Rightarrow> inbound_message \<Rightarrow> ustring \<Rightarrow> bot_response dialog" where
  "creation_deadline X pkey im v =
     (case deadline_time v of
        None \<Rightarrow> give (creation_deadline_prompt txt_bad_deadline)
      | Some lt \<Rightarrow>
          recall (\<lambda>ctx.
          needed_text ctx (asc ''confirmation_open_at'') (\<lambda>s. either (from_iso s) (\<lambda>opens.
          moment_in ctx (asc ''scheduled_close_at'') (\<lambda>closes.
            if not_after X lt (Some opens) then give (creation_deadline_prompt txt_deadline_after_opening)
            else if not_before X lt closes then give (creation_deadline_prompt txt_deadline_before_close)
            else
              thenDo (remember (asc ''confirmation_deadline'') (JString (iso_moscow X lt))) (\<lambda>_.
                create_game_dialog X pkey im))))))"

definition creation_confirmation_schedule_step ::
    "env \<Rightarrow> pkey \<Rightarrow> inbound_message \<Rightarrow> ustring \<Rightarrow> bot_response dialog" where
  "creation_confirmation_schedule_step X pkey im v =
     with_user (\<lambda>u.
       if dict_get (us_dialog_context (base u)) (asc ''created_event_id'') \<noteq> None then finish_game_creation X
       else if v = asc ''create:confirmation:no'' then
         thenDo (drop_entry (asc ''confirmation_open_at'')) (\<lambda>_.
         thenDo (drop_entry (asc ''confirmation_deadline'')) (\<lambda>_. create_game_dialog X pkey im))
       else if state_of u = asc ''ADMIN_CREATE_CONFIRMATION_SCHEDULE_CHOICE'' then
         (if v \<noteq> asc ''create:confirmation:yes'' then creation_confirmation_schedule_question
          else
            thenDo (into (asc ''ADMIN_CREATE_CONFIRMATION_SCHEDULE_TIME'')) (\<lambda>_.
              give (creation_confirmation_prompt [])))
       else if state_of u = asc ''ADMIN_CREATE_CONFIRMATION_SCHEDULE_TIME'' then creation_confirmation_time X v
       else creation_deadline X pkey im v)"

section \<open>The masters of a game\<close>

definition show_event_masters :: "env \<Rightarrow> event \<Rightarrow> bool \<Rightarrow> int \<Rightarrow> bot_response dialog" where
  "show_event_masters X e removing given =
     (if given < 0 then says txt_bad_page []
      else
        thenDo (ask (event_master_records (ev_event_id e))) (\<lambda>all_records.
          let records = (if removing then filter (\<lambda>(i, profile). profile \<noteq> None) all_records else all_records);
              offset = clamped_offset (length records) given; page = page_at offset records
          in thenDo (into (if removing then asc ''ADMIN_EVENT_LEADER_REMOVE'' else asc ''ADMIN_EVENT_LEADER_LIST'')) (\<lambda>_.
             thenDo (new_context [(asc ''event_id'', JString (ev_event_id e)),
                       (asc ''event_name'', JString (ev_name e)), (asc ''master_offset'', JInt offset)]) (\<lambda>_.
               says
                 (if page = [] then (if removing then txt_no_removable_masters else txt_no_masters)
                  else if removing then txt_pick_master_to_remove @ reference_of e @ [58]
                  else txt_masters_of_game @ reference_of e @ [58])
                 (map (\<lambda>(i, profile). button (person_label i profile)
                         (person_value (if removing then asc ''master:remove-pick:'' else asc ''master:view:'') i)) page
                  @ offset_buttons (if removing then asc ''master:remove-page:'' else asc ''master:list-page:'')
                      offset (length records) (asc ''ag:masters:'' @ ev_event_id e))))))"

end
