(* ===== verification/Questions.thy ===== *)
theory Questions
  imports Creation
begin

text \<open>
  The optional question of a game in the dialogues of administrators
  (\<open>application/conversation_questions.py\<close>): asking for it while a game is created, and changing its texts.
\<close>

section \<open>While a game is created\<close>

definition txt_add_question :: ustring where
  "txt_add_question =
     [1044, 1086, 1073, 1072, 1074, 1080, 1090, 1100, 32, 1076, 1086, 1087, 1086, 1083, 1085,
      1080, 1090, 1077, 1083, 1100, 1085, 1099, 1081, 32, 1074, 1086, 1087, 1088, 1086, 1089, 32,
      1089, 32, 1074, 1099, 1073, 1086, 1088, 1086, 1084, 32, 1080, 1079, 32, 1076, 1074, 1091,
      1093, 32, 1086, 1090, 1074, 1077, 1090, 1086, 1074, 32, 1087, 1088, 1080, 32, 1088, 1077,
      1075, 1080, 1089, 1090, 1088, 1072, 1094, 1080, 1080, 63]"

definition txt_player_amount_from :: ustring where
  "txt_player_amount_from =
     [1042, 1074, 1077, 1076, 1080, 1090, 1077, 32, 1082, 1086, 1083, 1080, 1095, 1077, 1089,
      1090, 1074, 1086, 32, 1080, 1075, 1088, 1086, 1082, 1086, 1074, 32, 40, 1086, 1090, 32, 49,
      32, 1076, 1086, 32]"

definition txt_enter_question :: ustring where
  "txt_enter_question =
     [1042, 1074, 1077, 1076, 1080, 1090, 1077, 32, 1090, 1077, 1082, 1089, 1090, 32, 1076, 1086,
      1087, 1086, 1083, 1085, 1080, 1090, 1077, 1083, 1100, 1085, 1086, 1075, 1086, 32, 1074,
      1086, 1087, 1088, 1086, 1089, 1072, 32, 40, 1076, 1086, 32, 53, 48, 48, 32, 1089, 1080,
      1084, 1074, 1086, 1083, 1086, 1074, 41, 58]"

definition txt_enter_question_again :: ustring where
  "txt_enter_question_again =
     [1042, 1074, 1077, 1076, 1080, 1090, 1077, 32, 1085, 1077, 1087, 1091, 1089, 1090, 1086,
      1081, 32, 1090, 1077, 1082, 1089, 1090, 32, 1074, 1086, 1087, 1088, 1086, 1089, 1072, 44,
      32, 1085, 1077, 32, 1076, 1083, 1080, 1085, 1085, 1077, 1077, 32, 53, 48, 48, 32, 1089,
      1080, 1084, 1074, 1086, 1083, 1086, 1074, 58]"

definition txt_enter_first_answer :: ustring where
  "txt_enter_first_answer =
     [1042, 1074, 1077, 1076, 1080, 1090, 1077, 32, 1085, 1072, 1079, 1074, 1072, 1085, 1080,
      1077, 32, 1087, 1077, 1088, 1074, 1086, 1075, 1086, 32, 1086, 1090, 1074, 1077, 1090, 1072,
      32, 40, 1076, 1086, 32, 51, 49, 32, 1089, 1080, 1084, 1074, 1086, 1083, 1072, 44, 32, 1086,
      1085, 1086, 32, 1089, 1090, 1072, 1085, 1077, 1090, 32, 1085, 1072, 1079, 1074, 1072, 1085,
      1080, 1077, 1084, 32, 1083, 1080, 1089, 1090, 1072, 41, 58]"

definition txt_other_name :: ustring where
  "txt_other_name =
     [1042, 1074, 1077, 1076, 1080, 1090, 1077, 32, 1086, 1090, 1083, 1080, 1095, 1072, 1102,
      1097, 1077, 1077, 1089, 1103, 32, 1085, 1072, 1079, 1074, 1072, 1085, 1080, 1077, 58, 32,
      49, 8211, 51, 49, 32, 1089, 1080, 1084, 1074, 1086, 1083, 44, 32, 1073, 1077, 1079, 32, 92,
      32, 47, 32, 42, 32, 63, 32, 58, 32, 91, 32, 93, 44, 32]"

definition txt_other_name_rest :: ustring where
  "txt_other_name_rest =
     [1091, 1087, 1088, 1072, 1074, 1083, 1103, 1102, 1097, 1080, 1093, 32, 1089, 1080, 1084,
      1074, 1086, 1083, 1086, 1074, 32, 1080, 32, 1082, 1088, 1072, 1081, 1085, 1080, 1093, 32,
      1072, 1087, 1086, 1089, 1090, 1088, 1086, 1092, 1086, 1074, 46, 32, 1053, 1072, 1079, 1074,
      1072, 1085, 1080, 1077, 32, 72, 105, 115, 116, 111, 114, 121, 32, 1085, 1077, 1076, 1086,
      1089, 1090, 1091, 1087, 1085, 1086, 46]"

definition txt_how_many_places :: ustring where
  "txt_how_many_places =
     [1057, 1082, 1086, 1083, 1100, 1082, 1086, 32, 1086, 1089, 1085, 1086, 1074, 1085, 1099,
      1093, 32, 1084, 1077, 1089, 1090, 32, 1076, 1083, 1103, 32, 1086, 1090, 1074, 1077, 1090,
      1072, 32, 171]"

definition txt_whole_number_to :: ustring where
  "txt_whole_number_to =
     [187, 63, 32, 1042, 1074, 1077, 1076, 1080, 1090, 1077, 32, 1094, 1077, 1083, 1086, 1077,
      32, 1095, 1080, 1089, 1083, 1086, 32, 1086, 1090, 32, 49, 32, 1076, 1086, 32]"

definition txt_whole_number_from :: ustring where
  "txt_whole_number_from =
     [1042, 1074, 1077, 1076, 1080, 1090, 1077, 32, 1094, 1077, 1083, 1086, 1077, 32, 1095, 1080,
      1089, 1083, 1086, 32, 1086, 1090, 32, 49, 32, 1076, 1086, 32]"

definition txt_enter_second_answer :: ustring where
  "txt_enter_second_answer =
     [1042, 1074, 1077, 1076, 1080, 1090, 1077, 32, 1085, 1072, 1079, 1074, 1072, 1085, 1080,
      1077, 32, 1074, 1090, 1086, 1088, 1086, 1075, 1086, 32, 1086, 1090, 1074, 1077, 1090, 1072,
      32, 40, 1076, 1086, 32, 51, 49, 32, 1089, 1080, 1084, 1074, 1086, 1083, 1072, 41, 58]"

definition txt_no_question :: ustring where
  "txt_no_question =
     [1042, 32, 1101, 1090, 1086, 1081, 32, 1080, 1075, 1088, 1077, 32, 1085, 1077, 1090, 32,
      1076, 1086, 1087, 1086, 1083, 1085, 1080, 1090, 1077, 1083, 1100, 1085, 1086, 1075, 1086,
      32, 1074, 1086, 1087, 1088, 1086, 1089, 1072, 46]"

definition txt_question_is :: ustring where
  "txt_question_is =
     [1044, 1086, 1087, 1086, 1083, 1085, 1080, 1090, 1077, 1083, 1100, 1085, 1099, 1081, 32,
      1074, 1086, 1087, 1088, 1086, 1089, 58, 32]"

definition txt_limit :: ustring where
  "txt_limit = [58, 32, 1083, 1080, 1084, 1080, 1090, 32]"

definition txt_change_question :: ustring where
  "txt_change_question =
     [1048, 1079, 1084, 1077, 1085, 1080, 1090, 1100, 32, 1090, 1077, 1082, 1089, 1090, 32, 1074,
      1086, 1087, 1088, 1086, 1089, 1072]"

definition txt_change_answer_of :: ustring where
  "txt_change_answer_of =
     [1048, 1079, 1084, 1077, 1085, 1080, 1090, 1100, 32, 1086, 1090, 1074, 1077, 1090, 32, 171]"

definition txt_question_unavailable_edit :: ustring where
  "txt_question_unavailable_edit =
     [1044, 1086, 1087, 1086, 1083, 1085, 1080, 1090, 1077, 1083, 1100, 1085, 1099, 1081, 32,
      1074, 1086, 1087, 1088, 1086, 1089, 32, 1085, 1077, 1076, 1086, 1089, 1090, 1091, 1087,
      1077, 1085, 32, 1076, 1083, 1103, 32, 1080, 1079, 1084, 1077, 1085, 1077, 1085, 1080, 1103,
      46]"

definition txt_enter_new_question :: ustring where
  "txt_enter_new_question =
     [1042, 1074, 1077, 1076, 1080, 1090, 1077, 32, 1085, 1086, 1074, 1099, 1081, 32, 1090, 1077,
      1082, 1089, 1090, 32, 1074, 1086, 1087, 1088, 1086, 1089, 1072, 32, 40, 1076, 1086, 32, 53,
      48, 48, 32, 1089, 1080, 1084, 1074, 1086, 1083, 1086, 1074, 41, 58]"

definition txt_enter_new_answer :: ustring where
  "txt_enter_new_answer =
     [1042, 1074, 1077, 1076, 1080, 1090, 1077, 32, 1085, 1086, 1074, 1086, 1077, 32, 1085, 1072,
      1079, 1074, 1072, 1085, 1080, 1077, 32, 1086, 1090, 1074, 1077, 1090, 1072, 32, 40, 1076,
      1086, 32, 51, 49, 32, 1089, 1080, 1084, 1074, 1086, 1083, 1072, 41, 46, 32, 1048, 1075,
      1088, 1086, 1082, 1080, 32, 1080, 32, 1080, 1093, 32, 1084, 1077, 1089, 1090, 1072, 32,
      1089, 1086, 1093, 1088, 1072, 1085, 1103, 1090, 1089, 1103, 58]"

definition txt_bad_question :: ustring where
  "txt_bad_question =
     [1053, 1077, 1082, 1086, 1088, 1088, 1077, 1082, 1090, 1085, 1099, 1081, 32, 1090, 1077,
      1082, 1089, 1090, 46, 32, 1042, 1086, 1087, 1088, 1086, 1089, 58, 32, 49, 8211, 53, 48, 48,
      32, 1089, 1080, 1084, 1074, 1086, 1083, 1086, 1074, 46, 32, 1053, 1072, 1079, 1074, 1072,
      1085, 1080, 1077, 32, 1086, 1090, 1074, 1077, 1090, 1072, 58, 32, 49, 8211, 51, 49, 32,
      1089, 1080, 1084, 1074, 1086, 1083, 44, 32]"

definition txt_bad_question_chars :: ustring where
  "txt_bad_question_chars =
     [1073, 1077, 1079, 32, 92, 32, 47, 32, 42, 32, 63, 32, 58, 32, 91, 32, 93, 44, 32, 1091,
      1087, 1088, 1072, 1074, 1083, 1103, 1102, 1097, 1080, 1093, 32, 1089, 1080, 1084, 1074,
      1086, 1083, 1086, 1074, 32, 1080, 32, 1082, 1088, 1072, 1081, 1085, 1080, 1093, 32, 1072,
      1087, 1086, 1089, 1090, 1088, 1086, 1092, 1086, 1074, 46, 32]"

definition txt_bad_question_rest :: ustring where
  "txt_bad_question_rest =
     [1054, 1090, 1074, 1077, 1090, 1099, 32, 1076, 1086, 1083, 1078, 1085, 1099, 32, 1088, 1072,
      1079, 1083, 1080, 1095, 1072, 1090, 1100, 1089, 1103, 59, 32, 72, 105, 115, 116, 111, 114,
      121, 32, 1085, 1077, 1076, 1086, 1089, 1090, 1091, 1087, 1085, 1086, 46]"

definition creation_question_prompt :: "bot_response dialog" where
  "creation_question_prompt =
     thenDo (into (asc ''ADMIN_QUESTION_CREATE_CHOICE'')) (\<lambda>_.
       says txt_add_question [button YES (asc ''rq:create:yes''), button NO (asc ''rq:create:no'')])"

definition question_choice :: "ustring \<Rightarrow> bot_response dialog" where
  "question_choice v =
     (if v = asc ''rq:create:no'' then
        thenDo (into (asc ''ADMIN_CREATE_PLAYER_AMOUNT'')) (\<lambda>_.
          says (txt_player_amount_from @ show_nat MAX_PLAYER_AMOUNT @ [41, 58]) [])
      else if v \<noteq> asc ''rq:create:yes'' then creation_question_prompt
      else thenDo (into (asc ''ADMIN_QUESTION_CREATE_TEXT'')) (\<lambda>_. says txt_enter_question []))"

definition question_text_step :: "ustring \<Rightarrow> bot_response dialog" where
  "question_text_step v =
     (if strip v = [] \<or> 500 < length (strip v) then says txt_enter_question_again []
      else
        thenDo (remember (asc ''question_text'') (JString (strip v))) (\<lambda>_.
        thenDo (remember (asc ''question_options'') (JArray [])) (\<lambda>_.
        thenDo (into (asc ''ADMIN_QUESTION_CREATE_NAME'')) (\<lambda>_. says txt_enter_first_answer []))))"

text \<open>The answers collected so far, and how many places are left for the next; one stays for the second.\<close>

definition collected_options :: "json_object \<Rightarrow> (answer_option list \<Rightarrow> 'a dialog) \<Rightarrow> 'a dialog" where
  "collected_options ctx k =
     (case json_get_or ctx (asc ''question_options'') (JArray []) of
        JArray raw \<Rightarrow> valued (those (map option_of_json raw)) k
      | _ \<Rightarrow> fail TypeError)"

definition places_left :: "answer_option list \<Rightarrow> nat" where
  "places_left opts =
     MAX_PLAYER_AMOUNT - sum_list (map op_player_amount opts) - (if opts = [] then 1 else 0)"

definition new_option :: "answer_option list \<Rightarrow> ustring \<Rightarrow> nat \<Rightarrow> answer_option option" where
  "new_option opts n places =
     option_validate
       \<lparr>op_option_id = show_nat (length opts + 1), op_name = n, op_player_amount = places\<rparr>"

definition question_name_step :: "ustring \<Rightarrow> answer_option list \<Rightarrow> bot_response dialog" where
  "question_name_step v opts =
     (case new_option opts (strip v) 1 of
        None \<Rightarrow> says (txt_other_name @ txt_other_name_rest) []
      | Some opt \<Rightarrow>
          if list_ex (\<lambda>existing. casefold (op_name existing) = casefold (op_name opt)) opts
          then says (txt_other_name @ txt_other_name_rest) []
          else
            thenDo (remember (asc ''question_option_name'') (JString (op_name opt))) (\<lambda>_.
            thenDo (into (asc ''ADMIN_QUESTION_CREATE_CAPACITY'')) (\<lambda>_.
              says (txt_how_many_places @ op_name opt @ txt_whole_number_to @ show_nat (places_left opts) @ [58]) [])))"

definition question_collected :: "env \<Rightarrow> answer_option list \<Rightarrow> bot_response dialog" where
  "question_collected X opts =
     from_context (asc ''question_text'') (\<lambda>txt.
     valued (question_validate \<lparr>qu_text = txt, qu_options = opts\<rparr>) (\<lambda>q.
     thenDo (remember (asc ''registration_question'') (question_json q)) (\<lambda>_.
     thenDo (remember (asc ''player_amount'') (JInt (int (sum_list (map op_player_amount opts))))) (\<lambda>_.
     with_user (\<lambda>u. thenDo (ask (is_admin X u)) (\<lambda>admin.
       if admin then creation_master_question else creation_schedule_question (Some u) False))))))"

definition question_capacity_step :: "env \<Rightarrow> ustring \<Rightarrow> answer_option list \<Rightarrow> bot_response dialog" where
  "question_capacity_step X v opts =
     (case decimal_of v of
        None \<Rightarrow> says (txt_whole_number_from @ show_nat (places_left opts) @ [58]) []
      | Some places \<Rightarrow>
          if places < 1 \<or> places_left opts < places
          then says (txt_whole_number_from @ show_nat (places_left opts) @ [58]) []
          else
            from_context (asc ''question_option_name'') (\<lambda>n.
            valued (new_option opts n places) (\<lambda>opt.
            thenDo (remember (asc ''question_options'') (JArray (map option_json (opts @ [opt])))) (\<lambda>_.
              if length (opts @ [opt]) < 2
              then thenDo (into (asc ''ADMIN_QUESTION_CREATE_NAME'')) (\<lambda>_. says txt_enter_second_answer [])
              else question_collected X (opts @ [opt])))))"

definition question_creation_step :: "env \<Rightarrow> ustring \<Rightarrow> bot_response dialog" where
  "question_creation_step X v =
     with_user (\<lambda>u.
       if state_of u = asc ''ADMIN_QUESTION_CREATE_CHOICE'' then question_choice v
       else if state_of u = asc ''ADMIN_QUESTION_CREATE_TEXT'' then question_text_step v
       else
         recall (\<lambda>ctx. collected_options ctx (\<lambda>opts.
           if state_of u = asc ''ADMIN_QUESTION_CREATE_NAME'' then question_name_step v opts
           else question_capacity_step X v opts)))"

section \<open>Changing the texts\<close>

definition question_edit_menu :: "event \<Rightarrow> bot_response dialog" where
  "question_edit_menu e =
     (case ev_registration_question e of
        None \<Rightarrow> says txt_no_question [edit_game_button (ev_event_id e)]
      | Some q \<Rightarrow>
          thenDo (into (asc ''ADMIN_QUESTION_EDIT_MENU'')) (\<lambda>_.
          thenDo (new_context [(asc ''event_id'', JString (ev_event_id e))]) (\<lambda>_.
            says
              (txt_question_is @ qu_text q @ [10, 10]
               @ join_with 10 (map (\<lambda>opt. op_name opt @ txt_limit @ show_nat (op_player_amount opt)) (qu_options q)))
              ([button txt_change_question (asc ''rq:edit:text'')]
               @ map (\<lambda>opt. button (txt_change_answer_of @ op_name opt @ [187])
                         (asc ''rq:edit:name:'' @ op_option_id opt)) (qu_options q)
               @ [edit_game_button (ev_event_id e)]))))"

definition question_edit_choice :: "event \<Rightarrow> registration_question \<Rightarrow> ustring \<Rightarrow> bot_response dialog" where
  "question_edit_choice e q v =
     (let field = remove_prefix (asc ''rq:edit:name:'') v;
          asks = (\<lambda>name prompt.
            thenDo (remember (asc ''question_field'') (JString name)) (\<lambda>_.
            thenDo (into (asc ''ADMIN_QUESTION_EDIT_VALUE'')) (\<lambda>_.
              says prompt [edit_game_button (ev_event_id e)])))
      in if v = asc ''rq:edit:text'' then asks (asc ''text'') txt_enter_new_question
         else if starts_with (asc ''rq:edit:name:'') v \<and> question_option q (Some field) \<noteq> None
         then asks field txt_enter_new_answer
         else question_edit_menu e)"

text \<open>The question with one text replaced.\<close>

definition changed_question :: "registration_question \<Rightarrow> ustring \<Rightarrow> ustring \<Rightarrow> registration_question" where
  "changed_question q field v =
     (if field = asc ''text'' then q\<lparr>qu_text := strip v\<rparr>
      else q\<lparr>qu_options :=
             map (\<lambda>opt. if op_option_id opt = field then opt\<lparr>op_name := strip v\<rparr> else opt) (qu_options q)\<rparr>)"

definition question_edit_value ::
    "env \<Rightarrow> pkey \<Rightarrow> inbound_message \<Rightarrow> event \<Rightarrow> registration_question \<Rightarrow> ustring \<Rightarrow> bot_response dialog" where
  "question_edit_value X pkey im e q v =
     from_context (asc ''question_field'') (\<lambda>field.
       case question_validate (changed_question q field v) of
         None \<Rightarrow>
           says (txt_bad_question @ txt_bad_question_chars @ txt_bad_question_rest) [edit_game_button (ev_event_id e)]
       | Some changed \<Rightarrow>
           thenDo (order_with X pkey im UPDATE_QUESTION (asc ''UPDATE_QUESTION'') (ev_event_id e)
                     (QuestionPayload changed)
                     (reply_with (im_chat_id im) (im_peer_id im) [] [edit_game_button (ev_event_id e)]) None) (\<lambda>_.
           thenDo clear_dialog (\<lambda>_. accepted txt_change_accepted [])))"

definition question_edit_step :: "env \<Rightarrow> pkey \<Rightarrow> inbound_message \<Rightarrow> ustring \<Rightarrow> bot_response dialog" where
  "question_edit_step X pkey im v =
     from_context (asc ''event_id'') (\<lambda>event_id.
     thenDo (ask (find_event event_id)) (\<lambda>found.
       case found of
         None \<Rightarrow> says_cleared txt_game_not_found
       | Some e \<Rightarrow>
           thenDo (event_leader_required X (ev_event_id e)) (\<lambda>denied.
             case denied of
               Some refusal \<Rightarrow> thenDo clear_dialog (\<lambda>_. give refusal)
             | None \<Rightarrow>
                 (case (ev_archived_at e, ev_registration_question e) of
                    (None, Some q) \<Rightarrow>
                      with_user (\<lambda>u.
                        if state_of u = asc ''ADMIN_QUESTION_EDIT_MENU'' then question_edit_choice e q v
                        else question_edit_value X pkey im e q v)
                  | _ \<Rightarrow> says_cleared txt_question_unavailable_edit))))"

end
