(* ===== verification/Games.thy ===== *)
theory Games
  imports Questions
begin

text \<open>
  A game under administration (\<open>application/conversation_admin_games.py\<close>): its card and menus, its schedule, its
  notifications and files, and the commands that open a dialogue about it.
\<close>

section \<open>The card of a game\<close>

definition txt_management_of :: ustring where
  "txt_management_of =
     [1059, 1087, 1088, 1072, 1074, 1083, 1077, 1085, 1080, 1077, 32, 1080, 1075, 1088, 1086,
      1081, 32]"

definition txt_player_amount_line :: ustring where
  "txt_player_amount_line =
     [1050, 1086, 1083, 1080, 1095, 1077, 1089, 1090, 1074, 1086, 32, 1080, 1075, 1088, 1086,
      1082, 1086, 1074, 58, 32]"

definition txt_status_archived :: ustring where
  "txt_status_archived =
     [1057, 1090, 1072, 1090, 1091, 1089, 58, 32, 1040, 1088, 1093, 1080, 1074, 1080, 1088, 1086,
      1074, 1072, 1085, 1072, 10, 10]"

definition txt_unarchive_to_return :: ustring where
  "txt_unarchive_to_return =
     [1056, 1072, 1079, 1072, 1088, 1093, 1080, 1074, 1080, 1088, 1091, 1081, 1090, 1077, 32,
      1080, 1075, 1088, 1091, 44, 32, 1095, 1090, 1086, 1073, 1099, 32, 1074, 1077, 1088, 1085,
      1091, 1090, 1100, 32, 1077, 1105, 32, 1074, 32, 1089, 1087, 1080, 1089, 1086, 1082, 32,
      1091, 1087, 1088, 1072, 1074, 1083, 1077, 1085, 1080, 1103, 44, 32]"

definition txt_or_delete_for_good :: ustring where
  "txt_or_delete_for_good =
     [1080, 1083, 1080, 32, 1091, 1076, 1072, 1083, 1080, 1090, 1077, 32, 1077, 1105, 32, 1073,
      1077, 1079, 32, 1074, 1086, 1079, 1084, 1086, 1078, 1085, 1086, 1089, 1090, 1080, 32, 1074,
      1086, 1089, 1089, 1090, 1072, 1085, 1086, 1074, 1083, 1077, 1085, 1080, 1103, 46]"

definition txt_signup_link_line :: ustring where
  "txt_signup_link_line =
     [1057, 1089, 1099, 1083, 1082, 1072, 32, 1076, 1083, 1103, 32, 1079, 1072, 1087, 1080, 1089,
      1080, 58, 32]"

definition txt_no_signup_link :: ustring where
  "txt_no_signup_link =
     [1085, 1077, 1076, 1086, 1089, 1090, 1091, 1087, 1085, 1072, 32, 1076, 1083, 1103, 32, 1089,
      1090, 1072, 1088, 1086, 1081, 32, 1080, 1075, 1088, 1099]"

definition txt_telegram_post_line :: ustring where
  "txt_telegram_post_line =
     [1055, 1086, 1089, 1090, 32, 1074, 32, 84, 101, 108, 101, 103, 114, 97, 109, 58, 32]"

definition txt_vk_post_line :: ustring where
  "txt_vk_post_line = [1055, 1086, 1089, 1090, 32, 1074, 1086, 32, 86, 75, 58, 32]"

definition txt_post_not_added :: ustring where
  "txt_post_not_added = [1085, 1077, 32, 1076, 1086, 1073, 1072, 1074, 1083, 1077, 1085]"

definition txt_registration_opening_line :: ustring where
  "txt_registration_opening_line =
     [10, 1054, 1090, 1082, 1088, 1099, 1090, 1080, 1077, 32, 1088, 1077, 1075, 1080, 1089, 1090,
      1088, 1072, 1094, 1080, 1080, 58, 32]"

definition txt_closing_line :: ustring where
  "txt_closing_line =
     [10, 1040, 1074, 1090, 1086, 1084, 1072, 1090, 1080, 1095, 1077, 1089, 1082, 1086, 1077, 32,
      1079, 1072, 1082, 1088, 1099, 1090, 1080, 1077, 58, 32]"

definition txt_deadline_line :: ustring where
  "txt_deadline_line =
     [10, 1044, 1077, 1076, 1083, 1072, 1081, 1085, 32, 1087, 1086, 1076, 1090, 1074, 1077, 1088,
      1078, 1076, 1077, 1085, 1080, 1103, 58, 32]"

definition txt_master_table_line :: ustring where
  "txt_master_table_line =
     [10, 10, 1040, 1076, 1084, 1080, 1085, 1080, 1089, 1090, 1088, 1072, 1090, 1080, 1074, 1085,
      1072, 1103, 32, 1090, 1072, 1073, 1083, 1080, 1094, 1072, 32, 40, 71, 111, 111, 103, 108,
      101, 32, 68, 114, 105, 118, 101, 41, 58, 10]"

definition txt_link_not_ready :: ustring where
  "txt_link_not_ready =
     [1057, 1089, 1099, 1083, 1082, 1072, 32, 1077, 1097, 1105, 32, 1085, 1077, 32, 1087, 1086,
      1076, 1075, 1086, 1090, 1086, 1074, 1083, 1077, 1085, 1072]"

definition txt_view_only :: ustring where
  "txt_view_only =
     [10, 10, 1044, 1086, 1089, 1090, 1091, 1087, 1077, 1085, 32, 1087, 1088, 1086, 1089, 1084,
      1086, 1090, 1088, 32, 1076, 1072, 1085, 1085, 1099, 1093, 32, 1080, 1075, 1088, 1099, 58]"

definition txt_masters_only_actions :: ustring where
  "txt_masters_only_actions =
     [10, 10, 1040, 1076, 1084, 1080, 1085, 1080, 1089, 1090, 1088, 1072, 1090, 1080, 1074, 1085,
      1099, 1077, 32, 1076, 1077, 1081, 1089, 1090, 1074, 1080, 1103, 32, 1076, 1086, 1089, 1090,
      1091, 1087, 1085, 1099, 32, 1090, 1086, 1083, 1100, 1082, 1086, 32, 1084, 1072, 1089, 1090,
      1077, 1088, 1072, 1084, 32, 1101, 1090, 1086, 1081, 32, 1080, 1075, 1088, 1099, 46]"

definition txt_choose_game_action :: ustring where
  "txt_choose_game_action =
     [10, 10, 1042, 1099, 1073, 1077, 1088, 1080, 1090, 1077, 32, 1076, 1077, 1081, 1089, 1090,
      1074, 1080, 1077, 58]"

definition txt_registration_open_already :: ustring where
  "txt_registration_open_already =
     [1088, 1077, 1075, 1080, 1089, 1090, 1088, 1072, 1094, 1080, 1103, 32, 1091, 1078, 1077, 32,
      1086, 1090, 1082, 1088, 1099, 1090, 1072]"

definition txt_confirmation_open_already :: ustring where
  "txt_confirmation_open_already =
     [1087, 1086, 1076, 1090, 1074, 1077, 1088, 1078, 1076, 1077, 1085, 1080, 1077, 32, 1091,
      1078, 1077, 32, 1086, 1090, 1082, 1088, 1099, 1090, 1086]"

definition txt_not_planned :: ustring where
  "txt_not_planned =
     [1085, 1077, 32, 1079, 1072, 1087, 1083, 1072, 1085, 1080, 1088, 1086, 1074, 1072, 1085,
      1086]"

definition txt_in_moscow_time :: ustring where
  "txt_in_moscow_time = [32, 40, 1052, 1057, 1050, 41]"

definition txt_and_deadline :: ustring where
  "txt_and_deadline = [1076, 1077, 1076, 1083, 1072, 1081, 1085, 32]"

definition txt_registration_opening :: ustring where
  "txt_registration_opening =
     [1054, 1090, 1082, 1088, 1099, 1090, 1080, 1077, 32, 1088, 1077, 1075, 1080, 1089, 1090,
      1088, 1072, 1094, 1080, 1080]"

definition txt_confirmation_opening :: ustring where
  "txt_confirmation_opening =
     [1054, 1090, 1082, 1088, 1099, 1090, 1080, 1077, 32, 1087, 1086, 1076, 1090, 1074, 1077,
      1088, 1078, 1076, 1077, 1085, 1080, 1103]"

definition txt_game_closing :: ustring where
  "txt_game_closing = [1047, 1072, 1082, 1088, 1099, 1090, 1080, 1077, 32, 1080, 1075, 1088, 1099]"

definition txt_planned_of :: ustring where
  "txt_planned_of =
     [1047, 1072, 1087, 1083, 1072, 1085, 1080, 1088, 1086, 1074, 1072, 1085, 1085, 1099, 1077,
      32, 1089, 1086, 1073, 1099, 1090, 1080, 1103, 32, 1080, 1075, 1088, 1099, 32]"

definition txt_clear_registration :: ustring where
  "txt_clear_registration =
     [1054, 1090, 1084, 1077, 1085, 1080, 1090, 1100, 32, 1088, 1072, 1089, 1087, 1080, 1089,
      1072, 1085, 1080, 1077, 32, 1080, 32, 1086, 1090, 1082, 1088, 1099, 1090, 1100, 32, 1088,
      1077, 1075, 1080, 1089, 1090, 1088, 1072, 1094, 1080, 1102]"

definition txt_enter_new_opening :: ustring where
  "txt_enter_new_opening =
     [1042, 1074, 1077, 1076, 1080, 1090, 1077, 32, 1085, 1086, 1074, 1086, 1077, 32, 1074, 1088,
      1077, 1084, 1103, 32, 1086, 1090, 1082, 1088, 1099, 1090, 1080, 1103, 32, 1088, 1077, 1075,
      1080, 1089, 1090, 1088, 1072, 1094, 1080, 1080, 32, 1089, 1090, 1088, 1086, 1075, 1086, 32,
      1074, 32, 1092, 1086, 1088, 1084, 1072, 1090, 1077, 32, 68, 68, 46, 77, 77, 46, 89, 89, 32,
      72, 72, 58, 77, 77, 46, 32]"

definition txt_clear_confirmation :: ustring where
  "txt_clear_confirmation =
     [1054, 1090, 1084, 1077, 1085, 1080, 1090, 1100, 32, 1086, 1090, 1082, 1088, 1099, 1090,
      1080, 1077, 32, 1087, 1086, 1076, 1090, 1074, 1077, 1088, 1078, 1076, 1077, 1085, 1080,
      1103]"

definition txt_notifications_of :: ustring where
  "txt_notifications_of =
     [1059, 1074, 1077, 1076, 1086, 1084, 1083, 1077, 1085, 1080, 1103, 32, 1080, 1075, 1088,
      1099, 32]"

definition txt_edit_of :: ustring where
  "txt_edit_of = [1048, 1079, 1084, 1077, 1085, 1080, 1090, 1100, 32, 1080, 1075, 1088, 1091, 32]"

definition txt_optional_question :: ustring where
  "txt_optional_question =
     [1044, 1086, 1087, 1086, 1083, 1085, 1080, 1090, 1077, 1083, 1100, 1085, 1099, 1081, 32,
      1074, 1086, 1087, 1088, 1086, 1089]"

definition txt_files_of :: ustring where
  "txt_files_of = [1060, 1072, 1081, 1083, 1099, 32, 1080, 1075, 1088, 1099, 32]"

definition txt_players_of :: ustring where
  "txt_players_of =
     [1059, 1087, 1088, 1072, 1074, 1083, 1077, 1085, 1080, 1077, 32, 1080, 1075, 1088, 1086,
      1082, 1072, 1084, 1080, 32, 1080, 1075, 1088, 1099, 32]"

definition telegram_signup_link :: "env \<Rightarrow> event \<Rightarrow> ustring option service" where
  "telegram_signup_link X e =
     (case ev_signup_token e of
        None \<Rightarrow> ret None
      | Some token \<Rightarrow>
          andThen (external X (GetSecret (asc ''TG_BOT_USERNAME'')) (xe_secret X)) (\<lambda>telegram_username.
            if valid_bot_username telegram_username
            then ret (Some (asc ''https://t.me/'' @ telegram_username @ asc ''?start='' @ token))
            else throw RuntimeError))"

definition moscow_text :: "env \<Rightarrow> time \<Rightarrow> ustring" where
  "moscow_text X t = shown_time X t @ txt_in_moscow_time"

definition archived_card :: "event \<Rightarrow> bot_response dialog" where
  "archived_card e =
     says (txt_management_of @ reference_of e @ [10, 10] @ txt_player_amount_line @ show_nat (ev_player_amount e)
           @ [10] @ txt_status_archived @ txt_unarchive_to_return @ txt_or_delete_for_good)
       [button UNARCHIVE_GAME (asc ''ag:unarchive:'' @ ev_event_id e),
        button DELETE_GAME (asc ''ag:delete:'' @ ev_event_id e), back_to ARCHIVED_GAMES]"

definition card_text :: "env \<Rightarrow> event \<Rightarrow> ustring option \<Rightarrow> time \<Rightarrow> bool \<Rightarrow> ustring" where
  "card_text X e signup_link now sees_table =
     txt_management_of @ reference_of e @ [10, 10]
     @ txt_player_amount_line @ show_nat (ev_player_amount e) @ [10]
     @ txt_status_line @ event_status_label (ev_status e) @ [10]
     @ txt_signup_link_line @ text_or signup_link txt_no_signup_link @ [10]
     @ txt_telegram_post_line @ text_or (ev_telegram_post_url e) txt_post_not_added @ [10]
     @ txt_vk_post_line @ text_or (ev_vk_post_url e) txt_post_not_added
     @ (case ev_registration_open_at e of
          Some t \<Rightarrow> if registration_is_open e now then [] else txt_registration_opening_line @ moscow_text X t
        | None \<Rightarrow> [])
     @ (case ev_scheduled_close_at e of None \<Rightarrow> [] | Some t \<Rightarrow> txt_closing_line @ moscow_text X t)
     @ (case ev_confirmation_deadline e of None \<Rightarrow> [] | Some t \<Rightarrow> txt_deadline_line @ shown_time X t)
     @ (if sees_table
        then txt_master_table_line @ text_or (ev_master_table_google_url e) txt_link_not_ready @ [10, 10]
             @ MASTER_TABLE_DISCLAIMER
        else [])"

definition game_button :: "event \<Rightarrow> ustring \<Rightarrow> ustring \<Rightarrow> button" where
  "game_button e label action = button label (asc ''ag:'' @ action @ [58] @ ev_event_id e)"

definition managed_card :: "event \<Rightarrow> bool \<Rightarrow> ustring \<Rightarrow> bot_response dialog" where
  "managed_card e admin txt =
     says (txt @ txt_choose_game_action)
       ([game_button e EDIT_GAME (asc ''edit''), game_button e MANAGE_SCHEDULED_EVENTS (asc ''schedule''),
         game_button e MANAGE_NOTIFICATIONS (asc ''notifications''), game_button e MANAGE_PLAYERS (asc ''players''),
         game_button e GAME_FILES (asc ''files''), game_button e MANAGE_MASTERS (asc ''masters'')]
        @ (if admin then [button STATS_ADD_GAME (asc ''stats:game-manage:'' @ ev_event_id e)] else [])
        @ [back_to MANAGE_GAMES])"

definition viewed_card :: "event \<Rightarrow> ustring \<Rightarrow> bot_response dialog" where
  "viewed_card e txt =
     says (txt @ txt_view_only)
       [game_button e MANAGE_PLAYERS (asc ''players''), game_button e GAME_FILES (asc ''files''),
        button LIST_EVENT_LEADERS (asc ''master:list:'' @ ev_event_id e), back_to MANAGE_GAMES]"

definition game_management :: "env \<Rightarrow> event \<Rightarrow> bot_response dialog" where
  "game_management X e =
     with_user (\<lambda>u.
       if ev_archived_at e \<noteq> None then
         thenDo (ask (is_admin X u)) (\<lambda>admin.
           if admin then archived_card e else says txt_game_not_found [back_to MANAGE_GAMES])
       else
         thenDo (ask (is_event_leader u (ev_event_id e))) (\<lambda>leader.
         thenDo (ask (is_admin X u)) (\<lambda>admin.
         thenDo (ask (can_view_unassigned_games X u)) (\<lambda>viewer.
         thenDo (ask (telegram_signup_link X e)) (\<lambda>signup_link.
         thenDo (ask (reading X)) (\<lambda>now.
           let txt = card_text X e signup_link now (leader \<or> admin \<or> viewer)
           in if leader \<or> admin then managed_card e admin txt
              else if viewer then viewed_card e txt
              else says (txt @ txt_masters_only_actions) [back_to MANAGE_GAMES]))))))"

section \<open>Menus of a game\<close>

definition planned_registration :: "env \<Rightarrow> event \<Rightarrow> time \<Rightarrow> ustring" where
  "planned_registration X e now =
     (case ev_registration_open_at e of
        None \<Rightarrow> txt_registration_open_already
      | Some t \<Rightarrow> if t \<le> now then txt_registration_open_already else moscow_text X t)"

definition planned_confirmation :: "env \<Rightarrow> event \<Rightarrow> ustring" where
  "planned_confirmation X e =
     (case (ev_confirmation_open_at e, ev_confirmation_deadline e) of
        (Some opens, Some deadline) \<Rightarrow>
          moscow_text X opens @ [59, 32] @ txt_and_deadline @ moscow_text X deadline
      | _ \<Rightarrow> if ev_status e = CONFIRMATION_OPEN then txt_confirmation_open_already else txt_not_planned)"

definition planned_closing :: "env \<Rightarrow> event \<Rightarrow> ustring" where
  "planned_closing X e =
     (case ev_scheduled_close_at e of None \<Rightarrow> txt_not_planned | Some t \<Rightarrow> moscow_text X t)"

definition scheduled_events_menu :: "env \<Rightarrow> event \<Rightarrow> ustring \<Rightarrow> bot_response dialog" where
  "scheduled_events_menu X e told =
     thenDo (ask (reading X)) (\<lambda>now.
       says
         (told @ txt_planned_of @ reference_of e @ [10, 10]
          @ txt_registration_opening @ [58, 32] @ planned_registration X e now @ [46, 10]
          @ txt_confirmation_opening @ [58, 32] @ planned_confirmation X e @ [46, 10]
          @ txt_game_closing @ [58, 32] @ planned_closing X e @ [46])
         ((if ev_status e = CREATED
           then [game_button e txt_registration_opening (asc ''schedule-registration''),
                 game_button e txt_confirmation_opening (asc ''schedule-confirmation'')] else [])
          @ (if ev_scheduled_close_operation_id e = None
             then [game_button e txt_game_closing (asc ''schedule-close'')] else [])
          @ [game_management_button (ev_event_id e)]))"

definition registration_management_prompt :: "event \<Rightarrow> ustring \<Rightarrow> bot_response" where
  "registration_management_prompt e invalid =
     response (remark invalid @ txt_enter_new_opening @ txt_minutes_zero)
       ((if ev_registration_open_at e = None then []
         else [game_button e txt_clear_registration (asc ''schedule-clear-registration'')])
        @ [schedule_button (ev_event_id e)])"

definition confirmation_management_prompt :: "event \<Rightarrow> ustring \<Rightarrow> bot_response" where
  "confirmation_management_prompt e invalid =
     (let shown = scheduled_confirmation_time_response (schedule_button (ev_event_id e))
            (if ev_game_date e = None then None
             else Some (asc ''ag:schedule-confirmation-tuesday:'' @ ev_event_id e)) invalid
      in if ev_confirmation_open_at e = None then shown
         else shown\<lparr>br_buttons :=
                game_button e txt_clear_confirmation (asc ''schedule-clear-confirmation'') # br_buttons shown\<rparr>)"

definition scheduled_close_validation :: "env \<Rightarrow> event \<Rightarrow> local_time \<Rightarrow> slip service" where
  "scheduled_close_validation X e lt =
     (if (case ev_game_date e of None \<Rightarrow> False | Some d \<Rightarrow> fst lt \<le> d) then ret NotAfterGame
      else
        andThen (in_past X lt) (\<lambda>past.
          ret (if past then InPast
               else if not_after X lt (ev_registration_open_at e) then BeforeOpening
               else if not_after X lt (ev_confirmation_deadline e) then BeforeDeadline
               else NoSlip)))"

definition notification_management :: "event \<Rightarrow> bot_response dialog" where
  "notification_management e =
     says (txt_notifications_of @ reference_of e @ txt_choose_game_action)
       [game_button e SEND_CONFIRMATION_REMINDER_LABEL (asc ''remind''),
        game_button e SEND_ALL_PLAYERS_NOTIFICATION_LABEL (asc ''notify-all''),
        game_button e SEND_CONFIRMED_LINK (asc ''notify-link''),
        game_button e SEND_CONFIRMED_NOTIFICATION_LABEL (asc ''notify-message''),
        game_management_button (ev_event_id e)]"

definition edit_game_menu :: "event \<Rightarrow> bot_response dialog" where
  "edit_game_menu e =
     says (txt_edit_of @ reference_of e @ txt_choose_game_action)
       [game_button e CHANGE_STATUS (asc ''status''), game_button e CHANGE_GAME_DETAILS (asc ''details''),
        (if ev_registration_question e \<noteq> None then game_button e txt_optional_question (asc ''question'')
         else game_button e CHANGE_PLAYER_AMOUNT (asc ''player-amount'')),
        game_button e ADD_POST_LINKS (asc ''post-links''), game_button e ARCHIVE_GAME (asc ''archive''),
        game_management_button (ev_event_id e)]"

definition game_files_menu :: "event \<Rightarrow> bot_response dialog" where
  "game_files_menu e =
     says (txt_files_of @ reference_of e @ txt_choose_game_action)
       [game_button e EVENT_TABLES (asc ''tables''), game_button e EXPORT_ACHIEVEMENTS (asc ''achievements''),
        game_management_button (ev_event_id e)]"

definition player_management :: "event \<Rightarrow> bool \<Rightarrow> bot_response dialog" where
  "player_management e can_manage =
     says (txt_players_of @ reference_of e @ txt_choose_game_action)
       ((if can_manage
         then [game_button e REMOVE_PLAYER (asc ''remove''),
               game_button e REMOVE_WAITING_PLAYERS (asc ''remove-waiting''),
               game_button e PROMOTE_RESERVE_PLAYER (asc ''promote'')] else [])
        @ [game_button e LIST_WAITING_PLAYERS (asc ''waiting''), game_button e LIST_PLAYER_PROFILES (asc ''profiles''),
           game_management_button (ev_event_id e)])"

section \<open>The schedule of a game\<close>

definition txt_schedule_frozen :: ustring where
  "txt_schedule_frozen =
     [1056, 1077, 1075, 1080, 1089, 1090, 1088, 1072, 1094, 1080, 1103, 32, 1080, 1083, 1080, 32,
      1087, 1086, 1076, 1090, 1074, 1077, 1088, 1078, 1076, 1077, 1085, 1080, 1077, 32, 1091,
      1078, 1077, 32, 1086, 1090, 1082, 1088, 1099, 1090, 1099, 59, 32, 1101, 1090, 1086, 32,
      1088, 1072, 1089, 1087, 1080, 1089, 1072, 1085, 1080, 1077, 32, 1080, 1079, 1084, 1077,
      1085, 1080, 1090, 1100, 32, 1085, 1077, 1083, 1100, 1079, 1103, 46, 10, 10]"

definition txt_no_game_date :: ustring where
  "txt_no_game_date =
     [1059, 32, 1080, 1075, 1088, 1099, 32, 1085, 1077, 32, 1091, 1082, 1072, 1079, 1072, 1085,
      1072, 32, 1076, 1072, 1090, 1072, 46, 10, 10]"

definition txt_close_started :: ustring where
  "txt_close_started =
     [1040, 1074, 1090, 1086, 1084, 1072, 1090, 1080, 1095, 1077, 1089, 1082, 1086, 1077, 32,
      1079, 1072, 1082, 1088, 1099, 1090, 1080, 1077, 32, 1091, 1078, 1077, 32, 1085, 1072, 1095,
      1072, 1083, 1086, 1089, 1100, 59, 32, 1080, 1079, 1084, 1077, 1085, 1080, 1090, 1100, 32,
      1077, 1075, 1086, 32, 1074, 1088, 1077, 1084, 1103, 32, 1085, 1077, 1083, 1100, 1079, 1103,
      46, 10, 10]"

definition txt_close_time_saved :: ustring where
  "txt_close_time_saved =
     [9989, 32, 1042, 1088, 1077, 1084, 1103, 32, 1079, 1072, 1082, 1088, 1099, 1090, 1080, 1103,
      32, 1089, 1086, 1093, 1088, 1072, 1085, 1077, 1085, 1086, 46, 10, 10]"

definition txt_registration_cleared :: ustring where
  "txt_registration_cleared =
     [9989, 32, 1056, 1072, 1089, 1087, 1080, 1089, 1072, 1085, 1080, 1077, 32, 1086, 1090, 1084,
      1077, 1085, 1077, 1085, 1086, 59, 32, 1088, 1077, 1075, 1080, 1089, 1090, 1088, 1072, 1094,
      1080, 1103, 32, 1086, 1090, 1082, 1088, 1099, 1090, 1072, 46, 10, 10]"

definition txt_confirmation_cleared :: ustring where
  "txt_confirmation_cleared =
     [9989, 32, 1047, 1072, 1087, 1083, 1072, 1085, 1080, 1088, 1086, 1074, 1072, 1085, 1085,
      1086, 1077, 32, 1086, 1090, 1082, 1088, 1099, 1090, 1080, 1077, 32, 1087, 1086, 1076, 1090,
      1074, 1077, 1088, 1078, 1076, 1077, 1085, 1080, 1103, 32, 1086, 1090, 1084, 1077, 1085,
      1077, 1085, 1086, 46, 10, 10]"

definition txt_close_started_clear :: ustring where
  "txt_close_started_clear =
     [1040, 1074, 1090, 1086, 1084, 1072, 1090, 1080, 1095, 1077, 1089, 1082, 1086, 1077, 32,
      1079, 1072, 1082, 1088, 1099, 1090, 1080, 1077, 32, 1091, 1078, 1077, 32, 1085, 1072, 1095,
      1072, 1083, 1086, 1089, 1100, 59, 32, 1086, 1090, 1084, 1077, 1085, 1080, 1090, 1100, 32,
      1077, 1075, 1086, 32, 1085, 1077, 1083, 1100, 1079, 1103, 46, 10, 10]"

definition txt_close_cleared :: ustring where
  "txt_close_cleared =
     [9989, 32, 1047, 1072, 1087, 1083, 1072, 1085, 1080, 1088, 1086, 1074, 1072, 1085, 1085,
      1086, 1077, 32, 1079, 1072, 1082, 1088, 1099, 1090, 1080, 1077, 32, 1086, 1090, 1084, 1077,
      1085, 1077, 1085, 1086, 46, 10, 10]"

text \<open>The game is read again after a change of its schedule.\<close>

definition refreshed_schedule :: "env \<Rightarrow> ustring \<Rightarrow> ustring \<Rightarrow> bot_response dialog" where
  "refreshed_schedule X event_id told =
     thenDo (ask (find_event event_id)) (\<lambda>found.
       case found of None \<Rightarrow> says txt_game_not_found [] | Some e \<Rightarrow> scheduled_events_menu X e told)"

definition changed_schedule ::
    "env \<Rightarrow> (time \<Rightarrow> (events, exn, bool) act) \<Rightarrow> ustring \<Rightarrow> ustring \<Rightarrow> bot_response dialog" where
  "changed_schedule X change event_id told =
     thenDo (ask (on_events X change)) (\<lambda>_. refreshed_schedule X event_id told)"

definition tuesday_opening :: "env \<Rightarrow> event \<Rightarrow> bot_response dialog" where
  "tuesday_opening X e =
     (case ev_game_date e of
        None \<Rightarrow> scheduled_events_menu X e txt_no_game_date
      | Some d \<Rightarrow>
          (let lt = tuesday_before_game_18 d
           in thenDo (ask (in_past X lt)) (\<lambda>past.
                let fault = confirmation_time_fault X lt past (ev_registration_open_at e) (ev_scheduled_close_at e)
                in if fault = [] then
                     thenDo (remember (asc ''confirmation_open_at'') (JString (iso_moscow X lt))) (\<lambda>_.
                     thenDo (into (asc ''ADMIN_SCHEDULE_CONFIRMATION_DEADLINE'')) (\<lambda>_.
                       give (scheduled_confirmation_deadline_response (schedule_button (ev_event_id e)) [])))
                   else
                     thenDo (into (asc ''ADMIN_SCHEDULE_CONFIRMATION_TIME'')) (\<lambda>_.
                       give (confirmation_management_prompt e fault)))))"

definition next_night_closing :: "env \<Rightarrow> event \<Rightarrow> bot_response dialog" where
  "next_night_closing X e =
     (case ev_game_date e of
        None \<Rightarrow> scheduled_events_menu X e txt_no_game_date
      | Some d \<Rightarrow>
          (let lt = next_night_03 d
           in thenDo (ask (scheduled_close_validation X e lt)) (\<lambda>wrong.
                if wrong \<noteq> NoSlip then
                  thenDo (into (asc ''ADMIN_SCHEDULE_CLOSE_TIME'')) (\<lambda>_.
                    give (managed_close_response (ev_event_id e) wrong))
                else
                  changed_schedule X (set_scheduled_close_at (ev_event_id e) (Some (xe_instant X lt))) (ev_event_id e)
                    txt_close_time_saved)))"

definition opening_schedules :: "ustring list" where
  "opening_schedules =
     [asc ''schedule-registration'', asc ''schedule-confirmation'', asc ''schedule-confirmation-tuesday'',
      asc ''schedule-clear-registration'', asc ''schedule-clear-confirmation'']"

definition closing_schedules :: "ustring list" where
  "closing_schedules =
     [asc ''schedule-close'', asc ''schedule-clear-close'', asc ''schedule-close-next-night'']"

definition schedule_action :: "env \<Rightarrow> event \<Rightarrow> ustring \<Rightarrow> bot_response dialog" where
  "schedule_action X e action =
     (let k = ev_event_id e; closing = (ev_scheduled_close_operation_id e \<noteq> None)
      in if action \<in> set opening_schedules \<and> ev_status e \<noteq> CREATED
         then scheduled_events_menu X e txt_schedule_frozen
         else if action = asc ''schedule-registration'' then
           thenDo (into (asc ''ADMIN_SCHEDULE_REGISTRATION_TIME'')) (\<lambda>_. give (registration_management_prompt e []))
         else if action = asc ''schedule-confirmation'' then
           thenDo (into (asc ''ADMIN_SCHEDULE_CONFIRMATION_TIME'')) (\<lambda>_. give (confirmation_management_prompt e []))
         else if action = asc ''schedule-confirmation-tuesday'' then tuesday_opening X e
         else if action = asc ''schedule-close'' then
           (if closing then scheduled_events_menu X e txt_close_started
            else thenDo (into (asc ''ADMIN_SCHEDULE_CLOSE_TIME'')) (\<lambda>_. give (managed_close_response k NoSlip)))
         else if action = asc ''schedule-close-next-night'' then next_night_closing X e
         else if action = asc ''schedule-clear-registration''
         then changed_schedule X (set_registration_open_at k None) k txt_registration_cleared
         else if action = asc ''schedule-clear-confirmation''
         then changed_schedule X (set_confirmation_schedule k None None) k txt_confirmation_cleared
         else if closing then scheduled_events_menu X e txt_close_started_clear
         else changed_schedule X (set_scheduled_close_at k None) k txt_close_cleared)"

section \<open>Files and notifications of a game\<close>

definition txt_confirmation_of :: ustring where
  "txt_confirmation_of =
     [1055, 1086, 1076, 1090, 1074, 1077, 1088, 1078, 1076, 1077, 1085, 1080, 1077, 32, 1091,
      1095, 1072, 1089, 1090, 1080, 1103, 32, 1076, 1083, 1103, 32, 1080, 1075, 1088, 1099, 32]"

definition txt_is_not_open :: ustring where
  "txt_is_not_open = [32, 1085, 1077, 32, 1086, 1090, 1082, 1088, 1099, 1090, 1086, 46]"

definition txt_for_game :: ustring where
  "txt_for_game = [1044, 1083, 1103, 32, 1080, 1075, 1088, 1099, 32]"

definition txt_no_deadline_set :: ustring where
  "txt_no_deadline_set =
     [32, 1085, 1077, 32, 1079, 1072, 1076, 1072, 1085, 32, 1076, 1077, 1076, 1083, 1072, 1081,
      1085, 46, 32]"

definition txt_reopen_confirmation :: ustring where
  "txt_reopen_confirmation =
     [1057, 1085, 1086, 1074, 1072, 32, 1086, 1090, 1082, 1088, 1086, 1081, 1090, 1077, 32, 1089,
      1090, 1072, 1090, 1091, 1089, 32, 1087, 1086, 1076, 1090, 1074, 1077, 1088, 1078, 1076,
      1077, 1085, 1080, 1103, 32, 1080, 32, 1091, 1082, 1072, 1078, 1080, 1090, 1077, 32, 1076,
      1077, 1076, 1083, 1072, 1081, 1085, 46]"

definition txt_reminder_accepted :: ustring where
  "txt_reminder_accepted =
     [9203, 32, 1053, 1072, 1087, 1086, 1084, 1080, 1085, 1072, 1085, 1080, 1077, 32, 1087, 1088,
      1080, 1085, 1103, 1090, 1086, 32, 1074, 32, 1086, 1073, 1088, 1072, 1073, 1086, 1090, 1082,
      1091, 46]"

definition txt_chat_not_tied :: ustring where
  "txt_chat_not_tied =
     [1063, 1072, 1090, 32, 1077, 1097, 1105, 32, 1085, 1077, 32, 1087, 1088, 1080, 1074, 1103,
      1079, 1072, 1085, 32, 1082, 32, 1101, 1090, 1086, 1081, 32, 1080, 1075, 1088, 1077, 46, 32,
      1044, 1086, 1073, 1072, 1074, 1100, 1090, 1077, 32, 1073, 1086, 1090, 1072, 32, 1074, 32,
      1095, 1072, 1090, 32, 1080, 32, 1080, 1089, 1087, 1086, 1083, 1100, 1079, 1091, 1081, 1090,
      1077, 32, 1082, 1086, 1084, 1072, 1085, 1076, 1091, 32, 47, 116, 105, 101, 46]"

definition txt_tables_title :: ustring where
  "txt_tables_title = [1058, 1072, 1073, 1083, 1080, 1094, 1099, 32, 1080, 1075, 1088, 1099, 32]"

definition txt_tables_pending :: ustring where
  "txt_tables_pending =
     [9203, 32, 1058, 1072, 1073, 1083, 1080, 1094, 1099, 32, 1086, 1073, 1085, 1086, 1074, 1083,
      1103, 1102, 1090, 1089, 1103, 46, 32, 1041, 1086, 1090, 32, 1087, 1088, 1080, 1096, 1083,
      1105, 1090, 32, 1089, 1089, 1099, 1083, 1082, 1080, 44, 32, 1082, 1086, 1075, 1076, 1072,
      32, 1079, 1072, 1075, 1088, 1091, 1079, 1082, 1072, 32, 1079, 1072, 1074, 1077, 1088, 1096,
      1080, 1090, 1089, 1103, 46]"

definition txt_tables_not_moved :: ustring where
  "txt_tables_not_moved =
     [1058, 1072, 1073, 1083, 1080, 1094, 1099, 32, 1101, 1090, 1086, 1081, 32, 1080, 1075, 1088,
      1099, 32, 1077, 1097, 1105, 32, 1085, 1077, 32, 1087, 1077, 1088, 1077, 1085, 1077, 1089,
      1077, 1085, 1099, 32, 1074, 32, 71, 111, 111, 103, 108, 101, 32, 68, 114, 105, 118, 101, 46,
      32]"

definition txt_ask_master :: ustring where
  "txt_ask_master =
     [1054, 1073, 1088, 1072, 1090, 1080, 1090, 1077, 1089, 1100, 32, 1082, 32, 1084, 1072, 1089,
      1090, 1077, 1088, 1091, 32, 1080, 1075, 1088, 1099, 32, 1080, 1083, 1080, 32, 1072, 1076,
      1084, 1080, 1085, 1080, 1089, 1090, 1088, 1072, 1090, 1086, 1088, 1091, 46]"

definition txt_achievements_pending :: ustring where
  "txt_achievements_pending =
     [9203, 32, 1040, 1095, 1080, 1074, 1082, 1080, 32, 1089, 1086, 1079, 1076, 1072, 1102, 1090,
      1089, 1103, 46, 32, 1041, 1086, 1090, 32, 1087, 1088, 1080, 1096, 1083, 1105, 1090, 32,
      1089, 1089, 1099, 1083, 1082, 1091, 44, 32, 1082, 1086, 1075, 1076, 1072, 32, 1079, 1072,
      1075, 1088, 1091, 1079, 1082, 1072, 32, 1079, 1072, 1074, 1077, 1088, 1096, 1080, 1090,
      1089, 1103, 46]"

definition txt_achievements_title :: ustring where
  "txt_achievements_title = [1040, 1095, 1080, 1074, 1082, 1080, 32, 1080, 1075, 1088, 1099, 32]"

definition txt_irreversible_delete :: ustring where
  "txt_irreversible_delete =
     [9888, 65039, 32, 1069, 1090, 1086, 32, 1076, 1077, 1081, 1089, 1090, 1074, 1080, 1077, 32,
      1085, 1077, 1086, 1073, 1088, 1072, 1090, 1080, 1084, 1086, 46, 32, 1041, 1091, 1076, 1091,
      1090, 32, 1091, 1076, 1072, 1083, 1077, 1085, 1099, 32, 1080, 1075, 1088, 1072, 44, 32,
      1074, 1089, 1077, 32, 1079, 1072, 1087, 1080, 1089, 1080, 44, 32]"

definition txt_tables_and_achievements :: ustring where
  "txt_tables_and_achievements =
     [1090, 1072, 1073, 1083, 1080, 1094, 1099, 32, 1088, 1077, 1075, 1080, 1089, 1090, 1088,
      1072, 1094, 1080, 1080, 32, 1080, 32, 1087, 1088, 1086, 1087, 1091, 1089, 1082, 1086, 1074,
      44, 32, 1072, 32, 1090, 1072, 1082, 1078, 1077, 32, 1092, 1072, 1081, 1083, 32, 1072, 1095,
      1080, 1074, 1086, 1082, 46, 10, 10]"

definition txt_exact_name :: ustring where
  "txt_exact_name =
     [1044, 1083, 1103, 32, 1087, 1086, 1076, 1090, 1074, 1077, 1088, 1078, 1076, 1077, 1085,
      1080, 1103, 32, 1074, 1074, 1077, 1076, 1080, 1090, 1077, 32, 1090, 1086, 1095, 1085, 1086,
      1077, 32, 1085, 1072, 1079, 1074, 1072, 1085, 1080, 1077, 58, 10, 10]"

definition txt_delete_archived_only :: ustring where
  "txt_delete_archived_only =
     [1059, 1076, 1072, 1083, 1080, 1090, 1100, 32, 1084, 1086, 1078, 1085, 1086, 32, 1090, 1086,
      1083, 1100, 1082, 1086, 32, 1072, 1088, 1093, 1080, 1074, 1080, 1088, 1086, 1074, 1072,
      1085, 1085, 1091, 1102, 32, 1080, 1075, 1088, 1091, 46]"

definition txt_the_game :: ustring where
  "txt_the_game = [1048, 1075, 1088, 1072, 32]"

definition txt_unarchived_already :: ustring where
  "txt_unarchived_already =
     [32, 1091, 1078, 1077, 32, 1088, 1072, 1079, 1072, 1088, 1093, 1080, 1074, 1080, 1088, 1086,
      1074, 1072, 1085, 1072, 46]"

definition txt_is_unarchived :: ustring where
  "txt_is_unarchived =
     [32, 1088, 1072, 1079, 1072, 1088, 1093, 1080, 1074, 1080, 1088, 1086, 1074, 1072, 1085,
      1072, 46, 32]"

definition txt_registration_stays_closed :: ustring where
  "txt_registration_stays_closed =
     [1056, 1077, 1075, 1080, 1089, 1090, 1088, 1072, 1094, 1080, 1103, 32, 1086, 1089, 1090,
      1072, 1105, 1090, 1089, 1103, 32, 1079, 1072, 1082, 1088, 1099, 1090, 1086, 1081, 46]"

definition txt_unarchive_accepted :: ustring where
  "txt_unarchive_accepted =
     [9203, 32, 1056, 1072, 1079, 1072, 1088, 1093, 1080, 1074, 1072, 1094, 1080, 1103, 32, 1087,
      1088, 1080, 1085, 1103, 1090, 1072, 32, 1074, 32, 1086, 1073, 1088, 1072, 1073, 1086, 1090,
      1082, 1091, 46]"

definition txt_already_archived :: ustring where
  "txt_already_archived =
     [32, 1091, 1078, 1077, 32, 1072, 1088, 1093, 1080, 1074, 1080, 1088, 1086, 1074, 1072, 1085,
      1072, 46]"

definition txt_masters_change_only :: ustring where
  "txt_masters_change_only =
     [1058, 1086, 1083, 1100, 1082, 1086, 32, 1084, 1072, 1089, 1090, 1077, 1088, 1072, 32, 1101,
      1090, 1086, 1081, 32, 1080, 1075, 1088, 1099, 32, 1084, 1086, 1075, 1091, 1090, 32, 1080,
      1079, 1084, 1077, 1085, 1103, 1090, 1100, 32, 1077, 1105, 32, 1076, 1072, 1085, 1085, 1099,
      1077, 46]"

definition txt_current_name :: ustring where
  "txt_current_name =
     [1058, 1077, 1082, 1091, 1097, 1077, 1077, 32, 1085, 1072, 1079, 1074, 1072, 1085, 1080,
      1077, 58, 32]"

definition txt_enter_new_name :: ustring where
  "txt_enter_new_name =
     [46, 10, 10, 1042, 1074, 1077, 1076, 1080, 1090, 1077, 32, 1085, 1086, 1074, 1086, 1077, 32,
      1085, 1072, 1079, 1074, 1072, 1085, 1080, 1077, 32, 1080, 1075, 1088, 1099, 58]"

definition txt_current_amount :: ustring where
  "txt_current_amount =
     [1058, 1077, 1082, 1091, 1097, 1077, 1077, 32, 1082, 1086, 1083, 1080, 1095, 1077, 1089,
      1090, 1074, 1086, 32, 1080, 1075, 1088, 1086, 1082, 1086, 1074, 58, 32]"

definition txt_enter_new_amount :: ustring where
  "txt_enter_new_amount =
     [1042, 1074, 1077, 1076, 1080, 1090, 1077, 32, 1085, 1086, 1074, 1086, 1077, 32, 1082, 1086,
      1083, 1080, 1095, 1077, 1089, 1090, 1074, 1086, 32, 1080, 1075, 1088, 1086, 1082, 1086,
      1074, 32, 40, 1086, 1090, 32, 49, 32, 1076, 1086, 32]"

definition txt_send_telegram_post :: ustring where
  "txt_send_telegram_post =
     [1054, 1090, 1087, 1088, 1072, 1074, 1100, 1090, 1077, 32, 1089, 1089, 1099, 1083, 1082,
      1091, 32, 1085, 1072, 32, 1087, 1086, 1089, 1090, 32, 1086, 1073, 32, 1080, 1075, 1088,
      1077, 32, 1074, 32, 84, 101, 108, 101, 103, 114, 97, 109, 58]"

definition txt_archive_warning :: ustring where
  "txt_archive_warning =
     [1048, 1075, 1088, 1072, 32, 1073, 1091, 1076, 1077, 1090, 32, 1079, 1072, 1082, 1088, 1099,
      1090, 1072, 32, 1076, 1083, 1103, 32, 1085, 1086, 1074, 1099, 1093, 32, 1088, 1077, 1075,
      1080, 1089, 1090, 1088, 1072, 1094, 1080, 1081, 32, 1080, 32, 1089, 1082, 1088, 1099, 1090,
      1072, 32, 1080, 1079, 32, 1091, 1087, 1088, 1072, 1074, 1083, 1077, 1085, 1080, 1103, 46,
      32]"

definition txt_archive_keeps :: ustring where
  "txt_archive_keeps =
     [1058, 1072, 1073, 1083, 1080, 1094, 1099, 44, 32, 1092, 1072, 1081, 1083, 32, 1072, 1095,
      1080, 1074, 1086, 1082, 32, 1080, 32, 1074, 1089, 1077, 32, 1079, 1072, 1087, 1080, 1089,
      1080, 32, 1073, 1091, 1076, 1091, 1090, 32, 1089, 1086, 1093, 1088, 1072, 1085, 1077, 1085,
      1099, 46, 10, 10]"

definition remind_action :: "env \<Rightarrow> pkey \<Rightarrow> inbound_message \<Rightarrow> event \<Rightarrow> bot_response dialog" where
  "remind_action X pkey im e =
     (let back_button = notification_management_button (ev_event_id e)
      in thenDo clear_dialog (\<lambda>_.
           if ev_status e \<noteq> CONFIRMATION_OPEN
           then says (txt_confirmation_of @ reference_of e @ txt_is_not_open) [back_button]
           else if ev_confirmation_deadline e = None
           then says (txt_for_game @ reference_of e @ txt_no_deadline_set @ txt_reopen_confirmation) [back_button]
           else
             thenDo (order X pkey im SEND_CONFIRMATION_REMINDER (asc ''SEND_CONFIRMATION_REMINDER'') (ev_event_id e)
                       EmptyPayload [] [back_button] None) (\<lambda>_.
               accepted txt_reminder_accepted [back_button])))"

definition notify_link_action :: "env \<Rightarrow> event \<Rightarrow> bot_response dialog" where
  "notify_link_action X e =
     (case ev_telegram_chat_invite_link e of
        None \<Rightarrow> says_cleared_with txt_chat_not_tied [notification_management_button (ev_event_id e)]
      | Some link \<Rightarrow>
          thenDo (ask (confirmed_registration_count X (ev_event_id e) True)) (\<lambda>recipient_count.
          thenDo (into (asc ''ADMIN_NOTIFICATION_CONFIRM'')) (\<lambda>_.
          thenDo (remember (asc ''notification_text'') (JString link)) (\<lambda>_.
          thenDo (remember (asc ''notification_recipient_count'') (JInt (int recipient_count))) (\<lambda>_.
            give (confirmed_notification_preview (ev_name e) (ev_event_id e) link (int recipient_count)
                    (ev_game_date e) False))))))"

definition notify_prompt_action :: "event \<Rightarrow> bool \<Rightarrow> bot_response dialog" where
  "notify_prompt_action e all_players =
     thenDo (into (if all_players then asc ''ADMIN_ALL_PLAYERS_NOTIFICATION_TEXT''
                   else asc ''ADMIN_NOTIFICATION_MESSAGE_TEXT'')) (\<lambda>_.
       give (confirmed_notification_prompt (ev_name e) (ev_event_id e) False all_players (ev_game_date e) []))"

text \<open>The tables as they are, or the command that refreshes them; it is queued for the person of the profile.\<close>

definition tables_ready :: "env \<Rightarrow> event \<Rightarrow> bool" where
  "tables_ready X e \<longleftrightarrow>
     (\<not> xe_mirrors_google X \<or> google_event_tables_ready e)
     \<and> ev_public_table_public_url e \<noteq> None \<and> ev_pass_table_public_url e \<noteq> None"

definition tables_action :: "env \<Rightarrow> pkey \<Rightarrow> inbound_message \<Rightarrow> event \<Rightarrow> bool \<Rightarrow> bot_response dialog" where
  "tables_action X pkey im e can_manage =
     (let buttons = [game_files_button (ev_event_id e)]
      in thenDo clear_dialog (\<lambda>_.
           if tables_ready X e then
             thenDo (ask (from_sum (table_links_text e))) (\<lambda>links.
               says (txt_tables_title @ reference_of e @ [10, 10] @ links) buttons)
           else if can_manage then
             with_user (\<lambda>u. let i = local_identity u in
               thenDo (ask (enqueue X pkey REFRESH_EVENT_TABLES (ev_event_id e) (fst i) (snd i) EmptyPayload
                         (reply_with (im_chat_id im) (im_peer_id im) [] buttons)
                         (Some (im_update_id im @ asc '':REFRESH_EVENT_TABLES'')) None)) (\<lambda>_.
                 accepted txt_tables_pending buttons))
           else says (txt_tables_not_moved @ txt_ask_master) buttons))"

definition achievements_action :: "env \<Rightarrow> inbound_message \<Rightarrow> event \<Rightarrow> bot_response dialog" where
  "achievements_action X im e =
     (let buttons = [game_files_button (ev_event_id e)]
      in thenDo clear_dialog (\<lambda>_. with_user (\<lambda>u.
           thenDo (with_announcement X im txt_achievements_pending buttons (asc ''achievement:'' @ ev_event_id e)
                     (export_achievements X (ev_event_id e) (requested_by im u))) (\<lambda>export.
             case ax_public_url export of
               None \<Rightarrow> give (pending_response X u txt_achievements_pending buttons)
             | Some url \<Rightarrow> says (txt_achievements_title @ reference_of e @ [10, 10] @ url) buttons))))"

section \<open>What can be done with a game\<close>

definition delete_action :: "env \<Rightarrow> event \<Rightarrow> bot_response dialog" where
  "delete_action X e =
     with_user (\<lambda>u. thenDo (ask (is_admin X u)) (\<lambda>admin.
       if \<not> admin then says_cleared txt_insufficient
       else if ev_archived_at e = None then says txt_delete_archived_only [game_management_button (ev_event_id e)]
       else
         thenDo (into (asc ''ADMIN_DELETE_NAME'')) (\<lambda>_.
         thenDo (new_context (event_entries e)) (\<lambda>_.
           says (txt_irreversible_delete @ txt_tables_and_achievements @ txt_exact_name @ ev_name e)
             [game_management_button (ev_event_id e)]))))"

definition unarchive_action :: "env \<Rightarrow> pkey \<Rightarrow> inbound_message \<Rightarrow> event \<Rightarrow> bot_response dialog" where
  "unarchive_action X pkey im e =
     with_user (\<lambda>u. thenDo (ask (is_admin X u)) (\<lambda>admin.
       if \<not> admin then says_cleared txt_insufficient
       else if ev_archived_at e = None
       then says (txt_the_game @ reference_of e @ txt_unarchived_already) [game_management_button (ev_event_id e)]
       else
         thenDo clear_dialog (\<lambda>_.
         thenDo (order X pkey im UNARCHIVE_EVENT (asc ''UNARCHIVE_EVENT'') (ev_event_id e) EmptyPayload
                   ([128228, 32] @ txt_the_game @ reference_of e @ txt_is_unarchived @ txt_registration_stays_closed)
                   [back_to MANAGE_GAMES] None) (\<lambda>_.
           accepted txt_unarchive_accepted [back_to MANAGE_GAMES]))))"

definition archive_prompt :: "event \<Rightarrow> bot_response dialog" where
  "archive_prompt e =
     thenDo (into (asc ''ADMIN_ARCHIVE_NAME'')) (\<lambda>_.
       says (txt_archive_warning @ txt_archive_keeps @ txt_exact_name @ ev_name e) [edit_game_button (ev_event_id e)])"

definition details_prompt :: "event \<Rightarrow> bot_response dialog" where
  "details_prompt e =
     thenDo (into (asc ''ADMIN_UPDATE_GAME_NAME'')) (\<lambda>_.
       says (txt_current_name @ ev_name e @ txt_enter_new_name) [edit_game_button (ev_event_id e)])"

definition player_amount_prompt :: "event \<Rightarrow> bot_response dialog" where
  "player_amount_prompt e =
     (if ev_registration_question e \<noteq> None then question_edit_menu e
      else
        thenDo (into (asc ''ADMIN_UPDATE_PLAYER_AMOUNT'')) (\<lambda>_.
          says (txt_current_amount @ show_nat (ev_player_amount e) @ [46, 10, 10]
                @ txt_enter_new_amount @ show_nat MAX_PLAYER_AMOUNT @ [41, 58])
            [edit_game_button (ev_event_id e)]))"

definition viewer_actions :: "ustring list" where
  "viewer_actions =
     [asc ''files'', asc ''waiting'', asc ''tables'', asc ''achievements'', asc ''players'', asc ''profiles'',
      asc ''masters'']"

text \<open>The actions on a game that is not archived, for somebody who may take them.\<close>

definition edit_action ::
    "env \<Rightarrow> pkey \<Rightarrow> inbound_message \<Rightarrow> event \<Rightarrow> ustring \<Rightarrow> bot_response dialog" where
  "edit_action X pkey im e action =
     (let k = ev_event_id e
      in if action = asc ''edit'' then edit_game_menu e
         else if action = asc ''schedule''
         then thenDo (into (asc ''IDLE'')) (\<lambda>_. scheduled_events_menu X e [])
         else if action \<in> set (opening_schedules @ closing_schedules) then schedule_action X e action
         else if action = asc ''status'' then
           thenDo (into (asc ''ADMIN_STATUS_SELECT'')) (\<lambda>_.
             give (admin_status_response (ev_name e) (ev_status e) k (ev_game_date e)))
         else if action = asc ''details'' then details_prompt e
         else if action = asc ''question'' then question_edit_menu e
         else if action = asc ''player-amount'' then player_amount_prompt e
         else if action = asc ''post-links'' then
           thenDo (into (asc ''ADMIN_POST_LINK_TELEGRAM'')) (\<lambda>_. says txt_send_telegram_post [edit_game_button k])
         else if action = asc ''notifications'' then notification_management e
         else if action = asc ''remind'' then remind_action X pkey im e
         else if action = asc ''notify-link'' then notify_link_action X e
         else if action = asc ''notify-all'' then notify_prompt_action e True
         else if action \<in> {asc ''notify'', asc ''notify-message''} then notify_prompt_action e False
         else if action = asc ''remove'' then show_removable_players X e None None []
         else if action = asc ''remove-waiting'' then remove_waiting_confirmation X e []
         else if action = asc ''promote'' then show_confirmed_reserve_players X e None None []
         else if action = asc ''leader'' then
           thenDo (into (asc ''ADMIN_EVENT_LEADER_PLATFORM'')) (\<lambda>_. event_leader_platform_prompt k)
         else if action = asc ''archive'' then archive_prompt e
         else game_management X e)"

definition act_on_game ::
    "env \<Rightarrow> pkey \<Rightarrow> inbound_message \<Rightarrow> event \<Rightarrow> bool \<Rightarrow> ustring \<Rightarrow> bot_response dialog" where
  "act_on_game X pkey im e can_manage action =
     thenDo (new_context (event_entries e
               @ [(asc ''event_status'', JString (event_status_value (ev_status e)))])) (\<lambda>_.
       if action = asc ''files'' then game_files_menu e
       else if action = asc ''waiting'' then show_waiting_players X e None None []
       else if action = asc ''players'' then player_management e can_manage
       else if action = asc ''tables'' then tables_action X pkey im e can_manage
       else if action = asc ''achievements'' then achievements_action X im e
       else if action = asc ''profiles'' then show_player_profiles X e None None []
       else if action = asc ''masters'' then event_masters_menu X e
       else edit_action X pkey im e action)"

text \<open>Only masters and administrators change a game; a viewer may look at some of it.\<close>

definition act_on_active_game ::
    "env \<Rightarrow> pkey \<Rightarrow> inbound_message \<Rightarrow> event \<Rightarrow> ustring \<Rightarrow> bot_response dialog" where
  "act_on_active_game X pkey im e action =
     with_user (\<lambda>u.
     thenDo (ask (is_admin X u)) (\<lambda>admin.
     thenDo (ask (is_event_leader u (ev_event_id e))) (\<lambda>leader.
     thenDo (ask (can_view_unassigned_games X u)) (\<lambda>viewer.
       let can_manage = (admin \<or> leader)
       in if \<not> can_manage \<and> (\<not> viewer \<or> action \<notin> set viewer_actions)
          then says_cleared_with txt_masters_change_only [back_to MANAGE_GAMES]
          else act_on_game X pkey im e can_manage action))))"

definition admin_game_action :: "env \<Rightarrow> pkey \<Rightarrow> inbound_message \<Rightarrow> ustring \<Rightarrow> bot_response dialog" where
  "admin_game_action X pkey im v =
     (case split_colons 2 v of
        [_, action, event_id] \<Rightarrow>
          with_user (\<lambda>u. thenDo (ask (has_admin_access X u)) (\<lambda>access.
            if \<not> access then says_cleared txt_insufficient
            else
              thenDo (ask (find_event event_id)) (\<lambda>found.
                case found of
                  None \<Rightarrow> says txt_game_not_found [back_to MANAGE_GAMES]
                | Some e \<Rightarrow>
                    thenDo (ask (if ev_archived_at e = None then ret True else is_admin X u)) (\<lambda>visible.
                      if \<not> visible then says txt_game_not_found [back_to MANAGE_GAMES]
                      else if action = asc ''manage'' then game_management X e
                      else if action = asc ''delete'' then delete_action X e
                      else if action = asc ''unarchive'' then unarchive_action X pkey im e
                      else if ev_archived_at e \<noteq> None
                      then says (txt_the_game @ reference_of e @ txt_already_archived) [back_to MANAGE_GAMES]
                      else act_on_active_game X pkey im e action))))
      | _ \<Rightarrow> says txt_bad_action [])"

definition selected_actions :: "(ustring, ustring) dict" where
  "selected_actions =
     [(asc ''admin-status'', asc ''status''), (asc ''admin-reminder'', asc ''remind''),
      (asc ''admin-notification'', asc ''notify''), (asc ''admin-pass-create'', asc ''tables''),
      (asc ''admin-leader-add'', asc ''leader''), (asc ''admin-archive'', asc ''archive''),
      (asc ''admin-delete'', asc ''archive'')]"

definition admin_select :: "env \<Rightarrow> pkey \<Rightarrow> inbound_message \<Rightarrow> event \<Rightarrow> ustring \<Rightarrow> bot_response dialog" where
  "admin_select X pkey im e flow =
     admin_game_action X pkey im
       (asc ''ag:'' @ (case dict_get selected_actions flow of None \<Rightarrow> asc ''manage'' | Some a \<Rightarrow> a) @ [58]
        @ ev_event_id e)"

section \<open>Commands of administration\<close>

definition txt_bad_date_given :: ustring where
  "txt_bad_date_given =
     [1053, 1077, 1082, 1086, 1088, 1088, 1077, 1082, 1090, 1085, 1072, 1103, 32, 1076, 1072,
      1090, 1072, 46]"

definition txt_enter_name :: ustring where
  "txt_enter_name =
     [1042, 1074, 1077, 1076, 1080, 1090, 1077, 32, 1085, 1072, 1079, 1074, 1072, 1085, 1080,
      1077, 32, 1080, 1075, 1088, 1099, 58]"

definition txt_choose_future_bot :: ustring where
  "txt_choose_future_bot =
     [1042, 1099, 1073, 1077, 1088, 1080, 1090, 1077, 32, 1073, 1086, 1090, 44, 32, 1082, 1086,
      1090, 1086, 1088, 1099, 1084, 32, 1087, 1086, 1083, 1100, 1079, 1091, 1077, 1090, 1089,
      1103, 32, 1073, 1091, 1076, 1091, 1097, 1080, 1081, 32]"

definition role_platform_prompt :: "privileged_role \<Rightarrow> bot_response dialog" where
  "role_platform_prompt role =
     says (txt_choose_future_bot @ casefold (role_label role) @ [58])
       [button (asc ''Telegram'') (asc ''admin:gamemaster:telegram''),
        button (asc ''VK'') (asc ''admin:gamemaster:vk''), back_to MANAGE_MODERATORS]"

definition role_grants :: "(ustring, privileged_role) dict" where
  "role_grants =
     [(GRANT_GAMEMASTER, GAMEMASTER), (GRANT_GAMEMASTER_VIEWER, GAMEMASTER_VIEWER),
      (GRANT_PASS_MANAGER, PASS_MANAGER)]"

definition start_grant :: "env \<Rightarrow> privileged_role \<Rightarrow> bot_response dialog" where
  "start_grant X role =
     with_user (\<lambda>u. thenDo (ask (is_admin X u)) (\<lambda>admin.
       if \<not> admin then says txt_insufficient []
       else
         thenDo (into (asc ''ADMIN_GAMEMASTER_PLATFORM'')) (\<lambda>_.
         thenDo (new_context [(asc ''privileged_role'', JString (role_value role))]) (\<lambda>_.
           role_platform_prompt role))))"

text \<open>The labels of earlier menus, which all lead to the list of games.\<close>

definition game_labels :: "ustring list" where
  "game_labels =
     [MANAGE_GAMES, EDIT_GAME, GAME_FILES, CHANGE_STATUS, CHANGE_PLAYER_AMOUNT, MANAGE_SCHEDULED_EVENTS,
      MANAGE_NOTIFICATIONS, SEND_CONFIRMATION_REMINDER_LABEL, SEND_CONFIRMED_LINK,
      SEND_CONFIRMED_NOTIFICATION_LABEL, SEND_ALL_PLAYERS_NOTIFICATION_LABEL,
      LEGACY_SEND_CONFIRMED_NOTIFICATION, LIST_WAITING_PLAYERS, CREATE_PASS_TABLE, LIST_PASS_TABLES,
      EVENT_TABLES, EXPORT_ACHIEVEMENTS, REMOVE_PLAYER, MANAGE_PLAYERS, LIST_PLAYER_PROFILES,
      PROMOTE_RESERVE_PLAYER, REMOVE_WAITING_PLAYERS, LEGACY_REMOVE_WAITING_PLAYERS, ADD_EVENT_LEADER,
      CHANGE_GAME_DETAILS, ARCHIVE_GAME, DELETE_GAME, LIST_GAMES] @ LEGACY_STATUS_ACTIONS"

definition daily_passes_command :: "env \<Rightarrow> pkey \<Rightarrow> inbound_message \<Rightarrow> ustring \<Rightarrow> bot_response dialog" where
  "daily_passes_command X pkey im v =
     (if v = DAILY_PASSES_ACTION then daily_passes_start X pkey im 0
      else if starts_with DAILY_PASSES_PAGE_PREFIX v then
        daily_passes_start X pkey im
          (case read_int (remove_prefix DAILY_PASSES_PAGE_PREFIX v) of None \<Rightarrow> 0 | Some page \<Rightarrow> page)
      else
        (case date_of_iso (remove_prefix DAILY_PASSES_DATE_PREFIX v) of
           None \<Rightarrow> says txt_bad_date_given [admin_menu_button]
         | Some game_date \<Rightarrow> daily_pass_table X pkey im game_date))"

definition admin_start :: "env \<Rightarrow> pkey \<Rightarrow> inbound_message \<Rightarrow> ustring \<Rightarrow> bot_response dialog" where
  "admin_start X pkey im v =
     with_user (\<lambda>u. thenDo (ask (has_admin_access X u)) (\<lambda>access.
       if \<not> access then says txt_insufficient []
       else if v = DAILY_PASSES_ACTION \<or> starts_with DAILY_PASSES_PAGE_PREFIX v
               \<or> starts_with DAILY_PASSES_DATE_PREFIX v
       then daily_passes_command X pkey im v
       else if v = MANAGE_STATISTICS then statistics_menu X
       else if v = STATS_LINKS then enqueue_statistics X im StatisticsLink None (back_to MANAGE_STATISTICS)
       else if v = STATS_ADD_GAME then show_statistics_games X None None
       else if v = ARCHIVED_GAMES then show_admin_games X None None True
       else if v = MANAGE_MODERATORS then moderator_management_menu X
       else if v = CREATE_GAME then
         thenDo (into (asc ''ADMIN_CREATE_NAME'')) (\<lambda>_.
         thenDo (new_context []) (\<lambda>_. says txt_enter_name []))
       else if v \<in> set game_labels then show_admin_games X None None False
       else
         (case dict_get role_grants v of
            Some role \<Rightarrow> start_grant X role
          | None \<Rightarrow>
              if v = REVOKE_GAMEMASTER then show_moderators X True 0
              else if v = LIST_GAMEMASTERS then show_moderators X False 0
              else admin_menu X)))"

definition dispatch_idle_admin :: "env \<Rightarrow> pkey \<Rightarrow> inbound_message \<Rightarrow> ustring \<Rightarrow> bot_response option dialog" where
  "dispatch_idle_admin X pkey im v =
     (if v \<in> set ADMIN_ACTIONS \<or> v \<in> set LEGACY_STATUS_ACTIONS
         \<or> starts_with DAILY_PASSES_DATE_PREFIX v \<or> starts_with DAILY_PASSES_PAGE_PREFIX v
      then thenDo (admin_start X pkey im v) (\<lambda>r. give (Some r))
      else give None)"

end
