(* ===== verification/Callbacks.thy ===== *)
theory Callbacks
  imports Games
begin

text \<open>
  The buttons of the lists of privileged users and of masters
  (\<open>_admin_callback\<close> of \<open>application/conversation_admin_dialog.py\<close>): looking at somebody, taking a role away,
  adding a master to a game and removing one.
\<close>

section \<open>Privileged users\<close>

definition txt_user_not_found :: ustring where
  "txt_user_not_found =
     [1055, 1086, 1083, 1100, 1079, 1086, 1074, 1072, 1090, 1077, 1083, 1100, 32, 1085, 1077, 32,
      1085, 1072, 1081, 1076, 1077, 1085, 46]"

definition txt_take_moderator_from :: ustring where
  "txt_take_moderator_from =
     [1057, 1085, 1103, 1090, 1100, 32, 1087, 1086, 1083, 1085, 1086, 1084, 1086, 1095, 1080,
      1103, 32, 1084, 1086, 1076, 1077, 1088, 1072, 1090, 1086, 1088, 1072, 32, 1089, 32, 1087,
      1086, 1083, 1100, 1079, 1086, 1074, 1072, 1090, 1077, 1083, 1103, 32, 171]"

definition txt_take_role :: ustring where
  "txt_take_role = [1057, 1085, 1103, 1090, 1100, 32, 1088, 1086, 1083, 1100, 32, 171]"

definition txt_from_user :: ustring where
  "txt_from_user =
     [187, 32, 1089, 32, 1087, 1086, 1083, 1100, 1079, 1086, 1074, 1072, 1090, 1077, 1083, 1103,
      32, 171]"

definition txt_yes_take :: ustring where
  "txt_yes_take = [1044, 1072, 44, 32, 1089, 1085, 1103, 1090, 1100]"

definition txt_no_role_left :: ustring where
  "txt_no_role_left =
     [1059, 32, 1101, 1090, 1086, 1075, 1086, 32, 1087, 1086, 1083, 1100, 1079, 1086, 1074, 1072,
      1090, 1077, 1083, 1103, 32, 1091, 1078, 1077, 32, 1085, 1077, 1090, 32, 1085, 1072, 1079,
      1085, 1072, 1095, 1077, 1085, 1085, 1086, 1081, 32, 1088, 1086, 1083, 1080, 46]"

definition txt_role_taken_from_you :: ustring where
  "txt_role_taken_from_you =
     [1057, 32, 1074, 1072, 1089, 32, 1089, 1085, 1103, 1090, 1072, 32, 1087, 1088, 1080, 1074,
      1080, 1083, 1077, 1075, 1080, 1088, 1086, 1074, 1072, 1085, 1085, 1072, 1103, 32, 1088,
      1086, 1083, 1100, 46]"

definition txt_moderator_taken :: ustring where
  "txt_moderator_taken =
     [9989, 32, 1055, 1086, 1083, 1085, 1086, 1084, 1086, 1095, 1080, 1103, 32, 1084, 1086, 1076,
      1077, 1088, 1072, 1090, 1086, 1088, 1072, 32, 1089, 1085, 1103, 1090, 1099, 46]"

definition txt_role_taken :: ustring where
  "txt_role_taken =
     [9989, 32, 1053, 1072, 1079, 1085, 1072, 1095, 1077, 1085, 1085, 1072, 1103, 32, 1088, 1086,
      1083, 1100, 32, 1089, 1085, 1103, 1090, 1072, 46]"

definition txt_user_or_game_missing :: ustring where
  "txt_user_or_game_missing =
     [1055, 1086, 1083, 1100, 1079, 1086, 1074, 1072, 1090, 1077, 1083, 1100, 32, 1080, 1083,
      1080, 32, 1080, 1075, 1088, 1072, 32, 1085, 1077, 32, 1085, 1072, 1081, 1076, 1077, 1085,
      1099, 46]"

definition txt_master_title :: ustring where
  "txt_master_title = [1052, 1072, 1089, 1090, 1077, 1088]"

definition txt_remove_master_question :: ustring where
  "txt_remove_master_question =
     [1059, 1076, 1072, 1083, 1080, 1090, 1100, 32, 1084, 1072, 1089, 1090, 1077, 1088, 1072, 32,
      171]"

definition txt_from_this_game :: ustring where
  "txt_from_this_game =
     [187, 32, 1080, 1079, 32, 1101, 1090, 1086, 1081, 32, 1080, 1075, 1088, 1099, 63]"

definition txt_yes_delete :: ustring where
  "txt_yes_delete = [1044, 1072, 44, 32, 1091, 1076, 1072, 1083, 1080, 1090, 1100]"

definition txt_no_longer_master :: ustring where
  "txt_no_longer_master =
     [1069, 1090, 1086, 1090, 32, 1087, 1086, 1083, 1100, 1079, 1086, 1074, 1072, 1090, 1077,
      1083, 1100, 32, 1091, 1078, 1077, 32, 1085, 1077, 32, 1103, 1074, 1083, 1103, 1077, 1090,
      1089, 1103, 32, 1084, 1072, 1089, 1090, 1077, 1088, 1086, 1084, 32, 1101, 1090, 1086, 1081,
      32, 1080, 1075, 1088, 1099, 46]"

definition txt_you_no_longer_master :: ustring where
  "txt_you_no_longer_master =
     [1042, 1099, 32, 1073, 1086, 1083, 1100, 1096, 1077, 32, 1085, 1077, 32, 1103, 1074, 1083,
      1103, 1077, 1090, 1077, 1089, 1100, 32, 1084, 1072, 1089, 1090, 1077, 1088, 1086, 1084, 32,
      1080, 1075, 1088, 1099, 32]"

definition txt_master_removed :: ustring where
  "txt_master_removed =
     [9989, 32, 1052, 1072, 1089, 1090, 1077, 1088, 32, 1091, 1076, 1072, 1083, 1105, 1085, 32,
      1080, 1079, 32, 1080, 1075, 1088, 1099, 32]"

text \<open>A number in the value of a button.\<close>

definition number_in :: "ustring \<Rightarrow> (int \<Rightarrow> 'a dialog) \<Rightarrow> 'a dialog" where
  "number_in s k = valued (read_int s) k"

definition shown_name :: "user \<Rightarrow> ustring" where
  "shown_name u = (case us_full_name (base u) of None \<Rightarrow> asc ''None'' | Some n \<Rightarrow> n)"

definition person_in :: "ustring list \<Rightarrow> (platform \<Rightarrow> int \<Rightarrow> user option \<Rightarrow> 'a dialog) \<Rightarrow> 'a dialog" where
  "person_in parts k =
     valued (platform_from_code (parts ! 2)) (\<lambda>p. number_in (parts ! 3) (\<lambda>i.
       thenDo (ask (stored_user p i)) (k p i)))"

definition in_admin_state :: "env \<Rightarrow> ustring \<Rightarrow> (bool \<Rightarrow> 'a dialog) \<Rightarrow> 'a dialog" where
  "in_admin_state X state k =
     with_user (\<lambda>u. thenDo (ask (is_admin X u)) (\<lambda>admin. k (admin \<and> state_of u = state)))"

definition view_moderator :: "env \<Rightarrow> ustring list \<Rightarrow> bot_response dialog" where
  "view_moderator X parts =
     in_admin_state X (asc ''ADMIN_MODERATOR_LIST'') (\<lambda>allowed.
       if \<not> allowed then says txt_insufficient []
       else
         person_in parts (\<lambda>p i found.
           case found of
             None \<Rightarrow> says txt_user_not_found []
           | Some target \<Rightarrow>
               thenDo (ask (privileged_role_of X target)) (\<lambda>role.
                 case role of
                   None \<Rightarrow> show_moderators X False 0
                 | Some r \<Rightarrow>
                     recall (\<lambda>ctx.
                     either (json_number (json_get_or ctx (asc ''moderator_offset'') (JInt 0))) (\<lambda>offset.
                       says (profile_text (role_label r) (local_identity target) (Some target))
                         [back_to (asc ''mod:list-page:'' @ show_int offset)])))))"

definition remember_target :: "platform \<Rightarrow> int \<Rightarrow> unit dialog" where
  "remember_target p i =
     thenDo (remember (asc ''target_platform'') (JString (platform_value p))) (\<lambda>_.
       remember (asc ''target_user_id'') (JInt i))"

definition confirm_role_removal :: "platform \<Rightarrow> int \<Rightarrow> user \<Rightarrow> privileged_role \<Rightarrow> bot_response attempt" where
  "confirm_role_removal p i target role =
     and_try
       (trying
         (thenDo (into (asc ''ADMIN_MODERATOR_REMOVE_CONFIRM'')) (\<lambda>_.
          thenDo (remember_target p i) (\<lambda>_.
            remember (asc ''target_role'') (JString (role_value role))))))
       (\<lambda>_. trying (from_context (asc ''moderator_offset'') (\<lambda>offset.
          says
            ((if role = GAMEMASTER then txt_take_moderator_from
              else txt_take_role @ role_label role @ txt_from_user) @ shown_name target @ [187, 63])
            [button txt_yes_take (asc ''mod:remove-confirm''), back_to (asc ''mod:remove-page:'' @ offset)])))"

definition pick_moderator :: "env \<Rightarrow> ustring list \<Rightarrow> bot_response attempt" where
  "pick_moderator X parts =
     and_try (trying (in_admin_state X (asc ''ADMIN_MODERATOR_REMOVE'') give)) (\<lambda>allowed.
       if \<not> allowed then trying (says txt_insufficient [])
       else
         and_try (trying (person_in parts (\<lambda>p i found. give (p, i, found)))) (\<lambda>(p, i, found).
           case found of
             None \<Rightarrow> trying (show_moderators X True 0)
           | Some target \<Rightarrow>
               (case effective_privileged_role (base target) of
                  None \<Rightarrow> trying (show_moderators X True 0)
                | Some role \<Rightarrow>
                    and_try (trying (ask (is_admin X target))) (\<lambda>admin.
                      if admin then trying (show_moderators X True 0)
                      else confirm_role_removal p i target role))))"

text \<open>The profiles of the person that have a role lose it; \<open>None\<close> when there was nothing to take.\<close>

definition revoke_roles :: "env \<Rightarrow> ustring \<Rightarrow> platform \<Rightarrow> int \<Rightarrow> user \<Rightarrow> user option service" where
  "revoke_roles X request_id p i target =
     andThen users_now (\<lambda>us.
       let profiles = filter (\<lambda>u. effective_privileged_role (base u) \<noteq> None) (global_users us target)
       in if profiles = [] then ret (if granted_by request_id target then Some target else None)
          else
            andThen (gather (map local_identity profiles)
                       (\<lambda>who. on_users X (\<lambda>_. clear_privileged_role (fst who) (snd who) request_id))) (\<lambda>_.
            andThen (stored_user p i) (\<lambda>refreshed.
              case refreshed of
                None \<Rightarrow> throw RuntimeError
              | Some u \<Rightarrow> if effective_privileged_role (base u) = None then ret (Some u) else throw RuntimeError)))"

definition loses_role :: "ustring \<Rightarrow> unit dialog" where
  "loses_role request_id =
     assign_base (\<lambda>b. b\<lparr>us_privileged_role := None, us_is_gamemaster := False,
       us_gamemaster_grant_operation_id := Some request_id\<rparr>)"

definition revoke_request :: "privileged_role \<Rightarrow> platform \<Rightarrow> int \<Rightarrow> inbound_message \<Rightarrow> ustring" where
  "revoke_request role p i im =
     person_request (if role = GAMEMASTER then asc ''gamemaster-revoke:''
                     else asc ''privileged-role-revoke:'' @ role_value role @ [58]) p i im"

definition role_revoked :: "env \<Rightarrow> ustring \<Rightarrow> privileged_role \<Rightarrow> user \<Rightarrow> bot_response attempt" where
  "role_revoked X request_id role target =
     and_try (trying (if told_of request_id target then give ()
                else notify_status_change X target request_id
                  (if role = GAMEMASTER then GAMEMASTER_REVOKED_NOTIFICATION else txt_role_taken_from_you) [])) (\<lambda>_.
     and_try (trying (with_user (\<lambda>u.
                if local_identity u = local_identity target then loses_role request_id else give ()))) (\<lambda>_.
       trying (says_cleared_with (if role = GAMEMASTER then txt_moderator_taken else txt_role_taken)
         [back_to MANAGE_MODERATORS])))"

definition context_target :: "(platform \<Rightarrow> int \<Rightarrow> 'a dialog) \<Rightarrow> 'a dialog" where
  "context_target k =
     from_context (asc ''target_platform'') (\<lambda>s. valued (platform_of_value s) (\<lambda>p.
     recall (\<lambda>ctx. needed ctx (asc ''target_user_id'') (\<lambda>raw. either (json_number raw) (k p)))))"

definition revoke_moderator :: "env \<Rightarrow> inbound_message \<Rightarrow> bot_response attempt" where
  "revoke_moderator X im =
     and_try (trying (in_admin_state X (asc ''ADMIN_MODERATOR_REMOVE_CONFIRM'') give)) (\<lambda>allowed.
       if \<not> allowed then trying (says txt_insufficient [])
       else
         and_try (trying (context_target (\<lambda>p i. thenDo (ask (stored_user p i)) (\<lambda>found.
                    from_context (asc ''target_role'') (\<lambda>s. valued (role_of_value s) (\<lambda>role.
                      give (p, i, found, role))))))) (\<lambda>(p, i, found, role).
           let request_id = revoke_request role p i im;
               nothing = trying (says_cleared_with txt_no_role_left [back_to MANAGE_MODERATORS])
           in case found of
                None \<Rightarrow> nothing
              | Some target \<Rightarrow>
                  and_try (trying (ask (revoke_roles X request_id p i target))) (\<lambda>revoked.
                    case revoked of None \<Rightarrow> nothing | Some u \<Rightarrow> role_revoked X request_id role u)))"

section \<open>Masters of a game\<close>

definition unarchived_game ::
    "ustring \<Rightarrow> (event \<Rightarrow> bot_response attempt) \<Rightarrow> bot_response attempt" where
  "unarchived_game event_id k =
     and_try (trying (ask (find_event event_id))) (\<lambda>found.
       case found of
         None \<Rightarrow> trying (says txt_game_not_found [])
       | Some e \<Rightarrow>
           if ev_archived_at e \<noteq> None then trying (says (txt_the_game @ reference_of e @ txt_already_archived) [])
           else k e)"

definition add_self :: "env \<Rightarrow> pkey \<Rightarrow> inbound_message \<Rightarrow> ustring \<Rightarrow> bot_response attempt" where
  "add_self X pkey im event_id =
     with_user (\<lambda>u. and_try (trying (ask (is_admin X u))) (\<lambda>admin.
       if \<not> admin then trying (says txt_insufficient [])
       else unarchived_game event_id (\<lambda>e. assign_event_leader X pkey im e u)))"

definition unless_denied :: "bot_response option dialog \<Rightarrow> bot_response dialog \<Rightarrow> bot_response dialog" where
  "unless_denied check d = thenDo check (\<lambda>denied. case denied of Some refusal \<Rightarrow> give refusal | None \<Rightarrow> d)"

definition list_masters :: "env \<Rightarrow> event \<Rightarrow> bot_response dialog" where
  "list_masters X e =
     with_user (\<lambda>u. thenDo (ask (can_view_event_details X u (ev_event_id e))) (\<lambda>may_view.
       if may_view then show_event_masters X e False 0 else says txt_insufficient []))"

text \<open>The game of the context, which may have gone.\<close>

definition context_game :: "(event \<Rightarrow> bot_response dialog) \<Rightarrow> bot_response dialog" where
  "context_game k =
     from_context (asc ''event_id'') (\<lambda>event_id.
     thenDo (ask (find_event event_id)) (\<lambda>found.
       case found of None \<Rightarrow> says txt_game_not_found [] | Some e \<Rightarrow> k e))"

definition in_state :: "ustring \<Rightarrow> bot_response attempt \<Rightarrow> bot_response attempt" where
  "in_state state d = with_user (\<lambda>u. if state_of u = state then d else trying (says txt_bad_action []))"

definition pick_new_master ::
    "env \<Rightarrow> pkey \<Rightarrow> inbound_message \<Rightarrow> ustring list \<Rightarrow> bot_response attempt" where
  "pick_new_master X pkey im parts =
     in_state (asc ''ADMIN_EVENT_LEADER_ADD_PICK'')
       (and_try (trying (from_context (asc ''event_id'') (\<lambda>event_id.
                  thenDo (ask (find_event event_id)) (\<lambda>e. person_in parts (\<lambda>p i found. give (e, found)))))) (\<lambda>pair.
          case pair of
            (Some e, Some target) \<Rightarrow> assign_event_leader X pkey im e target
          | _ \<Rightarrow> trying (says txt_user_or_game_missing [])))"

definition answer_promotion ::
    "env \<Rightarrow> pkey \<Rightarrow> inbound_message \<Rightarrow> bool \<Rightarrow> bot_response attempt" where
  "answer_promotion X pkey im accepts =
     in_state (asc ''ADMIN_EVENT_LEADER_PROMOTE_CONFIRM'')
       (and_try (trying (from_context (asc ''event_id'') (\<lambda>event_id. ask (find_event event_id)))) (\<lambda>found.
          case found of
            None \<Rightarrow> trying (says_cleared txt_game_not_found)
          | Some e \<Rightarrow>
              if \<not> accepts then
                trying (recall (\<lambda>ctx. stored_offset ctx (\<lambda>offset.
                  show_event_master_candidates X e offset txt_master_declined)))
              else
                and_try (trying (promotion_target give)) (\<lambda>candidate.
                  case candidate of
                    None \<Rightarrow> trying (show_event_master_candidates X e 0 txt_master_gone)
                  | Some target \<Rightarrow>
                      and_try (trying (promote_master_target X im target)) (assign_event_leader X pkey im e))))"

definition add_direct :: "bot_response attempt" where
  "add_direct =
     in_state (asc ''ADMIN_EVENT_LEADER_ADD_PICK'')
       (and_try (trying (into (asc ''ADMIN_EVENT_LEADER_PLATFORM''))) (\<lambda>_.
          trying (from_context (asc ''event_id'') event_leader_platform_prompt)))"

definition view_master :: "ustring list \<Rightarrow> bot_response attempt" where
  "view_master parts =
     in_state (asc ''ADMIN_EVENT_LEADER_LIST'')
       (trying (person_in parts (\<lambda>p i profile. identity_with p i (\<lambda>who. recall (\<lambda>ctx. stored_offset ctx (\<lambda>offset.
          says (profile_text txt_master_title who profile)
            [back_to (asc ''master:list-page:'' @ show_int offset)]))))))"

definition confirm_master_removal :: "platform \<Rightarrow> int \<Rightarrow> user \<Rightarrow> bot_response attempt" where
  "confirm_master_removal p i target =
     and_try
       (trying (thenDo (into (asc ''ADMIN_EVENT_LEADER_REMOVE_CONFIRM'')) (\<lambda>_. remember_target p i)))
       (\<lambda>_. trying (from_context (asc ''master_offset'') (\<lambda>offset.
          says (txt_remove_master_question @ shown_name target @ txt_from_this_game)
            [button txt_yes_delete (asc ''master:remove-confirm''),
             back_to (asc ''master:remove-page:'' @ offset)])))"

definition pick_master_to_remove :: "env \<Rightarrow> ustring list \<Rightarrow> bot_response attempt" where
  "pick_master_to_remove X parts =
     in_state (asc ''ADMIN_EVENT_LEADER_REMOVE'')
       (and_try (trying (person_in parts (\<lambda>p i found. from_context (asc ''event_id'') (\<lambda>event_id.
                   identity_with p i (\<lambda>who.
                   thenDo (if found = None then give [] else ask (leaders_now event_id)) (\<lambda>leaders.
                     give (event_id, who, if who \<in> set leaders then found else None))))))) (\<lambda>(event_id, who, found).
          case found of
            Some target \<Rightarrow> confirm_master_removal (fst who) (snd who) target
          | None \<Rightarrow>
              trying (thenDo (ask (find_event event_id)) (\<lambda>e.
                case e of None \<Rightarrow> says txt_game_not_found [] | Some game \<Rightarrow> show_event_masters X game True 0))))"

section \<open>Removing a master\<close>

definition leader_removed :: "env \<Rightarrow> ustring \<Rightarrow> bot_identity \<Rightarrow> unit service" where
  "leader_removed X event_id i =
     andThen (on_events X (\<lambda>_. remove_leader event_id i)) (\<lambda>removed. unless_throw removed RuntimeError)"

definition master_removed ::
    "env \<Rightarrow> pkey \<Rightarrow> ustring \<Rightarrow> ustring \<Rightarrow> user \<Rightarrow> ustring \<Rightarrow> bot_response dialog" where
  "master_removed X pkey event_id reference target request_id =
     thenDo (ask (refresh_event_passes X pkey event_id)) (\<lambda>_.
     thenDo (if told_of request_id target then give ()
             else notify_status_change X target request_id (txt_you_no_longer_master @ reference @ [46]) []) (\<lambda>_.
       says_cleared_with (txt_master_removed @ reference @ [46]) [masters_button event_id]))"

definition remove_master ::
    "env \<Rightarrow> pkey \<Rightarrow> ustring \<Rightarrow> ustring \<Rightarrow> bot_identity \<Rightarrow> user \<Rightarrow> ustring \<Rightarrow> bool \<Rightarrow> bot_response attempt" where
  "remove_master X pkey event_id reference who target request_id pending =
     and_try (trying (ask (leaders_now event_id))) (\<lambda>leaders.
       if who \<in> set leaders then
         and_try (trying (remember (asc ''pending_leader_revoke'') (JString request_id))) (\<lambda>_.
         and_try (trying (thenDo (store_user X) (\<lambda>_. ask (leader_removed X event_id who)))) (\<lambda>_.
           trying (master_removed X pkey event_id reference target request_id)))
       else if \<not> pending then trying (says_cleared_with txt_no_longer_master [masters_button event_id])
       else trying (master_removed X pkey event_id reference target request_id))"

definition confirm_remove_master :: "env \<Rightarrow> pkey \<Rightarrow> inbound_message \<Rightarrow> bot_response attempt" where
  "confirm_remove_master X pkey im =
     in_state (asc ''ADMIN_EVENT_LEADER_REMOVE_CONFIRM'')
       (and_try (trying (from_context (asc ''event_id'') (\<lambda>event_id. from_context (asc ''event_name'') (\<lambda>event_name.
                   thenDo (ask (find_event event_id)) (\<lambda>found. give (event_id, event_name, found)))))) (\<lambda>(k, n, found).
          case found of
            None \<Rightarrow> trying (says_cleared txt_game_not_found)
          | Some e \<Rightarrow>
              and_try (trying (context_target (\<lambda>p i. identity_with p i (\<lambda>who.
                         thenDo (ask (stored_user p i)) (\<lambda>target. give (who, target)))))) (\<lambda>(who, found_target).
                let request_id = person_request (asc ''leader-revoke:'' @ k @ [58]) (fst who) (snd who) im
                in case found_target of
                     None \<Rightarrow> trying (says_cleared_with txt_no_longer_master [masters_button k])
                   | Some target \<Rightarrow>
                       recall (\<lambda>ctx. remove_master X pkey k (event_reference n (ev_game_date e)) who target request_id
                         (json_get ctx (asc ''pending_leader_revoke'') = JString request_id)))))"

section \<open>The callback\<close>

text \<open>A prefix with the number of parts the value must have; \<open>None\<close> when it is not looked at.\<close>

definition matches :: "ustring \<Rightarrow> ustring \<Rightarrow> nat option \<Rightarrow> bool" where
  "matches v prefix parts \<longleftrightarrow>
     starts_with prefix v \<and> (case parts of None \<Rightarrow> True | Some n \<Rightarrow> length (split_all v) = n)"

definition moderator_callback :: "env \<Rightarrow> inbound_message \<Rightarrow> ustring \<Rightarrow> bot_response attempt option" where
  "moderator_callback X im v =
     (let parts = split_all v
      in if matches v (asc ''mod:list-page:'') None
         then Some (trying (number_in (parts ! 2) (show_moderators X False)))
         else if matches v (asc ''mod:remove-page:'') None
         then Some (trying (number_in (parts ! 2) (show_moderators X True)))
         else if matches v (asc ''mod:view:'') (Some 4) then Some (trying (view_moderator X parts))
         else if matches v (asc ''mod:remove-pick:'') (Some 4) then Some (pick_moderator X parts)
         else if v = asc ''mod:remove-confirm'' then Some (revoke_moderator X im)
         else None)"

definition master_callback :: "env \<Rightarrow> pkey \<Rightarrow> inbound_message \<Rightarrow> ustring \<Rightarrow> bot_response attempt option" where
  "master_callback X pkey im v =
     (let parts = split_all v; denied_or = (\<lambda>e. unless_denied (event_leader_required X (ev_event_id e)))
      in if matches v (asc ''master:self-add:'') (Some 3) then Some (add_self X pkey im (parts ! 2))
         else if matches v (asc ''master:add:'') (Some 3)
         then Some (unarchived_game (parts ! 2) (\<lambda>e. trying (denied_or e (show_event_master_candidates X e 0 []))))
         else if matches v (asc ''master:remove:'') (Some 3)
         then Some (unarchived_game (parts ! 2) (\<lambda>e. trying (denied_or e (show_event_masters X e True 0))))
         else if matches v (asc ''master:list:'') (Some 3)
         then Some (unarchived_game (parts ! 2) (\<lambda>e. trying (list_masters X e)))
         else if matches v (asc ''master:add-page:'') None
         then Some (trying (context_game (\<lambda>e. number_in (parts ! 2) (\<lambda>n. show_event_master_candidates X e n []))))
         else if matches v (asc ''master:add-pick:'') (Some 4) then Some (pick_new_master X pkey im parts)
         else if v \<in> {asc ''master:promote:yes'', asc ''master:promote:no''}
         then Some (answer_promotion X pkey im (v = asc ''master:promote:yes''))
         else if v = asc ''master:add-direct'' then Some add_direct
         else if matches v (asc ''master:remove-page:'') None
         then Some (trying (context_game (\<lambda>e. number_in (parts ! 2) (show_event_masters X e True))))
         else if matches v (asc ''master:list-page:'') None
         then Some (trying (context_game (\<lambda>e. number_in (parts ! 2) (show_event_masters X e False))))
         else if matches v (asc ''master:view:'') (Some 4) then Some (view_master parts)
         else if matches v (asc ''master:remove-pick:'') (Some 4) then Some (pick_master_to_remove X parts)
         else if v = asc ''master:remove-confirm'' then Some (confirm_remove_master X pkey im)
         else None)"

text \<open>An error in the input is answered, and what the dialogue had changed by then stays.\<close>

definition answered :: "bot_response attempt \<Rightarrow> bot_response dialog" where
  "answered m = thenDo m (\<lambda>r. case r of Inl x \<Rightarrow> says txt_bad_action [] | Inr shown \<Rightarrow> give shown)"

definition admin_callback :: "env \<Rightarrow> pkey \<Rightarrow> inbound_message \<Rightarrow> ustring \<Rightarrow> bot_response option dialog" where
  "admin_callback X pkey im v =
     (case (case moderator_callback X im v of Some m \<Rightarrow> Some m | None \<Rightarrow> master_callback X pkey im v) of
        None \<Rightarrow> give None
      | Some m \<Rightarrow> thenDo (answered m) (\<lambda>shown. give (Some shown)))"

end
