(* ===== verification/Steps.thy ===== *)
theory Steps
  imports Callbacks
begin

text \<open>
  The steps of the dialogues of administrators (\<open>_admin_step\<close> of \<open>application/conversation_admin_dialog.py\<close>):
  who may still take the step, and what each state of the dialogue does with what was sent.
\<close>

section \<open>Who may go on\<close>

definition txt_game_deleted_already :: ustring where
  "txt_game_deleted_already =
     [1048, 1075, 1088, 1072, 32, 1091, 1078, 1077, 32, 1091, 1076, 1072, 1083, 1077, 1085, 1072,
      46]"

text \<open>The states of a dialogue about one game, and those that only show it.\<close>

definition event_bound_states :: "ustring list" where
  "event_bound_states =
     [asc ''ADMIN_STATUS_SELECT'', asc ''ADMIN_UPDATE_GAME_NAME'', asc ''ADMIN_UPDATE_GAME_DATE'',
      asc ''ADMIN_UPDATE_PLAYER_AMOUNT'', asc ''ADMIN_POST_LINK_TELEGRAM'', asc ''ADMIN_POST_LINK_VK'',
      asc ''ADMIN_CONFIRMATION_DEADLINE'', asc ''ADMIN_SCHEDULE_REGISTRATION_TIME'',
      asc ''ADMIN_SCHEDULE_CONFIRMATION_TIME'', asc ''ADMIN_SCHEDULE_CONFIRMATION_DEADLINE'',
      asc ''ADMIN_SCHEDULE_CLOSE_TIME'', asc ''ADMIN_NOTIFICATION_LINK_TEXT'',
      asc ''ADMIN_NOTIFICATION_MESSAGE_TEXT'', asc ''ADMIN_NOTIFICATION_CONFIRM'', asc ''ADMIN_NOTIFICATION_TEXT'',
      asc ''ADMIN_ARCHIVE_NAME'', asc ''ADMIN_DELETE_NAME'', asc ''ADMIN_EVENT_LEADER_PLATFORM'',
      asc ''ADMIN_EVENT_LEADER_PROFILE'', asc ''ADMIN_EVENT_LEADER_ADD_PICK'',
      asc ''ADMIN_EVENT_LEADER_PROMOTE_CONFIRM'', asc ''ADMIN_EVENT_LEADER_REMOVE'',
      asc ''ADMIN_EVENT_LEADER_REMOVE_CONFIRM'', asc ''ADMIN_EVENT_LEADER_LIST'', asc ''ADMIN_REMOVE_PICK'',
      asc ''ADMIN_REMOVE_CONFIRM'', asc ''ADMIN_REMOVE_WAITING_CONFIRM'', asc ''ADMIN_WAITING_PICK'',
      asc ''ADMIN_PROFILES_PICK'', asc ''ADMIN_RESERVE_PROMOTION_PICK'', asc ''ADMIN_RESERVE_PROMOTION_CONFIRM'']"

definition view_only_event_states :: "ustring list" where
  "view_only_event_states =
     [asc ''ADMIN_EVENT_LEADER_LIST'', asc ''ADMIN_WAITING_PICK'', asc ''ADMIN_PROFILES_PICK'']"

text \<open>A master who has just been taken off the game by the very step that is repeated.\<close>

definition pending_self_removal :: "user \<Rightarrow> bool" where
  "pending_self_removal u \<longleftrightarrow>
     (let ctx = us_dialog_context (base u); i = local_identity u
      in state_of u = asc ''ADMIN_EVENT_LEADER_REMOVE_CONFIRM''
         \<and> dict_get ctx (asc ''pending_leader_revoke'') \<noteq> None
         \<and> json_get ctx (asc ''target_platform'') = JString (platform_value (fst i))
         \<and> json_get ctx (asc ''target_user_id'') = JInt (snd i))"

definition deletes_archived :: "ustring \<Rightarrow> event option \<Rightarrow> bool" where
  "deletes_archived state found \<longleftrightarrow>
     state = asc ''ADMIN_DELETE_NAME'' \<and> (case found of None \<Rightarrow> False | Some e \<Rightarrow> ev_archived_at e \<noteq> None)"

definition refuse :: "bot_response dialog \<Rightarrow> bot_response option dialog" where
  "refuse d = thenDo d (\<lambda>r. give (Some r))"

definition may_go_on :: "env \<Rightarrow> ustring \<Rightarrow> bot_response option dialog" where
  "may_go_on X event_id =
     with_user (\<lambda>u.
       if pending_self_removal u then give None
       else if state_of u \<in> set view_only_event_states then
         thenDo (ask (can_view_event_details X u event_id)) (\<lambda>may_view.
           if may_view then give None else refuse (says_cleared txt_insufficient))
       else event_leader_required X event_id)"

definition about_archived :: "env \<Rightarrow> event \<Rightarrow> bot_response dialog" where
  "about_archived X e =
     thenDo clear_dialog (\<lambda>_. with_user (\<lambda>u.
     thenDo (ask (is_admin X u)) (\<lambda>admin.
       if admin then says (txt_the_game @ reference_of e @ txt_already_archived) [back_to MANAGE_GAMES]
       else says txt_game_not_found [])))"

definition event_guard :: "env \<Rightarrow> ustring \<Rightarrow> event option \<Rightarrow> bot_response option dialog" where
  "event_guard X event_id found =
     with_user (\<lambda>u.
       case found of
         None \<Rightarrow>
           if state_of u = asc ''ADMIN_DELETE_NAME''
           then refuse (says_cleared_with txt_game_deleted_already [back_to ARCHIVED_GAMES])
           else may_go_on X event_id
       | Some e \<Rightarrow>
           if deletes_archived (state_of u) found then
             thenDo (ask (is_admin X u)) (\<lambda>admin.
               if admin then give None else refuse (says_cleared txt_insufficient))
           else if ev_archived_at e \<noteq> None then refuse (about_archived X e)
           else may_go_on X event_id)"

text \<open>The step is taken with the game the dialogue is about.\<close>

definition event_guarded :: "env \<Rightarrow> (event option \<Rightarrow> bot_response dialog) \<Rightarrow> bot_response dialog" where
  "event_guarded X k =
     with_user (\<lambda>u.
       if state_of u \<notin> set event_bound_states then k None
       else
         from_context (asc ''event_id'') (\<lambda>event_id.
         thenDo (ask (find_event event_id)) (\<lambda>found.
           unless_denied (event_guard X event_id found) (k found))))"

section \<open>Roles and masters\<close>

definition txt_send_telegram_of :: ustring where
  "txt_send_telegram_of =
     [1054, 1090, 1087, 1088, 1072, 1074, 1100, 1090, 1077, 32, 1089, 1089, 1099, 1083, 1082,
      1091, 32, 1085, 1072, 32, 1087, 1088, 1086, 1092, 1080, 1083, 1100, 32, 84, 101, 108, 101,
      103, 114, 97, 109, 32, 1080, 1083, 1080, 32, 64, 117, 115, 101, 114, 110, 97, 109, 101, 32,
      1073, 1091, 1076, 1091, 1097, 1077, 1075, 1086, 32]"

definition txt_send_vk_of :: ustring where
  "txt_send_vk_of =
     [1054, 1090, 1087, 1088, 1072, 1074, 1100, 1090, 1077, 32, 1089, 1089, 1099, 1083, 1082,
      1091, 32, 1085, 1072, 32, 1087, 1088, 1086, 1092, 1080, 1083, 1100, 32, 86, 75, 32, 1073,
      1091, 1076, 1091, 1097, 1077, 1075, 1086, 32]"

definition txt_telegram_of_master :: ustring where
  "txt_telegram_of_master =
     [1054, 1090, 1087, 1088, 1072, 1074, 1100, 1090, 1077, 32, 1089, 1089, 1099, 1083, 1082,
      1091, 32, 1085, 1072, 32, 1087, 1088, 1086, 1092, 1080, 1083, 1100, 32, 84, 101, 108, 101,
      103, 114, 97, 109, 32, 1080, 1083, 1080, 32, 64, 117, 115, 101, 114, 110, 97, 109, 101, 32,
      1073, 1091, 1076, 1091, 1097, 1077, 1075, 1086, 32, 1084, 1072, 1089, 1090, 1077, 1088,
      1072, 58]"

definition txt_vk_of_master :: ustring where
  "txt_vk_of_master =
     [1054, 1090, 1087, 1088, 1072, 1074, 1100, 1090, 1077, 32, 1089, 1089, 1099, 1083, 1082,
      1091, 32, 1085, 1072, 32, 1087, 1088, 1086, 1092, 1080, 1083, 1100, 32, 86, 75, 32, 1073,
      1091, 1076, 1091, 1097, 1077, 1075, 1086, 32, 1084, 1072, 1089, 1090, 1077, 1088, 1072, 58]"

definition choose_role_platform :: "env \<Rightarrow> ustring \<Rightarrow> bot_response dialog" where
  "choose_role_platform X v =
     with_user (\<lambda>u. thenDo (ask (is_admin X u)) (\<lambda>admin.
       if \<not> admin then says_cleared txt_insufficient
       else
         recall (\<lambda>ctx.
         valued (role_of_value (json_text (json_get_or ctx (asc ''privileged_role'')
                   (JString (role_value GAMEMASTER))))) (\<lambda>role.
           case dict_get [(asc ''admin:gamemaster:telegram'', TELEGRAM), (asc ''admin:gamemaster:vk'', VK)] v of
             None \<Rightarrow> role_platform_prompt role
           | Some p \<Rightarrow>
               thenDo (into (asc ''ADMIN_GAMEMASTER_PROFILE'')) (\<lambda>_.
               thenDo (remember (asc ''gamemaster_platform'') (JString (platform_value p))) (\<lambda>_.
                 says ((if p = TELEGRAM then txt_send_telegram_of else txt_send_vk_of)
                       @ casefold (role_label role) @ [58]) [back_to MANAGE_MODERATORS]))))))"

definition choose_leader_platform :: "ustring \<Rightarrow> bot_response dialog" where
  "choose_leader_platform v =
     (case dict_get [(asc ''admin:event-leader:telegram'', TELEGRAM), (asc ''admin:event-leader:vk'', VK)] v of
        None \<Rightarrow> from_context (asc ''event_id'') event_leader_platform_prompt
      | Some p \<Rightarrow>
          thenDo (into (asc ''ADMIN_EVENT_LEADER_PROFILE'')) (\<lambda>_.
          thenDo (remember (asc ''gamemaster_platform'') (JString (platform_value p))) (\<lambda>_.
          from_context (asc ''event_id'') (\<lambda>event_id.
            says (if p = TELEGRAM then txt_telegram_of_master else txt_vk_of_master) [masters_button event_id]))))"

definition ask_promotion_again :: "bot_response dialog" where
  "ask_promotion_again =
     promotion_target (\<lambda>found.
     from_context (asc ''event_id'') (\<lambda>event_id.
     thenDo (ask (find_event event_id)) (\<lambda>game.
       case (found, game) of
         (Some target, Some e) \<Rightarrow>
           master_promotion_question target (asc ''ADMIN_EVENT_LEADER_PROMOTE_CONFIRM'') (reference_of e)
             (asc ''master:promote:yes'') (asc ''master:promote:no'')
       | _ \<Rightarrow> says_cleared txt_user_or_game_missing)))"

section \<open>Creating a game\<close>

definition txt_name_empty :: ustring where
  "txt_name_empty =
     [1053, 1072, 1079, 1074, 1072, 1085, 1080, 1077, 32, 1080, 1075, 1088, 1099, 32, 1085, 1077,
      32, 1084, 1086, 1078, 1077, 1090, 32, 1073, 1099, 1090, 1100, 32, 1087, 1091, 1089, 1090,
      1099, 1084, 46, 32, 1042, 1074, 1077, 1076, 1080, 1090, 1077, 32, 1085, 1072, 1079, 1074,
      1072, 1085, 1080, 1077, 32, 1080, 1075, 1088, 1099, 58]"

definition txt_name_long :: ustring where
  "txt_name_long =
     [1053, 1072, 1079, 1074, 1072, 1085, 1080, 1077, 32, 1080, 1075, 1088, 1099, 32, 1085, 1077,
      32, 1076, 1086, 1083, 1078, 1085, 1086, 32, 1087, 1088, 1077, 1074, 1099, 1096, 1072, 1090,
      1100, 32, 50, 48, 48, 32, 1089, 1080, 1084, 1074, 1086, 1083, 1086, 1074, 46, 32, 1042,
      1074, 1077, 1076, 1080, 1090, 1077, 32, 1085, 1072, 1079, 1074, 1072, 1085, 1080, 1077, 32,
      1080, 1075, 1088, 1099, 58]"

definition txt_whole_amount :: ustring where
  "txt_whole_amount =
     [1042, 1074, 1077, 1076, 1080, 1090, 1077, 32, 1094, 1077, 1083, 1086, 1077, 32, 1082, 1086,
      1083, 1080, 1095, 1077, 1089, 1090, 1074, 1086, 32, 1080, 1075, 1088, 1086, 1082, 1086,
      1074, 32, 1086, 1090, 32, 49, 32, 1076, 1086, 32]"

definition creation_name :: "ustring \<Rightarrow> bot_response dialog" where
  "creation_name v =
     (if strip v = [] then says txt_name_empty []
      else if 200 < length (strip v) then says txt_name_long []
      else
        thenDo (into (asc ''ADMIN_CREATE_DATE'')) (\<lambda>_.
        thenDo (new_context [(asc ''event_name'', JString (strip v))]) (\<lambda>_. give (game_date_response False))))"

text \<open>A date that was sent, or the Saturday after next of the button.\<close>

definition given_date :: "env \<Rightarrow> ustring \<Rightarrow> ustring \<Rightarrow> (date option \<Rightarrow> 'a dialog) \<Rightarrow> 'a dialog" where
  "given_date X saturday v k =
     (if v = saturday then
        thenDo (ask (reading X)) (\<lambda>now. k (Some (next_saturday_game_date (xe_moscow X now))))
      else k (case parse_game_date v of Inl x \<Rightarrow> None | Inr d \<Rightarrow> Some d))"

definition creation_date :: "env \<Rightarrow> ustring \<Rightarrow> bot_response dialog" where
  "creation_date X v =
     given_date X (asc ''admin:date:next-saturday'') v (\<lambda>given.
       case given of
         None \<Rightarrow> give (game_date_response True)
       | Some d \<Rightarrow>
           thenDo (into (asc ''ADMIN_CREATE_CLOSE_TIME'')) (\<lambda>_.
           thenDo (remember (asc ''game_date'') (JString (iso_date d))) (\<lambda>_.
             give (creation_close_response NoSlip))))"

definition creation_close_at :: "env \<Rightarrow> date \<Rightarrow> local_time \<Rightarrow> bot_response dialog" where
  "creation_close_at X d lt =
     (if fst lt \<le> d then give (creation_close_response NotAfterGame)
      else
        thenDo (ask (in_past X lt)) (\<lambda>past.
          if past then give (creation_close_response InPast)
          else
            thenDo (remember (asc ''scheduled_close_at'') (JString (iso_moscow X lt))) (\<lambda>_. creation_question_prompt)))"

definition creation_close :: "env \<Rightarrow> ustring \<Rightarrow> bot_response dialog" where
  "creation_close X v =
     recall (\<lambda>ctx. needed_date ctx (asc ''game_date'') (\<lambda>d.
       if v = asc ''create:close:cancel''
       then thenDo (drop_entry (asc ''scheduled_close_at'')) (\<lambda>_. creation_question_prompt)
       else if v = asc ''create:close:next-night'' then creation_close_at X d (next_night_03 d)
       else
         (case scheduled_time v of
            None \<Rightarrow> give (creation_close_response Malformed)
          | Some lt \<Rightarrow> creation_close_at X d lt)))"

text \<open>A number of players that was sent.\<close>

definition given_amount :: "ustring \<Rightarrow> nat option" where
  "given_amount v = (case decimal_of (strip v) of None \<Rightarrow> None | Some n \<Rightarrow> if valid_player_amount n then Some n else None)"

definition creation_amount :: "env \<Rightarrow> ustring \<Rightarrow> bot_response dialog" where
  "creation_amount X v =
     (case given_amount v of
        None \<Rightarrow> says (txt_whole_amount @ show_nat MAX_PLAYER_AMOUNT @ [58]) []
      | Some n \<Rightarrow>
          thenDo (remember (asc ''player_amount'') (JInt (int n))) (\<lambda>_. with_user (\<lambda>u.
          thenDo (ask (is_admin X u)) (\<lambda>admin.
            if admin then creation_master_question else creation_schedule_question (Some u) False))))"

section \<open>The schedule\<close>

definition txt_registration_in_future :: ustring where
  "txt_registration_in_future =
     [1054, 1090, 1082, 1088, 1099, 1090, 1080, 1077, 32, 1088, 1077, 1075, 1080, 1089, 1090,
      1088, 1072, 1094, 1080, 1080, 32, 1076, 1086, 1083, 1078, 1085, 1086, 32, 1073, 1099, 1090,
      1100, 32, 1079, 1072, 1087, 1083, 1072, 1085, 1080, 1088, 1086, 1074, 1072, 1085, 1086, 32,
      1085, 1072, 32, 1073, 1091, 1076, 1091, 1097, 1077, 1077, 32, 1074, 1088, 1077, 1084, 1103,
      46]"

definition txt_registration_before_confirmation :: ustring where
  "txt_registration_before_confirmation =
     [1056, 1077, 1075, 1080, 1089, 1090, 1088, 1072, 1094, 1080, 1103, 32, 1076, 1086, 1083,
      1078, 1085, 1072, 32, 1086, 1090, 1082, 1088, 1099, 1074, 1072, 1090, 1100, 1089, 1103, 32,
      1089, 1090, 1088, 1086, 1075, 1086, 32, 1088, 1072, 1085, 1100, 1096, 1077, 32, 1087, 1086,
      1076, 1090, 1074, 1077, 1088, 1078, 1076, 1077, 1085, 1080, 1103, 46]"

definition txt_registration_before_close :: ustring where
  "txt_registration_before_close =
     [1056, 1077, 1075, 1080, 1089, 1090, 1088, 1072, 1094, 1080, 1103, 32, 1076, 1086, 1083,
      1078, 1085, 1072, 32, 1086, 1090, 1082, 1088, 1099, 1074, 1072, 1090, 1100, 1089, 1103, 32,
      1089, 1090, 1088, 1086, 1075, 1086, 32, 1076, 1086, 32, 1079, 1072, 1082, 1088, 1099, 1090,
      1080, 1103, 32, 1080, 1075, 1088, 1099, 46]"

definition txt_opening_saved :: ustring where
  "txt_opening_saved =
     [9989, 32, 1042, 1088, 1077, 1084, 1103, 32, 1086, 1090, 1082, 1088, 1099, 1090, 1080, 1103,
      32, 1088, 1077, 1075, 1080, 1089, 1090, 1088, 1072, 1094, 1080, 1080, 32, 1089, 1086, 1093,
      1088, 1072, 1085, 1077, 1085, 1086, 46, 10, 10]"

definition txt_confirmation_frozen :: ustring where
  "txt_confirmation_frozen =
     [1055, 1086, 1076, 1090, 1074, 1077, 1088, 1078, 1076, 1077, 1085, 1080, 1077, 32, 1091,
      1078, 1077, 32, 1086, 1090, 1082, 1088, 1099, 1090, 1086, 59, 32, 1088, 1072, 1089, 1087,
      1080, 1089, 1072, 1085, 1080, 1077, 32, 1080, 1079, 1084, 1077, 1085, 1080, 1090, 1100, 32,
      1085, 1077, 1083, 1100, 1079, 1103, 46, 10, 10]"

definition txt_opening_and_deadline_saved :: ustring where
  "txt_opening_and_deadline_saved =
     [9989, 32, 1042, 1088, 1077, 1084, 1103, 32, 1086, 1090, 1082, 1088, 1099, 1090, 1080, 1103,
      32, 1087, 1086, 1076, 1090, 1074, 1077, 1088, 1078, 1076, 1077, 1085, 1080, 1103, 32, 1080,
      32, 1076, 1077, 1076, 1083, 1072, 1081, 1085, 32, 1089, 1086, 1093, 1088, 1072, 1085, 1077,
      1085, 1099, 46, 10, 10]"

text \<open>The game of the dialogue; when it is gone, so is the dialogue.\<close>

definition scheduled_game :: "(event \<Rightarrow> bot_response dialog) \<Rightarrow> bot_response dialog" where
  "scheduled_game k =
     from_context (asc ''event_id'') (\<lambda>event_id.
     thenDo (ask (find_event event_id)) (\<lambda>found.
       case found of None \<Rightarrow> says_cleared txt_game_not_found | Some e \<Rightarrow> k e))"

definition schedule_saved ::
    "env \<Rightarrow> (time \<Rightarrow> (events, exn, bool) act) \<Rightarrow> ustring \<Rightarrow> ustring \<Rightarrow> bot_response dialog" where
  "schedule_saved X change event_id told =
     thenDo (ask (on_events X change)) (\<lambda>_.
     thenDo (ask (find_event event_id)) (\<lambda>found.
     thenDo clear_dialog (\<lambda>_.
       case found of None \<Rightarrow> says txt_game_not_found [] | Some e \<Rightarrow> scheduled_events_menu X e told)))"

definition schedule_frozen :: "env \<Rightarrow> event \<Rightarrow> ustring \<Rightarrow> bot_response dialog" where
  "schedule_frozen X e told = thenDo clear_dialog (\<lambda>_. scheduled_events_menu X e told)"

definition registration_time_fault :: "env \<Rightarrow> event \<Rightarrow> local_time \<Rightarrow> bool \<Rightarrow> ustring" where
  "registration_time_fault X e lt past =
     (if past then txt_registration_in_future
      else if not_before X lt (ev_confirmation_open_at e) then txt_registration_before_confirmation
      else if not_before X lt (ev_scheduled_close_at e) then txt_registration_before_close
      else [])"

definition reschedule_registration :: "env \<Rightarrow> ustring \<Rightarrow> bot_response dialog" where
  "reschedule_registration X v =
     scheduled_game (\<lambda>e.
       case scheduled_time v of
         None \<Rightarrow> give (registration_management_prompt e SCHEDULED_TIME_INVALID)
       | Some lt \<Rightarrow>
           thenDo (ask (in_past X lt)) (\<lambda>past.
             let fault = registration_time_fault X e lt past
             in if fault \<noteq> [] then give (registration_management_prompt e fault)
                else if ev_status e \<noteq> CREATED then schedule_frozen X e txt_schedule_frozen
                else
                  schedule_saved X (set_registration_open_at (ev_event_id e) (Some (xe_instant X lt)))
                    (ev_event_id e) txt_opening_saved))"

definition reschedule_confirmation :: "env \<Rightarrow> ustring \<Rightarrow> bot_response dialog" where
  "reschedule_confirmation X v =
     scheduled_game (\<lambda>e.
       case scheduled_time v of
         None \<Rightarrow> give (confirmation_management_prompt e SCHEDULED_TIME_INVALID)
       | Some lt \<Rightarrow>
           thenDo (ask (in_past X lt)) (\<lambda>past.
             let fault = confirmation_time_fault X lt past (ev_registration_open_at e) (ev_scheduled_close_at e)
             in if fault \<noteq> [] then give (confirmation_management_prompt e fault)
                else if ev_status e \<noteq> CREATED then schedule_frozen X e txt_confirmation_frozen
                else
                  thenDo (remember (asc ''confirmation_open_at'') (JString (iso_moscow X lt))) (\<lambda>_.
                  thenDo (into (asc ''ADMIN_SCHEDULE_CONFIRMATION_DEADLINE'')) (\<lambda>_.
                    give (scheduled_confirmation_deadline_response (schedule_button (ev_event_id e)) [])))))"

definition deadline_fault :: "env \<Rightarrow> local_time \<Rightarrow> time \<Rightarrow> time option \<Rightarrow> ustring" where
  "deadline_fault X lt opens closes =
     (if not_after X lt (Some opens) then txt_deadline_after_opening
      else if not_before X lt closes then txt_deadline_before_close
      else [])"

definition reschedule_deadline :: "env \<Rightarrow> ustring \<Rightarrow> bot_response dialog" where
  "reschedule_deadline X v =
     scheduled_game (\<lambda>e.
       let prompt = scheduled_confirmation_deadline_response (schedule_button (ev_event_id e))
       in case deadline_time v of
            None \<Rightarrow> give (prompt txt_bad_deadline)
          | Some lt \<Rightarrow>
              from_context (asc ''confirmation_open_at'') (\<lambda>s. either (from_iso s) (\<lambda>opens.
                let fault = deadline_fault X lt opens (ev_scheduled_close_at e)
                in if fault \<noteq> [] then give (prompt fault)
                   else if ev_status e \<noteq> CREATED then schedule_frozen X e txt_confirmation_frozen
                   else
                     schedule_saved X (set_confirmation_schedule (ev_event_id e) (Some opens) (Some (xe_instant X lt)))
                       (ev_event_id e) txt_opening_and_deadline_saved)))"

definition reschedule_close :: "env \<Rightarrow> ustring \<Rightarrow> bot_response dialog" where
  "reschedule_close X v =
     scheduled_game (\<lambda>e.
       case scheduled_time v of
         None \<Rightarrow> give (managed_close_response (ev_event_id e) Malformed)
       | Some lt \<Rightarrow>
           thenDo (ask (scheduled_close_validation X e lt)) (\<lambda>wrong.
             if wrong \<noteq> NoSlip then give (managed_close_response (ev_event_id e) wrong)
             else if ev_scheduled_close_operation_id e \<noteq> None then schedule_frozen X e txt_close_started
             else
               schedule_saved X (set_scheduled_close_at (ev_event_id e) (Some (xe_instant X lt))) (ev_event_id e)
                 txt_close_time_saved))"

end
