(* ===== verification/Edits.thy ===== *)
theory Edits
  imports Steps
begin

text \<open>
  Changing a game by a command (\<open>_admin_step\<close> of \<open>application/conversation_admin_dialog.py\<close>): its details, links
  and status, notifications to its players, archiving and deleting; and the whole of a step.  The dialogues of
  administrators, which the dialogues of players hand over to, are \<open>administration\<close>.
\<close>

section \<open>Details of a game\<close>

definition txt_new_name_empty :: ustring where
  "txt_new_name_empty =
     [1053, 1072, 1079, 1074, 1072, 1085, 1080, 1077, 32, 1080, 1075, 1088, 1099, 32, 1085, 1077,
      32, 1084, 1086, 1078, 1077, 1090, 32, 1073, 1099, 1090, 1100, 32, 1087, 1091, 1089, 1090,
      1099, 1084, 46, 32, 1042, 1074, 1077, 1076, 1080, 1090, 1077, 32, 1085, 1086, 1074, 1086,
      1077, 32, 1085, 1072, 1079, 1074, 1072, 1085, 1080, 1077, 58]"

definition txt_new_name_long :: ustring where
  "txt_new_name_long =
     [1053, 1072, 1079, 1074, 1072, 1085, 1080, 1077, 32, 1080, 1075, 1088, 1099, 32, 1085, 1077,
      32, 1076, 1086, 1083, 1078, 1085, 1086, 32, 1087, 1088, 1077, 1074, 1099, 1096, 1072, 1090,
      1100, 32, 50, 48, 48, 32, 1089, 1080, 1084, 1074, 1086, 1083, 1086, 1074, 46, 32, 1042,
      1074, 1077, 1076, 1080, 1090, 1077, 32, 1085, 1086, 1074, 1086, 1077, 32, 1085, 1072, 1079,
      1074, 1072, 1085, 1080, 1077, 58]"

definition txt_details_changed :: ustring where
  "txt_details_changed =
     [1053, 1072, 1079, 1074, 1072, 1085, 1080, 1077, 32, 1080, 32, 1076, 1072, 1090, 1072, 32,
      1080, 1075, 1088, 1099, 32, 1080, 1079, 1084, 1077, 1085, 1077, 1085, 1099, 58, 32]"

definition txt_details_accepted :: ustring where
  "txt_details_accepted =
     [9203, 32, 1048, 1079, 1084, 1077, 1085, 1077, 1085, 1080, 1077, 32, 1085, 1072, 1079, 1074,
      1072, 1085, 1080, 1103, 32, 1080, 32, 1076, 1072, 1090, 1099, 32, 1087, 1088, 1080, 1085,
      1103, 1090, 1086, 32, 1074, 32, 1086, 1073, 1088, 1072, 1073, 1086, 1090, 1082, 1091, 46]"

definition txt_amount_of :: ustring where
  "txt_amount_of =
     [1050, 1086, 1083, 1080, 1095, 1077, 1089, 1090, 1074, 1086, 32, 1080, 1075, 1088, 1086,
      1082, 1086, 1074, 32, 1080, 1075, 1088, 1099, 32]"

definition txt_is_changed :: ustring where
  "txt_is_changed = [32, 1080, 1079, 1084, 1077, 1085, 1077, 1085, 1086, 58, 32]"

definition txt_amount_accepted :: ustring where
  "txt_amount_accepted =
     [9203, 32, 1048, 1079, 1084, 1077, 1085, 1077, 1085, 1080, 1077, 32, 1082, 1086, 1083, 1080,
      1095, 1077, 1089, 1090, 1074, 1072, 32, 1080, 1075, 1088, 1086, 1082, 1086, 1074, 32, 1087,
      1088, 1080, 1085, 1103, 1090, 1086, 32, 1074, 32, 1086, 1073, 1088, 1072, 1073, 1086, 1090,
      1082, 1091, 46]"

definition txt_telegram_post_as_text :: ustring where
  "txt_telegram_post_as_text =
     [1054, 1090, 1087, 1088, 1072, 1074, 1100, 1090, 1077, 32, 1089, 1089, 1099, 1083, 1082,
      1091, 32, 1085, 1072, 32, 1087, 1086, 1089, 1090, 32, 1086, 1073, 32, 1080, 1075, 1088,
      1077, 32, 1074, 32, 84, 101, 108, 101, 103, 114, 97, 109, 32, 1086, 1073, 1099, 1095, 1085,
      1099, 1084, 32, 1090, 1077, 1082, 1089, 1090, 1086, 1074, 1099, 1084, 32, 1089, 1086, 1086,
      1073, 1097, 1077, 1085, 1080, 1077, 1084, 58]"

definition txt_now_vk_post :: ustring where
  "txt_now_vk_post =
     [1058, 1077, 1087, 1077, 1088, 1100, 32, 1086, 1090, 1087, 1088, 1072, 1074, 1100, 1090,
      1077, 32, 1089, 1089, 1099, 1083, 1082, 1091, 32, 1085, 1072, 32, 1087, 1086, 1089, 1090,
      32, 1086, 1073, 32, 1080, 1075, 1088, 1077, 32, 1074, 1086, 32, 86, 75, 58]"

definition txt_vk_post_as_text :: ustring where
  "txt_vk_post_as_text =
     [1054, 1090, 1087, 1088, 1072, 1074, 1100, 1090, 1077, 32, 1089, 1089, 1099, 1083, 1082,
      1091, 32, 1085, 1072, 32, 1087, 1086, 1089, 1090, 32, 1086, 1073, 32, 1080, 1075, 1088,
      1077, 32, 1074, 1086, 32, 86, 75, 32, 1086, 1073, 1099, 1095, 1085, 1099, 1084, 32, 1090,
      1077, 1082, 1089, 1090, 1086, 1074, 1099, 1084, 32, 1089, 1086, 1086, 1073, 1097, 1077,
      1085, 1080, 1077, 1084, 58]"

definition txt_post_links_of :: ustring where
  "txt_post_links_of =
     [9989, 32, 1057, 1089, 1099, 1083, 1082, 1080, 32, 1085, 1072, 32, 1087, 1086, 1089, 1090,
      1099, 32, 1080, 1075, 1088, 1099, 32]"

definition txt_links_saved :: ustring where
  "txt_links_saved = [32, 1089, 1086, 1093, 1088, 1072, 1085, 1077, 1085, 1099, 46, 10, 10]"

definition txt_status_of :: ustring where
  "txt_status_of = [1057, 1090, 1072, 1090, 1091, 1089, 32, 1080, 1075, 1088, 1099, 32]"

definition txt_status_changed :: ustring where
  "txt_status_changed = [32, 1080, 1079, 1084, 1077, 1085, 1105, 1085, 58, 32]"

definition txt_status_accepted :: ustring where
  "txt_status_accepted =
     [9203, 32, 1048, 1079, 1084, 1077, 1085, 1077, 1085, 1080, 1077, 32, 1057, 1090, 1072, 1090,
      1091, 1089, 1072, 32, 1087, 1088, 1080, 1085, 1103, 1090, 1086, 32, 1074, 32, 1086, 1073,
      1088, 1072, 1073, 1086, 1090, 1082, 1091, 46]"

definition txt_opening_accepted :: ustring where
  "txt_opening_accepted =
     [9203, 32, 1054, 1090, 1082, 1088, 1099, 1090, 1080, 1077, 32, 1087, 1086, 1076, 1090, 1074,
      1077, 1088, 1078, 1076, 1077, 1085, 1080, 1103, 32, 1087, 1088, 1080, 1085, 1103, 1090,
      1086, 32, 1074, 32, 1086, 1073, 1088, 1072, 1073, 1086, 1090, 1082, 1091, 46, 10, 10]"

definition txt_deadline_is :: ustring where
  "txt_deadline_is = [1044, 1077, 1076, 1083, 1072, 1081, 1085, 58, 32]"

definition txt_send_as_text :: ustring where
  "txt_send_as_text =
     [1054, 1090, 1087, 1088, 1072, 1074, 1100, 1090, 1077, 32, 1089, 1086, 1076, 1077, 1088,
      1078, 1080, 1084, 1086, 1077, 32, 1086, 1073, 1099, 1095, 1085, 1099, 1084, 32, 1090, 1077,
      1082, 1089, 1090, 1086, 1074, 1099, 1084, 32, 1089, 1086, 1086, 1073, 1097, 1077, 1085,
      1080, 1077, 1084, 46]"

definition txt_message_empty :: ustring where
  "txt_message_empty =
     [1057, 1086, 1086, 1073, 1097, 1077, 1085, 1080, 1077, 32, 1085, 1077, 32, 1084, 1086, 1078,
      1077, 1090, 32, 1073, 1099, 1090, 1100, 32, 1087, 1091, 1089, 1090, 1099, 1084, 46]"

definition txt_send_only_link :: ustring where
  "txt_send_only_link =
     [1055, 1088, 1080, 1096, 1083, 1080, 1090, 1077, 32, 1090, 1086, 1083, 1100, 1082, 1086, 32,
      1082, 1086, 1088, 1088, 1077, 1082, 1090, 1085, 1091, 1102, 32, 1089, 1089, 1099, 1083,
      1082, 1091, 45, 1087, 1088, 1080, 1075, 1083, 1072, 1096, 1077, 1085, 1080, 1077, 32, 1074,
      32, 1095, 1072, 1090, 32, 84, 101, 108, 101, 103, 114, 97, 109, 32, 1080, 1083, 1080, 32,
      86, 75, 46]"

definition txt_use_link_button :: ustring where
  "txt_use_link_button =
     [1044, 1083, 1103, 32, 1088, 1072, 1089, 1089, 1099, 1083, 1082, 1080, 32, 1089, 1089, 1099,
      1083, 1082, 1080, 32, 1085, 1072, 32, 1095, 1072, 1090, 32, 1080, 1089, 1087, 1086, 1083,
      1100, 1079, 1091, 1081, 1090, 1077, 32, 1082, 1085, 1086, 1087, 1082, 1091, 32, 171]"

definition txt_message_long :: ustring where
  "txt_message_long =
     [1048, 1090, 1086, 1075, 1086, 1074, 1086, 1077, 32, 1089, 1086, 1086, 1073, 1097, 1077,
      1085, 1080, 1077, 32, 1085, 1077, 32, 1076, 1086, 1083, 1078, 1085, 1086, 32, 1087, 1088,
      1077, 1074, 1099, 1096, 1072, 1090, 1100, 32, 52, 48, 48, 48, 32, 1089, 1080, 1084, 1074,
      1086, 1083, 1086, 1074, 46]"

definition txt_notification_accepted :: ustring where
  "txt_notification_accepted =
     [9203, 32, 1059, 1074, 1077, 1076, 1086, 1084, 1083, 1077, 1085, 1080, 1077, 32, 1087, 1088,
      1080, 1085, 1103, 1090, 1086, 32, 1074, 32, 1086, 1073, 1088, 1072, 1073, 1086, 1090, 1082,
      1091, 46]"

definition txt_name_differs :: ustring where
  "txt_name_differs =
     [1053, 1072, 1079, 1074, 1072, 1085, 1080, 1077, 32, 1085, 1077, 32, 1089, 1086, 1074, 1087,
      1072, 1083, 1086, 46, 32, 1042, 1074, 1077, 1076, 1080, 1090, 1077, 32, 1090, 1086, 1095,
      1085, 1086, 58, 10, 10]"

definition txt_deleted_game :: ustring where
  "txt_deleted_game = [128465, 32, 1048, 1075, 1088, 1072, 32]"

definition txt_rows_deleted :: ustring where
  "txt_rows_deleted =
     [44, 32, 1074, 1089, 1077, 32, 1079, 1072, 1087, 1080, 1089, 1080, 32, 1080, 32, 88, 76, 83,
      88, 45, 1090, 1072, 1073, 1083, 1080, 1094, 1099, 32, 1091, 1076, 1072, 1083, 1077, 1085,
      1099, 46]"

definition txt_archived_game :: ustring where
  "txt_archived_game = [128230, 32, 1048, 1075, 1088, 1072, 32]"

definition txt_is_archived :: ustring where
  "txt_is_archived =
     [32, 1072, 1088, 1093, 1080, 1074, 1080, 1088, 1086, 1074, 1072, 1085, 1072, 46, 32]"

definition txt_rows_kept :: ustring where
  "txt_rows_kept =
     [1048, 1075, 1088, 1072, 44, 32, 1079, 1072, 1087, 1080, 1089, 1080, 32, 1080, 32, 88, 76,
      83, 88, 45, 1090, 1072, 1073, 1083, 1080, 1094, 1099, 32, 1089, 1086, 1093, 1088, 1072,
      1085, 1077, 1085, 1099, 32, 1074, 32, 1087, 1086, 1089, 1090, 1086, 1103, 1085, 1085, 1086,
      1084, 32, 1089, 1087, 1080, 1089, 1082, 1077, 46]"

definition txt_delete_accepted :: ustring where
  "txt_delete_accepted =
     [9203, 32, 1059, 1076, 1072, 1083, 1077, 1085, 1080, 1077, 32, 1087, 1088, 1080, 1085, 1103,
      1090, 1086, 32, 1074, 32, 1086, 1073, 1088, 1072, 1073, 1086, 1090, 1082, 1091, 46]"

definition txt_archive_accepted :: ustring where
  "txt_archive_accepted =
     [9203, 32, 1040, 1088, 1093, 1080, 1074, 1072, 1094, 1080, 1103, 32, 1087, 1088, 1080, 1085,
      1103, 1090, 1072, 32, 1074, 32, 1086, 1073, 1088, 1072, 1073, 1086, 1090, 1082, 1091, 46]"

definition txt_admin_dialog_reset :: ustring where
  "txt_admin_dialog_reset =
     [1040, 1076, 1084, 1080, 1085, 1080, 1089, 1090, 1088, 1072, 1090, 1080, 1074, 1085, 1099,
      1081, 32, 1076, 1080, 1072, 1083, 1086, 1075, 32, 1089, 1073, 1088, 1086, 1096, 1077, 1085,
      46]"

definition update_name :: "ustring \<Rightarrow> bot_response dialog" where
  "update_name v =
     recall (\<lambda>ctx. needed_text ctx (asc ''event_id'') (\<lambda>event_id.
       if strip v = [] then says txt_new_name_empty [edit_game_button event_id]
       else if 200 < length (strip v) then says txt_new_name_long [edit_game_button event_id]
       else
         thenDo (into (asc ''ADMIN_UPDATE_GAME_DATE'')) (\<lambda>_.
         thenDo (remember (asc ''new_event_name'') (JString (strip v))) (\<lambda>_.
         date_in ctx (asc ''game_date'') (\<lambda>current_date.
           give (game_details_date_response event_id current_date False))))))"

definition update_date :: "env \<Rightarrow> pkey \<Rightarrow> inbound_message \<Rightarrow> ustring \<Rightarrow> bot_response dialog" where
  "update_date X pkey im v =
     given_date X (asc ''admin:details:next-saturday'') v (\<lambda>given. recall (\<lambda>ctx.
       case given of
         None \<Rightarrow>
           date_in ctx (asc ''game_date'') (\<lambda>current_date. needed_text ctx (asc ''event_id'') (\<lambda>event_id.
             give (game_details_date_response event_id current_date True)))
       | Some d \<Rightarrow>
           needed_text ctx (asc ''event_id'') (\<lambda>event_id. needed_text ctx (asc ''new_event_name'') (\<lambda>new_name.
           thenDo clear_dialog (\<lambda>_.
           thenDo (order X pkey im UPDATE_EVENT_DETAILS (asc ''UPDATE_EVENT_DETAILS'') event_id
                     (EventDetailsPayload new_name d)
                     (txt_details_changed @ event_reference new_name (Some d) @ [46]) [edit_game_button event_id] None) (\<lambda>_.
             accepted txt_details_accepted [edit_game_button event_id]))))))"

definition update_amount :: "env \<Rightarrow> pkey \<Rightarrow> inbound_message \<Rightarrow> ustring \<Rightarrow> bot_response dialog" where
  "update_amount X pkey im v =
     recall (\<lambda>ctx. needed_text ctx (asc ''event_id'') (\<lambda>event_id.
       case given_amount v of
         None \<Rightarrow> says (txt_whole_amount @ show_nat MAX_PLAYER_AMOUNT @ [58]) [edit_game_button event_id]
       | Some n \<Rightarrow>
           thenDo clear_dialog (\<lambda>_.
           context_event_reference ctx (\<lambda>reference.
           thenDo (order X pkey im UPDATE_PLAYER_AMOUNT (asc ''UPDATE_PLAYER_AMOUNT'') event_id (PlayerAmountPayload n)
                     (txt_amount_of @ reference @ txt_is_changed @ show_nat n @ [46]) [edit_game_button event_id] None) (\<lambda>_.
             accepted txt_amount_accepted [edit_game_button event_id])))))"

section \<open>Links to posts\<close>

definition telegram_post_step :: "inbound_message \<Rightarrow> ustring \<Rightarrow> bot_response dialog" where
  "telegram_post_step im v =
     from_context (asc ''event_id'') (\<lambda>event_id.
       if im_callback im \<noteq> None then says txt_telegram_post_as_text [edit_game_button event_id]
       else
         (case normalize_telegram_post_url v of
            None \<Rightarrow> says_message (BadTelegramPost v) [edit_game_button event_id]
          | Some url \<Rightarrow>
              thenDo (remember (asc ''telegram_post_url'') (JString url)) (\<lambda>_.
              thenDo (into (asc ''ADMIN_POST_LINK_VK'')) (\<lambda>_. says txt_now_vk_post [edit_game_button event_id]))))"

definition post_links_saved :: "env \<Rightarrow> ustring \<Rightarrow> ustring \<Rightarrow> ustring \<Rightarrow> bot_response dialog" where
  "post_links_saved X event_id telegram_post vk_post =
     thenDo (ask (on_events X (set_post_links event_id telegram_post vk_post))) (\<lambda>_.
     thenDo (ask (find_event event_id)) (\<lambda>found.
     thenDo clear_dialog (\<lambda>_.
       case found of
         None \<Rightarrow> says txt_game_not_found [back_to MANAGE_GAMES]
       | Some e \<Rightarrow>
           if ev_telegram_post_url e \<noteq> Some telegram_post \<or> ev_vk_post_url e \<noteq> Some vk_post then fail RuntimeError
           else
             says (txt_post_links_of @ reference_of e @ txt_links_saved @ asc ''Telegram: '' @ telegram_post
                   @ [10] @ asc ''VK: '' @ vk_post) [edit_game_button event_id])))"

definition vk_post_step :: "env \<Rightarrow> inbound_message \<Rightarrow> ustring \<Rightarrow> bot_response dialog" where
  "vk_post_step X im v =
     from_context (asc ''event_id'') (\<lambda>event_id.
       if im_callback im \<noteq> None then says txt_vk_post_as_text [edit_game_button event_id]
       else
         (case normalize_vk_post_url v of
            None \<Rightarrow> says_message (BadVkPost v) [edit_game_button event_id]
          | Some url \<Rightarrow>
              from_context (asc ''telegram_post_url'') (\<lambda>telegram_post. post_links_saved X event_id telegram_post url)))"

section \<open>Status\<close>

definition show_status_again :: "json_object \<Rightarrow> bot_response dialog" where
  "show_status_again ctx =
     needed_text ctx (asc ''event_name'') (\<lambda>event_name. needed_text ctx (asc ''event_status'') (\<lambda>s.
     valued (event_status_of s) (\<lambda>status. needed_text ctx (asc ''event_id'') (\<lambda>event_id.
     date_in ctx (asc ''game_date'') (\<lambda>d.
       give (admin_status_response event_name status event_id d))))))"

definition status_ordered ::
    "env \<Rightarrow> pkey \<Rightarrow> inbound_message \<Rightarrow> operation \<Rightarrow> ustring \<Rightarrow> payload \<Rightarrow> ustring \<Rightarrow> ustring
       \<Rightarrow> bot_response dialog" where
  "status_ordered X pkey im operation name payload label told =
     recall (\<lambda>ctx. needed_text ctx (asc ''event_id'') (\<lambda>event_id.
     thenDo clear_dialog (\<lambda>_. context_event_reference ctx (\<lambda>reference.
     thenDo (order X pkey im operation name event_id payload
               (txt_status_of @ reference @ txt_status_changed @ label @ [46]) [edit_game_button event_id] None) (\<lambda>_.
       accepted told [edit_game_button event_id])))))"

definition select_status :: "env \<Rightarrow> pkey \<Rightarrow> inbound_message \<Rightarrow> ustring \<Rightarrow> bot_response dialog" where
  "select_status X pkey im v =
     (case dict_get ADMIN_STATUS_CHOICES v of
        None \<Rightarrow> recall show_status_again
      | Some (label, operation) \<Rightarrow>
          if operation = OPEN_CONFIRMATION then
            thenDo (into (asc ''ADMIN_CONFIRMATION_DEADLINE'')) (\<lambda>_.
            from_context (asc ''event_id'') (\<lambda>event_id. give (confirmation_deadline_response event_id False)))
          else
            status_ordered X pkey im operation
              (if operation = OPEN_REGISTRATION then asc ''OPEN_REGISTRATION'' else asc ''CLOSE_EVENT'')
              EmptyPayload label txt_status_accepted)"

definition confirmation_deadline_step :: "env \<Rightarrow> pkey \<Rightarrow> inbound_message \<Rightarrow> ustring \<Rightarrow> bot_response dialog" where
  "confirmation_deadline_step X pkey im v =
     (let ordered = (\<lambda>lt. status_ordered X pkey im OPEN_CONFIRMATION (asc ''OPEN_CONFIRMATION'')
            (ConfirmationDeadlinePayload (xe_instant X lt)) STATUS_CONFIRMATION
            (txt_opening_accepted @ txt_deadline_is @ format_confirmation_deadline lt))
      in if v = asc ''admin:deadline:nearest-thursday''
         then thenDo (ask (reading X)) (\<lambda>now. ordered (closest_thursday_19 (xe_moscow X now)))
         else
           (case deadline_time v of
              None \<Rightarrow> from_context (asc ''event_id'') (\<lambda>event_id. give (confirmation_deadline_response event_id True))
            | Some lt \<Rightarrow> ordered lt))"

section \<open>Notifications\<close>

definition notification_text_of :: "bool \<Rightarrow> ustring \<Rightarrow> ustring \<Rightarrow> date option \<Rightarrow> ustring" where
  "notification_text_of all_players event_name v d =
     (if all_players then player_notification_text event_name v d else confirmed_notification_text event_name v d)"

text \<open>What is wrong with the text of a notification; nothing, when the answer is empty.\<close>

definition notification_fault ::
    "inbound_message \<Rightarrow> ustring \<Rightarrow> date option \<Rightarrow> bool \<Rightarrow> bool \<Rightarrow> ustring \<Rightarrow> ustring" where
  "notification_fault im event_name d link all_players v =
     (if im_callback im \<noteq> None then txt_send_as_text
      else if v = [] then txt_message_empty
      else if link \<and> \<not> is_plain_chat_link v then txt_send_only_link
      else if \<not> link \<and> \<not> all_players \<and> is_plain_chat_link v
      then txt_use_link_button @ SEND_CONFIRMED_LINK @ [187, 46]
      else if 4000 < length v \<or> 4000 < length (notification_text_of all_players event_name v d) then txt_message_long
      else [])"

definition notification_step :: "env \<Rightarrow> inbound_message \<Rightarrow> bool \<Rightarrow> bool \<Rightarrow> ustring \<Rightarrow> bot_response dialog" where
  "notification_step X im link all_players v =
     recall (\<lambda>ctx.
     needed_text ctx (asc ''event_name'') (\<lambda>event_name. needed_text ctx (asc ''event_id'') (\<lambda>event_id.
     date_in ctx (asc ''game_date'') (\<lambda>d.
       let fault = notification_fault im event_name d link all_players v
       in if fault \<noteq> [] then give (confirmed_notification_prompt event_name event_id link all_players d fault)
          else
            thenDo (ask (if all_players then active_registration_count X event_id
                         else confirmed_registration_count X event_id link)) (\<lambda>recipient_count.
            thenDo (into (if all_players then asc ''ADMIN_ALL_PLAYERS_NOTIFICATION_CONFIRM''
                          else asc ''ADMIN_NOTIFICATION_CONFIRM'')) (\<lambda>_.
            thenDo (remember (asc ''notification_text'') (JString v)) (\<lambda>_.
            thenDo (remember (asc ''notification_recipient_count'') (JInt (int recipient_count))) (\<lambda>_.
              give (confirmed_notification_preview event_name event_id v (int recipient_count) d all_players)))))))))"

definition notification_confirm :: "env \<Rightarrow> pkey \<Rightarrow> inbound_message \<Rightarrow> bool \<Rightarrow> ustring \<Rightarrow> bot_response dialog" where
  "notification_confirm X pkey im all_players v =
     recall (\<lambda>ctx.
     needed_text ctx (asc ''event_name'') (\<lambda>event_name. needed_text ctx (asc ''event_id'') (\<lambda>event_id.
     date_in ctx (asc ''game_date'') (\<lambda>d. needed_text ctx (asc ''notification_text'') (\<lambda>txt.
     needed ctx (asc ''notification_recipient_count'') (\<lambda>raw. either (json_number raw) (\<lambda>recipient_count.
       if v \<noteq> asc ''admin:notification:confirm''
       then give (confirmed_notification_preview event_name event_id txt recipient_count d all_players)
       else
         thenDo clear_dialog (\<lambda>_.
         thenDo (order X pkey im
                   (if all_players then SEND_ALL_PLAYERS_NOTIFICATION else SEND_CONFIRMED_NOTIFICATION)
                   (if all_players then asc ''SEND_ALL_PLAYERS_NOTIFICATION'' else asc ''SEND_CONFIRMED_NOTIFICATION'')
                   event_id (NotificationPayload txt) [] [notification_management_button event_id] None) (\<lambda>_.
           accepted txt_notification_accepted [notification_management_button event_id])))))))))"

section \<open>Archiving and deleting\<close>

text \<open>A game that was archived meanwhile is deleted when its deletion was asked for; any other is archived.\<close>

definition archive_step :: "env \<Rightarrow> pkey \<Rightarrow> inbound_message \<Rightarrow> event option \<Rightarrow> ustring \<Rightarrow> bot_response dialog" where
  "archive_step X pkey im found v =
     with_user (\<lambda>u. recall (\<lambda>ctx.
     needed_text ctx (asc ''event_name'') (\<lambda>expected. needed_text ctx (asc ''event_id'') (\<lambda>event_id.
       let deleting = deletes_archived (state_of u) found; after = [back_to (if deleting then ARCHIVED_GAMES else MANAGE_GAMES)]
       in if strip v \<noteq> expected then
            says (txt_name_differs @ expected)
              [if state_of u = asc ''ADMIN_DELETE_NAME'' then game_management_button event_id
               else edit_game_button event_id]
          else
            thenDo clear_dialog (\<lambda>_. context_event_reference ctx (\<lambda>reference.
            thenDo (order X pkey im (if deleting then DELETE_EVENT else ARCHIVE_EVENT)
                      (if deleting then asc ''DELETE_EVENT'' else asc ''ARCHIVE_EVENT'') event_id EmptyPayload
                      (if deleting then txt_deleted_game @ reference @ txt_rows_deleted
                       else txt_archived_game @ reference @ txt_is_archived @ txt_rows_kept) after None) (\<lambda>_.
              accepted (if deleting then txt_delete_accepted else txt_archive_accepted) after)))))))"

section \<open>A step\<close>

text \<open>What each state does with what was sent.\<close>

definition role_step ::
    "env \<Rightarrow> pkey \<Rightarrow> inbound_message \<Rightarrow> ustring \<Rightarrow> ustring \<Rightarrow> bot_response dialog option" where
  "role_step X pkey im state v =
     dict_get
       [(asc ''ADMIN_GAMEMASTER_PLATFORM'', choose_role_platform X v),
        (asc ''ADMIN_GAMEMASTER_PROFILE'', grant_gamemaster X pkey im v),
        (asc ''ADMIN_EVENT_LEADER_PLATFORM'', choose_leader_platform v),
        (asc ''ADMIN_EVENT_LEADER_PROFILE'', add_event_leader X pkey im v),
        (asc ''ADMIN_EVENT_LEADER_PROMOTE_CONFIRM'', ask_promotion_again)] state"

definition roster_step ::
    "env \<Rightarrow> pkey \<Rightarrow> inbound_message \<Rightarrow> ustring \<Rightarrow> ustring \<Rightarrow> bot_response dialog option" where
  "roster_step X pkey im state v =
     dict_get
       [(asc ''ADMIN_REMOVE_PICK'', admin_remove_pick X v),
        (asc ''ADMIN_REMOVE_CONFIRM'', admin_remove_confirm X pkey im v),
        (asc ''ADMIN_REMOVE_WAITING_CONFIRM'', admin_remove_waiting_confirm X pkey im v),
        (asc ''ADMIN_WAITING_PICK'', admin_waiting_pick X pkey v),
        (asc ''ADMIN_PROFILES_PICK'', admin_profiles_pick X pkey v),
        (asc ''ADMIN_RESERVE_PROMOTION_PICK'', admin_reserve_promotion_pick X pkey v),
        (asc ''ADMIN_RESERVE_PROMOTION_CONFIRM'', admin_reserve_promotion_confirm X pkey im v)] state"

definition creation_step ::
    "env \<Rightarrow> pkey \<Rightarrow> inbound_message \<Rightarrow> ustring \<Rightarrow> ustring \<Rightarrow> bot_response dialog option" where
  "creation_step X pkey im state v =
     (if starts_with (asc ''ADMIN_QUESTION_CREATE_'') state then Some (question_creation_step X v)
      else if starts_with (asc ''ADMIN_QUESTION_EDIT_'') state then Some (question_edit_step X pkey im v)
      else if state \<in> {asc ''ADMIN_CREATE_MASTER_CHOICE'', asc ''ADMIN_CREATE_MASTER_PICK'',
                       asc ''ADMIN_CREATE_MASTER_PLATFORM'', asc ''ADMIN_CREATE_MASTER_PROFILE'',
                       asc ''ADMIN_CREATE_MASTER_PROMOTE_CONFIRM''}
      then Some (creation_master_step X pkey im v)
      else if state \<in> {asc ''ADMIN_CREATE_SCHEDULE_CHOICE'', asc ''ADMIN_CREATE_SCHEDULE_TIME''}
      then Some (creation_schedule_step X v)
      else if state \<in> {asc ''ADMIN_CREATE_CONFIRMATION_SCHEDULE_CHOICE'',
                       asc ''ADMIN_CREATE_CONFIRMATION_SCHEDULE_TIME'', asc ''ADMIN_CREATE_CONFIRMATION_DEADLINE''}
      then Some (creation_confirmation_schedule_step X pkey im v)
      else
        dict_get
          [(asc ''ADMIN_CREATE_NAME'', creation_name v), (asc ''ADMIN_CREATE_DATE'', creation_date X v),
           (asc ''ADMIN_CREATE_CLOSE_TIME'', creation_close X v),
           (asc ''ADMIN_CREATE_PLAYER_AMOUNT'', creation_amount X v)] state)"

definition schedule_step :: "env \<Rightarrow> ustring \<Rightarrow> ustring \<Rightarrow> bot_response dialog option" where
  "schedule_step X state v =
     dict_get
       [(asc ''ADMIN_SCHEDULE_REGISTRATION_TIME'', reschedule_registration X v),
        (asc ''ADMIN_SCHEDULE_CONFIRMATION_TIME'', reschedule_confirmation X v),
        (asc ''ADMIN_SCHEDULE_CONFIRMATION_DEADLINE'', reschedule_deadline X v),
        (asc ''ADMIN_SCHEDULE_CLOSE_TIME'', reschedule_close X v)] state"

definition change_step ::
    "env \<Rightarrow> pkey \<Rightarrow> inbound_message \<Rightarrow> event option \<Rightarrow> ustring \<Rightarrow> ustring \<Rightarrow> bot_response dialog option" where
  "change_step X pkey im found state v =
     dict_get
       [(asc ''ADMIN_UPDATE_GAME_NAME'', update_name v), (asc ''ADMIN_UPDATE_GAME_DATE'', update_date X pkey im v),
        (asc ''ADMIN_UPDATE_PLAYER_AMOUNT'', update_amount X pkey im v),
        (asc ''ADMIN_POST_LINK_TELEGRAM'', telegram_post_step im v),
        (asc ''ADMIN_POST_LINK_VK'', vk_post_step X im v),
        (asc ''ADMIN_STATUS_SELECT'', select_status X pkey im v),
        (asc ''ADMIN_CONFIRMATION_DEADLINE'', confirmation_deadline_step X pkey im v),
        (asc ''ADMIN_NOTIFICATION_LINK_TEXT'', notification_step X im True False v),
        (asc ''ADMIN_NOTIFICATION_MESSAGE_TEXT'', notification_step X im False False v),
        (asc ''ADMIN_NOTIFICATION_TEXT'', notification_step X im False False v),
        (asc ''ADMIN_ALL_PLAYERS_NOTIFICATION_TEXT'', notification_step X im False True v),
        (asc ''ADMIN_NOTIFICATION_CONFIRM'', notification_confirm X pkey im False v),
        (asc ''ADMIN_ALL_PLAYERS_NOTIFICATION_CONFIRM'', notification_confirm X pkey im True v),
        (asc ''ADMIN_ARCHIVE_NAME'', archive_step X pkey im found v),
        (asc ''ADMIN_DELETE_NAME'', archive_step X pkey im found v)] state"

definition first_of :: "'a option list \<Rightarrow> 'a option" where
  "first_of xs = (case present xs of [] \<Rightarrow> None | x # _ \<Rightarrow> Some x)"

definition take_step ::
    "env \<Rightarrow> pkey \<Rightarrow> inbound_message \<Rightarrow> event option \<Rightarrow> ustring \<Rightarrow> bot_response dialog" where
  "take_step X pkey im found v =
     with_user (\<lambda>u. let state = state_of u in
       case first_of [role_step X pkey im state v, roster_step X pkey im state v, creation_step X pkey im state v,
                      schedule_step X state v, change_step X pkey im found state v] of
         Some d \<Rightarrow> d
       | None \<Rightarrow> says_cleared txt_admin_dialog_reset)"

definition admin_step :: "env \<Rightarrow> pkey \<Rightarrow> inbound_message \<Rightarrow> ustring \<Rightarrow> bot_response dialog" where
  "admin_step X pkey im v =
     with_user (\<lambda>u. thenDo (ask (has_admin_access X u)) (\<lambda>access.
       if \<not> access then says_cleared txt_insufficient
       else
         event_guarded X (\<lambda>found.
           thenDo (if starts_with (asc ''mod:'') v \<or> starts_with (asc ''master:'') v
                   then admin_callback X pkey im v else give None) (\<lambda>shown.
             case shown of Some r \<Rightarrow> give r | None \<Rightarrow> take_step X pkey im found v))))"

definition administration :: "env \<Rightarrow> pkey \<Rightarrow> admin_dialogs" where
  "administration X pkey =
     \<lparr>ad_select = admin_select X pkey, ad_games = show_admin_games X, ad_menu = admin_menu X,
      ad_moderators = moderator_management_menu X, ad_game_action = admin_game_action X pkey,
      ad_step = admin_step X pkey, ad_statistics = admin_statistics_action X, ad_callback = admin_callback X pkey,
      ad_idle = dispatch_idle_admin X pkey\<rparr>"

end
