(* ===== verification/Scans.thy ===== *)
theory Scans
  imports Services
begin

text \<open>
  The scans over the games end whatever they do with a game, as long as that leaves the list of games alone:
  a page ends at a game strictly between the cursors it was asked for, so fewer games remain.
\<close>

section \<open>Games between two cursors\<close>

definition within :: "cursor option \<Rightarrow> cursor option \<Rightarrow> cursor \<Rightarrow> bool" where
  "within after before c \<longleftrightarrow>
     (case after of None \<Rightarrow> True | Some a \<Rightarrow> a < c) \<and> (case before of None \<Rightarrow> True | Some b \<Rightarrow> c < b)"

definition remaining :: "(cursor \<times> bool) list \<Rightarrow> cursor option \<Rightarrow> cursor option \<Rightarrow> nat" where
  "remaining L after before = length (filter (\<lambda>x. within after before (fst x)) L)"

lemma set_optional_filter: "e \<in> set (optional_filter v P xs) \<Longrightarrow> e \<in> set xs \<and> (\<forall>a. v = Some a \<longrightarrow> P a e)"
  by (auto simp: optional_filter_def split: option.splits)

lemmas optional_member = set_optional_filter[THEN conjunct1]

lemma set_take_last: "e \<in> set (take_last n xs) \<Longrightarrow> e \<in> set xs"
  by (auto simp: take_last_def dest: in_set_dropD)

lemma on_page:
  assumes "list_page statuses after before archived opened False n t r = Inr found" and "e \<in> set found"
  shows "event_cursor e \<in> fst ` set (listing r)" and "within after before (event_cursor e)"
proof -
  let ?after = "optional_filter after (\<lambda>c e. event_cursor e > c)
      (optional_filter opened (\<lambda>o' e. registration_is_open e t = o')
        (optional_filter archived (\<lambda>a e. (ev_archived_at e \<noteq> None) = a)
          (optional_filter statuses (\<lambda>accepted e. ev_status e \<in> set accepted)
            (sort_key event_cursor (dict_values (er_rows r))))))"
  have found: "found = take n (case before of None \<Rightarrow> ?after
      | Some c \<Rightarrow> take_last n (filter (\<lambda>e. event_cursor e < c) ?after))"
    using assms(1)[symmetric] unfolding list_page_def Let_def if_False
    by (simp only: sum.inject(2) sum.distinct split: if_split_asm)
  have "e \<in> set ?after \<and> (\<forall>c. before = Some c \<longrightarrow> event_cursor e < c)"
  proof (cases before)
    case None
    with assms(2) show ?thesis unfolding found by (auto dest: in_set_takeD)
  next
    case (Some c)
    from assms(2) have "e \<in> set (filter (\<lambda>e. event_cursor e < c) ?after)"
      unfolding found Some option.case by (rule set_take_last[OF in_set_takeD])
    with Some show ?thesis by (simp only: set_filter mem_Collect_eq option.inject) blast
  qed
  then have e: "e \<in> set ?after" and b: "\<forall>c. before = Some c \<longrightarrow> event_cursor e < c" by (rule conjunct1, rule conjunct2)
  have "e \<in> set (dict_values (er_rows r))"
    using e[THEN optional_member, THEN optional_member, THEN optional_member, THEN optional_member] by simp
  then show "event_cursor e \<in> fst ` set (listing r)" by (force simp: listing_def dict_values_def)
  from set_optional_filter[OF e] have "\<forall>c. after = Some c \<longrightarrow> c < event_cursor e" by blast
  with b show "within after before (event_cursor e)" by (simp add: within_def split: option.splits)
qed

lemma remaining_decreases:
  assumes "c \<in> fst ` set L" and "within after before c"
    and "\<And>x. within after' before' x \<Longrightarrow> within after before x \<and> x \<noteq> c"
  shows "remaining L after' before' < remaining L after before"
proof -
  from assms(1) obtain f where c: "(c, f) \<in> set L" by auto
  have "filter (\<lambda>x. within after' before' (fst x)) L =
      filter (\<lambda>x. within after' before' (fst x)) (filter (\<lambda>x. within after before (fst x)) L)"
    unfolding filter_filter using assms(3) by (intro filter_cong) auto
  also have "length \<dots> < length (filter (\<lambda>x. within after before (fst x)) L)"
    using c assms(2) assms(3)[of c] by (intro length_filter_less[of "(c, f)"]) auto
  finally show ?thesis by (simp add: remaining_def)
qed

lemma within_after:
  assumes "within after before c"
  shows "within (Some c) before x \<Longrightarrow> within after before x \<and> x \<noteq> c"
  using assms unfolding within_def by (cases after; cases before) (auto intro: less_trans)

lemma within_before:
  assumes "within after before c"
  shows "within after (Some c) x \<Longrightarrow> within after before x \<and> x \<noteq> c"
  using assms unfolding within_def by (cases after; cases before) (auto intro: less_trans)

lemma remaining_bound: "remaining (listing (w_events w)) after before < paging_fuel w"
  unfolding remaining_def paging_fuel_def
  by (rule le_imp_less_Suc, rule le_trans[OF length_filter_le]) (simp add: listing_def)

section \<open>The scan ends\<close>

lemma page_now_result:
  assumes "page_now X statuses after before archived n w = (r, w')"
  shows "r = list_page statuses after before archived None False n (xe_clock X (w_turns w) 0) (w_events w)"
    and "w' = w\<lparr>w_turns := Suc (w_turns w)\<rparr>"
  using assms by (simp_all add: page_now_def ticking_def)

lemma page_now_settles [settles_intros]: "settles (page_now X statuses after before archived n)"
  unfolding page_now_def
  by (intro settles_intros) (auto simp: list_page_def Let_def)

lemma scan_step:
  assumes p: "page_now X statuses after before archived n w = (Inr candidates, w1)" and ne: "candidates \<noteq> []"
    and g: "gather candidates keep w1 = (Inr kept, w2)"
    and found: "found = (let inspected = map fst (filter snd (zip candidates kept))
      in if before \<noteq> None then inspected @ matches else matches @ inspected)"
  shows "scan X keep statuses archived n m (Suc fuel) after before matches w =
    (if m \<le> length found then (Inr (if before \<noteq> None then take_last m found else take m found), w2)
     else if length candidates < n then (Inr found, w2)
     else scan X keep statuses archived n m fuel (if before = None then Some (event_cursor (last candidates)) else after)
        (if before = None then None else Some (event_cursor (hd candidates))) found w2)"
  unfolding scan.simps(2) andThen_def p Let_def
  by (simp only: prod.case sum.case ne if_False g found Let_def) (cases before; simp)

lemma scan_ends:
  assumes settled: "\<And>e. settles (keep e)" and quiet: "\<And>e. keeps (about_store (games_listed L)) (keep e)"
  shows "about_store (games_listed L) w \<Longrightarrow> remaining L after before < fuel \<Longrightarrow>
     fst (scan X keep statuses archived n m fuel after before matches w) \<noteq> Inl OutOfFuel"
proof (induction fuel arbitrary: after before matches w)
  case (Suc fuel)
  obtain r1 w1 where p: "page_now X statuses after before archived n w = (r1, w1)" by fastforce
  note page = page_now_result[OF p]
  have w1: "about_store (games_listed L) w1" using Suc.prems(1) by (simp add: page about_store_def)
  show ?case
  proof (cases r1)
    case (Inl x)
    have "x \<noteq> OutOfFuel" using settlesD[OF page_now_settles p] Inl by simp
    with p Inl show ?thesis by (simp add: scan.simps(2) andThen_def)
  next
    case (Inr candidates)
    note p = p[unfolded Inr]
    show ?thesis
    proof (cases "candidates = []")
      case True
      with p show ?thesis by (simp add: scan.simps(2) andThen_def)
    next
      case ne: False
      obtain r2 w2 where g: "gather candidates keep w1 = (r2, w2)" by fastforce
      have s: "settles (gather candidates keep)" by (intro settles_intros settled)
      have "keeps (about_store (games_listed L)) (gather candidates keep)" by (intro keeps_intros quiet)
      then have w2: "about_store (games_listed L) w2" using keepsD[of _ _ w1] w1 g by (metis snd_conv)
      show ?thesis
      proof (cases r2)
        case (Inl x)
        with settlesD[OF s g] p ne g show ?thesis by (simp add: scan.simps(2) andThen_def)
      next
        case (Inr kept)
        have L: "L = listing (w_events w)" using Suc.prems(1) by (simp add: about_store_def games_listed_def)
        have on: "e \<in> set candidates \<Longrightarrow> event_cursor e \<in> fst ` set L \<and> within after before (event_cursor e)" for e
          using on_page[where r = "w_events w" and found = candidates and e = e and after = after and before = before] page(1) \<open>r1 = Inr candidates\<close> L
          by simp
        have less: "remaining L (if before = None then Some (event_cursor (last candidates)) else after)
            (if before = None then None else Some (event_cursor (hd candidates))) < fuel"
        proof -
          have "remaining L (if before = None then Some (event_cursor (last candidates)) else after)
              (if before = None then None else Some (event_cursor (hd candidates))) < remaining L after before"
          proof (cases before)
            case None
            then show ?thesis using on[of "last candidates"] ne
              by (auto intro!: remaining_decreases[where c = "event_cursor (last candidates)"] dest: within_after)
          next
            case (Some b)
            then show ?thesis using on[of "hd candidates"] ne
              by (auto intro!: remaining_decreases[where c = "event_cursor (hd candidates)"] dest: within_before)
          qed
          with Suc.prems(2) show ?thesis by simp
        qed
        show ?thesis
          unfolding scan_step[OF p ne g[unfolded Inr] refl, of m fuel matches] using Suc.IH[OF w2 less] by simp
      qed
    qed
  qed
qed simp

lemma scan_logs:
  assumes "\<And>e. keeps I (keep e)" and "\<And>a b. keeps I (page_now X statuses a b archived n)"
  shows "keeps I (scan X keep statuses archived n m fuel after before matches)"
proof (induction fuel arbitrary: after before matches)
  case (Suc fuel)
  then show ?case unfolding scan.simps(2) Let_def by (intro keeps_intros assms)
qed (simp add: keeps_def)

definition full_scan ::
    "env \<Rightarrow> (event \<Rightarrow> bool service) \<Rightarrow> event_status list option \<Rightarrow> bool option \<Rightarrow> nat \<Rightarrow> cursor option \<times> cursor option
       \<Rightarrow> nat \<Rightarrow> event list service" where
  "full_scan X keep statuses archived n c m w =
     scan X keep statuses archived n m (paging_fuel w) (fst c) (snd c) [] w"

lemma settles_full_scan [settles_intros]:
  assumes "\<And>e. settles (keep e)" and "\<And>e L. keeps (about_store (games_listed L)) (keep e)"
  shows "settles (full_scan X keep statuses archived n c m)"
  unfolding settles_def full_scan_def
proof (intro allI conjI)
  fix w
  show "fst (scan X keep statuses archived n m (paging_fuel w) (fst c) (snd c) [] w) \<noteq> Inl OutOfFuel"
    using remaining_bound by (intro scan_ends[OF assms]) (simp_all add: about_store_def games_listed_def)
  have "keeps (logged w) (scan X keep statuses archived n m (paging_fuel w) (fst c) (snd c) [])"
    by (intro scan_logs settles_logs settles_intros assms)
  then show "logged w (snd (scan X keep statuses archived n m (paging_fuel w) (fst c) (snd c) [] w))"
    by (simp add: keeps_def)
qed

lemma event_page_scans:
  "event_page X keep statuses archived after before event_limit concurrency =
     (if event_limit < 1 \<or> concurrency < 1 then throw ValueError
      else
        andThen (full_scan X keep statuses archived (min event_limit 10) (after, before) event_limit) (\<lambda>matches.
          if matches = [] then ret \<lparr>pg_events = [], pg_has_previous = False, pg_has_next = False\<rparr>
          else
            andThen (gather [(None, Some (event_cursor (hd matches))), (Some (event_cursor (last matches)), None)]
                (\<lambda>c. full_scan X keep statuses archived (min event_limit 10) c 1)) (\<lambda>sides.
              ret \<lparr>pg_events = matches, pg_has_previous = sides ! 0 \<noteq> [], pg_has_next = sides ! 1 \<noteq> []\<rparr>)))"
proof -
  have scans: "(\<lambda>(after_cursor, before_cursor) match_limit w.
      scan X keep statuses archived (min event_limit 10) match_limit (paging_fuel w) after_cursor before_cursor [] w) =
    full_scan X keep statuses archived (min event_limit 10)"
    by (intro ext) (auto simp: full_scan_def)
  show ?thesis
    by (rule ext) (simp only: event_page_def scans Let_def split: if_splits, simp)
qed

lemma settles_event_page [settles_intros]:
  assumes "\<And>e. settles (keep e)" and "\<And>e L. keeps (about_store (games_listed L)) (keep e)"
  shows "settles (event_page X keep statuses archived after before event_limit concurrency)"
  unfolding event_page_scans by (intro settles_intros assms) simp

lemma keeps_event_page:
  assumes "\<And>e. keeps (about_store P) (keep e)"
  shows "keeps (about_store P) (event_page X keep statuses archived after before event_limit concurrency)"
proof -
  have "keeps (about_store P) (full_scan X keep statuses archived n c m)" for n c m
    using scan_logs[OF assms keeps_page_now(1), where after = "fst c" and before = "snd c" and matches = "[]"]
    by (simp add: keeps_def full_scan_def)
  then show ?thesis unfolding event_page_scans by (intro keeps_intros)
qed

end
