(* ===== verification/Dialogs.thy ===== *)
theory Dialogs
  imports Signups Scans
begin

text \<open>
  What every dialogue keeps to: it comes to an end, it leaves games, registrations and queue consistent, and
  it changes the profile of the person only as a relation \<open>R\<close> allows.
\<close>

section \<open>Lawful dialogues\<close>

definition safe :: "'a service \<Rightarrow> bool" where
  "safe s \<longleftrightarrow> settles s \<and> keeps (about_store store_ok) s"

definition lawful :: "(user \<Rightarrow> user \<Rightarrow> bool) \<Rightarrow> 'a dialog \<Rightarrow> bool" where
  "lawful R d \<longleftrightarrow>
     (\<forall>u. safe (d u) \<and> (\<forall>w x u' w'. d u w = (Inr (x, u'), w') \<longrightarrow> R u u'))"

lemma safeI: "settles s \<Longrightarrow> keeps (about_store store_ok) s \<Longrightarrow> safe s"
  by (simp add: safe_def)

lemma lawfulD: "lawful R d \<Longrightarrow> d u w = (Inr (x, u'), w') \<Longrightarrow> R u u'"
  unfolding lawful_def by blast

lemma lawful_safe: "lawful R d \<Longrightarrow> safe (d u)"
  by (simp add: lawful_def)

text \<open>The fields that keep the state of the dialogue, and those that make up the profile.\<close>

definition without_dialog :: "user_base \<Rightarrow> user_base" where
  "without_dialog b =
     b\<lparr>us_dialog_state := [], us_dialog_context := [], us_last_update_id := None, us_last_update_at := None,
       us_last_bot_buttons := [], us_last_delivery_operation_id := None, us_updated_at := 0\<rparr>"

definition same_profile :: "user \<Rightarrow> user \<Rightarrow> bool" where
  "same_profile u v \<longleftrightarrow> with_base without_dialog u = with_base without_dialog v"

definition same_person :: "user \<Rightarrow> user \<Rightarrow> bool" where
  "same_person u v \<longleftrightarrow> local_identity u = local_identity v"

lemma with_base_twice: "with_base f (with_base g u) = with_base (\<lambda>b. f (g b)) u"
  by (cases u) simp_all

lemma same_profileI: "(\<And>b. without_dialog (f b) = without_dialog b) \<Longrightarrow> same_profile u (with_base f u)"
  by (simp add: same_profile_def with_base_twice)

lemma same_profile_person: "same_profile u v \<Longrightarrow> same_person u v"
  unfolding same_profile_def same_person_def by (metis local_identity_updates(1))

lemma same_profile_complete:
  assumes "same_profile u v"
  shows "profile_complete v = profile_complete u"
proof -
  have "profile_complete (with_base without_dialog x) = profile_complete x" for x
    by (cases x) (simp_all add: common_profile_complete_def without_dialog_def)
  then show ?thesis using assms unfolding same_profile_def by metis
qed

section \<open>Safe services\<close>

lemma safe_andThen: "safe m \<Longrightarrow> (\<And>x. safe (k x)) \<Longrightarrow> safe (andThen m k)"
  unfolding safe_def by (auto intro: settles_intros keeps_intros)

lemma safe_if: "(b \<Longrightarrow> safe m) \<Longrightarrow> (\<not> b \<Longrightarrow> safe n) \<Longrightarrow> safe (if b then m else n)"
  by simp

lemma safe_option: "safe m \<Longrightarrow> (\<And>y. safe (k y)) \<Longrightarrow> safe (case x of None \<Rightarrow> m | Some y \<Rightarrow> k y)"
  by (simp split: option.split)

lemma safe_basic: "safe (ret x)" "safe (reads f)" "x' \<noteq> OutOfFuel \<Longrightarrow> safe (throw x')"
  by (simp_all add: safe_def settles_intros keeps_intros)

lemma safe_lookups:
  "safe (find_event k)" "safe (leaders_now k)" "safe (rows_now k)" "safe (row_now k key)"
  "safe (identities_now p i)" "safe (reading X)" "safe users_now"
  "safe (page_now X st a b ar n)"
  unfolding safe_def by (auto intro!: settles_intros keeps_intros simp: users_now_def)

lemma safe_answers: "(\<And>w. f w \<noteq> Inl OutOfFuel) \<Longrightarrow> safe (answers f)"
  by (simp add: safe_def settles_intros keeps_intros)

lemma safe_from_sum: "x \<noteq> Inl OutOfFuel \<Longrightarrow> safe (from_sum x)"
  by (simp add: safe_def settles_intros keeps_from_sum)

lemma safe_asked_of_all:
  "safe (asked_of_all X ids IsAdmin a)" "safe (asked_of_all X ids IsGamemaster a)"
  unfolding safe_def asked_of_all_def by (auto intro!: settles_intros keeps_intros)

lemma safe_let: "safe (f v) \<Longrightarrow> safe (let x = v in f x)"
  by simp

lemmas safe_intros = safe_andThen safe_if safe_option safe_let safe_basic safe_lookups safe_asked_of_all

lemma safe_roles:
  "safe (is_admin X u)" "safe (privileged_role_of X u)" "safe (user_role_label X u)" "safe (has_admin_access X u)"
  "safe (can_view_unassigned_games X u)" "safe (is_event_leader u k)" "safe (can_view_event_details X u k)"
  unfolding can_view_event_details_def is_admin_def privileged_role_of_def user_role_label_def has_admin_access_def
    can_view_unassigned_games_def includes_role_def is_event_leader_def
  by (intro safe_intros)+

text \<open>The services about registrations and games that the dialogues of players use.\<close>

lemma keeps_participation:
  "legacy_plain X \<Longrightarrow> keeps (about_store store_ok) (participation X pkey e p i ids)"
  "legacy_plain X \<Longrightarrow> keeps (about_store (games_listed L)) (participation X pkey e p i ids)"
  unfolding participation_def
  by (intro keeps_intros sound_store.keeps_registrations_of listed_games.keeps_registrations_of; assumption)+

lemma settles_participation: "settles (participation X pkey e p i ids)"
  unfolding participation_def by (intro settles_intros)

lemma safe_registrations_of: "legacy_plain X \<Longrightarrow> safe (registrations_of X pkey e ids)"
  by (simp add: safe_def settles_intros sound_store.keeps_registrations_of)

lemma safe_get_registration: "legacy_plain X \<Longrightarrow> safe (get_registration X pkey k p i)"
  unfolding get_registration_def require_event_def
  by (intro safe_intros safe_registrations_of; simp)

lemma safe_gather: "(\<And>x. safe (f x)) \<Longrightarrow> safe (gather xs f)"
  unfolding safe_def by (auto intro: settles_intros keeps_intros)

lemma safe_participating: "legacy_plain X \<Longrightarrow> safe (participating_games_page X pkey p i a b n c)"
  unfolding participating_games_page_def
  by (intro safe_intros safeI settles_intros keeps_event_page keeps_intros keeps_participation settles_participation)

lemma safe_overview: "legacy_plain X \<Longrightarrow> safe (game_overview X pkey e p i)"
  unfolding game_overview_def
  by (intro safe_intros safeI settles_intros keeps_intros keeps_participation settles_participation)

lemma safe_registered_page: "legacy_plain X \<Longrightarrow> safe (registered_games_page X pkey who st ar rst a b n)"
  unfolding registered_games_page_def with_registration_def
  by (intro safe_intros safe_gather safeI settles_intros keeps_event_page keeps_intros
      sound_store.keeps_registrations_of listed_games.keeps_registrations_of)

lemma safe_on_date: "legacy_plain X \<Longrightarrow> safe (registrations_on_date X pkey p i d sts ex other)"
  unfolding registrations_on_date_def
  by (intro safe_intros safeI settles_intros sound_store.keeps_player_registrations)

lemma safe_menu: "safe (game_menu_availability X pkey p i)"
  by (intro safeI settles_game_menu) (unfold game_menu_availability_def, intro keeps_intros)

lemma safe_masters: "safe (event_master_records k)"
  by (intro safeI settles_intros keeps_intros)

lemma safe_tables: "legacy_plain X \<Longrightarrow> safe (ensure_event_tables X e r)"
  by (intro safeI settles_intros)
    (unfold ensure_event_tables_def, intro keeps_intros sound_store.keeps_ensure_migrated
      sound_store.keeps_ensure_public_table sound_store.keeps_refresh)

lemma safe_enqueue: "legacy_plain X \<Longrightarrow> safe (enqueue X pkey operation k p i payload reply key target)"
  by (intro safeI settles_intros sound_store.keeps_enqueue)

lemma safe_profile_sync: "safe (enqueue_profile_sync X p i names key)"
  unfolding enqueue_profile_sync_def
  by (intro safeI settles_intros keeps_intros sound_store.keeps_publishes)

section \<open>Rules for dialogues\<close>

locale dialogue =
  fixes R :: "user \<Rightarrow> user \<Rightarrow> bool"
  assumes joins: "R u v \<Longrightarrow> R v v' \<Longrightarrow> R u v'"
    and talks: "same_profile u v \<Longrightarrow> R u v"
begin

lemma stays: "R u u"
  by (rule talks) (simp add: same_profile_def)

lemma lawful_give: "lawful R (give x)"
  by (simp add: lawful_def give_def safe_basic stays)

lemma lawful_ask: "safe s \<Longrightarrow> lawful R (ask s)"
  unfolding lawful_def ask_def
  by (auto simp: andThen_def stays intro: safe_intros split: prod.splits sum.splits)

lemma lawful_thenDo:
  assumes m: "lawful R m" and k: "\<And>x. lawful R (k x)"
  shows "lawful R (thenDo m k)"
  unfolding lawful_def
proof (intro allI conjI impI)
  fix u
  show "safe (thenDo m k u)"
    unfolding thenDo_def using lawful_safe[OF m] lawful_safe[OF k] by (auto intro: safe_andThen)
  fix w x u' w'
  assume "thenDo m k u w = (Inr (x, u'), w')"
  then obtain y v w1 where "m u w = (Inr (y, v), w1)" and "k y v w1 = (Inr (x, u'), w')"
    by (auto simp: thenDo_def andThen_def split: prod.splits sum.splits)
  from lawfulD[OF m this(1)] lawfulD[OF k this(2)] show "R u u'" by (rule joins)
qed

lemma lawful_with_user: "(\<And>u. lawful R (f u)) \<Longrightarrow> lawful R (with_user f)"
  by (simp add: lawful_def with_user_def)

lemma lawful_recall: "(\<And>ctx. lawful R (k ctx)) \<Longrightarrow> lawful R (recall k)"
  unfolding recall_def by (intro lawful_with_user)

lemma lawful_fail: "x \<noteq> OutOfFuel \<Longrightarrow> lawful R (fail x)"
  by (simp add: lawful_def fail_def safe_basic)

lemma lawful_needed: "(\<And>v. lawful R (k v)) \<Longrightarrow> lawful R (needed ctx key k)"
  unfolding needed_def by (simp add: lawful_fail split: option.split)

lemma lawful_set_dialog: "(\<And>b. without_dialog (f b) = without_dialog b) \<Longrightarrow> lawful R (set_dialog f)"
  by (auto simp: lawful_def set_dialog_def safe_basic intro: talks same_profileI)

lemma lawful_moves:
  "lawful R (into state)" "lawful R (new_context ctx)" "lawful R (remember key v)" "lawful R clear_dialog"
  unfolding into_def new_context_def remember_def clear_dialog_def
  by (intro lawful_set_dialog; simp add: without_dialog_def)+

lemma lawful_says: "lawful R (says txt buttons)" "lawful R (says_cleared txt)"
  unfolding says_cleared_def says_def by (intro lawful_thenDo lawful_moves lawful_give)+

lemma lawful_if: "(b \<Longrightarrow> lawful R m) \<Longrightarrow> (\<not> b \<Longrightarrow> lawful R n) \<Longrightarrow> lawful R (if b then m else n)"
  by simp

lemma lawful_let: "(\<And>x. lawful R (f x)) \<Longrightarrow> lawful R (let x = v in f x)"
  by simp

lemma lawful_option:
  "lawful R m \<Longrightarrow> (\<And>y. x = Some y \<Longrightarrow> lawful R (k y)) \<Longrightarrow> lawful R (case x of None \<Rightarrow> m | Some y \<Rightarrow> k y)"
  by (simp split: option.split)

lemma lawful_prod: "(\<And>a b. lawful R (k a b)) \<Longrightarrow> lawful R (case x of (a, b) \<Rightarrow> k a b)"
  by (simp split: prod.split)

lemma lawful_sum:
  "(\<And>a. x = Inl a \<Longrightarrow> lawful R (f a)) \<Longrightarrow> (\<And>b. lawful R (g b)) \<Longrightarrow> lawful R (case x of Inl a \<Rightarrow> f a | Inr b \<Rightarrow> g b)"
  by (simp split: sum.split)

lemma lawful_list: "lawful R m \<Longrightarrow> (\<And>y ys. lawful R (k y ys)) \<Longrightarrow> lawful R (case xs of [] \<Rightarrow> m | y # ys \<Rightarrow> k y ys)"
  by (simp split: list.split)

lemmas lawful_intros =
  lawful_give lawful_thenDo lawful_with_user lawful_recall lawful_needed lawful_moves lawful_says
  lawful_if lawful_let lawful_option lawful_prod lawful_list lawful_ask

lemma lawful_text_of_flow: "(\<And>txt. lawful R (k txt)) \<Longrightarrow> lawful R (text_of_flow texts flow k)"
  unfolding text_of_flow_def by (intro lawful_intros lawful_fail) simp_all

lemma lawful_replacement_prompt: "lawful R (confirmation_replacement_prompt e other)"
  unfolding confirmation_replacement_prompt_def by (intro lawful_intros lawful_fail) simp_all

lemma lawful_leader_required: "lawful R (event_leader_required X k)"
  unfolding event_leader_required_def by (intro lawful_intros safe_roles)

end

interpretation talk: dialogue same_profile
  by unfold_locales (auto simp: same_profile_def)

interpretation person: dialogue same_person
  by unfold_locales (auto simp: same_person_def dest: same_profile_person[unfolded same_person_def])

end
