(* ===== verification/Conversation.thy ===== *)
theory Conversation
  imports Profiles Labels
begin

text \<open>
  The state machine of the dialogue (\<open>application/conversation_core.py\<close>): a message is answered according to
  its text or button, the state the dialogue is in, and the keyboard it was last given.  The dialogues of
  administrators are the parameter \<open>A\<close>.
\<close>

section \<open>The main menu\<close>

definition txt_choose_action :: ustring where
  "txt_choose_action =
     [1042, 1099, 1073, 1077, 1088, 1080, 1090, 1077, 32, 1076, 1077, 1081, 1089, 1090, 1074,
      1080, 1077, 58]"

definition txt_not_recognised :: ustring where
  "txt_not_recognised =
     [1053, 1077, 32, 1091, 1076, 1072, 1083, 1086, 1089, 1100, 32, 1088, 1072, 1089, 1087, 1086,
      1079, 1085, 1072, 1090, 1100, 32, 1082, 1086, 1084, 1072, 1085, 1076, 1091, 46, 32, 1042,
      1099, 1073, 1077, 1088, 1080, 1090, 1077, 32, 1076, 1077, 1081, 1089, 1090, 1074, 1080,
      1077, 32, 1082, 1085, 1086, 1087, 1082, 1086, 1081, 46]"

definition txt_action_cancelled :: ustring where
  "txt_action_cancelled =
     [1044, 1077, 1081, 1089, 1090, 1074, 1080, 1077, 32, 1086, 1090, 1084, 1077, 1085, 1077,
      1085, 1086, 46]"

definition txt_stale_button :: ustring where
  "txt_stale_button =
     [1069, 1090, 1072, 32, 1082, 1085, 1086, 1087, 1082, 1072, 32, 1091, 1089, 1090, 1072, 1088,
      1077, 1083, 1072, 46, 32, 1048, 1089, 1087, 1086, 1083, 1100, 1079, 1091, 1081, 1090, 1077,
      32, 1090, 1077, 1082, 1091, 1097, 1091, 1102, 32, 1082, 1083, 1072, 1074, 1080, 1072, 1090,
      1091, 1088, 1091, 32, 1080, 1079, 32, 1087, 1086, 1089, 1083, 1077, 1076, 1085, 1077, 1075,
      1086, 32, 1089, 1086, 1086, 1073, 1097, 1077, 1085, 1080, 1103, 32, 1073, 1086, 1090, 1072,
      32, 1080, 1083, 1080, 32, 1086, 1090, 1087, 1088, 1072, 1074, 1100, 1090, 1077, 32, 1086,
      1090, 1074, 1077, 1090, 32, 1090, 1077, 1082, 1089, 1090, 1086, 1084, 46, 32, 1045, 1089,
      1083, 1080, 32, 1074, 1099, 32, 1091, 1074, 1080, 1076, 1077, 1083, 1080, 32, 1101, 1090,
      1086, 32, 1089, 1086, 1086, 1073, 1097, 1077, 1085, 1080, 1077, 44, 32, 1087, 1086, 1087,
      1088, 1086, 1073, 1091, 1081, 1090, 1077, 32, 1085, 1072, 1087, 1080, 1089, 1072, 1090,
      1100, 32, 1073, 1086, 1090, 1091, 32, 47, 115, 116, 97, 114, 116]"

definition txt_signup_of :: ustring where
  "txt_signup_of =
     [1056, 1077, 1075, 1080, 1089, 1090, 1088, 1072, 1094, 1080, 1103, 32, 1085, 1072, 32, 1080,
      1075, 1088, 1091, 32]"

definition txt_not_open_yet :: ustring where
  "txt_not_open_yet =
     [32, 1077, 1097, 1105, 32, 1085, 1077, 32, 1086, 1090, 1082, 1088, 1099, 1090, 1072, 46, 32,
      1054, 1085, 1072, 32, 1086, 1090, 1082, 1088, 1086, 1077, 1090, 1089, 1103, 32]"

definition txt_interrupted :: ustring where
  "txt_interrupted =
     [1055, 1088, 1077, 1076, 1099, 1076, 1091, 1097, 1077, 1077, 32, 1076, 1077, 1081, 1089,
      1090, 1074, 1080, 1077, 32, 1087, 1088, 1077, 1088, 1074, 1072, 1085, 1086, 46, 32, 1042,
      1099, 1073, 1077, 1088, 1080, 1090, 1077, 32, 1076, 1077, 1081, 1089, 1090, 1074, 1080,
      1077, 58]"

definition main_menu :: "env \<Rightarrow> pkey \<Rightarrow> ustring \<Rightarrow> bot_response dialog" where
  "main_menu X pkey txt =
     with_user (\<lambda>u. let who = local_identity u in
       thenDo (ask (game_menu_availability X pkey (fst who) (snd who))) (\<lambda>(has_registrations, has_available).
       thenDo (ask (has_admin_access X u)) (\<lambda>admin.
         says txt (main_buttons admin has_registrations has_available))))"

section \<open>Going on with a dialogue\<close>

definition continue_dialog ::
    "env \<Rightarrow> pkey \<Rightarrow> admin_dialogs \<Rightarrow> inbound_message \<Rightarrow> ustring \<Rightarrow> bot_response dialog" where
  "continue_dialog X pkey A im v =
     with_user (\<lambda>u. let state = state_of u in
       if starts_with (asc ''PROFILE_'') state then profile_step X pkey A im v
       else if starts_with (asc ''ENLIST_'') state then enlist_step X pkey im v
       else if state = asc ''ANSWER_EDIT'' then answer_step X pkey im v
       else if state = asc ''CONFIRM_REPLACE'' then confirm_replacement_step X pkey im v
       else if state = asc ''CONFIRM_WISH'' then character_command X pkey im v CONFIRM
       else if state = asc ''CHARACTER_EDIT'' then character_command X pkey im v UPDATE_CHARACTER_WISH
       else if state = asc ''CO_PLAYER_EDIT'' then co_player_wish_command X pkey im v
       else if state = asc ''CANCEL_CONFIRM'' then cancel_step X pkey im v
       else if starts_with (asc ''ADMIN_'') state then ad_step A im v
       else thenDo clear_dialog (\<lambda>_. main_menu X pkey txt_interrupted))"

section \<open>Starting a dialogue\<close>

definition or_else :: "bot_response option dialog \<Rightarrow> bot_response dialog \<Rightarrow> bot_response dialog" where
  "or_else first other = thenDo first (\<lambda>r. case r of Some found \<Rightarrow> give found | None \<Rightarrow> other)"

definition idle_admin :: "env \<Rightarrow> pkey \<Rightarrow> admin_dialogs \<Rightarrow> inbound_message \<Rightarrow> ustring \<Rightarrow> bot_response dialog" where
  "idle_admin X pkey A im v = or_else (ad_idle A im v) (main_menu X pkey txt_not_recognised)"

text \<open>A command that opens a dialogue by its prefix.\<close>

definition start_prefixed ::
    "env \<Rightarrow> pkey \<Rightarrow> admin_dialogs \<Rightarrow> inbound_message \<Rightarrow> ustring \<Rightarrow> bot_response dialog" where
  "start_prefixed X pkey A im v =
     (if starts_with (asc ''select:'') v then select_event X pkey A im v
      else if starts_with (asc ''page:'') v then turn_to_page X pkey A v
      else if starts_with (asc ''wishes:'') v then wishes_action X pkey A im v
      else if starts_with (asc ''stats:'') v then ad_statistics A im v
      else if starts_with (asc ''ag:'') v then ad_game_action A im v
      else if starts_with (asc ''mod:'') v \<or> starts_with (asc ''master:'') v
      then or_else (ad_callback A im v) (idle_admin X pkey A im v)
      else idle_admin X pkey A im v)"

definition start_profile :: "env \<Rightarrow> ustring \<Rightarrow> user \<Rightarrow> bot_response dialog" where
  "start_profile X v u =
     (let complete = profile_complete u
      in if v = PROFILE then (if complete then profile_response X None else begin_profile False None)
         else if v = asc ''profile:menu'' then (if complete then profile_edit_menu else begin_profile False None)
         else if v \<in> {asc ''profile:reset'', asc ''profile:edit''} then begin_profile complete None
         else if complete then begin_profile_field (remove_prefix (asc ''profile:field:'') v)
         else begin_profile False None)"

definition is_profile_command :: "ustring \<Rightarrow> bool" where
  "is_profile_command v \<longleftrightarrow>
     v \<in> {PROFILE, asc ''profile:menu'', asc ''profile:reset'', asc ''profile:edit''}
     \<or> starts_with (asc ''profile:field:'') v"

definition start_dialog ::
    "env \<Rightarrow> pkey \<Rightarrow> admin_dialogs \<Rightarrow> inbound_message \<Rightarrow> ustring \<Rightarrow> bot_response dialog" where
  "start_dialog X pkey A im v =
     with_user (\<lambda>u.
       if is_profile_command v then start_profile X v u
       else if v = ENLIST_LABEL then
         (if \<not> profile_complete u then says txt_fill_profile [same_button PROFILE]
          else show_open_events X (asc ''enlist''))
       else if v = CONFIRM_LABEL then show_registered X pkey (asc ''confirm'') None None
       else if v \<in> {GAME_WISHES, CHARACTER_LABEL} then show_registered X pkey (asc ''wishes'') None None
       else if v = CANCEL_LABEL then show_registered X pkey (asc ''cancel'') None None
       else if v = MY_GAMES then show_my_games X pkey None None
       else if v \<in> {ADMIN_LABEL, ADMIN_MENU} then ad_menu A
       else start_prefixed X pkey A im v)"

section \<open>The link of a game\<close>

definition start_game_signup ::
    "env \<Rightarrow> pkey \<Rightarrow> admin_dialogs \<Rightarrow> inbound_message \<Rightarrow> event \<Rightarrow> bot_response dialog" where
  "start_game_signup X pkey A im e =
     thenDo (ask (reading X)) (\<lambda>now.
       if registration_is_open e now then select_event X pkey A im (asc ''select:enlist:'' @ ev_event_id e)
       else
         (case ev_registration_open_at e of
            None \<Rightarrow> fail AssertionError
          | Some t \<Rightarrow>
              main_menu X pkey (txt_signup_of @ event_reference (ev_name e) (ev_game_date e) @ txt_not_open_yet
                @ format_confirmation_deadline (xe_moscow X t) @ txt_moscow)))"

text \<open>\<open>/start\<close>, alone or with the token of a game: an archived game is none.\<close>

definition signup_event :: "ustring option \<Rightarrow> event option service" where
  "signup_event parameter =
     (case parameter of
        None \<Rightarrow> ret None
      | Some token \<Rightarrow>
          andThen (answers (\<lambda>w. get_by_signup_token token (w_events w))) (\<lambda>found.
            ret (case found of None \<Rightarrow> None | Some e \<Rightarrow> if ev_archived_at e \<noteq> None then None else Some e)))"

definition start_over ::
    "env \<Rightarrow> pkey \<Rightarrow> admin_dialogs \<Rightarrow> inbound_message \<Rightarrow> ustring option \<Rightarrow> bot_response dialog" where
  "start_over X pkey A im parameter =
     thenDo clear_dialog (\<lambda>_.
     thenDo (ask (signup_event parameter)) (\<lambda>found.
     with_user (\<lambda>u.
       if profile_complete u then
         (case found of
            Some e \<Rightarrow> start_game_signup X pkey A im e
          | None \<Rightarrow> main_menu X pkey WELCOME_TEXT)
       else
         thenDo (begin_profile False (map_option ev_event_id found)) (\<lambda>r.
           give (prefixed (WELCOME_TEXT @ [10, 10]) r)))))"

section \<open>Answering a message\<close>

definition cancel_dialog :: "env \<Rightarrow> pkey \<Rightarrow> bot_response dialog" where
  "cancel_dialog X pkey =
     with_user (\<lambda>u.
       let return_to_profile = (starts_with (asc ''PROFILE_'') (state_of u) \<and> is_editing u)
       in thenDo clear_dialog (\<lambda>_.
            if return_to_profile then profile_response X (Some PROFILE_EDITED)
            else main_menu X pkey txt_action_cancelled))"

definition is_admin_branch :: "user \<Rightarrow> ustring \<Rightarrow> bool" where
  "is_admin_branch u v \<longleftrightarrow>
     starts_with (asc ''ADMIN_'') (state_of u) \<or> v \<in> {ADMIN_LABEL, ADMIN_MENU} \<or> v \<in> set ADMIN_ACTIONS
     \<or> v \<in> set LEGACY_STATUS_ACTIONS
     \<or> list_ex (\<lambda>p. starts_with p v)
         [asc ''ag:'', asc ''mod:'', asc ''master:'', asc ''stats:'', asc ''select:admin-'', asc ''page:admin-'',
          asc ''page:a:'', asc ''page:r:'']"

text \<open>A button of an earlier keyboard, where the dialogue waits for a text.\<close>

definition is_stale_button :: "user \<Rightarrow> inbound_message \<Rightarrow> ustring \<Rightarrow> bool" where
  "is_stale_button u im v \<longleftrightarrow>
     state_of u \<in> set FREE_TEXT_DIALOG_STATES \<and> im_callback im \<noteq> None
     \<and> v \<notin> set (map bt_value (us_last_bot_buttons (base u))) \<and> v \<notin> {MAIN_MENU, ADMIN_MENU}"

definition restarts_game_action :: "ustring \<Rightarrow> bool" where
  "restarts_game_action v \<longleftrightarrow>
     list_ex (\<lambda>p. starts_with p v)
       [asc ''ag:manage:'', asc ''ag:edit:'', asc ''ag:files:'', asc ''ag:masters:'', asc ''ag:players:'',
        asc ''ag:notifications:'', asc ''ag:schedule'']"

definition respond ::
    "env \<Rightarrow> pkey \<Rightarrow> admin_dialogs \<Rightarrow> inbound_message \<Rightarrow> ustring \<Rightarrow> bot_response dialog" where
  "respond X pkey A im v =
     with_user (\<lambda>u.
       if is_stale_button u im v then says txt_stale_button (us_last_bot_buttons (base u))
       else if v \<in> {asc ''/menu'', MAIN_MENU, BACK} then
         thenDo clear_dialog (\<lambda>_. main_menu X pkey WELCOME_TEXT)
       else if v = CANCEL_DIALOG then cancel_dialog X pkey
       else if v \<in> {MANAGE_MODERATORS, LEGACY_MANAGE_MODERATORS} then
         thenDo clear_dialog (\<lambda>_. ad_moderators A)
       else if v = ADMIN_MENU then thenDo clear_dialog (\<lambda>_. ad_menu A)
       else if restarts_game_action v then thenDo clear_dialog (\<lambda>_. ad_game_action A im v)
       else if state_of u \<noteq> asc ''IDLE'' then continue_dialog X pkey A im v
       else start_dialog X pkey A im v)"

text \<open>A response without buttons outside a dialogue gets the way back to a menu.\<close>

definition with_default_buttons :: "env \<Rightarrow> bool \<Rightarrow> bot_response \<Rightarrow> bot_response dialog" where
  "with_default_buttons X admin_branch r =
     with_user (\<lambda>u.
       if state_of u = asc ''IDLE'' \<and> \<not> br_silent r \<and> br_buttons r = [] then
         thenDo (if admin_branch then ask (has_admin_access X u) else give False) (\<lambda>admin.
           give (r\<lparr>br_buttons := [if admin then admin_menu_button else main_menu_button]\<rparr>))
       else give r)"

definition save_handled :: "env \<Rightarrow> inbound_message \<Rightarrow> unit dialog" where
  "save_handled X im =
     thenDo (ask (reading X)) (\<lambda>handled. thenDo (ask (reading X)) (\<lambda>updated.
     thenDo (set_dialog (\<lambda>b. b\<lparr>us_last_update_id := Some (im_update_id im), us_last_update_at := Some handled,
       us_updated_at := updated\<rparr>)) (\<lambda>_. store_user X)))"

text \<open>The handle of a Telegram user follows the messages; a link that is not known yet is looked for again.\<close>

fun needs_link :: "user \<Rightarrow> bool" where
  "needs_link (TelegramUser b i v l h) \<longleftrightarrow> v \<noteq> None \<and> l = None"
| "needs_link (VkUser b i h) \<longleftrightarrow> False"

definition refresh_handle :: "env \<Rightarrow> inbound_message \<Rightarrow> unit dialog" where
  "refresh_handle X im =
     with_user (\<lambda>u.
       if \<not> is_TelegramUser u then give ()
       else
         (case normalize_telegram_handle (im_telegram_username im) of
            None \<Rightarrow> fail ValueError
          | Some h \<Rightarrow>
              thenDo (assign (with_handle h)) (\<lambda>_. with_user (\<lambda>now.
                if telegram_handle u \<noteq> telegram_handle now \<or> needs_link now then refresh_telegram_link X False
                else give ()))))"

definition unsupported :: "env \<Rightarrow> inbound_message \<Rightarrow> bot_response dialog" where
  "unsupported X im =
     thenDo (save_handled X im) (\<lambda>_. with_user (\<lambda>u.
       says UNSUPPORTED_CONTENT_RESPONSE (us_last_bot_buttons (base u))))"

definition answer_and_save ::
    "env \<Rightarrow> inbound_message \<Rightarrow> bool \<Rightarrow> bot_response dialog \<Rightarrow> bot_response dialog" where
  "answer_and_save X im admin_branch answer =
     thenDo answer (\<lambda>r.
     thenDo (with_default_buttons X admin_branch r) (\<lambda>shown.
     thenDo (set_dialog (\<lambda>b. b\<lparr>us_last_bot_buttons := br_buttons shown\<rparr>)) (\<lambda>_.
     thenDo (save_handled X im) (\<lambda>_. give shown))))"

text \<open>What was sent: the value of a button, or else the text.\<close>

definition sent_value :: "inbound_message \<Rightarrow> ustring" where
  "sent_value im = strip (text_or (im_callback im) (im_text im))"

definition answer_new ::
    "env \<Rightarrow> pkey \<Rightarrow> admin_dialogs \<Rightarrow> inbound_message \<Rightarrow> bot_response dialog" where
  "answer_new X pkey A im =
     thenDo (refresh_handle X im) (\<lambda>_. with_user (\<lambda>u.
       let v = sent_value im; admin_branch = is_admin_branch u v
       in case start_command v (fst (im_identity im)) of
            (is_start, parameter) \<Rightarrow>
              if is_start then answer_and_save X im admin_branch (start_over X pkey A im parameter)
              else if im_unsupported im then unsupported X im
              else answer_and_save X im admin_branch (respond X pkey A im v)))"

definition new_user :: "env \<Rightarrow> platform \<Rightarrow> int \<Rightarrow> user service" where
  "new_user X p i =
     (if p = SYSTEM then throw ValueError
      else
        andThen (reading X) (\<lambda>now.
          case user_validate (if p = TELEGRAM then TelegramUser (new_user_base now) i None None None
                              else VkUser (new_user_base now) i None) of
            None \<Rightarrow> throw ValueError | Some u \<Rightarrow> ret u))"

definition profile_now :: "env \<Rightarrow> platform \<Rightarrow> int \<Rightarrow> user service" where
  "profile_now X p i =
     andThen users_now (\<lambda>us. case users_get p i us of Some u \<Rightarrow> ret u | None \<Rightarrow> new_user X p i)"

definition silent_response :: "platform \<Rightarrow> bot_response" where
  "silent_response p = (response [] [])\<lparr>br_silent := True, br_deferred := (p = TELEGRAM)\<rparr>"

text \<open>\<open>ConversationService.handle\<close>: an update that was handled already is not handled again.\<close>

definition handle_message :: "env \<Rightarrow> pkey \<Rightarrow> admin_dialogs \<Rightarrow> inbound_message \<Rightarrow> bot_response service" where
  "handle_message X pkey A im =
     (let p = fst (im_identity im)
      in andThen (profile_now X p (snd (im_identity im))) (\<lambda>u.
           if us_last_update_id (base u) = Some (im_update_id im) then ret (silent_response p)
           else andThen (answer_new X pkey A im u) (\<lambda>(r, _). ret r)))"

end
