(* ===== verification/Talks.thy ===== *)
theory Talks
  imports Dialogs Conversation
begin

text \<open>
  Every dialogue of a player is lawful: it comes to an end and leaves games, registrations and queue
  consistent; only the questionnaire changes the profile.
\<close>

section \<open>Signing up and the lists of games\<close>

lemma settles_opened_page [settles_intros]: "settles (opened_page X statuses after)"
  unfolding opened_page_def by (intro settles_intros) (auto simp: list_page_def Let_def)

lemma keeps_opened_page [keeps_intros]:
  "keeps (about_store P) (opened_page X statuses after)" "keeps (logged w) (opened_page X statuses after)"
  by (auto simp: opened_page_def ticking_def keeps_def about_store_def logged_def split: prod.splits)

lemma all_opened_step:
  "all_opened X statuses (Suc fuel) after found w =
     (case list_page statuses after None (Some False) (Some True) False MAX_EVENT_PAGE_SIZE
        (xe_clock X (w_turns w) 0) (w_events w) of
        Inl x \<Rightarrow> (Inl x, w\<lparr>w_turns := Suc (w_turns w)\<rparr>)
      | Inr page \<Rightarrow>
          if length page < MAX_EVENT_PAGE_SIZE then (Inr (found @ page), w\<lparr>w_turns := Suc (w_turns w)\<rparr>)
          else all_opened X statuses fuel (Some (event_cursor (last page))) (found @ page)
                 (w\<lparr>w_turns := Suc (w_turns w)\<rparr>))"
  by (simp add: andThen_def opened_page_def ticking_def split: sum.split)

lemma all_opened_ends:
  "remaining (listing (w_events w)) after None < fuel \<Longrightarrow>
     fst (all_opened X statuses fuel after found w) \<noteq> Inl OutOfFuel"
proof (induction fuel arbitrary: after found w)
  case (Suc fuel)
  let ?w = "w\<lparr>w_turns := Suc (w_turns w)\<rparr>"
  let ?page = "list_page statuses after None (Some False) (Some True) False MAX_EVENT_PAGE_SIZE
      (xe_clock X (w_turns w) 0) (w_events w)"
  show ?case
  proof (cases ?page)
    case (Inl x)
    then have "x \<noteq> OutOfFuel" by (auto simp: list_page_def Let_def split: if_splits)
    with Inl show ?thesis by (simp add: all_opened_step del: all_opened.simps)
  next
    case (Inr page)
    show ?thesis
    proof (cases "length page < MAX_EVENT_PAGE_SIZE")
      case True
      with Inr show ?thesis by (simp add: all_opened_step del: all_opened.simps)
    next
      case False
      then have "last page \<in> set page" by (intro last_in_set) (auto simp: MAX_EVENT_PAGE_SIZE_def)
      note on = on_page[OF Inr this]
      have "remaining (listing (w_events w)) (Some (event_cursor (last page))) None <
          remaining (listing (w_events w)) after None"
        by (rule remaining_decreases[OF on]) (rule within_after[OF on(2)])
      with Suc.prems have "remaining (listing (w_events ?w)) (Some (event_cursor (last page))) None < fuel" by simp
      from Suc.IH[OF this] show ?thesis
        using Inr False by (simp add: all_opened_step del: all_opened.simps)
    qed
  qed
qed simp

lemma keeps_all_opened:
  assumes "\<And>after. keeps I (opened_page X statuses after)"
  shows "keeps I (all_opened X statuses fuel after found)"
proof (induction fuel arbitrary: after found)
  case (Suc fuel)
  then show ?case unfolding all_opened.simps by (intro keeps_intros assms)
qed (simp add: keeps_def)

lemma safe_opened_events: "safe (opened_events X statuses)"
proof (rule safeI)
  show "settles (opened_events X statuses)"
    unfolding settles_def opened_events_def
  proof (intro allI conjI)
    fix w
    show "fst (all_opened X statuses (paging_fuel w) None [] w) \<noteq> Inl OutOfFuel"
      by (rule all_opened_ends[OF remaining_bound])
    show "logged w (snd (all_opened X statuses (paging_fuel w) None [] w))"
      using keeps_all_opened[OF keeps_opened_page(2), of w X statuses "paging_fuel w" None "[]"]
      by (simp add: keeps_def)
  qed
  show "keeps (about_store store_ok) (opened_events X statuses)"
    using keeps_all_opened[OF keeps_opened_page(1)] by (simp add: keeps_def opened_events_def)
qed

definition admin_lawful :: "(user \<Rightarrow> user \<Rightarrow> bool) \<Rightarrow> admin_dialogs \<Rightarrow> bool" where
  "admin_lawful R A \<longleftrightarrow>
     (\<forall>im e flow. lawful R (ad_select A im e flow)) \<and> (\<forall>a b t. lawful R (ad_games A a b t))
     \<and> lawful R (ad_menu A) \<and> lawful R (ad_moderators A) \<and> (\<forall>im v. lawful R (ad_game_action A im v))
     \<and> (\<forall>im v. lawful R (ad_step A im v)) \<and> (\<forall>im v. lawful R (ad_statistics A im v))
     \<and> (\<forall>im v. lawful R (ad_callback A im v)) \<and> (\<forall>im v. lawful R (ad_idle A im v))"

lemma admin_lawfulD:
  assumes "admin_lawful R A"
  shows "lawful R (ad_select A im e flow)" "lawful R (ad_games A a b t)" "lawful R (ad_menu A)"
    "lawful R (ad_moderators A)" "lawful R (ad_game_action A im v)" "lawful R (ad_step A im v)"
    "lawful R (ad_statistics A im v)" "lawful R (ad_callback A im v)" "lawful R (ad_idle A im v)"
  using assms by (simp_all add: admin_lawful_def)

lemma then_sum_error: "x \<noteq> Inl e \<Longrightarrow> (\<And>y. f y \<noteq> Inl e) \<Longrightarrow> then_sum x f \<noteq> Inl e"
  by (cases x) auto

lemma if_error: "x \<noteq> Inl e \<Longrightarrow> y \<noteq> Inl e \<Longrightarrow> (if b then x else y) \<noteq> Inl e"
  by simp

lemma for_player_fuel: "for_player links \<noteq> Inl OutOfFuel"
  by (auto dest: for_player_error)

lemma my_game_text_error: "my_game_text e overview masters \<noteq> Inl OutOfFuel"
  unfolding my_game_text_def my_game_links_def Let_def
  by (intro then_sum_error if_error for_player_fuel) simp_all

lemma own_links_error: "own_links im u \<noteq> Inl OutOfFuel"
  by (auto simp: own_links_def split: user.splits option.splits)

lemma enlist_payload_error: "enlist_payload_of im ctx u \<noteq> Inl OutOfFuel"
  unfolding enlist_payload_of_def
  by (intro then_sum_error own_links_error) (simp split: prod.split option.split)

lemma cursor_time_error: "cursor_time s \<noteq> Inl OutOfFuel"
  by (auto simp: cursor_time_def int_of_digits_def time_of_micros_def Let_def split: sum.splits if_splits)

context dialogue
begin

lemma lawful_optional_cursor: "(\<And>v. lawful R (k v)) \<Longrightarrow> lawful R (optional_cursor wanted kind direction flow e k)"
  unfolding optional_cursor_def page_cursor_def by (intro lawful_intros lawful_fail) simp_all

lemma lawful_show_events: "lawful R (show_events X flow statuses after before empty_text)"
  unfolding show_events_def show_page_of_events_def
  by (intro lawful_intros lawful_optional_cursor lawful_text_of_flow safe_intros safe_opened_events)

lemma lawful_open_events: "lawful R (show_open_events X flow)"
  unfolding show_open_events_def by (intro lawful_text_of_flow lawful_show_events)

lemma lawful_my_game: "legacy_plain X \<Longrightarrow> lawful R (my_game_page X pkey e from_list)"
  unfolding my_game_page_def
  by (intro lawful_intros safe_intros safe_tables safe_overview safe_masters safe_from_sum my_game_text_error)

lemma lawful_my_games: "legacy_plain X \<Longrightarrow> lawful R (show_my_games X pkey after before)"
  unfolding show_my_games_def
  by (intro lawful_intros lawful_optional_cursor lawful_text_of_flow lawful_my_game safe_participating)

lemma lawful_registered: "legacy_plain X \<Longrightarrow> lawful R (show_registered X pkey flow after before)"
  unfolding show_registered_def nothing_registered_def
  by (intro lawful_intros lawful_optional_cursor lawful_text_of_flow safe_registered_page)

lemma lawful_parsed_cursor: "(\<And>c. lawful R (k c)) \<Longrightarrow> lawful R (parsed_cursor micros event_id k)"
  unfolding parsed_cursor_def using cursor_time_error[of micros]
  by (intro lawful_sum lawful_fail) auto

lemma lawful_directed: "(\<And>a b. lawful R (show a b)) \<Longrightarrow> lawful R (directed direction c show)"
  by (simp add: directed_def)

lemma lawful_pages:
  assumes "legacy_plain X" and "admin_lawful R A"
  shows "lawful R (admin_page X A v)" "lawful R (flow_page X pkey kind direction code micros event_id)"
    "lawful R (old_page X pkey A v)" "lawful R (turn_to_page X pkey A v)"
proof -
  note rules = lawful_intros lawful_directed lawful_parsed_cursor lawful_show_events lawful_my_games[OF assms(1)]
    lawful_registered[OF assms(1)] admin_lawfulD[OF assms(2)] safe_intros safe_roles
  show "lawful R (admin_page X A v)" for v
    unfolding admin_page_def by (intro rules)
  show "lawful R (flow_page X pkey kind direction code micros event_id)" for kind direction code micros event_id
    unfolding flow_page_def by (intro rules)
  show "lawful R (old_page X pkey A v)" for v
    unfolding old_page_def by (intro rules)
  then show "lawful R (turn_to_page X pkey A v)"
    unfolding turn_to_page_def
    using \<open>\<And>v. lawful R (admin_page X A v)\<close>
      \<open>\<And>micros kind event_id direction code. lawful R (flow_page X pkey kind direction code micros event_id)\<close>
    by (intro lawful_intros)
qed

lemma lawful_answer_prompt: "lawful R (answer_prompt e current changing)"
  unfolding answer_prompt_def by (intro lawful_intros lawful_fail) simp

lemma lawful_registration_of: "legacy_plain X \<Longrightarrow> lawful R (registration_of X pkey im k)"
  unfolding registration_of_def by (intro lawful_intros safe_get_registration)

lemma lawful_queue_command: "legacy_plain X \<Longrightarrow> lawful R (queue_command X pkey im operation name k payload success)"
  unfolding queue_command_def by (intro lawful_intros lawful_fail safe_intros safe_enqueue) simp

lemma lawful_start_answer: "legacy_plain X \<Longrightarrow> lawful R (start_answer_change X pkey im e)"
  unfolding start_answer_change_def by (intro lawful_intros lawful_registration_of lawful_answer_prompt)

lemma lawful_enqueue_enlist: "legacy_plain X \<Longrightarrow> lawful R (enqueue_enlist X pkey im)"
  unfolding enqueue_enlist_def
  by (intro lawful_intros lawful_registration_of lawful_answer_prompt lawful_queue_command safe_intros safe_from_sum
      enlist_payload_error)

lemma lawful_answer_step: "legacy_plain X \<Longrightarrow> lawful R (answer_step X pkey im v)"
  unfolding answer_step_def
  by (intro lawful_intros lawful_answer_prompt lawful_enqueue_enlist lawful_queue_command safe_intros)

lemma lawful_enlist_step: "legacy_plain X \<Longrightarrow> lawful R (enlist_step X pkey im v)"
  unfolding enlist_step_def wish_play_step_def
  by (intro lawful_intros lawful_answer_step lawful_enqueue_enlist lawful_fail; simp)

lemma lawful_wishes:
  assumes "legacy_plain X"
  shows "lawful R (character_command X pkey im v operation)" "lawful R (co_player_wish_command X pkey im v)"
  unfolding character_command_def co_player_wish_command_def
  by (intro lawful_intros lawful_sum lawful_queue_command lawful_registration_of safe_intros assms)+

lemma lawful_begin_wish: "lawful R (begin_confirmation_wish e r other)"
  unfolding begin_confirmation_wish_def by (intro lawful_intros)

lemma lawful_confirming:
  assumes "legacy_plain X"
  shows "lawful R (confirm_replacement_step X pkey im v)" "lawful R (cancel_step X pkey im v)"
  unfolding confirm_replacement_step_def cancel_step_def
  by (intro lawful_intros lawful_replacement_prompt lawful_registration_of lawful_begin_wish lawful_queue_command
      safe_intros assms)+

lemma lawful_on_that_day: "legacy_plain X \<Longrightarrow> lawful R (on_that_day X pkey im e statuses)"
  unfolding on_that_day_def by (intro lawful_ask safe_intros safe_on_date)

lemma lawful_select_event:
  assumes "legacy_plain X" and "admin_lawful R A"
  shows "lawful R (select_event X pkey A im v)"
  unfolding select_event_def select_enlist_def begin_signup_def select_registered_def select_confirm_def
    select_character_def select_cancel_def
  by (intro lawful_intros lawful_start_answer lawful_registration_of lawful_on_that_day lawful_my_game
      lawful_begin_wish lawful_replacement_prompt lawful_fail safe_intros admin_lawfulD assms; simp)

lemma lawful_wishes_action:
  assumes "legacy_plain X" and "admin_lawful R A"
  shows "lawful R (wishes_action X pkey A im v)"
  unfolding wishes_action_def
  by (intro lawful_intros lawful_select_event lawful_registration_of safe_intros assms)

end

section \<open>The questionnaire\<close>

lemma user_validate_person: "user_validate u = Some v \<Longrightarrow> local_identity v = local_identity u"
  by (cases u) (auto split: if_splits option.splits)

lemma lawful_assign: "(\<And>u. local_identity (f u) = local_identity u) \<Longrightarrow> lawful same_person (assign f)"
  by (auto simp: lawful_def assign_def same_person_def safe_basic dest: user_validate_person split: option.splits)

lemma assigned_person:
  "local_identity (with_handle h u) = local_identity u" "local_identity (with_link l u) = local_identity u"
  "local_identity (with_vk_url v u) = local_identity u"
  by (cases u; simp)+

lemma lawful_assigns:
  "lawful same_person (assign_base f)" "lawful same_person (assign (with_handle h))"
  "lawful same_person (assign (with_link l))" "lawful same_person (assign (with_vk_url v))"
  unfolding assign_base_def by (intro lawful_assign; simp add: assigned_person)+

lemma checked_details_error: "checked_details d \<noteq> Inl OutOfFuel"
  by (simp add: checked_details_def split: option.split)

lemma context_details_error: "pass_details_from_context ctx \<noteq> Inl OutOfFuel"
  unfolding pass_details_from_context_def Let_def key_text_def latin_text_def
  by (auto split: option.split intro!: then_sum_error if_error checked_details_error)

lemma lawful_set_details: "lawful same_person (set_details d)"
  unfolding set_details_def using checked_details_error[of d]
  by (intro person.lawful_sum lawful_assigns person.lawful_fail) auto

lemma lawful_with_details: "(\<And>d. lawful R (k d)) \<Longrightarrow> dialogue R \<Longrightarrow> lawful R (with_details k)"
  unfolding with_details_def
  by (intro dialogue.lawful_with_user dialogue.lawful_option dialogue.lawful_fail) simp_all

lemma safe_resolved: "safe (resolved_vk_id X url)"
  unfolding resolved_vk_id_def
  by (auto intro!: safe_intros safeI settles_intros keeps_intros split: option.split)

lemma safe_on_users: "(\<And>t. proper (m t)) \<Longrightarrow> safe (on_users X m)"
  by (intro safeI settles_intros keeps_intros)

lemma safe_saving: "safe (on_users X (update_telegram_link i h l))" "safe (on_users X (\<lambda>_. modifies (save_user u)))"
  by (intro safe_on_users; auto simp: proper_def update_telegram_link_def split: option.split)+

context dialogue
begin

lemma lawful_link:
  "(\<And>l. lawful R (assign (with_link l))) \<Longrightarrow> lawful R (refresh_telegram_link X force_vk_resolution)"
  unfolding refresh_telegram_link_def
  by (intro lawful_with_user) (auto split: user.split intro!: lawful_intros safe_intros safe_resolved safe_saving)

lemma lawful_store_user: "lawful R (store_user X)"
  unfolding store_user_def by (intro lawful_intros safe_saving)

lemma lawful_sync: "lawful R (sync_profile_names X im names)"
  unfolding sync_profile_names_def by (intro lawful_intros safe_intros safe_profile_sync)

lemma lawful_profile_response: "lawful R (profile_response X prefix)"
  unfolding profile_response_def by (intro lawful_intros safe_roles)

lemma lawful_edit_menu: "lawful R profile_edit_menu"
  unfolding profile_edit_menu_def by (intro lawful_intros)

lemma lawful_questions:
  "lawful R (asks state txt buttons)" "lawful R (says_to txt buttons)" "lawful R (ask_cyrillic_name txt)"
  "lawful R ask_nickname" "lawful R ask_crossplay" "lawful R ask_needs_pass" "lawful R ask_citizenship"
  "lawful R ask_latin_name" "lawful R ask_phone" "lawful R ask_email" "lawful R profile_contact_prompt"
  "lawful R (begin_profile editing k)"
  unfolding ask_cyrillic_name_def ask_nickname_def ask_crossplay_def ask_needs_pass_def ask_citizenship_def
    ask_latin_name_def ask_phone_def ask_email_def profile_contact_prompt_def begin_profile_def asks_def says_to_def
  by (intro lawful_intros)+

end

lemmas lawful_refresh_link = person.lawful_link[OF lawful_assigns(3)]

lemma lawful_complete_edit: "lawful same_person (complete_profile_edit X im previous)"
  unfolding complete_profile_edit_def
  by (intro person.lawful_intros lawful_refresh_link person.lawful_store_user person.lawful_sync person.lawful_profile_response)

lemma lawful_remember:
  "lawful same_person (remember_cyrillic v parts)" "lawful same_person (remember_latin parts)"
  unfolding remember_cyrillic_def remember_latin_def by (intro person.lawful_intros)+

lemma lawful_answers:
  "(\<And>b. lawful same_person (k1 b)) \<Longrightarrow> lawful same_person (yes_or_no v k1)"
  "(\<And>c. lawful same_person (k2 c)) \<Longrightarrow> lawful same_person (contact_answer v k2)"
  "(\<And>p. lawful same_person (k3 p)) \<Longrightarrow> lawful same_person (latin_answer v k3)"
  "(\<And>p. lawful same_person (k4 p)) \<Longrightarrow> lawful same_person (phone_answer v k4)"
  "(\<And>p. lawful same_person (k5 p)) \<Longrightarrow> lawful same_person (email_answer v k5)"
  unfolding yes_or_no_def contact_answer_def latin_answer_def phone_answer_def email_answer_def
  by (intro person.lawful_intros person.lawful_questions; assumption)+

lemma lawful_plain_answers:
  "lawful same_person (cyrillic_answer v)" "lawful same_person (needs_pass_answer v)"
  "lawful same_person (citizenship_answer v)"
  unfolding cyrillic_answer_def needs_pass_answer_def citizenship_answer_def
  by (intro person.lawful_intros lawful_answers person.lawful_questions lawful_remember)+

lemma lawful_field_begin: "lawful same_person (begin_profile_field field)"
  unfolding begin_profile_field_def Let_def
  by (intro person.lawful_with_user person.lawful_sum person.lawful_intros person.lawful_questions
      person.lawful_edit_menu person.lawful_fail)
    (auto split: option.splits list.splits)

lemmas lawful_changes =
  person.lawful_intros person.lawful_questions lawful_answers lawful_complete_edit lawful_assigns lawful_set_details
  lawful_remember lawful_refresh_link lawful_with_details[OF _ person.dialogue_axioms] person.lawful_sum
  person.lawful_fail

lemma lawful_field_steps:
  "lawful same_person (change_nickname X im v)"
  "lawful same_person (change_contact X im v)" "lawful same_person (change_crossplay X im v)"
  "lawful same_person (change_needs_pass X im v)" "lawful same_person (change_citizenship X im for_pass v)"
  "lawful same_person (change_latin_name X im field v)" "lawful same_person (change_phone X im for_pass v)"
  unfolding change_nickname_def change_contact_def change_crossplay_def change_needs_pass_def
    change_citizenship_def change_latin_name_def change_phone_def
  by (intro lawful_changes)+

lemma lawful_change_name: "lawful same_person (change_name X im v)"
  unfolding change_name_def Let_def by (intro lawful_changes)

lemma lawful_from_context:
  "lawful same_person (case pass_details_from_context ctx of Inl x \<Rightarrow> fail x | Inr d \<Rightarrow> set_details d)"
  using context_details_error[of ctx] by (intro lawful_changes) auto

lemma lawful_change_email: "lawful same_person (change_email X im for_pass v)"
  unfolding change_email_def
  by (intro lawful_answers person.lawful_thenDo person.lawful_if lawful_assigns person.lawful_recall
      lawful_from_context lawful_complete_edit lawful_set_details lawful_with_details[OF _ person.dialogue_axioms])

lemma lawful_field_step: "lawful same_person (profile_field_step X im v)"
  unfolding profile_field_step_def
  by (intro person.lawful_recall person.lawful_needed person.lawful_with_user person.lawful_let person.lawful_if
      lawful_field_steps lawful_change_name lawful_change_email person.lawful_fail) simp

lemma lawful_store_answers: "lawful same_person (store_answers ctx)"
  unfolding store_answers_def
  by (intro person.lawful_if person.lawful_thenDo lawful_assigns lawful_from_context)

lemma lawful_store_contact: "lawful same_person (store_contact X ctx)"
  unfolding store_contact_def
  by (intro person.lawful_with_user person.lawful_if person.lawful_needed person.lawful_thenDo lawful_assigns
      lawful_refresh_link)

lemma lawful_finish:
  assumes "legacy_plain X" and "admin_lawful same_person A"
  shows "lawful same_person (finish_profile X pkey A im)"
  unfolding finish_profile_def
  by (intro person.lawful_recall person.lawful_needed person.lawful_with_user person.lawful_let person.lawful_thenDo
      person.lawful_if lawful_assigns lawful_store_answers lawful_store_contact person.lawful_store_user person.lawful_sync
      person.lawful_moves person.lawful_profile_response)
    (auto split: json.split intro!: person.lawful_intros person.lawful_select_event assms)

lemma lawful_profile_step:
  assumes "legacy_plain X" and "admin_lawful same_person A"
  shows "lawful same_person (profile_step X pkey A im v)"
  unfolding profile_step_def initial_step_def
  by (intro person.lawful_intros person.lawful_questions lawful_field_step lawful_plain_answers lawful_answers
      lawful_remember lawful_finish assms person.lawful_fail) simp

section \<open>The state machine\<close>

context dialogue
begin

lemma lawful_main_menu: "lawful R (main_menu X pkey txt)"
  unfolding main_menu_def by (intro lawful_intros safe_menu safe_roles)

lemma lawful_or_else: "lawful R first \<Longrightarrow> lawful R other \<Longrightarrow> lawful R (or_else first other)"
  unfolding or_else_def by (intro lawful_intros)

lemma lawful_idle_admin: "admin_lawful R A \<Longrightarrow> lawful R (idle_admin X pkey A im v)"
  unfolding idle_admin_def by (intro lawful_or_else lawful_main_menu admin_lawfulD)

lemma lawful_prefixed:
  assumes "legacy_plain X" and "admin_lawful R A"
  shows "lawful R (start_prefixed X pkey A im v)"
  unfolding start_prefixed_def
  by (intro lawful_if lawful_select_event lawful_pages lawful_wishes_action lawful_or_else lawful_idle_admin
      admin_lawfulD[OF assms(2)] assms)

lemma safe_signup_event: "safe (signup_event parameter)"
  unfolding signup_event_def
  by (intro safe_intros safe_answers) (auto simp: get_by_signup_token_def the_only_error)

lemma lawful_cancel_dialog: "lawful R (cancel_dialog X pkey)"
  unfolding cancel_dialog_def by (intro lawful_intros lawful_profile_response lawful_main_menu)

lemma lawful_start_signup:
  assumes "legacy_plain X" and "admin_lawful R A"
  shows "lawful R (start_game_signup X pkey A im e)"
  unfolding start_game_signup_def
  by (intro lawful_thenDo lawful_ask lawful_if lawful_option lawful_fail lawful_select_event lawful_main_menu
      safe_intros assms) simp

lemma lawful_start_over:
  assumes "legacy_plain X" and "admin_lawful R A"
  shows "lawful R (start_over X pkey A im parameter)"
  unfolding start_over_def
  by (intro lawful_intros lawful_start_signup lawful_main_menu lawful_questions safe_signup_event assms)

lemma lawful_default_buttons: "lawful R (with_default_buttons X branch r)"
  unfolding with_default_buttons_def by (intro lawful_intros safe_roles)

end

lemma lawful_start:
  assumes "legacy_plain X" and "admin_lawful same_person A"
  shows "lawful same_person (start_dialog X pkey A im v)"
  unfolding start_dialog_def start_profile_def
  by (intro person.lawful_intros person.lawful_profile_response person.lawful_questions person.lawful_edit_menu
      lawful_field_begin person.lawful_open_events person.lawful_registered person.lawful_my_games
      person.lawful_prefixed admin_lawfulD[OF assms(2)] assms)

lemma lawful_continue:
  assumes "legacy_plain X" and "admin_lawful same_person A"
  shows "lawful same_person (continue_dialog X pkey A im v)"
  unfolding continue_dialog_def
  by (intro person.lawful_intros lawful_profile_step person.lawful_enlist_step person.lawful_answer_step
      person.lawful_confirming person.lawful_wishes person.lawful_main_menu admin_lawfulD[OF assms(2)] assms)

lemma lawful_respond:
  assumes "legacy_plain X" and "admin_lawful same_person A"
  shows "lawful same_person (respond X pkey A im v)"
  unfolding respond_def
  by (intro person.lawful_intros person.lawful_main_menu person.lawful_cancel_dialog lawful_continue lawful_start
      admin_lawfulD[OF assms(2)] assms)

lemma lawful_save_handled: "lawful same_person (save_handled X im)"
  unfolding save_handled_def
  by (intro person.lawful_thenDo person.lawful_ask person.lawful_set_dialog person.lawful_store_user safe_intros)
    (simp add: without_dialog_def)

lemma lawful_refresh_handle: "lawful same_person (refresh_handle X im)"
  unfolding refresh_handle_def
  by (intro person.lawful_intros lawful_assigns lawful_refresh_link person.lawful_fail) simp

lemma lawful_answer_and_save:
  assumes "lawful same_person answer"
  shows "lawful same_person (answer_and_save X im branch answer)"
  unfolding answer_and_save_def
  by (intro person.lawful_thenDo person.lawful_set_dialog person.lawful_default_buttons lawful_save_handled
      person.lawful_give assms) (simp add: without_dialog_def)

lemma lawful_answer_new:
  assumes "legacy_plain X" and "admin_lawful same_person A"
  shows "lawful same_person (answer_new X pkey A im)"
  unfolding answer_new_def unsupported_def
  by (intro person.lawful_thenDo person.lawful_with_user person.lawful_let person.lawful_prod person.lawful_if
      lawful_refresh_handle lawful_answer_and_save person.lawful_start_over lawful_respond lawful_save_handled
      person.lawful_says assms)

lemma safe_profile_now: "safe (profile_now X p i)"
  unfolding profile_now_def new_user_def
  by (intro safe_intros) simp_all

lemma safe_handle_message:
  assumes "legacy_plain X" and "admin_lawful same_person A"
  shows "safe (handle_message X pkey A im)"
  unfolding handle_message_def Let_def
  using lawful_safe[OF lawful_answer_new[OF assms]]
  by (intro safe_andThen safe_if safe_basic safe_profile_now) (auto split: prod.split intro: safe_basic)

end
