(* ===== verification/Duties.thy ===== *)
theory Duties
  imports Edits Talks
begin

text \<open>
  The services that the dialogues of administrators ask for are safe: they come to an end and leave games,
  registrations and queue consistent.  The rules for the steps of these dialogues follow, among them those
  for attempts.
\<close>

section \<open>Safe services\<close>

lemma safe_prod: "(\<And>a b. x = (a, b) \<Longrightarrow> safe (k a b)) \<Longrightarrow> safe (case x of (a, b) \<Rightarrow> k a b)"
  by (simp split: prod.split)

lemma safe_sum:
  "(\<And>a. x = Inl a \<Longrightarrow> safe (f a)) \<Longrightarrow> (\<And>b. x = Inr b \<Longrightarrow> safe (g b)) \<Longrightarrow>
     safe (case x of Inl a \<Rightarrow> f a | Inr b \<Rightarrow> g b)"
  by (simp split: sum.split)

lemma safe_ticking: "(\<And>clk. safe (m clk)) \<Longrightarrow> safe (ticking X m)"
  unfolding safe_def by (auto intro!: settles_intros keeps_intros)

lemma safe_external: "\<not> queue_call c \<Longrightarrow> safe (external X c answer)"
  by (intro safeI settles_calls keeps_external)

lemma safe_catching:
  assumes m: "safe m" and h: "\<And>x. x \<noteq> OutOfFuel \<Longrightarrow> safe (h x)"
  shows "safe (catching m h)"
proof (rule safeI)
  show "settles (catching m h)" using m h by (intro settles_catching) (auto simp: safe_def)
  define g where "g x = (if x = OutOfFuel then throw x else h x)" for x
  have ends: "fst (m w) \<noteq> Inl OutOfFuel" for w using m by (simp add: safe_def settles_def)
  have same: "catching m h w = catching m g w" for w
    using ends[of w] by (auto simp: catching_def g_def split: prod.split sum.split)
  have "keeps (about_store store_ok) (g x)" for x using h by (simp add: g_def safe_def keeps_intros)
  then have "keeps (about_store store_ok) (catching m g)" using m by (intro keeps_catching) (auto simp: safe_def)
  then show "keeps (about_store store_ok) (catching m h)" by (simp add: keeps_def same)
qed

lemma safe_unless_throw: "x \<noteq> OutOfFuel \<Longrightarrow> safe (unless_throw ok x)"
  unfolding safe_def by (auto intro!: settles_intros keeps_intros)

lemma safe_on_events:
  "(\<And>t. proper (m t)) \<Longrightarrow> (\<And>t ev. event_step ev (snd (m t ev))) \<Longrightarrow> safe (on_events X m)"
  by (intro safeI settles_repositories sound_store.keeps_events)

lemma safe_publishes: "safe (publishes c)"
  by (intro safeI settles_lookups sound_store.keeps_publishes)

text \<open>What a service returns.\<close>

definition gives :: "('a \<Rightarrow> bool) \<Rightarrow> 'a service \<Rightarrow> bool" where
  "gives P m \<longleftrightarrow> (\<forall>w x w'. m w = (Inr x, w') \<longrightarrow> P x)"

lemma gives_andThen: "(\<And>x. gives P (k x)) \<Longrightarrow> gives P (andThen m k)"
  unfolding gives_def by (auto simp: andThen_def split: prod.splits sum.splits)

lemma gives_unless: "(ok \<Longrightarrow> gives P (k ())) \<Longrightarrow> gives P (andThen (unless_throw ok x) k)"
  unfolding gives_def by (auto simp: andThen_def unless_throw_def split: if_splits)

lemma gives_basic: "P x \<Longrightarrow> gives P (ret x)" "gives P (throw e)"
  by (simp_all add: gives_def)

lemma gives_if: "(b \<Longrightarrow> gives P m) \<Longrightarrow> (\<not> b \<Longrightarrow> gives P n) \<Longrightarrow> gives P (if b then m else n)"
  by simp

lemma safe_andThen_given:
  assumes "safe m" and "gives P m" and "\<And>x. P x \<Longrightarrow> safe (k x)"
  shows "safe (andThen m k)"
proof -
  define h where "h x = (if P x then k x else throw ValueError)" for x
  have "andThen m k = andThen m h"
    using assms(2) by (fastforce simp: fun_eq_iff andThen_def h_def gives_def split: prod.split sum.split)
  moreover have "safe (h x)" for x by (simp add: h_def assms(3) safe_basic)
  ultimately show ?thesis using assms(1) by (simp add: safe_andThen)
qed

lemmas safe_rules = safe_intros safe_prod safe_sum safe_ticking safe_unless_throw safe_publishes safe_roles

lemma proper_schedule_methods:
  "proper (set_registration_open_at k at t)" "proper (set_confirmation_schedule k at dl t)"
  "proper (set_scheduled_close_at k at t)" "proper (set_post_links k v w t)"
  unfolding set_registration_open_at_def set_confirmation_schedule_def set_scheduled_close_at_def set_post_links_def
  by (intro proper_basic proper_if proper_update_event; auto simp: revalidate_proper Let_def split: option.splits)+

lemma proper_leader_methods: "proper (add_leader k i)" "proper (remove_leader k i)"
  by (simp_all add: proper_def add_leader_def remove_leader_def)

lemma safe_schedule:
  "safe (on_events X (set_registration_open_at k at))" "safe (on_events X (set_confirmation_schedule k at dl))"
  "safe (on_events X (set_scheduled_close_at k at))" "safe (on_events X (set_post_links k v w))"
  "safe (on_events X (\<lambda>_. add_leader k i))" "safe (on_events X (\<lambda>_. remove_leader k i))"
  by (intro safe_on_events proper_schedule_methods proper_leader_methods event_step.intros)+

section \<open>The services of administration\<close>

lemma safe_migrated: "legacy_plain X \<Longrightarrow> safe (ensure_migrated X e)"
  by (intro safeI settles_intros sound_store.keeps_ensure_migrated)

lemma safe_require_event: "safe (require_event k)"
  unfolding require_event_def by (intro safe_rules; simp)

lemma safe_unarchived: "safe (unarchived_events X)"
  by (intro safeI settles_intros) (intro keeps_intros)

lemma safe_event_profiles: "safe (event_pass_profiles pkey us e rows)"
  by (intro safeI settles_intros sound_store.keeps_event_pass_profiles)

lemma safe_daily_profiles: "legacy_plain X \<Longrightarrow> safe (daily_pass_profiles X pkey us d)"
  by (intro safeI settles_intros sound_store.keeps_daily_pass_profiles)

lemma safe_refresh_day: "legacy_plain X \<Longrightarrow> safe (refresh_day X pkey d)"
  unfolding refresh_day_def
  by (intro safe_rules safe_external safe_daily_profiles; simp add: queue_call_def)

lemma safe_google_links: "safe (on_events X (set_google_table_links k a b g))"
  by (intro safe_on_events event_step.intros settles_intros)

lemma safe_refresh_passes: "legacy_plain X \<Longrightarrow> safe (refresh_event_passes X pkey k)"
  unfolding refresh_event_passes_def replace_event_passes_def
  by (intro safe_rules safe_external safe_event_profiles safe_refresh_day safe_google_links safe_require_event
      safe_migrated; simp add: queue_call_def)

lemma safe_roster_now: "legacy_plain X \<Longrightarrow> safe (roster_now X k)"
  unfolding roster_now_def by (intro safe_rules safe_require_event safe_migrated)

lemma list_page_for_event_error:
  "list_page_for_event k sts a b n r \<noteq> Inl OutOfFuel"
  by (simp add: list_page_for_event_def Let_def)

lemma safe_registration_pages:
  assumes "legacy_plain X"
  shows "safe (active_registration_page X k a b n)" "safe (waiting_registration_page X k a b n)"
    "safe (confirmed_reserve_registration_page X k a b n)"
  unfolding active_registration_page_def waiting_registration_page_def registration_page_of_def
    registration_page_now_def confirmed_reserve_registration_page_def
  by (intro safe_rules safe_require_event safe_migrated safe_answers safe_gather safe_roster_now
      list_page_for_event_error assms; simp)+

lemma safe_counts:
  assumes "legacy_plain X"
  shows "safe (can_promote_confirmed_reserve X k key)" "safe (has_unconfirmed_main_slot X k)"
    "safe (waiting_registration_count X k)" "safe (confirmed_registration_count X k b)"
    "safe (active_registration_count X k)" "safe (in_main_roster X k key)"
  unfolding can_promote_confirmed_reserve_def has_unconfirmed_main_slot_def waiting_registration_count_def
    confirmed_registration_count_def active_registration_count_def in_main_roster_def
  by (intro safe_rules safe_roster_now assms)+

lemma safe_catalog_get: "legacy_plain X \<Longrightarrow> safe (catalog_get X e key)"
  by (intro safeI settles_intros sound_store.keeps_catalog_get)

lemma safe_row_lookups:
  "legacy_plain X \<Longrightarrow> safe (registration_of_game X k key)" "safe (registration_user pkey k key)"
  "legacy_plain X \<Longrightarrow> safe (promotable_row X e key)"
  unfolding registration_of_game_def registration_user_def promotable_row_def
  by (intro safe_rules safe_require_event safe_catalog_get safe_counts; assumption?)+

section \<open>Announcements and uploads\<close>

lemma safe_claims: "safe (claims X i op buttons)"
  unfolding claims_def by (intro safe_rules safe_on_users proper_basic)

lemma safe_transported: "safe (transported X p i who request_id txt buttons)"
  unfolding transported_def by (intro safe_rules safe_external safe_claims; simp add: queue_call_def)

text \<open>The hook of an upload announces it.\<close>

definition safe_hook :: "unit service option \<Rightarrow> bool" where
  "safe_hook hook \<longleftrightarrow> (\<forall>h. hook = Some h \<longrightarrow> safe h)"

lemma safe_pending_callback: "safe_hook (upload_pending_callback X u im txt buttons operation)"
  by (auto simp: safe_hook_def upload_pending_callback_def Let_def safe_transported safe_basic)

lemma safe_uploading:
  assumes "safe_hook hook" and "\<not> queue_call c"
  shows "safe (uploading X hook c answer)"
proof -
  have "safe h" if "hook = Some h" for h using assms(1) that by (simp add: safe_hook_def)
  then show ?thesis
    unfolding uploading_def using assms(2)
    by (cases hook) (auto intro!: safe_rules safe_external)
qed

lemma safe_daily_table: "legacy_plain X \<Longrightarrow> safe_hook hook \<Longrightarrow> safe (create_daily_pass_table X pkey d who hook)"
  unfolding create_daily_pass_table_def
  by (intro safe_rules safe_external safe_daily_profiles safe_uploading; simp add: queue_call_def)

lemma safe_achievement: "safe (on_events X (set_achievement k v w))"
  by (intro safe_on_events event_step.intros settles_intros)

lemma safe_export: "safe_hook hook \<Longrightarrow> safe (export_achievements X k who hook)"
  unfolding export_achievements_def attach_achievement_def
  by (intro safe_rules safe_external safe_uploading safe_require_event safe_catching safe_achievement;
      simp add: queue_call_def)

lemma unused_token_safe: "safe (unused_token X tries n d)"
proof (induction tries)
  case (Suc tries)
  have token: "game_signup_token random n d tag \<noteq> Inl OutOfFuel" for random tag
    by (auto simp: game_signup_token_def Let_def split: if_splits)
  have "safe (draw_token X n d)" unfolding draw_token_def by (intro safe_rules safe_answers token)
  moreover have "safe (answers (\<lambda>w. get_by_signup_token candidate (w_events w)))" for candidate
    by (intro safe_answers) (auto simp: get_by_signup_token_def the_only_def split: list.splits)
  ultimately show ?case unfolding unused_token.simps by (intro safe_rules Suc.IH)
qed (unfold unused_token.simps, intro safe_basic, simp)

text \<open>Only a schedule that fits becomes a draft, so that its confirmation opens with a deadline.\<close>

lemma create_game_gives:
  "gives (\<lambda>(dr, urls, announced). draft_ok dr)
     (create_game X n d amount leaders opens confirmation deadline closes q who master_label pending hook)"
  unfolding create_game_def Let_def
  by (intro gives_unless gives_andThen; auto simp: split_beta draft_ok_def schedule_fits_def
      intro!: gives_andThen gives_basic)

lemma safe_create_game:
  "safe_hook hook \<Longrightarrow>
     safe (create_game X n d amount leaders opens confirmation deadline closes q who master_label pending hook)"
  unfolding create_game_def fresh_id_def
  by (intro safe_rules safe_uploading unused_token_safe; simp add: queue_call_def)

lemma build_event_gives: "gives (fresh_game dr) (build_event X dr urls)"
  by (auto simp: gives_def build_event_def ticking_def intro: new_event_fresh split: option.splits)

lemma safe_build_event: "safe (build_event X dr urls)"
  unfolding build_event_def by (intro safe_rules; simp)

lemma safe_store_event: "row_ok e \<Longrightarrow> ev_telegram_chat_id e = None \<Longrightarrow> safe (store_event X e leaders)"
  unfolding store_event_def
  by (intro safe_rules safe_catching safe_on_events event_step.create settles_intros; simp)

lemma safe_administer_event:
  assumes "legacy_plain X" and "safe_hook hook"
  shows "safe (administer_event X pkey n d amount leaders opens confirmation deadline closes q who master_label
    pending hook)"
proof -
  have rest: "safe (andThen (build_event X dr links) (\<lambda>built.
      andThen (store_event X built leaders) (\<lambda>e.
      andThen (refresh_day X pkey (Some d)) (\<lambda>_. ret (Some e, announced)))))"
    if "draft_ok dr" for dr links announced
    using fresh_game_row[OF _ that]
    by (intro safe_andThen_given[OF safe_build_event build_event_gives] safe_rules safe_store_event
        safe_refresh_day assms) auto
  show ?thesis
    unfolding administer_event_def
    by (rule safe_andThen_given[OF safe_create_game[OF assms(2)] create_game_gives])
      (auto split: prod.splits option.splits intro!: rest safe_rules)
qed

lemma safe_game_dates: "safe (active_game_dates X)"
  unfolding active_game_dates_def by (intro safe_rules safe_unarchived)

section \<open>People, roles and lists\<close>

lemma safe_token8: "safe (token8 X)"
  unfolding token8_def by (intro safe_rules)

lemma safe_daily_role: "safe (can_manage_daily_passes X u)"
  unfolding can_manage_daily_passes_def by (intro safe_rules)

lemma safe_in_past: "safe (in_past X lt)"
  unfolding in_past_def by (intro safe_rules)

lemma safe_close_validation: "safe (scheduled_close_validation X e lt)"
  unfolding scheduled_close_validation_def by (intro safe_rules safe_in_past)

lemma safe_signup_link: "safe (telegram_signup_link X e)"
  unfolding telegram_signup_link_def by (intro safe_rules safe_external; simp add: queue_call_def)

lemma safe_created_response: "safe (game_created_response X e d master_label pending)"
  unfolding game_created_response_def
  by (intro safe_rules safe_external safe_from_sum table_links_text_error; simp add: queue_call_def)

lemma list_page_error: "list_page sts after before archived opened newest n now r \<noteq> Inl OutOfFuel"
  by (auto simp: list_page_def Let_def)

lemma safe_newest: "safe (newest_page X archived after before n)" "safe (neighbours X archived es cursor_of)"
  unfolding neighbours_def newest_page_def by (intro safe_rules safe_answers list_page_error)+

lemma safe_stored_user: "safe (stored_user p i)"
  unfolding stored_user_def by (intro safe_rules)

lemma safe_people: "safe (moderator_users X removable)" "safe (master_candidates X)"
  unfolding master_candidates_def moderator_users_def
  by (intro safe_rules safe_external; simp add: queue_call_def)+

lemma safe_leader_changes: "safe (leader_added X k i)" "safe (leader_removed X k i)"
  unfolding leader_added_def leader_removed_def by (intro safe_rules safe_schedule; simp)+

lemma proper_roles: "proper (set_privileged_role p i role op)" "proper (clear_privileged_role p i op)"
  by (simp_all add: proper_def set_privileged_role_def clear_privileged_role_def split: option.split)

lemma safe_role_changes:
  "safe (grant_to X role op p i identities)" "safe (revoke_roles X op p i target)" "safe (granted_target X op target)"
  unfolding grant_to_def revoke_roles_def granted_target_def Let_def
  by (intro safe_rules safe_gather safe_on_users proper_roles safe_stored_user; simp)+

lemma safe_handle_update: "safe (on_users X (update_telegram_handle i h))"
  by (intro safe_on_users) (simp add: proper_def update_telegram_handle_def split: option.split)

lemma find_handle_error: "find_telegram_by_handle us h \<noteq> Inl OutOfFuel"
  by (auto simp: find_telegram_by_handle_def the_only_def split: list.splits)

lemma safe_find_profile: "safe (find_master_profile X pkey p v)"
  unfolding find_master_profile_def find_telegram_target_def find_telegram_user_by_profile_def
  by (intro safe_rules safe_external safe_from_sum find_handle_error safe_stored_user safe_handle_update;
      simp add: queue_call_def)

lemma safe_profile_search:
  "safe (catching (andThen (find_master_profile X pkey p v) (\<lambda>t. ret (Some t)))
     (\<lambda>x. if x = ValueError then ret None else throw x))"
  by (intro safe_rules safe_catching safe_find_profile; simp)

lemma safe_daily_export: "legacy_plain X \<Longrightarrow> safe_hook hook \<Longrightarrow> safe (daily_export X pkey d who hook)"
  unfolding daily_export_def
  by (intro safe_rules safe_catching safe_daily_table) (auto split: exn.split intro: safe_rules)

lemmas safe_administration =
  safe_rules safe_token8 safe_daily_role safe_in_past safe_close_validation safe_signup_link safe_created_response
  safe_newest safe_stored_user safe_people safe_leader_changes safe_role_changes safe_profile_search safe_schedule
  safe_game_dates safe_transported safe_gather safe_masters

lemmas safe_of_plain =
  safe_refresh_passes safe_registration_pages safe_counts safe_row_lookups safe_enqueue safe_daily_export
  safe_administer_event

section \<open>Values, replies and attempts\<close>

lemma json_number_error: "json_number v \<noteq> Inl OutOfFuel"
  by (cases v) (auto simp: json_number_def split: option.split)

lemma from_iso_error: "from_iso s \<noteq> Inl OutOfFuel"
  by (auto simp: from_iso_def split: option.split list.split prod.split)

lemma stored_cursor_error: "stored_cursor raw \<noteq> Inl OutOfFuel"
proof -
  have "then_sum (from_iso s) (\<lambda>moment. Inr (moment, key)) \<noteq> Inl OutOfFuel" for s and key :: ustring
    by (intro then_sum_error from_iso_error) simp
  then show ?thesis by (auto simp: stored_cursor_def split: json.split list.split)
qed

context dialogue
begin

lemma lawful_case_prod: "(\<And>a b. lawful R (k a b)) \<Longrightarrow> lawful R (case_prod k x)"
  by (simp split: prod.split)

lemma lawful_values:
  "x \<noteq> Inl OutOfFuel \<Longrightarrow> (\<And>y. lawful R (k1 y)) \<Longrightarrow> lawful R (either x k1)"
  "(\<And>y. lawful R (k2 y)) \<Longrightarrow> lawful R (valued x2 k2)"
  "(\<And>s. lawful R (k3 s)) \<Longrightarrow> lawful R (needed_text ctx key k3)"
  "(\<And>s. lawful R (k4 s)) \<Longrightarrow> lawful R (from_context key k4)"
  unfolding either_def valued_def needed_text_def from_context_def
  by (auto intro!: lawful_intros lawful_fail lawful_sum)

lemma lawful_dates:
  "(\<And>d. lawful R (k1 d)) \<Longrightarrow> lawful R (date_in ctx key k1)"
  "(\<And>t. lawful R (k2 t)) \<Longrightarrow> lawful R (moment_in ctx key k2)"
  "(\<And>d. lawful R (k3 d)) \<Longrightarrow> lawful R (needed_date ctx key k3)"
  "(\<And>s. lawful R (k4 s)) \<Longrightarrow> lawful R (context_event_reference ctx k4)"
  unfolding context_event_reference_def date_in_def moment_in_def needed_date_def
  by (intro lawful_if lawful_values from_iso_error; assumption)+

lemma lawful_drop: "lawful R (drop_entry key)" "lawful R (delivered request_id buttons)"
  unfolding drop_entry_def delivered_def by (intro lawful_set_dialog; simp add: without_dialog_def)+

lemma lawful_accepted: "lawful R (accepted txt buttons)" "lawful R (says_cleared_with txt buttons)"
  unfolding accepted_def says_cleared_with_def by (intro lawful_intros)+

lemma lawful_order_with:
  "legacy_plain X \<Longrightarrow> lawful R (order_with X pkey im operation name k payload reply target)"
  unfolding order_with_def by (intro lawful_intros lawful_fail safe_rules safe_enqueue; simp)

lemma lawful_order:
  "legacy_plain X \<Longrightarrow> lawful R (order X pkey im operation name k payload success buttons target)"
  unfolding order_def by (rule lawful_order_with)

lemma lawful_trying:
  assumes d: "lawful R d"
  shows "lawful R (trying d)"
  unfolding lawful_def
proof (intro allI conjI impI)
  fix u
  show "safe (trying d u)"
    unfolding trying_def using lawful_safe[OF d] by (intro safe_catching safe_rules; simp)
  fix w x u' w'
  assume "trying d u w = (Inr (x, u'), w')"
  then consider y w1 where "d u w = (Inr (y, u'), w1)" | "u' = u"
    by (auto simp: trying_def catching_def andThen_def split: prod.splits sum.splits if_splits)
  then show "R u u'" using lawfulD[OF d] stays by cases auto
qed

lemma lawful_and_try: "lawful R m \<Longrightarrow> (\<And>x. lawful R (k x)) \<Longrightarrow> lawful R (and_try m k)"
  unfolding and_try_def by (intro lawful_thenDo lawful_sum lawful_give)

lemma lawful_notify: "lawful R (notify_status_change X target request_id txt buttons)"
  unfolding notify_status_change_def by (intro lawful_intros lawful_drop safe_transported)

lemma lawful_announcement:
  assumes "\<And>hook. safe_hook hook \<Longrightarrow> safe (upload hook)"
  shows "lawful R (with_announcement X im txt buttons operation upload)"
  unfolding with_announcement_def
  by (intro lawful_intros lawful_case_prod lawful_drop assms safe_pending_callback)

lemmas lawful_steps = lawful_intros lawful_case_prod lawful_values json_number_error lawful_dates lawful_drop
  lawful_accepted lawful_notify lawful_trying lawful_and_try lawful_leader_required lawful_replacement_prompt

end

end
