(* ===== verification/Stewards.thy ===== *)
theory Stewards
  imports Duties
begin

text \<open>
  Every dialogue of an administrator is lawful too: it comes to an end, leaves games, registrations and queue
  consistent, and changes the profile of the person only by the roles the person takes or loses.
\<close>

section \<open>Menus and people\<close>

context dialogue
begin

lemma lawful_menus: "lawful R (admin_menu X)" "lawful R (moderator_management_menu X)"
  unfolding admin_menu_def moderator_management_menu_def
  by (intro lawful_steps safe_administration)+

lemma lawful_people:
  "lawful R (show_moderators X removing given)" "lawful R (event_masters_menu X e)"
  "lawful R (show_event_master_candidates X e given told)"
  unfolding show_moderators_def event_masters_menu_def show_event_master_candidates_def Let_def
  by (intro lawful_steps safe_administration; simp?)+

lemma lawful_daily_passes:
  assumes "legacy_plain X"
  shows "lawful R (daily_pass_table X pkey im d)" "lawful R (daily_passes_start X pkey im wanted)"
proof -
  show table: "lawful R (daily_pass_table X pkey im d)" for d
    unfolding daily_pass_table_def
    by (intro lawful_steps lawful_announcement safe_administration safe_of_plain assms)
  show "lawful R (daily_passes_start X pkey im wanted)"
    unfolding daily_passes_start_def Let_def
    by (intro lawful_steps table safe_administration)
qed

end

section \<open>Lists of players\<close>

context dialogue
begin

lemma lawful_offer: "lawful R (offer_players X e flow label extra txt page)"
  unfolding offer_players_def Let_def
  by (intro lawful_steps lawful_set_dialog safe_administration; simp add: without_dialog_def)

lemma lawful_enters: "lawful R (enters_list state e)"
  unfolding enters_list_def by (intro lawful_steps)

lemma lawful_cursors:
  "(\<And>c. lawful R (k1 c)) \<Longrightarrow> lawful R (stored_registration_cursor key k1)"
  "(\<And>c. lawful R (k2 c)) \<Longrightarrow> lawful R (optional_registration_cursor key k2)"
  unfolding optional_registration_cursor_def stored_registration_cursor_def
  by (intro lawful_steps stored_cursor_error; assumption)+

lemma lawful_player_lists:
  assumes "legacy_plain X"
  shows "lawful R (show_removable_players X e a b invalid)" "lawful R (show_waiting_players X e a b invalid)"
    "lawful R (show_player_profiles X e a b invalid)" "lawful R (current_player_profiles X e invalid)"
  unfolding current_player_profiles_def show_removable_players_def show_waiting_players_def show_player_profiles_def
    profiles_page_def
  by (intro lawful_steps lawful_offer lawful_enters lawful_cursors safe_of_plain assms)+

lemma lawful_reserve:
  assumes "legacy_plain X"
  shows "lawful R (show_confirmed_reserve_players X e a b invalid)"
    "lawful R (current_confirmed_reserve_players X e invalid)"
  unfolding current_confirmed_reserve_players_def show_confirmed_reserve_players_def reserve_list_def reserve_page_def
  by (intro lawful_steps lawful_offer lawful_enters lawful_cursors lawful_fail safe_of_plain assms; simp)+

lemma lawful_with_game: "(\<And>e. lawful R (k e)) \<Longrightarrow> lawful R (with_game k)"
  unfolding with_game_def game_gone_def by (intro lawful_steps safe_administration)

end

context dialogue
begin

lemma lawful_pick: "\<lbrakk>\<And>d t. lawful R (f d t); \<And>t. lawful R (g t); lawful R h\<rbrakk> \<Longrightarrow>
    lawful R (case v of TurnPage d t \<Rightarrow> f d t | PickOne t \<Rightarrow> g t | NoPick \<Rightarrow> h)"
  by (simp split: pick.split)

lemma lawful_waiting_pick: "legacy_plain X \<Longrightarrow> lawful R (admin_waiting_pick X pkey v)"
  unfolding admin_waiting_pick_def waiting_profile_def
  by (intro lawful_with_game lawful_steps lawful_pick lawful_cursors lawful_player_lists safe_row_lookups;
      assumption?)

lemma lawful_profiles_pick: "legacy_plain X \<Longrightarrow> lawful R (admin_profiles_pick X pkey v)"
  unfolding admin_profiles_pick_def viewed_profile_def
  by (intro lawful_with_game lawful_steps lawful_pick lawful_cursors lawful_player_lists safe_row_lookups
      safe_counts safe_roles; assumption?)

lemma lawful_promotion_pick: "legacy_plain X \<Longrightarrow> lawful R (admin_reserve_promotion_pick X pkey v)"
  unfolding admin_reserve_promotion_pick_def select_for_promotion_def reserve_promotion_confirmation_def
  by (intro lawful_with_game lawful_steps lawful_pick lawful_cursors lawful_reserve safe_row_lookups
      safe_counts safe_roles; assumption?)

lemma lawful_promotion_confirm: "legacy_plain X \<Longrightarrow> lawful R (admin_reserve_promotion_confirm X pkey im v)"
  unfolding admin_reserve_promotion_confirm_def promote_selected_def reserve_promotion_confirmation_def
  by (intro lawful_with_game lawful_steps lawful_reserve lawful_order safe_row_lookups safe_roles; assumption?)

lemma lawful_remove_pick: "legacy_plain X \<Longrightarrow> lawful R (admin_remove_pick X v)"
  unfolding admin_remove_pick_def select_for_removal_def remove_confirmation_response_def
  by (intro lawful_with_game lawful_steps lawful_pick lawful_cursors lawful_player_lists safe_row_lookups;
      assumption?)

lemma lawful_remove_confirm: "legacy_plain X \<Longrightarrow> lawful R (admin_remove_confirm X pkey im v)"
  unfolding admin_remove_confirm_def remove_confirmation_response_def remove_selected_def
  by (intro lawful_with_game lawful_steps lawful_player_lists lawful_order safe_row_lookups; assumption?)

lemma lawful_sift:
  assumes "legacy_plain X"
  shows "lawful R (remove_waiting_confirmation X e invalid)" "lawful R (admin_remove_waiting_confirm X pkey im v)"
  unfolding admin_remove_waiting_confirm_def remove_waiting_confirmation_def
  by (intro lawful_with_game lawful_steps lawful_order safe_counts safe_administration assms)+

lemma lawful_games: "lawful R (show_admin_games X a b archived)" "lawful R (show_statistics_games X a b)"
  unfolding show_admin_games_def show_statistics_games_def Let_def
  by (intro lawful_steps safe_administration)+

lemma lawful_statistics:
  "lawful R (statistics_menu X)" "lawful R (enqueue_statistics X im action game back_button)"
  "lawful R (admin_statistics_action X im v)"
  unfolding admin_statistics_action_def statistics_of_game_def enqueue_statistics_def statistics_menu_def Let_def
  by (intro lawful_steps lawful_parsed_cursor lawful_directed lawful_games safe_administration)+

end

section \<open>Roles\<close>

text \<open>The roles the person takes or loses are the only change of the profile.\<close>

locale stewardship = dialogue +
  assumes takes: "lawful R (takes_role role request_id)"
    and loses: "lawful R (loses_role request_id)"
begin

lemma lawful_says_message: "lawful R (says_message m buttons)"
  unfolding says_message_def by (intro lawful_steps)

lemma lawful_with_profile: "(\<And>t. lawful R (k t)) \<Longrightarrow> lawful R (with_profile X pkey p v back_button k)"
  unfolding with_profile_def by (intro lawful_steps lawful_says_message safe_administration)

lemma lawful_grant_role: "lawful R (grant_role X im role p target)"
  unfolding grant_role_def told_of_role_def already_has_def Let_def
  by (intro lawful_steps takes safe_administration)

lemma lawful_grant_gamemaster: "lawful R (grant_gamemaster X pkey im v)"
  unfolding grant_gamemaster_def
  by (intro lawful_steps lawful_with_profile lawful_grant_role safe_administration)

lemma lawful_promotion:
  "lawful R (master_promotion_question target state reference yes no)" "lawful R (promote_master_target X im target)"
  unfolding promote_master_target_def promote_now_def promotion_done_def master_promotion_question_def Let_def
  by (intro lawful_steps lawful_store_user safe_administration)+

end

section \<open>Masters\<close>

text \<open>The exception an attempt returns is one of the three that the code catches.\<close>

definition input_errors :: "'a attempt \<Rightarrow> bool" where
  "input_errors m \<longleftrightarrow> (\<forall>u w x u' w'. m u w = (Inr (Inl x, u'), w') \<longrightarrow> is_input_error x)"

lemma input_errors_trying: "input_errors (trying d)"
  unfolding input_errors_def trying_def
  by (auto simp: catching_def andThen_def split: prod.splits sum.splits if_splits)

lemma input_errors_and_try: "input_errors m \<Longrightarrow> (\<And>x. input_errors (k x)) \<Longrightarrow> input_errors (and_try m k)"
  unfolding input_errors_def and_try_def thenDo_def
  by (auto simp: andThen_def give_def split: prod.splits sum.splits) blast

lemma input_errors_cases:
  "(\<And>ctx. input_errors (k1 ctx)) \<Longrightarrow> input_errors (recall k1)"
  "input_errors m \<Longrightarrow> input_errors n \<Longrightarrow> input_errors (if b then m else n)"
  "input_errors m \<Longrightarrow> (\<And>y. input_errors (k2 y)) \<Longrightarrow> input_errors (case x of None \<Rightarrow> m | Some y \<Rightarrow> k2 y)"
  "(\<And>a b. input_errors (k3 a b)) \<Longrightarrow> input_errors (case_prod k3 p)"
  "(\<And>x. input_errors (k4 x)) \<Longrightarrow> input_errors (let x = v in k4 x)"
  by (simp_all add: input_errors_def recall_def with_user_def split: option.split prod.split)

lemma input_errors_assign: "input_errors (assign_event_leader X pkey im e target)"
  unfolding assign_event_leader_def add_master_def
  by (intro input_errors_cases input_errors_and_try input_errors_trying)

text \<open>What is done with a caught exception need only be lawful for the exceptions that are caught.\<close>

lemma thenDo_tried:
  "thenDo (trying d) k = thenDo (trying d) (\<lambda>r. case r of Inl x \<Rightarrow> if is_input_error x then k r else give undefined
     | Inr y \<Rightarrow> k r)"
proof (intro ext)
  fix u w
  show "thenDo (trying d) k u w = thenDo (trying d) (\<lambda>r. case r of Inl x \<Rightarrow> if is_input_error x then k r
     else give undefined | Inr y \<Rightarrow> k r) u w"
    using input_errors_trying[of d, unfolded input_errors_def, rule_format, of u w]
    by (auto simp: thenDo_def andThen_def split: prod.split sum.split)
qed

context dialogue
begin

lemma lawful_tried:
  assumes "lawful R d" and "\<And>x. is_input_error x \<Longrightarrow> lawful R (k (Inl x))" and "\<And>y. lawful R (k (Inr y))"
  shows "lawful R (thenDo (trying d) k)"
  using assms by (subst thenDo_tried) (auto intro!: lawful_steps split: sum.split)

lemma lawful_raised:
  assumes m: "lawful R m" and errors: "input_errors m"
  shows "lawful R (raised m)"
  unfolding lawful_def
proof (intro allI conjI impI)
  fix u
  have "gives (\<lambda>(r, v). r \<noteq> Inl OutOfFuel) (m u)"
    unfolding gives_def
  proof (intro allI impI)
    fix w x w' assume "m u w = (Inr x, w')"
    moreover have "m u w \<noteq> (Inr (Inl OutOfFuel, v), w')" for v
      using errors[unfolded input_errors_def, rule_format, of u w OutOfFuel v w'] by (auto simp: is_input_error_def)
    ultimately show "case x of (r, v) \<Rightarrow> r \<noteq> Inl OutOfFuel" by auto
  qed
  then show "safe (raised m u)"
    unfolding raised_def thenDo_def
    by (rule safe_andThen_given[OF lawful_safe[OF m]])
      (auto simp: either_def give_def fail_def split: sum.split intro: safe_rules)
  fix w x u' w'
  assume "raised m u w = (Inr (x, u'), w')"
  then obtain y w1 where "m u w = (Inr (y, u'), w1)"
    by (auto simp: raised_def thenDo_def andThen_def either_def give_def fail_def split: prod.splits sum.splits)
  from lawfulD[OF m this] show "R u u'" .
qed

end

context stewardship
begin

lemma lawful_master_added: "legacy_plain X \<Longrightarrow> lawful R (master_added X pkey e target request_id role)"
  unfolding master_added_def by (intro lawful_steps safe_of_plain)

lemma lawful_add_master: "legacy_plain X \<Longrightarrow> lawful R (add_master X pkey e target request_id role)"
  unfolding add_master_def
  by (intro lawful_steps lawful_store_user lawful_master_added safe_administration)

lemma lawful_assign_leader: "legacy_plain X \<Longrightarrow> lawful R (assign_event_leader X pkey im e target)"
  unfolding assign_event_leader_def
  by (intro lawful_steps lawful_promotion lawful_add_master lawful_fail safe_administration; simp)

lemma lawful_leader_prompt: "lawful R (event_leader_platform_prompt k)"
  unfolding event_leader_platform_prompt_def by (intro lawful_steps)

lemma lawful_add_leader: "legacy_plain X \<Longrightarrow> lawful R (add_event_leader X pkey im v)"
  unfolding add_event_leader_def
  by (intro lawful_steps lawful_with_profile lawful_raised input_errors_assign lawful_assign_leader safe_administration)

end

section \<open>Creating games\<close>

context dialogue
begin

lemma lawful_creation_questions:
  "lawful R creation_master_question" "lawful R (creation_schedule_question master later)"
  "lawful R creation_confirmation_schedule_question" "lawful R creation_question_prompt"
  unfolding creation_master_question_def creation_schedule_question_def schedule_question_def remember_master_def
    creation_confirmation_schedule_question_def creation_question_prompt_def
  by (intro lawful_steps)+

lemma lawful_created_reference: "(\<And>s. lawful R (k s)) \<Longrightarrow> lawful R (created_game_reference k)"
  unfolding created_game_reference_def by (intro lawful_steps)

lemma lawful_creation_candidates: "lawful R (show_creation_master_candidates X given told)"
  unfolding show_creation_master_candidates_def Let_def
  by (intro lawful_steps lawful_created_reference safe_administration)

lemma lawful_targets:
  "(\<And>i. lawful R (k1 i)) \<Longrightarrow> lawful R (stored_offset ctx k1)"
  "(\<And>u. lawful R (k2 u)) \<Longrightarrow> lawful R (promotion_target k2)"
  "(\<And>i. lawful R (k3 i)) \<Longrightarrow> lawful R (identity_with p n k3)"
  unfolding stored_offset_def promotion_target_def identity_with_def
  by (intro lawful_steps lawful_fail safe_administration; simp)+

lemma lawful_finish_creation: "lawful R (finish_game_creation X)"
  unfolding finish_game_creation_def by (intro lawful_steps lawful_targets safe_administration)

lemma lawful_creation_master: "lawful R (creation_master X ctx)"
  unfolding creation_master_def by (intro lawful_steps lawful_fail safe_administration; simp)

end

context stewardship
begin

lemma lawful_promotion_of_creation: "lawful R (promotion_of_creation target)"
  unfolding promotion_of_creation_def by (intro lawful_created_reference lawful_promotion)

lemma lawful_choose_creation_master: "lawful R (choose_creation_master X target)"
  unfolding choose_creation_master_def
  by (intro lawful_steps lawful_creation_questions lawful_promotion_of_creation safe_administration)

lemma lawful_creation_profile: "lawful R (select_creation_master_profile X pkey v)"
  unfolding select_creation_master_profile_def
  by (intro lawful_steps lawful_with_profile lawful_choose_creation_master)

lemma lawful_creation_promotion: "lawful R (creation_master_promotion_step X im v)"
  unfolding creation_master_promotion_step_def
  by (intro lawful_steps lawful_targets lawful_creation_candidates lawful_created_reference lawful_promotion
      lawful_promotion_of_creation lawful_creation_questions)

lemma lawful_creation_platform: "lawful R (chosen_master_platform v)" "lawful R creation_master_platform_prompt"
  unfolding chosen_master_platform_def creation_master_platform_prompt_def by (intro lawful_steps)+

lemma lawful_bool: "lawful R m \<Longrightarrow> lawful R n \<Longrightarrow> lawful R (case b of True \<Rightarrow> m | False \<Rightarrow> n)"
  by (simp split: bool.split)

lemma lawful_pick_creation: "lawful R (pick_creation_master X v offset)"
  unfolding pick_creation_master_def
  by (intro lawful_steps lawful_bool lawful_creation_candidates lawful_creation_platform
      lawful_choose_creation_master safe_administration)

lemma lawful_creation_master_step: "lawful R (creation_master_step X pkey im v)"
  unfolding creation_master_step_def
  by (intro lawful_steps lawful_targets lawful_creation_questions lawful_creation_candidates
      lawful_creation_platform lawful_creation_profile lawful_creation_promotion lawful_pick_creation
      safe_administration)

lemma lawful_question_in: "(\<And>q. lawful R (k q)) \<Longrightarrow> lawful R (question_in ctx k)"
  unfolding question_in_def by (intro lawful_steps)

lemma lawful_game_upload:
  assumes "legacy_plain X"
  shows "lawful R (game_upload X pkey im ctx game_date master master_label)"
  unfolding game_upload_def
  by (intro lawful_steps lawful_question_in lawful_announcement safe_administer_event assms)

lemma lawful_after_creation: "lawful R (after_creation X im game_date master created)"
  unfolding after_creation_def remember_created_def remember_master_def
  by (intro lawful_steps lawful_finish_creation lawful_store_user safe_administration)

lemma lawful_create_game: "legacy_plain X \<Longrightarrow> lawful R (create_game_dialog X pkey im)"
  unfolding create_game_dialog_def Let_def
  by (intro lawful_steps lawful_tried lawful_creation_master lawful_game_upload lawful_after_creation)
    (auto simp: is_input_error_def intro!: lawful_steps lawful_fail lawful_game_upload lawful_after_creation)

lemma lawful_creation_schedule: "lawful R (creation_schedule_step X v)"
  unfolding creation_schedule_step_def registration_time_step_def registration_opens_at_def
  by (intro lawful_steps lawful_finish_creation lawful_creation_questions safe_administration)

lemma lawful_creation_confirmation:
  "legacy_plain X \<Longrightarrow> lawful R (creation_confirmation_schedule_step X pkey im v)"
  unfolding creation_confirmation_schedule_step_def creation_confirmation_time_def creation_confirmation_at_def
    creation_deadline_def
  by (intro lawful_steps from_iso_error lawful_finish_creation lawful_creation_questions lawful_create_game
      safe_administration)

lemma lawful_event_masters: "lawful R (show_event_masters X e removing given)"
  unfolding show_event_masters_def Let_def by (intro lawful_steps safe_administration)

end

section \<open>Questions about a game\<close>

context stewardship
begin

lemma lawful_collected: "(\<And>opts. lawful R (k opts)) \<Longrightarrow> lawful R (collected_options ctx k)"
  unfolding collected_options_def by (auto split: json.split intro!: lawful_steps lawful_fail)

lemma lawful_question_creation: "lawful R (question_creation_step X v)"
  unfolding question_creation_step_def question_choice_def question_text_step_def question_name_step_def
    question_capacity_step_def question_collected_def
  by (intro lawful_steps lawful_collected lawful_creation_questions safe_administration)

lemma lawful_question_menu: "lawful R (question_edit_menu e)"
  unfolding question_edit_menu_def by (intro lawful_steps)

lemma lawful_question_edit: "legacy_plain X \<Longrightarrow> lawful R (question_edit_step X pkey im v)"
  unfolding question_edit_step_def question_edit_choice_def question_edit_value_def Let_def
  by (intro lawful_steps lawful_question_menu lawful_order_with safe_administration; assumption?)

end

section \<open>A game under administration\<close>

context stewardship
begin

lemma lawful_game_management: "lawful R (game_management X e)"
  unfolding game_management_def Let_def archived_card_def managed_card_def viewed_card_def
  by (intro lawful_steps safe_administration)

lemma lawful_schedule_menu:
  "lawful R (scheduled_events_menu X e told)" "lawful R (refreshed_schedule X k told)"
  unfolding refreshed_schedule_def scheduled_events_menu_def by (intro lawful_steps safe_administration)+

lemma lawful_changed_schedule: "safe (on_events X change) \<Longrightarrow> lawful R (changed_schedule X change k told)"
  unfolding changed_schedule_def by (intro lawful_steps lawful_schedule_menu)

lemma lawful_schedule_action: "lawful R (schedule_action X e action)"
  unfolding schedule_action_def tuesday_opening_def next_night_closing_def Let_def
  by (intro lawful_steps lawful_schedule_menu lawful_changed_schedule safe_administration)

lemma lawful_menus_of_game:
  "lawful R (notification_management e)" "lawful R (edit_game_menu e)" "lawful R (game_files_menu e)"
  "lawful R (player_management e b)" "lawful R (notify_prompt_action e b)" "lawful R (archive_prompt e)"
  "lawful R (details_prompt e)" "lawful R (player_amount_prompt e)"
  unfolding notification_management_def edit_game_menu_def game_files_menu_def player_management_def
    notify_prompt_action_def archive_prompt_def details_prompt_def player_amount_prompt_def
  by (intro lawful_steps lawful_question_menu)+

lemma lawful_files:
  assumes "legacy_plain X"
  shows "lawful R (remind_action X pkey im e)" "lawful R (notify_link_action X e)"
    "lawful R (tables_action X pkey im e b)" "lawful R (achievements_action X im e)"
  unfolding remind_action_def notify_link_action_def tables_action_def achievements_action_def Let_def
  by (intro lawful_steps lawful_order lawful_announcement safe_from_sum table_links_text_error safe_counts
      safe_enqueue safe_export safe_administration assms)+

lemma lawful_archived_actions:
  assumes "legacy_plain X"
  shows "lawful R (delete_action X e)" "lawful R (unarchive_action X pkey im e)"
  unfolding delete_action_def unarchive_action_def
  by (intro lawful_steps lawful_order safe_administration assms)+

lemma lawful_edit_action: "legacy_plain X \<Longrightarrow> lawful R (edit_action X pkey im e action)"
  unfolding edit_action_def Let_def
  by (intro lawful_steps lawful_schedule_menu lawful_schedule_action lawful_menus_of_game lawful_question_menu
      lawful_files lawful_player_lists lawful_sift lawful_reserve lawful_leader_prompt lawful_game_management;
      assumption?)

lemma lawful_act_on_game: "legacy_plain X \<Longrightarrow> lawful R (act_on_active_game X pkey im e action)"
  unfolding act_on_active_game_def act_on_game_def Let_def
  by (intro lawful_steps lawful_menus_of_game lawful_player_lists lawful_files lawful_people lawful_edit_action
      safe_administration; assumption?)

lemma lawful_game_action:
  assumes "legacy_plain X"
  shows "lawful R (admin_game_action X pkey im v)" "lawful R (admin_select X pkey im e flow)"
proof -
  show action: "lawful R (admin_game_action X pkey im v)" for v
    unfolding admin_game_action_def
    by (intro lawful_steps lawful_game_management lawful_archived_actions lawful_act_on_game safe_administration assms)
  show "lawful R (admin_select X pkey im e flow)"
    unfolding admin_select_def by (rule action)
qed

lemma lawful_start_grant: "lawful R (start_grant X role)" "lawful R (role_platform_prompt role)"
  unfolding start_grant_def role_platform_prompt_def by (intro lawful_steps safe_administration)+

lemma lawful_start_command: "legacy_plain X \<Longrightarrow> lawful R (admin_start X pkey im v)"
  unfolding admin_start_def daily_passes_command_def
  by (intro lawful_steps lawful_daily_passes lawful_statistics lawful_games lawful_menus lawful_people
      lawful_start_grant safe_administration; assumption?)

lemma lawful_idle: "legacy_plain X \<Longrightarrow> lawful R (dispatch_idle_admin X pkey im v)"
  unfolding dispatch_idle_admin_def by (intro lawful_steps lawful_start_command)

end

section \<open>Callbacks\<close>

context stewardship
begin

lemma lawful_callback_values:
  "(\<And>n. lawful R (k1 n)) \<Longrightarrow> lawful R (number_in s k1)"
  "(\<And>p i found. lawful R (k2 p i found)) \<Longrightarrow> lawful R (person_in parts k2)"
  "(\<And>b. lawful R (k3 b)) \<Longrightarrow> lawful R (in_admin_state X state k3)"
  "(\<And>p i. lawful R (k4 p i)) \<Longrightarrow> lawful R (context_target k4)"
  "(\<And>e. lawful R (k5 e)) \<Longrightarrow> lawful R (unarchived_game event_id k5)"
  "(\<And>e. lawful R (k6 e)) \<Longrightarrow> lawful R (context_game k6)"
  "lawful R d \<Longrightarrow> lawful R (in_state state d)"
  "lawful R check \<Longrightarrow> lawful R d' \<Longrightarrow> lawful R (unless_denied check d')"
  "lawful R (remember_target p i)"
  unfolding number_in_def person_in_def in_admin_state_def context_target_def unarchived_game_def context_game_def
    in_state_def unless_denied_def remember_target_def
  by (intro lawful_steps safe_administration; assumption?)+

lemmas lawful_callback_steps = lawful_steps lawful_callback_values lawful_targets lawful_people lawful_menus
  lawful_event_masters

lemma lawful_moderators:
  "lawful R (view_moderator X parts)" "lawful R (pick_moderator X parts)" "lawful R (revoke_moderator X im)"
  unfolding view_moderator_def pick_moderator_def confirm_role_removal_def revoke_moderator_def role_revoked_def Let_def
  by (intro lawful_callback_steps loses safe_administration)+

lemma lawful_masters:
  assumes "legacy_plain X"
  shows "lawful R (add_self X pkey im k)" "lawful R (list_masters X e)" "lawful R (pick_new_master X pkey im parts)"
    "lawful R (answer_promotion X pkey im b)" "lawful R add_direct" "lawful R (view_master parts)"
    "lawful R (pick_master_to_remove X parts)" "lawful R (confirm_remove_master X pkey im)"
  unfolding add_self_def list_masters_def pick_new_master_def answer_promotion_def add_direct_def view_master_def
    pick_master_to_remove_def confirm_master_removal_def confirm_remove_master_def remove_master_def
    master_removed_def Let_def
  by (intro lawful_callback_steps lawful_assign_leader lawful_promotion lawful_leader_prompt lawful_store_user
      safe_of_plain safe_administration assms)+

lemma lawful_moderator_callback: "moderator_callback X im v = Some m \<Longrightarrow> lawful R m"
  unfolding moderator_callback_def Let_def
  by (auto split: if_splits intro!: lawful_callback_steps lawful_moderators)

lemma lawful_master_callback: "legacy_plain X \<Longrightarrow> master_callback X pkey im v = Some m \<Longrightarrow> lawful R m"
  unfolding master_callback_def Let_def
  by (auto split: if_splits intro!: lawful_callback_steps lawful_masters)

lemma lawful_answered: "lawful R m \<Longrightarrow> lawful R (answered m)"
  unfolding answered_def by (intro lawful_steps lawful_sum)

lemma lawful_admin_callback: "legacy_plain X \<Longrightarrow> lawful R (admin_callback X pkey im v)"
  unfolding admin_callback_def
  by (auto split: option.split intro!: lawful_steps lawful_answered
      intro: lawful_moderator_callback lawful_master_callback)

end

section \<open>Steps\<close>

context stewardship
begin

text \<open>A dialogue that may be chosen by the state.\<close>

lemma lawful_chosen:
  "dict_get rows key = Some d \<Longrightarrow> \<forall>r \<in> set rows. lawful R (snd r) \<Longrightarrow> lawful R d"
  "(if b then x else y) = Some d \<Longrightarrow> (x = Some d \<Longrightarrow> lawful R d) \<Longrightarrow> (y = Some d \<Longrightarrow> lawful R d) \<Longrightarrow> lawful R d"
  "Some d' = Some d \<Longrightarrow> lawful R d' \<Longrightarrow> lawful R d"
  by (force dest: dict_get_in split: if_splits)+

lemma lawful_event_guarded: "(\<And>found. lawful R (k found)) \<Longrightarrow> lawful R (event_guarded X k)"
  unfolding event_guarded_def event_guard_def may_go_on_def refuse_def about_archived_def
  by (intro lawful_callback_steps safe_administration; assumption?)

lemma lawful_role_choices:
  "lawful R (choose_role_platform X v)" "lawful R (choose_leader_platform v)" "lawful R ask_promotion_again"
  unfolding choose_role_platform_def choose_leader_platform_def ask_promotion_again_def
  by (intro lawful_callback_steps lawful_start_grant lawful_leader_prompt lawful_promotion safe_administration)+

lemma lawful_given_date: "(\<And>d. lawful R (k d)) \<Longrightarrow> lawful R (given_date X saturday v k)"
  unfolding given_date_def by (intro lawful_steps safe_administration)

lemma lawful_creation_inputs:
  "lawful R (creation_name v)" "lawful R (creation_date X v)" "lawful R (creation_close X v)"
  "lawful R (creation_amount X v)"
  unfolding creation_name_def creation_date_def creation_close_def creation_close_at_def creation_amount_def
  by (intro lawful_steps lawful_given_date lawful_creation_questions safe_administration)+

lemma lawful_scheduled_game: "(\<And>e. lawful R (k e)) \<Longrightarrow> lawful R (scheduled_game k)"
  unfolding scheduled_game_def by (intro lawful_steps safe_administration)

lemma lawful_schedule_saved:
  "safe (on_events X change) \<Longrightarrow> lawful R (schedule_saved X change k told)" "lawful R (schedule_frozen X e told)"
  unfolding schedule_saved_def schedule_frozen_def
  by (intro lawful_steps lawful_schedule_menu; simp add: safe_lookups lawful_schedule_menu)+

lemma lawful_reschedules:
  "lawful R (reschedule_registration X v)" "lawful R (reschedule_confirmation X v)"
  "lawful R (reschedule_deadline X v)" "lawful R (reschedule_close X v)"
  unfolding reschedule_registration_def reschedule_confirmation_def reschedule_deadline_def reschedule_close_def Let_def
  by (intro lawful_scheduled_game lawful_steps from_iso_error lawful_schedule_saved safe_administration)+

lemma lawful_updates:
  assumes "legacy_plain X"
  shows "lawful R (update_name v)" "lawful R (update_date X pkey im v)" "lawful R (update_amount X pkey im v)"
    "lawful R (telegram_post_step im v)" "lawful R (vk_post_step X im v)"
  unfolding update_name_def update_date_def update_amount_def telegram_post_step_def vk_post_step_def
    post_links_saved_def
  by (intro lawful_given_date lawful_steps lawful_order lawful_says_message lawful_fail safe_administration assms;
      simp)+

lemma lawful_status_changes:
  assumes "legacy_plain X"
  shows "lawful R (select_status X pkey im v)" "lawful R (confirmation_deadline_step X pkey im v)"
  unfolding select_status_def show_status_again_def confirmation_deadline_step_def status_ordered_def Let_def
  by (intro lawful_steps lawful_order safe_administration assms)+

lemma lawful_notifications:
  assumes "legacy_plain X"
  shows "lawful R (notification_step X im link all v)" "lawful R (notification_confirm X pkey im all v)"
    "lawful R (archive_step X pkey im found v)"
  unfolding notification_step_def notification_confirm_def archive_step_def Let_def
  by (intro lawful_steps lawful_order safe_counts safe_administration assms)+

lemma lawful_role_step: "legacy_plain X \<Longrightarrow> role_step X pkey im state v = Some d \<Longrightarrow> lawful R d"
  unfolding role_step_def
  by (erule lawful_chosen) (simp add: lawful_role_choices lawful_grant_gamemaster lawful_add_leader)

lemma lawful_roster_step: "legacy_plain X \<Longrightarrow> roster_step X pkey im state v = Some d \<Longrightarrow> lawful R d"
  unfolding roster_step_def
  by (erule lawful_chosen) (simp add: lawful_remove_pick lawful_remove_confirm lawful_sift lawful_waiting_pick
      lawful_profiles_pick lawful_promotion_pick lawful_promotion_confirm)

lemma lawful_creation_step: "legacy_plain X \<Longrightarrow> creation_step X pkey im state v = Some d \<Longrightarrow> lawful R d"
  unfolding creation_step_def
  by (elim lawful_chosen) (simp_all add: lawful_question_creation lawful_question_edit lawful_creation_master_step
      lawful_creation_schedule lawful_creation_confirmation lawful_creation_inputs)

lemma lawful_schedule_step: "schedule_step X state v = Some d \<Longrightarrow> lawful R d"
  unfolding schedule_step_def by (erule lawful_chosen) (simp add: lawful_reschedules)

lemma lawful_change_step: "legacy_plain X \<Longrightarrow> change_step X pkey im found state v = Some d \<Longrightarrow> lawful R d"
  unfolding change_step_def
  by (erule lawful_chosen) (simp add: lawful_updates lawful_status_changes lawful_notifications)

lemma first_of_in: "first_of xs = Some x \<Longrightarrow> Some x \<in> set xs"
  by (induction xs) (auto simp: first_of_def present_def split: option.splits list.splits)

lemma lawful_take_step: "legacy_plain X \<Longrightarrow> lawful R (take_step X pkey im found v)"
  unfolding take_step_def Let_def
  by (intro lawful_steps) (auto dest!: first_of_in intro: lawful_role_step[OF _ sym] lawful_roster_step[OF _ sym]
      lawful_creation_step[OF _ sym] lawful_schedule_step[OF sym] lawful_change_step[OF _ sym])

lemma lawful_admin_step: "legacy_plain X \<Longrightarrow> lawful R (admin_step X pkey im v)"
  unfolding admin_step_def
  by (intro lawful_steps lawful_event_guarded lawful_admin_callback lawful_take_step safe_administration)

theorem administration_lawful: "legacy_plain X \<Longrightarrow> admin_lawful R (administration X pkey)"
  by (simp add: admin_lawful_def administration_def lawful_game_action lawful_games lawful_menus lawful_admin_step
      lawful_statistics lawful_admin_callback lawful_idle)

end

text \<open>The person stays the same when a role is taken or lost.\<close>

interpretation steward: stewardship same_person
  by unfold_locales (simp_all add: takes_role_def loses_role_def lawful_assigns)

end
