(* ===== verification/Answers.thy ===== *)
theory Answers
  imports Stewards
begin

text \<open>
  What a handled message guarantees: it is remembered in the stored profile, so that its repetition does
  nothing; and the questionnaire ends with a complete profile.
\<close>

section \<open>A message is handled once\<close>

text \<open>Results of dialogues, step by step.\<close>

lemma thenDoE:
  assumes "thenDo m k u w = (Inr (x, u'), w')"
  obtains y v w1 where "m u w = (Inr (y, v), w1)" and "k y v w1 = (Inr (x, u'), w')"
  using assms by (auto simp: thenDo_def andThen_def split: prod.splits sum.splits)

lemma andThenE:
  assumes "andThen m k w = (Inr x, w')"
  obtains y w1 where "m w = (Inr y, w1)" and "k y w1 = (Inr x, w')"
  using assms by (auto simp: andThen_def split: prod.splits sum.splits)

lemma askE:
  assumes "ask s u w = (Inr (x, u'), w')"
  obtains "s w = (Inr x, w')" and "u' = u"
  using assms unfolding ask_def by (auto elim: andThenE)

definition remembered :: "inbound_message \<Rightarrow> user \<Rightarrow> world \<Rightarrow> bool" where
  "remembered im u w \<longleftrightarrow>
     us_last_update_id (base u) = Some (im_update_id im)
     \<and> (\<exists>us. w_users w = Some us \<and> dict_get us (local_identity u) = Some u)"

lemma store_user_stores:
  assumes "store_user X u w = (Inr (x, u'), w')"
  shows "u' = u \<and> (\<exists>us. w_users w' = Some us \<and> dict_get us (local_identity u) = Some u)"
  using assms unfolding store_user_def with_user_def
  by (auto elim!: askE simp: on_users_def ticking_def save_user_def split: option.splits)

lemma save_handled_remembers:
  assumes "save_handled X im u w = (Inr (x, u'), w')"
  shows "remembered im u' w'"
proof -
  from assms obtain t1 t2 v w1 where
    "set_dialog (\<lambda>b. b\<lparr>us_last_update_id := Some (im_update_id im), us_last_update_at := Some t1,
       us_updated_at := t2\<rparr>) u w1 = (Inr ((), v), w1)"
    and s: "store_user X v w1 = (Inr (x, u'), w')"
    unfolding save_handled_def by (auto elim!: thenDoE askE simp: set_dialog_def)
  then have "us_last_update_id (base v) = Some (im_update_id im)"
    by (auto simp: set_dialog_def base_with_base)
  with store_user_stores[OF s] show ?thesis by (auto simp: remembered_def)
qed

lemma answer_and_save_remembers:
  "answer_and_save X im branch answer u w = (Inr (r, u'), w') \<Longrightarrow> remembered im u' w'"
  unfolding answer_and_save_def by (auto elim!: thenDoE simp: give_def dest: save_handled_remembers)

lemma unsupported_remembers: "unsupported X im u w = (Inr (r, u'), w') \<Longrightarrow> remembered im u' w'"
  unfolding unsupported_def
  by (auto elim!: thenDoE simp: with_user_def says_def give_def dest: save_handled_remembers)

lemma answer_new_remembers:
  assumes "answer_new X pkey A im u w = (Inr (r, u'), w')"
  shows "remembered im u' w'"
proof -
  obtain y v w1 where k: "(let txt = sent_value im; branch = is_admin_branch v txt
       in case start_command txt (fst (im_identity im)) of
            (is_start, parameter) \<Rightarrow>
              if is_start then answer_and_save X im branch (start_over X pkey A im parameter)
              else if im_unsupported im then unsupported X im
              else answer_and_save X im branch (respond X pkey A im txt)) v w1 = (Inr (r, u'), w')"
    using assms unfolding answer_new_def with_user_def by (elim thenDoE)
  obtain is_start parameter where s: "start_command (sent_value im) (fst (im_identity im)) = (is_start, parameter)"
    by fastforce
  note k = k[unfolded Let_def s prod.case]
  show ?thesis
  proof (cases is_start)
    case True
    with k show ?thesis by (simp add: answer_and_save_remembers)
  next
    case False
    with k show ?thesis
      by (cases "im_unsupported im") (simp_all add: answer_and_save_remembers unsupported_remembers)
  qed
qed

lemma profile_now_identity:
  assumes "profile_now X p i w = (Inr u, w1)" and "\<And>us. w_users w = Some us \<Longrightarrow> users_ok us"
  shows "local_identity u = (p, i)"
proof -
  from assms(1) obtain us w2 where us: "users_now w = (Inr us, w2)"
    and k: "(case users_get p i us of Some u \<Rightarrow> ret u | None \<Rightarrow> new_user X p i) w2 = (Inr u, w1)"
    unfolding profile_now_def by (elim andThenE)
  from us have "w_users w = Some us"
    by (auto simp: users_now_def andThen_def split: option.splits)
  with assms(2) have ok: "users_ok us" by simp
  show ?thesis
  proof (cases "users_get p i us")
    case (Some v)
    then show ?thesis using k ok
      using users_okD(1)[OF ok] by (auto simp: users_get_def)
  next
    case None
    with k show ?thesis
      by (cases p) (auto simp: new_user_def reading_apply andThen_def dest!: user_validate_person split: option.splits if_splits)
  qed
qed

lemma remembered_ignored:
  assumes "remembered im u w'" and "local_identity u = im_identity im"
  shows "handle_message X pkey A im w' = (Inr (silent_response (fst (im_identity im))), w')"
proof -
  from assms obtain us where us: "w_users w' = Some us" "dict_get us (im_identity im) = Some u"
    and seen: "us_last_update_id (base u) = Some (im_update_id im)"
    by (auto simp: remembered_def)
  then have "profile_now X (fst (im_identity im)) (snd (im_identity im)) w' = (Inr u, w')"
    by (simp add: profile_now_def users_now_def andThen_def users_get_def)
  with seen show ?thesis by (simp add: handle_message_def Let_def andThen_def)
qed

lemma base_of_validated: "user_validate u = Some v \<Longrightarrow> us_last_update_id (base v) = us_last_update_id (base u)"
  by (cases u) (auto simp: user_base_validate_def split: if_splits option.splits)

lemma profile_now_seen:
  assumes "profile_now X p i w = (Inr u, w1)" and "us_last_update_id (base u) \<noteq> None"
  shows "w1 = w \<and> (\<exists>us. w_users w = Some us \<and> dict_get us (p, i) = Some u)"
proof -
  from assms(1) obtain us where us: "w_users w = Some us"
    and k: "(case users_get p i us of Some u \<Rightarrow> ret u | None \<Rightarrow> new_user X p i) w = (Inr u, w1)"
    unfolding profile_now_def by (auto elim!: andThenE simp: users_now_def split: option.splits)
  show ?thesis
  proof (cases "users_get p i us")
    case (Some v)
    with k us show ?thesis by (simp add: users_get_def)
  next
    case None
    with k have "us_last_update_id (base u) = None"
      by (cases p) (auto simp: new_user_def reading_apply andThen_def new_user_base_def simp del: user_validate.simps
          dest!: base_of_validated split: option.splits if_splits)
    with assms(2) show ?thesis by simp
  qed
qed

lemma handled_remembered:
  assumes "handle_message X pkey A im w = (Inr r, w')" and "legacy_plain X" and "admin_lawful same_person A"
    and "\<And>us. w_users w = Some us \<Longrightarrow> users_ok us"
  shows "\<exists>u. remembered im u w' \<and> local_identity u = im_identity im"
proof -
  let ?p = "fst (im_identity im)" and ?i = "snd (im_identity im)"
  from assms(1) obtain u w1 where now: "profile_now X ?p ?i w = (Inr u, w1)"
    and k: "(if us_last_update_id (base u) = Some (im_update_id im) then ret (silent_response ?p)
       else andThen (answer_new X pkey A im u) (\<lambda>(r, _). ret r)) w1 = (Inr r, w')"
    unfolding handle_message_def Let_def by (elim andThenE)
  have who: "local_identity u = im_identity im" using profile_now_identity[OF now assms(4)] by simp
  show ?thesis
  proof (cases "us_last_update_id (base u) = Some (im_update_id im)")
    case True
    then have "w' = w1" using k by simp
    moreover from True profile_now_seen[OF now] obtain us where "w1 = w" "w_users w = Some us"
      and "dict_get us (?p, ?i) = Some u" by auto
    ultimately show ?thesis using True who by (auto simp: remembered_def)
  next
    case False
    with k obtain u' where a: "answer_new X pkey A im u w1 = (Inr (r, u'), w')"
      by (auto elim!: andThenE)
    from lawfulD[OF lawful_answer_new[OF assms(2,3)] a] who have "local_identity u' = im_identity im"
      by (simp add: same_person_def)
    with answer_new_remembers[OF a] show ?thesis by blast
  qed
qed

text \<open>
  C22. A message that was handled (a response was returned) is not handled again: the same update, whatever the
  dialogue has become, gets the silent response and changes neither profile nor game nor queue.
\<close>

theorem message_handled_once:
  assumes "handle_message X pkey (administration X pkey) im w = (Inr r, w')" and "legacy_plain X"
    and "\<And>us. w_users w = Some us \<Longrightarrow> users_ok us"
  shows "handle_message X pkey (administration X pkey) im w' = (Inr (silent_response (fst (im_identity im))), w')"
proof -
  from handled_remembered[OF assms(1,2) steward.administration_lawful[OF assms(2)] assms(3)]
  obtain u where "remembered im u w'" "local_identity u = im_identity im" by blast
  then show ?thesis by (rule remembered_ignored)
qed

section \<open>The end of the questionnaire\<close>

text \<open>What is filled in: the name, the cross-play answer, the pass, and the page of a Telegram user.\<close>

definition filled :: "user \<Rightarrow> bool \<times> bool \<times> bool option \<times> bool \<times> bool" where
  "filled u =
     (us_full_name (base u) \<noteq> None, us_crossplay (base u) \<noteq> None, us_needs_pass (base u),
      us_pass_details (base u) \<noteq> None, (case u of TelegramUser b i v l h \<Rightarrow> v \<noteq> None | VkUser b i h \<Rightarrow> True))"

definition same_answers :: "user \<Rightarrow> user \<Rightarrow> bool" where
  "same_answers u v \<longleftrightarrow> filled u = filled v"

lemma filled_complete:
  "profile_complete u \<longleftrightarrow>
     (case filled u of (name, crossplay, needs, details, page) \<Rightarrow>
        name \<and> crossplay \<and> needs \<noteq> None \<and> (needs = Some False \<or> details) \<and> page)"
  by (cases u) (auto simp: filled_def common_profile_complete_def)

lemma filled_without_dialog: "filled (with_base without_dialog u) = filled u"
  by (cases u) (simp_all add: filled_def without_dialog_def)

interpretation answers: dialogue same_answers
  by unfold_locales (auto simp: same_answers_def same_profile_def intro: trans, metis filled_without_dialog)

lemma optionally_None: "optionally f v = Some v' \<Longrightarrow> v' = None \<longleftrightarrow> v = None"
  by (cases v) (auto simp: optionally_def split: option.splits)

lemma base_validate_filled:
  assumes "user_base_validate b = Some b'"
  shows "us_full_name b' = us_full_name b" "us_crossplay b' = us_crossplay b" "us_needs_pass b' = us_needs_pass b"
    "(us_pass_details b' \<noteq> None) = (us_pass_details b \<noteq> None)"
  using assms by (auto simp: user_base_validate_def dest: optionally_None split: if_splits option.splits)

lemma user_validate_filled:
  assumes "user_validate u = Some v"
  shows "filled v = filled u"
proof (cases u)
  case (TelegramUser b i url l h)
  with assms obtain b' url' h' where v: "v = TelegramUser b' i url' l h'" and b: "user_base_validate b = Some b'"
    and url: "optionally normalize_vk_url url = Some url'"
    by (auto split: if_splits option.splits)
  have "(url' \<noteq> None) = (url \<noteq> None)" using optionally_None[OF url] by blast
  then show ?thesis
    unfolding v TelegramUser filled_def user.sel user.case base_validate_filled[OF b] by simp
next
  case (VkUser b i h)
  with assms obtain b' h' where v: "v = VkUser b' i h'" and b: "user_base_validate b = Some b'"
    by (auto split: if_splits option.splits)
  show ?thesis
    unfolding v VkUser filled_def user.sel user.case base_validate_filled[OF b] by simp
qed

lemma assign_filled: "assign f u w = (Inr (x, u'), w') \<Longrightarrow> filled u' = filled (f u)"
  by (auto simp: assign_def user_validate_filled split: option.splits)

lemma assign_base_filled:
  assumes "assign_base f u w = (Inr (x, u'), w')"
  shows "filled u' = filled (with_base f u)" and "is_TelegramUser u' = is_TelegramUser u"
  using assms assign_filled unfolding assign_base_def
  by (auto simp: assign_def dest!: user_validate_person split: option.splits)
    (cases u; cases u'; simp)+

lemma lawful_assign_filled:
  "(\<And>u. filled (f u) = filled u) \<Longrightarrow> lawful same_answers (assign f)"
  by (auto simp: lawful_def assign_def same_answers_def safe_basic dest: user_validate_filled split: option.splits)

lemma filled_with_role:
  "filled (with_base (\<lambda>b. b\<lparr>us_privileged_role := r, us_is_gamemaster := g,
     us_gamemaster_grant_operation_id := o1, us_last_delivery_operation_id := o2\<rparr>) u) = filled u"
  "filled (with_base (\<lambda>b. b\<lparr>us_privileged_role := r, us_is_gamemaster := g,
     us_gamemaster_grant_operation_id := o1\<rparr>) u) = filled u"
  by (cases u; simp add: filled_def)+

text \<open>A role that is taken or lost leaves the answers as they are.\<close>

interpretation answering: stewardship same_answers
  unfolding assign_base_def takes_role_def loses_role_def
  by unfold_locales (auto simp: takes_role_def loses_role_def assign_base_def filled_with_role
      intro!: lawful_assign_filled)

lemma filled_with_link: "filled (with_link l u) = filled u" "filled (with_handle h u) = filled u"
  by (cases u; simp add: filled_def)+

lemmas link_keeps_answers = answers.lawful_link[OF lawful_assign_filled[OF filled_with_link(1)]]

lemma keeps_filled: "lawful same_answers d \<Longrightarrow> d u w = (Inr (x, u'), w') \<Longrightarrow> filled u' = filled u"
  by (auto dest: lawfulD simp: same_answers_def)

lemma filled_updates:
  assumes "filled u = (a, b, c, d, e)"
  shows "filled (with_base (\<lambda>x. x\<lparr>us_full_name := Some n\<rparr>) u) = (True, b, c, d, e)"
    "filled (with_base (\<lambda>x. x\<lparr>us_crossplay := Some y\<rparr>) u) = (a, True, c, d, e)"
    "filled (with_base (\<lambda>x. x\<lparr>us_needs_pass := p\<rparr>) u) = (a, b, p, d, e)"
    "filled (with_base (\<lambda>x. x\<lparr>us_pass_details := q\<rparr>) u) = (a, b, c, q \<noteq> None, e)"
    "filled (with_vk_url (Some url) u) = (a, b, c, d, True)"
  using assms by (cases u; simp add: filled_def)+

lemma set_details_filled:
  "set_details v u w = (Inr (x, u'), w') \<Longrightarrow> filled u = (a, b, c, d, e) \<Longrightarrow> filled u' = (a, b, c, True, e)"
  unfolding set_details_def
  by (auto simp: fail_def filled_updates dest!: assign_base_filled(1) split: sum.splits)

lemma store_answers_filled:
  assumes "store_answers ctx u w = (Inr (x, u'), w')" and "filled u = (a, b, c, d, e)"
  shows "\<exists>c' d'. filled u' = (a, b, c', d', e) \<and> c' \<noteq> None \<and> (c' = Some False \<or> d')"
proof (cases "truthy_json (json_get ctx (asc ''needs_pass''))")
  case True
  with assms(1) obtain v w1 y where v: "assign_base (\<lambda>b. b\<lparr>us_needs_pass := Some True\<rparr>) u w = (Inr (y, v), w1)"
    and k: "(case pass_details_from_context ctx of Inl x \<Rightarrow> fail x | Inr d \<Rightarrow> set_details d) v w1 = (Inr (x, u'), w')"
    unfolding store_answers_def by (auto elim!: thenDoE)
  have "filled v = (a, b, Some True, d, e)" using assign_base_filled(1)[OF v] filled_updates(3)[OF assms(2)] by simp
  with k show ?thesis by (auto simp: fail_def dest: set_details_filled split: sum.splits)
next
  case False
  with assms(1) obtain v w1 y where v: "assign_base (\<lambda>b. b\<lparr>us_pass_details := None\<rparr>) u w = (Inr (y, v), w1)"
    and k: "assign_base (\<lambda>b. b\<lparr>us_needs_pass := Some False\<rparr>) v w1 = (Inr (x, u'), w')"
    unfolding store_answers_def by (auto elim!: thenDoE)
  have "filled v = (a, b, c, False, e)" using assign_base_filled(1)[OF v] filled_updates(4)[OF assms(2)] by simp
  then have "filled u' = (a, b, Some False, False, e)"
    using assign_base_filled(1)[OF k] by (simp add: filled_updates)
  then show ?thesis by (intro exI[of _ "Some False"] exI[of _ False]) simp
qed

lemma neededE:
  assumes "needed ctx key k u w = (Inr (x, u'), w')"
  obtains v where "dict_get ctx key = Some v" and "k v u w = (Inr (x, u'), w')"
  using assms by (auto simp: needed_def fail_def split: option.splits)

lemma store_contact_filled:
  assumes "store_contact X ctx u w = (Inr (x, u'), w')" and "filled u = (a, b, c, d, e)"
  shows "filled u' = (a, b, c, d, True)"
proof (cases "is_TelegramUser u")
  case True
  with assms(1) obtain v w1 y url where v: "assign (with_vk_url (Some url)) u w = (Inr (y, v), w1)"
    and k: "refresh_telegram_link X True v w1 = (Inr (x, u'), w')"
    unfolding store_contact_def with_user_def by (auto elim!: thenDoE neededE)
  from keeps_filled[OF link_keeps_answers k] assign_filled[OF v] filled_updates(5)[OF assms(2)] show ?thesis by simp
next
  case False
  with assms(2) have e: "e" by (cases u) (auto simp: filled_def)
  from False assms(1) obtain h where "assign (with_handle h) u w = (Inr (x, u'), w')"
    by (auto simp: store_contact_def with_user_def)
  from assign_filled[OF this] assms(2) e show ?thesis by (simp add: filled_with_link)
qed

lemma finish_complete:
  assumes "finish_profile X pkey A im u w = (Inr (r, u'), w')"
    and "\<And>im v. lawful same_answers (select_event X pkey A im v)"
  shows "profile_complete u'"
proof -
  obtain a b c d e where f: "filled u = (a, b, c, d, e)" by (cases "filled u") auto
  let ?ctx = "us_dialog_context (base u)"
  obtain n u1 w1 y1 x cr u2 w2 y2 u3 w3 y3 u4 w4 y4 u5 w5 y5 names u6 w6 y6 u7 w7 y7 where
    1: "assign_base (\<lambda>b. b\<lparr>us_full_name := Some n\<rparr>) u w = (Inr (y1, u1), w1)" and
    2: "assign_base (\<lambda>b. b\<lparr>us_crossplay := Some cr\<rparr>) u1 w1 = (Inr (y2, u2), w2)" and
    3: "store_answers ?ctx u2 w2 = (Inr (y3, u3), w3)" and
    4: "store_contact X ?ctx u3 w3 = (Inr (y4, u4), w4)" and
    5: "store_user X u4 w4 = (Inr (y5, u5), w5)" and
    6: "sync_profile_names X im names u5 w5 = (Inr (y6, u6), w6)" and
    7: "clear_dialog u6 w6 = (Inr (y7, u7), w7)" and
    8: "(if json_get ?ctx (asc ''profile_flow'') = JString (asc ''reset'')
         then profile_response X (Some PROFILE_EDITED)
         else (case json_get ?ctx (asc ''signup_event_id'') of
                 JString event_id \<Rightarrow>
                   thenDo (select_event X pkey A im (asc ''select:enlist:'' @ event_id)) (\<lambda>r.
                     give (prefixed (txt_profile_filled @ [10, 10]) r))
               | _ \<Rightarrow> says txt_profile_filled [main_menu_button])) u7 w7 = (Inr (r, u'), w')"
    using assms(1) unfolding finish_profile_def recall_def with_user_def Let_def
    by (elim neededE thenDoE) (rule that; assumption)
  have "filled u1 = (True, b, c, d, e)" using assign_base_filled(1)[OF 1] f by (simp add: filled_updates)
  then have "filled u2 = (True, True, c, d, e)" using assign_base_filled(1)[OF 2] by (simp add: filled_updates)
  from store_answers_filled[OF 3 this] obtain c' d' where u3: "filled u3 = (True, True, c', d', e)"
    and c': "c' \<noteq> None" "c' = Some False \<or> d'" by blast
  from store_contact_filled[OF 4 u3] keeps_filled[OF answers.lawful_store_user 5]
    keeps_filled[OF answers.lawful_sync 6] keeps_filled[OF answers.lawful_moves(4) 7]
  have u7: "filled u7 = (True, True, c', d', True)" by simp
  have signup: "lawful same_answers (thenDo (select_event X pkey A im v) (\<lambda>r. give (prefixed p r)))" for v p
    by (rule answers.lawful_thenDo[OF assms(2) answers.lawful_give])
  have ends: "lawful same_answers (if reset then profile_response X (Some PROFILE_EDITED)
      else (case j of
        JString event_id \<Rightarrow>
          thenDo (select_event X pkey A im (asc ''select:enlist:'' @ event_id)) (\<lambda>r.
            give (prefixed (txt_profile_filled @ [10, 10]) r))
      | _ \<Rightarrow> says txt_profile_filled [main_menu_button]))" for reset j
    by (cases reset; cases j; simp only: if_True if_False json.case answers.lawful_profile_response
        answers.lawful_says signup)
  have "filled u' = filled u7" 
    by (rule keeps_filled[OF ends[of "json_get ?ctx (asc ''profile_flow'') = JString (asc ''reset'')"
        "json_get ?ctx (asc ''signup_event_id'')"]]) (rule 8)
  with u7 c' show ?thesis by (simp add: filled_complete)
qed

text \<open>
  C23. When the last question of the questionnaire has been answered and the dialogue goes on, the profile is
  complete: it has a name, an answer about cross-play, the pass data or the answer that no pass is needed, and a
  Telegram user has a VK page.
\<close>

theorem questionnaire_completes:
  assumes "initial_step X pkey (administration X pkey) im v u w = (Inr (r, u'), w')"
    and "state_of u = asc ''PROFILE_CROSSPLAY''" and "v \<in> {YES, NO}" and "legacy_plain X"
  shows "profile_complete u'"
proof -
  let ?A = "administration X pkey"
  have select: "lawful same_answers (select_event X pkey ?A im v)" for im v
    by (rule answers.lawful_select_event[OF assms(4) answering.administration_lawful[OF assms(4)]])
  from assms(2) have "initial_step X pkey ?A im v u w =
      yes_or_no v (\<lambda>yes. thenDo (remember (asc ''crossplay'') (JBool yes)) (\<lambda>_. finish_profile X pkey ?A im)) u w"
    by (simp add: initial_step_def with_user_def Let_def)
  with assms(1,3) obtain v1 w1 where "finish_profile X pkey ?A im v1 w1 = (Inr (r, u'), w')"
    by (auto simp: yes_or_no_def elim!: thenDoE)
  from finish_complete[OF this select] show ?thesis .
qed

section \<open>Every message is answered\<close>

text \<open>
  Handling a message comes to an end: it returns a response or raises an exception of the code, and
  in both cases games, registrations and queue stay consistent.
\<close>

theorem messages_end:
  assumes "legacy_plain X" and "about_store store_ok w"
  shows "fst (handle_message X pkey (administration X pkey) im w) \<noteq> Inl OutOfFuel
    \<and> about_store store_ok (snd (handle_message X pkey (administration X pkey) im w))"
  using safe_handle_message[OF assms(1) steward.administration_lawful[OF assms(1)], of pkey pkey im] assms(2)
  by (simp add: safe_def settles_def keeps_def)

section \<open>Examples\<close>

abbreviation sample_admin :: admin_dialogs where
  "sample_admin \<equiv> administration sample_env sample_pkey"

definition sample_message :: inbound_message where
  "sample_message =
     \<lparr>im_identity = (VK, 7), im_update_id = [49], im_text = [], im_callback = None, im_unsupported = True,
      im_chat_id = None, im_peer_id = None, im_telegram_username = None\<rparr>"

definition sample_people :: world where
  "sample_people = sample_world\<lparr>w_users := Some []\<rparr>"

lemma sample_plain: "legacy_plain sample_env"
  by (simp add: legacy_plain_def sample_env_def)

lemma sample_handled: "\<exists>r w. handle_message sample_env sample_pkey sample_admin sample_message sample_people = (Inr r, w)"
  by (simp add: handle_message_def sample_message_def sample_people_def sample_world_def profile_now_def users_now_def
      andThen_def users_get_def new_user_def reading_apply sample_env_def user_base_validate_def optionally_def new_user_base_def
      normalize_telegram_handle_def answer_new_def thenDo_def refresh_handle_def with_user_def give_def Let_def
      start_command_def sent_value_def text_or_def unsupported_def save_handled_def ask_def set_dialog_def
      store_user_def on_users_def ticking_def says_def txt_begin_vk_def strip_by_def)

lemma sample_people_ok: "w_users sample_people = Some us \<Longrightarrow> users_ok us" "about_store store_ok sample_people"
  using sample_store_ok by (auto simp: sample_people_def users_ok_def wf_dict_def about_store_def)

theorem message_handled_once_witness:
  "\<exists>w. handle_message sample_env sample_pkey sample_admin sample_message w = (Inr (silent_response VK), w)"
proof -
  from sample_handled obtain r w where
    h: "handle_message sample_env sample_pkey sample_admin sample_message sample_people = (Inr r, w)" by blast
  from message_handled_once[OF h sample_plain sample_people_ok(1)]
  show ?thesis by (auto simp: sample_message_def)
qed

theorem messages_end_witness:
  "about_store store_ok (snd (handle_message sample_env sample_pkey sample_admin sample_message sample_people))"
  using messages_end[OF sample_plain sample_people_ok(2)] by blast

definition sample_answers :: user where
  "sample_answers =
     VkUser ((new_user_base 3)\<lparr>us_dialog_state := asc ''PROFILE_CROSSPLAY'',
       us_dialog_context := [(asc ''full_name'', JString [73, 73]), (asc ''needs_pass'', JBool False)]\<rparr>) 7 None"

definition answering_env :: env where
  "answering_env = sample_env\<lparr>xe_uuid5 := \<lambda>_. replicate 32 49\<rparr>"

abbreviation answering_admin :: admin_dialogs where
  "answering_admin \<equiv> administration answering_env sample_pkey"

lemma answering_plain: "legacy_plain answering_env"
  by (simp add: legacy_plain_def answering_env_def sample_env_def)

lemma sample_names: "normalize_names [[73, 73]] = Some [[73, 73]]"
  by (simp add: normalize_names_def strip_by_def is_space_def space_chars_def length_between_def)

definition sync_command :: "time \<Rightarrow> command" where
  "sync_command t =
     \<lparr>cm_operation_id = replicate 32 49, cm_event_id = profile_group VK 7, cm_operation = SYNC_PROFILE,
      cm_platform = VK, cm_platform_user_id = 7, cm_participant_key = None, cm_identity_group = None,
      cm_payload = ProfileSyncPayload [[73, 73]], cm_reply_context = empty_reply, cm_created_at = t\<rparr>"

lemma sync_command_valid: "command_validate (sync_command t) = Some (sync_command t)"
  by (simp add: command_validate_def sync_command_def length_between_def when_set_def validate_shape_def sample_names
      participant_ops_def payload_fits_def empty_payload_operations_def)

lemma sync_queued:
  "enqueue_profile_sync answering_env VK 7 [[73, 73]] key w =
     (Inr (sync_command 100), w\<lparr>w_turns := Suc (w_turns w), w_queue := publish (sync_command 100) (w_queue w)\<rparr>)"
proof -
  have "enqueue_profile_sync answering_env VK 7 [[73, 73]] key w =
      publishes (sync_command 100) (w\<lparr>w_turns := Suc (w_turns w)\<rparr>)"
    by (simp add: enqueue_profile_sync_def reading_apply andThen_def answering_env_def sample_env_def sync_command_def)
  then show ?thesis by (simp add: publishes_def sync_command_valid enqueues_def andThen_def)
qed

lemma sample_finished:
  "\<exists>r u w. initial_step answering_env sample_pkey answering_admin sample_message YES sample_answers sample_people
     = (Inr (r, u), w)"
  by (simp add: initial_step_def with_user_def state_of_def sample_answers_def Let_def yes_or_no_def thenDo_def
      remember_def set_dialog_def dict_put_def andThen_def finish_profile_def recall_def needed_def dict_get_def
      json_text_def synced_names_def present_def assign_base_def assign_def user_base_validate_def optionally_def
      new_user_base_def normalize_telegram_handle_def length_between_def store_answers_def json_get_def
      truthy_json_def store_contact_def store_user_def ask_def on_users_def ticking_def sample_people_def
      sample_world_def sync_profile_names_def sample_message_def clear_dialog_def says_def give_def sync_queued)

theorem questionnaire_completes_witness:
  "\<exists>r u w. initial_step answering_env sample_pkey answering_admin sample_message YES sample_answers sample_people
     = (Inr (r, u), w) \<and> profile_complete u"
proof -
  obtain r u w where run: "initial_step answering_env sample_pkey answering_admin sample_message YES sample_answers
      sample_people = (Inr (r, u), w)"
    using sample_finished by blast
  have "state_of sample_answers = asc ''PROFILE_CROSSPLAY''" by (simp add: state_of_def sample_answers_def)
  from questionnaire_completes[OF run this _ answering_plain] run
  show ?thesis by blast
qed

end
