(* ===== verification/Guards.thy ===== *)
theory Guards
  imports Answers Outcomes
begin

text \<open>
  What a dialogue of administration refuses, and what it leaves alone: somebody who neither leads a game nor
  administers the bot takes no step of a dialogue about the game, and administration changes nothing of the
  profile of the person but a role.
\<close>

section \<open>What a service answers\<close>

text \<open>
  From a world where \<open>J\<close> holds, the service ends where \<open>J\<close> holds, with an answer in \<open>P\<close> or because a call to
  the outside fails.
\<close>

definition serves :: "(world \<Rightarrow> bool) \<Rightarrow> ('a \<Rightarrow> bool) \<Rightarrow> 'a service \<Rightarrow> bool" where
  "serves J P s \<longleftrightarrow>
     (\<forall>w. J w \<longrightarrow> J (snd (s w)) \<and> (case fst (s w) of Inl e \<Rightarrow> e = ExternalFailure | Inr x \<Rightarrow> P x))"

lemma servesI:
  "(\<And>w r w'. J w \<Longrightarrow> s w = (r, w') \<Longrightarrow> J w' \<and> (case r of Inl e \<Rightarrow> e = ExternalFailure | Inr x \<Rightarrow> P x)) \<Longrightarrow> serves J P s"
  unfolding serves_def by (metis prod.collapse)

lemma servesD:
  "serves J P s \<Longrightarrow> J w \<Longrightarrow> s w = (r, w') \<Longrightarrow> J w' \<and> (case r of Inl e \<Rightarrow> e = ExternalFailure | Inr x \<Rightarrow> P x)"
  unfolding serves_def by (metis fst_conv snd_conv)

lemma serves_andThen:
  assumes m: "serves J P m" and k: "\<And>x. P x \<Longrightarrow> serves J Q (k x)"
  shows "serves J Q (andThen m k)"
proof (rule servesI)
  fix w r w'
  assume J: "J w" and run: "andThen m k w = (r, w')"
  obtain r1 w1 where first: "m w = (r1, w1)" by fastforce
  from servesD[OF m J first] run first servesD[OF k]
  show "J w' \<and> (case r of Inl e \<Rightarrow> e = ExternalFailure | Inr x \<Rightarrow> Q x)"
    by (cases r1) (auto simp: andThen_def)
qed

lemma serves_basic:
  "P x \<Longrightarrow> serves J P (ret x)" "(\<And>w. J w \<Longrightarrow> P (f w)) \<Longrightarrow> serves J P (reads f)"
  by (simp_all add: serves_def)

lemma serves_if: "(b \<Longrightarrow> serves J P m) \<Longrightarrow> (\<not> b \<Longrightarrow> serves J P n) \<Longrightarrow> serves J P (if b then m else n)"
  by simp

lemma serves_weaken: "serves J Q m \<Longrightarrow> (\<And>x. Q x \<Longrightarrow> P x) \<Longrightarrow> serves J P m"
  unfolding serves_def by (fastforce split: sum.splits)

lemma serves_gather:
  assumes "\<And>x. x \<in> set xs \<Longrightarrow> serves J P (f x)"
  shows "serves J (list_all P) (gather xs f)"
  using assms
proof (induction xs)
  case (Cons x xs)
  have f: "serves J P (f x)" and IH: "serves J (list_all P) (gather xs f)" using Cons by simp_all
  show ?case
  proof (rule servesI)
    fix w r w'
    assume J: "J w" and run: "gather (x # xs) f w = (r, w')"
    obtain r1 w1 where first: "f x w = (r1, w1)" by fastforce
    obtain r2 w2 where rest: "gather xs f w1 = (r2, w2)" by fastforce
    from servesD[OF f J first] have 1: "J w1" "case r1 of Inl e \<Rightarrow> e = ExternalFailure | Inr y \<Rightarrow> P y" by auto
    from servesD[OF IH 1(1) rest] 1(2) run first rest
    show "J w' \<and> (case r of Inl e \<Rightarrow> e = ExternalFailure | Inr ys \<Rightarrow> list_all P ys)"
      by (cases r1; cases r2) auto
  qed
qed (simp add: serves_def)

text \<open>The world in which only calls to the outside have been made.\<close>

definition same_stores :: "world \<Rightarrow> world \<Rightarrow> bool" where
  "same_stores w0 w \<longleftrightarrow> (\<exists>calls. w = w0\<lparr>w_calls := calls\<rparr>)"

lemma same_stores_fields: "same_stores w0 w \<Longrightarrow> w_users w = w_users w0 \<and> w_events w = w_events w0"
  by (auto simp: same_stores_def)

lemma serves_external:
  assumes "\<And>calls. P (answer (calls @ [c]))"
  shows "serves (same_stores w0) P (external X c answer)"
  unfolding serves_def using assms by (auto simp: external_apply same_stores_def)

lemma serves_asked:
  assumes "\<And>calls p i. (p, i) \<in> set ids \<Longrightarrow> P (a (calls @ [c p i]))"
  shows "serves (same_stores w0) (list_all P) (asked_of_all X ids c a)"
  unfolding asked_of_all_def using assms by (intro serves_gather serves_external) auto

lemma serves_users: "w_users w0 = Some us \<Longrightarrow> serves (same_stores w0) (\<lambda>x. x = us) users_now"
  unfolding users_now_def
  by (rule serves_andThen[where P = "\<lambda>x. x = Some us"]) (auto simp: serves_basic same_stores_fields)

lemma serves_game:
  "serves (same_stores w0) (\<lambda>x. x = get_event k (w_events w0)) (find_event k)"
  "serves (same_stores w0) (\<lambda>x. x = list_leaders k (w_events w0)) (leaders_now k)"
  unfolding find_event_def leaders_now_def by (auto intro!: serves_basic simp: same_stores_fields)

lemma serves_access:
  assumes "w_users w0 = Some us"
  shows "serves (same_stores w0) (\<lambda>_. True) (has_admin_access X u)"
  unfolding has_admin_access_def includes_role_def privileged_role_of_def Let_def
  by (rule serves_andThen[where P = "\<lambda>_. True"], rule serves_andThen[OF serves_users[OF assms]],
      rule serves_andThen[OF serves_asked[where P = "\<lambda>_. True"]], simp,
      rule serves_andThen[OF serves_asked[where P = "\<lambda>_. True"]]) (simp_all add: serves_basic)

text \<open>
  Somebody who under none of their linked profiles leads the game or administers the bot; others may administer it.
\<close>

definition stranger :: "env \<Rightarrow> world \<Rightarrow> user \<Rightarrow> ustring \<Rightarrow> bool" where
  "stranger X w u k \<longleftrightarrow>
     (\<exists>us. w_users w = Some us \<and> set (global_identities us u) \<inter> set (list_leaders k (w_events w)) = {}
        \<and> (\<forall>calls. \<forall>(p, i)\<in>set (global_identities us u). \<not> xe_is_admin X (calls @ [IsAdmin p i])))"

lemma serves_stranger:
  assumes "stranger X w0 u k"
  shows "serves (same_stores w0) (\<lambda>b. \<not> b) (is_admin X u)"
    "serves (same_stores w0) (\<lambda>b. \<not> b) (is_event_leader u k)"
    "serves (same_stores w0) (\<lambda>_. True) (has_admin_access X u)"
proof -
  from assms obtain us where us: "w_users w0 = Some us"
    and apart: "set (global_identities us u) \<inter> set (list_leaders k (w_events w0)) = {}"
    and no: "\<And>calls p i. (p, i) \<in> set (global_identities us u) \<Longrightarrow> \<not> xe_is_admin X (calls @ [IsAdmin p i])"
    unfolding stranger_def by blast
  show "serves (same_stores w0) (\<lambda>b. \<not> b) (is_admin X u)"
    unfolding is_admin_def
    by (rule serves_andThen[OF serves_users[OF us]], rule serves_andThen[OF serves_asked[where P = Not]])
      (auto simp: no list_all_iff list_ex_iff intro!: serves_basic)
  show "serves (same_stores w0) (\<lambda>b. \<not> b) (is_event_leader u k)"
    unfolding is_event_leader_def
    by (rule serves_andThen[OF serves_users[OF us]], rule serves_andThen[OF serves_game(2)])
      (use apart in \<open>auto simp: list_ex_iff intro!: serves_basic\<close>)
  show "serves (same_stores w0) (\<lambda>_. True) (has_admin_access X u)"
    by (rule serves_access[OF us])
qed

section \<open>What a dialogue ends in\<close>

definition concludes :: "(world \<Rightarrow> bool) \<Rightarrow> ('a \<Rightarrow> user \<Rightarrow> bool) \<Rightarrow> 'a dialog \<Rightarrow> user \<Rightarrow> bool" where
  "concludes J Q d u \<longleftrightarrow> serves J (\<lambda>(x, v). Q x v) (d u)"

lemma concludes_give: "Q x u \<Longrightarrow> concludes J Q (give x) u"
  by (simp add: concludes_def give_def serves_basic)

lemma concludes_thenDo:
  "concludes J P d u \<Longrightarrow> (\<And>x v. P x v \<Longrightarrow> concludes J Q (k x) v) \<Longrightarrow> concludes J Q (thenDo d k) u"
  unfolding concludes_def thenDo_def by (erule serves_andThen) (auto split: prod.split)

lemma concludes_ask:
  assumes "serves J P s" and "\<And>x. P x \<Longrightarrow> concludes J Q (k x) u"
  shows "concludes J Q (thenDo (ask s) k) u"
proof (rule concludes_thenDo)
  show "concludes J (\<lambda>x v. P x \<and> v = u) (ask s) u"
    unfolding concludes_def ask_def by (rule serves_andThen[OF assms(1)]) (simp add: serves_basic)
qed (use assms(2) in auto)

lemma concludes_with_user: "concludes J Q (f u) u \<Longrightarrow> concludes J Q (with_user f) u"
  by (simp add: concludes_def with_user_def)

lemma concludes_if:
  "(b \<Longrightarrow> concludes J Q d u) \<Longrightarrow> (\<not> b \<Longrightarrow> concludes J Q d' u) \<Longrightarrow> concludes J Q (if b then d else d') u"
  by simp

lemma concludes_from_context:
  "dict_get (us_dialog_context (base u)) key = Some v \<Longrightarrow> concludes J Q (k (json_text v)) u \<Longrightarrow>
     concludes J Q (from_context key k) u"
  by (simp add: concludes_def from_context_def recall_def with_user_def needed_text_def needed_def)

text \<open>The dialogue is over; nothing else of the profile changes.\<close>

definition dismissed :: "user \<Rightarrow> user" where
  "dismissed u = with_base (\<lambda>b. b\<lparr>us_dialog_state := asc ''IDLE'', us_dialog_context := []\<rparr>) u"

lemma concludes_clear: "(\<And>x. concludes J Q (k x) (dismissed u)) \<Longrightarrow> concludes J Q (thenDo clear_dialog k) u"
  by (rule concludes_thenDo[where P = "\<lambda>_ v. v = dismissed u"])
    (auto simp: concludes_def clear_dialog_def set_dialog_def dismissed_def serves_basic)

lemma concludes_cleared: "(\<And>r. Q r (dismissed u)) \<Longrightarrow> concludes J Q (says_cleared txt) u"
  "(\<And>r. Q r (dismissed u)) \<Longrightarrow> concludes J Q (says_cleared_with txt buttons) u"
  unfolding says_cleared_def says_cleared_with_def says_def by (intro concludes_clear concludes_give; simp)+

section \<open>Strangers\<close>

definition denied_to :: "user \<Rightarrow> bot_response option \<Rightarrow> user \<Rightarrow> bool" where
  "denied_to u r v \<longleftrightarrow> r \<noteq> None \<and> v = dismissed u"

lemma concludes_refuse: "concludes J (\<lambda>_ v. v = dismissed u) d u \<Longrightarrow> concludes J (denied_to u) (refuse d) u"
  unfolding refuse_def by (erule concludes_thenDo) (simp add: concludes_give denied_to_def)

lemma stranger_is_no_leader:
  assumes "stranger X w0 u k"
  shows "concludes (same_stores w0) (denied_to u) (event_leader_required X k) u"
  unfolding event_leader_required_def
  by (intro concludes_with_user concludes_ask[OF serves_stranger(1)[OF assms]])
    (auto simp: denied_to_def intro!: concludes_ask[OF serves_stranger(2)[OF assms]] concludes_clear concludes_give)

lemma about_archived_ends:
  assumes "stranger X w0 u k"
  shows "concludes (same_stores w0) (\<lambda>_ v. v = dismissed u) (about_archived X e) u"
proof -
  from assms obtain us where us: "w_users w0 = Some us" by (auto simp: stranger_def)
  have asked: "serves (same_stores w0) (\<lambda>_. True) (is_admin X v)" for v
    unfolding is_admin_def
    by (rule serves_andThen[OF serves_users[OF us]], rule serves_andThen[OF serves_asked[where P = "\<lambda>_. True"]])
      (simp_all add: serves_basic)
  show ?thesis
    unfolding about_archived_def says_def
    by (intro concludes_clear concludes_with_user concludes_ask[OF asked]) (simp add: concludes_give)
qed

lemma stranger_is_denied:
  assumes "stranger X w0 u k" and "state_of u \<notin> set view_only_event_states" and "\<not> pending_self_removal u"
  shows "concludes (same_stores w0) (denied_to u) (event_guard X k found) u"
proof -
  have go_on: "concludes (same_stores w0) (denied_to u) (may_go_on X k) u"
    unfolding may_go_on_def using assms(2,3) stranger_is_no_leader[OF assms(1)]
    by (intro concludes_with_user) simp
  show ?thesis
  proof (cases found)
    case None
    then show ?thesis
      unfolding event_guard_def by (simp only: option.case) (intro concludes_with_user concludes_if concludes_refuse
        concludes_cleared go_on refl)
  next
    case (Some e)
    have "concludes (same_stores w0) (denied_to u)
        (thenDo (ask (is_admin X u)) (\<lambda>admin. if admin then give None else refuse (says_cleared txt_insufficient))) u"
      by (rule concludes_ask[OF serves_stranger(1)[OF assms(1)]]) (auto intro!: concludes_refuse concludes_cleared)
    with Some show ?thesis
      unfolding event_guard_def
      by (simp only: option.case) (intro concludes_with_user concludes_if concludes_refuse go_on
        about_archived_ends[OF assms(1)])
  qed
qed

text \<open>
  C8. In every dialogue that changes a game somebody who neither administers the bot nor leads the game under any
  linked profile takes no step, whatever is sent and even when the dialogue was begun as a master: games, users,
  registrations and the queue stay exactly as they are, and the dialogue is over (unless the directory of
  administrators cannot be asked).  The states are those of changing the status, the details, the times, the links,
  the masters and the players of a game, of notices to confirmed players, of archiving and of deleting it; a person
  who is just being removed as a master finishes that step.  The notice to all players is no such dialogue:
  the lemma all_players_notification_unguarded shows that its two states are not guarded.
\<close>

theorem strangers_take_no_step:
  assumes "state_of u \<in> asc ` {''ADMIN_STATUS_SELECT'', ''ADMIN_UPDATE_GAME_NAME'', ''ADMIN_UPDATE_GAME_DATE'',
      ''ADMIN_UPDATE_PLAYER_AMOUNT'', ''ADMIN_POST_LINK_TELEGRAM'', ''ADMIN_POST_LINK_VK'',
      ''ADMIN_CONFIRMATION_DEADLINE'', ''ADMIN_SCHEDULE_REGISTRATION_TIME'', ''ADMIN_SCHEDULE_CONFIRMATION_TIME'',
      ''ADMIN_SCHEDULE_CONFIRMATION_DEADLINE'', ''ADMIN_SCHEDULE_CLOSE_TIME'', ''ADMIN_NOTIFICATION_LINK_TEXT'',
      ''ADMIN_NOTIFICATION_MESSAGE_TEXT'', ''ADMIN_NOTIFICATION_CONFIRM'', ''ADMIN_NOTIFICATION_TEXT'',
      ''ADMIN_ARCHIVE_NAME'', ''ADMIN_DELETE_NAME'', ''ADMIN_EVENT_LEADER_PLATFORM'', ''ADMIN_EVENT_LEADER_PROFILE'',
      ''ADMIN_EVENT_LEADER_ADD_PICK'', ''ADMIN_EVENT_LEADER_PROMOTE_CONFIRM'', ''ADMIN_EVENT_LEADER_REMOVE'',
      ''ADMIN_EVENT_LEADER_REMOVE_CONFIRM'', ''ADMIN_REMOVE_PICK'', ''ADMIN_REMOVE_CONFIRM'',
      ''ADMIN_REMOVE_WAITING_CONFIRM'', ''ADMIN_RESERVE_PROMOTION_PICK'', ''ADMIN_RESERVE_PROMOTION_CONFIRM''}"
    and "\<not> pending_self_removal u" and "dict_get (us_dialog_context (base u)) (asc ''event_id'') = Some (JString k)"
    and "stranger X w u k"
  shows "\<exists>calls result. admin_step X pkey im v u w = (result, w\<lparr>w_calls := calls\<rparr>)
    \<and> (result = Inl ExternalFailure \<or> (\<exists>r. result = Inr (r, dismissed u)))"
proof -
  let ?J = "same_stores w"
  from assms(1) have bound: "state_of u \<in> set event_bound_states" and changing: "state_of u \<notin> set view_only_event_states"
    by (auto simp: event_bound_states_def view_only_event_states_def)
  have guarded: "concludes ?J (\<lambda>_ v. v = dismissed u) (event_guarded X K) u" for K :: "event option \<Rightarrow> bot_response dialog"
    unfolding event_guarded_def unless_denied_def
  proof (intro concludes_with_user concludes_if concludes_from_context[OF assms(3)] concludes_ask[OF serves_game(1)])
    fix found
    have "json_text (JString k) = k" by (simp add: json_text_def)
    then show "concludes ?J (\<lambda>_ v. v = dismissed u) (thenDo (event_guard X (json_text (JString k)) found)
        (\<lambda>denied. case denied of None \<Rightarrow> K found | Some r \<Rightarrow> give r)) u"
      by (intro concludes_thenDo[where P = "denied_to u"])
        (auto simp: denied_to_def stranger_is_denied[OF assms(4) changing assms(2)] intro: concludes_give)
  qed (use bound in simp)
  have "concludes ?J (\<lambda>_ v. v = dismissed u) (admin_step X pkey im v) u"
    unfolding admin_step_def
    by (intro concludes_with_user concludes_ask[OF serves_stranger(3)[OF assms(4)]]) (auto intro: concludes_cleared guarded)
  then have s: "serves ?J (\<lambda>(_, v). v = dismissed u) (admin_step X pkey im v u)" by (simp add: concludes_def)
  have J: "?J w" unfolding same_stores_def by (intro exI[of _ "w_calls w"]) simp
  obtain result w' where run: "admin_step X pkey im v u w = (result, w')" by fastforce
  from servesD[OF s J run] run show ?thesis by (cases result) (auto simp: same_stores_def)
qed

text \<open>
  The notification to all players is the exception: its two states are not among the guarded ones, so that the
  dialogue goes on for a former master, and only the worker refuses the command.
\<close>

lemma all_players_notification_unguarded:
  assumes "state_of u \<in> {asc ''ADMIN_ALL_PLAYERS_NOTIFICATION_TEXT'', asc ''ADMIN_ALL_PLAYERS_NOTIFICATION_CONFIRM''}"
  shows "event_guarded X k u = k None u"
  using assms by (auto simp: event_guarded_def with_user_def event_bound_states_def)

text \<open>A moderator who was a master when the archiving of the game was begun.\<close>

definition former_master :: user where
  "former_master =
     VkUser ((new_user_base 3)\<lparr>us_dialog_state := asc ''ADMIN_ARCHIVE_NAME'',
       us_dialog_context := [(asc ''event_id'', JString sample_id)], us_privileged_role := Some GAMEMASTER\<rparr>) 7 None"

lemma nobody_leads: "list_leaders sample_id created_repo = []"
  by (simp add: list_leaders_def leaders_of_def created_repo_def create_event_def no_events_def put_event_def
      get_event_def dict_put_def dict_get_def sample_id_def sample_event_def)

theorem strangers_take_no_step_witness:
  "\<exists>calls result. admin_step administered_env sample_pkey sample_message [] former_master sample_people
       = (result, sample_people\<lparr>w_calls := calls\<rparr>)
     \<and> (result = Inl ExternalFailure \<or> (\<exists>r. result = Inr (r, dismissed former_master)))"
proof (rule strangers_take_no_step)
  show "state_of former_master \<in> asc ` {''ADMIN_STATUS_SELECT'', ''ADMIN_UPDATE_GAME_NAME'', ''ADMIN_UPDATE_GAME_DATE'',
      ''ADMIN_UPDATE_PLAYER_AMOUNT'', ''ADMIN_POST_LINK_TELEGRAM'', ''ADMIN_POST_LINK_VK'',
      ''ADMIN_CONFIRMATION_DEADLINE'', ''ADMIN_SCHEDULE_REGISTRATION_TIME'', ''ADMIN_SCHEDULE_CONFIRMATION_TIME'',
      ''ADMIN_SCHEDULE_CONFIRMATION_DEADLINE'', ''ADMIN_SCHEDULE_CLOSE_TIME'', ''ADMIN_NOTIFICATION_LINK_TEXT'',
      ''ADMIN_NOTIFICATION_MESSAGE_TEXT'', ''ADMIN_NOTIFICATION_CONFIRM'', ''ADMIN_NOTIFICATION_TEXT'',
      ''ADMIN_ARCHIVE_NAME'', ''ADMIN_DELETE_NAME'', ''ADMIN_EVENT_LEADER_PLATFORM'', ''ADMIN_EVENT_LEADER_PROFILE'',
      ''ADMIN_EVENT_LEADER_ADD_PICK'', ''ADMIN_EVENT_LEADER_PROMOTE_CONFIRM'', ''ADMIN_EVENT_LEADER_REMOVE'',
      ''ADMIN_EVENT_LEADER_REMOVE_CONFIRM'', ''ADMIN_REMOVE_PICK'', ''ADMIN_REMOVE_CONFIRM'',
      ''ADMIN_REMOVE_WAITING_CONFIRM'', ''ADMIN_RESERVE_PROMOTION_PICK'', ''ADMIN_RESERVE_PROMOTION_CONFIRM''}"
    by (simp add: state_of_def former_master_def)
  show "\<not> pending_self_removal former_master"
    "dict_get (us_dialog_context (base former_master)) (asc ''event_id'') = Some (JString sample_id)"
    by (simp_all add: state_of_def former_master_def pending_self_removal_def dict_get_def)
  have "global_identities [] former_master = [(VK, 7)]"
    by (simp add: global_identities_def global_users_def former_master_def present_def map_filter_simps new_user_base_def)
  then show "stranger administered_env sample_people former_master sample_id"
    using nobody_leads by (simp add: stranger_def sample_people_def sample_world_def administered_env_def)
qed

section \<open>Administration changes roles only\<close>

definition without_role :: "user_base \<Rightarrow> user_base" where
  "without_role b =
     (without_dialog b)\<lparr>us_privileged_role := None, us_is_gamemaster := False,
       us_gamemaster_grant_operation_id := None\<rparr>"

text \<open>A profile that the model has validated stays so, and only the dialogue and the role change.\<close>

definition same_but_role :: "user \<Rightarrow> user \<Rightarrow> bool" where
  "same_but_role u v \<longleftrightarrow>
     (user_validate u = Some u \<longrightarrow>
        user_validate v = Some v \<and> with_base without_role u = with_base without_role v)"

lemma without_role_twice: "without_role (without_dialog b) = without_role b"
  by (simp add: without_role_def without_dialog_def)

lemma base_validate_other_fields:
  assumes "without_role b = without_role b'" and "user_base_validate b = Some b"
  shows "user_base_validate b' = Some b'"
proof -
  have same: "us_full_name b' = us_full_name b" "us_nickname b' = us_nickname b"
    "us_pass_details b' = us_pass_details b" "us_needs_pass b' = us_needs_pass b"
    using assms(1) by (cases b; cases b'; simp add: without_role_def without_dialog_def)+
  from assms(2) have "\<not> (case us_full_name b of None \<Rightarrow> False | Some s \<Rightarrow> \<not> length_between 2 300 s)"
    and "optionally normalize_nickname (us_nickname b) = Some (us_nickname b)"
    and "optionally validate_pass_details (us_pass_details b) = Some (us_pass_details b)"
    and "\<not> (us_needs_pass b = Some False \<and> us_pass_details b \<noteq> None)"
    by (cases b; auto simp: user_base_validate_def split: if_splits option.splits)+
  moreover have "b'\<lparr>us_nickname := us_nickname b, us_pass_details := us_pass_details b\<rparr> = b'"
    by (simp add: same[symmetric])
  ultimately show ?thesis by (simp add: user_base_validate_def same)
qed

lemma validate_other_fields:
  assumes "with_base without_role u = with_base without_role v" and "user_validate u = Some u"
  shows "user_validate v = Some v"
  using assms by (cases u; cases v) (auto split: if_splits option.splits dest: base_validate_other_fields)

lemma changes_role_only:
  assumes f: "\<And>b. without_role (f b) = without_role b"
  shows "lawful same_but_role (assign_base f)"
proof -
  have "same_but_role u v" if "user_validate (with_base f u) = Some v" for u v
  proof (unfold same_but_role_def, intro impI)
    assume u: "user_validate u = Some u"
    have same: "with_base without_role (with_base f u) = with_base without_role u" by (simp add: with_base_twice f)
    from validate_other_fields[OF same[symmetric] u] that have "v = with_base f u" by simp
    with same validate_other_fields[OF same[symmetric] u]
    show "user_validate v = Some v \<and> with_base without_role u = with_base without_role v" by simp
  qed
  then show ?thesis
    by (auto simp: lawful_def assign_base_def assign_def safe_basic split: option.splits)
qed

lemma same_profile_but_role: "same_profile u v \<Longrightarrow> same_but_role u v"
proof -
  assume "same_profile u v"
  then have "with_base without_role (with_base without_dialog u) = with_base without_role (with_base without_dialog v)"
    by (simp add: same_profile_def)
  then have "with_base without_role u = with_base without_role v" by (simp add: with_base_twice without_role_twice)
  then show ?thesis by (auto simp: same_but_role_def dest: validate_other_fields)
qed

interpretation roles: stewardship same_but_role
proof
  show "same_but_role u v \<Longrightarrow> same_but_role v v' \<Longrightarrow> same_but_role u v'" for u v v'
    by (auto simp: same_but_role_def)
  show "same_profile u v \<Longrightarrow> same_but_role u v" for u v by (rule same_profile_but_role)
  show "lawful same_but_role (takes_role role request_id)" for role request_id
    unfolding takes_role_def by (rule changes_role_only) (simp add: without_role_def without_dialog_def)
  show "lawful same_but_role (loses_role request_id)" for request_id
    unfolding loses_role_def by (rule changes_role_only) (simp add: without_role_def without_dialog_def)
qed

text \<open>
  C24. A dialogue of administration changes nothing of the profile of the person who leads it but the state of the
  dialogue and the role the person takes or loses: name, answers, pass data, links and identity stay.
\<close>

theorem administration_changes_roles_only:
  assumes "d \<in> {admin_step X pkey im v, admin_game_action X pkey im v, admin_start X pkey im v,
      admin_select X pkey im e flow, admin_statistics_action X im v, show_admin_games X a b archived}"
    and "legacy_plain X" and "user_validate u = Some u" and "d u w = (Inr (r, u'), w')"
  shows "user_validate u' = Some u' \<and> with_base without_role u' = with_base without_role u"
proof -
  have "lawful same_but_role d"
    using assms(1) by (auto intro: roles.lawful_admin_step roles.lawful_game_action roles.lawful_start_command
        roles.lawful_statistics roles.lawful_games assms(2))
  from lawfulD[OF this assms(4)] assms(3) show ?thesis by (simp add: same_but_role_def)
qed

lemma former_master_valid: "user_validate former_master = Some former_master"
  by (simp add: former_master_def user_base_validate_def new_user_base_def optionally_def normalize_telegram_handle_def)

lemma former_master_sent:
  "\<exists>r w. admin_step sample_env sample_pkey sample_message v former_master sample_people
     = (Inr (r, dismissed former_master), w)"
  using nobody_leads
  by (simp add: admin_step_def with_user_def thenDo_def ask_def has_admin_access_def includes_role_def
      privileged_role_of_def users_now_def sample_people_def sample_world_def andThen_def Let_def global_users_def
      former_master_def asked_of_all_def external_def external_outcome_def sample_env_def present_def
      List.map_filter_def effective_privileged_role_def higher_role_def role_includes_def
      new_user_base_def event_guarded_def state_of_def event_bound_states_def from_context_def recall_def
      needed_text_def needed_def dict_get_def json_text_def find_event_def event_guard_def unless_denied_def
      created_repo_get sample_event_def deletes_archived_def may_go_on_def pending_self_removal_def
      view_only_event_states_def event_leader_required_def is_admin_def global_identities_def is_event_leader_def
      leaders_now_def clear_dialog_def set_dialog_def give_def dismissed_def)

theorem administration_changes_roles_only_witness:
  "\<exists>r u w. admin_step sample_env sample_pkey sample_message [] former_master sample_people = (Inr (r, u), w)
     \<and> with_base without_role u = with_base without_role former_master"
proof -
  from former_master_sent obtain r w where
    run: "admin_step sample_env sample_pkey sample_message [] former_master sample_people
      = (Inr (r, dismissed former_master), w)" by blast
  from administration_changes_roles_only[where d = "admin_step sample_env sample_pkey sample_message []"
      and X = sample_env and pkey = sample_pkey and im = sample_message and v = "[]",
      OF _ sample_plain former_master_valid run] run
  show ?thesis by blast
qed

end
