(* ===== verification/Gateway.thy ===== *)
theory Gateway
  imports Guards
begin

text \<open>
  The webhooks (\<open>functions/gateway/handler.py\<close>, \<open>functions/runtime_mode.py\<close> and the signatures of
  \<open>domain/security.py\<close>): who may call them, how an update becomes a message of the conversation or an update of
  a chat, and how the answer is delivered.
\<close>

section \<open>Requests and responses\<close>

text \<open>
  A request as the function is handed it.  A body that is not a text is \<open>None\<close>; an absent method or path is the
  empty text, which \<open>or\<close> skips as well; the paths are \<open>path\<close>, \<open>rawPath\<close> and the path of the context of the request.
\<close>

record web_request =
  rq_headers :: "(ustring \<times> ustring) list"
  rq_body :: "ustring option"
  rq_base64 :: bool
  rq_http_method :: ustring
  rq_context_method :: ustring
  rq_path :: ustring
  rq_raw_path :: ustring
  rq_context_path :: ustring

text \<open>A text, an object, or the message that Telegram is to send, with its keyboard.\<close>

datatype web_body =
  TextBody ustring
| ObjectBody json_object
| InlineBody int message "(ustring \<times> ustring) list"

record web_response =
  ws_status :: nat
  ws_body :: web_body

text \<open>
  What the process is given: \<open>os.environ\<close>; SHA-256 of bytes and HMAC-SHA-256 with the secret, in hexadecimal;
  \<open>b64decode\<close>; the text of bytes by the detection of \<open>json.loads\<close>; whether the container and the provider of the
  configuration can be built; and the margin of inline answers in milliseconds.
\<close>

record gateway =
  gw_environ :: "(ustring, ustring) dict"
  gw_sha256 :: "nat list \<Rightarrow> ustring"
  gw_hmac :: "ustring \<Rightarrow> nat list \<Rightarrow> ustring"
  gw_base64 :: "ustring \<Rightarrow> nat list option"
  gw_decoded :: "nat list \<Rightarrow> ustring option"
  gw_container :: "call list \<Rightarrow> exn option"
  gw_config :: "call list \<Rightarrow> exn option"
  gw_margin :: int

definition on_aws :: "gateway \<Rightarrow> bool" where
  "on_aws G \<longleftrightarrow> dict_get (gw_environ G) (asc ''CLOUD_PROVIDER'') = Some (asc ''aws'')"

definition web :: "nat \<Rightarrow> json_object \<Rightarrow> web_response" where
  "web status obj = \<lparr>ws_status = status, ws_body = ObjectBody obj\<rparr>"

definition web_error :: "nat \<Rightarrow> ustring \<Rightarrow> web_response" where
  "web_error status reason = web status [(asc ''error'', JString reason)]"

definition web_deferred :: "ustring \<Rightarrow> web_response" where
  "web_deferred request_id =
     web 200 [(asc ''delivery'', JString (asc ''deferred'')), (asc ''request_id'', JString request_id)]"

definition web_text :: "ustring \<Rightarrow> web_response" where
  "web_text s = \<lparr>ws_status = 200, ws_body = TextBody s\<rparr>"

text \<open>The names of headers in lower case; the last of equal ones counts.\<close>

definition headers_of :: "web_request \<Rightarrow> (ustring, ustring) dict" where
  "headers_of q = foldl (\<lambda>d (name, v). dict_put (lower name) v d) [] (rq_headers q)"

definition header :: "web_request \<Rightarrow> ustring \<Rightarrow> ustring" where
  "header q name = (case dict_get (headers_of q) name of None \<Rightarrow> [] | Some v \<Rightarrow> v)"

text \<open>\<open>str.encode()\<close>; a surrogate cannot be encoded.\<close>

definition utf8_char :: "nat \<Rightarrow> nat list" where
  "utf8_char c =
     (if c < 128 then [c]
      else if c < 2048 then [192 + c div 64, 128 + c mod 64]
      else if c < 65536 then [224 + c div 4096, 128 + c div 64 mod 64, 128 + c mod 64]
      else [240 + c div 262144, 128 + c div 4096 mod 64, 128 + c div 64 mod 64, 128 + c mod 64])"

definition encoded :: "ustring \<Rightarrow> exn + nat list" where
  "encoded s =
     (if list_ex (\<lambda>c. 55296 \<le> c \<and> c \<le> 57343) s then Inl ValueError else Inr (concat (map utf8_char s)))"

definition body_bytes :: "gateway \<Rightarrow> web_request \<Rightarrow> exn + nat list" where
  "body_bytes G q =
     (case rq_body q of
        None \<Rightarrow> Inl ValueError
      | Some s \<Rightarrow>
          if rq_base64 q then (case gw_base64 G s of None \<Rightarrow> Inl ValueError | Some b \<Rightarrow> Inr b) else encoded s)"

definition first_text :: "ustring list \<Rightarrow> ustring" where
  "first_text xs = (case filter (\<lambda>s. s \<noteq> []) xs of [] \<Rightarrow> [] | s # _ \<Rightarrow> s)"

text \<open>
  \<open>upper() == "POST"\<close>: the small letters, the long s and the two ligatures of s and t are the only other
  characters whose upper case consists of these letters.
\<close>

definition upper_of_post :: "nat \<Rightarrow> ustring" where
  "upper_of_post c =
     (if 97 \<le> c \<and> c \<le> 122 then [c - 32] else if c = 383 then [83] else if c \<in> {64261, 64262} then [83, 84] else [c])"

definition is_post :: "ustring \<Rightarrow> bool" where
  "is_post s \<longleftrightarrow> concat (map upper_of_post s) = asc ''POST''"

section \<open>Signatures\<close>

text \<open>\<open>isdigit\<close>: the decimals and the digits that \<open>int\<close> does not read.\<close>

definition other_digits :: "(nat \<times> nat) list" where
  "other_digits =
     [(178, 179), (185, 185), (4969, 4977), (6618, 6618), (8304, 8304), (8308, 8313), (8320, 8329),
      (9312, 9320), (9332, 9340), (9352, 9360), (9450, 9450), (9461, 9469), (9471, 9471),
      (10102, 10110), (10112, 10120), (10122, 10130), (68160, 68163), (69216, 69224), (69714, 69722),
      (127232, 127242)]"

definition is_digit :: "nat \<Rightarrow> bool" where
  "is_digit c \<longleftrightarrow> is_decimal c \<or> list_ex (\<lambda>(a, b). a \<le> c \<and> c \<le> b) other_digits"

definition all_digits :: "ustring \<Rightarrow> bool" where
  "all_digits s \<longleftrightarrow> s \<noteq> [] \<and> list_all is_digit s"

definition canonical_request ::
    "gateway \<Rightarrow> ustring \<Rightarrow> ustring \<Rightarrow> ustring \<Rightarrow> nat list \<Rightarrow> exn + nat list" where
  "canonical_request G timestamp request_id path body =
     encoded (timestamp @ [10] @ request_id @ [10] @ asc ''POST'' @ [10] @ path @ [10] @ gw_sha256 G body)"

definition sign_request ::
    "gateway \<Rightarrow> ustring \<Rightarrow> ustring \<Rightarrow> ustring \<Rightarrow> ustring \<Rightarrow> nat list \<Rightarrow> exn + ustring" where
  "sign_request G secret timestamp request_id path body =
     then_sum (canonical_request G timestamp request_id path body) (\<lambda>m. Inr (gw_hmac G secret m))"

text \<open>\<open>compare_digest\<close> of texts raises \<open>TypeError\<close> when one is not ASCII.\<close>

definition valid_signature :: "ustring \<Rightarrow> ustring \<Rightarrow> exn + bool" where
  "valid_signature expected supplied =
     (if supplied = [] then Inr False
      else if list_all (\<lambda>c. c < 128) (expected @ supplied) then Inr (expected = supplied) else Inl TypeError)"

definition signed_path :: "web_request \<Rightarrow> ustring" where
  "signed_path q =
     (let p = first_text [rq_path q, rq_raw_path q, rq_context_path q]
      in if p = [] then asc ''/webhooks/telegram'' else p)"

definition verify_transport ::
    "env \<Rightarrow> gateway \<Rightarrow> web_request \<Rightarrow> nat list \<Rightarrow> ustring \<Rightarrow> ustring service" where
  "verify_transport X G q body secret =
     (let timestamp = header q (asc ''x-gateway-timestamp''); request_id = header q (asc ''x-gateway-request-id'');
          supplied = header q (asc ''x-gateway-signature'')
      in andThen (unless_throw (all_digits timestamp \<and> request_id \<noteq> []) PermissionError) (\<lambda>_.
         andThen (reading X) (\<lambda>now.
         andThen (from_sum (int_of_digits timestamp)) (\<lambda>sent.
         andThen (unless_throw (abs (now div 1000000 - int sent) \<le> 60) PermissionError) (\<lambda>_.
         andThen (from_sum (sign_request G secret timestamp request_id (signed_path q) body)) (\<lambda>expected.
         andThen (from_sum (valid_signature expected supplied)) (\<lambda>valid.
         andThen (unless_throw valid PermissionError) (\<lambda>_. ret request_id))))))))"

definition verify_telegram ::
    "env \<Rightarrow> gateway \<Rightarrow> web_request \<Rightarrow> nat list \<Rightarrow> ustring \<Rightarrow> (ustring \<times> nat) service" where
  "verify_telegram X G q body secret =
     andThen (verify_transport X G q body secret) (\<lambda>request_id.
       let deadline = header q (asc ''x-telegram-inline-deadline-ms'')
       in andThen (unless_throw (all_digits deadline) PermissionError) (\<lambda>_.
          andThen (from_sum (int_of_digits deadline)) (\<lambda>n. ret (request_id, n))))"

section \<open>Telegram\<close>

definition secret_of :: "env \<Rightarrow> ustring \<Rightarrow> ustring service" where
  "secret_of X name = external X (GetSecret name) (xe_secret X)"

definition gateway_secret :: "gateway \<Rightarrow> ustring" where
  "gateway_secret G = (if on_aws G then asc ''CF_TO_AWS_HMAC_SECRET'' else asc ''CF_TO_YANDEX_HMAC_SECRET'')"

text \<open>What \<open>json.loads\<close> makes of a body; \<open>None\<close> for a \<open>JSONDecodeError\<close>.\<close>

definition loaded :: "gateway \<Rightarrow> nat list \<Rightarrow> exn + json option" where
  "loaded G body = (case gw_decoded G body of None \<Rightarrow> Inl ValueError | Some s \<Rightarrow> Inr (json_loads s))"

definition inline_payload :: "bot_response \<Rightarrow> int \<Rightarrow> web_body" where
  "inline_payload r chat_id =
     InlineBody chat_id (br_text r) (map (\<lambda>b. (bt_label b, encode_callback (bt_value b))) (br_buttons r))"

definition reply_chat :: "int option \<Rightarrow> inbound_message \<Rightarrow> int" where
  "reply_chat chat im = (case chat of None \<Rightarrow> snd (im_identity im) | Some c \<Rightarrow> if c = 0 then snd (im_identity im) else c)"

definition delivers ::
    "env \<Rightarrow> platform \<Rightarrow> int \<Rightarrow> ustring \<Rightarrow> bot_response \<Rightarrow> unit service" where
  "delivers X p chat request_id r =
     external X (SendMessage p chat (request_id @ asc '':ack'') (br_text r) (br_buttons r)) (\<lambda>_. ())"

definition telegram_message ::
    "env \<Rightarrow> pkey \<Rightarrow> gateway \<Rightarrow> ustring \<Rightarrow> nat \<Rightarrow> inbound_message \<Rightarrow> web_response service" where
  "telegram_message X pkey G request_id deadline im =
     andThen (handle_message X pkey (administration X pkey) im) (\<lambda>r.
       if br_silent r then ret (web_deferred request_id)
       else
         andThen (reading X) (\<lambda>now.
           if \<not> br_deferred r \<and> \<not> br_command_enqueued r \<and> now div 1000 + gw_margin G < int deadline
           then ret \<lparr>ws_status = 200, ws_body = inline_payload r (reply_chat (im_chat_id im) im)\<rparr>
           else
             andThen (delivers X TELEGRAM (reply_chat (im_chat_id im) im) request_id r) (\<lambda>_.
               ret (web_deferred request_id))))"

definition telegram_update ::
    "env \<Rightarrow> pkey \<Rightarrow> gateway \<Rightarrow> ustring \<Rightarrow> nat \<Rightarrow> json_object \<Rightarrow> web_response service" where
  "telegram_update X pkey G request_id deadline update =
     andThen (from_sum (parse_telegram_group_update update)) (\<lambda>group_update.
       case group_update of
         Some g \<Rightarrow> andThen (handle_group_update X pkey g) (\<lambda>_. ret (web_deferred request_id))
       | None \<Rightarrow>
           andThen (from_sum (parse_telegram_update update)) (telegram_message X pkey G request_id deadline))"

definition telegram_webhook ::
    "env \<Rightarrow> pkey \<Rightarrow> gateway \<Rightarrow> web_request \<Rightarrow> nat list \<Rightarrow> web_response service" where
  "telegram_webhook X pkey G q body =
     andThen (secret_of X (gateway_secret G)) (\<lambda>secret.
     andThen (verify_telegram X G q body secret) (\<lambda>(request_id, deadline).
     andThen (from_sum (loaded G body)) (\<lambda>read.
       case read of
         None \<Rightarrow> ret (web_error 400 (asc ''invalid JSON''))
       | Some (JObject update) \<Rightarrow> telegram_update X pkey G request_id deadline update
       | Some _ \<Rightarrow> ret (web_error 400 (asc ''invalid update'')))))"

section \<open>VK\<close>

definition vk_rejected :: web_response where
  "vk_rejected = web_error 403 (asc ''invalid VK callback authentication'')"

text \<open>The shape of the credentials is checked before anything else is started.\<close>

definition vk_event_of :: "json option \<Rightarrow> web_response + json_object" where
  "vk_event_of read =
     (case read of
        None \<Rightarrow> Inl (web_error 400 (asc ''invalid JSON''))
      | Some (JObject event) \<Rightarrow>
          (case (json_get event (asc ''secret''), json_get event (asc ''group_id'')) of
             (JString _, JInt _) \<Rightarrow> Inr event
           | _ \<Rightarrow> Inl vk_rejected)
      | Some _ \<Rightarrow> Inl (web_error 400 (asc ''invalid event'')))"

text \<open>The secret and the group of the callback are those of the configuration; otherwise it is refused.\<close>

definition vk_authenticated ::
    "env \<Rightarrow> json_object \<Rightarrow> web_response service \<Rightarrow> web_response service" where
  "vk_authenticated X event k =
     andThen (secret_of X (asc ''VK_CALLBACK_SECRET'')) (\<lambda>expected_secret.
     andThen (secret_of X (asc ''VK_GROUP_ID'')) (\<lambda>group_id.
     andThen (from_sum (case read_int group_id of None \<Rightarrow> Inl ValueError | Some n \<Rightarrow> Inr n)) (\<lambda>expected_group.
       if json_get event (asc ''secret'') \<noteq> JString expected_secret
          \<or> json_get event (asc ''group_id'') \<noteq> JInt expected_group
       then ret vk_rejected else k)))"

definition vk_confirmation :: "env \<Rightarrow> json_object \<Rightarrow> web_response service" where
  "vk_confirmation X event =
     vk_authenticated X event
       (andThen (secret_of X (asc ''VK_CONFIRMATION_STRING'')) (\<lambda>s. ret (web_text s)))"

definition vk_message :: "env \<Rightarrow> pkey \<Rightarrow> inbound_message \<Rightarrow> web_response service" where
  "vk_message X pkey im =
     andThen (handle_message X pkey (administration X pkey) im) (\<lambda>r.
       if br_silent r then ret (web_text (asc ''ok''))
       else
         andThen (delivers X VK (reply_chat (im_peer_id im) im) (im_update_id im) r) (\<lambda>_.
           ret (web_text (asc ''ok''))))"

definition vk_webhook :: "env \<Rightarrow> pkey \<Rightarrow> json_object \<Rightarrow> web_response service" where
  "vk_webhook X pkey event =
     vk_authenticated X event
       (if is_text (json_get event (asc ''type'')) (asc ''confirmation'')
        then andThen (secret_of X (asc ''VK_CONFIRMATION_STRING'')) (\<lambda>s. ret (web_text s))
        else if \<not> is_text (json_get event (asc ''type'')) (asc ''message_new'') then ret (web_text (asc ''ok''))
        else andThen (from_sum (parse_vk_event event)) (vk_message X pkey))"

section \<open>Routing\<close>

text \<open>
  The container, or the provider of the configuration, of the warm process.  \<open>OutOfFuel\<close> is no exception of the
  code; whatever else goes wrong is thrown.
\<close>

definition started :: "(call list \<Rightarrow> exn option) \<Rightarrow> unit service" where
  "started fails =
     answers (\<lambda>w. case fails (w_calls w) of
       None \<Rightarrow> Inr () | Some x \<Rightarrow> Inl (if x = OutOfFuel then RuntimeError else x))"

definition vk_route ::
    "env \<Rightarrow> pkey \<Rightarrow> gateway \<Rightarrow> nat list \<Rightarrow> (json_object \<Rightarrow> unit service) \<Rightarrow> web_response service" where
  "vk_route X pkey G body verify =
     andThen (from_sum (loaded G body)) (\<lambda>read.
       case vk_event_of read of
         Inl rejected \<Rightarrow> ret rejected
       | Inr event \<Rightarrow>
           andThen (verify event) (\<lambda>_.
             if is_text (json_get event (asc ''type'')) (asc ''confirmation'') then vk_confirmation X event
             else andThen (started (gw_container G)) (\<lambda>_. vk_webhook X pkey event)))"

definition verify_vk :: "env \<Rightarrow> gateway \<Rightarrow> web_request \<Rightarrow> nat list \<Rightarrow> unit service" where
  "verify_vk X G q body =
     andThen (started (gw_config G)) (\<lambda>_.
     andThen (secret_of X (gateway_secret G)) (\<lambda>secret.
     andThen (verify_transport X G q body secret) (\<lambda>_. ret ())))"

definition route :: "env \<Rightarrow> pkey \<Rightarrow> gateway \<Rightarrow> web_request \<Rightarrow> nat list \<Rightarrow> web_response service" where
  "route X pkey G q body =
     (let chosen = first_text [rq_http_method q, rq_context_method q]; method = (if chosen = [] then asc ''POST'' else chosen);
          path = first_text [rq_path q, rq_raw_path q, rq_context_path q]
      in if 262144 < length body then ret (web_error 413 (asc ''body too large''))
         else if \<not> is_post method then ret (web_error 405 (asc ''method not allowed''))
         else if ends_with (asc ''/telegram'') path
         then andThen (started (gw_container G)) (\<lambda>_. telegram_webhook X pkey G q body)
         else if ends_with (asc ''/vk-cloudflare'') path
         then vk_route X pkey G body (\<lambda>_. verify_vk X G q body)
         else if ends_with (asc ''/vk'') path then
           (if on_aws G then ret (web_error 404 (asc ''not found''))
            else vk_route X pkey G body (\<lambda>event.
              if is_text (json_get event (asc ''type'')) (asc ''confirmation'') then started (gw_config G) else ret ()))
         else ret (web_error 404 (asc ''not found'')))"

definition async_handler :: "env \<Rightarrow> pkey \<Rightarrow> gateway \<Rightarrow> web_request \<Rightarrow> web_response service" where
  "async_handler X pkey G q =
     catching (andThen (from_sum (body_bytes G q)) (route X pkey G q))
       (\<lambda>x. if x = PermissionError then ret (web_error 403 (asc ''forbidden''))
            else if x = ValueError then ret (web_error 400 (asc ''invalid request''))
            else throw x)"

section \<open>The mode of the process\<close>

datatype application_mode = Standby | Active | Maintenance

record runtime_gate =
  rt_mode :: application_mode
  rt_mutations_enabled :: bool

definition modes :: "(ustring, application_mode) dict" where
  "modes = [(asc ''standby'', Standby), (asc ''active'', Active), (asc ''maintenance'', Maintenance)]"

definition gate_from_environment :: "(ustring, ustring) dict \<Rightarrow> exn + runtime_gate" where
  "gate_from_environment values =
     (let raw_mode = (case dict_get values (asc ''APPLICATION_MODE'') of None \<Rightarrow> asc ''standby'' | Some s \<Rightarrow> s);
          raw_mutations = casefold (case dict_get values (asc ''MUTATIONS_ENABLED'') of None \<Rightarrow> asc ''false'' | Some s \<Rightarrow> s)
      in case dict_get modes raw_mode of
           None \<Rightarrow> Inl RuntimeError
         | Some mode \<Rightarrow>
             if raw_mutations \<notin> {asc ''true'', asc ''false''} then Inl RuntimeError
             else if mode \<noteq> Active \<and> raw_mutations = asc ''true'' then Inl RuntimeError
             else Inr \<lparr>rt_mode = mode, rt_mutations_enabled = (raw_mutations = asc ''true'')\<rparr>)"

definition accepts_application_work :: "runtime_gate \<Rightarrow> bool" where
  "accepts_application_work g \<longleftrightarrow> rt_mode g = Active \<and> rt_mutations_enabled g"

definition runtime_controls_configured :: "(ustring, ustring) dict \<Rightarrow> bool" where
  "runtime_controls_configured values \<longleftrightarrow>
     dict_get values (asc ''APPLICATION_MODE'') \<noteq> None \<or> dict_get values (asc ''MUTATIONS_ENABLED'') \<noteq> None"

definition handler :: "env \<Rightarrow> pkey \<Rightarrow> gateway \<Rightarrow> web_request \<Rightarrow> web_response service" where
  "handler X pkey G q =
     (if on_aws G \<or> runtime_controls_configured (gw_environ G) then
        andThen (from_sum (gate_from_environment (gw_environ G))) (\<lambda>g.
          if accepts_application_work g then async_handler X pkey G q
          else ret (web_error 503 (asc ''backend is not active'')))
      else async_handler X pkey G q)"

end
