(* ===== verification/Webhooks.thy ===== *)
theory Webhooks
  imports Gateway
begin

text \<open>
  What the webhooks guarantee: every request is answered or fails and leaves the stores consistent, a request
  without a valid signature changes nothing stored, and an update that is delivered again is not handled again.
\<close>

section \<open>Parsing fails with the exceptions of the code\<close>

definition orderly :: "exn + 'a \<Rightarrow> bool" where
  "orderly r \<longleftrightarrow> r \<noteq> Inl OutOfFuel"

lemma orderly_sum [simp]: "orderly (Inr x)" "orderly (Inl e) \<longleftrightarrow> e \<noteq> OutOfFuel"
  by (simp_all add: orderly_def)

lemma orderly_then [intro!]: "orderly x \<Longrightarrow> (\<And>y. orderly (f y)) \<Longrightarrow> orderly (then_sum x f)"
  by (cases x) simp_all

lemma orderly_parts [simp]:
  "orderly (in_strings v names)" "orderly (member_of v)" "orderly (inbound im username)"
  by (simp_all add: in_strings_def member_of_def inbound_def split: json.split)

lemma orderly_chat [simp]: "orderly (group_chat_id v)"
  by (auto simp: group_chat_id_def split: json.split)

lemma orderly_group_parts [simp]:
  "orderly (parse_bot_membership u m)" "orderly (parse_chat_member u m)" "orderly (parse_group_callback u m)"
  "orderly (parse_group_message u m)"
  by (auto simp: parse_bot_membership_def parse_chat_member_def was_present_def parse_group_callback_def
      parse_group_message_def parse_migration_def Let_def split: option.split json.split)

lemma orderly_private_parts [simp]: "orderly (parse_private_callback u v)" "orderly (parse_private_message u m)"
  by (auto simp: parse_private_callback_def parse_private_message_def split: json.split)

lemma orderly_updates:
  "orderly (parse_telegram_group_update update)" "orderly (parse_telegram_update update)"
  "orderly (parse_vk_event event)"
  by (auto simp: parse_telegram_group_update_def if_object_def parse_telegram_update_def parse_vk_event_def Let_def
      split: json.split option.split)

lemma orderly_requests:
  "orderly (body_bytes G q)" "orderly (sign_request G secret ts rid path body)" "orderly (valid_signature e s)"
  "orderly (int_of_digits ts)" "orderly (loaded G body)"
  by (auto simp: body_bytes_def encoded_def sign_request_def canonical_request_def valid_signature_def
      int_of_digits_def loaded_def split: option.split)

lemma safe_orderly: "orderly x \<Longrightarrow> safe (from_sum x)"
  by (intro safe_from_sum) (simp add: orderly_def)

lemmas safe_parsing = orderly_updates[THEN safe_orderly] orderly_requests[THEN safe_orderly]

section \<open>Every request is answered\<close>

lemma safe_started: "safe (started fails)"
  unfolding started_def by (intro safe_answers) (simp split: option.split)

lemma safe_secret: "safe (secret_of X name)"
  unfolding secret_of_def by (intro safe_external) (simp add: queue_call_def)

lemma safe_verify: "safe (verify_transport X G q body secret)" "safe (verify_telegram X G q body secret)"
  unfolding verify_telegram_def verify_transport_def Let_def
  by (intro safe_rules safe_parsing; simp)+

lemma safe_delivers: "safe (delivers X p chat request_id r)"
  unfolding delivers_def by (intro safe_external) (simp add: queue_call_def)

lemma safe_group_update: "legacy_plain X \<Longrightarrow> safe (handle_group_update X pkey g)"
  by (intro safeI settles_handle_group_update sound_store.keeps_handle_group_update)

lemmas safe_messages = safe_handle_message[OF _ steward.administration_lawful]

lemma safe_telegram: "legacy_plain X \<Longrightarrow> safe (telegram_webhook X pkey G q body)"
  unfolding telegram_webhook_def telegram_update_def telegram_message_def
  by (intro safe_rules safe_secret safe_verify safe_parsing
      safe_group_update safe_messages safe_delivers; assumption?)
    (auto split: json.split intro!: safe_rules safe_parsing
      safe_group_update safe_messages safe_delivers)

lemma safe_authenticated: "safe k \<Longrightarrow> safe (vk_authenticated X event k)"
  unfolding vk_authenticated_def
  by (intro safe_rules safe_secret safe_from_sum) (simp_all split: option.split)

lemma safe_vk: "legacy_plain X \<Longrightarrow> safe (vk_webhook X pkey event)" "safe (vk_confirmation X event)"
  unfolding vk_webhook_def vk_confirmation_def vk_message_def
  by (intro safe_authenticated safe_rules safe_secret safe_parsing safe_messages safe_delivers; assumption?)+

lemma safe_vk_route: "legacy_plain X \<Longrightarrow> (\<And>event. safe (verify event)) \<Longrightarrow> safe (vk_route X pkey G body verify)"
  unfolding vk_route_def
  by (intro safe_rules safe_sum safe_parsing safe_started safe_vk; assumption?)

lemma safe_verify_vk: "safe (verify_vk X G q body)"
  unfolding verify_vk_def by (intro safe_rules safe_started safe_secret safe_verify)

lemma safe_route: "legacy_plain X \<Longrightarrow> safe (route X pkey G q body)"
  unfolding route_def Let_def
  by (intro safe_rules safe_started safe_telegram safe_vk_route safe_verify_vk; assumption?)

lemma safe_async_handler: "legacy_plain X \<Longrightarrow> safe (async_handler X pkey G q)"
  unfolding async_handler_def
  by (intro safe_catching safe_rules safe_parsing safe_route; assumption?)

lemma orderly_gate: "orderly (gate_from_environment values)"
  by (simp add: gate_from_environment_def Let_def split: option.split)

lemma safe_handler: "legacy_plain X \<Longrightarrow> safe (handler X pkey G q)"
  unfolding handler_def
  by (intro safe_rules safe_orderly[OF orderly_gate] safe_async_handler; assumption?)

text \<open>
  C21. Every request to the webhooks, signed or not, well formed or not, comes to an end: it gets a response or the
  invocation fails with an exception of the code, and in both cases games, registrations and the queue of commands
  stay consistent.
\<close>

theorem webhooks_end:
  assumes "legacy_plain X" and "about_store store_ok w"
  shows "fst (handler X pkey G q w) \<noteq> Inl OutOfFuel \<and> about_store store_ok (snd (handler X pkey G q w))"
  using safe_handler[OF assms(1), of pkey G q] assms(2) by (simp add: safe_def settles_def keeps_def)

section \<open>Who may call\<close>

text \<open>The stores are as they were; calls have been made and clocks read.\<close>

definition only_asked :: "world \<Rightarrow> world \<Rightarrow> bool" where
  "only_asked w0 w \<longleftrightarrow>
     w_users w = w_users w0 \<and> w_events w = w_events w0 \<and> w_regs w = w_regs w0 \<and> w_queue w = w_queue w0"

lemma yields_parts:
  "yields (only_asked w0) (\<lambda>_. True) (external X c a)" "yields (only_asked w0) (\<lambda>_. True) (reading X)"
  "yields (only_asked w0) (\<lambda>_. True) (started fails)"
  by (auto simp: yields_def only_asked_def external_apply reading_apply started_def answers_def)

lemma yields_sum: "yields I (\<lambda>y. x = Inr y) (from_sum x)"
  by (cases x) (simp_all add: yields_def from_sum_def)

lemma yields_unless: "yields I (\<lambda>_. ok) (unless_throw ok x)"
  by (simp add: yields_def unless_throw_def)

lemma yields_weaken: "yields I Q m \<Longrightarrow> (\<And>x. Q x \<Longrightarrow> P x) \<Longrightarrow> yields I P m"
  unfolding yields_def by blast

lemma yields_catching: "yields I Q m \<Longrightarrow> (\<And>x. yields I Q (h x)) \<Longrightarrow> yields I Q (catching m h)"
  unfolding yields_def by (auto simp: catching_def split: prod.split sum.splits)

text \<open>The signature is not that of the request under any secret the configuration answers with.\<close>

definition unsigned :: "env \<Rightarrow> gateway \<Rightarrow> web_request \<Rightarrow> bool" where
  "unsigned X G q \<longleftrightarrow>
     (\<forall>calls body. body_bytes G q = Inr body \<longrightarrow>
        sign_request G (xe_secret X calls) (header q (asc ''x-gateway-timestamp''))
          (header q (asc ''x-gateway-request-id'')) (signed_path q) body
        \<noteq> Inr (header q (asc ''x-gateway-signature'')))"

lemma yields_secret: "yields (only_asked w0) (\<lambda>s. \<exists>calls. s = xe_secret X calls) (secret_of X name)"
  by (auto simp: secret_of_def yields_def only_asked_def external_apply)

lemma unsigned_not_verified:
  assumes "unsigned X G q" and "body_bytes G q = Inr body" and "\<exists>calls. secret = xe_secret X calls"
  shows "yields (only_asked w0) (\<lambda>_. False) (verify_transport X G q body secret)"
  unfolding verify_transport_def Let_def
  by (intro yields_andThen[OF yields_unless] yields_andThen[OF yields_parts(2)] yields_andThen[OF yields_sum])
    (use assms in \<open>auto simp: unsigned_def valid_signature_def split: if_splits\<close>)

lemma unsigned_telegram:
  assumes "unsigned X G q" and "body_bytes G q = Inr body"
  shows "yields (only_asked w0) (\<lambda>_. False) (telegram_webhook X pkey G q body)"
  unfolding telegram_webhook_def verify_telegram_def Let_def
  by (rule yields_andThen[OF yields_secret], rule yields_andThen, rule yields_andThen[OF unsigned_not_verified[OF assms]])
    auto

lemma unsigned_vk:
  assumes "unsigned X G q" and "body_bytes G q = Inr body"
  shows "yields (only_asked w0) (\<lambda>r. ws_status r \<noteq> 200) (vk_route X pkey G body (\<lambda>_. verify_vk X G q body))"
proof -
  have verify: "yields (only_asked w0) (\<lambda>_. False) (verify_vk X G q body)"
    unfolding verify_vk_def
    by (rule yields_andThen[OF yields_parts(3)], rule yields_andThen[OF yields_secret],
        rule yields_andThen[OF unsigned_not_verified[OF assms]]) auto
  have "ws_status r \<noteq> 200" if "vk_event_of read = Inl r" for read r
    using that by (auto simp: vk_event_of_def vk_rejected_def web_error_def web_def
        split: option.splits json.splits)
  then show ?thesis
    unfolding vk_route_def
    by (intro yields_andThen[OF yields_sum])
      (auto split: sum.split intro!: yields_ret yields_andThen[OF verify])
qed

text \<open>
  C19. A request to the two webhooks behind Cloudflare that is not signed with the secret of the configuration changes
  nothing: users, games, registrations and the queue of commands stay as they are, and the response is no success.
\<close>

theorem unsigned_requests_change_nothing:
  assumes "unsigned X G q" and "path = first_text [rq_path q, rq_raw_path q, rq_context_path q]"
    and "ends_with (asc ''/telegram'') path \<or> ends_with (asc ''/vk-cloudflare'') path"
  shows "only_asked w (snd (handler X pkey G q w))
    \<and> (\<forall>r. fst (handler X pkey G q w) = Inr r \<longrightarrow> ws_status r \<noteq> 200)"
proof -
  let ?Q = "\<lambda>r. ws_status r \<noteq> 200"
  have route: "yields (only_asked w) ?Q (route X pkey G q body)" if "body_bytes G q = Inr body" for body
  proof -
    have "yields (only_asked w) ?Q (andThen (started (gw_container G)) (\<lambda>_. telegram_webhook X pkey G q body))"
      by (rule yields_andThen[OF yields_parts(3)], rule yields_weaken[OF unsigned_telegram[OF assms(1) that]]) simp
    with unsigned_vk[OF assms(1) that, of w pkey] assms(3) show ?thesis
      unfolding route_def Let_def assms(2)[symmetric]
      by (auto simp: web_error_def web_def intro!: yields_ret)
  qed
  have "yields (only_asked w) ?Q (async_handler X pkey G q)"
    unfolding async_handler_def
    by (intro yields_catching yields_andThen[OF yields_sum] route)
      (auto simp: web_error_def web_def yields_def)
  then have "yields (only_asked w) ?Q (handler X pkey G q)"
    unfolding handler_def
    by (auto simp: web_error_def web_def intro!: yields_andThen[OF yields_sum] yields_ret)
  then show ?thesis by (simp add: yields_def only_asked_def)
qed

text \<open>
  A signature that is not ASCII is not refused: \<open>compare_digest\<close> raises \<open>TypeError\<close>, which the handler does not
  catch.
\<close>

lemma foreign_signature_raises:
  assumes "all_digits (header q (asc ''x-gateway-timestamp''))" and "header q (asc ''x-gateway-request-id'') \<noteq> []"
    and "int_of_digits (header q (asc ''x-gateway-timestamp'')) = Inr sent"
    and "abs (xe_clock X (w_turns w) 0 div 1000000 - int sent) \<le> 60"
    and "sign_request G secret (header q (asc ''x-gateway-timestamp'')) (header q (asc ''x-gateway-request-id''))
      (signed_path q) body = Inr expected"
    and "list_ex (\<lambda>c. 128 \<le> c) (header q (asc ''x-gateway-signature''))"
  shows "fst (verify_transport X G q body secret w) = Inl TypeError"
proof -
  have "valid_signature expected (header q (asc ''x-gateway-signature'')) = Inl TypeError"
    using assms(6) by (auto simp: valid_signature_def list_ex_iff list_all_iff not_less)
  with assms(1-5) show ?thesis
    unfolding verify_transport_def Let_def
    by (simp add: andThen_def unless_throw_def reading_apply from_sum_def del: asc_Nil)
qed

section \<open>An update is handled once\<close>

lemma delivery_keeps_users:
  assumes "telegram_message X pkey G request_id deadline im w = (Inr r, w')"
  obtains shown w1 where "handle_message X pkey (administration X pkey) im w = (Inr shown, w1)"
    and "w_users w' = w_users w1"
proof -
  from assms obtain shown w1 where h: "handle_message X pkey (administration X pkey) im w = (Inr shown, w1)"
    and k: "(if br_silent shown then ret (web_deferred request_id)
       else andThen (reading X) (\<lambda>now.
         if \<not> br_deferred shown \<and> \<not> br_command_enqueued shown \<and> now div 1000 + gw_margin G < int deadline
         then ret \<lparr>ws_status = 200, ws_body = inline_payload shown (reply_chat (im_chat_id im) im)\<rparr>
         else andThen (delivers X TELEGRAM (reply_chat (im_chat_id im) im) request_id shown) (\<lambda>_.
           ret (web_deferred request_id)))) w1 = (Inr r, w')"
    unfolding telegram_message_def by (elim andThenE)
  from k have "w_users w' = w_users w1"
    by (auto simp: reading_apply andThen_def delivers_def external_apply split: if_splits prod.splits sum.splits)
  with h show thesis by (rule that)
qed

text \<open>
  C20. A Telegram update from a person that was answered is not handled again when it is delivered again, under
  whatever request id and deadline: the response says that the answer is delivered elsewhere, and nothing at all
  changes.
\<close>

theorem telegram_update_handled_once:
  assumes "telegram_update X pkey G request_id deadline update w = (Inr r, w')"
    and "parse_telegram_group_update update = Inr None" and "legacy_plain X"
    and "\<And>us. w_users w = Some us \<Longrightarrow> users_ok us"
  shows "telegram_update X pkey G request_id' deadline' update w' = (Inr (web_deferred request_id'), w')"
proof -
  from assms(1,2) obtain im where im: "parse_telegram_update update = Inr im"
    and sent: "telegram_message X pkey G request_id deadline im w = (Inr r, w')"
    by (cases "parse_telegram_update update") (auto simp: telegram_update_def from_sum_def andThen_def)
  from delivery_keeps_users[OF sent] obtain shown w1 where
    h: "handle_message X pkey (administration X pkey) im w = (Inr shown, w1)" and users: "w_users w' = w_users w1" .
  from handled_remembered[OF h assms(3) steward.administration_lawful[OF assms(3)] assms(4)]
  obtain u where "remembered im u w1" and who: "local_identity u = im_identity im" by blast
  with users have "remembered im u w'" by (simp add: remembered_def)
  from remembered_ignored[OF this who]
  have "telegram_message X pkey G request_id' deadline' im w' = (Inr (web_deferred request_id'), w')"
    by (simp add: telegram_message_def andThen_def silent_response_def)
  with assms(2) im show ?thesis by (simp add: telegram_update_def from_sum_def andThen_def)
qed

section \<open>Examples\<close>

definition sample_gateway :: gateway where
  "sample_gateway =
     \<lparr>gw_environ = [], gw_sha256 = (\<lambda>b. []), gw_hmac = (\<lambda>secret b. [49]), gw_base64 = (\<lambda>s. None),
      gw_decoded = (\<lambda>b. Some b), gw_container = (\<lambda>calls. None), gw_config = (\<lambda>calls. None), gw_margin = 100\<rparr>"

definition sample_request :: web_request where
  "sample_request =
     \<lparr>rq_headers = [], rq_body = Some (asc ''{}''), rq_base64 = False, rq_http_method = asc ''post'',
      rq_context_method = [], rq_path = asc ''/webhooks/telegram'', rq_raw_path = [], rq_context_path = []\<rparr>"

theorem webhooks_end_witness:
  "about_store store_ok (snd (handler sample_env sample_pkey sample_gateway sample_request sample_people))"
  using webhooks_end[OF sample_plain sample_people_ok(2)] by blast

lemma sample_unsigned: "unsigned sample_env sample_gateway sample_request"
proof -
  have "header sample_request (asc ''x-gateway-signature'') = []"
    by (simp add: header_def headers_of_def sample_request_def dict_get_def)
  then show ?thesis
    by (auto simp: unsigned_def sign_request_def sample_gateway_def canonical_request_def encoded_def
        elim: then_sum.elims)
qed

theorem unsigned_requests_change_nothing_witness:
  "only_asked sample_people (snd (handler sample_env sample_pkey sample_gateway sample_request sample_people))"
  using unsigned_requests_change_nothing[OF sample_unsigned refl]
  by (simp add: sample_request_def first_text_def ends_with_def)

definition sample_telegram :: json_object where
  "sample_telegram =
     [(asc ''update_id'', JInt 49),
      (asc ''message'', JObject [(asc ''from'', JObject [(asc ''id'', JInt 7)]),
         (asc ''chat'', JObject [(asc ''id'', JInt 7)])])]"

lemma sample_telegram_parsed: "parse_telegram_group_update sample_telegram = Inr None"
  by (simp add: parse_telegram_group_update_def sample_telegram_def json_get_def dict_get_def if_object_def Let_def
      parse_group_message_def group_chat_id_def in_strings_def)

definition sample_inbound :: inbound_message where
  "sample_inbound = (plain_message TELEGRAM 7 [52, 57])\<lparr>im_unsupported := True, im_chat_id := Some 7\<rparr>"

lemma sample_private: "parse_telegram_update sample_telegram = Inr sample_inbound"
  by (simp add: parse_telegram_update_def sample_telegram_def json_get_def json_get_or_def dict_get_def
      parse_private_message_def member_of_def inbound_def plain_message_def sample_inbound_def show_int_def
      show_nat.simps)

lemma sample_inbound_handled:
  "\<exists>r w. handle_message sample_env sample_pkey sample_admin sample_inbound sample_people = (Inr r, w)"
  by (simp add: handle_message_def sample_inbound_def plain_message_def sample_people_def sample_world_def
      profile_now_def users_now_def andThen_def users_get_def new_user_def reading_apply sample_env_def
      user_base_validate_def optionally_def new_user_base_def normalize_telegram_handle_def answer_new_def thenDo_def
      refresh_handle_def with_user_def give_def Let_def start_command_def sent_value_def text_or_def unsupported_def
      save_handled_def ask_def set_dialog_def store_user_def on_users_def ticking_def says_def txt_begin_vk_def
      strip_by_def assign_def start_match_def)

lemma sample_telegram_answered:
  "\<exists>r w. telegram_update sample_env sample_pkey sample_gateway [114] 1000 sample_telegram sample_people = (Inr r, w)"
proof -
  obtain r w where h: "handle_message sample_env sample_pkey sample_admin sample_inbound sample_people = (Inr r, w)"
    using sample_inbound_handled by blast
  have "xe_outcome sample_env calls c = Answered" for calls c by (simp add: sample_env_def)
  with h show ?thesis
    by (simp add: telegram_update_def sample_telegram_parsed sample_private from_sum_def andThen_def
        telegram_message_def reading_apply delivers_def external_apply)
qed

theorem telegram_update_handled_once_witness:
  "\<exists>w. telegram_update sample_env sample_pkey sample_gateway [115] 2000 sample_telegram w
     = (Inr (web_deferred [115]), w)"
proof -
  from sample_telegram_answered obtain r w where
    h: "telegram_update sample_env sample_pkey sample_gateway [114] 1000 sample_telegram sample_people = (Inr r, w)"
    by blast
  from telegram_update_handled_once[OF h sample_telegram_parsed sample_plain sample_people_ok(1)] show ?thesis by blast
qed

end
