(* ===== verification/Dynamo.thy ===== *)
theory Dynamo
  imports Messengers
begin

text \<open>
  The repositories over DynamoDB (\<open>adapters/aws/dynamodb.py\<close>): a method loads the rows it needs into a repository
  in memory, runs there, and the difference is committed in one transaction with a condition on every item.
  DynamoDB itself is an argument of the model.
\<close>

section \<open>Items, actions, the service\<close>

datatype table = TelegramTable | VkTable | EventsTable | LeadersTable | RegistrationsTable

text \<open>A table and the values of the key attributes.\<close>

type_synonym item_key = "table \<times> ustring list"

text \<open>
  The documents by their \<open>record_type\<close>.  The \<open>payload\<close> is the entity of which it is the JSON; the index attributes
  are fields of the entity.
\<close>

datatype document =
  UserDocument user
| EventDocument event
| LeaderDocument bot_identity time
| LockDocument ustring
| RegistrationDocument registration "ustring list"

record item =
  it_revision :: "nat option"
  it_document :: document

type_synonym tables = "item_key \<Rightarrow> item option"
type_synonym item_row = "item_key \<times> item"

text \<open>\<open>_StoredItem\<close>, and the dictionaries of them by their logical keys.\<close>

record stored_item =
  si_key :: item_key
  si_revision :: nat
  si_document :: document

type_synonym stored = "(ustring list, stored_item) dict"

datatype condition = Absent | Revision nat | OwnedBy ustring

datatype write_action =
  PutItem item_key nat document condition
| DeleteItem item_key condition

text \<open>A \<open>ClientError\<close> with its code, and every other exception.\<close>

datatype fault = ClientError ustring | Raised exn

text \<open>The conditions on keys that the queries state.\<close>

datatype question =
  HandleIs ustring
| HandleAndLinkAre ustring ustring
| TokenIs ustring
| ChatIs ustring
| LeadersOf ustring
| ProfileIs ustring
| RegistrationsOf ustring

text \<open>
  The service: \<open>dy_others\<close> is what other processes did to the tables before the n-th call, the other fields are the
  answers to the n-th call.  A page comes with the key to continue from.  \<open>dy_pages\<close> bounds the pages of one answer;
  \<open>dy_clock\<close> holds the readings of the clock in a method that follows the n-th call and \<open>dy_stamp\<close> the moment
  a new leader is stored.
\<close>

record dynamo =
  dy_others :: "nat \<Rightarrow> tables \<Rightarrow> tables"
  dy_get :: "nat \<Rightarrow> tables \<Rightarrow> item_key \<Rightarrow> fault + item option"
  dy_scan :: "nat \<Rightarrow> tables \<Rightarrow> table \<Rightarrow> nat option \<Rightarrow> fault + item_row list \<times> nat option"
  dy_query :: "nat \<Rightarrow> tables \<Rightarrow> question \<Rightarrow> nat option \<Rightarrow> fault + item_row list \<times> nat option"
  dy_transact :: "nat \<Rightarrow> tables \<Rightarrow> write_action list \<Rightarrow> (fault + unit) \<times> tables"
  dy_pages :: nat
  dy_clock :: "nat \<Rightarrow> clock"
  dy_stamp :: "nat \<Rightarrow> bot_identity \<Rightarrow> time"

text \<open>The tables, the calls so far, and the snapshot of \<open>DynamoUserRepository\<close> with its depth.\<close>

record cloud =
  cl_tables :: tables
  cl_calls :: nat
  cl_depth :: nat
  cl_snapshot :: "(item_row list \<times> item_row list) option"

type_synonym 'a cloudy = "(cloud, fault, 'a) act"

definition aws_call :: "dynamo \<Rightarrow> (nat \<Rightarrow> tables \<Rightarrow> (fault + 'a) \<times> tables) \<Rightarrow> 'a cloudy" where
  "aws_call D f w =
     (case f (cl_calls w) (dy_others D (cl_calls w) (cl_tables w)) of
        (r, t) \<Rightarrow> (r, w\<lparr>cl_tables := t, cl_calls := Suc (cl_calls w)\<rparr>))"

text \<open>The loop over \<open>LastEvaluatedKey\<close>.\<close>

fun pages_from ::
    "dynamo \<Rightarrow> (nat \<Rightarrow> tables \<Rightarrow> nat option \<Rightarrow> fault + item_row list \<times> nat option) \<Rightarrow> nat \<Rightarrow> nat option
       \<Rightarrow> item_row list cloudy" where
  "pages_from D ask 0 start = throw (Raised OutOfFuel)"
| "pages_from D ask (Suc n) start =
     andThen (aws_call D (\<lambda>i t. (ask i t start, t))) (\<lambda>(rows, last).
       case last of
         None \<Rightarrow> ret rows
       | Some s \<Rightarrow> andThen (pages_from D ask n (Some s)) (\<lambda>more. ret (rows @ more)))"

definition scan_table :: "dynamo \<Rightarrow> table \<Rightarrow> item_row list cloudy" where
  "scan_table D tb = pages_from D (\<lambda>i t. dy_scan D i t tb) (dy_pages D) None"

definition query_items :: "dynamo \<Rightarrow> question \<Rightarrow> item_row list cloudy" where
  "query_items D q = pages_from D (\<lambda>i t. dy_query D i t q) (dy_pages D) None"

definition get_item :: "dynamo \<Rightarrow> item_key \<Rightarrow> item_row list cloudy" where
  "get_item D k =
     andThen (aws_call D (\<lambda>i t. (dy_get D i t k, t))) (\<lambda>found.
       ret (case found of None \<Rightarrow> [] | Some row \<Rightarrow> [(k, row)]))"

section \<open>Committing a difference\<close>

definition put_action :: "stored_item \<Rightarrow> stored_item option \<Rightarrow> write_action" where
  "put_action new original =
     (case original of
        None \<Rightarrow> PutItem (si_key new) 1 (si_document new) Absent
      | Some old \<Rightarrow>
          PutItem (si_key new) (si_revision old + 1) (si_document new) (Revision (si_revision old)))"

definition removal_action :: "stored_item \<Rightarrow> write_action" where
  "removal_action old = DeleteItem (si_key old) (Revision (si_revision old))"

definition put_actions :: "stored \<Rightarrow> stored \<Rightarrow> write_action list" where
  "put_actions original desired =
     List.map_filter (\<lambda>(k, new).
       case dict_get original k of
         None \<Rightarrow> Some (put_action new None)
       | Some old \<Rightarrow> if si_document old \<noteq> si_document new then Some (put_action new (Some old)) else None) desired"

definition delete_actions :: "stored \<Rightarrow> stored \<Rightarrow> write_action list" where
  "delete_actions original desired =
     List.map_filter (\<lambda>(k, old). if dict_get desired k = None then Some (removal_action old) else None) original"

definition MAX_TRANSACTION_ACTIONS :: nat where
  "MAX_TRANSACTION_ACTIONS = 100"

text \<open>The actions of a commit, with those a repository adds.\<close>

definition changes :: "(stored \<Rightarrow> stored \<Rightarrow> write_action list) \<Rightarrow> stored \<Rightarrow> stored \<Rightarrow> write_action list" where
  "changes extra original desired =
     put_actions original desired @ delete_actions original desired @ extra original desired"

definition commit_changes :: "dynamo \<Rightarrow> write_action list \<Rightarrow> unit cloudy" where
  "commit_changes D actions =
     (if actions = [] then ret ()
      else if MAX_TRANSACTION_ACTIONS < length actions then throw (Raised RuntimeError)
      else aws_call D (\<lambda>i t. dy_transact D i t actions))"

definition retryable :: "fault \<Rightarrow> bool" where
  "retryable x =
     (case x of
        ClientError code \<Rightarrow>
          code \<in> {asc ''ConditionalCheckFailedException'', asc ''TransactionCanceledException'',
                  asc ''TransactionConflictException''}
      | Raised _ \<Rightarrow> False)"

text \<open>
  What a repository provides to the loop: loading, a method on the repository in memory, the items it should have,
  further actions.
\<close>

record ('r, 'a) plan =
  pl_load :: "('r \<times> stored) cloudy"
  pl_method :: "clock \<Rightarrow> ('r, exn, 'a) act"
  pl_desired :: "nat \<Rightarrow> 'r \<Rightarrow> stored"
  pl_extra :: "stored \<Rightarrow> stored \<Rightarrow> write_action list"

definition plan_actions :: "('r, 'a) plan \<Rightarrow> nat \<Rightarrow> stored \<Rightarrow> 'r \<Rightarrow> write_action list" where
  "plan_actions P n original r = changes (pl_extra P) original (pl_desired P n r)"

fun attempts :: "dynamo \<Rightarrow> ('r, 'a) plan \<Rightarrow> nat \<Rightarrow> 'a cloudy" where
  "attempts D P 0 w = (Inl (Raised AssertionError), w)"
| "attempts D P (Suc n) w =
     (case pl_load P w of
        (Inl x, w1) \<Rightarrow> (Inl x, w1)
      | (Inr (r, original), w1) \<Rightarrow>
          (case pl_method P (dy_clock D (cl_calls w1)) r of
             (Inl x, _) \<Rightarrow> (Inl (Raised x), w1)
           | (Inr y, r') \<Rightarrow>
               (case commit_changes D (plan_actions P (cl_calls w1) original r') w1 of
                  (Inr _, w2) \<Rightarrow> (Inr y, w2)
                | (Inl x, w2) \<Rightarrow> if n = 0 \<or> \<not> retryable x then (Inl x, w2) else attempts D P n w2)))"

definition execute :: "dynamo \<Rightarrow> ('r, 'a) plan \<Rightarrow> 'a cloudy" where
  "execute D P = attempts D P 4"

section \<open>Users\<close>

datatype user_method =
  GetUser platform int
| FindLinked user
| FindTelegramByHandle ustring
| UpdateTelegramHandle int ustring
| UpdateTelegramLink int "ustring option" "int option"
| SaveUser user
| SetLarpExperience platform int bool
| GrantLarpExperience platform int
| SetPrivilegedRole platform int privileged_role ustring
| ClearPrivilegedRole platform int ustring
| ListPassPreferences
| ListAllUsers
| ClaimDelivery platform int ustring "button list"

datatype user_answer =
  UserDone
| FoundUser "user option"
| PassPreferences "user_pass_preference list"
| AllUsers "user list"
| Claimed bool

definition answering_with :: "('a \<Rightarrow> 'b) \<Rightarrow> ('r, exn, 'a) act \<Rightarrow> ('r, exn, 'b) act" where
  "answering_with f m r = (case m r of (Inl x, r') \<Rightarrow> (Inl x, r') | (Inr y, r') \<Rightarrow> (Inr (f y), r'))"

fun run_user_method :: "user_method \<Rightarrow> time \<Rightarrow> (users, exn, user_answer) act" where
  "run_user_method (GetUser p i) now = reads (\<lambda>r. FoundUser (users_get p i r))"
| "run_user_method (FindLinked u) now = reads (\<lambda>r. FoundUser (find_linked r u))"
| "run_user_method (FindTelegramByHandle h) now =
     answering_with FoundUser (\<lambda>r. (find_telegram_by_handle r h, r))"
| "run_user_method (UpdateTelegramHandle i h) now =
     answering_with (\<lambda>_. UserDone) (update_telegram_handle i h now)"
| "run_user_method (UpdateTelegramLink i h linked) now =
     answering_with (\<lambda>_. UserDone) (update_telegram_link i h linked now)"
| "run_user_method (SaveUser u) now = (\<lambda>r. (Inr UserDone, save_user u r))"
| "run_user_method (SetLarpExperience p i experienced) now =
     (\<lambda>r. (Inr UserDone, set_larp_experience p i experienced now r))"
| "run_user_method (GrantLarpExperience p i) now = (\<lambda>r. (Inr UserDone, grant_larp_experience p i now r))"
| "run_user_method (SetPrivilegedRole p i role operation_id) now =
     answering_with (\<lambda>_. UserDone) (set_privileged_role p i role operation_id)"
| "run_user_method (ClearPrivilegedRole p i operation_id) now =
     answering_with (\<lambda>_. UserDone) (clear_privileged_role p i operation_id)"
| "run_user_method ListPassPreferences now = reads (\<lambda>r. PassPreferences (list_pass_preferences r))"
| "run_user_method ListAllUsers now = reads (\<lambda>r. AllUsers (list_all_users r))"
| "run_user_method (ClaimDelivery p i operation_id buttons) now =
     answering_with Claimed (runs (claim_delivery p i operation_id buttons))"

fun bulk_snapshot_method :: "user_method \<Rightarrow> bool" where
  "bulk_snapshot_method (FindLinked _) = True"
| "bulk_snapshot_method ListAllUsers = True"
| "bulk_snapshot_method ListPassPreferences = True"
| "bulk_snapshot_method _ = False"

fun mutating_method :: "user_method \<Rightarrow> bool" where
  "mutating_method (ClaimDelivery _ _ _ _) = True"
| "mutating_method (ClearPrivilegedRole _ _ _) = True"
| "mutating_method (GrantLarpExperience _ _) = True"
| "mutating_method (SaveUser _) = True"
| "mutating_method (SetLarpExperience _ _ _) = True"
| "mutating_method (SetPrivilegedRole _ _ _ _) = True"
| "mutating_method (UpdateTelegramHandle _ _) = True"
| "mutating_method (UpdateTelegramLink _ _ _) = True"
| "mutating_method _ = False"

definition enter_bulk_read :: "cloud \<Rightarrow> cloud" where
  "enter_bulk_read w = w\<lparr>cl_depth := cl_depth w + 1\<rparr>"

definition leave_bulk_read :: "cloud \<Rightarrow> cloud" where
  "leave_bulk_read w =
     (let w' = w\<lparr>cl_depth := cl_depth w - 1\<rparr> in if cl_depth w' = 0 then w'\<lparr>cl_snapshot := None\<rparr> else w')"

definition both_tables :: "dynamo \<Rightarrow> (item_row list \<times> item_row list) cloudy" where
  "both_tables D =
     andThen (scan_table D TelegramTable) (\<lambda>tg. andThen (scan_table D VkTable) (\<lambda>vk. ret (tg, vk)))"

definition bulk_rows :: "dynamo \<Rightarrow> (item_row list \<times> item_row list) cloudy" where
  "bulk_rows D w =
     (case cl_snapshot w of
        Some rows \<Rightarrow> (Inr rows, w)
      | None \<Rightarrow> andThen (both_tables D) (\<lambda>rows w'. (Inr rows, w'\<lparr>cl_snapshot := Some rows\<rparr>)) w)"

definition identity_key :: "platform \<Rightarrow> int \<Rightarrow> item_key" where
  "identity_key p i = (if p = TELEGRAM then TelegramTable else VkTable, [show_int i])"

definition add_user :: "dynamo \<Rightarrow> platform \<Rightarrow> int \<Rightarrow> (item_row list \<times> item_row list) cloudy" where
  "add_user D p i =
     andThen (get_item D (identity_key p i)) (\<lambda>rows. ret (if p = TELEGRAM then (rows, []) else ([], rows)))"

text \<open>The rows a method needs.\<close>

fun needed_rows :: "dynamo \<Rightarrow> user_method \<Rightarrow> (item_row list \<times> item_row list) cloudy" where
  "needed_rows D ListAllUsers = both_tables D"
| "needed_rows D ListPassPreferences = both_tables D"
| "needed_rows D (FindTelegramByHandle h) =
     andThen (query_items D (HandleIs h)) (\<lambda>rows. ret (rows, []))"
| "needed_rows D (FindLinked (TelegramUser b i v link h)) =
     (case (h, link) of
        (Some name, Some l) \<Rightarrow>
          andThen (query_items D (HandleAndLinkAre name (show_int l))) (\<lambda>rows.
            andThen (get_item D (identity_key VK l)) (\<lambda>vk. ret (rows, vk)))
      | _ \<Rightarrow> ret ([], []))"
| "needed_rows D (FindLinked (VkUser b i h)) =
     (case h of
        Some name \<Rightarrow> andThen (query_items D (HandleAndLinkAre name (show_int i))) (\<lambda>rows. ret (rows, []))
      | None \<Rightarrow> ret ([], []))"
| "needed_rows D (SaveUser u) = add_user D (fst (local_identity u)) (snd (local_identity u))"
| "needed_rows D (GetUser p i) = add_user D p i"
| "needed_rows D (SetLarpExperience p i experienced) = add_user D p i"
| "needed_rows D (GrantLarpExperience p i) = add_user D p i"
| "needed_rows D (SetPrivilegedRole p i role operation_id) = add_user D p i"
| "needed_rows D (ClearPrivilegedRole p i operation_id) = add_user D p i"
| "needed_rows D (ClaimDelivery p i operation_id buttons) = add_user D p i"
| "needed_rows D (UpdateTelegramHandle i h) = add_user D TELEGRAM i"
| "needed_rows D (UpdateTelegramLink i h linked) = add_user D TELEGRAM i"

definition rows_for_user_call :: "dynamo \<Rightarrow> user_method \<Rightarrow> (item_row list \<times> item_row list) cloudy" where
  "rows_for_user_call D m w = (if cl_depth w \<noteq> 0 \<and> bulk_snapshot_method m then bulk_rows D w else needed_rows D m w)"

definition user_storage_key :: "user \<Rightarrow> ustring list" where
  "user_storage_key u = [platform_value (fst (local_identity u)), show_int (snd (local_identity u))]"

definition user_item :: "user \<Rightarrow> nat \<Rightarrow> stored_item" where
  "user_item u revision =
     \<lparr>si_key = identity_key (fst (local_identity u)) (snd (local_identity u)), si_revision = revision,
      si_document = UserDocument u\<rparr>"

definition revision_of :: "item \<Rightarrow> nat" where
  "revision_of row = (case it_revision row of None \<Rightarrow> 0 | Some n \<Rightarrow> n)"

text \<open>The rows of one table; a payload that is no profile of its platform is rejected.\<close>

fun load_users :: "platform \<Rightarrow> item_row list \<Rightarrow> users \<times> stored \<Rightarrow> exn + users \<times> stored" where
  "load_users p [] loaded = Inr loaded"
| "load_users p ((k, row) # rows) (r, original) =
     (case it_document row of
        UserDocument stored \<Rightarrow>
          (case if fst (local_identity stored) = p then user_validate stored else None of
             None \<Rightarrow> Inl ValueError
           | Some u \<Rightarrow>
               load_users p rows (dict_put (local_identity u) u r,
                 dict_put (user_storage_key u) (user_item u (revision_of row)) original))
      | _ \<Rightarrow> load_users p rows (r, original))"

definition raising :: "exn + 'a \<Rightarrow> 'a cloudy" where
  "raising x = (case x of Inl e \<Rightarrow> throw (Raised e) | Inr y \<Rightarrow> ret y)"

definition load_for_user_call :: "dynamo \<Rightarrow> user_method \<Rightarrow> (users \<times> stored) cloudy" where
  "load_for_user_call D m =
     andThen (rows_for_user_call D m) (\<lambda>(tg, vk).
       raising (then_sum (load_users TELEGRAM tg ([], [])) (load_users VK vk)))"

definition desired_users :: "users \<Rightarrow> stored" where
  "desired_users r =
     foldl (\<lambda>d u. dict_put (user_storage_key u) (user_item u 0) d) [] (dict_values r)"

definition user_plan :: "dynamo \<Rightarrow> user_method \<Rightarrow> (users, user_answer) plan" where
  "user_plan D m =
     \<lparr>pl_load = load_for_user_call D m, pl_method = (\<lambda>clk. run_user_method m (clk 0)),
      pl_desired = (\<lambda>n. desired_users), pl_extra = (\<lambda>original desired. [])\<rparr>"

definition execute_user :: "dynamo \<Rightarrow> user_method \<Rightarrow> user_answer cloudy" where
  "execute_user D m w =
     execute D (user_plan D m) (if cl_depth w \<noteq> 0 \<and> mutating_method m then w\<lparr>cl_snapshot := None\<rparr> else w)"

end
