(* ===== verification/Event_Tables.thy ===== *)
theory Event_Tables
  imports Dynamo
begin

text \<open>
  \<open>DynamoEventRepository\<close> (\<open>adapters/aws/dynamodb.py\<close>): games with their leaders, and the locks that keep signup
  tokens and chats unique.
\<close>

section \<open>The repository in memory\<close>

text \<open>\<open>_DynamoMemoryEventRepository\<close> also keeps when a leader was stored.\<close>

record event_store =
  es_events :: events
  es_created :: "(ustring \<times> bot_identity, time) dict"

text \<open>A manual opening of registration also drops the time it was planned for.\<close>

definition dynamo_set_status :: "ustring \<Rightarrow> event_status \<Rightarrow> clock \<Rightarrow> (events, exn, bool) act" where
  "dynamo_set_status event_id status clk r =
     (case get_event event_id r of
        None \<Rightarrow> (Inr False, r)
      | Some e \<Rightarrow>
          (let override = status = CREATED
                 \<and> (case ev_registration_open_at e of None \<Rightarrow> False | Some opens \<Rightarrow> clk 0 < opens)
           in andThen (set_status event_id status (clk 1)) (\<lambda>changed.
                if override
                then andThen (set_registration_open_at event_id None (clk 2)) (\<lambda>_. ret True)
                else ret changed) r))"

text \<open>The methods by the rows they need; \<open>ChangeEvent\<close> stands for the methods that take only the id of a game.\<close>

datatype event_answer =
  EventDone
| EventFlag bool
| FoundEvent "event option"
| EventRows "event list"
| DueRows "scheduled_lifecycle_event list"
| LeaderRows "bot_identity list"

datatype event_method =
  ListPage "event_status list option" "cursor option" "cursor option" "bool option" "bool option" bool nat
| ListDueLifecycleEvents time nat
| ListDueRegistrationNotifications time nat
| ListDueConfirmationOpenings time nat
| ListDueScheduledClosings time nat
| GetBySignupToken ustring
| GetByTelegramChatId int
| CreateEvent event "bot_identity list"
| BindTelegramChat ustring int
| MigrateTelegramChat ustring int int
| AddLeader ustring bot_identity
| RemoveLeader ustring bot_identity
| ListLeaders ustring
| DeleteEvent ustring
| GetEvent ustring
| SetStatus ustring event_status
| ChangeEvent ustring "clock \<Rightarrow> (events, exn, event_answer) act"

fun run_event_method :: "event_method \<Rightarrow> clock \<Rightarrow> (events, exn, event_answer) act" where
  "run_event_method (ListPage statuses after before archived opened newest limit) clk =
     answering_with EventRows (\<lambda>r. (list_page statuses after before archived opened newest limit (clk 0) r, r))"
| "run_event_method (ListDueLifecycleEvents t limit) clk = reads (\<lambda>r. DueRows (list_due_lifecycle_events t limit r))"
| "run_event_method (ListDueRegistrationNotifications t limit) clk =
     reads (\<lambda>r. EventRows (list_due_registration_notifications t limit r))"
| "run_event_method (ListDueConfirmationOpenings t limit) clk =
     reads (\<lambda>r. EventRows (list_due_confirmation_openings t limit r))"
| "run_event_method (ListDueScheduledClosings t limit) clk =
     reads (\<lambda>r. EventRows (list_due_scheduled_closings t limit r))"
| "run_event_method (GetBySignupToken token) clk =
     answering_with FoundEvent (\<lambda>r. (get_by_signup_token token r, r))"
| "run_event_method (GetByTelegramChatId chat_id) clk =
     answering_with FoundEvent (\<lambda>r. (get_by_telegram_chat_id chat_id r, r))"
| "run_event_method (CreateEvent e leaders) clk = answering_with (\<lambda>_. EventDone) (create_event e leaders)"
| "run_event_method (BindTelegramChat event_id chat_id) clk =
     answering_with EventFlag (bind_telegram_chat event_id chat_id (clk 0))"
| "run_event_method (MigrateTelegramChat event_id old new) clk =
     answering_with EventFlag (migrate_telegram_chat event_id old new (clk 0))"
| "run_event_method (AddLeader event_id leader) clk = answering_with EventFlag (add_leader event_id leader)"
| "run_event_method (RemoveLeader event_id leader) clk = answering_with EventFlag (remove_leader event_id leader)"
| "run_event_method (ListLeaders event_id) clk = reads (\<lambda>r. LeaderRows (list_leaders event_id r))"
| "run_event_method (DeleteEvent event_id) clk = answering_with EventFlag (delete_event event_id)"
| "run_event_method (GetEvent event_id) clk = reads (\<lambda>r. FoundEvent (get_event event_id r))"
| "run_event_method (SetStatus event_id status) clk =
     answering_with EventFlag (dynamo_set_status event_id status clk)"
| "run_event_method (ChangeEvent event_id f) clk = f clk"

definition on_store :: "(events, exn, 'a) act \<Rightarrow> (event_store, exn, 'a) act" where
  "on_store m st = (case m (es_events st) of (x, r) \<Rightarrow> (x, st\<lparr>es_events := r\<rparr>))"

section \<open>Items\<close>

definition event_key :: "ustring \<Rightarrow> item_key" where
  "event_key event_id = (EventsTable, [event_id])"

definition event_item :: "event \<Rightarrow> nat \<Rightarrow> stored_item" where
  "event_item e revision =
     \<lparr>si_key = event_key (ev_event_id e), si_revision = revision, si_document = EventDocument e\<rparr>"

definition leader_key :: "bot_identity \<Rightarrow> ustring" where
  "leader_key l = platform_value (fst l) @ [58] @ show_int (snd l)"

definition leader_item :: "ustring \<Rightarrow> bot_identity \<Rightarrow> nat \<Rightarrow> time \<Rightarrow> stored_item" where
  "leader_item event_id l revision created_at =
     \<lparr>si_key = (LeadersTable, [event_id, leader_key l]), si_revision = revision,
      si_document = LeaderDocument l created_at\<rparr>"

definition event_storage_key :: "ustring \<Rightarrow> ustring list" where
  "event_storage_key event_id = [asc ''event'', event_id]"

definition leader_storage_key :: "ustring \<Rightarrow> bot_identity \<Rightarrow> ustring list" where
  "leader_storage_key event_id l = [asc ''leader'', event_id, platform_value (fst l), show_int (snd l)]"

section \<open>Locks\<close>

definition lock_key :: "ustring \<Rightarrow> ustring \<Rightarrow> item_key" where
  "lock_key kind v = (EventsTable, [asc ''lock:'' @ kind @ [58] @ v])"

definition lock_action :: "ustring \<Rightarrow> ustring \<times> ustring \<Rightarrow> write_action" where
  "lock_action event_id v = PutItem (lock_key (fst v) (snd v)) 1 (LockDocument event_id) Absent"

definition unlock_action :: "ustring \<Rightarrow> ustring \<times> ustring \<Rightarrow> write_action" where
  "unlock_action event_id v = DeleteItem (lock_key (fst v) (snd v)) (OwnedBy event_id)"

definition event_values :: "event \<Rightarrow> (ustring \<times> ustring) list" where
  "event_values e =
     (case ev_signup_token e of None \<Rightarrow> [] | Some token \<Rightarrow> [(asc ''signup'', token)])
     @ (case ev_telegram_chat_id e of None \<Rightarrow> [] | Some chat \<Rightarrow> [(asc ''telegram-chat'', show_int chat)])"

definition unique_values :: "stored_item option \<Rightarrow> (ustring \<times> ustring) list" where
  "unique_values it =
     (case it of
        None \<Rightarrow> []
      | Some old \<Rightarrow> (case si_document old of EventDocument e \<Rightarrow> event_values e | _ \<Rightarrow> []))"

definition event_items :: "stored \<Rightarrow> (ustring list \<times> ustring) list" where
  "event_items d =
     List.map_filter (\<lambda>(k, it). case si_document it of EventDocument e \<Rightarrow> Some (k, ev_event_id e) | _ \<Rightarrow> None) d"

definition lock_changes :: "stored \<Rightarrow> stored \<Rightarrow> ustring list \<times> ustring \<Rightarrow> write_action list" where
  "lock_changes original desired = (\<lambda>(k, event_id).
     (let previous = unique_values (dict_get original k); current = unique_values (dict_get desired k)
      in map (unlock_action event_id) (filter (\<lambda>v. v \<notin> set current) previous)
         @ map (lock_action event_id) (filter (\<lambda>v. v \<notin> set previous) current)))"

definition extra_event_actions :: "stored \<Rightarrow> stored \<Rightarrow> write_action list" where
  "extra_event_actions original desired =
     concat (map (lock_changes original desired) (dedup (event_items original @ event_items desired)))"

section \<open>Loading and committing\<close>

text \<open>A row of the table of games that is no game, a lock, is left out.\<close>

definition is_event_row :: "item_row \<Rightarrow> bool" where
  "is_event_row kr \<longleftrightarrow> (case it_document (snd kr) of EventDocument _ \<Rightarrow> True | _ \<Rightarrow> False)"

definition add_event_row :: "dynamo \<Rightarrow> ustring \<Rightarrow> item_row list cloudy" where
  "add_event_row D event_id =
     andThen (get_item D (event_key event_id)) (\<lambda>rows. ret (filter is_event_row rows))"

definition event_and_chat :: "dynamo \<Rightarrow> ustring \<Rightarrow> int \<Rightarrow> (item_row list \<times> item_row list) cloudy" where
  "event_and_chat D event_id chat_id =
     andThen (add_event_row D event_id) (\<lambda>rows.
     andThen (query_items D (ChatIs (show_int chat_id))) (\<lambda>found.
       ret (rows @ filter (\<lambda>(k, _). k \<notin> fst ` set rows) found, [])))"

definition event_and_leaders :: "dynamo \<Rightarrow> ustring \<Rightarrow> (item_row list \<times> item_row list) cloudy" where
  "event_and_leaders D event_id =
     andThen (add_event_row D event_id) (\<lambda>rows.
     andThen (query_items D (LeadersOf event_id)) (\<lambda>leaders. ret (rows, leaders)))"

definition only_events :: "item_row list cloudy \<Rightarrow> (item_row list \<times> item_row list) cloudy" where
  "only_events m = andThen m (\<lambda>rows. ret (rows, []))"

fun event_rows_for_call :: "dynamo \<Rightarrow> event_method \<Rightarrow> (item_row list \<times> item_row list) cloudy" where
  "event_rows_for_call D (ListPage _ _ _ _ _ _ _) = only_events (scan_table D EventsTable)"
| "event_rows_for_call D (ListDueLifecycleEvents _ _) = only_events (scan_table D EventsTable)"
| "event_rows_for_call D (ListDueRegistrationNotifications _ _) = only_events (scan_table D EventsTable)"
| "event_rows_for_call D (ListDueConfirmationOpenings _ _) = only_events (scan_table D EventsTable)"
| "event_rows_for_call D (ListDueScheduledClosings _ _) = only_events (scan_table D EventsTable)"
| "event_rows_for_call D (GetBySignupToken token) = only_events (query_items D (TokenIs token))"
| "event_rows_for_call D (GetByTelegramChatId chat_id) = only_events (query_items D (ChatIs (show_int chat_id)))"
| "event_rows_for_call D (CreateEvent e leaders) = only_events (add_event_row D (ev_event_id e))"
| "event_rows_for_call D (BindTelegramChat event_id chat_id) = event_and_chat D event_id chat_id"
| "event_rows_for_call D (MigrateTelegramChat event_id old new) = event_and_chat D event_id new"
| "event_rows_for_call D (AddLeader event_id leader) = event_and_leaders D event_id"
| "event_rows_for_call D (RemoveLeader event_id leader) = event_and_leaders D event_id"
| "event_rows_for_call D (ListLeaders event_id) = event_and_leaders D event_id"
| "event_rows_for_call D (DeleteEvent event_id) = event_and_leaders D event_id"
| "event_rows_for_call D (GetEvent event_id) = only_events (add_event_row D event_id)"
| "event_rows_for_call D (SetStatus event_id status) = only_events (add_event_row D event_id)"
| "event_rows_for_call D (ChangeEvent event_id f) = only_events (add_event_row D event_id)"

fun load_event_rows :: "item_row list \<Rightarrow> (ustring, event) dict \<times> stored \<Rightarrow> exn + (ustring, event) dict \<times> stored" where
  "load_event_rows [] loaded = Inr loaded"
| "load_event_rows ((k, row) # rows) (r, original) =
     (case it_document row of
        EventDocument stored \<Rightarrow>
          (case event_validate stored of
             None \<Rightarrow> Inl ValueError
           | Some e \<Rightarrow>
               load_event_rows rows (dict_put (ev_event_id e) e r,
                 dict_put (event_storage_key (ev_event_id e)) (event_item e (revision_of row)) original))
      | _ \<Rightarrow> load_event_rows rows (r, original))"

definition add_leader_row :: "event_store \<times> stored \<Rightarrow> item_row \<Rightarrow> event_store \<times> stored" where
  "add_leader_row loaded kr =
     (case loaded of (st, original) \<Rightarrow>
        (case (snd (fst kr), it_document (snd kr)) of
           (event_id # _, LeaderDocument l created_at) \<Rightarrow>
             (st\<lparr>es_events := (es_events st)\<lparr>er_leaders :=
                  dict_put event_id (dedup (leaders_of event_id (es_events st) @ [l])) (er_leaders (es_events st))\<rparr>,
                 es_created := dict_put (event_id, l) created_at (es_created st)\<rparr>,
              dict_put (leader_storage_key event_id l) (leader_item event_id l (revision_of (snd kr)) created_at) original)
         | _ \<Rightarrow> (st, original)))"

definition store_of_rows :: "(ustring, event) dict \<Rightarrow> event_store" where
  "store_of_rows r = \<lparr>es_events = \<lparr>er_rows = r, er_leaders = map (\<lambda>(k, _). (k, [])) r\<rparr>, es_created = []\<rparr>"

definition load_for_event_call :: "dynamo \<Rightarrow> event_method \<Rightarrow> (event_store \<times> stored) cloudy" where
  "load_for_event_call D m =
     andThen (event_rows_for_call D m) (\<lambda>(rows, leaders).
       raising (then_sum (load_event_rows rows ([], [])) (\<lambda>(r, original).
         Inr (foldl add_leader_row (store_of_rows r, original) leaders))))"

definition desired_leaders :: "(bot_identity \<Rightarrow> time) \<Rightarrow> event_store \<Rightarrow> ustring \<times> bot_identity list \<Rightarrow> stored" where
  "desired_leaders stored_at st = (\<lambda>(event_id, ls).
     if get_event event_id (es_events st) = None then []
     else map (\<lambda>l. (leader_storage_key event_id l,
            leader_item event_id l 0
              (case dict_get (es_created st) (event_id, l) of None \<Rightarrow> stored_at l | Some t \<Rightarrow> t))) ls)"

definition desired_events :: "(bot_identity \<Rightarrow> time) \<Rightarrow> event_store \<Rightarrow> stored" where
  "desired_events stored_at st =
     map (\<lambda>(event_id, e). (event_storage_key event_id, event_item e 0)) (er_rows (es_events st))
     @ concat (map (desired_leaders stored_at st) (er_leaders (es_events st)))"

definition event_plan :: "dynamo \<Rightarrow> event_method \<Rightarrow> (event_store, event_answer) plan" where
  "event_plan D m =
     \<lparr>pl_load = load_for_event_call D m, pl_method = (\<lambda>clk. on_store (run_event_method m clk)),
      pl_desired = (\<lambda>n. desired_events (dy_stamp D n)), pl_extra = extra_event_actions\<rparr>"

definition execute_event :: "dynamo \<Rightarrow> event_method \<Rightarrow> event_answer cloudy" where
  "execute_event D m = execute D (event_plan D m)"

end
