(* ===== verification/Registration_Tables.thy ===== *)
theory Registration_Tables
  imports Dynamo
begin

text \<open>
  \<open>DynamoRegistrationRepository\<close> (\<open>adapters/aws/dynamodb.py\<close>): registrations with the notices delivered to them.
\<close>

section \<open>Methods\<close>

datatype reg_method =
  NoticeDelivered ustring ustring ustring
| MarkNoticeDelivered ustring ustring ustring
| GetRegistration ustring ustring
| FindByTelegramProfile ustring
| ListForEvent ustring
| ListPageForEvent ustring "attendance_status list option" "cursor option" "cursor option" nat
| ImportMissing "registration list"
| Enlist ustring ustring ustring profile_view ustring "ustring option"
| UpdateAnswer ustring ustring "ustring list" ustring
| UpdateProfile ustring ustring ustring profile_view
| Confirm ustring ustring ustring ustring "ustring option" "ustring option"
| ConfirmLinked ustring ustring "ustring list" ustring "ustring option" "ustring list"
| UpdateCharacterWish ustring ustring ustring ustring
| UpdateLinkedCharacterWish ustring ustring "ustring list" ustring
| UpdateCoPlayerWish ustring ustring ustring ustring
| UpdateLinkedCoPlayerWish ustring ustring "ustring list" ustring
| CancelRegistration ustring ustring ustring
| CancelLinked ustring ustring "ustring list"
| SiftWaitingToEnd ustring
| SwapQueuePositions ustring ustring ustring time ustring time
| RemoveRegistration ustring ustring
| RemoveMany ustring "ustring list"
| DeleteForEvent ustring

datatype reg_answer =
  RegDone
| RegFlag bool
| FoundRegistration "registration option"
| RegRows "registration list"

definition silently :: "('r \<Rightarrow> 'r) \<Rightarrow> ('r, exn, reg_answer) act" where
  "silently f r = (Inr RegDone, f r)"

fun run_reg_method :: "reg_method \<Rightarrow> clock \<Rightarrow> (regs, exn, reg_answer) act" where
  "run_reg_method (NoticeDelivered e k request_id) clk =
     reads (\<lambda>r. RegFlag (participation_notification_delivered e k request_id r))"
| "run_reg_method (MarkNoticeDelivered e k request_id) clk =
     silently (mark_participation_notification_delivered e k request_id)"
| "run_reg_method (GetRegistration e k) clk = reads (\<lambda>r. FoundRegistration (get_registration_row e k r))"
| "run_reg_method (FindByTelegramProfile profile) clk = reads (\<lambda>r. RegRows (find_by_telegram_profile profile r))"
| "run_reg_method (ListForEvent e) clk = reads (\<lambda>r. RegRows (list_for_event e r))"
| "run_reg_method (ListPageForEvent e statuses after before limit) clk =
     answering_with RegRows (\<lambda>r. (list_page_for_event e statuses after before limit r, r))"
| "run_reg_method (ImportMissing rows) clk = silently (import_missing rows)"
| "run_reg_method (Enlist e op k view wish answer_id) clk =
     answering_with RegFlag (enlist e op k view wish answer_id clk)"
| "run_reg_method (UpdateAnswer e op ks answer_id) clk =
     answering_with RegFlag (runs (update_answer e op ks answer_id clk))"
| "run_reg_method (UpdateProfile e op k view) clk =
     answering_with RegFlag (update_profile_row e op k view (clk 0))"
| "run_reg_method (Confirm e op k wish replaced_event replaced_key) clk =
     answering_with RegFlag (confirm_row e op k wish replaced_event replaced_key (clk 0))"
| "run_reg_method (ConfirmLinked e op ks wish replaced_event replaced_keys) clk =
     answering_with RegFlag (confirm_linked e op ks wish replaced_event replaced_keys (clk 0))"
| "run_reg_method (UpdateCharacterWish e op k wish) clk =
     answering_with RegFlag (update_character_wish e op k wish (clk 0))"
| "run_reg_method (UpdateLinkedCharacterWish e op ks wish) clk =
     answering_with RegFlag (runs (update_linked_character_wish e op ks wish clk))"
| "run_reg_method (UpdateCoPlayerWish e op k wish) clk =
     answering_with RegFlag (update_co_player_wish e op k wish (clk 0))"
| "run_reg_method (UpdateLinkedCoPlayerWish e op ks wish) clk =
     answering_with RegFlag (runs (update_linked_co_player_wish e op ks wish clk))"
| "run_reg_method (CancelRegistration e op k) clk = answering_with RegFlag (cancel_row e op k (clk 0))"
| "run_reg_method (CancelLinked e op ks) clk = answering_with RegFlag (runs (cancel_linked e op ks clk))"
| "run_reg_method (SiftWaitingToEnd e) clk = silently (sift_waiting_to_end e)"
| "run_reg_method (SwapQueuePositions e op promoted promoted_at demoted demoted_at) clk =
     answering_with RegFlag (runs (swap_queue_positions e op promoted promoted_at demoted demoted_at (clk 0)))"
| "run_reg_method (RemoveRegistration e k) clk = answering_with RegFlag (runs (remove_row e k))"
| "run_reg_method (RemoveMany e ks) clk = silently (remove_many e ks)"
| "run_reg_method (DeleteForEvent e) clk = silently (delete_for_event e)"

section \<open>Items\<close>

definition registration_key :: "reg_key \<Rightarrow> item_key" where
  "registration_key k = (RegistrationsTable, [fst k, snd k])"

definition registration_storage_key :: "reg_key \<Rightarrow> ustring list" where
  "registration_storage_key k = [asc ''registration'', fst k, snd k]"

definition row_key :: "registration \<Rightarrow> reg_key" where
  "row_key row = (rg_event_id row, rg_participant_key row)"

definition registration_item :: "registration \<Rightarrow> ustring list \<Rightarrow> nat \<Rightarrow> stored_item" where
  "registration_item row deliveries revision =
     \<lparr>si_key = registration_key (row_key row), si_revision = revision,
      si_document = RegistrationDocument row (sort (dedup deliveries))\<rparr>"

section \<open>Loading\<close>

fun add_registrations :: "dynamo \<Rightarrow> reg_key list \<Rightarrow> item_row list cloudy" where
  "add_registrations D [] = ret []"
| "add_registrations D (k # ks) =
     andThen (get_item D (registration_key k)) (\<lambda>rows.
     andThen (add_registrations D ks) (\<lambda>more. ret (rows @ more)))"

definition add_event_registrations :: "dynamo \<Rightarrow> ustring \<Rightarrow> item_row list cloudy" where
  "add_event_registrations D e = query_items D (RegistrationsOf e)"

definition replaced_one :: "ustring option \<Rightarrow> ustring option \<Rightarrow> reg_key list" where
  "replaced_one e k = (case (e, k) of (Some e', Some k') \<Rightarrow> [(e', k')] | _ \<Rightarrow> [])"

definition replaced_all :: "ustring option \<Rightarrow> ustring list \<Rightarrow> reg_key list" where
  "replaced_all e ks = (case e of None \<Rightarrow> [] | Some e' \<Rightarrow> map (Pair e') ks)"

fun reg_rows_for_call :: "dynamo \<Rightarrow> reg_method \<Rightarrow> item_row list cloudy" where
  "reg_rows_for_call D (FindByTelegramProfile profile) = query_items D (ProfileIs profile)"
| "reg_rows_for_call D (ImportMissing rows) = add_registrations D (map row_key rows)"
| "reg_rows_for_call D (ListForEvent e) = add_event_registrations D e"
| "reg_rows_for_call D (ListPageForEvent e _ _ _ _) = add_event_registrations D e"
| "reg_rows_for_call D (Enlist e _ _ _ _ _) = add_event_registrations D e"
| "reg_rows_for_call D (UpdateAnswer e _ _ _) = add_event_registrations D e"
| "reg_rows_for_call D (SiftWaitingToEnd e) = add_event_registrations D e"
| "reg_rows_for_call D (DeleteForEvent e) = add_event_registrations D e"
| "reg_rows_for_call D (Confirm e _ k _ replaced_event replaced_key) =
     add_registrations D ((e, k) # replaced_one replaced_event replaced_key)"
| "reg_rows_for_call D (ConfirmLinked e _ ks _ replaced_event replaced_keys) =
     add_registrations D (map (Pair e) ks @ replaced_all replaced_event replaced_keys)"
| "reg_rows_for_call D (UpdateLinkedCharacterWish e _ ks _) = add_registrations D (map (Pair e) ks)"
| "reg_rows_for_call D (UpdateLinkedCoPlayerWish e _ ks _) = add_registrations D (map (Pair e) ks)"
| "reg_rows_for_call D (CancelLinked e _ ks) = add_registrations D (map (Pair e) ks)"
| "reg_rows_for_call D (SwapQueuePositions e _ promoted _ demoted _) =
     add_registrations D [(e, promoted), (e, demoted)]"
| "reg_rows_for_call D (RemoveMany e ks) = add_registrations D (map (Pair e) ks)"
| "reg_rows_for_call D (NoticeDelivered e k _) = add_registrations D [(e, k)]"
| "reg_rows_for_call D (MarkNoticeDelivered e k _) = add_registrations D [(e, k)]"
| "reg_rows_for_call D (GetRegistration e k) = add_registrations D [(e, k)]"
| "reg_rows_for_call D (UpdateProfile e _ k _) = add_registrations D [(e, k)]"
| "reg_rows_for_call D (UpdateCharacterWish e _ k _) = add_registrations D [(e, k)]"
| "reg_rows_for_call D (UpdateCoPlayerWish e _ k _) = add_registrations D [(e, k)]"
| "reg_rows_for_call D (CancelRegistration e _ k) = add_registrations D [(e, k)]"
| "reg_rows_for_call D (RemoveRegistration e k) = add_registrations D [(e, k)]"

text \<open>A row loaded twice counts once, with the notices of the last.\<close>

fun load_registrations ::
    "item_row list \<Rightarrow> ((reg_key, registration) dict \<times> (reg_key, ustring list) dict) \<times> stored
       \<Rightarrow> exn + ((reg_key, registration) dict \<times> (reg_key, ustring list) dict) \<times> stored" where
  "load_registrations [] loaded = Inr loaded"
| "load_registrations ((k, row) # rows) ((r, delivered), original) =
     (case it_document row of
        RegistrationDocument stored deliveries \<Rightarrow>
          (case registration_validate stored of
             None \<Rightarrow> Inl ValueError
           | Some g \<Rightarrow>
               load_registrations rows
                 ((dict_put (row_key g) g r, dict_put (row_key g) deliveries delivered),
                  dict_put (registration_storage_key (row_key g))
                    (registration_item g deliveries (revision_of row)) original))
      | _ \<Rightarrow> load_registrations rows ((r, delivered), original))"

definition delivered_notices :: "(reg_key, ustring list) dict \<Rightarrow> (ustring \<times> ustring \<times> ustring) list" where
  "delivered_notices d = dedup (concat (map (\<lambda>((e, k), ids). map (\<lambda>i. (e, k, i)) ids) d))"

definition load_for_reg_call :: "dynamo \<Rightarrow> reg_method \<Rightarrow> (regs \<times> stored) cloudy" where
  "load_for_reg_call D m =
     andThen (reg_rows_for_call D m) (\<lambda>rows.
       raising (then_sum (load_registrations rows (([], []), [])) (\<lambda>((r, delivered), original).
         Inr (\<lparr>rr_rows = r, rr_deliveries = delivered_notices delivered\<rparr>, original))))"

definition deliveries_of :: "reg_key \<Rightarrow> regs \<Rightarrow> ustring list" where
  "deliveries_of k r =
     List.map_filter (\<lambda>(e, key, i). if (e, key) = k then Some i else None) (rr_deliveries r)"

definition desired_registrations :: "regs \<Rightarrow> stored" where
  "desired_registrations r =
     map (\<lambda>(k, row). (registration_storage_key k, registration_item row (deliveries_of k r) 0)) (rr_rows r)"

definition reg_plan :: "dynamo \<Rightarrow> reg_method \<Rightarrow> (regs, reg_answer) plan" where
  "reg_plan D m =
     \<lparr>pl_load = load_for_reg_call D m, pl_method = run_reg_method m,
      pl_desired = (\<lambda>n. desired_registrations), pl_extra = (\<lambda>original desired. [])\<rparr>"

definition execute_reg :: "dynamo \<Rightarrow> reg_method \<Rightarrow> reg_answer cloudy" where
  "execute_reg D m = execute D (reg_plan D m)"

end
