(* ===== verification/Commits.thy ===== *)
theory Commits
  imports Event_Tables Registration_Tables
begin

text \<open>
  What the transactions of the repositories over DynamoDB give, whatever other processes do between two calls: the
  documented behaviour of the service as predicates, the effect of a commit, and the states a run passes through.
\<close>

section \<open>What is documented of the service\<close>

definition meets :: "item option \<Rightarrow> condition \<Rightarrow> bool" where
  "meets it c =
     (case c of
        Absent \<Rightarrow> it = None
      | Revision n \<Rightarrow> (case it of None \<Rightarrow> False | Some i \<Rightarrow> it_revision i = Some n)
      | OwnedBy owner \<Rightarrow> (case it of None \<Rightarrow> False | Some i \<Rightarrow> it_document i = LockDocument owner))"

fun action_key :: "write_action \<Rightarrow> item_key" where
  "action_key (PutItem k n d c) = k"
| "action_key (DeleteItem k c) = k"

fun holds :: "tables \<Rightarrow> write_action \<Rightarrow> bool" where
  "holds t (PutItem k n d c) = meets (t k) c"
| "holds t (DeleteItem k c) = meets (t k) c"

fun written :: "write_action \<Rightarrow> item option" where
  "written (PutItem k n d c) = Some \<lparr>it_revision = Some n, it_document = d\<rparr>"
| "written (DeleteItem k c) = None"

definition apply_write :: "tables \<Rightarrow> write_action \<Rightarrow> tables" where
  "apply_write t a = t(action_key a := written a)"

definition apply_writes :: "write_action list \<Rightarrow> tables \<Rightarrow> tables" where
  "apply_writes actions t = foldl apply_write t actions"

text \<open>A transaction: every condition holds and everything is written, each item at most once, or nothing is.\<close>

definition transactional :: "dynamo \<Rightarrow> bool" where
  "transactional D \<longleftrightarrow>
     (\<forall>n t actions. case dy_transact D n t actions of
        (Inr _, t') \<Rightarrow> list_all (holds t) actions \<and> distinct (map action_key actions) \<and> t' = apply_writes actions t
      | (Inl _, t') \<Rightarrow> t' = t)"

text \<open>A consistent read of one item.\<close>

definition reads_items :: "dynamo \<Rightarrow> bool" where
  "reads_items D \<longleftrightarrow> (\<forall>n t k found. dy_get D n t k = Inr found \<longrightarrow> found = t k)"

text \<open>Other processes count revisions as well: an item that kept its revision kept its document.\<close>

definition revisions_tell :: "dynamo \<Rightarrow> bool" where
  "revisions_tell D \<longleftrightarrow>
     (\<forall>n t k i j. t k = Some i \<longrightarrow> dy_others D n t k = Some j \<longrightarrow> it_revision i = it_revision j \<longrightarrow>
        it_document i = it_document j)"

section \<open>The effect of a commit\<close>

lemma apply_writes_Nil [simp]: "apply_writes [] t = t"
  by (simp add: apply_writes_def)

lemma apply_writes_Cons: "apply_writes (a # as) t = apply_writes as (apply_write t a)"
  by (simp add: apply_writes_def)

lemma apply_writes_other: "k \<notin> action_key ` set as \<Longrightarrow> apply_writes as t k = t k"
  by (induction as arbitrary: t) (auto simp: apply_writes_Cons apply_write_def)

lemma apply_writes_at:
  "distinct (map action_key as) \<Longrightarrow> a \<in> set as \<Longrightarrow> apply_writes as t (action_key a) = written a"
proof (induction as arbitrary: t)
  case (Cons b as)
  then show ?case
    by (cases "a = b") (auto simp: apply_writes_Cons apply_writes_other apply_write_def)
qed simp

lemma apply_writes_cases:
  assumes "distinct (map action_key as)"
  obtains (touched) a where "a \<in> set as" "action_key a = k" "apply_writes as t k = written a"
    | (kept) "k \<notin> action_key ` set as" "apply_writes as t k = t k"
proof (cases "k \<in> action_key ` set as")
  case True
  with assms show thesis using touched apply_writes_at by blast
next
  case False
  then show thesis using kept apply_writes_other by blast
qed

text \<open>The tables as a call finds them.\<close>

definition found :: "dynamo \<Rightarrow> cloud \<Rightarrow> tables" where
  "found D w = dy_others D (cl_calls w) (cl_tables w)"

lemma transactionalD:
  assumes "transactional D" and "dy_transact D n t actions = (x, t')"
  shows "case x of Inr _ \<Rightarrow> list_all (holds t) actions \<and> distinct (map action_key actions) \<and> t' = apply_writes actions t
    | Inl _ \<Rightarrow> t' = t"
  using assms unfolding transactional_def by (metis (no_types, lifting) case_prod_conv)

lemma commit_succeeds:
  assumes "commit_changes D actions w = (Inr u, w')" and "transactional D"
  obtains (nothing) "actions = []" "w' = w"
    | (committed) "actions \<noteq> []" "list_all (holds (found D w)) actions" "distinct (map action_key actions)"
      "w' = w\<lparr>cl_tables := apply_writes actions (found D w), cl_calls := Suc (cl_calls w)\<rparr>"
proof (cases "actions = []")
  case True
  with assms(1) have "w' = w" by (simp add: commit_changes_def)
  with True show thesis by (rule nothing)
next
  case False
  with assms(1) obtain t where t: "dy_transact D (cl_calls w) (found D w) actions = (Inr u, t)"
    and w': "w' = w\<lparr>cl_tables := t, cl_calls := Suc (cl_calls w)\<rparr>"
    by (auto simp: commit_changes_def aws_call_def found_def split: if_splits prod.splits)
  from assms(2) t have "list_all (holds (found D w)) actions \<and> distinct (map action_key actions)
      \<and> t = apply_writes actions (found D w)"
    by (auto dest: transactionalD)
  with committed False w' show thesis by blast
qed

text \<open>A commit that fails leaves what it found.\<close>

lemma commit_fails:
  assumes "commit_changes D actions w = (Inl x, w')" and "transactional D"
  shows "cl_tables w' = cl_tables w \<or> cl_tables w' = found D w"
  using assms(1) transactionalD[OF assms(2)]
  by (fastforce simp: commit_changes_def aws_call_def found_def split: if_splits prod.splits)

section \<open>The states of a run\<close>

text \<open>
  One call of this process that writes nothing, a read or a transaction that fails, after whatever the others did.
\<close>

inductive client_step :: "dynamo \<Rightarrow> cloud \<Rightarrow> cloud \<Rightarrow> bool" for D where
  calls: "cl_tables w' = found D w \<Longrightarrow> cl_calls w' = Suc (cl_calls w) \<Longrightarrow> client_step D w w'"
| stays: "cl_tables w' = cl_tables w \<Longrightarrow> cl_calls w' = cl_calls w \<Longrightarrow> client_step D w w'"

abbreviation passes :: "dynamo \<Rightarrow> cloud \<Rightarrow> cloud \<Rightarrow> bool" where
  "passes D \<equiv> (client_step D)\<^sup>*\<^sup>*"

inductive_simps client_step_simps: "client_step D w w'"

text \<open>A part of a program that only reads moves by such steps.\<close>

definition moves :: "dynamo \<Rightarrow> 'a cloudy \<Rightarrow> bool" where
  "moves D m \<longleftrightarrow> (\<forall>w. passes D w (snd (m w)))"

lemma movesD: "moves D m \<Longrightarrow> m w = (x, w') \<Longrightarrow> passes D w w'"
  by (metis moves_def snd_conv)

lemma moves_ret [simp, intro]: "moves D (ret x)" "moves D (throw e)"
  by (simp_all add: moves_def)

lemma moves_andThen [intro]: "moves D m \<Longrightarrow> (\<And>x. moves D (k x)) \<Longrightarrow> moves D (andThen m k)"
  by (fastforce simp: moves_def andThen_def split: prod.split sum.split intro: rtranclp_trans)

lemma moves_reading: "moves D (aws_call D (\<lambda>i t. (f i t, t)))"
  by (auto simp: moves_def aws_call_def found_def client_step_simps intro!: r_into_rtranclp)

lemma moves_pages: "moves D (pages_from D ask n start)"
  by (induction n arbitrary: start) (auto intro!: moves_andThen moves_reading split: prod.split option.split)

lemma moves_raising: "moves D (raising x)"
  by (cases x) (simp_all add: raising_def)

lemma moves_get_item: "moves D (get_item D k)"
  unfolding get_item_def by (intro moves_andThen moves_reading moves_ret)

lemma moves_lists: "moves D (scan_table D tb)" "moves D (query_items D q)"
  by (simp_all add: scan_table_def query_items_def moves_pages)

lemma failed_commit_passes:
  assumes "commit_changes D actions w = (Inl x, w')" and "transactional D"
  shows "passes D w w'"
proof (rule r_into_rtranclp)
  show "client_step D w w'"
    using assms(1) transactionalD[OF assms(2)] unfolding client_step_simps
    by (fastforce simp: commit_changes_def aws_call_def found_def split: if_splits prod.splits)
qed

section \<open>What a program keeps and answers\<close>

definition grants :: "(cloud \<Rightarrow> bool) \<Rightarrow> ('a \<Rightarrow> bool) \<Rightarrow> 'a cloudy \<Rightarrow> bool" where
  "grants I Q m \<longleftrightarrow> (\<forall>w. I w \<longrightarrow> I (snd (m w)) \<and> (\<forall>x. fst (m w) = Inr x \<longrightarrow> Q x))"

lemma grantsD:
  assumes "grants I Q m" and "I w" and "m w = (x, w')"
  shows "I w'" and "x = Inr y \<Longrightarrow> Q y"
  using assms unfolding grants_def by (metis fst_conv snd_conv)+

lemma grants_ret: "Q x \<Longrightarrow> grants I Q (ret x)"
  by (simp add: grants_def)

lemma grants_andThen: "grants I R m \<Longrightarrow> (\<And>x. R x \<Longrightarrow> grants I Q (k x)) \<Longrightarrow> grants I Q (andThen m k)"
  unfolding grants_def by (force simp: andThen_def split: prod.splits sum.splits)

lemma grants_raising: "(\<And>y. x = Inr y \<Longrightarrow> Q y) \<Longrightarrow> grants I Q (raising x)"
  by (cases x) (simp_all add: grants_def raising_def)

lemma grants_weaken: "grants I R m \<Longrightarrow> (\<And>x. R x \<Longrightarrow> Q x) \<Longrightarrow> grants I Q m"
  unfolding grants_def by blast

lemma grants_call:
  assumes "\<And>w. I w \<Longrightarrow> I (w\<lparr>cl_tables := found D w, cl_calls := Suc (cl_calls w)\<rparr>)"
    and "\<And>w x. I w \<Longrightarrow> f (cl_calls w) (found D w) = Inr x \<Longrightarrow> Q x"
  shows "grants I Q (aws_call D (\<lambda>i t. (f i t, t)))"
  using assms by (auto simp: grants_def aws_call_def found_def)

lemma grants_pages:
  assumes "\<And>w. I w \<Longrightarrow> I (w\<lparr>cl_tables := found D w, cl_calls := Suc (cl_calls w)\<rparr>)"
    and "\<And>w start rows last. I w \<Longrightarrow> ask (cl_calls w) (found D w) start = Inr (rows, last) \<Longrightarrow> set rows \<subseteq> R"
  shows "grants I (\<lambda>rows. set rows \<subseteq> R) (pages_from D ask n start)"
proof (induction n arbitrary: start)
  case 0
  show ?case by (simp add: grants_def)
next
  case (Suc n)
  have "grants I (\<lambda>(rows, last). set rows \<subseteq> R) (aws_call D (\<lambda>i t. (ask i t start, t)))"
    by (rule grants_call) (use assms in blast)+
  moreover have "grants I (\<lambda>all. set all \<subseteq> R)
      (case page of (rows, None) \<Rightarrow> ret rows
        | (rows, Some s) \<Rightarrow> andThen (pages_from D ask n (Some s)) (\<lambda>more. ret (rows @ more)))"
    if "case page of (rows, follows) \<Rightarrow> set rows \<subseteq> R" for page
    using that by (auto intro!: grants_ret grants_andThen[OF Suc.IH] split: prod.split option.split)
  ultimately show ?case
    by (auto intro: grants_andThen)
qed

text \<open>
  An answer comes from the last attempt: it loaded, ran the method and committed.  What loading and failed commits
  keep holds when it begins.
\<close>

lemma attempts_succeed:
  assumes "attempts D P n w = (Inr y, w')" and "moves D (pl_load P)" and "I w" and "transactional D"
    and load: "grants I (\<lambda>_. True) (pl_load P)"
    and failed: "\<And>w actions x w2. I w \<Longrightarrow> commit_changes D actions w = (Inl x, w2) \<Longrightarrow> I w2"
  obtains w0 r original w1 r' where "passes D w w0" and "I w0" and "pl_load P w0 = (Inr (r, original), w1)"
    and "pl_method P (dy_clock D (cl_calls w1)) r = (Inr y, r')"
    and "commit_changes D (plan_actions P (cl_calls w1) original r') w1 = (Inr (), w')"
  using assms(1,3)
proof (induction n arbitrary: w thesis)
  case (Suc n)
  from Suc.prems(2) obtain r original w1 where l: "pl_load P w = (Inr (r, original), w1)"
    by (auto split: prod.splits sum.splits)
  from grantsD(1)[OF load Suc.prems(3) l] have I1: "I w1" .
  from l Suc.prems(2) obtain z r' where run: "pl_method P (dy_clock D (cl_calls w1)) r = (Inr z, r')"
    by (auto split: prod.splits sum.splits)
  show ?case
  proof (cases "commit_changes D (plan_actions P (cl_calls w1) original r') w1")
    case (Pair x w2)
    show ?thesis
    proof (cases x)
      case (Inr u)
      with Suc.prems(2) l run Pair have "z = y" and "w2 = w'" by simp_all
      with Suc.prems(1)[OF rtranclp.rtrancl_refl Suc.prems(3) l] run Pair Inr show ?thesis by simp
    next
      case (Inl e)
      with Suc.prems(2) l run Pair have again: "attempts D P n w2 = (Inr y, w')"
        by (auto split: if_splits)
      from movesD[OF assms(2) l] failed_commit_passes[OF Pair[unfolded Inl] assms(4)] have first: "passes D w w2"
        by (rule rtranclp_trans)
      show ?thesis
        by (rule Suc.IH[OF _ again failed[OF I1 Pair[unfolded Inl]]]) (rule Suc.prems(1)[OF rtranclp_trans[OF first]])
    qed
  qed
qed simp

text \<open>What holds between attempts, and what a commit establishes.\<close>

lemma attempts_establish:
  assumes load: "grants I Q (pl_load P)"
    and commit: "\<And>w w2 r original y r' z. I w \<Longrightarrow> Q (r, original) \<Longrightarrow>
      pl_method P (dy_clock D (cl_calls w)) r = (Inr y, r') \<Longrightarrow>
      commit_changes D (plan_actions P (cl_calls w) original r') w = (z, w2) \<Longrightarrow>
      (case z of Inl _ \<Rightarrow> I w2 | Inr _ \<Rightarrow> J w2)"
    and "\<And>w. I w \<Longrightarrow> J w" and "I w"
  shows "J (snd (attempts D P n w))"
  using assms(4)
proof (induction n arbitrary: w)
  case 0
  with assms(3) show ?case by simp
next
  case (Suc n)
  obtain x w1 where l: "pl_load P w = (x, w1)" by force
  from grantsD(1)[OF load Suc.prems l] have I1: "I w1" .
  show ?case
  proof (cases x)
    case (Inr loaded)
    obtain r original where p: "loaded = (r, original)" by force
    from grantsD(2)[OF load Suc.prems l Inr] p have Q: "Q (r, original)" by simp
    obtain y r' where run: "pl_method P (dy_clock D (cl_calls w1)) r = (y, r')" by force
    obtain z w2 where sent: "commit_changes D (plan_actions P (cl_calls w1) original r') w1 = (z, w2)" by force
    show ?thesis
    proof (cases y)
      case (Inr a)
      from commit[OF I1 Q run[unfolded Inr] sent] have "case z of Inl _ \<Rightarrow> I w2 | Inr _ \<Rightarrow> J w2" .
      with Suc.IH assms(3) show ?thesis
        using l \<open>x = Inr loaded\<close> p run Inr sent by (cases z) auto
    qed (use l Inr p run assms(3) I1 in simp)
  qed (use l assms(3) I1 in simp)
qed

section \<open>A service\<close>

text \<open>The rows a question asks for.\<close>

fun asked_row :: "question \<Rightarrow> item_key \<Rightarrow> document \<Rightarrow> bool" where
  "asked_row (HandleIs h) k (UserDocument u) \<longleftrightarrow> fst k = TelegramTable \<and> telegram_handle u = Some h"
| "asked_row (HandleAndLinkAre h l) k (UserDocument u) \<longleftrightarrow>
     fst k = TelegramTable \<and> telegram_handle u = Some h \<and> map_option show_int (linked_vk_id u) = Some l"
| "asked_row (TokenIs s) k (EventDocument e) \<longleftrightarrow> fst k = EventsTable \<and> ev_signup_token e = Some s"
| "asked_row (ChatIs c) k (EventDocument e) \<longleftrightarrow> fst k = EventsTable \<and> map_option show_int (ev_telegram_chat_id e) = Some c"
| "asked_row (LeadersOf e) k (LeaderDocument l at) \<longleftrightarrow> fst k = LeadersTable \<and> take 1 (snd k) = [e]"
| "asked_row (ProfileIs s) k (RegistrationDocument g ds) \<longleftrightarrow> fst k = RegistrationsTable \<and> rg_telegram_profile g = Some s"
| "asked_row (RegistrationsOf e) k (RegistrationDocument g ds) \<longleftrightarrow> fst k = RegistrationsTable \<and> take 1 (snd k) = [e]"
| "asked_row _ k _ \<longleftrightarrow> False"

text \<open>A service as documented, over the items of a list of keys, and the others as given.\<close>

definition rows_where :: "item_key list \<Rightarrow> tables \<Rightarrow> (item_key \<Rightarrow> document \<Rightarrow> bool) \<Rightarrow> item_row list" where
  "rows_where ks t P =
     List.map_filter (\<lambda>k. case t k of None \<Rightarrow> None | Some i \<Rightarrow> if P k (it_document i) then Some (k, i) else None) ks"

definition served :: "item_key list \<Rightarrow> (nat \<Rightarrow> tables \<Rightarrow> tables) \<Rightarrow> dynamo" where
  "served ks others =
     \<lparr>dy_others = others, dy_get = (\<lambda>n t k. Inr (t k)),
      dy_scan = (\<lambda>n t tb start. Inr (rows_where ks t (\<lambda>k d. fst k = tb), None)),
      dy_query = (\<lambda>n t q start. Inr (rows_where ks t (asked_row q), None)),
      dy_transact = (\<lambda>n t actions.
        if list_all (holds t) actions \<and> distinct (map action_key actions) then (Inr (), apply_writes actions t)
        else (Inl (ClientError (asc ''TransactionCanceledException'')), t)),
      dy_pages = 1, dy_clock = (\<lambda>n i. 50), dy_stamp = (\<lambda>n l. 50)\<rparr>"

definition cloud_of :: "tables \<Rightarrow> cloud" where
  "cloud_of t = \<lparr>cl_tables = t, cl_calls = 0, cl_depth = 0, cl_snapshot = None\<rparr>"

lemma served_transactional: "transactional (served ks others)"
  by (simp add: transactional_def served_def)

lemma served_reads: "reads_items (served ks others)"
  unfolding reads_items_def
proof (intro allI impI)
  fix n t k found assume "dy_get (served ks others) n t k = Inr found"
  moreover have "dy_get (served ks others) n t k = Inr (t k)" by (simp add: served_def)
  ultimately show "found = t k" by (metis sum.inject(2))
qed

lemmas served_behaves = served_transactional served_reads

lemma rows_where_Cons:
  "rows_where (k # ks) t P =
     (case t k of None \<Rightarrow> [] | Some i \<Rightarrow> if P k (it_document i) then [(k, i)] else []) @ rows_where ks t P"
  by (cases "t k") (simp_all add: rows_where_def map_filter_simps)

lemma rows_where_Nil: "rows_where [] t P = []"
  by (simp add: rows_where_def map_filter_simps)

lemma set_rows_where: "set (rows_where ks t P) = {(k, i). k \<in> set ks \<and> t k = Some i \<and> P k (it_document i)}"
proof (induction ks)
  case (Cons k ks)
  then show ?case by (cases "t k") (auto simp: rows_where_Cons)
qed (simp add: rows_where_Nil)

lemma rows_where_keys: "map fst (rows_where ks t P) = filter (\<lambda>k. case t k of None \<Rightarrow> False | Some i \<Rightarrow> P k (it_document i)) ks"
proof (induction ks)
  case (Cons k ks)
  then show ?case by (cases "t k") (simp_all add: rows_where_Cons)
qed (simp add: rows_where_Nil)

end
