(* ===== verification/Locks.thy ===== *)
theory Locks
  imports Commits
begin

text \<open>
  The locks of \<open>DynamoEventRepository\<close>: whatever other processes do between the calls of a method, no two games get
  the same signup token or the same Telegram chat.
\<close>

section \<open>Tables with locks\<close>

definition lock_like :: "ustring \<Rightarrow> bool" where
  "lock_like event_id \<longleftrightarrow> starts_with (asc ''lock:'') event_id"













section \<open>What a repository loads\<close>

definition keyed_rows :: "(ustring, event) dict \<Rightarrow> bool" where
  "keyed_rows r \<longleftrightarrow> wf_dict r \<and> (\<forall>(k, e)\<in>set r. ev_event_id e = k \<and> \<not> lock_like k)"

definition ids_ok :: "events \<Rightarrow> bool" where
  "ids_ok r \<longleftrightarrow> keyed_rows (er_rows r)"






lemma event_validate_values:
  assumes "event_validate stored = Some e"
  shows "ev_event_id e = ev_event_id stored" and "event_values e = event_values stored"
  using assms by (auto simp: event_validate_def event_values_def split: if_splits option.splits)

lemma keyed_rows_put: "keyed_rows r \<Longrightarrow> ev_event_id e = k \<Longrightarrow> \<not> lock_like k \<Longrightarrow> keyed_rows (dict_put k e r)"
  by (auto simp: keyed_rows_def set_dict_put)














section \<open>What a repository writes\<close>

lemma event_storage_key_inj [simp]: "event_storage_key a = event_storage_key b \<longleftrightarrow> a = b"
  by (simp add: event_storage_key_def)


lemma event_key_inj [simp]: "event_key a = event_key b \<longleftrightarrow> a = b"
  by (simp add: event_key_def)



















section \<open>No two games share a token or a chat\<close>


lemma ids_ok_update:
  assumes "update_event event_id missing f r = (x, r')" and "ids_ok r"
    and "\<And>e. ev_event_id (snd (f e)) = ev_event_id e"
  shows "ids_ok r'"
proof (cases "get_event event_id r")
  case (Some e)
  from assms(2) dict_get_in[OF Some[unfolded get_event_def]] have e: "ev_event_id e = event_id" "\<not> lock_like event_id"
    by (auto simp: ids_ok_def keyed_rows_def)
  obtain y e' where f: "f e = (y, e')" by force
  with assms(3)[of e] e have "ev_event_id e' = event_id" by simp
  with Some f e assms(1,2) show ?thesis
    by (auto simp: update_event_def put_event_def ids_ok_def intro: keyed_rows_put)
qed (use assms(1,2) in \<open>simp add: update_event_def\<close>)


lemma ids_ok_same_rows: "er_rows r' = er_rows r \<Longrightarrow> ids_ok r \<Longrightarrow> ids_ok r'"
  by (simp add: ids_ok_def)




definition renames_nothing :: "(events, exn, 'a) act \<Rightarrow> bool" where
  "renames_nothing f \<longleftrightarrow> (\<forall>r x r'. f r = (x, r') \<longrightarrow> ids_ok r \<longrightarrow> ids_ok r')"

lemma renames_nothing_update:
  "(\<And>e. ev_event_id (snd (f e)) = ev_event_id e) \<Longrightarrow> renames_nothing (update_event event_id missing f)"
  unfolding renames_nothing_def by (blast intro: ids_ok_update)

lemma renames_nothing_answer: "renames_nothing m \<Longrightarrow> renames_nothing (answering_with f m)"
  by (auto simp: renames_nothing_def answering_with_def split: prod.splits sum.splits)

lemma revalidate_id: "ev_event_id new = ev_event_id old \<Longrightarrow> ev_event_id (snd (revalidate old new)) = ev_event_id old"
  by (auto simp: revalidate_def dest: event_validate_values split: option.split)

text \<open>The methods that \<open>ChangeEvent\<close> stands for.\<close>

lemma one_game_methods:
  "renames_nothing (set_registration_open_at k at now)"
  "renames_nothing (mark_registration_open_notification_delivered k who now)"
  "renames_nothing (complete_registration_open_notification k now)"
  "renames_nothing (open_scheduled_confirmation k s t now)" "renames_nothing (open_confirmation k t now)"
  "renames_nothing (set_scheduled_close_at k at now)" "renames_nothing (start_scheduled_close k op now)"
  "renames_nothing (complete_scheduled_close_actions k op now)"
  "renames_nothing (mark_scheduled_close_notification_delivered k op who now)"
  "renames_nothing (complete_scheduled_close_notifications k op now)"
  "renames_nothing (set_player_amount k n now)" "renames_nothing (set_registration_question k q now)"
  "renames_nothing (set_details k a d now)" "renames_nothing (set_post_links k a b now)"
  "renames_nothing (set_telegram_chat_invite_link k chat a now)" "renames_nothing (mark_registrations_migrated k now)"
  "renames_nothing (set_public_table k a b link now)" "renames_nothing (archive_event k now)"
  "renames_nothing (unarchive_event k now)" "renames_nothing (set_pass_table k a b link now)"
  "renames_nothing (set_google_table_links k x y z now)" "renames_nothing (set_yandex_table_links k x y z now)"
  "renames_nothing (set_achievement k a b now)" "renames_nothing (append_confirmed_notification k a op now)"
  "renames_nothing (set_reserve_promotion k op x now)" "renames_nothing (mark_reserve_promotion_delivered k op now)"
  "renames_nothing (set_confirmed_link_promotion k op x now)"
  "renames_nothing (mark_confirmed_link_promotion_delivered k op now)"
  "renames_nothing (set_participant_removal k op ks now)" "renames_nothing (add_participant_removal_keys k op ks now)"
  "renames_nothing (mark_participant_removal_delivered k op a now)"
  unfolding set_registration_open_at_def mark_registration_open_notification_delivered_def
    complete_registration_open_notification_def open_scheduled_confirmation_def open_confirmation_def
    set_scheduled_close_at_def start_scheduled_close_def complete_scheduled_close_actions_def
    mark_scheduled_close_notification_delivered_def complete_scheduled_close_notifications_def set_player_amount_def
    set_registration_question_def set_details_def set_post_links_def set_telegram_chat_invite_link_def
    mark_registrations_migrated_def set_public_table_def archive_event_def unarchive_event_def set_pass_table_def
    set_google_table_links_def set_yandex_table_links_def set_achievement_def append_confirmed_notification_def
    set_reserve_promotion_def mark_reserve_promotion_delivered_def set_confirmed_link_promotion_def
    mark_confirmed_link_promotion_delivered_def set_participant_removal_def add_participant_removal_keys_def
    mark_participant_removal_delivered_def
  by (rule renames_nothing_update, simp add: touch_def revalidate_id Let_def split: option.split)+

lemma confirmation_schedule_renames_nothing: "renames_nothing (set_confirmation_schedule k at t now)"
  unfolding set_confirmation_schedule_def
  by (simp add: renames_nothing_update touch_def) (simp add: renames_nothing_def)




section \<open>Two creations at once\<close>











end
