(* ===== verification/Facades.thy ===== *)
theory Facades
  imports Commits
begin

text \<open>
  What callers may rely on: a method on one profile is as if it ran at one moment, whatever others do meanwhile; the
  queries of \<open>DynamoUserRepository\<close> find what a scan of everything would; more than a hundred changes are refused.
\<close>

section \<open>Profiles in the tables\<close>










lemma local_identity_with_base [simp]: "local_identity (with_base f u) = local_identity u"
  by (cases u) simp_all

lemma local_identity_with_link [simp]:
  "local_identity (with_handle h u) = local_identity u" "local_identity (with_link k u) = local_identity u"
  by (cases u; simp)+




section \<open>Loading one profile\<close>

lemma dict_single [simp]: "dict_put k v [] = [(k, v)]" "dict_put k v' [(k, v)] = [(k, v')]" "dict_get [(k, v)] k = Some v"
  by (simp_all add: dict_get_def dict_put_def)






section \<open>A method on one profile happens at one moment\<close>




























section \<open>Reading what nobody else changes\<close>

text \<open>The answers of a paged read are these rows, each once, in at most so many pages.\<close>

definition paged :: "nat \<Rightarrow> (nat \<Rightarrow> nat option \<Rightarrow> fault + item_row list \<times> nat option) \<Rightarrow> item_row set \<Rightarrow> bool" where
  "paged limit ask rows \<longleftrightarrow>
     (\<exists>pages. pages \<noteq> [] \<and> length pages \<le> limit \<and> distinct (map fst (concat pages)) \<and> set (concat pages) = rows
        \<and> (\<forall>n. \<forall>j<length pages. ask n (if j = 0 then None else Some j)
             = Inr (pages ! j, if Suc j < length pages then Some (Suc j) else None)))"

definition undisturbed :: "dynamo \<Rightarrow> tables \<Rightarrow> bool" where
  "undisturbed D t \<longleftrightarrow>
     (\<forall>n. dy_others D n t = t) \<and> (\<forall>n k. dy_get D n t k = Inr (t k))
     \<and> (\<forall>tb. paged (dy_pages D) (\<lambda>n. dy_scan D n t tb) {(k, i). t k = Some i \<and> fst k = tb})
     \<and> (\<forall>q. paged (dy_pages D) (\<lambda>n. dy_query D n t q) {(k, i). t k = Some i \<and> asked_row q k (it_document i)})"

lemma pages_from_all:
  assumes "\<And>n. dy_others D n t = t"
    and pages: "\<And>n j. j < length pages \<Longrightarrow> ask n t (if j = 0 then None else Some j)
      = Inr (pages ! j, if Suc j < length pages then Some (Suc j) else None)"
    and "cl_tables w = t" and "j < length pages" and "length pages \<le> n + j"
  shows "\<exists>c. pages_from D ask n (if j = 0 then None else Some j) w = (Inr (concat (drop j pages)), w\<lparr>cl_calls := c\<rparr>)"
  using assms(3,4,5)
proof (induction n arbitrary: j w)
  case (Suc n)
  let ?w = "w\<lparr>cl_calls := Suc (cl_calls w)\<rparr>"
  have drop: "drop j pages = pages ! j # drop (Suc j) pages"
    using Suc.prems by (simp add: Cons_nth_drop_Suc)
  have call: "aws_call D (\<lambda>i t. (ask i t (if j = 0 then None else Some j), t)) w
      = (Inr (pages ! j, if Suc j < length pages then Some (Suc j) else None), ?w)"
    using Suc.prems assms(1) pages[OF Suc.prems(2)] by (simp add: aws_call_def)
  show ?case
  proof (cases "Suc j < length pages")
    case True
    with Suc.IH[of ?w "Suc j"] Suc.prems obtain c where
      "pages_from D ask n (Some (Suc j)) ?w = (Inr (concat (drop (Suc j) pages)), ?w\<lparr>cl_calls := c\<rparr>)"
      by auto
    with call True drop show ?thesis by (auto simp: andThen_def)
  next
    case False
    with Suc.prems have "drop (Suc j) pages = []" by simp
    with call False drop show ?thesis by (auto simp: andThen_def)
  qed
qed simp

lemma paged_read:
  assumes "\<And>n. dy_others D n t = t" and "paged (dy_pages D) (\<lambda>n. ask n t) rows" and "cl_tables w = t"
  obtains xs c where "pages_from D ask (dy_pages D) None w = (Inr xs, w\<lparr>cl_calls := c\<rparr>)"
    and "distinct (map fst xs)" and "set xs = rows"
proof -
  from assms(2) obtain pages where p: "pages \<noteq> []" "length pages \<le> dy_pages D" "distinct (map fst (concat pages))"
    "set (concat pages) = rows"
    and ask: "\<forall>n. \<forall>j<length pages. ask n t (if j = 0 then None else Some j)
      = Inr (pages ! j, if Suc j < length pages then Some (Suc j) else None)"
    unfolding paged_def by blast
  from pages_from_all[where j = 0, OF assms(1) _ assms(3), of pages ask "dy_pages D"] p ask that show thesis
    by auto
qed

lemma undisturbed_query:
  assumes "undisturbed D (cl_tables w)"
  obtains xs c where "query_items D q w = (Inr xs, w\<lparr>cl_calls := c\<rparr>)" and "distinct (map fst xs)"
    and "set xs = {(k, i). cl_tables w k = Some i \<and> asked_row q k (it_document i)}"
  using assms paged_read[of D "cl_tables w" "\<lambda>i t. dy_query D i t q"] unfolding undisturbed_def query_items_def by blast

lemma undisturbed_scan:
  assumes "undisturbed D (cl_tables w)"
  obtains xs c where "scan_table D tb w = (Inr xs, w\<lparr>cl_calls := c\<rparr>)" and "distinct (map fst xs)"
    and "set xs = {(k, i). cl_tables w k = Some i \<and> fst k = tb}"
  using assms paged_read[of D "cl_tables w" "\<lambda>i t. dy_scan D i t tb"] unfolding undisturbed_def scan_table_def by blast

lemma undisturbed_get:
  assumes "undisturbed D (cl_tables w)"
  shows "get_item D k w = (Inr (case cl_tables w k of None \<Rightarrow> [] | Some i \<Rightarrow> [(k, i)]), w\<lparr>cl_calls := Suc (cl_calls w)\<rparr>)"
proof -
  from assms have "dy_get D n (cl_tables w) k = Inr (cl_tables w k)" and "dy_others D n (cl_tables w) = cl_tables w" for n
    unfolding undisturbed_def by blast+
  then show ?thesis by (simp add: get_item_def andThen_def aws_call_def)
qed

lemma served_undisturbed:
  assumes "\<And>n. others n t = t" and "distinct ks" and "dom t \<subseteq> set ks"
  shows "undisturbed (served ks others) t"
proof -
  have "paged 1 (\<lambda>n start. Inr (rows_where ks t P, None)) {(k, i). t k = Some i \<and> P k (it_document i)}" for P
    unfolding paged_def
  proof (intro exI[of _ "[rows_where ks t P]"] conjI)
    show "set (concat [rows_where ks t P]) = {(k, i). t k = Some i \<and> P k (it_document i)}"
      using assms(3) by (auto simp: set_rows_where)
  qed (use assms(2) in \<open>simp_all add: rows_where_keys\<close>)
  from this[of "asked_row q" for q] this[of "\<lambda>k d. fst k = tb" for tb] assms(1) show ?thesis
    by (simp add: undisturbed_def served_def)
qed

section \<open>A hundred actions\<close>

definition registrations_stored :: "tables \<Rightarrow> bool" where
  "registrations_stored t \<longleftrightarrow>
     (\<forall>k it. t k = Some it \<longrightarrow> fst k = RegistrationsTable \<longrightarrow>
        (\<exists>g ds n. it = \<lparr>it_revision = Some n, it_document = RegistrationDocument g ds\<rparr> \<and> k = registration_key (row_key g)
           \<and> registration_validate g = Some g))"

text \<open>What is loaded of the rows of one game: as many items as rows, all of this game.\<close>

definition registration_row :: "ustring \<Rightarrow> item_row \<Rightarrow> bool" where
  "registration_row e kr \<longleftrightarrow>
     (\<exists>g ds. it_document (snd kr) = RegistrationDocument g ds \<and> fst kr = registration_key (row_key g)
        \<and> registration_validate g = Some g \<and> rg_event_id g = e)"

lemma load_registrations_all:
  assumes "\<forall>kr\<in>set rows. registration_row e kr" and "distinct (map fst rows)"
    and "wf_dict original" and "\<forall>k\<in>fst ` set r. fst k = e"
    and "\<forall>k\<in>fst ` set rows. asc ''registration'' # snd k \<notin> fst ` set original"
  shows "\<exists>r' d' o'. load_registrations rows ((r, d), original) = Inr ((r', d'), o') \<and> wf_dict o'
    \<and> length o' = length original + length rows \<and> (\<forall>k\<in>fst ` set r'. fst k = e)"
  using assms
proof (induction rows arbitrary: r d original)
  case (Cons kr rows)
  from Cons.prems(1) obtain g ds where doc: "it_document (snd kr) = RegistrationDocument g ds"
    and key: "fst kr = registration_key (row_key g)" and ok: "registration_validate g = Some g" "rg_event_id g = e"
    by (auto simp: registration_row_def)
  let ?s = "registration_storage_key (row_key g)"
  let ?o = "dict_put ?s (registration_item g ds (revision_of (snd kr))) original"
  have s: "?s = asc ''registration'' # snd (fst kr)"
    by (simp add: key registration_storage_key_def registration_key_def)
  with Cons.prems(5) have "?s \<notin> fst ` set original" by simp
  then have fresh: "?o = original @ [(?s, registration_item g ds (revision_of (snd kr)))]"
    by (intro dict_put_new) (auto simp: dict_get_def map_of_eq_None_iff)
  have "\<forall>k\<in>fst ` set rows. asc ''registration'' # snd k \<notin> fst ` set ?o"
  proof
    fix k assume k: "k \<in> fst ` set rows"
    from Cons.prems(2) have "fst kr \<notin> fst ` set rows" by simp
    with k have "k \<noteq> fst kr" by blast
    moreover from k Cons.prems(1) have "fst k = RegistrationsTable" by (auto simp: registration_row_def registration_key_def)
    moreover from key have "fst (fst kr) = RegistrationsTable" by (simp add: registration_key_def)
    ultimately have "snd k \<noteq> snd (fst kr)" by (simp add: prod_eq_iff)
    then have "asc ''registration'' # snd k \<noteq> ?s" using s by simp
    moreover have "asc ''registration'' # snd k \<notin> fst ` set original"
      using bspec[OF Cons.prems(5), of k] k by fastforce
    ultimately show "asc ''registration'' # snd k \<notin> fst ` set ?o" unfolding keys_dict_put by blast
  qed
  moreover have "\<forall>k\<in>fst ` set (dict_put (row_key g) g r). fst k = e"
    using Cons.prems(4) ok(2) by (simp add: keys_dict_put row_key_def)
  ultimately have "\<exists>r' d' o'. load_registrations rows ((dict_put (row_key g) g r, dict_put (row_key g) ds d), ?o)
      = Inr ((r', d'), o') \<and> wf_dict o' \<and> length o' = length ?o + length rows \<and> (\<forall>k\<in>fst ` set r'. fst k = e)"
    using Cons.prems(1,2,3) by (intro Cons.IH) auto
  with doc ok fresh show ?case by (cases kr) auto
qed auto

text \<open>The query for the registrations of a game gives all of them.\<close>

lemma game_rows:
  assumes "undisturbed D (cl_tables w)" and "registrations_stored (cl_tables w)"
  obtains rows c where "query_items D (RegistrationsOf e) w = (Inr rows, w\<lparr>cl_calls := c\<rparr>)" and "distinct (map fst rows)"
    and "\<forall>kr\<in>set rows. registration_row e kr" and "card {k. cl_tables w (registration_key (e, k)) \<noteq> None} \<le> length rows"
proof -
  let ?t = "cl_tables w"
  obtain rows c where q: "query_items D (RegistrationsOf e) w = (Inr rows, w\<lparr>cl_calls := c\<rparr>)"
    and d: "distinct (map fst rows)"
    and rows: "set rows = {(k, i). ?t k = Some i \<and> asked_row (RegistrationsOf e) k (it_document i)}"
    using undisturbed_query[OF assms(1)] .
  have own: "registration_row e kr" if "kr \<in> set rows" for kr
  proof -
    from that rows have here: "?t (fst kr) = Some (snd kr)" and a: "asked_row (RegistrationsOf e) (fst kr) (it_document (snd kr))"
      by (auto simp: split_beta)
    from a have "fst (fst kr) = RegistrationsTable" by (cases "it_document (snd kr)") simp_all
    with assms(2) here obtain g ds n where "snd kr = \<lparr>it_revision = Some n, it_document = RegistrationDocument g ds\<rparr>"
      and "fst kr = registration_key (row_key g)" and "registration_validate g = Some g"
      unfolding registrations_stored_def by blast
    with a show ?thesis by (auto simp: registration_row_def registration_key_def row_key_def)
  qed
  have "{k. ?t (registration_key (e, k)) \<noteq> None} \<subseteq> (\<lambda>kr. snd (fst kr) ! 1) ` set rows"
  proof
    fix k assume "k \<in> {k. ?t (registration_key (e, k)) \<noteq> None}"
    then obtain i where i: "?t (registration_key (e, k)) = Some i" by auto
    with assms(2) obtain g ds n where "i = \<lparr>it_revision = Some n, it_document = RegistrationDocument g ds\<rparr>"
      unfolding registrations_stored_def by (metis fst_conv registration_key_def)
    with i have "(registration_key (e, k), i) \<in> set rows"
      by (simp add: rows registration_key_def)
    then show "k \<in> (\<lambda>kr. snd (fst kr) ! 1) ` set rows"
      by (rule rev_image_eqI) (simp add: registration_key_def)
  qed
  then have "card {k. ?t (registration_key (e, k)) \<noteq> None} \<le> length rows"
    by (meson card_image_le card_length card_mono finite_imageI finite_set le_trans)
  with q d own that show thesis by blast
qed

text \<open>
  C40. A game with more than a hundred registrations cannot be deleted: the deletion of its registrations ends in
  RuntimeError and changes nothing, however often it is tried again (a defect: the command that deletes the game can
  never succeed).
\<close>

theorem large_games_cannot_be_deleted:
  assumes "undisturbed D (cl_tables w)" and "registrations_stored (cl_tables w)"
    and "100 < card {k. cl_tables w (registration_key (e, k)) \<noteq> None}"
  shows "fst (execute_reg D (DeleteForEvent e) w) = Inl (Raised RuntimeError)
    \<and> cl_tables (snd (execute_reg D (DeleteForEvent e) w)) = cl_tables w"
proof -
  obtain rows c where q: "query_items D (RegistrationsOf e) w = (Inr rows, w\<lparr>cl_calls := c\<rparr>)"
    and d: "distinct (map fst rows)" and own: "\<forall>kr\<in>set rows. registration_row e kr"
    and "card {k. cl_tables w (registration_key (e, k)) \<noteq> None} \<le> length rows"
    by (rule game_rows[OF assms(1,2)])
  with assms(3) have many: "100 < length rows" by simp
  obtain r d' original where l: "load_registrations rows (([], []), []) = Inr ((r, d'), original)"
    and o: "length original = length rows" and r: "\<forall>k\<in>fst ` set r. fst k = e"
    using load_registrations_all[OF own d, of "[]" "[]" "[]"] by auto
  have load: "load_for_reg_call D (DeleteForEvent e) w
      = (Inr (\<lparr>rr_rows = r, rr_deliveries = delivered_notices d'\<rparr>, original), w\<lparr>cl_calls := c\<rparr>)"
    using q l by (simp add: load_for_reg_call_def add_event_registrations_def andThen_def raising_def)
  have "filter (\<lambda>((stored, _), _). stored \<noteq> e) r = []"
    using r by (force simp: filter_empty_conv)
  then have gone: "desired_registrations (delete_for_event e \<lparr>rr_rows = r, rr_deliveries = delivered_notices d'\<rparr>) = []"
    by (simp add: desired_registrations_def delete_for_event_def)
  have "length (delete_actions original []) = length original"
    by (simp add: delete_actions_def map_filter_def split_beta filter_True)
  with many o gone have big: "MAX_TRANSACTION_ACTIONS < length (changes (\<lambda>original desired. []) original
      (desired_registrations (delete_for_event e \<lparr>rr_rows = r, rr_deliveries = delivered_notices d'\<rparr>)))"
    by (simp add: changes_def put_actions_def map_filter_def MAX_TRANSACTION_ACTIONS_def)
  then have "commit_changes D (changes (\<lambda>original desired. []) original
      (desired_registrations (delete_for_event e \<lparr>rr_rows = r, rr_deliveries = delivered_notices d'\<rparr>))) v
    = (Inl (Raised RuntimeError), v)" for v
    by (auto simp: commit_changes_def)
  with load show ?thesis
    by (simp add: execute_reg_def execute_def reg_plan_def plan_actions_def silently_def eval_nat_numeral retryable_def)
qed

text \<open>A game with 101 registrations.\<close>

definition registered :: "nat \<Rightarrow> registration" where
  "registered n = sample_registration (replicate 43 65 @ [n]) (int n) WAITING"

definition full_game :: "item_row list" where
  "full_game = map (\<lambda>n. (registration_key (row_key (registered n)),
     \<lparr>it_revision = Some 1, it_document = RegistrationDocument (registered n) []\<rparr>)) [0..<101]"

lemma registered: "row_key (registered n) = (sample_id, replicate 43 65 @ [n])" "registration_validate (registered n) = Some (registered n)"
  by (simp_all add: registered_def sample_registration_def row_key_def sample_id_def registration_validate_def
      length_between_def optionally_def)

lemma full_game_at: "map_of full_game k = Some it \<longleftrightarrow>
   (\<exists>n<101. k = registration_key (row_key (registered n)) \<and> it = \<lparr>it_revision = Some 1, it_document = RegistrationDocument (registered n) []\<rparr>)"
proof -
  have "distinct (map fst full_game)"
    by (simp add: full_game_def distinct_map inj_on_def registration_key_def registered)
  then have "map_of full_game k = Some it \<longleftrightarrow> (k, it) \<in> set full_game" by simp
  then show ?thesis by (auto simp: full_game_def)
qed

theorem large_games_cannot_be_deleted_witness:
  "fst (execute_reg (served (map fst full_game) (\<lambda>n t. t)) (DeleteForEvent sample_id) (cloud_of (map_of full_game)))
     = Inl (Raised RuntimeError)
   \<and> cl_tables (snd (execute_reg (served (map fst full_game) (\<lambda>n t. t)) (DeleteForEvent sample_id) (cloud_of (map_of full_game))))
     = map_of full_game"
proof -
  let ?w = "cloud_of (map_of full_game)"
  have t: "cl_tables ?w = map_of full_game" by (simp add: cloud_of_def)
  have "distinct (map fst full_game)"
    by (simp add: full_game_def distinct_map inj_on_def registration_key_def registered)
  then have u: "undisturbed (served (map fst full_game) (\<lambda>n t. t)) (cl_tables ?w)"
    by (intro served_undisturbed) (simp_all add: t dom_map_of_conv_image_fst)
  have r: "registrations_stored (cl_tables ?w)"
    unfolding registrations_stored_def t full_game_at using registered(2) by blast
  have "(\<lambda>n. replicate 43 65 @ [n]) ` {..<101} \<subseteq> {k. cl_tables ?w (registration_key (sample_id, k)) \<noteq> None}"
    unfolding t by (auto simp: full_game_at registered)
  moreover have "finite {k. cl_tables ?w (registration_key (sample_id, k)) \<noteq> None}"
  proof (rule finite_subset)
    show "{k. cl_tables ?w (registration_key (sample_id, k)) \<noteq> None} \<subseteq> (\<lambda>n. replicate 43 65 @ [n]) ` {..<101}"
      unfolding t by (auto simp: full_game_at registered registration_key_def)
  qed simp
  ultimately have "card ((\<lambda>n. replicate 43 65 @ [n]) ` {..<101::nat})
      \<le> card {k. cl_tables ?w (registration_key (sample_id, k)) \<noteq> None}" by (rule card_mono[rotated])
  moreover have "card ((\<lambda>n. replicate 43 65 @ [n]) ` {..<101::nat}) = 101"
    by (subst card_image) (auto simp: inj_on_def)
  ultimately have "100 < card {k. cl_tables ?w (registration_key (sample_id, k)) \<noteq> None}" by simp
  from large_games_cannot_be_deleted[OF u r this] show ?thesis unfolding t .
qed

end
