(* ===== verification/Handles.thy ===== *)
theory Handles
  imports Reports
begin

text \<open>
  Two lookups that compare a handle with a link.  A handle is stored as \<open>@name\<close>, the Telegram profile
  of a registration as the link \<open>https://t.me/name\<close>; a search for one among the other finds nothing.
\<close>

lemma handle_starts: "normalize_telegram_handle v = Some (Some h) \<Longrightarrow> starts_with (asc ''@'') h"
  by (auto simp: normalize_telegram_handle_def Let_def split: option.splits if_splits)

lemma stored_profile_is_link:
  "snd (profile_links u) = Some url \<Longrightarrow> \<not> starts_with (asc ''@'') url"
  by (cases u) auto

text \<open>
  A Telegram member who is not recognised by account is not recognised by user name either, when the
  registrations carry the links the program stores (a row stored as a name, with an at sign, would be found).
\<close>

theorem member_lookup_by_handle_fails:
  assumes direct: "get_registration X pkey event_id TELEGRAM i w = (Inr None, w')"
    and rows: "list_all (\<lambda>r. \<exists>u. rg_telegram_profile r = snd (profile_links u)) (dict_values (rr_rows (w_regs w')))"
    and name: "normalize_telegram_handle username = Some handle"
  shows "get_registration_for_telegram_member X pkey event_id i username w = (Inr None, w')"
proof (cases handle)
  case None
  with direct name show ?thesis by (simp add: get_registration_for_telegram_member_def andThen_def)
next
  case (Some h)
  with name have "starts_with (asc ''@'') h" using handle_starts by simp
  then have "filter (\<lambda>r. rg_telegram_profile r = Some h) (dict_values (rr_rows (w_regs w'))) = []"
    using rows stored_profile_is_link by (fastforce simp: list_all_iff filter_empty_conv)
  then have "find_by_telegram_profile h (w_regs w') = []" by (simp add: find_by_telegram_profile_def)
  with direct name Some show ?thesis
    by (simp add: get_registration_for_telegram_member_def andThen_def effective_registration_def)
qed

text \<open>
  The player of another messenger who cancels is removed from the Telegram chat of the game only when
  their profiles are linked: the search by the profile of the registration finds nobody.
\<close>

theorem kick_lookup_by_profile_fails:
  assumes handles: "list_all (\<lambda>(k, u). \<forall>h\<in>set_option (telegram_handle u). starts_with (asc ''@'') h) us"
    and profile: "rg_telegram_profile r = snd (profile_links u)"
  shows "handle_telegram_id us (Some r) = Inr None"
proof (cases "snd (profile_links u)")
  case None
  with profile show ?thesis by (simp add: handle_telegram_id_def)
next
  case (Some url)
  from stored_profile_is_link[OF this] have "\<not> starts_with (asc ''@'') url" .
  with handles have "filter (\<lambda>((p, _), u). p = TELEGRAM \<and> telegram_handle u = Some url) us = []"
    by (fastforce simp: list_all_iff filter_empty_conv)
  then have "find_telegram_by_handle us url = Inr None" unfolding find_telegram_by_handle_def by (simp only: list.map list.case)
  with profile Some show ?thesis by (simp add: handle_telegram_id_def)
qed


section \<open>Both lookups on a game with one player\<close>

definition linked_player :: user where
  "linked_player = VkUser (new_user_base 3) 9 (Some (asc ''@ivan_p''))"

definition stored_player :: registration where
  "stored_player = (sample_registration [5] 10 CONFIRMED)\<lparr>rg_telegram_profile := snd (profile_links linked_player)\<rparr>"

definition one_player_world :: world where
  "one_player_world = sample_world\<lparr>w_regs := stored_regs [stored_player]\<rparr>"

lemma normalized_name: "normalize_telegram_handle (Some (asc ''@ivan_p'')) = Some (Some (asc ''@ivan_p''))"
proof -
  have c: "casefold (asc ''ivan_p'') = asc ''ivan_p''"
    by (simp add: casefold_def casefold_char_ascii ascii_upper_def)
  have s: "strip (asc ''@ivan_p'') = asc ''@ivan_p''"
    by (simp add: strip_by_def is_space_def space_chars_def)
  have r: "remove_prefix (asc ''@'') (asc ''@ivan_p'') = asc ''ivan_p''"
    by (simp add: remove_prefix_def)
  show ?thesis
    unfolding normalize_telegram_handle_def Let_def option.case s r c
    by (simp add: skip_word_def valid_handle_name_def is_handle_char_def ascii_defs)
qed

lemma one_player_direct:
  "get_registration sample_env sample_pkey sample_id TELEGRAM 8 one_player_world = (Inr None, one_player_world)"
  by (simp add: get_registration_def require_event_def find_event_def andThen_def one_player_world_def
      sample_world_def created_repo_get[unfolded sample_id_def, simplified] identities_now_def identities_for_local_user_def registrations_of_def
      catalog_get_def ensure_migrated_def sample_event_def row_now_def get_registration_row_def stored_regs_def
      stored_player_def sample_registration_def sample_pkey_def sample_id_def present_def dict_get_def
      effective_registration_def List.map_filter_def)

theorem member_lookup_by_handle_fails_witness:
  "get_registration_for_telegram_member sample_env sample_pkey sample_id 8 (Some (asc ''@ivan_p''))
     one_player_world = (Inr None, one_player_world)"
proof (rule member_lookup_by_handle_fails[OF one_player_direct _ normalized_name])
  show "list_all (\<lambda>r. \<exists>u. rg_telegram_profile r = snd (profile_links u))
      (dict_values (rr_rows (w_regs one_player_world)))"
    by (auto simp: one_player_world_def stored_regs_def dict_values_def stored_player_def)
qed

theorem kick_lookup_by_profile_fails_witness:
  "handle_telegram_id [((TELEGRAM, 7), TelegramUser (new_user_base 5) 7 None None (Some (asc ''@ivan_p'')))]
     (Some stored_player) = Inr None"
  by (rule kick_lookup_by_profile_fails[of _ _ linked_player]) (simp_all add: stored_player_def)

end
