(* ===== verification/Lookups.thy ===== *)
theory Lookups
  imports Facades Handles
begin

text \<open>
  The queries of \<open>DynamoUserRepository\<close>: what is loaded through the indexes is enough for the answer, with the snapshot
  of a batch as well.
\<close>

section \<open>What is loaded\<close>









section \<open>What a query needs\<close>











section \<open>The rows of a query\<close>












section \<open>Queries\<close>
















end
