(* ===== verification/Spec2Isabelle.thy ===== *)
theory Spec2Isabelle
  imports Moves Batches Limits Webhooks Locks Lookups
begin

text \<open>
  A verification development of the LARP game registration bot (\<open>src/src/larp_bot\<close>).

  \<^bold>\<open>The program.\<close> Players sign up for games through Telegram and VK. A webhook turns an
  update into a message, a dialogue answers it and puts commands into a FIFO queue, one group per game (or per
  player, or per day). The ordered worker takes the commands in batches, applies each to the repositories of
  games, users and registrations, refreshes spreadsheets, answers the player and tells the masters. Timers put
  due openings and closings into the same queue. A deferred uploader reports finished tables through
  completions.

  \<^bold>\<open>Text and data.\<close> Prelude: strings as lists of code points, instants in microseconds,
  dictionaries in order of insertion, services as state transformers with an exception. Unicode_Text, Calendar,
  Names and Links: the methods of \<open>str\<close> and \<open>datetime\<close> the code calls and the
  normalisers of \<open>domain/models.py\<close>. Model and Commands: the entities, payloads and commands of
  \<open>domain/models.py\<close> with their validators, which are predicates (\<open>event_validate\<close>,
  \<open>user_validate\<close>, \<open>command_validate\<close>) that the constructors of the model check and
  that throw \<open>ValueError\<close> otherwise. Characters outside the tables of Unicode_Text belong to no
  class of letters or spaces there.

  \<^bold>\<open>Stores.\<close> Users, Events and Registrations are the repositories of
  \<open>adapters/memory.py\<close>, each an explicit value with one function for every method;
  \<open>datetime.now\<close> reads a clock that is an argument. Queues holds
  \<open>domain/registration_queues.py\<close>. \<open>event_step\<close> and \<open>registration_step\<close>
  are all the operations as one step relation; the invariants of reachable stores are proved over them. The
  locale \<open>retry_safe\<close> is the contract of an operation that may be delivered twice, interpreted on
  fifteen of the operations.

  \<^bold>\<open>Services.\<close> World gathers the stores, the queue and the log of calls to the outside. What
  a call outside returns (the table stores, the messengers, the list of administrators, secrets, digests and
  fresh identifiers) is a field of \<open>env\<close>, a function of the calls so far that no theorem restricts
  unless it says so. The locale \<open>store_law\<close> is what a property of the stores needs to be kept by
  the services; it is interpreted on \<open>store_ok\<close>, and \<open>catalog_law\<close> extends the idea to
  properties about which games are listed. Pages: the loops over bounded queries. Catalog, Services:
  \<open>registration_services.py\<close>. Support: \<open>service_support.py\<close>,
  \<open>table_links.py\<close>, \<open>navigation.py\<close>. Texts, Notices, Reports, Snapshots:
  \<open>notification_services.py\<close>. Openings: \<open>confirmation_openings.py\<close>,
  \<open>registration_openings.py\<close>, the dispatcher of \<open>game_closings.py\<close>. Closings: the
  stages of a close. Mutations: \<open>ordered_mutations.py\<close>. Administration:
  \<open>administration_services.py\<close>. Statistics: \<open>statistics.py\<close>. Worker:
  \<open>worker.py\<close>. Uploads: \<open>upload_completion.py\<close>. Chats:
  \<open>chat_management.py\<close>. Messengers: the update parsers and keyboards of
  \<open>adapters/telegram\<close> and \<open>adapters/vk\<close>.

  \<^bold>\<open>Dialogues.\<close> Cursors: the page cursors of buttons, which pass through a Python float.
  Replies: responses, a step of a dialogue as a service that may change the profile, buttons and texts of
  \<open>conversation_support.py\<close>, roles of \<open>conversation_admin_access.py\<close>. Signups:
  \<open>conversation_players.py\<close> and the answers of \<open>conversation_questions.py\<close>. Profiles:
  \<open>conversation_profiles.py\<close>. Labels: the buttons of administration. Conversation: the state
  machine of \<open>conversation_core.py\<close>; the dialogues of administrators are a record
  (\<open>admin_dialogs\<close>) that it takes as an argument. The locale \<open>dialogue\<close> (Dialogs) is
  what a relation between the profile before and after needs to be kept by the dialogues; it is interpreted on
  three relations: only the state of the dialogue changes (\<open>same_profile\<close>), the person stays
  (\<open>same_person\<close>), the answers stay (\<open>same_answers\<close>). Scans: the scans over games end
  whatever they look at. Talks: every dialogue of a player is lawful, when those of administrators are.

  \<^bold>\<open>Administration in dialogues.\<close> Moments: the standard library's \<open>isoformat\<close>
  and \<open>fromisoformat\<close>, in the forms that \<open>isoformat\<close> writes, with which the context of
  a dialogue keeps dates and instants. Prompts: the prompts of \<open>conversation_support.py\<close> and the
  commands these dialogues queue. Access: \<open>conversation_admin_access.py\<close>, menus, announcements and
  lists of people. Rosters: \<open>conversation_admin_rosters.py\<close>, the lists of players and games. Roles:
  \<open>conversation_admin_roles.py\<close>. Creation: \<open>conversation_admin_creation.py\<close>.
  Questions: the question of a game in \<open>conversation_questions.py\<close>. Games:
  \<open>conversation_admin_games.py\<close>. Callbacks, Steps and Edits:
  \<open>conversation_admin_dialog.py\<close>, the buttons of the lists of people, the guards and schedules, the
  changes of a game. A handler that catches \<open>KeyError\<close>, \<open>TypeError\<close> and
  \<open>ValueError\<close> keeps what it changed before: it is an \<open>attempt\<close>, whose result is the
  exception or a value. \<open>administration\<close> gathers the dialogues into the record the state machine
  takes. Duties: the services these dialogues ask for are safe. Stewards: every dialogue of an administrator is
  lawful; the locale \<open>stewardship\<close> extends \<open>dialogue\<close> by the two places where
  administration changes a profile, a role that is taken or lost, and is interpreted on
  \<open>same_person\<close>, \<open>same_answers\<close> and \<open>same_but_role\<close>.

  \<^bold>\<open>Webhooks.\<close> Gateway: \<open>functions/gateway/handler.py\<close>, the gate of
  \<open>functions/runtime_mode.py\<close> and the signatures of \<open>domain/security.py\<close>. A
  \<open>web_request\<close> is routed, authenticated, parsed and handed to the dialogues or to the management
  of chats; the answer is a \<open>web_response\<close> or a message sent. The record \<open>gateway\<close>
  holds what the process is given: the environment, SHA-256 and HMAC, base64, the decoding of bytes, and whether
  the container can be built.

  \<^bold>\<open>Repositories over DynamoDB.\<close> \<open>adapters/aws/dynamodb.py\<close> keeps no semantics
  of its own: a method loads the rows it needs into a repository in memory, runs there, and commits the
  difference in one transaction with a condition on every item; a transaction that loses against another process
  is tried again, four times in all. Dynamo: the engine and the users, with the snapshot of a batch.
  Event_Tables: games and leaders, and the locks that keep signup tokens and chats unique. Registration_Tables:
  registrations and delivered notices. The record \<open>dynamo\<close> is the service and everybody else: what
  other processes did to the tables before the n-th call, and what the n-th call answers. Commits: the
  documented behaviour of the service as predicates (\<open>transactional\<close>, \<open>reads_items\<close>,
  \<open>revisions_tell\<close>), the effect of a commit, the steps of this process
  (\<open>client_step\<close>), and rules for what all attempts keep. Facades: a method on one profile is
  atomic. Locks: games share no token and no chat, under any interference that keeps to the locks and uses no
  revision again (\<open>fair\<close>, over a history of revisions). Lookups: what is loaded is enough for the
  queries. \<open>served\<close> is a service as documented, for the examples.

  \<^bold>\<open>What is proved.\<close> Outcomes and Moves: commands keep the stores consistent, refuse without
  a change what they must, and announce exactly the players whose roster changes. Endings: every service the
  worker runs ends (the rules \<open>settles_intros\<close>). Batches: a command that fails keeps the later ones
  of its group waiting for the rest of the run (\<open>goes_on\<close>), every receipt is deleted or given back,
  a run goes through finitely many batches. Limits: bounds of texts and tokens. Handles: two lookups that
  compare a handle with a link and so find nobody whose profile is stored as a link. Answers: a handled message
  is not handled again, every message is answered, the questionnaire ends with a complete profile, with the
  dialogues of players and administrators together. Guards: a stranger to a game takes no step of a dialogue
  about it, and administration changes only roles; the triples \<open>serves\<close> and
  \<open>concludes\<close> say what a service answers and what a dialogue ends in, from a world where an
  assertion holds. Webhooks: every request is answered, a request that is not signed changes nothing, an update
  delivered again is not handled again. The theories of the components hold the properties of one component
  each.

  \<^bold>\<open>Fuel.\<close> The paging loops run on \<open>paging_fuel\<close>, one more than the number of
  stored games; a page that is full moves past ten games, so the loop ends before (Pages). The loops over
  commands of the worker are bounded by their batch; the loop over batches runs on fuel and
  \<open>run_ends\<close> proves that enough fuel exists when the clock moves on; how much time the last batch
  takes is not bounded. The JSON reader runs on twice the length of its text and \<open>json_loads_fuel\<close>
  proves that more fuel reads the same. Running out is the exception \<open>OutOfFuel\<close>, which no handler
  of the code catches.

  \<^bold>\<open>Choices.\<close> \<open>asyncio.gather\<close> and task groups run in the order of their
  arguments: the in-memory repositories never yield inside an operation. The reads that one DynamoDB method
  gathers run in that order too. A clock is read at every call of \<open>datetime.now\<close> and may repeat or
  go back unless a theorem says otherwise. UUIDs, SHA-256, BLAKE2 and HMAC are parameters. Log records are not
  part of the state.

  \<^bold>\<open>Findings.\<close> Six defects are stated as theorems of what the code does:
  \<open>member_lookup_by_handle_fails\<close>, \<open>kick_lookup_by_profile_fails\<close>,
  \<open>large_games_cannot_be_deleted\<close>, \<open>repeated_creation_queues_nothing\<close>,
  \<open>all_players_notification_unguarded\<close> and \<open>foreign_signature_raises\<close>.

  \<^bold>\<open>Not modelled.\<close> The repositories over YDB (\<open>adapters/ydb\<close>), whose contract
  the in-memory repositories state; the other clients of cloud services (\<open>adapters/aws\<close>,
  \<open>adapters/ymq\<close>); the table stores (\<open>adapters/yandex_disk\<close>,
  \<open>adapters/google_drive\<close>) and the HTTP clients of the messengers
  (\<open>adapters/transports\<close>), which are calls of \<open>env\<close>; the other entry points, wiring
  and the migration tools (\<open>functions\<close>, \<open>migration\<close>); and cancellation by
  \<open>asyncio.timeout\<close>.
\<close>

end
